(* ===== verification/Carry_Prelude.thy ===== *)
theory Carry_Prelude
  imports Main "HOL-Library.Sublist"
begin

text \<open>
  The generic part of the development: relational tables as lists of rows, with the
  lemmas that every store proof uses. A SQL table is the list of its rows; a
  \<open>WHERE\<close> clause is a predicate on rows; \<open>UPDATE\<close> rewrites the rows that satisfy it;
  \<open>INSERT\<close> appends; a \<open>:one\<close> query is the first row that satisfies its clause, after
  its \<open>ORDER BY\<close>. A \<open>UNIQUE\<close> constraint (also a partial one, \<open>WHERE ...\<close>) is the
  distinctness of the keys of the rows it covers.
\<close>

named_theorems tx_simps "inversion of successful transactions"
named_theorems table_simps "rewriting of table operations"
named_theorems inv_intros "introduction of schema invariants"

type_synonym timestamp = int
type_synonym uuid = string
type_synonym bytes = string

abbreviation seconds :: "int \<Rightarrow> timestamp" where
  "seconds n \<equiv> n * 1000000"

abbreviation minutes :: "int \<Rightarrow> timestamp" where
  "minutes n \<equiv> n * 60000000"

section \<open>Tables\<close>

definition first_where :: "('r \<Rightarrow> bool) \<Rightarrow> 'r list \<Rightarrow> 'r option" where
  "first_where P t = (case filter P t of [] \<Rightarrow> None | r # _ \<Rightarrow> Some r)"

definition exists_where :: "('r \<Rightarrow> bool) \<Rightarrow> 'r list \<Rightarrow> bool" where
  "exists_where P t = list_ex P t"

definition update_where :: "('r \<Rightarrow> bool) \<Rightarrow> ('r \<Rightarrow> 'r) \<Rightarrow> 'r list \<Rightarrow> 'r list" where
  "update_where P f t = map (\<lambda>r. if P r then f r else r) t"

definition count_where :: "('r \<Rightarrow> bool) \<Rightarrow> 'r list \<Rightarrow> int" where
  "count_where P t = int (length (filter P t))"

definition unique_on :: "('r \<Rightarrow> 'k) \<Rightarrow> ('r \<Rightarrow> bool) \<Rightarrow> 'r list \<Rightarrow> bool" where
  "unique_on k P t \<longleftrightarrow> distinct (map k (filter P t))"

definition key_taken :: "('r \<Rightarrow> 'k) \<Rightarrow> ('r \<Rightarrow> bool) \<Rightarrow> 'k \<Rightarrow> 'r list \<Rightarrow> bool" where
  "key_taken k P x t = list_ex (\<lambda>r. P r \<and> k r = x) t"

lemma first_where_Some:
  "first_where P t = Some r \<Longrightarrow> r \<in> set t \<and> P r"
proof -
  assume "first_where P t = Some r"
  then obtain u where "filter P t = r # u"
    by (auto simp: first_where_def split: list.splits)
  then have "r \<in> set (filter P t)" by simp
  then show ?thesis by simp
qed

lemma first_where_None [table_simps]:
  "first_where P t = None \<longleftrightarrow> (\<forall>r \<in> set t. \<not> P r)"
  by (induction t) (auto simp: first_where_def)

lemma first_where_ex:
  "r \<in> set t \<Longrightarrow> P r \<Longrightarrow> \<exists>r'. first_where P t = Some r'"
  by (metis first_where_None not_Some_eq)

lemma first_where_Nil [simp]: "first_where P [] = None"
  by (simp add: first_where_def)

lemma first_where_Cons [simp]:
  "first_where P (r # t) = (if P r then Some r else first_where P t)"
  by (simp add: first_where_def)

lemma first_where_append:
  "first_where P (t @ u) = (case first_where P t of None \<Rightarrow> first_where P u | Some r \<Rightarrow> Some r)"
  by (induction t) auto

lemma exists_where_iff [table_simps]:
  "exists_where P t \<longleftrightarrow> (\<exists>r \<in> set t. P r)"
  by (auto simp: exists_where_def list_ex_iff)

lemma set_update_where:
  "set (update_where P f t) = (\<lambda>r. if P r then f r else r) ` set t"
  by (simp add: update_where_def)

lemma in_update_whereE:
  assumes "r \<in> set (update_where P f t)"
  obtains q where "q \<in> set t" "P q" "r = f q" | "r \<in> set t" "\<not> P r"
  using assms by (auto simp: set_update_where split: if_splits)

lemma update_where_ball:
  "(\<forall>r \<in> set (update_where P f t). Q r) \<longleftrightarrow>
   (\<forall>r \<in> set t. (P r \<longrightarrow> Q (f r)) \<and> (\<not> P r \<longrightarrow> Q r))"
  by (auto simp: set_update_where)

lemma update_where_bex:
  "(\<exists>r \<in> set (update_where P f t). Q r) \<longleftrightarrow>
   (\<exists>r \<in> set t. (P r \<and> Q (f r)) \<or> (\<not> P r \<and> Q r))"
  by (auto simp: set_update_where)

lemma update_where_Nil [simp]: "update_where P f [] = []"
  by (simp add: update_where_def)

lemma update_where_Cons [simp]:
  "update_where P f (r # t) = (if P r then f r else r) # update_where P f t"
  by (simp add: update_where_def)

lemma update_where_append [simp]:
  "update_where P f (t @ u) = update_where P f t @ update_where P f u"
  by (simp add: update_where_def)

lemma map_update_where:
  "(\<And>r. P r \<Longrightarrow> k (f r) = k r) \<Longrightarrow> map k (update_where P f t) = map k t"
  by (induction t) auto

lemma update_where_none:
  "(\<And>r. r \<in> set t \<Longrightarrow> \<not> P r) \<Longrightarrow> update_where P f t = t"
  by (induction t) auto

section \<open>Counting\<close>

lemma count_where_nonneg [simp]: "0 \<le> count_where P t"
  by (simp add: count_where_def)

lemma count_where_Nil [simp]: "count_where P [] = 0"
  by (simp add: count_where_def)

lemma count_where_Cons [simp]:
  "count_where P (r # t) = (if P r then 1 else 0) + count_where P t"
  by (simp add: count_where_def)

lemma count_where_append [simp]:
  "count_where P (t @ u) = count_where P t + count_where P u"
  by (simp add: count_where_def)

lemma count_where_pos: "0 < count_where P t \<longleftrightarrow> (\<exists>r \<in> set t. P r)"
  by (induction t) (auto simp: add_pos_nonneg)

lemma count_where_zero: "count_where P t = 0 \<longleftrightarrow> (\<forall>r \<in> set t. \<not> P r)"
  by (induction t) (auto simp: add_nonneg_eq_0_iff)

lemma count_where_eq_1_ex: "count_where P t = 1 \<Longrightarrow> \<exists>r \<in> set t. P r"
  using count_where_pos [of P t] by simp

lemma count_where_update:
  "count_where Q (update_where P f t) = count_where (\<lambda>r. if P r then Q (f r) else Q r) t"
  by (induction t) auto

lemma count_where_cong:
  "(\<And>r. r \<in> set t \<Longrightarrow> P r = Q r) \<Longrightarrow> count_where P t = count_where Q t"
  by (induction t) auto

section \<open>Uniqueness\<close>

lemma unique_on_Nil [simp]: "unique_on k P []"
  by (simp add: unique_on_def)

lemma unique_on_append1:
  "unique_on k P (t @ [r]) \<longleftrightarrow> unique_on k P t \<and> (P r \<longrightarrow> \<not> key_taken k P (k r) t)"
  by (auto simp: unique_on_def key_taken_def list_ex_iff) (metis (mono_tags, lifting) image_eqI mem_Collect_eq)

lemma unique_on_Cons:
  "unique_on k P (r # t) \<longleftrightarrow> unique_on k P t \<and> (P r \<longrightarrow> (\<forall>s \<in> set t. P s \<longrightarrow> k s \<noteq> k r))"
  by (auto simp: unique_on_def) (metis (mono_tags, lifting) image_eqI mem_Collect_eq)

lemma unique_onD:
  assumes "unique_on k P t" "r \<in> set t" "s \<in> set t" "P r" "P s" "k r = k s"
  shows "r = s"
proof -
  have "inj_on k (set (filter P t))"
    using assms(1) by (simp add: unique_on_def distinct_map)
  then show ?thesis using assms by (auto dest: inj_onD)
qed

lemma unique_on_map:
  assumes "unique_on k P t"
    and "\<And>r. r \<in> set t \<Longrightarrow> P (f r) \<Longrightarrow> P r \<and> k (f r) = k r"
  shows "unique_on k P (map f t)"
  using assms
proof (induction t)
  case Nil
  then show ?case by simp
next
  case (Cons r t)
  have IH: "unique_on k P (map f t)"
    using Cons by (auto simp: unique_on_def split: if_splits)
  show ?case
  proof (cases "P (f r)")
    case True
    with Cons.prems(2) have pr: "P r" "k (f r) = k r" by auto
    have "k r \<notin> k ` {x \<in> set t. P x}"
      using Cons.prems(1) pr by (auto simp: unique_on_def)
    moreover have "k ` {x \<in> f ` set t. P x} \<subseteq> k ` {x \<in> set t. P x}"
      using Cons.prems(2) by force
    ultimately show ?thesis
      using IH True pr by (auto simp: unique_on_def)
  next
    case False
    with IH show ?thesis by (simp add: unique_on_def)
  qed
qed

lemma unique_on_update:
  assumes "unique_on k P t"
    and "\<And>r. r \<in> set t \<Longrightarrow> Q r \<Longrightarrow> P (f r) \<Longrightarrow> P r \<and> k (f r) = k r"
  shows "unique_on k P (update_where Q f t)"
  unfolding update_where_def
  by (rule unique_on_map [OF assms(1)]) (use assms(2) in \<open>auto split: if_splits\<close>)

lemma unique_on_count:
  assumes "unique_on k P t" "r \<in> set t" "P r" "\<And>s. Q s \<longleftrightarrow> P s \<and> k s = k r"
  shows "count_where Q t = 1"
  using assms
proof (induction t)
  case Nil
  then show ?case by simp
next
  case (Cons s t)
  show ?case
  proof (cases "P s \<and> k s = k r")
    case True
    have "\<forall>x \<in> set t. \<not> Q x"
      using Cons.prems(1,4) True by (auto simp: unique_on_Cons)
    then have "count_where Q t = 0" by (simp add: count_where_zero)
    moreover have "Q s" using True Cons.prems(4) by simp
    ultimately show ?thesis by simp
  next
    case False
    then have "r \<in> set t" "\<not> Q s" using Cons.prems by auto
    moreover have "unique_on k P t"
      using Cons.prems(1) by (auto simp: unique_on_def split: if_splits)
    ultimately show ?thesis using Cons.IH Cons.prems by simp
  qed
qed

lemma unique_update_first:
  assumes "unique_on k (\<lambda>_. True) t" "r \<in> set t" "Q r" "\<And>s. Q s \<Longrightarrow> k s = k r"
  shows "first_where Q t = Some r" "count_where Q t = 1"
    "set (update_where Q f t) = insert (f r) (set t - {r})"
proof -
  have only: "s = r" if "s \<in> set t" "Q s" for s
    using unique_onD [OF assms(1) that(1) assms(2) TrueI TrueI assms(4) [OF that(2)]] .
  obtain r' where "first_where Q t = Some r'"
    using first_where_ex [of r t Q] assms by blast
  then show "first_where Q t = Some r" using only first_where_Some by metis
  show "count_where Q t = 1"
  proof -
    have "count_where Q t = count_where (\<lambda>s. k s = k r) t"
    proof (rule count_where_cong)
      show "Q s = (k s = k r)" if "s \<in> set t" for s
        using unique_onD [OF assms(1) that assms(2) TrueI TrueI] assms(3,4) by blast
    qed
    also have "\<dots> = 1"
      by (rule unique_on_count [OF assms(1,2)]) simp_all
    finally show ?thesis .
  qed
  show "set (update_where Q f t) = insert (f r) (set t - {r})"
  proof -
    have iff: "Q s \<longleftrightarrow> s = r" if "s \<in> set t" for s
      using only [OF that] assms(3) by blast
    have "(\<lambda>s. if Q s then f s else s) ` set t = (\<lambda>s. if s = r then f s else s) ` set t"
      by (rule image_cong [OF refl]) (simp add: iff)
    also have "\<dots> = insert (f r) (set t - {r})"
      using assms(2) by (auto split: if_splits)
    finally show ?thesis by (simp add: set_update_where)
  qed
qed

lemma key_taken_iff [table_simps]:
  "key_taken k P x t \<longleftrightarrow> (\<exists>r \<in> set t. P r \<and> k r = x)"
  by (auto simp: key_taken_def list_ex_iff)

lemma unique_first_where:
  assumes "unique_on k P t" "r \<in> set t" "P r" "\<And>s. s \<in> set t \<Longrightarrow> Q s \<Longrightarrow> P s \<and> k s = k r" "Q r"
  shows "first_where Q t = Some r"
proof -
  obtain r' where r': "first_where Q t = Some r'"
    using first_where_ex [of r t Q] assms(2,5) by blast
  then have "r' \<in> set t" "Q r'" by (auto dest: first_where_Some)
  then have "r' = r" using assms by (metis unique_onD)
  with r' show ?thesis by simp
qed

end
