(* ===== verification/Go_Strings.thy ===== *)
theory Go_Strings
  imports Carry_Prelude "HOL-Library.Char_ord" "HOL-Library.List_Lexorder"
begin

text \<open>
  Go strings as the owner packages use them. A Go \<open>string\<close> is a sequence of bytes, so it
  is a HOL \<open>string\<close> whose characters are bytes; \<open>len\<close> is \<open>length\<close>. This theory models the
  functions of \<open>unicode/utf8\<close>, \<open>unicode\<close> and \<open>strings\<close> that the code calls:
  \<open>DecodeRuneInString\<close>, \<open>DecodeLastRuneInString\<close>, \<open>ValidString\<close>, \<open>IsSpace\<close>, \<open>IsControl\<close>,
  \<open>TrimSpace\<close>, \<open>ContainsRune(_, 0)\<close>, \<open>HasPrefix\<close> and \<open>strconv.Itoa\<close>. The main facts: \<open>TrimSpace\<close> is
  idempotent and never lengthens, and its result is a contiguous part of the input.
\<close>

section \<open>UTF-8\<close>

abbreviation code :: "char \<Rightarrow> nat" where
  "code c \<equiv> of_char c"

definition RuneError :: nat where
  "RuneError = 65533"

definition is_cont :: "nat \<Rightarrow> bool" where
  "is_cont b \<longleftrightarrow> 128 \<le> b \<and> b < 192"

text \<open>The accept range of the second byte, by the first byte (\<open>acceptRanges\<close> of \<open>utf8.go\<close>).\<close>

definition second_ok :: "nat \<Rightarrow> nat \<Rightarrow> bool" where
  "second_ok b0 b1 \<longleftrightarrow>
     (if b0 = 224 then 160 \<le> b1 \<and> b1 < 192
      else if b0 = 237 then 128 \<le> b1 \<and> b1 < 160
      else if b0 = 240 then 144 \<le> b1 \<and> b1 < 192
      else if b0 = 244 then 128 \<le> b1 \<and> b1 < 144
      else is_cont b1)"

fun decode_rune :: "string \<Rightarrow> nat \<times> nat" where
  "decode_rune [] = (RuneError, 0)"
| "decode_rune (c0 # cs) =
     (let b0 = code c0 in
      if b0 < 128 then (b0, 1)
      else if 194 \<le> b0 \<and> b0 \<le> 223 then
        (case cs of
           c1 # _ \<Rightarrow> if second_ok b0 (code c1) then ((b0 - 192) * 64 + (code c1 - 128), 2)
                    else (RuneError, 1)
         | _ \<Rightarrow> (RuneError, 1))
      else if 224 \<le> b0 \<and> b0 \<le> 239 then
        (case cs of
           c1 # c2 # _ \<Rightarrow>
             if second_ok b0 (code c1) \<and> is_cont (code c2)
             then ((b0 - 224) * 4096 + (code c1 - 128) * 64 + (code c2 - 128), 3)
             else (RuneError, 1)
         | _ \<Rightarrow> (RuneError, 1))
      else if 240 \<le> b0 \<and> b0 \<le> 244 then
        (case cs of
           c1 # c2 # c3 # _ \<Rightarrow>
             if second_ok b0 (code c1) \<and> is_cont (code c2) \<and> is_cont (code c3)
             then ((b0 - 240) * 262144 + (code c1 - 128) * 4096 + (code c2 - 128) * 64
                     + (code c3 - 128), 4)
             else (RuneError, 1)
         | _ \<Rightarrow> (RuneError, 1))
      else (RuneError, 1))"

declare decode_rune.simps [simp del]

definition rune_start :: "char \<Rightarrow> bool" where
  "rune_start c \<longleftrightarrow> \<not> is_cont (code c)"

definition decode_last_rune :: "string \<Rightarrow> nat \<times> nat" where
  "decode_last_rune s =
     (if s = [] then (RuneError, 0)
      else if code (last s) < 128 then (code (last s), 1)
      else (case find (\<lambda>k. k \<le> length s \<and> rune_start (s ! (length s - k))) [2, 3, 4] of
              None \<Rightarrow> (RuneError, 1)
            | Some k \<Rightarrow> (let (r, size) = decode_rune (drop (length s - k) s)
                        in if size = k then (r, size) else (RuneError, 1))))"

text \<open>The runes a \<open>for range\<close> loop over a string visits, each with its width.\<close>

fun runes :: "string \<Rightarrow> (nat \<times> nat) list" where
  "runes [] = []"
| "runes (c # cs) =
     (let (r, w) = decode_rune (c # cs) in (r, w) # runes (drop (w - 1) cs))"

definition valid_string :: "string \<Rightarrow> bool" where
  "valid_string s \<longleftrightarrow> (RuneError, 1) \<notin> set (runes s)"

definition rune_count :: "string \<Rightarrow> nat" where
  "rune_count s = length (runes s)"

section \<open>Character classes\<close>

definition is_space :: "nat \<Rightarrow> bool" where
  "is_space r \<longleftrightarrow> (9 \<le> r \<and> r \<le> 13) \<or> r = 32 \<or> r = 133 \<or> r = 160 \<or> r = 5760
     \<or> (8192 \<le> r \<and> r \<le> 8202) \<or> r = 8232 \<or> r = 8233 \<or> r = 8239 \<or> r = 8287 \<or> r = 12288"

definition is_control :: "nat \<Rightarrow> bool" where
  "is_control r \<longleftrightarrow> r < 32 \<or> (127 \<le> r \<and> r < 160)"

section \<open>strings.TrimSpace\<close>

fun trim_left :: "string \<Rightarrow> string" where
  "trim_left [] = []"
| "trim_left (c # cs) =
     (let (r, w) = decode_rune (c # cs) in if is_space r then trim_left (drop (w - 1) cs) else c # cs)"

function trim_right :: "string \<Rightarrow> string" where
  "trim_right s =
     (let (r, w) = decode_last_rune s
      in if s \<noteq> [] \<and> is_space r then trim_right (take (length s - w) s) else s)"
  by pat_completeness auto

lemma decode_last_rune_width:
  assumes s: "s \<noteq> []"
  shows "1 \<le> snd (decode_last_rune s) \<and> snd (decode_last_rune s) \<le> length s"
proof (cases "find (\<lambda>k. k \<le> length s \<and> rune_start (s ! (length s - k))) [2, 3, 4]")
  case None
  with s show ?thesis by (cases s) (auto simp: decode_last_rune_def)
next
  case (Some k)
  then have k: "1 \<le> k \<and> k \<le> length s" by (auto split: if_splits)
  obtain r size where "decode_rune (drop (length s - k) s) = (r, size)" by fastforce
  with Some k s show ?thesis by (auto simp: decode_last_rune_def Suc_leI)
qed

termination trim_right
proof (relation "measure length", goal_cases)
  case 1
  then show ?case by simp
next
  case (2 s x r w)
  then have "w = snd (decode_last_rune s)" by (metis snd_conv)
  with 2 decode_last_rune_width [of s] show ?case by auto
qed

declare trim_right.simps [simp del]

definition trim_space :: "string \<Rightarrow> string" where
  "trim_space s = trim_right (trim_left s)"

section \<open>Other functions\<close>

definition contains_nul :: "string \<Rightarrow> bool" where
  "contains_nul s \<longleftrightarrow> CHR 0x00 \<in> set s"

definition has_prefix :: "string \<Rightarrow> string \<Rightarrow> bool" where
  "has_prefix p s \<longleftrightarrow> take (length p) s = p"

fun itoa :: "nat \<Rightarrow> string" where
  "itoa n = (if n < 10 then [char_of (48 + n)] else itoa (n div 10) @ [char_of (48 + n mod 10)])"

declare itoa.simps [simp del]

section \<open>Facts on decoding\<close>

lemma decode_rune_width:
  "s \<noteq> [] \<Longrightarrow> 1 \<le> snd (decode_rune s) \<and> snd (decode_rune s) \<le> length s"
  by (cases s) (auto simp: decode_rune.simps Let_def split: list.split)

lemma decode_rune_append:
  "fst (decode_rune s) \<noteq> RuneError \<Longrightarrow> decode_rune (s @ x) = decode_rune s"
proof (cases s)
  case Nil
  then show "fst (decode_rune s) \<noteq> RuneError \<Longrightarrow> ?thesis" by (simp add: decode_rune.simps)
next
  case (Cons c cs)
  assume ok: "fst (decode_rune s) \<noteq> RuneError"
  consider "cs = []" | c1 where "cs = [c1]" | c1 c2 where "cs = [c1, c2]"
    | c1 c2 c3 cs' where "cs = c1 # c2 # c3 # cs'"
    by (metis list.exhaust)
  then show ?thesis
    by cases (insert ok Cons, auto simp: decode_rune.simps Let_def split: if_split_asm)
qed

lemma is_space_not_error: "is_space r \<Longrightarrow> r \<noteq> RuneError"
  by (auto simp: is_space_def RuneError_def)

section \<open>Facts on trimming\<close>

lemma trim_left_suffix: "suffix (trim_left s) s"
proof (induction s rule: trim_left.induct)
  case (2 c cs)
  have "suffix (drop n cs) (c # cs)" for n
    by (metis append_Cons append_take_drop_id suffixI)
  with 2 show ?case
    by (auto simp: Let_def split: prod.splits) (metis suffix_order.order_trans)
qed simp

lemma trim_right_prefix: "prefix (trim_right s) s"
proof (induction s rule: trim_right.induct)
  case (1 s)
  obtain r w where rw: "decode_last_rune s = (r, w)" by (cases "decode_last_rune s")
  show ?case
  proof (cases "s \<noteq> [] \<and> is_space r")
    case True
    with 1 rw have "prefix (trim_right (take (length s - w) s)) (take (length s - w) s)" by simp
    then have "prefix (trim_right (take (length s - w) s)) s"
      by (metis take_is_prefix prefix_order.trans)
    with True rw show ?thesis by (simp add: trim_right.simps [of s])
  next
    case False
    with rw show ?thesis by (auto simp: trim_right.simps [of s])
  qed
qed

lemma trim_space_sublist: "sublist (trim_space s) s"
  unfolding trim_space_def
  by (meson prefix_imp_sublist suffix_imp_sublist sublist_order.order_trans trim_left_suffix trim_right_prefix)

lemma trim_space_length: "length (trim_space s) \<le> length s"
  by (rule sublist_length_le [OF trim_space_sublist])

lemma trim_left_first:
  "trim_left s \<noteq> [] \<Longrightarrow> \<not> is_space (fst (decode_rune (trim_left s)))"
  by (induction s rule: trim_left.induct) (auto simp: Let_def split: prod.splits if_splits)

lemma trim_left_id:
  "s = [] \<or> \<not> is_space (fst (decode_rune s)) \<Longrightarrow> trim_left s = s"
  by (cases s) (auto simp: Let_def split: prod.splits)

lemma trim_right_last:
  "trim_right s \<noteq> [] \<Longrightarrow> \<not> is_space (fst (decode_last_rune (trim_right s)))"
proof (induction s rule: trim_right.induct)
  case (1 s)
  obtain r w where rw: "decode_last_rune s = (r, w)" by (cases "decode_last_rune s")
  show ?case
  proof (cases "s \<noteq> [] \<and> is_space r")
    case True
    with rw have "trim_right s = trim_right (take (length s - w) s)"
      by (simp add: trim_right.simps [of s])
    with 1 True rw show ?thesis by simp
  next
    case False
    with rw have "trim_right s = s" by (auto simp: trim_right.simps [of s])
    with False rw 1 show ?thesis by auto
  qed
qed

lemma trim_right_id:
  "s = [] \<or> \<not> is_space (fst (decode_last_rune s)) \<Longrightarrow> trim_right s = s"
  by (subst trim_right.simps) (auto simp: Let_def split: prod.splits)

lemma trim_right_keeps_first:
  assumes "s = [] \<or> \<not> is_space (fst (decode_rune s))"
  shows "trim_right s = [] \<or> \<not> is_space (fst (decode_rune (trim_right s)))"
proof (rule ccontr)
  let ?t = "trim_right s"
  assume "\<not> ?thesis"
  then have t: "?t \<noteq> []" "is_space (fst (decode_rune ?t))" by auto
  obtain x where x: "s = ?t @ x" using trim_right_prefix [of s] by (auto simp: prefix_def)
  have "decode_rune s = decode_rune ?t"
    by (subst x, rule decode_rune_append) (use t(2) is_space_not_error in blast)
  with t assms x show False by auto
qed

text \<open>Trimming twice is trimming once: a normalised key or text is a fixed point.\<close>

lemma trim_space_idem [simp]: "trim_space (trim_space s) = trim_space s"
proof -
  let ?l = "trim_left s"
  let ?t = "trim_right ?l"
  have "?l = [] \<or> \<not> is_space (fst (decode_rune ?l))"
    using trim_left_first [of s] by blast
  then have "?t = [] \<or> \<not> is_space (fst (decode_rune ?t))"
    by (rule trim_right_keeps_first)
  then have "trim_left ?t = ?t" by (rule trim_left_id)
  moreover have "trim_right ?t = ?t"
    using trim_right_last [of ?l] by (blast intro: trim_right_id)
  ultimately show ?thesis by (simp add: trim_space_def)
qed


section \<open>ASCII text\<close>

text \<open>Text of one-byte runes with no outer white space: it is its own normal form.\<close>

definition plain_text :: "string \<Rightarrow> bool" where
  "plain_text s \<longleftrightarrow> s \<noteq> [] \<and> list_all (\<lambda>c. 0 < code c \<and> code c < 128) s
     \<and> \<not> is_space (code (hd s)) \<and> \<not> is_space (code (last s))"

lemma runes_ascii: "list_all (\<lambda>c. 0 < code c \<and> code c < 128) s \<Longrightarrow> runes s = map (\<lambda>c. (code c, 1)) s"
  by (induction s) (auto simp: decode_rune.simps Let_def)

lemma plain_text_trim: "plain_text s \<Longrightarrow> trim_space s = s"
proof -
  assume p: "plain_text s"
  then have "trim_left s = s"
    by (intro trim_left_id) (cases s; auto simp: plain_text_def decode_rune.simps)
  moreover have "decode_last_rune s = (code (last s), 1)"
    using p by (auto simp: plain_text_def decode_last_rune_def list_all_iff)
  then have "trim_right s = s"
    using p by (intro trim_right_id) (simp add: plain_text_def)
  ultimately show ?thesis by (simp add: trim_space_def)
qed

lemma plain_text_valid: "plain_text s \<Longrightarrow> valid_string s"
  by (auto simp: plain_text_def valid_string_def runes_ascii RuneError_def list_all_iff)

lemma plain_text_no_nul: "plain_text s \<Longrightarrow> \<not> contains_nul s"
  by (auto simp: plain_text_def contains_nul_def list_all_iff)

lemma plain_text_not_empty: "plain_text s \<Longrightarrow> s \<noteq> []"
  by (simp add: plain_text_def)

end
