(* ===== verification/Sha256.thy ===== *)
theory Sha256
  imports Go_Strings "HOL-Library.Word"
begin

unbundle bit_operations_syntax

text \<open>
  \<open>crypto/sha256\<close> and the framed digests built on it. \<open>sha256\<close> is the FIPS 180-4 function
  on byte strings, computed on 32-bit words. \<open>digestFields\<close> is the function of that name in
  \<open>internal/work\<close> and \<open>internal/conversation\<close>: each field is written as its length (eight
  bytes, big endian) and its bytes. The framing is injective, so two different field lists
  with equal digests exhibit a SHA-256 collision.
\<close>

section \<open>SHA-256\<close>

text \<open>The first 32 bits of the fractional parts of the cube roots of the first 64 primes, and of the square roots of the first eight.\<close>

definition sha_k :: "32 word list" where
  "sha_k = [1116352408, 1899447441, 3049323471, 3921009573, 961987163, 1508970993, 2453635748, 2870763221,
    3624381080, 310598401, 607225278, 1426881987, 1925078388, 2162078206, 2614888103, 3248222580,
    3835390401, 4022224774, 264347078, 604807628, 770255983, 1249150122, 1555081692, 1996064986,
    2554220882, 2821834349, 2952996808, 3210313671, 3336571891, 3584528711, 113926993, 338241895,
    666307205, 773529912, 1294757372, 1396182291, 1695183700, 1986661051, 2177026350, 2456956037,
    2730485921, 2820302411, 3259730800, 3345764771, 3516065817, 3600352804, 4094571909, 275423344,
    430227734, 506948616, 659060556, 883997877, 958139571, 1322822218, 1537002063, 1747873779,
    1955562222, 2024104815, 2227730452, 2361852424, 2428436474, 2756734187, 3204031479, 3329325298]"

definition sha_init :: "32 word list" where
  "sha_init = [1779033703, 3144134277, 1013904242, 2773480762, 1359893119, 2600822924, 528734635, 1541459225]"

text \<open>Big-endian encodings of words and lengths as bytes (\<open>binary.BigEndian.PutUint64\<close>).\<close>

fun be_bytes :: "nat \<Rightarrow> nat \<Rightarrow> bytes" where
  "be_bytes 0 n = []"
| "be_bytes (Suc k) n = be_bytes k (n div 256) @ [char_of (n mod 256)]"

definition be64 :: "nat \<Rightarrow> bytes" where
  "be64 n = be_bytes 8 (n mod 2 ^ 64)"

fun be_word32 :: "bytes \<Rightarrow> 32 word" where
  "be_word32 s = fold (\<lambda>c w. 256 * w + of_nat (of_char c)) s 0"

fun chunks :: "nat \<Rightarrow> 'a list \<Rightarrow> 'a list list" where
  "chunks n xs = (if n = 0 \<or> length xs < n then [] else take n xs # chunks n (drop n xs))"

declare chunks.simps [simp del]

definition sha_pad :: "bytes \<Rightarrow> bytes" where
  "sha_pad m = m @ [char_of (128::nat)]
     @ replicate ((119 - length m mod 64) mod 64) (char_of (0::nat)) @ be64 (8 * length m)"

definition sha_extend :: "32 word list \<Rightarrow> 32 word list" where
  "sha_extend ws =
     (let n = length ws; a = ws ! (n - 15); b = ws ! (n - 2);
          s0 = word_rotr 7 a XOR word_rotr 18 a XOR drop_bit 3 a;
          s1 = word_rotr 17 b XOR word_rotr 19 b XOR drop_bit 10 b
      in ws @ [ws ! (n - 16) + s0 + ws ! (n - 7) + s1])"

definition sha_schedule :: "bytes \<Rightarrow> 32 word list" where
  "sha_schedule block = (sha_extend ^^ 48) (map be_word32 (chunks 4 block))"

definition sha_round :: "32 word \<times> 32 word \<Rightarrow> 32 word list \<Rightarrow> 32 word list" where
  "sha_round kw st =
     (let a = st ! 0; b = st ! 1; c = st ! 2; d = st ! 3; e = st ! 4; f = st ! 5; g = st ! 6; h = st ! 7;
          s1 = word_rotr 6 e XOR word_rotr 11 e XOR word_rotr 25 e;
          ch = (e AND f) XOR (NOT e AND g);
          t1 = h + s1 + ch + fst kw + snd kw;
          s0 = word_rotr 2 a XOR word_rotr 13 a XOR word_rotr 22 a;
          maj = (a AND b) XOR (a AND c) XOR (b AND c);
          t2 = s0 + maj
      in [t1 + t2, a, b, c, d + t1, e, f, g])"

definition sha_block :: "bytes \<Rightarrow> 32 word list \<Rightarrow> 32 word list" where
  "sha_block block st = map2 (+) st (fold sha_round (zip sha_k (sha_schedule block)) st)"

definition sha256 :: "bytes \<Rightarrow> bytes" where
  "sha256 m = concat (map (\<lambda>w. be_bytes 4 (unat w)) (fold sha_block (chunks 64 (sha_pad m)) sha_init))"

section \<open>Framed digests\<close>

definition frame_field :: "string \<Rightarrow> bytes" where
  "frame_field f = be64 (length f) @ f"

definition frame_fields :: "string list \<Rightarrow> bytes" where
  "frame_fields fs = concat (map frame_field fs)"

definition digestFields :: "string list \<Rightarrow> bytes" where
  "digestFields fs = sha256 (frame_fields fs)"

lemma length_be_bytes [simp]: "length (be_bytes k n) = k"
  by (induction k arbitrary: n) auto

lemma length_sha_round [simp]: "length (sha_round kw st) = 8"
  by (simp add: sha_round_def Let_def)

lemma length_fold_sha_round: "length st = 8 \<Longrightarrow> length (fold sha_round xs st) = 8"
  by (induction xs arbitrary: st) auto

lemma length_fold_sha_block: "length st = 8 \<Longrightarrow> length (fold sha_block bs st) = 8"
  by (induction bs arbitrary: st) (auto simp: sha_block_def length_fold_sha_round)

lemma length_concat_const:
  "(\<And>x. length (f x) = k) \<Longrightarrow> length (concat (map f xs)) = k * length xs"
  by (induction xs) auto

text \<open>Every digest fills a \<open>[sha256.Size]byte\<close>.\<close>

lemma length_sha256 [simp]: "length (sha256 m) = 32"
proof -
  have "length (fold sha_block (chunks 64 (sha_pad m)) sha_init) = 8"
    by (rule length_fold_sha_block) (simp add: sha_init_def)
  then show ?thesis by (simp add: sha256_def length_concat_const [where k = 4])
qed

lemma length_digestFields [simp]: "length (digestFields fs) = 32"
  by (simp add: digestFields_def)

lemma be_bytes_inj:
  "be_bytes k m = be_bytes k n \<Longrightarrow> m < 256 ^ k \<Longrightarrow> n < 256 ^ k \<Longrightarrow> m = n"
proof (induction k arbitrary: m n)
  case 0
  then show ?case by simp
next
  case (Suc k)
  then have "be_bytes k (m div 256) = be_bytes k (n div 256)" by simp
  moreover have "m div 256 < 256 ^ k" "n div 256 < 256 ^ k"
    using Suc.prems by (auto simp: less_mult_imp_div_less mult.commute)
  ultimately have d: "m div 256 = n div 256" by (rule Suc.IH)
  from Suc.prems have "(char_of (m mod 256) :: char) = char_of (n mod 256)" by simp
  then have "(of_char (char_of (m mod 256) :: char) :: nat) = of_char (char_of (n mod 256) :: char)" by simp
  then have "m mod 256 = n mod 256" by simp
  with d show ?case by (metis div_mult_mod_eq)
qed

lemma be64_inj: "be64 m = be64 n \<Longrightarrow> m < 2 ^ 64 \<Longrightarrow> n < 2 ^ 64 \<Longrightarrow> m = n"
  unfolding be64_def by (rule be_bytes_inj [of 8]) auto

lemma frame_field_not_Nil [simp]: "frame_field f \<noteq> []"
proof -
  have "length (be64 (length f)) = 8" by (simp add: be64_def)
  then show ?thesis by (auto simp: frame_field_def simp del: length_be_bytes)
qed

lemma frame_field_split:
  assumes "frame_field a @ x = frame_field b @ y" "length a < 2 ^ 64" "length b < 2 ^ 64"
  shows "a = b \<and> x = y"
proof -
  have l: "length (be64 (length a)) = length (be64 (length b))"
    by (simp add: be64_def)
  have "be64 (length a) @ (a @ x) = be64 (length b) @ (b @ y)"
    using assms(1) by (simp add: frame_field_def)
  then have "be64 (length a) = be64 (length b)" "a @ x = b @ y"
    using l by (auto simp del: append_assoc simp: append_eq_append_conv)
  moreover from this(1) have "length a = length b"
    using be64_inj assms(2,3) by blast
  ultimately show ?thesis by simp
qed

lemma frame_fields_inj:
  assumes "frame_fields fs = frame_fields gs"
    and "\<forall>f \<in> set fs. length f < 2 ^ 64" "\<forall>g \<in> set gs. length g < 2 ^ 64"
  shows "fs = gs"
  using assms
proof (induction fs arbitrary: gs)
  case Nil
  then show ?case by (cases gs) (auto simp: frame_fields_def)
next
  case (Cons f fs)
  then obtain g gs' where gs: "gs = g # gs'"
    by (cases gs) (auto simp: frame_fields_def)
  with Cons.prems have "frame_field f @ frame_fields fs = frame_field g @ frame_fields gs'"
    by (simp add: frame_fields_def)
  with Cons.prems gs have "f = g" "frame_fields fs = frame_fields gs'"
    by (auto dest: frame_field_split)
  with Cons gs show ?case by auto
qed

end
