(* ===== verification/Carry_Tx.thy ===== *)
theory Carry_Tx
  imports Carry_Prelude
begin

text \<open>
  Errors, the outside world of one call, and PostgreSQL transactions.

  A store method of \<open>internal/postgres\<close> opens a transaction, issues statements one after the
  other, returns early on the first error (the deferred \<open>Rollback\<close> then discards every
  write), and otherwise commits. A \<open>tx\<close> is such a method body: a function of the outside
  world, the database and the number of statements issued so far, which either fails or
  returns its result, the new database and the new statement count. \<open>transact\<close> runs a body
  between \<open>Begin\<close> and \<open>Commit\<close>.

  The outside world \<open>env\<close> carries what the database and the process supply from outside the
  code: \<open>transaction_timestamp()\<close>, the value \<open>clock_timestamp()\<close> has when the n-th statement
  runs, the UUIDs that \<open>uuid.NewString\<close> returns (numbered by call site, in program order),
  which statements fail, how the commit ends, which rows concurrent transactions hold locked
  (\<open>SKIP LOCKED\<close> passes over these), and on which texts the third-party functions \<open>uuid.Validate\<close>
  and \<open>uuid.Parse\<close> of \<open>github.com/google/uuid\<close> succeed. Identifiers are canonical text
  throughout, so a parsed UUID prints as the text it was parsed from.
\<close>

section \<open>Errors\<close>

datatype run_error = ErrNoRunAvailable | ErrStaleAttempt | ErrInvalidUpdate | ErrInvalidOutcome

datatype work_error =
    ErrInvalidGoal | ErrInvalidMessage | ErrInvalidIdempotency | ErrInvalidCursor
  | ErrIdempotencyConflict | ErrRetryNotNeeded | ErrReviewNotCurrent | ErrNotFound | ErrNotOpen

datatype conversation_error =
    ErrInvalidText | ErrInvalidRequestID | ErrInvalidMessageCursor | ErrRequestConflict
  | ErrReplyPending | ErrNoReplyAvailable | ErrStaleReplyClaim | ErrReplyConflict | ErrInvalidContext

datatype agent_error =
    ErrInvalidAdapterKey | ErrInvalidOccurrenceKey | ErrInvalidVocabulary | ErrInvalidAgentName
  | ErrInvalidAgentIdentity

datatype machine_error =
    ErrMachineNotFound | ErrMachineRevoked | ErrMachineUnavailable | ErrInvalidAgentReport
  | ErrAgentReportConflict | AgentReportStaleError int
  | ErrInvalidConnection | ErrConnectionUnavailable | ErrConnectionRateLimited | ErrConnectionConflict
  | ErrConnectionPending | ErrConnectionDenied | ErrConnectionCancelled | ErrConnectionExpired
  | ConnectionSlowDownError int | ErrConnectionAlreadyDecided | ErrConnectionReplayExpired | ErrMachineAuthority
  | ErrCertificate

datatype space_error =
    ErrForbidden | ErrInvalidMemberRemoval | ErrInvalidMemberCursor | ErrMemberUnavailable
  | ErrRemovalSuccessorRequired | ErrRemovalSuccessorUnexpected | ErrRemovalSuccessorInvalid
  | ErrLastMemberManager | ErrLastMachineEnroller | ErrCommandConflict
  | ErrSpaceNameRequired | ErrSpaceNameTooLong | ErrSpaceNameHasControl | ErrSpaceSlugUnsupported
  | ErrSpaceSlugMixedScripts | ErrSpaceSlugTooLong | ErrSpaceSlugUnstable | ErrSpaceSlugSuffixInvalid
  | SlugConflictError string string int
  | ErrInvalidInvitation | ErrInvalidInvitationRecipient | ErrInvitationConflict | ErrInvitationUnavailable
  | ErrInvitationAlreadyMember | ErrInvitationExpired | ErrInvitationRevoked | ErrInvitationAccepted
  | ErrInvitationProofRequired | ErrInvitationResendCooldown | ErrInvitationSubmissionConflict

datatype identity_error =
    ErrUnauthenticated | ErrInvalidCLILogin | ErrCLILoginUnavailable | ErrCLILoginRateLimited
  | ErrCLILoginConflict | ErrCLILoginPending | ErrCLILoginDenied | ErrCLILoginCancelled | ErrCLILoginExpired
  | CLISlowDownError int | ErrCLILoginAlreadyApproved | ErrCLILoginRedeemed | ErrCLIReplacementInvalid
  | ErrCLICredentialUnavailable | CLIUserCodeCollision
  | ErrInvalidEmail | ErrInvalidCode | ErrEmailAddressAdmissionLimited | ErrEmailSourceAdmissionLimited
  | ErrEmailResendDelayed | ErrEmailSubmissionRejected | ErrEmailPayloadChanged
  | ErrIdentityConflict | ErrRecentIdentityProofRequired | ErrIdentityMethodOccupied
  | ErrIdentityMethodAlreadyLinked | ErrIdentityMethodNotLinked | ErrLastIdentityMethod
  | ErrExternalLoginInvalid | ErrExternalLoginConflict | ErrExternalLoginDenied | ErrExternalLoginUnavailable
  | ErrExternalLoginRejected | ErrExternalLoginSourceAdmissionLimited | ErrExternalLoginGlobalAdmissionLimited

text \<open>
  Errors of the driver: the connection or the server failed, a unique, foreign key or check
  constraint (named) was violated, or a \<open>:one\<close> query whose emptiness the code does not treat returned no row.
\<close>

datatype db_error =
    Connection_failed | Unique_violation string | Foreign_key_violation string | Check_violation string
  | No_rows | Commit_unknown

datatype carry_error =
    RunError run_error
  | WorkError work_error
  | ConversationError conversation_error
  | AgentError agent_error
  | MachineError machine_error
  | SpaceError space_error
  | IdentityError identity_error
  | DatabaseError db_error
  | ReportTemporarilyUnavailable carry_error
  | externalProofFailure string string carry_error
  | MissingArgument
  | Mismatch

section \<open>The outside world of one call\<close>

datatype commit_outcome = Commit_ok | Commit_failed | Commit_lost

record env =
  tx_time :: timestamp
  clock :: "nat \<Rightarrow> timestamp"
  fresh :: "nat \<Rightarrow> uuid"
  fault :: "nat \<Rightarrow> bool"
  begin_fault :: bool
  commit_result :: commit_outcome
  row_locked :: "uuid \<Rightarrow> bool"
  uuid_valid :: "string \<Rightarrow> bool"
  uuid_parse :: "string \<Rightarrow> bool"

text \<open>A call with no infrastructure failure, and clocks that do not run backwards.\<close>

definition healthy :: "env \<Rightarrow> bool" where
  "healthy E \<longleftrightarrow> (\<forall>n. \<not> fault E n) \<and> \<not> begin_fault E \<and> commit_result E = Commit_ok"

definition clock_ok :: "env \<Rightarrow> bool" where
  "clock_ok E \<longleftrightarrow> mono (clock E) \<and> tx_time E \<le> clock E 0"

section \<open>Transactions\<close>

type_synonym ('d, 'a) tx = "env \<Rightarrow> 'd \<Rightarrow> nat \<Rightarrow> carry_error + ('a \<times> 'd \<times> nat)"

definition ret :: "'a \<Rightarrow> ('d, 'a) tx" where
  "ret x = (\<lambda>E d n. Inr (x, d, n))"

definition fail :: "carry_error \<Rightarrow> ('d, 'a) tx" where
  "fail e = (\<lambda>E d n. Inl e)"

definition bind_tx :: "('d, 'a) tx \<Rightarrow> ('a \<Rightarrow> ('d, 'b) tx) \<Rightarrow> ('d, 'b) tx" where
  "bind_tx m f = (\<lambda>E d n. case m E d n of Inl e \<Rightarrow> Inl e | Inr (x, d', n') \<Rightarrow> f x E d' n')"

text \<open>
  A statement. \<open>query\<close> reads, \<open>modify\<close> writes and cannot violate a constraint, \<open>try_modify\<close>
  writes and hands a constraint violation to the code, which inspects it.
\<close>

definition query :: "(env \<Rightarrow> timestamp \<Rightarrow> 'd \<Rightarrow> 'a) \<Rightarrow> ('d, 'a) tx" where
  "query q = (\<lambda>E d n. if fault E n then Inl (DatabaseError Connection_failed)
                        else Inr (q E (clock E n) d, d, Suc n))"

definition modify :: "(env \<Rightarrow> timestamp \<Rightarrow> 'd \<Rightarrow> 'a \<times> 'd) \<Rightarrow> ('d, 'a) tx" where
  "modify u = (\<lambda>E d n. if fault E n then Inl (DatabaseError Connection_failed)
                         else (case u E (clock E n) d of (x, d') \<Rightarrow> Inr (x, d', Suc n)))"

definition try_modify :: "(env \<Rightarrow> timestamp \<Rightarrow> 'd \<Rightarrow> db_error + ('a \<times> 'd)) \<Rightarrow> ('d, db_error + 'a) tx" where
  "try_modify u = (\<lambda>E d n. if fault E n then Inr (Inl Connection_failed, d, Suc n)
     else (case u E (clock E n) d of Inl e \<Rightarrow> Inr (Inl e, d, Suc n) | Inr (x, d') \<Rightarrow> Inr (Inr x, d', Suc n)))"

text \<open>A write whose every error the code only wraps and returns.\<close>

definition insert_row :: "(env \<Rightarrow> timestamp \<Rightarrow> 'd \<Rightarrow> db_error + ('a \<times> 'd)) \<Rightarrow> ('d, 'a) tx" where
  "insert_row u = bind_tx (try_modify u) (\<lambda>r. case r of Inl e \<Rightarrow> fail (DatabaseError e) | Inr x \<Rightarrow> ret x)"

text \<open>A \<open>:one\<close> query: the row, or the error the caller maps \<open>pgx.ErrNoRows\<close> to.\<close>

definition query_one :: "carry_error \<Rightarrow> (env \<Rightarrow> timestamp \<Rightarrow> 'd \<Rightarrow> 'a option) \<Rightarrow> ('d, 'a) tx" where
  "query_one e q = bind_tx (query q) (\<lambda>r. case r of None \<Rightarrow> fail e | Some x \<Rightarrow> ret x)"

definition modify_one :: "carry_error \<Rightarrow> (env \<Rightarrow> timestamp \<Rightarrow> 'd \<Rightarrow> 'a option \<times> 'd) \<Rightarrow> ('d, 'a) tx" where
  "modify_one e u = bind_tx (modify u) (\<lambda>r. case r of None \<Rightarrow> fail e | Some x \<Rightarrow> ret x)"

definition require :: "bool \<Rightarrow> carry_error \<Rightarrow> ('d, unit) tx" where
  "require b e = (if b then ret () else fail e)"

text \<open>The parts of a body that run with no statement in between (\<open>err != nil\<close> of a pure function).\<close>

definition lift :: "carry_error + 'a \<Rightarrow> ('d, 'a) tx" where
  "lift r = (case r of Inl e \<Rightarrow> fail e | Inr x \<Rightarrow> ret x)"

definition ask :: "(env \<Rightarrow> 'a) \<Rightarrow> ('d, 'a) tx" where
  "ask f = (\<lambda>E d n. Inr (f E, d, n))"

definition transact :: "('d, 'a) tx \<Rightarrow> env \<Rightarrow> 'd \<Rightarrow> (carry_error + 'a) \<times> 'd" where
  "transact m E d =
     (if begin_fault E then (Inl (DatabaseError Connection_failed), d)
      else (case m E d 0 of
              Inl e \<Rightarrow> (Inl e, d)
            | Inr (x, d', n) \<Rightarrow>
                (case commit_result E of
                   Commit_ok \<Rightarrow> (Inr x, d')
                 | Commit_failed \<Rightarrow> (Inl (DatabaseError Connection_failed), d)
                 | Commit_lost \<Rightarrow> (Inl (DatabaseError Commit_unknown), d'))))"

text \<open>A part of a body whose every error is reported as a temporary failure of the Agent report.\<close>

definition known :: "('d, 'a) tx \<Rightarrow> ('d, 'a) tx" where
  "known m = (\<lambda>E d n. case m E d n of Inl e \<Rightarrow> Inl (ReportTemporarilyUnavailable e) | Inr r \<Rightarrow> Inr r)"

text \<open>
  The checks a method makes on its arguments before it opens a transaction: \<open>checked\<close> returns
  the error of a pure function, \<open>guard\<close> is a guard.
\<close>

definition checked :: "carry_error + 'c \<Rightarrow> ('c \<Rightarrow> env \<Rightarrow> 'd \<Rightarrow> (carry_error + 'a) \<times> 'd) \<Rightarrow> env \<Rightarrow> 'd \<Rightarrow> (carry_error + 'a) \<times> 'd" where
  "checked r f E d = (case r of Inl e \<Rightarrow> (Inl e, d) | Inr x \<Rightarrow> f x E d)"

definition guard :: "bool \<Rightarrow> carry_error \<Rightarrow> carry_error + unit" where
  "guard b e = (if b then Inr () else Inl e)"

section \<open>Inversion of successful bodies\<close>

lemma ret_Inr [tx_simps]: "ret x E d n = Inr r \<longleftrightarrow> r = (x, d, n)"
  by (auto simp: ret_def)

lemma fail_Inr [tx_simps]: "fail e E d n = Inr r \<longleftrightarrow> False"
  by (simp add: fail_def)

lemma bind_tx_Inr [tx_simps]:
  "bind_tx m f E d n = Inr r \<longleftrightarrow> (\<exists>x d' n'. m E d n = Inr (x, d', n') \<and> f x E d' n' = Inr r)"
  by (auto simp: bind_tx_def split: sum.splits)

lemma query_Inr [tx_simps]:
  "query q E d n = Inr (x, d', n') \<longleftrightarrow> \<not> fault E n \<and> x = q E (clock E n) d \<and> d' = d \<and> n' = Suc n"
  by (auto simp: query_def)

lemma modify_Inr [tx_simps]:
  "modify u E d n = Inr (x, d', n') \<longleftrightarrow> \<not> fault E n \<and> u E (clock E n) d = (x, d') \<and> n' = Suc n"
  by (auto simp: modify_def split: prod.splits)

lemma try_modify_Inr [tx_simps]:
  "try_modify u E d n = Inr (Inr x, d', n') \<longleftrightarrow>
     \<not> fault E n \<and> u E (clock E n) d = Inr (x, d') \<and> n' = Suc n"
  by (auto simp: try_modify_def split: sum.splits)

lemma try_modify_Inl:
  "try_modify u E d n = Inr (Inl e, d', n') \<Longrightarrow> d' = d \<and> n' = Suc n"
  by (auto simp: try_modify_def split: sum.splits if_splits)

lemma insert_row_Inr [tx_simps]:
  "insert_row u E d n = Inr (x, d', n') \<longleftrightarrow>
     \<not> fault E n \<and> u E (clock E n) d = Inr (x, d') \<and> n' = Suc n"
  by (auto simp: insert_row_def bind_tx_def try_modify_def ret_def fail_def split: sum.splits)

lemma query_one_Inr [tx_simps]:
  "query_one e q E d n = Inr (x, d', n') \<longleftrightarrow>
     \<not> fault E n \<and> q E (clock E n) d = Some x \<and> d' = d \<and> n' = Suc n"
  by (auto simp: query_one_def bind_tx_def query_def ret_def fail_def split: option.splits)

lemma modify_one_Inr [tx_simps]:
  "modify_one e u E d n = Inr (x, d', n') \<longleftrightarrow>
     \<not> fault E n \<and> u E (clock E n) d = (Some x, d') \<and> n' = Suc n"
  by (auto simp: modify_one_def bind_tx_def modify_def ret_def fail_def split: option.splits prod.splits)

lemma require_Inr [tx_simps]:
  "require b e E d n = Inr (x, d', n') \<longleftrightarrow> b \<and> d' = d \<and> n' = n"
  by (auto simp: require_def ret_def fail_def)

lemma lift_Inr [tx_simps]:
  "lift r E d n = Inr (x, d', n') \<longleftrightarrow> r = Inr x \<and> d' = d \<and> n' = n"
  by (auto simp: lift_def ret_def fail_def split: sum.splits)

lemma known_Inr [tx_simps]: "known m E d n = Inr r \<longleftrightarrow> m E d n = Inr r"
  by (simp add: known_def split: sum.splits)

lemma ask_Inr [tx_simps]:
  "ask f E d n = Inr (x, d', n') \<longleftrightarrow> x = f E \<and> d' = d \<and> n' = n"
  by (auto simp: ask_def)

text \<open>Branches of a body.\<close>

lemma if_tx_Inr [tx_simps]:
  "(if b then f else g) E d n = Inr r \<longleftrightarrow> (b \<and> f E d n = Inr r) \<or> (\<not> b \<and> g E d n = Inr r)"
  by simp

lemma case_option_tx_Inr [tx_simps]:
  "(case x of None \<Rightarrow> f | Some y \<Rightarrow> g y) E d n = Inr r \<longleftrightarrow>
     (x = None \<and> f E d n = Inr r) \<or> (\<exists>y. x = Some y \<and> g y E d n = Inr r)"
  by (cases x) simp_all

lemma case_sum_tx_Inr [tx_simps]:
  "(case x of Inl a \<Rightarrow> f a | Inr y \<Rightarrow> g y) E d n = Inr r \<longleftrightarrow>
     (\<exists>a. x = Inl a \<and> f a E d n = Inr r) \<or> (\<exists>y. x = Inr y \<and> g y E d n = Inr r)"
  by (cases x) simp_all

lemma case_prod_tx_Inr [tx_simps]:
  "(case p of (x, y) \<Rightarrow> f x y) E d n = Inr r \<longleftrightarrow> (\<exists>x y. p = (x, y) \<and> f x y E d n = Inr r)"
  by (cases p) simp

section \<open>Running a body forwards\<close>

lemma bind_tx_run: "m E d n = Inr (x, d', n') \<Longrightarrow> bind_tx m f E d n = f x E d' n'"
  by (simp add: bind_tx_def)

lemma bind_tx_stop: "m E d n = Inl e \<Longrightarrow> bind_tx m f E d n = Inl e"
  by (simp add: bind_tx_def)

named_theorems tx_run "evaluation of a body on a healthy connection"

lemma run_ret [tx_run]: "ret x E d n = Inr (x, d, n)"
  by (simp add: ret_def)

lemma run_fail [tx_run]: "fail e E d n = Inl e"
  by (simp add: fail_def)

lemma run_query [tx_run]:
  "\<not> fault E n \<Longrightarrow> query q E d n = Inr (q E (clock E n) d, d, Suc n)"
  by (simp add: query_def)

lemma run_modify [tx_run]:
  "\<not> fault E n \<Longrightarrow> modify u E d n = (case u E (clock E n) d of (x, d') \<Rightarrow> Inr (x, d', Suc n))"
  by (simp add: modify_def)

lemma run_try_modify [tx_run]:
  "\<not> fault E n \<Longrightarrow> try_modify u E d n =
     (case u E (clock E n) d of Inl e \<Rightarrow> Inr (Inl e, d, Suc n) | Inr (x, d') \<Rightarrow> Inr (Inr x, d', Suc n))"
  by (simp add: try_modify_def)

lemma run_insert_row [tx_run]:
  "\<not> fault E n \<Longrightarrow> insert_row u E d n =
     (case u E (clock E n) d of Inl e \<Rightarrow> Inl (DatabaseError e) | Inr (x, d') \<Rightarrow> Inr (x, d', Suc n))"
  by (auto simp: insert_row_def bind_tx_def try_modify_def ret_def fail_def split: sum.splits)

lemma run_query_one [tx_run]:
  "\<not> fault E n \<Longrightarrow> query_one e q E d n =
     (case q E (clock E n) d of None \<Rightarrow> Inl e | Some x \<Rightarrow> Inr (x, d, Suc n))"
  by (auto simp: query_one_def bind_tx_def query_def ret_def fail_def split: option.splits)

lemma run_modify_one [tx_run]:
  "\<not> fault E n \<Longrightarrow> modify_one e u E d n =
     (case u E (clock E n) d of (None, d') \<Rightarrow> Inl e | (Some x, d') \<Rightarrow> Inr (x, d', Suc n))"
  by (auto simp: modify_one_def bind_tx_def modify_def ret_def fail_def split: option.splits prod.splits)

lemma run_require [tx_run]: "require b e E d n = (if b then Inr ((), d, n) else Inl e)"
  by (simp add: require_def ret_def fail_def)

lemma run_lift [tx_run]: "lift r E d n = (case r of Inl e \<Rightarrow> Inl e | Inr x \<Rightarrow> Inr (x, d, n))"
  by (auto simp: lift_def ret_def fail_def split: sum.splits)

lemma run_ask [tx_run]: "ask f E d n = Inr (f E, d, n)"
  by (simp add: ask_def)

lemma run_bind [tx_run]:
  "bind_tx m f E d n = (case m E d n of Inl e \<Rightarrow> Inl e | Inr (x, d', n') \<Rightarrow> f x E d' n')"
  by (simp add: bind_tx_def)

lemma run_known [tx_run]:
  "known m E d n = (case m E d n of Inl e \<Rightarrow> Inl (ReportTemporarilyUnavailable e) | Inr r \<Rightarrow> Inr r)"
  by (simp add: known_def)

section \<open>Running a transaction\<close>

lemma healthyD [simp]:
  "healthy E \<Longrightarrow> \<not> fault E n" "healthy E \<Longrightarrow> \<not> begin_fault E" "healthy E \<Longrightarrow> commit_result E = Commit_ok"
  by (auto simp: healthy_def)

lemma transact_healthy:
  "healthy E \<Longrightarrow> transact m E d = (case m E d 0 of Inl e \<Rightarrow> (Inl e, d) | Inr (x, d', n) \<Rightarrow> (Inr x, d'))"
  by (auto simp: transact_def split: sum.splits)

lemma transact_Inr:
  "transact m E d = (Inr x, d') \<Longrightarrow> \<exists>n. m E d 0 = Inr (x, d', n)"
  by (auto simp: transact_def split: if_splits sum.splits commit_outcome.splits)

lemma checked_simps [simp]: "checked (Inl e) f E d = (Inl e, d)" "checked (Inr x) f E d = f x E d"
  by (simp_all add: checked_def)

lemma guard_Inr [tx_simps]: "guard b e = Inr u \<longleftrightarrow> b"
  by (auto simp: guard_def)

lemma checked_Inr [tx_simps]:
  "checked r f E d = (Inr y, d') \<longleftrightarrow> (\<exists>x. r = Inr x \<and> f x E d = (Inr y, d'))"
  by (auto simp: checked_def split: sum.splits)

lemma checked_cases:
  assumes "checked r f E d = (y, d')"
  obtains e where "r = Inl e" "y = Inl e" "d' = d" | x where "r = Inr x" "f x E d = (y, d')"
  using assms by (auto simp: checked_def split: sum.splits)

text \<open>Atomicity: a failed call leaves the database as it was, unless only the answer to the commit was lost.\<close>

lemma transact_Inl:
  "transact m E d = (Inl e, d') \<Longrightarrow> commit_result E \<noteq> Commit_lost \<Longrightarrow> d' = d"
  by (auto simp: transact_def split: if_splits sum.splits commit_outcome.splits)

text \<open>Whatever the outcome, the new database is the old one or the one the body committed.\<close>

lemma transact_cases:
  assumes "transact m E d = (r, d')"
  obtains "d' = d" | x n where "m E d 0 = Inr (x, d', n)"
  using assms by (auto simp: transact_def split: if_splits sum.splits commit_outcome.splits)

text \<open>Preservation of a database predicate by a body, and by the transaction around it.\<close>

definition preserves :: "('d \<Rightarrow> bool) \<Rightarrow> ('d, 'a) tx \<Rightarrow> bool" where
  "preserves I m \<longleftrightarrow> (\<forall>E d n x d' n'. m E d n = Inr (x, d', n') \<longrightarrow> I d \<longrightarrow> I d')"

text \<open>Preservation by a whole method, whatever it returns.\<close>

definition keeps :: "('d \<Rightarrow> bool) \<Rightarrow> (env \<Rightarrow> 'd \<Rightarrow> (carry_error + 'a) \<times> 'd) \<Rightarrow> bool" where
  "keeps I f \<longleftrightarrow> (\<forall>E d r d'. f E d = (r, d') \<longrightarrow> I d \<longrightarrow> I d')"

lemma keepsD: "keeps I f \<Longrightarrow> f E d = (r, d') \<Longrightarrow> I d \<Longrightarrow> I d'"
  by (auto simp: keeps_def)

lemma keeps_transact: "preserves I m \<Longrightarrow> keeps I (transact m)"
  unfolding keeps_def preserves_def by (blast elim: transact_cases)

lemma keeps_checked: "(\<And>x. r = Inr x \<Longrightarrow> keeps I (f x)) \<Longrightarrow> keeps I (checked r f)"
  unfolding keeps_def by (blast elim: checked_cases)

text \<open>Methods whose checks on the arguments read the outside world.\<close>

lemma keeps_env: "(\<And>E0. keeps I (f E0)) \<Longrightarrow> keeps I (\<lambda>E. f E E)"
  by (simp add: keeps_def)

text \<open>A method all of whose writes are those of some successful body.\<close>

lemma keeps_from_success:
  assumes "\<And>E d y d'. f E d = (Inr y, d') \<Longrightarrow> I d \<Longrightarrow> I d'"
    and "\<And>E d y d'. f E d = (y, d') \<Longrightarrow> d' = d \<or> (\<exists>E' z. f E' d = (Inr z, d'))"
  shows "keeps I f"
  unfolding keeps_def using assms by blast

lemma transact_preserves:
  "preserves I m \<Longrightarrow> I d \<Longrightarrow> transact m E d = (r, d') \<Longrightarrow> I d'"
  unfolding preserves_def by (erule transact_cases) blast+

section \<open>What a body leaves alone\<close>

text \<open>\<open>frame f m\<close>: no success of the body \<open>m\<close> changes the part \<open>f\<close> of the database.\<close>

definition frame :: "('d \<Rightarrow> 'p) \<Rightarrow> ('d, 'a) tx \<Rightarrow> bool" where
  "frame f m \<longleftrightarrow> (\<forall>E d n x d' n'. m E d n = Inr (x, d', n') \<longrightarrow> f d' = f d)"

definition leaves :: "('d \<Rightarrow> 'p) \<Rightarrow> (env \<Rightarrow> 'd \<Rightarrow> (carry_error + 'a) \<times> 'd) \<Rightarrow> bool" where
  "leaves f m \<longleftrightarrow> (\<forall>E d r d'. m E d = (r, d') \<longrightarrow> f d' = f d)"

named_theorems frame_intros "what a body leaves alone, statement by statement"

lemma frame_ret [frame_intros]: "frame f (ret x)"
  by (auto simp: frame_def tx_simps)

lemma frame_fail [frame_intros]: "frame f (fail e)"
  by (auto simp: frame_def tx_simps)

lemma frame_ask [frame_intros]: "frame f (ask g)"
  by (auto simp: frame_def tx_simps)

lemma frame_lift [frame_intros]: "frame f (lift r)"
  by (auto simp: frame_def tx_simps)

lemma frame_require [frame_intros]: "frame f (require b e)"
  by (auto simp: frame_def tx_simps)

lemma frame_query [frame_intros]: "frame f (query q)"
  by (auto simp: frame_def tx_simps)

lemma frame_query_one [frame_intros]: "frame f (query_one e q)"
  by (auto simp: frame_def tx_simps)

lemma frame_bind [frame_intros]: "frame f m \<Longrightarrow> (\<And>x. frame f (g x)) \<Longrightarrow> frame f (bind_tx m g)"
  unfolding frame_def bind_tx_Inr by metis

lemma frame_modify [frame_intros]: "(\<And>E t d. f (snd (u E t d)) = f d) \<Longrightarrow> frame f (modify u)"
  unfolding frame_def modify_Inr by (metis snd_conv)

lemma frame_modify_one [frame_intros]: "(\<And>E t d. f (snd (u E t d)) = f d) \<Longrightarrow> frame f (modify_one e u)"
  unfolding frame_def modify_one_Inr by (metis snd_conv)

lemma frame_insert_row [frame_intros]:
  "(\<And>E t d x d'. u E t d = Inr (x, d') \<Longrightarrow> f d' = f d) \<Longrightarrow> frame f (insert_row u)"
  unfolding frame_def insert_row_Inr by blast

lemma frame_try_modify [frame_intros]:
  "(\<And>E t d x d'. u E t d = Inr (x, d') \<Longrightarrow> f d' = f d) \<Longrightarrow> frame f (try_modify u)"
  by (auto simp: frame_def try_modify_def split: sum.splits if_splits)

lemma frame_known [frame_intros]: "frame f m \<Longrightarrow> frame f (known m)"
  by (simp add: frame_def tx_simps)

lemma frame_if [frame_intros]: "frame f m \<Longrightarrow> frame f m' \<Longrightarrow> frame f (if b then m else m')"
  by simp

lemma frame_option [frame_intros]:
  "frame f m \<Longrightarrow> (\<And>y. frame f (g y)) \<Longrightarrow> frame f (case x of None \<Rightarrow> m | Some y \<Rightarrow> g y)"
  by (cases x) simp_all

lemma frame_sum [frame_intros]:
  "(\<And>a. frame f (h a)) \<Longrightarrow> (\<And>y. frame f (g y)) \<Longrightarrow> frame f (case x of Inl a \<Rightarrow> h a | Inr y \<Rightarrow> g y)"
  by (cases x) simp_all

lemma frame_prod [frame_intros]: "(\<And>a b. frame f (g a b)) \<Longrightarrow> frame f (case p of (a, b) \<Rightarrow> g a b)"
  by (cases p) simp

lemma frame_list [frame_intros]:
  "frame f m \<Longrightarrow> (\<And>y ys. frame f (g y ys)) \<Longrightarrow> frame f (case x of [] \<Rightarrow> m | y # ys \<Rightarrow> g y ys)"
  by (cases x) simp_all

lemma leaves_transact [frame_intros]: "frame f m \<Longrightarrow> leaves f (transact m)"
  unfolding frame_def leaves_def by (blast elim: transact_cases)

lemma leaves_checked [frame_intros]: "(\<And>x. leaves f (g x)) \<Longrightarrow> leaves f (checked r g)"
  unfolding leaves_def by (blast elim: checked_cases)

lemma leaves_env: "(\<And>E0. leaves f (g E0)) \<Longrightarrow> leaves f (\<lambda>E. g E E)"
  by (simp add: leaves_def)

lemma keeps_leaves: "leaves f m \<Longrightarrow> keeps (\<lambda>d. P (f d)) m"
  by (auto simp: leaves_def keeps_def)

lemma keeps_conj: "keeps P m \<Longrightarrow> keeps Q m \<Longrightarrow> keeps (\<lambda>d. P d \<and> Q d) m"
  unfolding keeps_def by blast


text \<open>
  What a transaction may do to the past. For a relation \<open>R\<close> between databases that is reflexive
  and transitive, a body all of whose statements stay within \<open>R\<close> stays within \<open>R\<close>, and so does
  the method that runs it, whatever it returns. The locale \<open>growth\<close> is that contract; the
  history of the stores and their read-only methods interpret it.
\<close>

definition grows :: "('d \<Rightarrow> 'd \<Rightarrow> bool) \<Rightarrow> ('d, 'a) tx \<Rightarrow> bool" where
  "grows R m \<longleftrightarrow> (\<forall>E d n x d' n'. m E d n = Inr (x, d', n') \<longrightarrow> R d d')"

definition advances :: "('d \<Rightarrow> 'd \<Rightarrow> bool) \<Rightarrow> (env \<Rightarrow> 'd \<Rightarrow> (carry_error + 'a) \<times> 'd) \<Rightarrow> bool" where
  "advances R m \<longleftrightarrow> (\<forall>E d r d'. m E d = (r, d') \<longrightarrow> R d d')"

lemma advancesD: "advances R m \<Longrightarrow> m E d = (r, d') \<Longrightarrow> R d d'"
  by (auto simp: advances_def)

lemma advances_env: "(\<And>E0. advances R (g E0)) \<Longrightarrow> advances R (\<lambda>E. g E E)"
  by (simp add: advances_def)

named_theorems grow_intros "how a body stays within a relation, statement by statement"

locale growth =
  fixes R :: "'d \<Rightarrow> 'd \<Rightarrow> bool"
  assumes grow_refl: "R d d"
    and grow_trans: "R d d1 \<Longrightarrow> R d1 d2 \<Longrightarrow> R d d2"
begin

lemma grows_ret [grow_intros]: "grows R (ret x)"
  by (auto simp: grows_def tx_simps grow_refl)

lemma grows_fail [grow_intros]: "grows R (fail e)"
  by (auto simp: grows_def tx_simps)

lemma grows_ask [grow_intros]: "grows R (ask g)"
  by (auto simp: grows_def tx_simps grow_refl)

lemma grows_lift [grow_intros]: "grows R (lift r)"
  by (auto simp: grows_def tx_simps grow_refl)

lemma grows_require [grow_intros]: "grows R (require b e)"
  by (auto simp: grows_def tx_simps grow_refl)

lemma grows_query [grow_intros]: "grows R (query q)"
  by (auto simp: grows_def tx_simps grow_refl)

lemma grows_query_one [grow_intros]: "grows R (query_one e q)"
  by (auto simp: grows_def tx_simps grow_refl)

lemma grows_bind [grow_intros]: "grows R m \<Longrightarrow> (\<And>x. grows R (g x)) \<Longrightarrow> grows R (bind_tx m g)"
  unfolding grows_def bind_tx_Inr by (meson grow_trans)

lemma grows_modify [grow_intros]: "(\<And>E t d. R d (snd (u E t d))) \<Longrightarrow> grows R (modify u)"
  unfolding grows_def modify_Inr by (metis snd_conv)

lemma grows_modify_one [grow_intros]: "(\<And>E t d. R d (snd (u E t d))) \<Longrightarrow> grows R (modify_one e u)"
  unfolding grows_def modify_one_Inr by (metis snd_conv)

lemma grows_insert_row [grow_intros]:
  "(\<And>E t d x d'. u E t d = Inr (x, d') \<Longrightarrow> R d d') \<Longrightarrow> grows R (insert_row u)"
  unfolding grows_def insert_row_Inr by blast

lemma grows_try_modify [grow_intros]:
  "(\<And>E t d x d'. u E t d = Inr (x, d') \<Longrightarrow> R d d') \<Longrightarrow> grows R (try_modify u)"
  by (auto simp: grows_def try_modify_def grow_refl split: sum.splits if_splits)

lemma grows_known [grow_intros]: "grows R m \<Longrightarrow> grows R (known m)"
  by (simp add: grows_def tx_simps)

lemma grows_if [grow_intros]: "grows R m \<Longrightarrow> grows R m' \<Longrightarrow> grows R (if b then m else m')"
  by simp

lemma grows_option [grow_intros]:
  "grows R m \<Longrightarrow> (\<And>y. grows R (g y)) \<Longrightarrow> grows R (case x of None \<Rightarrow> m | Some y \<Rightarrow> g y)"
  by (cases x) simp_all

lemma grows_sum [grow_intros]:
  "(\<And>a. grows R (h a)) \<Longrightarrow> (\<And>y. grows R (g y)) \<Longrightarrow> grows R (case x of Inl a \<Rightarrow> h a | Inr y \<Rightarrow> g y)"
  by (cases x) simp_all

lemma grows_prod [grow_intros]: "(\<And>a b. grows R (g a b)) \<Longrightarrow> grows R (case p of (a, b) \<Rightarrow> g a b)"
  by (cases p) simp

lemma grows_list [grow_intros]:
  "grows R m \<Longrightarrow> (\<And>y ys. grows R (g y ys)) \<Longrightarrow> grows R (case x of [] \<Rightarrow> m | y # ys \<Rightarrow> g y ys)"
  by (cases x) simp_all

lemma advances_transact [grow_intros]: "grows R m \<Longrightarrow> advances R (transact m)"
  unfolding grows_def advances_def by (blast elim: transact_cases intro: grow_refl)

lemma advances_checked [grow_intros]: "(\<And>x. advances R (g x)) \<Longrightarrow> advances R (checked r g)"
  unfolding advances_def by (blast elim: checked_cases intro: grow_refl)

text \<open>What holds of every state related to the first holds along a whole execution.\<close>

lemma advances_rtrancl:
  assumes "\<And>d d'. step d d' \<Longrightarrow> R d d'" "step\<^sup>*\<^sup>* d d'"
  shows "R d d'"
  using assms(2) by induction (auto intro: grow_refl grow_trans assms(1))

end

section \<open>Tables that only grow\<close>

text \<open>Every row of the first table has a successor in the second.\<close>

definition grown :: "('r \<Rightarrow> 'r \<Rightarrow> bool) \<Rightarrow> 'r list \<Rightarrow> 'r list \<Rightarrow> bool" where
  "grown R t t' \<longleftrightarrow> (\<forall>r \<in> set t. \<exists>r' \<in> set t'. R r r')"

lemma grown_refl: "(\<And>r. R r r) \<Longrightarrow> grown R t t"
  by (auto simp: grown_def)

lemma grown_trans: "(\<And>a b c. R a b \<Longrightarrow> R b c \<Longrightarrow> R a c) \<Longrightarrow> grown R t t' \<Longrightarrow> grown R t' t'' \<Longrightarrow> grown R t t''"
  unfolding grown_def by meson

lemma grown_append: "(\<And>r. R r r) \<Longrightarrow> grown R t (t @ s)"
  by (auto simp: grown_def)

lemma grown_update: "(\<And>r. R r r) \<Longrightarrow> (\<And>r. P r \<Longrightarrow> R r (f r)) \<Longrightarrow> grown R t (update_where P f t)"
  by (auto simp: grown_def update_where_bex)

lemma grownD: "grown R t t' \<Longrightarrow> r \<in> set t \<Longrightarrow> \<exists>r' \<in> set t'. R r r'"
  by (simp add: grown_def)

end
