(* ===== verification/Work_Rules.thy ===== *)
theory Work_Rules
  imports Sha256 Carry_Tx
begin

text \<open>
  The Work owner (\<open>internal/work/work.go\<close>) and the Run owner (\<open>internal/run/run.go\<close>): their
  limits, their commands and results, and their pure rules: the normalisation of goals and
  idempotency keys, the validation of messages and of an understanding update, and the
  digests that bind an idempotency key to its request. Normalisation is idempotent, its
  results are within the limits, and a digest determines its fields up to a SHA-256 collision.
\<close>

section \<open>Work\<close>

definition MaxGoalBytes :: nat where "MaxGoalBytes = 2000"
definition MaxMessageBytes :: nat where "MaxMessageBytes = 61440"
definition MaxIdempotencyKeyBytes :: nat where "MaxIdempotencyKeyBytes = 255"
definition ListPageSize :: nat where "ListPageSize = 50"

datatype lifecycle = LifecycleOpen | LifecycleOther string

record create_command =
  cr_SpaceID :: uuid
  cr_CreatorUserID :: uuid
  cr_Goal :: string
  cr_IdempotencyKey :: string

record append_command =
  ap_WorkID :: uuid
  ap_SpaceID :: uuid
  ap_AuthorUserID :: uuid
  ap_Text :: string
  ap_IdempotencyKey :: string

record retry_command =
  re_WorkID :: uuid
  re_SpaceID :: uuid
  re_RequestedBy :: uuid
  re_IdempotencyKey :: string

record accept_review_command =
  ac_WorkID :: uuid
  ac_SpaceID :: uuid
  ac_ReviewID :: uuid
  ac_AcceptedBy :: uuid
  ac_IdempotencyKey :: string

record list_command =
  li_UserID :: uuid
  li_SpaceID :: uuid
  li_Before :: string
  li_NeedsYou :: bool

record load_command =
  lo_UserID :: uuid
  lo_SpaceID :: uuid
  lo_WorkID :: uuid
  lo_BeforeMessage :: string

record work_view =
  vw_WorkID :: uuid
  vw_SpaceID :: uuid
  vw_Goal :: string
  vw_Lifecycle :: lifecycle
  vw_OwnerUserID :: uuid
  vw_OwnerDisplayName :: string
  vw_CreatorUserID :: uuid
  vw_CreatorDisplayName :: string
  vw_Understanding :: string
  vw_NextStep :: string
  vw_HasUnappliedInput :: bool
  vw_NeedsRetry :: bool
  vw_NeedsReview :: bool
  vw_ReviewID :: string
  vw_CreatedAt :: timestamp

record summary =
  su_WorkID :: uuid
  su_SpaceID :: uuid
  su_Goal :: string
  su_Lifecycle :: lifecycle
  su_OwnerUserID :: uuid
  su_OwnerDisplayName :: string
  su_CreatorUserID :: uuid
  su_CreatorDisplayName :: string
  su_HasUnappliedInput :: bool
  su_NeedsRetry :: bool
  su_NeedsReview :: bool
  su_CreatedAt :: timestamp

record work_page =
  pg_Works :: "summary list"
  pg_HasEarlier :: bool

record message_view =
  mv_MessageID :: uuid
  mv_WorkID :: uuid
  mv_AuthorUserID :: uuid
  mv_AuthorDisplayName :: string
  mv_Text :: string
  mv_InputSeq :: int
  mv_CreatedAt :: timestamp

record details =
  de_Work :: work_view
  de_Messages :: "message_view list"
  de_HasEarlierMessages :: bool

definition validText :: "string \<Rightarrow> bool" where
  "validText value \<longleftrightarrow> valid_string value \<and> \<not> contains_nul value"

definition NormalizeGoal :: "string \<Rightarrow> carry_error + string" where
  "NormalizeGoal value =
     (let goal = trim_space value
      in if length goal = 0 \<or> length goal > MaxGoalBytes \<or> \<not> validText goal
         then Inl (WorkError ErrInvalidGoal) else Inr goal)"

definition ValidateMessage :: "string \<Rightarrow> carry_error + unit" where
  "ValidateMessage value =
     (if trim_space value = [] \<or> length value > MaxMessageBytes \<or> \<not> validText value
      then Inl (WorkError ErrInvalidMessage) else Inr ())"

definition NormalizeIdempotencyKey :: "string \<Rightarrow> carry_error + string" where
  "NormalizeIdempotencyKey value =
     (let key = trim_space value
      in if key = [] \<or> length key > MaxIdempotencyKeyBytes \<or> \<not> validText key
         then Inl (WorkError ErrInvalidIdempotency) else Inr key)"

definition CreateDigest :: "uuid \<Rightarrow> uuid \<Rightarrow> string \<Rightarrow> bytes" where
  "CreateDigest spaceID creatorUserID goal = digestFields [spaceID, creatorUserID, goal]"

definition WorkMessageDigest :: "uuid \<Rightarrow> uuid \<Rightarrow> string \<Rightarrow> bytes" where
  "WorkMessageDigest workID authorUserID text = digestFields [workID, authorUserID, text]"

definition ReviewContentDigest :: "string \<Rightarrow> string \<Rightarrow> bytes" where
  "ReviewContentDigest understanding nextStep = digestFields [understanding, nextStep]"

definition ReviewAcceptanceDigest :: "uuid \<Rightarrow> uuid \<Rightarrow> bytes" where
  "ReviewAcceptanceDigest workID reviewID = digestFields [workID, reviewID]"

section \<open>Run\<close>

definition MaxUnderstandingBytes :: nat where "MaxUnderstandingBytes = 61440"
definition MaxNextStepBytes :: nat where "MaxNextStepBytes = 8192"
definition MaxInputMessages :: nat where "MaxInputMessages = 32"
definition MaxInputTextBytes :: nat where "MaxInputTextBytes = 262144"

text \<open>\<open>run.State\<close>, with the attempt state \<open>expired\<close> that only SQL writes and every other string.\<close>

datatype run_state =
  StateActive | StateSucceeded | StateFailed | StateUnknown | StateExpired | StateOther string

record run_message =
  rm_AuthorUserID :: uuid
  rm_Text :: string

record claim =
  cl_RunID :: uuid
  cl_AttemptID :: uuid
  cl_WorkID :: uuid
  cl_Fence :: int
  cl_LeaseExpiresAt :: timestamp
  cl_Goal :: string
  cl_CurrentUnderstanding :: string
  cl_CurrentNextStep :: string
  cl_BaseUnderstandingVersion :: int
  cl_InputEndSeq :: int
  cl_Messages :: "run_message list"

record commit_command =
  co_MachineID :: uuid
  co_RunID :: uuid
  co_AttemptID :: uuid
  co_Fence :: int
  co_BaseUnderstandingVersion :: int
  co_InputEndSeq :: int
  co_Understanding :: string
  co_NextStep :: string
  co_ReviewRequired :: bool

record finish_command =
  fi_MachineID :: uuid
  fi_RunID :: uuid
  fi_AttemptID :: uuid
  fi_Fence :: int
  fi_Outcome :: run_state

definition ValidateUnderstandingUpdate :: "string \<Rightarrow> string \<Rightarrow> carry_error + (string \<times> string)" where
  "ValidateUnderstandingUpdate understanding0 nextStep0 =
     (let understanding = trim_space understanding0; nextStep = trim_space nextStep0
      in if understanding = [] \<or> nextStep = [] \<or> length understanding > MaxUnderstandingBytes
            \<or> length nextStep > MaxNextStepBytes \<or> \<not> validText understanding \<or> \<not> validText nextStep
         then Inl (RunError ErrInvalidUpdate) else Inr (understanding, nextStep))"

definition ValidateUnresolvedOutcome :: "run_state \<Rightarrow> carry_error + unit" where
  "ValidateUnresolvedOutcome outcome =
     (if outcome \<noteq> StateFailed \<and> outcome \<noteq> StateUnknown
      then Inl (RunError ErrInvalidOutcome) else Inr ())"

section \<open>Lemmas\<close>

lemma NormalizeGoal_Inr:
  "NormalizeGoal s = Inr g \<longleftrightarrow>
     g = trim_space s \<and> g \<noteq> [] \<and> length g \<le> MaxGoalBytes \<and> validText g"
  by (auto simp: NormalizeGoal_def Let_def)

lemma NormalizeIdempotencyKey_Inr:
  "NormalizeIdempotencyKey s = Inr k \<longleftrightarrow>
     k = trim_space s \<and> k \<noteq> [] \<and> length k \<le> MaxIdempotencyKeyBytes \<and> validText k"
  by (auto simp: NormalizeIdempotencyKey_def Let_def)

lemma ValidateUnderstandingUpdate_Inr:
  "ValidateUnderstandingUpdate u n = Inr (u', n') \<longleftrightarrow>
     u' = trim_space u \<and> n' = trim_space n \<and> u' \<noteq> [] \<and> n' \<noteq> []
     \<and> length u' \<le> MaxUnderstandingBytes \<and> length n' \<le> MaxNextStepBytes \<and> validText u' \<and> validText n'"
  by (auto simp: ValidateUnderstandingUpdate_def Let_def)

lemma ValidateUnresolvedOutcome_Inr:
  "ValidateUnresolvedOutcome s = Inr r \<longleftrightarrow> s = StateFailed \<or> s = StateUnknown"
  by (auto simp: ValidateUnresolvedOutcome_def)

lemma length_digests [simp]:
  "length (CreateDigest a b c) = 32" "length (WorkMessageDigest a b c) = 32"
  "length (ReviewContentDigest a b) = 32" "length (ReviewAcceptanceDigest a b) = 32"
  by (simp_all add: CreateDigest_def WorkMessageDigest_def ReviewContentDigest_def ReviewAcceptanceDigest_def)

text \<open>A SHA-256 collision: the only way two different framed requests share a digest.\<close>

definition sha256_collision :: "bytes \<Rightarrow> bytes \<Rightarrow> bool" where
  "sha256_collision x y \<longleftrightarrow> x \<noteq> y \<and> sha256 x = sha256 y"

lemma digestFields_eqD:
  assumes "digestFields fs = digestFields gs"
    and "\<forall>f \<in> set fs. length f < 2 ^ 64" "\<forall>g \<in> set gs. length g < 2 ^ 64"
  shows "fs = gs \<or> sha256_collision (frame_fields fs) (frame_fields gs)"
  using assms frame_fields_inj by (auto simp: digestFields_def sha256_collision_def)

text \<open>
  Normalisation is a projection: whatever a goal, an idempotency key or an
  understanding update is normalised to is within its byte limit, not empty, valid UTF-8 without
  NUL, and normalising it again returns it unchanged, so the value that is stored, compared and
  digested does not depend on how often the request passed through the owner.
\<close>

theorem normalization_is_projection:
  "(case NormalizeGoal s of Inl _ \<Rightarrow> True | Inr g \<Rightarrow>
      NormalizeGoal g = Inr g \<and> 0 < length g \<and> length g \<le> 2000 \<and> valid_string g \<and> \<not> contains_nul g)
   \<and> (case NormalizeIdempotencyKey s of Inl _ \<Rightarrow> True | Inr g \<Rightarrow>
      NormalizeIdempotencyKey g = Inr g \<and> 0 < length g \<and> length g \<le> 255 \<and> valid_string g \<and> \<not> contains_nul g)
   \<and> (case ValidateUnderstandingUpdate s t of Inl _ \<Rightarrow> True | Inr (g, h) \<Rightarrow>
      ValidateUnderstandingUpdate g h = Inr (g, h) \<and> 0 < length g \<and> length g \<le> 61440
      \<and> 0 < length h \<and> length h \<le> 8192 \<and> validText g \<and> validText h)"
  by (auto simp: NormalizeGoal_Inr NormalizeIdempotencyKey_Inr ValidateUnderstandingUpdate_Inr
      validText_def MaxGoalBytes_def MaxIdempotencyKeyBytes_def MaxUnderstandingBytes_def MaxNextStepBytes_def
      split: sum.split)

end
