(* ===== verification/Conversation_Rules.thy ===== *)
theory Conversation_Rules
  imports Work_Rules
begin

text \<open>
  The Conversation owner (\<open>internal/conversation/conversation.go\<close>): the limits, commands and
  results of a private Conversation, the normalisation of texts, request keys and reply
  candidates, the digests, and \<open>FixedContextSuffix\<close>, which cuts the context a Machine may
  see. The cut is the longest suffix of whole messages within both limits, never empty on
  valid input, and cutting it again changes nothing.
\<close>

definition MaxTextBytes :: nat where "MaxTextBytes = 16384"
definition MaxContextMessages :: nat where "MaxContextMessages = 32"
definition MaxContextTextBytes :: nat where "MaxContextTextBytes = 262144"

datatype author = AuthorMember | AuthorCarry | AuthorOther string

record send_command =
  se_SpaceID :: uuid
  se_MemberUserID :: uuid
  se_Text :: string
  se_IdempotencyKey :: string

record list_messages_command =
  lm_SpaceID :: uuid
  lm_MemberUserID :: uuid
  lm_Before :: string
  lm_After :: string

record conversation_message =
  cv_MessageID :: uuid
  cv_Author :: author
  cv_Text :: string
  cv_RequestID :: string
  cv_CreatedWorkID :: string
  cv_Sequence :: int
  cv_CreatedAt :: timestamp

record context_message =
  cx_Author :: author
  cx_Text :: string

record reply_claim =
  rp_SourceMessageID :: uuid
  rp_Fence :: int
  rp_LeaseExpiresAt :: timestamp
  rp_Messages :: "context_message list"

record reply_candidate =
  ca_Reply :: string
  ca_DelegationGoal :: "string option"

record renew_reply_command =
  rn_MachineID :: uuid
  rn_SourceMessageID :: uuid
  rn_Fence :: int

record commit_reply_command =
  cm_MachineID :: uuid
  cm_SourceMessageID :: uuid
  cm_Fence :: int
  cm_Candidate :: reply_candidate

record commit_reply_result =
  rs_ReplyMessageID :: uuid
  rs_CreatedWorkID :: string

definition NormalizeText :: "string \<Rightarrow> carry_error + string" where
  "NormalizeText value =
     (let text = trim_space value
      in if text = [] \<or> length text > MaxTextBytes \<or> \<not> valid_string text \<or> contains_nul text
         then Inl (ConversationError ErrInvalidText) else Inr text)"

definition NormalizeRequestKey :: "string \<Rightarrow> carry_error + string" where
  "NormalizeRequestKey value =
     (let key = trim_space value
      in if key = [] \<or> length key > MaxIdempotencyKeyBytes \<or> \<not> valid_string key \<or> contains_nul key
         then Inl (ConversationError ErrInvalidRequestID) else Inr key)"

definition ValidateCursors :: "string \<Rightarrow> string \<Rightarrow> carry_error + unit" where
  "ValidateCursors before after =
     (if before \<noteq> [] \<and> after \<noteq> [] then Inl (ConversationError ErrInvalidMessageCursor) else Inr ())"

definition ConversationDigest :: "uuid \<Rightarrow> uuid \<Rightarrow> string \<Rightarrow> bytes" where
  "ConversationDigest spaceID memberUserID text = digestFields [spaceID, memberUserID, text]"

definition NormalizeReplyCandidate :: "uuid \<Rightarrow> reply_candidate \<Rightarrow> carry_error + (reply_candidate \<times> bytes)" where
  "NormalizeReplyCandidate sourceMessageID candidate =
     (case NormalizeText (ca_Reply candidate) of
        Inl e \<Rightarrow> Inl e
      | Inr reply \<Rightarrow>
          (case ca_DelegationGoal candidate of
             None \<Rightarrow> Inr (\<lparr>ca_Reply = reply, ca_DelegationGoal = None\<rparr>,
                          digestFields [sourceMessageID, reply, ''delegation:null''])
           | Some goal0 \<Rightarrow>
               (case NormalizeGoal goal0 of
                  Inl e \<Rightarrow> Inl e
                | Inr goal \<Rightarrow> Inr (\<lparr>ca_Reply = reply, ca_DelegationGoal = Some goal\<rparr>,
                                  digestFields [sourceMessageID, reply, ''delegation:goal'', goal]))))"

section \<open>The fixed context suffix\<close>

definition valid_context_message :: "context_message \<Rightarrow> bool" where
  "valid_context_message m \<longleftrightarrow>
     (cx_Author m = AuthorMember \<or> cx_Author m = AuthorCarry)
     \<and> cx_Text m \<noteq> [] \<and> length (cx_Text m) \<le> MaxTextBytes
     \<and> valid_string (cx_Text m) \<and> \<not> contains_nul (cx_Text m)"

text \<open>The loop, with \<open>start\<close> counting down and \<open>textBytes\<close> accumulating.\<close>

fun fixed_start :: "context_message list \<Rightarrow> nat \<Rightarrow> nat \<Rightarrow> carry_error + nat" where
  "fixed_start messages 0 textBytes = Inr 0"
| "fixed_start messages (Suc start) textBytes =
     (if length messages - Suc start < MaxContextMessages
      then (let message = messages ! start in
            if \<not> valid_context_message message then Inl (ConversationError ErrInvalidContext)
            else if textBytes + length (cx_Text message) > MaxContextTextBytes then Inr (Suc start)
            else fixed_start messages start (textBytes + length (cx_Text message)))
      else Inr (Suc start))"

definition FixedContextSuffix :: "context_message list \<Rightarrow> carry_error + context_message list" where
  "FixedContextSuffix messages =
     (if messages = [] then Inl (ConversationError ErrInvalidContext)
      else (case fixed_start messages (length messages) 0 of
              Inl e \<Rightarrow> Inl e
            | Inr start \<Rightarrow> if start = length messages then Inl (ConversationError ErrInvalidContext)
                          else Inr (drop start messages)))"

definition context_bytes :: "context_message list \<Rightarrow> nat" where
  "context_bytes messages = sum_list (map (\<lambda>m. length (cx_Text m)) messages)"

lemma context_bytes_drop:
  "k < length ms \<Longrightarrow> context_bytes (drop k ms) = length (cx_Text (ms ! k)) + context_bytes (drop (Suc k) ms)"
  by (simp add: context_bytes_def Cons_nth_drop_Suc [symmetric])

lemma fixed_start_bounds:
  assumes "fixed_start ms k b = Inr s" "k \<le> length ms" "b = context_bytes (drop k ms)"
    "b \<le> MaxContextTextBytes" "length ms - k \<le> MaxContextMessages"
    "\<forall>m \<in> set (drop k ms). valid_context_message m"
  shows "s \<le> k \<and> context_bytes (drop s ms) \<le> MaxContextTextBytes \<and> length ms - s \<le> MaxContextMessages
    \<and> (\<forall>m \<in> set (drop s ms). valid_context_message m)
    \<and> (s = 0 \<or> length ms - s = MaxContextMessages
        \<or> context_bytes (drop (s - 1) ms) > MaxContextTextBytes)"
  using assms
proof (induction ms k b rule: fixed_start.induct)
  case (1 ms b)
  then show ?case by simp
next
  case (2 ms k b)
  let ?m = "ms ! k"
  have k: "k < length ms" using 2 by simp
  have d: "set (drop k ms) = insert ?m (set (drop (Suc k) ms))"
    using Cons_nth_drop_Suc [OF k] by (metis list.simps(15))
  have cb: "context_bytes (drop k ms) = length (cx_Text ?m) + b"
    using context_bytes_drop [OF k] 2 by simp
  show ?case
  proof (cases "length ms - Suc k < MaxContextMessages \<and> valid_context_message ?m
      \<and> b + length (cx_Text ?m) \<le> MaxContextTextBytes")
    case True
    with 2 have "fixed_start ms k (b + length (cx_Text ?m)) = Inr s" by (simp add: Let_def)
    then have "s \<le> k \<and> context_bytes (drop s ms) \<le> MaxContextTextBytes \<and> length ms - s \<le> MaxContextMessages
      \<and> (\<forall>m \<in> set (drop s ms). valid_context_message m)
      \<and> (s = 0 \<or> length ms - s = MaxContextMessages
          \<or> context_bytes (drop (s - 1) ms) > MaxContextTextBytes)"
      using True "2.prems" k by (intro "2.IH" [of ?m]) (use d cb in linarith | simp add: d cb)+
    then show ?thesis by auto
  next
    case False
    with "2.prems"(1) have s: "s = Suc k" by (auto simp: Let_def split: if_splits)
    have "length ms - s = MaxContextMessages \<or> context_bytes (drop k ms) > MaxContextTextBytes"
      using False "2.prems"(1,5) k s by (auto simp: cb Let_def split: if_splits)
    moreover have "context_bytes (drop (Suc k) ms) \<le> MaxContextTextBytes"
      "\<forall>m \<in> set (drop (Suc k) ms). valid_context_message m"
      using "2.prems"(3,4,6) by simp_all
    ultimately show ?thesis using s "2.prems"(5) by simp
  qed
qed

lemma fixed_start_again:
  assumes "fixed_start ms k b = Inr s" "k \<le> length ms"
  shows "s \<le> k \<and> fixed_start (drop s ms) (k - s) b = Inr 0"
  using assms
proof (induction ms k b rule: fixed_start.induct)
  case (1 ms b)
  then show ?case by simp
next
  case (2 ms k b)
  let ?m = "ms ! k"
  show ?case
  proof (cases "s = Suc k")
    case True
    then show ?thesis by simp
  next
    case False
    then have c: "length ms - Suc k < MaxContextMessages" "valid_context_message ?m"
      "b + length (cx_Text ?m) \<le> MaxContextTextBytes"
      "fixed_start ms k (b + length (cx_Text ?m)) = Inr s"
      using 2 by (auto simp: Let_def split: if_splits)
    then have IH: "s \<le> k" "fixed_start (drop s ms) (k - s) (b + length (cx_Text ?m)) = Inr 0"
      using "2.IH" [of ?m] 2 by auto
    then have "drop s ms ! (k - s) = ?m" "Suc k - s = Suc (k - s)"
      using "2.prems" by auto
    moreover have "length (drop s ms) - Suc (k - s) < MaxContextMessages"
      using c(1) IH(1) by simp
    ultimately show ?thesis using IH c by (simp add: Let_def)
  qed
qed

lemma fixed_start_total:
  assumes "\<forall>m \<in> set ms. valid_context_message m" "k \<le> length ms"
  shows "\<exists>s. fixed_start ms k b = Inr s \<and> s \<le> k"
  using assms
proof (induction ms k b rule: fixed_start.induct)
  case (2 ms k b)
  then have "valid_context_message (ms ! k)" by simp
  with 2 show ?case by (fastforce simp: Let_def)
qed simp

lemma FixedContextSuffix_Inr:
  assumes "FixedContextSuffix ms = Inr fixed"
  shows "\<exists>s. fixed = drop s ms \<and> s < length ms \<and> fixed_start ms (length ms) 0 = Inr s"
proof -
  from assms obtain s where s: "fixed_start ms (length ms) 0 = Inr s" "s \<noteq> length ms" "fixed = drop s ms"
    by (auto simp: FixedContextSuffix_def split: if_splits sum.splits)
  from fixed_start_again [OF s(1)] s(2) have "s < length ms" by auto
  with s show ?thesis by blast
qed

text \<open>
  C15 (functional). The context granted to a Machine is the longest suffix that fits: it is a
  non-empty suffix of whole messages, within 32 messages and 262144 bytes, every message of it
  is valid, and one more message would break a limit or there is none. Cutting it again
  returns it unchanged, which is what \<open>loadFixedReplyContext\<close> relies on.
\<close>

theorem fixed_context_longest_suffix:
  assumes "FixedContextSuffix ms = Inr fixed"
  shows "\<exists>earlier. ms = earlier @ fixed \<and> fixed \<noteq> [] \<and> length fixed \<le> 32
    \<and> context_bytes fixed \<le> 262144 \<and> (\<forall>m \<in> set fixed. valid_context_message m)
    \<and> (earlier = [] \<or> length fixed = 32 \<or> context_bytes (last earlier # fixed) > 262144)
    \<and> FixedContextSuffix fixed = Inr fixed"
proof -
  obtain s where s: "fixed = drop s ms" "s < length ms" "fixed_start ms (length ms) 0 = Inr s"
    using FixedContextSuffix_Inr [OF assms] by blast
  have b: "s \<le> length ms \<and> context_bytes (drop s ms) \<le> MaxContextTextBytes \<and> length ms - s \<le> MaxContextMessages
    \<and> (\<forall>m \<in> set (drop s ms). valid_context_message m)
    \<and> (s = 0 \<or> length ms - s = MaxContextMessages \<or> context_bytes (drop (s - 1) ms) > MaxContextTextBytes)"
    by (rule fixed_start_bounds [OF s(3)]) (auto simp: context_bytes_def)
  have again: "FixedContextSuffix fixed = Inr fixed"
    using fixed_start_again [OF s(3)] s by (auto simp: FixedContextSuffix_def)
  have l: "last (take s ms) # fixed = drop (s - 1) ms" if "s \<noteq> 0"
    using s that by (cases s) (simp_all add: take_Suc_conv_app_nth Cons_nth_drop_Suc)
  show ?thesis
    by (rule exI [of _ "take s ms"])
      (use s b again l in \<open>auto simp: MaxContextTextBytes_def MaxContextMessages_def\<close>)
qed

lemma FixedContextSuffix_total:
  assumes "ms \<noteq> []" "\<forall>m \<in> set ms. valid_context_message m"
  shows "\<exists>fixed. FixedContextSuffix ms = Inr fixed"
proof -
  obtain k where k: "length ms = Suc k" using assms(1) by (cases ms) auto
  then have v: "valid_context_message (ms ! k)" using assms(2) by simp
  then have "length (cx_Text (ms ! k)) \<le> MaxContextTextBytes"
    by (auto simp: valid_context_message_def MaxTextBytes_def MaxContextTextBytes_def)
  with v k have step: "fixed_start ms (length ms) 0 = fixed_start ms k (length (cx_Text (ms ! k)))"
    by (simp add: Let_def MaxContextMessages_def)
  obtain s where "fixed_start ms k (length (cx_Text (ms ! k))) = Inr s" "s \<le> k"
    using fixed_start_total [OF assms(2), of k] k by auto
  with step k assms(1) show ?thesis by (auto simp: FixedContextSuffix_def)
qed

section \<open>Normalisation\<close>

lemma NormalizeText_Inr:
  "NormalizeText s = Inr t \<longleftrightarrow>
     t = trim_space s \<and> t \<noteq> [] \<and> length t \<le> MaxTextBytes \<and> valid_string t \<and> \<not> contains_nul t"
  by (auto simp: NormalizeText_def Let_def)

lemma NormalizeRequestKey_Inr:
  "NormalizeRequestKey s = Inr t \<longleftrightarrow>
     t = trim_space s \<and> t \<noteq> [] \<and> length t \<le> MaxIdempotencyKeyBytes \<and> valid_string t \<and> \<not> contains_nul t"
  by (auto simp: NormalizeRequestKey_def Let_def)

text \<open>A normalised candidate is a fixed point with the same digest: a retry of the normal form is the same request.\<close>

lemma NormalizeReplyCandidate_fixpoint:
  assumes "NormalizeReplyCandidate src c = Inr (c', digest)"
  shows "NormalizeReplyCandidate src c' = Inr (c', digest)"
  using assms
  by (auto simp: NormalizeReplyCandidate_def NormalizeText_def NormalizeGoal_def Let_def
      split: sum.splits option.splits if_splits)

end
