(* ===== verification/Schema.thy ===== *)
theory Schema
  imports Conversation_Rules "HOL-Library.Product_Lexorder" "HOL-Library.Multiset"
begin

text \<open>
  The database (\<open>internal/postgres/migrations\<close>, row types in \<open>dbsqlc/models.go\<close>): one record
  per row, one list per table, and the record \<open>db\<close> of the tables the modelled stores use.
  Nullable columns are options; the text columns that a \<open>CHECK\<close> restricts to a few words are
  datatypes. Identifiers are canonical UUID text, so comparing them as strings orders them as
  PostgreSQL orders UUIDs. \<open>bigint\<close> columns are unbounded integers.
\<close>

section \<open>Rows\<close>

record user_row =
  u_UserID :: uuid
  u_DisplayName :: string
  u_CreatedAt :: timestamp

record space_row =
  sp_SpaceID :: uuid
  sp_Name :: string
  sp_CreatedAt :: timestamp
  sp_CreatedByUserID :: "uuid option"
  sp_CreateIdempotencyKey :: "string option"
  sp_CreateRequestDigest :: "bytes option"
  sp_Slug :: string

record membership_row =
  mb_SpaceID :: uuid
  mb_UserID :: uuid
  mb_CanEnrollMachines :: bool
  mb_Version :: int
  mb_CreatedAt :: timestamp
  mb_RevokedAt :: "timestamp option"
  mb_CanManageMembers :: bool
  mb_RemovedByUserID :: "uuid option"
  mb_RemovalSuccessorUserID :: "uuid option"
  mb_RemovalIdempotencyKey :: "string option"
  mb_RemovalRequestDigest :: "bytes option"

record work_row =
  w_WorkID :: uuid
  w_SpaceID :: uuid
  w_Goal :: string
  w_Lifecycle :: lifecycle
  w_OwnerUserID :: uuid
  w_CreatorUserID :: uuid
  w_InputHeadSeq :: int
  w_CreateIdempotencyKey :: string
  w_CreateRequestDigest :: bytes
  w_CreatedAt :: timestamp
  w_AppliedInputSeq :: int
  w_UnderstandingVersion :: int
  w_Understanding :: "string option"
  w_NextStep :: "string option"

record work_message_row =
  wm_MessageID :: uuid
  wm_WorkID :: uuid
  wm_AuthorUserID :: uuid
  wm_Text :: string
  wm_InputSeq :: int
  wm_IdempotencyKey :: string
  wm_RequestDigest :: bytes
  wm_CreatedAt :: timestamp

record result_check_row =
  rc_ReviewID :: uuid
  rc_WorkID :: uuid
  rc_UnderstandingVersion :: int
  rc_ContentDigest :: bytes
  rc_RequestedAt :: timestamp
  rc_AcceptedByUserID :: "uuid option"
  rc_AcceptIdempotencyKey :: "string option"
  rc_AcceptRequestDigest :: "bytes option"
  rc_AcceptedAt :: "timestamp option"

record run_row =
  r_RunID :: uuid
  r_WorkID :: uuid
  r_InputStartSeq :: int
  r_InputEndSeq :: int
  r_BaseUnderstandingVersion :: int
  r_State :: run_state
  r_CurrentFence :: int
  r_CreatedAt :: timestamp
  r_CompletedAt :: "timestamp option"
  r_RetryRequestedAt :: "timestamp option"
  r_RetryRequestedByUserID :: "uuid option"
  r_RetryIdempotencyKey :: "string option"

record attempt_row =
  at_AttemptID :: uuid
  at_RunID :: uuid
  at_MachineID :: uuid
  at_Fence :: int
  at_State :: run_state
  at_LeaseExpiresAt :: timestamp
  at_ClaimedAt :: timestamp
  at_CompletedAt :: "timestamp option"

record conversation_row =
  cn_ConversationID :: uuid
  cn_SpaceID :: uuid
  cn_MemberUserID :: uuid
  cn_MessageHeadSeq :: int
  cn_CreatedAt :: timestamp

record message_row =
  msg_MessageID :: uuid
  msg_ConversationID :: uuid
  msg_MessageSeq :: int
  msg_Author :: author
  msg_AuthorUserID :: "uuid option"
  msg_Text :: string
  msg_MemberRequestID :: "string option"
  msg_RequestDigest :: "bytes option"
  msg_ReplyToMemberMessageID :: "uuid option"
  msg_CreatedAt :: timestamp

record reply_claim_row =
  k_SourceMessageID :: uuid
  k_ConversationID :: uuid
  k_SourceMessageAuthor :: author
  k_CurrentMachineID :: "uuid option"
  k_CurrentFence :: int
  k_LeaseExpiresAt :: "timestamp option"
  k_ContextStartSeq :: "int option"
  k_ContextEndSeq :: "int option"
  k_OutputDigest :: "bytes option"
  k_CommittedReplyMessageID :: "uuid option"
  k_CommittedReplyAuthor :: "author option"
  k_CreatedWorkID :: "uuid option"

record machine_row =
  m_MachineID :: uuid
  m_SpaceID :: uuid
  m_DisplayName :: string
  m_PublicKeyDer :: bytes
  m_CertificatePem :: bytes
  m_CertificateSerial :: string
  m_EnrolledByUserID :: uuid
  m_EnrolledAt :: timestamp
  m_RevokedAt :: "timestamp option"
  m_RevocationActorKind :: "string option"
  m_RevokedByUserID :: "uuid option"
  m_RevocationIdempotencyKey :: "string option"
  m_RevocationRequestDigest :: "bytes option"
  m_AgentReportRevision :: int
  m_AgentReportedAt :: "timestamp option"
  m_LastAgentReportID :: "uuid option"
  m_LastAgentReportDigest :: "bytes option"
  m_LastUnsupportedKeys :: "string list"
  m_LastSetupRequiredKeys :: "string list"

record agent_row =
  ag_AgentID :: uuid
  ag_SpaceID :: uuid
  ag_MachineID :: uuid
  ag_OwnerUserID :: uuid
  ag_AdapterKey :: string
  ag_OccurrenceKey :: string
  ag_Name :: string
  ag_NameKey :: string
  ag_CreatedAt :: timestamp
  ag_RemovedAt :: "timestamp option"

record presence_row =
  pr_AgentID :: uuid
  pr_Present :: bool
  pr_LastPresentAt :: "timestamp option"

record invitation_row =
  iv_InvitationID :: uuid
  iv_SpaceID :: uuid
  iv_RecipientEmail :: string
  iv_InviterUserID :: uuid
  iv_CanManageMembers :: bool
  iv_CanEnrollMachines :: bool
  iv_IssueIdempotencyKey :: string
  iv_IssueRequestDigest :: bytes
  iv_CreatedAt :: timestamp
  iv_ExpiresAt :: timestamp
  iv_AcceptedByUserID :: "uuid option"
  iv_AcceptedAt :: "timestamp option"
  iv_AcceptResult :: "string option"
  iv_AcceptIdempotencyKey :: "string option"
  iv_AcceptRequestDigest :: "bytes option"
  iv_RevokedByUserID :: "uuid option"
  iv_RevokedAt :: "timestamp option"
  iv_RevokeIdempotencyKey :: "string option"
  iv_RevokeRequestDigest :: "bytes option"

record submission_row =
  sb_SubmissionID :: uuid
  sb_InvitationID :: uuid
  sb_RequestedByUserID :: uuid
  sb_IdempotencyKey :: string
  sb_RequestDigest :: bytes
  sb_RecipientEmail :: string
  sb_PayloadDigest :: bytes
  sb_ProviderIdempotencyKey :: string
  sb_State :: string
  sb_ProviderMessageID :: "string option"
  sb_CreatedAt :: timestamp
  sb_RecordedAt :: "timestamp option"

record email_identity_row =
  ei_CanonicalEmail :: string
  ei_UserID :: uuid
  ei_VerifiedAt :: timestamp

record session_row =
  bs_UserID :: uuid
  bs_CreatedAt :: timestamp
  bs_ExpiresAt :: timestamp
  bs_RevokedAt :: "timestamp option"
  bs_SessionID :: uuid
  bs_IdentityProvedAt :: timestamp
  bs_IdentityProofMethod :: string

record connection_row =
  mc_RequestID :: uuid
  mc_BeginIdempotencyKey :: string
  mc_BeginRequestDigest :: bytes
  mc_SourceDigest :: bytes
  mc_UserCodeDigest :: bytes
  mc_PollSecretDigest :: bytes
  mc_DisplayName :: string
  mc_PublicKeyDer :: bytes
  mc_KeyProof :: bytes
  mc_CreatedAt :: timestamp
  mc_ExpiresAt :: timestamp
  mc_LastPolledAt :: "timestamp option"
  mc_PollIntervalSeconds :: int
  mc_Decision :: "string option"
  mc_DecidedAt :: "timestamp option"
  mc_DecidedByUserID :: "uuid option"
  mc_DecidedSpaceID :: "uuid option"
  mc_DecisionIdempotencyKey :: "string option"
  mc_DecisionRequestDigest :: "bytes option"
  mc_PreparedMachineID :: "uuid option"
  mc_CancelledAt :: "timestamp option"
  mc_ResultingMachineID :: "uuid option"
  mc_RedeemedAt :: "timestamp option"
  mc_ReplayUntil :: "timestamp option"

record lookup_failure_row =
  lf_FailureID :: uuid
  lf_BrowserSessionID :: uuid
  lf_SourceDigest :: bytes
  lf_CreatedAt :: timestamp

record cli_credential_row =
  cc_CredentialID :: uuid
  cc_LoginRequestID :: uuid
  cc_UserID :: uuid
  cc_Label :: string
  cc_CreatedAt :: timestamp
  cc_ExpiresAt :: timestamp
  cc_RevokedAt :: "timestamp option"
  cc_RevokedByUserID :: "uuid option"
  cc_RevocationIdempotencyKey :: "string option"
  cc_RevocationRequestDigest :: "bytes option"

record cli_failure_row =
  cf_FailureID :: uuid
  cf_BrowserSessionID :: uuid
  cf_SourceDigest :: bytes
  cf_CreatedAt :: timestamp

record cli_request_row =
  cq_RequestID :: uuid
  cq_BeginIdempotencyKey :: string
  cq_BeginRequestDigest :: bytes
  cq_UserCodeDigest :: bytes
  cq_CodeGeneration :: int
  cq_SourceDigest :: bytes
  cq_Label :: string
  cq_ProposedReplacementCredentialID :: "uuid option"
  cq_CreatedAt :: timestamp
  cq_ExpiresAt :: timestamp
  cq_LastPolledAt :: "timestamp option"
  cq_PollIntervalSeconds :: int
  cq_ApprovedAt :: "timestamp option"
  cq_ApprovedByUserID :: "uuid option"
  cq_ApprovedSpaceID :: "uuid option"
  cq_ApprovalIdempotencyKey :: "string option"
  cq_ApprovalRequestDigest :: "bytes option"
  cq_PreparedCredentialID :: "uuid option"
  cq_DeniedAt :: "timestamp option"
  cq_DeniedByUserID :: "uuid option"
  cq_DenialIdempotencyKey :: "string option"
  cq_DenialRequestDigest :: "bytes option"
  cq_CancelledAt :: "timestamp option"
  cq_ResultingCredentialID :: "uuid option"
  cq_RedeemedAt :: "timestamp option"
  cq_ReplayUntil :: "timestamp option"

record email_attempt_row =
  ea_ChallengeID :: uuid
  ea_IdempotencyKey :: string
  ea_RequestDigest :: bytes
  ea_Result :: string
  ea_CreatedAt :: timestamp

record email_challenge_row =
  ec_ChallengeID :: uuid
  ec_CanonicalEmail :: string
  ec_CodeDigest :: bytes
  ec_SourceDigest :: bytes
  ec_PayloadDigest :: bytes
  ec_RequestIdempotencyKey :: string
  ec_RequestDigest :: bytes
  ec_SubmissionState :: string
  ec_ProviderMessageID :: "string option"
  ec_AttemptsUsed :: int
  ec_CreatedAt :: timestamp
  ec_ExpiresAt :: timestamp
  ec_InvalidatedAt :: "timestamp option"
  ec_ConsumedAt :: "timestamp option"
  ec_UserID :: "uuid option"
  ec_BrowserSessionID :: "uuid option"
  ec_Purpose :: string
  ec_TargetUserID :: "uuid option"
  ec_InitiatingSessionID :: "uuid option"

record external_transaction_row =
  et_TransactionID :: uuid
  et_Provider :: string
  et_Status :: string
  et_CallbackDigest :: "bytes option"
  et_CreatedAt :: timestamp
  et_ExpiresAt :: timestamp
  et_CompletedAt :: "timestamp option"
  et_UserID :: "uuid option"
  et_BrowserSessionID :: "uuid option"
  et_Purpose :: string
  et_TargetUserID :: "uuid option"
  et_InitiatingSessionID :: "uuid option"
  et_InvitationID :: "uuid option"
  et_SourceDigest :: "bytes option"

record github_identity_row =
  gh_GithubUserID :: int
  gh_UserID :: uuid
  gh_VerifiedAt :: timestamp

record google_identity_row =
  gg_Issuer :: string
  gg_Subject :: string
  gg_UserID :: uuid
  gg_VerifiedAt :: timestamp

record unlink_row =
  ul_UserID :: uuid
  ul_InitiatingSessionID :: uuid
  ul_Method :: string
  ul_IdempotencyKey :: string
  ul_RequestDigest :: bytes
  ul_ReplacementSessionID :: uuid
  ul_CompletedAt :: timestamp

section \<open>The database\<close>

record db =
  carry_users :: "user_row list"
  spaces :: "space_row list"
  memberships :: "membership_row list"
  works :: "work_row list"
  work_messages :: "work_message_row list"
  work_result_checks :: "result_check_row list"
  runs :: "run_row list"
  run_attempts :: "attempt_row list"
  conversations :: "conversation_row list"
  conversation_messages :: "message_row list"
  conversation_reply_claims :: "reply_claim_row list"
  machines :: "machine_row list"
  agents :: "agent_row list"
  agent_presence :: "presence_row list"
  space_invitations :: "invitation_row list"
  space_invitation_submissions :: "submission_row list"
  email_identities :: "email_identity_row list"
  browser_sessions :: "session_row list"
  machine_connection_requests :: "connection_row list"
  machine_connection_lookup_failures :: "lookup_failure_row list"
  cli_credentials :: "cli_credential_row list"
  cli_login_lookup_failures :: "cli_failure_row list"
  cli_login_requests :: "cli_request_row list"
  email_login_attempts :: "email_attempt_row list"
  email_login_challenges :: "email_challenge_row list"
  external_login_transactions :: "external_transaction_row list"
  github_identities :: "github_identity_row list"
  google_identities :: "google_identity_row list"
  identity_method_unlinks :: "unlink_row list"

definition empty_db :: db where
  "empty_db = \<lparr>carry_users = [], spaces = [], memberships = [], works = [], work_messages = [],
     work_result_checks = [], runs = [], run_attempts = [], conversations = [],
     conversation_messages = [], conversation_reply_claims = [], machines = [], agents = [],
     agent_presence = [], space_invitations = [], space_invitation_submissions = [], email_identities = [],
     browser_sessions = [], machine_connection_requests = [], machine_connection_lookup_failures = [],
     cli_credentials = [],
     cli_login_lookup_failures = [],
     cli_login_requests = [],
     email_login_attempts = [],
     email_login_challenges = [],
     external_login_transactions = [],
     github_identities = [],
     google_identities = [],
     identity_method_unlinks = []\<rparr>"

section \<open>Rows by their primary keys\<close>

definition user_of :: "uuid \<Rightarrow> db \<Rightarrow> user_row option" where
  "user_of i d = first_where (\<lambda>u. u_UserID u = i) (carry_users d)"

definition work_of :: "uuid \<Rightarrow> db \<Rightarrow> work_row option" where
  "work_of i d = first_where (\<lambda>w. w_WorkID w = i) (works d)"

definition run_of :: "uuid \<Rightarrow> db \<Rightarrow> run_row option" where
  "run_of i d = first_where (\<lambda>r. r_RunID r = i) (runs d)"

definition attempt_of :: "uuid \<Rightarrow> db \<Rightarrow> attempt_row option" where
  "attempt_of i d = first_where (\<lambda>a. at_AttemptID a = i) (run_attempts d)"

definition machine_of :: "uuid \<Rightarrow> db \<Rightarrow> machine_row option" where
  "machine_of i d = first_where (\<lambda>m. m_MachineID m = i) (machines d)"

section \<open>ORDER BY\<close>

definition order_by :: "('r \<Rightarrow> 'k::linorder) \<Rightarrow> 'r list \<Rightarrow> 'r list" where
  "order_by k t = sort_key k t"

definition order_by_desc :: "('r \<Rightarrow> 'k::linorder) \<Rightarrow> 'r list \<Rightarrow> 'r list" where
  "order_by_desc k t = rev (sort_key k t)"

definition first_row :: "'r list \<Rightarrow> 'r option" where
  "first_row t = (case t of [] \<Rightarrow> None | r # _ \<Rightarrow> Some r)"

lemma set_order_by [simp]: "set (order_by k t) = set t" "set (order_by_desc k t) = set t"
  by (simp_all add: order_by_def order_by_desc_def)

lemma length_order_by [simp]: "length (order_by k t) = length t" "length (order_by_desc k t) = length t"
  by (simp_all add: order_by_def order_by_desc_def)

lemma order_by_empty [simp]: "order_by k t = [] \<longleftrightarrow> t = []"
  by (metis length_0_conv length_order_by(1))

lemma sorted_order_by: "sorted (map k (order_by k t))"
  by (simp add: order_by_def)

lemma first_row_in: "first_row t = Some r \<Longrightarrow> r \<in> set t"
  by (cases t) (auto simp: first_row_def)

lemma first_row_None [simp]: "first_row t = None \<longleftrightarrow> t = []"
  by (cases t) (auto simp: first_row_def)

text \<open>The first row in an order is minimal in it.\<close>

lemma first_row_least:
  assumes "first_row (order_by k t) = Some r" "s \<in> set t"
  shows "k r \<le> k s"
proof -
  obtain u where u: "order_by k t = r # u"
    using assms(1) by (cases "order_by k t") (auto simp: first_row_def)
  then have "s \<in> set (r # u)" using assms(2) by (metis set_order_by(1))
  moreover have "sorted (map k (r # u))" using sorted_order_by [of k t] u by simp
  ultimately show ?thesis by auto
qed

section \<open>Text columns\<close>

definition textValue :: "string option \<Rightarrow> string" where
  "textValue v = (case v of None \<Rightarrow> [] | Some s \<Rightarrow> s)"

definition state_in_failed_unknown :: "run_state \<Rightarrow> bool" where
  "state_in_failed_unknown s \<longleftrightarrow> s = StateFailed \<or> s = StateUnknown"

text \<open>The predicate of the partial unique index \<open>runs_unresolved_work_idx\<close>.\<close>

definition unresolved :: "run_row \<Rightarrow> bool" where
  "unresolved r \<longleftrightarrow> r_State r = StateActive
     \<or> (state_in_failed_unknown (r_State r) \<and> r_RetryRequestedAt r = None)"

text \<open>The \<open>needs_retry\<close> and \<open>needs_review\<close> columns that every Work query computes.\<close>

definition needs_retry :: "db \<Rightarrow> work_row \<Rightarrow> bool" where
  "needs_retry d w \<longleftrightarrow> exists_where
     (\<lambda>r. r_WorkID r = w_WorkID w \<and> state_in_failed_unknown (r_State r) \<and> r_RetryRequestedAt r = None) (runs d)"

definition current_check :: "work_row \<Rightarrow> result_check_row \<Rightarrow> bool" where
  "current_check w c \<longleftrightarrow> rc_WorkID c = w_WorkID w \<and> rc_UnderstandingVersion c = w_UnderstandingVersion w
     \<and> rc_AcceptedAt c = None \<and> w_AppliedInputSeq w = w_InputHeadSeq w"

definition needs_review :: "db \<Rightarrow> work_row \<Rightarrow> bool" where
  "needs_review d w \<longleftrightarrow> exists_where (current_check w) (work_result_checks d)"

section \<open>The membership guard\<close>

definition active_membership :: "uuid \<Rightarrow> uuid \<Rightarrow> membership_row \<Rightarrow> bool" where
  "active_membership spaceID userID m \<longleftrightarrow>
     mb_SpaceID m = spaceID \<and> mb_UserID m = userID \<and> mb_RevokedAt m = None"

definition is_member :: "uuid \<Rightarrow> uuid \<Rightarrow> db \<Rightarrow> bool" where
  "is_member spaceID userID d \<longleftrightarrow> exists_where (active_membership spaceID userID) (memberships d)"

definition sql_LockActiveWorkMembership :: "uuid \<Rightarrow> uuid \<Rightarrow> db \<Rightarrow> int option" where
  "sql_LockActiveWorkMembership spaceID userID d =
     map_option mb_Version (first_where (active_membership spaceID userID) (memberships d))"

definition lockActiveWorkMembership :: "uuid \<Rightarrow> uuid \<Rightarrow> (db, int) tx" where
  "lockActiveWorkMembership spaceID userID =
     query_one (SpaceError ErrForbidden) (\<lambda>E now d. sql_LockActiveWorkMembership spaceID userID d)"

lemma lockActiveWorkMembership_Inr [tx_simps]:
  "lockActiveWorkMembership s u E d n = Inr (x, d', n') \<longleftrightarrow>
     \<not> fault E n \<and> sql_LockActiveWorkMembership s u d = Some x \<and> d' = d \<and> n' = Suc n"
  by (auto simp: lockActiveWorkMembership_def tx_simps)

lemma sql_LockActiveWorkMembership_iff:
  "(\<exists>v. sql_LockActiveWorkMembership s u d = Some v) \<longleftrightarrow> is_member s u d"
  by (auto simp: sql_LockActiveWorkMembership_def is_member_def exists_where_iff
      dest: first_where_Some first_where_ex)

lemma sql_LockActiveWorkMembership_None [simp]:
  "sql_LockActiveWorkMembership s u d = None \<longleftrightarrow> \<not> is_member s u d"
  by (auto simp: sql_LockActiveWorkMembership_def is_member_def exists_where_iff first_where_None)

end
