(* ===== verification/Work_Store.thy ===== *)
theory Work_Store
  imports Schema
begin

text \<open>
  The Work store: \<open>internal/postgres/work.go\<close>, \<open>RequestWorkRetry\<close> of \<open>internal/postgres/run.go\<close>
  and their queries (\<open>queries/work.sql\<close>, the end of \<open>queries/run.sql\<close>). Every query is a
  definition \<open>sql_...\<close> on the database, every method a pre-check followed by one transaction.
  The lemmas give the effect of each successful body on the tables.
\<close>

section \<open>Views\<close>

definition display_names :: "db \<Rightarrow> work_row \<Rightarrow> (string \<times> string) option" where
  "display_names d w =
     (case (user_of (w_OwnerUserID w) d, user_of (w_CreatorUserID w) d) of
        (Some owner, Some creator) \<Rightarrow> Some (u_DisplayName owner, u_DisplayName creator)
      | _ \<Rightarrow> None)"

definition workFromCreateRow :: "work_row \<times> string \<times> string \<Rightarrow> work_view" where
  "workFromCreateRow = (\<lambda>(w, owner, creator).
     \<lparr>vw_WorkID = w_WorkID w, vw_SpaceID = w_SpaceID w, vw_Goal = w_Goal w, vw_Lifecycle = w_Lifecycle w,
      vw_OwnerUserID = w_OwnerUserID w, vw_OwnerDisplayName = owner,
      vw_CreatorUserID = w_CreatorUserID w, vw_CreatorDisplayName = creator,
      vw_Understanding = textValue (w_Understanding w), vw_NextStep = textValue (w_NextStep w),
      vw_HasUnappliedInput = w_AppliedInputSeq w < w_InputHeadSeq w,
      vw_NeedsRetry = False, vw_NeedsReview = False, vw_ReviewID = [], vw_CreatedAt = w_CreatedAt w\<rparr>)"

text \<open>\<open>FindWorkByCreateIdempotency\<close> and \<open>LoadWork\<close> select these columns beside the Work's own.\<close>

definition workFromIdempotencyRow :: "db \<Rightarrow> work_row \<times> string \<times> string \<Rightarrow> work_view" where
  "workFromIdempotencyRow d = (\<lambda>(w, owner, creator).
     workFromCreateRow (w, owner, creator)
       \<lparr>vw_NeedsRetry := needs_retry d w, vw_NeedsReview := needs_review d w\<rparr>)"

definition workFromLoadRow :: "db \<Rightarrow> work_row \<times> string \<times> string \<Rightarrow> work_view" where
  "workFromLoadRow d = (\<lambda>(w, owner, creator).
     workFromIdempotencyRow d (w, owner, creator)
       \<lparr>vw_ReviewID := (case first_where (current_check w) (work_result_checks d) of
                         None \<Rightarrow> [] | Some c \<Rightarrow> rc_ReviewID c)\<rparr>)"

definition summaryFromRow :: "db \<Rightarrow> work_row \<times> string \<times> string \<Rightarrow> summary" where
  "summaryFromRow d = (\<lambda>(w, owner, creator).
     \<lparr>su_WorkID = w_WorkID w, su_SpaceID = w_SpaceID w, su_Goal = w_Goal w, su_Lifecycle = w_Lifecycle w,
      su_OwnerUserID = w_OwnerUserID w, su_OwnerDisplayName = owner,
      su_CreatorUserID = w_CreatorUserID w, su_CreatorDisplayName = creator,
      su_HasUnappliedInput = w_AppliedInputSeq w < w_InputHeadSeq w,
      su_NeedsRetry = needs_retry d w, su_NeedsReview = needs_review d w, su_CreatedAt = w_CreatedAt w\<rparr>)"

definition joined_work :: "db \<Rightarrow> work_row option \<Rightarrow> (work_row \<times> string \<times> string) option" where
  "joined_work d r = (case r of None \<Rightarrow> None | Some w \<Rightarrow> map_option (\<lambda>(o', c). (w, o', c)) (display_names d w))"

section \<open>Creating a Work\<close>

definition new_work :: "env \<Rightarrow> uuid \<Rightarrow> uuid \<Rightarrow> string \<Rightarrow> uuid \<Rightarrow> uuid \<Rightarrow> string \<Rightarrow> bytes \<Rightarrow> work_row" where
  "new_work E workID spaceID goal owner creator key digest =
     \<lparr>w_WorkID = workID, w_SpaceID = spaceID, w_Goal = goal, w_Lifecycle = LifecycleOpen,
      w_OwnerUserID = owner, w_CreatorUserID = creator, w_InputHeadSeq = 1,
      w_CreateIdempotencyKey = key, w_CreateRequestDigest = digest, w_CreatedAt = tx_time E,
      w_AppliedInputSeq = 0, w_UnderstandingVersion = 0, w_Understanding = None, w_NextStep = None\<rparr>"

definition create_key :: "work_row \<Rightarrow> uuid \<times> uuid \<times> string" where
  "create_key w = (w_SpaceID w, w_CreatorUserID w, w_CreateIdempotencyKey w)"

text \<open>\<open>INSERT ... ON CONFLICT DO NOTHING RETURNING\<close>, joined with the users: no row on a conflict.\<close>

definition sql_CreateWork :: "work_row \<Rightarrow> db \<Rightarrow> db_error + ((work_row \<times> string \<times> string) option \<times> db)" where
  "sql_CreateWork w d =
     (if key_taken create_key (\<lambda>_. True) (create_key w) (works d) then Inr (None, d)
      else if key_taken w_WorkID (\<lambda>_. True) (w_WorkID w) (works d) then Inl (Unique_violation ''works_pkey'')
      else let d' = d\<lparr>works := works d @ [w]\<rparr> in Inr (joined_work d' (Some w), d'))"

definition sql_FindWorkByCreateIdempotency ::
    "uuid \<Rightarrow> uuid \<Rightarrow> string \<Rightarrow> db \<Rightarrow> (work_row \<times> string \<times> string) option" where
  "sql_FindWorkByCreateIdempotency spaceID creatorUserID key d =
     joined_work d (first_where (\<lambda>w. create_key w = (spaceID, creatorUserID, key)) (works d))"

definition CreateWork_tx :: "create_command \<Rightarrow> string \<Rightarrow> string \<Rightarrow> bytes \<Rightarrow> (db, work_view) tx" where
  "CreateWork_tx command goal idempotencyKey digest =
     bind_tx (lockActiveWorkMembership (cr_SpaceID command) (cr_CreatorUserID command)) (\<lambda>_.
     bind_tx (insert_row (\<lambda>E now. sql_CreateWork (new_work E (fresh E 0) (cr_SpaceID command) goal
         (cr_CreatorUserID command) (cr_CreatorUserID command) idempotencyKey digest))) (\<lambda>row.
     case row of
       Some created \<Rightarrow> ret (workFromCreateRow created)
     | None \<Rightarrow>
         bind_tx (query_one (DatabaseError No_rows) (\<lambda>E now d.
             map_option (\<lambda>r. (fst r, workFromIdempotencyRow d r))
               (sql_FindWorkByCreateIdempotency (cr_SpaceID command) (cr_CreatorUserID command) idempotencyKey d)))
           (\<lambda>(existing, view).
             if w_CreateRequestDigest existing \<noteq> digest then fail (WorkError ErrIdempotencyConflict)
             else ret view)))"

definition CreateWork :: "create_command \<Rightarrow> env \<Rightarrow> db \<Rightarrow> (carry_error + work_view) \<times> db" where
  "CreateWork command =
     checked (NormalizeGoal (cr_Goal command)) (\<lambda>goal.
     checked (guard (trim_space (cr_SpaceID command) \<noteq> [] \<and> trim_space (cr_CreatorUserID command) \<noteq> [])
       MissingArgument) (\<lambda>_.
     checked (NormalizeIdempotencyKey (cr_IdempotencyKey command)) (\<lambda>idempotencyKey.
     transact (CreateWork_tx command goal idempotencyKey
       (CreateDigest (cr_SpaceID command) (cr_CreatorUserID command) goal)))))"

section \<open>Listing and loading\<close>

definition needs_you :: "db \<Rightarrow> uuid \<Rightarrow> work_row \<Rightarrow> bool" where
  "needs_you d userID w \<longleftrightarrow> w_OwnerUserID w = userID \<and> (needs_retry d w \<or> needs_review d w)"

definition created_order :: "work_row \<Rightarrow> timestamp \<times> uuid" where
  "created_order w = (w_CreatedAt w, w_WorkID w)"

definition joined_works :: "db \<Rightarrow> work_row list \<Rightarrow> (work_row \<times> string \<times> string) list" where
  "joined_works d ws = List.map_filter (\<lambda>w. joined_work d (Some w)) ws"

definition sql_ListNewestWorks :: "uuid \<Rightarrow> uuid \<Rightarrow> bool \<Rightarrow> db \<Rightarrow> (work_row \<times> string \<times> string) list" where
  "sql_ListNewestWorks spaceID userID needsYou d =
     take 51 (joined_works d (order_by_desc created_order
       (filter (\<lambda>w. w_SpaceID w = spaceID \<and> (\<not> needsYou \<or> needs_you d userID w)) (works d))))"

definition sql_ListWorksBefore ::
    "uuid \<Rightarrow> uuid \<Rightarrow> bool \<Rightarrow> timestamp \<times> uuid \<Rightarrow> db \<Rightarrow> (work_row \<times> string \<times> string) list" where
  "sql_ListWorksBefore spaceID userID needsYou cursor d =
     take 51 (joined_works d (order_by_desc created_order
       (filter (\<lambda>w. w_SpaceID w = spaceID \<and> (\<not> needsYou \<or> needs_you d userID w)
                  \<and> created_order w < cursor) (works d))))"

definition sql_WorkListCursor :: "uuid \<Rightarrow> uuid \<Rightarrow> db \<Rightarrow> (timestamp \<times> uuid) option" where
  "sql_WorkListCursor spaceID workID d =
     map_option created_order (first_where (\<lambda>w. w_SpaceID w = spaceID \<and> w_WorkID w = workID) (works d))"

definition page_of :: "summary list \<Rightarrow> work_page" where
  "page_of summaries =
     (if length summaries > ListPageSize
      then \<lparr>pg_Works = take ListPageSize summaries, pg_HasEarlier = True\<rparr>
      else \<lparr>pg_Works = summaries, pg_HasEarlier = False\<rparr>)"

definition ListWorks :: "list_command \<Rightarrow> env \<Rightarrow> db \<Rightarrow> (carry_error + work_page) \<times> db" where
  "ListWorks command = transact
     (bind_tx (lockActiveWorkMembership (li_SpaceID command) (li_UserID command)) (\<lambda>_.
      bind_tx
       (if li_Before command = []
        then query (\<lambda>E now d. map (summaryFromRow d)
               (sql_ListNewestWorks (li_SpaceID command) (li_UserID command) (li_NeedsYou command) d))
        else bind_tx (query_one (WorkError ErrInvalidCursor)
                (\<lambda>E now. sql_WorkListCursor (li_SpaceID command) (li_Before command))) (\<lambda>cursor.
             query (\<lambda>E now d. map (summaryFromRow d)
               (sql_ListWorksBefore (li_SpaceID command) (li_UserID command) (li_NeedsYou command) cursor d))))
       (\<lambda>summaries. ret (page_of summaries))))"

text \<open>The window sum of \<open>octet_length(text)\<close> and the filter on it: the longest prefix within a budget.\<close>

fun take_bytes :: "('r \<Rightarrow> string) \<Rightarrow> nat \<Rightarrow> 'r list \<Rightarrow> 'r list" where
  "take_bytes t budget [] = []"
| "take_bytes t budget (r # rs) =
     (if length (t r) \<le> budget then r # take_bytes t (budget - length (t r)) rs else [])"

definition messageFromRow :: "db \<Rightarrow> work_message_row \<Rightarrow> message_view option" where
  "messageFromRow d m = map_option (\<lambda>u.
     \<lparr>mv_MessageID = wm_MessageID m, mv_WorkID = wm_WorkID m, mv_AuthorUserID = wm_AuthorUserID m,
      mv_AuthorDisplayName = u_DisplayName u, mv_Text = wm_Text m, mv_InputSeq = wm_InputSeq m,
      mv_CreatedAt = wm_CreatedAt m\<rparr>) (user_of (wm_AuthorUserID m) d)"

text \<open>Both message pages: the 50 newest of the candidates, the newest ones within the byte budget, oldest first.\<close>

definition bounded_messages :: "db \<Rightarrow> work_message_row list \<Rightarrow> message_view list" where
  "bounded_messages d candidates =
     List.map_filter (messageFromRow d)
       (order_by wm_InputSeq (take_bytes wm_Text 262144 (take 50 (order_by_desc wm_InputSeq candidates))))"

definition sql_ListNewestWorkMessages :: "uuid \<Rightarrow> db \<Rightarrow> message_view list" where
  "sql_ListNewestWorkMessages workID d =
     bounded_messages d (filter (\<lambda>m. wm_WorkID m = workID) (work_messages d))"

definition sql_ListWorkMessagesBefore :: "uuid \<Rightarrow> int \<Rightarrow> db \<Rightarrow> message_view list" where
  "sql_ListWorkMessagesBefore workID cursorSequence d =
     bounded_messages d (filter (\<lambda>m. wm_WorkID m = workID \<and> wm_InputSeq m < cursorSequence) (work_messages d))"

definition sql_WorkMessageCursorSequence :: "uuid \<Rightarrow> uuid \<Rightarrow> db \<Rightarrow> int option" where
  "sql_WorkMessageCursorSequence workID messageID d = map_option wm_InputSeq
     (first_where (\<lambda>m. wm_WorkID m = workID \<and> wm_MessageID m = messageID) (work_messages d))"

definition sql_WorkHasMessagesBefore :: "uuid \<Rightarrow> int \<Rightarrow> db \<Rightarrow> bool" where
  "sql_WorkHasMessagesBefore workID inputSeq d =
     exists_where (\<lambda>m. wm_WorkID m = workID \<and> wm_InputSeq m < inputSeq) (work_messages d)"

definition sql_LoadWork :: "uuid \<Rightarrow> uuid \<Rightarrow> db \<Rightarrow> work_view option" where
  "sql_LoadWork spaceID workID d = map_option (workFromLoadRow d)
     (joined_work d (first_where (\<lambda>w. w_SpaceID w = spaceID \<and> w_WorkID w = workID) (works d)))"

definition LoadWork :: "load_command \<Rightarrow> env \<Rightarrow> db \<Rightarrow> (carry_error + details) \<times> db" where
  "LoadWork command = transact
     (bind_tx (lockActiveWorkMembership (lo_SpaceID command) (lo_UserID command)) (\<lambda>_.
      bind_tx (query_one (WorkError ErrNotFound)
        (\<lambda>E now. sql_LoadWork (lo_SpaceID command) (lo_WorkID command))) (\<lambda>row.
      bind_tx
       (if lo_BeforeMessage command = []
        then query (\<lambda>E now. sql_ListNewestWorkMessages (lo_WorkID command))
        else bind_tx (query_one (WorkError ErrInvalidCursor)
               (\<lambda>E now. sql_WorkMessageCursorSequence (lo_WorkID command) (lo_BeforeMessage command)))
               (\<lambda>cursorSequence. query (\<lambda>E now. sql_ListWorkMessagesBefore (lo_WorkID command) cursorSequence)))
       (\<lambda>messages.
      bind_tx
       (case messages of
          [] \<Rightarrow> ret False
        | m # _ \<Rightarrow> query (\<lambda>E now. sql_WorkHasMessagesBefore (lo_WorkID command) (mv_InputSeq m)))
       (\<lambda>hasEarlier.
      ret \<lparr>de_Work = row, de_Messages = messages, de_HasEarlierMessages = hasEarlier\<rparr>)))))"

section \<open>Appending a message\<close>

definition sql_LockWork :: "uuid \<Rightarrow> uuid \<Rightarrow> db \<Rightarrow> work_row option" where
  "sql_LockWork spaceID workID d =
     first_where (\<lambda>w. w_SpaceID w = spaceID \<and> w_WorkID w = workID) (works d)"

definition sql_FindWorkMessageByIdempotency :: "uuid \<Rightarrow> uuid \<Rightarrow> string \<Rightarrow> db \<Rightarrow> (bytes \<times> message_view) option" where
  "sql_FindWorkMessageByIdempotency workID authorUserID key d =
     (case first_where (\<lambda>m. wm_WorkID m = workID \<and> wm_AuthorUserID m = authorUserID
                          \<and> wm_IdempotencyKey m = key) (work_messages d) of
        None \<Rightarrow> None
      | Some m \<Rightarrow> map_option (\<lambda>v. (wm_RequestDigest m, v)) (messageFromRow d m))"

definition sql_AdvanceWorkInputHead :: "uuid \<Rightarrow> db \<Rightarrow> int option \<times> db" where
  "sql_AdvanceWorkInputHead workID d =
     (let P = (\<lambda>w. w_WorkID w = workID \<and> w_Lifecycle w = LifecycleOpen);
          f = (\<lambda>w. w\<lparr>w_InputHeadSeq := w_InputHeadSeq w + 1\<rparr>)
      in (map_option (\<lambda>w. w_InputHeadSeq (f w)) (first_where P (works d)),
          d\<lparr>works := update_where P f (works d)\<rparr>))"

definition new_message :: "env \<Rightarrow> append_command \<Rightarrow> int \<Rightarrow> string \<Rightarrow> bytes \<Rightarrow> work_message_row" where
  "new_message E command inputSeq key digest =
     \<lparr>wm_MessageID = fresh E 0, wm_WorkID = ap_WorkID command, wm_AuthorUserID = ap_AuthorUserID command,
      wm_Text = ap_Text command, wm_InputSeq = inputSeq, wm_IdempotencyKey = key,
      wm_RequestDigest = digest, wm_CreatedAt = tx_time E\<rparr>"

definition message_key :: "work_message_row \<Rightarrow> uuid \<times> uuid \<times> string" where
  "message_key m = (wm_WorkID m, wm_AuthorUserID m, wm_IdempotencyKey m)"

definition message_slot :: "work_message_row \<Rightarrow> uuid \<times> int" where
  "message_slot m = (wm_WorkID m, wm_InputSeq m)"

text \<open>\<open>INSERT ... RETURNING\<close> joined with the author; a missing author leaves no row (\<open>pgx.ErrNoRows\<close>).\<close>

definition sql_CreateWorkMessage :: "work_message_row \<Rightarrow> db \<Rightarrow> db_error + (message_view \<times> db)" where
  "sql_CreateWorkMessage m d =
     (if key_taken wm_MessageID (\<lambda>_. True) (wm_MessageID m) (work_messages d)
      then Inl (Unique_violation ''work_messages_pkey'')
      else if key_taken message_slot (\<lambda>_. True) (message_slot m) (work_messages d)
      then Inl (Unique_violation ''work_messages_work_id_input_seq_key'')
      else if key_taken message_key (\<lambda>_. True) (message_key m) (work_messages d)
      then Inl (Unique_violation ''work_messages_work_id_author_user_id_idempotency_key_key'')
      else (case messageFromRow d m of
              None \<Rightarrow> Inl No_rows
            | Some v \<Rightarrow> Inr (v, d\<lparr>work_messages := work_messages d @ [m]\<rparr>)))"

definition AppendWorkMessage_tx :: "append_command \<Rightarrow> string \<Rightarrow> bytes \<Rightarrow> (db, message_view) tx" where
  "AppendWorkMessage_tx command idempotencyKey digest =
     bind_tx (lockActiveWorkMembership (ap_SpaceID command) (ap_AuthorUserID command)) (\<lambda>_.
     bind_tx (query_one (WorkError ErrNotFound)
       (\<lambda>E now. sql_LockWork (ap_SpaceID command) (ap_WorkID command))) (\<lambda>locked.
     bind_tx (query (\<lambda>E now. sql_FindWorkMessageByIdempotency (ap_WorkID command)
         (ap_AuthorUserID command) idempotencyKey)) (\<lambda>existing.
     case existing of
       Some (requestDigest, view) \<Rightarrow>
         if requestDigest \<noteq> digest then fail (WorkError ErrIdempotencyConflict) else ret view
     | None \<Rightarrow>
         bind_tx (require (w_Lifecycle locked = LifecycleOpen) (WorkError ErrNotOpen)) (\<lambda>_.
         bind_tx (modify_one (WorkError ErrNotOpen)
           (\<lambda>E now. sql_AdvanceWorkInputHead (ap_WorkID command))) (\<lambda>inputSeq.
         insert_row (\<lambda>E now. sql_CreateWorkMessage (new_message E command inputSeq idempotencyKey digest)))))))"

definition AppendWorkMessage :: "append_command \<Rightarrow> env \<Rightarrow> db \<Rightarrow> (carry_error + message_view) \<times> db" where
  "AppendWorkMessage command =
     checked (guard (trim_space (ap_WorkID command) \<noteq> [] \<and> trim_space (ap_SpaceID command) \<noteq> []
       \<and> trim_space (ap_AuthorUserID command) \<noteq> []) MissingArgument) (\<lambda>_.
     checked (ValidateMessage (ap_Text command)) (\<lambda>_.
     checked (NormalizeIdempotencyKey (ap_IdempotencyKey command)) (\<lambda>idempotencyKey.
     transact (AppendWorkMessage_tx command idempotencyKey
       (WorkMessageDigest (ap_WorkID command) (ap_AuthorUserID command) (ap_Text command))))))"

section \<open>Accepting a review\<close>

definition sql_FindWorkReviewAcceptanceByIdempotency ::
    "uuid \<Rightarrow> uuid \<Rightarrow> uuid \<Rightarrow> string \<Rightarrow> db \<Rightarrow> (uuid \<times> bytes) option" where
  "sql_FindWorkReviewAcceptanceByIdempotency workID spaceID acceptedBy key d =
     map_option (\<lambda>c. (rc_ReviewID c, textValue (rc_AcceptRequestDigest c)))
       (first_where (\<lambda>c. rc_WorkID c = workID \<and> exists_where (\<lambda>w. w_WorkID w = workID \<and> w_SpaceID w = spaceID) (works d)
          \<and> rc_AcceptedByUserID c = Some acceptedBy \<and> rc_AcceptIdempotencyKey c = Some key
          \<and> rc_AcceptedAt c \<noteq> None) (work_result_checks d))"

definition sql_LockWorkResultCheck :: "uuid \<Rightarrow> uuid \<Rightarrow> db \<Rightarrow> result_check_row option" where
  "sql_LockWorkResultCheck workID reviewID d =
     first_where (\<lambda>c. rc_WorkID c = workID \<and> rc_ReviewID c = reviewID) (work_result_checks d)"

definition sql_AcceptWorkResultCheck ::
    "uuid \<Rightarrow> string \<Rightarrow> bytes \<Rightarrow> uuid \<Rightarrow> uuid \<Rightarrow> timestamp \<Rightarrow> db \<Rightarrow> int \<times> db" where
  "sql_AcceptWorkResultCheck acceptedBy key digest workID reviewID now d =
     (let P = (\<lambda>c. rc_WorkID c = workID \<and> rc_ReviewID c = reviewID \<and> rc_AcceptedAt c = None);
          f = (\<lambda>c. c\<lparr>rc_AcceptedByUserID := Some acceptedBy, rc_AcceptIdempotencyKey := Some key,
                     rc_AcceptRequestDigest := Some digest, rc_AcceptedAt := Some now\<rparr>)
      in (count_where P (work_result_checks d),
          d\<lparr>work_result_checks := update_where P f (work_result_checks d)\<rparr>))"

definition AcceptWorkReview_tx :: "accept_review_command \<Rightarrow> string \<Rightarrow> bytes \<Rightarrow> (db, unit) tx" where
  "AcceptWorkReview_tx command idempotencyKey requestDigest =
     bind_tx (lockActiveWorkMembership (ac_SpaceID command) (ac_AcceptedBy command)) (\<lambda>_.
     bind_tx (query (\<lambda>E now. sql_FindWorkReviewAcceptanceByIdempotency (ac_WorkID command)
         (ac_SpaceID command) (ac_AcceptedBy command) idempotencyKey)) (\<lambda>existing.
     case existing of
       Some (reviewID, acceptDigest) \<Rightarrow>
         require (reviewID = ac_ReviewID command \<and> acceptDigest = requestDigest)
           (WorkError ErrIdempotencyConflict)
     | None \<Rightarrow>
         bind_tx (query_one (WorkError ErrNotFound)
           (\<lambda>E now. sql_LockWork (ac_SpaceID command) (ac_WorkID command))) (\<lambda>locked.
         bind_tx (require (w_OwnerUserID locked = ac_AcceptedBy command) (SpaceError ErrForbidden)) (\<lambda>_.
         bind_tx (require (w_Lifecycle locked = LifecycleOpen) (WorkError ErrNotOpen)) (\<lambda>_.
         bind_tx (query_one (WorkError ErrReviewNotCurrent)
           (\<lambda>E now. sql_LockWorkResultCheck (ac_WorkID command) (ac_ReviewID command))) (\<lambda>resultCheck.
         if rc_AcceptedAt resultCheck \<noteq> None then
           require (textValue (rc_AcceptedByUserID resultCheck) = ac_AcceptedBy command
               \<and> textValue (rc_AcceptIdempotencyKey resultCheck) = idempotencyKey
               \<and> textValue (rc_AcceptRequestDigest resultCheck) = requestDigest)
             (WorkError ErrReviewNotCurrent)
         else
           bind_tx (require (rc_UnderstandingVersion resultCheck = w_UnderstandingVersion locked
               \<and> w_AppliedInputSeq locked = w_InputHeadSeq locked
               \<and> rc_ContentDigest resultCheck
                   = ReviewContentDigest (textValue (w_Understanding locked)) (textValue (w_NextStep locked)))
             (WorkError ErrReviewNotCurrent)) (\<lambda>_.
           bind_tx (modify (\<lambda>E now. sql_AcceptWorkResultCheck (ac_AcceptedBy command) idempotencyKey
             requestDigest (ac_WorkID command) (ac_ReviewID command) now)) (\<lambda>rows.
           require (rows = 1) (WorkError ErrReviewNotCurrent)))))))))"

definition AcceptWorkReview :: "accept_review_command \<Rightarrow> env \<Rightarrow> db \<Rightarrow> (carry_error + unit) \<times> db" where
  "AcceptWorkReview command E =
     checked (guard (trim_space (ac_WorkID command) \<noteq> [] \<and> trim_space (ac_SpaceID command) \<noteq> []
       \<and> trim_space (ac_ReviewID command) \<noteq> [] \<and> trim_space (ac_AcceptedBy command) \<noteq> [])
       MissingArgument) (\<lambda>_.
     checked (NormalizeIdempotencyKey (ac_IdempotencyKey command)) (\<lambda>idempotencyKey.
     checked (guard (uuid_parse E (ac_ReviewID command)) (WorkError ErrReviewNotCurrent)) (\<lambda>_.
     transact (AcceptWorkReview_tx command idempotencyKey
       (ReviewAcceptanceDigest (ac_WorkID command) (ac_ReviewID command)))))) E"

section \<open>Requesting a retry\<close>

definition sql_LockWorkForRetry :: "uuid \<Rightarrow> uuid \<Rightarrow> db \<Rightarrow> lifecycle option" where
  "sql_LockWorkForRetry workID spaceID d =
     map_option w_Lifecycle (first_where (\<lambda>w. w_WorkID w = workID \<and> w_SpaceID w = spaceID) (works d))"

definition sql_FindRunRetryByIdempotency :: "uuid \<Rightarrow> string \<Rightarrow> db \<Rightarrow> uuid option" where
  "sql_FindRunRetryByIdempotency workID key d =
     map_option (\<lambda>r. textValue (r_RetryRequestedByUserID r))
       (first_where (\<lambda>r. r_WorkID r = workID \<and> r_RetryIdempotencyKey r = Some key) (runs d))"

text \<open>\<open>ORDER BY completed_at DESC\<close> puts NULL first; a terminal Run always has the column.\<close>

definition completed_order :: "run_row \<Rightarrow> bool \<times> timestamp \<times> uuid" where
  "completed_order r = (case r_CompletedAt r of None \<Rightarrow> (True, 0, r_RunID r) | Some t \<Rightarrow> (False, t, r_RunID r))"

definition retryable :: "run_row \<Rightarrow> bool" where
  "retryable r \<longleftrightarrow> state_in_failed_unknown (r_State r) \<and> r_RetryRequestedAt r = None"

definition sql_LockRetryableRun :: "uuid \<Rightarrow> db \<Rightarrow> uuid option" where
  "sql_LockRetryableRun workID d =
     map_option r_RunID (first_row (order_by_desc completed_order
       (filter (\<lambda>r. r_WorkID r = workID \<and> retryable r) (runs d))))"

definition sql_RequestRunRetry :: "uuid \<Rightarrow> string \<Rightarrow> uuid \<Rightarrow> timestamp \<Rightarrow> db \<Rightarrow> int \<times> db" where
  "sql_RequestRunRetry requestedBy key runID now d =
     (let P = (\<lambda>r. r_RunID r = runID \<and> retryable r);
          f = (\<lambda>r. r\<lparr>r_RetryRequestedAt := Some now, r_RetryRequestedByUserID := Some requestedBy,
                     r_RetryIdempotencyKey := Some key\<rparr>)
      in (count_where P (runs d), d\<lparr>runs := update_where P f (runs d)\<rparr>))"

definition RequestWorkRetry_tx :: "retry_command \<Rightarrow> string \<Rightarrow> (db, unit) tx" where
  "RequestWorkRetry_tx command idempotencyKey =
     bind_tx (lockActiveWorkMembership (re_SpaceID command) (re_RequestedBy command)) (\<lambda>_.
     bind_tx (query_one (WorkError ErrNotFound)
       (\<lambda>E now. sql_LockWorkForRetry (re_WorkID command) (re_SpaceID command))) (\<lambda>lifecycle.
     bind_tx (require (lifecycle = LifecycleOpen) (WorkError ErrNotOpen)) (\<lambda>_.
     bind_tx (query (\<lambda>E now. sql_FindRunRetryByIdempotency (re_WorkID command) idempotencyKey)) (\<lambda>existing.
     case existing of
       Some requester \<Rightarrow> require (requester = re_RequestedBy command) (WorkError ErrIdempotencyConflict)
     | None \<Rightarrow>
         bind_tx (query_one (WorkError ErrRetryNotNeeded)
           (\<lambda>E now. sql_LockRetryableRun (re_WorkID command))) (\<lambda>retryableRunID.
         bind_tx (modify (\<lambda>E now.
           sql_RequestRunRetry (re_RequestedBy command) idempotencyKey retryableRunID now)) (\<lambda>rows.
         require (rows = 1) (WorkError ErrRetryNotNeeded)))))))"

definition RequestWorkRetry :: "retry_command \<Rightarrow> env \<Rightarrow> db \<Rightarrow> (carry_error + unit) \<times> db" where
  "RequestWorkRetry command =
     checked (guard (trim_space (re_WorkID command) \<noteq> [] \<and> trim_space (re_SpaceID command) \<noteq> []
       \<and> trim_space (re_RequestedBy command) \<noteq> []) MissingArgument) (\<lambda>_.
     checked (NormalizeIdempotencyKey (re_IdempotencyKey command)) (\<lambda>idempotencyKey.
     transact (RequestWorkRetry_tx command idempotencyKey)))"

end
