(* ===== verification/Run_Store.thy ===== *)
theory Run_Store
  imports Work_Store
begin

text \<open>
  The Run store (\<open>internal/postgres/run.go\<close>, \<open>queries/run.sql\<close>): claiming the next Run of a
  Space or recovering one whose lease expired, renewing a lease, committing an understanding and
  recording an unresolved outcome. Every write is conditional on the authority of the Attempt:
  the Run's current fence, both states active, a Machine that is not revoked, an unexpired lease.
\<close>

section \<open>Claiming\<close>

definition sql_LockClaimingMachine :: "uuid \<Rightarrow> db \<Rightarrow> machine_row option" where
  "sql_LockClaimingMachine machineID d = machine_of machineID d"

definition run_joins :: "db \<Rightarrow> (run_row \<times> work_row \<times> attempt_row) list" where
  "run_joins d = [(r, w, a). r \<leftarrow> runs d, w \<leftarrow> works d, w_WorkID w = r_WorkID r,
                             a \<leftarrow> run_attempts d, at_RunID a = r_RunID r \<and> at_Fence a = r_CurrentFence r]"

definition expired_for_claim :: "uuid \<Rightarrow> timestamp \<Rightarrow> run_row \<times> work_row \<times> attempt_row \<Rightarrow> bool" where
  "expired_for_claim spaceID now = (\<lambda>(r, w, a).
     w_SpaceID w = spaceID \<and> w_Lifecycle w = LifecycleOpen \<and> r_State r = StateActive
     \<and> at_State a = StateActive \<and> at_LeaseExpiresAt a \<le> now)"

definition expired_order :: "run_row \<times> work_row \<times> attempt_row \<Rightarrow> timestamp \<times> timestamp \<times> uuid" where
  "expired_order = (\<lambda>(r, w, a). (at_LeaseExpiresAt a, r_CreatedAt r, r_RunID r))"

definition sql_LockExpiredRunForClaim ::
    "env \<Rightarrow> uuid \<Rightarrow> timestamp \<Rightarrow> db \<Rightarrow> (run_row \<times> work_row \<times> attempt_row) option" where
  "sql_LockExpiredRunForClaim E spaceID now d =
     first_row (order_by expired_order
       (filter (\<lambda>(r, w, a). expired_for_claim spaceID now (r, w, a)
           \<and> \<not> row_locked E (r_RunID r) \<and> \<not> row_locked E (at_AttemptID a) \<and> \<not> row_locked E (w_WorkID w))
         (run_joins d)))"

definition claimable_work :: "uuid \<Rightarrow> db \<Rightarrow> work_row \<Rightarrow> bool" where
  "claimable_work spaceID d w \<longleftrightarrow>
     w_SpaceID w = spaceID \<and> w_Lifecycle w = LifecycleOpen \<and> w_AppliedInputSeq w < w_InputHeadSeq w
     \<and> \<not> exists_where (\<lambda>r. r_WorkID r = w_WorkID w
           \<and> (r_State r = StateActive \<or> (state_in_failed_unknown (r_State r) \<and> r_RetryRequestedAt r = None)))
         (runs d)"

definition sql_LockWorkForRunClaim :: "env \<Rightarrow> uuid \<Rightarrow> db \<Rightarrow> work_row option" where
  "sql_LockWorkForRunClaim E spaceID d =
     first_row (order_by created_order
       (filter (\<lambda>w. claimable_work spaceID d w \<and> \<not> row_locked E (w_WorkID w)) (works d)))"

definition upcoming_messages :: "uuid \<Rightarrow> int \<Rightarrow> int \<Rightarrow> db \<Rightarrow> work_message_row list" where
  "upcoming_messages workID inputStartSeq inputHeadSeq d =
     take 32 (order_by wm_InputSeq (filter (\<lambda>m. wm_WorkID m = workID \<and> inputStartSeq \<le> wm_InputSeq m
       \<and> wm_InputSeq m \<le> inputHeadSeq) (work_messages d)))"

definition sql_SelectRunInputEnd :: "int \<Rightarrow> uuid \<Rightarrow> int \<Rightarrow> db \<Rightarrow> int" where
  "sql_SelectRunInputEnd inputStartSeq workID inputHeadSeq d =
     (case take_bytes wm_Text 262144 (upcoming_messages workID inputStartSeq inputHeadSeq d) of
        [] \<Rightarrow> inputStartSeq
      | m # ms \<Rightarrow> Max (set (map wm_InputSeq (m # ms))))"

definition new_run :: "env \<Rightarrow> uuid \<Rightarrow> uuid \<Rightarrow> int \<Rightarrow> int \<Rightarrow> int \<Rightarrow> run_row" where
  "new_run E runID workID startSeq endSeq version =
     \<lparr>r_RunID = runID, r_WorkID = workID, r_InputStartSeq = startSeq, r_InputEndSeq = endSeq,
      r_BaseUnderstandingVersion = version, r_State = StateActive, r_CurrentFence = 1,
      r_CreatedAt = tx_time E, r_CompletedAt = None, r_RetryRequestedAt = None,
      r_RetryRequestedByUserID = None, r_RetryIdempotencyKey = None\<rparr>"

definition sql_CreateRun :: "run_row \<Rightarrow> db \<Rightarrow> db_error + (timestamp \<times> db)" where
  "sql_CreateRun r d =
     (if key_taken r_RunID (\<lambda>_. True) (r_RunID r) (runs d) then Inl (Unique_violation ''runs_pkey'')
      else if unresolved r \<and> key_taken r_WorkID unresolved (r_WorkID r) (runs d)
      then Inl (Unique_violation ''runs_unresolved_work_idx'')
      else Inr (r_CreatedAt r, d\<lparr>runs := runs d @ [r]\<rparr>))"

definition sql_ExpireRunAttempt :: "uuid \<Rightarrow> uuid \<Rightarrow> int \<Rightarrow> timestamp \<Rightarrow> db \<Rightarrow> int \<times> db" where
  "sql_ExpireRunAttempt attemptID runID fence now d =
     (let P = (\<lambda>a. at_AttemptID a = attemptID \<and> at_RunID a = runID \<and> at_Fence a = fence
                 \<and> at_State a = StateActive \<and> at_LeaseExpiresAt a \<le> now);
          f = (\<lambda>a. a\<lparr>at_State := StateExpired, at_CompletedAt := Some now\<rparr>)
      in (count_where P (run_attempts d), d\<lparr>run_attempts := update_where P f (run_attempts d)\<rparr>))"

definition sql_RotateRunFence :: "uuid \<Rightarrow> int \<Rightarrow> db \<Rightarrow> int option \<times> db" where
  "sql_RotateRunFence runID currentFence d =
     (let P = (\<lambda>r. r_RunID r = runID \<and> r_State r = StateActive \<and> r_CurrentFence r = currentFence);
          f = (\<lambda>r. r\<lparr>r_CurrentFence := r_CurrentFence r + 1\<rparr>)
      in (map_option (\<lambda>r. r_CurrentFence (f r)) (first_where P (runs d)),
          d\<lparr>runs := update_where P f (runs d)\<rparr>))"

definition new_attempt :: "env \<Rightarrow> uuid \<Rightarrow> uuid \<Rightarrow> uuid \<Rightarrow> int \<Rightarrow> timestamp \<Rightarrow> attempt_row" where
  "new_attempt E attemptID runID machineID fence now =
     \<lparr>at_AttemptID = attemptID, at_RunID = runID, at_MachineID = machineID, at_Fence = fence,
      at_State = StateActive, at_LeaseExpiresAt = now + minutes 5, at_ClaimedAt = tx_time E,
      at_CompletedAt = None\<rparr>"

definition attempt_slot :: "attempt_row \<Rightarrow> uuid \<times> int" where
  "attempt_slot a = (at_RunID a, at_Fence a)"

definition attempt_active :: "attempt_row \<Rightarrow> bool" where
  "attempt_active a \<longleftrightarrow> at_State a = StateActive"

definition sql_CreateRunAttempt :: "attempt_row \<Rightarrow> db \<Rightarrow> db_error + (timestamp \<times> db)" where
  "sql_CreateRunAttempt a d =
     (if key_taken at_AttemptID (\<lambda>_. True) (at_AttemptID a) (run_attempts d)
      then Inl (Unique_violation ''run_attempts_pkey'')
      else if key_taken attempt_slot (\<lambda>_. True) (attempt_slot a) (run_attempts d)
      then Inl (Unique_violation ''run_attempts_run_id_fence_key'')
      else if attempt_active a \<and> key_taken at_RunID attempt_active (at_RunID a) (run_attempts d)
      then Inl (Unique_violation ''run_attempts_active_run_idx'')
      else Inr (at_LeaseExpiresAt a, d\<lparr>run_attempts := run_attempts d @ [a]\<rparr>))"

definition sql_ListRunInputMessages :: "uuid \<Rightarrow> int \<Rightarrow> int \<Rightarrow> db \<Rightarrow> run_message list" where
  "sql_ListRunInputMessages workID inputStartSeq inputEndSeq d =
     map (\<lambda>m. \<lparr>rm_AuthorUserID = wm_AuthorUserID m, rm_Text = wm_Text m\<rparr>)
       (order_by wm_InputSeq (filter (\<lambda>m. wm_WorkID m = workID \<and> inputStartSeq \<le> wm_InputSeq m
         \<and> wm_InputSeq m \<le> inputEndSeq) (work_messages d)))"

text \<open>
  The two ways to a claim: recover the Run whose lease expired first, under the next fence, or
  create a Run for the oldest Work that has unapplied input. Both yield the claim without its
  Attempt and messages, and the first input of its range.
\<close>

definition recover_run :: "run_row \<times> work_row \<times> attempt_row \<Rightarrow> (db, claim \<times> int) tx" where
  "recover_run = (\<lambda>(r, w, a).
     bind_tx (modify (\<lambda>E now. sql_ExpireRunAttempt (at_AttemptID a) (r_RunID r) (r_CurrentFence r) now)) (\<lambda>rows.
     bind_tx (require (rows = 1) (RunError ErrStaleAttempt)) (\<lambda>_.
     bind_tx (modify_one (DatabaseError No_rows)
       (\<lambda>E now. sql_RotateRunFence (r_RunID r) (r_CurrentFence r))) (\<lambda>fence.
     ret (\<lparr>cl_RunID = r_RunID r, cl_AttemptID = [], cl_WorkID = r_WorkID r, cl_Fence = fence,
           cl_LeaseExpiresAt = 0, cl_Goal = w_Goal w,
           cl_CurrentUnderstanding = textValue (w_Understanding w),
           cl_CurrentNextStep = textValue (w_NextStep w),
           cl_BaseUnderstandingVersion = r_BaseUnderstandingVersion r,
           cl_InputEndSeq = r_InputEndSeq r, cl_Messages = []\<rparr>, r_InputStartSeq r)))))"

definition create_run :: "uuid \<Rightarrow> (db, claim \<times> int) tx" where
  "create_run spaceID =
     bind_tx (query_one (RunError ErrNoRunAvailable) (\<lambda>E now. sql_LockWorkForRunClaim E spaceID)) (\<lambda>w.
     bind_tx (query (\<lambda>E now. sql_SelectRunInputEnd (w_AppliedInputSeq w + 1) (w_WorkID w) (w_InputHeadSeq w)))
       (\<lambda>inputEndSeq.
     bind_tx (ask (\<lambda>E. fresh E 0)) (\<lambda>runID.
     bind_tx (try_modify (\<lambda>E now. sql_CreateRun (new_run E runID (w_WorkID w) (w_AppliedInputSeq w + 1)
       inputEndSeq (w_UnderstandingVersion w)))) (\<lambda>created.
     case created of
       Inl createErr \<Rightarrow>
         fail (if createErr = Unique_violation ''runs_unresolved_work_idx''
               then RunError ErrNoRunAvailable else DatabaseError createErr)
     | Inr _ \<Rightarrow>
         ret (\<lparr>cl_RunID = runID, cl_AttemptID = [], cl_WorkID = w_WorkID w, cl_Fence = 1,
               cl_LeaseExpiresAt = 0, cl_Goal = w_Goal w,
               cl_CurrentUnderstanding = textValue (w_Understanding w),
               cl_CurrentNextStep = textValue (w_NextStep w),
               cl_BaseUnderstandingVersion = w_UnderstandingVersion w,
               cl_InputEndSeq = inputEndSeq, cl_Messages = []\<rparr>, w_AppliedInputSeq w + 1)))))"

text \<open>The end of a claim, shared by both ways: the Attempt, its lease and the input messages.\<close>

definition open_attempt :: "uuid \<Rightarrow> claim \<times> int \<Rightarrow> (db, claim) tx" where
  "open_attempt machineID = (\<lambda>(c, inputStartSeq).
     bind_tx (ask (\<lambda>E. fresh E 1)) (\<lambda>attemptID.
     bind_tx (insert_row (\<lambda>E now. sql_CreateRunAttempt
       (new_attempt E attemptID (cl_RunID c) machineID (cl_Fence c) now))) (\<lambda>lease.
     bind_tx (query (\<lambda>E now. sql_ListRunInputMessages (cl_WorkID c) inputStartSeq (cl_InputEndSeq c))) (\<lambda>messages.
     ret (c\<lparr>cl_AttemptID := attemptID, cl_LeaseExpiresAt := lease, cl_Messages := messages\<rparr>)))))"

definition ClaimRun_tx :: "uuid \<Rightarrow> (db, claim) tx" where
  "ClaimRun_tx machineID =
     bind_tx (query_one (MachineError ErrMachineNotFound) (\<lambda>E now. sql_LockClaimingMachine machineID)) (\<lambda>m.
     bind_tx (require (m_RevokedAt m = None) (MachineError ErrMachineRevoked)) (\<lambda>_.
     bind_tx (query (\<lambda>E now. sql_LockExpiredRunForClaim E (m_SpaceID m) now)) (\<lambda>expired.
     bind_tx (case expired of Some row \<Rightarrow> recover_run row | None \<Rightarrow> create_run (m_SpaceID m)) (\<lambda>opened.
     open_attempt machineID opened))))"

definition ClaimRun :: "uuid \<Rightarrow> env \<Rightarrow> db \<Rightarrow> (carry_error + claim) \<times> db" where
  "ClaimRun machineID = transact (ClaimRun_tx machineID)"

section \<open>The authority of an Attempt\<close>

text \<open>
  \<open>LockAttemptForRenew\<close>, \<open>LockAttemptForCommit\<close> and \<open>LockAttemptForFinish\<close> have the same
  \<open>FROM\<close> and \<open>WHERE\<close>: the Run under its current fence, both active, on a current Machine.
\<close>

definition attempt_authority :: "uuid \<Rightarrow> uuid \<Rightarrow> uuid \<Rightarrow> int \<Rightarrow> db \<Rightarrow> run_row \<times> attempt_row \<Rightarrow> bool" where
  "attempt_authority machineID runID attemptID fence d = (\<lambda>(r, a).
     r_RunID r = runID \<and> at_AttemptID a = attemptID \<and> at_RunID a = r_RunID r
     \<and> at_MachineID a = machineID \<and> at_Fence a = fence \<and> r_CurrentFence r = at_Fence a
     \<and> r_State r = StateActive \<and> at_State a = StateActive
     \<and> exists_where (\<lambda>m. m_MachineID m = at_MachineID a \<and> m_RevokedAt m = None) (machines d))"

definition sql_LockAttempt :: "uuid \<Rightarrow> uuid \<Rightarrow> uuid \<Rightarrow> int \<Rightarrow> db \<Rightarrow> (run_row \<times> attempt_row) option" where
  "sql_LockAttempt machineID runID attemptID fence d =
     first_where (attempt_authority machineID runID attemptID fence d)
       (List.product (runs d) (run_attempts d))"

definition sql_LockAttemptForRenew :: "uuid \<Rightarrow> uuid \<Rightarrow> uuid \<Rightarrow> int \<Rightarrow> db \<Rightarrow> (run_row \<times> attempt_row) option" where
  "sql_LockAttemptForRenew = sql_LockAttempt"

definition sql_LockAttemptForFinish :: "uuid \<Rightarrow> uuid \<Rightarrow> uuid \<Rightarrow> int \<Rightarrow> db \<Rightarrow> (run_row \<times> attempt_row) option" where
  "sql_LockAttemptForFinish = sql_LockAttempt"

definition sql_LockAttemptForCommit ::
    "uuid \<Rightarrow> uuid \<Rightarrow> uuid \<Rightarrow> int \<Rightarrow> db \<Rightarrow> (run_row \<times> work_row) option" where
  "sql_LockAttemptForCommit machineID runID attemptID fence d =
     (case first_where (\<lambda>(r, a). attempt_authority machineID runID attemptID fence d (r, a)
             \<and> work_of (r_WorkID r) d \<noteq> None) (List.product (runs d) (run_attempts d)) of
        None \<Rightarrow> None
      | Some (r, a) \<Rightarrow> map_option (\<lambda>w. (r, w)) (work_of (r_WorkID r) d))"

definition sql_RunAttemptLeaseIsCurrent :: "uuid \<Rightarrow> timestamp \<Rightarrow> db \<Rightarrow> bool option" where
  "sql_RunAttemptLeaseIsCurrent attemptID now d =
     map_option (\<lambda>a. at_LeaseExpiresAt a > now) (attempt_of attemptID d)"

section \<open>Renewing\<close>

definition sql_ExtendRunAttemptLease ::
    "uuid \<Rightarrow> uuid \<Rightarrow> int \<Rightarrow> uuid \<Rightarrow> timestamp \<Rightarrow> db \<Rightarrow> timestamp option \<times> db" where
  "sql_ExtendRunAttemptLease attemptID runID fence machineID now d =
     (let P = (\<lambda>a. at_AttemptID a = attemptID \<and> at_RunID a = runID \<and> at_MachineID a = machineID
                 \<and> exists_where (\<lambda>m. m_MachineID m = machineID \<and> m_RevokedAt m = None) (machines d)
                 \<and> at_Fence a = fence \<and> at_State a = StateActive \<and> at_LeaseExpiresAt a > now
                 \<and> exists_where (\<lambda>r. r_RunID r = at_RunID a \<and> r_CurrentFence r = at_Fence a
                       \<and> r_State r = StateActive) (runs d));
          f = (\<lambda>a. a\<lparr>at_LeaseExpiresAt := now + minutes 5\<rparr>)
      in (map_option (\<lambda>a. at_LeaseExpiresAt (f a)) (first_where P (run_attempts d)),
          d\<lparr>run_attempts := update_where P f (run_attempts d)\<rparr>))"

definition RenewRunAttempt_tx :: "uuid \<Rightarrow> uuid \<Rightarrow> uuid \<Rightarrow> int \<Rightarrow> (db, timestamp) tx" where
  "RenewRunAttempt_tx machineID runID attemptID fence =
     bind_tx (query_one (RunError ErrStaleAttempt) (\<lambda>E now. sql_LockAttemptForRenew machineID runID attemptID fence)) (\<lambda>_.
     modify_one (RunError ErrStaleAttempt)
       (\<lambda>E now. sql_ExtendRunAttemptLease attemptID runID fence machineID now))"

definition RenewRunAttempt :: "uuid \<Rightarrow> uuid \<Rightarrow> uuid \<Rightarrow> int \<Rightarrow> env \<Rightarrow> db \<Rightarrow> (carry_error + timestamp) \<times> db" where
  "RenewRunAttempt machineID runID attemptID fence = transact (RenewRunAttempt_tx machineID runID attemptID fence)"

section \<open>Committing an understanding\<close>

definition sql_CommitCurrentUnderstanding ::
    "string \<Rightarrow> string \<Rightarrow> int \<Rightarrow> uuid \<Rightarrow> int \<Rightarrow> int \<Rightarrow> db \<Rightarrow> int option \<times> db" where
  "sql_CommitCurrentUnderstanding understanding nextStep appliedInputSeq workID expectedApplied expectedVersion d =
     (let P = (\<lambda>w. w_WorkID w = workID \<and> w_Lifecycle w = LifecycleOpen
                 \<and> w_AppliedInputSeq w = expectedApplied \<and> w_UnderstandingVersion w = expectedVersion
                 \<and> w_InputHeadSeq w \<ge> appliedInputSeq);
          f = (\<lambda>w. w\<lparr>w_Understanding := Some understanding, w_NextStep := Some nextStep,
                     w_AppliedInputSeq := appliedInputSeq,
                     w_UnderstandingVersion := w_UnderstandingVersion w + 1\<rparr>)
      in (map_option (\<lambda>w. w_UnderstandingVersion (f w)) (first_where P (works d)),
          d\<lparr>works := update_where P f (works d)\<rparr>))"

definition check_slot :: "result_check_row \<Rightarrow> uuid \<times> int" where
  "check_slot c = (rc_WorkID c, rc_UnderstandingVersion c)"

definition new_result_check :: "env \<Rightarrow> uuid \<Rightarrow> uuid \<Rightarrow> int \<Rightarrow> bytes \<Rightarrow> result_check_row" where
  "new_result_check E reviewID workID version digest =
     \<lparr>rc_ReviewID = reviewID, rc_WorkID = workID, rc_UnderstandingVersion = version,
      rc_ContentDigest = digest, rc_RequestedAt = tx_time E, rc_AcceptedByUserID = None,
      rc_AcceptIdempotencyKey = None, rc_AcceptRequestDigest = None, rc_AcceptedAt = None\<rparr>"

definition sql_CreateWorkResultCheck :: "result_check_row \<Rightarrow> db \<Rightarrow> db_error + (int \<times> db)" where
  "sql_CreateWorkResultCheck c d =
     (if key_taken check_slot (\<lambda>_. True) (check_slot c) (work_result_checks d) then Inr (0, d)
      else if key_taken rc_ReviewID (\<lambda>_. True) (rc_ReviewID c) (work_result_checks d)
      then Inl (Unique_violation ''work_result_checks_pkey'')
      else Inr (1, d\<lparr>work_result_checks := work_result_checks d @ [c]\<rparr>))"

definition finish_attempt_row :: "run_state \<Rightarrow> timestamp \<Rightarrow> attempt_row \<Rightarrow> attempt_row" where
  "finish_attempt_row s now a = a\<lparr>at_State := s, at_CompletedAt := Some now\<rparr>"

definition finish_run_row :: "run_state \<Rightarrow> timestamp \<Rightarrow> run_row \<Rightarrow> run_row" where
  "finish_run_row s now r = r\<lparr>r_State := s, r_CompletedAt := Some now\<rparr>"

definition sql_FinishRunAttempt :: "run_state \<Rightarrow> uuid \<Rightarrow> timestamp \<Rightarrow> db \<Rightarrow> int \<times> db" where
  "sql_FinishRunAttempt outcome attemptID now d =
     (let P = (\<lambda>a. at_AttemptID a = attemptID \<and> at_State a = StateActive)
      in (count_where P (run_attempts d),
          d\<lparr>run_attempts := update_where P (finish_attempt_row outcome now) (run_attempts d)\<rparr>))"

definition sql_FinishRun :: "run_state \<Rightarrow> uuid \<Rightarrow> timestamp \<Rightarrow> db \<Rightarrow> int \<times> db" where
  "sql_FinishRun outcome runID now d =
     (let P = (\<lambda>r. r_RunID r = runID \<and> r_State r = StateActive)
      in (count_where P (runs d), d\<lparr>runs := update_where P (finish_run_row outcome now) (runs d)\<rparr>))"

definition sql_SucceedRunAttempt :: "uuid \<Rightarrow> timestamp \<Rightarrow> db \<Rightarrow> int \<times> db" where
  "sql_SucceedRunAttempt = sql_FinishRunAttempt StateSucceeded"

definition sql_SucceedRun :: "uuid \<Rightarrow> timestamp \<Rightarrow> db \<Rightarrow> int \<times> db" where
  "sql_SucceedRun = sql_FinishRun StateSucceeded"

text \<open>The comparison of the command with the locked rows, before anything is written.\<close>

definition commit_current :: "commit_command \<Rightarrow> run_row \<Rightarrow> work_row \<Rightarrow> bool" where
  "commit_current command r w \<longleftrightarrow>
     \<not> (r_BaseUnderstandingVersion r \<noteq> co_BaseUnderstandingVersion command
        \<or> r_InputEndSeq r \<noteq> co_InputEndSeq command
        \<or> w_UnderstandingVersion w \<noteq> r_BaseUnderstandingVersion r
        \<or> w_AppliedInputSeq w \<noteq> r_InputStartSeq r - 1
        \<or> w_InputHeadSeq w < r_InputEndSeq r
        \<or> w_Lifecycle w \<noteq> LifecycleOpen)"

definition CommitWorkUnderstanding_tx :: "commit_command \<Rightarrow> string \<times> string \<Rightarrow> (db, unit) tx" where
  "CommitWorkUnderstanding_tx command = (\<lambda>(understanding, nextStep).
     bind_tx (query_one (RunError ErrStaleAttempt) (\<lambda>E now. sql_LockAttemptForCommit (co_MachineID command)
       (co_RunID command) (co_AttemptID command) (co_Fence command))) (\<lambda>(r, w).
     bind_tx (query_one (DatabaseError No_rows)
       (\<lambda>E now. sql_RunAttemptLeaseIsCurrent (co_AttemptID command) now)) (\<lambda>leaseCurrent.
     bind_tx (require leaseCurrent (RunError ErrStaleAttempt)) (\<lambda>_.
     bind_tx (require (commit_current command r w) (RunError ErrStaleAttempt)) (\<lambda>_.
     bind_tx (modify_one (RunError ErrStaleAttempt) (\<lambda>E now. sql_CommitCurrentUnderstanding understanding nextStep
       (r_InputEndSeq r) (r_WorkID r) (r_InputStartSeq r - 1) (r_BaseUnderstandingVersion r))) (\<lambda>version.
     bind_tx
       (if co_ReviewRequired command \<and> r_InputEndSeq r = w_InputHeadSeq w
        then bind_tx (insert_row (\<lambda>E now. sql_CreateWorkResultCheck (new_result_check E (fresh E 0) (r_WorkID r)
               version (ReviewContentDigest understanding nextStep)))) (\<lambda>rows.
             require (rows = 1) (RunError ErrStaleAttempt))
        else ret ()) (\<lambda>_.
     bind_tx (modify (\<lambda>E now. sql_SucceedRunAttempt (co_AttemptID command) now)) (\<lambda>attempts.
     bind_tx (modify (\<lambda>E now. sql_SucceedRun (co_RunID command) now)) (\<lambda>succeeded.
     require (attempts = 1 \<and> succeeded = 1) (RunError ErrStaleAttempt))))))))))"

definition CommitWorkUnderstanding :: "commit_command \<Rightarrow> env \<Rightarrow> db \<Rightarrow> (carry_error + unit) \<times> db" where
  "CommitWorkUnderstanding command =
     checked (ValidateUnderstandingUpdate (co_Understanding command) (co_NextStep command)) (\<lambda>update.
     transact (CommitWorkUnderstanding_tx command update))"

section \<open>Recording an unresolved outcome\<close>

definition FinishUnresolvedAttempt_tx :: "finish_command \<Rightarrow> (db, unit) tx" where
  "FinishUnresolvedAttempt_tx command =
     bind_tx (query_one (RunError ErrStaleAttempt) (\<lambda>E now. sql_LockAttemptForFinish (fi_MachineID command)
       (fi_RunID command) (fi_AttemptID command) (fi_Fence command))) (\<lambda>_.
     bind_tx (query_one (DatabaseError No_rows)
       (\<lambda>E now. sql_RunAttemptLeaseIsCurrent (fi_AttemptID command) now)) (\<lambda>leaseCurrent.
     bind_tx (require leaseCurrent (RunError ErrStaleAttempt)) (\<lambda>_.
     bind_tx (modify (\<lambda>E now. sql_FinishRunAttempt (fi_Outcome command) (fi_AttemptID command) now)) (\<lambda>attempts.
     bind_tx (modify (\<lambda>E now. sql_FinishRun (fi_Outcome command) (fi_RunID command) now)) (\<lambda>finished.
     require (attempts = 1 \<and> finished = 1) (RunError ErrStaleAttempt))))))"

definition FinishUnresolvedAttempt :: "finish_command \<Rightarrow> env \<Rightarrow> db \<Rightarrow> (carry_error + unit) \<times> db" where
  "FinishUnresolvedAttempt command =
     checked (ValidateUnresolvedOutcome (fi_Outcome command)) (\<lambda>_.
     transact (FinishUnresolvedAttempt_tx command))"

end
