(* ===== verification/Execution_State.thy ===== *)
theory Execution_State
  imports Run_Store
begin

text \<open>
  The invariants of durable work: Works, their messages and result checks, Runs and Attempts.
  They contain the schema's \<open>CHECK\<close>, \<open>UNIQUE\<close> and \<open>REFERENCES\<close> constraints and what the code
  relies on beyond them: message numbers are contiguous, the current fence of a Run belongs to
  one Attempt, an active Run starts right after the applied input, and the ranges of the
  succeeded Runs apply every input exactly once.
\<close>

section \<open>Rows\<close>

definition work_row_ok :: "work_row \<Rightarrow> bool" where
  "work_row_ok w \<longleftrightarrow>
     w_Lifecycle w = LifecycleOpen \<and> 1 \<le> w_InputHeadSeq w \<and> 0 \<le> w_AppliedInputSeq w
     \<and> w_AppliedInputSeq w \<le> w_InputHeadSeq w \<and> 0 \<le> w_UnderstandingVersion w
     \<and> NormalizeGoal (w_Goal w) = Inr (w_Goal w) \<and> w_CreateRequestDigest w = CreateDigest (w_SpaceID w) (w_CreatorUserID w) (w_Goal w)
     \<and> (case (w_Understanding w, w_NextStep w) of
          (None, None) \<Rightarrow> w_UnderstandingVersion w = 0 \<and> w_AppliedInputSeq w = 0
        | (Some u, Some n) \<Rightarrow> 0 < w_UnderstandingVersion w \<and> 0 < w_AppliedInputSeq w
            \<and> ValidateUnderstandingUpdate u n = Inr (u, n)
        | _ \<Rightarrow> False)"

definition message_row_ok :: "work_message_row \<Rightarrow> bool" where
  "message_row_ok m \<longleftrightarrow> 2 \<le> wm_InputSeq m \<and> ValidateMessage (wm_Text m) = Inr ()
     \<and> wm_RequestDigest m = WorkMessageDigest (wm_WorkID m) (wm_AuthorUserID m) (wm_Text m)"

definition run_row_ok :: "run_row \<Rightarrow> bool" where
  "run_row_ok r \<longleftrightarrow>
     1 \<le> r_InputStartSeq r \<and> r_InputStartSeq r \<le> r_InputEndSeq r \<and> 0 \<le> r_BaseUnderstandingVersion r
     \<and> 1 \<le> r_CurrentFence r \<and> r_State r \<in> {StateActive, StateSucceeded, StateFailed, StateUnknown}
     \<and> (r_State r = StateActive \<longleftrightarrow> r_CompletedAt r = None)
     \<and> (r_RetryRequestedAt r = None \<longleftrightarrow> r_RetryRequestedByUserID r = None)
     \<and> (r_RetryRequestedAt r = None \<longleftrightarrow> r_RetryIdempotencyKey r = None)
     \<and> (r_RetryRequestedAt r \<noteq> None \<longrightarrow> state_in_failed_unknown (r_State r))"

definition attempt_row_ok :: "attempt_row \<Rightarrow> bool" where
  "attempt_row_ok a \<longleftrightarrow>
     1 \<le> at_Fence a
     \<and> at_State a \<in> {StateActive, StateSucceeded, StateFailed, StateUnknown, StateExpired}
     \<and> (at_State a = StateActive \<longleftrightarrow> at_CompletedAt a = None)"

definition check_row_ok :: "result_check_row \<Rightarrow> bool" where
  "check_row_ok c \<longleftrightarrow> 0 < rc_UnderstandingVersion c \<and> length (rc_ContentDigest c) = 32
     \<and> (rc_AcceptedAt c = None \<longleftrightarrow> rc_AcceptedByUserID c = None)
     \<and> (rc_AcceptedAt c = None \<longleftrightarrow> rc_AcceptIdempotencyKey c = None)
     \<and> (rc_AcceptedAt c = None \<longleftrightarrow> rc_AcceptRequestDigest c = None)"

section \<open>Tables\<close>

definition works_ok :: "work_row list \<Rightarrow> bool" where
  "works_ok ws \<longleftrightarrow> unique_on w_WorkID (\<lambda>_. True) ws \<and> unique_on create_key (\<lambda>_. True) ws
     \<and> (\<forall>w \<in> set ws. work_row_ok w)"

definition messages_ok :: "work_row list \<Rightarrow> work_message_row list \<Rightarrow> bool" where
  "messages_ok ws ms \<longleftrightarrow>
     unique_on wm_MessageID (\<lambda>_. True) ms \<and> unique_on message_slot (\<lambda>_. True) ms
     \<and> unique_on message_key (\<lambda>_. True) ms \<and> (\<forall>m \<in> set ms. message_row_ok m)
     \<and> (\<forall>m \<in> set ms. \<exists>w \<in> set ws. w_WorkID w = wm_WorkID m \<and> wm_InputSeq m \<le> w_InputHeadSeq w)
     \<and> (\<forall>w \<in> set ws. \<forall>s \<in> {2..w_InputHeadSeq w}. \<exists>m \<in> set ms. message_slot m = (w_WorkID w, s))"

definition retry_key :: "run_row \<Rightarrow> uuid \<times> string option" where
  "retry_key r = (r_WorkID r, r_RetryIdempotencyKey r)"

definition has_retry_key :: "run_row \<Rightarrow> bool" where
  "has_retry_key r \<longleftrightarrow> r_RetryIdempotencyKey r \<noteq> None"

definition run_of_work_ok :: "run_row \<Rightarrow> work_row \<Rightarrow> bool" where
  "run_of_work_ok r w \<longleftrightarrow> w_WorkID w = r_WorkID r \<and> r_InputEndSeq r \<le> w_InputHeadSeq w
     \<and> (r_State r = StateActive \<longrightarrow> w_AppliedInputSeq w = r_InputStartSeq r - 1
          \<and> w_UnderstandingVersion w = r_BaseUnderstandingVersion r)"

definition runs_ok :: "work_row list \<Rightarrow> run_row list \<Rightarrow> bool" where
  "runs_ok ws rs \<longleftrightarrow>
     unique_on r_RunID (\<lambda>_. True) rs \<and> unique_on r_WorkID unresolved rs
     \<and> unique_on retry_key has_retry_key rs \<and> (\<forall>r \<in> set rs. run_row_ok r)
     \<and> (\<forall>r \<in> set rs. \<exists>w \<in> set ws. run_of_work_ok r w)"

definition attempt_of_run_ok :: "attempt_row \<Rightarrow> run_row \<Rightarrow> bool" where
  "attempt_of_run_ok a r \<longleftrightarrow> r_RunID r = at_RunID a \<and> at_Fence a \<le> r_CurrentFence r
     \<and> (at_State a = StateActive \<longrightarrow> r_State r = StateActive \<and> at_Fence a = r_CurrentFence r)"

definition current_attempt :: "run_row \<Rightarrow> attempt_row \<Rightarrow> bool" where
  "current_attempt r a \<longleftrightarrow> at_RunID a = r_RunID r \<and> at_Fence a = r_CurrentFence r
     \<and> (r_State r = StateActive \<longrightarrow> at_State a = StateActive)"

definition attempts_ok :: "run_row list \<Rightarrow> attempt_row list \<Rightarrow> bool" where
  "attempts_ok rs as \<longleftrightarrow>
     unique_on at_AttemptID (\<lambda>_. True) as \<and> unique_on attempt_slot (\<lambda>_. True) as
     \<and> unique_on at_RunID attempt_active as \<and> (\<forall>a \<in> set as. attempt_row_ok a)
     \<and> (\<forall>a \<in> set as. \<exists>r \<in> set rs. attempt_of_run_ok a r)
     \<and> (\<forall>r \<in> set rs. \<exists>a \<in> set as. current_attempt r a)"

text \<open>The succeeded Runs whose range holds an input, and all succeeded Runs of a Work.\<close>

definition applies_input :: "uuid \<Rightarrow> int \<Rightarrow> run_row \<Rightarrow> bool" where
  "applies_input workID s r \<longleftrightarrow> r_WorkID r = workID \<and> r_State r = StateSucceeded
     \<and> r_InputStartSeq r \<le> s \<and> s \<le> r_InputEndSeq r"

definition succeeded_of :: "uuid \<Rightarrow> run_row \<Rightarrow> bool" where
  "succeeded_of workID r \<longleftrightarrow> r_WorkID r = workID \<and> r_State r = StateSucceeded"

definition applied_once :: "work_row list \<Rightarrow> run_row list \<Rightarrow> bool" where
  "applied_once ws rs \<longleftrightarrow> (\<forall>w \<in> set ws.
     (\<forall>s. count_where (applies_input (w_WorkID w) s) rs
            = (if 1 \<le> s \<and> s \<le> w_AppliedInputSeq w then 1 else 0))
     \<and> count_where (succeeded_of (w_WorkID w)) rs = w_UnderstandingVersion w)"

definition check_of_work_ok :: "result_check_row \<Rightarrow> work_row \<Rightarrow> bool" where
  "check_of_work_ok c w \<longleftrightarrow> w_WorkID w = rc_WorkID c
     \<and> rc_UnderstandingVersion c \<le> w_UnderstandingVersion w
     \<and> (rc_UnderstandingVersion c = w_UnderstandingVersion w \<longrightarrow>
          rc_ContentDigest c = ReviewContentDigest (textValue (w_Understanding w)) (textValue (w_NextStep w)))"

definition accept_key :: "result_check_row \<Rightarrow> uuid \<times> uuid option \<times> string option" where
  "accept_key c = (rc_WorkID c, rc_AcceptedByUserID c, rc_AcceptIdempotencyKey c)"

definition is_accepted :: "result_check_row \<Rightarrow> bool" where
  "is_accepted c \<longleftrightarrow> rc_AcceptedAt c \<noteq> None"

definition checks_ok :: "work_row list \<Rightarrow> result_check_row list \<Rightarrow> bool" where
  "checks_ok ws cs \<longleftrightarrow>
     unique_on rc_ReviewID (\<lambda>_. True) cs \<and> unique_on check_slot (\<lambda>_. True) cs
     \<and> unique_on accept_key is_accepted cs \<and> (\<forall>c \<in> set cs. check_row_ok c)
     \<and> (\<forall>c \<in> set cs. \<exists>w \<in> set ws. check_of_work_ok c w)"

text \<open>The messages in the input range of a Run, and the bounds of what a claim may carry.\<close>

definition run_inputs :: "work_message_row list \<Rightarrow> run_row \<Rightarrow> work_message_row list" where
  "run_inputs ms r = filter (\<lambda>m. wm_WorkID m = r_WorkID r \<and> r_InputStartSeq r \<le> wm_InputSeq m
     \<and> wm_InputSeq m \<le> r_InputEndSeq r) ms"

definition text_bytes :: "work_message_row list \<Rightarrow> nat" where
  "text_bytes ms = sum_list (map (\<lambda>m. length (wm_Text m)) ms)"

definition inputs_bounded :: "work_message_row list \<Rightarrow> run_row list \<Rightarrow> bool" where
  "inputs_bounded ms rs \<longleftrightarrow>
     (\<forall>r \<in> set rs. length (run_inputs ms r) \<le> 32 \<and> text_bytes (run_inputs ms r) \<le> 262144)"

definition work_state_ok ::
    "work_row list \<Rightarrow> work_message_row list \<Rightarrow> result_check_row list \<Rightarrow> run_row list \<Rightarrow> attempt_row list \<Rightarrow> bool" where
  "work_state_ok ws ms cs rs as \<longleftrightarrow>
     works_ok ws \<and> messages_ok ws ms \<and> checks_ok ws cs \<and> runs_ok ws rs \<and> attempts_ok rs as \<and> applied_once ws rs
     \<and> inputs_bounded ms rs"

definition execution_ok :: "db \<Rightarrow> bool" where
  "execution_ok d \<longleftrightarrow>
     work_state_ok (works d) (work_messages d) (work_result_checks d) (runs d) (run_attempts d)"

lemma execution_ok_empty: "execution_ok empty_db"
  by (simp add: execution_ok_def work_state_ok_def empty_db_def works_ok_def messages_ok_def checks_ok_def
      runs_ok_def attempts_ok_def applied_once_def inputs_bounded_def)

section \<open>Adding a Work\<close>

lemma new_work_row_ok:
  assumes "NormalizeGoal goal = Inr goal" "digest = CreateDigest s creator goal"
  shows "work_row_ok (new_work E i s goal owner creator key digest)"
  using assms by (simp add: work_row_ok_def new_work_def)

text \<open>A Work with no understanding, no messages and no Runs can be added to any state.\<close>

lemma work_state_ok_add_work:
  assumes ok: "work_state_ok ws ms cs rs as"
    and w: "work_row_ok w" "w_InputHeadSeq w = 1" "w_AppliedInputSeq w = 0" "w_UnderstandingVersion w = 0"
    and new: "\<not> key_taken w_WorkID (\<lambda>_. True) (w_WorkID w) ws" "\<not> key_taken create_key (\<lambda>_. True) (create_key w) ws"
  shows "work_state_ok (ws @ [w]) ms cs rs as"
proof -
  have works: "works_ok (ws @ [w])"
    using ok w(1) new by (simp add: work_state_ok_def works_ok_def unique_on_append1)
  have fresh: "\<forall>x \<in> set ws. w_WorkID x \<noteq> w_WorkID w" using new(1) by (simp add: key_taken_iff)
  have no_run: "\<forall>r \<in> set rs. r_WorkID r \<noteq> w_WorkID w"
  proof
    fix r assume "r \<in> set rs"
    then obtain x where "x \<in> set ws" "run_of_work_ok r x"
      using ok by (auto simp: work_state_ok_def runs_ok_def)
    then show "r_WorkID r \<noteq> w_WorkID w" using fresh by (auto simp: run_of_work_ok_def)
  qed
  have "messages_ok (ws @ [w]) ms"
    using ok w(2) by (auto simp: work_state_ok_def messages_ok_def)
  moreover have "checks_ok (ws @ [w]) cs"
    using ok by (auto simp: work_state_ok_def checks_ok_def)
  moreover have "runs_ok (ws @ [w]) rs"
    using ok by (auto simp: work_state_ok_def runs_ok_def)
  moreover have "count_where (applies_input (w_WorkID w) s) rs = 0" for s
    using no_run by (auto simp: count_where_zero applies_input_def)
  moreover have "count_where (succeeded_of (w_WorkID w)) rs = 0"
    using no_run by (auto simp: count_where_zero succeeded_of_def)
  ultimately show ?thesis
    using ok works w(3,4) by (auto simp: work_state_ok_def applied_once_def)
qed

section \<open>Replacing one row\<close>

text \<open>
  An update whose clause fixes the primary key changes exactly one row. \<open>replaces k t r r' t'\<close>:
  \<open>t'\<close> is \<open>t\<close> with the row \<open>r\<close>, the only one with its key \<open>k\<close>, replaced by \<open>r'\<close>.
\<close>

definition replaces :: "('r \<Rightarrow> 'k) \<Rightarrow> 'r list \<Rightarrow> 'r \<Rightarrow> 'r \<Rightarrow> 'r list \<Rightarrow> bool" where
  "replaces k t r r' t' \<longleftrightarrow> r \<in> set t \<and> k r' = k r \<and> unique_on k (\<lambda>_. True) t
     \<and> t' = map (\<lambda>x. if x = r then r' else x) t"

lemma replaces_update_where:
  assumes "unique_on k (\<lambda>_. True) t" "r \<in> set t" "Q r" "\<And>s. Q s \<Longrightarrow> k s = k r" "k (f r) = k r"
  shows "replaces k t r (f r) (update_where Q f t)"
proof -
  have iff: "Q s \<longleftrightarrow> s = r" if "s \<in> set t" for s
    using unique_onD [OF assms(1) that assms(2) TrueI TrueI] assms(3,4) by blast
  then show ?thesis using assms(1,2,5) by (auto simp: replaces_def update_where_def)
qed

lemma replaces_set: "replaces k t r r' t' \<Longrightarrow> set t' = insert r' (set t - {r})"
  by (auto simp: replaces_def image_iff)

lemma replaces_bex:
  assumes "replaces k t r r' t'" "\<exists>x \<in> set t. Q x" "Q r \<Longrightarrow> Q r'"
  shows "\<exists>x \<in> set t'. Q x"
  unfolding replaces_set [OF assms(1)] using assms(2,3) by blast

lemma replaces_ball:
  assumes "replaces k t r r' t'" "\<forall>x \<in> set t. Q x" "Q r'"
  shows "\<forall>x \<in> set t'. Q x"
  unfolding replaces_set [OF assms(1)] using assms(2,3) by blast

lemma replaces_only: "replaces k t r r' t' \<Longrightarrow> s \<in> set t \<Longrightarrow> k s = k r \<Longrightarrow> s = r"
  by (auto simp: replaces_def dest: unique_onD)

lemma replaces_unique:
  assumes "replaces k t r r' t'" "unique_on j P t" "P r' \<Longrightarrow> P r \<and> j r' = j r"
  shows "unique_on j P t'"
proof -
  have t': "t' = map (\<lambda>x. if x = r then r' else x) t" using assms(1) by (simp add: replaces_def)
  show ?thesis unfolding t'
    by (rule unique_on_map [OF assms(2)]) (use assms(3) in \<open>auto split: if_splits\<close>)
qed

lemma replaces_unique_new:
  assumes "replaces k t r r' t'" "unique_on j P t" "\<not> key_taken j P (j r') t"
  shows "unique_on j P t'"
proof -
  have "unique_on j P (map (\<lambda>x. if x = r then r' else x) t)" if "distinct t"
    using assms(2,3) that
  proof (induction t)
    case Nil
    then show ?case by simp
  next
    case (Cons a t)
    have IH: "unique_on j P (map (\<lambda>x. if x = r then r' else x) t)"
      using Cons by (auto simp: unique_on_Cons key_taken_def)
    show ?case
    proof (cases "a = r")
      case True
      then have "map (\<lambda>x. if x = r then r' else x) t = t"
        using Cons.prems(3) by (auto intro: map_idI)
      then show ?thesis
        using True IH Cons.prems(2) by (auto simp: unique_on_Cons key_taken_iff)
    next
      case False
      have "j x \<noteq> j a" if "x \<in> set t" "P x" "P a" for x
        using Cons.prems(1) that by (auto simp: unique_on_Cons)
      then show ?thesis
        using False IH Cons.prems(2) by (auto simp: unique_on_Cons key_taken_iff)
    qed
  qed
  moreover have "distinct t"
    using assms(1) by (auto simp: replaces_def unique_on_def distinct_map)
  ultimately show ?thesis using assms(1) by (simp add: replaces_def)
qed

lemma replaces_count:
  assumes "replaces k t r r' t'"
  shows "count_where Q t' = count_where Q t - (if Q r then 1 else 0) + (if Q r' then 1 else 0)"
proof -
  have "distinct t"
    using assms by (auto simp: replaces_def unique_on_def distinct_map)
  then have "count_where Q (map (\<lambda>x. if x = r then r' else x) t) =
      count_where Q t - (if Q r then 1 else 0) + (if Q r' then 1 else 0)"
    if "r \<in> set t" using that
  proof (induction t)
    case Nil
    then show ?case by simp
  next
    case (Cons a t)
    show ?case
    proof (cases "a = r")
      case True
      then have "map (\<lambda>x. if x = r then r' else x) t = t"
        using Cons.prems by (auto intro: map_idI)
      then show ?thesis using True by simp
    next
      case False
      then show ?thesis using Cons by simp
    qed
  qed
  with assms show ?thesis by (simp add: replaces_def)
qed

section \<open>Changing one Work\<close>

lemma works_ok_replace:
  assumes "works_ok ws" "replaces w_WorkID ws w w' ws'" "work_row_ok w'" "create_key w' = create_key w"
  shows "works_ok ws'"
proof -
  have "unique_on w_WorkID (\<lambda>_. True) ws'"
    by (rule replaces_unique [OF assms(2)]) (use assms(1,2) in \<open>simp_all add: works_ok_def replaces_def\<close>)
  moreover have "unique_on create_key (\<lambda>_. True) ws'"
    by (rule replaces_unique [OF assms(2)]) (use assms(1,4) in \<open>simp_all add: works_ok_def\<close>)
  moreover have "\<forall>x \<in> set ws'. work_row_ok x"
    by (rule replaces_ball [OF assms(2)]) (use assms(1,3) in \<open>simp_all add: works_ok_def\<close>)
  ultimately show ?thesis by (simp add: works_ok_def)
qed

lemma runs_ok_replace_work:
  assumes "runs_ok ws rs" "replaces w_WorkID ws w w' ws'"
    and "\<And>r. r \<in> set rs \<Longrightarrow> run_of_work_ok r w \<Longrightarrow> run_of_work_ok r w'"
  shows "runs_ok ws' rs"
  using assms(1,3) replaces_bex [OF assms(2)] unfolding runs_ok_def by blast

lemma checks_ok_replace_work:
  assumes "checks_ok ws cs" "replaces w_WorkID ws w w' ws'"
    and "\<And>c. c \<in> set cs \<Longrightarrow> check_of_work_ok c w \<Longrightarrow> check_of_work_ok c w'"
  shows "checks_ok ws' cs"
  using assms(1,3) replaces_bex [OF assms(2)] unfolding checks_ok_def by blast

lemma messages_ok_replace_work:
  assumes "messages_ok ws ms" "replaces w_WorkID ws w w' ws'" "w_InputHeadSeq w' = w_InputHeadSeq w"
  shows "messages_ok ws' ms"
proof -
  have id: "w_WorkID w' = w_WorkID w" "w \<in> set ws" using assms(2) by (auto simp: replaces_def)
  have "\<exists>x \<in> set ws'. w_WorkID x = wm_WorkID m \<and> wm_InputSeq m \<le> w_InputHeadSeq x" if "m \<in> set ms" for m
    by (rule replaces_bex [OF assms(2)]) (use assms(1,3) that id in \<open>simp_all add: messages_ok_def\<close>)
  moreover have "\<exists>m \<in> set ms. message_slot m = (w_WorkID x, s)"
    if "x \<in> set ws'" "s \<in> {2..w_InputHeadSeq x}" for x s
  proof (cases "x = w'")
    case True
    with that id assms(1,3) show ?thesis by (simp add: messages_ok_def)
  next
    case False
    with that have "x \<in> set ws" by (simp add: replaces_set [OF assms(2)])
    with that assms(1) show ?thesis by (simp add: messages_ok_def)
  qed
  ultimately show ?thesis using assms(1) by (simp add: messages_ok_def)
qed

lemma applied_once_replace_work:
  assumes "applied_once ws rs" "replaces w_WorkID ws w w' ws'"
    "w_AppliedInputSeq w' = w_AppliedInputSeq w" "w_UnderstandingVersion w' = w_UnderstandingVersion w"
  shows "applied_once ws' rs"
  using assms replaces_set [OF assms(2)] by (auto simp: applied_once_def replaces_def)


lemma run_inputs_cong:
  "r_WorkID r' = r_WorkID r \<Longrightarrow> r_InputStartSeq r' = r_InputStartSeq r \<Longrightarrow> r_InputEndSeq r' = r_InputEndSeq r
    \<Longrightarrow> run_inputs ms r' = run_inputs ms r"
  by (simp add: run_inputs_def)

lemma inputs_bounded_replace:
  assumes "inputs_bounded ms rs" "replaces r_RunID rs r r' rs'"
    and "r_WorkID r' = r_WorkID r" "r_InputStartSeq r' = r_InputStartSeq r" "r_InputEndSeq r' = r_InputEndSeq r"
  shows "inputs_bounded ms rs'"
  unfolding inputs_bounded_def
  by (rule replaces_ball [OF assms(2)])
    (use assms in \<open>simp_all add: inputs_bounded_def run_inputs_cong [OF assms(3-5)] replaces_def\<close>)

text \<open>A message behind the head of its Work is in the range of no Run.\<close>

lemma inputs_bounded_append:
  assumes "inputs_bounded ms rs" "\<forall>r \<in> set rs. r_WorkID r = wm_WorkID m \<longrightarrow> r_InputEndSeq r < wm_InputSeq m"
  shows "inputs_bounded (ms @ [m]) rs"
proof -
  have "run_inputs (ms @ [m]) r = run_inputs ms r" if "r \<in> set rs" for r
    using assms(2) that by (auto simp: run_inputs_def)
  then show ?thesis using assms(1) by (simp add: inputs_bounded_def)
qed

end
