(* ===== verification/Execution_Invariants.thy ===== *)
theory Execution_Invariants
  imports Execution_State
begin

text \<open>
  Every operation of the Work and Run stores preserves the invariants of durable work. For each
  transaction body there is an effect lemma, which says what a success changed, and a
  preservation lemma on that change; the methods inherit preservation on every outcome.
\<close>

section \<open>Works: creation\<close>

lemma new_work_simps [simp]:
  "w_WorkID (new_work E i s goal owner creator key digest) = i"
  "w_SpaceID (new_work E i s goal owner creator key digest) = s"
  "w_OwnerUserID (new_work E i s goal owner creator key digest) = owner"
  "w_CreatorUserID (new_work E i s goal owner creator key digest) = creator"
  "w_Goal (new_work E i s goal owner creator key digest) = goal"
  "w_Lifecycle (new_work E i s goal owner creator key digest) = LifecycleOpen"
  "w_InputHeadSeq (new_work E i s goal owner creator key digest) = 1"
  "w_AppliedInputSeq (new_work E i s goal owner creator key digest) = 0"
  "w_UnderstandingVersion (new_work E i s goal owner creator key digest) = 0"
  "w_Understanding (new_work E i s goal owner creator key digest) = None"
  "w_NextStep (new_work E i s goal owner creator key digest) = None"
  "w_CreateRequestDigest (new_work E i s goal owner creator key digest) = digest"
  "create_key (new_work E i s goal owner creator key digest) = (s, creator, key)"
  by (simp_all add: new_work_def create_key_def)

lemma sql_CreateWork_cases:
  assumes "sql_CreateWork w d = Inr (r, d')"
  obtains "key_taken create_key (\<lambda>_. True) (create_key w) (works d)" "r = None" "d' = d"
  | "\<not> key_taken create_key (\<lambda>_. True) (create_key w) (works d)"
    "\<not> key_taken w_WorkID (\<lambda>_. True) (w_WorkID w) (works d)"
    "d' = d\<lparr>works := works d @ [w]\<rparr>" "r = joined_work d' (Some w)"
  using assms by (auto simp: sql_CreateWork_def Let_def split: if_splits)

lemma joined_work_Some:
  "joined_work d r = Some (w, o', c) \<Longrightarrow> r = Some w"
  by (auto simp: joined_work_def split: option.splits)

lemma CreateWork_tx_effect:
  assumes "CreateWork_tx command goal key digest E d n = Inr (v, d', n')"
  shows "d' = d \<or>
    (let w = new_work E (fresh E 0) (cr_SpaceID command) goal (cr_CreatorUserID command)
               (cr_CreatorUserID command) key digest
     in \<not> key_taken w_WorkID (\<lambda>_. True) (w_WorkID w) (works d)
        \<and> \<not> key_taken create_key (\<lambda>_. True) (create_key w) (works d)
        \<and> is_member (cr_SpaceID command) (cr_CreatorUserID command) d
        \<and> d' = d\<lparr>works := works d @ [w]\<rparr>)"
proof -
  let ?w = "new_work E (fresh E 0) (cr_SpaceID command) goal (cr_CreatorUserID command)
               (cr_CreatorUserID command) key digest"
  obtain x row d1 where member: "sql_LockActiveWorkMembership (cr_SpaceID command) (cr_CreatorUserID command) d = Some x"
    and create: "sql_CreateWork ?w d = Inr (row, d1)"
    and rest: "row = None \<Longrightarrow> d' = d1" "row \<noteq> None \<Longrightarrow> d' = d1"
    using assms by (auto simp: CreateWork_tx_def tx_simps)
  from rest have "d' = d1" by blast
  with create member show ?thesis
    by (elim sql_CreateWork_cases) (auto simp: Let_def sql_LockActiveWorkMembership_iff [symmetric])
qed

lemma execution_ok_add_work:
  assumes "execution_ok d" "NormalizeGoal goal = Inr goal" "digest = CreateDigest s creator goal"
    and "\<not> key_taken w_WorkID (\<lambda>_. True) i (works d)"
    and "\<not> key_taken create_key (\<lambda>_. True) (s, creator, key) (works d)"
  shows "execution_ok (d\<lparr>works := works d @ [new_work E i s goal owner creator key digest]\<rparr>)"
proof -
  let ?w = "new_work E i s goal owner creator key digest"
  have "work_state_ok (works d @ [?w]) (work_messages d) (work_result_checks d) (runs d) (run_attempts d)"
    by (rule work_state_ok_add_work)
      (use assms new_work_row_ok in \<open>simp_all add: execution_ok_def new_work_def create_key_def\<close>)
  then show ?thesis by (simp add: execution_ok_def)
qed

lemma NormalizeGoal_fixpoint: "NormalizeGoal s = Inr g \<Longrightarrow> NormalizeGoal g = Inr g"
  by (auto simp: NormalizeGoal_Inr)

lemma CreateWork_keeps: "keeps execution_ok (CreateWork command)"
  unfolding CreateWork_def
proof (intro keeps_checked keeps_transact)
  fix goal u key
  assume goal: "NormalizeGoal (cr_Goal command) = Inr goal"
  let ?digest = "CreateDigest (cr_SpaceID command) (cr_CreatorUserID command) goal"
  show "preserves execution_ok (CreateWork_tx command goal key ?digest)"
    unfolding preserves_def
  proof (intro allI impI)
    fix E d n v d' n'
    assume "CreateWork_tx command goal key ?digest E d n = Inr (v, d', n')" and ok: "execution_ok d"
    from CreateWork_tx_effect [OF this(1)] show "execution_ok d'"
      using execution_ok_add_work [OF ok NormalizeGoal_fixpoint [OF goal]]
      by (auto simp: Let_def ok)
  qed
qed

section \<open>Works: appending a message\<close>

lemma sql_LockWork_Some:
  "sql_LockWork s i d = Some w \<Longrightarrow> w \<in> set (works d) \<and> w_SpaceID w = s \<and> w_WorkID w = i"
  by (auto simp: sql_LockWork_def dest: first_where_Some)

lemma sql_AdvanceWorkInputHead_Some:
  assumes "sql_AdvanceWorkInputHead i d = (Some s, d')" "works_ok (works d)" "w \<in> set (works d)" "w_WorkID w = i"
  shows "s = w_InputHeadSeq w + 1 \<and> d' = d\<lparr>works := works d'\<rparr>
    \<and> replaces w_WorkID (works d) w (w\<lparr>w_InputHeadSeq := w_InputHeadSeq w + 1\<rparr>) (works d')"
proof -
  let ?P = "\<lambda>w. w_WorkID w = i \<and> w_Lifecycle w = LifecycleOpen"
  have P: "?P w" using assms by (auto simp: works_ok_def work_row_ok_def)
  have u: "unique_on w_WorkID (\<lambda>_. True) (works d)" using assms(2) by (simp add: works_ok_def)
  have "first_where ?P (works d) = Some w"
    using unique_update_first(1) [OF u assms(3), of ?P] P assms(4) by simp
  moreover have "replaces w_WorkID (works d) w (w\<lparr>w_InputHeadSeq := w_InputHeadSeq w + 1\<rparr>)
      (update_where ?P (\<lambda>w. w\<lparr>w_InputHeadSeq := w_InputHeadSeq w + 1\<rparr>) (works d))"
    using P assms(4) by (intro replaces_update_where [OF u assms(3)]) auto
  ultimately show ?thesis
    using assms(1) by (auto simp: sql_AdvanceWorkInputHead_def Let_def)
qed

lemma AppendWorkMessage_tx_effect:
  assumes "AppendWorkMessage_tx command key digest E d n = Inr (v, d', n')" "execution_ok d"
  shows "d' = d \<or> (\<exists>w. let w' = w\<lparr>w_InputHeadSeq := w_InputHeadSeq w + 1\<rparr>;
      m = new_message E command (w_InputHeadSeq w + 1) key digest in
      sql_LockWork (ap_SpaceID command) (ap_WorkID command) d = Some w
    \<and> replaces w_WorkID (works d) w w' (works d') \<and> work_messages d' = work_messages d @ [m]
    \<and> d' = d\<lparr>works := works d', work_messages := work_messages d'\<rparr>
    \<and> \<not> key_taken wm_MessageID (\<lambda>_. True) (wm_MessageID m) (work_messages d)
    \<and> \<not> key_taken message_slot (\<lambda>_. True) (message_slot m) (work_messages d)
    \<and> \<not> key_taken message_key (\<lambda>_. True) (message_key m) (work_messages d)
    \<and> messageFromRow d m = Some v)"
proof (cases "d' = d")
  case False
  with assms(1) obtain w s d1 where w: "sql_LockWork (ap_SpaceID command) (ap_WorkID command) d = Some w"
    and advance: "sql_AdvanceWorkInputHead (ap_WorkID command) d = (Some s, d1)"
    and insert: "sql_CreateWorkMessage (new_message E command s key digest) d1 = Inr (v, d')"
    by (auto simp: AppendWorkMessage_tx_def tx_simps)
  have "works_ok (works d)" using assms(2) by (simp add: execution_ok_def work_state_ok_def)
  from sql_AdvanceWorkInputHead_Some [OF advance this, of w] sql_LockWork_Some [OF w]
  have s: "s = w_InputHeadSeq w + 1" "d1 = d\<lparr>works := works d1\<rparr>"
    "replaces w_WorkID (works d) w (w\<lparr>w_InputHeadSeq := w_InputHeadSeq w + 1\<rparr>) (works d1)" by auto
  have same: "work_messages d1 = work_messages d" "messageFromRow d1 = messageFromRow d"
    by (subst s(2); simp add: messageFromRow_def user_of_def fun_eq_iff)+
  show ?thesis
    using insert s w same
    by (auto simp: sql_CreateWorkMessage_def Let_def split: if_splits option.splits)
qed simp


lemma execution_ok_append_message:
  assumes ok: "execution_ok d"
    and step: "replaces w_WorkID (works d) w (w\<lparr>w_InputHeadSeq := w_InputHeadSeq w + 1\<rparr>) (works d')"
      "work_messages d' = work_messages d @ [m]"
      "d' = d\<lparr>works := works d', work_messages := work_messages d'\<rparr>"
    and m: "message_row_ok m" "message_slot m = (w_WorkID w, w_InputHeadSeq w + 1)"
      "\<not> key_taken wm_MessageID (\<lambda>_. True) (wm_MessageID m) (work_messages d)"
      "\<not> key_taken message_slot (\<lambda>_. True) (message_slot m) (work_messages d)"
      "\<not> key_taken message_key (\<lambda>_. True) (message_key m) (work_messages d)"
  shows "execution_ok d'"
proof -
  let ?w' = "w\<lparr>w_InputHeadSeq := w_InputHeadSeq w + 1\<rparr>"
  have rest: "work_result_checks d' = work_result_checks d" "runs d' = runs d" "run_attempts d' = run_attempts d"
    by (subst step(3), simp)+
  note parts = ok [unfolded execution_ok_def work_state_ok_def]
  have wd: "w \<in> set (works d)" using step(1) by (simp add: replaces_def)
  then have "work_row_ok w" using parts by (simp add: works_ok_def)
  then have "work_row_ok ?w'" by (auto simp: work_row_ok_def split: option.splits)
  then have works: "works_ok (works d')"
    using parts by (intro works_ok_replace [OF _ step(1)]) (simp_all add: create_key_def)
  have "\<exists>x \<in> set (works d'). w_WorkID x = wm_WorkID y \<and> wm_InputSeq y \<le> w_InputHeadSeq x"
    if "y \<in> set (work_messages d')" for y
  proof (cases "y = m")
    case True
    then show ?thesis using m(2) by (auto simp: replaces_set [OF step(1)] message_slot_def)
  next
    case False
    then show ?thesis using that step(2) parts
      by (intro replaces_bex [OF step(1)]) (auto simp: messages_ok_def)
  qed
  moreover have "\<exists>y \<in> set (work_messages d'). message_slot y = (w_WorkID x, s)"
    if x: "x \<in> set (works d')" and s: "s \<in> {2..w_InputHeadSeq x}" for x s
  proof (cases "x = ?w'")
    case True
    show ?thesis
    proof (cases "s = w_InputHeadSeq w + 1")
      case True
      then show ?thesis using m(2) step(2) \<open>x = ?w'\<close> by simp
    next
      case False
      then have "s \<in> {2..w_InputHeadSeq w}" using s True by auto
      then show ?thesis using parts wd True step(2) by (auto simp: messages_ok_def)
    qed
  next
    case False
    then have "x \<in> set (works d)" using x by (simp add: replaces_set [OF step(1)])
    then have "\<exists>y \<in> set (work_messages d). message_slot y = (w_WorkID x, s)"
      using s parts unfolding messages_ok_def by blast
    then show ?thesis using step(2) by auto
  qed
  ultimately have "messages_ok (works d') (work_messages d')"
    using parts m step(2) by (simp add: messages_ok_def unique_on_append1)
  moreover have "checks_ok (works d') (work_result_checks d')"
    using parts rest by (intro checks_ok_replace_work [OF _ step(1)]) (auto simp: check_of_work_ok_def)
  moreover have "runs_ok (works d') (runs d')"
    using parts rest by (intro runs_ok_replace_work [OF _ step(1)]) (auto simp: run_of_work_ok_def)
  moreover have "applied_once (works d') (runs d')"
    using parts rest by (intro applied_once_replace_work [OF _ step(1)]) auto
  moreover have "inputs_bounded (work_messages d') (runs d')"
    unfolding step(2) rest
  proof (rule inputs_bounded_append)
    show "\<forall>r \<in> set (runs d). r_WorkID r = wm_WorkID m \<longrightarrow> r_InputEndSeq r < wm_InputSeq m"
    proof (intro ballI impI)
      fix r assume r: "r \<in> set (runs d)" "r_WorkID r = wm_WorkID m"
      then obtain x where x: "x \<in> set (works d)" "run_of_work_ok r x"
        using parts unfolding runs_ok_def by blast
      then have "x = w" using r m(2) by (intro replaces_only [OF step(1)]) (auto simp: run_of_work_ok_def message_slot_def)
      with x m(2) show "r_InputEndSeq r < wm_InputSeq m" by (simp add: run_of_work_ok_def message_slot_def)
    qed
  qed (use parts in simp)
  ultimately show ?thesis
    using works parts rest by (simp add: execution_ok_def work_state_ok_def)
qed

lemma AppendWorkMessage_keeps: "keeps execution_ok (AppendWorkMessage command)"
  unfolding AppendWorkMessage_def
proof (intro keeps_checked keeps_transact)
  fix u1 u2 :: unit and key
  assume valid: "ValidateMessage (ap_Text command) = Inr u2"
  let ?digest = "WorkMessageDigest (ap_WorkID command) (ap_AuthorUserID command) (ap_Text command)"
  show "preserves execution_ok (AppendWorkMessage_tx command key ?digest)"
    unfolding preserves_def
  proof (intro allI impI)
    fix E d n v d' n'
    assume run: "AppendWorkMessage_tx command key ?digest E d n = Inr (v, d', n')" and ok: "execution_ok d"
    show "execution_ok d'"
    proof (cases "d' = d")
      case False
      with AppendWorkMessage_tx_effect [OF run ok] obtain w where
        w: "sql_LockWork (ap_SpaceID command) (ap_WorkID command) d = Some w"
        and step: "replaces w_WorkID (works d) w (w\<lparr>w_InputHeadSeq := w_InputHeadSeq w + 1\<rparr>) (works d')"
          "work_messages d' = work_messages d @ [new_message E command (w_InputHeadSeq w + 1) key ?digest]"
          "d' = d\<lparr>works := works d', work_messages := work_messages d'\<rparr>"
        and new: "\<not> key_taken wm_MessageID (\<lambda>_. True) (wm_MessageID (new_message E command (w_InputHeadSeq w + 1) key ?digest)) (work_messages d)"
          "\<not> key_taken message_slot (\<lambda>_. True) (message_slot (new_message E command (w_InputHeadSeq w + 1) key ?digest)) (work_messages d)"
          "\<not> key_taken message_key (\<lambda>_. True) (message_key (new_message E command (w_InputHeadSeq w + 1) key ?digest)) (work_messages d)"
        unfolding Let_def by blast
      have "work_row_ok w"
        using ok sql_LockWork_Some [OF w] by (simp add: execution_ok_def work_state_ok_def works_ok_def)
      then show ?thesis
        using sql_LockWork_Some [OF w] valid
        by (intro execution_ok_append_message [OF ok step _ _ new])
          (simp_all add: message_row_ok_def new_message_def message_slot_def work_row_ok_def)
    qed (simp add: ok)
  qed
qed


section \<open>Works: accepting a review\<close>

definition accepted_check :: "uuid \<Rightarrow> string \<Rightarrow> bytes \<Rightarrow> timestamp \<Rightarrow> result_check_row \<Rightarrow> result_check_row" where
  "accepted_check user key digest now c = c\<lparr>rc_AcceptedByUserID := Some user,
     rc_AcceptIdempotencyKey := Some key, rc_AcceptRequestDigest := Some digest, rc_AcceptedAt := Some now\<rparr>"

definition review_current :: "work_row \<Rightarrow> result_check_row \<Rightarrow> bool" where
  "review_current w c \<longleftrightarrow> rc_WorkID c = w_WorkID w \<and> rc_AcceptedAt c = None
     \<and> rc_UnderstandingVersion c = w_UnderstandingVersion w \<and> w_AppliedInputSeq w = w_InputHeadSeq w
     \<and> rc_ContentDigest c = ReviewContentDigest (textValue (w_Understanding w)) (textValue (w_NextStep w))"

lemma AcceptWorkReview_tx_effect:
  assumes "AcceptWorkReview_tx command key digest E d n = Inr (v, d', n')" "execution_ok d"
  shows "d' = d \<or> (\<exists>w c now.
      sql_LockWork (ac_SpaceID command) (ac_WorkID command) d = Some w \<and> w_OwnerUserID w = ac_AcceptedBy command
    \<and> is_member (ac_SpaceID command) (ac_AcceptedBy command) d
    \<and> rc_ReviewID c = ac_ReviewID command \<and> review_current w c
    \<and> \<not> key_taken accept_key is_accepted (ac_WorkID command, Some (ac_AcceptedBy command), Some key) (work_result_checks d)
    \<and> replaces rc_ReviewID (work_result_checks d) c (accepted_check (ac_AcceptedBy command) key digest now c)
        (work_result_checks d')
    \<and> d' = d\<lparr>work_result_checks := work_result_checks d'\<rparr>)"
proof (cases "d' = d")
  case False
  with assms(1) obtain w c rows now x where
    member: "sql_LockActiveWorkMembership (ac_SpaceID command) (ac_AcceptedBy command) d = Some x"
    and none: "sql_FindWorkReviewAcceptanceByIdempotency (ac_WorkID command) (ac_SpaceID command)
        (ac_AcceptedBy command) key d = None"
    and w: "sql_LockWork (ac_SpaceID command) (ac_WorkID command) d = Some w"
    and owner: "w_OwnerUserID w = ac_AcceptedBy command"
    and c: "sql_LockWorkResultCheck (ac_WorkID command) (ac_ReviewID command) d = Some c"
      "rc_AcceptedAt c = None"
    and current: "rc_UnderstandingVersion c = w_UnderstandingVersion w" "w_AppliedInputSeq w = w_InputHeadSeq w"
      "rc_ContentDigest c = ReviewContentDigest (textValue (w_Understanding w)) (textValue (w_NextStep w))"
    and upd: "sql_AcceptWorkResultCheck (ac_AcceptedBy command) key digest (ac_WorkID command)
        (ac_ReviewID command) now d = (rows, d')"
    by (auto simp: AcceptWorkReview_tx_def tx_simps)
  have c': "c \<in> set (work_result_checks d)" "rc_WorkID c = ac_WorkID command" "rc_ReviewID c = ac_ReviewID command"
    using first_where_Some [OF c(1) [unfolded sql_LockWorkResultCheck_def]] by auto
  have u: "unique_on rc_ReviewID (\<lambda>_. True) (work_result_checks d)"
    using assms(2) by (simp add: execution_ok_def work_state_ok_def checks_ok_def)
  let ?P = "\<lambda>c. rc_WorkID c = ac_WorkID command \<and> rc_ReviewID c = ac_ReviewID command \<and> rc_AcceptedAt c = None"
  let ?f = "accepted_check (ac_AcceptedBy command) key digest now"
  have d': "d' = d\<lparr>work_result_checks := update_where ?P ?f (work_result_checks d)\<rparr>"
    using upd by (auto simp: sql_AcceptWorkResultCheck_def Let_def accepted_check_def [abs_def])
  have "replaces rc_ReviewID (work_result_checks d) c (?f c) (update_where ?P ?f (work_result_checks d))"
    using c' c(2) by (intro replaces_update_where [OF u]) (auto simp: accepted_check_def)
  moreover have "\<not> key_taken accept_key is_accepted (ac_WorkID command, Some (ac_AcceptedBy command), Some key)
      (work_result_checks d)"
    using none sql_LockWork_Some [OF w]
    by (auto simp: sql_FindWorkReviewAcceptanceByIdempotency_def first_where_None key_taken_iff
        accept_key_def is_accepted_def exists_where_iff)
  ultimately show ?thesis
    using w owner c(2) c' current d' member sql_LockWork_Some [OF w]
    by (intro disjI2 exI [of _ w] exI [of _ c] exI [of _ now])
      (auto simp: review_current_def sql_LockActiveWorkMembership_iff [symmetric])
qed simp

lemma execution_ok_accept:
  assumes ok: "execution_ok d"
    and step: "replaces rc_ReviewID (work_result_checks d) c (accepted_check user key digest now c)
        (work_result_checks d')"
      "d' = d\<lparr>work_result_checks := work_result_checks d'\<rparr>"
    and new: "\<not> key_taken accept_key is_accepted (rc_WorkID c, Some user, Some key) (work_result_checks d)"
  shows "execution_ok d'"
proof -
  let ?c = "accepted_check user key digest now c"
  have rest: "works d' = works d" "work_messages d' = work_messages d" "runs d' = runs d" "run_attempts d' = run_attempts d"
    by (subst step(2), simp)+
  note parts = ok [unfolded execution_ok_def work_state_ok_def]
  have checks: "checks_ok (works d) (work_result_checks d)" using parts by simp
  have c: "c \<in> set (work_result_checks d)" using step(1) by (simp add: replaces_def)
  have "unique_on rc_ReviewID (\<lambda>_. True) (work_result_checks d')"
    by (rule replaces_unique [OF step(1)]) (use checks in \<open>simp_all add: checks_ok_def accepted_check_def\<close>)
  moreover have "unique_on check_slot (\<lambda>_. True) (work_result_checks d')"
    by (rule replaces_unique [OF step(1)])
      (use checks in \<open>simp_all add: checks_ok_def accepted_check_def check_slot_def\<close>)
  moreover have "unique_on accept_key is_accepted (work_result_checks d')"
    by (rule replaces_unique_new [OF step(1)])
      (use checks new in \<open>simp_all add: checks_ok_def accepted_check_def accept_key_def\<close>)
  moreover have "\<forall>x \<in> set (work_result_checks d'). check_row_ok x"
    by (rule replaces_ball [OF step(1)])
      (use checks c in \<open>auto simp: checks_ok_def accepted_check_def check_row_ok_def\<close>)
  moreover have "\<forall>x \<in> set (work_result_checks d'). \<exists>w \<in> set (works d'). check_of_work_ok x w"
    by (rule replaces_ball [OF step(1)])
      (use checks c rest in \<open>simp_all add: checks_ok_def accepted_check_def check_of_work_ok_def\<close>)
  ultimately show ?thesis
    using parts rest by (simp add: execution_ok_def work_state_ok_def checks_ok_def)
qed

lemma AcceptWorkReview_keeps: "keeps execution_ok (AcceptWorkReview command)"
  unfolding keeps_def AcceptWorkReview_def
proof (intro allI impI, elim checked_cases)
  fix E d r d' key digest
  assume ok: "execution_ok d" and run: "transact (AcceptWorkReview_tx command key digest) E d = (r, d')"
  from run show "execution_ok d'"
  proof (cases rule: transact_cases)
    case (2 x n)
    from AcceptWorkReview_tx_effect [OF this ok] show ?thesis
      using execution_ok_accept [OF ok] ok by (auto simp: review_current_def dest: sql_LockWork_Some)
  qed (simp add: ok)
qed simp_all

section \<open>Works: requesting a retry\<close>

definition retried_run :: "uuid \<Rightarrow> string \<Rightarrow> timestamp \<Rightarrow> run_row \<Rightarrow> run_row" where
  "retried_run user key now r = r\<lparr>r_RetryRequestedAt := Some now, r_RetryRequestedByUserID := Some user,
     r_RetryIdempotencyKey := Some key\<rparr>"

lemma RequestWorkRetry_tx_effect:
  assumes "RequestWorkRetry_tx command key E d n = Inr (v, d', n')" "execution_ok d"
  shows "d' = d \<or> (\<exists>r now. r_WorkID r = re_WorkID command \<and> retryable r
    \<and> is_member (re_SpaceID command) (re_RequestedBy command) d
    \<and> \<not> key_taken retry_key has_retry_key (re_WorkID command, Some key) (runs d)
    \<and> replaces r_RunID (runs d) r (retried_run (re_RequestedBy command) key now r) (runs d')
    \<and> d' = d\<lparr>runs := runs d'\<rparr>)"
proof (cases "d' = d")
  case False
  with assms(1) obtain x i rows now where
    member: "sql_LockActiveWorkMembership (re_SpaceID command) (re_RequestedBy command) d = Some x"
    and none: "sql_FindRunRetryByIdempotency (re_WorkID command) key d = None"
    and i: "sql_LockRetryableRun (re_WorkID command) d = Some i"
    and upd: "sql_RequestRunRetry (re_RequestedBy command) key i now d = (rows, d')"
    by (auto simp: RequestWorkRetry_tx_def tx_simps)
  from i obtain r where r: "first_row (order_by_desc completed_order
      (filter (\<lambda>r. r_WorkID r = re_WorkID command \<and> retryable r) (runs d))) = Some r" "r_RunID r = i"
    by (auto simp: sql_LockRetryableRun_def)
  from first_row_in [OF r(1)] have r': "r \<in> set (runs d)" "r_WorkID r = re_WorkID command" "retryable r" by auto
  have u: "unique_on r_RunID (\<lambda>_. True) (runs d)"
    using assms(2) by (simp add: execution_ok_def work_state_ok_def runs_ok_def)
  let ?P = "\<lambda>r. r_RunID r = i \<and> retryable r"
  let ?f = "retried_run (re_RequestedBy command) key now"
  have d': "d' = d\<lparr>runs := update_where ?P ?f (runs d)\<rparr>"
    using upd by (auto simp: sql_RequestRunRetry_def Let_def retried_run_def [abs_def])
  have "replaces r_RunID (runs d) r (?f r) (update_where ?P ?f (runs d))"
    using r r' by (intro replaces_update_where [OF u]) (auto simp: retried_run_def)
  moreover have "\<not> key_taken retry_key has_retry_key (re_WorkID command, Some key) (runs d)"
    using none by (auto simp: sql_FindRunRetryByIdempotency_def first_where_None key_taken_iff retry_key_def)
  ultimately show ?thesis
    using r' d' member by (intro disjI2 exI [of _ r] exI [of _ now])
      (auto simp: sql_LockActiveWorkMembership_iff [symmetric])
qed simp

text \<open>Changing a terminal Run: what its Work and its Attempts rely on stays.\<close>

lemma execution_ok_retry:
  assumes ok: "execution_ok d"
    and step: "replaces r_RunID (runs d) r (retried_run user key now r) (runs d')" "d' = d\<lparr>runs := runs d'\<rparr>"
    and r: "retryable r"
    and new: "\<not> key_taken retry_key has_retry_key (r_WorkID r, Some key) (runs d)"
  shows "execution_ok d'"
proof -
  let ?r = "retried_run user key now r"
  have rest: "works d' = works d" "work_messages d' = work_messages d" "work_result_checks d' = work_result_checks d"
    "run_attempts d' = run_attempts d"
    by (subst step(2), simp)+
  note parts = ok [unfolded execution_ok_def work_state_ok_def]
  have runs: "runs_ok (works d) (runs d)" and attempts: "attempts_ok (runs d) (run_attempts d)" using parts by simp_all
  have rd: "r \<in> set (runs d)" using step(1) by (simp add: replaces_def)
  have "unique_on r_RunID (\<lambda>_. True) (runs d')"
    by (rule replaces_unique [OF step(1)]) (use runs in \<open>simp_all add: runs_ok_def retried_run_def\<close>)
  moreover have "unique_on r_WorkID unresolved (runs d')"
    by (rule replaces_unique [OF step(1)])
      (use runs r in \<open>auto simp: runs_ok_def retried_run_def unresolved_def retryable_def\<close>)
  moreover have "unique_on retry_key has_retry_key (runs d')"
    by (rule replaces_unique_new [OF step(1)])
      (use runs new in \<open>simp_all add: runs_ok_def retried_run_def retry_key_def\<close>)
  moreover have "\<forall>x \<in> set (runs d'). run_row_ok x"
    by (rule replaces_ball [OF step(1)])
      (use runs rd r in \<open>auto simp: runs_ok_def retried_run_def run_row_ok_def retryable_def state_in_failed_unknown_def\<close>)
  moreover have "\<forall>x \<in> set (runs d'). \<exists>w \<in> set (works d'). run_of_work_ok x w"
    by (rule replaces_ball [OF step(1)])
      (use runs rd rest in \<open>simp_all add: runs_ok_def retried_run_def run_of_work_ok_def\<close>)
  ultimately have runs': "runs_ok (works d') (runs d')" by (simp add: runs_ok_def)
  have "\<forall>a \<in> set (run_attempts d'). \<exists>x \<in> set (runs d'). attempt_of_run_ok a x"
  proof
    fix a assume "a \<in> set (run_attempts d')"
    then have "\<exists>x \<in> set (runs d). attempt_of_run_ok a x" using attempts rest by (simp add: attempts_ok_def)
    then show "\<exists>x \<in> set (runs d'). attempt_of_run_ok a x"
      by (rule replaces_bex [OF step(1)]) (simp add: attempt_of_run_ok_def retried_run_def)
  qed
  moreover have "\<forall>x \<in> set (runs d'). \<exists>a \<in> set (run_attempts d'). current_attempt x a"
    by (rule replaces_ball [OF step(1)])
      (use attempts rd rest in \<open>simp_all add: attempts_ok_def retried_run_def current_attempt_def\<close>)
  ultimately have "attempts_ok (runs d') (run_attempts d')"
    using attempts rest by (simp add: attempts_ok_def)
  moreover have "count_where Q (runs d') = count_where Q (runs d)" if "Q ?r = Q r" for Q
    using that by (simp add: replaces_count [OF step(1)])
  then have "applied_once (works d') (runs d')"
    using parts rest by (simp add: applied_once_def applies_input_def succeeded_of_def retried_run_def)
  moreover have "inputs_bounded (work_messages d) (runs d')"
    using parts by (intro inputs_bounded_replace [OF _ step(1)]) (simp_all add: retried_run_def)
  ultimately show ?thesis
    using parts rest runs' by (simp add: execution_ok_def work_state_ok_def)
qed

lemma RequestWorkRetry_keeps: "keeps execution_ok (RequestWorkRetry command)"
  unfolding RequestWorkRetry_def
proof (intro keeps_checked keeps_transact)
  fix u key
  show "preserves execution_ok (RequestWorkRetry_tx command key)"
    unfolding preserves_def
    using RequestWorkRetry_tx_effect execution_ok_retry by metis
qed


section \<open>Attempts\<close>

lemma sql_LockAttempt_Some:
  assumes "sql_LockAttempt m i j f d = Some (r, a)"
  shows "r \<in> set (runs d) \<and> a \<in> set (run_attempts d) \<and> attempt_authority m i j f d (r, a)"
  using first_where_Some [OF assms [unfolded sql_LockAttempt_def]] by auto

lemma attempts_ok_replace_attempt:
  assumes "attempts_ok rs as" "replaces at_AttemptID as a a' as'"
    and "at_RunID a' = at_RunID a" "at_Fence a' = at_Fence a" "at_State a' = at_State a"
      "at_CompletedAt a' = at_CompletedAt a"
  shows "attempts_ok rs as'"
proof -
  have ad: "a \<in> set as" using assms(2) by (simp add: replaces_def)
  have "unique_on at_AttemptID (\<lambda>_. True) as'"
    by (rule replaces_unique [OF assms(2)]) (use assms(1,2) in \<open>simp_all add: attempts_ok_def replaces_def\<close>)
  moreover have "unique_on attempt_slot (\<lambda>_. True) as'"
    by (rule replaces_unique [OF assms(2)]) (use assms in \<open>simp_all add: attempts_ok_def attempt_slot_def\<close>)
  moreover have "unique_on at_RunID attempt_active as'"
    by (rule replaces_unique [OF assms(2)]) (use assms in \<open>simp_all add: attempts_ok_def attempt_active_def\<close>)
  moreover have "\<forall>x \<in> set as'. attempt_row_ok x"
    by (rule replaces_ball [OF assms(2)]) (use assms ad in \<open>auto simp: attempts_ok_def attempt_row_ok_def\<close>)
  moreover have "\<forall>x \<in> set as'. \<exists>r \<in> set rs. attempt_of_run_ok x r"
    by (rule replaces_ball [OF assms(2)])
      (use assms ad in \<open>simp_all add: attempts_ok_def attempt_of_run_ok_def\<close>)
  moreover have "\<forall>r \<in> set rs. \<exists>x \<in> set as'. current_attempt r x"
  proof
    fix r assume "r \<in> set rs"
    then have "\<exists>x \<in> set as. current_attempt r x" using assms(1) by (simp add: attempts_ok_def)
    then show "\<exists>x \<in> set as'. current_attempt r x"
      by (rule replaces_bex [OF assms(2)]) (use assms in \<open>simp add: current_attempt_def\<close>)
  qed
  ultimately show ?thesis by (simp add: attempts_ok_def)
qed

lemma RenewRunAttempt_tx_effect:
  assumes "RenewRunAttempt_tx m i j f E d n = Inr (lease, d', n')" "execution_ok d"
  shows "\<exists>r a. attempt_authority m i j f d (r, a) \<and> r \<in> set (runs d) \<and> clock E (Suc n) < at_LeaseExpiresAt a
    \<and> lease = clock E (Suc n) + minutes 5
    \<and> replaces at_AttemptID (run_attempts d) a (a\<lparr>at_LeaseExpiresAt := lease\<rparr>) (run_attempts d')
    \<and> d' = d\<lparr>run_attempts := run_attempts d'\<rparr>"
proof -
  from assms(1) obtain r a where l: "sql_LockAttempt m i j f d = Some (r, a)"
    and e: "sql_ExtendRunAttemptLease j i f m (clock E (Suc n)) d = (Some lease, d')"
    by (auto simp: RenewRunAttempt_tx_def sql_LockAttemptForRenew_def tx_simps)
  let ?P = "\<lambda>a. at_AttemptID a = j \<and> at_RunID a = i \<and> at_MachineID a = m
                 \<and> exists_where (\<lambda>x. m_MachineID x = m \<and> m_RevokedAt x = None) (machines d)
                 \<and> at_Fence a = f \<and> at_State a = StateActive \<and> at_LeaseExpiresAt a > clock E (Suc n)
                 \<and> exists_where (\<lambda>r. r_RunID r = at_RunID a \<and> r_CurrentFence r = at_Fence a
                       \<and> r_State r = StateActive) (runs d)"
  let ?f = "\<lambda>a. a\<lparr>at_LeaseExpiresAt := clock E (Suc n) + minutes 5\<rparr>"
  from e obtain a' where a': "first_where ?P (run_attempts d) = Some a'" "lease = clock E (Suc n) + minutes 5"
    and d': "d' = d\<lparr>run_attempts := update_where ?P ?f (run_attempts d)\<rparr>"
    by (auto simp: sql_ExtendRunAttemptLease_def Let_def)
  have u: "unique_on at_AttemptID (\<lambda>_. True) (run_attempts d)"
    using assms(2) by (simp add: execution_ok_def work_state_ok_def attempts_ok_def)
  note lock = sql_LockAttempt_Some [OF l]
  have a2: "a' \<in> set (run_attempts d)" "?P a'" using first_where_Some [OF a'(1)] by auto
  have "a' = a"
    by (rule unique_onD [OF u a2(1), of a]) (use lock a2 in \<open>auto simp: attempt_authority_def\<close>)
  moreover have "replaces at_AttemptID (run_attempts d) a' (?f a') (update_where ?P ?f (run_attempts d))"
    using a2 by (intro replaces_update_where [OF u]) auto
  ultimately show ?thesis using lock a' a2 d'
    by (intro exI [of _ r] exI [of _ a]) auto
qed

lemma RenewRunAttempt_keeps: "keeps execution_ok (RenewRunAttempt m i j f)"
  unfolding RenewRunAttempt_def
proof (rule keeps_transact, unfold preserves_def, intro allI impI)
  fix E d n lease d' n'
  assume run: "RenewRunAttempt_tx m i j f E d n = Inr (lease, d', n')" and ok: "execution_ok d"
  from RenewRunAttempt_tx_effect [OF run ok] obtain a where
    step: "replaces at_AttemptID (run_attempts d) a (a\<lparr>at_LeaseExpiresAt := lease\<rparr>) (run_attempts d')"
      "d' = d\<lparr>run_attempts := run_attempts d'\<rparr>" by blast
  have rest: "works d' = works d" "work_messages d' = work_messages d" "runs d' = runs d"
    "work_result_checks d' = work_result_checks d"
    by (subst step(2), simp)+
  have "attempts_ok (runs d) (run_attempts d')"
    using ok by (intro attempts_ok_replace_attempt [OF _ step(1)]) (simp_all add: execution_ok_def work_state_ok_def)
  then show "execution_ok d'"
    using ok rest by (simp add: execution_ok_def work_state_ok_def)
qed

section \<open>Finishing a Run and its Attempt\<close>

lemma attempts_ok_finish:
  assumes ok: "attempts_ok rs as" and runs: "unique_on r_RunID (\<lambda>_. True) rs"
    and a: "replaces at_AttemptID as a (finish_attempt_row s now a) as'" "at_State a = StateActive"
    and r: "replaces r_RunID rs r (finish_run_row s now' r) rs'" "at_RunID a = r_RunID r" "at_Fence a = r_CurrentFence r"
    and s: "s \<in> {StateSucceeded, StateFailed, StateUnknown}"
  shows "attempts_ok rs' as'"
proof -
  let ?a = "finish_attempt_row s now a" and ?r = "finish_run_row s now' r"
  have ad: "a \<in> set as" and rd: "r \<in> set rs" using a(1) r(1) by (simp_all add: replaces_def)
  have other: "at_State b \<noteq> StateActive" if "b \<in> set as" "b \<noteq> a" "at_RunID b = r_RunID r" for b
  proof
    assume "at_State b = StateActive"
    then have "b = a" using unique_onD [of at_RunID attempt_active as b a] ok that ad a(2) r(2)
      by (simp add: attempts_ok_def attempt_active_def)
    with that show False by simp
  qed
  have "unique_on at_AttemptID (\<lambda>_. True) as'"
    by (rule replaces_unique [OF a(1)]) (use ok in \<open>simp_all add: attempts_ok_def finish_attempt_row_def\<close>)
  moreover have "unique_on attempt_slot (\<lambda>_. True) as'"
    by (rule replaces_unique [OF a(1)])
      (use ok in \<open>simp_all add: attempts_ok_def finish_attempt_row_def attempt_slot_def\<close>)
  moreover have "unique_on at_RunID attempt_active as'"
    by (rule replaces_unique [OF a(1)])
      (use ok s in \<open>auto simp: attempts_ok_def finish_attempt_row_def attempt_active_def\<close>)
  moreover have "\<forall>x \<in> set as'. attempt_row_ok x"
    by (rule replaces_ball [OF a(1)])
      (use ok s ad in \<open>auto simp: attempts_ok_def finish_attempt_row_def attempt_row_ok_def\<close>)
  moreover have "\<exists>x \<in> set rs'. attempt_of_run_ok b x" if b: "b \<in> set as'" for b
  proof (cases "b = ?a")
    case True
    then show ?thesis using r s
      by (auto simp: replaces_set [OF r(1)] attempt_of_run_ok_def finish_attempt_row_def finish_run_row_def)
  next
    case False
    then have b': "b \<in> set as" "b \<noteq> a" using b by (auto simp: replaces_set [OF a(1)])
    then have "\<exists>x \<in> set rs. attempt_of_run_ok b x" using ok by (simp add: attempts_ok_def)
    then show ?thesis
      by (rule replaces_bex [OF r(1)])
        (use other [OF b'] in \<open>auto simp: attempt_of_run_ok_def finish_run_row_def\<close>)
  qed
  moreover have "\<exists>b \<in> set as'. current_attempt x b" if x: "x \<in> set rs'" for x
  proof (cases "x = ?r")
    case True
    then show ?thesis using r s
      by (auto simp: replaces_set [OF a(1)] current_attempt_def finish_attempt_row_def finish_run_row_def)
  next
    case False
    then have x': "x \<in> set rs" "x \<noteq> r" using x by (auto simp: replaces_set [OF r(1)])
    then have "r_RunID x \<noteq> r_RunID r" using unique_onD [OF runs x'(1) rd] by auto
    moreover have "\<exists>b \<in> set as. current_attempt x b" using x' ok by (simp add: attempts_ok_def)
    ultimately show ?thesis using r(2)
      by (intro replaces_bex [OF a(1)]) (auto simp: current_attempt_def)
  qed
  ultimately show ?thesis by (simp add: attempts_ok_def)
qed

lemma runs_ok_finish:
  assumes ok: "runs_ok ws rs" and r: "replaces r_RunID rs r (finish_run_row s now r) rs'"
    "r_State r = StateActive" and s: "s \<in> {StateSucceeded, StateFailed, StateUnknown}"
  shows "runs_ok ws rs'"
proof -
  have rd: "r \<in> set rs" using r(1) by (simp add: replaces_def)
  then have row: "run_row_ok r" using ok by (simp add: runs_ok_def)
  have "unique_on r_RunID (\<lambda>_. True) rs'"
    by (rule replaces_unique [OF r(1)]) (use ok in \<open>simp_all add: runs_ok_def finish_run_row_def\<close>)
  moreover have "unique_on r_WorkID unresolved rs'"
    by (rule replaces_unique [OF r(1)]) (use ok r(2) in \<open>simp_all add: runs_ok_def finish_run_row_def unresolved_def\<close>)
  moreover have "unique_on retry_key has_retry_key rs'"
    by (rule replaces_unique [OF r(1)])
      (use ok in \<open>simp_all add: runs_ok_def finish_run_row_def retry_key_def has_retry_key_def\<close>)
  moreover have "\<forall>x \<in> set rs'. run_row_ok x"
    by (rule replaces_ball [OF r(1)])
      (use ok row r(2) s in \<open>auto simp: runs_ok_def finish_run_row_def run_row_ok_def state_in_failed_unknown_def\<close>)
  moreover have "\<forall>x \<in> set rs'. \<exists>w \<in> set ws. run_of_work_ok x w"
    by (rule replaces_ball [OF r(1)])
      (use ok rd s in \<open>auto simp: runs_ok_def finish_run_row_def run_of_work_ok_def\<close>)
  ultimately show ?thesis by (simp add: runs_ok_def)
qed


text \<open>The two updates that end a Run, on an Attempt that has the authority.\<close>

lemma sql_FinishRunAttempt_replaces:
  assumes "attempts_ok rs (run_attempts d)" "a \<in> set (run_attempts d)" "at_AttemptID a = j" "at_State a = StateActive"
  shows "replaces at_AttemptID (run_attempts d) a (finish_attempt_row s now a)
      (run_attempts (snd (sql_FinishRunAttempt s j now d)))
    \<and> snd (sql_FinishRunAttempt s j now d) =
        d\<lparr>run_attempts := run_attempts (snd (sql_FinishRunAttempt s j now d))\<rparr>
    \<and> fst (sql_FinishRunAttempt s j now d) = 1"
proof -
  have u: "unique_on at_AttemptID (\<lambda>_. True) (run_attempts d)" using assms(1) by (simp add: attempts_ok_def)
  let ?P = "\<lambda>a. at_AttemptID a = j \<and> at_State a = StateActive"
  have "replaces at_AttemptID (run_attempts d) a (finish_attempt_row s now a)
      (update_where ?P (finish_attempt_row s now) (run_attempts d))"
    using assms by (intro replaces_update_where [OF u]) (auto simp: finish_attempt_row_def)
  moreover have "count_where ?P (run_attempts d) = 1"
    using assms by (intro unique_update_first(2) [OF u assms(2)]) auto
  ultimately show ?thesis by (simp add: sql_FinishRunAttempt_def Let_def)
qed

lemma sql_FinishRun_replaces:
  assumes "runs_ok ws (runs d)" "r \<in> set (runs d)" "r_RunID r = i" "r_State r = StateActive"
  shows "replaces r_RunID (runs d) r (finish_run_row s now r) (runs (snd (sql_FinishRun s i now d)))
    \<and> snd (sql_FinishRun s i now d) = d\<lparr>runs := runs (snd (sql_FinishRun s i now d))\<rparr>
    \<and> fst (sql_FinishRun s i now d) = 1"
proof -
  have u: "unique_on r_RunID (\<lambda>_. True) (runs d)" using assms(1) by (simp add: runs_ok_def)
  let ?P = "\<lambda>r. r_RunID r = i \<and> r_State r = StateActive"
  have "replaces r_RunID (runs d) r (finish_run_row s now r) (update_where ?P (finish_run_row s now) (runs d))"
    using assms by (intro replaces_update_where [OF u]) (auto simp: finish_run_row_def)
  moreover have "count_where ?P (runs d) = 1"
    using assms by (intro unique_update_first(2) [OF u assms(2)]) auto
  ultimately show ?thesis by (simp add: sql_FinishRun_def Let_def)
qed

lemma sql_RunAttemptLeaseIsCurrent_True:
  assumes "sql_RunAttemptLeaseIsCurrent j now d = Some True" "attempts_ok rs (run_attempts d)"
    "a \<in> set (run_attempts d)" "at_AttemptID a = j"
  shows "now < at_LeaseExpiresAt a"
proof -
  from assms(1) obtain b where b: "first_where (\<lambda>a. at_AttemptID a = j) (run_attempts d) = Some b"
    "now < at_LeaseExpiresAt b"
    by (auto simp: sql_RunAttemptLeaseIsCurrent_def attempt_of_def)
  have "b = a"
    using unique_onD [of at_AttemptID "\<lambda>_. True" "run_attempts d" b a] first_where_Some [OF b(1)] assms
    by (simp add: attempts_ok_def)
  with b show ?thesis by simp
qed

lemma FinishUnresolvedAttempt_tx_effect:
  assumes "FinishUnresolvedAttempt_tx command E d n = Inr (v, d', n')" "execution_ok d"
  shows "\<exists>r a now2 now3. r \<in> set (runs d) \<and> a \<in> set (run_attempts d)
    \<and> attempt_authority (fi_MachineID command) (fi_RunID command) (fi_AttemptID command) (fi_Fence command) d (r, a)
    \<and> clock E (Suc n) < at_LeaseExpiresAt a
    \<and> replaces at_AttemptID (run_attempts d) a (finish_attempt_row (fi_Outcome command) now2 a) (run_attempts d')
    \<and> replaces r_RunID (runs d) r (finish_run_row (fi_Outcome command) now3 r) (runs d')
    \<and> d' = d\<lparr>run_attempts := run_attempts d', runs := runs d'\<rparr>"
proof -
  let ?s = "fi_Outcome command"
  from assms(1) obtain r a now2 now3 d1 x y where
    l: "sql_LockAttempt (fi_MachineID command) (fi_RunID command) (fi_AttemptID command) (fi_Fence command) d = Some (r, a)"
    and lease: "sql_RunAttemptLeaseIsCurrent (fi_AttemptID command) (clock E (Suc n)) d = Some True"
    and d1': "sql_FinishRunAttempt ?s (fi_AttemptID command) now2 d = (x, d1)"
    and d'': "sql_FinishRun ?s (fi_RunID command) now3 d1 = (y, d')"
    by (auto simp: FinishUnresolvedAttempt_tx_def sql_LockAttemptForFinish_def tx_simps)
  have d1: "d1 = snd (sql_FinishRunAttempt ?s (fi_AttemptID command) now2 d)"
    and d': "d' = snd (sql_FinishRun ?s (fi_RunID command) now3 d1)" by (simp_all add: d1' d'')
  note lock = sql_LockAttempt_Some [OF l]
  note parts = assms(2) [unfolded execution_ok_def work_state_ok_def]
  have a: "replaces at_AttemptID (run_attempts d) a (finish_attempt_row ?s now2 a) (run_attempts d1)
      \<and> d1 = d\<lparr>run_attempts := run_attempts d1\<rparr>"
    unfolding d1 using sql_FinishRunAttempt_replaces [of "runs d" d a "fi_AttemptID command" ?s now2] parts lock
    by (simp add: attempt_authority_def)
  have rest: "runs d1 = runs d" using arg_cong [OF conjunct2 [OF a], of runs] by simp
  have r: "replaces r_RunID (runs d1) r (finish_run_row ?s now3 r) (runs d') \<and> d' = d1\<lparr>runs := runs d'\<rparr>"
    unfolding d' using sql_FinishRun_replaces [of "works d" d1 r "fi_RunID command" ?s now3] parts lock rest
    by (simp add: attempt_authority_def)
  have "run_attempts d' = run_attempts d1" using arg_cong [OF conjunct2 [OF r], of run_attempts] by simp
  moreover have "clock E (Suc n) < at_LeaseExpiresAt a"
    using sql_RunAttemptLeaseIsCurrent_True [OF lease] parts lock by (auto simp: attempt_authority_def)
  ultimately show ?thesis using a r lock rest
    by (intro exI [of _ r] exI [of _ a] exI [of _ now2] exI [of _ now3]) auto
qed

lemma FinishUnresolvedAttempt_keeps: "keeps execution_ok (FinishUnresolvedAttempt command)"
  unfolding FinishUnresolvedAttempt_def
proof (intro keeps_checked keeps_transact)
  fix u
  assume "ValidateUnresolvedOutcome (fi_Outcome command) = Inr u"
  then have s: "fi_Outcome command \<in> {StateFailed, StateUnknown}" by (simp add: ValidateUnresolvedOutcome_Inr)
  show "preserves execution_ok (FinishUnresolvedAttempt_tx command)"
    unfolding preserves_def
  proof (intro allI impI)
    fix E d n v d' n'
    assume run: "FinishUnresolvedAttempt_tx command E d n = Inr (v, d', n')" and ok: "execution_ok d"
    from FinishUnresolvedAttempt_tx_effect [OF run ok] obtain r a now2 now3 where
      auth: "attempt_authority (fi_MachineID command) (fi_RunID command) (fi_AttemptID command) (fi_Fence command) d (r, a)"
      and a: "replaces at_AttemptID (run_attempts d) a (finish_attempt_row (fi_Outcome command) now2 a) (run_attempts d')"
      and r: "replaces r_RunID (runs d) r (finish_run_row (fi_Outcome command) now3 r) (runs d')"
      and d': "d' = d\<lparr>run_attempts := run_attempts d', runs := runs d'\<rparr>" by blast
    note parts = ok [unfolded execution_ok_def work_state_ok_def]
    have rest: "works d' = works d" "work_messages d' = work_messages d" "work_result_checks d' = work_result_checks d"
      by (subst d', simp)+
    have "attempts_ok (runs d') (run_attempts d')"
      using parts auth s by (intro attempts_ok_finish [OF _ _ a _ r])
        (auto simp: runs_ok_def attempt_authority_def)
    moreover have "runs_ok (works d) (runs d')"
      using parts auth s by (intro runs_ok_finish [OF _ r]) (auto simp: attempt_authority_def)
    moreover have "applied_once (works d) (runs d')"
      using parts auth s
      by (auto simp: applied_once_def replaces_count [OF r] applies_input_def succeeded_of_def finish_run_row_def
          attempt_authority_def)
    moreover have "inputs_bounded (work_messages d) (runs d')"
      using parts by (intro inputs_bounded_replace [OF _ r]) (simp_all add: finish_run_row_def)
    ultimately show "execution_ok d'"
      using parts rest by (simp add: execution_ok_def work_state_ok_def)
  qed
qed


section \<open>Committing an understanding\<close>

definition committed_work :: "string \<Rightarrow> string \<Rightarrow> run_row \<Rightarrow> work_row \<Rightarrow> work_row" where
  "committed_work understanding nextStep r w = w\<lparr>w_Understanding := Some understanding,
     w_NextStep := Some nextStep, w_AppliedInputSeq := r_InputEndSeq r,
     w_UnderstandingVersion := w_UnderstandingVersion w + 1\<rparr>"

definition committed_check :: "env \<Rightarrow> string \<Rightarrow> string \<Rightarrow> work_row \<Rightarrow> result_check_row" where
  "committed_check E understanding nextStep w = new_result_check E (fresh E 0) (w_WorkID w)
     (w_UnderstandingVersion w + 1) (ReviewContentDigest understanding nextStep)"

lemma work_of_Some: "work_of i d = Some w \<Longrightarrow> w \<in> set (works d) \<and> w_WorkID w = i"
  by (auto simp: work_of_def dest: first_where_Some)

lemma sql_LockAttemptForCommit_Some:
  assumes "sql_LockAttemptForCommit m i j f d = Some (r, w)"
  obtains a where "r \<in> set (runs d)" "a \<in> set (run_attempts d)" "attempt_authority m i j f d (r, a)"
    "w \<in> set (works d)" "w_WorkID w = r_WorkID r"
proof -
  from assms obtain a where
    "first_where (\<lambda>(r, a). attempt_authority m i j f d (r, a) \<and> work_of (r_WorkID r) d \<noteq> None)
      (List.product (runs d) (run_attempts d)) = Some (r, a)" "work_of (r_WorkID r) d = Some w"
    by (auto simp: sql_LockAttemptForCommit_def split: option.split_asm prod.split_asm)
  with first_where_Some [OF this(1)] work_of_Some [OF this(2)] show thesis
    by (intro that [of a]) auto
qed

lemma sql_CommitCurrentUnderstanding_Some:
  assumes "sql_CommitCurrentUnderstanding u n (r_InputEndSeq r) (r_WorkID r) applied version d = (Some x, d')"
    and "works_ok (works d)" "w \<in> set (works d)" "w_WorkID w = r_WorkID r"
  shows "x = w_UnderstandingVersion w + 1 \<and> d' = d\<lparr>works := works d'\<rparr>
    \<and> replaces w_WorkID (works d) w (committed_work u n r w) (works d')
    \<and> w_UnderstandingVersion w = version \<and> w_AppliedInputSeq w = applied \<and> r_InputEndSeq r \<le> w_InputHeadSeq w"
proof -
  let ?P = "\<lambda>w. w_WorkID w = r_WorkID r \<and> w_Lifecycle w = LifecycleOpen \<and> w_AppliedInputSeq w = applied
      \<and> w_UnderstandingVersion w = version \<and> w_InputHeadSeq w \<ge> r_InputEndSeq r"
  have u: "unique_on w_WorkID (\<lambda>_. True) (works d)" using assms(2) by (simp add: works_ok_def)
  from assms(1) obtain y where y: "first_where ?P (works d) = Some y" "x = w_UnderstandingVersion y + 1"
    and d': "d' = d\<lparr>works := update_where ?P (committed_work u n r) (works d)\<rparr>"
    by (auto simp: sql_CommitCurrentUnderstanding_def Let_def committed_work_def [abs_def])
  have yw: "y \<in> set (works d)" "?P y" using first_where_Some [OF y(1)] by auto
  then have "y = w" using unique_onD [OF u yw(1) assms(3)] assms(4) by simp
  moreover have "replaces w_WorkID (works d) y (committed_work u n r y)
      (update_where ?P (committed_work u n r) (works d))"
    using yw by (intro replaces_update_where [OF u]) (auto simp: committed_work_def)
  ultimately show ?thesis using y d' yw by auto
qed

text \<open>What a commit wrote: the Work, possibly a result check, the Attempt and the Run.\<close>

definition commit_step :: "commit_command \<Rightarrow> string \<Rightarrow> string \<Rightarrow> env \<Rightarrow> nat \<Rightarrow> db \<Rightarrow> db \<Rightarrow> run_row \<Rightarrow> attempt_row \<Rightarrow> work_row \<Rightarrow> bool" where
  "commit_step command u s E n d d' r a w \<longleftrightarrow>
     r \<in> set (runs d) \<and> a \<in> set (run_attempts d)
     \<and> attempt_authority (co_MachineID command) (co_RunID command) (co_AttemptID command) (co_Fence command) d (r, a)
     \<and> clock E (Suc n) < at_LeaseExpiresAt a \<and> w_WorkID w = r_WorkID r \<and> commit_current command r w
     \<and> replaces w_WorkID (works d) w (committed_work u s r w) (works d')
     \<and> (if co_ReviewRequired command \<and> r_InputEndSeq r = w_InputHeadSeq w
        then \<not> key_taken check_slot (\<lambda>_. True) (w_WorkID w, w_UnderstandingVersion w + 1) (work_result_checks d)
           \<and> \<not> key_taken rc_ReviewID (\<lambda>_. True) (fresh E 0) (work_result_checks d)
           \<and> work_result_checks d' = work_result_checks d @ [committed_check E u s w]
        else work_result_checks d' = work_result_checks d)
     \<and> (\<exists>now. replaces at_AttemptID (run_attempts d) a (finish_attempt_row StateSucceeded now a) (run_attempts d'))
     \<and> (\<exists>now. replaces r_RunID (runs d) r (finish_run_row StateSucceeded now r) (runs d'))
     \<and> d' = d\<lparr>works := works d', work_result_checks := work_result_checks d', run_attempts := run_attempts d', runs := runs d'\<rparr>"

lemma CommitWorkUnderstanding_tx_effect:
  assumes "CommitWorkUnderstanding_tx command (u, s) E d n = Inr (v, d', n')" "execution_ok d"
  shows "\<exists>r a w. commit_step command u s E n d d' r a w"
proof -
  from assms(1) obtain r w now2 now3 d1 d2 d3 x y version where
    l: "sql_LockAttemptForCommit (co_MachineID command) (co_RunID command) (co_AttemptID command) (co_Fence command) d = Some (r, w)"
    and lease: "sql_RunAttemptLeaseIsCurrent (co_AttemptID command) (clock E (Suc n)) d = Some True"
    and current: "commit_current command r w"
    and d1: "sql_CommitCurrentUnderstanding u s (r_InputEndSeq r) (r_WorkID r) (r_InputStartSeq r - 1)
       (r_BaseUnderstandingVersion r) d = (Some version, d1)"
    and d2: "if co_ReviewRequired command \<and> r_InputEndSeq r = w_InputHeadSeq w
       then sql_CreateWorkResultCheck (new_result_check E (fresh E 0) (r_WorkID r) version
               (ReviewContentDigest u s)) d1 = Inr (1, d2) else d2 = d1"
    and d3': "sql_FinishRunAttempt StateSucceeded (co_AttemptID command) now2 d2 = (x, d3)"
    and d'': "sql_FinishRun StateSucceeded (co_RunID command) now3 d3 = (y, d')"
    by (auto simp: CommitWorkUnderstanding_tx_def tx_simps sql_SucceedRun_def sql_SucceedRunAttempt_def)
  note parts = assms(2) [unfolded execution_ok_def work_state_ok_def]
  from l obtain a where lock: "r \<in> set (runs d)" "a \<in> set (run_attempts d)"
    "attempt_authority (co_MachineID command) (co_RunID command) (co_AttemptID command) (co_Fence command) d (r, a)"
    "w \<in> set (works d)" "w_WorkID w = r_WorkID r"
    by (rule sql_LockAttemptForCommit_Some)
  from sql_CommitCurrentUnderstanding_Some [OF d1 _ lock(4,5)] parts
  have version: "version = w_UnderstandingVersion w + 1" and w: "replaces w_WorkID (works d) w (committed_work u s r w) (works d1)"
    and eq1: "d1 = d\<lparr>works := works d1\<rparr>" by auto
  have same1: "work_result_checks d1 = work_result_checks d" "run_attempts d1 = run_attempts d" "runs d1 = runs d"
    by (subst eq1, simp)+
  have eq2: "d2 = d1\<lparr>work_result_checks := work_result_checks d2\<rparr>"
    using d2 by (auto simp: sql_CreateWorkResultCheck_def split: if_split_asm)
  have same2: "works d2 = works d1" "run_attempts d2 = run_attempts d" "runs d2 = runs d"
    by (subst eq2, simp add: same1)+
  have a: "replaces at_AttemptID (run_attempts d2) a (finish_attempt_row StateSucceeded now2 a) (run_attempts d3)
      \<and> d3 = d2\<lparr>run_attempts := run_attempts d3\<rparr>"
    using sql_FinishRunAttempt_replaces [of "runs d" d2 a "co_AttemptID command" StateSucceeded now2] parts lock same2 d3'
    by (simp add: attempt_authority_def)
  then have eq3: "d3 = d2\<lparr>run_attempts := run_attempts d3\<rparr>" by simp
  have same3: "works d3 = works d1" "work_result_checks d3 = work_result_checks d2" "runs d3 = runs d"
    by (subst eq3, simp add: same2)+
  have r: "replaces r_RunID (runs d3) r (finish_run_row StateSucceeded now3 r) (runs d') \<and> d' = d3\<lparr>runs := runs d'\<rparr>"
    using sql_FinishRun_replaces [of "works d" d3 r "co_RunID command" StateSucceeded now3] parts lock same3 d''
    by (simp add: attempt_authority_def)
  then have eq4: "d' = d3\<lparr>runs := runs d'\<rparr>" by simp
  have same4: "works d' = works d1" "work_result_checks d' = work_result_checks d2" "run_attempts d' = run_attempts d3"
    by (subst eq4, simp add: same3)+
  have "d' = d\<lparr>works := works d', work_result_checks := work_result_checks d', run_attempts := run_attempts d', runs := runs d'\<rparr>"
    by (subst eq4, subst eq3, subst eq2, subst eq1) (simp add: same4)
  moreover have "if co_ReviewRequired command \<and> r_InputEndSeq r = w_InputHeadSeq w
        then \<not> key_taken check_slot (\<lambda>_. True) (w_WorkID w, w_UnderstandingVersion w + 1) (work_result_checks d)
           \<and> \<not> key_taken rc_ReviewID (\<lambda>_. True) (fresh E 0) (work_result_checks d)
           \<and> work_result_checks d' = work_result_checks d @ [committed_check E u s w]
        else work_result_checks d' = work_result_checks d"
    using d2 same4 same1 lock(5) version
    by (auto simp: sql_CreateWorkResultCheck_def check_slot_def new_result_check_def committed_check_def split: if_split_asm)
  moreover have "clock E (Suc n) < at_LeaseExpiresAt a"
    using sql_RunAttemptLeaseIsCurrent_True [OF lease] parts lock by (auto simp: attempt_authority_def)
  ultimately show ?thesis using lock current w a r same2 same3 same4
    unfolding commit_step_def by (intro exI [of _ r] exI [of _ a] exI [of _ w]) auto
qed


lemma ReviewContentDigest_of_commit:
  "rc_ContentDigest (committed_check E u s w) =
     ReviewContentDigest (textValue (w_Understanding (committed_work u s r w))) (textValue (w_NextStep (committed_work u s r w)))"
  by (simp add: committed_check_def new_result_check_def committed_work_def textValue_def)

lemma execution_ok_commit:
  assumes ok: "execution_ok d" and step: "commit_step command u s E n d d' r a w"
    and valid: "ValidateUnderstandingUpdate u s = Inr (u, s)"
  shows "execution_ok d'"
proof -
  let ?w = "committed_work u s r w"
  note parts = ok [unfolded execution_ok_def work_state_ok_def]
  note st = step [unfolded commit_step_def]
  have w: "replaces w_WorkID (works d) w ?w (works d')" and wd: "w \<in> set (works d)" and rd: "r \<in> set (runs d)"
    using st by (auto simp: replaces_def)
  obtain now3 where r: "replaces r_RunID (runs d) r (finish_run_row StateSucceeded now3 r) (runs d')" using st by blast
  obtain now2 where a: "replaces at_AttemptID (run_attempts d) a (finish_attempt_row StateSucceeded now2 a) (run_attempts d')"
    using st by blast
  have auth: "r_State r = StateActive" "at_State a = StateActive" "at_RunID a = r_RunID r" "at_Fence a = r_CurrentFence r"
    using st by (auto simp: attempt_authority_def)
  have cur: "w_UnderstandingVersion w = r_BaseUnderstandingVersion r" "w_AppliedInputSeq w = r_InputStartSeq r - 1"
    "r_InputEndSeq r \<le> w_InputHeadSeq w" "r_WorkID r = w_WorkID w"
    using st by (auto simp: commit_current_def)
  have rows: "run_row_ok r" "work_row_ok w" using parts rd wd by (simp_all add: runs_ok_def works_ok_def)
  have "d' = d\<lparr>works := works d', work_result_checks := work_result_checks d', run_attempts := run_attempts d', runs := runs d'\<rparr>"
    using st by blast
  from arg_cong [OF this, of work_messages] have msgs: "work_messages d' = work_messages d" by simp
  have "work_row_ok ?w"
    using rows cur valid by (auto simp: work_row_ok_def run_row_ok_def committed_work_def split: option.splits)
  then have works: "works_ok (works d')"
    using parts by (intro works_ok_replace [OF _ w]) (simp_all add: create_key_def committed_work_def)
  have msgs_ok: "messages_ok (works d') (work_messages d')"
    using parts msgs by (intro messages_ok_replace_work [OF _ w]) (simp_all add: committed_work_def)
  have checks0: "checks_ok (works d') (work_result_checks d)"
    using parts by (intro checks_ok_replace_work [OF _ w]) (auto simp: check_of_work_ok_def committed_work_def)
  have written: "if co_ReviewRequired command \<and> r_InputEndSeq r = w_InputHeadSeq w
      then \<not> key_taken check_slot (\<lambda>_. True) (w_WorkID w, w_UnderstandingVersion w + 1) (work_result_checks d)
         \<and> \<not> key_taken rc_ReviewID (\<lambda>_. True) (fresh E 0) (work_result_checks d)
         \<and> work_result_checks d' = work_result_checks d @ [committed_check E u s w]
      else work_result_checks d' = work_result_checks d"
    using st by blast
  have checks: "checks_ok (works d') (work_result_checks d')"
  proof (cases "co_ReviewRequired command \<and> r_InputEndSeq r = w_InputHeadSeq w")
    case True
    let ?c = "committed_check E u s w"
    have c: "check_row_ok ?c" "check_of_work_ok ?c ?w" "\<not> is_accepted ?c" "check_slot ?c = (w_WorkID w, w_UnderstandingVersion w + 1)"
      "rc_ReviewID ?c = fresh E 0"
      using rows ReviewContentDigest_of_commit [of E u s w r]
      by (auto simp: check_row_ok_def check_of_work_ok_def is_accepted_def check_slot_def committed_check_def
          new_result_check_def committed_work_def work_row_ok_def)
    have "?w \<in> set (works d')" by (simp add: replaces_set [OF w])
    with c have "\<exists>x \<in> set (works d'). check_of_work_ok ?c x" by blast
    then show ?thesis using True written checks0 c by (simp add: checks_ok_def unique_on_append1)
  next
    case False
    then show ?thesis using written checks0 by simp
  qed
  have only: "r_State x \<noteq> StateActive" if x: "x \<in> set (runs d')" "run_of_work_ok x w" for x
  proof
    assume act: "r_State x = StateActive"
    then have "x \<noteq> finish_run_row StateSucceeded now3 r" by (auto simp: finish_run_row_def)
    then have "x \<in> set (runs d)" "x \<noteq> r" using x by (auto simp: replaces_set [OF r])
    moreover have "x = r"
      using unique_onD [of r_WorkID unresolved "runs d" x r] parts calculation(1) rd act auth(1) x(2) cur(4)
      by (simp add: runs_ok_def unresolved_def run_of_work_ok_def)
    ultimately show False by simp
  qed
  have "runs_ok (works d) (runs d')"
    using parts auth by (intro runs_ok_finish [OF _ r]) auto
  then have runs: "runs_ok (works d') (runs d')"
    by (rule runs_ok_replace_work [OF _ w]) (use only in \<open>auto simp: run_of_work_ok_def committed_work_def\<close>)
  have attempts: "attempts_ok (runs d') (run_attempts d')"
    using parts auth by (intro attempts_ok_finish [OF _ _ a _ r]) (auto simp: runs_ok_def)
  have other: "w_WorkID x \<noteq> w_WorkID w" if "x \<in> set (works d)" "x \<noteq> w" for x
    using replaces_only [OF w that(1)] that by auto
  have once: "applied_once (works d') (runs d')"
    unfolding applied_once_def
  proof (intro ballI)
    fix x assume "x \<in> set (works d')"
    then consider "x = ?w" | "x \<in> set (works d)" "x \<noteq> w" by (auto simp: replaces_set [OF w])
    then show "(\<forall>s. count_where (applies_input (w_WorkID x) s) (runs d')
            = (if 1 \<le> s \<and> s \<le> w_AppliedInputSeq x then 1 else 0))
        \<and> count_where (succeeded_of (w_WorkID x)) (runs d') = w_UnderstandingVersion x"
    proof cases
      case 1
      then have x: "w_WorkID x = w_WorkID w" "w_AppliedInputSeq x = r_InputEndSeq r"
        "w_UnderstandingVersion x = w_UnderstandingVersion w + 1" by (simp_all add: committed_work_def)
      have "count_where (applies_input (w_WorkID w) s) (runs d) = (if 1 \<le> s \<and> s \<le> w_AppliedInputSeq w then 1 else 0)"
        "count_where (succeeded_of (w_WorkID w)) (runs d) = w_UnderstandingVersion w" for s
        using parts wd by (simp_all add: applied_once_def)
      then show ?thesis
        using auth cur rows unfolding x
        by (auto simp: replaces_count [OF r] applies_input_def succeeded_of_def finish_run_row_def run_row_ok_def)
    next
      case 2
      then show ?thesis
        using parts other [OF 2] cur(4)
        by (auto simp: replaces_count [OF r] applied_once_def applies_input_def succeeded_of_def finish_run_row_def)
    qed
  qed
  have "inputs_bounded (work_messages d') (runs d')"
    using parts msgs by (intro inputs_bounded_replace [OF _ r]) (simp_all add: finish_run_row_def)
  then show ?thesis
    using works msgs_ok checks runs attempts once by (simp add: execution_ok_def work_state_ok_def)
qed

lemma CommitWorkUnderstanding_keeps: "keeps execution_ok (CommitWorkUnderstanding command)"
  unfolding CommitWorkUnderstanding_def
proof (intro keeps_checked keeps_transact)
  fix update
  assume v: "ValidateUnderstandingUpdate (co_Understanding command) (co_NextStep command) = Inr update"
  obtain u s where us: "update = (u, s)" by (cases update)
  have valid: "ValidateUnderstandingUpdate u s = Inr (u, s)"
    using v by (auto simp: us ValidateUnderstandingUpdate_Inr)
  show "preserves execution_ok (CommitWorkUnderstanding_tx command update)"
    unfolding preserves_def us
    using CommitWorkUnderstanding_tx_effect execution_ok_commit [OF _ _ valid] by blast
qed


section \<open>The input of a new Run\<close>

lemma take_bytes_prefix: "\<exists>rest. xs = take_bytes t b xs @ rest"
  by (induction t b xs rule: take_bytes.induct) auto

lemma take_bytes_sum: "sum_list (map (\<lambda>x. length (t x)) (take_bytes t b xs)) \<le> b"
  by (induction t b xs rule: take_bytes.induct) auto

text \<open>Cutting a strictly sorted list at the key of the last element of a prefix.\<close>

lemma filter_le_last_prefix:
  fixes k :: "'r \<Rightarrow> int"
  assumes "sorted_wrt (<) (map k (p @ q))" "p \<noteq> []"
  shows "filter (\<lambda>x. k x \<le> k (last p)) (p @ q) = p" "Max (set (map k p)) = k (last p)"
proof -
  have le: "k x \<le> k (last p)" if "x \<in> set p" for x
  proof -
    have "p = butlast p @ [last p]" using assms(2) by simp
    then have "sorted_wrt (<) (map k (butlast p) @ [k (last p)])"
      using assms(1) by (metis (no_types, lifting) list.simps(8,9) map_append sorted_wrt_append)
    then have "\<forall>y \<in> set (butlast p). k y < k (last p)" by (simp add: sorted_wrt_append)
    moreover have "set p = insert (last p) (set (butlast p))"
      by (metis \<open>p = butlast p @ [last p]\<close> rotate1.simps(2) set_rotate1 append_butlast_last_id assms(2) list.simps(15))
    ultimately show ?thesis using that by auto
  qed
  have gt: "k (last p) < k y" if "y \<in> set q" for y
    using assms that by (simp add: sorted_wrt_append)
  then have "filter (\<lambda>x. k x \<le> k (last p)) q = []" by (fastforce simp: filter_empty_conv)
  moreover have "filter (\<lambda>x. k x \<le> k (last p)) p = p" using le by (simp add: filter_id_conv)
  ultimately show "filter (\<lambda>x. k x \<le> k (last p)) (p @ q) = p" by simp
  show "Max (set (map k p)) = k (last p)"
    by (rule Max_eqI) (use le assms(2) in auto)
qed

lemma mset_filter_order_by: "mset (filter P (order_by k xs)) = mset (filter P xs)"
  by (simp add: order_by_def)

lemma strictly_sorted_order_by:
  assumes "distinct (map k xs)"
  shows "sorted_wrt (<) (map k (order_by k xs))"
proof -
  have "mset (map k (order_by k xs)) = mset (map k xs)" by (simp add: order_by_def)
  then have "distinct (map k (order_by k xs))" using assms by (metis mset_eq_imp_distinct_iff)
  then show ?thesis using sorted_order_by [of k xs] by (simp add: strict_sorted_iff)
qed

lemma text_bytes_mset: "mset ms = mset ns \<Longrightarrow> length ms = length ns \<and> text_bytes ms = text_bytes ns"
  unfolding text_bytes_def by (metis mset_eq_length mset_map sum_mset_sum_list)

definition in_range :: "uuid \<Rightarrow> int \<Rightarrow> int \<Rightarrow> work_message_row \<Rightarrow> bool" where
  "in_range workID s e m \<longleftrightarrow> wm_WorkID m = workID \<and> s \<le> wm_InputSeq m \<and> wm_InputSeq m \<le> e"

lemma distinct_seqs:
  assumes "unique_on message_slot (\<lambda>_. True) ms"
  shows "distinct (map wm_InputSeq (filter (in_range workID s e) ms))"
proof -
  have "distinct (map message_slot ms)" using assms by (simp add: unique_on_def)
  then have "distinct (map message_slot (filter (in_range workID s e) ms))" by (rule distinct_map_filter)
  moreover have "map message_slot (filter (in_range workID s e) ms)
      = map (Pair workID) (map wm_InputSeq (filter (in_range workID s e) ms))"
    by (simp add: message_slot_def in_range_def)
  ultimately show ?thesis by (simp add: distinct_map del: map_map)
qed

lemma SelectRunInputEnd_bounds:
  fixes workID :: uuid
  assumes ok: "messages_ok ws (work_messages d)" and sh: "s \<le> h"
  defines "e \<equiv> sql_SelectRunInputEnd s workID h d"
  shows "s \<le> e" "e \<le> h"
    "length (filter (in_range workID s e) (work_messages d)) \<le> 32"
    "text_bytes (filter (in_range workID s e) (work_messages d)) \<le> 262144"
proof -
  let ?ms = "work_messages d"
  let ?S = "order_by wm_InputSeq (filter (in_range workID s h) ?ms)"
  let ?p = "take_bytes wm_Text 262144 (take 32 ?S)"
  have u: "unique_on message_slot (\<lambda>_. True) ?ms" using ok by (simp add: messages_ok_def)
  have up: "upcoming_messages workID s h d = take 32 ?S"
    by (simp add: upcoming_messages_def in_range_def [abs_def])
  obtain q0 where q0: "take 32 ?S = ?p @ q0" using take_bytes_prefix by blast
  then have S: "?S = ?p @ (q0 @ drop 32 ?S)" using q0 by (metis append.assoc append_take_drop_id)
  have "length (take 32 ?S) = length ?p + length q0"
    using arg_cong [OF q0, of length] by (simp only: length_append)
  moreover have "length (take 32 ?S) \<le> 32" by simp
  ultimately have len: "length ?p \<le> 32" by linarith
  have bytes: "text_bytes ?p \<le> 262144" unfolding text_bytes_def by (rule take_bytes_sum)
  have all: "s \<le> e \<and> e \<le> h \<and> length (filter (in_range workID s e) ?ms) \<le> 32
    \<and> text_bytes (filter (in_range workID s e) ?ms) \<le> 262144"
  proof (cases "?p = []")
    case True
    then have e: "e = s" by (simp add: e_def sql_SelectRunInputEnd_def up)
    let ?F = "filter (in_range workID s s) ?ms"
    have "\<forall>x \<in> set (map wm_InputSeq ?F). x = s" by (auto simp: in_range_def)
    then have "set (map wm_InputSeq ?F) \<subseteq> {s}" by blast
    then have "card (set (map wm_InputSeq ?F)) \<le> 1" by (metis card_mono card.empty card_insert_if finite.emptyI finite.insertI One_nat_def empty_iff)
    then have l: "length ?F \<le> 1" using distinct_card [OF distinct_seqs [OF u, of workID s s]] by simp
    have "text_bytes ?F \<le> 61440"
    proof (cases ?F)
      case Nil
      then show ?thesis by (simp add: text_bytes_def)
    next
      case (Cons m rest)
      then have "rest = []" using l by simp
      moreover have "m \<in> set ?ms" using Cons by (metis filter_is_subset list.set_intros(1) subsetD)
      then have "message_row_ok m" using ok by (simp add: messages_ok_def)
      then have "length (wm_Text m) \<le> 61440"
        by (auto simp: message_row_ok_def ValidateMessage_def MaxMessageBytes_def split: if_split_asm)
      ultimately show ?thesis using Cons by (simp add: text_bytes_def)
    qed
    with l e sh show ?thesis by simp
  next
    case False
    then obtain m ms' where p: "?p = m # ms'" by (cases ?p) auto
    have sorted: "sorted_wrt (<) (map wm_InputSeq (?p @ (q0 @ drop 32 ?S)))"
      using strictly_sorted_order_by [OF distinct_seqs [OF u, of workID s h]] S by simp
    have e: "e = wm_InputSeq (last ?p)"
      using filter_le_last_prefix(2) [OF sorted False] p by (simp add: e_def sql_SelectRunInputEnd_def up)
    have "last ?p \<in> set ?S" using False S by (metis Un_iff last_in_set set_append)
    then have range: "s \<le> e" "e \<le> h" by (simp_all add: e in_range_def)
    have "mset (filter (in_range workID s e) ?ms) = mset (filter (\<lambda>m. wm_InputSeq m \<le> e) (filter (in_range workID s h) ?ms))"
      using range by (simp add: in_range_def) (metis (no_types, lifting) order_trans)
    also have "\<dots> = mset (filter (\<lambda>m. wm_InputSeq m \<le> e) ?S)" by (simp only: mset_filter_order_by)
    also have "filter (\<lambda>m. wm_InputSeq m \<le> e) ?S = ?p"
      using filter_le_last_prefix(1) [OF sorted False] S e by simp
    finally show ?thesis using text_bytes_mset len bytes range by metis
  qed
  from all show "s \<le> e" "e \<le> h" "length (filter (in_range workID s e) ?ms) \<le> 32"
    "text_bytes (filter (in_range workID s e) ?ms) \<le> 262144" by auto
qed

end
