(* ===== verification/Run_Claims.thy ===== *)
theory Run_Claims
  imports Execution_Invariants
begin

text \<open>
  Claims preserve the invariants of durable work: a new Run starts right behind the applied
  input and carries a bounded range, a recovered Run moves to the next fence and its old
  Attempt expires in the same transaction.
\<close>

lemma machine_of_Some: "machine_of i d = Some m \<Longrightarrow> m \<in> set (machines d) \<and> m_MachineID m = i"
  by (auto simp: machine_of_def dest: first_where_Some)

section \<open>A new Run\<close>

definition created_claim :: "env \<Rightarrow> uuid \<Rightarrow> run_row \<Rightarrow> work_row \<Rightarrow> claim" where
  "created_claim E runID r w = \<lparr>cl_RunID = runID, cl_AttemptID = [], cl_WorkID = w_WorkID w, cl_Fence = 1,
     cl_LeaseExpiresAt = 0, cl_Goal = w_Goal w, cl_CurrentUnderstanding = textValue (w_Understanding w),
     cl_CurrentNextStep = textValue (w_NextStep w), cl_BaseUnderstandingVersion = w_UnderstandingVersion w,
     cl_InputEndSeq = r_InputEndSeq r, cl_Messages = []\<rparr>"

definition run_for_work :: "env \<Rightarrow> db \<Rightarrow> work_row \<Rightarrow> run_row" where
  "run_for_work E d w = new_run E (fresh E 0) (w_WorkID w) (w_AppliedInputSeq w + 1)
     (sql_SelectRunInputEnd (w_AppliedInputSeq w + 1) (w_WorkID w) (w_InputHeadSeq w) d) (w_UnderstandingVersion w)"

lemma run_for_work_simps [simp]:
  "r_RunID (run_for_work E d w) = fresh E 0" "r_WorkID (run_for_work E d w) = w_WorkID w"
  "r_InputStartSeq (run_for_work E d w) = w_AppliedInputSeq w + 1"
  "r_InputEndSeq (run_for_work E d w) = sql_SelectRunInputEnd (w_AppliedInputSeq w + 1) (w_WorkID w) (w_InputHeadSeq w) d"
  "r_BaseUnderstandingVersion (run_for_work E d w) = w_UnderstandingVersion w"
  "r_State (run_for_work E d w) = StateActive" "r_CurrentFence (run_for_work E d w) = 1"
  "r_CompletedAt (run_for_work E d w) = None" "r_RetryRequestedAt (run_for_work E d w) = None"
  "r_RetryRequestedByUserID (run_for_work E d w) = None" "r_RetryIdempotencyKey (run_for_work E d w) = None"
  by (simp_all add: run_for_work_def new_run_def)

lemma sql_LockWorkForRunClaim_Some:
  assumes "sql_LockWorkForRunClaim E s d = Some w"
  shows "w \<in> set (works d) \<and> claimable_work s d w \<and> \<not> row_locked E (w_WorkID w)"
proof -
  have "w \<in> set (order_by created_order (filter (\<lambda>w. claimable_work s d w \<and> \<not> row_locked E (w_WorkID w)) (works d)))"
    using assms unfolding sql_LockWorkForRunClaim_def by (rule first_row_in)
  then show ?thesis by simp
qed

lemma create_run_effect:
  assumes "create_run s E d n = Inr ((c, start), d', n')"
  shows "\<exists>w. sql_LockWorkForRunClaim E s d = Some w
    \<and> c = created_claim E (fresh E 0) (run_for_work E d w) w \<and> start = w_AppliedInputSeq w + 1
    \<and> \<not> key_taken r_RunID (\<lambda>_. True) (fresh E 0) (runs d)
    \<and> \<not> key_taken r_WorkID unresolved (w_WorkID w) (runs d)
    \<and> d' = d\<lparr>runs := runs d @ [run_for_work E d w]\<rparr>"
proof -
  from assms obtain w created where w: "sql_LockWorkForRunClaim E s d = Some w"
    and c: "sql_CreateRun (run_for_work E d w) d = Inr (created, d')"
    and v: "c = created_claim E (fresh E 0) (run_for_work E d w) w" "start = w_AppliedInputSeq w + 1"
    by (auto simp: create_run_def tx_simps run_for_work_def created_claim_def new_run_def)
  then show ?thesis
    by (intro exI [of _ w]) (auto simp: sql_CreateRun_def unresolved_def split: if_split_asm)
qed

section \<open>A recovered Run\<close>

definition expired_attempt :: "timestamp \<Rightarrow> attempt_row \<Rightarrow> attempt_row" where
  "expired_attempt now a = a\<lparr>at_State := StateExpired, at_CompletedAt := Some now\<rparr>"

definition rotated_run :: "run_row \<Rightarrow> run_row" where
  "rotated_run r = r\<lparr>r_CurrentFence := r_CurrentFence r + 1\<rparr>"

definition recovered_claim :: "run_row \<Rightarrow> work_row \<Rightarrow> claim" where
  "recovered_claim r w = \<lparr>cl_RunID = r_RunID r, cl_AttemptID = [], cl_WorkID = r_WorkID r,
     cl_Fence = r_CurrentFence r + 1, cl_LeaseExpiresAt = 0, cl_Goal = w_Goal w,
     cl_CurrentUnderstanding = textValue (w_Understanding w), cl_CurrentNextStep = textValue (w_NextStep w),
     cl_BaseUnderstandingVersion = r_BaseUnderstandingVersion r, cl_InputEndSeq = r_InputEndSeq r, cl_Messages = []\<rparr>"

lemma sql_LockExpiredRunForClaim_Some:
  assumes "sql_LockExpiredRunForClaim E s now d = Some (r, w, a)"
  shows "r \<in> set (runs d) \<and> w \<in> set (works d) \<and> a \<in> set (run_attempts d) \<and> w_WorkID w = r_WorkID r
    \<and> at_RunID a = r_RunID r \<and> at_Fence a = r_CurrentFence r \<and> w_SpaceID w = s
    \<and> r_State r = StateActive \<and> at_State a = StateActive \<and> at_LeaseExpiresAt a \<le> now"
proof -
  have "(r, w, a) \<in> set (order_by expired_order (filter (\<lambda>(r, w, a). expired_for_claim s now (r, w, a)
           \<and> \<not> row_locked E (r_RunID r) \<and> \<not> row_locked E (at_AttemptID a) \<and> \<not> row_locked E (w_WorkID w)) (run_joins d)))"
    using assms unfolding sql_LockExpiredRunForClaim_def by (rule first_row_in)
  then show ?thesis by (auto simp: run_joins_def expired_for_claim_def)
qed

lemma recover_run_effect:
  assumes "recover_run (r, w, a) E d n = Inr ((c, start), d', n')" "execution_ok d"
    and row: "r \<in> set (runs d)" "a \<in> set (run_attempts d)" "at_RunID a = r_RunID r" "at_Fence a = r_CurrentFence r"
      "r_State r = StateActive" "at_State a = StateActive"
  shows "c = recovered_claim r w \<and> start = r_InputStartSeq r
    \<and> (\<exists>now. at_LeaseExpiresAt a \<le> now
        \<and> replaces at_AttemptID (run_attempts d) a (expired_attempt now a) (run_attempts d'))
    \<and> replaces r_RunID (runs d) r (rotated_run r) (runs d')
    \<and> d' = d\<lparr>run_attempts := run_attempts d', runs := runs d'\<rparr>"
proof -
  from assms(1) obtain d1 now fence where
    e: "sql_ExpireRunAttempt (at_AttemptID a) (r_RunID r) (r_CurrentFence r) now d = (1, d1)"
    and f: "sql_RotateRunFence (r_RunID r) (r_CurrentFence r) d1 = (Some fence, d')"
    and c: "c = recovered_claim r w \<lparr>cl_Fence := fence\<rparr>" "start = r_InputStartSeq r"
    by (auto simp: recover_run_def tx_simps recovered_claim_def)
  note parts = assms(2) [unfolded execution_ok_def work_state_ok_def]
  have ua: "unique_on at_AttemptID (\<lambda>_. True) (run_attempts d)" and ur: "unique_on r_RunID (\<lambda>_. True) (runs d)"
    using parts by (simp_all add: attempts_ok_def runs_ok_def)
  let ?P = "\<lambda>x. at_AttemptID x = at_AttemptID a \<and> at_RunID x = r_RunID r \<and> at_Fence x = r_CurrentFence r
      \<and> at_State x = StateActive \<and> at_LeaseExpiresAt x \<le> now"
  have d1: "d1 = d\<lparr>run_attempts := update_where ?P (expired_attempt now) (run_attempts d)\<rparr>"
    and one: "count_where ?P (run_attempts d) = 1"
    using e by (auto simp: sql_ExpireRunAttempt_def Let_def expired_attempt_def [abs_def])
  from count_where_eq_1_ex [OF one] obtain x where x: "x \<in> set (run_attempts d)" "?P x" by blast
  then have "x = a" using unique_onD [OF ua x(1) row(2)] by simp
  with x have "?P a" by simp
  then have att: "replaces at_AttemptID (run_attempts d) a (expired_attempt now a)
      (update_where ?P (expired_attempt now) (run_attempts d))"
    using row(2) by (intro replaces_update_where [OF ua]) (auto simp: expired_attempt_def)
  let ?Q = "\<lambda>x. r_RunID x = r_RunID r \<and> r_State x = StateActive \<and> r_CurrentFence x = r_CurrentFence r"
  have runs1: "runs d1 = runs d" by (simp add: d1)
  have "first_where ?Q (runs d) = Some r"
    using unique_update_first(1) [OF ur row(1), of ?Q] row by simp
  then have fence: "fence = r_CurrentFence r + 1" and d': "d' = d1\<lparr>runs := update_where ?Q rotated_run (runs d)\<rparr>"
    using f runs1 by (auto simp: sql_RotateRunFence_def Let_def rotated_run_def [abs_def])
  have "replaces r_RunID (runs d) r (rotated_run r) (update_where ?Q rotated_run (runs d))"
    using row by (intro replaces_update_where [OF ur]) (auto simp: rotated_run_def)
  then show ?thesis
    using att c fence d' d1 \<open>?P a\<close> by (auto simp: recovered_claim_def)
qed

section \<open>The Attempt of a claim\<close>

lemma open_attempt_effect:
  assumes "open_attempt machineID (c, start) E d n = Inr (claim, d', n')"
  shows "\<exists>now. let a = new_attempt E (fresh E 1) (cl_RunID c) machineID (cl_Fence c) now in
      claim = c\<lparr>cl_AttemptID := fresh E 1, cl_LeaseExpiresAt := now + minutes 5,
        cl_Messages := sql_ListRunInputMessages (cl_WorkID c) start (cl_InputEndSeq c) d\<rparr>
    \<and> \<not> key_taken at_AttemptID (\<lambda>_. True) (fresh E 1) (run_attempts d)
    \<and> \<not> key_taken attempt_slot (\<lambda>_. True) (cl_RunID c, cl_Fence c) (run_attempts d)
    \<and> \<not> key_taken at_RunID attempt_active (cl_RunID c) (run_attempts d)
    \<and> d' = d\<lparr>run_attempts := run_attempts d @ [a]\<rparr>"
  using assms
  by (auto simp: open_attempt_def tx_simps sql_CreateRunAttempt_def new_attempt_def attempt_slot_def
      attempt_active_def sql_ListRunInputMessages_def Let_def split: if_split_asm)


section \<open>Preservation\<close>

lemma run_for_work_ok:
  assumes "execution_ok d" "w \<in> set (works d)" "claimable_work s d w"
  shows "run_row_ok (run_for_work E d w)" "run_of_work_ok (run_for_work E d w) w"
    "length (run_inputs (work_messages d) (run_for_work E d w)) \<le> 32"
    "text_bytes (run_inputs (work_messages d) (run_for_work E d w)) \<le> 262144"
proof -
  note parts = assms(1) [unfolded execution_ok_def work_state_ok_def]
  have w: "work_row_ok w" using parts assms(2) by (simp add: works_ok_def)
  have lt: "w_AppliedInputSeq w + 1 \<le> w_InputHeadSeq w" using assms(3) by (simp add: claimable_work_def)
  note b = SelectRunInputEnd_bounds [of "works d" d "w_AppliedInputSeq w + 1" "w_InputHeadSeq w" "w_WorkID w"]
  have ms: "messages_ok (works d) (work_messages d)" using parts by simp
  show "run_row_ok (run_for_work E d w)"
    using b(1) [OF ms lt] w by (simp add: run_row_ok_def work_row_ok_def)
  show "run_of_work_ok (run_for_work E d w) w"
    using b(2) [OF ms lt] by (simp add: run_of_work_ok_def)
  have "run_inputs (work_messages d) (run_for_work E d w) = filter (in_range (w_WorkID w) (w_AppliedInputSeq w + 1)
      (sql_SelectRunInputEnd (w_AppliedInputSeq w + 1) (w_WorkID w) (w_InputHeadSeq w) d)) (work_messages d)"
    by (simp add: run_inputs_def in_range_def [abs_def])
  with b(3,4) [OF ms lt]
  show "length (run_inputs (work_messages d) (run_for_work E d w)) \<le> 32"
    "text_bytes (run_inputs (work_messages d) (run_for_work E d w)) \<le> 262144" by simp_all
qed

lemma execution_ok_new_run:
  assumes ok: "execution_ok d" and w: "w \<in> set (works d)" "claimable_work s d w"
    and new: "\<not> key_taken r_RunID (\<lambda>_. True) (fresh E 0) (runs d)"
      "\<not> key_taken r_WorkID unresolved (w_WorkID w) (runs d)"
      "\<not> key_taken at_AttemptID (\<lambda>_. True) (fresh E 1) (run_attempts d)"
  shows "execution_ok (d\<lparr>runs := runs d @ [run_for_work E d w],
    run_attempts := run_attempts d @ [new_attempt E (fresh E 1) (fresh E 0) machineID 1 now]\<rparr>)"
proof -
  let ?r = "run_for_work E d w" and ?a = "new_attempt E (fresh E 1) (fresh E 0) machineID 1 now"
  note parts = ok [unfolded execution_ok_def work_state_ok_def]
  note row = run_for_work_ok [OF ok w]
  have noatt: "at_RunID a \<noteq> fresh E 0" if "a \<in> set (run_attempts d)" for a
  proof -
    obtain r where "r \<in> set (runs d)" "attempt_of_run_ok a r" using parts \<open>a \<in> _\<close> unfolding attempts_ok_def by blast
    then show ?thesis using new(1) by (auto simp: key_taken_iff attempt_of_run_ok_def)
  qed
  have "runs_ok (works d) (runs d @ [?r])"
    using parts row w new by (auto simp: runs_ok_def unique_on_append1 has_retry_key_def)
  moreover have "attempts_ok (runs d @ [?r]) (run_attempts d @ [?a])"
    unfolding attempts_ok_def
  proof (intro conjI)
    show "unique_on at_AttemptID (\<lambda>_. True) (run_attempts d @ [?a])"
      using parts new by (simp add: attempts_ok_def unique_on_append1 new_attempt_def)
    show "unique_on attempt_slot (\<lambda>_. True) (run_attempts d @ [?a])"
      using parts noatt by (auto simp: attempts_ok_def unique_on_append1 new_attempt_def attempt_slot_def key_taken_iff)
    show "unique_on at_RunID attempt_active (run_attempts d @ [?a])"
      using parts noatt by (auto simp: attempts_ok_def unique_on_append1 new_attempt_def key_taken_iff)
    show "\<forall>a \<in> set (run_attempts d @ [?a]). attempt_row_ok a"
      using parts by (auto simp: attempts_ok_def attempt_row_ok_def new_attempt_def)
    have "attempt_of_run_ok ?a ?r" by (simp add: attempt_of_run_ok_def new_attempt_def)
    then show "\<forall>a \<in> set (run_attempts d @ [?a]). \<exists>r \<in> set (runs d @ [?r]). attempt_of_run_ok a r"
      using parts by (auto simp: attempts_ok_def)
    have "current_attempt ?r ?a" by (simp add: current_attempt_def new_attempt_def)
    then show "\<forall>r \<in> set (runs d @ [?r]). \<exists>a \<in> set (run_attempts d @ [?a]). current_attempt r a"
      using parts by (auto simp: attempts_ok_def)
  qed
  moreover have "applied_once (works d) (runs d @ [?r])"
    using parts by (simp add: applied_once_def applies_input_def succeeded_of_def)
  moreover have "inputs_bounded (work_messages d) (runs d @ [?r])"
    using parts row by (simp add: inputs_bounded_def)
  ultimately show ?thesis using parts by (simp add: execution_ok_def work_state_ok_def)
qed

lemma execution_ok_recover:
  assumes ok: "execution_ok d"
    and row: "r \<in> set (runs d)" "a \<in> set (run_attempts d)" "at_RunID a = r_RunID r" "at_Fence a = r_CurrentFence r"
      "r_State r = StateActive" "at_State a = StateActive"
    and att: "replaces at_AttemptID (run_attempts d) a (expired_attempt now a) as"
    and run: "replaces r_RunID (runs d) r (rotated_run r) rs"
    and new: "\<not> key_taken at_AttemptID (\<lambda>_. True) (fresh E 1) as"
      "\<not> key_taken attempt_slot (\<lambda>_. True) (r_RunID r, r_CurrentFence r + 1) as"
      "\<not> key_taken at_RunID attempt_active (r_RunID r) as"
  shows "execution_ok (d\<lparr>runs := rs, run_attempts := as @
    [new_attempt E (fresh E 1) (r_RunID r) machineID (r_CurrentFence r + 1) now']\<rparr>)"
proof -
  let ?r = "rotated_run r" and ?e = "expired_attempt now a"
  let ?a = "new_attempt E (fresh E 1) (r_RunID r) machineID (r_CurrentFence r + 1) now'"
  note parts = ok [unfolded execution_ok_def work_state_ok_def]
  have fence: "1 \<le> r_CurrentFence r" using parts row(1) by (simp add: runs_ok_def run_row_ok_def)
  have "runs_ok (works d) rs"
    unfolding runs_ok_def
  proof (intro conjI)
    show "unique_on r_RunID (\<lambda>_. True) rs"
      by (rule replaces_unique [OF run]) (use parts in \<open>simp_all add: runs_ok_def rotated_run_def\<close>)
    show "unique_on r_WorkID unresolved rs"
      by (rule replaces_unique [OF run]) (use parts in \<open>simp_all add: runs_ok_def rotated_run_def unresolved_def\<close>)
    show "unique_on retry_key has_retry_key rs"
      by (rule replaces_unique [OF run])
        (use parts in \<open>simp_all add: runs_ok_def rotated_run_def retry_key_def has_retry_key_def\<close>)
    show "\<forall>x \<in> set rs. run_row_ok x"
      by (rule replaces_ball [OF run]) (use parts row(1) in \<open>auto simp: runs_ok_def rotated_run_def run_row_ok_def\<close>)
    show "\<forall>x \<in> set rs. \<exists>w \<in> set (works d). run_of_work_ok x w"
      by (rule replaces_ball [OF run])
        (use parts row(1) in \<open>simp_all add: runs_ok_def rotated_run_def run_of_work_ok_def\<close>)
  qed
  moreover have "attempts_ok rs (as @ [?a])"
    unfolding attempts_ok_def
  proof (intro conjI ballI)
    have "unique_on at_AttemptID (\<lambda>_. True) as"
      by (rule replaces_unique [OF att]) (use parts in \<open>simp_all add: attempts_ok_def expired_attempt_def\<close>)
    then show "unique_on at_AttemptID (\<lambda>_. True) (as @ [?a])"
      using new(1) by (simp add: unique_on_append1 new_attempt_def)
    have "unique_on attempt_slot (\<lambda>_. True) as"
      by (rule replaces_unique [OF att]) (use parts in \<open>simp_all add: attempts_ok_def expired_attempt_def attempt_slot_def\<close>)
    then show "unique_on attempt_slot (\<lambda>_. True) (as @ [?a])"
      using new(2) by (simp add: unique_on_append1 new_attempt_def attempt_slot_def)
    have "unique_on at_RunID attempt_active as"
      by (rule replaces_unique [OF att]) (use parts in \<open>simp_all add: attempts_ok_def expired_attempt_def attempt_active_def\<close>)
    then show "unique_on at_RunID attempt_active (as @ [?a])"
      using new(3) by (simp add: unique_on_append1 new_attempt_def)
  next
    fix x assume "x \<in> set (as @ [?a])"
    moreover have "\<forall>x \<in> set as. attempt_row_ok x"
      by (rule replaces_ball [OF att])
        (use parts row(2) in \<open>auto simp: attempts_ok_def expired_attempt_def attempt_row_ok_def\<close>)
    ultimately show "attempt_row_ok x" using fence by (auto simp: attempt_row_ok_def new_attempt_def)
  next
    fix x assume "x \<in> set (as @ [?a])"
    then consider "x = ?a" | "x = ?e" | "x \<in> set (run_attempts d)" "x \<noteq> a"
      by (auto simp: replaces_set [OF att])
    then show "\<exists>y \<in> set rs. attempt_of_run_ok x y"
    proof cases
      case 3
      then have "\<exists>y \<in> set (runs d). attempt_of_run_ok x y" using parts by (simp add: attempts_ok_def)
      then show ?thesis
      proof (rule replaces_bex [OF run])
        assume xr: "attempt_of_run_ok x r"
        have "at_State x \<noteq> StateActive"
        proof
          assume "at_State x = StateActive"
          then have "x = a" using unique_onD [of at_RunID attempt_active "run_attempts d" x a] parts 3 row xr
            by (simp add: attempts_ok_def attempt_active_def attempt_of_run_ok_def)
          with 3 show False by simp
        qed
        with xr show "attempt_of_run_ok x ?r" by (simp add: attempt_of_run_ok_def rotated_run_def)
      qed
    qed (use row in \<open>auto simp: replaces_set [OF run] attempt_of_run_ok_def new_attempt_def expired_attempt_def rotated_run_def\<close>)
  next
    fix x assume x: "x \<in> set rs"
    show "\<exists>y \<in> set (as @ [?a]). current_attempt x y"
    proof (cases "x = ?r")
      case True
      then show ?thesis by (simp add: current_attempt_def new_attempt_def rotated_run_def)
    next
      case False
      then have x': "x \<in> set (runs d)" "x \<noteq> r" using x by (auto simp: replaces_set [OF run])
      then have "r_RunID x \<noteq> r_RunID r" using replaces_only [OF run x'(1)] by blast
      moreover have "\<exists>y \<in> set (run_attempts d). current_attempt x y" using x' parts by (simp add: attempts_ok_def)
      ultimately have "\<exists>y \<in> set as. current_attempt x y" using row(3)
        by (intro replaces_bex [OF att]) (auto simp: current_attempt_def)
      then show ?thesis by auto
    qed
  qed
  moreover have "applied_once (works d) rs"
    using parts row(5) by (simp add: applied_once_def replaces_count [OF run] applies_input_def succeeded_of_def rotated_run_def)
  moreover have "inputs_bounded (work_messages d) rs"
    using parts by (intro inputs_bounded_replace [OF _ run]) (simp_all add: rotated_run_def)
  ultimately show ?thesis using parts by (simp add: execution_ok_def work_state_ok_def)
qed

text \<open>The two outcomes of a successful claim, with everything a caller may rely on.\<close>

definition claimed_new :: "uuid \<Rightarrow> env \<Rightarrow> db \<Rightarrow> claim \<Rightarrow> db \<Rightarrow> machine_row \<Rightarrow> work_row \<Rightarrow> timestamp \<Rightarrow> bool" where
  "claimed_new machineID E d c d' m w now \<longleftrightarrow>
     sql_LockWorkForRunClaim E (m_SpaceID m) d = Some w
     \<and> \<not> key_taken r_RunID (\<lambda>_. True) (fresh E 0) (runs d)
     \<and> \<not> key_taken r_WorkID unresolved (w_WorkID w) (runs d)
     \<and> \<not> key_taken at_AttemptID (\<lambda>_. True) (fresh E 1) (run_attempts d)
     \<and> c = created_claim E (fresh E 0) (run_for_work E d w) w \<lparr>cl_AttemptID := fresh E 1,
            cl_LeaseExpiresAt := now + minutes 5, cl_Messages := sql_ListRunInputMessages (w_WorkID w)
              (w_AppliedInputSeq w + 1) (r_InputEndSeq (run_for_work E d w)) d\<rparr>
     \<and> d' = d\<lparr>runs := runs d @ [run_for_work E d w],
            run_attempts := run_attempts d @ [new_attempt E (fresh E 1) (fresh E 0) machineID 1 now]\<rparr>"

definition claimed_recovered ::
    "uuid \<Rightarrow> env \<Rightarrow> db \<Rightarrow> claim \<Rightarrow> db \<Rightarrow> machine_row \<Rightarrow> run_row \<Rightarrow> work_row \<Rightarrow> attempt_row \<Rightarrow> timestamp \<Rightarrow> bool" where
  "claimed_recovered machineID E d c d' m r w a now \<longleftrightarrow>
     r \<in> set (runs d) \<and> w \<in> set (works d) \<and> a \<in> set (run_attempts d) \<and> w_WorkID w = r_WorkID r
     \<and> at_RunID a = r_RunID r \<and> at_Fence a = r_CurrentFence r \<and> w_SpaceID w = m_SpaceID m
     \<and> r_State r = StateActive \<and> at_State a = StateActive
     \<and> c = recovered_claim r w \<lparr>cl_AttemptID := fresh E 1, cl_LeaseExpiresAt := now + minutes 5,
            cl_Messages := sql_ListRunInputMessages (r_WorkID r) (r_InputStartSeq r) (r_InputEndSeq r) d\<rparr>
     \<and> (\<exists>as t. at_LeaseExpiresAt a \<le> t \<and> replaces at_AttemptID (run_attempts d) a (expired_attempt t a) as
          \<and> replaces r_RunID (runs d) r (rotated_run r) (runs d')
          \<and> \<not> key_taken at_AttemptID (\<lambda>_. True) (fresh E 1) as
          \<and> \<not> key_taken attempt_slot (\<lambda>_. True) (r_RunID r, r_CurrentFence r + 1) as
          \<and> \<not> key_taken at_RunID attempt_active (r_RunID r) as
          \<and> d' = d\<lparr>runs := runs d', run_attempts := as @
                [new_attempt E (fresh E 1) (r_RunID r) machineID (r_CurrentFence r + 1) now]\<rparr>)"


lemma ClaimRun_tx_effect:
  assumes "ClaimRun_tx machineID E d n = Inr (c, d', n')" "execution_ok d"
  shows "\<exists>m. machine_of machineID d = Some m \<and> m_RevokedAt m = None
    \<and> ((\<exists>w now. claimed_new machineID E d c d' m w now)
      \<or> (\<exists>r w a now. claimed_recovered machineID E d c d' m r w a now))"
proof -
  from assms(1) obtain m now0 c1 start d1 n1 n2 where
    m: "machine_of machineID d = Some m" "m_RevokedAt m = None"
    and opened: "(case sql_LockExpiredRunForClaim E (m_SpaceID m) now0 d of
        Some row \<Rightarrow> recover_run row | None \<Rightarrow> create_run (m_SpaceID m)) E d n1 = Inr ((c1, start), d1, n2)"
    and attempt: "open_attempt machineID (c1, start) E d1 n2 = Inr (c, d', n')"
    unfolding ClaimRun_tx_def bind_tx_Inr query_one_Inr require_Inr query_Inr sql_LockClaimingMachine_def
    by auto
  from open_attempt_effect [OF attempt] obtain now where
    c: "c = c1\<lparr>cl_AttemptID := fresh E 1, cl_LeaseExpiresAt := now + minutes 5,
        cl_Messages := sql_ListRunInputMessages (cl_WorkID c1) start (cl_InputEndSeq c1) d1\<rparr>"
    and new: "\<not> key_taken at_AttemptID (\<lambda>_. True) (fresh E 1) (run_attempts d1)"
      "\<not> key_taken attempt_slot (\<lambda>_. True) (cl_RunID c1, cl_Fence c1) (run_attempts d1)"
      "\<not> key_taken at_RunID attempt_active (cl_RunID c1) (run_attempts d1)"
    and d': "d' = d1\<lparr>run_attempts := run_attempts d1 @ [new_attempt E (fresh E 1) (cl_RunID c1) machineID (cl_Fence c1) now]\<rparr>"
    unfolding Let_def by blast
  show ?thesis
  proof (cases "sql_LockExpiredRunForClaim E (m_SpaceID m) now0 d")
    case None
    with opened have "create_run (m_SpaceID m) E d n1 = Inr ((c1, start), d1, n2)" by simp
    from create_run_effect [OF this] obtain w where
      w: "sql_LockWorkForRunClaim E (m_SpaceID m) d = Some w"
      "c1 = created_claim E (fresh E 0) (run_for_work E d w) w" "start = w_AppliedInputSeq w + 1"
      "\<not> key_taken r_RunID (\<lambda>_. True) (fresh E 0) (runs d)"
      "\<not> key_taken r_WorkID unresolved (w_WorkID w) (runs d)"
      "d1 = d\<lparr>runs := runs d @ [run_for_work E d w]\<rparr>" by blast
    have "claimed_new machineID E d c d' m w now"
      using w c new d' by (simp add: claimed_new_def created_claim_def sql_ListRunInputMessages_def)
    with m show ?thesis by blast
  next
    case (Some row)
    obtain r w a where row: "row = (r, w, a)" by (cases row)
    from sql_LockExpiredRunForClaim_Some [OF Some [unfolded row]]
    have l: "r \<in> set (runs d)" "w \<in> set (works d)" "a \<in> set (run_attempts d)" "w_WorkID w = r_WorkID r"
      "at_RunID a = r_RunID r" "at_Fence a = r_CurrentFence r" "w_SpaceID w = m_SpaceID m"
      "r_State r = StateActive" "at_State a = StateActive" by auto
    from opened Some have "recover_run (r, w, a) E d n1 = Inr ((c1, start), d1, n2)" by (simp add: row)
    from recover_run_effect [OF this assms(2) l(1,3,5,6,8,9)] obtain t where
      c1: "c1 = recovered_claim r w" "start = r_InputStartSeq r" and
      t: "at_LeaseExpiresAt a \<le> t" "replaces at_AttemptID (run_attempts d) a (expired_attempt t a) (run_attempts d1)"
      and r: "replaces r_RunID (runs d) r (rotated_run r) (runs d1)"
      and d1: "d1 = d\<lparr>run_attempts := run_attempts d1, runs := runs d1\<rparr>" by blast
    have "runs d' = runs d1" by (simp add: d')
    moreover have "d' = d\<lparr>runs := runs d1, run_attempts := run_attempts d1 @
        [new_attempt E (fresh E 1) (r_RunID r) machineID (r_CurrentFence r + 1) now]\<rparr>"
      unfolding d' by (subst d1) (simp add: c1 recovered_claim_def)
    moreover have "work_messages d1 = work_messages d" by (subst d1) simp
    ultimately have "claimed_recovered machineID E d c d' m r w a now"
      unfolding claimed_recovered_def using l c c1 new t r
      by (intro conjI exI [of _ "run_attempts d1"] exI [of _ t])
        (simp_all add: recovered_claim_def sql_ListRunInputMessages_def)
    with m show ?thesis by blast
  qed
qed

lemma ClaimRun_keeps: "keeps execution_ok (ClaimRun machineID)"
  unfolding ClaimRun_def
proof (rule keeps_transact, unfold preserves_def, intro allI impI)
  fix E d n c d' n'
  assume run: "ClaimRun_tx machineID E d n = Inr (c, d', n')" and ok: "execution_ok d"
  from ClaimRun_tx_effect [OF run ok] obtain m where
    "(\<exists>w now. claimed_new machineID E d c d' m w now) \<or> (\<exists>r w a now. claimed_recovered machineID E d c d' m r w a now)"
    by blast
  then show "execution_ok d'"
  proof (elim disjE exE)
    fix w now assume n: "claimed_new machineID E d c d' m w now"
    then have "w \<in> set (works d) \<and> claimable_work (m_SpaceID m) d w \<and> \<not> row_locked E (w_WorkID w)"
      by (auto simp: claimed_new_def dest: sql_LockWorkForRunClaim_Some)
    with n show ?thesis
      using execution_ok_new_run [OF ok, of w "m_SpaceID m"] by (simp add: claimed_new_def)
  next
    fix r w a now assume r: "claimed_recovered machineID E d c d' m r w a now"
    then obtain as t where "replaces at_AttemptID (run_attempts d) a (expired_attempt t a) as"
      "replaces r_RunID (runs d) r (rotated_run r) (runs d')"
      "\<not> key_taken at_AttemptID (\<lambda>_. True) (fresh E 1) as"
      "\<not> key_taken attempt_slot (\<lambda>_. True) (r_RunID r, r_CurrentFence r + 1) as"
      "\<not> key_taken at_RunID attempt_active (r_RunID r) as"
      "d' = d\<lparr>runs := runs d', run_attempts := as @
                [new_attempt E (fresh E 1) (r_RunID r) machineID (r_CurrentFence r + 1) now]\<rparr>"
      unfolding claimed_recovered_def by blast
    with r execution_ok_recover [OF ok, of r a t as "runs d'" E machineID now] show ?thesis
      unfolding claimed_recovered_def by metis
  qed
qed

end
