(* ===== verification/Conversation_Store.thy ===== *)
theory Conversation_Store
  imports Run_Store
begin

text \<open>
  The Conversation store: \<open>internal/postgres/conversation.go\<close> (admitting a member's message with
  its reply obligation, reading pages), \<open>internal/postgres/conversation_reply.go\<close> (the fenced
  lease under which one Machine composes a reply and commits it, with an optional delegated
  Work) and \<open>queries/conversation.sql\<close>.
\<close>

definition stringValue :: "string option \<Rightarrow> string" where
  "stringValue v = (case v of None \<Rightarrow> [] | Some s \<Rightarrow> trim_space s)"

definition uuidValue :: "uuid option \<Rightarrow> string" where
  "uuidValue v = textValue v"

definition postgresUUID :: "carry_error \<Rightarrow> string \<Rightarrow> ('d, uuid) tx" where
  "postgresUUID e value = bind_tx (ask (\<lambda>E. uuid_parse E value)) (\<lambda>ok. if ok then ret value else fail e)"

lemma postgresUUID_Inr [tx_simps]:
  "postgresUUID e v E d n = Inr (u, d', n') \<longleftrightarrow> uuid_parse E v \<and> u = v \<and> d' = d \<and> n' = n"
  by (auto simp: postgresUUID_def bind_tx_def ask_def ret_def fail_def)

lemma postgresUUID_run [tx_run]:
  "postgresUUID e v E d n = (if uuid_parse E v then Inr (v, d, n) else Inl e)"
  by (auto simp: postgresUUID_def bind_tx_def ask_def ret_def fail_def)

section \<open>Rows by their keys\<close>

definition conversation_of :: "uuid \<Rightarrow> db \<Rightarrow> conversation_row option" where
  "conversation_of i d = first_where (\<lambda>c. cn_ConversationID c = i) (conversations d)"

definition message_of :: "uuid \<Rightarrow> db \<Rightarrow> message_row option" where
  "message_of i d = first_where (\<lambda>m. msg_MessageID m = i) (conversation_messages d)"

definition claim_of :: "uuid \<Rightarrow> db \<Rightarrow> reply_claim_row option" where
  "claim_of i d = first_where (\<lambda>k. k_SourceMessageID k = i) (conversation_reply_claims d)"

definition claim_unresolved :: "reply_claim_row \<Rightarrow> bool" where
  "claim_unresolved k \<longleftrightarrow> k_CommittedReplyMessageID k = None"

definition message_position :: "message_row \<Rightarrow> uuid \<times> int" where
  "message_position m = (msg_ConversationID m, msg_MessageSeq m)"

definition member_request_key :: "message_row \<Rightarrow> uuid \<times> string option" where
  "member_request_key m = (msg_ConversationID m, msg_MemberRequestID m)"

definition is_member_message :: "message_row \<Rightarrow> bool" where
  "is_member_message m \<longleftrightarrow> msg_Author m = AuthorMember"

definition is_reply :: "message_row \<Rightarrow> bool" where
  "is_reply m \<longleftrightarrow> msg_ReplyToMemberMessageID m \<noteq> None"

section \<open>Admitting a message\<close>

definition sql_LockActiveConversationMembership :: "uuid \<Rightarrow> uuid \<Rightarrow> db \<Rightarrow> int option" where
  "sql_LockActiveConversationMembership spaceID userID d =
     map_option mb_Version (first_where (active_membership spaceID userID) (memberships d))"

lemma sql_LockActiveConversationMembership_eq:
  "sql_LockActiveConversationMembership = sql_LockActiveWorkMembership"
  by (simp add: fun_eq_iff sql_LockActiveConversationMembership_def sql_LockActiveWorkMembership_def)

definition lockActiveConversationMembership :: "uuid \<Rightarrow> uuid \<Rightarrow> (db, int) tx" where
  "lockActiveConversationMembership spaceID userID =
     query_one (SpaceError ErrForbidden) (\<lambda>E now d. sql_LockActiveConversationMembership spaceID userID d)"

lemma lockActiveConversationMembership_Inr [tx_simps]:
  "lockActiveConversationMembership s u E d n = Inr (x, d', n') \<longleftrightarrow>
     \<not> fault E n \<and> sql_LockActiveWorkMembership s u d = Some x \<and> d' = d \<and> n' = Suc n"
  by (auto simp: lockActiveConversationMembership_def sql_LockActiveConversationMembership_eq tx_simps)

definition new_conversation :: "env \<Rightarrow> uuid \<Rightarrow> uuid \<Rightarrow> uuid \<Rightarrow> conversation_row" where
  "new_conversation E conversationID spaceID memberUserID =
     \<lparr>cn_ConversationID = conversationID, cn_SpaceID = spaceID, cn_MemberUserID = memberUserID,
      cn_MessageHeadSeq = 0, cn_CreatedAt = tx_time E\<rparr>"

definition conversation_key :: "conversation_row \<Rightarrow> uuid \<times> uuid" where
  "conversation_key c = (cn_SpaceID c, cn_MemberUserID c)"

text \<open>\<open>ON CONFLICT (space_id, member_user_id) DO UPDATE\<close> to itself: the existing row is returned.\<close>

definition sql_EnsureConversation :: "conversation_row \<Rightarrow> db \<Rightarrow> db_error + (uuid \<times> db)" where
  "sql_EnsureConversation c d =
     (case first_where (\<lambda>x. conversation_key x = conversation_key c) (conversations d) of
        Some x \<Rightarrow> Inr (cn_ConversationID x, d)
      | None \<Rightarrow>
          if key_taken cn_ConversationID (\<lambda>_. True) (cn_ConversationID c) (conversations d)
          then Inl (Unique_violation ''conversations_pkey'')
          else Inr (cn_ConversationID c, d\<lparr>conversations := conversations d @ [c]\<rparr>))"

definition sql_FindConversationMemberRequest :: "uuid \<Rightarrow> string \<Rightarrow> db \<Rightarrow> message_row option" where
  "sql_FindConversationMemberRequest conversationID key d =
     first_where (\<lambda>m. msg_ConversationID m = conversationID \<and> msg_Author m = AuthorMember
       \<and> msg_MemberRequestID m = Some key) (conversation_messages d)"

definition sql_ConversationHasUnresolvedReply :: "uuid \<Rightarrow> db \<Rightarrow> bool" where
  "sql_ConversationHasUnresolvedReply conversationID d =
     exists_where (\<lambda>k. k_ConversationID k = conversationID \<and> claim_unresolved k) (conversation_reply_claims d)"

definition sql_AdvanceConversationMessageHead :: "uuid \<Rightarrow> db \<Rightarrow> int option \<times> db" where
  "sql_AdvanceConversationMessageHead conversationID d =
     (let P = (\<lambda>c. cn_ConversationID c = conversationID);
          f = (\<lambda>c. c\<lparr>cn_MessageHeadSeq := cn_MessageHeadSeq c + 1\<rparr>)
      in (map_option (\<lambda>c. cn_MessageHeadSeq (f c)) (first_where P (conversations d)),
          d\<lparr>conversations := update_where P f (conversations d)\<rparr>))"

text \<open>The unique keys of \<open>conversation_messages\<close>, checked by both inserts.\<close>

definition insert_message :: "message_row \<Rightarrow> db \<Rightarrow> db_error + (message_row \<times> db)" where
  "insert_message m d =
     (if key_taken msg_MessageID (\<lambda>_. True) (msg_MessageID m) (conversation_messages d)
      then Inl (Unique_violation ''conversation_messages_pkey'')
      else if key_taken message_position (\<lambda>_. True) (message_position m) (conversation_messages d)
      then Inl (Unique_violation ''conversation_messages_conversation_id_message_seq_key'')
      else if is_reply m \<and> key_taken msg_ReplyToMemberMessageID is_reply (msg_ReplyToMemberMessageID m)
             (conversation_messages d)
      then Inl (Unique_violation ''conversation_messages_reply_to_member_message_id_key'')
      else if is_member_message m \<and> key_taken member_request_key is_member_message (member_request_key m)
             (conversation_messages d)
      then Inl (Unique_violation ''conversation_messages_member_request_idx'')
      else Inr (m, d\<lparr>conversation_messages := conversation_messages d @ [m]\<rparr>))"

definition sql_CreateConversationMemberMessage ::
    "env \<Rightarrow> uuid \<Rightarrow> uuid \<Rightarrow> int \<Rightarrow> uuid \<Rightarrow> string \<Rightarrow> string \<Rightarrow> bytes \<Rightarrow> db \<Rightarrow> db_error + (message_row \<times> db)" where
  "sql_CreateConversationMemberMessage E messageID conversationID messageSeq authorID text key digest =
     insert_message \<lparr>msg_MessageID = messageID, msg_ConversationID = conversationID,
       msg_MessageSeq = messageSeq, msg_Author = AuthorMember, msg_AuthorUserID = Some authorID,
       msg_Text = text, msg_MemberRequestID = Some key, msg_RequestDigest = Some digest,
       msg_ReplyToMemberMessageID = None, msg_CreatedAt = tx_time E\<rparr>"

definition new_reply_claim :: "uuid \<Rightarrow> uuid \<Rightarrow> reply_claim_row" where
  "new_reply_claim sourceMessageID conversationID =
     \<lparr>k_SourceMessageID = sourceMessageID, k_ConversationID = conversationID,
      k_SourceMessageAuthor = AuthorMember, k_CurrentMachineID = None, k_CurrentFence = 0,
      k_LeaseExpiresAt = None, k_ContextStartSeq = None, k_ContextEndSeq = None, k_OutputDigest = None,
      k_CommittedReplyMessageID = None, k_CommittedReplyAuthor = None, k_CreatedWorkID = None\<rparr>"

definition sql_CreateConversationReplyClaim :: "uuid \<Rightarrow> uuid \<Rightarrow> db \<Rightarrow> db_error + (unit \<times> db)" where
  "sql_CreateConversationReplyClaim sourceMessageID conversationID d =
     (if key_taken k_SourceMessageID (\<lambda>_. True) sourceMessageID (conversation_reply_claims d)
      then Inl (Unique_violation ''conversation_reply_claims_pkey'')
      else if key_taken k_ConversationID claim_unresolved conversationID (conversation_reply_claims d)
      then Inl (Unique_violation ''conversation_reply_claims_unresolved_idx'')
      else Inr ((), d\<lparr>conversation_reply_claims :=
                      conversation_reply_claims d @ [new_reply_claim sourceMessageID conversationID]\<rparr>))"

text \<open>The result of an admission, from a stored member message (a fresh one or a replayed one).\<close>

definition admitted_message :: "message_row \<Rightarrow> conversation_message" where
  "admitted_message m =
     \<lparr>cv_MessageID = msg_MessageID m, cv_Author = msg_Author m, cv_Text = msg_Text m,
      cv_RequestID = stringValue (msg_MemberRequestID m), cv_CreatedWorkID = [],
      cv_Sequence = msg_MessageSeq m, cv_CreatedAt = msg_CreatedAt m\<rparr>"

definition admit_message :: "send_command \<Rightarrow> string \<Rightarrow> string \<Rightarrow> bytes \<Rightarrow> uuid \<Rightarrow> (db, conversation_message) tx" where
  "admit_message command text idempotencyKey digest conversationID =
     bind_tx (query (\<lambda>E now. sql_ConversationHasUnresolvedReply conversationID)) (\<lambda>pending.
     bind_tx (require (\<not> pending) (ConversationError ErrReplyPending)) (\<lambda>_.
     bind_tx (modify_one (DatabaseError No_rows)
       (\<lambda>E now. sql_AdvanceConversationMessageHead conversationID)) (\<lambda>sequence.
     bind_tx (postgresUUID MissingArgument (se_MemberUserID command)) (\<lambda>authorID.
     bind_tx (insert_row (\<lambda>E now. sql_CreateConversationMemberMessage E (fresh E 1) conversationID sequence
       authorID text idempotencyKey digest)) (\<lambda>row.
     bind_tx (insert_row (\<lambda>E now. sql_CreateConversationReplyClaim (msg_MessageID row) conversationID)) (\<lambda>_.
     ret (admitted_message row)))))))"

definition SendConversationMessage_tx :: "send_command \<Rightarrow> string \<Rightarrow> string \<Rightarrow> bytes \<Rightarrow> (db, conversation_message) tx" where
  "SendConversationMessage_tx command text idempotencyKey digest =
     bind_tx (lockActiveConversationMembership (se_SpaceID command) (se_MemberUserID command)) (\<lambda>_.
     bind_tx (insert_row (\<lambda>E now. sql_EnsureConversation (new_conversation E (fresh E 0) (se_SpaceID command)
       (se_MemberUserID command)))) (\<lambda>conversationID.
     bind_tx (query_one (DatabaseError No_rows) (\<lambda>E now. conversation_of conversationID)) (\<lambda>_.
     bind_tx (query (\<lambda>E now. sql_FindConversationMemberRequest conversationID idempotencyKey)) (\<lambda>existing.
     case existing of
       Some m \<Rightarrow> if msg_RequestDigest m \<noteq> Some digest then fail (ConversationError ErrRequestConflict)
                 else ret (admitted_message m)
     | None \<Rightarrow> admit_message command text idempotencyKey digest conversationID))))"

definition SendConversationMessage :: "send_command \<Rightarrow> env \<Rightarrow> db \<Rightarrow> (carry_error + conversation_message) \<times> db" where
  "SendConversationMessage command E =
     checked (guard (uuid_valid E (se_SpaceID command) \<and> uuid_valid E (se_MemberUserID command)) MissingArgument) (\<lambda>_.
     checked (NormalizeText (se_Text command)) (\<lambda>text.
     checked (NormalizeRequestKey (se_IdempotencyKey command)) (\<lambda>idempotencyKey.
     transact (SendConversationMessage_tx command text idempotencyKey
       (ConversationDigest (se_SpaceID command) (se_MemberUserID command) text))))) E"

section \<open>Reading a page\<close>

definition restoreConversationMessage :: "db \<Rightarrow> message_row \<Rightarrow> conversation_message" where
  "restoreConversationMessage d m = (admitted_message m)
     \<lparr>cv_CreatedWorkID := (case first_where (\<lambda>k. k_CommittedReplyMessageID k = Some (msg_MessageID m))
                                (conversation_reply_claims d) of
                             None \<Rightarrow> [] | Some k \<Rightarrow> uuidValue (k_CreatedWorkID k))\<rparr>"

definition newest_page :: "db \<Rightarrow> (message_row \<Rightarrow> bool) \<Rightarrow> conversation_message list" where
  "newest_page d P = map (restoreConversationMessage d)
     (order_by msg_MessageSeq (take 50 (order_by_desc msg_MessageSeq (filter P (conversation_messages d)))))"

definition sql_ListNewestConversationMessages :: "uuid \<Rightarrow> db \<Rightarrow> conversation_message list" where
  "sql_ListNewestConversationMessages conversationID d =
     newest_page d (\<lambda>m. msg_ConversationID m = conversationID)"

definition sql_ListConversationMessagesBefore :: "uuid \<Rightarrow> int \<Rightarrow> db \<Rightarrow> conversation_message list" where
  "sql_ListConversationMessagesBefore conversationID cursorSequence d =
     newest_page d (\<lambda>m. msg_ConversationID m = conversationID \<and> msg_MessageSeq m < cursorSequence)"

definition sql_ListConversationMessagesAfter :: "uuid \<Rightarrow> int \<Rightarrow> db \<Rightarrow> conversation_message list" where
  "sql_ListConversationMessagesAfter conversationID cursorSequence d =
     map (restoreConversationMessage d) (take 50 (order_by msg_MessageSeq
       (filter (\<lambda>m. msg_ConversationID m = conversationID \<and> msg_MessageSeq m > cursorSequence)
         (conversation_messages d))))"

definition conversationCursor :: "uuid \<Rightarrow> uuid \<Rightarrow> (db, int) tx" where
  "conversationCursor conversationID messageID =
     query_one (ConversationError ErrInvalidMessageCursor) (\<lambda>E now d. map_option msg_MessageSeq
       (first_where (\<lambda>m. msg_ConversationID m = conversationID \<and> msg_MessageID m = messageID)
         (conversation_messages d)))"

definition ListConversationMessages :: "list_messages_command \<Rightarrow> env \<Rightarrow> db \<Rightarrow> (carry_error + conversation_message list) \<times> db" where
  "ListConversationMessages command E =
     checked (guard (uuid_valid E (lm_SpaceID command) \<and> uuid_valid E (lm_MemberUserID command)) MissingArgument) (\<lambda>_.
     checked (ValidateCursors (lm_Before command) (lm_After command)) (\<lambda>_.
     checked (guard ((lm_Before command \<noteq> [] \<longrightarrow> uuid_valid E (lm_Before command))
       \<and> (lm_After command \<noteq> [] \<longrightarrow> uuid_valid E (lm_After command)))
       (ConversationError ErrInvalidMessageCursor)) (\<lambda>_.
     transact
      (bind_tx (lockActiveConversationMembership (lm_SpaceID command) (lm_MemberUserID command)) (\<lambda>_.
       bind_tx (query (\<lambda>E now d. map_option cn_ConversationID (first_where
          (\<lambda>c. conversation_key c = (lm_SpaceID command, lm_MemberUserID command)) (conversations d)))) (\<lambda>found.
       case found of
         None \<Rightarrow> bind_tx (require (lm_Before command = [] \<and> lm_After command = [])
                   (ConversationError ErrInvalidMessageCursor)) (\<lambda>_. ret [])
       | Some conversationID \<Rightarrow>
           if lm_Before command \<noteq> [] then
             bind_tx (conversationCursor conversationID (lm_Before command)) (\<lambda>cursor.
             query (\<lambda>E now. sql_ListConversationMessagesBefore conversationID cursor))
           else if lm_After command \<noteq> [] then
             bind_tx (conversationCursor conversationID (lm_After command)) (\<lambda>cursor.
             query (\<lambda>E now. sql_ListConversationMessagesAfter conversationID cursor))
           else query (\<lambda>E now. sql_ListNewestConversationMessages conversationID))))))) E"

section \<open>Claiming a reply\<close>

definition lockActiveReplyMachine :: "uuid \<Rightarrow> (db, uuid) tx" where
  "lockActiveReplyMachine machineID =
     bind_tx (query_one (MachineError ErrMachineNotFound) (\<lambda>E now. sql_LockClaimingMachine machineID)) (\<lambda>m.
     bind_tx (require (m_RevokedAt m = None) (MachineError ErrMachineRevoked)) (\<lambda>_.
     ret (m_SpaceID m)))"

text \<open>A claim joined with its Conversation and source message, of a member who is still active.\<close>

definition claim_joined :: "db \<Rightarrow> uuid \<Rightarrow> reply_claim_row \<Rightarrow> (conversation_row \<times> message_row) option" where
  "claim_joined d spaceID k =
     (case (conversation_of (k_ConversationID k) d, message_of (k_SourceMessageID k) d) of
        (Some c, Some m) \<Rightarrow>
          if cn_SpaceID c = spaceID \<and> is_member (cn_SpaceID c) (cn_MemberUserID c) d then Some (c, m) else None
      | _ \<Rightarrow> None)"

definition claim_expired :: "timestamp \<Rightarrow> reply_claim_row \<Rightarrow> bool" where
  "claim_expired now k \<longleftrightarrow> k_CurrentMachineID k = None
     \<or> (case k_LeaseExpiresAt k of None \<Rightarrow> False | Some t \<Rightarrow> t \<le> now)"

definition source_order :: "db \<Rightarrow> uuid \<Rightarrow> reply_claim_row \<Rightarrow> timestamp \<times> uuid" where
  "source_order d spaceID k =
     (case claim_joined d spaceID k of None \<Rightarrow> (0, []) | Some (c, m) \<Rightarrow> (msg_CreatedAt m, msg_MessageID m))"

definition claimable_reply :: "env \<Rightarrow> uuid \<Rightarrow> timestamp \<Rightarrow> db \<Rightarrow> reply_claim_row \<Rightarrow> bool" where
  "claimable_reply E spaceID now d k \<longleftrightarrow>
     claim_joined d spaceID k \<noteq> None \<and> claim_unresolved k \<and> claim_expired now k
     \<and> \<not> row_locked E (k_SourceMessageID k)"

definition sql_LockConversationReplyForClaim ::
    "env \<Rightarrow> uuid \<Rightarrow> timestamp \<Rightarrow> db \<Rightarrow> (reply_claim_row \<times> int) option" where
  "sql_LockConversationReplyForClaim E spaceID now d =
     (case first_row (order_by (source_order d spaceID)
             (filter (claimable_reply E spaceID now d) (conversation_reply_claims d))) of
        None \<Rightarrow> None
      | Some k \<Rightarrow> map_option (\<lambda>(c, m). (k, msg_MessageSeq m)) (claim_joined d spaceID k))"

definition contextFromRow :: "message_row \<Rightarrow> context_message" where
  "contextFromRow m = \<lparr>cx_Author = msg_Author m, cx_Text = msg_Text m\<rparr>"

definition sql_ListConversationContextCandidates :: "uuid \<Rightarrow> int \<Rightarrow> db \<Rightarrow> message_row list" where
  "sql_ListConversationContextCandidates conversationID contextEndSeq d =
     order_by msg_MessageSeq (take 32 (order_by_desc msg_MessageSeq
       (filter (\<lambda>m. msg_ConversationID m = conversationID \<and> msg_MessageSeq m \<le> contextEndSeq)
         (conversation_messages d))))"

definition fixedReplyContextRange :: "reply_claim_row \<times> int \<Rightarrow> (db, int \<times> int) tx" where
  "fixedReplyContextRange = (\<lambda>(k, sourceSeq).
     if k_ContextStartSeq k \<noteq> None \<or> k_ContextEndSeq k \<noteq> None then
       (case (k_ContextStartSeq k, k_ContextEndSeq k) of
          (Some s, Some e) \<Rightarrow> if e \<noteq> sourceSeq then fail (ConversationError ErrInvalidContext) else ret (s, e)
        | _ \<Rightarrow> fail (ConversationError ErrInvalidContext))
     else
       bind_tx (query (\<lambda>E now. sql_ListConversationContextCandidates (k_ConversationID k) sourceSeq)) (\<lambda>rows.
       bind_tx (lift (FixedContextSuffix (map contextFromRow rows))) (\<lambda>fixed.
       ret (msg_MessageSeq (rows ! (length rows - length fixed)), sourceSeq))))"

definition sql_AssignConversationReply ::
    "uuid \<Rightarrow> int \<Rightarrow> int \<Rightarrow> uuid \<Rightarrow> int \<Rightarrow> timestamp \<Rightarrow> db \<Rightarrow> (int \<times> timestamp) option \<times> db" where
  "sql_AssignConversationReply machineID contextStart contextEnd sourceMessageID expectedFence now d =
     (let P = (\<lambda>k. k_SourceMessageID k = sourceMessageID \<and> k_CurrentFence k = expectedFence
                 \<and> claim_unresolved k \<and> claim_expired now k);
          f = (\<lambda>k. k\<lparr>k_CurrentMachineID := Some machineID, k_CurrentFence := k_CurrentFence k + 1,
                     k_LeaseExpiresAt := Some (now + minutes 5),
                     k_ContextStartSeq := Some contextStart, k_ContextEndSeq := Some contextEnd\<rparr>)
      in (map_option (\<lambda>k. (k_CurrentFence k + 1, now + minutes 5)) (first_where P (conversation_reply_claims d)),
          d\<lparr>conversation_reply_claims := update_where P f (conversation_reply_claims d)\<rparr>))"

definition sql_ListFixedConversationReplyContext :: "uuid \<Rightarrow> int \<Rightarrow> int \<Rightarrow> db \<Rightarrow> message_row list" where
  "sql_ListFixedConversationReplyContext conversationID contextStart contextEnd d =
     order_by msg_MessageSeq (filter (\<lambda>m. msg_ConversationID m = conversationID
       \<and> contextStart \<le> msg_MessageSeq m \<and> msg_MessageSeq m \<le> contextEnd) (conversation_messages d))"

definition loadFixedReplyContext :: "uuid \<Rightarrow> int \<Rightarrow> int \<Rightarrow> (db, context_message list) tx" where
  "loadFixedReplyContext conversationID contextStart contextEnd =
     bind_tx (query (\<lambda>E now. sql_ListFixedConversationReplyContext conversationID contextStart contextEnd)) (\<lambda>rows.
     let messages = map contextFromRow rows in
     case FixedContextSuffix messages of
       Inl e \<Rightarrow> fail (ConversationError ErrInvalidContext)
     | Inr fixed \<Rightarrow> if length fixed \<noteq> length messages then fail (ConversationError ErrInvalidContext)
                    else ret messages)"

definition ClaimConversationReply_tx :: "uuid \<Rightarrow> (db, reply_claim) tx" where
  "ClaimConversationReply_tx machineID =
     bind_tx (lockActiveReplyMachine machineID) (\<lambda>spaceID.
     bind_tx (query_one (ConversationError ErrNoReplyAvailable)
       (\<lambda>E now. sql_LockConversationReplyForClaim E spaceID now)) (\<lambda>(k, sourceSeq).
     bind_tx (fixedReplyContextRange (k, sourceSeq)) (\<lambda>(contextStart, contextEnd).
     bind_tx (postgresUUID (MachineError ErrMachineNotFound) machineID) (\<lambda>machineUUID.
     bind_tx (modify_one (ConversationError ErrNoReplyAvailable) (\<lambda>E now. sql_AssignConversationReply machineUUID
       contextStart contextEnd (k_SourceMessageID k) (k_CurrentFence k) now)) (\<lambda>(fence, lease).
     bind_tx (loadFixedReplyContext (k_ConversationID k) contextStart contextEnd) (\<lambda>messages.
     ret \<lparr>rp_SourceMessageID = k_SourceMessageID k, rp_Fence = fence, rp_LeaseExpiresAt = lease,
          rp_Messages = messages\<rparr>))))))"

definition ClaimConversationReply :: "uuid \<Rightarrow> env \<Rightarrow> db \<Rightarrow> (carry_error + reply_claim) \<times> db" where
  "ClaimConversationReply machineID E =
     checked (guard (uuid_valid E machineID) (MachineError ErrMachineNotFound)) (\<lambda>_.
     transact (ClaimConversationReply_tx machineID)) E"

section \<open>Renewing a reply claim\<close>

definition claim_held :: "uuid \<Rightarrow> uuid \<Rightarrow> int \<Rightarrow> timestamp \<Rightarrow> reply_claim_row \<Rightarrow> bool" where
  "claim_held machineID sourceMessageID fence now k \<longleftrightarrow>
     k_SourceMessageID k = sourceMessageID \<and> k_CurrentMachineID k = Some machineID
     \<and> k_CurrentFence k = fence \<and> (case k_LeaseExpiresAt k of None \<Rightarrow> False | Some t \<Rightarrow> t > now)
     \<and> claim_unresolved k"

definition sql_LockConversationReplyForRenew ::
    "uuid \<Rightarrow> uuid \<Rightarrow> uuid \<Rightarrow> int \<Rightarrow> timestamp \<Rightarrow> db \<Rightarrow> uuid option" where
  "sql_LockConversationReplyForRenew sourceMessageID spaceID machineID fence now d =
     map_option k_SourceMessageID (first_where (\<lambda>k. claim_held machineID sourceMessageID fence now k
       \<and> (case conversation_of (k_ConversationID k) d of None \<Rightarrow> False
          | Some c \<Rightarrow> cn_SpaceID c = spaceID \<and> is_member (cn_SpaceID c) (cn_MemberUserID c) d))
       (conversation_reply_claims d))"

definition sql_ExtendConversationReplyLease ::
    "uuid \<Rightarrow> uuid \<Rightarrow> int \<Rightarrow> timestamp \<Rightarrow> db \<Rightarrow> timestamp option \<times> db" where
  "sql_ExtendConversationReplyLease sourceMessageID machineID fence now d =
     (let P = claim_held machineID sourceMessageID fence now;
          f = (\<lambda>k. k\<lparr>k_LeaseExpiresAt := Some (now + minutes 5)\<rparr>)
      in (map_option (\<lambda>k. now + minutes 5) (first_where P (conversation_reply_claims d)),
          d\<lparr>conversation_reply_claims := update_where P f (conversation_reply_claims d)\<rparr>))"

definition RenewConversationReply_tx :: "renew_reply_command \<Rightarrow> (db, timestamp) tx" where
  "RenewConversationReply_tx command =
     bind_tx (lockActiveReplyMachine (rn_MachineID command)) (\<lambda>spaceID.
     bind_tx (postgresUUID (ConversationError ErrStaleReplyClaim) (rn_MachineID command)) (\<lambda>machineID.
     bind_tx (query_one (ConversationError ErrStaleReplyClaim) (\<lambda>E now. sql_LockConversationReplyForRenew
       (rn_SourceMessageID command) spaceID machineID (rn_Fence command) now)) (\<lambda>_.
     modify_one (ConversationError ErrStaleReplyClaim) (\<lambda>E now. sql_ExtendConversationReplyLease
       (rn_SourceMessageID command) machineID (rn_Fence command) now))))"

definition RenewConversationReply :: "renew_reply_command \<Rightarrow> env \<Rightarrow> db \<Rightarrow> (carry_error + timestamp) \<times> db" where
  "RenewConversationReply command E =
     checked (guard (uuid_valid E (rn_MachineID command) \<and> uuid_valid E (rn_SourceMessageID command)
       \<and> rn_Fence command > 0) (ConversationError ErrStaleReplyClaim)) (\<lambda>_.
     transact (RenewConversationReply_tx command)) E"

section \<open>Committing a reply\<close>

definition sql_LockConversationReplyForCommit ::
    "uuid \<Rightarrow> uuid \<Rightarrow> db \<Rightarrow> (reply_claim_row \<times> conversation_row \<times> message_row) option" where
  "sql_LockConversationReplyForCommit sourceMessageID spaceID d =
     (case first_where (\<lambda>k. k_SourceMessageID k = sourceMessageID \<and> claim_joined d spaceID k \<noteq> None)
             (conversation_reply_claims d) of
        None \<Rightarrow> None
      | Some k \<Rightarrow> map_option (\<lambda>(c, m). (k, c, m)) (claim_joined d spaceID k))"

definition sql_ConversationReplyLeaseIsCurrent :: "uuid \<Rightarrow> timestamp \<Rightarrow> db \<Rightarrow> bool option" where
  "sql_ConversationReplyLeaseIsCurrent sourceMessageID now d =
     (case first_where (\<lambda>k. k_SourceMessageID k = sourceMessageID \<and> k_LeaseExpiresAt k \<noteq> None)
             (conversation_reply_claims d) of
        None \<Rightarrow> None
      | Some k \<Rightarrow> map_option (\<lambda>t. t > now) (k_LeaseExpiresAt k))"

definition createDelegatedWork :: "uuid \<Rightarrow> uuid \<Rightarrow> string \<Rightarrow> (db, uuid) tx" where
  "createDelegatedWork spaceID memberUserID goal =
     bind_tx (ask (\<lambda>E. fresh E 0)) (\<lambda>workID.
     bind_tx (insert_row (\<lambda>E now. sql_CreateWork (new_work E workID spaceID goal memberUserID memberUserID
       (fresh E 1) (CreateDigest spaceID memberUserID goal)))) (\<lambda>row.
     case row of
       None \<Rightarrow> fail (DatabaseError No_rows)
     | Some (w, owner, creator) \<Rightarrow> if w_WorkID w \<noteq> workID then fail Mismatch else ret workID))"

definition sql_CreateConversationCarryReply ::
    "env \<Rightarrow> uuid \<Rightarrow> uuid \<Rightarrow> int \<Rightarrow> string \<Rightarrow> uuid \<Rightarrow> db \<Rightarrow> db_error + (message_row \<times> db)" where
  "sql_CreateConversationCarryReply E messageID conversationID messageSeq text sourceMessageID =
     insert_message \<lparr>msg_MessageID = messageID, msg_ConversationID = conversationID,
       msg_MessageSeq = messageSeq, msg_Author = AuthorCarry, msg_AuthorUserID = None, msg_Text = text,
       msg_MemberRequestID = None, msg_RequestDigest = None,
       msg_ReplyToMemberMessageID = Some sourceMessageID, msg_CreatedAt = tx_time E\<rparr>"

definition sql_CompleteConversationReply ::
    "bytes \<Rightarrow> uuid \<Rightarrow> uuid option \<Rightarrow> uuid \<Rightarrow> uuid \<Rightarrow> int \<Rightarrow> timestamp \<Rightarrow> db \<Rightarrow> int \<times> db" where
  "sql_CompleteConversationReply digest replyID createdWorkID sourceMessageID machineID fence now d =
     (let P = claim_held machineID sourceMessageID fence now;
          f = (\<lambda>k. k\<lparr>k_OutputDigest := Some digest, k_CommittedReplyMessageID := Some replyID,
                     k_CommittedReplyAuthor := Some AuthorCarry, k_CreatedWorkID := createdWorkID\<rparr>)
      in (count_where P (conversation_reply_claims d),
          d\<lparr>conversation_reply_claims := update_where P f (conversation_reply_claims d)\<rparr>))"

text \<open>The writes of a first commit, once the claim is known to be current.\<close>

definition write_reply ::
    "commit_reply_command \<Rightarrow> reply_candidate \<Rightarrow> bytes \<Rightarrow> conversation_row \<Rightarrow> int \<Rightarrow> (db, commit_reply_result) tx" where
  "write_reply command candidate outputDigest conversation sourceSeq =
     bind_tx (case ca_DelegationGoal candidate of
                None \<Rightarrow> ret []
              | Some goal \<Rightarrow> createDelegatedWork (cn_SpaceID conversation) (cn_MemberUserID conversation) goal)
       (\<lambda>createdWorkID.
     bind_tx (modify_one (DatabaseError No_rows)
       (\<lambda>E now. sql_AdvanceConversationMessageHead (cn_ConversationID conversation))) (\<lambda>replySequence.
     bind_tx (require (replySequence = sourceSeq + 1) (ConversationError ErrStaleReplyClaim)) (\<lambda>_.
     bind_tx (ask (\<lambda>E. fresh E 2)) (\<lambda>replyMessageID.
     bind_tx (postgresUUID (ConversationError ErrStaleReplyClaim) (cm_SourceMessageID command)) (\<lambda>sourceMessageID.
     bind_tx (insert_row (\<lambda>E now. sql_CreateConversationCarryReply E replyMessageID
       (cn_ConversationID conversation) replySequence (ca_Reply candidate) sourceMessageID)) (\<lambda>_.
     bind_tx (postgresUUID (ConversationError ErrStaleReplyClaim) (cm_MachineID command)) (\<lambda>machineID.
     bind_tx (postgresUUID Mismatch replyMessageID) (\<lambda>replyID.
     bind_tx (if createdWorkID = [] then ret None
              else bind_tx (postgresUUID Mismatch createdWorkID) (\<lambda>u. ret (Some u))) (\<lambda>createdWorkUUID.
     bind_tx (modify (\<lambda>E now. sql_CompleteConversationReply outputDigest replyID createdWorkUUID
       (cm_SourceMessageID command) machineID (cm_Fence command) now)) (\<lambda>rows.
     bind_tx (require (rows = 1) (ConversationError ErrStaleReplyClaim)) (\<lambda>_.
     ret \<lparr>rs_ReplyMessageID = replyMessageID, rs_CreatedWorkID = createdWorkID\<rparr>)))))))))))"

definition CommitConversationReply_tx ::
    "commit_reply_command \<Rightarrow> reply_candidate \<times> bytes \<Rightarrow> (db, commit_reply_result) tx" where
  "CommitConversationReply_tx command = (\<lambda>(candidate, outputDigest).
     bind_tx (lockActiveReplyMachine (cm_MachineID command)) (\<lambda>spaceID.
     bind_tx (query_one (ConversationError ErrStaleReplyClaim)
       (\<lambda>E now. sql_LockConversationReplyForCommit (cm_SourceMessageID command) spaceID)) (\<lambda>(k, c, source).
     bind_tx (require (uuidValue (k_CurrentMachineID k) = cm_MachineID command
       \<and> k_CurrentFence k = cm_Fence command) (ConversationError ErrStaleReplyClaim)) (\<lambda>_.
     case k_CommittedReplyMessageID k of
       Some replyID \<Rightarrow>
         bind_tx (require (textValue (k_OutputDigest k) = outputDigest) (ConversationError ErrReplyConflict)) (\<lambda>_.
         ret \<lparr>rs_ReplyMessageID = replyID, rs_CreatedWorkID = uuidValue (k_CreatedWorkID k)\<rparr>)
     | None \<Rightarrow>
         bind_tx (require (cn_MessageHeadSeq c = msg_MessageSeq source)
           (ConversationError ErrStaleReplyClaim)) (\<lambda>_.
         bind_tx (query (\<lambda>E now. sql_ConversationReplyLeaseIsCurrent (cm_SourceMessageID command) now)) (\<lambda>leaseCurrent.
         bind_tx (require (leaseCurrent = Some True) (ConversationError ErrStaleReplyClaim)) (\<lambda>_.
         write_reply command candidate outputDigest c (msg_MessageSeq source))))))))"

definition CommitConversationReply ::
    "commit_reply_command \<Rightarrow> env \<Rightarrow> db \<Rightarrow> (carry_error + commit_reply_result) \<times> db" where
  "CommitConversationReply command E =
     checked (guard (uuid_valid E (cm_MachineID command) \<and> uuid_valid E (cm_SourceMessageID command)
       \<and> cm_Fence command > 0) (ConversationError ErrStaleReplyClaim)) (\<lambda>_.
     checked (NormalizeReplyCandidate (cm_SourceMessageID command) (cm_Candidate command)) (\<lambda>candidate.
     transact (CommitConversationReply_tx command candidate))) E"

lemma lockActiveReplyMachine_Inr [tx_simps]:
  "lockActiveReplyMachine machineID E d n = Inr (s, d', n') \<longleftrightarrow>
     \<not> fault E n \<and> d' = d \<and> n' = Suc n
     \<and> (\<exists>m. machine_of machineID d = Some m \<and> m_RevokedAt m = None \<and> s = m_SpaceID m)"
  by (auto simp: lockActiveReplyMachine_def sql_LockClaimingMachine_def tx_simps)

end
