(* ===== verification/Demo_World.thy ===== *)
theory Demo_World
  imports Run_Claims Conversation_Store
begin

text \<open>
  A small concrete Space (two members, one Machine) and the states a few operations reach in
  it. The witnesses of the properties run the operations here, so their hypotheses are shown to
  hold together in a database that the code itself produced.
\<close>

definition demo_env :: "string \<Rightarrow> timestamp \<Rightarrow> env" where
  "demo_env tag t = \<lparr>tx_time = t, clock = (\<lambda>n. t + int n), fresh = (\<lambda>n. tag @ replicate n (CHR ''x'')),
     fault = (\<lambda>_. False), begin_fault = False, commit_result = Commit_ok, row_locked = (\<lambda>_. False),
     uuid_valid = (\<lambda>_. True), uuid_parse = (\<lambda>_. True)\<rparr>"

lemma demo_env_simps [simp]:
  "tx_time (demo_env tag t) = t" "clock (demo_env tag t) n = t + int n"
  "fresh (demo_env tag t) n = tag @ replicate n (CHR ''x'')" "fault (demo_env tag t) n = False"
  "begin_fault (demo_env tag t) = False" "commit_result (demo_env tag t) = Commit_ok"
  "row_locked (demo_env tag t) i = False" "uuid_valid (demo_env tag t) s = True"
  "uuid_parse (demo_env tag t) s = True"
  by (simp_all add: demo_env_def)

lemma demo_env_healthy: "healthy (demo_env tag t)"
  by (simp add: healthy_def)

definition demo_user :: "uuid \<Rightarrow> string \<Rightarrow> user_row" where
  "demo_user i name = \<lparr>u_UserID = i, u_DisplayName = name, u_CreatedAt = 0\<rparr>"

definition demo_member :: "uuid \<Rightarrow> membership_row" where
  "demo_member u = \<lparr>mb_SpaceID = ''space'', mb_UserID = u, mb_CanEnrollMachines = True, mb_Version = 1,
     mb_CreatedAt = 0, mb_RevokedAt = None, mb_CanManageMembers = True, mb_RemovedByUserID = None,
     mb_RemovalSuccessorUserID = None, mb_RemovalIdempotencyKey = None, mb_RemovalRequestDigest = None\<rparr>"

definition demo_space :: space_row where
  "demo_space = \<lparr>sp_SpaceID = ''space'', sp_Name = ''Team'', sp_CreatedAt = 0, sp_CreatedByUserID = None,
     sp_CreateIdempotencyKey = None, sp_CreateRequestDigest = None, sp_Slug = ''team''\<rparr>"

definition demo_machine :: machine_row where
  "demo_machine = \<lparr>m_MachineID = ''m1'', m_SpaceID = ''space'', m_DisplayName = ''host'', m_PublicKeyDer = ''k'',
     m_CertificatePem = ''p'', m_CertificateSerial = ''1'', m_EnrolledByUserID = ''alice'', m_EnrolledAt = 0,
     m_RevokedAt = None, m_RevocationActorKind = None, m_RevokedByUserID = None,
     m_RevocationIdempotencyKey = None, m_RevocationRequestDigest = None, m_AgentReportRevision = 0,
     m_AgentReportedAt = None, m_LastAgentReportID = None, m_LastAgentReportDigest = None,
     m_LastUnsupportedKeys = [], m_LastSetupRequiredKeys = []\<rparr>"

definition demo_base :: db where
  "demo_base = empty_db\<lparr>carry_users := [demo_user ''alice'' ''Alice'', demo_user ''bob'' ''Bob''],
     spaces := [demo_space], memberships := [demo_member ''alice'', demo_member ''bob''], machines := [demo_machine]\<rparr>"

lemmas demo_defs = demo_base_def empty_db_def demo_space_def demo_machine_def demo_member_def demo_user_def

lemma demo_base_ok: "execution_ok demo_base"
  using execution_ok_empty by (simp add: demo_base_def execution_ok_def)

section \<open>Normal forms of the demo texts\<close>

lemma demo_texts:
  "plain_text ''Plan''" "plain_text ''key''" "plain_text ''space''" "plain_text ''alice''" "plain_text ''bob''"
  "plain_text ''w''" "plain_text ''Go on''" "plain_text ''Done''" "plain_text ''Ship it''" "plain_text ''r''"
  by (simp_all add: plain_text_def is_space_def)

lemma plain_normal_forms:
  assumes "plain_text s"
  shows "length s \<le> 2000 \<Longrightarrow> NormalizeGoal s = Inr s" "length s \<le> 255 \<Longrightarrow> NormalizeIdempotencyKey s = Inr s"
    "length s \<le> 255 \<Longrightarrow> NormalizeRequestKey s = Inr s" "length s \<le> 16384 \<Longrightarrow> NormalizeText s = Inr s"
    "length s \<le> 61440 \<Longrightarrow> ValidateMessage s = Inr ()" "trim_space s = s" "s \<noteq> []"
  using plain_text_trim [OF assms] plain_text_valid [OF assms] plain_text_no_nul [OF assms] plain_text_not_empty [OF assms]
  by (auto simp: NormalizeGoal_Inr NormalizeIdempotencyKey_Inr NormalizeRequestKey_Inr NormalizeText_Inr
      ValidateMessage_def validText_def MaxGoalBytes_def MaxIdempotencyKeyBytes_def MaxTextBytes_def MaxMessageBytes_def)

lemmas demo_normal_forms = demo_texts [THEN plain_normal_forms(1)] demo_texts [THEN plain_normal_forms(2)]
  demo_texts [THEN plain_normal_forms(3)] demo_texts [THEN plain_normal_forms(4)]
  demo_texts [THEN plain_normal_forms(5)] demo_texts [THEN plain_normal_forms(6)]

section \<open>A created Work\<close>

definition demo_create :: create_command where
  "demo_create = \<lparr>cr_SpaceID = ''space'', cr_CreatorUserID = ''alice'', cr_Goal = ''Plan'', cr_IdempotencyKey = ''key''\<rparr>"

definition demo_work :: work_row where
  "demo_work = new_work (demo_env ''w'' 100) ''w'' ''space'' ''Plan'' ''alice'' ''alice'' ''key''
     (CreateDigest ''space'' ''alice'' ''Plan'')"

definition demo_created :: db where
  "demo_created = demo_base\<lparr>works := [demo_work]\<rparr>"

lemma demo_created_run:
  "CreateWork demo_create (demo_env ''w'' 100) demo_base
     = (Inr (workFromCreateRow (demo_work, ''Alice'', ''Alice'')), demo_created)"
  by (simp add: CreateWork_def demo_create_def demo_normal_forms guard_def transact_healthy demo_env_healthy
      CreateWork_tx_def tx_run lockActiveWorkMembership_def sql_LockActiveWorkMembership_def active_membership_def
      sql_CreateWork_def joined_work_def display_names_def user_of_def demo_defs key_taken_def
      demo_created_def demo_work_def)

lemma demo_created_ok: "execution_ok demo_created"
  using keepsD [OF CreateWork_keeps demo_created_run demo_base_ok] .


section \<open>A claimed Run\<close>

definition demo_run :: run_row where
  "demo_run = new_run (demo_env ''r'' 200) ''r'' ''w'' 1 1 0"

definition demo_attempt :: attempt_row where
  "demo_attempt = new_attempt (demo_env ''r'' 200) ''rx'' ''r'' ''m1'' 1 205"

definition demo_claimed :: db where
  "demo_claimed = demo_created\<lparr>runs := [demo_run], run_attempts := [demo_attempt]\<rparr>"

definition demo_claim :: claim where
  "demo_claim = \<lparr>cl_RunID = ''r'', cl_AttemptID = ''rx'', cl_WorkID = ''w'', cl_Fence = 1,
     cl_LeaseExpiresAt = 205 + minutes 5, cl_Goal = ''Plan'', cl_CurrentUnderstanding = [],
     cl_CurrentNextStep = [], cl_BaseUnderstandingVersion = 0, cl_InputEndSeq = 1, cl_Messages = []\<rparr>"

lemma demo_claimed_run: "ClaimRun ''m1'' (demo_env ''r'' 200) demo_created = (Inr demo_claim, demo_claimed)"
  by (simp add: ClaimRun_def ClaimRun_tx_def transact_healthy demo_env_healthy tx_run
      sql_LockClaimingMachine_def machine_of_def demo_created_def demo_defs
      sql_LockExpiredRunForClaim_def run_joins_def order_by_def first_row_def
      create_run_def sql_LockWorkForRunClaim_def claimable_work_def exists_where_def demo_work_def
      sql_SelectRunInputEnd_def upcoming_messages_def sql_CreateRun_def unresolved_def key_taken_def
      open_attempt_def sql_CreateRunAttempt_def attempt_active_def sql_ListRunInputMessages_def
      demo_claim_def demo_claimed_def demo_run_def demo_attempt_def new_run_def new_attempt_def textValue_def)

lemma demo_claimed_ok: "execution_ok demo_claimed"
  using keepsD [OF ClaimRun_keeps demo_claimed_run demo_created_ok] .

end
