(* ===== verification/Execution_Properties.thy ===== *)
theory Execution_Properties
  imports Demo_World
begin

text \<open>
  What the Work and Run stores guarantee: a result is published only under the current
  authority, a claim carries a bounded and contiguous input, and a healthy claim makes progress.
\<close>

lemma transact_body:
  assumes "transact m E d = (Inr x, d')"
  obtains n where "m E d 0 = Inr (x, d', n)"
  using transact_Inr [OF assms] by blast

section \<open>Publishing a result\<close>

text \<open>
  C1 (safety). A Machine publishes an understanding only under the current authority: a
  successful commit found the Run and the named Attempt active, the Attempt's fence and the
  command's equal to the Run's current fence, the Machine its owner and not revoked, and the
  lease unexpired at the clock of its check. It then applied exactly the Run's input range to
  the Work as it was when the Run was claimed, under the next version, and closed both.
\<close>

theorem commit_requires_current_authority:
  assumes "CommitWorkUnderstanding command E d = (Inr u, d')" "execution_ok d"
  shows "\<exists>r a w m. r \<in> set (runs d) \<and> a \<in> set (run_attempts d) \<and> w \<in> set (works d) \<and> m \<in> set (machines d)
    \<and> r_RunID r = co_RunID command \<and> at_AttemptID a = co_AttemptID command \<and> at_RunID a = r_RunID r
    \<and> r_State r = StateActive \<and> at_State a = StateActive
    \<and> at_Fence a = co_Fence command \<and> r_CurrentFence r = co_Fence command
    \<and> m_MachineID m = co_MachineID command \<and> at_MachineID a = m_MachineID m \<and> m_RevokedAt m = None
    \<and> clock E 1 < at_LeaseExpiresAt a
    \<and> w_WorkID w = r_WorkID r \<and> w_AppliedInputSeq w = r_InputStartSeq r - 1
    \<and> w_UnderstandingVersion w = co_BaseUnderstandingVersion command \<and> r_InputEndSeq r = co_InputEndSeq command
    \<and> work_of (w_WorkID w) d' = Some (w\<lparr>w_Understanding := Some (trim_space (co_Understanding command)),
          w_NextStep := Some (trim_space (co_NextStep command)),
          w_AppliedInputSeq := co_InputEndSeq command, w_UnderstandingVersion := w_UnderstandingVersion w + 1\<rparr>)
    \<and> map_option r_State (run_of (r_RunID r) d') = Some StateSucceeded
    \<and> map_option at_State (attempt_of (at_AttemptID a) d') = Some StateSucceeded"
proof -
  from assms(1) obtain update where
    v: "ValidateUnderstandingUpdate (co_Understanding command) (co_NextStep command) = Inr update"
    and t: "transact (CommitWorkUnderstanding_tx command update) E d = (Inr u, d')"
    unfolding CommitWorkUnderstanding_def checked_Inr by blast
  let ?u = "trim_space (co_Understanding command)" and ?s = "trim_space (co_NextStep command)"
  have update: "update = (?u, ?s)" using v by (cases update) (simp add: ValidateUnderstandingUpdate_Inr)
  from t obtain n where body: "CommitWorkUnderstanding_tx command (?u, ?s) E d 0 = Inr (u, d', n)"
    unfolding update by (rule transact_body)
  from CommitWorkUnderstanding_tx_effect [OF body assms(2)] obtain r a w where
    step: "commit_step command ?u ?s E 0 d d' r a w" by blast
  have ok': "execution_ok d'" using keepsD [OF CommitWorkUnderstanding_keeps assms(1,2)] .
  note st = step [unfolded commit_step_def attempt_authority_def commit_current_def]
  then have w: "replaces w_WorkID (works d) w (committed_work ?u ?s r w) (works d')"
    and cur: "w_WorkID w = r_WorkID r" "w_AppliedInputSeq w = r_InputStartSeq r - 1"
      "w_UnderstandingVersion w = co_BaseUnderstandingVersion command" "r_InputEndSeq r = co_InputEndSeq command"
    by auto
  obtain now3 where r: "replaces r_RunID (runs d) r (finish_run_row StateSucceeded now3 r) (runs d')" using st by blast
  obtain now2 where a: "replaces at_AttemptID (run_attempts d) a (finish_attempt_row StateSucceeded now2 a) (run_attempts d')"
    using st by blast
  note lookup = unique_update_first(1)
  have "work_of (w_WorkID w) d' = Some (committed_work ?u ?s r w)"
    unfolding work_of_def
    by (rule lookup [of w_WorkID]) (use ok' replaces_set [OF w] in
      \<open>auto simp: execution_ok_def work_state_ok_def works_ok_def committed_work_def\<close>)
  moreover have "run_of (r_RunID r) d' = Some (finish_run_row StateSucceeded now3 r)"
    unfolding run_of_def
    by (rule lookup [of r_RunID]) (use ok' replaces_set [OF r] in
      \<open>auto simp: execution_ok_def work_state_ok_def runs_ok_def finish_run_row_def\<close>)
  moreover have "attempt_of (at_AttemptID a) d' = Some (finish_attempt_row StateSucceeded now2 a)"
    unfolding attempt_of_def
    by (rule lookup [of at_AttemptID]) (use ok' replaces_set [OF a] in
      \<open>auto simp: execution_ok_def work_state_ok_def attempts_ok_def finish_attempt_row_def\<close>)
  moreover obtain m where "m \<in> set (machines d)" "m_MachineID m = co_MachineID command" "m_RevokedAt m = None"
    using st by (auto simp: exists_where_iff)
  moreover have "w \<in> set (works d)" using w by (simp add: replaces_def)
  ultimately show ?thesis using st cur
    by (intro exI [of _ r] exI [of _ a] exI [of _ w] exI [of _ m])
      (auto simp: committed_work_def finish_run_row_def finish_attempt_row_def)
qed

definition demo_commit :: commit_command where
  "demo_commit = \<lparr>co_MachineID = ''m1'', co_RunID = ''r'', co_AttemptID = ''rx'', co_Fence = 1,
     co_BaseUnderstandingVersion = 0, co_InputEndSeq = 1, co_Understanding = ''Done'', co_NextStep = ''Ship it'',
     co_ReviewRequired = True\<rparr>"

definition demo_committed :: db where
  "demo_committed = snd (CommitWorkUnderstanding demo_commit (demo_env ''c'' 300) demo_claimed)"

lemma demo_committed_run:
  "CommitWorkUnderstanding demo_commit (demo_env ''c'' 300) demo_claimed = (Inr (), demo_committed)"
proof -
  have v: "ValidateUnderstandingUpdate ''Done'' ''Ship it'' = Inr (''Done'', ''Ship it'')"
    using demo_texts plain_text_valid plain_text_no_nul plain_text_trim
    by (simp add: ValidateUnderstandingUpdate_Inr validText_def MaxUnderstandingBytes_def MaxNextStepBytes_def)
  have "fst (CommitWorkUnderstanding demo_commit (demo_env ''c'' 300) demo_claimed) = Inr ()"
    by (simp add: CommitWorkUnderstanding_def demo_commit_def v transact_healthy demo_env_healthy
        CommitWorkUnderstanding_tx_def tx_run sql_LockAttemptForCommit_def attempt_authority_def
        demo_claimed_def demo_created_def demo_defs demo_run_def demo_attempt_def new_run_def new_attempt_def
        exists_where_def work_of_def demo_work_def sql_RunAttemptLeaseIsCurrent_def attempt_of_def
        commit_current_def sql_CommitCurrentUnderstanding_def sql_CreateWorkResultCheck_def key_taken_def
        new_result_check_def sql_SucceedRunAttempt_def sql_FinishRunAttempt_def sql_SucceedRun_def
        sql_FinishRun_def finish_attempt_row_def finish_run_row_def check_slot_def)
  then show ?thesis by (metis demo_committed_def prod.collapse)
qed

lemma demo_committed_ok: "execution_ok demo_committed"
  using keepsD [OF CommitWorkUnderstanding_keeps demo_committed_run demo_claimed_ok] .

theorem commit_requires_current_authority_witness:
  "CommitWorkUnderstanding demo_commit (demo_env ''c'' 300) demo_claimed = (Inr (), demo_committed)
    \<and> (\<exists>r. r \<in> set (runs demo_claimed) \<and> r_CurrentFence r = co_Fence demo_commit)"
  using commit_requires_current_authority [OF demo_committed_run demo_claimed_ok] demo_committed_run by blast

end
