(* ===== verification/Conversation_State.thy ===== *)
theory Conversation_State
  imports Conversation_Store Execution_Invariants
begin

text \<open>
  The invariants of private Conversations: the schema's constraints and what the code relies on
  beyond them. Message numbers are contiguous; every member message owes one reply claim and a
  claim is unresolved only at the head of its Conversation; a committed claim points to the one
  Carry message right behind its source.
\<close>

section \<open>Rows\<close>

definition message_text_ok :: "message_row \<Rightarrow> bool" where
  "message_text_ok m \<longleftrightarrow> 1 \<le> msg_MessageSeq m \<and> NormalizeText (msg_Text m) = Inr (msg_Text m)"

text \<open>The constraint \<open>conversation_messages_author_shape\<close>.\<close>

definition author_shape :: "message_row \<Rightarrow> bool" where
  "author_shape m \<longleftrightarrow>
     (msg_Author m = AuthorMember \<and> msg_AuthorUserID m \<noteq> None \<and> msg_MemberRequestID m \<noteq> None
       \<and> msg_RequestDigest m \<noteq> None \<and> msg_ReplyToMemberMessageID m = None)
     \<or> (msg_Author m = AuthorCarry \<and> msg_AuthorUserID m = None \<and> msg_MemberRequestID m = None
       \<and> msg_RequestDigest m = None \<and> msg_ReplyToMemberMessageID m \<noteq> None)"

text \<open>The constraints \<open>conversation_reply_claims_context\<close> and \<open>..._authority_shape\<close>.\<close>

definition authority_shape :: "reply_claim_row \<Rightarrow> bool" where
  "authority_shape k \<longleftrightarrow> k_SourceMessageAuthor k = AuthorMember
     \<and> (case k_CurrentMachineID k of
          None \<Rightarrow> k_CurrentFence k = 0 \<and> k_LeaseExpiresAt k = None \<and> k_ContextStartSeq k = None
            \<and> k_ContextEndSeq k = None \<and> k_OutputDigest k = None \<and> k_CommittedReplyMessageID k = None
            \<and> k_CommittedReplyAuthor k = None \<and> k_CreatedWorkID k = None
        | Some m \<Rightarrow> 0 < k_CurrentFence k \<and> k_LeaseExpiresAt k \<noteq> None
            \<and> (\<exists>s e. k_ContextStartSeq k = Some s \<and> k_ContextEndSeq k = Some e \<and> 0 < s \<and> s \<le> e)
            \<and> (case k_CommittedReplyMessageID k of
                 None \<Rightarrow> k_OutputDigest k = None \<and> k_CommittedReplyAuthor k = None \<and> k_CreatedWorkID k = None
               | Some i \<Rightarrow> (\<exists>x. k_OutputDigest k = Some x \<and> length x = 32)
                   \<and> k_CommittedReplyAuthor k = Some AuthorCarry))"

section \<open>Tables\<close>

definition conversation_rows_ok :: "conversation_row list \<Rightarrow> bool" where
  "conversation_rows_ok cs \<longleftrightarrow> unique_on cn_ConversationID (\<lambda>_. True) cs
     \<and> unique_on conversation_key (\<lambda>_. True) cs \<and> (\<forall>c \<in> set cs. 0 \<le> cn_MessageHeadSeq c)"

definition message_in :: "message_row \<Rightarrow> conversation_row \<Rightarrow> bool" where
  "message_in m c \<longleftrightarrow> cn_ConversationID c = msg_ConversationID m \<and> msg_MessageSeq m \<le> cn_MessageHeadSeq c
     \<and> (msg_Author m = AuthorMember \<longrightarrow> msg_AuthorUserID m = Some (cn_MemberUserID c)
          \<and> msg_RequestDigest m = Some (ConversationDigest (cn_SpaceID c) (cn_MemberUserID c) (msg_Text m)))"

definition message_rows_ok :: "conversation_row list \<Rightarrow> message_row list \<Rightarrow> bool" where
  "message_rows_ok cs ms \<longleftrightarrow>
     unique_on msg_MessageID (\<lambda>_. True) ms \<and> unique_on message_position (\<lambda>_. True) ms
     \<and> unique_on msg_ReplyToMemberMessageID is_reply ms \<and> unique_on member_request_key is_member_message ms
     \<and> (\<forall>m \<in> set ms. message_text_ok m \<and> author_shape m)
     \<and> (\<forall>m \<in> set ms. \<exists>c \<in> set cs. message_in m c)
     \<and> (\<forall>c \<in> set cs. \<forall>s \<in> {1..cn_MessageHeadSeq c}. \<exists>m \<in> set ms. message_position m = (cn_ConversationID c, s))"

definition has_reply :: "reply_claim_row \<Rightarrow> bool" where
  "has_reply k \<longleftrightarrow> k_CommittedReplyMessageID k \<noteq> None"

definition source_of :: "reply_claim_row \<Rightarrow> message_row \<Rightarrow> bool" where
  "source_of k m \<longleftrightarrow> msg_MessageID m = k_SourceMessageID k \<and> msg_ConversationID m = k_ConversationID k
     \<and> msg_Author m = AuthorMember \<and> (\<forall>e. k_ContextEndSeq k = Some e \<longrightarrow> e = msg_MessageSeq m)"

definition reply_of :: "reply_claim_row \<Rightarrow> message_row \<Rightarrow> message_row \<Rightarrow> bool" where
  "reply_of k m r \<longleftrightarrow> k_CommittedReplyMessageID k = Some (msg_MessageID r)
     \<and> msg_ConversationID r = k_ConversationID k \<and> msg_Author r = AuthorCarry
     \<and> msg_ReplyToMemberMessageID r = Some (msg_MessageID m) \<and> msg_MessageSeq r = msg_MessageSeq m + 1"

text \<open>A claim has its source; unresolved, the source is the head; committed, the reply follows it.\<close>

definition claim_linked :: "conversation_row list \<Rightarrow> message_row list \<Rightarrow> reply_claim_row \<Rightarrow> bool" where
  "claim_linked cs ms k \<longleftrightarrow> (\<exists>m \<in> set ms. source_of k m
     \<and> (claim_unresolved k \<longrightarrow> (\<exists>c \<in> set cs. cn_ConversationID c = k_ConversationID k
           \<and> cn_MessageHeadSeq c = msg_MessageSeq m))
     \<and> (has_reply k \<longrightarrow> (\<exists>r \<in> set ms. reply_of k m r)))"

definition claim_for :: "message_row \<Rightarrow> reply_claim_row \<Rightarrow> bool" where
  "claim_for m k \<longleftrightarrow>
     (if msg_Author m = AuthorMember then k_SourceMessageID k = msg_MessageID m
      else k_CommittedReplyMessageID k = Some (msg_MessageID m))"

definition claims_ok :: "conversation_row list \<Rightarrow> message_row list \<Rightarrow> reply_claim_row list \<Rightarrow> bool" where
  "claims_ok cs ms ks \<longleftrightarrow>
     unique_on k_SourceMessageID (\<lambda>_. True) ks \<and> unique_on k_ConversationID claim_unresolved ks
     \<and> unique_on k_CommittedReplyMessageID has_reply ks
     \<and> (\<forall>k \<in> set ks. authority_shape k \<and> claim_linked cs ms k)
     \<and> (\<forall>m \<in> set ms. \<exists>k \<in> set ks. claim_for m k)"

definition conversation_ok :: "db \<Rightarrow> bool" where
  "conversation_ok d \<longleftrightarrow> conversation_rows_ok (conversations d)
     \<and> message_rows_ok (conversations d) (conversation_messages d)
     \<and> claims_ok (conversations d) (conversation_messages d) (conversation_reply_claims d)"

lemma conversation_ok_empty: "conversation_ok empty_db"
  by (simp add: conversation_ok_def empty_db_def conversation_rows_ok_def message_rows_ok_def claims_ok_def)

lemma conversation_ok_cong:
  "conversations d' = conversations d \<Longrightarrow> conversation_messages d' = conversation_messages d
    \<Longrightarrow> conversation_reply_claims d' = conversation_reply_claims d \<Longrightarrow> conversation_ok d' = conversation_ok d"
  by (simp add: conversation_ok_def)

section \<open>A new Conversation\<close>

lemma conversation_ok_new_conversation:
  assumes ok: "conversation_ok d" and c: "cn_MessageHeadSeq c = 0"
    and new: "\<not> key_taken cn_ConversationID (\<lambda>_. True) (cn_ConversationID c) (conversations d)"
      "\<not> key_taken conversation_key (\<lambda>_. True) (conversation_key c) (conversations d)"
  shows "conversation_ok (d\<lparr>conversations := conversations d @ [c]\<rparr>)"
proof -
  note parts = ok [unfolded conversation_ok_def]
  have "conversation_rows_ok (conversations d @ [c])"
    using parts c new by (simp add: conversation_rows_ok_def unique_on_append1)
  moreover have "message_rows_ok (conversations d @ [c]) (conversation_messages d)"
    using parts c by (auto simp: message_rows_ok_def)
  moreover have "claim_linked (conversations d @ [c]) (conversation_messages d) k"
    if "claim_linked (conversations d) (conversation_messages d) k" for k
    using that by (auto simp: claim_linked_def)
  then have "claims_ok (conversations d @ [c]) (conversation_messages d) (conversation_reply_claims d)"
    using parts by (auto simp: claims_ok_def)
  ultimately show ?thesis by (simp add: conversation_ok_def)
qed

section \<open>A member message with its claim\<close>

text \<open>
  The state between the two: the head moved from \<open>h\<close> to \<open>h + 1\<close> and a message sits there. With
  no unresolved claim in the Conversation nothing else depends on its head.
\<close>

lemma message_rows_ok_append:
  assumes ok: "message_rows_ok cs ms" and cs: "conversation_rows_ok cs"
    and c: "replaces cn_ConversationID cs c (c\<lparr>cn_MessageHeadSeq := cn_MessageHeadSeq c + 1\<rparr>) cs'"
    and m: "message_text_ok m" "author_shape m" "message_position m = (cn_ConversationID c, cn_MessageHeadSeq c + 1)"
      "msg_Author m = AuthorMember \<longrightarrow> msg_AuthorUserID m = Some (cn_MemberUserID c)
        \<and> msg_RequestDigest m = Some (ConversationDigest (cn_SpaceID c) (cn_MemberUserID c) (msg_Text m))"
    and new: "insert_message m d = Inr (x, d')" "conversation_messages d = ms"
  shows "message_rows_ok cs' (ms @ [m]) \<and> conversation_rows_ok cs'"
proof -
  let ?c = "c\<lparr>cn_MessageHeadSeq := cn_MessageHeadSeq c + 1\<rparr>"
  have cd: "c \<in> set cs" using c by (simp add: replaces_def)
  have keys: "\<not> key_taken msg_MessageID (\<lambda>_. True) (msg_MessageID m) ms"
    "\<not> key_taken message_position (\<lambda>_. True) (message_position m) ms"
    "is_reply m \<longrightarrow> \<not> key_taken msg_ReplyToMemberMessageID is_reply (msg_ReplyToMemberMessageID m) ms"
    "is_member_message m \<longrightarrow> \<not> key_taken member_request_key is_member_message (member_request_key m) ms"
    using new by (auto simp: insert_message_def split: if_split_asm)
  have "unique_on cn_ConversationID (\<lambda>_. True) cs'" "unique_on conversation_key (\<lambda>_. True) cs'"
    by (rule replaces_unique [OF c]; use cs in \<open>simp add: conversation_rows_ok_def conversation_key_def\<close>)+
  moreover have "\<forall>x \<in> set cs'. 0 \<le> cn_MessageHeadSeq x"
    by (rule replaces_ball [OF c]) (use cs cd in \<open>auto simp: conversation_rows_ok_def\<close>)
  ultimately have "conversation_rows_ok cs'" by (simp add: conversation_rows_ok_def)
  moreover have "\<exists>x \<in> set cs'. message_in y x" if "y \<in> set (ms @ [m])" for y
  proof (cases "y = m")
    case True
    then show ?thesis using m by (auto simp: replaces_set [OF c] message_in_def message_position_def)
  next
    case False
    then have "\<exists>x \<in> set cs. message_in y x" using that ok by (simp add: message_rows_ok_def)
    then show ?thesis by (rule replaces_bex [OF c]) (auto simp: message_in_def)
  qed
  moreover have "\<exists>y \<in> set (ms @ [m]). message_position y = (cn_ConversationID x, s)"
    if x: "x \<in> set cs'" "s \<in> {1..cn_MessageHeadSeq x}" for x s
  proof (cases "x = ?c \<and> s = cn_MessageHeadSeq c + 1")
    case True
    then show ?thesis using m(3) by simp
  next
    case False
    then have "\<exists>z \<in> set cs. cn_ConversationID z = cn_ConversationID x \<and> s \<in> {1..cn_MessageHeadSeq z}"
      using x cd by (auto simp: replaces_set [OF c])
    then show ?thesis using ok unfolding message_rows_ok_def by (metis Un_iff set_append)
  qed
  ultimately show ?thesis
    using ok keys m(1,2) by (simp add: message_rows_ok_def unique_on_append1)
qed


lemma claim_linked_append:
  assumes "claim_linked cs ms k" "\<not> claim_unresolved k"
  shows "claim_linked cs' (ms @ [m]) k"
  using assms unfolding claim_linked_def by (metis Un_iff set_append)

lemma claim_linked_append_other:
  assumes "claim_linked cs ms k" "k_ConversationID k \<noteq> cn_ConversationID c"
    and "replaces cn_ConversationID cs c c' cs'"
  shows "claim_linked cs' (ms @ [m]) k"
proof -
  obtain x where x: "x \<in> set ms" "source_of k x"
    "claim_unresolved k \<longrightarrow> (\<exists>c \<in> set cs. cn_ConversationID c = k_ConversationID k \<and> cn_MessageHeadSeq c = msg_MessageSeq x)"
    "has_reply k \<longrightarrow> (\<exists>r \<in> set ms. reply_of k x r)"
    using assms(1) by (auto simp: claim_linked_def)
  have "claim_unresolved k \<longrightarrow> (\<exists>c \<in> set cs'. cn_ConversationID c = k_ConversationID k \<and> cn_MessageHeadSeq c = msg_MessageSeq x)"
  proof
    assume "claim_unresolved k"
    with x(3) have "\<exists>c \<in> set cs. cn_ConversationID c = k_ConversationID k \<and> cn_MessageHeadSeq c = msg_MessageSeq x" by blast
    then show "\<exists>c \<in> set cs'. cn_ConversationID c = k_ConversationID k \<and> cn_MessageHeadSeq c = msg_MessageSeq x"
      by (rule replaces_bex [OF assms(3)]) (use assms(2) in simp)
  qed
  with x show ?thesis by (auto simp: claim_linked_def)
qed

lemma claims_ok_admit:
  assumes ok: "claims_ok cs ms ks" and ms: "message_rows_ok cs ms"
    and none: "\<forall>k \<in> set ks. k_ConversationID k = cn_ConversationID c \<longrightarrow> \<not> claim_unresolved k"
    and c: "replaces cn_ConversationID cs c (c\<lparr>cn_MessageHeadSeq := cn_MessageHeadSeq c + 1\<rparr>) cs'"
    and m: "msg_Author m = AuthorMember" "message_position m = (cn_ConversationID c, cn_MessageHeadSeq c + 1)"
      "\<not> key_taken k_SourceMessageID (\<lambda>_. True) (msg_MessageID m) ks"
  shows "claims_ok cs' (ms @ [m]) (ks @ [new_reply_claim (msg_MessageID m) (cn_ConversationID c)])"
proof -
  let ?k = "new_reply_claim (msg_MessageID m) (cn_ConversationID c)"
  have linked: "claim_linked cs' (ms @ [m]) k" if k: "k \<in> set ks" for k
  proof -
    have l: "claim_linked cs ms k" using ok k by (simp add: claims_ok_def)
    show ?thesis
    proof (cases "k_ConversationID k = cn_ConversationID c")
      case True
      then show ?thesis using none k claim_linked_append [OF l] by blast
    next
      case False
      then show ?thesis by (rule claim_linked_append_other [OF l _ c])
    qed
  qed
  have "claim_linked cs' (ms @ [m]) ?k"
    using m by (auto simp: claim_linked_def new_reply_claim_def source_of_def message_position_def
        has_reply_def replaces_set [OF c])
  moreover have "authority_shape ?k" by (simp add: authority_shape_def new_reply_claim_def)
  moreover have "claim_for m ?k" using m(1) by (simp add: claim_for_def new_reply_claim_def)
  moreover have "\<not> key_taken k_ConversationID claim_unresolved (cn_ConversationID c) ks"
    using none by (auto simp: key_taken_iff)
  ultimately show ?thesis
    using ok linked m(3) by (auto simp: claims_ok_def unique_on_append1 new_reply_claim_def has_reply_def)
qed

lemma sql_AdvanceConversationMessageHead_Some:
  assumes "sql_AdvanceConversationMessageHead i d = (Some s, d')" "conversation_rows_ok (conversations d)"
    "c \<in> set (conversations d)" "cn_ConversationID c = i"
  shows "s = cn_MessageHeadSeq c + 1 \<and> d' = d\<lparr>conversations := conversations d'\<rparr>
    \<and> replaces cn_ConversationID (conversations d) c (c\<lparr>cn_MessageHeadSeq := cn_MessageHeadSeq c + 1\<rparr>) (conversations d')"
proof -
  let ?P = "\<lambda>c. cn_ConversationID c = i" and ?f = "\<lambda>c. c\<lparr>cn_MessageHeadSeq := cn_MessageHeadSeq c + 1\<rparr>"
  have u: "unique_on cn_ConversationID (\<lambda>_. True) (conversations d)" using assms(2) by (simp add: conversation_rows_ok_def)
  have "first_where ?P (conversations d) = Some c"
    using unique_update_first(1) [OF u assms(3), of ?P] assms(4) by simp
  moreover have "replaces cn_ConversationID (conversations d) c (?f c) (update_where ?P ?f (conversations d))"
    using assms(4) by (intro replaces_update_where [OF u assms(3)]) auto
  ultimately show ?thesis
    using assms(1) by (auto simp: sql_AdvanceConversationMessageHead_def Let_def)
qed

section \<open>Admission\<close>

definition new_member_message :: "env \<Rightarrow> send_command \<Rightarrow> conversation_row \<Rightarrow> string \<Rightarrow> string \<Rightarrow> bytes \<Rightarrow> message_row" where
  "new_member_message E command c text key digest = \<lparr>msg_MessageID = fresh E 1,
     msg_ConversationID = cn_ConversationID c, msg_MessageSeq = cn_MessageHeadSeq c + 1,
     msg_Author = AuthorMember, msg_AuthorUserID = Some (se_MemberUserID command), msg_Text = text,
     msg_MemberRequestID = Some key, msg_RequestDigest = Some digest, msg_ReplyToMemberMessageID = None,
     msg_CreatedAt = tx_time E\<rparr>"

lemma conversation_of_Some: "conversation_of i d = Some c \<Longrightarrow> c \<in> set (conversations d) \<and> cn_ConversationID c = i"
  by (auto simp: conversation_of_def dest: first_where_Some)

text \<open>
  A successful admission: with \<open>d1\<close> the database in which the member's Conversation \<open>c\<close> exists,
  either a replay that changes nothing further, or a new message and its claim behind the head.
\<close>

lemma sql_EnsureConversation_effect:
  assumes "sql_EnsureConversation x d = Inr (i, d1)"
  shows "(d1 = d \<or> (d1 = d\<lparr>conversations := conversations d @ [x]\<rparr>
      \<and> \<not> key_taken cn_ConversationID (\<lambda>_. True) (cn_ConversationID x) (conversations d)
      \<and> \<not> key_taken conversation_key (\<lambda>_. True) (conversation_key x) (conversations d)))
    \<and> (\<exists>c \<in> set (conversations d1). cn_ConversationID c = i \<and> conversation_key c = conversation_key x)"
  using assms
  by (auto simp: sql_EnsureConversation_def key_taken_iff first_where_None split: option.split_asm if_split_asm
      dest!: first_where_Some)

lemma admit_message_effect:
  assumes "admit_message command text key digest i E d n = Inr (v, d', n')" "conversation_ok d"
    and c: "c \<in> set (conversations d)" "cn_ConversationID c = i"
  shows "\<exists>cs. let m = new_member_message E command c text key digest in
      \<not> sql_ConversationHasUnresolvedReply i d
    \<and> replaces cn_ConversationID (conversations d) c (c\<lparr>cn_MessageHeadSeq := cn_MessageHeadSeq c + 1\<rparr>) cs
    \<and> insert_message m (d\<lparr>conversations := cs\<rparr>) =
        Inr (m, d\<lparr>conversations := cs, conversation_messages := conversation_messages d @ [m]\<rparr>)
    \<and> \<not> key_taken k_SourceMessageID (\<lambda>_. True) (msg_MessageID m) (conversation_reply_claims d)
    \<and> v = admitted_message m
    \<and> d' = d\<lparr>conversations := cs, conversation_messages := conversation_messages d @ [m],
          conversation_reply_claims := conversation_reply_claims d @ [new_reply_claim (msg_MessageID m) i]\<rparr>"
proof -
  from assms(1) obtain d1 d2 s row where
    p: "\<not> sql_ConversationHasUnresolvedReply i d"
    and d1: "sql_AdvanceConversationMessageHead i d = (Some s, d1)"
    and d2: "sql_CreateConversationMemberMessage E (fresh E 1) i s (se_MemberUserID command) text key digest d1 = Inr (row, d2)"
    and d': "sql_CreateConversationReplyClaim (msg_MessageID row) i d2 = Inr ((), d')"
    and v: "v = admitted_message row"
    by (auto simp: admit_message_def tx_simps)
  have rows: "conversation_rows_ok (conversations d)" using assms(2) by (simp add: conversation_ok_def)
  from sql_AdvanceConversationMessageHead_Some [OF d1 rows c]
  have s: "s = cn_MessageHeadSeq c + 1" and eq: "d1 = d\<lparr>conversations := conversations d1\<rparr>"
    and rep: "replaces cn_ConversationID (conversations d) c (c\<lparr>cn_MessageHeadSeq := cn_MessageHeadSeq c + 1\<rparr>) (conversations d1)"
    by auto
  let ?m = "new_member_message E command c text key digest"
  have ins: "insert_message ?m d1 = Inr (row, d2)"
    using d2 s c(2) by (simp add: sql_CreateConversationMemberMessage_def new_member_message_def)
  then have row: "row = ?m" and d2eq: "d2 = d1\<lparr>conversation_messages := conversation_messages d1 @ [?m]\<rparr>"
    by (auto simp: insert_message_def split: if_split_asm)
  have msgs: "conversation_messages d1 = conversation_messages d"
    "conversation_reply_claims d1 = conversation_reply_claims d"
    by (subst eq, simp)+
  show ?thesis
    unfolding Let_def
    by (rule exI [of _ "conversations d1"])
      (use p rep ins row d2eq msgs eq d' v in \<open>auto simp: sql_CreateConversationReplyClaim_def split: if_split_asm\<close>)
qed


lemma SendConversationMessage_tx_effect:
  assumes "SendConversationMessage_tx command text key digest E d n = Inr (v, d', n')"
  shows "\<exists>i d1. is_member (se_SpaceID command) (se_MemberUserID command) d
    \<and> sql_EnsureConversation (new_conversation E (fresh E 0) (se_SpaceID command) (se_MemberUserID command)) d = Inr (i, d1)
    \<and> ((\<exists>m. sql_FindConversationMemberRequest i key d1 = Some m \<and> msg_RequestDigest m = Some digest
            \<and> d' = d1 \<and> v = admitted_message m)
       \<or> (sql_FindConversationMemberRequest i key d1 = None
            \<and> (\<exists>n1. admit_message command text key digest i E d1 n1 = Inr (v, d', n'))))"
proof -
  from assms obtain x i d1 n1 where
    member: "sql_LockActiveWorkMembership (se_SpaceID command) (se_MemberUserID command) d = Some x"
    and e: "sql_EnsureConversation (new_conversation E (fresh E 0) (se_SpaceID command) (se_MemberUserID command)) d = Inr (i, d1)"
    and rest: "(sql_FindConversationMemberRequest i key d1 = None \<and> admit_message command text key digest i E d1 n1 = Inr (v, d', n'))
       \<or> (\<exists>m. sql_FindConversationMemberRequest i key d1 = Some m \<and> msg_RequestDigest m = Some digest
            \<and> d' = d1 \<and> v = admitted_message m)"
    by (auto simp: SendConversationMessage_tx_def tx_simps)
  then show ?thesis
    using sql_LockActiveWorkMembership_iff by blast
qed

lemma conversation_ok_admit:
  assumes ok: "conversation_ok d" and run: "admit_message command text key digest i E d n = Inr (v, d', n')"
    and c: "c \<in> set (conversations d)" "cn_ConversationID c = i"
      "cn_SpaceID c = se_SpaceID command \<and> cn_MemberUserID c = se_MemberUserID command"
    and normal: "NormalizeText text = Inr text"
      "digest = ConversationDigest (se_SpaceID command) (se_MemberUserID command) text"
  shows "conversation_ok d'"
proof -
  let ?m = "new_member_message E command c text key digest"
  from admit_message_effect [OF run ok c(1,2)] obtain cs where
    p: "\<not> sql_ConversationHasUnresolvedReply i d"
    and rep: "replaces cn_ConversationID (conversations d) c (c\<lparr>cn_MessageHeadSeq := cn_MessageHeadSeq c + 1\<rparr>) cs"
    and ins: "insert_message ?m (d\<lparr>conversations := cs\<rparr>) =
        Inr (?m, d\<lparr>conversations := cs, conversation_messages := conversation_messages d @ [?m]\<rparr>)"
    and key: "\<not> key_taken k_SourceMessageID (\<lambda>_. True) (msg_MessageID ?m) (conversation_reply_claims d)"
    and d': "d' = d\<lparr>conversations := cs, conversation_messages := conversation_messages d @ [?m],
          conversation_reply_claims := conversation_reply_claims d @ [new_reply_claim (msg_MessageID ?m) i]\<rparr>"
    unfolding Let_def by blast
  note parts = ok [unfolded conversation_ok_def]
  have head: "0 \<le> cn_MessageHeadSeq c" using parts c by (simp add: conversation_rows_ok_def)
  have m: "message_text_ok ?m" "author_shape ?m" "message_position ?m = (cn_ConversationID c, cn_MessageHeadSeq c + 1)"
    "msg_Author ?m = AuthorMember"
    using head normal by (simp_all add: message_text_ok_def author_shape_def new_member_message_def message_position_def)
  have "message_rows_ok cs (conversation_messages d @ [?m]) \<and> conversation_rows_ok cs"
    using parts m c(3) normal(2) ins by (intro message_rows_ok_append [OF _ _ rep _ _ _ _ ins])
      (simp_all add: new_member_message_def)
  moreover have "\<forall>k \<in> set (conversation_reply_claims d). k_ConversationID k = cn_ConversationID c \<longrightarrow> \<not> claim_unresolved k"
    using p c(2) by (auto simp: sql_ConversationHasUnresolvedReply_def exists_where_iff)
  then have "claims_ok cs (conversation_messages d @ [?m])
      (conversation_reply_claims d @ [new_reply_claim (msg_MessageID ?m) (cn_ConversationID c)])"
    using parts m key by (intro claims_ok_admit [OF _ _ _ rep]) auto
  ultimately show ?thesis using c(2) by (simp add: conversation_ok_def d')
qed

lemma SendConversationMessage_keeps: "keeps conversation_ok (SendConversationMessage command)"
  unfolding SendConversationMessage_def [abs_def]
proof (rule keeps_env, intro keeps_checked keeps_transact)
  fix body key
  assume normal: "NormalizeText (se_Text command) = Inr body"
  let ?digest = "ConversationDigest (se_SpaceID command) (se_MemberUserID command) body"
  show "preserves conversation_ok (SendConversationMessage_tx command body key ?digest)"
    unfolding preserves_def
  proof (intro allI impI)
    fix E d n v d' n'
    assume run: "SendConversationMessage_tx command body key ?digest E d n = Inr (v, d', n')" and ok: "conversation_ok d"
    let ?x = "new_conversation E (fresh E 0) (se_SpaceID command) (se_MemberUserID command)"
    from SendConversationMessage_tx_effect [OF run] obtain i d1 where
      e: "sql_EnsureConversation ?x d = Inr (i, d1)"
      and rest: "d' = d1 \<or> (\<exists>n1. admit_message command body key ?digest i E d1 n1 = Inr (v, d', n'))" by blast
    from sql_EnsureConversation_effect [OF e] obtain c where
      d1: "d1 = d \<or> (d1 = d\<lparr>conversations := conversations d @ [?x]\<rparr>
      \<and> \<not> key_taken cn_ConversationID (\<lambda>_. True) (cn_ConversationID ?x) (conversations d)
      \<and> \<not> key_taken conversation_key (\<lambda>_. True) (conversation_key ?x) (conversations d))"
      and c: "c \<in> set (conversations d1)" "cn_ConversationID c = i" "conversation_key c = conversation_key ?x" by blast
    from d1 have ok1: "conversation_ok d1"
      using ok conversation_ok_new_conversation [OF ok, of ?x] by (auto simp: new_conversation_def)
    have "NormalizeText body = Inr body" using normal by (auto simp: NormalizeText_Inr)
    then show "conversation_ok d'"
      using rest ok1 conversation_ok_admit [OF ok1 _ c(1,2)] c(3)
      by (auto simp: conversation_key_def new_conversation_def)
  qed
qed

section \<open>Leases\<close>

text \<open>Replacing an unresolved claim by one with the same identity, still unresolved.\<close>

lemma claims_ok_replace_unresolved:
  assumes ok: "claims_ok cs ms ks" and k: "replaces k_SourceMessageID ks k k' ks'"
    and un: "claim_unresolved k" "claim_unresolved k'" and shape: "authority_shape k'"
    and same: "k_SourceMessageID k' = k_SourceMessageID k" "k_ConversationID k' = k_ConversationID k"
    and ctx: "\<And>m. m \<in> set ms \<Longrightarrow> source_of k m \<Longrightarrow> k_ContextEndSeq k' = Some e \<Longrightarrow> e = msg_MessageSeq m"
      "k_ContextEndSeq k' = Some e"
  shows "claims_ok cs ms ks'"
proof -
  have kd: "k \<in> set ks" using k by (simp add: replaces_def)
  have "unique_on k_SourceMessageID (\<lambda>_. True) ks'"
    by (rule replaces_unique [OF k]) (use ok same in \<open>simp_all add: claims_ok_def\<close>)
  moreover have "unique_on k_ConversationID claim_unresolved ks'"
    by (rule replaces_unique [OF k]) (use ok same un in \<open>simp_all add: claims_ok_def\<close>)
  moreover have "unique_on k_CommittedReplyMessageID has_reply ks'"
    by (rule replaces_unique [OF k])
      (use ok un in \<open>simp_all add: claims_ok_def has_reply_def claim_unresolved_def\<close>)
  moreover have "claim_linked cs ms k'"
  proof -
    have "claim_linked cs ms k" using ok kd by (simp add: claims_ok_def)
    then obtain m where m: "m \<in> set ms" "source_of k m"
      "\<exists>c \<in> set cs. cn_ConversationID c = k_ConversationID k \<and> cn_MessageHeadSeq c = msg_MessageSeq m"
      using un(1) unfolding claim_linked_def by blast
    from ctx(1) [OF m(1,2) ctx(2)] have "e = msg_MessageSeq m" .
    then have "source_of k' m" using m(2) same ctx(2) by (simp add: source_of_def)
    with m same un(2) show ?thesis
      unfolding claim_linked_def by (auto simp: has_reply_def claim_unresolved_def intro!: bexI [of _ m])
  qed
  then have "\<forall>x \<in> set ks'. authority_shape x \<and> claim_linked cs ms x"
    using shape ok by (intro replaces_ball [OF k]) (simp_all add: claims_ok_def)
  moreover have "\<exists>x \<in> set ks'. claim_for m x" if "m \<in> set ms" for m
  proof -
    have "\<exists>x \<in> set ks. claim_for m x" using ok that by (simp add: claims_ok_def)
    then show ?thesis
      by (rule replaces_bex [OF k]) (use same un in \<open>simp add: claim_for_def claim_unresolved_def split: if_splits\<close>)
  qed
  ultimately show ?thesis by (simp add: claims_ok_def)
qed


lemma unresolved_shape:
  assumes "authority_shape k" "claim_unresolved k"
  shows "k_SourceMessageAuthor k = AuthorMember" "0 \<le> k_CurrentFence k" "k_OutputDigest k = None"
    "k_CommittedReplyAuthor k = None" "k_CreatedWorkID k = None" "k_CommittedReplyMessageID k = None"
    "k_CurrentMachineID k \<noteq> None \<Longrightarrow> 0 < k_CurrentFence k"
    "k_ContextStartSeq k = Some s \<Longrightarrow> k_ContextEndSeq k = Some e \<Longrightarrow> 0 < s \<and> s \<le> e"
  using assms by (auto simp: authority_shape_def claim_unresolved_def split: option.splits)

lemma claim_joined_Some:
  "claim_joined d s k = Some (c, m) \<Longrightarrow> conversation_of (k_ConversationID k) d = Some c
    \<and> message_of (k_SourceMessageID k) d = Some m \<and> cn_SpaceID c = s \<and> is_member s (cn_MemberUserID c) d"
  by (auto simp: claim_joined_def split: option.splits if_splits)

lemma message_of_Some: "message_of i d = Some m \<Longrightarrow> m \<in> set (conversation_messages d) \<and> msg_MessageID m = i"
  by (auto simp: message_of_def dest: first_where_Some)

text \<open>The joined source message of a claim is the one the invariant speaks of.\<close>

lemma source_unique:
  assumes "conversation_ok d" "m \<in> set (conversation_messages d)" "m' \<in> set (conversation_messages d)"
    "msg_MessageID m = msg_MessageID m'"
  shows "m = m'"
  using unique_onD [of msg_MessageID "\<lambda>_. True" "conversation_messages d" m m'] assms
  by (simp add: conversation_ok_def message_rows_ok_def)

lemma claim_source:
  assumes "conversation_ok d" "k \<in> set (conversation_reply_claims d)" "message_of (k_SourceMessageID k) d = Some m"
  shows "source_of k m" "claim_unresolved k \<Longrightarrow> \<exists>c \<in> set (conversations d).
    cn_ConversationID c = k_ConversationID k \<and> cn_MessageHeadSeq c = msg_MessageSeq m"
    "has_reply k \<Longrightarrow> \<exists>r \<in> set (conversation_messages d). reply_of k m r"
proof -
  have "claim_linked (conversations d) (conversation_messages d) k"
    using assms(1,2) by (simp add: conversation_ok_def claims_ok_def)
  then obtain m' where m': "m' \<in> set (conversation_messages d)" "source_of k m'"
    "claim_unresolved k \<longrightarrow> (\<exists>c \<in> set (conversations d). cn_ConversationID c = k_ConversationID k \<and> cn_MessageHeadSeq c = msg_MessageSeq m')"
    "has_reply k \<longrightarrow> (\<exists>r \<in> set (conversation_messages d). reply_of k m' r)"
    unfolding claim_linked_def by blast
  have "m' = m"
    by (rule source_unique [OF assms(1)]) (use m' message_of_Some [OF assms(3)] in \<open>auto simp: source_of_def\<close>)
  with m' show "source_of k m" "claim_unresolved k \<Longrightarrow> \<exists>c \<in> set (conversations d).
    cn_ConversationID c = k_ConversationID k \<and> cn_MessageHeadSeq c = msg_MessageSeq m"
    "has_reply k \<Longrightarrow> \<exists>r \<in> set (conversation_messages d). reply_of k m r" by auto
qed

lemma sql_LockConversationReplyForClaim_Some:
  assumes "sql_LockConversationReplyForClaim E s now d = Some (k, q)"
  obtains c m where "k \<in> set (conversation_reply_claims d)" "claimable_reply E s now d k"
    "claim_joined d s k = Some (c, m)" "q = msg_MessageSeq m"
proof -
  from assms obtain k' c m where
    f: "first_row (order_by (source_order d s) (filter (claimable_reply E s now d) (conversation_reply_claims d))) = Some k'"
    and j: "claim_joined d s k' = Some (c, m)" "k = k'" "q = msg_MessageSeq m"
    by (auto simp: sql_LockConversationReplyForClaim_def split: option.splits)
  from first_row_in [OF f] have "k' \<in> set (conversation_reply_claims d)" "claimable_reply E s now d k'" by auto
  with j show thesis by (intro that) auto
qed

lemma fixedReplyContextRange_effect:
  assumes "fixedReplyContextRange (k, q) E d n = Inr ((s, e), d', n')"
  shows "d' = d \<and> e = q \<and>
    ((k_ContextStartSeq k = Some s \<and> k_ContextEndSeq k = Some q)
     \<or> (k_ContextStartSeq k = None \<and> k_ContextEndSeq k = None
        \<and> (\<exists>fixed. FixedContextSuffix (map contextFromRow (sql_ListConversationContextCandidates (k_ConversationID k) q d)) = Inr fixed
            \<and> s = msg_MessageSeq (sql_ListConversationContextCandidates (k_ConversationID k) q d
                ! (length (sql_ListConversationContextCandidates (k_ConversationID k) q d) - length fixed)))))"
  using assms
  by (auto simp: fixedReplyContextRange_def tx_simps split: option.split_asm)

definition assigned_claim :: "uuid \<Rightarrow> int \<Rightarrow> int \<Rightarrow> timestamp \<Rightarrow> reply_claim_row \<Rightarrow> reply_claim_row" where
  "assigned_claim m s e now k = k\<lparr>k_CurrentMachineID := Some m, k_CurrentFence := k_CurrentFence k + 1,
     k_LeaseExpiresAt := Some (now + minutes 5), k_ContextStartSeq := Some s, k_ContextEndSeq := Some e\<rparr>"

lemma sql_AssignConversationReply_Some:
  assumes "sql_AssignConversationReply m s e (k_SourceMessageID k) (k_CurrentFence k) now d = (Some (f, lease), d')"
    and "unique_on k_SourceMessageID (\<lambda>_. True) (conversation_reply_claims d)" "k \<in> set (conversation_reply_claims d)"
  shows "f = k_CurrentFence k + 1 \<and> lease = now + minutes 5 \<and> claim_unresolved k \<and> claim_expired now k
    \<and> replaces k_SourceMessageID (conversation_reply_claims d) k (assigned_claim m s e now k) (conversation_reply_claims d')
    \<and> d' = d\<lparr>conversation_reply_claims := conversation_reply_claims d'\<rparr>"
proof -
  let ?P = "\<lambda>x. k_SourceMessageID x = k_SourceMessageID k \<and> k_CurrentFence x = k_CurrentFence k
      \<and> claim_unresolved x \<and> claim_expired now x"
  from assms(1) obtain y where y: "first_where ?P (conversation_reply_claims d) = Some y"
    "f = k_CurrentFence y + 1" "lease = now + minutes 5"
    and d': "d' = d\<lparr>conversation_reply_claims := update_where ?P (assigned_claim m s e now) (conversation_reply_claims d)\<rparr>"
    by (auto simp: sql_AssignConversationReply_def Let_def assigned_claim_def [abs_def])
  have yd: "y \<in> set (conversation_reply_claims d)" "?P y" using first_where_Some [OF y(1)] by auto
  then have "y = k" using unique_onD [OF assms(2) yd(1) assms(3)] by simp
  moreover have "replaces k_SourceMessageID (conversation_reply_claims d) y (assigned_claim m s e now y)
      (update_where ?P (assigned_claim m s e now) (conversation_reply_claims d))"
    using yd by (intro replaces_update_where [OF assms(2)]) (auto simp: assigned_claim_def)
  ultimately show ?thesis using y yd d' by auto
qed

text \<open>The start of the granted context: the one fixed before, or the cut of the candidates.\<close>

definition granted_range :: "db \<Rightarrow> reply_claim_row \<Rightarrow> message_row \<Rightarrow> int \<Rightarrow> bool" where
  "granted_range d k m s \<longleftrightarrow>
     (k_ContextStartSeq k = Some s \<and> k_ContextEndSeq k = Some (msg_MessageSeq m))
     \<or> (k_ContextStartSeq k = None \<and> k_ContextEndSeq k = None
        \<and> (let rows = sql_ListConversationContextCandidates (k_ConversationID k) (msg_MessageSeq m) d
           in \<exists>fixed. FixedContextSuffix (map contextFromRow rows) = Inr fixed
                \<and> s = msg_MessageSeq (rows ! (length rows - length fixed))))"

text \<open>A granted reply: the claim, its source and the context it is granted with.\<close>

lemma ClaimConversationReply_tx_effect:
  assumes "ClaimConversationReply_tx machineID E d n = Inr (v, d', n')" "conversation_ok d"
  shows "\<exists>mach k c m s. machine_of machineID d = Some mach \<and> m_RevokedAt mach = None
    \<and> k \<in> set (conversation_reply_claims d) \<and> claim_unresolved k
    \<and> claim_joined d (m_SpaceID mach) k = Some (c, m)
    \<and> granted_range d k m s
    \<and> (\<exists>now. claim_expired now k \<and> rp_LeaseExpiresAt v = now + minutes 5
        \<and> replaces k_SourceMessageID (conversation_reply_claims d) k
          (assigned_claim machineID s (msg_MessageSeq m) now k) (conversation_reply_claims d'))
    \<and> d' = d\<lparr>conversation_reply_claims := conversation_reply_claims d'\<rparr>
    \<and> rp_SourceMessageID v = k_SourceMessageID k \<and> rp_Fence v = k_CurrentFence k + 1
    \<and> rp_Messages v = map contextFromRow (sql_ListFixedConversationReplyContext (k_ConversationID k) s (msg_MessageSeq m) d)
    \<and> FixedContextSuffix (rp_Messages v) = Inr (rp_Messages v)"
proof -
  from assms(1) obtain mach k q s e now1 now2 f lease n1 n2 d1 n3 where
    mach: "machine_of machineID d = Some mach" "m_RevokedAt mach = None"
    and k: "sql_LockConversationReplyForClaim E (m_SpaceID mach) now1 d = Some (k, q)"
    and range: "fixedReplyContextRange (k, q) E d n1 = Inr ((s, e), d1, n2)"
    and assign: "sql_AssignConversationReply machineID s e (k_SourceMessageID k) (k_CurrentFence k) now2 d1 = (Some (f, lease), d')"
    and load: "loadFixedReplyContext (k_ConversationID k) s e E d' n3 = Inr (rp_Messages v, d', n')"
    and v: "rp_SourceMessageID v = k_SourceMessageID k" "rp_Fence v = f" "rp_LeaseExpiresAt v = lease"
    by (auto simp: ClaimConversationReply_tx_def tx_simps loadFixedReplyContext_def Let_def)
  from k obtain c m where kd: "k \<in> set (conversation_reply_claims d)"
    and j: "claim_joined d (m_SpaceID mach) k = Some (c, m)" "q = msg_MessageSeq m"
    by (rule sql_LockConversationReplyForClaim_Some)
  note rng = fixedReplyContextRange_effect [OF range]
  then have d1: "d1 = d" and e: "e = q" by auto
  have u: "unique_on k_SourceMessageID (\<lambda>_. True) (conversation_reply_claims d)"
    using assms(2) by (simp add: conversation_ok_def claims_ok_def)
  from sql_AssignConversationReply_Some [OF assign [unfolded d1] u kd]
  have f: "f = k_CurrentFence k + 1" "lease = now2 + minutes 5" "claim_unresolved k" "claim_expired now2 k"
    "replaces k_SourceMessageID (conversation_reply_claims d) k (assigned_claim machineID s e now2 k) (conversation_reply_claims d')"
    and d': "d' = d\<lparr>conversation_reply_claims := conversation_reply_claims d'\<rparr>" by auto
  have msgs: "conversation_messages d' = conversation_messages d" by (subst d') simp
  then have list: "sql_ListFixedConversationReplyContext i s e d' = sql_ListFixedConversationReplyContext i s e d" for i
    by (simp add: sql_ListFixedConversationReplyContext_def)
  have "\<exists>fixed. FixedContextSuffix (rp_Messages v) = Inr fixed \<and> length fixed = length (rp_Messages v)"
    and messages: "rp_Messages v = map contextFromRow (sql_ListFixedConversationReplyContext (k_ConversationID k) s e d)"
    using load by (auto simp: loadFixedReplyContext_def Let_def tx_simps list)
  then obtain fixed where fixed: "FixedContextSuffix (rp_Messages v) = Inr fixed" "length fixed = length (rp_Messages v)" by blast
  then obtain t where "fixed = drop t (rp_Messages v)" "t < length (rp_Messages v)"
    using FixedContextSuffix_Inr by blast
  then have "fixed = rp_Messages v" using fixed(2) by (cases "t = 0") auto
  with fixed have "FixedContextSuffix (rp_Messages v) = Inr (rp_Messages v)" by simp
  then show ?thesis
    using mach kd j rng f d' v messages e
    by (intro exI [of _ mach] exI [of _ k] exI [of _ c] exI [of _ m] exI [of _ s]) (auto simp: granted_range_def Let_def)
qed


lemma candidates_seqs:
  assumes "conversation_ok d" "x \<in> set (sql_ListConversationContextCandidates i q d)"
  shows "1 \<le> msg_MessageSeq x \<and> msg_MessageSeq x \<le> q"
proof -
  have "x \<in> set (conversation_messages d)" "msg_MessageSeq x \<le> q"
    using assms(2) by (auto simp: sql_ListConversationContextCandidates_def dest: in_set_takeD)
  with assms(1) show ?thesis by (simp add: conversation_ok_def message_rows_ok_def message_text_ok_def)
qed

lemma ClaimConversationReply_keeps: "keeps conversation_ok (ClaimConversationReply machineID)"
  unfolding ClaimConversationReply_def [abs_def]
proof (rule keeps_env, intro keeps_checked keeps_transact)
  show "preserves conversation_ok (ClaimConversationReply_tx machineID)"
    unfolding preserves_def
  proof (intro allI impI)
    fix E d n v d' n'
    assume run: "ClaimConversationReply_tx machineID E d n = Inr (v, d', n')" and ok: "conversation_ok d"
    from ClaimConversationReply_tx_effect [OF run ok] obtain mach k c m s now where
      "machine_of machineID d = Some mach" and k: "k \<in> set (conversation_reply_claims d)" "claim_unresolved k" "claim_joined d (m_SpaceID mach) k = Some (c, m)"
      and granted: "granted_range d k m s"
      and rep: "replaces k_SourceMessageID (conversation_reply_claims d) k
          (assigned_claim machineID s (msg_MessageSeq m) now k) (conversation_reply_claims d')"
      and d': "d' = d\<lparr>conversation_reply_claims := conversation_reply_claims d'\<rparr>"
      by blast
    note parts = ok [unfolded conversation_ok_def]
    have shape: "authority_shape k" using parts k(1) by (simp add: claims_ok_def)
    note un = unresolved_shape [OF shape k(2)]
    have range: "0 < s \<and> s \<le> msg_MessageSeq m"
    proof (cases "k_ContextStartSeq k")
      case (Some t)
      then show ?thesis using granted un(8) by (auto simp: granted_range_def)
    next
      case None
      let ?rows = "sql_ListConversationContextCandidates (k_ConversationID k) (msg_MessageSeq m) d"
      from None granted obtain fixed where f: "FixedContextSuffix (map contextFromRow ?rows) = Inr fixed"
        "s = msg_MessageSeq (?rows ! (length ?rows - length fixed))" by (auto simp: granted_range_def Let_def)
      from FixedContextSuffix_Inr [OF f(1)] obtain t where t: "fixed = drop t (map contextFromRow ?rows)" "t < length ?rows" by auto
      then have "length ?rows - length fixed < length ?rows" by auto
      then show ?thesis using candidates_seqs [OF ok nth_mem] f(2) by fastforce
    qed
    let ?k = "assigned_claim machineID s (msg_MessageSeq m) now k"
    have "authority_shape ?k"
      using un range by (auto simp: authority_shape_def assigned_claim_def split: option.split)
    moreover have "message_of (k_SourceMessageID k) d = Some m" using claim_joined_Some [OF k(3)] by simp
    then have "source_of k x \<Longrightarrow> x \<in> set (conversation_messages d) \<Longrightarrow> msg_MessageSeq m = msg_MessageSeq x" for x
      using source_unique [OF ok, of x m] message_of_Some by (metis source_of_def)
    ultimately have "claims_ok (conversations d) (conversation_messages d) (conversation_reply_claims d')"
      using parts k(2)
      by (intro claims_ok_replace_unresolved [OF _ rep, where e = "msg_MessageSeq m"])
        (auto simp: assigned_claim_def claim_unresolved_def)
    moreover have "conversations d' = conversations d" "conversation_messages d' = conversation_messages d"
      by (subst d', simp)+
    ultimately show "conversation_ok d'" using parts by (simp add: conversation_ok_def)
  qed
qed

lemma RenewConversationReply_tx_effect:
  assumes "RenewConversationReply_tx command E d n = Inr (lease, d', n')" "conversation_ok d"
  shows "\<exists>mach k now. machine_of (rn_MachineID command) d = Some mach \<and> m_RevokedAt mach = None
    \<and> k \<in> set (conversation_reply_claims d)
    \<and> claim_held (rn_MachineID command) (rn_SourceMessageID command) (rn_Fence command) now k
    \<and> lease = now + minutes 5
    \<and> replaces k_SourceMessageID (conversation_reply_claims d) k (k\<lparr>k_LeaseExpiresAt := Some lease\<rparr>) (conversation_reply_claims d')
    \<and> d' = d\<lparr>conversation_reply_claims := conversation_reply_claims d'\<rparr>"
proof -
  from assms(1) obtain mach now where mach: "machine_of (rn_MachineID command) d = Some mach" "m_RevokedAt mach = None"
    and e: "sql_ExtendConversationReplyLease (rn_SourceMessageID command) (rn_MachineID command) (rn_Fence command) now d
        = (Some lease, d')"
    by (auto simp: RenewConversationReply_tx_def tx_simps)
  let ?P = "claim_held (rn_MachineID command) (rn_SourceMessageID command) (rn_Fence command) now"
  let ?f = "\<lambda>k. k\<lparr>k_LeaseExpiresAt := Some (now + minutes 5)\<rparr>"
  from e obtain k where k: "first_where ?P (conversation_reply_claims d) = Some k" "lease = now + minutes 5"
    and d': "d' = d\<lparr>conversation_reply_claims := update_where ?P ?f (conversation_reply_claims d)\<rparr>"
    by (auto simp: sql_ExtendConversationReplyLease_def Let_def)
  have kd: "k \<in> set (conversation_reply_claims d)" "?P k" using first_where_Some [OF k(1)] by auto
  have u: "unique_on k_SourceMessageID (\<lambda>_. True) (conversation_reply_claims d)"
    using assms(2) by (simp add: conversation_ok_def claims_ok_def)
  have "replaces k_SourceMessageID (conversation_reply_claims d) k (?f k) (update_where ?P ?f (conversation_reply_claims d))"
    using kd by (intro replaces_update_where [OF u]) (auto simp: claim_held_def)
  then show ?thesis using mach k kd d' by (intro exI [of _ mach] exI [of _ k] exI [of _ now]) auto
qed

lemma RenewConversationReply_keeps: "keeps conversation_ok (RenewConversationReply command)"
  unfolding RenewConversationReply_def [abs_def]
proof (rule keeps_env, intro keeps_checked keeps_transact)
  show "preserves conversation_ok (RenewConversationReply_tx command)"
    unfolding preserves_def
  proof (intro allI impI)
    fix E d n lease d' n'
    assume run: "RenewConversationReply_tx command E d n = Inr (lease, d', n')" and ok: "conversation_ok d"
    from RenewConversationReply_tx_effect [OF run ok] obtain k now where
      k: "k \<in> set (conversation_reply_claims d)"
      "claim_held (rn_MachineID command) (rn_SourceMessageID command) (rn_Fence command) now k"
      and rep: "replaces k_SourceMessageID (conversation_reply_claims d) k (k\<lparr>k_LeaseExpiresAt := Some lease\<rparr>) (conversation_reply_claims d')"
      and d': "d' = d\<lparr>conversation_reply_claims := conversation_reply_claims d'\<rparr>" by blast
    note parts = ok [unfolded conversation_ok_def]
    have shape: "authority_shape k" using parts k(1) by (simp add: claims_ok_def)
    have un: "claim_unresolved k" "k_CurrentMachineID k = Some (rn_MachineID command)" using k(2) by (auto simp: claim_held_def)
    then obtain s e where ctx: "k_ContextEndSeq k = Some e" using shape by (auto simp: authority_shape_def)
    have "authority_shape (k\<lparr>k_LeaseExpiresAt := Some lease\<rparr>)"
      using shape un by (auto simp: authority_shape_def claim_unresolved_def)
    then have "claims_ok (conversations d) (conversation_messages d) (conversation_reply_claims d')"
      using parts un ctx
      by (intro claims_ok_replace_unresolved [OF _ rep, where e = e])
        (auto simp: claim_unresolved_def source_of_def)
    moreover have "conversations d' = conversations d" "conversation_messages d' = conversation_messages d"
      by (subst d', simp)+
    ultimately show "conversation_ok d'" using parts by (simp add: conversation_ok_def)
  qed
qed

section \<open>Committing a reply\<close>

definition completed_claim :: "bytes \<Rightarrow> uuid \<Rightarrow> uuid option \<Rightarrow> reply_claim_row \<Rightarrow> reply_claim_row" where
  "completed_claim digest replyID createdWork k = k\<lparr>k_OutputDigest := Some digest,
     k_CommittedReplyMessageID := Some replyID, k_CommittedReplyAuthor := Some AuthorCarry,
     k_CreatedWorkID := createdWork\<rparr>"

definition carry_message :: "env \<Rightarrow> uuid \<Rightarrow> conversation_row \<Rightarrow> string \<Rightarrow> message_row" where
  "carry_message E source c reply = \<lparr>msg_MessageID = fresh E 2, msg_ConversationID = cn_ConversationID c,
     msg_MessageSeq = cn_MessageHeadSeq c + 1, msg_Author = AuthorCarry, msg_AuthorUserID = None,
     msg_Text = reply, msg_MemberRequestID = None, msg_RequestDigest = None,
     msg_ReplyToMemberMessageID = Some source, msg_CreatedAt = tx_time E\<rparr>"

lemma claims_ok_complete:
  assumes ok: "claims_ok cs ms ks" and ms: "message_rows_ok cs ms"
    and k: "replaces k_SourceMessageID ks k (completed_claim digest (msg_MessageID m) w k) ks'"
    and un: "claim_unresolved k" "k_CurrentMachineID k \<noteq> None" "length digest = 32"
    and c: "replaces cn_ConversationID cs c (c\<lparr>cn_MessageHeadSeq := cn_MessageHeadSeq c + 1\<rparr>) cs'"
      "cn_ConversationID c = k_ConversationID k"
    and src: "src \<in> set ms" "source_of k src" "cn_MessageHeadSeq c = msg_MessageSeq src"
    and m: "msg_Author m = AuthorCarry" "message_position m = (cn_ConversationID c, cn_MessageHeadSeq c + 1)"
      "msg_ReplyToMemberMessageID m = Some (k_SourceMessageID k)"
      "\<not> key_taken msg_MessageID (\<lambda>_. True) (msg_MessageID m) ms"
  shows "claims_ok cs' (ms @ [m]) ks'"
proof -
  let ?k = "completed_claim digest (msg_MessageID m) w k"
  have kd: "k \<in> set ks" using k by (simp add: replaces_def)
  have "unique_on k_SourceMessageID (\<lambda>_. True) ks'"
    by (rule replaces_unique [OF k]) (use ok in \<open>simp_all add: claims_ok_def completed_claim_def\<close>)
  moreover have "unique_on k_ConversationID claim_unresolved ks'"
    by (rule replaces_unique [OF k])
      (use ok in \<open>simp_all add: claims_ok_def completed_claim_def claim_unresolved_def\<close>)
  moreover have "\<not> key_taken k_CommittedReplyMessageID has_reply (Some (msg_MessageID m)) ks"
  proof
    assume "key_taken k_CommittedReplyMessageID has_reply (Some (msg_MessageID m)) ks"
    then obtain x where x: "x \<in> set ks" "has_reply x" "k_CommittedReplyMessageID x = Some (msg_MessageID m)"
      by (auto simp: key_taken_iff)
    then have "claim_linked cs ms x" using ok by (simp add: claims_ok_def)
    then obtain y r where "r \<in> set ms" "reply_of x y r" using x(2) by (auto simp: claim_linked_def)
    then show False using x(3) m(4) by (auto simp: reply_of_def key_taken_iff)
  qed
  then have "unique_on k_CommittedReplyMessageID has_reply ks'"
    using ok by (intro replaces_unique_new [OF k]) (simp_all add: claims_ok_def completed_claim_def)
  moreover have "authority_shape ?k"
    using ok kd un by (auto simp: claims_ok_def authority_shape_def completed_claim_def claim_unresolved_def split: option.splits)
  moreover have "claim_linked cs' (ms @ [m]) ?k"
    unfolding claim_linked_def
  proof (rule bexI [of _ src], intro conjI impI)
    show "src \<in> set (ms @ [m])" using src(1) by simp
    show "source_of ?k src" using src(2) by (simp add: source_of_def completed_claim_def)
    have "reply_of ?k src m"
      using m src(2,3) c(2) by (auto simp: reply_of_def completed_claim_def source_of_def message_position_def)
    then show "\<exists>r \<in> set (ms @ [m]). reply_of ?k src r" by simp
  qed (simp add: claim_unresolved_def completed_claim_def)
  moreover have "authority_shape x \<and> claim_linked cs' (ms @ [m]) x" if x: "x \<in> set ks'" "x \<noteq> ?k" for x
  proof -
    have x': "x \<in> set ks" "x \<noteq> k" using x by (auto simp: replaces_set [OF k])
    have l: "authority_shape x" "claim_linked cs ms x" using ok x' by (simp_all add: claims_ok_def)
    have "claim_linked cs' (ms @ [m]) x"
    proof (cases "k_ConversationID x = cn_ConversationID c")
      case True
      have "\<not> claim_unresolved x"
      proof
        assume "claim_unresolved x"
        then have "x = k" using unique_onD [of k_ConversationID claim_unresolved ks x k] ok x'(1) kd un(1) True c(2)
          by (simp add: claims_ok_def)
        with x'(2) show False ..
      qed
      then show ?thesis by (rule claim_linked_append [OF l(2)])
    next
      case False
      then show ?thesis by (rule claim_linked_append_other [OF l(2) _ c(1)])
    qed
    with l show ?thesis by simp
  qed
  moreover have "\<exists>x \<in> set ks'. claim_for y x" if y: "y \<in> set (ms @ [m])" for y
  proof (cases "y = m")
    case True
    then have "claim_for y ?k" using m(1) by (simp add: claim_for_def completed_claim_def)
    then show ?thesis by (auto simp: replaces_set [OF k])
  next
    case False
    then have "\<exists>x \<in> set ks. claim_for y x" using ok y by (simp add: claims_ok_def)
    then show ?thesis
      by (rule replaces_bex [OF k])
        (use un(1) in \<open>simp add: claim_for_def completed_claim_def claim_unresolved_def split: if_splits\<close>)
  qed
  ultimately show ?thesis unfolding claims_ok_def by blast
qed


text \<open>The delegated Work, when the candidate names a goal.\<close>

definition delegated_work :: "env \<Rightarrow> conversation_row \<Rightarrow> string \<Rightarrow> work_row" where
  "delegated_work E c goal = new_work E (fresh E 0) (cn_SpaceID c) goal (cn_MemberUserID c) (cn_MemberUserID c)
     (fresh E 1) (CreateDigest (cn_SpaceID c) (cn_MemberUserID c) goal)"

definition adds_delegated :: "env \<Rightarrow> conversation_row \<Rightarrow> string option \<Rightarrow> db \<Rightarrow> work_row list \<Rightarrow> string \<Rightarrow> bool" where
  "adds_delegated E c goal d ws i \<longleftrightarrow>
     (case goal of None \<Rightarrow> ws = works d \<and> i = []
      | Some g \<Rightarrow> ws = works d @ [delegated_work E c g] \<and> i = fresh E 0
          \<and> \<not> key_taken w_WorkID (\<lambda>_. True) (fresh E 0) (works d)
          \<and> \<not> key_taken create_key (\<lambda>_. True) (create_key (delegated_work E c g)) (works d))"

lemma createDelegatedWork_effect:
  assumes "createDelegatedWork (cn_SpaceID c) (cn_MemberUserID c) goal E d n = Inr (i, d', n')"
  shows "adds_delegated E c (Some goal) d (works d') i \<and> d' = d\<lparr>works := works d'\<rparr>"
proof -
  from assms obtain w o' x where
    e: "sql_CreateWork (delegated_work E c goal) d = Inr (Some (w, o', x), d')" and i: "i = fresh E 0"
    by (auto simp: createDelegatedWork_def delegated_work_def tx_simps)
  show ?thesis using e i
    by (elim sql_CreateWork_cases) (auto simp: adds_delegated_def delegated_work_def)
qed

definition reply_written ::
    "commit_reply_command \<Rightarrow> reply_candidate \<Rightarrow> bytes \<Rightarrow> env \<Rightarrow> db \<Rightarrow> db \<Rightarrow> conversation_row \<Rightarrow> reply_claim_row \<Rightarrow> string \<Rightarrow> timestamp \<Rightarrow> bool" where
  "reply_written command candidate digest E d d' c k i now \<longleftrightarrow>
     (let m = carry_message E (cm_SourceMessageID command) c (ca_Reply candidate) in
      adds_delegated E c (ca_DelegationGoal candidate) d (works d') i
      \<and> k \<in> set (conversation_reply_claims d)
      \<and> claim_held (cm_MachineID command) (cm_SourceMessageID command) (cm_Fence command) now k
      \<and> replaces cn_ConversationID (conversations d) c (c\<lparr>cn_MessageHeadSeq := cn_MessageHeadSeq c + 1\<rparr>) (conversations d')
      \<and> insert_message m (d\<lparr>works := works d', conversations := conversations d'\<rparr>) = Inr (m,
          d\<lparr>works := works d', conversations := conversations d', conversation_messages := conversation_messages d @ [m]\<rparr>)
      \<and> replaces k_SourceMessageID (conversation_reply_claims d) k
          (completed_claim digest (fresh E 2) (if i = [] then None else Some i) k) (conversation_reply_claims d')
      \<and> d' = d\<lparr>works := works d', conversations := conversations d',
            conversation_messages := conversation_messages d @ [m],
            conversation_reply_claims := conversation_reply_claims d'\<rparr>)"

lemma sql_CompleteConversationReply_one:
  assumes "sql_CompleteConversationReply digest i w s m f now d = (1, d')"
    and u: "unique_on k_SourceMessageID (\<lambda>_. True) (conversation_reply_claims d)"
  obtains k where "k \<in> set (conversation_reply_claims d)" "claim_held m s f now k"
    "replaces k_SourceMessageID (conversation_reply_claims d) k (completed_claim digest i w k) (conversation_reply_claims d')"
    "d' = d\<lparr>conversation_reply_claims := conversation_reply_claims d'\<rparr>"
proof -
  let ?P = "claim_held m s f now"
  have d': "d' = d\<lparr>conversation_reply_claims := update_where ?P (completed_claim digest i w) (conversation_reply_claims d)\<rparr>"
    and one: "count_where ?P (conversation_reply_claims d) = 1"
    using assms(1) by (auto simp: sql_CompleteConversationReply_def Let_def completed_claim_def [abs_def])
  from count_where_eq_1_ex [OF one] obtain k where k: "k \<in> set (conversation_reply_claims d)" "?P k" by blast
  have "replaces k_SourceMessageID (conversation_reply_claims d) k (completed_claim digest i w k)
      (update_where ?P (completed_claim digest i w) (conversation_reply_claims d))"
    using k by (intro replaces_update_where [OF u]) (auto simp: claim_held_def completed_claim_def)
  with k d' show thesis by (intro that [of k]) auto
qed

lemma write_reply_effect:
  assumes "write_reply command candidate digest c q E d n = Inr (v, d', n')" "conversation_ok d"
    and c: "c \<in> set (conversations d)" "q = cn_MessageHeadSeq c"
  shows "\<exists>k i now. reply_written command candidate digest E d d' c k i now
    \<and> v = \<lparr>rs_ReplyMessageID = fresh E 2, rs_CreatedWorkID = i\<rparr>"
proof -
  from assms(1) obtain d1 n1 i d2 s d3 row w now where
    del: "(case ca_DelegationGoal candidate of None \<Rightarrow> ret []
        | Some goal \<Rightarrow> createDelegatedWork (cn_SpaceID c) (cn_MemberUserID c) goal) E d n = Inr (i, d1, n1)"
    and head: "sql_AdvanceConversationMessageHead (cn_ConversationID c) d1 = (Some s, d2)"
    and ins: "sql_CreateConversationCarryReply E (fresh E 2) (cn_ConversationID c) s (ca_Reply candidate)
        (cm_SourceMessageID command) d2 = Inr (row, d3)"
    and w: "w = (if i = [] then None else Some i)"
    and comp: "sql_CompleteConversationReply digest (fresh E 2) w (cm_SourceMessageID command) (cm_MachineID command)
        (cm_Fence command) now d3 = (1, d')"
    and v: "v = \<lparr>rs_ReplyMessageID = fresh E 2, rs_CreatedWorkID = i\<rparr>"
    unfolding write_reply_def bind_tx_Inr by (auto simp: tx_simps)
  have d1: "adds_delegated E c (ca_DelegationGoal candidate) d (works d1) i \<and> d1 = d\<lparr>works := works d1\<rparr>"
  proof (cases "ca_DelegationGoal candidate")
    case None
    then show ?thesis using del by (simp add: adds_delegated_def tx_simps)
  next
    case (Some goal)
    with del have "createDelegatedWork (cn_SpaceID c) (cn_MemberUserID c) goal E d n = Inr (i, d1, n1)" by simp
    from createDelegatedWork_effect [OF this] show ?thesis unfolding Some .
  qed
  then have eq1: "d1 = d\<lparr>works := works d1\<rparr>" by simp
  have s1: "conversations d1 = conversations d" "conversation_messages d1 = conversation_messages d"
    "conversation_reply_claims d1 = conversation_reply_claims d"
    by (subst eq1, simp)+
  have rows: "conversation_rows_ok (conversations d1)" using assms(2) by (simp add: s1 conversation_ok_def)
  from sql_AdvanceConversationMessageHead_Some [OF head rows _ refl] c(1)
  have s: "s = cn_MessageHeadSeq c + 1" and eq2: "d2 = d1\<lparr>conversations := conversations d2\<rparr>"
    and rep: "replaces cn_ConversationID (conversations d) c (c\<lparr>cn_MessageHeadSeq := cn_MessageHeadSeq c + 1\<rparr>) (conversations d2)"
    by (auto simp: s1)
  have s2: "works d2 = works d1" "conversation_messages d2 = conversation_messages d"
    "conversation_reply_claims d2 = conversation_reply_claims d"
    by (subst eq2, simp add: s1)+
  let ?m = "carry_message E (cm_SourceMessageID command) c (ca_Reply candidate)"
  have ins': "insert_message ?m d2 = Inr (row, d3)"
    using ins s by (simp add: sql_CreateConversationCarryReply_def carry_message_def)
  then have row: "row = ?m" and eq3: "d3 = d2\<lparr>conversation_messages := conversation_messages d2 @ [?m]\<rparr>"
    by (auto simp: insert_message_def split: if_split_asm)
  have s3: "works d3 = works d1" "conversations d3 = conversations d2"
    "conversation_reply_claims d3 = conversation_reply_claims d"
    by (subst eq3, simp add: s2)+
  have u: "unique_on k_SourceMessageID (\<lambda>_. True) (conversation_reply_claims d3)"
    using assms(2) by (simp add: s3 conversation_ok_def claims_ok_def)
  from comp u obtain k where k: "k \<in> set (conversation_reply_claims d3)"
    "claim_held (cm_MachineID command) (cm_SourceMessageID command) (cm_Fence command) now k"
    "replaces k_SourceMessageID (conversation_reply_claims d3) k (completed_claim digest (fresh E 2) w k) (conversation_reply_claims d')"
    and eq4: "d' = d3\<lparr>conversation_reply_claims := conversation_reply_claims d'\<rparr>"
    by (rule sql_CompleteConversationReply_one)
  have s4: "works d' = works d1" "conversations d' = conversations d2"
    by (subst eq4, simp add: s3)+
  have base: "d2 = d\<lparr>works := works d', conversations := conversations d'\<rparr>"
    by (subst eq2, subst eq1) (simp add: s4)
  have "d' = d\<lparr>works := works d', conversations := conversations d',
            conversation_messages := conversation_messages d @ [?m],
            conversation_reply_claims := conversation_reply_claims d'\<rparr>"
    by (subst eq4) (simp add: eq3 base)
  moreover have "insert_message ?m (d\<lparr>works := works d', conversations := conversations d'\<rparr>) = Inr (?m,
      d\<lparr>works := works d', conversations := conversations d', conversation_messages := conversation_messages d @ [?m]\<rparr>)"
    using ins' row eq3 base by simp
  ultimately have "reply_written command candidate digest E d d' c k i now"
    unfolding reply_written_def Let_def using d1 k w s4 s3 rep by simp
  with v show ?thesis by blast
qed

lemma conversation_ok_reply_written:
  assumes ok: "conversation_ok d" and wr: "reply_written command candidate digest E d d' c k i now"
    and c: "c \<in> set (conversations d)" "cn_ConversationID c = k_ConversationID k"
    and src: "message_of (cm_SourceMessageID command) d = Some src" "cn_MessageHeadSeq c = msg_MessageSeq src"
    and norm: "NormalizeText (ca_Reply candidate) = Inr (ca_Reply candidate)" "length digest = 32"
  shows "conversation_ok d'"
proof -
  let ?m = "carry_message E (cm_SourceMessageID command) c (ca_Reply candidate)"
  note w = wr [unfolded reply_written_def Let_def]
  note parts = ok [unfolded conversation_ok_def]
  have kd: "k \<in> set (conversation_reply_claims d)" and held: "claim_unresolved k"
    "k_CurrentMachineID k \<noteq> None" "k_SourceMessageID k = cm_SourceMessageID command"
    and rep: "replaces cn_ConversationID (conversations d) c (c\<lparr>cn_MessageHeadSeq := cn_MessageHeadSeq c + 1\<rparr>) (conversations d')"
    and ins: "insert_message ?m (d\<lparr>works := works d', conversations := conversations d'\<rparr>) = Inr (?m,
      d\<lparr>works := works d', conversations := conversations d', conversation_messages := conversation_messages d @ [?m]\<rparr>)"
    and comp: "replaces k_SourceMessageID (conversation_reply_claims d) k
          (completed_claim digest (msg_MessageID ?m) (if i = [] then None else Some i) k) (conversation_reply_claims d')"
    using w by (auto simp: claim_held_def carry_message_def)
  have "d' = d\<lparr>works := works d', conversations := conversations d', conversation_messages := conversation_messages d @ [?m],
      conversation_reply_claims := conversation_reply_claims d'\<rparr>" using w by blast
  from arg_cong [OF this, of conversation_messages] have msgs: "conversation_messages d' = conversation_messages d @ [?m]" by simp
  have head: "0 \<le> cn_MessageHeadSeq c" using parts c by (simp add: conversation_rows_ok_def)
  have m: "message_text_ok ?m" "author_shape ?m" "message_position ?m = (cn_ConversationID c, cn_MessageHeadSeq c + 1)"
    "msg_Author ?m = AuthorCarry" "msg_ReplyToMemberMessageID ?m = Some (k_SourceMessageID k)"
    using head norm held(3) by (simp_all add: message_text_ok_def author_shape_def carry_message_def message_position_def)
  have "message_rows_ok (conversations d') (conversation_messages d @ [?m]) \<and> conversation_rows_ok (conversations d')"
    using parts m ins by (intro message_rows_ok_append [OF _ _ rep _ _ _ _ ins]) simp_all
  moreover have "\<not> key_taken msg_MessageID (\<lambda>_. True) (msg_MessageID ?m) (conversation_messages d)"
    using ins by (auto simp: insert_message_def split: if_split_asm)
  then have "claims_ok (conversations d') (conversation_messages d @ [?m]) (conversation_reply_claims d')"
    using parts m held c norm(2) src claim_source(1) [OF ok kd] message_of_Some [OF src(1)]
    by (intro claims_ok_complete [OF _ _ comp _ _ _ rep]) auto
  ultimately show ?thesis by (simp add: conversation_ok_def msgs)
qed


lemma CommitConversationReply_tx_effect:
  assumes "CommitConversationReply_tx command (candidate, digest) E d n = Inr (v, d', n')" "conversation_ok d"
  shows "\<exists>mach k c src. machine_of (cm_MachineID command) d = Some mach \<and> m_RevokedAt mach = None
    \<and> k \<in> set (conversation_reply_claims d) \<and> k_SourceMessageID k = cm_SourceMessageID command
    \<and> claim_joined d (m_SpaceID mach) k = Some (c, src)
    \<and> uuidValue (k_CurrentMachineID k) = cm_MachineID command \<and> k_CurrentFence k = cm_Fence command
    \<and> ((\<exists>i. k_CommittedReplyMessageID k = Some i \<and> textValue (k_OutputDigest k) = digest \<and> d' = d
          \<and> v = \<lparr>rs_ReplyMessageID = i, rs_CreatedWorkID = uuidValue (k_CreatedWorkID k)\<rparr>)
      \<or> (claim_unresolved k \<and> cn_MessageHeadSeq c = msg_MessageSeq src
          \<and> (\<exists>i now. reply_written command candidate digest E d d' c k i now
               \<and> v = \<lparr>rs_ReplyMessageID = fresh E 2, rs_CreatedWorkID = i\<rparr>)))"
proof -
  from assms(1) obtain mach k c src n1 where
    mach: "machine_of (cm_MachineID command) d = Some mach" "m_RevokedAt mach = None"
    and l: "sql_LockConversationReplyForCommit (cm_SourceMessageID command) (m_SpaceID mach) d = Some (k, c, src)"
    and auth: "uuidValue (k_CurrentMachineID k) = cm_MachineID command" "k_CurrentFence k = cm_Fence command"
    and rest: "(\<exists>i. k_CommittedReplyMessageID k = Some i \<and> textValue (k_OutputDigest k) = digest \<and> d' = d
          \<and> v = \<lparr>rs_ReplyMessageID = i, rs_CreatedWorkID = uuidValue (k_CreatedWorkID k)\<rparr>)
      \<or> (k_CommittedReplyMessageID k = None \<and> cn_MessageHeadSeq c = msg_MessageSeq src
          \<and> write_reply command candidate digest c (msg_MessageSeq src) E d n1 = Inr (v, d', n'))"
    by (auto simp: CommitConversationReply_tx_def tx_simps)
  have k: "k \<in> set (conversation_reply_claims d)" "k_SourceMessageID k = cm_SourceMessageID command"
    "claim_joined d (m_SpaceID mach) k = Some (c, src)"
    using l by (auto simp: sql_LockConversationReplyForCommit_def split: option.splits dest!: first_where_Some)
  have cd: "c \<in> set (conversations d)" using claim_joined_Some [OF k(3)] conversation_of_Some by blast
  show ?thesis
  proof (cases "k_CommittedReplyMessageID k")
    case (Some i)
    then show ?thesis using mach k auth rest by (intro exI [of _ mach] exI [of _ k] exI [of _ c] exI [of _ src]) auto
  next
    case None
    then have w: "write_reply command candidate digest c (msg_MessageSeq src) E d n1 = Inr (v, d', n')"
      and h: "cn_MessageHeadSeq c = msg_MessageSeq src" using rest by auto
    from write_reply_effect [OF w assms(2) cd] h obtain k' i now where
      r: "reply_written command candidate digest E d d' c k' i now" "v = \<lparr>rs_ReplyMessageID = fresh E 2, rs_CreatedWorkID = i\<rparr>"
      by auto
    have "k' \<in> set (conversation_reply_claims d)" "k_SourceMessageID k' = cm_SourceMessageID command"
      using r(1) by (auto simp: reply_written_def Let_def claim_held_def)
    then have "k' = k" using unique_onD [of k_SourceMessageID "\<lambda>_. True" "conversation_reply_claims d" k' k] k assms(2)
      by (simp add: conversation_ok_def claims_ok_def)
    then show ?thesis using mach k auth None h r
      by (intro exI [of _ mach] exI [of _ k] exI [of _ c] exI [of _ src]) (auto simp: claim_unresolved_def)
  qed
qed

definition core_ok :: "db \<Rightarrow> bool" where
  "core_ok d \<longleftrightarrow> execution_ok d \<and> conversation_ok d"

lemma NormalizeReplyCandidate_Inr:
  assumes "NormalizeReplyCandidate src c0 = Inr (c, digest)"
  shows "NormalizeText (ca_Reply c) = Inr (ca_Reply c)" "length digest = 32"
    "\<And>g. ca_DelegationGoal c = Some g \<Longrightarrow> NormalizeGoal g = Inr g"
  using assms
  by (auto simp: NormalizeReplyCandidate_def NormalizeText_Inr NormalizeGoal_Inr digestFields_def
      split: sum.splits option.splits)

lemma execution_ok_delegated:
  assumes "execution_ok d" "adds_delegated E c goal d ws i" "\<And>g. goal = Some g \<Longrightarrow> NormalizeGoal g = Inr g"
  shows "execution_ok (d\<lparr>works := ws\<rparr>)"
proof (cases goal)
  case None
  then show ?thesis using assms by (simp add: adds_delegated_def)
next
  case (Some g)
  then show ?thesis
    using assms execution_ok_add_work [OF assms(1) assms(3) [OF Some]]
    by (simp add: adds_delegated_def delegated_work_def)
qed

lemma CommitConversationReply_keeps: "keeps core_ok (CommitConversationReply command)"
  unfolding CommitConversationReply_def [abs_def]
proof (rule keeps_env, intro keeps_checked keeps_transact)
  fix cand
  assume norm: "NormalizeReplyCandidate (cm_SourceMessageID command) (cm_Candidate command) = Inr cand"
  obtain candidate digest where cand: "cand = (candidate, digest)" by (cases cand)
  note nrm = NormalizeReplyCandidate_Inr [OF norm [unfolded cand]]
  show "preserves core_ok (CommitConversationReply_tx command cand)"
    unfolding preserves_def cand
  proof (intro allI impI)
    fix E d n v d' n'
    assume run: "CommitConversationReply_tx command (candidate, digest) E d n = Inr (v, d', n')" and ok: "core_ok d"
    then have exec: "execution_ok d" and conv: "conversation_ok d" by (simp_all add: core_ok_def)
    from CommitConversationReply_tx_effect [OF run conv] obtain mach k c src where
      k: "machine_of (cm_MachineID command) d = Some mach" "k \<in> set (conversation_reply_claims d)"
        "k_SourceMessageID k = cm_SourceMessageID command" "claim_joined d (m_SpaceID mach) k = Some (c, src)"
      and rest: "d' = d \<or> (cn_MessageHeadSeq c = msg_MessageSeq src
          \<and> (\<exists>i now. reply_written command candidate digest E d d' c k i now))" by blast
    note j = claim_joined_Some [OF k(4)]
    from rest show "core_ok d'"
    proof (elim disjE conjE exE)
      fix i now assume h: "cn_MessageHeadSeq c = msg_MessageSeq src"
        and w: "reply_written command candidate digest E d d' c k i now"
      have "conversation_ok d'"
        using j k(3) h nrm conversation_of_Some
        by (intro conversation_ok_reply_written [OF conv w]) auto
      moreover have del: "adds_delegated E c (ca_DelegationGoal candidate) d (works d') i"
        and d': "d' = d\<lparr>works := works d', conversations := conversations d',
            conversation_messages := conversation_messages d @ [carry_message E (cm_SourceMessageID command) c (ca_Reply candidate)],
            conversation_reply_claims := conversation_reply_claims d'\<rparr>"
        using w by (auto simp: reply_written_def Let_def)
      have "execution_ok (d\<lparr>works := works d'\<rparr>)" by (rule execution_ok_delegated [OF exec del]) (use nrm in simp)
      then have "execution_ok d'" by (subst d') (simp add: execution_ok_def)
      ultimately show ?thesis by (simp add: core_ok_def)
    qed (use ok in simp)
  qed
qed

end
