(* ===== verification/Core_Server.thy ===== *)
theory Core_Server
  imports Conversation_State Run_Claims Carry_Tx
begin

text \<open>
  Which tables the stores leave alone. The Work and Run stores do not touch Conversations, the
  Conversation store touches durable work only through a delegated Work, and neither changes
  members, Machines, Agents, invitations or connections. The invariants of both parts are thus kept by every operation.
\<close>

type_synonym conversation_part = "conversation_row list \<times> message_row list \<times> reply_claim_row list"
type_synonym method_part = "email_identity_row list \<times> google_identity_row list \<times> github_identity_row list \<times> unlink_row list"
type_synonym command_part = "cli_credential_row list \<times> cli_failure_row list \<times> cli_request_row list"
type_synonym login_part = "user_row list \<times> session_row list \<times> email_challenge_row list \<times> email_attempt_row list \<times> external_transaction_row list \<times> method_part \<times> command_part"
type_synonym admission_part = "invitation_row list \<times> submission_row list \<times> connection_row list \<times> lookup_failure_row list \<times> login_part"
type_synonym identity_part = "space_row list \<times> membership_row list \<times> machine_row list \<times> agent_row list \<times> presence_row list \<times> admission_part"
type_synonym execution_part = "work_row list \<times> work_message_row list \<times> result_check_row list \<times> run_row list \<times> attempt_row list"

definition conversation_part :: "db \<Rightarrow> conversation_part" where
  "conversation_part d = (conversations d, conversation_messages d, conversation_reply_claims d)"

definition login_part :: "db \<Rightarrow> login_part" where
  "login_part d = (carry_users d, browser_sessions d, email_login_challenges d, email_login_attempts d, external_login_transactions d,
     (email_identities d, google_identities d, github_identities d, identity_method_unlinks d),
     (cli_credentials d, cli_login_lookup_failures d, cli_login_requests d))"

definition admission_part :: "db \<Rightarrow> admission_part" where
  "admission_part d = (space_invitations d, space_invitation_submissions d,
     machine_connection_requests d, machine_connection_lookup_failures d, login_part d)"

definition identity_part :: "db \<Rightarrow> identity_part" where
  "identity_part d = (spaces d, memberships d, machines d, agents d, agent_presence d, admission_part d)"

definition execution_part :: "db \<Rightarrow> execution_part" where
  "execution_part d = (works d, work_messages d, work_result_checks d, runs d, run_attempts d)"

lemmas part_defs = conversation_part_def identity_part_def execution_part_def admission_part_def login_part_def

section \<open>Statements\<close>

lemma work_statements_frame:
  "sql_CreateWork w d = Inr (x, d') \<Longrightarrow> conversation_part d' = conversation_part d"
  "sql_CreateWork w d = Inr (x, d') \<Longrightarrow> identity_part d' = identity_part d"
  by (auto simp: part_defs elim!: sql_CreateWork_cases)

lemma message_statements_frame:
  "sql_CreateWorkMessage m d = Inr (v, d') \<Longrightarrow> conversation_part d' = conversation_part d"
  "sql_CreateWorkMessage m d = Inr (v, d') \<Longrightarrow> identity_part d' = identity_part d"
  by (auto simp: part_defs sql_CreateWorkMessage_def split: if_split_asm option.split_asm)

lemma run_statements_frame:
  "sql_CreateRun r d = Inr (v, d') \<Longrightarrow> conversation_part d' = conversation_part d"
  "sql_CreateRun r d = Inr (v, d') \<Longrightarrow> identity_part d' = identity_part d"
  "sql_CreateRunAttempt a d = Inr (v, d') \<Longrightarrow> conversation_part d' = conversation_part d"
  "sql_CreateRunAttempt a d = Inr (v, d') \<Longrightarrow> identity_part d' = identity_part d"
  "sql_CreateWorkResultCheck c d = Inr (n, d') \<Longrightarrow> conversation_part d' = conversation_part d"
  "sql_CreateWorkResultCheck c d = Inr (n, d') \<Longrightarrow> identity_part d' = identity_part d"
  by (auto simp: part_defs sql_CreateRun_def sql_CreateRunAttempt_def sql_CreateWorkResultCheck_def split: if_split_asm)

lemma conversation_statements_frame:
  "sql_EnsureConversation c d = Inr (i, d') \<Longrightarrow> execution_part d' = execution_part d"
  "sql_EnsureConversation c d = Inr (i, d') \<Longrightarrow> identity_part d' = identity_part d"
  "insert_message m d = Inr (r, d') \<Longrightarrow> execution_part d' = execution_part d"
  "insert_message m d = Inr (r, d') \<Longrightarrow> identity_part d' = identity_part d"
  "sql_CreateConversationReplyClaim i j d = Inr (u, d') \<Longrightarrow> execution_part d' = execution_part d"
  "sql_CreateConversationReplyClaim i j d = Inr (u, d') \<Longrightarrow> identity_part d' = identity_part d"
  by (auto simp: part_defs sql_EnsureConversation_def insert_message_def sql_CreateConversationReplyClaim_def
      split: if_split_asm option.split_asm)

lemmas statement_frames = work_statements_frame message_statements_frame run_statements_frame
  conversation_statements_frame

lemmas update_statements = sql_AdvanceWorkInputHead_def sql_AcceptWorkResultCheck_def sql_RequestRunRetry_def
  sql_ExpireRunAttempt_def sql_RotateRunFence_def sql_ExtendRunAttemptLease_def sql_CommitCurrentUnderstanding_def
  sql_FinishRunAttempt_def sql_FinishRun_def sql_SucceedRunAttempt_def sql_SucceedRun_def
  sql_AdvanceConversationMessageHead_def sql_AssignConversationReply_def sql_ExtendConversationReplyLease_def
  sql_CompleteConversationReply_def

section \<open>Methods\<close>

lemmas guard_defs = lockActiveWorkMembership_def lockActiveConversationMembership_def lockActiveReplyMachine_def
  postgresUUID_def

lemma CreateWork_leaves:
  "leaves conversation_part (CreateWork c)" "leaves identity_part (CreateWork c)"
  unfolding CreateWork_def CreateWork_tx_def guard_defs
  by (rule frame_intros | erule statement_frames | simp add: part_defs update_statements Let_def)+

lemma AppendWorkMessage_leaves:
  "leaves conversation_part (AppendWorkMessage c)" "leaves identity_part (AppendWorkMessage c)"
  unfolding AppendWorkMessage_def AppendWorkMessage_tx_def guard_defs
  by (rule frame_intros | erule statement_frames | simp add: part_defs update_statements Let_def)+

lemma AcceptWorkReview_leaves_conversation: "leaves conversation_part (AcceptWorkReview c)"
  unfolding AcceptWorkReview_def [abs_def] AcceptWorkReview_tx_def guard_defs
  by (rule leaves_env, (rule frame_intros | erule statement_frames | simp add: part_defs update_statements Let_def)+)

lemma AcceptWorkReview_leaves_identity: "leaves identity_part (AcceptWorkReview c)"
  unfolding AcceptWorkReview_def [abs_def] AcceptWorkReview_tx_def guard_defs
  by (rule leaves_env, (rule frame_intros | erule statement_frames | simp add: part_defs update_statements Let_def)+)

lemma RequestWorkRetry_leaves:
  "leaves conversation_part (RequestWorkRetry c)" "leaves identity_part (RequestWorkRetry c)"
  unfolding RequestWorkRetry_def RequestWorkRetry_tx_def guard_defs
  by (rule frame_intros | erule statement_frames | simp add: part_defs update_statements Let_def)+

lemma ClaimRun_leaves:
  "leaves conversation_part (ClaimRun c)" "leaves identity_part (ClaimRun c)"
  unfolding ClaimRun_def ClaimRun_tx_def recover_run_def create_run_def open_attempt_def guard_defs
  by (rule frame_intros | erule statement_frames | simp add: part_defs update_statements Let_def)+

lemma RenewRunAttempt_leaves:
  "leaves conversation_part (RenewRunAttempt m i j f)" "leaves identity_part (RenewRunAttempt m i j f)"
  unfolding RenewRunAttempt_def RenewRunAttempt_tx_def guard_defs
  by (rule frame_intros | erule statement_frames | simp add: part_defs update_statements Let_def)+

lemma CommitWorkUnderstanding_leaves:
  "leaves conversation_part (CommitWorkUnderstanding c)" "leaves identity_part (CommitWorkUnderstanding c)"
  unfolding CommitWorkUnderstanding_def CommitWorkUnderstanding_tx_def guard_defs
  by (rule frame_intros | erule statement_frames | simp add: part_defs update_statements Let_def)+

lemma FinishUnresolvedAttempt_leaves:
  "leaves conversation_part (FinishUnresolvedAttempt c)" "leaves identity_part (FinishUnresolvedAttempt c)"
  unfolding FinishUnresolvedAttempt_def FinishUnresolvedAttempt_tx_def guard_defs
  by (rule frame_intros | erule statement_frames | simp add: part_defs update_statements Let_def)+

lemma SendConversationMessage_leaves_execution: "leaves execution_part (SendConversationMessage c)"
  unfolding SendConversationMessage_def [abs_def] SendConversationMessage_tx_def admit_message_def sql_CreateConversationMemberMessage_def guard_defs
  by (rule leaves_env, (rule frame_intros | erule statement_frames | simp add: part_defs update_statements Let_def)+)

lemma SendConversationMessage_leaves_identity: "leaves identity_part (SendConversationMessage c)"
  unfolding SendConversationMessage_def [abs_def] SendConversationMessage_tx_def admit_message_def sql_CreateConversationMemberMessage_def guard_defs
  by (rule leaves_env, (rule frame_intros | erule statement_frames | simp add: part_defs update_statements Let_def)+)

lemma ClaimConversationReply_leaves_execution: "leaves execution_part (ClaimConversationReply c)"
  unfolding ClaimConversationReply_def [abs_def] ClaimConversationReply_tx_def fixedReplyContextRange_def loadFixedReplyContext_def Let_def guard_defs
  by (rule leaves_env, (rule frame_intros | erule statement_frames | simp add: part_defs update_statements Let_def)+)

lemma ClaimConversationReply_leaves_identity: "leaves identity_part (ClaimConversationReply c)"
  unfolding ClaimConversationReply_def [abs_def] ClaimConversationReply_tx_def fixedReplyContextRange_def loadFixedReplyContext_def Let_def guard_defs
  by (rule leaves_env, (rule frame_intros | erule statement_frames | simp add: part_defs update_statements Let_def)+)

lemma RenewConversationReply_leaves_execution: "leaves execution_part (RenewConversationReply c)"
  unfolding RenewConversationReply_def [abs_def] RenewConversationReply_tx_def guard_defs
  by (rule leaves_env, (rule frame_intros | erule statement_frames | simp add: part_defs update_statements Let_def)+)

lemma RenewConversationReply_leaves_identity: "leaves identity_part (RenewConversationReply c)"
  unfolding RenewConversationReply_def [abs_def] RenewConversationReply_tx_def guard_defs
  by (rule leaves_env, (rule frame_intros | erule statement_frames | simp add: part_defs update_statements Let_def)+)

lemma CommitConversationReply_leaves_identity: "leaves identity_part (CommitConversationReply c)"
  unfolding CommitConversationReply_def [abs_def] CommitConversationReply_tx_def write_reply_def createDelegatedWork_def sql_CreateConversationCarryReply_def guard_defs
  by (rule leaves_env, (rule frame_intros | erule statement_frames | simp add: part_defs update_statements Let_def)+)


text \<open>
  The history of durable state: what no operation ever takes back. Identities, authorship,
  request digests and input ranges are immutable, input heads, versions and fences only rise,
  messages are never changed or deleted, and what is finished (a Run, an Attempt, an accepted
  result check, a committed reply) stays as it is. Each statement stays within the relation
  \<open>evolves\<close> on its own, by the guards in its \<open>WHERE\<close>, so every operation does.
\<close>

section \<open>The relation\<close>

definition work_evolves :: "work_row \<Rightarrow> work_row \<Rightarrow> bool" where
  "work_evolves w w' \<longleftrightarrow> w_WorkID w' = w_WorkID w \<and> w_SpaceID w' = w_SpaceID w \<and> w_Goal w' = w_Goal w
     \<and> w_Lifecycle w' = w_Lifecycle w \<and> w_CreatorUserID w' = w_CreatorUserID w
     \<and> w_CreateIdempotencyKey w' = w_CreateIdempotencyKey w \<and> w_CreateRequestDigest w' = w_CreateRequestDigest w
     \<and> w_CreatedAt w' = w_CreatedAt w \<and> w_InputHeadSeq w \<le> w_InputHeadSeq w'
     \<and> w_UnderstandingVersion w \<le> w_UnderstandingVersion w'"

definition check_evolves :: "result_check_row \<Rightarrow> result_check_row \<Rightarrow> bool" where
  "check_evolves c c' \<longleftrightarrow> rc_ReviewID c' = rc_ReviewID c \<and> rc_WorkID c' = rc_WorkID c
     \<and> rc_UnderstandingVersion c' = rc_UnderstandingVersion c \<and> rc_ContentDigest c' = rc_ContentDigest c
     \<and> (rc_AcceptedAt c \<noteq> None \<longrightarrow> c' = c)"

definition run_evolves :: "run_row \<Rightarrow> run_row \<Rightarrow> bool" where
  "run_evolves r r' \<longleftrightarrow> r_RunID r' = r_RunID r \<and> r_WorkID r' = r_WorkID r \<and> r_InputStartSeq r' = r_InputStartSeq r
     \<and> r_InputEndSeq r' = r_InputEndSeq r \<and> r_BaseUnderstandingVersion r' = r_BaseUnderstandingVersion r
     \<and> r_CurrentFence r \<le> r_CurrentFence r'
     \<and> (r_State r \<noteq> StateActive \<longrightarrow> r_State r' = r_State r \<and> r_CompletedAt r' = r_CompletedAt r
          \<and> r_CurrentFence r' = r_CurrentFence r)
     \<and> (r_State r \<noteq> StateActive \<and> r_RetryRequestedAt r \<noteq> None \<longrightarrow> r' = r)"

definition attempt_evolves :: "attempt_row \<Rightarrow> attempt_row \<Rightarrow> bool" where
  "attempt_evolves a a' \<longleftrightarrow> at_AttemptID a' = at_AttemptID a \<and> at_RunID a' = at_RunID a
     \<and> at_MachineID a' = at_MachineID a \<and> at_Fence a' = at_Fence a \<and> (at_State a \<noteq> StateActive \<longrightarrow> a' = a)"

definition conversation_evolves :: "conversation_row \<Rightarrow> conversation_row \<Rightarrow> bool" where
  "conversation_evolves c c' \<longleftrightarrow> cn_ConversationID c' = cn_ConversationID c \<and> cn_SpaceID c' = cn_SpaceID c
     \<and> cn_MemberUserID c' = cn_MemberUserID c \<and> cn_MessageHeadSeq c \<le> cn_MessageHeadSeq c'"

definition claim_evolves :: "reply_claim_row \<Rightarrow> reply_claim_row \<Rightarrow> bool" where
  "claim_evolves k k' \<longleftrightarrow> k_SourceMessageID k' = k_SourceMessageID k \<and> k_ConversationID k' = k_ConversationID k
     \<and> k_CurrentFence k \<le> k_CurrentFence k' \<and> (has_reply k \<longrightarrow> k' = k)"

definition evolves :: "db \<Rightarrow> db \<Rightarrow> bool" where
  "evolves d d' \<longleftrightarrow>
     grown work_evolves (works d) (works d') \<and> grown (=) (work_messages d) (work_messages d')
     \<and> grown check_evolves (work_result_checks d) (work_result_checks d')
     \<and> grown run_evolves (runs d) (runs d') \<and> grown attempt_evolves (run_attempts d) (run_attempts d')
     \<and> grown conversation_evolves (conversations d) (conversations d')
     \<and> grown (=) (conversation_messages d) (conversation_messages d')
     \<and> grown claim_evolves (conversation_reply_claims d) (conversation_reply_claims d')"

lemmas row_evolves_defs = work_evolves_def check_evolves_def run_evolves_def attempt_evolves_def
  conversation_evolves_def claim_evolves_def

lemma row_evolves_refl [simp]:
  "work_evolves w w" "check_evolves c c" "run_evolves r r" "attempt_evolves a a" "conversation_evolves v v"
  "claim_evolves k k"
  by (simp_all add: row_evolves_defs)

lemma row_evolves_trans:
  "work_evolves w w1 \<Longrightarrow> work_evolves w1 w2 \<Longrightarrow> work_evolves w w2"
  "check_evolves c c1 \<Longrightarrow> check_evolves c1 c2 \<Longrightarrow> check_evolves c c2"
  "run_evolves r r1 \<Longrightarrow> run_evolves r1 r2 \<Longrightarrow> run_evolves r r2"
  "attempt_evolves a a1 \<Longrightarrow> attempt_evolves a1 a2 \<Longrightarrow> attempt_evolves a a2"
  "conversation_evolves v v1 \<Longrightarrow> conversation_evolves v1 v2 \<Longrightarrow> conversation_evolves v v2"
  "claim_evolves k k1 \<Longrightarrow> claim_evolves k1 k2 \<Longrightarrow> claim_evolves k k2"
  unfolding row_evolves_defs by auto

lemma evolves_refl: "evolves d d"
  by (simp add: evolves_def grown_refl)

lemma evolves_trans:
  assumes "evolves d d1" "evolves d1 d2"
  shows "evolves d d2"
  using assms unfolding evolves_def by (elim conjE) (intro conjI; erule (1) grown_trans [rotated]; blast intro: row_evolves_trans)

interpretation history: growth evolves
  by unfold_locales (rule evolves_refl, rule evolves_trans)

text \<open>Databases that agree on durable work and on Conversations have the same history.\<close>

lemma grown_eq_refl [simp]: "grown (=) t t" "grown (=) t (t @ s)"
  by (auto simp: grown_def)

lemma grown_row_refl [simp]:
  "grown work_evolves ws ws" "grown check_evolves cs cs" "grown run_evolves rs rs"
  "grown attempt_evolves as as" "grown conversation_evolves vs vs" "grown claim_evolves ks ks"
  "grown work_evolves ws (ws @ ws')" "grown check_evolves cs (cs @ cs')" "grown run_evolves rs (rs @ rs')"
  "grown attempt_evolves as (as @ as')" "grown conversation_evolves vs (vs @ vs')" "grown claim_evolves ks (ks @ ks')"
  by (simp_all add: grown_refl grown_append)

section \<open>Statements\<close>

lemma inserts_evolve:
  "sql_CreateWork w d = Inr (x, d') \<Longrightarrow> evolves d d'"
  "sql_CreateWorkMessage m d = Inr (v, d') \<Longrightarrow> evolves d d'"
  "sql_CreateRun r d = Inr (t, d') \<Longrightarrow> evolves d d'"
  "sql_CreateRunAttempt a d = Inr (t, d') \<Longrightarrow> evolves d d'"
  "sql_CreateWorkResultCheck c d = Inr (n, d') \<Longrightarrow> evolves d d'"
  "sql_EnsureConversation cn d = Inr (i, d') \<Longrightarrow> evolves d d'"
  "insert_message msg d = Inr (msg', d') \<Longrightarrow> evolves d d'"
  "sql_CreateConversationReplyClaim i j d = Inr (u, d') \<Longrightarrow> evolves d d'"
  by (auto simp: evolves_def sql_CreateWork_def sql_CreateWorkMessage_def sql_CreateRun_def sql_CreateRunAttempt_def
      sql_CreateWorkResultCheck_def sql_EnsureConversation_def insert_message_def sql_CreateConversationReplyClaim_def
      Let_def split: if_split_asm option.split_asm)

lemma updates_evolve:
  "evolves d (snd (sql_AdvanceWorkInputHead i d))"
  "evolves d (snd (sql_AcceptWorkResultCheck i s b j k t d))"
  "evolves d (snd (sql_RequestRunRetry i s j t d))"
  "evolves d (snd (sql_ExpireRunAttempt i j f t d))"
  "evolves d (snd (sql_RotateRunFence i f d))"
  "evolves d (snd (sql_ExtendRunAttemptLease i j f m t d))"
  "evolves d (snd (sql_CommitCurrentUnderstanding s s' n i e v d))"
  "evolves d (snd (sql_FinishRunAttempt o' i t d))"
  "evolves d (snd (sql_FinishRun o' i t d))"
  "evolves d (snd (sql_AdvanceConversationMessageHead i d))"
  "evolves d (snd (sql_AssignConversationReply i st en j f t d))"
  "evolves d (snd (sql_ExtendConversationReplyLease i j f t d))"
  "evolves d (snd (sql_CompleteConversationReply b i u j k f t d))"
  unfolding sql_AdvanceWorkInputHead_def sql_AcceptWorkResultCheck_def sql_RequestRunRetry_def
    sql_ExpireRunAttempt_def sql_RotateRunFence_def sql_ExtendRunAttemptLease_def sql_CommitCurrentUnderstanding_def
    sql_FinishRunAttempt_def sql_FinishRun_def sql_AdvanceConversationMessageHead_def sql_AssignConversationReply_def
    sql_ExtendConversationReplyLease_def sql_CompleteConversationReply_def Let_def evolves_def
  by (auto intro!: grown_update simp: row_evolves_defs retryable_def state_in_failed_unknown_def finish_attempt_row_def
      finish_run_row_def claim_held_def has_reply_def claim_unresolved_def)

lemma succeed_evolve:
  "evolves d (snd (sql_SucceedRunAttempt i t d))" "evolves d (snd (sql_SucceedRun i t d))"
  by (simp_all add: sql_SucceedRunAttempt_def sql_SucceedRun_def updates_evolve)

lemmas statement_evolves = updates_evolve succeed_evolve

section \<open>Methods\<close>

lemmas history_guards = lockActiveWorkMembership_def lockActiveConversationMembership_def
  lockActiveReplyMachine_def postgresUUID_def

lemma CreateWork_advances: "advances evolves (CreateWork c)"
  unfolding CreateWork_def CreateWork_tx_def history_guards
  by (rule grow_intros statement_evolves | erule inserts_evolve)+

lemma AppendWorkMessage_advances: "advances evolves (AppendWorkMessage c)"
  unfolding AppendWorkMessage_def AppendWorkMessage_tx_def history_guards
  by (rule grow_intros statement_evolves | erule inserts_evolve)+

lemma AcceptWorkReview_advances: "advances evolves (AcceptWorkReview c)"
  unfolding AcceptWorkReview_def [abs_def] AcceptWorkReview_tx_def history_guards
  by (rule advances_env, (rule grow_intros statement_evolves | erule inserts_evolve)+)

lemma RequestWorkRetry_advances: "advances evolves (RequestWorkRetry c)"
  unfolding RequestWorkRetry_def RequestWorkRetry_tx_def history_guards
  by (rule grow_intros statement_evolves | erule inserts_evolve)+

lemma ClaimRun_advances: "advances evolves (ClaimRun c)"
  unfolding ClaimRun_def ClaimRun_tx_def recover_run_def create_run_def open_attempt_def history_guards
  by (rule grow_intros statement_evolves | erule inserts_evolve)+

lemma RenewRunAttempt_advances: "advances evolves (RenewRunAttempt m i j f)"
  unfolding RenewRunAttempt_def RenewRunAttempt_tx_def history_guards
  by (rule grow_intros statement_evolves | erule inserts_evolve)+

lemma CommitWorkUnderstanding_advances: "advances evolves (CommitWorkUnderstanding c)"
  unfolding CommitWorkUnderstanding_def CommitWorkUnderstanding_tx_def history_guards
  by (rule grow_intros statement_evolves | erule inserts_evolve)+

lemma FinishUnresolvedAttempt_advances: "advances evolves (FinishUnresolvedAttempt c)"
  unfolding FinishUnresolvedAttempt_def FinishUnresolvedAttempt_tx_def history_guards
  by (rule grow_intros statement_evolves | erule inserts_evolve)+

lemma SendConversationMessage_advances: "advances evolves (SendConversationMessage c)"
  unfolding SendConversationMessage_def [abs_def] SendConversationMessage_tx_def admit_message_def sql_CreateConversationMemberMessage_def history_guards
  by (rule advances_env, (rule grow_intros statement_evolves | erule inserts_evolve)+)

lemma ClaimConversationReply_advances: "advances evolves (ClaimConversationReply c)"
  unfolding ClaimConversationReply_def [abs_def] ClaimConversationReply_tx_def fixedReplyContextRange_def loadFixedReplyContext_def Let_def history_guards
  by (rule advances_env, (rule grow_intros statement_evolves | erule inserts_evolve)+)

lemma RenewConversationReply_advances: "advances evolves (RenewConversationReply c)"
  unfolding RenewConversationReply_def [abs_def] RenewConversationReply_tx_def history_guards
  by (rule advances_env, (rule grow_intros statement_evolves | erule inserts_evolve)+)

lemma CommitConversationReply_advances: "advances evolves (CommitConversationReply c)"
  unfolding CommitConversationReply_def [abs_def] CommitConversationReply_tx_def write_reply_def createDelegatedWork_def sql_CreateConversationCarryReply_def history_guards
  by (rule advances_env, (rule grow_intros statement_evolves | erule inserts_evolve)+)

lemmas operations_advance = CreateWork_advances
  AppendWorkMessage_advances
  AcceptWorkReview_advances
  RequestWorkRetry_advances
  ClaimRun_advances
  RenewRunAttempt_advances
  CommitWorkUnderstanding_advances
  FinishUnresolvedAttempt_advances
  SendConversationMessage_advances
  ClaimConversationReply_advances
  RenewConversationReply_advances
  CommitConversationReply_advances

section \<open>Reads\<close>

interpretation unchanged: growth "(=)"
  by unfold_locales auto

lemma ListWorks_reads: "advances (=) (ListWorks c)"
  unfolding ListWorks_def history_guards
  by (rule grow_intros)+

lemma LoadWork_reads: "advances (=) (LoadWork c)"
  unfolding LoadWork_def history_guards
  by (rule grow_intros)+

lemma ListConversationMessages_reads: "advances (=) (ListConversationMessages c)"
  unfolding ListConversationMessages_def [abs_def] conversationCursor_def history_guards
  by (rule advances_env, (rule grow_intros)+)


text \<open>
  The server as a transition system. One step is one call of a store method, in any outside
  world (clock, failures, lost commits, locked rows), or any change another component makes to
  users, Spaces, members, Machines and Agents and to who owns which Work. The row locks that every method takes first
  serialise the calls that touch the same rows, so an execution is a sequence of steps. The
  reachable states start from a database without Works and Conversations.
\<close>

datatype request =
    Create_work create_command
  | Append_message append_command
  | Accept_review accept_review_command
  | Request_retry retry_command
  | Claim_run uuid
  | Renew_attempt uuid uuid uuid int
  | Commit_understanding commit_command
  | Finish_attempt finish_command
  | Send_message send_command
  | Claim_reply uuid
  | Renew_reply renew_reply_command
  | Commit_reply commit_reply_command

fun serve :: "request \<Rightarrow> env \<Rightarrow> db \<Rightarrow> db" where
  "serve (Create_work c) E d = snd (CreateWork c E d)"
| "serve (Append_message c) E d = snd (AppendWorkMessage c E d)"
| "serve (Accept_review c) E d = snd (AcceptWorkReview c E d)"
| "serve (Request_retry c) E d = snd (RequestWorkRetry c E d)"
| "serve (Claim_run machineID) E d = snd (ClaimRun machineID E d)"
| "serve (Renew_attempt machineID runID attemptID fence) E d =
     snd (RenewRunAttempt machineID runID attemptID fence E d)"
| "serve (Commit_understanding c) E d = snd (CommitWorkUnderstanding c E d)"
| "serve (Finish_attempt c) E d = snd (FinishUnresolvedAttempt c E d)"
| "serve (Send_message c) E d = snd (SendConversationMessage c E d)"
| "serve (Claim_reply machineID) E d = snd (ClaimConversationReply machineID E d)"
| "serve (Renew_reply c) E d = snd (RenewConversationReply c E d)"
| "serve (Commit_reply c) E d = snd (CommitConversationReply c E d)"

definition reowned :: "(work_row \<Rightarrow> uuid) \<Rightarrow> work_row \<Rightarrow> work_row" where
  "reowned owner w = w\<lparr>w_OwnerUserID := owner w\<rparr>"

definition administers :: "db \<Rightarrow> db \<Rightarrow> bool" where
  "administers d d' \<longleftrightarrow> conversation_part d' = conversation_part d
     \<and> (\<exists>owner. execution_part d' = execution_part (d\<lparr>works := map (reowned owner) (works d)\<rparr>))"

inductive server_step :: "db \<Rightarrow> db \<Rightarrow> bool" where
  served: "server_step d (serve q E d)"
| administered: "administers d d' \<Longrightarrow> server_step d d'"

inductive_cases server_stepE: "server_step d d'"

definition booted :: "db \<Rightarrow> bool" where
  "booted d \<longleftrightarrow> execution_part d = execution_part empty_db \<and> conversation_part d = conversation_part empty_db"

inductive reachable :: "db \<Rightarrow> bool" where
  boot: "booted d \<Longrightarrow> reachable d"
| step: "reachable d \<Longrightarrow> server_step d d' \<Longrightarrow> reachable d'"

section \<open>The invariants in every reachable state\<close>

lemma execution_ok_part: "execution_part d' = execution_part d \<Longrightarrow> execution_ok d' = execution_ok d"
  by (simp add: execution_ok_def execution_part_def)

lemma conversation_ok_part: "conversation_part d' = conversation_part d \<Longrightarrow> conversation_ok d' = conversation_ok d"
  by (simp add: conversation_ok_def conversation_part_def)

text \<open>Nothing the invariants say depends on who owns a Work.\<close>

lemma reowned_simps [simp]:
  "w_WorkID (reowned f w) = w_WorkID w" "create_key (reowned f w) = create_key w" "work_row_ok (reowned f w) = work_row_ok w"
  "w_InputHeadSeq (reowned f w) = w_InputHeadSeq w" "w_AppliedInputSeq (reowned f w) = w_AppliedInputSeq w"
  "w_UnderstandingVersion (reowned f w) = w_UnderstandingVersion w" "run_of_work_ok r (reowned f w) = run_of_work_ok r w"
  "check_of_work_ok c (reowned f w) = check_of_work_ok c w" "work_evolves w (reowned f w)"
  by (auto simp: reowned_def create_key_def work_row_ok_def run_of_work_ok_def check_of_work_ok_def work_evolves_def split: option.splits)

lemma reowned_unique: "unique_on k (\<lambda>_. True) (map (reowned f) ws) = unique_on (\<lambda>w. k (reowned f w)) (\<lambda>_. True) ws"
  by (simp add: unique_on_def comp_def)

lemma reowned_execution_ok: "execution_ok d \<Longrightarrow> execution_ok (d\<lparr>works := map (reowned f) (works d)\<rparr>)"
  by (simp add: execution_ok_def work_state_ok_def works_ok_def messages_ok_def checks_ok_def runs_ok_def applied_once_def reowned_unique)

lemma administers_core_ok: "administers d d' \<Longrightarrow> core_ok d \<Longrightarrow> core_ok d'"
  unfolding administers_def core_ok_def using execution_ok_part conversation_ok_part reowned_execution_ok by metis

lemma grown_reowned: "grown work_evolves ws (map (reowned f) ws)"
  unfolding grown_def using reowned_simps(9) by fastforce

lemma administers_evolves: "administers d d' \<Longrightarrow> evolves d d'"
  by (auto simp: administers_def evolves_def execution_part_def conversation_part_def grown_reowned)

lemma administers_same: "execution_part d' = execution_part d \<Longrightarrow> conversation_part d' = conversation_part d \<Longrightarrow> administers d d'"
proof -
  have "map (reowned w_OwnerUserID) ws = ws" for ws by (induction ws) (simp_all add: reowned_def)
  then show "execution_part d' = execution_part d \<Longrightarrow> conversation_part d' = conversation_part d \<Longrightarrow> administers d d'"
    unfolding administers_def by (intro conjI exI [of _ w_OwnerUserID]) (simp_all add: execution_part_def)
qed

lemma keeps_core_execution:
  assumes "keeps execution_ok m" "leaves conversation_part m"
  shows "keeps core_ok m"
  unfolding keeps_def core_ok_def
  using keepsD [OF assms(1)] assms(2) conversation_ok_part unfolding leaves_def by blast

lemma keeps_core_conversation:
  assumes "keeps conversation_ok m" "leaves execution_part m"
  shows "keeps core_ok m"
  unfolding keeps_def core_ok_def
  using keepsD [OF assms(1)] assms(2) execution_ok_part unfolding leaves_def by blast

lemmas core_keeps =
  keeps_core_execution [OF CreateWork_keeps CreateWork_leaves(1)]
  keeps_core_execution [OF AppendWorkMessage_keeps AppendWorkMessage_leaves(1)]
  keeps_core_execution [OF AcceptWorkReview_keeps AcceptWorkReview_leaves_conversation]
  keeps_core_execution [OF RequestWorkRetry_keeps RequestWorkRetry_leaves(1)]
  keeps_core_execution [OF ClaimRun_keeps ClaimRun_leaves(1)]
  keeps_core_execution [OF RenewRunAttempt_keeps RenewRunAttempt_leaves(1)]
  keeps_core_execution [OF CommitWorkUnderstanding_keeps CommitWorkUnderstanding_leaves(1)]
  keeps_core_execution [OF FinishUnresolvedAttempt_keeps FinishUnresolvedAttempt_leaves(1)]
  keeps_core_conversation [OF SendConversationMessage_keeps SendConversationMessage_leaves_execution]
  keeps_core_conversation [OF ClaimConversationReply_keeps ClaimConversationReply_leaves_execution]
  keeps_core_conversation [OF RenewConversationReply_keeps RenewConversationReply_leaves_execution]
  CommitConversationReply_keeps

lemma keeps_snd: "keeps I m \<Longrightarrow> I d \<Longrightarrow> I (snd (m E d))"
  unfolding keeps_def by (metis prod.collapse)

lemma advances_snd: "advances R m \<Longrightarrow> R d (snd (m E d))"
  unfolding advances_def by (metis prod.collapse)

lemma serve_keeps: "core_ok d \<Longrightarrow> core_ok (serve q E d)"
  by (cases q) (simp_all add: core_keeps [THEN keeps_snd])

lemma serve_evolves: "evolves d (serve q E d)"
  by (cases q) (simp_all add: operations_advance [THEN advances_snd])

lemma step_core_ok: "core_ok d \<Longrightarrow> server_step d d' \<Longrightarrow> core_ok d'"
  using serve_keeps administers_core_ok by (blast elim: server_stepE)

lemma step_evolves: "server_step d d' \<Longrightarrow> evolves d d'"
  by (erule server_stepE) (simp_all add: serve_evolves administers_evolves)

lemma steps_evolve: "server_step\<^sup>*\<^sup>* d d' \<Longrightarrow> evolves d d'"
  by (rule history.advances_rtrancl [OF step_evolves])

lemma steps_core_ok: "server_step\<^sup>*\<^sup>* d d' \<Longrightarrow> core_ok d \<Longrightarrow> core_ok d'"
  by (induction rule: rtranclp_induct) (auto intro: step_core_ok)

lemma booted_ok: "booted d \<Longrightarrow> core_ok d"
  unfolding booted_def core_ok_def
  using execution_ok_empty conversation_ok_empty execution_ok_part [of d empty_db] conversation_ok_part [of d empty_db]
  by blast

lemma reachable_ok: "reachable d \<Longrightarrow> core_ok d"
  by (induction rule: reachable.induct) (auto intro: booted_ok step_core_ok)

lemma reachable_steps: "reachable d \<Longrightarrow> server_step\<^sup>*\<^sup>* d d' \<Longrightarrow> reachable d'"
  by (rotate_tac, induction rule: rtranclp_induct) (auto intro: reachable.step)

end
