(* ===== verification/Fenced_Leases.thy ===== *)
theory Fenced_Leases
  imports Core_Server Run_Claims
begin

text \<open>
  The contract of a fenced lease, which Runs and reply obligations share: the fence of a
  resource only rises, and a write under another fence is refused without a trace. Its
  consequence is that whoever held an older fence is powerless for good, whatever the clock of
  that Machine says. The locale is interpreted on every write of both stores.
\<close>

locale fenced_lease =
  fixes step :: "db \<Rightarrow> db \<Rightarrow> bool"
    and ok :: "db \<Rightarrow> bool"
    and fence_of :: "uuid \<Rightarrow> db \<Rightarrow> int option"
    and act :: "'c \<Rightarrow> env \<Rightarrow> db \<Rightarrow> (carry_error + 'r) \<times> db"
    and target :: "'c \<Rightarrow> uuid"
    and held :: "'c \<Rightarrow> int"
  assumes step_ok: "ok d \<Longrightarrow> step d d' \<Longrightarrow> ok d'"
    and fence_rises: "ok d \<Longrightarrow> step d d' \<Longrightarrow> fence_of i d = Some f \<Longrightarrow> \<exists>f'. fence_of i d' = Some f' \<and> f \<le> f'"
    and stale_refused: "ok d \<Longrightarrow> fence_of (target c) d \<noteq> Some (held c) \<Longrightarrow> \<exists>e. act c E d = (Inl e, d)"
begin

lemma steps_ok: "step\<^sup>*\<^sup>* d d' \<Longrightarrow> ok d \<Longrightarrow> ok d'"
  by (induction rule: rtranclp_induct) (auto intro: step_ok)

lemma fence_rises_steps:
  assumes "step\<^sup>*\<^sup>* d d'" "ok d" "fence_of i d = Some f"
  shows "\<exists>f'. fence_of i d' = Some f' \<and> f \<le> f'"
  using assms
proof (induction rule: rtranclp_induct)
  case (step d1 d2)
  then obtain f1 where "fence_of i d1 = Some f1" "f \<le> f1" by blast
  with fence_rises [OF steps_ok [OF step(1)] step(2)] step show ?case by fastforce
qed auto

lemma superseded:
  assumes "ok d" "fence_of (target c) d = Some f" "held c < f" "step\<^sup>*\<^sup>* d d'"
  shows "\<exists>e. act c E d' = (Inl e, d')"
proof (rule stale_refused [OF steps_ok [OF assms(4,1)]])
  show "fence_of (target c) d' \<noteq> Some (held c)"
    using fence_rises_steps [OF assms(4,1,2)] assms(3) by auto
qed

end

lemma transact_refuses:
  assumes "\<And>x d' n. m E d 0 \<noteq> Inr (x, d', n)"
  shows "\<exists>e. transact m E d = (Inl e, d)"
  using assms by (cases "m E d 0") (auto simp: transact_def)

lemma checked_refuses:
  assumes "\<And>x. r = Inr x \<Longrightarrow> \<exists>e. f x E d = (Inl e, d)"
  shows "\<exists>e. checked r f E d = (Inl e, d)"
  using assms by (cases r) (auto simp: checked_def)

section \<open>The fence of a Run\<close>

definition run_fence :: "uuid \<Rightarrow> db \<Rightarrow> int option" where
  "run_fence runID d = map_option r_CurrentFence (run_of runID d)"

lemma run_of_row:
  assumes "execution_ok d" "r \<in> set (runs d)"
  shows "run_of (r_RunID r) d = Some r"
  unfolding run_of_def
  by (rule unique_update_first(1) [of r_RunID, OF _ assms(2)]) (use assms(1) in
    \<open>auto simp: execution_ok_def work_state_ok_def runs_ok_def\<close>)

lemma run_of_Some: "run_of i d = Some r \<Longrightarrow> r \<in> set (runs d) \<and> r_RunID r = i"
  by (auto simp: run_of_def dest: first_where_Some)

lemma run_fence_rises:
  assumes "core_ok d" "server_step d d'" "run_fence i d = Some f"
  shows "\<exists>f'. run_fence i d' = Some f' \<and> f \<le> f'"
proof -
  from assms(3) obtain r where r: "r \<in> set (runs d)" "r_RunID r = i" "r_CurrentFence r = f"
    by (auto simp: run_fence_def dest: run_of_Some)
  from step_evolves [OF assms(2)] r obtain r' where r': "r' \<in> set (runs d')" "run_evolves r r'"
    by (auto simp: evolves_def dest: grownD)
  have "execution_ok d'" using step_core_ok [OF assms(1,2)] by (simp add: core_ok_def)
  from run_of_row [OF this r'(1)] r r'(2) show ?thesis by (auto simp: run_fence_def run_evolves_def)
qed

lemma attempt_authority_fence:
  assumes "core_ok d" "attempt_authority m i j f d (r, a)" "r \<in> set (runs d)"
  shows "run_fence i d = Some f"
  using assms run_of_row [of d r] by (auto simp: core_ok_def run_fence_def attempt_authority_def)

lemma stale_commit_refused:
  assumes "core_ok d" "run_fence (co_RunID c) d \<noteq> Some (co_Fence c)"
  shows "\<exists>e. CommitWorkUnderstanding c E d = (Inl e, d)"
  unfolding CommitWorkUnderstanding_def
proof (intro checked_refuses transact_refuses notI)
  fix u x d' n assume "CommitWorkUnderstanding_tx c u E d 0 = Inr (x, d', n)"
  moreover obtain us s where "u = (us, s)" by (cases u)
  ultimately obtain r a w where "commit_step c us s E 0 d d' r a w"
    using CommitWorkUnderstanding_tx_effect assms(1) unfolding core_ok_def by blast
  then have "attempt_authority (co_MachineID c) (co_RunID c) (co_AttemptID c) (co_Fence c) d (r, a)" "r \<in> set (runs d)"
    by (auto simp: commit_step_def)
  from attempt_authority_fence [OF assms(1) this] assms(2) show False by simp
qed

lemma stale_finish_refused:
  assumes "core_ok d" "run_fence (fi_RunID c) d \<noteq> Some (fi_Fence c)"
  shows "\<exists>e. FinishUnresolvedAttempt c E d = (Inl e, d)"
  unfolding FinishUnresolvedAttempt_def
proof (intro checked_refuses transact_refuses notI)
  fix x d' n assume "FinishUnresolvedAttempt_tx c E d 0 = Inr (x, d', n)"
  then obtain r a where "r \<in> set (runs d)"
    "attempt_authority (fi_MachineID c) (fi_RunID c) (fi_AttemptID c) (fi_Fence c) d (r, a)"
    using FinishUnresolvedAttempt_tx_effect assms(1) unfolding core_ok_def by blast
  from attempt_authority_fence [OF assms(1) this(2,1)] assms(2) show False by simp
qed

lemma stale_renew_refused:
  assumes "core_ok d" "run_fence i d \<noteq> Some f"
  shows "\<exists>e. RenewRunAttempt m i j f E d = (Inl e, d)"
  unfolding RenewRunAttempt_def
proof (intro transact_refuses notI)
  fix x d' n assume "RenewRunAttempt_tx m i j f E d 0 = Inr (x, d', n)"
  then obtain r a where "r \<in> set (runs d)" "attempt_authority m i j f d (r, a)"
    using RenewRunAttempt_tx_effect assms(1) unfolding core_ok_def by blast
  from attempt_authority_fence [OF assms(1) this(2,1)] assms(2) show False by simp
qed

interpretation commit_lease: fenced_lease server_step core_ok run_fence CommitWorkUnderstanding co_RunID co_Fence
  by unfold_locales (auto intro: step_core_ok run_fence_rises stale_commit_refused)

interpretation finish_lease: fenced_lease server_step core_ok run_fence FinishUnresolvedAttempt fi_RunID fi_Fence
  by unfold_locales (auto intro: step_core_ok run_fence_rises stale_finish_refused)

interpretation renew_lease: fenced_lease server_step core_ok run_fence
    "\<lambda>(machineID, runID, attemptID, fence). RenewRunAttempt machineID runID attemptID fence"
    "\<lambda>(machineID, runID, attemptID, fence). runID" "\<lambda>(machineID, runID, attemptID, fence). fence"
  by unfold_locales (auto intro: step_core_ok run_fence_rises stale_renew_refused)

section \<open>The fence of a reply obligation\<close>

definition reply_fence :: "uuid \<Rightarrow> db \<Rightarrow> int option" where
  "reply_fence sourceMessageID d = map_option k_CurrentFence (claim_of sourceMessageID d)"

lemma claim_of_row:
  assumes "conversation_ok d" "k \<in> set (conversation_reply_claims d)"
  shows "claim_of (k_SourceMessageID k) d = Some k"
  unfolding claim_of_def
  by (rule unique_update_first(1) [of k_SourceMessageID, OF _ assms(2)]) (use assms(1) in \<open>auto simp: conversation_ok_def claims_ok_def\<close>)

lemma claim_of_Some: "claim_of i d = Some k \<Longrightarrow> k \<in> set (conversation_reply_claims d) \<and> k_SourceMessageID k = i"
  by (auto simp: claim_of_def dest: first_where_Some)

lemma reply_fence_rises:
  assumes "core_ok d" "server_step d d'" "reply_fence i d = Some f"
  shows "\<exists>f'. reply_fence i d' = Some f' \<and> f \<le> f'"
proof -
  from assms(3) obtain k where k: "k \<in> set (conversation_reply_claims d)" "k_SourceMessageID k = i" "k_CurrentFence k = f"
    by (auto simp: reply_fence_def dest: claim_of_Some)
  from step_evolves [OF assms(2)] k obtain k' where k': "k' \<in> set (conversation_reply_claims d')" "claim_evolves k k'"
    by (auto simp: evolves_def dest: grownD)
  have "conversation_ok d'" using step_core_ok [OF assms(1,2)] by (simp add: core_ok_def)
  from claim_of_row [OF this k'(1)] k k'(2) show ?thesis by (auto simp: reply_fence_def claim_evolves_def)
qed

lemma stale_reply_refused:
  assumes "core_ok d" "reply_fence (cm_SourceMessageID c) d \<noteq> Some (cm_Fence c)"
  shows "\<exists>e. CommitConversationReply c E d = (Inl e, d)"
  unfolding CommitConversationReply_def
proof (intro checked_refuses transact_refuses notI)
  fix cand x d' n assume "CommitConversationReply_tx c cand E d 0 = Inr (x, d', n)"
  moreover obtain ca dg where "cand = (ca, dg)" by (cases cand)
  ultimately obtain k where "k \<in> set (conversation_reply_claims d)" "k_SourceMessageID k = cm_SourceMessageID c"
    "k_CurrentFence k = cm_Fence c"
    using CommitConversationReply_tx_effect assms(1) by (fastforce simp: core_ok_def)
  with claim_of_row [of d k] assms show False by (simp add: core_ok_def reply_fence_def)
qed

lemma stale_reply_renewal_refused:
  assumes "core_ok d" "reply_fence (rn_SourceMessageID c) d \<noteq> Some (rn_Fence c)"
  shows "\<exists>e. RenewConversationReply c E d = (Inl e, d)"
  unfolding RenewConversationReply_def
proof (intro checked_refuses transact_refuses notI)
  fix x d' n assume "RenewConversationReply_tx c E d 0 = Inr (x, d', n)"
  then obtain k where "k \<in> set (conversation_reply_claims d)" "k_SourceMessageID k = rn_SourceMessageID c"
    "k_CurrentFence k = rn_Fence c"
    by (auto simp: RenewConversationReply_tx_def tx_simps sql_LockConversationReplyForRenew_def claim_held_def
        dest!: first_where_Some)
  with claim_of_row [of d k] assms show False by (simp add: core_ok_def reply_fence_def)
qed

interpretation reply_lease: fenced_lease server_step core_ok reply_fence CommitConversationReply cm_SourceMessageID cm_Fence
  by unfold_locales (auto intro: step_core_ok reply_fence_rises stale_reply_refused)

interpretation reply_renewal_lease: fenced_lease server_step core_ok reply_fence RenewConversationReply
    rn_SourceMessageID rn_Fence
  by unfold_locales (auto intro: step_core_ok reply_fence_rises stale_reply_renewal_refused)

end
