(* ===== verification/Replayed_Commands.thy ===== *)
theory Replayed_Commands
  imports Fenced_Leases
begin

text \<open>
  The contract of a command with an idempotency key. Its first success leaves a record, the
  record is never lost, and a command that finds its record changes nothing and answers with
  the recorded object. So however often a client repeats a command whose answer it missed, and
  whatever happens in between, the command takes effect at most once. The locale is
  interpreted on the six commands of the stores that carry a key or a fenced identity.
\<close>

locale replayed_command =
  fixes step :: "db \<Rightarrow> db \<Rightarrow> bool"
    and ok :: "db \<Rightarrow> bool"
    and exec :: "'c \<Rightarrow> env \<Rightarrow> db \<Rightarrow> (carry_error + 'r) \<times> db"
    and recorded :: "'c \<Rightarrow> 'i \<Rightarrow> db \<Rightarrow> bool"
    and ident :: "'r \<Rightarrow> 'i"
  assumes step_ok: "ok d \<Longrightarrow> step d d' \<Longrightarrow> ok d'"
    and exec_step: "exec c E d = (y, d') \<Longrightarrow> step d d'"
    and recorded_kept: "ok d \<Longrightarrow> step d d' \<Longrightarrow> recorded c i d \<Longrightarrow> recorded c i d'"
    and records: "ok d \<Longrightarrow> exec c E d = (y, d') \<Longrightarrow> y = Inr r \<or> d' \<noteq> d
          \<Longrightarrow> \<exists>i. recorded c i d' \<and> (\<forall>r. y = Inr r \<longrightarrow> ident r = i)"
    and replays: "ok d \<Longrightarrow> recorded c i d \<Longrightarrow> exec c E d = (y, d') \<Longrightarrow> d' = d \<and> (\<forall>r. y = Inr r \<longrightarrow> ident r = i)"
begin

lemma steps_ok: "step\<^sup>*\<^sup>* d d' \<Longrightarrow> ok d \<Longrightarrow> ok d'"
  by (induction rule: rtranclp_induct) (auto intro: step_ok)

lemma recorded_kept_steps: "step\<^sup>*\<^sup>* d d' \<Longrightarrow> ok d \<Longrightarrow> recorded c i d \<Longrightarrow> recorded c i d'"
  by (induction rule: rtranclp_induct) (auto intro: recorded_kept dest: steps_ok)

lemma at_most_once:
  assumes "ok d" "exec c E d = (y, d1)" "y = Inr r \<or> d1 \<noteq> d" "step\<^sup>*\<^sup>* d1 d2" "exec c E' d2 = (y', d3)"
  shows "d3 = d2 \<and> (\<forall>a b. y = Inr a \<longrightarrow> y' = Inr b \<longrightarrow> ident b = ident a)"
proof -
  from records [OF assms(1,2,3)] obtain i where i: "recorded c i d1" "\<forall>r. y = Inr r \<longrightarrow> ident r = i" by blast
  have ok1: "ok d1" using step_ok [OF assms(1) exec_step [OF assms(2)]] .
  from replays [OF steps_ok [OF assms(4) ok1] recorded_kept_steps [OF assms(4) ok1 i(1)] assms(5)] i(2)
  show ?thesis by simp
qed

end

section \<open>Effects of a method call\<close>

definition effective :: "db \<Rightarrow> carry_error + 'r \<Rightarrow> db \<Rightarrow> bool" where
  "effective d y d' \<longleftrightarrow> (\<exists>r. y = Inr r) \<or> d' \<noteq> d"

lemma effectiveI: "y = Inr r \<or> d' \<noteq> d \<Longrightarrow> effective d y d'"
  by (auto simp: effective_def)

lemma transact_effective:
  assumes "transact m E d = (y, d')" "effective d y d'"
  shows "\<exists>x n. m E d 0 = Inr (x, d', n) \<and> (\<forall>r. y = Inr r \<longrightarrow> r = x)"
  using assms by (auto simp: transact_def effective_def split: if_splits sum.splits commit_outcome.splits)

lemma checked_effective:
  assumes "checked r f E d = (y, d')" "effective d y d'"
  shows "\<exists>x. r = Inr x \<and> f x E d = (y, d')"
  using assms by (cases r) (auto simp: checked_def effective_def)

lemma checked_effectiveE:
  assumes "checked r f E d = (y, d')" "effective d y d'"
  obtains x where "r = Inr x" "f x E d = (y, d')"
  using checked_effective [OF assms] by blast

text \<open>A body that changes nothing, and whose results all satisfy \<open>P\<close>.\<close>

lemma transact_unchanged:
  assumes "\<And>x d' n. m E d 0 = Inr (x, d', n) \<Longrightarrow> d' = d \<and> P x" "transact m E d = (y, d')"
  shows "d' = d \<and> (\<forall>r. y = Inr r \<longrightarrow> P r)"
  using assms by (auto simp: transact_def split: if_splits sum.splits commit_outcome.splits)

lemma checked_unchanged:
  assumes "\<And>x. r = Inr x \<Longrightarrow> f x E d = (y, d') \<Longrightarrow> d' = d \<and> (\<forall>r. y = Inr r \<longrightarrow> P r)" "checked r f E d = (y, d')"
  shows "d' = d \<and> (\<forall>r. y = Inr r \<longrightarrow> P r)"
  using assms by (cases r) (auto simp: checked_def)

lemma served_step:
  "CreateWork c E d = (y1, d') \<Longrightarrow> server_step d d'"
  "AppendWorkMessage a E d = (y2, d') \<Longrightarrow> server_step d d'"
  "AcceptWorkReview b E d = (y3, d') \<Longrightarrow> server_step d d'"
  "RequestWorkRetry e E d = (y4, d') \<Longrightarrow> server_step d d'"
  "SendConversationMessage s E d = (y5, d') \<Longrightarrow> server_step d d'"
  "CommitConversationReply g E d = (y6, d') \<Longrightarrow> server_step d d'"
  "ClaimRun i E d = (y7, d') \<Longrightarrow> server_step d d'"
  "ClaimConversationReply i E d = (y8, d') \<Longrightarrow> server_step d d'"
  "CommitWorkUnderstanding h E d = (y9, d') \<Longrightarrow> server_step d d'"
  using server_step.served [of d "Create_work c" E] server_step.served [of d "Append_message a" E]
    server_step.served [of d "Accept_review b" E] server_step.served [of d "Request_retry e" E]
    server_step.served [of d "Send_message s" E] server_step.served [of d "Commit_reply g" E]
    server_step.served [of d "Claim_run i" E] server_step.served [of d "Claim_reply i" E]
    server_step.served [of d "Commit_understanding h" E] by simp_all

section \<open>Creating a Work\<close>

definition work_recorded :: "create_command \<Rightarrow> string \<Rightarrow> string \<Rightarrow> uuid \<Rightarrow> work_row \<Rightarrow> bool" where
  "work_recorded command goal key i w \<longleftrightarrow> w_WorkID w = i
     \<and> create_key w = (cr_SpaceID command, cr_CreatorUserID command, key)
     \<and> w_CreateRequestDigest w = CreateDigest (cr_SpaceID command) (cr_CreatorUserID command) goal"

definition create_recorded :: "create_command \<Rightarrow> uuid \<Rightarrow> db \<Rightarrow> bool" where
  "create_recorded command i d \<longleftrightarrow> (\<exists>goal key. NormalizeGoal (cr_Goal command) = Inr goal
     \<and> NormalizeIdempotencyKey (cr_IdempotencyKey command) = Inr key
     \<and> (\<exists>w \<in> set (works d). work_recorded command goal key i w))"

lemma find_by_create_key:
  assumes "works_ok (works d)" "w \<in> set (works d)" "create_key w = k"
  shows "first_where (\<lambda>w. create_key w = k) (works d) = Some w"
  by (rule unique_update_first(1) [of create_key, OF _ assms(2)]) (use assms in \<open>auto simp: works_ok_def\<close>)

lemma CreateWork_tx_records:
  assumes "CreateWork_tx command goal key (CreateDigest (cr_SpaceID command) (cr_CreatorUserID command) goal) E d n
      = Inr (v, d', n')"
  shows "\<exists>w \<in> set (works d'). work_recorded command goal key (vw_WorkID v) w"
proof -
  let ?D = "CreateDigest (cr_SpaceID command) (cr_CreatorUserID command) goal"
  let ?w = "new_work E (fresh E 0) (cr_SpaceID command) goal (cr_CreatorUserID command) (cr_CreatorUserID command) key ?D"
  from assms obtain row d1 where c: "sql_CreateWork ?w d = Inr (row, d1)" and d': "d' = d1"
    and rest: "(\<exists>x. row = Some x \<and> v = workFromCreateRow x)
      \<or> (\<exists>w o1 o2. sql_FindWorkByCreateIdempotency (cr_SpaceID command) (cr_CreatorUserID command) key d1 = Some (w, o1, o2)
          \<and> w_CreateRequestDigest w = ?D \<and> v = workFromIdempotencyRow d1 (w, o1, o2))"
    by (auto simp: CreateWork_tx_def tx_simps)
  from rest show ?thesis
  proof (elim disjE exE conjE)
    fix x assume x: "row = Some x" "v = workFromCreateRow x"
    obtain w o1 o2 where w: "x = (w, o1, o2)" by (cases x)
    from c x w have "w = ?w" "?w \<in> set (works d1)"
      by (auto simp: w dest!: joined_work_Some sym [of "Some _" "joined_work _ _"] elim!: sql_CreateWork_cases)
    then show ?thesis
      using x w d' by (intro bexI [of _ w]) (simp_all add: workFromCreateRow_def work_recorded_def create_key_def new_work_def)
  next
    fix w o1 o2
    assume f: "sql_FindWorkByCreateIdempotency (cr_SpaceID command) (cr_CreatorUserID command) key d1 = Some (w, o1, o2)"
      and "w_CreateRequestDigest w = ?D" "v = workFromIdempotencyRow d1 (w, o1, o2)"
    moreover have "w \<in> set (works d1)" "create_key w = (cr_SpaceID command, cr_CreatorUserID command, key)"
      using first_where_Some [OF joined_work_Some [OF f [unfolded sql_FindWorkByCreateIdempotency_def]]] by auto
    ultimately show ?thesis
      using d' by (intro bexI [of _ w]) (simp_all add: work_recorded_def workFromIdempotencyRow_def workFromCreateRow_def)
  qed
qed

lemma CreateWork_tx_replays:
  assumes "CreateWork_tx command goal key (CreateDigest (cr_SpaceID command) (cr_CreatorUserID command) goal) E d n
      = Inr (v, d', n')" "works_ok (works d)" "w \<in> set (works d)" "work_recorded command goal key i w"
  shows "d' = d \<and> vw_WorkID v = i"
proof -
  have k: "create_key w = (cr_SpaceID command, cr_CreatorUserID command, key)"
    using assms(4) by (simp add: work_recorded_def)
  then have taken: "key_taken create_key (\<lambda>_. True) (cr_SpaceID command, cr_CreatorUserID command, key) (works d)"
    using assms(3) by (auto simp: key_taken_iff)
  show ?thesis
    using assms(1,4) taken find_by_create_key [OF assms(2,3) k]
    by (auto simp: CreateWork_tx_def tx_simps sql_CreateWork_def create_key_def new_work_def
        sql_FindWorkByCreateIdempotency_def joined_work_def workFromCreateRow_def workFromIdempotencyRow_def
        work_recorded_def split: option.split_asm)
qed

lemma create_records:
  assumes "CreateWork c E d = (y, d')" "y = Inr r \<or> d' \<noteq> d"
  shows "\<exists>i. create_recorded c i d' \<and> (\<forall>r. y = Inr r \<longrightarrow> vw_WorkID r = i)"
proof -
  note eff = effectiveI [OF assms(2)]
  from assms(1) [unfolded CreateWork_def] obtain goal key where
    g: "NormalizeGoal (cr_Goal c) = Inr goal" and k: "NormalizeIdempotencyKey (cr_IdempotencyKey c) = Inr key"
    and t: "transact (CreateWork_tx c goal key (CreateDigest (cr_SpaceID c) (cr_CreatorUserID c) goal)) E d = (y, d')"
    by (auto elim!: checked_effectiveE [OF _ eff])
  from transact_effective [OF t eff] obtain v n where
    "CreateWork_tx c goal key (CreateDigest (cr_SpaceID c) (cr_CreatorUserID c) goal) E d 0 = Inr (v, d', n)"
    and v: "\<forall>r. y = Inr r \<longrightarrow> r = v" by blast
  from CreateWork_tx_records [OF this(1)] g k v show ?thesis unfolding create_recorded_def by blast
qed

lemma create_replays:
  assumes "core_ok d" "create_recorded c i d" "CreateWork c E d = (y, d')"
  shows "d' = d \<and> (\<forall>r. y = Inr r \<longrightarrow> vw_WorkID r = i)"
proof -
  from assms(2) obtain goal key w where g: "NormalizeGoal (cr_Goal c) = Inr goal"
    "NormalizeIdempotencyKey (cr_IdempotencyKey c) = Inr key"
    and w: "w \<in> set (works d)" "work_recorded c goal key i w" unfolding create_recorded_def by blast
  have works: "works_ok (works d)" using assms(1) by (simp add: core_ok_def execution_ok_def work_state_ok_def)
  show ?thesis
    using assms(3) [unfolded CreateWork_def]
  proof (elim checked_unchanged [rotated] transact_unchanged [rotated])
    fix goal' u key' x d1 n
    assume "NormalizeGoal (cr_Goal c) = Inr goal'" "NormalizeIdempotencyKey (cr_IdempotencyKey c) = Inr key'"
      "CreateWork_tx c goal' key' (CreateDigest (cr_SpaceID c) (cr_CreatorUserID c) goal') E d 0 = Inr (x, d1, n)"
    then show "d1 = d \<and> vw_WorkID x = i"
      using CreateWork_tx_replays [OF _ works w, of E 0 x d1 n] g by simp
  qed
qed

lemma create_recorded_kept:
  assumes "core_ok d" "server_step d d'" "create_recorded c i d"
  shows "create_recorded c i d'"
proof -
  from assms(3) obtain goal key w where g: "NormalizeGoal (cr_Goal c) = Inr goal"
    "NormalizeIdempotencyKey (cr_IdempotencyKey c) = Inr key"
    and w: "w \<in> set (works d)" "work_recorded c goal key i w" unfolding create_recorded_def by blast
  from step_evolves [OF assms(2)] w(1) obtain w' where "w' \<in> set (works d')" "work_evolves w w'"
    by (auto simp: evolves_def dest: grownD)
  with w(2) have "\<exists>w \<in> set (works d'). work_recorded c goal key i w"
    by (intro bexI [of _ w']) (auto simp: work_recorded_def work_evolves_def create_key_def)
  with g show ?thesis unfolding create_recorded_def by blast
qed

interpretation create_once: replayed_command server_step core_ok CreateWork create_recorded vw_WorkID
proof unfold_locales
  fix d c E y d' r
  assume "CreateWork c E d = (y, d')" "y = Inr r \<or> d' \<noteq> d"
  then show "\<exists>i. create_recorded c i d' \<and> (\<forall>r. y = Inr r \<longrightarrow> vw_WorkID r = i)" by (rule create_records)
qed (fact step_core_ok served_step create_recorded_kept create_replays)+

section \<open>Appending a message\<close>

definition message_recorded :: "append_command \<Rightarrow> string \<Rightarrow> uuid \<times> int \<Rightarrow> work_message_row \<Rightarrow> bool" where
  "message_recorded command key i m \<longleftrightarrow> (wm_MessageID m, wm_InputSeq m) = i
     \<and> message_key m = (ap_WorkID command, ap_AuthorUserID command, key)
     \<and> wm_RequestDigest m = WorkMessageDigest (ap_WorkID command) (ap_AuthorUserID command) (ap_Text command)"

definition append_recorded :: "append_command \<Rightarrow> uuid \<times> int \<Rightarrow> db \<Rightarrow> bool" where
  "append_recorded command i d \<longleftrightarrow> (\<exists>key. NormalizeIdempotencyKey (ap_IdempotencyKey command) = Inr key
     \<and> (\<exists>m \<in> set (work_messages d). message_recorded command key i m))"

definition message_ident :: "message_view \<Rightarrow> uuid \<times> int" where
  "message_ident v = (mv_MessageID v, mv_InputSeq v)"

lemma messageFromRow_Some: "messageFromRow d m = Some v \<Longrightarrow> message_ident v = (wm_MessageID m, wm_InputSeq m)"
  by (auto simp: messageFromRow_def message_ident_def)

lemma AppendWorkMessage_tx_records:
  assumes "AppendWorkMessage_tx command key (WorkMessageDigest (ap_WorkID command) (ap_AuthorUserID command) (ap_Text command))
      E d n = Inr (v, d', n')" (is "AppendWorkMessage_tx _ _ ?D _ _ _ = _")
  shows "\<exists>m \<in> set (work_messages d'). message_recorded command key (message_ident v) m"
proof -
  from assms have "(sql_FindWorkMessageByIdempotency (ap_WorkID command) (ap_AuthorUserID command) key d = Some (?D, v) \<and> d' = d)
      \<or> (\<exists>s d1. sql_CreateWorkMessage (new_message E command s key ?D) d1 = Inr (v, d'))"
    by (auto simp: AppendWorkMessage_tx_def tx_simps)
  then show ?thesis
  proof (elim disjE exE conjE)
    assume "sql_FindWorkMessageByIdempotency (ap_WorkID command) (ap_AuthorUserID command) key d = Some (?D, v)" "d' = d"
    then show ?thesis
      by (auto simp: sql_FindWorkMessageByIdempotency_def message_recorded_def message_key_def
          split: option.split_asm dest!: first_where_Some messageFromRow_Some intro!: bexI)
  next
    fix s d1 assume c: "sql_CreateWorkMessage (new_message E command s key ?D) d1 = Inr (v, d')"
    then have "messageFromRow d1 (new_message E command s key ?D) = Some v"
      "new_message E command s key ?D \<in> set (work_messages d')"
      by (auto simp: sql_CreateWorkMessage_def split: if_split_asm option.split_asm)
    from messageFromRow_Some [OF this(1)] this(2) show ?thesis
      by (intro bexI [of _ "new_message E command s key ?D"])
        (simp_all add: message_recorded_def message_key_def new_message_def)
  qed
qed

lemma AppendWorkMessage_tx_replays:
  assumes "AppendWorkMessage_tx command key (WorkMessageDigest (ap_WorkID command) (ap_AuthorUserID command) (ap_Text command))
      E d n = Inr (v, d', n')" (is "AppendWorkMessage_tx _ _ ?D _ _ _ = _")
    and "execution_ok d" "m \<in> set (work_messages d)" "message_recorded command key i m"
  shows "d' = d \<and> message_ident v = i"
proof -
  have k: "message_key m = (ap_WorkID command, ap_AuthorUserID command, key)"
    using assms(4) by (simp add: message_recorded_def)
  have f: "first_where (\<lambda>x. wm_WorkID x = ap_WorkID command \<and> wm_AuthorUserID x = ap_AuthorUserID command
      \<and> wm_IdempotencyKey x = key) (work_messages d) = Some m"
    by (rule unique_update_first(1) [of message_key, OF _ assms(3)])
      (use assms(2) k in \<open>auto simp: execution_ok_def work_state_ok_def messages_ok_def message_key_def\<close>)
  show ?thesis
  proof (cases "messageFromRow d m")
    case (Some w)
    with f have "sql_FindWorkMessageByIdempotency (ap_WorkID command) (ap_AuthorUserID command) key d = Some (?D, w)"
      using assms(4) by (simp add: sql_FindWorkMessageByIdempotency_def message_recorded_def)
    with assms(1,4) messageFromRow_Some [OF Some] show ?thesis
      by (auto simp: AppendWorkMessage_tx_def tx_simps message_recorded_def)
  next
    case None
    have taken: "key_taken message_key (\<lambda>_. True) (message_key m) (work_messages d)"
      using assms(3) by (auto simp: key_taken_iff)
    show ?thesis
    proof (cases "d' = d")
      case True
      from None f have "sql_FindWorkMessageByIdempotency (ap_WorkID command) (ap_AuthorUserID command) key d = None"
        by (simp add: sql_FindWorkMessageByIdempotency_def)
      with assms(1) obtain s d1 where "sql_AdvanceWorkInputHead (ap_WorkID command) d = (Some s, d1)"
        "sql_CreateWorkMessage (new_message E command s key ?D) d1 = Inr (v, d')"
        by (auto simp: AppendWorkMessage_tx_def tx_simps)
      then have "length (work_messages d') = Suc (length (work_messages d))"
        by (auto simp: sql_AdvanceWorkInputHead_def sql_CreateWorkMessage_def Let_def
            split: if_split_asm option.split_asm)
      with True show ?thesis by simp
    next
      case False
      with AppendWorkMessage_tx_effect [OF assms(1,2)] obtain s where
        "\<not> key_taken message_key (\<lambda>_. True) (message_key (new_message E command s key ?D)) (work_messages d)"
        unfolding Let_def by blast
      with taken k show ?thesis by (simp add: message_key_def new_message_def)
    qed
  qed
qed

lemma append_records:
  assumes "AppendWorkMessage c E d = (y, d')" "y = Inr r \<or> d' \<noteq> d"
  shows "\<exists>i. append_recorded c i d' \<and> (\<forall>r. y = Inr r \<longrightarrow> message_ident r = i)"
proof -
  note eff = effectiveI [OF assms(2)]
  from assms(1) [unfolded AppendWorkMessage_def] obtain key where
    k: "NormalizeIdempotencyKey (ap_IdempotencyKey c) = Inr key" and
    t: "transact (AppendWorkMessage_tx c key (WorkMessageDigest (ap_WorkID c) (ap_AuthorUserID c) (ap_Text c))) E d = (y, d')"
    by (auto elim!: checked_effectiveE [OF _ eff])
  from transact_effective [OF t eff] obtain v n where
    "AppendWorkMessage_tx c key (WorkMessageDigest (ap_WorkID c) (ap_AuthorUserID c) (ap_Text c)) E d 0 = Inr (v, d', n)"
    and v: "\<forall>r. y = Inr r \<longrightarrow> r = v" by blast
  from AppendWorkMessage_tx_records [OF this(1)] k v show ?thesis unfolding append_recorded_def by blast
qed

lemma append_replays:
  assumes "core_ok d" "append_recorded c i d" "AppendWorkMessage c E d = (y, d')"
  shows "d' = d \<and> (\<forall>r. y = Inr r \<longrightarrow> message_ident r = i)"
proof -
  from assms(2) obtain key m where k: "NormalizeIdempotencyKey (ap_IdempotencyKey c) = Inr key"
    and m: "m \<in> set (work_messages d)" "message_recorded c key i m" unfolding append_recorded_def by blast
  have ex: "execution_ok d" using assms(1) by (simp add: core_ok_def)
  show ?thesis
    using assms(3) [unfolded AppendWorkMessage_def]
  proof (elim checked_unchanged [rotated] transact_unchanged [rotated])
    fix u u' key' x d1 n
    assume "NormalizeIdempotencyKey (ap_IdempotencyKey c) = Inr key'"
      "AppendWorkMessage_tx c key' (WorkMessageDigest (ap_WorkID c) (ap_AuthorUserID c) (ap_Text c)) E d 0 = Inr (x, d1, n)"
    then show "d1 = d \<and> message_ident x = i"
      using AppendWorkMessage_tx_replays [OF _ ex m, of E 0 x d1 n] k by simp
  qed
qed

lemma append_recorded_kept:
  assumes "core_ok d" "server_step d d'" "append_recorded c i d"
  shows "append_recorded c i d'"
  using assms(3) step_evolves [OF assms(2)]
  unfolding append_recorded_def evolves_def grown_def by blast

interpretation append_once: replayed_command server_step core_ok AppendWorkMessage append_recorded message_ident
proof unfold_locales
  fix d c E y d' r
  assume "AppendWorkMessage c E d = (y, d')" "y = Inr r \<or> d' \<noteq> d"
  then show "\<exists>i. append_recorded c i d' \<and> (\<forall>r. y = Inr r \<longrightarrow> message_ident r = i)" by (rule append_records)
qed (fact step_core_ok served_step append_recorded_kept append_replays)+

section \<open>Requesting a retry\<close>

definition retry_recorded :: "retry_command \<Rightarrow> unit \<Rightarrow> db \<Rightarrow> bool" where
  "retry_recorded command i d \<longleftrightarrow> (\<exists>key. NormalizeIdempotencyKey (re_IdempotencyKey command) = Inr key
     \<and> (\<exists>r \<in> set (runs d). r_WorkID r = re_WorkID command \<and> r_RetryIdempotencyKey r = Some key
          \<and> r_RetryRequestedByUserID r = Some (re_RequestedBy command)))"

lemma textValue_eq: "textValue v = s \<Longrightarrow> s \<noteq> [] \<Longrightarrow> v = Some s"
  by (cases v) (auto simp: textValue_def)

lemma RequestWorkRetry_tx_records:
  assumes "RequestWorkRetry_tx command key E d n = Inr (v, d', n')" "execution_ok d" "re_RequestedBy command \<noteq> []"
  shows "\<exists>r \<in> set (runs d'). r_WorkID r = re_WorkID command \<and> r_RetryIdempotencyKey r = Some key
          \<and> r_RetryRequestedByUserID r = Some (re_RequestedBy command)"
proof (cases "sql_FindRunRetryByIdempotency (re_WorkID command) key d")
  case (Some u)
  with assms(1) have "u = re_RequestedBy command" "d' = d"
    by (auto simp: RequestWorkRetry_tx_def tx_simps)
  with Some assms(3) show ?thesis
    by (fastforce simp: sql_FindRunRetryByIdempotency_def dest!: first_where_Some textValue_eq)
next
  case None
  with assms(1) obtain x now d1 where x: "sql_LockRetryableRun (re_WorkID command) d = Some x"
    and upd: "sql_RequestRunRetry (re_RequestedBy command) key x now d = (1, d')"
    by (auto simp: RequestWorkRetry_tx_def tx_simps)
  from upd have one: "count_where (\<lambda>r. r_RunID r = x \<and> retryable r) (runs d) = 1"
    and d': "runs d' = update_where (\<lambda>r. r_RunID r = x \<and> retryable r) (retried_run (re_RequestedBy command) key now) (runs d)"
    by (auto simp: sql_RequestRunRetry_def Let_def retried_run_def [abs_def])
  from count_where_eq_1_ex [OF one] obtain r where r: "r \<in> set (runs d)" "r_RunID r = x" "retryable r" by blast
  from x obtain q where q: "first_row (order_by_desc completed_order
      (filter (\<lambda>r. r_WorkID r = re_WorkID command \<and> retryable r) (runs d))) = Some q" "r_RunID q = x"
    by (auto simp: sql_LockRetryableRun_def)
  have "q = r"
    using unique_onD [of r_RunID "\<lambda>_. True" "runs d" q r] first_row_in [OF q(1)] q r assms(2)
    by (simp add: execution_ok_def work_state_ok_def runs_ok_def)
  with first_row_in [OF q(1)] have "r_WorkID r = re_WorkID command" by simp
  with r show ?thesis unfolding d' update_where_bex
    by (intro bexI [of _ r]) (auto simp: retried_run_def)
qed

lemma RequestWorkRetry_tx_replays:
  assumes "RequestWorkRetry_tx command key E d n = Inr (v, d', n')" "r \<in> set (runs d)"
    "r_WorkID r = re_WorkID command" "r_RetryIdempotencyKey r = Some key"
  shows "d' = d"
proof (cases "sql_FindRunRetryByIdempotency (re_WorkID command) key d")
  case (Some u)
  with assms(1) show ?thesis by (auto simp: RequestWorkRetry_tx_def tx_simps)
next
  case None
  with assms(2-) show ?thesis by (auto simp: sql_FindRunRetryByIdempotency_def first_where_None)
qed

lemma retry_records:
  assumes "core_ok d" "RequestWorkRetry c E d = (y, d')" "y = Inr r \<or> d' \<noteq> d"
  shows "\<exists>i. retry_recorded c i d' \<and> (\<forall>r. y = Inr r \<longrightarrow> r = i)"
proof -
  note eff = effectiveI [OF assms(3)]
  from assms(2) [unfolded RequestWorkRetry_def] obtain key where
    g: "trim_space (re_RequestedBy c) \<noteq> []" and
    k: "NormalizeIdempotencyKey (re_IdempotencyKey c) = Inr key" and
    t: "transact (RequestWorkRetry_tx c key) E d = (y, d')"
    by (auto simp: guard_Inr elim!: checked_effectiveE [OF _ eff])
  from transact_effective [OF t eff] obtain v n where "RequestWorkRetry_tx c key E d 0 = Inr (v, d', n)" by blast
  from RequestWorkRetry_tx_records [OF this] assms(1) g k show ?thesis
    unfolding retry_recorded_def core_ok_def using trim_space_length [of "[]"] by fastforce
qed

lemma retry_replays:
  assumes "core_ok d" "retry_recorded c i d" "RequestWorkRetry c E d = (y, d')"
  shows "d' = d \<and> (\<forall>r. y = Inr r \<longrightarrow> r = i)"
  using assms(3) [unfolded RequestWorkRetry_def]
proof (elim checked_unchanged [rotated] transact_unchanged [rotated])
  fix u key x d1 n
  assume "NormalizeIdempotencyKey (re_IdempotencyKey c) = Inr key" "RequestWorkRetry_tx c key E d 0 = Inr (x, d1, n)"
  with RequestWorkRetry_tx_replays [OF this(2)] assms(2) show "d1 = d \<and> x = i" unfolding retry_recorded_def by auto
qed

lemma retry_recorded_kept:
  assumes "core_ok d" "server_step d d'" "retry_recorded c i d"
  shows "retry_recorded c i d'"
proof -
  from assms(3) obtain key r where k: "NormalizeIdempotencyKey (re_IdempotencyKey c) = Inr key"
    and r: "r \<in> set (runs d)" "r_WorkID r = re_WorkID c" "r_RetryIdempotencyKey r = Some key"
      "r_RetryRequestedByUserID r = Some (re_RequestedBy c)"
    unfolding retry_recorded_def by blast
  have "run_row_ok r" using assms(1) r(1) by (simp add: core_ok_def execution_ok_def work_state_ok_def runs_ok_def)
  then have "r_RetryRequestedAt r \<noteq> None" "r_State r \<noteq> StateActive"
    using r by (auto simp: run_row_ok_def state_in_failed_unknown_def)
  moreover from step_evolves [OF assms(2)] r(1) obtain r' where "r' \<in> set (runs d')" "run_evolves r r'"
    by (auto simp: evolves_def dest: grownD)
  ultimately have "r \<in> set (runs d')" by (simp add: run_evolves_def)
  with k r show ?thesis unfolding retry_recorded_def by blast
qed

interpretation retry_once: replayed_command server_step core_ok RequestWorkRetry retry_recorded "\<lambda>u. u"
  by unfold_locales (fact step_core_ok served_step retry_recorded_kept retry_replays retry_records)+

section \<open>Accepting a review\<close>

definition accepted_by :: "accept_review_command \<Rightarrow> string \<Rightarrow> result_check_row \<Rightarrow> bool" where
  "accepted_by command key c \<longleftrightarrow> rc_WorkID c = ac_WorkID command \<and> rc_ReviewID c = ac_ReviewID command
     \<and> rc_AcceptedByUserID c = Some (ac_AcceptedBy command) \<and> rc_AcceptIdempotencyKey c = Some key
     \<and> rc_AcceptRequestDigest c = Some (ReviewAcceptanceDigest (ac_WorkID command) (ac_ReviewID command))
     \<and> rc_AcceptedAt c \<noteq> None"

definition accept_recorded :: "accept_review_command \<Rightarrow> unit \<Rightarrow> db \<Rightarrow> bool" where
  "accept_recorded command i d \<longleftrightarrow> (\<exists>key. NormalizeIdempotencyKey (ac_IdempotencyKey command) = Inr key
     \<and> (\<exists>c \<in> set (work_result_checks d). accepted_by command key c))"

lemma AcceptWorkReview_tx_records:
  assumes "AcceptWorkReview_tx command key (ReviewAcceptanceDigest (ac_WorkID command) (ac_ReviewID command)) E d n = Inr (v, d', n')"
    (is "AcceptWorkReview_tx _ _ ?D _ _ _ = _")
    and "execution_ok d" "ac_AcceptedBy command \<noteq> []" "key \<noteq> []"
  shows "\<exists>c \<in> set (work_result_checks d'). accepted_by command key c"
proof -
  have D: "?D \<noteq> []" using length_digests(4) [of "ac_WorkID command" "ac_ReviewID command"] by fastforce
  from assms(1) have "(\<exists>i. sql_FindWorkReviewAcceptanceByIdempotency (ac_WorkID command) (ac_SpaceID command)
        (ac_AcceptedBy command) key d = Some (i, ?D) \<and> i = ac_ReviewID command \<and> d' = d)
    \<or> (\<exists>c. sql_LockWorkResultCheck (ac_WorkID command) (ac_ReviewID command) d = Some c \<and> rc_AcceptedAt c \<noteq> None
        \<and> textValue (rc_AcceptedByUserID c) = ac_AcceptedBy command \<and> textValue (rc_AcceptIdempotencyKey c) = key
        \<and> textValue (rc_AcceptRequestDigest c) = ?D \<and> d' = d)
    \<or> (\<exists>now. sql_AcceptWorkResultCheck (ac_AcceptedBy command) key ?D (ac_WorkID command) (ac_ReviewID command) now d = (1, d'))"
    unfolding AcceptWorkReview_tx_def by (auto simp: tx_simps)
  then show ?thesis
  proof (elim disjE exE conjE)
    fix i assume "sql_FindWorkReviewAcceptanceByIdempotency (ac_WorkID command) (ac_SpaceID command)
        (ac_AcceptedBy command) key d = Some (i, ?D)" "i = ac_ReviewID command" "d' = d"
    then show ?thesis
      using D by (fastforce simp: sql_FindWorkReviewAcceptanceByIdempotency_def accepted_by_def
          dest!: first_where_Some textValue_eq)
  next
    fix c assume c: "sql_LockWorkResultCheck (ac_WorkID command) (ac_ReviewID command) d = Some c" "rc_AcceptedAt c \<noteq> None"
      "textValue (rc_AcceptedByUserID c) = ac_AcceptedBy command" "textValue (rc_AcceptIdempotencyKey c) = key"
      "textValue (rc_AcceptRequestDigest c) = ?D" "d' = d"
    from textValue_eq [OF c(3) assms(3)] textValue_eq [OF c(4) assms(4)] textValue_eq [OF c(5) D] c(1,2,6) show ?thesis
      by (intro bexI [of _ c]) (auto simp: sql_LockWorkResultCheck_def accepted_by_def dest: first_where_Some)
  next
    fix now assume upd: "sql_AcceptWorkResultCheck (ac_AcceptedBy command) key ?D (ac_WorkID command) (ac_ReviewID command) now d = (1, d')"
    let ?P = "\<lambda>c. rc_WorkID c = ac_WorkID command \<and> rc_ReviewID c = ac_ReviewID command \<and> rc_AcceptedAt c = None"
    from upd have one: "count_where ?P (work_result_checks d) = 1"
      and d': "work_result_checks d' = update_where ?P (accepted_check (ac_AcceptedBy command) key ?D now) (work_result_checks d)"
      by (auto simp: sql_AcceptWorkResultCheck_def Let_def accepted_check_def [abs_def])
    from count_where_eq_1_ex [OF one] obtain c where "c \<in> set (work_result_checks d)" "?P c" by blast
    then show ?thesis unfolding d' update_where_bex
      by (intro bexI [of _ c]) (auto simp: accepted_check_def accepted_by_def)
  qed
qed

lemma AcceptWorkReview_tx_replays:
  assumes "AcceptWorkReview_tx command key (ReviewAcceptanceDigest (ac_WorkID command) (ac_ReviewID command)) E d n = Inr (v, d', n')"
    and "execution_ok d" "c \<in> set (work_result_checks d)" "accepted_by command key c"
  shows "d' = d"
proof (rule ccontr)
  assume "d' \<noteq> d"
  with AcceptWorkReview_tx_effect [OF assms(1,2)] obtain b where
    "\<not> key_taken accept_key is_accepted (ac_WorkID command, Some (ac_AcceptedBy command), Some key) (work_result_checks d)"
    by blast
  with assms(3,4) show False by (auto simp: key_taken_iff accept_key_def is_accepted_def accepted_by_def)
qed

lemma accept_records:
  assumes "core_ok d" "AcceptWorkReview c E d = (y, d')" "y = Inr r \<or> d' \<noteq> d"
  shows "\<exists>i. accept_recorded c i d' \<and> (\<forall>r. y = Inr r \<longrightarrow> r = i)"
proof -
  note eff = effectiveI [OF assms(3)]
  from assms(2) [unfolded AcceptWorkReview_def] obtain key where
    g: "trim_space (ac_AcceptedBy c) \<noteq> []" and k: "NormalizeIdempotencyKey (ac_IdempotencyKey c) = Inr key"
    and t: "transact (AcceptWorkReview_tx c key (ReviewAcceptanceDigest (ac_WorkID c) (ac_ReviewID c))) E d = (y, d')"
    by (auto simp: guard_Inr elim!: checked_effectiveE [OF _ eff])
  have "ac_AcceptedBy c \<noteq> []" using g trim_space_length [of "[]"] by auto
  moreover have "key \<noteq> []" using k unfolding NormalizeIdempotencyKey_Inr by blast
  moreover from transact_effective [OF t eff] obtain v n where
    "AcceptWorkReview_tx c key (ReviewAcceptanceDigest (ac_WorkID c) (ac_ReviewID c)) E d 0 = Inr (v, d', n)" by blast
  ultimately have "\<exists>x \<in> set (work_result_checks d'). accepted_by c key x"
    using assms(1) unfolding core_ok_def by (intro AcceptWorkReview_tx_records) auto
  with k show ?thesis unfolding accept_recorded_def by auto
qed

lemma accept_replays:
  assumes "core_ok d" "accept_recorded c i d" "AcceptWorkReview c E d = (y, d')"
  shows "d' = d \<and> (\<forall>r. y = Inr r \<longrightarrow> r = i)"
  using assms(3) [unfolded AcceptWorkReview_def]
proof (elim checked_unchanged [rotated] transact_unchanged [rotated])
  fix u u' key x d1 n
  assume "NormalizeIdempotencyKey (ac_IdempotencyKey c) = Inr key"
    "AcceptWorkReview_tx c key (ReviewAcceptanceDigest (ac_WorkID c) (ac_ReviewID c)) E d 0 = Inr (x, d1, n)"
  with AcceptWorkReview_tx_replays [OF this(2)] assms(1,2) show "d1 = d \<and> x = i"
    unfolding accept_recorded_def core_ok_def by auto
qed

lemma accept_recorded_kept:
  assumes "core_ok d" "server_step d d'" "accept_recorded c i d"
  shows "accept_recorded c i d'"
proof -
  from assms(3) obtain key x where k: "NormalizeIdempotencyKey (ac_IdempotencyKey c) = Inr key"
    and x: "x \<in> set (work_result_checks d)" "accepted_by c key x"
    unfolding accept_recorded_def by blast
  from step_evolves [OF assms(2)] x(1) obtain x' where "x' \<in> set (work_result_checks d')" "check_evolves x x'"
    by (auto simp: evolves_def dest: grownD)
  with x(2) have "x \<in> set (work_result_checks d')" by (simp add: check_evolves_def accepted_by_def)
  with k x(2) show ?thesis unfolding accept_recorded_def by blast
qed

interpretation accept_once: replayed_command server_step core_ok AcceptWorkReview accept_recorded "\<lambda>u. u"
  by unfold_locales (fact step_core_ok served_step accept_recorded_kept accept_replays accept_records)+

section \<open>Sending a message\<close>

definition admitted_as :: "send_command \<Rightarrow> string \<Rightarrow> string \<Rightarrow> conversation_message \<Rightarrow> conversation_row \<Rightarrow> message_row \<Rightarrow> bool" where
  "admitted_as command body key v c m \<longleftrightarrow> conversation_key c = (se_SpaceID command, se_MemberUserID command)
     \<and> msg_ConversationID m = cn_ConversationID c \<and> msg_Author m = AuthorMember \<and> msg_MemberRequestID m = Some key
     \<and> msg_RequestDigest m = Some (ConversationDigest (se_SpaceID command) (se_MemberUserID command) body)
     \<and> v = admitted_message m"

definition send_recorded :: "send_command \<Rightarrow> conversation_message \<Rightarrow> db \<Rightarrow> bool" where
  "send_recorded command v d \<longleftrightarrow> (\<exists>body key. NormalizeText (se_Text command) = Inr body
     \<and> NormalizeRequestKey (se_IdempotencyKey command) = Inr key
     \<and> (\<exists>c \<in> set (conversations d). \<exists>m \<in> set (conversation_messages d). admitted_as command body key v c m))"

lemma SendConversationMessage_tx_records:
  assumes "SendConversationMessage_tx command body key (ConversationDigest (se_SpaceID command) (se_MemberUserID command) body)
      E d n = Inr (v, d', n')" (is "SendConversationMessage_tx _ _ _ ?D _ _ _ = _") and "conversation_ok d"
  shows "\<exists>c \<in> set (conversations d'). \<exists>m \<in> set (conversation_messages d'). admitted_as command body key v c m"
proof -
  let ?x = "new_conversation E (fresh E 0) (se_SpaceID command) (se_MemberUserID command)"
  from SendConversationMessage_tx_effect [OF assms(1)] obtain i d1 where
    e: "sql_EnsureConversation ?x d = Inr (i, d1)"
    and rest: "(\<exists>m. sql_FindConversationMemberRequest i key d1 = Some m \<and> msg_RequestDigest m = Some ?D
            \<and> d' = d1 \<and> v = admitted_message m)
       \<or> (\<exists>n1. admit_message command body key ?D i E d1 n1 = Inr (v, d', n'))" by blast
  from sql_EnsureConversation_effect [OF e] obtain c where
    c: "c \<in> set (conversations d1)" "cn_ConversationID c = i" "conversation_key c = conversation_key ?x"
    and d1: "d1 = d \<or> (d1 = d\<lparr>conversations := conversations d @ [?x]\<rparr>
      \<and> \<not> key_taken cn_ConversationID (\<lambda>_. True) (cn_ConversationID ?x) (conversations d)
      \<and> \<not> key_taken conversation_key (\<lambda>_. True) (conversation_key ?x) (conversations d))" by blast
  have ck: "conversation_key c = (se_SpaceID command, se_MemberUserID command)"
    using c(3) by (simp add: conversation_key_def new_conversation_def)
  from rest show ?thesis
  proof (elim disjE exE conjE)
    fix m assume m: "sql_FindConversationMemberRequest i key d1 = Some m" "msg_RequestDigest m = Some ?D"
      "d' = d1" "v = admitted_message m"
    from first_where_Some [OF m(1) [unfolded sql_FindConversationMemberRequest_def]] m(2-) c ck show ?thesis
      by (intro bexI [of _ c] bexI [of _ m]) (auto simp: admitted_as_def)
  next
    fix n1 assume a: "admit_message command body key ?D i E d1 n1 = Inr (v, d', n')"
    have ok1: "conversation_ok d1"
      using d1 conversation_ok_new_conversation [OF assms(2), of ?x] assms(2) by (auto simp: new_conversation_def)
    let ?m = "new_member_message E command c body key ?D"
    from admit_message_effect [OF a ok1 c(1,2)] obtain cs where
      rep: "replaces cn_ConversationID (conversations d1) c (c\<lparr>cn_MessageHeadSeq := cn_MessageHeadSeq c + 1\<rparr>) cs"
      and v: "v = admitted_message ?m"
      and d': "d' = d1\<lparr>conversations := cs, conversation_messages := conversation_messages d1 @ [?m],
          conversation_reply_claims := conversation_reply_claims d1 @ [new_reply_claim (msg_MessageID ?m) i]\<rparr>"
      unfolding Let_def by blast
    have "c\<lparr>cn_MessageHeadSeq := cn_MessageHeadSeq c + 1\<rparr> \<in> set (conversations d')"
      using replaces_set [OF rep] by (simp add: d')
    moreover have "?m \<in> set (conversation_messages d')" by (simp add: d')
    moreover have "admitted_as command body key v (c\<lparr>cn_MessageHeadSeq := cn_MessageHeadSeq c + 1\<rparr>) ?m"
      using ck v by (simp add: admitted_as_def conversation_key_def new_member_message_def)
    ultimately show ?thesis by blast
  qed
qed

lemma SendConversationMessage_tx_replays:
  assumes "SendConversationMessage_tx command body key (ConversationDigest (se_SpaceID command) (se_MemberUserID command) body)
      E d n = Inr (v', d', n')" (is "SendConversationMessage_tx _ _ _ ?D _ _ _ = _") and ok: "conversation_ok d"
    and c: "c \<in> set (conversations d)" "m \<in> set (conversation_messages d)" "admitted_as command body key v c m"
  shows "d' = d \<and> v' = v"
proof -
  let ?x = "new_conversation E (fresh E 0) (se_SpaceID command) (se_MemberUserID command)"
  have kx: "conversation_key ?x = conversation_key c"
    using c(3) by (simp add: conversation_key_def new_conversation_def admitted_as_def)
  have "first_where (\<lambda>y. conversation_key y = conversation_key ?x) (conversations d) = Some c"
    by (rule unique_update_first(1) [of conversation_key, OF _ c(1)])
      (use ok kx in \<open>auto simp: conversation_ok_def conversation_rows_ok_def\<close>)
  then have e: "sql_EnsureConversation ?x d = Inr (cn_ConversationID c, d)"
    by (simp add: sql_EnsureConversation_def)
  have f: "sql_FindConversationMemberRequest (cn_ConversationID c) key d = Some m"
    unfolding sql_FindConversationMemberRequest_def
    by (rule unique_first_where [of member_request_key is_member_message, OF _ c(2)])
      (use ok c(3) in \<open>auto simp: conversation_ok_def message_rows_ok_def member_request_key_def is_member_message_def
          admitted_as_def\<close>)
  from SendConversationMessage_tx_effect [OF assms(1)] e f c(3) show ?thesis
    by (auto simp: admitted_as_def)
qed

lemma send_records:
  assumes "core_ok d" "SendConversationMessage c E d = (y, d')" "y = Inr r \<or> d' \<noteq> d"
  shows "\<exists>i. send_recorded c i d' \<and> (\<forall>r. y = Inr r \<longrightarrow> r = i)"
proof -
  note eff = effectiveI [OF assms(3)]
  from assms(2) [unfolded SendConversationMessage_def] obtain body key where
    k: "NormalizeText (se_Text c) = Inr body" "NormalizeRequestKey (se_IdempotencyKey c) = Inr key"
    and t: "transact (SendConversationMessage_tx c body key (ConversationDigest (se_SpaceID c) (se_MemberUserID c) body)) E d = (y, d')"
    by (auto elim!: checked_effectiveE [OF _ eff])
  from transact_effective [OF t eff] obtain v n where
    "SendConversationMessage_tx c body key (ConversationDigest (se_SpaceID c) (se_MemberUserID c) body) E d 0 = Inr (v, d', n)"
    and v: "\<forall>r. y = Inr r \<longrightarrow> r = v" by blast
  from SendConversationMessage_tx_records [OF this(1)] assms(1) k v show ?thesis
    unfolding send_recorded_def core_ok_def by blast
qed

lemma send_replays:
  assumes "core_ok d" "send_recorded c i d" "SendConversationMessage c E d = (y, d')"
  shows "d' = d \<and> (\<forall>r. y = Inr r \<longrightarrow> r = i)"
proof -
  from assms(2) obtain body key cn m where k: "NormalizeText (se_Text c) = Inr body"
    "NormalizeRequestKey (se_IdempotencyKey c) = Inr key"
    and m: "cn \<in> set (conversations d)" "m \<in> set (conversation_messages d)" "admitted_as c body key i cn m"
    unfolding send_recorded_def by blast
  have ok: "conversation_ok d" using assms(1) by (simp add: core_ok_def)
  show ?thesis
    using assms(3) [unfolded SendConversationMessage_def]
  proof (elim checked_unchanged [rotated] transact_unchanged [rotated])
    fix u body' key' x d1 n
    assume "NormalizeText (se_Text c) = Inr body'" "NormalizeRequestKey (se_IdempotencyKey c) = Inr key'"
      "SendConversationMessage_tx c body' key' (ConversationDigest (se_SpaceID c) (se_MemberUserID c) body') E d 0 = Inr (x, d1, n)"
    then show "d1 = d \<and> x = i"
      using SendConversationMessage_tx_replays [OF _ ok m, of E 0 x d1 n] k by simp
  qed
qed

lemma send_recorded_kept:
  assumes "core_ok d" "server_step d d'" "send_recorded c i d"
  shows "send_recorded c i d'"
proof -
  from assms(3) obtain body key cn m where k: "NormalizeText (se_Text c) = Inr body"
    "NormalizeRequestKey (se_IdempotencyKey c) = Inr key"
    and m: "cn \<in> set (conversations d)" "m \<in> set (conversation_messages d)" "admitted_as c body key i cn m"
    unfolding send_recorded_def by blast
  from step_evolves [OF assms(2)] m obtain cn' where
    "cn' \<in> set (conversations d')" "conversation_evolves cn cn'" "m \<in> set (conversation_messages d')"
    unfolding evolves_def grown_def by blast
  moreover from this(2) m(3) have "admitted_as c body key i cn' m"
    by (simp add: admitted_as_def conversation_evolves_def conversation_key_def)
  ultimately show ?thesis using k unfolding send_recorded_def by blast
qed

interpretation send_once: replayed_command server_step core_ok SendConversationMessage send_recorded "\<lambda>v. v"
  by unfold_locales (fact step_core_ok served_step send_recorded_kept send_replays send_records)+

section \<open>Committing a reply\<close>

definition reply_recorded :: "commit_reply_command \<Rightarrow> commit_reply_result \<Rightarrow> db \<Rightarrow> bool" where
  "reply_recorded command v d \<longleftrightarrow> (\<exists>candidate digest.
     NormalizeReplyCandidate (cm_SourceMessageID command) (cm_Candidate command) = Inr (candidate, digest)
     \<and> (\<exists>k \<in> set (conversation_reply_claims d). k_SourceMessageID k = cm_SourceMessageID command
          \<and> k_CommittedReplyMessageID k = Some (rs_ReplyMessageID v)
          \<and> uuidValue (k_CreatedWorkID k) = rs_CreatedWorkID v))"

lemma CommitConversationReply_tx_replays:
  assumes "CommitConversationReply_tx command (candidate, digest) E d n = Inr (v', d', n')" "conversation_ok d"
    and "k \<in> set (conversation_reply_claims d)" "k_SourceMessageID k = cm_SourceMessageID command"
      "k_CommittedReplyMessageID k = Some (rs_ReplyMessageID v)" "uuidValue (k_CreatedWorkID k) = rs_CreatedWorkID v"
  shows "d' = d \<and> v' = v"
proof -
  from CommitConversationReply_tx_effect [OF assms(1,2)] obtain k' where
    k': "k' \<in> set (conversation_reply_claims d)" "k_SourceMessageID k' = cm_SourceMessageID command"
    and rest: "(\<exists>i. k_CommittedReplyMessageID k' = Some i \<and> d' = d
          \<and> v' = \<lparr>rs_ReplyMessageID = i, rs_CreatedWorkID = uuidValue (k_CreatedWorkID k')\<rparr>) \<or> claim_unresolved k'"
    by blast
  have "k' = k"
    using unique_onD [of k_SourceMessageID "\<lambda>_. True" "conversation_reply_claims d" k' k] k' assms(2-4)
    by (simp add: conversation_ok_def claims_ok_def)
  with rest assms(5,6) show ?thesis by (auto simp: claim_unresolved_def)
qed

lemma CommitConversationReply_tx_records:
  assumes "CommitConversationReply_tx command (candidate, digest) E d n = Inr (v, d', n')" "conversation_ok d"
  shows "\<exists>k \<in> set (conversation_reply_claims d'). k_SourceMessageID k = cm_SourceMessageID command
          \<and> k_CommittedReplyMessageID k = Some (rs_ReplyMessageID v) \<and> uuidValue (k_CreatedWorkID k) = rs_CreatedWorkID v"
proof -
  from CommitConversationReply_tx_effect [OF assms] obtain k c where
    k: "k \<in> set (conversation_reply_claims d)" "k_SourceMessageID k = cm_SourceMessageID command"
    and rest: "(\<exists>i. k_CommittedReplyMessageID k = Some i \<and> d' = d
          \<and> v = \<lparr>rs_ReplyMessageID = i, rs_CreatedWorkID = uuidValue (k_CreatedWorkID k)\<rparr>)
      \<or> (\<exists>i now. reply_written command candidate digest E d d' c k i now
               \<and> v = \<lparr>rs_ReplyMessageID = fresh E 2, rs_CreatedWorkID = i\<rparr>)" by blast
  from rest show ?thesis
  proof (elim disjE exE conjE)
    fix i now assume w: "reply_written command candidate digest E d d' c k i now"
      and v: "v = \<lparr>rs_ReplyMessageID = fresh E 2, rs_CreatedWorkID = i\<rparr>"
    let ?k = "completed_claim digest (fresh E 2) (if i = [] then None else Some i) k"
    have "replaces k_SourceMessageID (conversation_reply_claims d) k ?k (conversation_reply_claims d')"
      using w by (simp add: reply_written_def Let_def carry_message_def)
    from replaces_set [OF this] k v show ?thesis
      by (intro bexI [of _ ?k]) (auto simp: completed_claim_def uuidValue_def textValue_def)
  qed (use k in auto)
qed

lemma reply_records:
  assumes "core_ok d" "CommitConversationReply c E d = (y, d')" "y = Inr r \<or> d' \<noteq> d"
  shows "\<exists>i. reply_recorded c i d' \<and> (\<forall>r. y = Inr r \<longrightarrow> r = i)"
proof -
  note eff = effectiveI [OF assms(3)]
  from assms(2) [unfolded CommitConversationReply_def] obtain candidate digest where
    k: "NormalizeReplyCandidate (cm_SourceMessageID c) (cm_Candidate c) = Inr (candidate, digest)"
    and t: "transact (CommitConversationReply_tx c (candidate, digest)) E d = (y, d')"
    by (auto elim!: checked_effectiveE [OF _ eff])
  from transact_effective [OF t eff] obtain v n where
    "CommitConversationReply_tx c (candidate, digest) E d 0 = Inr (v, d', n)" and v: "\<forall>r. y = Inr r \<longrightarrow> r = v" by blast
  from CommitConversationReply_tx_records [OF this(1)] assms(1) k v show ?thesis
    unfolding reply_recorded_def core_ok_def by blast
qed

lemma reply_replays:
  assumes "core_ok d" "reply_recorded c i d" "CommitConversationReply c E d = (y, d')"
  shows "d' = d \<and> (\<forall>r. y = Inr r \<longrightarrow> r = i)"
  using assms(3) [unfolded CommitConversationReply_def]
proof (elim checked_unchanged [rotated] transact_unchanged [rotated])
  fix u and cand :: "reply_candidate \<times> bytes" and x d1 n
  obtain candidate digest where "cand = (candidate, digest)" by (cases cand)
  moreover assume "CommitConversationReply_tx c cand E d 0 = Inr (x, d1, n)"
  moreover from assms(2) obtain k where "k \<in> set (conversation_reply_claims d)" "k_SourceMessageID k = cm_SourceMessageID c"
    "k_CommittedReplyMessageID k = Some (rs_ReplyMessageID i)" "uuidValue (k_CreatedWorkID k) = rs_CreatedWorkID i"
    unfolding reply_recorded_def by blast
  ultimately show "d1 = d \<and> x = i"
    using CommitConversationReply_tx_replays [of c candidate digest E d 0 x d1 n k i] assms(1)
    by (simp add: core_ok_def)
qed

lemma reply_recorded_kept:
  assumes "core_ok d" "server_step d d'" "reply_recorded c i d"
  shows "reply_recorded c i d'"
proof -
  from assms(3) obtain cand k where n: "NormalizeReplyCandidate (cm_SourceMessageID c) (cm_Candidate c) = Inr cand"
    and k: "k \<in> set (conversation_reply_claims d)" "k_SourceMessageID k = cm_SourceMessageID c"
    "k_CommittedReplyMessageID k = Some (rs_ReplyMessageID i)" "uuidValue (k_CreatedWorkID k) = rs_CreatedWorkID i"
    unfolding reply_recorded_def by blast
  from step_evolves [OF assms(2)] k(1) obtain k' where "k' \<in> set (conversation_reply_claims d')" "claim_evolves k k'"
    by (auto simp: evolves_def dest: grownD)
  with k(3) have "k \<in> set (conversation_reply_claims d')" by (simp add: claim_evolves_def has_reply_def)
  with n k show ?thesis unfolding reply_recorded_def by (cases cand) blast
qed

interpretation reply_once: replayed_command server_step core_ok CommitConversationReply reply_recorded "\<lambda>v. v"
  by unfold_locales (fact step_core_ok served_step reply_recorded_kept reply_replays reply_records)+

end
