(* ===== verification/Demo_Conversation.thy ===== *)
theory Demo_Conversation
  imports Execution_Properties Replayed_Commands
begin

text \<open>
  More states of the small Space: a second Machine takes over the expired Run, a member sends a
  message, the Machine claims the reply and commits it with a delegated Work. All of them are
  reachable.
\<close>

lemma demo_base_reachable: "reachable demo_base"
  by (rule reachable.boot) (simp add: booted_def demo_base_def execution_part_def conversation_part_def)

lemma reachable_served:
  "reachable d \<Longrightarrow> CreateWork c E d = (y1, d') \<Longrightarrow> reachable d'"
  "reachable d \<Longrightarrow> ClaimRun i E d = (y2, d') \<Longrightarrow> reachable d'"
  "reachable d \<Longrightarrow> CommitWorkUnderstanding h E d = (y3, d') \<Longrightarrow> reachable d'"
  "reachable d \<Longrightarrow> SendConversationMessage s E d = (y4, d') \<Longrightarrow> reachable d'"
  "reachable d \<Longrightarrow> ClaimConversationReply i E d = (y5, d') \<Longrightarrow> reachable d'"
  "reachable d \<Longrightarrow> CommitConversationReply g E d = (y6, d') \<Longrightarrow> reachable d'"
  by (erule reachable.step, erule served_step)+

lemma demo_created_reachable: "reachable demo_created"
  by (rule reachable_served(1) [OF demo_base_reachable demo_created_run])

lemma demo_claimed_reachable: "reachable demo_claimed"
  by (rule reachable_served(2) [OF demo_created_reachable demo_claimed_run])

lemma demo_committed_reachable: "reachable demo_committed"
  by (rule reachable_served(3) [OF demo_claimed_reachable demo_committed_run])

section \<open>A takeover\<close>

definition demo_late :: timestamp where
  "demo_late = 205 + minutes 5"

definition demo_taken_over :: db where
  "demo_taken_over = demo_created\<lparr>runs := [demo_run\<lparr>r_CurrentFence := 2\<rparr>],
     run_attempts := [demo_attempt\<lparr>at_State := StateExpired, at_CompletedAt := Some (demo_late + 2)\<rparr>,
       new_attempt (demo_env ''s'' demo_late) ''sx'' ''r'' ''m1'' 2 (demo_late + 4)]\<rparr>"

definition demo_second_claim :: claim where
  "demo_second_claim = \<lparr>cl_RunID = ''r'', cl_AttemptID = ''sx'', cl_WorkID = ''w'', cl_Fence = 2,
     cl_LeaseExpiresAt = demo_late + 4 + minutes 5, cl_Goal = ''Plan'', cl_CurrentUnderstanding = [],
     cl_CurrentNextStep = [], cl_BaseUnderstandingVersion = 0, cl_InputEndSeq = 1, cl_Messages = []\<rparr>"

lemma demo_taken_over_run: "ClaimRun ''m1'' (demo_env ''s'' demo_late) demo_claimed = (Inr demo_second_claim, demo_taken_over)"
  by (simp add: ClaimRun_def ClaimRun_tx_def transact_healthy demo_env_healthy tx_run
      sql_LockClaimingMachine_def machine_of_def demo_claimed_def demo_created_def demo_defs
      sql_LockExpiredRunForClaim_def run_joins_def order_by_def first_row_def expired_for_claim_def
      demo_run_def demo_attempt_def new_run_def new_attempt_def demo_work_def demo_late_def
      recover_run_def sql_ExpireRunAttempt_def sql_RotateRunFence_def count_where_def
      open_attempt_def sql_CreateRunAttempt_def attempt_active_def attempt_slot_def sql_ListRunInputMessages_def key_taken_def
      demo_second_claim_def demo_taken_over_def textValue_def)


text \<open>
  A Conversation in the small Space: Alice sends a message, the Machine claims the reply and
  commits it.
\<close>

definition demo_send :: send_command where
  "demo_send = \<lparr>se_SpaceID = ''space'', se_MemberUserID = ''alice'', se_Text = ''Go on'', se_IdempotencyKey = ''key''\<rparr>"

definition demo_conversation :: conversation_row where
  "demo_conversation = \<lparr>cn_ConversationID = ''c'', cn_SpaceID = ''space'', cn_MemberUserID = ''alice'',
     cn_MessageHeadSeq = 1, cn_CreatedAt = 50\<rparr>"

definition demo_message :: message_row where
  "demo_message = \<lparr>msg_MessageID = ''cx'', msg_ConversationID = ''c'', msg_MessageSeq = 1, msg_Author = AuthorMember,
     msg_AuthorUserID = Some ''alice'', msg_Text = ''Go on'', msg_MemberRequestID = Some ''key'',
     msg_RequestDigest = Some (ConversationDigest ''space'' ''alice'' ''Go on''),
     msg_ReplyToMemberMessageID = None, msg_CreatedAt = 50\<rparr>"

definition demo_sent :: db where
  "demo_sent = demo_base\<lparr>conversations := [demo_conversation], conversation_messages := [demo_message],
     conversation_reply_claims := [new_reply_claim ''cx'' ''c'']\<rparr>"

lemmas demo_sent_defs = demo_sent_def demo_conversation_def demo_message_def demo_defs new_reply_claim_def

lemma demo_sent_run:
  "SendConversationMessage demo_send (demo_env ''c'' 50) demo_base = (Inr (admitted_message demo_message), demo_sent)"
  by (simp add: SendConversationMessage_def demo_send_def demo_normal_forms guard_def transact_healthy demo_env_healthy
      SendConversationMessage_tx_def tx_run lockActiveConversationMembership_def sql_LockActiveConversationMembership_def
      active_membership_def sql_EnsureConversation_def new_conversation_def conversation_key_def key_taken_def
      conversation_of_def sql_FindConversationMemberRequest_def admit_message_def sql_ConversationHasUnresolvedReply_def
      exists_where_def sql_AdvanceConversationMessageHead_def sql_CreateConversationMemberMessage_def insert_message_def
      is_reply_def sql_CreateConversationReplyClaim_def demo_sent_defs)

lemma demo_sent_reachable: "reachable demo_sent"
  by (rule reachable_served(4) [OF demo_base_reachable demo_sent_run])

section \<open>The claimed reply\<close>

definition demo_reply_claim :: reply_claim_row where
  "demo_reply_claim = (new_reply_claim ''cx'' ''c'')\<lparr>k_CurrentMachineID := Some ''m1'', k_CurrentFence := 1,
     k_LeaseExpiresAt := Some (63 + minutes 5), k_ContextStartSeq := Some 1, k_ContextEndSeq := Some 1\<rparr>"

definition demo_granted :: db where
  "demo_granted = demo_sent\<lparr>conversation_reply_claims := [demo_reply_claim]\<rparr>"

definition demo_grant :: reply_claim where
  "demo_grant = \<lparr>rp_SourceMessageID = ''cx'', rp_Fence = 1, rp_LeaseExpiresAt = 63 + minutes 5,
     rp_Messages = [\<lparr>cx_Author = AuthorMember, cx_Text = ''Go on''\<rparr>]\<rparr>"

lemma demo_context: "FixedContextSuffix [\<lparr>cx_Author = AuthorMember, cx_Text = ''Go on''\<rparr>] = Inr [\<lparr>cx_Author = AuthorMember, cx_Text = ''Go on''\<rparr>]"
  using demo_texts(7) plain_text_valid [OF demo_texts(7)] plain_text_no_nul [OF demo_texts(7)]
  by (simp add: FixedContextSuffix_def MaxContextMessages_def valid_context_message_def MaxTextBytes_def MaxContextTextBytes_def)

theorem fixed_context_longest_suffix_witness:
  "FixedContextSuffix [\<lparr>cx_Author = AuthorMember, cx_Text = ''Go on''\<rparr>] = Inr [\<lparr>cx_Author = AuthorMember, cx_Text = ''Go on''\<rparr>]
   \<and> context_bytes [\<lparr>cx_Author = AuthorMember, cx_Text = ''Go on''\<rparr>] \<le> 262144"
  using fixed_context_longest_suffix [OF demo_context] demo_context by blast

lemma demo_granted_run: "ClaimConversationReply ''m1'' (demo_env ''g'' 60) demo_sent = (Inr demo_grant, demo_granted)"
  by (simp add: ClaimConversationReply_def guard_def transact_healthy demo_env_healthy ClaimConversationReply_tx_def tx_run
      lockActiveReplyMachine_def sql_LockClaimingMachine_def machine_of_def sql_LockConversationReplyForClaim_def
      claimable_reply_def claim_joined_def conversation_of_def message_of_def is_member_def exists_where_def
      active_membership_def claim_unresolved_def claim_expired_def order_by_def order_by_desc_def first_row_def
      fixedReplyContextRange_def sql_ListConversationContextCandidates_def contextFromRow_def demo_context
      sql_AssignConversationReply_def loadFixedReplyContext_def sql_ListFixedConversationReplyContext_def Let_def
      demo_grant_def demo_granted_def demo_reply_claim_def demo_sent_defs)

lemma demo_granted_reachable: "reachable demo_granted"
  by (rule reachable_served(5) [OF demo_sent_reachable demo_granted_run])

section \<open>The committed reply\<close>

definition demo_reply :: commit_reply_command where
  "demo_reply = \<lparr>cm_MachineID = ''m1'', cm_SourceMessageID = ''cx'', cm_Fence = 1,
     cm_Candidate = \<lparr>ca_Reply = ''Done'', ca_DelegationGoal = Some ''Plan''\<rparr>\<rparr>"

definition demo_replied :: db where
  "demo_replied = snd (CommitConversationReply demo_reply (demo_env ''p'' 70) demo_granted)"

lemma demo_replied_run:
  "CommitConversationReply demo_reply (demo_env ''p'' 70) demo_granted
     = (Inr \<lparr>rs_ReplyMessageID = ''pxx'', rs_CreatedWorkID = ''p''\<rparr>, demo_replied)"
proof -
  have "fst (CommitConversationReply demo_reply (demo_env ''p'' 70) demo_granted)
      = Inr \<lparr>rs_ReplyMessageID = ''pxx'', rs_CreatedWorkID = ''p''\<rparr>"
    by (simp add: CommitConversationReply_def guard_def demo_reply_def NormalizeReplyCandidate_def demo_normal_forms
      transact_healthy demo_env_healthy CommitConversationReply_tx_def tx_run
      lockActiveReplyMachine_def sql_LockClaimingMachine_def machine_of_def sql_LockConversationReplyForCommit_def
      claim_joined_def conversation_of_def message_of_def is_member_def exists_where_def active_membership_def
      uuidValue_def textValue_def sql_ConversationReplyLeaseIsCurrent_def write_reply_def createDelegatedWork_def
      sql_CreateWork_def key_taken_def joined_work_def display_names_def user_of_def new_work_def Let_def
      sql_AdvanceConversationMessageHead_def sql_CreateConversationCarryReply_def insert_message_def is_reply_def
      is_member_message_def message_position_def sql_CompleteConversationReply_def claim_held_def claim_unresolved_def count_where_def
      demo_granted_def demo_reply_claim_def demo_sent_defs numeral_2_eq_2)
  then show ?thesis by (metis demo_replied_def prod.collapse)
qed

lemma demo_replied_reachable: "reachable demo_replied"
  by (rule reachable_served(6) [OF demo_granted_reachable demo_replied_run])

end
