(* ===== verification/Run_Guarantees.thy ===== *)
theory Run_Guarantees
  imports Demo_Conversation
begin

text \<open>
  What a Machine that executes Runs, and the member who waits for it, may rely on: a takeover
  excludes the previous holder, inputs are applied exactly once, a claim carries the next input
  and nothing else, and a healthy claim makes progress.
\<close>

lemma replaces_in: "replaces k t r r' t' \<Longrightarrow> r' \<in> set t'"
  using replaces_set by fastforce

lemma ClaimRun_success:
  assumes "ClaimRun machineID E d = (Inr c, d')" "execution_ok d"
  obtains m w now where "machine_of machineID d = Some m" "m_RevokedAt m = None" "claimed_new machineID E d c d' m w now"
  | m r w a now where "machine_of machineID d = Some m" "m_RevokedAt m = None" "claimed_recovered machineID E d c d' m r w a now"
proof -
  from assms(1) obtain n where "ClaimRun_tx machineID E d 0 = Inr (c, d', n)"
    unfolding ClaimRun_def by (rule transact_body)
  from ClaimRun_tx_effect [OF this assms(2)] that show thesis by blast
qed

section \<open>Takeover\<close>

lemma claim_fence:
  assumes "ClaimRun machineID E d = (Inr c, d')" "core_ok d"
  shows "run_fence (cl_RunID c) d' = Some (cl_Fence c)"
    "\<forall>a \<in> set (run_attempts d). at_RunID a = cl_RunID c \<longrightarrow> at_Fence a < cl_Fence c"
proof -
  have ex: "execution_ok d" using assms(2) by (simp add: core_ok_def)
  have ok': "execution_ok d'" using step_core_ok [OF assms(2) served_step(7) [OF assms(1)]] by (simp add: core_ok_def)
  have att: "\<forall>a \<in> set (run_attempts d). \<exists>r \<in> set (runs d). attempt_of_run_ok a r"
    and u: "unique_on r_RunID (\<lambda>_. True) (runs d)"
    using ex by (simp_all add: execution_ok_def work_state_ok_def attempts_ok_def runs_ok_def)
  from assms(1) ex have "run_fence (cl_RunID c) d' = Some (cl_Fence c)
    \<and> (\<forall>a \<in> set (run_attempts d). at_RunID a = cl_RunID c \<longrightarrow> at_Fence a < cl_Fence c)"
  proof (cases rule: ClaimRun_success)
    case (1 m w now)
    note n = 1(3) [unfolded claimed_new_def]
    have "run_for_work E d w \<in> set (runs d')" using n by simp
    from run_of_row [OF ok' this] have "run_fence (cl_RunID c) d' = Some (cl_Fence c)"
      using n by (simp add: run_fence_def created_claim_def)
    moreover have "at_RunID a \<noteq> cl_RunID c" if "a \<in> set (run_attempts d)" for a
      using att that n by (auto simp: attempt_of_run_ok_def key_taken_iff created_claim_def)
    ultimately show ?thesis by blast
  next
    case (2 m r w a now)
    note n = 2(3) [unfolded claimed_recovered_def]
    then have r: "r \<in> set (runs d)" and rot: "rotated_run r \<in> set (runs d')" by (auto dest: replaces_in)
    from run_of_row [OF ok' rot] have "run_fence (cl_RunID c) d' = Some (cl_Fence c)"
      using n by (simp add: run_fence_def recovered_claim_def rotated_run_def)
    moreover have "at_Fence x < cl_Fence c" if x: "x \<in> set (run_attempts d)" "at_RunID x = cl_RunID c" for x
    proof -
      from att x obtain q where q: "q \<in> set (runs d)" "attempt_of_run_ok x q" by blast
      with x n have "q = r"
        using unique_onD [OF u q(1) r] by (auto simp: attempt_of_run_ok_def recovered_claim_def)
      with q n show ?thesis by (auto simp: attempt_of_run_ok_def recovered_claim_def)
    qed
    ultimately show ?thesis by blast
  qed
  then show "run_fence (cl_RunID c) d' = Some (cl_Fence c)"
    "\<forall>a \<in> set (run_attempts d). at_RunID a = cl_RunID c \<longrightarrow> at_Fence a < cl_Fence c" by auto
qed

text \<open>
  C3 (safety). A takeover is final. Once a Machine has claimed a Run, no holder of an earlier
  Attempt of that Run can renew its lease, publish a result or record an outcome: at any later
  time, after any further calls, such a call returns an error and leaves the database as it is.
\<close>

theorem takeover_excludes_previous_holder:
  assumes "reachable d" "ClaimRun machineID E d = (Inr c, d')" "server_step\<^sup>*\<^sup>* d' d''"
    and "a \<in> set (run_attempts d)" "at_RunID a = cl_RunID c"
    and "co_RunID commit = cl_RunID c" "co_Fence commit = at_Fence a"
    and "fi_RunID finish = cl_RunID c" "fi_Fence finish = at_Fence a"
  shows "(\<exists>e. CommitWorkUnderstanding commit E' d'' = (Inl e, d''))
    \<and> (\<exists>e. FinishUnresolvedAttempt finish E' d'' = (Inl e, d''))
    \<and> (\<exists>e. RenewRunAttempt m (cl_RunID c) attemptID (at_Fence a) E' d'' = (Inl e, d''))"
proof -
  have ok: "core_ok d" by (rule reachable_ok [OF assms(1)])
  have ok': "core_ok d'" by (rule step_core_ok [OF ok served_step(7) [OF assms(2)]])
  have f: "run_fence (cl_RunID c) d' = Some (cl_Fence c)" "at_Fence a < cl_Fence c"
    using claim_fence [OF assms(2) ok] assms(4,5) by auto
  show ?thesis
    using commit_lease.superseded [OF ok' _ _ assms(3), of commit] finish_lease.superseded [OF ok' _ _ assms(3), of finish]
      renew_lease.superseded [OF ok' _ _ assms(3), of "(m, cl_RunID c, attemptID, at_Fence a)"] f assms(6-)
    by auto
qed

theorem takeover_excludes_previous_holder_witness:
  "\<exists>e. CommitWorkUnderstanding demo_commit (demo_env ''z'' (demo_late + 10)) demo_taken_over = (Inl e, demo_taken_over)"
proof -
  let ?f = "\<lparr>fi_MachineID = ''m1'', fi_RunID = ''r'', fi_AttemptID = ''rx'', fi_Fence = 1, fi_Outcome = StateFailed\<rparr>"
  have "demo_attempt \<in> set (run_attempts demo_claimed)" by (simp add: demo_claimed_def)
  then show ?thesis
    using takeover_excludes_previous_holder [OF demo_claimed_reachable demo_taken_over_run rtranclp.rtrancl_refl,
        of demo_attempt demo_commit ?f]
    by (simp add: demo_attempt_def new_attempt_def demo_second_claim_def demo_commit_def)
qed

section \<open>Exactly once\<close>

text \<open>
  C2 (invariant). Inputs are applied exactly once. In every reachable state each applied input
  of a Work lies in the range of exactly one succeeded Run, no other input lies in any, and the
  version of the understanding is the number of succeeded Runs: no input is lost, none is
  applied twice, however claims, expiries, takeovers and retries interleave.
\<close>

theorem inputs_applied_exactly_once:
  assumes "reachable d" "w \<in> set (works d)"
  shows "(\<forall>s. count_where (\<lambda>r. r_WorkID r = w_WorkID w \<and> r_State r = StateSucceeded
              \<and> r_InputStartSeq r \<le> s \<and> s \<le> r_InputEndSeq r) (runs d)
            = (if 1 \<le> s \<and> s \<le> w_AppliedInputSeq w then 1 else 0))
    \<and> count_where (\<lambda>r. r_WorkID r = w_WorkID w \<and> r_State r = StateSucceeded) (runs d) = w_UnderstandingVersion w
    \<and> w_AppliedInputSeq w \<le> w_InputHeadSeq w"
  using reachable_ok [OF assms(1)] assms(2)
  by (simp add: core_ok_def execution_ok_def work_state_ok_def applied_once_def applies_input_def [abs_def]
      succeeded_of_def [abs_def] works_ok_def work_row_ok_def)

theorem inputs_applied_exactly_once_witness:
  "\<exists>w \<in> set (works demo_committed).
     count_where (\<lambda>r. r_WorkID r = w_WorkID w \<and> r_State r = StateSucceeded) (runs demo_committed) = w_UnderstandingVersion w"
proof -
  have "works demo_committed \<noteq> []"
    using step_evolves [OF served_step(9) [OF demo_committed_run]]
    by (auto simp: evolves_def grown_def demo_claimed_def demo_created_def)
  then obtain w where "w \<in> set (works demo_committed)" by (cases "works demo_committed") auto
  with inputs_applied_exactly_once [OF demo_committed_reachable this] show ?thesis by blast
qed

end
