(* ===== verification/Claim_Guarantees.thy ===== *)
theory Claim_Guarantees
  imports Run_Guarantees
begin

text \<open>
  What a claim hands to a Machine, and when a claim is granted: the input is the next unapplied
  one, contiguous, complete and bounded, and a healthy call finds work whenever there is any.
\<close>

section \<open>The input of a claim\<close>

lemma filter_slot_seqs:
  assumes "unique_on message_slot (\<lambda>_. True) ms"
    and cover: "\<forall>s \<in> {2..h}. \<exists>m \<in> set ms. message_slot m = (i, s)"
    and least: "\<forall>m \<in> set ms. wm_WorkID m = i \<longrightarrow> 2 \<le> wm_InputSeq m" and "e \<le> h"
  shows "map wm_InputSeq (order_by wm_InputSeq (filter (in_range i s e) ms)) = [max 2 s..e]"
proof (rule sorted_distinct_set_unique)
  let ?L = "order_by wm_InputSeq (filter (in_range i s e) ms)"
  show "sorted (map wm_InputSeq ?L)" by (rule sorted_order_by)
  have "mset (map wm_InputSeq ?L) = mset (map wm_InputSeq (filter (in_range i s e) ms))" by (simp add: order_by_def)
  then show "distinct (map wm_InputSeq ?L)"
    using distinct_seqs [OF assms(1), of i s e] by (metis mset_eq_imp_distinct_iff)
  show "sorted [max 2 s..e]" "distinct [max 2 s..e]" by simp_all
  show "set (map wm_InputSeq ?L) = set [max 2 s..e]"
  proof (intro set_eqI iffI)
    fix x assume "x \<in> set (map wm_InputSeq ?L)"
    then show "x \<in> set [max 2 s..e]" using least by (auto simp: in_range_def)
  next
    fix x assume x: "x \<in> set [max 2 s..e]"
    with cover assms(4) obtain m where "m \<in> set ms" "message_slot m = (i, x)" by force
    then show "x \<in> set (map wm_InputSeq ?L)" using x by (force simp: in_range_def message_slot_def)
  qed
qed

lemma claimed_input:
  assumes ok: "execution_ok d" and w: "w \<in> set (works d)" and "e \<le> w_InputHeadSeq w"
    and bounded: "length (filter (in_range (w_WorkID w) s e) (work_messages d)) \<le> 32"
      "text_bytes (filter (in_range (w_WorkID w) s e) (work_messages d)) \<le> 262144"
  shows "\<exists>ms. set ms \<subseteq> set (work_messages d) \<and> map message_slot ms = map (Pair (w_WorkID w)) [max 2 s..e]
    \<and> sql_ListRunInputMessages (w_WorkID w) s e d = map (\<lambda>m. \<lparr>rm_AuthorUserID = wm_AuthorUserID m, rm_Text = wm_Text m\<rparr>) ms
    \<and> length ms \<le> 32 \<and> text_bytes ms \<le> 262144"
proof -
  let ?L = "order_by wm_InputSeq (filter (in_range (w_WorkID w) s e) (work_messages d))"
  have m: "messages_ok (works d) (work_messages d)" using ok by (simp add: execution_ok_def work_state_ok_def)
  have seqs: "map wm_InputSeq ?L = [max 2 s..e]"
    using m w assms(3) by (intro filter_slot_seqs [where h = "w_InputHeadSeq w"])
      (auto simp: messages_ok_def message_row_ok_def)
  have "map message_slot ?L = map (Pair (w_WorkID w)) (map wm_InputSeq ?L)"
    by (simp add: message_slot_def in_range_def)
  with seqs have slots: "map message_slot ?L = map (Pair (w_WorkID w)) [max 2 s..e]" by simp
  have "mset ?L = mset (filter (in_range (w_WorkID w) s e) (work_messages d))" by (simp add: order_by_def)
  from text_bytes_mset [OF this] bounded have "length ?L \<le> 32 \<and> text_bytes ?L \<le> 262144" by simp
  with slots show ?thesis
    by (intro exI [of _ ?L]) (auto simp: sql_ListRunInputMessages_def in_range_def [abs_def])
qed

lemma claim_input_rows:
  assumes "reachable d" "ClaimRun machineID E d = (Inr c, d')"
  shows "\<exists>w start m. machine_of machineID d = Some m \<and> m_RevokedAt m = None \<and> w_SpaceID w = m_SpaceID m
    \<and> w \<in> set (works d) \<and> w_WorkID w = cl_WorkID c \<and> cl_Goal c = w_Goal w
    \<and> cl_BaseUnderstandingVersion c = w_UnderstandingVersion w \<and> start = w_AppliedInputSeq w + 1
    \<and> start \<le> cl_InputEndSeq c \<and> cl_InputEndSeq c \<le> w_InputHeadSeq w
    \<and> cl_Messages c = sql_ListRunInputMessages (w_WorkID w) start (cl_InputEndSeq c) d
    \<and> length (filter (in_range (w_WorkID w) start (cl_InputEndSeq c)) (work_messages d)) \<le> 32
    \<and> text_bytes (filter (in_range (w_WorkID w) start (cl_InputEndSeq c)) (work_messages d)) \<le> 262144"
proof -
  have ex: "execution_ok d" using reachable_ok [OF assms(1)] by (simp add: core_ok_def)
  note parts = ex [unfolded execution_ok_def work_state_ok_def]
  from assms(2) ex show ?thesis
  proof (cases rule: ClaimRun_success)
    case (1 m w now)
    note n = 1(3) [unfolded claimed_new_def]
    then have w: "w \<in> set (works d)" "claimable_work (m_SpaceID m) d w" by (auto dest: sql_LockWorkForRunClaim_Some)
    have "messages_ok (works d) (work_messages d)" using parts by simp
    from SelectRunInputEnd_bounds [OF this, of "w_AppliedInputSeq w + 1" "w_InputHeadSeq w" "w_WorkID w"] w n 1(1,2)
    show ?thesis
      by (intro exI [of _ w] exI [of _ "w_AppliedInputSeq w + 1"] exI [of _ m])
        (simp add: claimable_work_def created_claim_def)
  next
    case (2 m r w a now)
    note n = 2(3) [unfolded claimed_recovered_def]
    from n parts obtain w' where w': "w' \<in> set (works d)" "run_of_work_ok r w'" by (auto simp: runs_ok_def)
    then have "w' = w" using n parts unique_onD [of w_WorkID "\<lambda>_. True" "works d" w' w]
      by (auto simp: works_ok_def run_of_work_ok_def)
    moreover have "run_row_ok r" "length (run_inputs (work_messages d) r) \<le> 32" "text_bytes (run_inputs (work_messages d) r) \<le> 262144"
      using n parts by (auto simp: runs_ok_def inputs_bounded_def)
    ultimately show ?thesis
      using n 2(1,2) w'
      by (intro exI [of _ w] exI [of _ "r_InputStartSeq r"] exI [of _ m])
        (auto simp: recovered_claim_def run_of_work_ok_def run_row_ok_def run_inputs_def in_range_def [abs_def])
  qed
qed

text \<open>
  C4 (bounds). A claim carries the next input of one Work of the Machine's Space and nothing
  else: the range starts right behind the applied input and ends within the input head, the
  messages are exactly those numbered in the range (input 1 is the goal), in order and without
  a gap, at most 32 of them and at most 262144 bytes of text, and the base version is the
  current one. This holds for a new Run and for a recovered one.
\<close>

theorem claim_carries_next_input:
  assumes "reachable d" "ClaimRun machineID E d = (Inr c, d')"
  shows "\<exists>w m ms. machine_of machineID d = Some m \<and> m_RevokedAt m = None
    \<and> w \<in> set (works d) \<and> w_WorkID w = cl_WorkID c \<and> w_SpaceID w = m_SpaceID m \<and> cl_Goal c = w_Goal w
    \<and> cl_BaseUnderstandingVersion c = w_UnderstandingVersion w
    \<and> w_AppliedInputSeq w < cl_InputEndSeq c \<and> cl_InputEndSeq c \<le> w_InputHeadSeq w
    \<and> set ms \<subseteq> set (work_messages d)
    \<and> map message_slot ms = map (Pair (cl_WorkID c)) [max 2 (w_AppliedInputSeq w + 1)..cl_InputEndSeq c]
    \<and> cl_Messages c = map (\<lambda>x. \<lparr>rm_AuthorUserID = wm_AuthorUserID x, rm_Text = wm_Text x\<rparr>) ms
    \<and> length (cl_Messages c) \<le> 32 \<and> sum_list (map (\<lambda>x. length (rm_Text x)) (cl_Messages c)) \<le> 262144"
proof -
  from claim_input_rows [OF assms] obtain w m where
    w: "machine_of machineID d = Some m" "m_RevokedAt m = None" "w_SpaceID w = m_SpaceID m" "w \<in> set (works d)"
      "w_WorkID w = cl_WorkID c" "cl_Goal c = w_Goal w" "cl_BaseUnderstandingVersion c = w_UnderstandingVersion w"
      "w_AppliedInputSeq w + 1 \<le> cl_InputEndSeq c" "cl_InputEndSeq c \<le> w_InputHeadSeq w"
      "cl_Messages c = sql_ListRunInputMessages (w_WorkID w) (w_AppliedInputSeq w + 1) (cl_InputEndSeq c) d"
      "length (filter (in_range (w_WorkID w) (w_AppliedInputSeq w + 1) (cl_InputEndSeq c)) (work_messages d)) \<le> 32"
      "text_bytes (filter (in_range (w_WorkID w) (w_AppliedInputSeq w + 1) (cl_InputEndSeq c)) (work_messages d)) \<le> 262144"
    by blast
  have "execution_ok d" using reachable_ok [OF assms(1)] by (simp add: core_ok_def)
  from claimed_input [OF this w(4,9,11,12)] obtain ms where
    "set ms \<subseteq> set (work_messages d)" "map message_slot ms = map (Pair (w_WorkID w)) [max 2 (w_AppliedInputSeq w + 1)..cl_InputEndSeq c]"
    "cl_Messages c = map (\<lambda>m. \<lparr>rm_AuthorUserID = wm_AuthorUserID m, rm_Text = wm_Text m\<rparr>) ms"
    "length ms \<le> 32" "text_bytes ms \<le> 262144"
    unfolding w(10) by blast
  with w(1-9) show ?thesis
    by (intro exI [of _ w] exI [of _ m] exI [of _ ms]) (simp add: text_bytes_def comp_def)
qed

theorem claim_carries_next_input_witness:
  "\<exists>w \<in> set (works demo_created). w_WorkID w = cl_WorkID demo_claim \<and> cl_InputEndSeq demo_claim \<le> w_InputHeadSeq w"
  using claim_carries_next_input [OF demo_created_reachable demo_claimed_run] by blast

section \<open>Progress\<close>

lemma attempt_slot_free:
  assumes "execution_ok d" "r \<in> set (runs d)" "r_CurrentFence r < f"
  shows "\<not> key_taken attempt_slot (\<lambda>_. True) (r_RunID r, f) (run_attempts d)"
proof
  assume "key_taken attempt_slot (\<lambda>_. True) (r_RunID r, f) (run_attempts d)"
  then obtain a where a: "a \<in> set (run_attempts d)" "at_RunID a = r_RunID r" "at_Fence a = f"
    by (auto simp: key_taken_iff attempt_slot_def)
  note parts = assms(1) [unfolded execution_ok_def work_state_ok_def]
  from a parts obtain q where q: "q \<in> set (runs d)" "attempt_of_run_ok a q" by (auto simp: attempts_ok_def)
  then have "q = r" using parts unique_onD [of r_RunID "\<lambda>_. True" "runs d" q r] assms(2) a
    by (auto simp: runs_ok_def attempt_of_run_ok_def)
  with q a assms(3) show False by (simp add: attempt_of_run_ok_def)
qed

text \<open>The recovery of an expired Run goes through on a healthy connection.\<close>

lemma recover_run_runs:
  assumes "healthy E" "execution_ok d" "mono (clock E)"
    and found: "sql_LockExpiredRunForClaim E s (clock E k) d = Some (r, w, a)" and n: "k \<le> n"
  shows "\<exists>as rs n'. recover_run (r, w, a) E d n = Inr ((recovered_claim r w, r_InputStartSeq r), d\<lparr>run_attempts := as, runs := rs\<rparr>, n')
    \<and> replaces at_AttemptID (run_attempts d) a (expired_attempt (clock E n) a) as"
proof -
  note l = sql_LockExpiredRunForClaim_Some [OF found]
  note parts = assms(2) [unfolded execution_ok_def work_state_ok_def]
  have ua: "unique_on at_AttemptID (\<lambda>_. True) (run_attempts d)" and ur: "unique_on r_RunID (\<lambda>_. True) (runs d)"
    using parts by (simp_all add: attempts_ok_def runs_ok_def)
  have late: "at_LeaseExpiresAt a \<le> clock E n" using l monoD [OF assms(3) n] by simp
  let ?P = "\<lambda>x. at_AttemptID x = at_AttemptID a \<and> at_RunID x = r_RunID r \<and> at_Fence x = r_CurrentFence r
      \<and> at_State x = StateActive \<and> at_LeaseExpiresAt x \<le> clock E n"
  have ad: "a \<in> set (run_attempts d)" "?P a" using l late by auto
  have one: "count_where ?P (run_attempts d) = 1"
    by (rule unique_update_first(2) [of at_AttemptID, OF ua ad(1)]) (use ad in auto)
  let ?as = "update_where ?P (expired_attempt (clock E n)) (run_attempts d)"
  have rep: "replaces at_AttemptID (run_attempts d) a (expired_attempt (clock E n) a) ?as"
    by (rule replaces_update_where [OF ua ad(1)]) (use ad in \<open>auto simp: expired_attempt_def\<close>)
  have expire: "sql_ExpireRunAttempt (at_AttemptID a) (r_RunID r) (r_CurrentFence r) (clock E n) d = (1, d\<lparr>run_attempts := ?as\<rparr>)"
    using one by (simp add: sql_ExpireRunAttempt_def Let_def expired_attempt_def [abs_def])
  let ?Q = "\<lambda>x. r_RunID x = r_RunID r \<and> r_State x = StateActive \<and> r_CurrentFence x = r_CurrentFence r"
  have "first_where ?Q (runs d) = Some r"
    by (rule unique_update_first(1) [of r_RunID, OF ur]) (use l in auto)
  then have rotate: "sql_RotateRunFence (r_RunID r) (r_CurrentFence r) (d\<lparr>run_attempts := ?as\<rparr>)
      = (Some (r_CurrentFence r + 1), d\<lparr>run_attempts := ?as, runs := update_where ?Q rotated_run (runs d)\<rparr>)"
    by (simp add: sql_RotateRunFence_def Let_def rotated_run_def [abs_def])
  show ?thesis
    using rep assms(1) by (intro exI [of _ ?as] exI [of _ "update_where ?Q rotated_run (runs d)"] exI [of _ "n + 2"])
      (simp add: recover_run_def tx_run expire rotate recovered_claim_def)
qed

lemma open_attempt_runs:
  assumes "healthy E" "\<not> key_taken at_AttemptID (\<lambda>_. True) (fresh E 1) (run_attempts d)"
    "\<not> key_taken attempt_slot (\<lambda>_. True) (cl_RunID c, cl_Fence c) (run_attempts d)"
    "\<not> key_taken at_RunID attempt_active (cl_RunID c) (run_attempts d)"
  shows "\<exists>c' d' n'. open_attempt machineID (c, start) E d n = Inr (c', d', n')"
  using assms by (simp add: open_attempt_def tx_run sql_CreateRunAttempt_def new_attempt_def attempt_slot_def attempt_active_def)

lemma create_run_runs:
  assumes "healthy E" "sql_LockWorkForRunClaim E s d = Some w" "\<not> key_taken r_RunID (\<lambda>_. True) (fresh E 0) (runs d)"
  shows "create_run s E d n = Inr ((created_claim E (fresh E 0) (run_for_work E d w) w, w_AppliedInputSeq w + 1),
      d\<lparr>runs := runs d @ [run_for_work E d w]\<rparr>, n + 3)"
proof -
  have "claimable_work s d w" using sql_LockWorkForRunClaim_Some [OF assms(2)] by simp
  then have "\<not> key_taken r_WorkID unresolved (w_WorkID w) (runs d)"
    by (auto simp: claimable_work_def key_taken_iff exists_where_iff unresolved_def)
  with assms show ?thesis
    by (simp add: create_run_def tx_run sql_CreateRun_def run_for_work_def new_run_def created_claim_def)
qed

lemma no_attempt_of_new_run:
  assumes "execution_ok d" "\<not> key_taken r_RunID (\<lambda>_. True) i (runs d)"
  shows "\<not> key_taken attempt_slot (\<lambda>_. True) (i, f) (run_attempts d) \<and> \<not> key_taken at_RunID attempt_active i (run_attempts d)"
  using assms by (force simp: execution_ok_def work_state_ok_def attempts_ok_def attempt_of_run_ok_def key_taken_iff attempt_slot_def)

text \<open>
  C5 (liveness). A healthy claim makes progress. If no statement fails, the clock does not run
  backwards, the Machine is current, the two UUIDs are fresh, and the Space has an open Work
  with unapplied input and no unresolved Run, or a Run whose lease has expired, that no
  concurrent transaction holds, then the claim is granted and its lease lies in the future.
\<close>

theorem healthy_claim_is_granted:
  assumes "reachable d" "healthy E" "mono (clock E)" "machine_of machineID d = Some m" "m_RevokedAt m = None"
    and fresh: "\<not> key_taken r_RunID (\<lambda>_. True) (fresh E 0) (runs d)"
      "\<not> key_taken at_AttemptID (\<lambda>_. True) (fresh E 1) (run_attempts d)"
    and work: "(\<exists>w \<in> set (works d). claimable_work (m_SpaceID m) d w \<and> \<not> row_locked E (w_WorkID w))
      \<or> sql_LockExpiredRunForClaim E (m_SpaceID m) (clock E 1) d \<noteq> None"
  shows "\<exists>c d'. ClaimRun machineID E d = (Inr c, d')"
proof -
  have ok: "execution_ok d" using reachable_ok [OF assms(1)] by (simp add: core_ok_def)
  note parts = ok [unfolded execution_ok_def work_state_ok_def]
  have "\<exists>c d' n. ClaimRun_tx machineID E d 0 = Inr (c, d', n)"
  proof (cases "sql_LockExpiredRunForClaim E (m_SpaceID m) (clock E 1) d")
    case (Some row)
    obtain r w a where row: "row = (r, w, a)" by (cases row)
    note l = sql_LockExpiredRunForClaim_Some [OF Some [unfolded row]]
    from recover_run_runs [OF assms(2) ok assms(3) Some [unfolded row], of 2] obtain as rs n' where
      rec: "recover_run (r, w, a) E d 2 = Inr ((recovered_claim r w, r_InputStartSeq r), d\<lparr>run_attempts := as, runs := rs\<rparr>, n')"
      and rep: "replaces at_AttemptID (run_attempts d) a (expired_attempt (clock E 2) a) as" by auto
    have "\<not> key_taken at_AttemptID (\<lambda>_. True) (fresh E 1) as"
      using fresh(2) replaces_set [OF rep] l by (auto simp: key_taken_iff expired_attempt_def)
    moreover have "\<not> key_taken attempt_slot (\<lambda>_. True) (r_RunID r, r_CurrentFence r + 1) as"
      using attempt_slot_free [OF ok, of r "r_CurrentFence r + 1"] replaces_set [OF rep] l
      by (auto simp: key_taken_iff expired_attempt_def attempt_slot_def)
    moreover have "\<not> key_taken at_RunID attempt_active (r_RunID r) as"
      using parts l replaces_set [OF rep] unique_onD [of at_RunID attempt_active "run_attempts d" _ a]
      by (auto simp: key_taken_iff expired_attempt_def attempts_ok_def attempt_active_def)
    ultimately have "\<exists>c' d' n''. open_attempt machineID (recovered_claim r w, r_InputStartSeq r) E (d\<lparr>run_attempts := as, runs := rs\<rparr>) n' = Inr (c', d', n'')"
      by (intro open_attempt_runs [OF assms(2)]) (simp_all add: recovered_claim_def)
    with Some row rec assms(2,4,5) show ?thesis
      by (simp add: ClaimRun_tx_def tx_run sql_LockClaimingMachine_def numeral_2_eq_2)
  next
    case None
    with work obtain w where "w \<in> set (works d)" "claimable_work (m_SpaceID m) d w" "\<not> row_locked E (w_WorkID w)" by blast
    then have "order_by created_order (filter (\<lambda>w. claimable_work (m_SpaceID m) d w \<and> \<not> row_locked E (w_WorkID w)) (works d)) \<noteq> []"
      by (metis (mono_tags, lifting) filter_empty_conv length_0_conv length_order_by(1))
    then have "\<exists>w. sql_LockWorkForRunClaim E (m_SpaceID m) d = Some w"
      unfolding sql_LockWorkForRunClaim_def by (metis first_row_None not_Some_eq)
    then obtain w where w: "sql_LockWorkForRunClaim E (m_SpaceID m) d = Some w" by blast
    from open_attempt_runs [OF assms(2), of "d\<lparr>runs := runs d @ [run_for_work E d w]\<rparr>" "created_claim E (fresh E 0) (run_for_work E d w) w"]
      fresh no_attempt_of_new_run [OF ok fresh(1), of 1]
    have "\<exists>c' d' n''. open_attempt machineID (created_claim E (fresh E 0) (run_for_work E d w) w, w_AppliedInputSeq w + 1) E
        (d\<lparr>runs := runs d @ [run_for_work E d w]\<rparr>) (2 + 3) = Inr (c', d', n'')"
      by (simp add: created_claim_def)
    with None create_run_runs [OF assms(2) w fresh(1), of 2] assms(2,4,5) show ?thesis
      by (simp add: ClaimRun_tx_def tx_run sql_LockClaimingMachine_def numeral_2_eq_2)
  qed
  then show ?thesis using assms(2) by (auto simp: ClaimRun_def transact_healthy)
qed

theorem healthy_claim_is_granted_witness:
  "\<exists>c d'. ClaimRun ''m1'' (demo_env ''r'' 200) demo_created = (Inr c, d')"
proof (rule healthy_claim_is_granted [OF demo_created_reachable demo_env_healthy])
  show "mono (clock (demo_env ''r'' 200))" by (simp add: mono_def)
  show "machine_of ''m1'' demo_created = Some demo_machine" by (simp add: machine_of_def demo_created_def demo_defs)
qed (simp_all add: demo_created_def demo_defs key_taken_def claimable_work_def exists_where_def demo_work_def)

end
