(* ===== verification/Idempotency.thy ===== *)
theory Idempotency
  imports Demo_Conversation
begin

text \<open>
  Commands with an idempotency key take effect at most once, the answer of a send that was lost is
  recovered, and conflicting reuse of a key is refused.
\<close>

lemma pair_eq: "p = (fst p, snd p)"
  by simp

section \<open>At most once\<close>

text \<open>
  C9 (safety). Creating a Work takes effect at most once. After a call that succeeded, or whose
  commit went through although the answer was lost, the same command changes nothing at any
  later time, whatever happened in between, and if it answers it names the same Work.
\<close>

theorem create_work_at_most_once:
  assumes "reachable d" "CreateWork c E d = (y, d1)" "(\<exists>v. y = Inr v) \<or> d1 \<noteq> d" "server_step\<^sup>*\<^sup>* d1 d2"
    "CreateWork c E' d2 = (y', d3)"
  shows "d3 = d2 \<and> (\<forall>a b. y = Inr a \<longrightarrow> y' = Inr b \<longrightarrow> vw_WorkID b = vw_WorkID a)"
  using create_once.at_most_once [OF reachable_ok [OF assms(1)] assms(2) _ assms(4,5)] assms(3) by blast

theorem create_work_at_most_once_witness:
  "snd (CreateWork demo_create (demo_env ''again'' 900) demo_claimed) = demo_claimed"
proof -
  have "server_step\<^sup>*\<^sup>* demo_created demo_claimed" using served_step(7) [OF demo_claimed_run] by blast
  from create_work_at_most_once [OF demo_base_reachable demo_created_run _ this pair_eq] show ?thesis by simp
qed

text \<open>
  Appending a message takes effect at most once: a repeated command never advances
  the input head again, and if it answers it names the same message and the same input number.
\<close>

theorem append_message_at_most_once:
  assumes "reachable d" "AppendWorkMessage c E d = (y, d1)" "(\<exists>v. y = Inr v) \<or> d1 \<noteq> d" "server_step\<^sup>*\<^sup>* d1 d2"
    "AppendWorkMessage c E' d2 = (y', d3)"
  shows "d3 = d2 \<and> (\<forall>a b. y = Inr a \<longrightarrow> y' = Inr b \<longrightarrow>
      mv_MessageID b = mv_MessageID a \<and> mv_InputSeq b = mv_InputSeq a)"
  using append_once.at_most_once [OF reachable_ok [OF assms(1)] assms(2) _ assms(4,5)] assms(3)
  unfolding message_ident_def by blast

definition demo_append :: append_command where
  "demo_append = \<lparr>ap_WorkID = ''w'', ap_SpaceID = ''space'', ap_AuthorUserID = ''bob'', ap_Text = ''Go on'', ap_IdempotencyKey = ''key''\<rparr>"

lemma demo_appended: "\<exists>v. fst (AppendWorkMessage demo_append (demo_env ''m'' 150) demo_created) = Inr v"
  by (simp add: AppendWorkMessage_def demo_append_def demo_normal_forms guard_def transact_healthy demo_env_healthy
      AppendWorkMessage_tx_def tx_run lockActiveWorkMembership_def sql_LockActiveWorkMembership_def active_membership_def
      sql_LockWork_def sql_FindWorkMessageByIdempotency_def sql_AdvanceWorkInputHead_def sql_CreateWorkMessage_def
      messageFromRow_def user_of_def new_message_def key_taken_def demo_created_def demo_defs demo_work_def Let_def)

theorem append_message_at_most_once_witness:
  "let d = snd (AppendWorkMessage demo_append (demo_env ''m'' 150) demo_created)
   in snd (AppendWorkMessage demo_append (demo_env ''n'' 900) d) = d"
proof -
  obtain v where v: "fst (AppendWorkMessage demo_append (demo_env ''m'' 150) demo_created) = Inr v" using demo_appended by blast
  from append_message_at_most_once [OF demo_created_reachable pair_eq _ rtranclp.rtrancl_refl pair_eq,
      of demo_append "demo_env ''m'' 150" "demo_env ''n'' 900"] v show ?thesis by (simp add: Let_def)
qed

text \<open>
  C10 (safety). Sending a message takes effect at most once: a repeated command never adds a
  message, and if it answers, the answer is the recorded message itself, field by field.
\<close>

theorem send_message_at_most_once:
  assumes "reachable d" "SendConversationMessage c E d = (y, d1)" "(\<exists>v. y = Inr v) \<or> d1 \<noteq> d" "server_step\<^sup>*\<^sup>* d1 d2"
    "SendConversationMessage c E' d2 = (y', d3)"
  shows "d3 = d2 \<and> (\<forall>a b. y = Inr a \<longrightarrow> y' = Inr b \<longrightarrow> b = a)"
  using send_once.at_most_once [OF reachable_ok [OF assms(1)] assms(2) _ assms(4,5)] assms(3) by blast

theorem send_message_at_most_once_witness:
  "snd (SendConversationMessage demo_send (demo_env ''again'' 900) demo_replied) = demo_replied"
proof -
  have "server_step demo_sent demo_granted" "server_step demo_granted demo_replied"
    using served_step(8) [OF demo_granted_run] served_step(6) [OF demo_replied_run] .
  then have "server_step\<^sup>*\<^sup>* demo_sent demo_replied" by auto
  from send_message_at_most_once [OF demo_base_reachable demo_sent_run _ this pair_eq] show ?thesis by simp
qed

text \<open>
  A reply is committed at most once: a repeated commit of the same source message
  adds neither a message nor a Work, and if it answers it names the same reply and the same Work.
\<close>

theorem commit_reply_at_most_once:
  assumes "reachable d" "CommitConversationReply c E d = (y, d1)" "(\<exists>v. y = Inr v) \<or> d1 \<noteq> d" "server_step\<^sup>*\<^sup>* d1 d2"
    "CommitConversationReply c E' d2 = (y', d3)"
  shows "d3 = d2 \<and> (\<forall>a b. y = Inr a \<longrightarrow> y' = Inr b \<longrightarrow> b = a)"
  using reply_once.at_most_once [OF reachable_ok [OF assms(1)] assms(2) _ assms(4,5)] assms(3) by blast

theorem commit_reply_at_most_once_witness:
  "snd (CommitConversationReply demo_reply (demo_env ''again'' 80) demo_replied) = demo_replied"
  using commit_reply_at_most_once [OF demo_granted_reachable demo_replied_run _ rtranclp.rtrancl_refl pair_eq] by simp

text \<open>
  Requesting a retry and accepting a result take effect at most once: a repeated
  command of either kind never changes the database again, at any later time.
\<close>

theorem retry_and_acceptance_at_most_once:
  assumes "reachable d" "server_step\<^sup>*\<^sup>* d1 d2"
    and "RequestWorkRetry r E d = (y, d1) \<and> (y = Inr () \<or> d1 \<noteq> d) \<and> RequestWorkRetry r E' d2 = (y', d3)
      \<or> AcceptWorkReview a E d = (y, d1) \<and> (y = Inr () \<or> d1 \<noteq> d) \<and> AcceptWorkReview a E' d2 = (y', d3)"
  shows "d3 = d2"
  using assms(3) retry_once.at_most_once [OF reachable_ok [OF assms(1)] _ _ assms(2)]
    accept_once.at_most_once [OF reachable_ok [OF assms(1)] _ _ assms(2)] by blast

definition demo_review :: accept_review_command where
  "demo_review = \<lparr>ac_WorkID = ''w'', ac_SpaceID = ''space'', ac_ReviewID = ''c'', ac_AcceptedBy = ''alice'', ac_IdempotencyKey = ''key''\<rparr>"

definition demo_reviewable :: db where
  "demo_reviewable = demo_claimed\<lparr>works := [demo_work\<lparr>w_Understanding := Some ''Done'', w_NextStep := Some ''Ship it'',
       w_AppliedInputSeq := 1, w_UnderstandingVersion := 1\<rparr>],
     runs := [demo_run\<lparr>r_State := StateSucceeded, r_CompletedAt := Some 305\<rparr>],
     run_attempts := [demo_attempt\<lparr>at_State := StateSucceeded, at_CompletedAt := Some 304\<rparr>],
     work_result_checks := [new_result_check (demo_env ''c'' 300) ''c'' ''w'' 1 (ReviewContentDigest ''Done'' ''Ship it'')]\<rparr>"

lemma demo_reviewable: "demo_committed = demo_reviewable"
proof -
  have v: "ValidateUnderstandingUpdate ''Done'' ''Ship it'' = Inr (''Done'', ''Ship it'')"
    using demo_texts plain_text_valid plain_text_no_nul plain_text_trim
    by (simp add: ValidateUnderstandingUpdate_Inr validText_def MaxUnderstandingBytes_def MaxNextStepBytes_def)
  show ?thesis
    by (simp add: demo_committed_def CommitWorkUnderstanding_def demo_commit_def v transact_healthy demo_env_healthy
        CommitWorkUnderstanding_tx_def tx_run sql_LockAttemptForCommit_def attempt_authority_def
        demo_claimed_def demo_created_def demo_defs demo_run_def demo_attempt_def new_run_def new_attempt_def
        exists_where_def work_of_def demo_work_def sql_RunAttemptLeaseIsCurrent_def attempt_of_def
        commit_current_def sql_CommitCurrentUnderstanding_def sql_CreateWorkResultCheck_def key_taken_def
        new_result_check_def sql_SucceedRunAttempt_def sql_FinishRunAttempt_def sql_SucceedRun_def
        sql_FinishRun_def finish_attempt_row_def finish_run_row_def check_slot_def demo_reviewable_def)
qed

lemma demo_accepted: "fst (AcceptWorkReview demo_review (demo_env ''a'' 400) demo_committed) = Inr ()"
  using plain_text_trim [of "''c''"]
  by (simp add: plain_text_def is_space_def AcceptWorkReview_def demo_review_def demo_normal_forms guard_def transact_healthy demo_env_healthy
      AcceptWorkReview_tx_def tx_run lockActiveWorkMembership_def sql_LockActiveWorkMembership_def active_membership_def
      sql_FindWorkReviewAcceptanceByIdempotency_def new_result_check_def sql_LockWork_def sql_LockWorkResultCheck_def
      textValue_def sql_AcceptWorkResultCheck_def demo_reviewable demo_reviewable_def demo_claimed_def
      demo_created_def demo_defs demo_work_def Let_def)

theorem retry_and_acceptance_at_most_once_witness:
  "let d = snd (AcceptWorkReview demo_review (demo_env ''a'' 400) demo_committed)
   in snd (AcceptWorkReview demo_review (demo_env ''b'' 900) d) = d"
proof -
  let ?p = "AcceptWorkReview demo_review (demo_env ''a'' 400) demo_committed"
  let ?q = "AcceptWorkReview demo_review (demo_env ''b'' 900) (snd ?p)"
  show ?thesis unfolding Let_def
    by (rule retry_and_acceptance_at_most_once [OF demo_committed_reachable rtranclp.rtrancl_refl,
        where a = demo_review and E = "demo_env ''a'' 400" and y = "fst ?p" and y' = "fst ?q" and E' = "demo_env ''b'' 900"],
        rule disjI2) (use demo_accepted in \<open>auto intro: prod_eqI\<close>)
qed

section \<open>The lost answer\<close>

lemma SendConversationMessage_tx_answers:
  assumes "conversation_ok d" "healthy E" "is_member (se_SpaceID c) (se_MemberUserID c) d"
    and rec: "cn \<in> set (conversations d)" "m \<in> set (conversation_messages d)" "admitted_as c body key v cn m"
  shows "\<exists>n. SendConversationMessage_tx c body key (ConversationDigest (se_SpaceID c) (se_MemberUserID c) body) E d 0 = Inr (v, d, n)"
proof -
  let ?x = "new_conversation E (fresh E 0) (se_SpaceID c) (se_MemberUserID c)"
  have kx: "conversation_key ?x = conversation_key cn"
    using rec(3) by (simp add: conversation_key_def new_conversation_def admitted_as_def)
  have "first_where (\<lambda>y. conversation_key y = conversation_key ?x) (conversations d) = Some cn"
    by (rule unique_update_first(1) [of conversation_key, OF _ rec(1)])
      (use assms(1) kx in \<open>auto simp: conversation_ok_def conversation_rows_ok_def\<close>)
  then have e: "sql_EnsureConversation ?x d = Inr (cn_ConversationID cn, d)" by (simp add: sql_EnsureConversation_def)
  have f: "sql_FindConversationMemberRequest (cn_ConversationID cn) key d = Some m"
    unfolding sql_FindConversationMemberRequest_def
    by (rule unique_first_where [of member_request_key is_member_message, OF _ rec(2)])
      (use assms(1) rec(3) in \<open>auto simp: conversation_ok_def message_rows_ok_def member_request_key_def
          is_member_message_def admitted_as_def\<close>)
  have g: "conversation_of (cn_ConversationID cn) d = Some cn"
    unfolding conversation_of_def
    by (rule unique_update_first(1) [of cn_ConversationID, OF _ rec(1)])
      (use assms(1) in \<open>auto simp: conversation_ok_def conversation_rows_ok_def\<close>)
  obtain x where l: "sql_LockActiveWorkMembership (se_SpaceID c) (se_MemberUserID c) d = Some x"
    using assms(3) sql_LockActiveWorkMembership_iff by blast
  show ?thesis
    using assms(2) rec(3) e f g l
    by (simp add: SendConversationMessage_tx_def tx_run lockActiveConversationMembership_def
        sql_LockActiveConversationMembership_eq admitted_as_def)
qed

text \<open>
  C6 (liveness). A lost answer can be recovered. After a send that took effect, answered or
  not, the member who repeats it at any later time, still active and on a healthy connection,
  receives the recorded message, the very answer of the first call where there was one.
\<close>

theorem lost_send_answer_is_recovered:
  assumes "reachable d" "SendConversationMessage c E d = (y, d1)" "(\<exists>v. y = Inr v) \<or> d1 \<noteq> d" "server_step\<^sup>*\<^sup>* d1 d2"
    and "healthy E'" "is_member (se_SpaceID c) (se_MemberUserID c) d2"
      "uuid_valid E' (se_SpaceID c)" "uuid_valid E' (se_MemberUserID c)"
  shows "\<exists>v. SendConversationMessage c E' d2 = (Inr v, d2) \<and> (\<forall>a. y = Inr a \<longrightarrow> v = a)
    \<and> (\<exists>m \<in> set (conversation_messages d1). v = admitted_message m)"
proof -
  have ok: "core_ok d" by (rule reachable_ok [OF assms(1)])
  have ok1: "core_ok d1" by (rule step_core_ok [OF ok served_step(5) [OF assms(2)]])
  from send_records [OF ok assms(2)] assms(3) obtain v where v: "send_recorded c v d1" "\<forall>r. y = Inr r \<longrightarrow> r = v" by blast
  have m1: "\<exists>m \<in> set (conversation_messages d1). v = admitted_message m"
    using v(1) by (auto simp: send_recorded_def admitted_as_def)
  have ok2: "core_ok d2" by (rule steps_core_ok [OF assms(4) ok1])
  from send_once.recorded_kept_steps [OF assms(4) ok1 v(1)] obtain body key cn m where
    k: "NormalizeText (se_Text c) = Inr body" "NormalizeRequestKey (se_IdempotencyKey c) = Inr key"
    and m: "cn \<in> set (conversations d2)" "m \<in> set (conversation_messages d2)" "admitted_as c body key v cn m"
    unfolding send_recorded_def by blast
  from SendConversationMessage_tx_answers [OF _ assms(5,6) m] ok2 obtain n where
    "SendConversationMessage_tx c body key (ConversationDigest (se_SpaceID c) (se_MemberUserID c) body) E' d2 0 = Inr (v, d2, n)"
    by (auto simp: core_ok_def)
  then have "SendConversationMessage c E' d2 = (Inr v, d2)"
    using assms(5,7,8) k by (simp add: SendConversationMessage_def guard_def transact_healthy)
  with v m1 show ?thesis by blast
qed

theorem lost_send_answer_is_recovered_witness:
  "SendConversationMessage demo_send (demo_env ''again'' 900) demo_granted = (Inr (admitted_message demo_message), demo_granted)"
proof -
  have s: "server_step\<^sup>*\<^sup>* demo_sent demo_granted" using served_step(8) [OF demo_granted_run] by blast
  have "is_member (se_SpaceID demo_send) (se_MemberUserID demo_send) demo_granted"
    by (simp add: is_member_def exists_where_def active_membership_def demo_granted_def demo_sent_def demo_defs demo_send_def)
  from lost_send_answer_is_recovered [OF demo_base_reachable demo_sent_run _ s demo_env_healthy this] show ?thesis by auto
qed

section \<open>Conflicting requests\<close>

lemma CreateDigest_goal:
  assumes "CreateDigest a b g = CreateDigest a b h" "length g < 2 ^ 64" "length h < 2 ^ 64"
  shows "g = h \<or> sha256_collision (frame_fields [a, b, g]) (frame_fields [a, b, h])"
  using assms frame_field_split [of g "[]" h "[]"]
  by (auto simp: CreateDigest_def digestFields_def sha256_collision_def frame_fields_def)

text \<open>
  An idempotency key that already names a Work is refused for another goal: the
  call changes nothing and never answers with a Work, and for an active member on a healthy
  connection the error is \<open>ErrIdempotencyConflict\<close>; the only escape is a SHA-256 collision.
\<close>

theorem conflicting_create_is_refused:
  assumes "reachable d" "w \<in> set (works d)" "NormalizeGoal (cr_Goal c) = Inr goal"
    "NormalizeIdempotencyKey (cr_IdempotencyKey c) = Inr key"
    and "w_SpaceID w = cr_SpaceID c" "w_CreatorUserID w = cr_CreatorUserID c" "w_CreateIdempotencyKey w = key"
    and "goal \<noteq> w_Goal w"
  shows "(\<exists>e. CreateWork c E d = (Inl e, d) \<and> (healthy E \<and> is_member (cr_SpaceID c) (cr_CreatorUserID c) d
      \<and> user_of (w_OwnerUserID w) d \<noteq> None \<and> user_of (w_CreatorUserID w) d \<noteq> None
      \<and> trim_space (cr_SpaceID c) \<noteq> [] \<and> trim_space (cr_CreatorUserID c) \<noteq> [] \<longrightarrow> e = WorkError ErrIdempotencyConflict))
    \<or> sha256_collision (frame_fields [cr_SpaceID c, cr_CreatorUserID c, w_Goal w]) (frame_fields [cr_SpaceID c, cr_CreatorUserID c, goal])"
proof (cases "w_CreateRequestDigest w = CreateDigest (cr_SpaceID c) (cr_CreatorUserID c) goal")
  case True
  have w: "work_row_ok w"
    using reachable_ok [OF assms(1)] assms(2) by (simp add: core_ok_def execution_ok_def work_state_ok_def works_ok_def)
  then have "length (w_Goal w) \<le> 2000" "length goal \<le> 2000"
    using assms(3) by (auto simp: work_row_ok_def NormalizeGoal_Inr MaxGoalBytes_def)
  moreover have "w_CreateRequestDigest w = CreateDigest (cr_SpaceID c) (cr_CreatorUserID c) (w_Goal w)"
    using w assms(5,6) by (simp add: work_row_ok_def)
  ultimately show ?thesis using CreateDigest_goal [of "cr_SpaceID c" "cr_CreatorUserID c" "w_Goal w" goal] True assms(8) by simp
next
  case False
  have works: "works_ok (works d)"
    using reachable_ok [OF assms(1)] by (simp add: core_ok_def execution_ok_def work_state_ok_def)
  let ?D = "CreateDigest (cr_SpaceID c) (cr_CreatorUserID c) goal"
  have k: "create_key w = (cr_SpaceID c, cr_CreatorUserID c, key)" using assms(5-7) by (simp add: create_key_def)
  then have taken: "key_taken create_key (\<lambda>_. True) (cr_SpaceID c, cr_CreatorUserID c, key) (works d)"
    using assms(2) by (auto simp: key_taken_iff)
  note find = find_by_create_key [OF works assms(2) k]
  have no: "CreateWork_tx c goal key ?D E d 0 \<noteq> Inr (x, d', n)" for x d' n
    using taken find False
    by (auto simp: CreateWork_tx_def tx_simps sql_CreateWork_def create_key_def new_work_def
        sql_FindWorkByCreateIdempotency_def joined_work_def split: option.split_asm)
  have "\<exists>e. CreateWork c E d = (Inl e, d)"
    unfolding CreateWork_def
  proof (intro checked_refuses transact_refuses)
    fix goal' u key' x d' n
    assume "NormalizeGoal (cr_Goal c) = Inr goal'" "NormalizeIdempotencyKey (cr_IdempotencyKey c) = Inr key'"
    with assms(3,4) no show "CreateWork_tx c goal' key' (CreateDigest (cr_SpaceID c) (cr_CreatorUserID c) goal') E d 0 \<noteq> Inr (x, d', n)"
      by simp
  qed
  moreover have "fst (CreateWork c E d) = Inl (WorkError ErrIdempotencyConflict)"
    if h: "healthy E" "is_member (cr_SpaceID c) (cr_CreatorUserID c) d" "user_of (w_OwnerUserID w) d \<noteq> None"
      "user_of (w_CreatorUserID w) d \<noteq> None" "trim_space (cr_SpaceID c) \<noteq> []" "trim_space (cr_CreatorUserID c) \<noteq> []"
  proof -
    obtain x where "sql_LockActiveWorkMembership (cr_SpaceID c) (cr_CreatorUserID c) d = Some x"
      using h(2) sql_LockActiveWorkMembership_iff by blast
    then have "CreateWork_tx c goal key ?D E d 0 = Inl (WorkError ErrIdempotencyConflict)"
      using h taken find False
      by (auto simp: CreateWork_tx_def tx_run lockActiveWorkMembership_def sql_CreateWork_def create_key_def new_work_def
          sql_FindWorkByCreateIdempotency_def joined_work_def display_names_def)
    then show ?thesis using assms(3,4) h by (simp add: CreateWork_def guard_def transact_healthy)
  qed
  ultimately show ?thesis by fastforce
qed

definition demo_other :: create_command where
  "demo_other = demo_create\<lparr>cr_Goal := ''Go on''\<rparr>"

theorem conflicting_create_is_refused_witness:
  "(\<exists>e. CreateWork demo_other (demo_env ''o'' 300) demo_created = (Inl e, demo_created))
    \<or> sha256_collision (frame_fields [''space'', ''alice'', ''Plan'']) (frame_fields [''space'', ''alice'', ''Go on''])"
  using conflicting_create_is_refused [OF demo_created_reachable, of demo_work demo_other "''Go on''" "''key''" "demo_env ''o'' 300"]
  by (auto simp: demo_other_def demo_create_def demo_created_def demo_work_def demo_normal_forms new_work_def)

end
