(* ===== verification/Conversation_Guarantees.thy ===== *)
theory Conversation_Guarantees
  imports Demo_Conversation Claim_Guarantees
begin

text \<open>
  What a member and a replying Machine may rely on in a private Conversation: the transcript
  alternates, one reply is pending at a time, a takeover of a reply is final, and the context of
  a reply never changes once it was granted.
\<close>

section \<open>The transcript\<close>

definition at_seq :: "uuid \<Rightarrow> int \<Rightarrow> message_row \<Rightarrow> bool" where
  "at_seq i n x \<longleftrightarrow> msg_ConversationID x = i \<and> msg_MessageSeq x = n"

lemma only_message_at:
  assumes "conversation_ok d" "m \<in> set (conversation_messages d)" "x \<in> set (conversation_messages d)"
    "at_seq (msg_ConversationID m) (msg_MessageSeq m) x"
  shows "x = m"
  using assms unique_onD [of message_position "\<lambda>_. True" "conversation_messages d" x m]
  by (simp add: conversation_ok_def message_rows_ok_def at_seq_def message_position_def)

text \<open>Every earlier number of the Conversation is taken.\<close>

lemma earlier_message:
  assumes "conversation_ok d" "m \<in> set (conversation_messages d)" "1 \<le> n" "n \<le> msg_MessageSeq m"
  obtains x where "x \<in> set (conversation_messages d)" "at_seq (msg_ConversationID m) n x"
proof -
  from assms(1,2) obtain c where c: "c \<in> set (conversations d)" "message_in m c"
    by (auto simp: conversation_ok_def message_rows_ok_def)
  then have "n \<in> {1..cn_MessageHeadSeq c}" using assms(3,4) by (simp add: message_in_def)
  with c(1) assms(1) obtain x where "x \<in> set (conversation_messages d)" "message_position x = (cn_ConversationID c, n)"
    unfolding conversation_ok_def message_rows_ok_def by blast
  with c(2) that show ?thesis by (simp add: at_seq_def message_position_def message_in_def)
qed

lemma message_author:
  "conversation_ok d \<Longrightarrow> m \<in> set (conversation_messages d) \<Longrightarrow> msg_Author m = AuthorMember \<or> msg_Author m = AuthorCarry"
  by (auto simp: conversation_ok_def message_rows_ok_def author_shape_def)

text \<open>What a message of Carry answers stands right before it.\<close>

lemma answered_message:
  assumes ok: "conversation_ok d" and m: "m \<in> set (conversation_messages d)" "msg_Author m = AuthorCarry"
  shows "\<exists>s \<in> set (conversation_messages d). msg_Author s = AuthorMember \<and> at_seq (msg_ConversationID m) (msg_MessageSeq m - 1) s
    \<and> msg_ReplyToMemberMessageID m = Some (msg_MessageID s)"
proof -
  note parts = ok [unfolded conversation_ok_def message_rows_ok_def claims_ok_def]
  from parts m obtain k where k: "k \<in> set (conversation_reply_claims d)" "k_CommittedReplyMessageID k = Some (msg_MessageID m)"
    by (fastforce simp: claim_for_def)
  then obtain s r where s: "s \<in> set (conversation_messages d)" "source_of k s" "r \<in> set (conversation_messages d)" "reply_of k s r"
    using parts unfolding claim_linked_def has_reply_def by (metis option.distinct(1))
  then have "r = m" using k(2) m(1) parts unique_onD [of msg_MessageID "\<lambda>_. True" "conversation_messages d" r m]
    by (auto simp: reply_of_def)
  with s show ?thesis by (intro bexI [of _ s]) (auto simp: source_of_def reply_of_def at_seq_def)
qed

text \<open>A reply obligation is unresolved only at the end of its Conversation; a resolved one is answered by the next message.\<close>

lemma obligation_of_message:
  assumes ok: "conversation_ok d" and m: "m \<in> set (conversation_messages d)"
    and k: "k \<in> set (conversation_reply_claims d)" "k_SourceMessageID k = msg_MessageID m"
  shows "if claim_unresolved k
    then \<forall>x \<in> set (conversation_messages d). msg_ConversationID x = msg_ConversationID m \<longrightarrow> msg_MessageSeq x \<le> msg_MessageSeq m
    else \<exists>r \<in> set (conversation_messages d). msg_Author r = AuthorCarry \<and> at_seq (msg_ConversationID m) (msg_MessageSeq m + 1) r
      \<and> msg_ReplyToMemberMessageID r = Some (msg_MessageID m) \<and> k_CommittedReplyMessageID k = Some (msg_MessageID r)"
proof -
  note parts = ok [unfolded conversation_ok_def message_rows_ok_def claims_ok_def conversation_rows_ok_def]
  from k(1) parts obtain s where s: "s \<in> set (conversation_messages d)" "source_of k s"
    "claim_unresolved k \<longrightarrow> (\<exists>c \<in> set (conversations d). cn_ConversationID c = k_ConversationID k \<and> cn_MessageHeadSeq c = msg_MessageSeq s)"
    "has_reply k \<longrightarrow> (\<exists>r \<in> set (conversation_messages d). reply_of k s r)"
    unfolding claim_linked_def by blast
  have "s = m" using s(1,2) k(2) m parts unique_onD [of msg_MessageID "\<lambda>_. True" "conversation_messages d" s m]
    by (auto simp: source_of_def)
  note s = s [unfolded this]
  show ?thesis
  proof (cases "claim_unresolved k")
    case True
    with s(3) obtain c where c: "c \<in> set (conversations d)" "cn_ConversationID c = k_ConversationID k" "cn_MessageHeadSeq c = msg_MessageSeq m" by blast
    have "msg_MessageSeq x \<le> msg_MessageSeq m" if x: "x \<in> set (conversation_messages d)" "msg_ConversationID x = msg_ConversationID m" for x
    proof -
      from x parts obtain c' where c': "c' \<in> set (conversations d)" "message_in x c'" by blast
      then have "c' = c" using c s(2) x(2) parts unique_onD [of cn_ConversationID "\<lambda>_. True" "conversations d" c' c]
        by (auto simp: message_in_def source_of_def)
      with c' c(3) show ?thesis by (simp add: message_in_def)
    qed
    with True show ?thesis by simp
  next
    case False
    then have "has_reply k" by (auto simp: has_reply_def claim_unresolved_def)
    with s(4) obtain r where "r \<in> set (conversation_messages d)" "reply_of k m r" by blast
    with False s(2) show ?thesis by (auto simp: reply_of_def source_of_def at_seq_def)
  qed
qed

lemma obliging_claim:
  assumes ok: "conversation_ok d" and m: "m \<in> set (conversation_messages d)" "msg_Author m = AuthorMember"
  obtains k where "k \<in> set (conversation_reply_claims d)" "k_SourceMessageID k = msg_MessageID m"
  using assms unfolding conversation_ok_def claims_ok_def claim_for_def by metis

text \<open>The message after a member's message, if there is one, is Carry's; the one after Carry's is a member's.\<close>

lemma neighbours_differ:
  assumes ok: "conversation_ok d" and m: "m \<in> set (conversation_messages d)"
    and x: "x \<in> set (conversation_messages d)" "at_seq (msg_ConversationID m) (msg_MessageSeq m + 1) x"
  shows "msg_Author x = AuthorMember \<longleftrightarrow> msg_Author m \<noteq> AuthorMember"
proof (cases "msg_Author m = AuthorMember")
  case True
  with ok m obtain k where k: "k \<in> set (conversation_reply_claims d)" "k_SourceMessageID k = msg_MessageID m" by (rule obliging_claim)
  from obligation_of_message [OF ok m k] x obtain r where "r \<in> set (conversation_messages d)" "msg_Author r = AuthorCarry"
    "at_seq (msg_ConversationID m) (msg_MessageSeq m + 1) r" by (force simp: at_seq_def split: if_split_asm)
  with only_message_at [OF ok, of x r] x True show ?thesis by (auto simp: at_seq_def)
next
  case False
  have "msg_Author x \<noteq> AuthorCarry"
  proof
    assume "msg_Author x = AuthorCarry"
    from answered_message [OF ok x(1) this] obtain s where "s \<in> set (conversation_messages d)" "msg_Author s = AuthorMember"
      "at_seq (msg_ConversationID x) (msg_MessageSeq x - 1) s" by blast
    with only_message_at [OF ok m, of s] x(2) False show False by (auto simp: at_seq_def)
  qed
  with message_author [OF ok x(1)] False show ?thesis by blast
qed

lemma author_by_parity:
  assumes ok: "conversation_ok d" and m: "m \<in> set (conversation_messages d)"
  shows "msg_Author m = (if odd (msg_MessageSeq m) then AuthorMember else AuthorCarry)"
proof -
  have "x \<in> set (conversation_messages d) \<Longrightarrow> msg_MessageSeq x = int n + 1 \<Longrightarrow> (msg_Author x = AuthorMember \<longleftrightarrow> even n)" for n x
  proof (induction n arbitrary: x)
    case 0
    have "msg_Author x \<noteq> AuthorCarry"
    proof
      assume "msg_Author x = AuthorCarry"
      from answered_message [OF ok 0(1) this] 0 ok show False
        by (fastforce simp: at_seq_def conversation_ok_def message_rows_ok_def message_text_ok_def)
    qed
    with message_author [OF ok 0(1)] show ?case by auto
  next
    case (Suc n)
    obtain p where p: "p \<in> set (conversation_messages d)" "at_seq (msg_ConversationID x) (int n + 1) p"
      using earlier_message [OF ok Suc.prems(1), of "int n + 1"] Suc.prems(2) by auto
    have "at_seq (msg_ConversationID p) (msg_MessageSeq p + 1) x" using p(2) Suc.prems(2) by (simp add: at_seq_def)
    with neighbours_differ [OF ok p(1) Suc.prems(1)] Suc.IH [OF p(1)] p(2) show ?case by (auto simp: at_seq_def)
  qed
  moreover have "1 \<le> msg_MessageSeq m" using ok m by (auto simp: conversation_ok_def message_rows_ok_def message_text_ok_def)
  then obtain n where "msg_MessageSeq m = int n + 1" by (metis add.commute zle_iff_zadd)
  ultimately show ?thesis using message_author [OF ok m] m by auto
qed

text \<open>
  C7 (invariant). A Conversation alternates. In every reachable state its messages are numbered from 1 without
  gap or repetition; the odd ones are the member's, the even ones are Carry's and answer the message right before them;
  and every member's message carries exactly one reply obligation, which, once it is resolved, is answered by the next message,
  and, while it is not, leaves the message the last one of its Conversation.
\<close>

theorem conversation_alternates:
  assumes "reachable d" "m \<in> set (conversation_messages d)"
  shows "msg_Author m = (if odd (msg_MessageSeq m) then AuthorMember else AuthorCarry)
    \<and> (\<forall>n \<in> {1..msg_MessageSeq m}. \<exists>!x. x \<in> set (conversation_messages d) \<and> at_seq (msg_ConversationID m) n x)
    \<and> (msg_Author m = AuthorCarry \<longrightarrow> (\<exists>s \<in> set (conversation_messages d). msg_Author s = AuthorMember
        \<and> at_seq (msg_ConversationID m) (msg_MessageSeq m - 1) s \<and> msg_ReplyToMemberMessageID m = Some (msg_MessageID s)))
    \<and> (msg_Author m = AuthorMember \<longrightarrow>
        count_where (\<lambda>k. k_SourceMessageID k = msg_MessageID m) (conversation_reply_claims d) = 1
        \<and> (\<forall>k \<in> set (conversation_reply_claims d). k_SourceMessageID k = msg_MessageID m \<longrightarrow>
             (if claim_unresolved k
              then \<forall>x \<in> set (conversation_messages d). msg_ConversationID x = msg_ConversationID m \<longrightarrow> msg_MessageSeq x \<le> msg_MessageSeq m
              else \<exists>r \<in> set (conversation_messages d). msg_Author r = AuthorCarry \<and> at_seq (msg_ConversationID m) (msg_MessageSeq m + 1) r
                \<and> msg_ReplyToMemberMessageID r = Some (msg_MessageID m) \<and> k_CommittedReplyMessageID k = Some (msg_MessageID r))))"
proof (intro conjI ballI impI)
  have ok: "conversation_ok d" using reachable_ok [OF assms(1)] by (simp add: core_ok_def)
  show "msg_Author m = (if odd (msg_MessageSeq m) then AuthorMember else AuthorCarry)" by (rule author_by_parity [OF ok assms(2)])
  fix n assume "n \<in> {1..msg_MessageSeq m}"
  then obtain x where x: "x \<in> set (conversation_messages d)" "at_seq (msg_ConversationID m) n x"
    using earlier_message [OF ok assms(2)] by auto
  have "y = x" if "y \<in> set (conversation_messages d)" "at_seq (msg_ConversationID m) n y" for y
    by (rule only_message_at [OF ok x(1) that(1)]) (use x(2) that(2) in \<open>simp add: at_seq_def\<close>)
  with x show "\<exists>!x. x \<in> set (conversation_messages d) \<and> at_seq (msg_ConversationID m) n x" by blast
next
  have ok: "conversation_ok d" using reachable_ok [OF assms(1)] by (simp add: core_ok_def)
  show "\<exists>s \<in> set (conversation_messages d). msg_Author s = AuthorMember
      \<and> at_seq (msg_ConversationID m) (msg_MessageSeq m - 1) s \<and> msg_ReplyToMemberMessageID m = Some (msg_MessageID s)"
    if "msg_Author m = AuthorCarry" by (rule answered_message [OF ok assms(2) that])
  show "count_where (\<lambda>k. k_SourceMessageID k = msg_MessageID m) (conversation_reply_claims d) = 1" if a: "msg_Author m = AuthorMember"
  proof -
    from ok assms(2) a obtain k where "k \<in> set (conversation_reply_claims d)" "k_SourceMessageID k = msg_MessageID m" by (rule obliging_claim)
    with ok show ?thesis unfolding conversation_ok_def claims_ok_def
      by (intro unique_update_first(2) [of k_SourceMessageID]) auto
  qed
  show "if claim_unresolved k
      then \<forall>x \<in> set (conversation_messages d). msg_ConversationID x = msg_ConversationID m \<longrightarrow> msg_MessageSeq x \<le> msg_MessageSeq m
      else \<exists>r \<in> set (conversation_messages d). msg_Author r = AuthorCarry \<and> at_seq (msg_ConversationID m) (msg_MessageSeq m + 1) r
        \<and> msg_ReplyToMemberMessageID r = Some (msg_MessageID m) \<and> k_CommittedReplyMessageID k = Some (msg_MessageID r)"
    if "k \<in> set (conversation_reply_claims d)" "k_SourceMessageID k = msg_MessageID m" for k
    by (rule obligation_of_message [OF ok assms(2) that])
qed

theorem conversation_alternates_witness:
  "count_where (\<lambda>k. k_SourceMessageID k = msg_MessageID demo_message) (conversation_reply_claims demo_sent) = 1"
proof -
  have m: "demo_message \<in> set (conversation_messages demo_sent)" "msg_Author demo_message = AuthorMember"
    by (simp_all add: demo_sent_def demo_message_def)
  from conversation_alternates [OF demo_sent_reachable m(1)] m(2) show ?thesis by blast
qed

section \<open>Takeover of a reply\<close>

lemma ClaimConversationReply_success:
  assumes "ClaimConversationReply machineID E d = (Inr v, d')"
  obtains n where "ClaimConversationReply_tx machineID E d 0 = Inr (v, d', n)"
  using assms unfolding ClaimConversationReply_def checked_Inr by (blast elim: transact_body)

lemma granted_fence:
  assumes "ClaimConversationReply machineID E d = (Inr v, d')" "core_ok d"
  shows "reply_fence (rp_SourceMessageID v) d' = Some (rp_Fence v)"
    "reply_fence (rp_SourceMessageID v) d = Some (rp_Fence v - 1)"
proof -
  have ok: "conversation_ok d" using assms(2) by (simp add: core_ok_def)
  have ok': "conversation_ok d'" using step_core_ok [OF assms(2) served_step(8) [OF assms(1)]] by (simp add: core_ok_def)
  obtain n where run: "ClaimConversationReply_tx machineID E d 0 = Inr (v, d', n)"
    by (rule ClaimConversationReply_success [OF assms(1)])
  from ClaimConversationReply_tx_effect [OF run ok] obtain mach k c m s now where
    "machine_of machineID d = Some mach" "claim_joined d (m_SpaceID mach) k = Some (c, m)"
    and k: "k \<in> set (conversation_reply_claims d)"
    "replaces k_SourceMessageID (conversation_reply_claims d) k (assigned_claim machineID s (msg_MessageSeq m) now k) (conversation_reply_claims d')"
    and v: "rp_SourceMessageID v = k_SourceMessageID k" "rp_Fence v = k_CurrentFence k + 1" by blast
  from claim_of_row [OF ok' replaces_in [OF k(2)]] claim_of_row [OF ok k(1)] v
  show "reply_fence (rp_SourceMessageID v) d' = Some (rp_Fence v)" "reply_fence (rp_SourceMessageID v) d = Some (rp_Fence v - 1)"
    by (simp_all add: reply_fence_def assigned_claim_def)
qed

text \<open>
  A reply obligation has one holder. Once a Machine has claimed a reply, a commit
  or a renewal under any earlier fence is refused without a trace, at any later time and
  whatever happened in between, so a slow Machine cannot answer a member twice.
\<close>

theorem reply_takeover_excludes_previous_holder:
  assumes "reachable d" "ClaimConversationReply machineID E d = (Inr v, d')" "server_step\<^sup>*\<^sup>* d' d''"
    and "cm_SourceMessageID commit = rp_SourceMessageID v" "cm_Fence commit < rp_Fence v"
    and "rn_SourceMessageID renew = rp_SourceMessageID v" "rn_Fence renew < rp_Fence v"
  shows "(\<exists>e. CommitConversationReply commit E' d'' = (Inl e, d''))
    \<and> (\<exists>e. RenewConversationReply renew E' d'' = (Inl e, d''))"
proof -
  have ok: "core_ok d" by (rule reachable_ok [OF assms(1)])
  have ok': "core_ok d'" by (rule step_core_ok [OF ok served_step(8) [OF assms(2)]])
  from granted_fence [OF assms(2) ok] assms(4-) show ?thesis
    using reply_lease.superseded [OF ok' _ _ assms(3), of commit] reply_renewal_lease.superseded [OF ok' _ _ assms(3), of renew]
    by auto
qed

theorem reply_takeover_excludes_previous_holder_witness:
  "\<exists>e. CommitConversationReply (demo_reply\<lparr>cm_Fence := 0\<rparr>) (demo_env ''z'' 70) demo_granted = (Inl e, demo_granted)"
  using reply_takeover_excludes_previous_holder [OF demo_sent_reachable demo_granted_run rtranclp.rtrancl_refl,
      of "demo_reply\<lparr>cm_Fence := 0\<rparr>" "\<lparr>rn_MachineID = ''m1'', rn_SourceMessageID = ''cx'', rn_Fence = 0\<rparr>"]
  by (simp add: demo_reply_def demo_grant_def)

section \<open>The context of a reply\<close>

text \<open>A context that was granted once is never moved by any operation.\<close>

definition context_kept :: "reply_claim_row \<Rightarrow> reply_claim_row \<Rightarrow> bool" where
  "context_kept k k' \<longleftrightarrow> k_SourceMessageID k' = k_SourceMessageID k \<and> k_ConversationID k' = k_ConversationID k
     \<and> (k_ContextStartSeq k \<noteq> None \<longrightarrow> k_ContextStartSeq k' = k_ContextStartSeq k \<and> k_ContextEndSeq k' = k_ContextEndSeq k)"

definition contexts_kept :: "db \<Rightarrow> db \<Rightarrow> bool" where
  "contexts_kept d d' \<longleftrightarrow> grown context_kept (conversation_reply_claims d) (conversation_reply_claims d')"

lemma context_kept_refl [simp]: "context_kept k k"
  by (simp add: context_kept_def)

interpretation contexts: growth contexts_kept
proof unfold_locales
  show "contexts_kept d d" for d by (simp add: contexts_kept_def grown_refl)
  show "contexts_kept d d1 \<Longrightarrow> contexts_kept d1 d2 \<Longrightarrow> contexts_kept d d2" for d d1 d2
    unfolding contexts_kept_def by (rule grown_trans [rotated]) (auto simp: context_kept_def)
qed

lemma contexts_kept_part: "conversation_part d' = conversation_part d \<Longrightarrow> contexts_kept d d'"
  by (simp add: contexts_kept_def conversation_part_def grown_refl)

lemma contexts_statements:
  "sql_EnsureConversation cn d = Inr (i, d') \<Longrightarrow> contexts_kept d d'"
  "insert_message msg d = Inr (msg', d') \<Longrightarrow> contexts_kept d d'"
  "sql_CreateConversationReplyClaim i' j d = Inr (u, d') \<Longrightarrow> contexts_kept d d'"
  "sql_CreateWork w d = Inr (x, d') \<Longrightarrow> contexts_kept d d'"
  by (auto simp: contexts_kept_def sql_CreateWork_def sql_EnsureConversation_def insert_message_def
      sql_CreateConversationReplyClaim_def Let_def grown_refl grown_append split: if_split_asm option.split_asm)

lemma contexts_updates:
  "contexts_kept d (snd (sql_AdvanceConversationMessageHead i d))"
  "contexts_kept d (snd (sql_ExtendConversationReplyLease i j f t d))"
  "contexts_kept d (snd (sql_CompleteConversationReply b i u j k f t d))"
  unfolding sql_AdvanceConversationMessageHead_def sql_ExtendConversationReplyLease_def
    sql_CompleteConversationReply_def Let_def contexts_kept_def
  by (auto intro!: grown_update simp: context_kept_def grown_refl)

lemma SendConversationMessage_contexts: "advances contexts_kept (SendConversationMessage c)"
  unfolding SendConversationMessage_def [abs_def] SendConversationMessage_tx_def admit_message_def
    sql_CreateConversationMemberMessage_def history_guards
  by (rule advances_env, (rule grow_intros contexts_updates | erule contexts_statements)+)

lemma RenewConversationReply_contexts: "advances contexts_kept (RenewConversationReply c)"
  unfolding RenewConversationReply_def [abs_def] RenewConversationReply_tx_def history_guards
  by (rule advances_env, (rule grow_intros contexts_updates | erule contexts_statements)+)

lemma CommitConversationReply_contexts: "advances contexts_kept (CommitConversationReply c)"
  unfolding CommitConversationReply_def [abs_def] CommitConversationReply_tx_def write_reply_def createDelegatedWork_def
    sql_CreateConversationCarryReply_def history_guards
  by (rule advances_env, (rule grow_intros contexts_updates | erule contexts_statements)+)

lemma replaces_grown: "replaces f t r r' t' \<Longrightarrow> R r r' \<Longrightarrow> (\<And>x. R x x) \<Longrightarrow> grown R t t'"
  unfolding grown_def using replaces_set by fastforce

lemma ClaimConversationReply_contexts:
  assumes "core_ok d"
  shows "contexts_kept d (snd (ClaimConversationReply machineID E d))"
proof -
  have ok: "conversation_ok d" using assms by (simp add: core_ok_def)
  obtain y d' where r: "ClaimConversationReply machineID E d = (y, d')" by fastforce
  have "contexts_kept d d'"
  proof (cases "effective d y d'")
    case True
    from r [unfolded ClaimConversationReply_def] have "transact (ClaimConversationReply_tx machineID) E d = (y, d')"
      by (auto elim!: checked_effectiveE [OF _ True])
    from transact_effective [OF this True] obtain v n where "ClaimConversationReply_tx machineID E d 0 = Inr (v, d', n)" by blast
    from ClaimConversationReply_tx_effect [OF this ok] obtain mach k c m s now where
      "machine_of machineID d = Some mach" "claim_joined d (m_SpaceID mach) k = Some (c, m)" and g: "granted_range d k m s"
      and rep: "replaces k_SourceMessageID (conversation_reply_claims d) k (assigned_claim machineID s (msg_MessageSeq m) now k)
        (conversation_reply_claims d')" by blast
    from g have "context_kept k (assigned_claim machineID s (msg_MessageSeq m) now k)"
      by (auto simp: granted_range_def context_kept_def assigned_claim_def)
    from replaces_grown [where R = context_kept, OF rep this] show ?thesis by (simp add: contexts_kept_def)
  next
    case False
    then show ?thesis by (simp add: effective_def contexts.grow_refl)
  qed
  with r show ?thesis by simp
qed

lemma serve_contexts:
  assumes "core_ok d"
  shows "contexts_kept d (serve q E d)"
proof -
  have part: "contexts_kept d (snd (f E d))" if "leaves conversation_part f" for f :: "env \<Rightarrow> db \<Rightarrow> (carry_error + 'x) \<times> db"
    using that unfolding leaves_def by (metis contexts_kept_part prod.collapse)
  show ?thesis
    using assms
    by (cases q) (simp_all add: part CreateWork_leaves AppendWorkMessage_leaves AcceptWorkReview_leaves_conversation
        RequestWorkRetry_leaves ClaimRun_leaves RenewRunAttempt_leaves CommitWorkUnderstanding_leaves
        FinishUnresolvedAttempt_leaves ClaimConversationReply_contexts SendConversationMessage_contexts [THEN advances_snd]
        RenewConversationReply_contexts [THEN advances_snd] CommitConversationReply_contexts [THEN advances_snd])
qed

lemma steps_contexts:
  assumes "server_step\<^sup>*\<^sup>* d d'" "core_ok d"
  shows "contexts_kept d d'"
  using assms
proof (induction rule: rtranclp_induct)
  case (step d1 d2)
  have "contexts_kept d1 d2"
    using step.hyps(2) serve_contexts [OF steps_core_ok [OF step.hyps(1) assms(2)]] contexts_kept_part
    by (auto simp: administers_def elim: server_stepE)
  with step show ?case using contexts.grow_trans by blast
qed (rule contexts.grow_refl)

text \<open>The messages of a range behind the head are all there, and they stay.\<close>

lemma fixed_range_kept:
  assumes "core_ok d" "server_step\<^sup>*\<^sup>* d d'" "c \<in> set (conversations d)" "e \<le> cn_MessageHeadSeq c" "1 \<le> s"
  shows "sql_ListFixedConversationReplyContext (cn_ConversationID c) s e d' = sql_ListFixedConversationReplyContext (cn_ConversationID c) s e d"
proof -
  let ?P = "\<lambda>m. msg_ConversationID m = cn_ConversationID c \<and> s \<le> msg_MessageSeq m \<and> msg_MessageSeq m \<le> e"
  let ?L = "\<lambda>d. filter ?P (conversation_messages d)"
  have ok: "message_rows_ok (conversations d) (conversation_messages d)"
    and ok': "message_rows_ok (conversations d') (conversation_messages d')"
    using assms(1) steps_core_ok [OF assms(2,1)] by (simp_all add: core_ok_def conversation_ok_def)
  have u: "unique_on message_position (\<lambda>_. True) (conversation_messages d')" using ok' by (simp add: message_rows_ok_def)
  have sub: "set (conversation_messages d) \<subseteq> set (conversation_messages d')"
    using steps_evolve [OF assms(2)] by (auto simp: evolves_def grown_def)
  have "set (?L d') = set (?L d)"
  proof (intro set_eqI iffI)
    fix m assume m: "m \<in> set (?L d')"
    then have "msg_MessageSeq m \<in> {1..cn_MessageHeadSeq c}" using assms(4,5) by simp
    with ok assms(3) obtain m' where m': "m' \<in> set (conversation_messages d)"
      "message_position m' = (cn_ConversationID c, msg_MessageSeq m)"
      unfolding message_rows_ok_def by blast
    then have "m' = m" using m sub unique_onD [OF u, of m' m] by (auto simp: message_position_def)
    with m m' show "m \<in> set (?L d)" by simp
  qed (use sub in auto)
  moreover have seqs: "distinct (map msg_MessageSeq (?L x))" if "message_rows_ok (conversations x) (conversation_messages x)" for x
  proof -
    have "distinct (map message_position (?L x))"
      using that by (simp add: message_rows_ok_def unique_on_def distinct_map_filter)
    moreover have "map message_position (?L x) = map (Pair (cn_ConversationID c)) (map msg_MessageSeq (?L x))"
      by (simp add: message_position_def)
    ultimately show ?thesis by (simp add: distinct_map del: map_map)
  qed
  ultimately have d: "distinct (?L d)" "distinct (?L d')" "inj_on msg_MessageSeq (set (?L d))" "set (?L d') = set (?L d)"
    using seqs [OF ok] seqs [OF ok'] unfolding distinct_map by blast+
  show ?thesis
    unfolding sql_ListFixedConversationReplyContext_def order_by_def
  proof (rule map_sorted_distinct_set_unique [of msg_MessageSeq])
    show "inj_on msg_MessageSeq (set (sort_key msg_MessageSeq (?L d')) \<union> set (sort_key msg_MessageSeq (?L d)))"
      using d by (simp only: set_sort Un_absorb)
  qed (use ok ok' d in \<open>simp_all add: distinct_map\<close>)
qed

lemma granted_context:
  assumes "ClaimConversationReply machineID E d = (Inr v, d')" "core_ok d"
  obtains k c s e where "k \<in> set (conversation_reply_claims d')" "k_SourceMessageID k = rp_SourceMessageID v"
    "k_ContextStartSeq k = Some s" "k_ContextEndSeq k = Some e" "1 \<le> s"
    "c \<in> set (conversations d')" "cn_ConversationID c = k_ConversationID k" "e \<le> cn_MessageHeadSeq c"
    "rp_Messages v = map contextFromRow (sql_ListFixedConversationReplyContext (k_ConversationID k) s e d')"
proof -
  have ok: "conversation_ok d" using assms(2) by (simp add: core_ok_def)
  have ok': "conversation_ok d'" using step_core_ok [OF assms(2) served_step(8) [OF assms(1)]] by (simp add: core_ok_def)
  obtain n where run: "ClaimConversationReply_tx machineID E d 0 = Inr (v, d', n)"
    by (rule ClaimConversationReply_success [OF assms(1)])
  from ClaimConversationReply_tx_effect [OF run ok] obtain mach k c m s now where
    "machine_of machineID d = Some mach" and j: "claim_joined d (m_SpaceID mach) k = Some (c, m)"
    and rep: "replaces k_SourceMessageID (conversation_reply_claims d) k (assigned_claim machineID s (msg_MessageSeq m) now k)
        (conversation_reply_claims d')"
    and d': "d' = d\<lparr>conversation_reply_claims := conversation_reply_claims d'\<rparr>"
    and v: "rp_SourceMessageID v = k_SourceMessageID k"
      "rp_Messages v = map contextFromRow (sql_ListFixedConversationReplyContext (k_ConversationID k) s (msg_MessageSeq m) d)" by blast
  have same: "conversation_messages d' = conversation_messages d" "conversations d' = conversations d" by (subst d', simp)+
  let ?k = "assigned_claim machineID s (msg_MessageSeq m) now k"
  have kd: "?k \<in> set (conversation_reply_claims d')" by (rule replaces_in [OF rep])
  then have "authority_shape ?k" using ok' by (simp add: conversation_ok_def claims_ok_def)
  then have "1 \<le> s" by (auto simp: authority_shape_def assigned_claim_def)
  moreover have "c \<in> set (conversations d')" "cn_ConversationID c = k_ConversationID k" "msg_MessageSeq m \<le> cn_MessageHeadSeq c"
  proof -
    note jj = claim_joined_Some [OF j]
    from jj conversation_of_Some have c: "c \<in> set (conversations d)" "cn_ConversationID c = k_ConversationID k" by auto
    then show "c \<in> set (conversations d')" "cn_ConversationID c = k_ConversationID k" by (simp_all add: same)
    have m: "m \<in> set (conversation_messages d)" using jj message_of_Some by blast
    then obtain c' where c': "c' \<in> set (conversations d)" "message_in m c'"
      using ok by (auto simp: conversation_ok_def message_rows_ok_def)
    have "k \<in> set (conversation_reply_claims d)" using rep by (simp add: replaces_def)
    then have "source_of k m" using claim_source(1) [OF ok] jj by blast
    then have "cn_ConversationID c' = cn_ConversationID c" using c' c by (simp add: source_of_def message_in_def)
    then have "c' = c" using unique_onD [of cn_ConversationID "\<lambda>_. True" "conversations d" c' c] c c' ok
      by (simp add: conversation_ok_def conversation_rows_ok_def)
    with c' show "msg_MessageSeq m \<le> cn_MessageHeadSeq c" by (simp add: message_in_def)
  qed
  ultimately show thesis
    using kd v by (intro that [of ?k s "msg_MessageSeq m" c])
      (auto simp: assigned_claim_def sql_ListFixedConversationReplyContext_def same)
qed

text \<open>
  C8 (equivalence). A recovered reply sees what the first one saw. When a reply obligation is
  claimed again, by whatever Machine and after whatever happened in between, the context it is
  granted is, message by message, the context of the first claim, and the fence has risen.
\<close>

theorem recovered_reply_has_same_context:
  assumes "reachable d" "ClaimConversationReply m1 E1 d = (Inr v1, d1)" "server_step\<^sup>*\<^sup>* d1 d2"
    "ClaimConversationReply m2 E2 d2 = (Inr v2, d3)" "rp_SourceMessageID v2 = rp_SourceMessageID v1"
  shows "rp_Messages v2 = rp_Messages v1 \<and> rp_Fence v1 < rp_Fence v2"
proof -
  have ok: "core_ok d" by (rule reachable_ok [OF assms(1)])
  have ok1: "core_ok d1" by (rule step_core_ok [OF ok served_step(8) [OF assms(2)]])
  have ok2: "core_ok d2" by (rule steps_core_ok [OF assms(3) ok1])
  have steps: "server_step\<^sup>*\<^sup>* d1 d3" using assms(3) served_step(8) [OF assms(4)] by auto
  have ok3: "conversation_ok d3" using steps_core_ok [OF steps ok1] by (simp add: core_ok_def)
  from assms(2) ok obtain k1 c1 s1 e1 where
    k1: "k1 \<in> set (conversation_reply_claims d1)" "k_SourceMessageID k1 = rp_SourceMessageID v1"
    "k_ContextStartSeq k1 = Some s1" "k_ContextEndSeq k1 = Some e1" "1 \<le> s1"
    "c1 \<in> set (conversations d1)" "cn_ConversationID c1 = k_ConversationID k1" "e1 \<le> cn_MessageHeadSeq c1"
    "rp_Messages v1 = map contextFromRow (sql_ListFixedConversationReplyContext (k_ConversationID k1) s1 e1 d1)"
    by (rule granted_context)
  from assms(4) ok2 obtain k2 c2 s2 e2 where
    k2: "k2 \<in> set (conversation_reply_claims d3)" "k_SourceMessageID k2 = rp_SourceMessageID v2"
    "k_ContextStartSeq k2 = Some s2" "k_ContextEndSeq k2 = Some e2"
    "c2 \<in> set (conversations d3)"
    "rp_Messages v2 = map contextFromRow (sql_ListFixedConversationReplyContext (k_ConversationID k2) s2 e2 d3)"
    by (rule granted_context)
  from steps_contexts [OF steps ok1] k1 obtain k where k: "k \<in> set (conversation_reply_claims d3)" "context_kept k1 k"
    by (auto simp: contexts_kept_def dest: grownD)
  then have "k = k2"
    using unique_onD [of k_SourceMessageID "\<lambda>_. True" "conversation_reply_claims d3" k k2] k1 k2 assms(5) ok3
    by (auto simp: conversation_ok_def claims_ok_def context_kept_def)
  with k k1 k2 have "s2 = s1" "e2 = e1" "k_ConversationID k2 = k_ConversationID k1" by (auto simp: context_kept_def)
  then have "rp_Messages v2 = rp_Messages v1"
    using fixed_range_kept [OF ok1 steps k1(6,8,5)] k1(7,9) k2(6) by simp
  moreover have "rp_Fence v1 < rp_Fence v2"
    using reply_lease.fence_rises_steps [OF assms(3) ok1 granted_fence(1) [OF assms(2) ok]]
      granted_fence(2) [OF assms(4) ok2] assms(5) by auto
  ultimately show ?thesis by simp
qed

definition demo_regrant :: reply_claim where
  "demo_regrant = demo_grant\<lparr>rp_Fence := 2, rp_LeaseExpiresAt := 63 + minutes 10 + 2\<rparr>"

lemma demo_regranted: "fst (ClaimConversationReply ''m1'' (demo_env ''h'' (63 + minutes 5)) demo_granted) = Inr demo_regrant"
  by (simp add: ClaimConversationReply_def guard_def transact_healthy demo_env_healthy ClaimConversationReply_tx_def tx_run
      lockActiveReplyMachine_def sql_LockClaimingMachine_def machine_of_def sql_LockConversationReplyForClaim_def
      claimable_reply_def claim_joined_def conversation_of_def message_of_def is_member_def exists_where_def
      active_membership_def claim_unresolved_def claim_expired_def order_by_def order_by_desc_def first_row_def
      fixedReplyContextRange_def contextFromRow_def demo_context
      sql_AssignConversationReply_def loadFixedReplyContext_def sql_ListFixedConversationReplyContext_def Let_def
      demo_grant_def demo_regrant_def demo_granted_def demo_reply_claim_def demo_sent_defs)

theorem recovered_reply_has_same_context_witness:
  "rp_Messages demo_regrant = rp_Messages demo_grant \<and> rp_Fence demo_grant < rp_Fence demo_regrant"
proof -
  have "ClaimConversationReply ''m1'' (demo_env ''h'' (63 + minutes 5)) demo_granted
      = (Inr demo_regrant, snd (ClaimConversationReply ''m1'' (demo_env ''h'' (63 + minutes 5)) demo_granted))"
    by (rule prod_eqI) (use demo_regranted in simp_all)
  from recovered_reply_has_same_context [OF demo_sent_reachable demo_granted_run rtranclp.rtrancl_refl this]
  show ?thesis by (simp add: demo_regrant_def)
qed

end
