(* ===== verification/Work_Guarantees.thy ===== *)
theory Work_Guarantees
  imports Demo_Conversation Claim_Guarantees
begin

text \<open>
  What a member may rely on when reading and steering Works: a page shows the Space's Works,
  newest first and without a gap, a Conversation is read by its member only, a result is
  accepted only by the owner and only as it was shown, and a Work whose Run ended unresolved
  rests until its retry is requested.
\<close>

section \<open>Pages of Works\<close>

lemma joined_works_filter:
  "map fst (joined_works d ws) = filter (\<lambda>w. display_names d w \<noteq> None) ws"
  by (induction ws) (auto simp: joined_works_def joined_work_def List.map_filter_simps split: option.split)

lemma su_WorkID_summary: "su_WorkID (summaryFromRow d r) = w_WorkID (fst r)" "su_SpaceID (summaryFromRow d r) = w_SpaceID (fst r)"
  by (cases r; simp add: summaryFromRow_def)+

lemma order_by_desc_strict:
  assumes "distinct (map k xs)"
  shows "sorted_wrt (>) (map k (order_by_desc k xs))"
  using strictly_sorted_order_by [OF assms] by (simp add: order_by_desc_def order_by_def rev_map [symmetric] sorted_wrt_rev)

lemma created_order_distinct:
  assumes "works_ok ws"
  shows "distinct (map created_order (filter P ws))"
proof -
  have "distinct (map w_WorkID (filter P ws))"
    using assms by (simp add: works_ok_def unique_on_def distinct_map_filter)
  then show ?thesis unfolding distinct_map by (auto simp: inj_on_def created_order_def)
qed

text \<open>The rows of a page: those before the cursor, newest first, cut after 51 and then after 50.\<close>

definition page_rows :: "(work_row \<Rightarrow> bool) \<Rightarrow> db \<Rightarrow> work_row list" where
  "page_rows P d = filter (\<lambda>w. display_names d w \<noteq> None) (order_by_desc created_order (filter P (works d)))"

lemma page_of_rows:
  assumes "map f summaries = take 51 rows"
  shows "map f (pg_Works (page_of summaries)) = take 50 rows \<and> (pg_HasEarlier (page_of summaries) \<longleftrightarrow> 50 < length rows)"
proof -
  have l: "length summaries = min 51 (length rows)" using arg_cong [OF assms, of length] by simp
  have t: "map f (take 50 summaries) = take 50 rows" using assms by (simp add: take_map [symmetric])
  then have "length summaries \<le> 50 \<Longrightarrow> map f summaries = take 50 rows" by simp
  with t l show ?thesis by (auto simp: page_of_def ListPageSize_def)
qed

lemma ListWorks_page:
  assumes "ListWorks command E d = (Inr page, d')"
  shows "d' = d \<and> is_member (li_SpaceID command) (li_UserID command) d
    \<and> (\<exists>older. (li_Before command = [] \<longrightarrow> older = (\<lambda>_. True))
        \<and> (li_Before command \<noteq> [] \<longrightarrow> (\<exists>b \<in> set (works d). w_WorkID b = li_Before command
             \<and> w_SpaceID b = li_SpaceID command \<and> older = (\<lambda>w. created_order w < created_order b)))
        \<and> (let rows = page_rows (\<lambda>w. w_SpaceID w = li_SpaceID command
             \<and> (\<not> li_NeedsYou command \<or> needs_you d (li_UserID command) w) \<and> older w) d
           in map su_WorkID (pg_Works page) = map w_WorkID (take 50 rows)
            \<and> map su_SpaceID (pg_Works page) = map w_SpaceID (take 50 rows)
            \<and> (pg_HasEarlier page \<longleftrightarrow> 50 < length rows)))"
proof -
  let ?P = "\<lambda>older w. w_SpaceID w = li_SpaceID command \<and> (\<not> li_NeedsYou command \<or> needs_you d (li_UserID command) w) \<and> older w"
  have page: "map w (pg_Works (page_of (map (summaryFromRow d) js))) = map v (take 50 rows)
      \<and> (pg_HasEarlier (page_of (map (summaryFromRow d) js)) \<longleftrightarrow> 50 < length rows)"
    if "js = take 51 (joined_works d L)" "rows = filter (\<lambda>w. display_names d w \<noteq> None) L"
      "\<And>r. w (summaryFromRow d r) = v (fst r)" for js L rows and w :: "summary \<Rightarrow> string" and v
  proof -
    have "map w (map (summaryFromRow d) js) = take 51 (map v (map fst (joined_works d L)))"
      by (simp add: that(1,3) take_map)
    then have "map w (map (summaryFromRow d) js) = take 51 (map v rows)" unfolding joined_works_filter that(2) .
    from page_of_rows [OF this] show ?thesis by (simp add: take_map)
  qed
  from assms obtain n where "(bind_tx (lockActiveWorkMembership (li_SpaceID command) (li_UserID command)) (\<lambda>_.
      bind_tx
       (if li_Before command = []
        then query (\<lambda>E now d. map (summaryFromRow d)
               (sql_ListNewestWorks (li_SpaceID command) (li_UserID command) (li_NeedsYou command) d))
        else bind_tx (query_one (WorkError ErrInvalidCursor)
                (\<lambda>E now. sql_WorkListCursor (li_SpaceID command) (li_Before command))) (\<lambda>cursor.
             query (\<lambda>E now d. map (summaryFromRow d)
               (sql_ListWorksBefore (li_SpaceID command) (li_UserID command) (li_NeedsYou command) cursor d))))
       (\<lambda>summaries. ret (page_of summaries)))) E d 0 = Inr (page, d', n)"
    unfolding ListWorks_def by (rule transact_body)
  then have member: "is_member (li_SpaceID command) (li_UserID command) d" and d': "d' = d"
    and rest: "(li_Before command = [] \<and> page = page_of (map (summaryFromRow d)
          (sql_ListNewestWorks (li_SpaceID command) (li_UserID command) (li_NeedsYou command) d)))
      \<or> (li_Before command \<noteq> [] \<and> (\<exists>cursor. sql_WorkListCursor (li_SpaceID command) (li_Before command) d = Some cursor
          \<and> page = page_of (map (summaryFromRow d)
              (sql_ListWorksBefore (li_SpaceID command) (li_UserID command) (li_NeedsYou command) cursor d))))"
    by (auto simp: tx_simps sql_LockActiveWorkMembership_iff [symmetric])
  from rest show ?thesis
  proof (elim disjE conjE exE)
    assume "li_Before command = []" and p: "page = page_of (map (summaryFromRow d)
          (sql_ListNewestWorks (li_SpaceID command) (li_UserID command) (li_NeedsYou command) d))"
    with member d' show ?thesis
      using page [where w = su_WorkID and v = w_WorkID, OF refl refl su_WorkID_summary(1), of "order_by_desc created_order (filter (?P (\<lambda>_. True)) (works d))"]
        page [where w = su_SpaceID and v = w_SpaceID, OF refl refl su_WorkID_summary(2), of "order_by_desc created_order (filter (?P (\<lambda>_. True)) (works d))"]
      by (intro conjI exI [of _ "\<lambda>_. True"]) (simp_all add: sql_ListNewestWorks_def page_rows_def Let_def)
  next
    fix cursor assume b: "li_Before command \<noteq> []" "sql_WorkListCursor (li_SpaceID command) (li_Before command) d = Some cursor"
      and p: "page = page_of (map (summaryFromRow d)
              (sql_ListWorksBefore (li_SpaceID command) (li_UserID command) (li_NeedsYou command) cursor d))"
    from b(2) obtain w where w: "w \<in> set (works d)" "w_WorkID w = li_Before command" "w_SpaceID w = li_SpaceID command"
      "cursor = created_order w"
      by (auto simp: sql_WorkListCursor_def dest!: first_where_Some)
    let ?o = "\<lambda>x. created_order x < created_order w"
    from w member d' b p show ?thesis
      using page [where w = su_WorkID and v = w_WorkID, OF refl refl su_WorkID_summary(1), of "order_by_desc created_order (filter (?P ?o) (works d))"]
        page [where w = su_SpaceID and v = w_SpaceID, OF refl refl su_WorkID_summary(2), of "order_by_desc created_order (filter (?P ?o) (works d))"]
      by (intro conjI exI [of _ ?o]) (auto simp: sql_ListWorksBefore_def page_rows_def Let_def)
  qed
qed

text \<open>
  C13 (functional). A page of Works shows what it should. Only an active member of the Space gets
  one; it holds at most 50 Works, all of that Space, strictly newest first; behind a cursor all
  are strictly older than the cursor's Work; and no Work of the Space is skipped: one that fits
  the request but is not on the page is older than everything on it, and then the page says that
  there is more.
\<close>

theorem list_works_page:
  assumes "reachable d" "ListWorks command E d = (Inr page, d')"
  shows "d' = d \<and> is_member (li_SpaceID command) (li_UserID command) d
    \<and> (\<exists>shown. map su_WorkID (pg_Works page) = map w_WorkID shown \<and> map su_SpaceID (pg_Works page) = map w_SpaceID shown
        \<and> length shown \<le> 50 \<and> set shown \<subseteq> set (works d) \<and> sorted_wrt (>) (map created_order shown)
        \<and> (\<forall>w \<in> set shown. w_SpaceID w = li_SpaceID command)
        \<and> (\<forall>b \<in> set (works d). w_WorkID b = li_Before command \<longrightarrow> li_Before command \<noteq> [] \<longrightarrow>
             (\<forall>w \<in> set shown. created_order w < created_order b))
        \<and> (\<forall>w \<in> set (works d). w_SpaceID w = li_SpaceID command \<and> display_names d w \<noteq> None
             \<and> (\<not> li_NeedsYou command \<or> needs_you d (li_UserID command) w)
             \<and> (li_Before command \<noteq> [] \<longrightarrow> (\<exists>b \<in> set (works d). w_WorkID b = li_Before command \<and> created_order w < created_order b))
             \<longrightarrow> w \<in> set shown \<or> (pg_HasEarlier page \<and> (\<forall>x \<in> set shown. created_order w < created_order x))))"
proof -
  from ListWorks_page [OF assms(2)] obtain older where
    top: "d' = d" "is_member (li_SpaceID command) (li_UserID command) d"
    and o1: "li_Before command = [] \<Longrightarrow> older = (\<lambda>_. True)"
    and o2: "li_Before command \<noteq> [] \<Longrightarrow> \<exists>b \<in> set (works d). w_WorkID b = li_Before command
             \<and> w_SpaceID b = li_SpaceID command \<and> older = (\<lambda>w. created_order w < created_order b)"
    and rows: "map su_WorkID (pg_Works page) = map w_WorkID (take 50 (page_rows (\<lambda>w. w_SpaceID w = li_SpaceID command
             \<and> (\<not> li_NeedsYou command \<or> needs_you d (li_UserID command) w) \<and> older w) d))"
      "map su_SpaceID (pg_Works page) = map w_SpaceID (take 50 (page_rows (\<lambda>w. w_SpaceID w = li_SpaceID command
             \<and> (\<not> li_NeedsYou command \<or> needs_you d (li_UserID command) w) \<and> older w) d))"
      "pg_HasEarlier page \<longleftrightarrow> 50 < length (page_rows (\<lambda>w. w_SpaceID w = li_SpaceID command
             \<and> (\<not> li_NeedsYou command \<or> needs_you d (li_UserID command) w) \<and> older w) d)"
    unfolding Let_def by blast
  define P where "P = (\<lambda>w. w_SpaceID w = li_SpaceID command \<and> (\<not> li_NeedsYou command \<or> needs_you d (li_UserID command) w) \<and> older w)"
  let ?R = "page_rows P d" let ?S = "take 50 ?R"
  have works: "works_ok (works d)"
    using reachable_ok [OF assms(1)] by (simp add: core_ok_def execution_ok_def work_state_ok_def)
  have sorted: "sorted_wrt (>) (map created_order ?R)"
    using order_by_desc_strict [OF created_order_distinct [OF works, of P]]
    by (simp add: page_rows_def sorted_wrt_map sorted_wrt_filter)
  have R: "w \<in> set ?R \<longleftrightarrow> w \<in> set (works d) \<and> P w \<and> display_names d w \<noteq> None" for w by (auto simp: page_rows_def)
  have only: "b = b'" if "b \<in> set (works d)" "b' \<in> set (works d)" "w_WorkID b = w_WorkID b'" for b b'
    using works unique_onD [of w_WorkID "\<lambda>_. True" "works d" b b'] that by (simp add: works_ok_def)
  note rows' = rows [folded P_def]
  have earlier: "w \<in> set ?S \<or> (pg_HasEarlier page \<and> (\<forall>x \<in> set ?S. created_order w < created_order x))" if w: "w \<in> set ?R" for w
  proof (cases "w \<in> set ?S")
    case False
    with w have "w \<in> set (drop 50 ?R)" by (metis Un_iff append_take_drop_id set_append)
    moreover from this have "50 < length ?R" by (metis drop_all empty_iff empty_set leI)
    then have "pg_HasEarlier page" using rows'(3) by simp
    moreover have "sorted_wrt (\<lambda>x y. created_order x > created_order y) (?S @ drop 50 ?R)"
      using sorted by (simp add: sorted_wrt_map)
    ultimately show ?thesis unfolding sorted_wrt_append by blast
  qed simp
  have S: "w \<in> set ?R" if "w \<in> set ?S" for w using that by (rule in_set_takeD)
  have f1: "sorted_wrt (>) (map created_order ?S)" using sorted by (simp add: take_map [symmetric] sorted_wrt_take)
  have f2: "\<forall>b \<in> set (works d). w_WorkID b = li_Before command \<longrightarrow> li_Before command \<noteq> [] \<longrightarrow>
      (\<forall>w \<in> set ?S. created_order w < created_order b)"
  proof (intro ballI impI)
    fix b w assume b: "b \<in> set (works d)" "w_WorkID b = li_Before command" "li_Before command \<noteq> []" "w \<in> set ?S"
    from o2 [OF b(3)] obtain b' where b': "b' \<in> set (works d)" "w_WorkID b' = li_Before command"
      "older = (\<lambda>w. created_order w < created_order b')" by blast
    have "b' = b" by (rule only [OF b'(1) b(1)]) (simp add: b(2) b'(2))
    moreover have "older w" using S [OF b(4)] R by (simp add: P_def)
    ultimately show "created_order w < created_order b" by (simp add: b'(3))
  qed
  have f3: "\<forall>w \<in> set (works d). w_SpaceID w = li_SpaceID command \<and> display_names d w \<noteq> None
             \<and> (\<not> li_NeedsYou command \<or> needs_you d (li_UserID command) w)
             \<and> (li_Before command \<noteq> [] \<longrightarrow> (\<exists>b \<in> set (works d). w_WorkID b = li_Before command \<and> created_order w < created_order b))
             \<longrightarrow> w \<in> set ?S \<or> (pg_HasEarlier page \<and> (\<forall>x \<in> set ?S. created_order w < created_order x))"
  proof (intro ballI impI)
    fix w assume w: "w \<in> set (works d)" "w_SpaceID w = li_SpaceID command \<and> display_names d w \<noteq> None
             \<and> (\<not> li_NeedsYou command \<or> needs_you d (li_UserID command) w)
             \<and> (li_Before command \<noteq> [] \<longrightarrow> (\<exists>b \<in> set (works d). w_WorkID b = li_Before command \<and> created_order w < created_order b))"
    have "older w"
    proof (cases "li_Before command = []")
      case False
      from o2 [OF this] obtain b where b: "b \<in> set (works d)" "w_WorkID b = li_Before command"
        "older = (\<lambda>w. created_order w < created_order b)" by blast
      from w(2) False obtain b' where b': "b' \<in> set (works d)" "w_WorkID b' = li_Before command" "created_order w < created_order b'"
        by blast
      have "b' = b" by (rule only [OF b'(1) b(1)]) (simp add: b b')
      with b b' show ?thesis by simp
    qed (simp add: o1)
    then have "P w" using w(2) by (simp add: P_def)
    then have "w \<in> set ?R" using R w by blast
    then show "w \<in> set ?S \<or> (pg_HasEarlier page \<and> (\<forall>x \<in> set ?S. created_order w < created_order x))" by (rule earlier)
  qed
  have "w \<in> set (works d) \<and> w_SpaceID w = li_SpaceID command" if "w \<in> set ?S" for w
    using R [of w] S [OF that] unfolding P_def by blast
  then have f4: "set ?S \<subseteq> set (works d)" "\<forall>w \<in> set ?S. w_SpaceID w = li_SpaceID command"
    by blast+
  have f5: "length ?S \<le> 50" by simp
  show ?thesis
    by (rule conjI [OF top(1) conjI [OF top(2) exI [of _ ?S]]], intro conjI;
        fact rows'(1) rows'(2) f1 f2 f3 f4 f5)
qed

definition demo_list :: list_command where
  "demo_list = \<lparr>li_UserID = ''bob'', li_SpaceID = ''space'', li_Before = [], li_NeedsYou = False\<rparr>"

lemma demo_listed: "\<exists>page. ListWorks demo_list (demo_env ''l'' 500) demo_created = (Inr page, demo_created)"
  by (simp add: ListWorks_def demo_list_def transact_healthy demo_env_healthy tx_run lockActiveWorkMembership_def
      sql_LockActiveWorkMembership_def active_membership_def demo_created_def demo_defs)

theorem list_works_page_witness:
  "\<exists>page. ListWorks demo_list (demo_env ''l'' 500) demo_created = (Inr page, demo_created)
     \<and> is_member ''space'' ''bob'' demo_created"
proof -
  obtain page where p: "ListWorks demo_list (demo_env ''l'' 500) demo_created = (Inr page, demo_created)"
    using demo_listed by blast
  with list_works_page [OF demo_created_reachable p] show ?thesis by (auto simp: demo_list_def)
qed

section \<open>Reading a Conversation\<close>

lemma newest_page_rows:
  "\<exists>ms. newest_page d P = map (restoreConversationMessage d) ms \<and> length ms \<le> 50 \<and> sorted (map msg_MessageSeq ms)
     \<and> (\<forall>m \<in> set ms. m \<in> set (conversation_messages d) \<and> P m)"
  by (intro exI [of _ "order_by msg_MessageSeq (take 50 (order_by_desc msg_MessageSeq (filter P (conversation_messages d))))"])
    (auto simp: newest_page_def sorted_order_by dest: in_set_takeD)

lemma after_page_rows:
  "\<exists>ms. sql_ListConversationMessagesAfter i q d = map (restoreConversationMessage d) ms \<and> length ms \<le> 50
     \<and> sorted (map msg_MessageSeq ms) \<and> (\<forall>m \<in> set ms. m \<in> set (conversation_messages d) \<and> msg_ConversationID m = i \<and> q < msg_MessageSeq m)"
  by (intro exI [of _ "take 50 (order_by msg_MessageSeq (filter (\<lambda>m. msg_ConversationID m = i \<and> msg_MessageSeq m > q) (conversation_messages d)))"])
    (auto simp: sql_ListConversationMessagesAfter_def sorted_order_by take_map [symmetric] sorted_wrt_take dest: in_set_takeD)

text \<open>The transaction of \<open>ListConversationMessages\<close>, behind the checks of its arguments.\<close>

abbreviation conversation_page :: "list_messages_command \<Rightarrow> (db, conversation_message list) tx" where
  "conversation_page command \<equiv>
      bind_tx (lockActiveConversationMembership (lm_SpaceID command) (lm_MemberUserID command)) (\<lambda>_.
       bind_tx (query (\<lambda>E now d. map_option cn_ConversationID (first_where
          (\<lambda>c. conversation_key c = (lm_SpaceID command, lm_MemberUserID command)) (conversations d)))) (\<lambda>found.
         case found of
         None \<Rightarrow> bind_tx (require (lm_Before command = [] \<and> lm_After command = [])
                   (ConversationError ErrInvalidMessageCursor)) (\<lambda>_. ret [])
       | Some conversationID \<Rightarrow>
           if lm_Before command \<noteq> [] then
             bind_tx (conversationCursor conversationID (lm_Before command)) (\<lambda>cursor.
             query (\<lambda>E now. sql_ListConversationMessagesBefore conversationID cursor))
           else if lm_After command \<noteq> [] then
             bind_tx (conversationCursor conversationID (lm_After command)) (\<lambda>cursor.
             query (\<lambda>E now. sql_ListConversationMessagesAfter conversationID cursor))
           else query (\<lambda>E now. sql_ListNewestConversationMessages conversationID)))"

text \<open>
  C14 (safety). A Conversation is private. Whoever reads one is an active member of the Space, and
  receives only messages of the Conversation this very member has in this very Space, in order
  and at most 50; with a cursor, only messages before or after it. The call changes nothing.
\<close>

theorem conversation_is_private:
  assumes "ListConversationMessages command E d = (Inr page, d')"
  shows "d' = d \<and> is_member (lm_SpaceID command) (lm_MemberUserID command) d
    \<and> (\<exists>ms. page = map (restoreConversationMessage d) ms \<and> length ms \<le> 50 \<and> sorted (map msg_MessageSeq ms)
        \<and> (\<forall>m \<in> set ms. m \<in> set (conversation_messages d) \<and> (\<exists>c \<in> set (conversations d).
              cn_ConversationID c = msg_ConversationID m \<and> cn_SpaceID c = lm_SpaceID command
              \<and> cn_MemberUserID c = lm_MemberUserID command)
            \<and> (lm_Before command \<noteq> [] \<longrightarrow> (\<exists>b \<in> set (conversation_messages d). msg_MessageID b = lm_Before command
                \<and> msg_MessageSeq m < msg_MessageSeq b))
            \<and> (lm_After command \<noteq> [] \<longrightarrow> (\<exists>b \<in> set (conversation_messages d). msg_MessageID b = lm_After command
                \<and> msg_MessageSeq b < msg_MessageSeq m))))"
proof -
  have d': "d' = d" using advancesD [OF ListConversationMessages_reads assms] by simp
  from assms have v: "ValidateCursors (lm_Before command) (lm_After command) = Inr ()"
    and run: "transact (conversation_page command) E d = (Inr page, d')"
    unfolding ListConversationMessages_def checked_Inr by simp_all
  from transact_body [OF run] obtain n where "conversation_page command E d 0 = Inr (page, d', n)" by blast
  then have member: "is_member (lm_SpaceID command) (lm_MemberUserID command) d"
    and rest: "(page = [] \<and> True) \<or> (\<exists>c. first_where (\<lambda>c. conversation_key c = (lm_SpaceID command, lm_MemberUserID command)) (conversations d) = Some c
      \<and> ((lm_Before command \<noteq> [] \<and> (\<exists>b. first_where (\<lambda>m. msg_ConversationID m = cn_ConversationID c \<and> msg_MessageID m = lm_Before command) (conversation_messages d) = Some b
            \<and> page = sql_ListConversationMessagesBefore (cn_ConversationID c) (msg_MessageSeq b) d))
        \<or> (lm_Before command = [] \<and> lm_After command \<noteq> [] \<and> (\<exists>b. first_where (\<lambda>m. msg_ConversationID m = cn_ConversationID c \<and> msg_MessageID m = lm_After command) (conversation_messages d) = Some b
            \<and> page = sql_ListConversationMessagesAfter (cn_ConversationID c) (msg_MessageSeq b) d))
        \<or> (lm_Before command = [] \<and> lm_After command = [] \<and> page = sql_ListNewestConversationMessages (cn_ConversationID c) d)))"
    by (auto simp: tx_simps conversationCursor_def sql_LockActiveWorkMembership_iff [symmetric]
        split: if_split_asm)
  from rest show ?thesis
  proof (elim disjE exE conjE)
    assume "page = []" then show ?thesis using d' member by (intro conjI exI [of _ "[]"]) simp_all
  next
    fix c b assume c: "first_where (\<lambda>c. conversation_key c = (lm_SpaceID command, lm_MemberUserID command)) (conversations d) = Some c"
      and b: "lm_Before command \<noteq> []" "first_where (\<lambda>m. msg_ConversationID m = cn_ConversationID c \<and> msg_MessageID m = lm_Before command) (conversation_messages d) = Some b"
      and p: "page = sql_ListConversationMessagesBefore (cn_ConversationID c) (msg_MessageSeq b) d"
    have a: "lm_After command = []" using v b(1) by (auto simp: ValidateCursors_def split: if_split_asm)
    from newest_page_rows [of d "\<lambda>m. msg_ConversationID m = cn_ConversationID c \<and> msg_MessageSeq m < msg_MessageSeq b"] obtain ms where
      ms: "page = map (restoreConversationMessage d) ms" "length ms \<le> 50" "sorted (map msg_MessageSeq ms)"
      "\<forall>m \<in> set ms. m \<in> set (conversation_messages d) \<and> msg_ConversationID m = cn_ConversationID c \<and> msg_MessageSeq m < msg_MessageSeq b"
      by (auto simp: p sql_ListConversationMessagesBefore_def)
    have "c \<in> set (conversations d) \<and> cn_SpaceID c = lm_SpaceID command \<and> cn_MemberUserID c = lm_MemberUserID command"
      "b \<in> set (conversation_messages d) \<and> msg_MessageID b = lm_Before command"
      using first_where_Some [OF c] first_where_Some [OF b(2)] by (auto simp: conversation_key_def)
    with ms a d' member show ?thesis by (intro conjI exI [of _ ms]) auto
  next
    fix c b assume c: "first_where (\<lambda>c. conversation_key c = (lm_SpaceID command, lm_MemberUserID command)) (conversations d) = Some c"
      and b: "lm_Before command = []" "first_where (\<lambda>m. msg_ConversationID m = cn_ConversationID c \<and> msg_MessageID m = lm_After command) (conversation_messages d) = Some b"
      and p: "page = sql_ListConversationMessagesAfter (cn_ConversationID c) (msg_MessageSeq b) d"
    from after_page_rows [of "cn_ConversationID c" "msg_MessageSeq b" d] obtain ms where
      ms: "page = map (restoreConversationMessage d) ms" "length ms \<le> 50" "sorted (map msg_MessageSeq ms)"
      "\<forall>m \<in> set ms. m \<in> set (conversation_messages d) \<and> msg_ConversationID m = cn_ConversationID c \<and> msg_MessageSeq b < msg_MessageSeq m"
      by (auto simp: p)
    have "c \<in> set (conversations d) \<and> cn_SpaceID c = lm_SpaceID command \<and> cn_MemberUserID c = lm_MemberUserID command"
      "b \<in> set (conversation_messages d) \<and> msg_MessageID b = lm_After command"
      using first_where_Some [OF c] first_where_Some [OF b(2)] by (auto simp: conversation_key_def)
    with ms b(1) d' member show ?thesis by (intro conjI exI [of _ ms]) auto
  next
    fix c assume c: "first_where (\<lambda>c. conversation_key c = (lm_SpaceID command, lm_MemberUserID command)) (conversations d) = Some c"
      and b: "lm_Before command = []" "lm_After command = []" and p: "page = sql_ListNewestConversationMessages (cn_ConversationID c) d"
    from newest_page_rows [of d "\<lambda>m. msg_ConversationID m = cn_ConversationID c"] obtain ms where
      ms: "page = map (restoreConversationMessage d) ms" "length ms \<le> 50" "sorted (map msg_MessageSeq ms)"
      "\<forall>m \<in> set ms. m \<in> set (conversation_messages d) \<and> msg_ConversationID m = cn_ConversationID c"
      by (auto simp: p sql_ListNewestConversationMessages_def)
    have "c \<in> set (conversations d) \<and> cn_SpaceID c = lm_SpaceID command \<and> cn_MemberUserID c = lm_MemberUserID command"
      using first_where_Some [OF c] by (auto simp: conversation_key_def)
    with ms b d' member show ?thesis by (intro conjI exI [of _ ms]) auto
  qed
qed

definition demo_read :: list_messages_command where
  "demo_read = \<lparr>lm_SpaceID = ''space'', lm_MemberUserID = ''alice'', lm_Before = [], lm_After = []\<rparr>"

lemma demo_read_run: "\<exists>page. ListConversationMessages demo_read (demo_env ''l'' 500) demo_sent = (Inr page, demo_sent)"
  by (simp add: ListConversationMessages_def demo_read_def guard_def ValidateCursors_def transact_healthy demo_env_healthy tx_run
      lockActiveConversationMembership_def sql_LockActiveConversationMembership_def active_membership_def
      conversation_key_def demo_sent_defs)

theorem conversation_is_private_witness:
  "\<exists>page. ListConversationMessages demo_read (demo_env ''l'' 500) demo_sent = (Inr page, demo_sent)
     \<and> is_member ''space'' ''alice'' demo_sent"
proof -
  obtain page where p: "ListConversationMessages demo_read (demo_env ''l'' 500) demo_sent = (Inr page, demo_sent)"
    using demo_read_run by blast
  with conversation_is_private [OF p] show ?thesis by (auto simp: demo_read_def)
qed

end
