(* ===== verification/Work_Steering.thy ===== *)
theory Work_Steering
  imports Demo_Conversation Claim_Guarantees Idempotency
begin

text \<open>
  What steers a Work: the acceptance of its result, and the retry of an unresolved outcome.
\<close>

section \<open>Steering a Work\<close>

text \<open>
  C11 (safety). A result is accepted by its owner, as it was shown. Whatever an acceptance
  changes, the caller is an active member of the Space and the owner of the open Work, every
  input has been applied, the result check is for the current version and for the very content
  the Work shows, nobody had accepted it, and that one check is all that changes; afterwards it is
  accepted by the caller.
\<close>

theorem acceptance_requires_current_review:
  assumes "reachable d" "AcceptWorkReview command E d = (y, d')" "d' \<noteq> d"
  shows "\<exists>w c c'. w \<in> set (works d) \<and> w_WorkID w = ac_WorkID command \<and> w_SpaceID w = ac_SpaceID command
    \<and> is_member (ac_SpaceID command) (ac_AcceptedBy command) d \<and> w_OwnerUserID w = ac_AcceptedBy command
    \<and> c \<in> set (work_result_checks d) \<and> rc_ReviewID c = ac_ReviewID command \<and> rc_WorkID c = w_WorkID w
    \<and> rc_AcceptedAt c = None \<and> rc_UnderstandingVersion c = w_UnderstandingVersion w \<and> w_AppliedInputSeq w = w_InputHeadSeq w
    \<and> rc_ContentDigest c = ReviewContentDigest (textValue (w_Understanding w)) (textValue (w_NextStep w))
    \<and> rc_AcceptedAt c' \<noteq> None \<and> rc_AcceptedByUserID c' = Some (ac_AcceptedBy command)
    \<and> d' = d\<lparr>work_result_checks := map (\<lambda>x. if x = c then c' else x) (work_result_checks d)\<rparr>"
proof -
  have ok: "execution_ok d" using reachable_ok [OF assms(1)] by (simp add: core_ok_def)
  have eff: "effective d y d'" using assms(3) by (simp add: effective_def)
  from assms(2) obtain key where
    "transact (AcceptWorkReview_tx command key (ReviewAcceptanceDigest (ac_WorkID command) (ac_ReviewID command))) E d = (y, d')"
    unfolding AcceptWorkReview_def by (auto simp: guard_Inr elim!: checked_effectiveE [OF _ eff])
  from transact_effective [OF this eff] obtain v n where
    "AcceptWorkReview_tx command key (ReviewAcceptanceDigest (ac_WorkID command) (ac_ReviewID command)) E d 0 = Inr (v, d', n)" by blast
  from AcceptWorkReview_tx_effect [OF this ok] assms(3) obtain w c now where
    w: "sql_LockWork (ac_SpaceID command) (ac_WorkID command) d = Some w" "w_OwnerUserID w = ac_AcceptedBy command"
    and m: "is_member (ac_SpaceID command) (ac_AcceptedBy command) d"
    and c: "rc_ReviewID c = ac_ReviewID command" "review_current w c"
    and r: "replaces rc_ReviewID (work_result_checks d) c
      (accepted_check (ac_AcceptedBy command) key (ReviewAcceptanceDigest (ac_WorkID command) (ac_ReviewID command)) now c)
      (work_result_checks d')"
    and d': "d' = d\<lparr>work_result_checks := work_result_checks d'\<rparr>" by blast
  have "w \<in> set (works d)" "w_WorkID w = ac_WorkID command" "w_SpaceID w = ac_SpaceID command"
    using w(1) by (auto simp: sql_LockWork_def dest!: first_where_Some)
  with w m c r show ?thesis
    by (intro exI [of _ w] exI [of _ c]
        exI [of _ "accepted_check (ac_AcceptedBy command) key (ReviewAcceptanceDigest (ac_WorkID command) (ac_ReviewID command)) now c"])
      (subst d', simp add: replaces_def review_current_def accepted_check_def)
qed

lemma demo_accepted_changes: "snd (AcceptWorkReview demo_review (demo_env ''a'' 400) demo_committed) \<noteq> demo_committed"
  using plain_text_trim [of "''c''"]
  by (simp add: plain_text_def is_space_def AcceptWorkReview_def demo_review_def demo_normal_forms guard_def transact_healthy demo_env_healthy
      AcceptWorkReview_tx_def tx_run lockActiveWorkMembership_def sql_LockActiveWorkMembership_def active_membership_def
      sql_FindWorkReviewAcceptanceByIdempotency_def new_result_check_def sql_LockWork_def sql_LockWorkResultCheck_def
      textValue_def sql_AcceptWorkResultCheck_def demo_reviewable demo_reviewable_def demo_claimed_def
      demo_created_def demo_defs demo_work_def Let_def update_where_def)

theorem acceptance_requires_current_review_witness:
  "\<exists>w \<in> set (works demo_committed). w_OwnerUserID w = ''alice'' \<and> w_AppliedInputSeq w = w_InputHeadSeq w"
  using acceptance_requires_current_review [OF demo_committed_reachable prod.collapse [symmetric] demo_accepted_changes]
  by (auto simp: demo_review_def)

text \<open>
  C12 (functional). An unresolved outcome rests until its retry is requested. A claim never starts
  or recovers a Run of a Work whose last Run failed or ended unknown without a requested retry,
  and after a claim the claimed Run, active, is the only unresolved Run of its Work.
\<close>

theorem unresolved_outcome_rests:
  assumes "reachable d" "ClaimRun machineID E d = (Inr c, d')" "w \<in> set (works d)" "w_WorkID w = cl_WorkID c"
  shows "\<not> needs_retry d w \<and> (\<exists>r \<in> set (runs d'). r_RunID r = cl_RunID c \<and> r_State r = StateActive
    \<and> (\<forall>s \<in> set (runs d'). r_WorkID s = w_WorkID w \<and> unresolved s \<longrightarrow> s = r))"
proof -
  have ok: "core_ok d" by (rule reachable_ok [OF assms(1)])
  have ok': "core_ok d'" by (rule step_core_ok [OF ok served_step(7) [OF assms(2)]])
  have u: "unique_on r_WorkID unresolved (runs d)" and u': "unique_on r_WorkID unresolved (runs d')"
    using ok ok' by (simp_all add: core_ok_def execution_ok_def work_state_ok_def runs_ok_def)
  have only: "\<forall>s \<in> set (runs d'). r_WorkID s = w_WorkID w \<and> unresolved s \<longrightarrow> s = r"
    if "r \<in> set (runs d')" "r_State r = StateActive" "r_WorkID r = w_WorkID w" for r
  proof (intro ballI impI)
    fix s assume "s \<in> set (runs d')" "r_WorkID s = w_WorkID w \<and> unresolved s"
    then show "s = r" using unique_onD [OF u', of s r] that by (simp add: unresolved_def)
  qed
  have retry: "\<exists>s \<in> set (runs d). r_WorkID s = w_WorkID w \<and> unresolved s \<and> r_State s \<noteq> StateActive" if "needs_retry d w"
    using that by (auto simp: needs_retry_def exists_where_iff unresolved_def state_in_failed_unknown_def)
  have ex: "execution_ok d" using ok by (simp add: core_ok_def)
  from assms(2) ex show ?thesis
  proof (cases rule: ClaimRun_success)
    case (1 m v now)
    note n = 1(3) [unfolded claimed_new_def]
    have "w_WorkID v = w_WorkID w" using n assms(4) by (simp add: created_claim_def)
    with n have "\<not> key_taken r_WorkID unresolved (w_WorkID w) (runs d)" by simp
    with retry have "\<not> needs_retry d w" by (auto simp: key_taken_iff)
    moreover have r: "run_for_work E d v \<in> set (runs d')" "r_RunID (run_for_work E d v) = cl_RunID c"
      "r_State (run_for_work E d v) = StateActive" "r_WorkID (run_for_work E d v) = w_WorkID w"
      using n assms(4) by (simp_all add: run_for_work_def new_run_def created_claim_def)
    ultimately show ?thesis using only [OF r(1,3,4)] r by blast
  next
    case (2 m r v a now)
    note n = 2(3) [unfolded claimed_recovered_def]
    have w: "r_WorkID r = w_WorkID w" "unresolved r" "r_State r = StateActive" "r \<in> set (runs d)"
      using n assms(4) by (auto simp: recovered_claim_def unresolved_def)
    have "\<not> needs_retry d w"
    proof
      assume "needs_retry d w"
      with retry obtain s where "s \<in> set (runs d)" "r_WorkID s = w_WorkID w" "unresolved s" "r_State s \<noteq> StateActive" by blast
      with unique_onD [OF u, of s r] w show False by simp
    qed
    moreover have r: "rotated_run r \<in> set (runs d')" "r_RunID (rotated_run r) = cl_RunID c"
      "r_State (rotated_run r) = StateActive" "r_WorkID (rotated_run r) = w_WorkID w"
      using n w by (auto dest: replaces_in simp: rotated_run_def recovered_claim_def)
    ultimately show ?thesis using only [OF r(1,3,4)] r by blast
  qed
qed

theorem unresolved_outcome_rests_witness:
  "\<not> needs_retry demo_created demo_work"
  using unresolved_outcome_rests [OF demo_created_reachable demo_claimed_run, of demo_work]
  by (simp add: demo_created_def demo_claim_def demo_work_def)

end
