(* ===== verification/Agent_Rules.thy ===== *)
theory Agent_Rules
  imports Schema
begin

text \<open>
  The Agent owner (\<open>internal/agent/agent.go\<close>) and the Machine's Agent report
  (\<open>internal/machine/agent_presence.go\<close>): the wire forms of adapter and occurrence keys, the
  recognition vocabulary, display names and their uniqueness keys, the inventory projection, and
  the canonical form in which a complete report reaches the database. The composition of NFKC
  with full case folding (\<open>golang.org/x/text\<close>) is the parameter \<open>folded\<close>.
\<close>

section \<open>Keys and names\<close>

definition MaxObservationsPerReport :: int where "MaxObservationsPerReport = 32"
definition MaxAdapterKeyBytes :: nat where "MaxAdapterKeyBytes = 63"
definition MaxOccurrenceKeyBytes :: nat where "MaxOccurrenceKeyBytes = 127"
definition MaxNameBaseBytes :: nat where "MaxNameBaseBytes = 96"
definition MaxNameBytes :: nat where "MaxNameBytes = 128"
definition AvatarPresetCount :: nat where "AvatarPresetCount = 8"

record descriptor =
  ds_Key :: string
  ds_NameBase :: string
  ds_MaxOccurrencesPerReport :: int

definition key_byte :: "char \<Rightarrow> bool" where
  "key_byte c \<longleftrightarrow> (CHR ''a'' \<le> c \<and> c \<le> CHR ''z'') \<or> (CHR ''0'' \<le> c \<and> c \<le> CHR ''9'')"

definition valid_key :: "nat \<Rightarrow> string \<Rightarrow> string \<Rightarrow> bool" where
  "valid_key limit punctuation value \<longleftrightarrow>
     (case value of [] \<Rightarrow> False
      | c # cs \<Rightarrow> length value \<le> limit \<and> key_byte c \<and> list_all (\<lambda>c. key_byte c \<or> c \<in> set punctuation) cs)"

definition ValidAdapterKey :: "string \<Rightarrow> bool" where
  "ValidAdapterKey = valid_key MaxAdapterKeyBytes ''-''"

definition ValidOccurrenceKey :: "string \<Rightarrow> bool" where
  "ValidOccurrenceKey = valid_key MaxOccurrenceKeyBytes ''._-''"

definition validName :: "string \<Rightarrow> nat \<Rightarrow> bool" where
  "validName name maxBytes \<longleftrightarrow> valid_string name \<and> name \<noteq> [] \<and> length name \<le> maxBytes \<and> trim_space name = name
     \<and> list_all (\<lambda>(r, w). \<not> is_control r) (runes name)"

definition validNameBase :: "string \<Rightarrow> bool" where
  "validNameBase name = validName name MaxNameBaseBytes"

definition NormalizeName :: "(string \<Rightarrow> string) \<Rightarrow> string \<Rightarrow> carry_error + string" where
  "NormalizeName folded name =
     (if \<not> validName name MaxNameBytes then Inl (AgentError ErrInvalidAgentName)
      else if folded name = [] then Inl (AgentError ErrInvalidAgentName) else Inr (folded name))"

definition ordinal_name :: "string \<Rightarrow> int \<Rightarrow> string" where
  "ordinal_name nameBase ordinal = (if ordinal > 1 then nameBase @ '' '' @ itoa (nat ordinal) else nameBase)"

definition NameForOrdinal :: "(string \<Rightarrow> string) \<Rightarrow> string \<Rightarrow> int \<Rightarrow> carry_error + (string \<times> string)" where
  "NameForOrdinal folded nameBase ordinal =
     (if \<not> validNameBase nameBase \<or> ordinal \<le> 0 then Inl (AgentError ErrInvalidAgentName)
      else (case NormalizeName folded (ordinal_name nameBase ordinal) of
              Inl e \<Rightarrow> Inl e
            | Inr nameKey \<Rightarrow> Inr (ordinal_name nameBase ordinal, nameKey)))"

section \<open>The vocabulary\<close>

text \<open>A Go map from keys to descriptors: an association list with distinct keys.\<close>

type_synonym vocabulary = "(string \<times> descriptor) list"

fun add_descriptors :: "(string \<Rightarrow> string) \<Rightarrow> descriptor list \<Rightarrow> vocabulary \<Rightarrow> string list \<Rightarrow> int \<Rightarrow> carry_error + vocabulary" where
  "add_descriptors folded [] copied normalizedBases totalOccurrences = Inr copied"
| "add_descriptors folded (descriptor # descriptors) copied normalizedBases totalOccurrences =
     (if \<not> ValidAdapterKey (ds_Key descriptor) \<or> ds_MaxOccurrencesPerReport descriptor \<le> 0
      then Inl (AgentError ErrInvalidVocabulary)
      else if ds_MaxOccurrencesPerReport descriptor > MaxObservationsPerReport - totalOccurrences
      then Inl (AgentError ErrInvalidVocabulary)
      else if \<not> validNameBase (ds_NameBase descriptor) then Inl (AgentError ErrInvalidVocabulary)
      else (case NormalizeName folded (ds_NameBase descriptor) of
              Inl _ \<Rightarrow> Inl (AgentError ErrInvalidVocabulary)
            | Inr nameKey \<Rightarrow>
                if map_of copied (ds_Key descriptor) \<noteq> None \<or> nameKey \<in> set normalizedBases
                then Inl (AgentError ErrInvalidVocabulary)
                else add_descriptors folded descriptors ((ds_Key descriptor, descriptor) # copied)
                  (nameKey # normalizedBases) (totalOccurrences + ds_MaxOccurrencesPerReport descriptor)))"

definition NewVocabulary :: "(string \<Rightarrow> string) \<Rightarrow> descriptor list \<Rightarrow> carry_error + vocabulary" where
  "NewVocabulary folded descriptors =
     (if descriptors = [] \<or> int (length descriptors) > MaxObservationsPerReport
      then Inl (AgentError ErrInvalidVocabulary) else add_descriptors folded descriptors [] [] 0)"

definition NativeVocabulary :: vocabulary where
  "NativeVocabulary =
     [(''pi'', \<lparr>ds_Key = ''pi'', ds_NameBase = ''Pi'', ds_MaxOccurrencesPerReport = 1\<rparr>),
      (''codex'', \<lparr>ds_Key = ''codex'', ds_NameBase = ''Codex'', ds_MaxOccurrencesPerReport = 1\<rparr>)]"

definition Descriptor_of :: "vocabulary \<Rightarrow> string \<Rightarrow> descriptor option" where
  "Descriptor_of vocabulary key = map_of vocabulary key"

definition Empty_vocabulary :: "vocabulary \<Rightarrow> bool" where
  "Empty_vocabulary vocabulary \<longleftrightarrow> length vocabulary = 0"

section \<open>The inventory projection\<close>

datatype agent_lifecycle = AgentActive | AgentRemoved

record agent_identity =
  ai_AgentID :: uuid
  ai_MachineID :: uuid
  ai_OwnerUserID :: uuid
  ai_Name :: string
  ai_Lifecycle :: agent_lifecycle

record presence =
  ps_Online :: bool
  ps_LastActiveAt :: "timestamp option"

record inventory_record =
  iv_AgentID :: uuid
  iv_MachineID :: uuid
  iv_Name :: string
  iv_AvatarIndex :: nat
  iv_OwnerUserID :: uuid
  iv_OwnerName :: string
  iv_Lifecycle :: agent_lifecycle
  iv_Online :: bool
  iv_LastActiveAt :: "timestamp option"

definition AvatarIndex :: "env \<Rightarrow> uuid \<Rightarrow> carry_error + nat" where
  "AvatarIndex E agentID =
     (if uuid_parse E agentID then Inr (of_char (last (sha256 agentID)) mod AvatarPresetCount)
      else Inl (AgentError ErrInvalidAgentIdentity))"

definition ProjectInventory :: "env \<Rightarrow> agent_identity \<Rightarrow> string \<Rightarrow> presence \<Rightarrow> carry_error + inventory_record" where
  "ProjectInventory E identity ownerName presence =
     (case AvatarIndex E (ai_AgentID identity) of
        Inl e \<Rightarrow> Inl e
      | Inr avatarIndex \<Rightarrow> Inr \<lparr>iv_AgentID = ai_AgentID identity, iv_MachineID = ai_MachineID identity,
          iv_Name = ai_Name identity, iv_AvatarIndex = avatarIndex, iv_OwnerUserID = ai_OwnerUserID identity,
          iv_OwnerName = ownerName, iv_Lifecycle = ai_Lifecycle identity,
          iv_Online = (if ai_Lifecycle identity = AgentRemoved then False else ps_Online presence),
          iv_LastActiveAt = ps_LastActiveAt presence\<rparr>)"

section \<open>The report\<close>

definition AgentPresenceFreshness :: timestamp where "AgentPresenceFreshness = seconds 45"
definition maxCertificateSerialBytes :: nat where "maxCertificateSerialBytes = 256"

record observation =
  ob_AdapterKey :: string
  ob_OccurrenceKey :: string
  ob_Present :: bool

record report_request =
  rq_MachineID :: uuid
  rq_CertificateSerial :: string
  rq_ReportID :: uuid
  rq_BaseRevision :: int
  rq_Observations :: "observation list"

record report_result =
  rr_Revision :: int
  rr_UnsupportedAdapterKeys :: "string list"
  rr_SetupRequiredAdapterKeys :: "string list"

record recognized =
  rg_AdapterKey :: string
  rg_OccurrenceKey :: string
  rg_Present :: bool
  rg_NameBase :: string

record report_command =
  rt_MachineID :: uuid
  rt_CertificateSerial :: string
  rt_ReportID :: uuid
  rt_BaseRevision :: int
  rt_RequestDigest :: bytes
  rt_Recognized :: "recognized list"
  rt_UnsupportedAdapterKeys :: "string list"

definition observation_fields :: "observation \<Rightarrow> string list" where
  "observation_fields ob = [ob_AdapterKey ob, ob_OccurrenceKey ob, [if ob_Present ob then CHR 0x01 else CHR 0x00]]"

definition report_fields :: "uuid \<Rightarrow> int \<Rightarrow> observation list \<Rightarrow> string list" where
  "report_fields reportID baseRevision observations =
     [''carry/machine-agent-report/v1'', reportID, be64 (nat baseRevision)] @ concat (map observation_fields observations)"

definition agentReportDigest :: "uuid \<Rightarrow> int \<Rightarrow> observation list \<Rightarrow> bytes" where
  "agentReportDigest reportID baseRevision observations = digestFields (report_fields reportID baseRevision observations)"

definition observation_key :: "observation \<Rightarrow> string \<times> string" where
  "observation_key ob = (ob_AdapterKey ob, ob_OccurrenceKey ob)"

definition recognize :: "observation \<Rightarrow> descriptor \<Rightarrow> recognized" where
  "recognize ob descriptor = \<lparr>rg_AdapterKey = ob_AdapterKey ob, rg_OccurrenceKey = ob_OccurrenceKey ob,
     rg_Present = ob_Present ob, rg_NameBase = ds_NameBase descriptor\<rparr>"

text \<open>
  The loop over the sorted observations: the observation before, the occurrences counted so far
  per recognised key, the recognised observations and the unsupported keys found.
\<close>

fun scan_observations :: "vocabulary \<Rightarrow> observation option \<Rightarrow> (string \<Rightarrow> int) \<Rightarrow> observation list
    \<Rightarrow> carry_error + (recognized list \<times> string list)" where
  "scan_observations vocabulary before counts [] = Inr ([], [])"
| "scan_observations vocabulary before counts (ob # obs) =
     (if \<not> ValidAdapterKey (ob_AdapterKey ob) \<or> \<not> ValidOccurrenceKey (ob_OccurrenceKey ob)
      then Inl (MachineError ErrInvalidAgentReport)
      else if (case before of None \<Rightarrow> False | Some p \<Rightarrow> observation_key p = observation_key ob)
      then Inl (MachineError ErrInvalidAgentReport)
      else (case Descriptor_of vocabulary (ob_AdapterKey ob) of
              None \<Rightarrow>
                (case scan_observations vocabulary (Some ob) counts obs of
                   Inl e \<Rightarrow> Inl e
                 | Inr (recognized, unsupported) \<Rightarrow> Inr (recognized, ob_AdapterKey ob # unsupported))
            | Some descriptor \<Rightarrow>
                if counts (ob_AdapterKey ob) + 1 > ds_MaxOccurrencesPerReport descriptor
                then Inl (MachineError ErrInvalidAgentReport)
                else (case scan_observations vocabulary (Some ob)
                        (counts(ob_AdapterKey ob := counts (ob_AdapterKey ob) + 1)) obs of
                        Inl e \<Rightarrow> Inl e
                      | Inr (recognized, unsupported) \<Rightarrow> Inr (recognize ob descriptor # recognized, unsupported))))"

definition canonical_report :: "vocabulary \<Rightarrow> report_request \<Rightarrow> env \<Rightarrow> carry_error + report_command" where
  "canonical_report vocabulary request E =
     (if \<not> uuid_parse E (rq_MachineID request) \<or> \<not> uuid_parse E (rq_ReportID request)
         \<or> rq_CertificateSerial request = [] \<or> trim_space (rq_CertificateSerial request) \<noteq> rq_CertificateSerial request
         \<or> length (rq_CertificateSerial request) > maxCertificateSerialBytes \<or> rq_BaseRevision request < 0
         \<or> int (length (rq_Observations request)) > MaxObservationsPerReport
      then Inl (MachineError ErrInvalidAgentReport)
      else (let observations = sort_key observation_key (rq_Observations request)
        in case scan_observations vocabulary None (\<lambda>_. 0) observations of
             Inl e \<Rightarrow> Inl e
           | Inr (recognized, unsupported) \<Rightarrow> Inr \<lparr>rt_MachineID = rq_MachineID request,
               rt_CertificateSerial = rq_CertificateSerial request, rt_ReportID = rq_ReportID request,
               rt_BaseRevision = rq_BaseRevision request,
               rt_RequestDigest = agentReportDigest (rq_ReportID request) (rq_BaseRevision request) observations,
               rt_Recognized = recognized, rt_UnsupportedAdapterKeys = sort (remdups unsupported)\<rparr>))"

text \<open>\<open>AgentPresence.Report\<close>, on any implementation of the persistence interface.\<close>

definition Report :: "(report_command \<Rightarrow> env \<Rightarrow> 'd \<Rightarrow> (carry_error + report_result) \<times> 'd) \<Rightarrow> vocabulary
    \<Rightarrow> report_request \<Rightarrow> env \<Rightarrow> 'd \<Rightarrow> (carry_error + report_result) \<times> 'd" where
  "Report reconcile vocabulary request E = checked (canonical_report vocabulary request E) (\<lambda>command. reconcile command) E"

section \<open>Lemmas on reports\<close>

lemma scan_error: "scan_observations V b c obs = Inl e \<Longrightarrow> e = MachineError ErrInvalidAgentReport"
  by (induction V b c obs rule: scan_observations.induct)
    (auto split: if_split_asm option.split_asm sum.split_asm prod.split_asm)

lemma scan_step:
  assumes "scan_observations V b c (ob # obs) = Inr (rs, us)"
  obtains c' rs' us' where "scan_observations V (Some ob) c' obs = Inr (rs', us')"
    "ValidAdapterKey (ob_AdapterKey ob)" "ValidOccurrenceKey (ob_OccurrenceKey ob)"
    "\<forall>p. b = Some p \<longrightarrow> observation_key p \<noteq> observation_key ob"
    "(Descriptor_of V (ob_AdapterKey ob) = None \<and> rs = rs' \<and> us = ob_AdapterKey ob # us' \<and> c' = c)
     \<or> (\<exists>s. Descriptor_of V (ob_AdapterKey ob) = Some s \<and> rs = recognize ob s # rs' \<and> us = us'
          \<and> c' = c(ob_AdapterKey ob := c (ob_AdapterKey ob) + 1) \<and> c' (ob_AdapterKey ob) \<le> ds_MaxOccurrencesPerReport s)"
  using assms by (fastforce split: if_split_asm option.split_asm sum.split_asm prod.split_asm)

lemma scan_strict:
  assumes "scan_observations V b c obs = Inr (rs, us)" "sorted (map observation_key obs)"
    "\<forall>p. b = Some p \<longrightarrow> (\<forall>ob \<in> set obs. observation_key p \<le> observation_key ob)"
  shows "distinct (map observation_key obs) \<and> (\<forall>p. b = Some p \<longrightarrow> observation_key p \<notin> observation_key ` set obs)"
  using assms
proof (induction obs arbitrary: b c rs us)
  case (Cons ob obs)
  from Cons.prems(1) obtain c' rs' us' where
    s: "scan_observations V (Some ob) c' obs = Inr (rs', us')"
    and b: "\<forall>p. b = Some p \<longrightarrow> observation_key p \<noteq> observation_key ob" by (rule scan_step)
  from Cons.IH [OF s] Cons.prems(2)
  have d: "distinct (map observation_key obs)" "observation_key ob \<notin> observation_key ` set obs" by auto
  have "observation_key p \<notin> observation_key ` set obs" if p: "b = Some p" for p
  proof
    assume "observation_key p \<in> observation_key ` set obs"
    then have "observation_key ob \<le> observation_key p" using Cons.prems(2) by auto
    moreover have "observation_key p \<le> observation_key ob" using Cons.prems(3) p by simp
    ultimately show False using b p by simp
  qed
  with d b show ?case by auto
qed simp

lemma scan_recognized:
  assumes "scan_observations V b c obs = Inr (rs, us)"
  shows "set us = {ob_AdapterKey ob | ob. ob \<in> set obs \<and> Descriptor_of V (ob_AdapterKey ob) = None}
    \<and> rs = map (\<lambda>ob. recognize ob (the (Descriptor_of V (ob_AdapterKey ob))))
            (filter (\<lambda>ob. Descriptor_of V (ob_AdapterKey ob) \<noteq> None) obs)
    \<and> (\<forall>ob \<in> set obs. ValidAdapterKey (ob_AdapterKey ob) \<and> ValidOccurrenceKey (ob_OccurrenceKey ob))"
  using assms
proof (induction obs arbitrary: b c rs us)
  case (Cons ob obs)
  from Cons.prems show ?case
  proof (rule scan_step)
    fix c' rs' us' assume s: "scan_observations V (Some ob) c' obs = Inr (rs', us')"
    and v: "ValidAdapterKey (ob_AdapterKey ob)" "ValidOccurrenceKey (ob_OccurrenceKey ob)"
    and cases: "(Descriptor_of V (ob_AdapterKey ob) = None \<and> rs = rs' \<and> us = ob_AdapterKey ob # us' \<and> c' = c)
     \<or> (\<exists>s. Descriptor_of V (ob_AdapterKey ob) = Some s \<and> rs = recognize ob s # rs' \<and> us = us'
          \<and> c' = c(ob_AdapterKey ob := c (ob_AdapterKey ob) + 1) \<and> c' (ob_AdapterKey ob) \<le> ds_MaxOccurrencesPerReport s)"
    from Cons.IH [OF s] v cases show ?thesis by (elim disjE exE conjE) auto
  qed
qed simp

lemma scan_counts:
  assumes "scan_observations V b c obs = Inr (rs, us)" "Descriptor_of V key = Some s"
    "c key \<le> ds_MaxOccurrencesPerReport s"
  shows "c key + int (length (filter (\<lambda>r. rg_AdapterKey r = key) rs)) \<le> ds_MaxOccurrencesPerReport s"
  using assms
proof (induction obs arbitrary: b c rs us)
  case (Cons ob obs)
  from Cons.prems(1) show ?case
  proof (rule scan_step)
    fix c' rs' us' assume s: "scan_observations V (Some ob) c' obs = Inr (rs', us')"
    and cases: "(Descriptor_of V (ob_AdapterKey ob) = None \<and> rs = rs' \<and> us = ob_AdapterKey ob # us' \<and> c' = c)
     \<or> (\<exists>s. Descriptor_of V (ob_AdapterKey ob) = Some s \<and> rs = recognize ob s # rs' \<and> us = us'
          \<and> c' = c(ob_AdapterKey ob := c (ob_AdapterKey ob) + 1) \<and> c' (ob_AdapterKey ob) \<le> ds_MaxOccurrencesPerReport s)"
    from cases Cons.IH [OF s Cons.prems(2)] Cons.prems(2,3) show ?thesis
      by (elim disjE exE conjE) (auto simp: recognize_def split: if_split_asm)
  qed
qed simp

lemma canonical_report_Inr:
  assumes "canonical_report V request E = Inr command"
  obtains rs us where "scan_observations V None (\<lambda>_. 0) (sort_key observation_key (rq_Observations request)) = Inr (rs, us)"
    "length (rq_Observations request) \<le> 32" "0 \<le> rq_BaseRevision request"
    "command = \<lparr>rt_MachineID = rq_MachineID request, rt_CertificateSerial = rq_CertificateSerial request,
       rt_ReportID = rq_ReportID request, rt_BaseRevision = rq_BaseRevision request,
       rt_RequestDigest = agentReportDigest (rq_ReportID request) (rq_BaseRevision request)
         (sort_key observation_key (rq_Observations request)),
       rt_Recognized = rs, rt_UnsupportedAdapterKeys = sort (remdups us)\<rparr>"
  using assms by (auto simp: canonical_report_def Let_def MaxObservationsPerReport_def split: if_split_asm sum.split_asm)

lemma canonical_keys:
  assumes "canonical_report V request E = Inr command"
  shows "distinct (map observation_key (rq_Observations request))"
  using assms
proof (rule canonical_report_Inr)
  fix rs us assume "scan_observations V None (\<lambda>_. 0) (sort_key observation_key (rq_Observations request)) = Inr (rs, us)"
  from scan_strict [OF this] have "distinct (map observation_key (sort_key observation_key (rq_Observations request)))" by simp
  moreover have "mset (map observation_key (sort_key observation_key (rq_Observations request)))
      = mset (map observation_key (rq_Observations request))" by simp
  ultimately show ?thesis by (metis mset_eq_imp_distinct_iff)
qed

section \<open>What a canonical report is\<close>

text \<open>
  A report is a set of observations. Whatever order the Machine lists its
  observations in, the canonical command is the same one, or the report is refused with the same
  error: the request digest, the recognised observations and the unsupported keys do not depend
  on the order.
\<close>

theorem report_order_is_irrelevant:
  assumes "mset obs = mset (rq_Observations request)"
  shows "canonical_report V (request\<lparr>rq_Observations := obs\<rparr>) E = canonical_report V request E"
proof -
  have l: "length obs = length (rq_Observations request)" using assms by (rule mset_eq_length)
  have error: "canonical_report V q E = Inl (MachineError ErrInvalidAgentReport)" if "canonical_report V q E \<noteq> Inr c" "\<forall>c'. canonical_report V q E \<noteq> Inr c'" for q c
    using that by (auto simp: canonical_report_def Let_def dest: scan_error split: if_split_asm sum.split_asm)
  have same: "sort_key observation_key xs = sort_key observation_key ys"
    if "mset xs = mset ys" "distinct (map observation_key xs)" for xs ys :: "observation list"
  proof (rule sort_key_inj_key_eq)
    show "mset xs = mset (sort_key observation_key ys)" using that(1) by simp
    show "inj_on observation_key (set xs)" using that(2) by (simp add: distinct_map)
    show "sorted (map observation_key (sort_key observation_key ys))" by simp
  qed
  have equal: "canonical_report V (request\<lparr>rq_Observations := obs\<rparr>) E = canonical_report V request E"
    if "sort_key observation_key obs = sort_key observation_key (rq_Observations request)"
    using that l by (simp add: canonical_report_def Let_def split: sum.split)
  show ?thesis
  proof (cases "distinct (map observation_key obs)")
    case True
    from equal [OF same [OF assms True]] show ?thesis .
  next
    case False
    have "mset (map observation_key obs) = mset (map observation_key (rq_Observations request))" using assms by simp
    then have "\<not> distinct (map observation_key (rq_Observations request))" using False by (metis mset_eq_imp_distinct_iff)
    then have "canonical_report V request E \<noteq> Inr c" for c using canonical_keys by blast
    moreover have "canonical_report V (request\<lparr>rq_Observations := obs\<rparr>) E \<noteq> Inr c" for c
      using False canonical_keys [of V "request\<lparr>rq_Observations := obs\<rparr>"] by auto
    ultimately show ?thesis using error by metis
  qed
qed

text \<open>
  A canonical report is complete. It has at most 32 observations, no occurrence
  twice and only keys in their wire form; each observation of a known family is recognised, in
  the order of the keys, under the name base of its family and never more often than the family
  allows, and the keys of all the others, and only these, are listed as unsupported, in strictly
  ascending order.
\<close>

theorem canonical_report_is_complete:
  assumes "canonical_report V request E = Inr command"
  shows "length (rq_Observations request) \<le> 32 \<and> distinct (map observation_key (rq_Observations request))
    \<and> (\<forall>ob \<in> set (rq_Observations request). ValidAdapterKey (ob_AdapterKey ob) \<and> ValidOccurrenceKey (ob_OccurrenceKey ob))
    \<and> set (rt_Recognized command) = {recognize ob s | ob s. ob \<in> set (rq_Observations request) \<and> Descriptor_of V (ob_AdapterKey ob) = Some s}
    \<and> sorted_wrt (<) (map (\<lambda>r. (rg_AdapterKey r, rg_OccurrenceKey r)) (rt_Recognized command))
    \<and> (\<forall>key s. Descriptor_of V key = Some s \<longrightarrow> 0 \<le> ds_MaxOccurrencesPerReport s \<longrightarrow>
          int (length (filter (\<lambda>r. rg_AdapterKey r = key) (rt_Recognized command))) \<le> ds_MaxOccurrencesPerReport s)
    \<and> set (rt_UnsupportedAdapterKeys command)
        = {ob_AdapterKey ob | ob. ob \<in> set (rq_Observations request) \<and> Descriptor_of V (ob_AdapterKey ob) = None}
    \<and> sorted_wrt (<) (rt_UnsupportedAdapterKeys command)"
  using assms
proof (rule canonical_report_Inr)
  let ?L = "sort_key observation_key (rq_Observations request)"
  let ?f = "\<lambda>ob. recognize ob (the (Descriptor_of V (ob_AdapterKey ob)))"
  let ?P = "\<lambda>ob. Descriptor_of V (ob_AdapterKey ob) \<noteq> None"
  fix rs us assume s: "scan_observations V None (\<lambda>_. 0) ?L = Inr (rs, us)" and l: "length (rq_Observations request) \<le> 32"
    and c: "command = \<lparr>rt_MachineID = rq_MachineID request, rt_CertificateSerial = rq_CertificateSerial request,
       rt_ReportID = rq_ReportID request, rt_BaseRevision = rq_BaseRevision request,
       rt_RequestDigest = agentReportDigest (rq_ReportID request) (rq_BaseRevision request) ?L,
       rt_Recognized = rs, rt_UnsupportedAdapterKeys = sort (remdups us)\<rparr>"
  note r = scan_recognized [OF s]
  have d: "distinct (map observation_key (rq_Observations request))" by (rule canonical_keys [OF assms])
  have "sorted (map observation_key ?L)" "distinct (map observation_key ?L)"
    using scan_strict [OF s] by simp_all
  then have "sorted_wrt (<) (map observation_key ?L)" by (simp add: strict_sorted_iff)
  then have "sorted_wrt (<) (map observation_key (filter ?P ?L))" by (simp add: sorted_wrt_map sorted_wrt_filter)
  moreover have "map (\<lambda>r. (rg_AdapterKey r, rg_OccurrenceKey r)) rs = map observation_key (filter ?P ?L)"
    using r by (simp add: recognize_def observation_key_def)
  ultimately have "sorted_wrt (<) (map (\<lambda>r. (rg_AdapterKey r, rg_OccurrenceKey r)) rs)" by simp
  moreover have "set rs = {recognize ob s | ob s. ob \<in> set (rq_Observations request) \<and> Descriptor_of V (ob_AdapterKey ob) = Some s}"
  proof -
    have "set rs = ?f ` {ob \<in> set (rq_Observations request). ?P ob}" using r by simp
    also have "\<dots> = {recognize ob s | ob s. ob \<in> set (rq_Observations request) \<and> Descriptor_of V (ob_AdapterKey ob) = Some s}"
      by force
    finally show ?thesis .
  qed
  moreover have "int (length (filter (\<lambda>r. rg_AdapterKey r = key) rs)) \<le> ds_MaxOccurrencesPerReport s'"
    if "Descriptor_of V key = Some s'" "0 \<le> ds_MaxOccurrencesPerReport s'" for key s'
    using scan_counts [OF s that(1)] that(2) by simp
  moreover have "sorted_wrt (<) (sort (remdups us))" by (simp add: strict_sorted_iff)
  moreover have "set us = {ob_AdapterKey ob | ob. ob \<in> set (rq_Observations request) \<and> Descriptor_of V (ob_AdapterKey ob) = None}"
    "\<forall>ob \<in> set (rq_Observations request). ValidAdapterKey (ob_AdapterKey ob) \<and> ValidOccurrenceKey (ob_OccurrenceKey ob)"
    using r by auto
  ultimately show ?thesis using l d c by simp
qed

lemma observation_fields_inj:
  "concat (map observation_fields os) = concat (map observation_fields ps) \<Longrightarrow> os = ps"
proof (induction os arbitrary: ps)
  case Nil
  then show ?case by (cases ps) (auto simp: observation_fields_def)
next
  case (Cons ob os)
  then obtain p ps' where ps: "ps = p # ps'" by (cases ps) (auto simp: observation_fields_def)
  have "observation_fields ob @ concat (map observation_fields os) = observation_fields p @ concat (map observation_fields ps')"
    using Cons.prems ps by simp
  moreover have "length (observation_fields ob) = length (observation_fields p)" by (simp add: observation_fields_def)
  ultimately have "observation_fields ob = observation_fields p"
    "concat (map observation_fields os) = concat (map observation_fields ps')"
    unfolding append_eq_append_conv [OF disjI1] by simp_all
  moreover from this(1) have "ob = p" by (auto simp: observation_fields_def split: if_split_asm)
  ultimately show ?case using Cons.IH ps by simp
qed

lemma valid_key_length: "valid_key n cs s \<Longrightarrow> length s \<le> n"
  by (auto simp: valid_key_def split: list.split_asm)

lemma report_fields_bounded:
  assumes "length reportID < 2 ^ 64" "\<forall>ob \<in> set obs. ValidAdapterKey (ob_AdapterKey ob) \<and> ValidOccurrenceKey (ob_OccurrenceKey ob)"
  shows "\<forall>f \<in> set (report_fields reportID revision obs). length f < 2 ^ 64"
proof -
  have "length (ob_AdapterKey ob) < 2 ^ 64 \<and> length (ob_OccurrenceKey ob) < 2 ^ 64" if "ob \<in> set obs" for ob
    using assms(2) that valid_key_length [of 63] valid_key_length [of 127]
    by (fastforce simp: ValidAdapterKey_def ValidOccurrenceKey_def MaxAdapterKeyBytes_def MaxOccurrenceKeyBytes_def)
  then show ?thesis
    using assms(1) by (auto simp: report_fields_def observation_fields_def be64_def)
qed

text \<open>
  A request digest stands for its report. Two accepted reports with the same
  digest are the same report, with the same identity, the same base revision and the same
  observations, or the two framed requests are a SHA-256 collision.
\<close>

theorem report_digest_determines_report:
  assumes "canonical_report V r E = Inr c" "canonical_report W q F = Inr e" "rt_RequestDigest c = rt_RequestDigest e"
    and "length (rq_ReportID r) < 2 ^ 64" "length (rq_ReportID q) < 2 ^ 64"
    and "rq_BaseRevision r < 2 ^ 63" "rq_BaseRevision q < 2 ^ 63"
  shows "(rq_ReportID r = rq_ReportID q \<and> rq_BaseRevision r = rq_BaseRevision q
      \<and> mset (rq_Observations r) = mset (rq_Observations q))
    \<or> (\<exists>x y. sha256_collision x y)"
proof -
  let ?L = "\<lambda>r. sort_key observation_key (rq_Observations r)"
  let ?F = "\<lambda>r. report_fields (rq_ReportID r) (rq_BaseRevision r) (?L r)"
  from assms(1) obtain rs us where r: "scan_observations V None (\<lambda>_. 0) (?L r) = Inr (rs, us)" "0 \<le> rq_BaseRevision r"
    "rt_RequestDigest c = digestFields (?F r)" by (rule canonical_report_Inr) (simp add: agentReportDigest_def)
  from assms(2) obtain rs' us' where q: "scan_observations W None (\<lambda>_. 0) (?L q) = Inr (rs', us')" "0 \<le> rq_BaseRevision q"
    "rt_RequestDigest e = digestFields (?F q)" by (rule canonical_report_Inr) (simp add: agentReportDigest_def)
  have bounds: "\<forall>f \<in> set (?F r). length f < 2 ^ 64" "\<forall>f \<in> set (?F q). length f < 2 ^ 64"
    using scan_recognized [OF r(1)] scan_recognized [OF q(1)] assms(4,5) by (intro report_fields_bounded; simp)+
  have "digestFields (?F r) = digestFields (?F q)" using assms(3) r(3) q(3) by simp
  from digestFields_eqD [OF this bounds] show ?thesis
  proof
    assume "?F r = ?F q"
    then have f: "rq_ReportID r = rq_ReportID q" "be64 (nat (rq_BaseRevision r)) = be64 (nat (rq_BaseRevision q))"
      "concat (map observation_fields (?L r)) = concat (map observation_fields (?L q))"
      by (simp_all add: report_fields_def)
    have "nat (rq_BaseRevision r) = nat (rq_BaseRevision q)" using be64_inj [OF f(2)] assms(6,7) by simp
    then have "rq_BaseRevision r = rq_BaseRevision q" using r(2) q(2) by simp
    moreover have "mset (?L r) = mset (?L q)" using observation_fields_inj [OF f(3)] by simp
    then have "mset (rq_Observations r) = mset (rq_Observations q)" by simp
    ultimately show ?thesis using f(1) by blast
  qed blast
qed

section \<open>What a vocabulary is\<close>

lemma add_descriptors_Inr:
  assumes "add_descriptors folded ds V names tot = Inr W" "distinct (map fst V)"
    "\<forall>(key, s) \<in> set V. ds_Key s = key" "0 \<le> tot"
    "tot = sum_list (map (ds_MaxOccurrencesPerReport \<circ> snd) V)" "tot \<le> MaxObservationsPerReport"
    "distinct names" "names = map (folded \<circ> ds_NameBase \<circ> snd) V"
  shows "W = rev (map (\<lambda>s. (ds_Key s, s)) ds) @ V \<and> distinct (map fst W) \<and> sum_list (map (ds_MaxOccurrencesPerReport \<circ> snd) W) \<le> 32
    \<and> distinct (map (folded \<circ> ds_NameBase \<circ> snd) W)
    \<and> (\<forall>s \<in> set ds. ValidAdapterKey (ds_Key s) \<and> validNameBase (ds_NameBase s) \<and> 0 < ds_MaxOccurrencesPerReport s)"
  using assms
proof (induction folded ds V names tot rule: add_descriptors.induct)
  case (1 folded V names tot)
  then show ?case by (simp add: MaxObservationsPerReport_def)
next
  case (2 folded s ds V names tot)
  from "2.prems"(1) obtain nameKey where s: "ValidAdapterKey (ds_Key s)" "0 < ds_MaxOccurrencesPerReport s"
    "tot + ds_MaxOccurrencesPerReport s \<le> MaxObservationsPerReport" "validNameBase (ds_NameBase s)"
    "NormalizeName folded (ds_NameBase s) = Inr nameKey" "map_of V (ds_Key s) = None" "nameKey \<notin> set names"
    "add_descriptors folded ds ((ds_Key s, s) # V) (nameKey # names) (tot + ds_MaxOccurrencesPerReport s) = Inr W"
    by (auto split: if_split_asm sum.split_asm)
  have n: "nameKey = folded (ds_NameBase s)" using s(5) by (auto simp: NormalizeName_def split: if_split_asm)
  have k: "ds_Key s \<notin> fst ` set V" using s(6) by (simp add: map_of_eq_None_iff)
  have IH: "W = rev (map (\<lambda>s. (ds_Key s, s)) ds) @ (ds_Key s, s) # V \<and> distinct (map fst W)
    \<and> sum_list (map (ds_MaxOccurrencesPerReport \<circ> snd) W) \<le> 32 \<and> distinct (map (folded \<circ> ds_NameBase \<circ> snd) W)
    \<and> (\<forall>s \<in> set ds. ValidAdapterKey (ds_Key s) \<and> validNameBase (ds_NameBase s) \<and> 0 < ds_MaxOccurrencesPerReport s)"
    by (rule "2.IH") (use s n k "2.prems" in \<open>auto split: if_split_asm\<close>)
  have "W = rev (map (\<lambda>s. (ds_Key s, s)) (s # ds)) @ V" using IH by simp
  moreover have "\<forall>x \<in> set (s # ds). ValidAdapterKey (ds_Key x) \<and> validNameBase (ds_NameBase x) \<and> 0 < ds_MaxOccurrencesPerReport x"
    using IH s(1,2,4) by simp
  ultimately show ?case using IH by blast
qed

text \<open>
  A vocabulary the constructor accepts is well formed: it holds each descriptor given to
  it under its key and nothing else, the keys and the folded name bases are distinct, every
  key and name base is valid, every family may occur, and all families together never exceed the
  32 observations of one report, so a complete report of known families is always acceptable.
\<close>

theorem vocabulary_is_well_formed:
  assumes "NewVocabulary folded descriptors = Inr V"
  shows "(\<forall>key s. Descriptor_of V key = Some s \<longleftrightarrow> s \<in> set descriptors \<and> ds_Key s = key)
    \<and> length V = length descriptors \<and> V \<noteq> [] \<and> distinct (map fst V)
    \<and> distinct (map (folded \<circ> ds_NameBase \<circ> snd) V)
    \<and> sum_list (map (ds_MaxOccurrencesPerReport \<circ> snd) V) \<le> 32
    \<and> (\<forall>s \<in> set descriptors. ValidAdapterKey (ds_Key s) \<and> validNameBase (ds_NameBase s) \<and> 0 < ds_MaxOccurrencesPerReport s)"
proof -
  have "descriptors \<noteq> []" and a: "add_descriptors folded descriptors [] [] 0 = Inr V"
    using assms by (auto simp: NewVocabulary_def split: if_split_asm)
  moreover have big: "V = rev (map (\<lambda>s. (ds_Key s, s)) descriptors) @ [] \<and> distinct (map fst V)
      \<and> sum_list (map (ds_MaxOccurrencesPerReport \<circ> snd) V) \<le> 32 \<and> distinct (map (folded \<circ> ds_NameBase \<circ> snd) V)
      \<and> (\<forall>s\<in>set descriptors. ValidAdapterKey (ds_Key s) \<and> validNameBase (ds_NameBase s) \<and> 0 < ds_MaxOccurrencesPerReport s)"
    by (rule add_descriptors_Inr [OF a]) (simp_all add: MaxObservationsPerReport_def)
  then have V: "V = rev (map (\<lambda>s. (ds_Key s, s)) descriptors)" "distinct (map fst V)"
    "sum_list (map (ds_MaxOccurrencesPerReport \<circ> snd) V) \<le> 32" "distinct (map (folded \<circ> ds_NameBase \<circ> snd) V)"
    "\<forall>s \<in> set descriptors. ValidAdapterKey (ds_Key s) \<and> validNameBase (ds_NameBase s) \<and> 0 < ds_MaxOccurrencesPerReport s"
    unfolding append_Nil2 by blast+
  moreover have "Descriptor_of V key = Some s \<longleftrightarrow> (key, s) \<in> set V" for key s
    using V(2) by (simp add: Descriptor_of_def)
  then have "Descriptor_of V key = Some s \<longleftrightarrow> s \<in> set descriptors \<and> ds_Key s = key" for key s
    using V(1) by auto
  moreover have "length V = length descriptors" using V(1) by simp
  moreover from this have "V \<noteq> []" using \<open>descriptors \<noteq> []\<close> by auto
  ultimately show ?thesis by blast
qed

lemma ascii_no_control:
  assumes "list_all (\<lambda>c. 32 \<le> code c \<and> code c < 127) s"
  shows "list_all (\<lambda>(r, w). \<not> is_control r) (runes s)"
  by (subst runes_ascii) (use assms in \<open>auto simp: list_all_iff is_control_def\<close>)

lemma native_accepted:
  assumes "folded ''Pi'' \<noteq> []" "folded ''Codex'' \<noteq> []" "folded ''Pi'' \<noteq> folded ''Codex''"
  shows "NewVocabulary folded (map snd (rev NativeVocabulary)) = Inr NativeVocabulary"
proof -
  have p: "plain_text ''Pi''" "plain_text ''Codex''" by (simp_all add: plain_text_def is_space_def)
  then have "validName ''Pi'' n" if "2 \<le> n" for n
    using that plain_text_valid [OF p(1)] plain_text_trim [OF p(1)] ascii_no_control [of "''Pi''"]
    by (simp add: validName_def del: runes.simps)
  moreover have "validName ''Codex'' n" if "5 \<le> n" for n
    using that plain_text_valid [OF p(2)] plain_text_trim [OF p(2)] ascii_no_control [of "''Codex''"]
    by (simp add: validName_def del: runes.simps)
  moreover have "ValidAdapterKey ''pi''" "ValidAdapterKey ''codex''"
    by (simp_all add: ValidAdapterKey_def valid_key_def key_byte_def MaxAdapterKeyBytes_def less_eq_char_def)
  ultimately show ?thesis using assms
    by (simp add: NewVocabulary_def NativeVocabulary_def MaxObservationsPerReport_def validNameBase_def
        MaxNameBaseBytes_def MaxNameBytes_def NormalizeName_def)
qed

theorem vocabulary_is_well_formed_witness:
  "Descriptor_of NativeVocabulary ''pi'' = Some \<lparr>ds_Key = ''pi'', ds_NameBase = ''Pi'', ds_MaxOccurrencesPerReport = 1\<rparr>"
  using vocabulary_is_well_formed [OF native_accepted [of "\<lambda>s. s"]] by (simp add: NativeVocabulary_def)

end
