(* ===== verification/Agent_Store.thy ===== *)
theory Agent_Store
  imports Agent_Rules Conversation_Store
begin

text \<open>
  Agents and their presence in the database (\<open>internal/postgres/agent.go\<close>, statements of
  \<open>dbsqlc/agent.sql.go\<close>): one Machine reports all the Agents it observes, the store allocates
  an identity for each binding it sees for the first time, replaces the presence of the
  Machine's active Agents, and records the report under the next revision. \<open>k\<close> in the
  allocation loop counts the \<open>uuid.NewString\<close> calls.
\<close>

section \<open>Statements\<close>

definition agent_binding :: "agent_row \<Rightarrow> string \<times> string" where
  "agent_binding a = (ag_AdapterKey a, ag_OccurrenceKey a)"

definition agent_slot :: "agent_row \<Rightarrow> uuid \<times> string \<times> string" where
  "agent_slot a = (ag_MachineID a, ag_AdapterKey a, ag_OccurrenceKey a)"

definition agent_name_key :: "agent_row \<Rightarrow> uuid \<times> string" where
  "agent_name_key a = (ag_SpaceID a, ag_NameKey a)"

definition sql_LoadAgentReportMachine :: "uuid \<Rightarrow> db \<Rightarrow> machine_row option" where
  "sql_LoadAgentReportMachine machineID d = first_where (\<lambda>m. m_MachineID m = machineID) (machines d)"

definition sql_ListMachineAgentBindings :: "uuid \<Rightarrow> db \<Rightarrow> (string \<times> string) list" where
  "sql_ListMachineAgentBindings machineID d =
     map agent_binding (filter (\<lambda>a. ag_MachineID a = machineID) (agents d))"

definition sql_LockSpaceForAgentAllocation :: "uuid \<Rightarrow> db \<Rightarrow> uuid option" where
  "sql_LockSpaceForAgentAllocation spaceID d =
     map_option sp_SpaceID (first_where (\<lambda>s. sp_SpaceID s = spaceID) (spaces d))"

definition sql_LockAgentApproverMembership :: "uuid \<Rightarrow> uuid \<Rightarrow> db \<Rightarrow> membership_row option" where
  "sql_LockAgentApproverMembership spaceID userID d =
     first_where (\<lambda>m. mb_SpaceID m = spaceID \<and> mb_UserID m = userID) (memberships d)"

definition sql_LockMachineForAgentReport :: "uuid \<Rightarrow> db \<Rightarrow> machine_row option" where
  "sql_LockMachineForAgentReport machineID d = first_where (\<lambda>m. m_MachineID m = machineID) (machines d)"

definition presence_of :: "uuid \<Rightarrow> db \<Rightarrow> presence_row option" where
  "presence_of agentID d = first_where (\<lambda>p. pr_AgentID p = agentID) (agent_presence d)"

definition sql_LockAgentsForMachine :: "uuid \<Rightarrow> db \<Rightarrow> agent_row list" where
  "sql_LockAgentsForMachine machineID d =
     order_by ag_AgentID (filter (\<lambda>a. ag_MachineID a = machineID \<and> presence_of (ag_AgentID a) d \<noteq> None) (agents d))"

definition sql_AgentNameExists :: "uuid \<Rightarrow> string \<Rightarrow> db \<Rightarrow> bool" where
  "sql_AgentNameExists spaceID nameKey d =
     exists_where (\<lambda>a. ag_SpaceID a = spaceID \<and> ag_NameKey a = nameKey) (agents d)"

definition new_agent :: "env \<Rightarrow> uuid \<Rightarrow> machine_row \<Rightarrow> recognized \<Rightarrow> string \<Rightarrow> string \<Rightarrow> agent_row" where
  "new_agent E agentID m ob name nameKey = \<lparr>ag_AgentID = agentID, ag_SpaceID = m_SpaceID m, ag_MachineID = m_MachineID m,
     ag_OwnerUserID = m_EnrolledByUserID m, ag_AdapterKey = rg_AdapterKey ob, ag_OccurrenceKey = rg_OccurrenceKey ob,
     ag_Name = name, ag_NameKey = nameKey, ag_CreatedAt = tx_time E, ag_RemovedAt = None\<rparr>"

definition sql_InsertAgent :: "agent_row \<Rightarrow> db \<Rightarrow> db_error + (agent_row \<times> db)" where
  "sql_InsertAgent a d =
     (if ag_NameKey a = [] \<or> length (ag_NameKey a) > 128 then Inl (Check_violation ''agents_name_key_check'')
      else if key_taken ag_AgentID (\<lambda>_. True) (ag_AgentID a) (agents d) then Inl (Unique_violation ''agents_pkey'')
      else if key_taken agent_slot (\<lambda>_. True) (agent_slot a) (agents d)
      then Inl (Unique_violation ''agents_machine_occurrence_unique'')
      else if key_taken agent_name_key (\<lambda>_. True) (agent_name_key a) (agents d)
      then Inl (Unique_violation ''agents_space_name_unique'')
      else if \<not> exists_where (\<lambda>m. m_MachineID m = ag_MachineID a \<and> m_SpaceID m = ag_SpaceID a) (machines d)
      then Inl (Foreign_key_violation ''agents_machine_space_fkey'')
      else if \<not> exists_where (\<lambda>m. mb_SpaceID m = ag_SpaceID a \<and> mb_UserID m = ag_OwnerUserID a) (memberships d)
      then Inl (Foreign_key_violation ''agents_owner_membership_fkey'')
      else Inr (a, d\<lparr>agents := agents d @ [a]\<rparr>))"

definition sql_InsertAgentPresence :: "uuid \<Rightarrow> db \<Rightarrow> db_error + (unit \<times> db)" where
  "sql_InsertAgentPresence agentID d =
     (if key_taken pr_AgentID (\<lambda>_. True) agentID (agent_presence d) then Inl (Unique_violation ''agent_presence_pkey'')
      else if \<not> exists_where (\<lambda>a. ag_AgentID a = agentID) (agents d)
      then Inl (Foreign_key_violation ''agent_presence_agent_id_fkey'')
      else Inr ((), d\<lparr>agent_presence := agent_presence d @
             [\<lparr>pr_AgentID = agentID, pr_Present = False, pr_LastPresentAt = None\<rparr>]\<rparr>))"

definition active_agent :: "(agent_row \<Rightarrow> bool) \<Rightarrow> db \<Rightarrow> uuid \<Rightarrow> bool" where
  "active_agent P d agentID \<longleftrightarrow> exists_where (\<lambda>a. ag_AgentID a = agentID \<and> P a \<and> ag_RemovedAt a = None) (agents d)"

definition sql_SetMachineActiveAgentsAbsent :: "uuid \<Rightarrow> db \<Rightarrow> unit \<times> db" where
  "sql_SetMachineActiveAgentsAbsent machineID d =
     ((), d\<lparr>agent_presence := update_where (\<lambda>p. active_agent (\<lambda>a. ag_MachineID a = machineID) d (pr_AgentID p))
            (\<lambda>p. p\<lparr>pr_Present := False\<rparr>) (agent_presence d)\<rparr>)"

definition sql_SetActiveAgentPresent :: "env \<Rightarrow> uuid \<Rightarrow> db \<Rightarrow> int \<times> db" where
  "sql_SetActiveAgentPresent E agentID d =
     (let P = (\<lambda>p. pr_AgentID p = agentID \<and> active_agent (\<lambda>_. True) d agentID)
      in (count_where P (agent_presence d),
          d\<lparr>agent_presence := update_where P
             (\<lambda>p. p\<lparr>pr_Present := True, pr_LastPresentAt := Some (tx_time E)\<rparr>) (agent_presence d)\<rparr>))"

definition reported_machine :: "env \<Rightarrow> uuid \<Rightarrow> bytes \<Rightarrow> string list \<Rightarrow> string list \<Rightarrow> machine_row \<Rightarrow> machine_row" where
  "reported_machine E reportID digest unsupported setup m = m\<lparr>m_AgentReportRevision := m_AgentReportRevision m + 1,
     m_AgentReportedAt := Some (tx_time E), m_LastAgentReportID := Some reportID,
     m_LastAgentReportDigest := Some digest, m_LastUnsupportedKeys := unsupported, m_LastSetupRequiredKeys := setup\<rparr>"

definition sql_UpdateMachineAgentReport ::
    "env \<Rightarrow> uuid \<Rightarrow> bytes \<Rightarrow> string list \<Rightarrow> string list \<Rightarrow> uuid \<Rightarrow> db \<Rightarrow> int option \<times> db" where
  "sql_UpdateMachineAgentReport E reportID digest unsupported setup machineID d =
     (let machines' = update_where (\<lambda>m. m_MachineID m = machineID)
            (reported_machine E reportID digest unsupported setup) (machines d)
      in (map_option m_AgentReportRevision (first_where (\<lambda>m. m_MachineID m = machineID) machines'),
          d\<lparr>machines := machines'\<rparr>))"

section \<open>The name of a new Agent\<close>

definition next_ordinal :: "int \<Rightarrow> int" where
  "next_ordinal ordinal = (if ordinal = 2 ^ 63 - 1 then - (2 ^ 63) else ordinal + 1)"

function allocateAgentName :: "(string \<Rightarrow> string) \<Rightarrow> uuid \<Rightarrow> string \<Rightarrow> int \<Rightarrow> (db, string \<times> string) tx" where
  "allocateAgentName folded spaceID nameBase ordinal E d n =
     (case NameForOrdinal folded nameBase ordinal of
        Inl e \<Rightarrow> Inl e
      | Inr (name, nameKey) \<Rightarrow>
          (case query (\<lambda>E now. sql_AgentNameExists spaceID nameKey) E d n of
             Inl e \<Rightarrow> Inl e
           | Inr (found, d', n') \<Rightarrow>
               if \<not> found then Inr ((name, nameKey), d', n')
               else if ordinal < 2 ^ 63 then allocateAgentName folded spaceID nameBase (next_ordinal ordinal) E d' n'
               else Inl (AgentError ErrInvalidAgentName)))"
  by pat_completeness auto

termination
proof (relation "measure (\<lambda>(folded, spaceID, nameBase, ordinal, E, d, n). if ordinal \<le> 0 then 0 else nat (2 ^ 63 - ordinal + 1))")
  fix folded :: "string \<Rightarrow> string" and spaceID nameBase ordinal and E :: env and d :: db and n and r :: "string \<times> string"
    and s :: "bool \<times> db \<times> nat" and name nameKey found and t :: "db \<times> nat" and d' :: db and n'
  assume "NameForOrdinal folded nameBase ordinal = Inr r" "ordinal < 2 ^ 63"
  moreover from this(1) have "0 < ordinal" by (auto simp: NameForOrdinal_def split: if_split_asm)
  ultimately show "((folded, spaceID, nameBase, next_ordinal ordinal, E, d', n'), folded, spaceID, nameBase, ordinal, E, d, n)
      \<in> measure (\<lambda>(folded, spaceID, nameBase, ordinal, E, d, n). if ordinal \<le> 0 then 0 else nat (2 ^ 63 - ordinal + 1))"
    by (auto simp: next_ordinal_def)
qed simp

declare allocateAgentName.simps [simp del]

section \<open>The report\<close>

definition recognized_binding :: "recognized \<Rightarrow> string \<times> string" where
  "recognized_binding ob = (rg_AdapterKey ob, rg_OccurrenceKey ob)"

fun allocate_missing :: "(string \<Rightarrow> string) \<Rightarrow> machine_row \<Rightarrow> bool \<Rightarrow> nat \<Rightarrow> recognized list
    \<Rightarrow> (string \<times> string \<Rightarrow> agent_row option) \<Rightarrow> (db, (string \<times> string \<Rightarrow> agent_row option) \<times> string list) tx" where
  "allocate_missing folded m approverActive k [] byBinding = ret (byBinding, [])"
| "allocate_missing folded m approverActive k (ob # obs) byBinding =
     (if byBinding (recognized_binding ob) \<noteq> None then allocate_missing folded m approverActive k obs byBinding
      else if \<not> approverActive then
        bind_tx (allocate_missing folded m approverActive k obs byBinding) (\<lambda>(byBinding', setup).
        ret (byBinding', rg_AdapterKey ob # setup))
      else
        bind_tx (known (allocateAgentName folded (m_SpaceID m) (rg_NameBase ob) 1)) (\<lambda>(name, nameKey).
        bind_tx (ask (\<lambda>E. fresh E k)) (\<lambda>agentID.
        bind_tx (insert_row (\<lambda>E now. sql_InsertAgent (new_agent E agentID m ob name nameKey))) (\<lambda>created.
        bind_tx (insert_row (\<lambda>E now. sql_InsertAgentPresence agentID)) (\<lambda>_.
        allocate_missing folded m approverActive (Suc k) obs (byBinding(recognized_binding ob \<mapsto> created)))))))"

fun set_reported_present :: "(string \<times> string \<Rightarrow> agent_row option) \<Rightarrow> recognized list \<Rightarrow> (db, unit) tx" where
  "set_reported_present byBinding [] = ret ()"
| "set_reported_present byBinding (ob # obs) =
     bind_tx (if \<not> rg_Present ob then ret ()
              else (case byBinding (recognized_binding ob) of
                      None \<Rightarrow> ret ()
                    | Some stored \<Rightarrow> if ag_RemovedAt stored \<noteq> None then ret ()
                        else bind_tx (modify (\<lambda>E now. sql_SetActiveAgentPresent E (ag_AgentID stored))) (\<lambda>_. ret ())))
       (\<lambda>_. set_reported_present byBinding obs)"

text \<open>Phases 1 and 2: the Machine on whose behalf Agents are allocated, and whether its approver still may.\<close>

definition allocation_authority :: "report_command \<Rightarrow> (db, machine_row \<times> bool) tx" where
  "allocation_authority command =
     bind_tx (known (query (\<lambda>E now. sql_LoadAgentReportMachine (rt_MachineID command)))) (\<lambda>found.
     case found of
       None \<Rightarrow> fail (MachineError ErrMachineUnavailable)
     | Some pathMachine \<Rightarrow>
         bind_tx (known (query (\<lambda>E now. sql_ListMachineAgentBindings (rt_MachineID command)))) (\<lambda>bindings.
         if list_all (\<lambda>ob. recognized_binding ob \<in> set bindings) (rt_Recognized command) then ret (pathMachine, True)
         else
           bind_tx (known (query_one (DatabaseError No_rows) (\<lambda>E now. sql_LockSpaceForAgentAllocation (m_SpaceID pathMachine)))) (\<lambda>_.
           bind_tx (known (query (\<lambda>E now. sql_LockAgentApproverMembership (m_SpaceID pathMachine) (m_EnrolledByUserID pathMachine)))) (\<lambda>membership.
           ret (pathMachine, case membership of None \<Rightarrow> False | Some row \<Rightarrow> mb_RevokedAt row = None)))))"

text \<open>Phases 4 to 6: what an accepted report does.\<close>

definition accept_report :: "(string \<Rightarrow> string) \<Rightarrow> report_command \<Rightarrow> machine_row \<Rightarrow> bool \<Rightarrow> (db, report_result) tx" where
  "accept_report folded command pathMachine approverActive =
     bind_tx (known (query (\<lambda>E now. sql_LockAgentsForMachine (rt_MachineID command)))) (\<lambda>lockedAgents.
     bind_tx (allocate_missing folded pathMachine approverActive 0 (rt_Recognized command)
        (map_of (rev (map (\<lambda>a. (agent_binding a, a)) lockedAgents)))) (\<lambda>(byBinding, setupRequired0).
     let setupRequired = sort (remdups setupRequired0) in
     bind_tx (modify (\<lambda>E now. sql_SetMachineActiveAgentsAbsent (rt_MachineID command))) (\<lambda>_.
     bind_tx (set_reported_present byBinding (rt_Recognized command)) (\<lambda>_.
     bind_tx (postgresUUID MissingArgument (rt_ReportID command)) (\<lambda>reportID.
     bind_tx (modify_one (DatabaseError No_rows) (\<lambda>E now. sql_UpdateMachineAgentReport E reportID (rt_RequestDigest command)
        (rt_UnsupportedAdapterKeys command) setupRequired (rt_MachineID command))) (\<lambda>revision.
     ret \<lparr>rr_Revision = revision, rr_UnsupportedAdapterKeys = rt_UnsupportedAdapterKeys command,
          rr_SetupRequiredAdapterKeys = setupRequired\<rparr>))))))"

definition ReconcileAgentPresence_tx :: "(string \<Rightarrow> string) \<Rightarrow> report_command \<Rightarrow> (db, report_result) tx" where
  "ReconcileAgentPresence_tx folded command =
     bind_tx (allocation_authority command) (\<lambda>(pathMachine, approverActive).
     bind_tx (known (query (\<lambda>E now. sql_LockMachineForAgentReport (rt_MachineID command)))) (\<lambda>locked.
     case locked of
       None \<Rightarrow> fail (MachineError ErrMachineUnavailable)
     | Some storedMachine \<Rightarrow>
         bind_tx (require (m_CertificateSerial storedMachine = rt_CertificateSerial command) (MachineError ErrMachineUnavailable)) (\<lambda>_.
         bind_tx (require (m_RevokedAt storedMachine = None) (MachineError ErrMachineRevoked)) (\<lambda>_.
         if m_LastAgentReportID storedMachine = Some (rt_ReportID command) then
           bind_tx (require (m_LastAgentReportDigest storedMachine = Some (rt_RequestDigest command))
              (MachineError ErrAgentReportConflict)) (\<lambda>_.
           ret \<lparr>rr_Revision = m_AgentReportRevision storedMachine, rr_UnsupportedAdapterKeys = m_LastUnsupportedKeys storedMachine,
                rr_SetupRequiredAdapterKeys = m_LastSetupRequiredKeys storedMachine\<rparr>)
         else
           bind_tx (require (rt_BaseRevision command = m_AgentReportRevision storedMachine)
              (MachineError (AgentReportStaleError (m_AgentReportRevision storedMachine)))) (\<lambda>_.
           accept_report folded command pathMachine approverActive)))))"

definition ReconcileAgentPresence :: "(string \<Rightarrow> string) \<Rightarrow> report_command \<Rightarrow> env \<Rightarrow> db \<Rightarrow> (carry_error + report_result) \<times> db" where
  "ReconcileAgentPresence folded command E d =
     (if begin_fault E then (Inl (ReportTemporarilyUnavailable (DatabaseError Connection_failed)), d)
      else transact (ReconcileAgentPresence_tx folded command) E d)"

section \<open>The inventory\<close>

text \<open>The nullable column \<open>online\<close>: a false conjunct decides, otherwise a missing report time is unknown.\<close>

definition online_column :: "env \<Rightarrow> int \<Rightarrow> agent_row \<Rightarrow> presence_row \<Rightarrow> machine_row \<Rightarrow> bool option" where
  "online_column E freshnessSeconds a p m =
     (if \<not> (ag_RemovedAt a = None \<and> m_RevokedAt m = None \<and> pr_Present p) then Some False
      else map_option (\<lambda>t. t > tx_time E - seconds freshnessSeconds) (m_AgentReportedAt m))"

definition inventory_join :: "db \<Rightarrow> agent_row \<Rightarrow> (agent_row \<times> presence_row \<times> machine_row \<times> user_row) option" where
  "inventory_join d a =
     (case (presence_of (ag_AgentID a) d, machine_of (ag_MachineID a) d, user_of (ag_OwnerUserID a) d) of
        (Some p, Some m, Some u) \<Rightarrow> Some (a, p, m, u) | _ \<Rightarrow> None)"

definition sql_ListInventoryAgents :: "uuid list \<Rightarrow> db \<Rightarrow> (agent_row \<times> presence_row \<times> machine_row \<times> user_row) list" where
  "sql_ListInventoryAgents machineIDs d =
     List.map_filter (inventory_join d) (order_by (\<lambda>a. (ag_MachineID a, ag_AgentID a))
       (filter (\<lambda>a. ag_MachineID a \<in> set machineIDs) (agents d)))"

definition agentFreshnessSeconds :: "timestamp \<Rightarrow> int" where
  "agentFreshnessSeconds duration = duration div 1000000"

definition inventoryAgent :: "env \<Rightarrow> agent_row \<times> presence_row \<times> machine_row \<times> user_row \<Rightarrow> carry_error + inventory_record" where
  "inventoryAgent E = (\<lambda>(a, p, m, owner).
     ProjectInventory E \<lparr>ai_AgentID = ag_AgentID a, ai_MachineID = ag_MachineID a, ai_OwnerUserID = ag_OwnerUserID a,
         ai_Name = ag_Name a, ai_Lifecycle = (if ag_RemovedAt a \<noteq> None then AgentRemoved else AgentActive)\<rparr>
       (u_DisplayName owner)
       \<lparr>ps_Online = (case online_column E (agentFreshnessSeconds AgentPresenceFreshness) a p m of None \<Rightarrow> False | Some b \<Rightarrow> b),
        ps_LastActiveAt = pr_LastPresentAt p\<rparr>)"

fun all_records :: "(carry_error + 'a) list \<Rightarrow> carry_error + 'a list" where
  "all_records [] = Inr []"
| "all_records (Inl e # rs) = Inl e"
| "all_records (Inr r # rs) = (case all_records rs of Inl e \<Rightarrow> Inl e | Inr records \<Rightarrow> Inr (r # records))"

definition listInventoryAgents :: "uuid list \<Rightarrow> (db, inventory_record list) tx" where
  "listInventoryAgents machineIDs =
     (if machineIDs = [] then ret []
      else bind_tx (query (\<lambda>E now d. all_records (map (inventoryAgent E) (sql_ListInventoryAgents machineIDs d)))) lift)"

end
