(* ===== verification/Agent_Names.thy ===== *)
theory Agent_Names
  imports Agent_Rules Agent_Store
begin

text \<open>
  The allocation of Agent names: the loop returns the first free name of the family, and it
  always ends.
\<close>

section \<open>Names of a family\<close>

definition printable :: "string \<Rightarrow> bool" where
  "printable s \<longleftrightarrow> plain_text s \<and> list_all (\<lambda>c. 32 \<le> code c \<and> code c < 127) s"

lemma itoa_digits: "list_all (\<lambda>c. 48 \<le> code c \<and> code c < 58) (itoa n) \<and> itoa n \<noteq> []"
proof (induction n rule: itoa.induct)
  case (1 n)
  have "n mod 10 < 10" by simp
  with 1 show ?case by (subst (1 2) itoa.simps) auto
qed

lemma itoa_length: "n < 10 ^ k \<Longrightarrow> 0 < k \<Longrightarrow> length (itoa n) \<le> k"
proof (induction k arbitrary: n)
  case (Suc k)
  show ?case
  proof (cases "n < 10")
    case False
    then have "0 < k" using Suc.prems by (cases k) auto
    then have "length (itoa (n div 10)) \<le> k" using Suc.prems by (intro Suc.IH) auto
    with False show ?thesis by (simp add: itoa.simps [of n])
  qed (simp add: itoa.simps [of n])
qed simp

lemma itoa_inj: "itoa m = itoa n \<Longrightarrow> m = n"
proof (induction m arbitrary: n rule: itoa.induct)
  case (1 m)
  have l: "n mod 10 < 10" "m mod 10 < 10" by simp_all
  have one: "itoa k \<noteq> []" for k using itoa_digits by blast
  show ?case
  proof (cases "m < 10")
    case True
    with 1(2) one [of "n div 10"] have "n < 10" by (auto simp: itoa.simps [of m] itoa.simps [of n] split: if_split_asm)
    with 1(2) True show ?thesis by (auto simp: itoa.simps [of m] itoa.simps [of n] dest!: arg_cong [where f = code])
  next
    case False
    with 1(2) one [of "m div 10"] have "\<not> n < 10" by (auto simp: itoa.simps [of m] itoa.simps [of n] split: if_split_asm)
    with 1(2) False have "itoa (m div 10) = itoa (n div 10)" "char_of (48 + m mod 10) = (char_of (48 + n mod 10) :: char)"
      by (auto simp: itoa.simps [of m] itoa.simps [of n])
    moreover from this(2) l have "m mod 10 = n mod 10" by (auto dest!: arg_cong [where f = code])
    ultimately show ?thesis using 1(1) [OF False] by (metis div_mult_mod_eq)
  qed
qed

lemma printable_ordinal_name:
  assumes "printable base"
  shows "printable (ordinal_name base k)"
proof (cases "k > 1")
  case True
  let ?d = "itoa (nat k)"
  have d: "list_all (\<lambda>c. 48 \<le> code c \<and> code c < 58) ?d" "?d \<noteq> []" using itoa_digits by blast+
  have "48 \<le> code (last ?d) \<and> code (last ?d) < 58" using d by (simp add: list_all_iff)
  then have "\<not> is_space (code (last ?d))" unfolding is_space_def by linarith
  moreover have "list_all (\<lambda>c. 32 \<le> code c \<and> code c < 127) ?d"
    by (rule list.pred_mono_strong [OF d(1)]) auto
  moreover have "list_all (\<lambda>c. 32 \<le> code c \<and> code c < 127) ('' '' @ ?d)" using calculation(2) by simp
  moreover have "list_all (\<lambda>c. 0 < code c \<and> code c < 128) ('' '' @ ?d)"
    by (rule list.pred_mono_strong [OF calculation(3)]) auto
  ultimately show ?thesis using assms d(2) True
    by (simp add: printable_def plain_text_def ordinal_name_def del: append_Cons)
qed (use assms in \<open>simp add: ordinal_name_def\<close>)

lemma printable_name: "printable s \<Longrightarrow> length s \<le> n \<Longrightarrow> validName s n"
  unfolding printable_def validName_def
  using plain_text_valid plain_text_trim plain_text_not_empty
  by (auto simp: runes_ascii plain_text_def list_all_iff is_control_def)

lemma ordinal_name_length:
  assumes "length base \<le> 96" "k < 2 ^ 63"
  shows "length (ordinal_name base k) \<le> 128"
proof -
  have "(2::int) ^ 63 < 10 ^ 19" by simp
  with assms(2) have "nat k < 10 ^ 19" by (auto simp: nat_less_iff)
  then have "length (itoa (nat k)) \<le> 19" by (rule itoa_length) simp
  with assms(1) show ?thesis by (simp add: ordinal_name_def)
qed

lemma ordinal_name_inj: "0 < j \<Longrightarrow> 0 < k \<Longrightarrow> ordinal_name base j = ordinal_name base k \<Longrightarrow> j = k"
  by (auto simp: ordinal_name_def split: if_split_asm dest: itoa_inj)

lemma NameForOrdinal_Inr:
  "NameForOrdinal folded base k = Inr (name, key) \<longleftrightarrow>
     validNameBase base \<and> 0 < k \<and> validName (ordinal_name base k) 128 \<and> name = ordinal_name base k
     \<and> key = folded name \<and> key \<noteq> []"
  by (auto simp: NameForOrdinal_def NormalizeName_def MaxNameBytes_def split: sum.splits if_splits)

lemma NameForOrdinal_printable:
  assumes "printable base" "length base \<le> 96" "0 < k" "k < 2 ^ 63" "folded (ordinal_name base k) \<noteq> []"
  shows "NameForOrdinal folded base k = Inr (ordinal_name base k, folded (ordinal_name base k))"
  unfolding NameForOrdinal_Inr
  using assms printable_name [OF assms(1)] printable_name [OF printable_ordinal_name [OF assms(1)]] ordinal_name_length
  by (simp add: validNameBase_def MaxNameBaseBytes_def)

section \<open>The loop\<close>

definition name_taken :: "(string \<Rightarrow> string) \<Rightarrow> uuid \<Rightarrow> string \<Rightarrow> db \<Rightarrow> int \<Rightarrow> bool" where
  "name_taken folded spaceID base d k \<longleftrightarrow> sql_AgentNameExists spaceID (folded (ordinal_name base k)) d"

lemma allocateAgentName_Inr:
  assumes "allocateAgentName folded spaceID base k E d n = Inr ((name, key), d', n')" "0 < k"
  shows "d' = d \<and> (\<exists>j \<ge> k. NameForOrdinal folded base j = Inr (name, key) \<and> \<not> name_taken folded spaceID base d j
    \<and> (\<forall>i. k \<le> i \<and> i < j \<longrightarrow> name_taken folded spaceID base d i))"
  using assms
proof (induction folded spaceID base k E d n rule: allocateAgentName.induct)
  case (1 folded spaceID base k E d n)
  from "1.prems"(1) obtain r where r: "NameForOrdinal folded base k = Inr r"
    by (subst (asm) allocateAgentName.simps) (auto split: sum.split_asm)
  obtain nm ky where nk: "r = (nm, ky)" by (cases r)
  have key: "nm = ordinal_name base k" "ky = folded nm" using r [unfolded nk NameForOrdinal_Inr] by blast+
  have q: "\<not> fault E n" using "1.prems"(1) r nk
    by (subst (asm) allocateAgentName.simps) (auto simp: query_def split: if_split_asm)
  let ?found = "sql_AgentNameExists spaceID ky d"
  have run: "query (\<lambda>E now. sql_AgentNameExists spaceID ky) E d n = Inr (?found, d, Suc n)" using q by (simp add: query_def)
  show ?case
  proof (cases ?found)
    case False
    with "1.prems"(1) r nk run have "(name, key) = (nm, ky)" "d' = d"
      by (subst (asm) allocateAgentName.simps, simp)+
    moreover have "\<not> name_taken folded spaceID base d k" using False key by (simp add: name_taken_def)
    ultimately show ?thesis using r nk by (intro conjI exI [of _ k]) auto
  next
    case True
    with "1.prems"(1) r nk run have k: "k < 2 ^ 63"
      and rec: "allocateAgentName folded spaceID base (next_ordinal k) E d (Suc n) = Inr ((name, key), d', n')"
      by (subst (asm) allocateAgentName.simps, simp split: if_split_asm)+
    have "k \<noteq> 2 ^ 63 - 1"
    proof
      assume "k = 2 ^ 63 - 1"
      with rec have "allocateAgentName folded spaceID base (- (2 ^ 63)) E d (Suc n) = Inr ((name, key), d', n')"
        by (simp add: next_ordinal_def)
      then show False by (subst (asm) allocateAgentName.simps) (simp add: NameForOrdinal_def)
    qed
    then have next_k: "next_ordinal k = k + 1" by (simp add: next_ordinal_def)
    have "d' = d \<and> (\<exists>j \<ge> k + 1. NameForOrdinal folded base j = Inr (name, key) \<and> \<not> name_taken folded spaceID base d j
      \<and> (\<forall>i. k + 1 \<le> i \<and> i < j \<longrightarrow> name_taken folded spaceID base d i))"
      using "1.IH" [OF r nk [symmetric] run refl refl _ k rec] True "1.prems"(2) unfolding next_k by simp
    moreover have "name_taken folded spaceID base d k" using True key by (simp add: name_taken_def)
    ultimately show ?thesis
    proof (elim conjE exE)
      fix j assume j: "d' = d" "k + 1 \<le> j" "NameForOrdinal folded base j = Inr (name, key)"
        "\<not> name_taken folded spaceID base d j" "\<forall>i. k + 1 \<le> i \<and> i < j \<longrightarrow> name_taken folded spaceID base d i"
        and t: "name_taken folded spaceID base d k"
      have "\<forall>i. k \<le> i \<and> i < j \<longrightarrow> name_taken folded spaceID base d i"
      proof (intro allI impI)
        fix i assume "k \<le> i \<and> i < j"
        then show "name_taken folded spaceID base d i" using j(5) t by (cases "i = k") auto
      qed
      with j show ?thesis by (intro conjI exI [of _ j]) auto
    qed
  qed
qed

lemma allocateAgentName_finds:
  assumes "\<And>i. k \<le> i \<Longrightarrow> i \<le> j \<Longrightarrow> NameForOrdinal folded base i = Inr (ordinal_name base i, folded (ordinal_name base i))"
    and "\<forall>i. k \<le> i \<and> i < j \<longrightarrow> name_taken folded spaceID base d i" "\<not> name_taken folded spaceID base d j"
    and "k \<le> j" "j < 2 ^ 63 - 1" "healthy E"
  shows "allocateAgentName folded spaceID base k E d n
    = Inr ((ordinal_name base j, folded (ordinal_name base j)), d, n + nat (j - k + 1))"
  using assms
proof (induction "nat (j - k)" arbitrary: k n)
  case 0
  then have "k = j" by simp
  with "0.prems" show ?case
    by (subst allocateAgentName.simps) (simp add: query_def name_taken_def)
next
  case (Suc x)
  then have k: "k < j" by linarith
  have "allocateAgentName folded spaceID base (k + 1) E d (Suc n)
      = Inr ((ordinal_name base j, folded (ordinal_name base j)), d, Suc n + nat (j - (k + 1) + 1))"
    by (rule Suc.hyps(1)) (use Suc.hyps(2) Suc.prems k in auto)
  moreover have "name_taken folded spaceID base d k" using Suc.prems(2) k by blast
  moreover have "Suc n + nat (j - (k + 1) + 1) = n + nat (j - k + 1)" using k by simp
  moreover have "next_ordinal k = k + 1" using k Suc.prems(5) by (simp add: next_ordinal_def)
  ultimately show ?case using Suc.prems k
    by (subst allocateAgentName.simps) (simp add: query_def name_taken_def)
qed

lemma free_ordinal:
  assumes "\<And>i j. 0 < i \<Longrightarrow> 0 < j \<Longrightarrow> folded (ordinal_name base i) = folded (ordinal_name base j) \<Longrightarrow> i = j"
  shows "\<exists>j. 0 < j \<and> j \<le> 1 + int (length (filter (\<lambda>a. ag_SpaceID a = spaceID) (agents d)))
    \<and> \<not> name_taken folded spaceID base d j \<and> (\<forall>i. 0 < i \<and> i < j \<longrightarrow> name_taken folded spaceID base d i)"
proof -
  let ?L = "filter (\<lambda>a. ag_SpaceID a = spaceID) (agents d)"
  let ?taken = "\<lambda>i::nat. name_taken folded spaceID base d (int i + 1)"
  have "\<exists>i \<le> length ?L. \<not> ?taken i"
  proof (rule ccontr)
    assume "\<not> (\<exists>i \<le> length ?L. \<not> ?taken i)"
    then have all: "?taken i" if "i \<le> length ?L" for i using that by blast
    have "(\<lambda>i. folded (ordinal_name base (int i + 1))) ` {..length ?L} \<subseteq> ag_NameKey ` set ?L"
    proof (intro image_subsetI)
      fix i assume "i \<in> {..length ?L}"
      with all have "?taken i" by simp
      then obtain a where "a \<in> set (agents d)" "ag_SpaceID a = spaceID" "ag_NameKey a = folded (ordinal_name base (int i + 1))"
        by (auto simp: name_taken_def sql_AgentNameExists_def exists_where_iff)
      then have "a \<in> set ?L" by simp
      with \<open>ag_NameKey a = _\<close> show "folded (ordinal_name base (int i + 1)) \<in> ag_NameKey ` set ?L" by (metis image_eqI)
    qed
    then have "card ((\<lambda>i. folded (ordinal_name base (int i + 1))) ` {..length ?L}) \<le> card (ag_NameKey ` set ?L)"
      by (rule card_mono [rotated]) simp
    moreover have "inj_on (\<lambda>i. folded (ordinal_name base (int i + 1))) {..length ?L}"
    proof (rule inj_onI)
      fix i j :: nat assume "folded (ordinal_name base (int i + 1)) = folded (ordinal_name base (int j + 1))"
      from assms [OF _ _ this] show "i = j" by simp
    qed
    then have "card ((\<lambda>i. folded (ordinal_name base (int i + 1))) ` {..length ?L}) = Suc (length ?L)"
      by (simp add: card_image)
    moreover have "card (ag_NameKey ` set ?L) \<le> length ?L"
      using card_image_le [of "set ?L" ag_NameKey] card_length [of ?L] by simp
    ultimately show False by simp
  qed
  then obtain i where i: "i \<le> length ?L" "\<not> ?taken i" by blast
  define j where "j = (LEAST i. \<not> ?taken i)"
  have j: "\<not> ?taken j" unfolding j_def using i(2) by (rule LeastI)
  have "j \<le> i" unfolding j_def using i(2) by (rule Least_le)
  moreover have "name_taken folded spaceID base d l" if "0 < l" "l < int j + 1" for l
  proof -
    have "nat (l - 1) < j" using that by linarith
    then have "?taken (nat (l - 1))" unfolding j_def by (blast dest: not_less_Least)
    moreover have "int (nat (l - 1)) + 1 = l" using that by simp
    ultimately show ?thesis by simp
  qed
  ultimately show ?thesis using i(1) j by (intro exI [of _ "int j + 1"]) auto
qed

text \<open>
  C17 (termination). Naming a new Agent always ends. On a healthy connection and for a family name
  of printable ASCII, as Pi and Codex are, the loop needs at most one statement per Agent the
  Space ever had plus one, and returns the first name of the family, Pi, Pi 2, Pi 3 and so on,
  that nobody in the Space has had, removed Agents included. Of NFKC case folding only this is
  used: it keeps the numbered names apart and not empty.
\<close>

theorem agent_naming_ends_with_the_first_free_name:
  assumes "printable base" "length base \<le> 96" "healthy E" "int (length (agents d)) < 2 ^ 62"
    and "\<And>i j. 0 < i \<Longrightarrow> 0 < j \<Longrightarrow> folded (ordinal_name base i) = folded (ordinal_name base j) \<Longrightarrow> i = j"
    and "\<And>i. folded (ordinal_name base i) \<noteq> []"
  shows "\<exists>j. 0 < j \<and> j \<le> 1 + int (length (filter (\<lambda>a. ag_SpaceID a = spaceID) (agents d)))
    \<and> allocateAgentName folded spaceID base 1 E d n
        = Inr ((ordinal_name base j, folded (ordinal_name base j)), d, n + nat j)
    \<and> \<not> sql_AgentNameExists spaceID (folded (ordinal_name base j)) d
    \<and> (\<forall>i. 0 < i \<and> i < j \<longrightarrow> sql_AgentNameExists spaceID (folded (ordinal_name base i)) d)"
proof -
  from free_ordinal [where folded = folded and base = base, OF assms(5)] obtain j where
    j: "0 < j" "j \<le> 1 + int (length (filter (\<lambda>a. ag_SpaceID a = spaceID) (agents d)))"
      "\<not> name_taken folded spaceID base d j" "\<forall>i. 0 < i \<and> i < j \<longrightarrow> name_taken folded spaceID base d i" by blast
  have "int (length (filter (\<lambda>a. ag_SpaceID a = spaceID) (agents d))) \<le> int (length (agents d))"
    "(2::int) ^ 62 < 2 ^ 63 - 2" by simp_all
  with j(2) assms(4) have small: "j < 2 ^ 63 - 1" by linarith
  have "allocateAgentName folded spaceID base 1 E d n
      = Inr ((ordinal_name base j, folded (ordinal_name base j)), d, n + nat (j - 1 + 1))"
  proof (rule allocateAgentName_finds [OF _ _ j(3) _ small assms(3)])
    fix i assume "1 \<le> i" "i \<le> j"
    then show "NameForOrdinal folded base i = Inr (ordinal_name base i, folded (ordinal_name base i))"
      using small assms(6) by (intro NameForOrdinal_printable [OF assms(1,2)]) auto
  qed (use j in auto)
  with j show ?thesis unfolding name_taken_def by (intro exI [of _ j]) simp
qed

end
