(* ===== verification/Agent_State.thy ===== *)
theory Agent_State
  imports Agent_Names Carry_Tx
begin

text \<open>
  The invariant of Agents and their presence, and what an accepted report does to the tables:
  it appends the identities it allocates, replaces the presence of the Machine's active Agents
  and touches one Machine row. Every operation on Agents keeps the invariant.
\<close>

section \<open>The invariant\<close>

definition presence_ok :: "agent_row list \<Rightarrow> presence_row \<Rightarrow> bool" where
  "presence_ok as p \<longleftrightarrow> (\<exists>a \<in> set as. ag_AgentID a = pr_AgentID p)
     \<and> (pr_Present p \<longrightarrow> pr_LastPresentAt p \<noteq> None
          \<and> (\<forall>a \<in> set as. ag_AgentID a = pr_AgentID p \<longrightarrow> ag_RemovedAt a = None))"

definition machine_report_ok :: "machine_row \<Rightarrow> bool" where
  "machine_report_ok m \<longleftrightarrow> 0 \<le> m_AgentReportRevision m
     \<and> (m_AgentReportRevision m = 0 \<longleftrightarrow> m_LastAgentReportID m = None)
     \<and> (m_LastAgentReportID m = None \<longleftrightarrow> m_AgentReportedAt m = None)
     \<and> (m_LastAgentReportID m = None \<longleftrightarrow> m_LastAgentReportDigest m = None)"

definition agents_ok :: "db \<Rightarrow> bool" where
  "agents_ok d \<longleftrightarrow> unique_on ag_AgentID (\<lambda>_. True) (agents d) \<and> unique_on agent_slot (\<lambda>_. True) (agents d)
     \<and> unique_on agent_name_key (\<lambda>_. True) (agents d) \<and> unique_on pr_AgentID (\<lambda>_. True) (agent_presence d)
     \<and> (\<forall>p \<in> set (agent_presence d). presence_ok (agents d) p)
     \<and> (\<forall>a \<in> set (agents d). \<exists>p \<in> set (agent_presence d). pr_AgentID p = ag_AgentID a)
     \<and> (\<forall>a \<in> set (agents d). \<exists>m \<in> set (machines d). m_MachineID m = ag_MachineID a \<and> m_SpaceID m = ag_SpaceID a
          \<and> m_EnrolledByUserID m = ag_OwnerUserID a)
     \<and> unique_on m_MachineID (\<lambda>_. True) (machines d) \<and> (\<forall>m \<in> set (machines d). machine_report_ok m)"

section \<open>Allocating the missing Agents\<close>

definition absent :: "agent_row \<Rightarrow> presence_row" where
  "absent a = \<lparr>pr_AgentID = ag_AgentID a, pr_Present = False, pr_LastPresentAt = None\<rparr>"

text \<open>What the loop did: the new rows, and where each binding is found afterwards.\<close>

definition allocated :: "machine_row \<Rightarrow> bool \<Rightarrow> recognized list \<Rightarrow> (string \<times> string \<Rightarrow> agent_row option)
    \<Rightarrow> (string \<times> string \<Rightarrow> agent_row option) \<Rightarrow> string list \<Rightarrow> agent_row list \<Rightarrow> bool" where
  "allocated m active obs b b' missing new \<longleftrightarrow>
     (\<forall>k a. b k = Some a \<longrightarrow> b' k = Some a)
     \<and> (\<forall>k a. b' k = Some a \<longrightarrow> b k = Some a \<or> (a \<in> set new \<and> agent_binding a = k))
     \<and> (\<forall>a \<in> set new. active \<and> ag_RemovedAt a = None \<and> ag_MachineID a = m_MachineID m \<and> ag_SpaceID a = m_SpaceID m
          \<and> ag_OwnerUserID a = m_EnrolledByUserID m \<and> b' (agent_binding a) = Some a \<and> b (agent_binding a) = None
          \<and> agent_binding a \<in> recognized_binding ` set obs)
     \<and> (\<forall>ob \<in> set obs. b' (recognized_binding ob) = None \<longrightarrow> \<not> active \<and> rg_AdapterKey ob \<in> set missing)
     \<and> (\<forall>key \<in> set missing. \<not> active \<and> (\<exists>ob \<in> set obs. rg_AdapterKey ob = key \<and> b (recognized_binding ob) = None))"

lemma allocated_found:
  "allocated m active obs b b' missing new \<Longrightarrow> b (recognized_binding ob) = Some a \<Longrightarrow>
    allocated m active (ob # obs) b b' missing new"
  unfolding allocated_def list.set image_insert ball_simps bex_simps
  by (elim conjE, intro conjI) (blast, blast, blast, metis option.distinct(1), blast, blast)

lemma allocated_refused:
  "allocated m active obs b b' missing new \<Longrightarrow> b (recognized_binding ob) = None \<Longrightarrow> \<not> active \<Longrightarrow>
    allocated m active (ob # obs) b b' (rg_AdapterKey ob # missing) new"
  unfolding allocated_def list.set image_insert ball_simps bex_simps
  by (elim conjE, intro conjI) blast+

lemma allocated_inserted:
  assumes "allocated m active obs (b(recognized_binding ob \<mapsto> a)) b' missing new" "b (recognized_binding ob) = None" "active"
    and "agent_binding a = recognized_binding ob" "ag_RemovedAt a = None" "ag_MachineID a = m_MachineID m"
      "ag_SpaceID a = m_SpaceID m" "ag_OwnerUserID a = m_EnrolledByUserID m"
  shows "allocated m active (ob # obs) b b' missing (a # new)"
proof -
  let ?k = "recognized_binding ob"
  let ?b = "b(?k \<mapsto> a)"
  note A = assms(1) [unfolded allocated_def]
  have up: "\<forall>k x. ?b k = Some x \<longrightarrow> b' k = Some x" by (rule A [THEN conjunct1])
  have down: "\<forall>k x. b' k = Some x \<longrightarrow> ?b k = Some x \<or> (x \<in> set new \<and> agent_binding x = k)" by (rule A [THEN conjunct2, THEN conjunct1])
  have row: "\<forall>x \<in> set new. active \<and> ag_RemovedAt x = None \<and> ag_MachineID x = m_MachineID m \<and> ag_SpaceID x = m_SpaceID m
          \<and> ag_OwnerUserID x = m_EnrolledByUserID m \<and> b' (agent_binding x) = Some x \<and> ?b (agent_binding x) = None
          \<and> agent_binding x \<in> recognized_binding ` set obs"
    by (rule A [THEN conjunct2, THEN conjunct2, THEN conjunct1])
  have none: "\<forall>x \<in> set obs. b' (recognized_binding x) = None \<longrightarrow> \<not> active \<and> rg_AdapterKey x \<in> set missing"
    by (rule A [THEN conjunct2, THEN conjunct2, THEN conjunct2, THEN conjunct1])
  have keys: "key \<notin> set missing" for key
    using A [THEN conjunct2, THEN conjunct2, THEN conjunct2, THEN conjunct2] assms(3) by blast
  have found: "b' ?k = Some a" using up [rule_format, of ?k a] by simp
  have c1: "\<forall>k x. b k = Some x \<longrightarrow> b' k = Some x"
  proof (intro allI impI)
    fix k x assume "b k = Some x"
    then have "?b k = Some x" using assms(2) by (cases "k = ?k") simp_all
    then show "b' k = Some x" by (rule up [rule_format])
  qed
  have c2: "\<forall>k x. b' k = Some x \<longrightarrow> b k = Some x \<or> (x \<in> set (a # new) \<and> agent_binding x = k)"
  proof (intro allI impI)
    fix k x assume "b' k = Some x"
    from down [rule_format, OF this] show "b k = Some x \<or> (x \<in> set (a # new) \<and> agent_binding x = k)"
      using assms(4) by (cases "k = ?k") auto
  qed
  have old: "b (agent_binding x) = None" if "x \<in> set new" for x
    using row [rule_format, OF that] by (cases "agent_binding x = ?k") simp_all
  have c3: "\<forall>x \<in> set (a # new). active \<and> ag_RemovedAt x = None \<and> ag_MachineID x = m_MachineID m \<and> ag_SpaceID x = m_SpaceID m
          \<and> ag_OwnerUserID x = m_EnrolledByUserID m \<and> b' (agent_binding x) = Some x \<and> b (agent_binding x) = None
          \<and> agent_binding x \<in> recognized_binding ` set (ob # obs)"
    using row old found assms(2-) by simp
  have c4: "\<forall>x \<in> set (ob # obs). b' (recognized_binding x) = None \<longrightarrow> \<not> active \<and> rg_AdapterKey x \<in> set missing"
    using none found by simp
  show ?thesis unfolding allocated_def using c1 c2 c3 c4 keys by blast
qed

lemma sql_InsertAgent_Inr:
  "sql_InsertAgent a d = Inr (r, d') \<longleftrightarrow> r = a \<and> d' = d\<lparr>agents := agents d @ [a]\<rparr> \<and> ag_NameKey a \<noteq> []
     \<and> length (ag_NameKey a) \<le> 128 \<and> \<not> key_taken ag_AgentID (\<lambda>_. True) (ag_AgentID a) (agents d)
     \<and> \<not> key_taken agent_slot (\<lambda>_. True) (agent_slot a) (agents d)
     \<and> \<not> key_taken agent_name_key (\<lambda>_. True) (agent_name_key a) (agents d)
     \<and> exists_where (\<lambda>m. m_MachineID m = ag_MachineID a \<and> m_SpaceID m = ag_SpaceID a) (machines d)
     \<and> exists_where (\<lambda>m. mb_SpaceID m = ag_SpaceID a \<and> mb_UserID m = ag_OwnerUserID a) (memberships d)"
  by (auto simp: sql_InsertAgent_def)

lemma sql_InsertAgentPresence_Inr:
  "sql_InsertAgentPresence i d = Inr (r, d') \<longleftrightarrow>
     d' = d\<lparr>agent_presence := agent_presence d @ [\<lparr>pr_AgentID = i, pr_Present = False, pr_LastPresentAt = None\<rparr>]\<rparr>
     \<and> \<not> key_taken pr_AgentID (\<lambda>_. True) i (agent_presence d) \<and> exists_where (\<lambda>a. ag_AgentID a = i) (agents d)"
  by (auto simp: sql_InsertAgentPresence_def)

lemma agents_ok_insert:
  assumes "agents_ok d" "m \<in> set (machines d)" "a = new_agent E i m ob name key"
    and "\<not> key_taken ag_AgentID (\<lambda>_. True) i (agents d)" "\<not> key_taken agent_slot (\<lambda>_. True) (agent_slot a) (agents d)"
      "\<not> key_taken agent_name_key (\<lambda>_. True) (agent_name_key a) (agents d)"
      "\<not> key_taken pr_AgentID (\<lambda>_. True) i (agent_presence d)"
  shows "agents_ok (d\<lparr>agents := agents d @ [a], agent_presence := agent_presence d @ [absent a]\<rparr>)"
proof -
  have i: "ag_AgentID a = i" "ag_RemovedAt a = None" by (simp_all add: assms(3) new_agent_def)
  have "presence_ok (agents d @ [a]) p" if "p \<in> set (agent_presence d)" for p
    using assms(1) that i by (auto simp: agents_ok_def presence_ok_def)
  moreover have "presence_ok (agents d @ [a]) (absent a)" by (simp add: presence_ok_def absent_def)
  moreover have "m_MachineID m = ag_MachineID a \<and> m_SpaceID m = ag_SpaceID a \<and> m_EnrolledByUserID m = ag_OwnerUserID a"
    by (simp add: assms(3) new_agent_def)
  ultimately show ?thesis
    using assms(1,2,4-7) i unfolding agents_ok_def
    by (auto simp: unique_on_append1 absent_def)
qed

lemma allocate_missing_effect:
  assumes "allocate_missing folded m active k obs b E d n = Inr ((b', missing), d', n')"
    and "agents_ok d" "m \<in> set (machines d)"
  shows "\<exists>new. allocated m active obs b b' missing new \<and> agents_ok d'
    \<and> d' = d\<lparr>agents := agents d @ new, agent_presence := agent_presence d @ map absent new\<rparr>"
  using assms
proof (induction obs arbitrary: k b b' missing d n)
  case Nil
  then show ?case by (intro exI [of _ "[]"]) (auto simp: tx_simps allocated_def)
next
  case (Cons ob obs)
  show ?case
  proof (cases "b (recognized_binding ob)")
    case (Some a)
    with Cons.prems(1) have "allocate_missing folded m active k obs b E d n = Inr ((b', missing), d', n')" by simp
    from Cons.IH [OF this Cons.prems(2,3)] obtain new where "allocated m active obs b b' missing new" and
      new: "agents_ok d'" "d' = d\<lparr>agents := agents d @ new, agent_presence := agent_presence d @ map absent new\<rparr>" by blast
    from allocated_found [of m active obs b b' missing new, OF this(1) Some] new show ?thesis by blast
  next
    case None
    show ?thesis
    proof (cases active)
      case False
      with Cons.prems(1) None obtain missing' where
        rec: "allocate_missing folded m active k obs b E d n = Inr ((b', missing'), d', n')" "missing = rg_AdapterKey ob # missing'"
        by (auto simp: tx_simps)
      from Cons.IH [OF rec(1) Cons.prems(2,3)] obtain new where "allocated m active obs b b' missing' new" and
        new: "agents_ok d'" "d' = d\<lparr>agents := agents d @ new, agent_presence := agent_presence d @ map absent new\<rparr>" by blast
      from allocated_refused [of m active obs b b' missing' new, OF this(1) None False] new rec(2) show ?thesis by blast
    next
      case True
      let ?rest = "\<lambda>name key. bind_tx (ask (\<lambda>E. fresh E k)) (\<lambda>agentID.
        bind_tx (insert_row (\<lambda>E now. sql_InsertAgent (new_agent E agentID m ob name key))) (\<lambda>created.
        bind_tx (insert_row (\<lambda>E now. sql_InsertAgentPresence agentID)) (\<lambda>_.
        allocate_missing folded m active (Suc k) obs (b(recognized_binding ob \<mapsto> created)))))"
      from Cons.prems(1) None True obtain name key d1 n1 where
        name: "allocateAgentName folded (m_SpaceID m) (rg_NameBase ob) 1 E d n = Inr ((name, key), d1, n1)"
        and rest: "?rest name key E d1 n1 = Inr ((b', missing), d', n')"
        by (auto simp: bind_tx_Inr known_Inr)
      have d1: "d1 = d" using allocateAgentName_Inr [OF name] by simp
      define i where "i = fresh E k"
      define a where "a = new_agent E i m ob name key"
      from rest obtain d2 n2 d3 n3 u where
        s1: "sql_InsertAgent a d = Inr (a, d2)" and s2: "sql_InsertAgentPresence i d2 = Inr (u, d3)"
        and rec0: "allocate_missing folded m active (Suc k) obs (b(recognized_binding ob \<mapsto> a)) E d3 n3 = Inr ((b', missing), d', n')"
        unfolding d1 by (auto simp: tx_simps sql_InsertAgent_Inr a_def i_def)
      have ag: "ag_AgentID a = i" by (simp add: a_def new_agent_def)
      have ins: "\<not> key_taken ag_AgentID (\<lambda>_. True) (ag_AgentID a) (agents d)"
          "\<not> key_taken agent_slot (\<lambda>_. True) (agent_slot a) (agents d)"
          "\<not> key_taken agent_name_key (\<lambda>_. True) (agent_name_key a) (agents d)"
          "\<not> key_taken pr_AgentID (\<lambda>_. True) i (agent_presence d)"
        and d3: "d3 = d\<lparr>agents := agents d @ [a], agent_presence := agent_presence d @ [absent a]\<rparr>"
        using s1 s2 unfolding sql_InsertAgent_Inr sql_InsertAgentPresence_Inr by (auto simp: absent_def ag)
      note a = a_def
      note rec = rec0 [unfolded d3]
      have ok: "agents_ok (d\<lparr>agents := agents d @ [a], agent_presence := agent_presence d @ [absent a]\<rparr>)"
        using ins a by (intro agents_ok_insert [OF Cons.prems(2,3) a(1)]) (auto simp: new_agent_def)
      have ab: "agent_binding a = recognized_binding ob" "ag_RemovedAt a = None" "ag_MachineID a = m_MachineID m"
        "ag_SpaceID a = m_SpaceID m" "ag_OwnerUserID a = m_EnrolledByUserID m"
        by (simp_all add: a(1) new_agent_def agent_binding_def recognized_binding_def)
      let ?d = "d\<lparr>agents := agents d @ [a], agent_presence := agent_presence d @ [absent a]\<rparr>"
      have "m \<in> set (machines ?d)" using Cons.prems(3) by simp
      from Cons.IH [OF rec ok this] obtain new where
        new: "allocated m active obs (b(recognized_binding ob \<mapsto> a)) b' missing new" "agents_ok d'"
        and d': "d' = ?d\<lparr>agents := agents ?d @ new, agent_presence := agent_presence ?d @ map absent new\<rparr>"
        by blast
      have "d' = d\<lparr>agents := agents d @ a # new, agent_presence := agent_presence d @ map absent (a # new)\<rparr>"
        using d' by simp
      moreover have "allocated m active (ob # obs) b b' missing (a # new)"
        by (rule allocated_inserted [OF new(1) None True ab])
      ultimately show ?thesis using new(2) by blast
    qed
  qed
qed

section \<open>Replacing the presence\<close>

lemma first_where_updated:
  "first_where P t = Some r \<Longrightarrow> (\<And>r. P r \<Longrightarrow> P (f r)) \<Longrightarrow> first_where P (update_where P f t) = Some (f r)"
  by (induction t) (auto split: if_split_asm)

definition set_presence :: "env \<Rightarrow> (uuid \<Rightarrow> bool) \<Rightarrow> presence_row list \<Rightarrow> presence_row list" where
  "set_presence E P = update_where (\<lambda>p. P (pr_AgentID p)) (\<lambda>p. p\<lparr>pr_Present := True, pr_LastPresentAt := Some (tx_time E)\<rparr>)"

text \<open>The Agents a report sets present.\<close>

definition reported_present :: "(string \<times> string \<Rightarrow> agent_row option) \<Rightarrow> recognized list \<Rightarrow> uuid \<Rightarrow> bool" where
  "reported_present b obs i \<longleftrightarrow> (\<exists>ob \<in> set obs. rg_Present ob
     \<and> (\<exists>a. b (recognized_binding ob) = Some a \<and> ag_RemovedAt a = None \<and> ag_AgentID a = i))"

lemma set_presence_set_presence: "set_presence E P (set_presence E Q t) = set_presence E (\<lambda>i. P i \<or> Q i) t"
  by (auto simp: set_presence_def update_where_def)

lemma set_presence_none: "set_presence E (\<lambda>_. False) t = t"
  by (simp add: set_presence_def update_where_none)

lemma set_reported_present_effect:
  assumes "set_reported_present b obs E d n = Inr (u, d', n')"
    and "\<forall>k a. b k = Some a \<longrightarrow> a \<in> set (agents d)"
  shows "d' = d\<lparr>agent_presence := set_presence E (reported_present b obs) (agent_presence d)\<rparr>"
  using assms
proof (induction obs arbitrary: d n)
  case Nil
  then show ?case by (simp add: tx_simps reported_present_def set_presence_none)
next
  case (Cons ob obs)
  show ?case
  proof (cases "rg_Present ob \<and> (\<exists>a. b (recognized_binding ob) = Some a \<and> ag_RemovedAt a = None)")
    case False
    with Cons.prems(1) obtain n1 where "set_reported_present b obs E d n1 = Inr (u, d', n')"
      by (auto simp: tx_simps split: option.split_asm if_split_asm)
    moreover have "reported_present b (ob # obs) = reported_present b obs"
      using False by (auto simp: reported_present_def fun_eq_iff)
    ultimately show ?thesis using Cons.IH [OF _ Cons.prems(2)] by simp
  next
    case True
    then obtain a where a: "rg_Present ob" "b (recognized_binding ob) = Some a" "ag_RemovedAt a = None" by blast
    let ?d = "d\<lparr>agent_presence := set_presence E (\<lambda>i. i = ag_AgentID a) (agent_presence d)\<rparr>"
    have "a \<in> set (agents d)" using Cons.prems(2) a(2) by blast
    then have "active_agent (\<lambda>_. True) d (ag_AgentID a)"
      using a(3) by (auto simp: active_agent_def exists_where_iff)
    then have "snd (sql_SetActiveAgentPresent E (ag_AgentID a) d) = ?d"
      by (simp add: sql_SetActiveAgentPresent_def Let_def set_presence_def)
    moreover from Cons.prems(1) a obtain n1 d1 where d1: "d1 = snd (sql_SetActiveAgentPresent E (ag_AgentID a) d)"
      and rec: "set_reported_present b obs E d1 n1 = Inr (u, d', n')"
      by (auto simp: tx_simps)
    ultimately have d1': "d1 = ?d" by simp
    have "d' = ?d\<lparr>agent_presence := set_presence E (reported_present b obs) (agent_presence ?d)\<rparr>"
      by (rule Cons.IH [OF rec [unfolded d1']]) (use Cons.prems(2) in simp)
    moreover have "(\<lambda>i. reported_present b obs i \<or> i = ag_AgentID a) = reported_present b (ob # obs)"
      using a by (auto simp: reported_present_def fun_eq_iff)
    ultimately show ?thesis by (simp add: set_presence_set_presence)
  qed
qed

section \<open>The accepted report\<close>

definition bindings_of :: "uuid \<Rightarrow> db \<Rightarrow> string \<times> string \<Rightarrow> agent_row option" where
  "bindings_of machineID d = map_of (rev (map (\<lambda>a. (agent_binding a, a)) (sql_LockAgentsForMachine machineID d)))"

definition machine_agents :: "uuid \<Rightarrow> db \<Rightarrow> uuid \<Rightarrow> bool" where
  "machine_agents machineID = active_agent (\<lambda>a. ag_MachineID a = machineID)"

text \<open>The database after an accepted report that allocated \<open>new\<close> and finds its bindings in \<open>b\<close>.\<close>

definition after_report :: "env \<Rightarrow> report_command \<Rightarrow> agent_row list \<Rightarrow> (string \<times> string \<Rightarrow> agent_row option) \<Rightarrow> string list \<Rightarrow> db \<Rightarrow> db" where
  "after_report E command new b missing d =
     (let d1 = d\<lparr>agents := agents d @ new, agent_presence := agent_presence d @ map absent new\<rparr>;
          t = update_where (\<lambda>p. machine_agents (rt_MachineID command) d1 (pr_AgentID p)) (\<lambda>p. p\<lparr>pr_Present := False\<rparr>) (agent_presence d1)
      in d1\<lparr>agent_presence := set_presence E (reported_present b (rt_Recognized command)) t,
            machines := update_where (\<lambda>m. m_MachineID m = rt_MachineID command)
              (reported_machine E (rt_ReportID command) (rt_RequestDigest command) (rt_UnsupportedAdapterKeys command) missing) (machines d)\<rparr>)"

definition accepted_report :: "report_command \<Rightarrow> env \<Rightarrow> db \<Rightarrow> machine_row \<Rightarrow> report_result \<Rightarrow> db \<Rightarrow> bool" where
  "accepted_report command E d m res d' \<longleftrightarrow>
     m_LastAgentReportID m \<noteq> Some (rt_ReportID command) \<and> rt_BaseRevision command = m_AgentReportRevision m
     \<and> (\<exists>active new b missing. allocated m active (rt_Recognized command) (bindings_of (m_MachineID m) d) b missing new
          \<and> (new \<noteq> [] \<longrightarrow> is_member (m_SpaceID m) (m_EnrolledByUserID m) d)
          \<and> d' = after_report E command new b (sort (remdups missing)) d
          \<and> agents_ok (d\<lparr>agents := agents d @ new, agent_presence := agent_presence d @ map absent new\<rparr>)
          \<and> res = \<lparr>rr_Revision = m_AgentReportRevision m + 1, rr_UnsupportedAdapterKeys = rt_UnsupportedAdapterKeys command,
                rr_SetupRequiredAdapterKeys = sort (remdups missing)\<rparr>)"

definition replayed_report :: "report_command \<Rightarrow> db \<Rightarrow> machine_row \<Rightarrow> report_result \<Rightarrow> db \<Rightarrow> bool" where
  "replayed_report command d m res d' \<longleftrightarrow> d' = d \<and> m_LastAgentReportID m = Some (rt_ReportID command)
     \<and> m_LastAgentReportDigest m = Some (rt_RequestDigest command)
     \<and> res = \<lparr>rr_Revision = m_AgentReportRevision m, rr_UnsupportedAdapterKeys = m_LastUnsupportedKeys m,
           rr_SetupRequiredAdapterKeys = m_LastSetupRequiredKeys m\<rparr>"

lemma bindings_of_Some:
  assumes "bindings_of i d k = Some a"
  shows "a \<in> set (agents d) \<and> ag_MachineID a = i \<and> agent_binding a = k"
proof -
  have "(k, a) \<in> set (rev (map (\<lambda>a. (agent_binding a, a)) (sql_LockAgentsForMachine i d)))"
    using assms unfolding bindings_of_def by (rule map_of_SomeD)
  then show ?thesis by (auto simp: sql_LockAgentsForMachine_def)
qed

lemma bindings_of_agent:
  assumes "agents_ok d" "a \<in> set (agents d)"
  shows "bindings_of (ag_MachineID a) d (agent_binding a) = Some a"
proof -
  from assms have "\<exists>p \<in> set (agent_presence d). pr_AgentID p = ag_AgentID a" by (simp add: agents_ok_def)
  then have "presence_of (ag_AgentID a) d \<noteq> None" by (auto simp: presence_of_def first_where_None)
  then have "a \<in> set (sql_LockAgentsForMachine (ag_MachineID a) d)" using assms(2) by (simp add: sql_LockAgentsForMachine_def)
  then have "agent_binding a \<in> fst ` set (rev (map (\<lambda>a. (agent_binding a, a)) (sql_LockAgentsForMachine (ag_MachineID a) d)))"
    by force
  then have "bindings_of (ag_MachineID a) d (agent_binding a) \<noteq> None" unfolding bindings_of_def by (simp add: map_of_eq_None_iff)
  then obtain x where x: "bindings_of (ag_MachineID a) d (agent_binding a) = Some x" by blast
  from bindings_of_Some [OF x] have "x \<in> set (agents d)" "agent_slot x = agent_slot a"
    by (auto simp: agent_slot_def agent_binding_def)
  then have "x = a" using assms unique_onD [of agent_slot "\<lambda>_. True" "agents d" x a] by (simp add: agents_ok_def)
  with x show ?thesis by simp
qed

lemma allocation_authority_Inr:
  assumes "allocation_authority command E d n = Inr ((m, active), d', n')"
  shows "d' = d \<and> machine_of (rt_MachineID command) d = Some m
    \<and> (list_all (\<lambda>ob. recognized_binding ob \<in> set (sql_ListMachineAgentBindings (rt_MachineID command) d)) (rt_Recognized command)
       \<or> (active \<longrightarrow> is_member (m_SpaceID m) (m_EnrolledByUserID m) d))"
proof -
  have member: "is_member s u d" if "sql_LockAgentApproverMembership s u d = Some row" "mb_RevokedAt row = None" for s u row
    using that by (auto simp: sql_LockAgentApproverMembership_def is_member_def exists_where_iff active_membership_def
        dest!: first_where_Some)
  from assms show ?thesis
    by (auto simp: allocation_authority_def tx_simps sql_LoadAgentReportMachine_def machine_of_def
        split: if_split_asm option.split_asm dest: member)
qed

lemma ReconcileAgentPresence_tx_effect:
  assumes "ReconcileAgentPresence_tx folded command E d n = Inr (res, d', n')" "agents_ok d"
  shows "\<exists>m. machine_of (rt_MachineID command) d = Some m \<and> m_RevokedAt m = None \<and> m_CertificateSerial m = rt_CertificateSerial command
    \<and> (replayed_report command d m res d' \<or> accepted_report command E d m res d')"
proof -
  from assms(1) obtain m active d0 n0 where auth: "allocation_authority command E d n = Inr ((m, active), d0, n0)"
    and rest: "(bind_tx (known (query (\<lambda>E now. sql_LockMachineForAgentReport (rt_MachineID command)))) (\<lambda>locked.
     case locked of
       None \<Rightarrow> fail (MachineError ErrMachineUnavailable)
     | Some storedMachine \<Rightarrow>
         bind_tx (require (m_CertificateSerial storedMachine = rt_CertificateSerial command) (MachineError ErrMachineUnavailable)) (\<lambda>_.
         bind_tx (require (m_RevokedAt storedMachine = None) (MachineError ErrMachineRevoked)) (\<lambda>_.
         if m_LastAgentReportID storedMachine = Some (rt_ReportID command) then
           bind_tx (require (m_LastAgentReportDigest storedMachine = Some (rt_RequestDigest command))
              (MachineError ErrAgentReportConflict)) (\<lambda>_.
           ret \<lparr>rr_Revision = m_AgentReportRevision storedMachine, rr_UnsupportedAdapterKeys = m_LastUnsupportedKeys storedMachine,
                rr_SetupRequiredAdapterKeys = m_LastSetupRequiredKeys storedMachine\<rparr>)
         else
           bind_tx (require (rt_BaseRevision command = m_AgentReportRevision storedMachine)
              (MachineError (AgentReportStaleError (m_AgentReportRevision storedMachine)))) (\<lambda>_.
           accept_report folded command m active))))) E d0 n0 = Inr (res, d', n')"
    unfolding ReconcileAgentPresence_tx_def bind_tx_Inr by (auto simp: tx_simps)
  note a = allocation_authority_Inr [OF auth]
  then have d0: "d0 = d" and m: "machine_of (rt_MachineID command) d = Some m" by blast+
  have m': "sql_LockMachineForAgentReport (rt_MachineID command) d = Some m"
    using m by (simp add: sql_LockMachineForAgentReport_def machine_of_def)
  from rest [unfolded d0] m' have g: "m_RevokedAt m = None" "m_CertificateSerial m = rt_CertificateSerial command"
    and cases: "replayed_report command d m res d' \<or> (m_LastAgentReportID m \<noteq> Some (rt_ReportID command)
      \<and> rt_BaseRevision command = m_AgentReportRevision m \<and> (\<exists>n1. accept_report folded command m active E d n1 = Inr (res, d', n')))"
    by (auto simp: tx_simps replayed_report_def split: if_split_asm)
  show ?thesis
  proof (cases "replayed_report command d m res d'")
    case False
    with cases obtain n1 where c: "m_LastAgentReportID m \<noteq> Some (rt_ReportID command)" "rt_BaseRevision command = m_AgentReportRevision m"
      and acc: "accept_report folded command m active E d n1 = Inr (res, d', n')" by blast
    have mm: "m \<in> set (machines d)" "m_MachineID m = rt_MachineID command"
      using m by (auto simp: machine_of_def dest!: first_where_Some)
    let ?obs = "rt_Recognized command" and ?id = "rt_MachineID command"
    from acc obtain b missing d1 n2 n3 d3 n4 n5 revision u where
      alloc: "allocate_missing folded m active 0 ?obs (bindings_of ?id d) E d n2 = Inr ((b, missing), d1, n3)"
      and present: "set_reported_present b ?obs E (snd (sql_SetMachineActiveAgentsAbsent ?id d1)) n4 = Inr (u, d3, n5)"
      and upd: "sql_UpdateMachineAgentReport E (rt_ReportID command) (rt_RequestDigest command)
          (rt_UnsupportedAdapterKeys command) (sort (remdups missing)) ?id d3 = (Some revision, d')"
      and res: "res = \<lparr>rr_Revision = revision, rr_UnsupportedAdapterKeys = rt_UnsupportedAdapterKeys command,
          rr_SetupRequiredAdapterKeys = sort (remdups missing)\<rparr>"
      unfolding accept_report_def Let_def bindings_of_def by (auto simp: tx_simps)
    from allocate_missing_effect [OF alloc assms(2) mm(1)] obtain new where
      al: "allocated m active ?obs (bindings_of ?id d) b missing new" and ok1: "agents_ok d1"
      and d1: "d1 = d\<lparr>agents := agents d @ new, agent_presence := agent_presence d @ map absent new\<rparr>" by blast
    let ?d2 = "snd (sql_SetMachineActiveAgentsAbsent ?id d1)"
    have d2: "?d2 = d1\<lparr>agent_presence := update_where (\<lambda>p. machine_agents ?id d1 (pr_AgentID p))
        (\<lambda>p. p\<lparr>pr_Present := False\<rparr>) (agent_presence d1)\<rparr>"
      by (simp add: sql_SetMachineActiveAgentsAbsent_def machine_agents_def)
    have ag2: "agents ?d2 = agents d @ new" unfolding d2 by (simp add: d1)
    have known: "\<forall>k a. b k = Some a \<longrightarrow> a \<in> set (agents ?d2)"
    proof (intro allI impI)
      fix k a assume "b k = Some a"
      then have "bindings_of ?id d k = Some a \<or> (a \<in> set new \<and> agent_binding a = k)" using al unfolding allocated_def by blast
      then show "a \<in> set (agents ?d2)" unfolding ag2 using bindings_of_Some [of ?id d k a] by auto
    qed
    have d3: "d3 = ?d2\<lparr>agent_presence := set_presence E (reported_present b ?obs) (agent_presence ?d2)\<rparr>"
      by (rule set_reported_present_effect [OF present known])
    have machines: "machines d3 = machines d" unfolding d3 unfolding d2 unfolding d1 by simp
    let ?f = "reported_machine E (rt_ReportID command) (rt_RequestDigest command) (rt_UnsupportedAdapterKeys command) (sort (remdups missing))"
    have d': "d' = d3\<lparr>machines := update_where (\<lambda>m. m_MachineID m = ?id) ?f (machines d)\<rparr>"
      and rev: "map_option m_AgentReportRevision (first_where (\<lambda>m. m_MachineID m = ?id)
          (update_where (\<lambda>m. m_MachineID m = ?id) ?f (machines d))) = Some revision"
      using upd unfolding sql_UpdateMachineAgentReport_def Let_def machines by auto
    have after: "d' = after_report E command new b (sort (remdups missing)) d"
      unfolding d' d3 unfolding d2 unfolding d1 after_report_def Let_def by simp
    have "first_where (\<lambda>m. m_MachineID m = ?id) (update_where (\<lambda>m. m_MachineID m = ?id) ?f (machines d)) = Some (?f m)"
      using m unfolding machine_of_def by (intro first_where_updated) (simp_all add: reported_machine_def)
    with rev have revision: "revision = m_AgentReportRevision m + 1" by (simp add: reported_machine_def)
    have member: "is_member (m_SpaceID m) (m_EnrolledByUserID m) d" if n: "new \<noteq> []"
    proof -
      from n obtain x where x: "x \<in> set new" by (cases new) auto
      with al have active: "active" and none: "bindings_of ?id d (agent_binding x) = None"
        and "agent_binding x \<in> recognized_binding ` set ?obs" unfolding allocated_def by blast+
      then obtain ob where ob: "ob \<in> set ?obs" "recognized_binding ob = agent_binding x" by auto
      have "agent_binding x \<notin> set (sql_ListMachineAgentBindings ?id d)"
      proof
        assume "agent_binding x \<in> set (sql_ListMachineAgentBindings ?id d)"
        then obtain y where "y \<in> set (agents d)" "ag_MachineID y = ?id" "agent_binding y = agent_binding x"
          by (auto simp: sql_ListMachineAgentBindings_def)
        with bindings_of_agent [OF assms(2), of y] none show False by simp
      qed
      with ob have "\<not> list_all (\<lambda>ob. recognized_binding ob \<in> set (sql_ListMachineAgentBindings ?id d)) ?obs"
        unfolding list_all_iff by metis
      with a active show ?thesis by blast
    qed
    have "accepted_report command E d m res d'"
      unfolding accepted_report_def
      using c al [folded mm(2)] after ok1 [unfolded d1] res member unfolding revision by blast
    with m g show ?thesis by blast
  qed (use m g in blast)
qed

section \<open>What holds after a report\<close>

lemma absent_ids [simp]: "pr_AgentID (absent a) = ag_AgentID a" "\<not> pr_Present (absent a)"
  by (simp_all add: absent_def)

lemma in_set_presence:
  "p \<in> set (set_presence E P t) \<longleftrightarrow> (\<exists>q \<in> set t. p = (if P (pr_AgentID q) then q\<lparr>pr_Present := True, pr_LastPresentAt := Some (tx_time E)\<rparr> else q))"
  by (auto simp: set_presence_def update_where_def)

lemma in_set_absent:
  "p \<in> set (update_where P (\<lambda>p. p\<lparr>pr_Present := False\<rparr>) t) \<longleftrightarrow> (\<exists>q \<in> set t. p = (if P q then q\<lparr>pr_Present := False\<rparr> else q))"
  by (auto simp: update_where_def)

text \<open>The presence row of an Agent after a report, from the row before it.\<close>

definition reported_row :: "env \<Rightarrow> (uuid \<Rightarrow> bool) \<Rightarrow> (uuid \<Rightarrow> bool) \<Rightarrow> presence_row \<Rightarrow> presence_row" where
  "reported_row E mine here q = (if here (pr_AgentID q) then q\<lparr>pr_Present := True, pr_LastPresentAt := Some (tx_time E)\<rparr>
     else if mine (pr_AgentID q) then q\<lparr>pr_Present := False\<rparr> else q)"

lemma reported_row_id [simp]: "pr_AgentID (reported_row E mine here q) = pr_AgentID q"
  by (simp add: reported_row_def)

lemma presence_after_report:
  "agent_presence (after_report E command new b missing d) =
     map (reported_row E (machine_agents (rt_MachineID command) (d\<lparr>agents := agents d @ new\<rparr>)) (reported_present b (rt_Recognized command)))
       (agent_presence d @ map absent new)"
proof -
  have "machine_agents i (d\<lparr>agents := agents d @ new, agent_presence := t\<rparr>) = machine_agents i (d\<lparr>agents := agents d @ new\<rparr>)" for i t
    by (simp add: machine_agents_def active_agent_def fun_eq_iff)
  then show ?thesis
    by (auto simp: after_report_def Let_def set_presence_def update_where_def reported_row_def)
qed

lemma agents_after_report: "agents (after_report E command new b missing d) = agents d @ new"
  by (simp add: after_report_def Let_def)

lemma machines_after_report:
  "machines (after_report E command new b missing d) = update_where (\<lambda>m. m_MachineID m = rt_MachineID command)
     (reported_machine E (rt_ReportID command) (rt_RequestDigest command) (rt_UnsupportedAdapterKeys command) missing) (machines d)"
  by (simp add: after_report_def Let_def)

lemma reported_present_agent:
  assumes "allocated m active obs (bindings_of (m_MachineID m) d) b missing new" "reported_present b obs i"
  shows "\<exists>a \<in> set (agents d @ new). ag_AgentID a = i \<and> ag_RemovedAt a = None \<and> ag_MachineID a = m_MachineID m
    \<and> (\<exists>ob \<in> set obs. rg_Present ob \<and> recognized_binding ob = agent_binding a)"
proof -
  from assms(2) obtain ob a where ob: "ob \<in> set obs" "rg_Present ob" "b (recognized_binding ob) = Some a"
    "ag_RemovedAt a = None" "ag_AgentID a = i" by (auto simp: reported_present_def)
  from assms(1) ob(3) have "bindings_of (m_MachineID m) d (recognized_binding ob) = Some a \<or> (a \<in> set new \<and> agent_binding a = recognized_binding ob)"
    unfolding allocated_def by blast
  then have "a \<in> set (agents d @ new) \<and> ag_MachineID a = m_MachineID m \<and> agent_binding a = recognized_binding ob"
  proof
    assume "bindings_of (m_MachineID m) d (recognized_binding ob) = Some a"
    from bindings_of_Some [OF this] show ?thesis by simp
  next
    assume n: "a \<in> set new \<and> agent_binding a = recognized_binding ob"
    with assms(1) have "ag_MachineID a = m_MachineID m" unfolding allocated_def by blast
    with n show ?thesis by simp
  qed
  with ob show ?thesis by metis
qed

lemma agents_ok_after:
  assumes "accepted_report command E d m res d'" "agents_ok d" "machine_of (rt_MachineID command) d = Some m"
  shows "agents_ok d'"
proof -
  have id: "m_MachineID m = rt_MachineID command" using assms(3) by (auto simp: machine_of_def dest!: first_where_Some)
  from assms(1) obtain active new b missing where
    al: "allocated m active (rt_Recognized command) (bindings_of (m_MachineID m) d) b missing new"
    and d': "d' = after_report E command new b (sort (remdups missing)) d"
    and ok: "agents_ok (d\<lparr>agents := agents d @ new, agent_presence := agent_presence d @ map absent new\<rparr>)"
    unfolding accepted_report_def by blast
  let ?as = "agents d @ new" and ?ps = "agent_presence d @ map absent new"
  let ?here = "reported_present b (rt_Recognized command)"
  let ?mine = "machine_agents (rt_MachineID command) (d\<lparr>agents := ?as\<rparr>)"
  have parts: "unique_on ag_AgentID (\<lambda>_. True) ?as" "unique_on agent_slot (\<lambda>_. True) ?as" "unique_on agent_name_key (\<lambda>_. True) ?as"
    "unique_on pr_AgentID (\<lambda>_. True) ?ps" "\<forall>p \<in> set ?ps. presence_ok ?as p" "\<forall>a \<in> set ?as. \<exists>p \<in> set ?ps. pr_AgentID p = ag_AgentID a"
    "\<forall>a \<in> set ?as. \<exists>m \<in> set (machines d). m_MachineID m = ag_MachineID a \<and> m_SpaceID m = ag_SpaceID a \<and> m_EnrolledByUserID m = ag_OwnerUserID a"
    "unique_on m_MachineID (\<lambda>_. True) (machines d)" "\<forall>m \<in> set (machines d). machine_report_ok m"
    using ok unfolding agents_ok_def by simp_all
  have row: "presence_ok ?as (reported_row E ?mine ?here q)" if q: "q \<in> set ?ps" for q
  proof (cases "?here (pr_AgentID q)")
    case True
    from reported_present_agent [OF al this] obtain a where a: "a \<in> set ?as" "ag_AgentID a = pr_AgentID q" "ag_RemovedAt a = None" by blast
    have only: "\<forall>x \<in> set ?as. ag_AgentID x = pr_AgentID q \<longrightarrow> ag_RemovedAt x = None"
    proof (intro ballI impI)
      fix x assume x: "x \<in> set ?as" "ag_AgentID x = pr_AgentID q"
      have "x = a" by (rule unique_onD [OF parts(1) x(1) a(1)]) (simp_all add: x a)
      then show "ag_RemovedAt x = None" using a(3) by simp
    qed
    have "reported_row E ?mine ?here q = q\<lparr>pr_Present := True, pr_LastPresentAt := Some (tx_time E)\<rparr>"
      using True by (simp only: reported_row_def if_True)
    moreover have "\<exists>x \<in> set ?as. ag_AgentID x = pr_AgentID q" using a(1,2) by blast
    ultimately show ?thesis using only by (simp add: presence_ok_def)
  next
    case False
    have "presence_ok ?as q" using parts(5) q by blast
    moreover have "reported_row E ?mine ?here q = (if ?mine (pr_AgentID q) then q\<lparr>pr_Present := False\<rparr> else q)"
      using False by (simp only: reported_row_def if_False)
    ultimately show ?thesis by (simp add: presence_ok_def)
  qed
  let ?f = "reported_machine E (rt_ReportID command) (rt_RequestDigest command) (rt_UnsupportedAdapterKeys command) (sort (remdups missing))"
  let ?ms = "update_where (\<lambda>m. m_MachineID m = rt_MachineID command) ?f (machines d)"
  have ps: "agent_presence d' = map (reported_row E ?mine ?here) ?ps" unfolding d' by (rule presence_after_report)
  have as: "agents d' = ?as" unfolding d' by (rule agents_after_report)
  have ms: "machines d' = ?ms" unfolding d' by (rule machines_after_report)
  have "unique_on pr_AgentID (\<lambda>_. True) (agent_presence d')" unfolding ps using parts(4) by (simp add: unique_on_def comp_def)
  moreover have "\<forall>p \<in> set (agent_presence d'). presence_ok (agents d') p" unfolding ps as set_map using row by blast
  moreover have "\<forall>a \<in> set (agents d'). \<exists>p \<in> set (agent_presence d'). pr_AgentID p = ag_AgentID a"
    unfolding ps as
  proof
    fix a assume "a \<in> set ?as"
    with parts(6) obtain p where p: "p \<in> set ?ps" "pr_AgentID p = ag_AgentID a" by blast
    have "reported_row E ?mine ?here p \<in> set (map (reported_row E ?mine ?here) ?ps)"
      unfolding set_map using p(1) by (rule imageI)
    then show "\<exists>p \<in> set (map (reported_row E ?mine ?here) ?ps). pr_AgentID p = ag_AgentID a"
      by (rule bexI [rotated]) (simp add: p(2))
  qed
  moreover have "unique_on m_MachineID (\<lambda>_. True) (machines d')"
    unfolding ms by (rule unique_on_update [OF parts(8)]) (simp_all add: reported_machine_def)
  moreover have "\<forall>m \<in> set (machines d'). machine_report_ok m"
    unfolding ms using parts(9) by (auto simp: set_update_where machine_report_ok_def reported_machine_def)
  moreover have "\<forall>a \<in> set (agents d'). \<exists>m \<in> set (machines d'). m_MachineID m = ag_MachineID a \<and> m_SpaceID m = ag_SpaceID a
      \<and> m_EnrolledByUserID m = ag_OwnerUserID a"
  proof
    fix a assume "a \<in> set (agents d')"
    with parts(7) as obtain m where "m \<in> set (machines d)" "m_MachineID m = ag_MachineID a \<and> m_SpaceID m = ag_SpaceID a \<and> m_EnrolledByUserID m = ag_OwnerUserID a"
      by auto
    then show "\<exists>m \<in> set (machines d'). m_MachineID m = ag_MachineID a \<and> m_SpaceID m = ag_SpaceID a \<and> m_EnrolledByUserID m = ag_OwnerUserID a"
      unfolding ms update_where_bex by (intro bexI) (auto simp: reported_machine_def)
  qed
  ultimately show ?thesis using parts(1-3) unfolding agents_ok_def as by blast
qed

lemma ReconcileAgentPresence_keeps: "keeps agents_ok (ReconcileAgentPresence folded command)"
  unfolding keeps_def
proof (intro allI impI)
  fix E d r d' assume run: "ReconcileAgentPresence folded command E d = (r, d')" and ok: "agents_ok d"
  show "agents_ok d'"
  proof (cases "begin_fault E")
    case False
    with run have "transact (ReconcileAgentPresence_tx folded command) E d = (r, d')" by (simp add: ReconcileAgentPresence_def)
    then show ?thesis
    proof (rule transact_cases)
      fix x n assume "ReconcileAgentPresence_tx folded command E d 0 = Inr (x, d', n)"
      from ReconcileAgentPresence_tx_effect [OF this ok] agents_ok_after [OF _ ok] ok show ?thesis
        unfolding replayed_report_def by blast
    qed (simp add: ok)
  qed (use run ok in \<open>simp add: ReconcileAgentPresence_def\<close>)
qed

end
