(* ===== verification/Agent_Guarantees.thy ===== *)
theory Agent_Guarantees
  imports Agent_State Demo_World Replayed_Commands
begin

text \<open>
  What a report guarantees: it replaces the presence of exactly its own Machine's Agents, it
  never changes or reassigns an identity, a stale or forged one is refused, a repeated one is
  answered without effect, and the inventory shows an Agent online only on fresh evidence.
\<close>

section \<open>A report\<close>

lemma Reconcile_cases:
  assumes "ReconcileAgentPresence folded command E d = (y, d')" "agents_ok d"
  obtains (refused) e where "y = Inl e" "d' = d"
  | (ran) m res where "machine_of (rt_MachineID command) d = Some m" "m_RevokedAt m = None"
    "m_CertificateSerial m = rt_CertificateSerial command" "m \<in> set (machines d)" "m_MachineID m = rt_MachineID command"
    "replayed_report command d m res d' \<or> accepted_report command E d m res d'" "\<forall>r. y = Inr r \<longrightarrow> r = res"
proof (cases "\<exists>e. y = Inl e \<and> d' = d")
  case False
  with assms(1) have t: "transact (ReconcileAgentPresence_tx folded command) E d = (y, d')"
    by (auto simp: ReconcileAgentPresence_def split: if_split_asm)
  have "effective d y d'" using False by (cases y) (auto simp: effective_def)
  from transact_effective [OF t this] obtain res n where "ReconcileAgentPresence_tx folded command E d 0 = Inr (res, d', n)"
    and res: "\<forall>r. y = Inr r \<longrightarrow> r = res" by blast
  from ReconcileAgentPresence_tx_effect [OF this(1) assms(2)] obtain m where m: "machine_of (rt_MachineID command) d = Some m"
    and rest: "m_RevokedAt m = None" "m_CertificateSerial m = rt_CertificateSerial command"
      "replayed_report command d m res d' \<or> accepted_report command E d m res d'" by blast
  from m have "m \<in> set (machines d)" "m_MachineID m = rt_MachineID command" by (auto simp: machine_of_def dest!: first_where_Some)
  with m rest res ran show thesis by blast
qed (use refused in blast)

lemma accepted_reportE:
  assumes "accepted_report command E d m res d'"
  obtains active new b missing where
    "allocated m active (rt_Recognized command) (bindings_of (m_MachineID m) d) b missing new"
    "new \<noteq> [] \<longrightarrow> is_member (m_SpaceID m) (m_EnrolledByUserID m) d"
    "d' = after_report E command new b (sort (remdups missing)) d"
    "agents_ok (d\<lparr>agents := agents d @ new, agent_presence := agent_presence d @ map absent new\<rparr>)"
    "m_LastAgentReportID m \<noteq> Some (rt_ReportID command)" "rt_BaseRevision command = m_AgentReportRevision m"
    "res = \<lparr>rr_Revision = m_AgentReportRevision m + 1, rr_UnsupportedAdapterKeys = rt_UnsupportedAdapterKeys command,
        rr_SetupRequiredAdapterKeys = sort (remdups missing)\<rparr>"
  using assms unfolding accepted_report_def by blast

lemma accepted_changes:
  assumes "accepted_report command E d m res d'" "machine_of (rt_MachineID command) d = Some m"
  shows "machine_of (rt_MachineID command) d' = Some (reported_machine E (rt_ReportID command) (rt_RequestDigest command)
    (rt_UnsupportedAdapterKeys command) (rr_SetupRequiredAdapterKeys res) m)"
  using assms(1)
proof (rule accepted_reportE)
  fix new b missing assume "d' = after_report E command new b (sort (remdups missing)) d"
    "res = \<lparr>rr_Revision = m_AgentReportRevision m + 1, rr_UnsupportedAdapterKeys = rt_UnsupportedAdapterKeys command,
        rr_SetupRequiredAdapterKeys = sort (remdups missing)\<rparr>"
  then show ?thesis using assms(2) unfolding machine_of_def
    by (simp add: machines_after_report) (rule first_where_updated; simp add: reported_machine_def)
qed

text \<open>
  C16 (functional). A report replaces the presence of its own Machine and of nothing else. After a
  report that took effect the Machine, current and with the certificate it authenticated with, has
  the next revision; each of its active Agents is present exactly if the report observed it
  present, everything else about every Machine's Agents is as before, known identities keep their
  rows, and new identities belong to the Machine, its Space and its approver, who is then an
  active member.
\<close>

theorem report_replaces_own_presence:
  assumes "agents_ok d" "ReconcileAgentPresence folded command E d = (Inr res, d')" "d' \<noteq> d"
  shows "\<exists>m \<in> set (machines d). m_MachineID m = rt_MachineID command \<and> m_RevokedAt m = None
      \<and> m_CertificateSerial m = rt_CertificateSerial command
      \<and> rt_BaseRevision command = m_AgentReportRevision m \<and> rr_Revision res = rt_BaseRevision command + 1
      \<and> (\<forall>a \<in> set (agents d'). ag_MachineID a = rt_MachineID command \<longrightarrow> ag_RemovedAt a = None \<longrightarrow>
           (\<forall>p \<in> set (agent_presence d'). pr_AgentID p = ag_AgentID a \<longrightarrow>
              (pr_Present p \<longleftrightarrow> (\<exists>ob \<in> set (rt_Recognized command). recognized_binding ob = agent_binding a \<and> rg_Present ob))))
      \<and> (\<forall>p \<in> set (agent_presence d). \<not> machine_agents (rt_MachineID command) d (pr_AgentID p) \<longrightarrow> p \<in> set (agent_presence d'))
      \<and> (\<exists>new. agents d' = agents d @ new \<and> (\<forall>a \<in> set new. ag_MachineID a = m_MachineID m \<and> ag_SpaceID a = m_SpaceID m
           \<and> ag_OwnerUserID a = m_EnrolledByUserID m \<and> is_member (m_SpaceID m) (m_EnrolledByUserID m) d
           \<and> agent_binding a \<in> recognized_binding ` set (rt_Recognized command)))"
proof -
  obtain m where m: "machine_of (rt_MachineID command) d = Some m" "m_RevokedAt m = None"
    "m_CertificateSerial m = rt_CertificateSerial command" "m \<in> set (machines d)" "m_MachineID m = rt_MachineID command"
    and c: "replayed_report command d m res d' \<or> accepted_report command E d m res d'"
    using Reconcile_cases [OF assms(2,1)] by (metis sum.distinct(1) sum.inject(2))
  from c assms(3) have acc: "accepted_report command E d m res d'" by (auto simp: replayed_report_def)
  then obtain active new b missing where
    al: "allocated m active (rt_Recognized command) (bindings_of (m_MachineID m) d) b missing new"
    and mem: "new \<noteq> [] \<longrightarrow> is_member (m_SpaceID m) (m_EnrolledByUserID m) d"
    and d': "d' = after_report E command new b (sort (remdups missing)) d"
    and ok: "agents_ok (d\<lparr>agents := agents d @ new, agent_presence := agent_presence d @ map absent new\<rparr>)"
    and base0: "rt_BaseRevision command = m_AgentReportRevision m"
    and res: "res = \<lparr>rr_Revision = m_AgentReportRevision m + 1, rr_UnsupportedAdapterKeys = rt_UnsupportedAdapterKeys command,
        rr_SetupRequiredAdapterKeys = sort (remdups missing)\<rparr>"
    by (rule accepted_reportE)
  have base: "rt_BaseRevision command = m_AgentReportRevision m" "rr_Revision res = m_AgentReportRevision m + 1"
    using base0 res by simp_all
  let ?as = "agents d @ new" and ?ps = "agent_presence d @ map absent new"
  let ?here = "reported_present b (rt_Recognized command)"
  let ?mine = "machine_agents (rt_MachineID command) (d\<lparr>agents := ?as\<rparr>)"
  have u: "unique_on ag_AgentID (\<lambda>_. True) ?as" using ok by (simp add: agents_ok_def)
  have ps: "agent_presence d' = map (reported_row E ?mine ?here) ?ps" unfolding d' by (rule presence_after_report)
  have as: "agents d' = ?as" unfolding d' by (rule agents_after_report)
  have found: "b (agent_binding a) = Some a" if a: "a \<in> set ?as" "ag_MachineID a = rt_MachineID command" for a
  proof (cases "a \<in> set new")
    case True
    with al show ?thesis unfolding allocated_def by blast
  next
    case False
    with a have "a \<in> set (agents d)" by simp
    from bindings_of_agent [OF assms(1) this] a(2) m(5) have "bindings_of (m_MachineID m) d (agent_binding a) = Some a" by simp
    with al show ?thesis unfolding allocated_def by blast
  qed
  have present: "pr_Present p \<longleftrightarrow> (\<exists>ob \<in> set (rt_Recognized command). recognized_binding ob = agent_binding a \<and> rg_Present ob)"
    if a: "a \<in> set ?as" "ag_MachineID a = rt_MachineID command" "ag_RemovedAt a = None"
      and p: "p \<in> set (agent_presence d')" "pr_AgentID p = ag_AgentID a" for a p
  proof -
    from p(1) obtain q where q: "p = reported_row E ?mine ?here q" unfolding ps set_map by blast
    have "?mine (ag_AgentID a)"
      unfolding machine_agents_def active_agent_def exists_where_iff using a by (auto intro!: bexI [of _ a])
    then have "pr_Present p \<longleftrightarrow> ?here (ag_AgentID a)" using p(2) unfolding q reported_row_id by (simp add: reported_row_def)
    also have "\<dots> \<longleftrightarrow> (\<exists>ob \<in> set (rt_Recognized command). recognized_binding ob = agent_binding a \<and> rg_Present ob)"
    proof
      assume "?here (ag_AgentID a)"
      from reported_present_agent [OF al this] obtain x where x: "x \<in> set ?as" "ag_AgentID x = ag_AgentID a"
        "\<exists>ob \<in> set (rt_Recognized command). rg_Present ob \<and> recognized_binding ob = agent_binding x" by blast
      have "x = a" by (rule unique_onD [OF u x(1) a(1)]) (simp_all add: x)
      with x(3) show "\<exists>ob \<in> set (rt_Recognized command). recognized_binding ob = agent_binding a \<and> rg_Present ob" by blast
    next
      assume "\<exists>ob \<in> set (rt_Recognized command). recognized_binding ob = agent_binding a \<and> rg_Present ob"
      with found [OF a(1,2)] a(3) show "?here (ag_AgentID a)" unfolding reported_present_def by metis
    qed
    finally show ?thesis .
  qed
  have others: "p \<in> set (agent_presence d')"
    if p: "p \<in> set (agent_presence d)" "\<not> machine_agents (rt_MachineID command) d (pr_AgentID p)" for p
  proof -
    from p(1) assms(1) obtain y where y: "y \<in> set (agents d)" "ag_AgentID y = pr_AgentID p"
      by (auto simp: agents_ok_def presence_ok_def)
    have not: "\<not> (ag_MachineID x = rt_MachineID command \<and> ag_RemovedAt x = None)" if x: "x \<in> set ?as" "ag_AgentID x = pr_AgentID p" for x
    proof -
      have "x = y" by (rule unique_onD [OF u x(1)]) (use y x(2) in simp_all)
      with y p(2) show ?thesis by (auto simp: machine_agents_def active_agent_def exists_where_iff)
    qed
    have "\<not> ?here (pr_AgentID p)"
      using reported_present_agent [OF al, of "pr_AgentID p"] not m(5) by metis
    moreover have "\<not> ?mine (pr_AgentID p)"
      using not unfolding machine_agents_def active_agent_def exists_where_iff by auto
    ultimately have "reported_row E ?mine ?here p = p" by (simp add: reported_row_def)
    moreover have "reported_row E ?mine ?here p \<in> set (agent_presence d')" unfolding ps set_map using p(1) by auto
    ultimately show ?thesis by simp
  qed
  have "\<forall>a \<in> set new. ag_MachineID a = m_MachineID m \<and> ag_SpaceID a = m_SpaceID m
           \<and> ag_OwnerUserID a = m_EnrolledByUserID m \<and> is_member (m_SpaceID m) (m_EnrolledByUserID m) d
           \<and> agent_binding a \<in> recognized_binding ` set (rt_Recognized command)"
    using al mem unfolding allocated_def by (metis empty_iff list.set(1))
  then have identities: "\<exists>new. agents d' = agents d @ new \<and> (\<forall>a \<in> set new. ag_MachineID a = m_MachineID m \<and> ag_SpaceID a = m_SpaceID m
           \<and> ag_OwnerUserID a = m_EnrolledByUserID m \<and> is_member (m_SpaceID m) (m_EnrolledByUserID m) d
           \<and> agent_binding a \<in> recognized_binding ` set (rt_Recognized command))"
    using as by blast
  have "\<forall>a \<in> set (agents d'). ag_MachineID a = rt_MachineID command \<longrightarrow> ag_RemovedAt a = None \<longrightarrow>
           (\<forall>p \<in> set (agent_presence d'). pr_AgentID p = ag_AgentID a \<longrightarrow>
              (pr_Present p \<longleftrightarrow> (\<exists>ob \<in> set (rt_Recognized command). recognized_binding ob = agent_binding a \<and> rg_Present ob)))"
    unfolding as using present by blast
  with m others identities base show ?thesis by (intro bexI [of _ m] conjI) simp_all
qed

text \<open>
  A report is applied once and only on the state it was made for. Once a report took
  effect, the same command again changes nothing and is answered as the first one was, and any
  other report made on the same or an earlier revision is refused as stale, with the revision the
  Host must observe again from; the revision of a Machine never falls.
\<close>

theorem stale_reports_are_refused:
  assumes "agents_ok d" "ReconcileAgentPresence folded command E d = (Inr res, d')" "d' \<noteq> d"
    and "rt_MachineID other = rt_MachineID command"
  shows "(\<forall>res'' d''. ReconcileAgentPresence folded command E' d' = (Inr res'', d'') \<longrightarrow> d'' = d' \<and> res'' = res)
    \<and> (rt_ReportID other \<noteq> rt_ReportID command \<longrightarrow> rt_BaseRevision other \<le> rt_BaseRevision command \<longrightarrow>
        (\<exists>e. ReconcileAgentPresence folded other E' d' = (Inl e, d')))
    \<and> (rt_ReportID other = rt_ReportID command \<longrightarrow> rt_RequestDigest other \<noteq> rt_RequestDigest command \<longrightarrow>
        (\<exists>e. ReconcileAgentPresence folded other E' d' = (Inl e, d')))"
proof -
  obtain m where m: "machine_of (rt_MachineID command) d = Some m"
    and c: "replayed_report command d m res d' \<or> accepted_report command E d m res d'"
    using Reconcile_cases [OF assms(2,1)] by (metis sum.distinct(1) sum.inject(2))
  from c assms(3) have acc: "accepted_report command E d m res d'" by (auto simp: replayed_report_def)
  then have base: "rt_BaseRevision command = m_AgentReportRevision m"
    and res: "res = \<lparr>rr_Revision = m_AgentReportRevision m + 1, rr_UnsupportedAdapterKeys = rt_UnsupportedAdapterKeys command,
        rr_SetupRequiredAdapterKeys = rr_SetupRequiredAdapterKeys res\<rparr>"
    by (auto elim!: accepted_reportE)
  let ?m = "reported_machine E (rt_ReportID command) (rt_RequestDigest command)
    (rt_UnsupportedAdapterKeys command) (rr_SetupRequiredAdapterKeys res) m"
  have m': "machine_of (rt_MachineID command) d' = Some ?m" by (rule accepted_changes [OF acc m])
  have ok': "agents_ok d'" by (rule keepsD [OF ReconcileAgentPresence_keeps assms(2,1)])
  have replay: "d'' = d' \<and> res'' = res" if run: "ReconcileAgentPresence folded command E' d' = (Inr res'', d'')" for res'' d''
    using run ok'
  proof (cases rule: Reconcile_cases)
    case (ran m2 r2)
    have "m2 = ?m" using ran(1) m' by simp
    with ran(6) have "replayed_report command d' ?m r2 d''"
      by (auto simp: accepted_report_def reported_machine_def)
    with ran(7) show ?thesis by (subst res) (simp add: replayed_report_def reported_machine_def)
  qed simp
  have refuse: "\<exists>e. ReconcileAgentPresence folded other E' d' = (Inl e, d')"
    if bad: "(rt_ReportID other \<noteq> rt_ReportID command \<and> rt_BaseRevision other \<le> rt_BaseRevision command)
      \<or> (rt_ReportID other = rt_ReportID command \<and> rt_RequestDigest other \<noteq> rt_RequestDigest command)"
  proof -
    obtain y d'' where run: "ReconcileAgentPresence folded other E' d' = (y, d'')" by fastforce
    from run ok' show ?thesis
    proof (cases rule: Reconcile_cases)
      case (ran m2 r2)
      have m2: "m2 = ?m" using ran(1) m' assms(4) by simp
      from ran(6) show ?thesis
      proof
        assume "replayed_report other d' m2 r2 d''"
        with bad show ?thesis by (auto simp: m2 replayed_report_def reported_machine_def)
      next
        assume "accepted_report other E' d' m2 r2 d''"
        then have "m_LastAgentReportID m2 \<noteq> Some (rt_ReportID other)" "rt_BaseRevision other = m_AgentReportRevision m2"
          by (auto elim: accepted_reportE)
        with bad base show ?thesis by (auto simp: m2 reported_machine_def)
      qed
    qed (use run in simp)
  qed
  show ?thesis using replay refuse by blast
qed

section \<open>The inventory\<close>

lemma all_records_in: "all_records rs = Inr vs \<Longrightarrow> v \<in> set vs \<Longrightarrow> Inr v \<in> set rs"
  by (induction rs arbitrary: vs rule: all_records.induct) (auto split: sum.split_asm)

text \<open>
  C18 (safety). The inventory shows an Agent online only on fresh evidence: its own presence row
  says present, neither the Agent nor its Machine has been removed, and the Machine reported less
  than 45 seconds before. It shows every field of the durable identity, and no adapter fact.
\<close>

theorem online_needs_fresh_presence:
  assumes "listInventoryAgents machineIDs E d n = Inr (records, d', n')"
  shows "d' = d \<and> (\<forall>v \<in> set records. \<exists>a \<in> set (agents d). ag_AgentID a = iv_AgentID v \<and> ag_MachineID a \<in> set machineIDs
      \<and> iv_MachineID v = ag_MachineID a \<and> iv_Name v = ag_Name a \<and> iv_OwnerUserID v = ag_OwnerUserID a
      \<and> iv_AvatarIndex v < 8 \<and> (iv_Lifecycle v = AgentRemoved \<longleftrightarrow> ag_RemovedAt a \<noteq> None)
      \<and> (iv_Online v \<longrightarrow> ag_RemovedAt a = None \<and> (\<exists>p \<in> set (agent_presence d). pr_AgentID p = ag_AgentID a \<and> pr_Present p)
           \<and> (\<exists>m \<in> set (machines d). m_MachineID m = ag_MachineID a \<and> m_RevokedAt m = None
                \<and> (\<exists>t. m_AgentReportedAt m = Some t \<and> tx_time E - t < seconds 45))))"
proof (cases "machineIDs = []")
  case True
  with assms show ?thesis by (simp add: listInventoryAgents_def tx_simps)
next
  case False
  from assms False have "d' = d" and all: "all_records (map (inventoryAgent E) (sql_ListInventoryAgents machineIDs d)) = Inr records"
    by (auto simp: listInventoryAgents_def tx_simps)
  have rows: "\<exists>row \<in> set (sql_ListInventoryAgents machineIDs d). inventoryAgent E row = Inr v" if "v \<in> set records" for v
    using all_records_in [OF all that] by auto
  have "\<exists>a \<in> set (agents d). ag_AgentID a = iv_AgentID v \<and> ag_MachineID a \<in> set machineIDs
      \<and> iv_MachineID v = ag_MachineID a \<and> iv_Name v = ag_Name a \<and> iv_OwnerUserID v = ag_OwnerUserID a
      \<and> iv_AvatarIndex v < 8 \<and> (iv_Lifecycle v = AgentRemoved \<longleftrightarrow> ag_RemovedAt a \<noteq> None)
      \<and> (iv_Online v \<longrightarrow> ag_RemovedAt a = None \<and> (\<exists>p \<in> set (agent_presence d). pr_AgentID p = ag_AgentID a \<and> pr_Present p)
           \<and> (\<exists>m \<in> set (machines d). m_MachineID m = ag_MachineID a \<and> m_RevokedAt m = None
                \<and> (\<exists>t. m_AgentReportedAt m = Some t \<and> tx_time E - t < seconds 45)))"
    if v: "v \<in> set records" for v
  proof -
    from rows [OF v] obtain a p m u where row: "(a, p, m, u) \<in> set (sql_ListInventoryAgents machineIDs d)"
      and inv: "inventoryAgent E (a, p, m, u) = Inr v" by auto
    from row have a: "a \<in> set (agents d)" "ag_MachineID a \<in> set machineIDs" and join: "inventory_join d a = Some (a, p, m, u)"
      by (auto simp: sql_ListInventoryAgents_def List.map_filter_def inventory_join_def split: option.split_asm)
    from join have p: "p \<in> set (agent_presence d)" "pr_AgentID p = ag_AgentID a"
      and m: "m \<in> set (machines d)" "m_MachineID m = ag_MachineID a"
      by (auto simp: inventory_join_def presence_of_def machine_of_def split: option.split_asm dest!: first_where_Some)
    have v: "iv_AgentID v = ag_AgentID a" "iv_MachineID v = ag_MachineID a" "iv_Name v = ag_Name a" "iv_OwnerUserID v = ag_OwnerUserID a"
      "iv_AvatarIndex v < 8" "iv_Lifecycle v = AgentRemoved \<longleftrightarrow> ag_RemovedAt a \<noteq> None"
      and online: "iv_Online v \<longleftrightarrow> ag_RemovedAt a = None
        \<and> online_column E (agentFreshnessSeconds AgentPresenceFreshness) a p m = Some True"
      using inv by (auto simp: inventoryAgent_def ProjectInventory_def AvatarIndex_def AvatarPresetCount_def
          split: sum.split_asm if_split_asm option.split_asm)
    have "ag_RemovedAt a = None \<and> pr_Present p \<and> m_RevokedAt m = None \<and> (\<exists>t. m_AgentReportedAt m = Some t \<and> tx_time E - t < seconds 45)"
      if "iv_Online v"
      using that unfolding online online_column_def
      by (auto simp: agentFreshnessSeconds_def AgentPresenceFreshness_def split: if_split_asm)
    with a p m v show ?thesis by (intro bexI [of _ a]) auto
  qed
  with \<open>d' = d\<close> show ?thesis by blast
qed

end
