(* ===== verification/Demo_Agents.thy ===== *)
theory Demo_Agents
  imports Agent_Guarantees Demo_Conversation
begin

text \<open>
  A concrete report: the Machine of the demo Space observes one Pi and one Agent of a family
  nobody knows, and the report allocates and presents the first. The witnesses of the Agent
  properties run it.
\<close>

definition demo_office :: db where
  "demo_office = demo_base\<lparr>spaces := [\<lparr>sp_SpaceID = ''space'', sp_Name = ''Office'', sp_CreatedAt = 0,
     sp_CreatedByUserID = None, sp_CreateIdempotencyKey = None, sp_CreateRequestDigest = None, sp_Slug = ''office''\<rparr>]\<rparr>"

definition demo_observations :: "observation list" where
  "demo_observations = [\<lparr>ob_AdapterKey = ''pi'', ob_OccurrenceKey = ''main'', ob_Present = True\<rparr>,
     \<lparr>ob_AdapterKey = ''foo'', ob_OccurrenceKey = ''main'', ob_Present = True\<rparr>]"

definition demo_request :: report_request where
  "demo_request = \<lparr>rq_MachineID = ''m1'', rq_CertificateSerial = ''1'', rq_ReportID = ''rep'', rq_BaseRevision = 0,
     rq_Observations = demo_observations\<rparr>"

definition demo_command :: report_command where
  "demo_command = \<lparr>rt_MachineID = ''m1'', rt_CertificateSerial = ''1'', rt_ReportID = ''rep'', rt_BaseRevision = 0,
     rt_RequestDigest = agentReportDigest ''rep'' 0 (rev demo_observations),
     rt_Recognized = [\<lparr>rg_AdapterKey = ''pi'', rg_OccurrenceKey = ''main'', rg_Present = True, rg_NameBase = ''Pi''\<rparr>],
     rt_UnsupportedAdapterKeys = [''foo'']\<rparr>"

lemma demo_keys: "ValidAdapterKey ''pi''" "ValidAdapterKey ''foo''" "ValidOccurrenceKey ''main''"
  by (simp_all add: ValidAdapterKey_def ValidOccurrenceKey_def valid_key_def key_byte_def MaxAdapterKeyBytes_def
      MaxOccurrenceKeyBytes_def less_eq_char_def)

lemma demo_sorted: "sort_key observation_key demo_observations = rev demo_observations"
  by (simp add: demo_observations_def observation_key_def less_eq_prod_def list_le_def list_less_def less_char_def)

lemma demo_canonical: "canonical_report NativeVocabulary demo_request (demo_env ''q'' 900) = Inr demo_command"
proof -
  have "plain_text ''1''" by (simp add: plain_text_def is_space_def)
  then have "trim_space ''1'' = ''1''" by (rule plain_text_trim)
  moreover have "scan_observations NativeVocabulary None (\<lambda>_. 0) (rev demo_observations)
      = Inr (rt_Recognized demo_command, [''foo''])"
    by (simp add: demo_observations_def demo_keys NativeVocabulary_def Descriptor_of_def recognize_def demo_command_def
        observation_key_def)
  moreover have "length demo_observations = 2" by (simp add: demo_observations_def)
  ultimately show ?thesis
    by (simp add: canonical_report_def demo_request_def demo_sorted demo_command_def maxCertificateSerialBytes_def
        MaxObservationsPerReport_def)
qed

theorem report_order_is_irrelevant_witness:
  "canonical_report NativeVocabulary (demo_request\<lparr>rq_Observations := rev demo_observations\<rparr>) (demo_env ''q'' 900) = Inr demo_command"
  using report_order_is_irrelevant [of "rev demo_observations" demo_request] demo_canonical by (simp add: demo_request_def)

theorem canonical_report_is_complete_witness:
  "set (rt_UnsupportedAdapterKeys demo_command) = {''foo''} \<and> length (rt_Recognized demo_command) = 1"
  using canonical_report_is_complete [OF demo_canonical] by (simp add: demo_command_def)

theorem report_digest_determines_report_witness:
  "mset (rq_Observations demo_request) = mset (rq_Observations demo_request) \<or> (\<exists>x y. sha256_collision x y)"
  using report_digest_determines_report [OF demo_canonical demo_canonical refl] by (simp add: demo_request_def)

section \<open>The first Pi\<close>

lemma demo_printable: "printable ''Pi''"
  by (simp add: printable_def plain_text_def is_space_def)

theorem agent_naming_ends_with_the_first_free_name_witness:
  "\<exists>j. 0 < j \<and> j \<le> 1 \<and> allocateAgentName (\<lambda>s. s) ''space'' ''Pi'' 1 (demo_env ''q'' 900) demo_office 0
    = Inr ((ordinal_name ''Pi'' j, ordinal_name ''Pi'' j), demo_office, nat j)"
proof -
  have a: "agents demo_office = []" by (simp add: demo_office_def demo_defs)
  have ne: "ordinal_name ''Pi'' i \<noteq> []" for i by (simp add: ordinal_name_def)
  from agent_naming_ends_with_the_first_free_name [OF demo_printable _ demo_env_healthy, of demo_office "\<lambda>s. s" "''space''" "''q''" 900 0]
  show ?thesis using ordinal_name_inj [of _ _ "''Pi''"] ne by (simp add: a) metis
qed

definition demo_pi :: agent_row where
  "demo_pi = new_agent (demo_env ''q'' 900) ''q'' demo_machine
     \<lparr>rg_AdapterKey = ''pi'', rg_OccurrenceKey = ''main'', rg_Present = True, rg_NameBase = ''Pi''\<rparr> ''Pi'' ''Pi''"

definition demo_reported :: db where
  "demo_reported = demo_office\<lparr>agents := [demo_pi],
     agent_presence := [\<lparr>pr_AgentID = ''q'', pr_Present = True, pr_LastPresentAt = Some 900\<rparr>],
     machines := [reported_machine (demo_env ''q'' 900) ''rep'' (rt_RequestDigest demo_command) [''foo''] [] demo_machine]\<rparr>"

definition demo_result :: report_result where
  "demo_result = \<lparr>rr_Revision = 1, rr_UnsupportedAdapterKeys = [''foo''], rr_SetupRequiredAdapterKeys = []\<rparr>"

lemma demo_name: "NameForOrdinal (\<lambda>s. s) ''Pi'' 1 = Inr (''Pi'', ''Pi'')"
  using NameForOrdinal_printable [OF demo_printable, of 1 "\<lambda>s. s"] by (simp add: ordinal_name_def)

lemma demo_reported_run:
  "ReconcileAgentPresence (\<lambda>s. s) demo_command (demo_env ''q'' 900) demo_office = (Inr demo_result, demo_reported)"
proof -
  have name: "allocateAgentName (\<lambda>s. s) ''space'' ''Pi'' 1 (demo_env ''q'' 900) demo_office n = Inr ((''Pi'', ''Pi''), demo_office, Suc n)" for n
    by (subst allocateAgentName.simps)
      (simp add: demo_name query_def sql_AgentNameExists_def exists_where_def demo_office_def demo_defs)
  have machine: "sql_LoadAgentReportMachine ''m1'' demo_office = Some demo_machine"
    "sql_LockMachineForAgentReport ''m1'' demo_office = Some demo_machine" "sql_ListMachineAgentBindings ''m1'' demo_office = []"
    "sql_LockSpaceForAgentAllocation ''space'' demo_office = Some ''space''"
    "sql_LockAgentApproverMembership ''space'' ''alice'' demo_office = Some (demo_member ''alice'')"
    "sql_LockAgentsForMachine ''m1'' demo_office = []"
    "m_SpaceID demo_machine = ''space''" "m_EnrolledByUserID demo_machine = ''alice''" "m_CertificateSerial demo_machine = ''1''"
    "m_RevokedAt demo_machine = None" "m_LastAgentReportID demo_machine = None" "m_AgentReportRevision demo_machine = 0"
    "mb_RevokedAt (demo_member ''alice'') = None"
    by (simp_all add: sql_LoadAgentReportMachine_def sql_LockMachineForAgentReport_def sql_ListMachineAgentBindings_def
        sql_LockSpaceForAgentAllocation_def sql_LockAgentApproverMembership_def sql_LockAgentsForMachine_def order_by_def
        demo_office_def demo_defs)
  let ?ob = "\<lparr>rg_AdapterKey = ''pi'', rg_OccurrenceKey = ''main'', rg_Present = True, rg_NameBase = ''Pi''\<rparr>"
  let ?d1 = "demo_office\<lparr>agents := [demo_pi]\<rparr>"
  let ?d2 = "?d1\<lparr>agent_presence := [\<lparr>pr_AgentID = ''q'', pr_Present = False, pr_LastPresentAt = None\<rparr>]\<rparr>"
  let ?d3 = "?d1\<lparr>agent_presence := [\<lparr>pr_AgentID = ''q'', pr_Present = True, pr_LastPresentAt = Some 900\<rparr>]\<rparr>"
  have agent: "sql_InsertAgent (new_agent (demo_env ''q'' 900) ''q'' demo_machine ?ob ''Pi'' ''Pi'') demo_office = Inr (demo_pi, ?d1)"
    by (simp add: sql_InsertAgent_def demo_pi_def new_agent_def key_taken_def exists_where_def demo_office_def demo_defs)
  have presence: "sql_InsertAgentPresence ''q'' ?d1 = Inr ((), ?d2)"
    by (simp add: sql_InsertAgentPresence_def demo_pi_def new_agent_def key_taken_def exists_where_def demo_office_def demo_defs)
  have absent: "sql_SetMachineActiveAgentsAbsent ''m1'' ?d2 = ((), ?d2)"
    by (simp add: sql_SetMachineActiveAgentsAbsent_def demo_office_def demo_defs)
  have update: "sql_UpdateMachineAgentReport (demo_env ''q'' 900) ''rep'' (rt_RequestDigest demo_command) [''foo''] [] ''m1'' ?d3
      = (Some 1, demo_reported)"
    by (simp add: sql_UpdateMachineAgentReport_def Let_def demo_reported_def reported_machine_def demo_office_def demo_defs)
  have pi: "ag_AgentID demo_pi = ''q''" "ag_RemovedAt demo_pi = None" by (simp_all add: demo_pi_def new_agent_def)
  have command: "rt_MachineID demo_command = ''m1''" "rt_CertificateSerial demo_command = ''1''" "rt_ReportID demo_command = ''rep''"
    "rt_BaseRevision demo_command = 0" "rt_Recognized demo_command = [?ob]" "rt_UnsupportedAdapterKeys demo_command = [''foo'']"
    by (simp_all add: demo_command_def)
  have auth: "allocation_authority demo_command (demo_env ''q'' 900) demo_office 0 = Inr ((demo_machine, True), demo_office, 4)"
    by (simp add: allocation_authority_def command machine tx_run)
  have alloc: "allocate_missing (\<lambda>s. s) demo_machine True 0 [?ob] Map.empty (demo_env ''q'' 900) demo_office 6
      = Inr (([recognized_binding ?ob \<mapsto> demo_pi], []), ?d2, 9)"
    by (simp add: machine name agent presence tx_run)
  have set: "set_reported_present [recognized_binding ?ob \<mapsto> demo_pi] [?ob] (demo_env ''q'' 900) ?d2 10 = Inr ((), ?d3, 11)"
    by (simp add: pi tx_run sql_SetActiveAgentPresent_def Let_def active_agent_def exists_where_def)
  show ?thesis
    by (simp add: ReconcileAgentPresence_def transact_healthy demo_env_healthy
        ReconcileAgentPresence_tx_def accept_report_def command machine auth alloc absent set update demo_result_def tx_run Let_def
        del: allocate_missing.simps set_reported_present.simps)
qed

lemma demo_office_ok: "agents_ok demo_office"
  by (simp add: agents_ok_def demo_office_def demo_defs unique_on_def machine_report_ok_def)

lemma demo_reported_changes: "demo_reported \<noteq> demo_office"
proof
  assume "demo_reported = demo_office"
  then have "agents demo_reported = agents demo_office" by simp
  then show False by (simp add: demo_reported_def demo_office_def demo_defs)
qed

theorem report_replaces_own_presence_witness:
  "\<exists>m \<in> set (machines demo_office). m_RevokedAt m = None \<and> rr_Revision demo_result = m_AgentReportRevision m + 1"
  using report_replaces_own_presence [OF demo_office_ok demo_reported_run demo_reported_changes]
  by (auto simp: demo_command_def)

theorem stale_reports_are_refused_witness:
  "\<exists>e. ReconcileAgentPresence (\<lambda>s. s) (demo_command\<lparr>rt_ReportID := ''late''\<rparr>) (demo_env ''z'' 950) demo_reported = (Inl e, demo_reported)"
  using stale_reports_are_refused [OF demo_office_ok demo_reported_run demo_reported_changes,
      of "demo_command\<lparr>rt_ReportID := ''late''\<rparr>" "demo_env ''z'' 950"]
  by (simp add: demo_command_def)

lemma demo_inventory: "\<exists>records n. listInventoryAgents [''m1''] (demo_env ''i'' 930) demo_reported 0 = Inr (records, demo_reported, n)"
  by (simp add: listInventoryAgents_def tx_run sql_ListInventoryAgents_def demo_reported_def demo_office_def demo_defs order_by_def
      demo_pi_def new_agent_def List.map_filter_def inventory_join_def presence_of_def machine_of_def user_of_def reported_machine_def
      inventoryAgent_def ProjectInventory_def AvatarIndex_def lift_def ret_def)

theorem online_needs_fresh_presence_witness:
  "\<exists>records n. listInventoryAgents [''m1''] (demo_env ''i'' 930) demo_reported 0 = Inr (records, demo_reported, n)
     \<and> (\<forall>v \<in> set records. iv_AvatarIndex v < 8)"
proof -
  obtain records n where run: "listInventoryAgents [''m1''] (demo_env ''i'' 930) demo_reported 0 = Inr (records, demo_reported, n)"
    using demo_inventory by blast
  from online_needs_fresh_presence [OF run] run show ?thesis by blast
qed

end
