(* ===== verification/Space_Rules.thy ===== *)
theory Space_Rules
  imports Schema
begin

text \<open>
  The Space owner: the commands that create a Space and remove a member
  (\<open>internal/space/creation.go\<close>, \<open>member_removal.go\<close>), the normal form of a Space name and its URL
  slug (\<open>slug.go\<close>), the command key (\<open>invitation.go\<close>), and the part of \<open>encoding/json\<close> that the
  request digests are taken over. The Unicode tables of the Go library and the PRECIS profile
  \<open>UsernameCaseMapped\<close> of \<open>golang.org/x/text\<close> are the parameter \<open>unicode\<close>.
\<close>

section \<open>encoding/json\<close>

definition hex_digit :: "nat \<Rightarrow> char" where
  "hex_digit n = ''0123456789abcdef'' ! n"

definition json_ascii :: "char \<Rightarrow> string" where
  "json_ascii c =
     (if c = CHR ''\"'' \<or> c = CHR 0x5C then [CHR 0x5C, c]
      else if c = CHR 0x08 then [CHR 0x5C, CHR ''b'']
      else if c = CHR 0x0C then [CHR 0x5C, CHR ''f'']
      else if c = CHR 0x0A then [CHR 0x5C, CHR ''n'']
      else if c = CHR 0x0D then [CHR 0x5C, CHR ''r'']
      else if c = CHR 0x09 then [CHR 0x5C, CHR ''t'']
      else if (of_char c :: nat) < 32 \<or> c = CHR ''<'' \<or> c = CHR ''>'' \<or> c = CHR ''&''
      then [CHR 0x5C, CHR ''u'', CHR ''0'', CHR ''0'', hex_digit (of_char c div 16), hex_digit (of_char c mod 16)]
      else [c])"

fun json_chars :: "string \<Rightarrow> string" where
  "json_chars [] = []"
| "json_chars (c # cs) =
     (let (r, w) = decode_rune (c # cs)
      in (if w = 1 then (if r = RuneError then CHR 0x5C # ''ufffd'' else json_ascii c)
          else if r = 0x2028 then CHR 0x5C # ''u2028''
          else if r = 0x2029 then CHR 0x5C # ''u2029''
          else take w (c # cs)) @ json_chars (drop (w - 1) cs))"

definition json_string :: "string \<Rightarrow> string" where
  "json_string s = CHR ''\"'' # json_chars s @ [CHR ''\"'']"

definition json_bool :: "bool \<Rightarrow> string" where
  "json_bool b = (if b then ''true'' else ''false'')"

definition json_int :: "int \<Rightarrow> string" where
  "json_int i = (if i < 0 then CHR ''-'' # itoa (nat (- i)) else itoa (nat i))"

fun join_fields :: "string list \<Rightarrow> string" where
  "join_fields [] = []"
| "join_fields [f] = f"
| "join_fields (f # g # fs) = f @ CHR '','' # join_fields (g # fs)"

text \<open>An object of the given members, with their encoded values, and an array of strings.\<close>

definition json_object :: "(string \<times> string) list \<Rightarrow> string" where
  "json_object members = CHR ''{'' # join_fields (map (\<lambda>(k, v). json_string k @ CHR '':'' # v) members) @ ''}''"

definition json_strings :: "string list \<Rightarrow> string" where
  "json_strings parts = CHR ''['' # join_fields (map json_string parts) @ '']''"

section \<open>Commands\<close>

definition normalizeCommandKey :: "string \<Rightarrow> string option" where
  "normalizeCommandKey value =
     (let key = trim_space value
      in if key \<noteq> [] \<and> length key \<le> 255 \<and> valid_string key \<and> \<not> contains_nul key then Some key else None)"

record remove_member_request =
  rmq_SpaceID :: uuid
  rmq_ActorUserID :: uuid
  rmq_TargetUserID :: uuid
  rmq_SuccessorUserID :: uuid
  rmq_IdempotencyKey :: string

record remove_member_command =
  rmc_SpaceID :: uuid
  rmc_ActorUserID :: uuid
  rmc_TargetUserID :: uuid
  rmc_SuccessorUserID :: uuid
  rmc_IdempotencyKey :: string
  rmc_RequestDigest :: bytes

definition removal_digest :: "uuid \<Rightarrow> uuid \<Rightarrow> uuid \<Rightarrow> uuid \<Rightarrow> bytes" where
  "removal_digest spaceID actorUserID targetUserID successorUserID = sha256 (json_object
     [(''SpaceID'', json_string spaceID), (''ActorUserID'', json_string actorUserID),
      (''TargetUserID'', json_string targetUserID), (''SuccessorUserID'', json_string successorUserID)])"

definition NewRemoveMemberCommand :: "env \<Rightarrow> remove_member_request \<Rightarrow> carry_error + remove_member_command" where
  "NewRemoveMemberCommand E request =
     (case normalizeCommandKey (rmq_IdempotencyKey request) of
        None \<Rightarrow> Inl (SpaceError ErrInvalidMemberRemoval)
      | Some idempotencyKey \<Rightarrow>
          if \<not> uuid_valid E (rmq_SpaceID request) \<or> \<not> uuid_valid E (rmq_ActorUserID request)
             \<or> \<not> uuid_valid E (rmq_TargetUserID request)
             \<or> (rmq_SuccessorUserID request \<noteq> [] \<and> \<not> uuid_valid E (rmq_SuccessorUserID request))
          then Inl (SpaceError ErrInvalidMemberRemoval)
          else Inr \<lparr>rmc_SpaceID = rmq_SpaceID request, rmc_ActorUserID = rmq_ActorUserID request,
            rmc_TargetUserID = rmq_TargetUserID request, rmc_SuccessorUserID = rmq_SuccessorUserID request,
            rmc_IdempotencyKey = idempotencyKey, rmc_RequestDigest = removal_digest (rmq_SpaceID request)
              (rmq_ActorUserID request) (rmq_TargetUserID request) (rmq_SuccessorUserID request)\<rparr>)"

definition MemberPageSize :: nat where "MemberPageSize = 50"

record list_members_command =
  lmc_SpaceID :: uuid
  lmc_ActorUserID :: uuid
  lmc_AfterUserID :: uuid

record space_member =
  sm_UserID :: uuid
  sm_DisplayName :: string
  sm_CanManageMembers :: bool
  sm_CanEnrollMachines :: bool
  sm_OpenWorkCount :: int
  sm_JoinedAt :: timestamp

record member_page =
  mp_Members :: "space_member list"
  mp_NextCursor :: uuid

section \<open>Names and slugs\<close>

definition MaxSpaceNameCodePoints :: nat where "MaxSpaceNameCodePoints = 80"
definition MaxSpaceSlugCodePoints :: nat where "MaxSpaceSlugCodePoints = 32"
definition MaxSpaceSlugSuffix :: int where "MaxSpaceSlugSuffix = 9999"

record unicode =
  is_letter :: "nat \<Rightarrow> bool"
  is_number :: "nat \<Rightarrow> bool"
  is_mark :: "nat \<Rightarrow> bool"
  is_format :: "nat \<Rightarrow> bool"
  scripts_of :: "nat \<Rightarrow> string list"
  case_mapped :: "string \<Rightarrow> string option"

text \<open>A \<open>range\<close> loop over a string, with the bytes that \<open>WriteRune\<close> writes for each rune.\<close>

fun rune_chunks :: "string \<Rightarrow> (nat \<times> string) list" where
  "rune_chunks [] = []"
| "rune_chunks (c # cs) =
     (let (r, w) = decode_rune (c # cs)
      in (r, if r = RuneError \<and> w = 1 then [CHR 0xEF, CHR 0xBF, CHR 0xBD] else take w (c # cs)) # rune_chunks (drop (w - 1) cs))"

definition is_separator :: "nat \<Rightarrow> bool" where
  "is_separator r \<longleftrightarrow> is_space r \<or> r = 95 \<or> r = 45"

fun collapse_loop :: "bool \<Rightarrow> string \<Rightarrow> (nat \<times> string) list \<Rightarrow> string" where
  "collapse_loop separator result [] = result"
| "collapse_loop separator result ((r, bs) # rs) =
     (if is_separator r then collapse_loop (result \<noteq> []) result rs
      else collapse_loop False ((if separator then result @ ''-'' else result) @ bs) rs)"

definition collapseSlugSeparators :: "string \<Rightarrow> string" where
  "collapseSlugSeparators value = collapse_loop False [] (rune_chunks value)"

fun grammar_loop :: "unicode \<Rightarrow> bool \<Rightarrow> nat \<Rightarrow> nat list \<Rightarrow> carry_error + unit" where
  "grammar_loop u tokenHasBase previous [] =
     (if \<not> is_letter u previous \<and> \<not> is_number u previous then Inl (SpaceError ErrSpaceSlugUnsupported) else Inr ())"
| "grammar_loop u tokenHasBase previous (r # rs) =
     (if is_letter u r \<or> is_number u r then grammar_loop u True r rs
      else if is_mark u r then
        (if \<not> tokenHasBase then Inl (SpaceError ErrSpaceSlugUnsupported) else grammar_loop u tokenHasBase r rs)
      else if r = 45 then
        (if \<not> tokenHasBase then Inl (SpaceError ErrSpaceSlugUnsupported) else grammar_loop u False r rs)
      else Inl (SpaceError ErrSpaceSlugUnsupported))"

definition validateSlugGrammar :: "unicode \<Rightarrow> string \<Rightarrow> carry_error + unit" where
  "validateSlugGrammar u slug =
     (if slug = [] then Inl (SpaceError ErrSpaceNameRequired) else grammar_loop u False 0 (map fst (runes slug)))"

definition slug_scripts :: "unicode \<Rightarrow> string \<Rightarrow> string set" where
  "slug_scripts u slug = (\<Union>r \<in> {r \<in> set (map fst (runes slug)). is_letter u r}. set (scripts_of u r)) - {''Common'', ''Inherited''}"

definition validSlugScripts :: "unicode \<Rightarrow> string \<Rightarrow> bool" where
  "validSlugScripts u slug =
     (let scripts = slug_scripts u slug in
      if card scripts \<le> 1 then True
      else if \<not> scripts \<subseteq> {''Latin'', ''Han'', ''Hiragana'', ''Katakana'', ''Hangul'', ''Bopomofo''} then False
      else of_bool (''Hiragana'' \<in> scripts \<or> ''Katakana'' \<in> scripts) + of_bool (''Hangul'' \<in> scripts)
           + of_bool (''Bopomofo'' \<in> scripts) \<le> (1::nat))"

definition NormalizeSpaceName :: "unicode \<Rightarrow> string \<Rightarrow> int \<Rightarrow> carry_error + (string \<times> string)" where
  "NormalizeSpaceName u value numbered =
     (let name = trim_space value in
      if \<not> valid_string value then Inl (SpaceError ErrSpaceSlugUnsupported)
      else if name = [] then Inl (SpaceError ErrSpaceNameRequired)
      else if rune_count name > MaxSpaceNameCodePoints then Inl (SpaceError ErrSpaceNameTooLong)
      else if \<not> list_all (\<lambda>(r, w). \<not> is_control r \<and> \<not> is_format u r) (runes name) then Inl (SpaceError ErrSpaceNameHasControl)
      else if numbered \<noteq> 0 \<and> (numbered < 2 \<or> numbered > MaxSpaceSlugSuffix) then Inl (SpaceError ErrSpaceSlugSuffixInvalid)
      else (case case_mapped u (collapseSlugSeparators name) of
              None \<Rightarrow> Inl (SpaceError ErrSpaceSlugUnsupported)
            | Some mapped \<Rightarrow>
                if case_mapped u mapped \<noteq> Some mapped then Inl (SpaceError ErrSpaceSlugUnstable)
                else (let slug = collapseSlugSeparators mapped in
                  case validateSlugGrammar u slug of
                    Inl e \<Rightarrow> Inl e
                  | Inr _ \<Rightarrow>
                      if \<not> validSlugScripts u slug then Inl (SpaceError ErrSpaceSlugMixedScripts)
                      else (let suffixed = (if numbered \<noteq> 0 then slug @ ''-'' @ itoa (nat numbered) else slug) in
                        if rune_count suffixed > MaxSpaceSlugCodePoints then Inl (SpaceError ErrSpaceSlugTooLong)
                        else Inr (name, suffixed)))))"

section \<open>Creating a Space\<close>

record create_space_request =
  csq_UserID :: uuid
  csq_Name :: string
  csq_Suffix :: int
  csq_IdempotencyKey :: string

record create_space_command =
  csc_SpaceID :: uuid
  csc_UserID :: uuid
  csc_Name :: string
  csc_Slug :: string
  csc_Suffix :: int
  csc_IdempotencyKey :: string
  csc_RequestDigest :: bytes

record created_space =
  cs_SpaceID :: uuid
  cs_Name :: string
  cs_Slug :: string
  cs_CanManageMembers :: bool
  cs_CanEnrollMachines :: bool

definition spaceCreationDigest :: "string \<Rightarrow> int \<Rightarrow> bytes" where
  "spaceCreationDigest name numbered = sha256 (json_object
     ((''name'', json_string name) # (if numbered \<noteq> 0 then [(''suffix'', json_int numbered)] else [])))"

definition NewCreateSpaceCommand :: "unicode \<Rightarrow> env \<Rightarrow> create_space_request \<Rightarrow> carry_error + create_space_command" where
  "NewCreateSpaceCommand u E request =
     (if \<not> uuid_valid E (csq_UserID request) then Inl (SpaceError ErrForbidden)
      else (case normalizeCommandKey (csq_IdempotencyKey request) of
              None \<Rightarrow> Inl (SpaceError ErrCommandConflict)
            | Some key \<Rightarrow>
                (case NormalizeSpaceName u (csq_Name request) (csq_Suffix request) of
                   Inl e \<Rightarrow> Inl e
                 | Inr (name, slug) \<Rightarrow> Inr \<lparr>csc_SpaceID = fresh E 0, csc_UserID = csq_UserID request, csc_Name = name,
                     csc_Slug = slug, csc_Suffix = csq_Suffix request, csc_IdempotencyKey = key,
                     csc_RequestDigest = spaceCreationDigest name (csq_Suffix request)\<rparr>)))"

text \<open>A losing slug, with the suggestion (empty and 0 if there is none).\<close>

definition NewSlugConflictError :: "unicode \<Rightarrow> create_space_command \<Rightarrow> carry_error" where
  "NewSlugConflictError u command =
     (let next = (if csc_Suffix command + 1 = 1 then 2 else csc_Suffix command + 1) in
      if next > MaxSpaceSlugSuffix then SpaceError (SlugConflictError (csc_Slug command) [] 0)
      else (case NormalizeSpaceName u (csc_Name command) next of
              Inl _ \<Rightarrow> SpaceError (SlugConflictError (csc_Slug command) [] 0)
            | Inr (_, suggestion) \<Rightarrow> SpaceError (SlugConflictError (csc_Slug command) suggestion next)))"


text \<open>
  The shape of a Space's URL slug. \<open>validateSlugGrammar\<close> runs a small state machine over the
  runes; here it is related to a reference grammar: tokens separated by single hyphens, each
  beginning with a letter or number and continuing with letters, numbers and marks, the whole
  ending in a letter or number. The slug that \<open>NormalizeSpaceName\<close> returns has this shape, with
  or without a numeric suffix.
\<close>

section \<open>Runes of a text extended by ASCII\<close>

lemma decode_rune_before_ascii:
  assumes "code a < 128"
  shows "decode_rune (c # cs @ a # t) = decode_rune (c # cs)"
proof -
  have no: "\<not> second_ok b (code a)" "\<not> is_cont (code a)" for b
    using assms by (auto simp: second_ok_def is_cont_def)
  show ?thesis
  proof (cases cs)
    case Nil
    then show ?thesis using no by (auto simp: decode_rune.simps Let_def split: list.split)
  next
    case (Cons c1 cs1)
    then show ?thesis
    proof (cases cs1)
      case Nil
      then show ?thesis using Cons no by (auto simp: decode_rune.simps Let_def split: list.split)
    next
      case (Cons c2 cs2)
      then show ?thesis using \<open>cs = c1 # cs1\<close> no
        by (cases cs2) (auto simp: decode_rune.simps Let_def split: list.split)
    qed
  qed
qed

lemma runes_append_ascii:
  assumes "t \<noteq> [] \<Longrightarrow> code (hd t) < 128"
  shows "runes (s @ t) = runes s @ runes t"
proof (cases t)
  case (Cons a t')
  then have a: "code a < 128" using assms by simp
  show ?thesis unfolding Cons
  proof (induction s rule: runes.induct)
    case (2 c cs)
    define rw where "rw = decode_rune (c # cs)"
    have w: "snd rw - 1 \<le> length cs"
      using decode_rune_width [of "c # cs"] by (simp add: rw_def) linarith
    have "runes ((c # cs) @ a # t') = rw # runes (drop (snd rw - 1) cs @ a # t')"
      using decode_rune_before_ascii [OF a, of c cs t'] w
      by (cases rw) (auto simp: rw_def [symmetric] Let_def)
    also have "\<dots> = rw # runes (drop (snd rw - 1) cs) @ runes (a # t')"
      using 2 [of rw "fst rw" "snd rw"] by (simp add: rw_def del: runes.simps)
    finally show ?case by (simp add: rw_def Let_def split: prod.split)
  qed simp
qed simp

section \<open>The grammar\<close>

definition base_rune :: "unicode \<Rightarrow> nat \<Rightarrow> bool" where
  "base_rune u r \<longleftrightarrow> is_letter u r \<or> is_number u r"

definition token_rune :: "unicode \<Rightarrow> nat \<Rightarrow> bool" where
  "token_rune u r \<longleftrightarrow> base_rune u r \<or> is_mark u r"

fun hyphen_tokens :: "nat list \<Rightarrow> nat list list" where
  "hyphen_tokens [] = [[]]"
| "hyphen_tokens (r # rs) =
     (if r = 45 then [] # hyphen_tokens rs
      else (case hyphen_tokens rs of [] \<Rightarrow> [[r]] | t # ts \<Rightarrow> (r # t) # ts))"

definition slug_token :: "unicode \<Rightarrow> nat list \<Rightarrow> bool" where
  "slug_token u t \<longleftrightarrow> t \<noteq> [] \<and> base_rune u (hd t) \<and> list_all (token_rune u) t"

definition slug_shape :: "unicode \<Rightarrow> nat list \<Rightarrow> bool" where
  "slug_shape u rs \<longleftrightarrow> list_all (slug_token u) (hyphen_tokens rs) \<and> base_rune u (last rs)"

text \<open>What the code relies on in the Unicode tables: NUL and the hyphen are neither letters, numbers nor marks, digits are numbers.\<close>

definition unicode_ascii :: "unicode \<Rightarrow> bool" where
  "unicode_ascii u \<longleftrightarrow> \<not> base_rune u 0 \<and> \<not> token_rune u 45 \<and> (\<forall>r \<in> {48..57}. is_number u r)"

lemma hyphen_tokens_not_empty [simp]: "hyphen_tokens rs \<noteq> []"
  by (cases rs) (auto split: list.split)

lemma hyphen_tokens_append: "hyphen_tokens (rs @ 45 # ss) = hyphen_tokens rs @ hyphen_tokens ss"
proof (induction rs)
  case (Cons r rs)
  then show ?case by (cases "hyphen_tokens rs") auto
qed simp

lemma hyphen_tokens_none: "45 \<notin> set rs \<Longrightarrow> hyphen_tokens rs = [rs]"
  by (induction rs) auto

text \<open>The state of the loop: whether the current token has a base, and the previous rune.\<close>

definition rest_ok :: "unicode \<Rightarrow> bool \<Rightarrow> nat list list \<Rightarrow> bool" where
  "rest_ok u b ts \<longleftrightarrow> (if b then list_all (token_rune u) (hd ts) else slug_token u (hd ts)) \<and> list_all (slug_token u) (tl ts)"

lemma grammar_loop_rest:
  assumes "unicode_ascii u" "b \<or> \<not> base_rune u p"
  shows "grammar_loop u b p rs = Inr () \<longleftrightarrow> rest_ok u b (hyphen_tokens rs) \<and> base_rune u (last (p # rs))"
  using assms(2)
proof (induction rs arbitrary: b p)
  case Nil
  then show ?case by (auto simp: rest_ok_def base_rune_def slug_token_def)
next
  case (Cons r rs)
  obtain t ts where ts: "hyphen_tokens rs = t # ts" by (cases "hyphen_tokens rs") auto
  have hyphen: "\<not> base_rune u 45" "\<not> is_mark u 45" using assms(1) by (auto simp: unicode_ascii_def token_rune_def)
  consider (base) "base_rune u r" | (mark) "\<not> base_rune u r" "is_mark u r" | (hyphen) "r = 45"
    | (other) "\<not> token_rune u r" "r \<noteq> 45" by (auto simp: token_rune_def)
  then show ?case
  proof cases
    case base
    then have "r \<noteq> 45" "grammar_loop u b p (r # rs) = grammar_loop u True r rs"
      using hyphen by (auto simp: base_rune_def)
    then show ?thesis using Cons.IH [of True r] base ts by (auto simp: rest_ok_def slug_token_def token_rune_def)
  next
    case mark
    then have "r \<noteq> 45" "grammar_loop u b p (r # rs) = (if b then grammar_loop u True r rs else Inl (SpaceError ErrSpaceSlugUnsupported))"
      using hyphen by (auto simp: base_rune_def)
    then show ?thesis using Cons.IH [of True r] mark ts by (auto simp: rest_ok_def slug_token_def token_rune_def)
  next
    case hyphen
    then have "grammar_loop u b p (r # rs) = (if b then grammar_loop u False r rs else Inl (SpaceError ErrSpaceSlugUnsupported))"
      using \<open>\<not> base_rune u 45\<close> \<open>\<not> is_mark u 45\<close> by (simp add: base_rune_def)
    then show ?thesis using Cons.IH [of False r] hyphen \<open>\<not> base_rune u 45\<close> ts
      by (auto simp: rest_ok_def slug_token_def)
  next
    case other
    then have "grammar_loop u b p (r # rs) = Inl (SpaceError ErrSpaceSlugUnsupported)"
      by (simp add: token_rune_def base_rune_def)
    then show ?thesis using other ts by (auto simp: rest_ok_def slug_token_def)
  qed
qed

lemma validateSlugGrammar_shape:
  assumes "unicode_ascii u"
  shows "validateSlugGrammar u slug = Inr () \<longleftrightarrow> slug_shape u (map fst (runes slug))"
proof (cases "slug = []")
  case True
  then show ?thesis by (simp add: validateSlugGrammar_def slug_shape_def slug_token_def)
next
  case False
  then have rs: "map fst (runes slug) \<noteq> []" by (cases slug) (simp_all add: Let_def split: prod.split)
  have zero: "\<not> base_rune u 0" using assms by (simp add: unicode_ascii_def)
  obtain t ts where "hyphen_tokens (map fst (runes slug)) = t # ts" by (cases "hyphen_tokens (map fst (runes slug))") auto
  then show ?thesis
    using False rs grammar_loop_rest [OF assms, of False 0 "map fst (runes slug)"] zero
    by (auto simp: validateSlugGrammar_def slug_shape_def rest_ok_def)
qed

section \<open>The slug of a name\<close>

lemma itoa_decimal: "list_all (\<lambda>c. 48 \<le> code c \<and> code c \<le> 57) (itoa n)" "itoa n \<noteq> []"
proof (induction n rule: itoa.induct)
  case (1 n)
  { case 1 then show ?case using "1.IH"(1) by (subst itoa.simps) (auto) }
  { case 2 then show ?case by (subst itoa.simps) simp }
qed

lemma suffixed_shape:
  assumes "unicode_ascii u" "slug_shape u (map fst (runes slug))"
  shows "slug_shape u (map fst (runes (slug @ ''-'' @ itoa n)))"
proof -
  let ?ds = "map code (itoa n)"
  have ascii: "list_all (\<lambda>c. 0 < code c \<and> code c < 128) (''-'' @ itoa n)"
    using itoa_decimal(1) [of n] by (auto simp: list_all_iff)
  have "map fst (runes (slug @ ''-'' @ itoa n)) = map fst (runes slug) @ 45 # ?ds"
    using runes_append_ascii [of "''-'' @ itoa n" slug] runes_ascii [OF ascii] by (simp add: comp_def)
  moreover have "base_rune u r \<and> r \<noteq> 45" if "r \<in> set ?ds" for r
    using that itoa_decimal(1) [of n] assms(1) by (auto simp: list_all_iff unicode_ascii_def base_rune_def)
  moreover from this have "hd ?ds \<in> set ?ds" "last ?ds \<in> set ?ds"
    using itoa_decimal(2) [of n] by (simp_all del: set_map)
  ultimately have "hyphen_tokens ?ds = [?ds]" "slug_token u ?ds" "base_rune u (last ?ds)"
    and "map fst (runes (slug @ ''-'' @ itoa n)) = map fst (runes slug) @ 45 # ?ds"
    using itoa_decimal(2) [of n] by (auto simp: slug_token_def list_all_iff token_rune_def simp del: set_map intro!: hyphen_tokens_none)
  then show ?thesis
    using assms(2) itoa_decimal(2) [of n] by (simp add: slug_shape_def hyphen_tokens_append)
qed

text \<open>
  The slug of a Space is made of tokens joined by single hyphens, each beginning with a letter or
  number and continuing with letters, numbers and marks; it ends in a letter or number, has at
  most 32 characters, mixes scripts only as allowed, and the name is the trimmed input, of 1 to
  80 characters.
\<close>

theorem slug_has_normal_form:
  assumes "NormalizeSpaceName u value k = Inr (name, slug)" "unicode_ascii u"
  shows "slug_shape u (map fst (runes slug)) \<and> rune_count slug \<le> 32
    \<and> name = trim_space value \<and> name \<noteq> [] \<and> rune_count name \<le> 80 \<and> (k = 0 \<or> 2 \<le> k \<and> k \<le> 9999)"
  using assms suffixed_shape [OF assms(2)]
  by (auto simp: NormalizeSpaceName_def Let_def validateSlugGrammar_shape MaxSpaceNameCodePoints_def MaxSpaceSlugCodePoints_def
      MaxSpaceSlugSuffix_def split: if_split_asm option.split_asm sum.split_asm)

end
