(* ===== verification/Space_Store.thy ===== *)
theory Space_Store
  imports Space_Rules Agent_Store
begin

text \<open>
  Spaces and their members in the database: \<open>internal/postgres/space_creation.go\<close> and
  \<open>membership.go\<close> with the statements of \<open>dbsqlc/space_creation.sql.go\<close>, \<open>membership.sql.go\<close> and
  the two member statements of \<open>agent.sql.go\<close>. Removing a member hands the Works they own to the
  named successor, retires their Agents and revokes the membership, in one transaction.
\<close>

section \<open>Statements of Space creation\<close>

definition membership_key :: "membership_row \<Rightarrow> uuid \<times> uuid" where
  "membership_key m = (mb_SpaceID m, mb_UserID m)"

definition new_membership :: "env \<Rightarrow> uuid \<Rightarrow> uuid \<Rightarrow> bool \<Rightarrow> bool \<Rightarrow> membership_row" where
  "new_membership E spaceID userID canManage canEnroll =
     \<lparr>mb_SpaceID = spaceID, mb_UserID = userID, mb_CanEnrollMachines = canEnroll, mb_Version = 1,
      mb_CreatedAt = tx_time E, mb_RevokedAt = None, mb_CanManageMembers = canManage, mb_RemovedByUserID = None,
      mb_RemovalSuccessorUserID = None, mb_RemovalIdempotencyKey = None, mb_RemovalRequestDigest = None\<rparr>"

definition insert_membership :: "membership_row \<Rightarrow> db \<Rightarrow> db_error + (unit \<times> db)" where
  "insert_membership m d =
     (if key_taken membership_key (\<lambda>_. True) (membership_key m) (memberships d)
      then Inl (Unique_violation ''space_memberships_pkey'')
      else if \<not> exists_where (\<lambda>s. sp_SpaceID s = mb_SpaceID m) (spaces d)
      then Inl (Foreign_key_violation ''space_memberships_space_id_fkey'')
      else if \<not> exists_where (\<lambda>u. u_UserID u = mb_UserID m) (carry_users d)
      then Inl (Foreign_key_violation ''space_memberships_user_id_fkey'')
      else Inr ((), d\<lparr>memberships := memberships d @ [m]\<rparr>))"

definition sql_CreateSpaceMembership :: "env \<Rightarrow> uuid \<Rightarrow> uuid \<Rightarrow> db \<Rightarrow> db_error + (unit \<times> db)" where
  "sql_CreateSpaceMembership E spaceID userID = insert_membership (new_membership E spaceID userID True True)"

definition sql_LockSpaceCreator :: "uuid \<Rightarrow> db \<Rightarrow> uuid option" where
  "sql_LockSpaceCreator userID d = map_option u_UserID (user_of userID d)"

definition creator_request :: "space_row \<Rightarrow> uuid option \<times> string option" where
  "creator_request s = (sp_CreatedByUserID s, sp_CreateIdempotencyKey s)"

definition sql_LoadCreatedSpaceByRequest :: "uuid \<Rightarrow> string \<Rightarrow> db \<Rightarrow> (space_row \<times> membership_row) option" where
  "sql_LoadCreatedSpaceByRequest userID key d =
     first_row (List.map_filter (\<lambda>s.
         map_option (\<lambda>m. (s, m)) (first_where (\<lambda>m. mb_SpaceID m = sp_SpaceID s \<and> sp_CreatedByUserID s = Some (mb_UserID m)) (memberships d)))
       (filter (\<lambda>s. creator_request s = (Some userID, Some key)) (spaces d)))"

definition new_space :: "env \<Rightarrow> uuid \<Rightarrow> create_space_command \<Rightarrow> space_row" where
  "new_space E userID command =
     \<lparr>sp_SpaceID = csc_SpaceID command, sp_Name = csc_Name command, sp_CreatedAt = tx_time E,
      sp_CreatedByUserID = Some userID, sp_CreateIdempotencyKey = Some (csc_IdempotencyKey command),
      sp_CreateRequestDigest = Some (csc_RequestDigest command), sp_Slug = csc_Slug command\<rparr>"

definition sql_CreateSpace :: "space_row \<Rightarrow> db \<Rightarrow> db_error + (unit \<times> db)" where
  "sql_CreateSpace s d =
     (if sp_Name s = [] then Inl (Check_violation ''spaces_name_check'')
      else if rune_count (sp_Slug s) < 1 \<or> rune_count (sp_Slug s) > 32 then Inl (Check_violation ''spaces_slug_length_check'')
      else if textValue (sp_CreateIdempotencyKey s) = [] \<or> length (textValue (sp_CreateIdempotencyKey s)) > 255
        \<or> length (textValue (sp_CreateRequestDigest s)) \<noteq> 32
      then Inl (Check_violation ''spaces_create_request_complete'')
      else if key_taken sp_SpaceID (\<lambda>_. True) (sp_SpaceID s) (spaces d) then Inl (Unique_violation ''spaces_pkey'')
      else if key_taken creator_request (\<lambda>_. True) (creator_request s) (spaces d)
      then Inl (Unique_violation ''spaces_creator_request_unique'')
      else if key_taken sp_Slug (\<lambda>_. True) (sp_Slug s) (spaces d) then Inl (Unique_violation ''spaces_slug_unique'')
      else Inr ((), d\<lparr>spaces := spaces d @ [s]\<rparr>))"

section \<open>Creating a Space\<close>

definition isSlugUniqueViolation :: "db_error \<Rightarrow> bool" where
  "isSlugUniqueViolation e \<longleftrightarrow> e = Unique_violation ''spaces_slug_unique''"

definition restoreCreatedSpace :: "space_row \<times> membership_row \<Rightarrow> created_space" where
  "restoreCreatedSpace = (\<lambda>(s, m). \<lparr>cs_SpaceID = sp_SpaceID s, cs_Name = sp_Name s, cs_Slug = sp_Slug s,
     cs_CanManageMembers = mb_CanManageMembers m, cs_CanEnrollMachines = mb_CanEnrollMachines m\<rparr>)"

definition CreateSpace_tx :: "unicode \<Rightarrow> create_space_command \<Rightarrow> (db, created_space) tx" where
  "CreateSpace_tx u command =
     bind_tx (query_one (SpaceError ErrForbidden) (\<lambda>E now. sql_LockSpaceCreator (csc_UserID command))) (\<lambda>lockedUserID.
     bind_tx (postgresUUID MissingArgument lockedUserID) (\<lambda>userID.
     bind_tx (query (\<lambda>E now. sql_LoadCreatedSpaceByRequest userID (csc_IdempotencyKey command))) (\<lambda>found.
     case found of
       Some existing \<Rightarrow>
         if sp_CreateRequestDigest (fst existing) \<noteq> Some (csc_RequestDigest command) then fail (SpaceError ErrCommandConflict)
         else ret (restoreCreatedSpace existing)
     | None \<Rightarrow>
         bind_tx (try_modify (\<lambda>E now. sql_CreateSpace (new_space E userID command))) (\<lambda>created.
         case created of
           Inl e \<Rightarrow> fail (if isSlugUniqueViolation e then NewSlugConflictError u command else DatabaseError e)
         | Inr _ \<Rightarrow>
             bind_tx (insert_row (\<lambda>E now. sql_CreateSpaceMembership E (csc_SpaceID command) (csc_UserID command))) (\<lambda>_.
             ret \<lparr>cs_SpaceID = csc_SpaceID command, cs_Name = csc_Name command, cs_Slug = csc_Slug command,
                  cs_CanManageMembers = True, cs_CanEnrollMachines = True\<rparr>)))))"

definition CreateSpace :: "unicode \<Rightarrow> create_space_command \<Rightarrow> env \<Rightarrow> db \<Rightarrow> (carry_error + created_space) \<times> db" where
  "CreateSpace u command = transact (CreateSpace_tx u command)"

section \<open>Statements on members\<close>

definition sql_ListMemberships :: "uuid \<Rightarrow> db \<Rightarrow> (membership_row \<times> space_row) list" where
  "sql_ListMemberships userID d =
     order_by (\<lambda>(m, s). (sp_Name s, mb_SpaceID m)) (List.map_filter
       (\<lambda>m. map_option (Pair m) (first_where (\<lambda>s. sp_SpaceID s = mb_SpaceID m) (spaces d)))
       (filter (\<lambda>m. mb_UserID m = userID \<and> mb_RevokedAt m = None) (memberships d)))"

definition sql_LockInvitationActorMembership :: "uuid \<Rightarrow> uuid \<Rightarrow> db \<Rightarrow> membership_row option" where
  "sql_LockInvitationActorMembership spaceID userID d = first_where (active_membership spaceID userID) (memberships d)"

definition sql_SpaceMemberCursor :: "uuid \<Rightarrow> uuid \<Rightarrow> db \<Rightarrow> timestamp option" where
  "sql_SpaceMemberCursor spaceID userID d =
     map_option mb_CreatedAt (first_where (active_membership spaceID userID) (memberships d))"

definition open_work_count :: "db \<Rightarrow> membership_row \<Rightarrow> int" where
  "open_work_count d m = count_where
     (\<lambda>w. w_SpaceID w = mb_SpaceID m \<and> w_OwnerUserID w = mb_UserID m \<and> w_Lifecycle w = LifecycleOpen) (works d)"

definition member_order :: "membership_row \<Rightarrow> timestamp \<times> uuid" where
  "member_order m = (mb_CreatedAt m, mb_UserID m)"

definition member_and_user :: "db \<Rightarrow> membership_row \<Rightarrow> (membership_row \<times> user_row) option" where
  "member_and_user d m = map_option (Pair m) (user_of (mb_UserID m) d)"

definition sql_ListActiveSpaceMembers :: "uuid \<Rightarrow> timestamp \<times> uuid \<Rightarrow> db \<Rightarrow> (membership_row \<times> user_row \<times> int) list" where
  "sql_ListActiveSpaceMembers spaceID cursor d =
     take 51 (map (\<lambda>(m, u). (m, u, open_work_count d m)) (List.map_filter (member_and_user d)
       (order_by member_order (filter (\<lambda>m. mb_SpaceID m = spaceID \<and> mb_RevokedAt m = None
          \<and> cursor < member_order m) (memberships d)))))"

section \<open>Listing\<close>

record space_membership =
  sms_SpaceID :: uuid
  sms_Name :: string
  sms_Slug :: string
  sms_CanManageMembers :: bool
  sms_CanEnrollMachines :: bool

definition ListMemberships :: "uuid \<Rightarrow> env \<Rightarrow> db \<Rightarrow> (carry_error + space_membership list) \<times> db" where
  "ListMemberships userID E d =
     (case query (\<lambda>E now. sql_ListMemberships userID) E d 0 of
        Inl e \<Rightarrow> (Inl e, d)
      | Inr (rows, d', n) \<Rightarrow>
          (Inr (map (\<lambda>(m, s). \<lparr>sms_SpaceID = mb_SpaceID m, sms_Name = sp_Name s, sms_Slug = sp_Slug s,
             sms_CanManageMembers = mb_CanManageMembers m, sms_CanEnrollMachines = mb_CanEnrollMachines m\<rparr>) rows), d'))"

definition nil_uuid :: uuid where
  "nil_uuid = ''00000000-0000-0000-0000-000000000000''"

definition listed_member :: "membership_row \<times> user_row \<times> int \<Rightarrow> space_member" where
  "listed_member = (\<lambda>(m, u, open). \<lparr>sm_UserID = mb_UserID m, sm_DisplayName = u_DisplayName u,
     sm_CanManageMembers = mb_CanManageMembers m, sm_CanEnrollMachines = mb_CanEnrollMachines m,
     sm_OpenWorkCount = open, sm_JoinedAt = mb_CreatedAt m\<rparr>)"

definition member_page_of :: "space_member list \<Rightarrow> member_page" where
  "member_page_of members =
     (if length members > MemberPageSize
      then (let page = take MemberPageSize members in \<lparr>mp_Members = page, mp_NextCursor = sm_UserID (last page)\<rparr>)
      else \<lparr>mp_Members = members, mp_NextCursor = []\<rparr>)"

definition ListSpaceMembers_tx :: "list_members_command \<Rightarrow> (db, member_page) tx" where
  "ListSpaceMembers_tx command =
     bind_tx (query_one (SpaceError ErrForbidden)
       (\<lambda>E now. sql_LockInvitationActorMembership (lmc_SpaceID command) (lmc_ActorUserID command))) (\<lambda>_.
     bind_tx (if lmc_AfterUserID command = [] then ret (0, nil_uuid)
              else bind_tx (query_one (SpaceError ErrInvalidMemberCursor)
                (\<lambda>E now. sql_SpaceMemberCursor (lmc_SpaceID command) (lmc_AfterUserID command))) (\<lambda>t.
                ret (t, lmc_AfterUserID command))) (\<lambda>cursor.
     bind_tx (query (\<lambda>E now. sql_ListActiveSpaceMembers (lmc_SpaceID command) cursor)) (\<lambda>rows.
     ret (member_page_of (map listed_member rows)))))"

definition ListSpaceMembers :: "list_members_command \<Rightarrow> env \<Rightarrow> db \<Rightarrow> (carry_error + member_page) \<times> db" where
  "ListSpaceMembers command E =
     checked (guard (uuid_valid E (lmc_ActorUserID command) \<and> uuid_valid E (lmc_SpaceID command)) (SpaceError ErrForbidden)) (\<lambda>_.
     checked (guard (lmc_AfterUserID command = [] \<or> uuid_valid E (lmc_AfterUserID command)) (SpaceError ErrInvalidMemberCursor)) (\<lambda>_.
     transact (ListSpaceMembers_tx command))) E"

section \<open>Statements of a removal\<close>

definition sql_LockSpaceForMemberRemoval :: "uuid \<Rightarrow> db \<Rightarrow> uuid option" where
  "sql_LockSpaceForMemberRemoval spaceID d = map_option sp_SpaceID (first_where (\<lambda>s. sp_SpaceID s = spaceID) (spaces d))"

definition removal_key :: "membership_row \<Rightarrow> uuid \<times> uuid option \<times> string option" where
  "removal_key m = (mb_SpaceID m, mb_RemovedByUserID m, mb_RemovalIdempotencyKey m)"

text \<open>A comparison with a NULL \<open>removed_by_user_id\<close> holds of no row.\<close>

definition sql_LoadMemberRemovalReplay :: "uuid \<Rightarrow> uuid option \<Rightarrow> string \<Rightarrow> db \<Rightarrow> membership_row option" where
  "sql_LoadMemberRemovalReplay spaceID actorUserID key d =
     first_where (\<lambda>m. actorUserID \<noteq> None \<and> removal_key m = (spaceID, actorUserID, Some key)) (memberships d)"

definition sql_LockMembershipForRemoval :: "uuid \<Rightarrow> uuid \<Rightarrow> db \<Rightarrow> membership_row option" where
  "sql_LockMembershipForRemoval spaceID userID d =
     first_where (\<lambda>m. mb_SpaceID m = spaceID \<and> mb_UserID m = userID) (memberships d)"

definition active_in :: "uuid \<Rightarrow> membership_row \<Rightarrow> bool" where
  "active_in spaceID m \<longleftrightarrow> mb_SpaceID m = spaceID \<and> mb_RevokedAt m = None"

definition sql_CountActiveSpaceAuthorities :: "uuid \<Rightarrow> db \<Rightarrow> int \<times> int" where
  "sql_CountActiveSpaceAuthorities spaceID d =
     (count_where (\<lambda>m. active_in spaceID m \<and> mb_CanManageMembers m) (memberships d),
      count_where (\<lambda>m. active_in spaceID m \<and> mb_CanEnrollMachines m) (memberships d))"

definition open_work_of :: "uuid \<Rightarrow> uuid \<Rightarrow> work_row \<Rightarrow> bool" where
  "open_work_of spaceID userID w \<longleftrightarrow> w_SpaceID w = spaceID \<and> w_OwnerUserID w = userID \<and> w_Lifecycle w = LifecycleOpen"

definition sql_LockOpenWorksOwnedByMember :: "uuid \<Rightarrow> uuid \<Rightarrow> db \<Rightarrow> uuid list" where
  "sql_LockOpenWorksOwnedByMember spaceID userID d =
     map w_WorkID (order_by w_WorkID (filter (open_work_of spaceID userID) (works d)))"

definition sql_TransferRemovedMemberOpenWorks :: "uuid \<Rightarrow> uuid \<Rightarrow> uuid \<Rightarrow> db \<Rightarrow> int \<times> db" where
  "sql_TransferRemovedMemberOpenWorks successorUserID spaceID targetUserID d =
     (count_where (open_work_of spaceID targetUserID) (works d),
      d\<lparr>works := update_where (open_work_of spaceID targetUserID) (\<lambda>w. w\<lparr>w_OwnerUserID := successorUserID\<rparr>) (works d)\<rparr>)"

definition owned_agent :: "uuid \<Rightarrow> uuid \<Rightarrow> agent_row \<Rightarrow> bool" where
  "owned_agent spaceID ownerUserID a \<longleftrightarrow> ag_SpaceID a = spaceID \<and> ag_OwnerUserID a = ownerUserID \<and> ag_RemovedAt a = None"

definition sql_LockActiveAgentsForOwnerRemoval :: "uuid \<Rightarrow> uuid \<Rightarrow> db \<Rightarrow> uuid list" where
  "sql_LockActiveAgentsForOwnerRemoval spaceID ownerUserID d =
     map ag_AgentID (order_by ag_AgentID (filter (owned_agent spaceID ownerUserID) (agents d)))"

definition sql_RemoveActiveAgentsForOwner :: "env \<Rightarrow> uuid \<Rightarrow> uuid \<Rightarrow> db \<Rightarrow> unit \<times> db" where
  "sql_RemoveActiveAgentsForOwner E spaceID ownerUserID d =
     ((), d\<lparr>agents := update_where (owned_agent spaceID ownerUserID) (\<lambda>a. a\<lparr>ag_RemovedAt := Some (tx_time E)\<rparr>) (agents d),
            agent_presence := update_where
              (\<lambda>p. exists_where (\<lambda>a. ag_AgentID a = pr_AgentID p \<and> owned_agent spaceID ownerUserID a) (agents d))
              (\<lambda>p. p\<lparr>pr_Present := False\<rparr>) (agent_presence d)\<rparr>)"

definition revoked_membership :: "env \<Rightarrow> uuid option \<Rightarrow> uuid option \<Rightarrow> string \<Rightarrow> bytes \<Rightarrow> membership_row \<Rightarrow> membership_row" where
  "revoked_membership E actorUserID successorUserID key digest m = m\<lparr>mb_RevokedAt := Some (tx_time E),
     mb_Version := mb_Version m + 1, mb_RemovedByUserID := actorUserID, mb_RemovalSuccessorUserID := successorUserID,
     mb_RemovalIdempotencyKey := Some key, mb_RemovalRequestDigest := Some digest\<rparr>"

definition removal_shape_ok :: "uuid option \<Rightarrow> uuid \<Rightarrow> uuid option \<Rightarrow> string \<Rightarrow> bytes \<Rightarrow> bool" where
  "removal_shape_ok actorUserID targetUserID successorUserID key digest \<longleftrightarrow> actorUserID \<noteq> None
     \<and> key \<noteq> [] \<and> length key \<le> 255 \<and> length digest = 32 \<and> successorUserID \<noteq> Some targetUserID"

definition sql_RevokeSpaceMembership ::
    "env \<Rightarrow> uuid option \<Rightarrow> uuid option \<Rightarrow> string \<Rightarrow> bytes \<Rightarrow> uuid \<Rightarrow> uuid \<Rightarrow> db \<Rightarrow> db_error + (int \<times> db)" where
  "sql_RevokeSpaceMembership E actorUserID successorUserID key digest spaceID targetUserID d =
     (let P = active_membership spaceID targetUserID in
      if \<not> exists_where P (memberships d) then Inr (0, d)
      else if \<not> removal_shape_ok actorUserID targetUserID successorUserID key digest
      then Inl (Check_violation ''space_memberships_removal_replay_shape_check'')
      else if exists_where (\<lambda>m. P m \<and> tx_time E < mb_CreatedAt m) (memberships d) then Inl (Check_violation ''space_memberships_check'')
      else if exists_where (\<lambda>m. removal_key m = (spaceID, actorUserID, Some key)) (memberships d)
      then Inl (Unique_violation ''space_memberships_removal_replay_key'')
      else if successorUserID \<noteq> None \<and> \<not> exists_where (\<lambda>m. mb_SpaceID m = spaceID \<and> Some (mb_UserID m) = successorUserID) (memberships d)
      then Inl (Foreign_key_violation ''space_memberships_removal_successor_fkey'')
      else if \<not> exists_where (\<lambda>u. Some (u_UserID u) = actorUserID) (carry_users d)
      then Inl (Foreign_key_violation ''space_memberships_removed_by_user_id_fkey'')
      else Inr (count_where P (memberships d), d\<lparr>memberships :=
             update_where P (revoked_membership E actorUserID successorUserID key digest) (memberships d)\<rparr>))"

section \<open>Removing a member\<close>

text \<open>\<open>postgresUUID\<close> with its error dropped: NULL if the text is no UUID.\<close>

definition optional_uuid :: "string \<Rightarrow> env \<Rightarrow> uuid option" where
  "optional_uuid value E = (if uuid_parse E value then Some value else None)"

text \<open>The participants' memberships, locked in the order of their users.\<close>

fun lock_participants :: "uuid \<Rightarrow> uuid list \<Rightarrow> (uuid \<Rightarrow> membership_row option) \<Rightarrow> (db, uuid \<Rightarrow> membership_row option) tx" where
  "lock_participants spaceID [] found = ret found"
| "lock_participants spaceID (userID # userIDs) found =
     (if found userID \<noteq> None then lock_participants spaceID userIDs found
      else bind_tx (query (\<lambda>E now. sql_LockMembershipForRemoval spaceID userID)) (\<lambda>row.
        lock_participants spaceID userIDs (found(userID := row))))"

text \<open>Who may remove whom, and to whom the Works may go.\<close>

definition removal_authority :: "remove_member_command \<Rightarrow> (uuid \<Rightarrow> membership_row option) \<Rightarrow> carry_error + membership_row" where
  "removal_authority command found =
     (case found (rmc_ActorUserID command) of
        None \<Rightarrow> Inl (SpaceError ErrForbidden)
      | Some actor \<Rightarrow>
          if mb_RevokedAt actor \<noteq> None \<or> \<not> mb_CanManageMembers actor then Inl (SpaceError ErrForbidden)
          else (case found (rmc_TargetUserID command) of
                  None \<Rightarrow> Inl (SpaceError ErrMemberUnavailable)
                | Some target \<Rightarrow>
                    if mb_RevokedAt target \<noteq> None then Inl (SpaceError ErrMemberUnavailable)
                    else if rmc_SuccessorUserID command = [] then Inr target
                    else (case found (rmc_SuccessorUserID command) of
                            None \<Rightarrow> Inl (SpaceError ErrRemovalSuccessorInvalid)
                          | Some successor \<Rightarrow>
                              if rmc_SuccessorUserID command = rmc_TargetUserID command \<or> mb_RevokedAt successor \<noteq> None
                              then Inl (SpaceError ErrRemovalSuccessorInvalid) else Inr target)))"

definition transfer_works :: "remove_member_command \<Rightarrow> uuid list \<Rightarrow> (db, unit) tx" where
  "transfer_works command workIDs =
     (if workIDs = [] then ret ()
      else bind_tx (modify (\<lambda>E now. sql_TransferRemovedMemberOpenWorks (rmc_SuccessorUserID command)
             (rmc_SpaceID command) (rmc_TargetUserID command))) (\<lambda>updated.
           require (updated = int (length workIDs)) Mismatch))"

text \<open>Everything a removal requires, up to the Works it hands over.\<close>

definition removal_checks :: "remove_member_command \<Rightarrow> (db, uuid list) tx" where
  "removal_checks command =
     bind_tx (lock_participants (rmc_SpaceID command) (sort ([rmc_ActorUserID command, rmc_TargetUserID command]
       @ (if rmc_SuccessorUserID command = [] then [] else [rmc_SuccessorUserID command]))) (\<lambda>_. None)) (\<lambda>found.
     bind_tx (lift (removal_authority command found)) (\<lambda>target.
     bind_tx (query (\<lambda>E now. sql_CountActiveSpaceAuthorities (rmc_SpaceID command))) (\<lambda>authorities.
     bind_tx (require (\<not> (mb_CanManageMembers target \<and> fst authorities \<le> 1)) (SpaceError ErrLastMemberManager)) (\<lambda>_.
     bind_tx (require (\<not> (mb_CanEnrollMachines target \<and> snd authorities \<le> 1)) (SpaceError ErrLastMachineEnroller)) (\<lambda>_.
     bind_tx (query (\<lambda>E now. sql_LockOpenWorksOwnedByMember (rmc_SpaceID command) (rmc_TargetUserID command))) (\<lambda>workIDs.
     bind_tx (require (\<not> (workIDs = [] \<and> rmc_SuccessorUserID command \<noteq> [])) (SpaceError ErrRemovalSuccessorUnexpected)) (\<lambda>_.
     bind_tx (require (\<not> (workIDs \<noteq> [] \<and> rmc_SuccessorUserID command = [])) (SpaceError ErrRemovalSuccessorRequired)) (\<lambda>_.
     ret workIDs))))))))"

definition remove_member_now :: "remove_member_command \<Rightarrow> uuid option \<Rightarrow> (db, unit) tx" where
  "remove_member_now command actorUUID =
     bind_tx (removal_checks command) (\<lambda>workIDs.
     bind_tx (transfer_works command workIDs) (\<lambda>_.
     bind_tx (query (\<lambda>E now. sql_LockActiveAgentsForOwnerRemoval (rmc_SpaceID command) (rmc_TargetUserID command))) (\<lambda>_.
     bind_tx (modify (\<lambda>E now. sql_RemoveActiveAgentsForOwner E (rmc_SpaceID command) (rmc_TargetUserID command))) (\<lambda>_.
     bind_tx (insert_row (\<lambda>E now. sql_RevokeSpaceMembership E actorUUID
         (if rmc_SuccessorUserID command = [] then None else optional_uuid (rmc_SuccessorUserID command) E)
         (rmc_IdempotencyKey command) (rmc_RequestDigest command) (rmc_SpaceID command) (rmc_TargetUserID command))) (\<lambda>updated.
     require (updated = 1) (SpaceError ErrMemberUnavailable))))))"

definition RemoveSpaceMember_tx :: "remove_member_command \<Rightarrow> (db, unit) tx" where
  "RemoveSpaceMember_tx command =
     bind_tx (query_one (SpaceError ErrMemberUnavailable) (\<lambda>E now. sql_LockSpaceForMemberRemoval (rmc_SpaceID command))) (\<lambda>_.
     bind_tx (ask (optional_uuid (rmc_ActorUserID command))) (\<lambda>actorUUID.
     bind_tx (query (\<lambda>E now. sql_LoadMemberRemovalReplay (rmc_SpaceID command) actorUUID
       (rmc_IdempotencyKey command))) (\<lambda>replay.
     case replay of
       Some row \<Rightarrow>
         require (mb_UserID row = rmc_TargetUserID command
           \<and> uuidValue (mb_RemovalSuccessorUserID row) = rmc_SuccessorUserID command
           \<and> mb_RemovalRequestDigest row = Some (rmc_RequestDigest command)) (SpaceError ErrCommandConflict)
     | None \<Rightarrow> remove_member_now command actorUUID)))"

definition RemoveSpaceMember :: "remove_member_command \<Rightarrow> env \<Rightarrow> db \<Rightarrow> (carry_error + unit) \<times> db" where
  "RemoveSpaceMember command E =
     (case NewRemoveMemberCommand E \<lparr>rmq_SpaceID = rmc_SpaceID command, rmq_ActorUserID = rmc_ActorUserID command,
         rmq_TargetUserID = rmc_TargetUserID command, rmq_SuccessorUserID = rmc_SuccessorUserID command,
         rmq_IdempotencyKey = rmc_IdempotencyKey command\<rparr> of
        Inl e \<Rightarrow> \<lambda>d. (Inl (SpaceError ErrInvalidMemberRemoval), d)
      | Inr validated \<Rightarrow>
          if rmc_RequestDigest validated \<noteq> rmc_RequestDigest command
          then (\<lambda>d. (Inl (SpaceError ErrInvalidMemberRemoval), d))
          else transact (RemoveSpaceMember_tx command) E)"

end
