(* ===== verification/Space_State.thy ===== *)
theory Space_State
  imports Space_Store Execution_State
begin

text \<open>
  The Space store's effects on the database and the invariants it keeps: memberships and Spaces
  have unique keys, every Space has an active member who manages members and one who enrolls
  Machines, and whoever owns an open Work is an active member of its Space.
\<close>

section \<open>Invariants\<close>

definition membership_row_ok :: "membership_row \<Rightarrow> bool" where
  "membership_row_ok m \<longleftrightarrow> 0 < mb_Version m
     \<and> (if mb_RemovalIdempotencyKey m = None
        then mb_RemovedByUserID m = None \<and> mb_RemovalSuccessorUserID m = None \<and> mb_RemovalRequestDigest m = None
        else mb_RevokedAt m \<noteq> None \<and> mb_RemovedByUserID m \<noteq> None \<and> length (textValue (mb_RemovalRequestDigest m)) = 32
          \<and> mb_RemovalSuccessorUserID m \<noteq> Some (mb_UserID m))"

definition has_removal :: "membership_row \<Rightarrow> bool" where
  "has_removal m \<longleftrightarrow> mb_RemovalIdempotencyKey m \<noteq> None"

definition memberships_ok :: "space_row list \<Rightarrow> membership_row list \<Rightarrow> bool" where
  "memberships_ok ss ms \<longleftrightarrow> unique_on membership_key (\<lambda>_. True) ms \<and> unique_on removal_key has_removal ms
     \<and> (\<forall>m \<in> set ms. membership_row_ok m) \<and> (\<forall>m \<in> set ms. \<exists>s \<in> set ss. sp_SpaceID s = mb_SpaceID m)"

definition has_creator :: "space_row \<Rightarrow> bool" where
  "has_creator s \<longleftrightarrow> sp_CreatedByUserID s \<noteq> None"

definition spaces_ok :: "space_row list \<Rightarrow> bool" where
  "spaces_ok ss \<longleftrightarrow> unique_on sp_SpaceID (\<lambda>_. True) ss \<and> unique_on sp_Slug (\<lambda>_. True) ss
     \<and> unique_on creator_request has_creator ss
     \<and> (\<forall>s \<in> set ss. sp_Name s \<noteq> [] \<and> 1 \<le> rune_count (sp_Slug s) \<and> rune_count (sp_Slug s) \<le> 32)"

definition managers :: "uuid \<Rightarrow> membership_row \<Rightarrow> bool" where
  "managers spaceID m \<longleftrightarrow> active_in spaceID m \<and> mb_CanManageMembers m"

definition enrollers :: "uuid \<Rightarrow> membership_row \<Rightarrow> bool" where
  "enrollers spaceID m \<longleftrightarrow> active_in spaceID m \<and> mb_CanEnrollMachines m"

definition governed :: "space_row list \<Rightarrow> membership_row list \<Rightarrow> bool" where
  "governed ss ms \<longleftrightarrow> (\<forall>s \<in> set ss. (\<exists>m \<in> set ms. managers (sp_SpaceID s) m) \<and> (\<exists>m \<in> set ms. enrollers (sp_SpaceID s) m))"

definition space_ok :: "db \<Rightarrow> bool" where
  "space_ok d \<longleftrightarrow> spaces_ok (spaces d) \<and> memberships_ok (spaces d) (memberships d) \<and> governed (spaces d) (memberships d)"

definition owners_ok :: "db \<Rightarrow> bool" where
  "owners_ok d \<longleftrightarrow> (\<forall>w \<in> set (works d). w_Lifecycle w = LifecycleOpen \<longrightarrow> is_member (w_SpaceID w) (w_OwnerUserID w) d)"

lemma space_ok_empty: "space_ok empty_db" "owners_ok empty_db"
  by (simp_all add: space_ok_def spaces_ok_def memberships_ok_def governed_def owners_ok_def empty_db_def)

section \<open>The participants of a removal\<close>

lemma lock_participants_found:
  assumes "lock_participants s us f E d n = Inr (g, d', n')"
    and "\<And>u m. f u = Some m \<Longrightarrow> sql_LockMembershipForRemoval s u d = Some m"
  shows "d' = d \<and> (\<forall>u. g u = (if u \<in> set us then sql_LockMembershipForRemoval s u d else f u))"
  using assms
proof (induction us arbitrary: f n)
  case Nil
  then show ?case by (simp add: tx_simps)
next
  case (Cons u us)
  show ?case
  proof (cases "f u")
    case None
    then have "lock_participants s us (f(u := sql_LockMembershipForRemoval s u d)) E d (Suc n) = Inr (g, d', n')"
      using Cons.prems(1) by (auto simp: tx_simps)
    from Cons.IH [OF this] Cons.prems(2) show ?thesis by (auto split: if_splits)
  next
    case (Some m)
    then have "lock_participants s us f E d n = Inr (g, d', n')" using Cons.prems(1) by simp
    from Cons.IH [OF this] Cons.prems(2) Some show ?thesis by (auto split: if_splits)
  qed
qed

lemma removal_authority_Inr:
  "removal_authority c found = Inr target \<longleftrightarrow>
     found (rmc_TargetUserID c) = Some target \<and> mb_RevokedAt target = None
     \<and> (\<exists>actor. found (rmc_ActorUserID c) = Some actor \<and> mb_RevokedAt actor = None \<and> mb_CanManageMembers actor)
     \<and> (rmc_SuccessorUserID c \<noteq> [] \<longrightarrow> rmc_SuccessorUserID c \<noteq> rmc_TargetUserID c
          \<and> (\<exists>successor. found (rmc_SuccessorUserID c) = Some successor \<and> mb_RevokedAt successor = None))"
  by (auto simp: removal_authority_def split: option.splits if_splits)

section \<open>The effect of a removal\<close>

definition member_named :: "uuid \<Rightarrow> uuid \<Rightarrow> db \<Rightarrow> membership_row \<Rightarrow> bool" where
  "member_named spaceID userID d m \<longleftrightarrow> m \<in> set (memberships d) \<and> active_membership spaceID userID m"

definition removed_db :: "env \<Rightarrow> remove_member_command \<Rightarrow> db \<Rightarrow> db" where
  "removed_db E c d =
     (let successor = (if rmc_SuccessorUserID c = [] then None else optional_uuid (rmc_SuccessorUserID c) E) in
      d\<lparr>works := (if rmc_SuccessorUserID c = [] then works d
           else update_where (open_work_of (rmc_SpaceID c) (rmc_TargetUserID c))
             (\<lambda>w. w\<lparr>w_OwnerUserID := rmc_SuccessorUserID c\<rparr>) (works d)),
        agents := update_where (owned_agent (rmc_SpaceID c) (rmc_TargetUserID c)) (\<lambda>a. a\<lparr>ag_RemovedAt := Some (tx_time E)\<rparr>) (agents d),
        agent_presence := update_where
           (\<lambda>p. exists_where (\<lambda>a. ag_AgentID a = pr_AgentID p \<and> owned_agent (rmc_SpaceID c) (rmc_TargetUserID c) a) (agents d))
           (\<lambda>p. p\<lparr>pr_Present := False\<rparr>) (agent_presence d),
        memberships := update_where (active_membership (rmc_SpaceID c) (rmc_TargetUserID c))
           (revoked_membership E (Some (rmc_ActorUserID c)) successor (rmc_IdempotencyKey c) (rmc_RequestDigest c)) (memberships d)\<rparr>)"

definition removable :: "remove_member_command \<Rightarrow> db \<Rightarrow> membership_row \<Rightarrow> bool" where
  "removable c d target \<longleftrightarrow>
     member_named (rmc_SpaceID c) (rmc_TargetUserID c) d target
     \<and> (\<exists>actor. member_named (rmc_SpaceID c) (rmc_ActorUserID c) d actor \<and> mb_CanManageMembers actor)
     \<and> (mb_CanManageMembers target \<longrightarrow> 1 < count_where (managers (rmc_SpaceID c)) (memberships d))
     \<and> (mb_CanEnrollMachines target \<longrightarrow> 1 < count_where (enrollers (rmc_SpaceID c)) (memberships d))
     \<and> (if \<exists>w \<in> set (works d). open_work_of (rmc_SpaceID c) (rmc_TargetUserID c) w
        then rmc_SuccessorUserID c \<noteq> [] \<and> rmc_SuccessorUserID c \<noteq> rmc_TargetUserID c
          \<and> (\<exists>m. member_named (rmc_SpaceID c) (rmc_SuccessorUserID c) d m)
        else rmc_SuccessorUserID c = [])"

lemma lock_removal_named:
  "sql_LockMembershipForRemoval s u d = Some m \<Longrightarrow> mb_RevokedAt m = None \<Longrightarrow> member_named s u d m"
  unfolding sql_LockMembershipForRemoval_def by (auto dest!: first_where_Some simp: member_named_def active_membership_def)

lemma lock_open_works_empty [simp]:
  "sql_LockOpenWorksOwnedByMember s u d = [] \<longleftrightarrow> (\<forall>w \<in> set (works d). \<not> open_work_of s u w)"
  by (simp add: sql_LockOpenWorksOwnedByMember_def filter_empty_conv)

lemma sql_RevokeSpaceMembership_Inr:
  assumes "sql_RevokeSpaceMembership E a s' k g s u d = Inr (1, d')"
  shows "removal_shape_ok a u s' k g" "\<not> exists_where (\<lambda>m. removal_key m = (s, a, Some k)) (memberships d)"
    "d' = d\<lparr>memberships := update_where (active_membership s u) (revoked_membership E a s' k g) (memberships d)\<rparr>"
  using assms unfolding sql_RevokeSpaceMembership_def Let_def by (simp_all split: if_split_asm)

lemma removed_db_members:
  "memberships (removed_db E c d) = update_where (active_membership (rmc_SpaceID c) (rmc_TargetUserID c))
     (revoked_membership E (Some (rmc_ActorUserID c)) (if rmc_SuccessorUserID c = [] then None else optional_uuid (rmc_SuccessorUserID c) E)
        (rmc_IdempotencyKey c) (rmc_RequestDigest c)) (memberships d)"
  "spaces (removed_db E c d) = spaces d" "carry_users (removed_db E c d) = carry_users d"
  by (simp_all add: removed_db_def Let_def)

lemma authority_counts:
  "sql_CountActiveSpaceAuthorities s d = (count_where (managers s) (memberships d), count_where (enrollers s) (memberships d))"
  by (simp add: sql_CountActiveSpaceAuthorities_def managers_def [abs_def] enrollers_def [abs_def])

lemma removal_checks_effect:
  assumes "removal_checks c E d n = Inr (ids, d', n')"
  shows "d' = d \<and> ids = sql_LockOpenWorksOwnedByMember (rmc_SpaceID c) (rmc_TargetUserID c) d \<and> (\<exists>target. removable c d target)"
proof -
  let ?s = "rmc_SpaceID c" and ?u = "rmc_TargetUserID c" and ?v = "rmc_SuccessorUserID c"
  let ?us = "sort ([rmc_ActorUserID c, ?u] @ (if ?v = [] then [] else [?v]))"
  from assms obtain found d1 n1 target where
    locked: "lock_participants ?s ?us (\<lambda>_. None) E d n = Inr (found, d1, n1)" and
    auth: "removal_authority c found = Inr target" and
    rest: "d' = d1" "ids = sql_LockOpenWorksOwnedByMember ?s ?u d1"
      "\<not> (mb_CanManageMembers target \<and> fst (sql_CountActiveSpaceAuthorities ?s d1) \<le> 1)"
      "\<not> (mb_CanEnrollMachines target \<and> snd (sql_CountActiveSpaceAuthorities ?s d1) \<le> 1)"
      "\<not> (ids = [] \<and> ?v \<noteq> [])" "\<not> (ids \<noteq> [] \<and> ?v = [])"
    unfolding removal_checks_def
    by (simp only: bind_tx_Inr lift_Inr query_Inr require_Inr ret_Inr prod.inject) (elim exE conjE, hypsubst, blast)
  have d1: "d1 = d" and found: "\<And>u. found u = (if u \<in> set ?us then sql_LockMembershipForRemoval ?s u d else None)"
    using lock_participants_found [OF locked] by auto
  have named: "member_named ?s u d m" if "found u = Some m" "mb_RevokedAt m = None" for u m
    using that by (simp add: found lock_removal_named split: if_split_asm)
  have "removable c d target"
    using auth rest d1 named
    by (auto simp: removable_def removal_authority_Inr authority_counts)
  with rest d1 show ?thesis by auto
qed

lemma transfer_works_effect:
  "transfer_works c ids E d n = Inr (x, d', n') \<Longrightarrow>
     d' = (if ids = [] then d else snd (sql_TransferRemovedMemberOpenWorks (rmc_SuccessorUserID c) (rmc_SpaceID c) (rmc_TargetUserID c) d))"
  by (auto simp: transfer_works_def tx_simps sql_TransferRemovedMemberOpenWorks_def split: if_split_asm)

lemma remove_member_now_effect:
  assumes "remove_member_now c (optional_uuid (rmc_ActorUserID c) E) E d n = Inr (x, d', n')"
  shows "(\<exists>target. removable c d target) \<and> d' = removed_db E c d
    \<and> \<not> exists_where (\<lambda>m. removal_key m = (rmc_SpaceID c, Some (rmc_ActorUserID c), Some (rmc_IdempotencyKey c))) (memberships d)
    \<and> length (rmc_RequestDigest c) = 32"
proof -
  let ?s = "rmc_SpaceID c" and ?u = "rmc_TargetUserID c" and ?v = "rmc_SuccessorUserID c"
  from assms obtain ids d1 n1 d2 n2 where
    checks: "removal_checks c E d n = Inr (ids, d1, n1)" and
    transfer: "transfer_works c ids E d1 n1 = Inr ((), d2, n2)" and
    revoke: "sql_RevokeSpaceMembership E (optional_uuid (rmc_ActorUserID c) E)
       (if ?v = [] then None else optional_uuid ?v E) (rmc_IdempotencyKey c)
       (rmc_RequestDigest c) ?s ?u (snd (sql_RemoveActiveAgentsForOwner E ?s ?u d2)) = Inr (1, d')"
    unfolding remove_member_now_def
    by (auto simp: bind_tx_Inr query_Inr modify_Inr insert_row_Inr require_Inr prod_eq_iff)
  from removal_checks_effect [OF checks] obtain target where
    d1: "d1 = d" "ids = sql_LockOpenWorksOwnedByMember ?s ?u d" and target: "removable c d target" by blast
  have ids: "ids = [] \<longleftrightarrow> ?v = []"
    using target d1(2) by (auto simp: removable_def split: if_split_asm)
  have d2: "d2 = (if ?v = [] then d else snd (sql_TransferRemovedMemberOpenWorks ?v ?s ?u d))"
    using transfer_works_effect [OF transfer] d1 ids by simp
  have same: "memberships (snd (sql_RemoveActiveAgentsForOwner E ?s ?u d2)) = memberships d"
    by (simp add: d2 sql_RemoveActiveAgentsForOwner_def sql_TransferRemovedMemberOpenWorks_def)
  note r = sql_RevokeSpaceMembership_Inr [OF revoke, unfolded same]
  have actor: "optional_uuid (rmc_ActorUserID c) E = Some (rmc_ActorUserID c)"
    using r(1) by (auto simp: removal_shape_ok_def optional_uuid_def split: if_split_asm)
  have "d' = removed_db E c d"
    unfolding r(3) actor
    by (simp add: removed_db_def Let_def d2 sql_RemoveActiveAgentsForOwner_def sql_TransferRemovedMemberOpenWorks_def)
  then show ?thesis using target r(1,2) actor by (auto simp: removal_shape_ok_def)
qed

definition replayed_removal :: "remove_member_command \<Rightarrow> db \<Rightarrow> membership_row \<Rightarrow> bool" where
  "replayed_removal c d m \<longleftrightarrow> m \<in> set (memberships d)
     \<and> removal_key m = (rmc_SpaceID c, Some (rmc_ActorUserID c), Some (rmc_IdempotencyKey c))
     \<and> mb_UserID m = rmc_TargetUserID c \<and> uuidValue (mb_RemovalSuccessorUserID m) = rmc_SuccessorUserID c
     \<and> mb_RemovalRequestDigest m = Some (rmc_RequestDigest c)"

lemma RemoveSpaceMember_tx_effect:
  assumes "RemoveSpaceMember_tx c E d n = Inr (x, d', n')"
  shows "d' = d \<and> (\<exists>m. replayed_removal c d m)
    \<or> (\<exists>target. removable c d target) \<and> d' = removed_db E c d \<and> length (rmc_RequestDigest c) = 32
      \<and> \<not> exists_where (\<lambda>m. removal_key m = (rmc_SpaceID c, Some (rmc_ActorUserID c), Some (rmc_IdempotencyKey c))) (memberships d)"
proof -
  let ?replay = "sql_LoadMemberRemovalReplay (rmc_SpaceID c) (optional_uuid (rmc_ActorUserID c) E) (rmc_IdempotencyKey c) d"
  show ?thesis
  proof (cases ?replay)
    case None
    then obtain n1 where "remove_member_now c (optional_uuid (rmc_ActorUserID c) E) E d n1 = Inr (x, d', n')"
      using assms by (auto simp: RemoveSpaceMember_tx_def tx_simps)
    then show ?thesis using remove_member_now_effect by blast
  next
    case (Some m)
    then have "d' = d" "mb_UserID m = rmc_TargetUserID c" "uuidValue (mb_RemovalSuccessorUserID m) = rmc_SuccessorUserID c"
      "mb_RemovalRequestDigest m = Some (rmc_RequestDigest c)"
      using assms by (auto simp: RemoveSpaceMember_tx_def tx_simps)
    moreover have "m \<in> set (memberships d)" "removal_key m = (rmc_SpaceID c, optional_uuid (rmc_ActorUserID c) E, Some (rmc_IdempotencyKey c))"
      "optional_uuid (rmc_ActorUserID c) E \<noteq> None"
      using first_where_Some [OF Some [unfolded sql_LoadMemberRemovalReplay_def]] by auto
    ultimately have "replayed_removal c d m"
      by (auto simp: replayed_removal_def optional_uuid_def split: if_split_asm)
    with \<open>d' = d\<close> show ?thesis by blast
  qed
qed

end
