(* ===== verification/Space_Invariants.thy ===== *)
theory Space_Invariants
  imports Space_State Core_Server Agent_State
begin

text \<open>
  What the Space store keeps: unique memberships, Spaces and slugs, at least one active manager and
  one active Machine enroller in every Space, and an active member behind every open Work. The
  other stores do not write the tables of Spaces and members; those that create Works create them
  for an active member.
\<close>

section \<open>Updating one row of a table\<close>

lemma unique_on_distinct: "unique_on k (\<lambda>_. True) t \<Longrightarrow> distinct t"
  by (simp add: unique_on_def distinct_map)

lemma unique_on_fresh_update:
  assumes "unique_on k P t" "unique_on j (\<lambda>_. True) t" "\<And>r. r \<in> set t \<Longrightarrow> Q r \<Longrightarrow> j r = y"
    and "\<And>r. r \<in> set t \<Longrightarrow> Q r \<Longrightarrow> k (f r) = x" "\<And>r. r \<in> set t \<Longrightarrow> P r \<Longrightarrow> k r \<noteq> x"
  shows "unique_on k P (update_where Q f t)"
  using assms
proof (induction t)
  case Nil
  then show ?case by simp
next
  case (Cons r t)
  have tail: "unique_on k P t" "unique_on j (\<lambda>_. True) t" "\<forall>s \<in> set t. j s \<noteq> j r"
    using Cons.prems(1,2) by (simp_all add: unique_on_Cons)
  have IH: "unique_on k P (update_where Q f t)"
    by (rule Cons.IH [OF tail(1,2)]) (use Cons.prems(3-5) in auto)
  show ?case
  proof (cases "Q r")
    case True
    then have "\<not> Q s" if "s \<in> set t" for s
      using Cons.prems(3) tail(3) that by fastforce
    then have "update_where Q f t = t" by (rule update_where_none)
    moreover have "\<forall>s \<in> set t. P s \<longrightarrow> k s \<noteq> k (f r)"
      using Cons.prems(4,5) True by auto
    ultimately show ?thesis using True tail(1) by (simp add: unique_on_Cons)
  next
    case False
    have "\<forall>s \<in> set (update_where Q f t). P s \<longrightarrow> P r \<longrightarrow> k s \<noteq> k r"
    proof (intro ballI impI)
      fix s assume "s \<in> set (update_where Q f t)" "P s" "P r"
      then show "k s \<noteq> k r"
      proof (elim in_update_whereE)
        fix q assume q: "q \<in> set t" "Q q" "s = f q"
        have "k s = x" unfolding q(3) by (rule Cons.prems(4)) (use q in auto)
        moreover have "k r \<noteq> x" by (rule Cons.prems(5)) (use \<open>P r\<close> in auto)
        ultimately show ?thesis by simp
      next
        assume "s \<in> set t" then show ?thesis using Cons.prems(1) \<open>P s\<close> \<open>P r\<close> by (simp add: unique_on_Cons)
      qed
    qed
    then show ?thesis using False IH by (auto simp: unique_on_Cons)
  qed
qed

lemma another_row:
  assumes "unique_on k (\<lambda>_. True) t" "1 < count_where Q t"
  shows "\<exists>m \<in> set t. Q m \<and> m \<noteq> r"
proof (rule ccontr)
  assume "\<not> ?thesis"
  then have "set (filter Q t) \<subseteq> {r}" by auto
  moreover have "distinct (filter Q t)" using unique_on_distinct [OF assms(1)] by simp
  ultimately have "length (filter Q t) \<le> 1"
    by (metis card_mono distinct_card finite.emptyI finite_insert card.empty card_insert_disjoint empty_iff One_nat_def)
  then show False using assms(2) by (simp add: count_where_def)
qed

section \<open>Removing a member\<close>

lemma membership_key_named:
  "active_membership s u m \<Longrightarrow> membership_key m = (s, u)"
  by (simp add: active_membership_def membership_key_def)

lemma revoked_facts [simp]:
  "membership_key (revoked_membership E a v k g m) = membership_key m"
  "mb_SpaceID (revoked_membership E a v k g m) = mb_SpaceID m"
  "mb_UserID (revoked_membership E a v k g m) = mb_UserID m"
  "mb_RevokedAt (revoked_membership E a v k g m) = Some (tx_time E)"
  "removal_key (revoked_membership E a v k g m) = (mb_SpaceID m, a, Some k)"
  by (simp_all add: revoked_membership_def membership_key_def removal_key_def)

lemma revoked_row_ok:
  assumes "membership_row_ok m" "length g = 32" "v \<noteq> Some (mb_UserID m)"
  shows "membership_row_ok (revoked_membership E (Some a) v k g m)"
  using assms by (simp add: membership_row_ok_def revoked_membership_def textValue_def)

lemma active_kept:
  assumes "m \<in> set ms" "mb_RevokedAt m = None" "membership_key m \<noteq> (s, u)"
  shows "m \<in> set (update_where (active_membership s u) f ms)"
proof -
  have "\<not> active_membership s u m" using assms(3) by (auto simp: active_membership_def membership_key_def)
  then show ?thesis using assms(1) by (auto simp: set_update_where intro!: image_eqI [where x = m])
qed

lemma is_member_named: "is_member s u d \<longleftrightarrow> (\<exists>m. member_named s u d m)"
  by (auto simp: is_member_def exists_where_iff member_named_def)

lemma governed_remove:
  assumes "governed ss ms" "unique_on membership_key (\<lambda>_. True) ms" "target \<in> set ms" "active_membership s u target"
    and "mb_CanManageMembers target \<Longrightarrow> 1 < count_where (managers s) ms"
    and "mb_CanEnrollMachines target \<Longrightarrow> 1 < count_where (enrollers s) ms"
  shows "governed ss (update_where (active_membership s u) f ms)"
proof -
  have only: "m = target" if "m \<in> set ms" "membership_key m = (s, u)" for m
    using unique_onD [OF assms(2) that(1) assms(3)] that(2) assms(4) by (simp add: membership_key_named)
  have keep: "\<exists>m \<in> set (update_where (active_membership s u) f ms). active_in i m \<and> P m"
    if h: "\<exists>m \<in> set ms. active_in i m \<and> P m" "P target \<Longrightarrow> 1 < count_where (\<lambda>m. active_in s m \<and> P m) ms" for i P
  proof -
    obtain m where m: "m \<in> set ms" "active_in i m" "P m" "m \<noteq> target"
    proof (cases "\<exists>m \<in> set ms. active_in i m \<and> P m \<and> m \<noteq> target")
      case True
      then show ?thesis using that by blast
    next
      case False
      then have "active_in i target" "P target" using h(1) by blast+
      then have "i = s" "1 < count_where (\<lambda>m. active_in s m \<and> P m) ms"
        using assms(4) h(2) by (simp_all add: active_in_def active_membership_def)
      from another_row [OF assms(2) this(2)] False \<open>i = s\<close> show ?thesis by blast
    qed
    then have "m \<in> set (update_where (active_membership s u) f ms)"
      using only by (intro active_kept) (auto simp: active_in_def)
    with m show ?thesis by blast
  qed
  show ?thesis
    unfolding governed_def
    using assms(1,5,6) keep [of _ mb_CanManageMembers] keep [of _ mb_CanEnrollMachines]
    by (simp add: governed_def managers_def [abs_def] enrollers_def [abs_def])
qed

lemma removed_db_space_ok:
  assumes ok: "space_ok d" and r: "removable c d target" "length (rmc_RequestDigest c) = 32"
    and new: "\<not> exists_where (\<lambda>m. removal_key m = (rmc_SpaceID c, Some (rmc_ActorUserID c), Some (rmc_IdempotencyKey c))) (memberships d)"
  shows "space_ok (removed_db E c d)"
proof -
  let ?s = "rmc_SpaceID c" and ?u = "rmc_TargetUserID c"
  let ?v = "if rmc_SuccessorUserID c = [] then None else optional_uuid (rmc_SuccessorUserID c) E"
  let ?f = "revoked_membership E (Some (rmc_ActorUserID c)) ?v (rmc_IdempotencyKey c) (rmc_RequestDigest c)"
  have ms: "memberships_ok (spaces d) (memberships d)" and u: "unique_on membership_key (\<lambda>_. True) (memberships d)"
    using ok by (simp_all add: space_ok_def memberships_ok_def)
  have v: "?v \<noteq> Some ?u" using r(1) by (auto simp: removable_def optional_uuid_def split: if_split_asm)
  have "memberships_ok (spaces d) (update_where (active_membership ?s ?u) ?f (memberships d))"
    unfolding memberships_ok_def
  proof (intro conjI)
    show "unique_on membership_key (\<lambda>_. True) (update_where (active_membership ?s ?u) ?f (memberships d))"
      by (rule unique_on_update [OF u]) simp
    show "unique_on removal_key has_removal (update_where (active_membership ?s ?u) ?f (memberships d))"
    proof (rule unique_on_fresh_update [OF _ u, where y = "(?s, ?u)" and x = "(?s, Some (rmc_ActorUserID c), Some (rmc_IdempotencyKey c))"])
      show "unique_on removal_key has_removal (memberships d)" using ms by (simp add: memberships_ok_def)
    qed (use new in \<open>auto simp: membership_key_named exists_where_iff active_membership_def\<close>)
    show "\<forall>m \<in> set (update_where (active_membership ?s ?u) ?f (memberships d)). membership_row_ok m"
      using ms r(2) v by (auto simp: update_where_ball memberships_ok_def active_membership_def intro!: revoked_row_ok)
    show "\<forall>m \<in> set (update_where (active_membership ?s ?u) ?f (memberships d)). \<exists>s \<in> set (spaces d). sp_SpaceID s = mb_SpaceID m"
      using ms by (auto simp: update_where_ball memberships_ok_def)
  qed
  moreover have "governed (spaces d) (update_where (active_membership ?s ?u) ?f (memberships d))"
    using ok r(1) by (intro governed_remove [where target = target, OF _ u]) (auto simp: space_ok_def removable_def member_named_def)
  ultimately show ?thesis
    using ok by (simp add: space_ok_def removed_db_members)
qed

lemma removed_db_member_kept:
  assumes "is_member i x d" "(i, x) \<noteq> (rmc_SpaceID c, rmc_TargetUserID c)"
  shows "is_member i x (removed_db E c d)"
proof -
  obtain m where m: "m \<in> set (memberships d)" "active_membership i x m"
    using assms(1) by (auto simp: is_member_def exists_where_iff)
  then have "m \<in> set (memberships (removed_db E c d))"
    unfolding removed_db_members using assms(2)
    by (intro active_kept) (auto simp: membership_key_named active_membership_def)
  with m show ?thesis by (auto simp: is_member_def exists_where_iff)
qed

lemma removed_db_owners_ok:
  assumes "owners_ok d" "removable c d target"
  shows "owners_ok (removed_db E c d)"
proof -
  let ?s = "rmc_SpaceID c" and ?u = "rmc_TargetUserID c" and ?v = "rmc_SuccessorUserID c"
  have "is_member (w_SpaceID w) (w_OwnerUserID w) (removed_db E c d)"
    if w: "w \<in> set (works (removed_db E c d))" "w_Lifecycle w = LifecycleOpen" for w
  proof (cases "?v = []")
    case True
    then have "w \<in> set (works d)" using w(1) by (simp add: removed_db_def Let_def)
    then show ?thesis
      using assms w(2) True by (intro removed_db_member_kept) (auto simp: owners_ok_def removable_def open_work_of_def split: if_split_asm)
  next
    case False
    then have w': "w \<in> set (update_where (open_work_of ?s ?u) (\<lambda>w. w\<lparr>w_OwnerUserID := ?v\<rparr>) (works d))"
      using w(1) by (simp add: removed_db_def Let_def)
    have succ: "is_member ?s ?v d" "?v \<noteq> ?u"
      using assms(2) False by (auto simp: removable_def is_member_named split: if_split_asm)
    show ?thesis
      using w'
    proof (rule in_update_whereE)
      fix q assume "q \<in> set (works d)" "open_work_of ?s ?u q" "w = q\<lparr>w_OwnerUserID := ?v\<rparr>"
      then show ?thesis using removed_db_member_kept [OF succ(1)] succ(2) by (simp add: open_work_of_def)
    next
      assume "w \<in> set (works d)" "\<not> open_work_of ?s ?u w"
      then show ?thesis using assms(1) w(2) by (intro removed_db_member_kept) (auto simp: owners_ok_def open_work_of_def)
    qed
  qed
  then show ?thesis by (simp add: owners_ok_def)
qed

text \<open>Agents: who is not removed is owned by an active member of the Space.\<close>

definition agent_owners_ok :: "db \<Rightarrow> bool" where
  "agent_owners_ok d \<longleftrightarrow> (\<forall>a \<in> set (agents d). ag_RemovedAt a = None \<longrightarrow> is_member (ag_SpaceID a) (ag_OwnerUserID a) d)"

lemma removed_db_agent_owners_ok:
  assumes "agent_owners_ok d"
  shows "agent_owners_ok (removed_db E c d)"
proof -
  have "is_member (ag_SpaceID a) (ag_OwnerUserID a) (removed_db E c d)"
    if a: "a \<in> set (agents (removed_db E c d))" "ag_RemovedAt a = None" for a
  proof -
    from a(1) have "a \<in> set (update_where (owned_agent (rmc_SpaceID c) (rmc_TargetUserID c)) (\<lambda>a. a\<lparr>ag_RemovedAt := Some (tx_time E)\<rparr>) (agents d))"
      by (simp add: removed_db_def Let_def)
    then show ?thesis
    proof (rule in_update_whereE)
      assume "a \<in> set (agents d)" "\<not> owned_agent (rmc_SpaceID c) (rmc_TargetUserID c) a"
      then show ?thesis using assms a(2) by (intro removed_db_member_kept) (auto simp: agent_owners_ok_def owned_agent_def)
    qed (use a(2) in simp)
  qed
  then show ?thesis by (simp add: agent_owners_ok_def)
qed

lemma RemoveSpaceMember_cases:
  assumes "RemoveSpaceMember c E d = (r, d')"
  obtains "d' = d" | n x where "RemoveSpaceMember_tx c E d 0 = Inr (x, d', n)"
  using assms unfolding RemoveSpaceMember_def by (auto split: sum.splits if_split_asm elim: transact_cases)

lemma keeps_removed_db:
  assumes "\<And>E c d target. P d \<Longrightarrow> removable c d target \<Longrightarrow> length (rmc_RequestDigest c) = 32 \<Longrightarrow>
      \<not> exists_where (\<lambda>m. removal_key m = (rmc_SpaceID c, Some (rmc_ActorUserID c), Some (rmc_IdempotencyKey c))) (memberships d) \<Longrightarrow>
      P (removed_db E c d)"
  shows "keeps P (RemoveSpaceMember c)"
  unfolding keeps_def
proof (intro allI impI)
  fix E d r d' assume "RemoveSpaceMember c E d = (r, d')" "P d"
  then show "P d'"
    by (elim RemoveSpaceMember_cases) (use assms RemoveSpaceMember_tx_effect in blast)+
qed

lemma RemoveSpaceMember_keeps:
  "keeps space_ok (RemoveSpaceMember c)" "keeps owners_ok (RemoveSpaceMember c)" "keeps agent_owners_ok (RemoveSpaceMember c)"
  by (rule keeps_removed_db; (rule removed_db_space_ok removed_db_owners_ok removed_db_agent_owners_ok; assumption))+

section \<open>Creating a Space\<close>

definition created_db :: "env \<Rightarrow> create_space_command \<Rightarrow> db \<Rightarrow> db" where
  "created_db E c d = d\<lparr>spaces := spaces d @ [new_space E (csc_UserID c) c],
     memberships := memberships d @ [new_membership E (csc_SpaceID c) (csc_UserID c) True True]\<rparr>"

definition space_creatable :: "create_space_command \<Rightarrow> db \<Rightarrow> bool" where
  "space_creatable c d \<longleftrightarrow> user_of (csc_UserID c) d \<noteq> None \<and> csc_Name c \<noteq> [] \<and> 1 \<le> rune_count (csc_Slug c) \<and> rune_count (csc_Slug c) \<le> 32
     \<and> \<not> key_taken sp_SpaceID (\<lambda>_. True) (csc_SpaceID c) (spaces d)
     \<and> \<not> key_taken creator_request (\<lambda>_. True) (Some (csc_UserID c), Some (csc_IdempotencyKey c)) (spaces d)
     \<and> \<not> key_taken sp_Slug (\<lambda>_. True) (csc_Slug c) (spaces d)
     \<and> \<not> key_taken membership_key (\<lambda>_. True) (csc_SpaceID c, csc_UserID c) (memberships d)"

lemma new_space_facts [simp]:
  "sp_SpaceID (new_space E u c) = csc_SpaceID c" "sp_Name (new_space E u c) = csc_Name c" "sp_Slug (new_space E u c) = csc_Slug c"
  "creator_request (new_space E u c) = (Some u, Some (csc_IdempotencyKey c))"
  "sp_CreateRequestDigest (new_space E u c) = Some (csc_RequestDigest c)" "sp_CreatedByUserID (new_space E u c) = Some u"
  by (simp_all add: new_space_def creator_request_def)

lemma new_membership_facts [simp]:
  "membership_key (new_membership E s u a b) = (s, u)" "mb_RevokedAt (new_membership E s u a b) = None"
  "mb_SpaceID (new_membership E s u a b) = s" "mb_UserID (new_membership E s u a b) = u"
  "mb_CanManageMembers (new_membership E s u a b) = a" "mb_CanEnrollMachines (new_membership E s u a b) = b"
  "mb_RemovalIdempotencyKey (new_membership E s u a b) = None" "membership_row_ok (new_membership E s u a b)"
  by (simp_all add: new_membership_def membership_key_def membership_row_ok_def)

lemma CreateSpace_tx_effect:
  assumes "CreateSpace_tx u c E d n = Inr (v, d', n')"
  shows "user_of (csc_UserID c) d \<noteq> None \<and> ((\<exists>s m. sql_LoadCreatedSpaceByRequest (csc_UserID c) (csc_IdempotencyKey c) d = Some (s, m)
        \<and> sp_CreateRequestDigest s = Some (csc_RequestDigest c) \<and> v = restoreCreatedSpace (s, m) \<and> d' = d)
    \<or> (sql_LoadCreatedSpaceByRequest (csc_UserID c) (csc_IdempotencyKey c) d = None
        \<and> space_creatable c d \<and> d' = created_db E c d
        \<and> v = \<lparr>cs_SpaceID = csc_SpaceID c, cs_Name = csc_Name c, cs_Slug = csc_Slug c, cs_CanManageMembers = True, cs_CanEnrollMachines = True\<rparr>))"
proof -
  have user: "u' = csc_UserID c \<and> user_of (csc_UserID c) d \<noteq> None" if "sql_LockSpaceCreator (csc_UserID c) d = Some u'" for u'
    using that by (auto simp: sql_LockSpaceCreator_def user_of_def dest: first_where_Some)
  show ?thesis
  proof (cases "sql_LoadCreatedSpaceByRequest (csc_UserID c) (csc_IdempotencyKey c) d")
    case (Some sm)
    then show ?thesis using assms user by (cases sm) (auto simp: CreateSpace_tx_def tx_simps)
  next
    case None
    then obtain d1 where u: "user_of (csc_UserID c) d \<noteq> None"
      and s: "sql_CreateSpace (new_space E (csc_UserID c) c) d = Inr ((), d1)"
      and m: "sql_CreateSpaceMembership E (csc_SpaceID c) (csc_UserID c) d1 = Inr ((), d')"
      and v: "v = \<lparr>cs_SpaceID = csc_SpaceID c, cs_Name = csc_Name c, cs_Slug = csc_Slug c, cs_CanManageMembers = True, cs_CanEnrollMachines = True\<rparr>"
      using assms user by (auto simp: CreateSpace_tx_def tx_simps)
    from s m have "space_creatable c d \<and> d' = created_db E c d"
      using u by (auto simp: sql_CreateSpace_def sql_CreateSpaceMembership_def insert_membership_def space_creatable_def
          created_db_def split: if_split_asm)
    then show ?thesis using None v u by blast
  qed
qed

lemma governed_append:
  assumes "governed ss ms" "managers (sp_SpaceID s) m" "enrollers (sp_SpaceID s) m"
  shows "governed (ss @ [s]) (ms @ [m])"
  using assms by (auto simp: governed_def)

lemma created_db_space_ok:
  assumes "space_ok d" "space_creatable c d"
  shows "space_ok (created_db E c d)"
proof -
  have "spaces_ok (spaces d @ [new_space E (csc_UserID c) c])"
    using assms by (auto simp: spaces_ok_def space_ok_def space_creatable_def unique_on_append1 key_taken_iff)
  moreover have "memberships_ok (spaces d @ [new_space E (csc_UserID c) c])
      (memberships d @ [new_membership E (csc_SpaceID c) (csc_UserID c) True True])"
    using assms by (auto simp: memberships_ok_def space_ok_def space_creatable_def unique_on_append1 has_removal_def)
  moreover have "governed (spaces d @ [new_space E (csc_UserID c) c])
      (memberships d @ [new_membership E (csc_SpaceID c) (csc_UserID c) True True])"
    using assms(1) by (intro governed_append) (auto simp: space_ok_def managers_def enrollers_def active_in_def)
  ultimately show ?thesis by (simp add: space_ok_def created_db_def)
qed

lemma CreateSpace_keeps: "keeps space_ok (CreateSpace u c)"
  unfolding CreateSpace_def
  by (rule keeps_transact) (auto simp: preserves_def dest!: CreateSpace_tx_effect intro: created_db_space_ok)

lemma is_member_append: "is_member s u d \<Longrightarrow> memberships d' = memberships d @ ms \<Longrightarrow> is_member s u d'"
  by (auto simp: is_member_def exists_where_iff)

lemma created_db_tables [simp]:
  "works (created_db E c d) = works d" "agents (created_db E c d) = agents d"
  "memberships (created_db E c d) = memberships d @ [new_membership E (csc_SpaceID c) (csc_UserID c) True True]"
  by (simp_all add: created_db_def)

lemma created_db_member: "is_member s u d \<Longrightarrow> is_member s u (created_db E c d)"
  by (erule is_member_append) simp

lemma CreateSpace_keeps_owners: "keeps owners_ok (CreateSpace u c)" "keeps agent_owners_ok (CreateSpace u c)"
  unfolding CreateSpace_def
  by (rule keeps_transact, auto simp: preserves_def owners_ok_def agent_owners_ok_def dest!: CreateSpace_tx_effect
      intro: created_db_member)+

section \<open>The other stores\<close>

text \<open>What the invariants read: the members and Spaces, and who owns which Work.\<close>

definition owner_facts :: "work_row \<Rightarrow> uuid \<times> uuid \<times> lifecycle" where
  "owner_facts w = (w_SpaceID w, w_OwnerUserID w, w_Lifecycle w)"

definition ownership :: "db \<Rightarrow> membership_row list \<times> (uuid \<times> uuid \<times> lifecycle) list" where
  "ownership d = (memberships d, map owner_facts (works d))"

lemma ball_map_eq: "map f xs = map g ys \<Longrightarrow> (\<forall>x \<in> set xs. P (f x)) = (\<forall>y \<in> set ys. P (g y))"
proof -
  assume "map f xs = map g ys"
  then have "(\<forall>z \<in> set (map f xs). P z) = (\<forall>z \<in> set (map g ys). P z)" by (simp only:)
  then show ?thesis by simp
qed

lemma is_member_same: "memberships d' = memberships d \<Longrightarrow> is_member s u d' = is_member s u d"
  by (simp add: is_member_def)

lemma owners_ok_ownership:
  assumes "ownership d' = ownership d"
  shows "owners_ok d' = owners_ok d"
proof -
  let ?P = "\<lambda>(s, u, l). l = LifecycleOpen \<longrightarrow> is_member s u d"
  have "owners_ok d \<longleftrightarrow> (\<forall>w \<in> set (works d). ?P (owner_facts w))"
    by (simp add: owners_ok_def owner_facts_def)
  also have "\<dots> \<longleftrightarrow> (\<forall>w \<in> set (works d'). ?P (owner_facts w))"
    using ball_map_eq [of owner_facts "works d" owner_facts "works d'" ?P] assms by (simp add: ownership_def)
  also have "\<dots> \<longleftrightarrow> owners_ok d'"
    using assms by (simp add: owners_ok_def owner_facts_def ownership_def is_member_same [of d' d])
  finally show ?thesis ..
qed

lemma keeps_owners: "leaves ownership m \<Longrightarrow> keeps owners_ok m"
  using owners_ok_ownership unfolding leaves_def keeps_def by blast

lemma ownership_inserts:
  "sql_CreateWorkMessage m d = Inr (v, d') \<Longrightarrow> ownership d' = ownership d"
  "sql_CreateRun r d = Inr (t, d') \<Longrightarrow> ownership d' = ownership d"
  "sql_CreateRunAttempt a d = Inr (t, d') \<Longrightarrow> ownership d' = ownership d"
  "sql_CreateWorkResultCheck c d = Inr (n, d') \<Longrightarrow> ownership d' = ownership d"
  by (auto simp: ownership_def sql_CreateWorkMessage_def sql_CreateRun_def sql_CreateRunAttempt_def
      sql_CreateWorkResultCheck_def split: if_split_asm option.split_asm)

lemma same_owner_facts: "(\<And>w. owner_facts (f w) = owner_facts w) \<Longrightarrow> map owner_facts (update_where P f ws) = map owner_facts ws"
  by (rule map_update_where)

lemma ownership_updates:
  "ownership (snd (sql_AdvanceWorkInputHead i d)) = ownership d"
  "ownership (snd (sql_AcceptWorkResultCheck i s b j k t d)) = ownership d"
  "ownership (snd (sql_RequestRunRetry i s j t d)) = ownership d"
  "ownership (snd (sql_ExpireRunAttempt i j f t d)) = ownership d"
  "ownership (snd (sql_RotateRunFence i f d)) = ownership d"
  "ownership (snd (sql_ExtendRunAttemptLease i j f m t d)) = ownership d"
  "ownership (snd (sql_CommitCurrentUnderstanding s s' n i e v d)) = ownership d"
  "ownership (snd (sql_FinishRunAttempt o' i t d)) = ownership d"
  "ownership (snd (sql_FinishRun o' i t d)) = ownership d"
  "ownership (snd (sql_SucceedRunAttempt i t d)) = ownership d"
  "ownership (snd (sql_SucceedRun i t d)) = ownership d"
  by (simp_all add: ownership_def update_statements Let_def same_owner_facts owner_facts_def)

lemma AppendWorkMessage_owners: "leaves ownership (AppendWorkMessage c)"
  unfolding AppendWorkMessage_def AppendWorkMessage_tx_def guard_defs
  by (rule frame_intros ownership_updates | erule ownership_inserts)+

lemma AcceptWorkReview_owners: "leaves ownership (AcceptWorkReview c)"
  unfolding AcceptWorkReview_def [abs_def] AcceptWorkReview_tx_def guard_defs
  by (rule leaves_env, (rule frame_intros ownership_updates | erule ownership_inserts)+)

lemma RequestWorkRetry_owners: "leaves ownership (RequestWorkRetry c)"
  unfolding RequestWorkRetry_def RequestWorkRetry_tx_def guard_defs
  by (rule frame_intros ownership_updates | erule ownership_inserts)+

lemma ClaimRun_owners: "leaves ownership (ClaimRun c)"
  unfolding ClaimRun_def ClaimRun_tx_def recover_run_def create_run_def open_attempt_def guard_defs
  by (rule frame_intros ownership_updates | erule ownership_inserts)+

lemma RenewRunAttempt_owners: "leaves ownership (RenewRunAttempt m i j f)"
  unfolding RenewRunAttempt_def RenewRunAttempt_tx_def guard_defs
  by (rule frame_intros ownership_updates | erule ownership_inserts)+

lemma CommitWorkUnderstanding_owners: "leaves ownership (CommitWorkUnderstanding c)"
  unfolding CommitWorkUnderstanding_def CommitWorkUnderstanding_tx_def guard_defs
  by (rule frame_intros ownership_updates | erule ownership_inserts)+

lemma FinishUnresolvedAttempt_owners: "leaves ownership (FinishUnresolvedAttempt c)"
  unfolding FinishUnresolvedAttempt_def FinishUnresolvedAttempt_tx_def guard_defs
  by (rule frame_intros ownership_updates | erule ownership_inserts)+

lemma leaves_both: "leaves f m \<Longrightarrow> leaves g m \<Longrightarrow> leaves (\<lambda>d. (f d, g d)) m"
  unfolding leaves_def by blast

lemma leaves_ownership_untouched:
  assumes "leaves execution_part m" "leaves identity_part m"
  shows "leaves ownership m"
proof -
  have "works d' = works d \<and> memberships d' = memberships d" if "m E d = (r, d')" for E d r d'
    using assms that unfolding leaves_def execution_part_def identity_part_def by blast
  then show ?thesis by (simp add: leaves_def ownership_def)
qed

lemmas leave_ownership = AppendWorkMessage_owners AcceptWorkReview_owners RequestWorkRetry_owners ClaimRun_owners
  RenewRunAttempt_owners CommitWorkUnderstanding_owners FinishUnresolvedAttempt_owners
  leaves_ownership_untouched [OF SendConversationMessage_leaves_execution SendConversationMessage_leaves_identity]
  leaves_ownership_untouched [OF ClaimConversationReply_leaves_execution ClaimConversationReply_leaves_identity]
  leaves_ownership_untouched [OF RenewConversationReply_leaves_execution RenewConversationReply_leaves_identity]

lemma owners_ok_add_work:
  assumes "owners_ok d" "is_member (w_SpaceID w) (w_OwnerUserID w) d" "memberships d' = memberships d" "works d' = works d @ [w]"
  shows "owners_ok d'"
  using assms by (auto simp: owners_ok_def is_member_same [OF assms(3)])

lemma CreateWork_keeps_owners: "keeps owners_ok (CreateWork c)"
  unfolding CreateWork_def
proof (intro keeps_checked keeps_transact)
  fix goal u key
  show "preserves owners_ok (CreateWork_tx c goal key (CreateDigest (cr_SpaceID c) (cr_CreatorUserID c) goal))"
    unfolding preserves_def
  proof (intro allI impI)
    fix E d n x d' n' assume "CreateWork_tx c goal key (CreateDigest (cr_SpaceID c) (cr_CreatorUserID c) goal) E d n = Inr (x, d', n')"
      and ok: "owners_ok d"
    from CreateWork_tx_effect [OF this(1)] show "owners_ok d'"
      unfolding Let_def using ok by (elim disjE conjE) (simp, erule owners_ok_add_work, simp_all add: new_work_def)
  qed
qed

lemma reply_written_memberships:
  assumes "reply_written command candidate digest E d d' c k i now"
  shows "memberships d' = memberships d"
proof -
  obtain ws cs ms ks where "d' = d\<lparr>works := ws, conversations := cs, conversation_messages := ms, conversation_reply_claims := ks\<rparr>"
    using assms unfolding reply_written_def Let_def by blast
  then show ?thesis by simp
qed

lemma CommitConversationReply_tx_owners:
  assumes run: "CommitConversationReply_tx command (candidate, digest) E d n = Inr (v, d', n')"
    and conv: "conversation_ok d" and ok: "owners_ok d"
  shows "owners_ok d'"
proof -
  from CommitConversationReply_tx_effect [OF run conv] obtain mach k c src where
    k: "machine_of (cm_MachineID command) d = Some mach" "k \<in> set (conversation_reply_claims d)"
      "claim_joined d (m_SpaceID mach) k = Some (c, src)"
    and rest: "d' = d \<or> (\<exists>i now. reply_written command candidate digest E d d' c k i now)" by blast
  note j = claim_joined_Some [OF k(3)]
  from rest show ?thesis
  proof (elim disjE exE)
    fix i now assume w: "reply_written command candidate digest E d d' c k i now"
    note ms = reply_written_memberships [OF w]
    have add: "adds_delegated E c (ca_DelegationGoal candidate) d (works d') i"
      using w by (simp add: reply_written_def Let_def)
    show ?thesis
    proof (cases "ca_DelegationGoal candidate")
      case None
      with add ms ok show ?thesis by (simp add: adds_delegated_def owners_ok_def is_member_same [OF ms])
    next
      case (Some g)
      then have "works d' = works d @ [delegated_work E c g]" using add by (simp add: adds_delegated_def)
      moreover have "is_member (w_SpaceID (delegated_work E c g)) (w_OwnerUserID (delegated_work E c g)) d"
        using j by (simp add: delegated_work_def new_work_def)
      ultimately show ?thesis by (intro owners_ok_add_work [OF ok _ ms])
    qed
  qed (simp add: ok)
qed

lemma CommitConversationReply_body:
  "CommitConversationReply command E d = (r, d') \<Longrightarrow> d' = d \<or> (\<exists>cand v n. CommitConversationReply_tx command cand E d 0 = Inr (v, d', n))"
  unfolding CommitConversationReply_def by (elim checked_cases transact_cases) blast+

lemma CommitConversationReply_keeps_owners: "keeps (\<lambda>d. core_ok d \<and> owners_ok d) (CommitConversationReply command)"
proof -
  have "owners_ok d'" if h: "CommitConversationReply command E d = (r, d')" "core_ok d" "owners_ok d" for E d r d'
    using CommitConversationReply_body [OF h(1)] CommitConversationReply_tx_owners h(2,3) unfolding core_ok_def
    by (metis surj_pair)
  then show ?thesis using CommitConversationReply_keeps unfolding keeps_def by blast
qed

lemma leaves_tables: "leaves identity_part m \<Longrightarrow> leaves memberships m" "leaves identity_part m \<Longrightarrow> leaves spaces m"
  "leaves identity_part m \<Longrightarrow> leaves agents m"
  unfolding leaves_def identity_part_def by blast+


lemma keeps_space: "leaves identity_part m \<Longrightarrow> keeps space_ok m"
  unfolding leaves_def identity_part_def keeps_def space_ok_def by (metis prod.inject)

lemma agent_owners_tables:
  assumes "memberships d' = memberships d" "agents d' = agents d"
  shows "agent_owners_ok d' = agent_owners_ok d"
  using assms by (simp add: agent_owners_ok_def is_member_same [OF assms(1)])

lemma keeps_agent_owners: "leaves identity_part m \<Longrightarrow> keeps agent_owners_ok m"
  using leaves_tables [of m] agent_owners_tables unfolding leaves_def keeps_def by blast

section \<open>Reports\<close>

lemma after_report_tables:
  "memberships (after_report E c new b missing d) = memberships d" "spaces (after_report E c new b missing d) = spaces d"
  "agents (after_report E c new b missing d) = agents d @ new" "works (after_report E c new b missing d) = works d"
  by (simp_all add: after_report_def Let_def)

lemma ReconcileAgentPresence_body:
  "ReconcileAgentPresence folded command E d = (r, d') \<Longrightarrow>
     d' = d \<or> (\<exists>v n. ReconcileAgentPresence_tx folded command E d 0 = Inr (v, d', n))"
  unfolding ReconcileAgentPresence_def by (auto split: if_split_asm elim: transact_cases)

lemma ReconcileAgentPresence_keeps_space:
  "keeps (\<lambda>d. agents_ok d \<and> space_ok d \<and> owners_ok d \<and> agent_owners_ok d) (ReconcileAgentPresence folded command)"
proof -
  have "space_ok d' \<and> owners_ok d' \<and> agent_owners_ok d'"
    if run: "ReconcileAgentPresence folded command E d = (r, d')" and ok: "agents_ok d" "space_ok d" "owners_ok d" "agent_owners_ok d"
    for E d r d'
  proof (cases "d' = d")
    case False
    with ReconcileAgentPresence_body [OF run] obtain v n where
      "ReconcileAgentPresence_tx folded command E d 0 = Inr (v, d', n)" by blast
    from ReconcileAgentPresence_tx_effect [OF this ok(1)] False obtain m active new b missing where
      al: "machine_of (rt_MachineID command) d = Some m" "allocated m active (rt_Recognized command) (bindings_of (m_MachineID m) d) b missing new"
        "new \<noteq> [] \<longrightarrow> is_member (m_SpaceID m) (m_EnrolledByUserID m) d"
      and d': "d' = after_report E command new b (sort (remdups missing)) d"
      unfolding replayed_report_def accepted_report_def by blast
    note t = after_report_tables [of E command new b "sort (remdups missing)" d, folded d']
    have "is_member (ag_SpaceID a) (ag_OwnerUserID a) d" if "a \<in> set (agents d @ new)" "ag_RemovedAt a = None" for a
      using that ok(4) al(2,3) by (auto simp: agent_owners_ok_def allocated_def)
    then have "agent_owners_ok d'" by (simp add: agent_owners_ok_def t is_member_same [OF t(1)])
    moreover have "owners_ok d'" using ok(3) by (simp add: owners_ok_def t is_member_same [OF t(1)])
    moreover have "space_ok d'" using ok(2) by (simp add: space_ok_def t)
    ultimately show ?thesis by blast
  qed (use ok in simp)
  then show ?thesis using ReconcileAgentPresence_keeps unfolding keeps_def by blast
qed

end
