(* ===== verification/Space_Guarantees.thy ===== *)
theory Space_Guarantees
  imports Space_Invariants Space_Rules
begin

text \<open>
  What the Space component promises its callers: what a removal does and that repeating it changes
  nothing, and that one creation request makes one Space.
\<close>

section \<open>Removing a member\<close>

lemma removed_db_revokes:
  assumes "unique_on membership_key (\<lambda>_. True) (memberships d)" "removable c d target"
  shows "\<not> is_member (rmc_SpaceID c) (rmc_TargetUserID c) (removed_db E c d)"
proof
  let ?s = "rmc_SpaceID c" and ?u = "rmc_TargetUserID c"
  assume "is_member ?s ?u (removed_db E c d)"
  then obtain m where "m \<in> set (memberships (removed_db E c d))" "active_membership ?s ?u m"
    by (auto simp: is_member_def exists_where_iff)
  then show False unfolding removed_db_members by (elim in_update_whereE) (auto simp: active_membership_def)
qed

definition handed_over :: "remove_member_command \<Rightarrow> work_row \<Rightarrow> work_row" where
  "handed_over c w = (if open_work_of (rmc_SpaceID c) (rmc_TargetUserID c) w then w\<lparr>w_OwnerUserID := rmc_SuccessorUserID c\<rparr> else w)"

lemma removed_db_works:
  assumes "removable c d target"
  shows "works (removed_db E c d) = map (handed_over c) (works d)"
proof (cases "rmc_SuccessorUserID c = []")
  case True
  then have "\<forall>w \<in> set (works d). \<not> open_work_of (rmc_SpaceID c) (rmc_TargetUserID c) w"
    using assms by (auto simp: removable_def split: if_split_asm)
  then have "map (handed_over c) (works d) = works d"
    by (simp add: handed_over_def map_idI)
  then show ?thesis using True by (simp add: removed_db_def Let_def)
next
  case False
  then show ?thesis by (simp add: removed_db_def Let_def update_where_def handed_over_def [abs_def])
qed

lemma removed_db_other_members:
  assumes "(s, u) \<noteq> (rmc_SpaceID c, rmc_TargetUserID c)"
  shows "is_member s u (removed_db E c d) = is_member s u d"
proof
  assume "is_member s u (removed_db E c d)"
  then obtain m where m: "m \<in> set (memberships (removed_db E c d))" "active_membership s u m"
    by (auto simp: is_member_def exists_where_iff)
  then show "is_member s u d" unfolding removed_db_members
    by (elim in_update_whereE) (auto simp: active_membership_def is_member_def exists_where_iff)
qed (rule removed_db_member_kept [OF _ assms])

lemma removed_db_agents:
  "a \<in> set (agents (removed_db E c d)) \<Longrightarrow> ag_SpaceID a = rmc_SpaceID c \<Longrightarrow> ag_OwnerUserID a = rmc_TargetUserID c \<Longrightarrow>
     ag_RemovedAt a \<noteq> None"
  by (auto simp: removed_db_def Let_def owned_agent_def elim: in_update_whereE)

lemma removed_db_governed:
  assumes "space_ok d" "space_ok (removed_db E c d)" "removable c d target"
  shows "\<exists>m \<in> set (memberships (removed_db E c d)). managers (rmc_SpaceID c) m"
    "\<exists>m \<in> set (memberships (removed_db E c d)). enrollers (rmc_SpaceID c) m"
proof -
  obtain s where "s \<in> set (spaces d)" "sp_SpaceID s = rmc_SpaceID c"
    using assms(1,3) by (fastforce simp: space_ok_def memberships_ok_def removable_def member_named_def active_membership_def)
  then have s: "s \<in> set (spaces (removed_db E c d))" "sp_SpaceID s = rmc_SpaceID c"
    by (simp_all add: removed_db_members)
  have "governed (spaces (removed_db E c d)) (memberships (removed_db E c d))"
    using assms(2) by (simp add: space_ok_def)
  with s show "\<exists>m \<in> set (memberships (removed_db E c d)). managers (rmc_SpaceID c) m"
    "\<exists>m \<in> set (memberships (removed_db E c d)). enrollers (rmc_SpaceID c) m"
    unfolding governed_def by metis+
qed

lemma removed_db_untouched:
  "conversation_part (removed_db E c d) = conversation_part d" "runs (removed_db E c d) = runs d"
  "machines (removed_db E c d) = machines d"
  by (simp_all add: removed_db_def Let_def conversation_part_def)

lemma RemoveSpaceMember_success:
  assumes "RemoveSpaceMember c E d = (Inr x, d')"
  obtains n where "RemoveSpaceMember_tx c E d 0 = Inr (x, d', n)"
  using assms unfolding RemoveSpaceMember_def
  by (auto split: sum.splits if_split_asm dest!: transact_Inr)

text \<open>
  C19 (functional). A successful removal is the repetition of one already recorded, and changes nothing, or it
  was asked for by an active manager and removed an active member: their open Works in the Space,
  and no others, went to the named successor, who is an active member and not the removed one;
  all their Agents in the Space are retired and absent; no membership but theirs changed; and an active
  manager and an active Machine enroller remain.
\<close>

theorem removal_hands_over_and_retires:
  assumes "RemoveSpaceMember c E d = (Inr (), d')" "space_ok d"
  shows "(d' = d \<and> (\<exists>m. replayed_removal c d m))
    \<or> (\<exists>actor target. member_named (rmc_SpaceID c) (rmc_ActorUserID c) d actor \<and> mb_CanManageMembers actor
        \<and> member_named (rmc_SpaceID c) (rmc_TargetUserID c) d target
        \<and> \<not> is_member (rmc_SpaceID c) (rmc_TargetUserID c) d'
        \<and> works d' = map (handed_over c) (works d)
        \<and> (\<forall>w \<in> set (works d). open_work_of (rmc_SpaceID c) (rmc_TargetUserID c) w \<longrightarrow>
             is_member (rmc_SpaceID c) (rmc_SuccessorUserID c) d' \<and> rmc_SuccessorUserID c \<noteq> rmc_TargetUserID c)
        \<and> (\<forall>a \<in> set (agents d'). ag_SpaceID a = rmc_SpaceID c \<and> ag_OwnerUserID a = rmc_TargetUserID c \<longrightarrow> ag_RemovedAt a \<noteq> None)
        \<and> (\<forall>s u. (s, u) \<noteq> (rmc_SpaceID c, rmc_TargetUserID c) \<longrightarrow> is_member s u d' = is_member s u d)
        \<and> (\<exists>m \<in> set (memberships d'). managers (rmc_SpaceID c) m) \<and> (\<exists>m \<in> set (memberships d'). enrollers (rmc_SpaceID c) m)
        \<and> conversation_part d' = conversation_part d \<and> runs d' = runs d \<and> machines d' = machines d)"
proof (rule RemoveSpaceMember_success [OF assms(1)])
  fix n assume "RemoveSpaceMember_tx c E d 0 = Inr ((), d', n)"
  from RemoveSpaceMember_tx_effect [OF this] show ?thesis
  proof (elim disjE conjE exE)
    fix target assume t: "removable c d target" and d': "d' = removed_db E c d" and len: "length (rmc_RequestDigest c) = 32"
      and new: "\<not> exists_where (\<lambda>m. removal_key m = (rmc_SpaceID c, Some (rmc_ActorUserID c), Some (rmc_IdempotencyKey c))) (memberships d)"
    from t obtain actor where actor: "member_named (rmc_SpaceID c) (rmc_ActorUserID c) d actor" "mb_CanManageMembers actor"
      "member_named (rmc_SpaceID c) (rmc_TargetUserID c) d target" by (auto simp: removable_def)
    have u: "unique_on membership_key (\<lambda>_. True) (memberships d)"
      using assms(2) by (simp add: space_ok_def memberships_ok_def)
    have succ: "is_member (rmc_SpaceID c) (rmc_SuccessorUserID c) d' \<and> rmc_SuccessorUserID c \<noteq> rmc_TargetUserID c"
      if "w \<in> set (works d)" "open_work_of (rmc_SpaceID c) (rmc_TargetUserID c) w" for w
      using t that removed_db_member_kept [of "rmc_SpaceID c" "rmc_SuccessorUserID c" d c E]
      by (auto simp: removable_def d' is_member_named [of _ _ d] split: if_split_asm)
    note governed = removed_db_governed [OF assms(2) removed_db_space_ok [OF assms(2) t len new] t, of E]
    have "\<forall>w \<in> set (works d). open_work_of (rmc_SpaceID c) (rmc_TargetUserID c) w \<longrightarrow>
        is_member (rmc_SpaceID c) (rmc_SuccessorUserID c) d' \<and> rmc_SuccessorUserID c \<noteq> rmc_TargetUserID c"
      using succ by blast
    moreover have "\<forall>a \<in> set (agents d'). ag_SpaceID a = rmc_SpaceID c \<and> ag_OwnerUserID a = rmc_TargetUserID c \<longrightarrow> ag_RemovedAt a \<noteq> None"
      unfolding d' using removed_db_agents by blast
    moreover have "\<forall>s u. (s, u) \<noteq> (rmc_SpaceID c, rmc_TargetUserID c) \<longrightarrow> is_member s u d' = is_member s u d"
      unfolding d' using removed_db_other_members by blast
    ultimately show ?thesis
      using actor removed_db_revokes [OF u t, of E, folded d'] removed_db_works [OF t, of E, folded d'] governed [folded d']
        removed_db_untouched [of E c d, folded d'] by blast
  qed blast
qed

section \<open>Repeating a removal\<close>

text \<open>The command as \<open>NewRemoveMemberCommand\<close> builds it, and what \<open>uuid.Validate\<close> promises of \<open>uuid.Parse\<close>.\<close>

definition valid_removal :: "env \<Rightarrow> remove_member_command \<Rightarrow> bool" where
  "valid_removal E c \<longleftrightarrow> (case NewRemoveMemberCommand E \<lparr>rmq_SpaceID = rmc_SpaceID c, rmq_ActorUserID = rmc_ActorUserID c,
      rmq_TargetUserID = rmc_TargetUserID c, rmq_SuccessorUserID = rmc_SuccessorUserID c, rmq_IdempotencyKey = rmc_IdempotencyKey c\<rparr> of
        Inl e \<Rightarrow> False | Inr v \<Rightarrow> rmc_RequestDigest v = rmc_RequestDigest c)"

definition parses_valid :: "env \<Rightarrow> bool" where
  "parses_valid E \<longleftrightarrow> (\<forall>s. uuid_valid E s \<longrightarrow> uuid_parse E s)"

lemma valid_removal_runs:
  "valid_removal E c \<Longrightarrow> RemoveSpaceMember c E d = transact (RemoveSpaceMember_tx c) E d"
  "\<not> valid_removal E c \<Longrightarrow> RemoveSpaceMember c E d = (Inl (SpaceError ErrInvalidMemberRemoval), d)"
  by (auto simp: valid_removal_def RemoveSpaceMember_def split: sum.splits)

lemma valid_removal_texts:
  assumes "valid_removal E c"
  shows "uuid_valid E (rmc_ActorUserID c)" "rmc_SuccessorUserID c = [] \<or> uuid_valid E (rmc_SuccessorUserID c)"
  using assms by (auto simp: valid_removal_def NewRemoveMemberCommand_def split: sum.split_asm option.split_asm if_split_asm)

lemma removed_db_recorded:
  assumes "removable c d target" "rmc_SuccessorUserID c = [] \<or> uuid_parse E (rmc_SuccessorUserID c)"
  shows "\<exists>m. replayed_removal c (removed_db E c d) m"
proof -
  let ?f = "revoked_membership E (Some (rmc_ActorUserID c))
      (if rmc_SuccessorUserID c = [] then None else optional_uuid (rmc_SuccessorUserID c) E) (rmc_IdempotencyKey c) (rmc_RequestDigest c)"
  have t: "target \<in> set (memberships d)" "active_membership (rmc_SpaceID c) (rmc_TargetUserID c) target"
    using assms(1) by (auto simp: removable_def member_named_def)
  then have "?f target \<in> set (memberships (removed_db E c d))"
    unfolding removed_db_members set_update_where by force
  moreover have "uuidValue (mb_RemovalSuccessorUserID (?f target)) = rmc_SuccessorUserID c"
    using assms(2) by (auto simp: revoked_membership_def uuidValue_def textValue_def optional_uuid_def)
  ultimately show ?thesis
    using t(2) by (intro exI [of _ "?f target"]) (simp add: replayed_removal_def active_membership_def,
        simp add: revoked_membership_def)
qed

lemma replay_found:
  assumes "space_ok d" "replayed_removal c d m" "rmc_SpaceID c' = rmc_SpaceID c" "rmc_ActorUserID c' = rmc_ActorUserID c"
    "rmc_IdempotencyKey c' = rmc_IdempotencyKey c"
  shows "sql_LoadMemberRemovalReplay (rmc_SpaceID c') (Some (rmc_ActorUserID c')) (rmc_IdempotencyKey c') d = Some m"
  unfolding sql_LoadMemberRemovalReplay_def
proof (rule unique_first_where [of removal_key has_removal])
  show "unique_on removal_key has_removal (memberships d)" using assms(1) by (simp add: space_ok_def memberships_ok_def)
qed (use assms in \<open>auto simp: replayed_removal_def has_removal_def removal_key_def\<close>)

lemma space_row_kept:
  assumes "space_ok d" "m \<in> set (memberships d)"
  shows "sql_LockSpaceForMemberRemoval (mb_SpaceID m) d \<noteq> None"
  using assms first_where_ex [of _ "spaces d"]
  by (fastforce simp: space_ok_def memberships_ok_def sql_LockSpaceForMemberRemoval_def)

lemma removal_recorded:
  assumes "RemoveSpaceMember c E d = (Inr (), d')" "parses_valid E"
  obtains m where "replayed_removal c d' m"
proof (rule RemoveSpaceMember_success [OF assms(1)])
  have valid: "valid_removal E c" using assms(1) valid_removal_runs(2) [of E c d] by force
  have succ: "rmc_SuccessorUserID c = [] \<or> uuid_parse E (rmc_SuccessorUserID c)"
    using valid_removal_texts(2) [OF valid] assms(2) by (auto simp: parses_valid_def)
  fix n assume "RemoveSpaceMember_tx c E d 0 = Inr ((), d', n)"
  from RemoveSpaceMember_tx_effect [OF this] removed_db_recorded [of c d _ E] succ that show thesis by blast
qed

text \<open>A recorded removal answers whatever the same manager asks under its key in the same Space.\<close>

lemma recorded_removal_answers:
  assumes ok: "space_ok d" and m: "replayed_removal c d m"
    and "healthy E" "parses_valid E" "valid_removal E c'"
    and "rmc_SpaceID c' = rmc_SpaceID c" "rmc_ActorUserID c' = rmc_ActorUserID c" "rmc_IdempotencyKey c' = rmc_IdempotencyKey c"
  shows "RemoveSpaceMember c' E d =
    (if rmc_TargetUserID c' = rmc_TargetUserID c \<and> rmc_SuccessorUserID c' = rmc_SuccessorUserID c
          \<and> rmc_RequestDigest c' = rmc_RequestDigest c then Inr () else Inl (SpaceError ErrCommandConflict), d)"
proof -
  have space: "\<exists>s. sql_LockSpaceForMemberRemoval (rmc_SpaceID c') d = Some s"
    using space_row_kept [OF ok, of m] m assms(6) by (auto simp: replayed_removal_def removal_key_def)
  have actor: "optional_uuid (rmc_ActorUserID c') E = Some (rmc_ActorUserID c')"
    using valid_removal_texts(1) [OF assms(5)] assms(4) by (simp add: optional_uuid_def parses_valid_def)
  note found = replay_found [OF ok m assms(6-8)]
  show ?thesis
    using space m assms(3) found actor
    by (auto simp: valid_removal_runs(1) [OF assms(5)] transact_healthy RemoveSpaceMember_tx_def tx_run replayed_removal_def)
qed

text \<open>What records a removal is the row of a membership that was revoked.\<close>

lemma recorded_removal_revoked: "space_ok d \<Longrightarrow> replayed_removal c d m \<Longrightarrow> mb_RevokedAt m \<noteq> None"
  by (auto simp: space_ok_def memberships_ok_def membership_row_ok_def replayed_removal_def removal_key_def split: if_split_asm)

section \<open>Creating a Space\<close>

lemma created_db_lookup:
  assumes "space_creatable c d" "csc_UserID c' = csc_UserID c" "csc_IdempotencyKey c' = csc_IdempotencyKey c"
  shows "sql_LoadCreatedSpaceByRequest (csc_UserID c') (csc_IdempotencyKey c') (created_db E c d)
    = Some (new_space E (csc_UserID c) c, new_membership E (csc_SpaceID c) (csc_UserID c) True True)"
proof -
  have "filter (\<lambda>s. creator_request s = (Some (csc_UserID c'), Some (csc_IdempotencyKey c'))) (spaces d) = []"
    using assms by (auto simp: space_creatable_def key_taken_iff filter_empty_conv)
  moreover have "first_where (\<lambda>m. mb_SpaceID m = csc_SpaceID c \<and> csc_UserID c = mb_UserID m) (memberships d) = None"
    using assms(1) by (auto simp: first_where_None space_creatable_def key_taken_iff membership_key_def)
  ultimately show ?thesis
    using assms(2,3) by (simp add: sql_LoadCreatedSpaceByRequest_def created_db_def first_where_append first_row_def map_filter_simps)
qed

text \<open>
  C21 (functional). One creation request makes one Space: repeating it with the same key returns the same Space,
  with the creator's current permissions, and the key with another request is refused; neither changes anything.
\<close>

theorem space_is_created_once:
  assumes "CreateSpace u c E d = (Inr v, d')" and "healthy E'" "parses_valid E'" "uuid_valid E' (csc_UserID c)"
    and "csc_UserID c' = csc_UserID c" "csc_IdempotencyKey c' = csc_IdempotencyKey c"
  shows "CreateSpace u' c' E' d' =
    (if csc_RequestDigest c' = csc_RequestDigest c then Inr v else Inl (SpaceError ErrCommandConflict), d')"
proof -
  from assms(1) obtain n where "CreateSpace_tx u c E d 0 = Inr (v, d', n)"
    unfolding CreateSpace_def by (auto dest: transact_Inr)
  note effect = CreateSpace_tx_effect [OF this]
  obtain s m where found: "sql_LoadCreatedSpaceByRequest (csc_UserID c') (csc_IdempotencyKey c') d' = Some (s, m)"
    and s: "sp_CreateRequestDigest s = Some (csc_RequestDigest c)" "v = restoreCreatedSpace (s, m)"
  proof (cases "d' = d \<and> sql_LoadCreatedSpaceByRequest (csc_UserID c) (csc_IdempotencyKey c) d \<noteq> None")
    case True
    with effect that assms(5,6) show thesis by auto
  next
    case False
    with effect have c: "space_creatable c d" "d' = created_db E c d"
      and v: "v = \<lparr>cs_SpaceID = csc_SpaceID c, cs_Name = csc_Name c, cs_Slug = csc_Slug c, cs_CanManageMembers = True, cs_CanEnrollMachines = True\<rparr>"
      by auto
    show thesis
      by (rule that [of "new_space E (csc_UserID c) c" "new_membership E (csc_SpaceID c) (csc_UserID c) True True"])
        (simp_all add: c(2) created_db_lookup [OF c(1) assms(5,6)] restoreCreatedSpace_def v)
  qed
  have "user_of (csc_UserID c) d \<noteq> None \<and> carry_users d' = carry_users d"
    using effect by (auto simp: created_db_def)
  then obtain x where "sql_LockSpaceCreator (csc_UserID c') d' = Some x" "x = csc_UserID c"
    using assms(5) by (auto simp: sql_LockSpaceCreator_def user_of_def dest: first_where_Some)
  then show ?thesis
    using assms found s by (auto simp: CreateSpace_def transact_healthy CreateSpace_tx_def tx_run postgresUUID_def parses_valid_def)
qed

end
