(* ===== verification/Demo_Spaces.thy ===== *)
theory Demo_Spaces
  imports Space_Guarantees Demo_World
begin

text \<open>
  A concrete Unicode table (ASCII), a removal that hands a Work over, and a Space created in the
  demo world. The witnesses of the Space properties run them.
\<close>

section \<open>A slug\<close>

definition demo_unicode :: unicode where
  "demo_unicode = \<lparr>is_letter = (\<lambda>r. 65 \<le> r \<and> r \<le> 90 \<or> 97 \<le> r \<and> r \<le> 122), is_number = (\<lambda>r. 48 \<le> r \<and> r \<le> 57),
     is_mark = (\<lambda>r. False), is_format = (\<lambda>r. False), scripts_of = (\<lambda>r. [''Latin'']),
     case_mapped = (\<lambda>s. Some (map (\<lambda>c. if 65 \<le> code c \<and> code c \<le> 90 then char_of (code c + 32) else c) s))\<rparr>"

lemma demo_unicode_ascii: "unicode_ascii demo_unicode"
  by (simp add: unicode_ascii_def base_rune_def token_rune_def demo_unicode_def)

lemma demo_ops_name: "NormalizeSpaceName demo_unicode ''Ops 1'' 0 = Inr (''Ops 1'', ''ops-1'')"
proof -
  have p: "plain_text ''Ops 1''" by (simp add: plain_text_def is_space_def)
  have "slug_scripts demo_unicode ''ops-1'' \<subseteq> {''Latin''}"
    by (auto simp: slug_scripts_def demo_unicode_def)
  then have "card (slug_scripts demo_unicode ''ops-1'') \<le> 1"
    using card_mono [of "{''Latin''}"] by fastforce
  then have s: "validSlugScripts demo_unicode ''ops-1''" by (simp add: validSlugScripts_def Let_def)
  have c: "collapseSlugSeparators ''Ops 1'' = ''Ops-1''" "collapseSlugSeparators ''ops-1'' = ''ops-1''"
    by (simp_all add: collapseSlugSeparators_def is_separator_def is_space_def decode_rune.simps RuneError_def)
  have m: "case_mapped demo_unicode ''Ops-1'' = Some ''ops-1''" "case_mapped demo_unicode ''ops-1'' = Some ''ops-1''"
    by (simp_all add: demo_unicode_def char_of_def bit_0)
  have g: "validateSlugGrammar demo_unicode ''ops-1'' = Inr ()"
    by (simp add: validateSlugGrammar_def demo_unicode_def decode_rune.simps)
  show ?thesis
    using plain_text_trim [OF p] plain_text_valid [OF p]
    by (simp add: NormalizeSpaceName_def Let_def s c m g MaxSpaceNameCodePoints_def MaxSpaceSlugCodePoints_def rune_count_def
      decode_rune.simps is_control_def) (simp add: demo_unicode_def)
qed

theorem slug_has_normal_form_witness: "slug_shape demo_unicode (map fst (runes ''ops-1''))"
  using slug_has_normal_form [OF demo_ops_name demo_unicode_ascii] by blast

section \<open>Bob removes Alice\<close>

definition demo_removal :: remove_member_command where
  "demo_removal = \<lparr>rmc_SpaceID = ''space'', rmc_ActorUserID = ''bob'', rmc_TargetUserID = ''alice'',
     rmc_SuccessorUserID = ''bob'', rmc_IdempotencyKey = ''key'',
     rmc_RequestDigest = removal_digest ''space'' ''bob'' ''alice'' ''bob''\<rparr>"

lemma demo_removal_valid: "valid_removal (demo_env tag t) demo_removal"
  using plain_text_trim [OF demo_texts(2)] plain_text_valid [OF demo_texts(2)] plain_text_no_nul [OF demo_texts(2)]
  by (simp add: valid_removal_def NewRemoveMemberCommand_def normalizeCommandKey_def Let_def demo_removal_def)

lemma demo_parses: "parses_valid (demo_env tag t)"
  by (simp add: parses_valid_def)

lemma demo_space_ok: "space_ok demo_base" "space_ok demo_created"
proof -
  show ok: "space_ok demo_base"
    by (simp add: space_ok_def spaces_ok_def memberships_ok_def governed_def unique_on_def demo_defs membership_key_def
        has_removal_def has_creator_def membership_row_ok_def rune_count_def decode_rune.simps managers_def enrollers_def active_in_def)
  then show "space_ok demo_created" by (simp add: space_ok_def demo_created_def)
qed

lemma demo_removal_run:
  "RemoveSpaceMember demo_removal (demo_env ''x'' 300) demo_created = (Inr (), removed_db (demo_env ''x'' 300) demo_removal demo_created)"
proof -
  have len: "length (removal_digest s a b c) = 32" for s a b c by (simp add: removal_digest_def)
  show ?thesis
    unfolding valid_removal_runs(1) [OF demo_removal_valid]
    by (simp add: transact_healthy demo_env_healthy RemoveSpaceMember_tx_def
      remove_member_now_def removal_checks_def transfer_works_def tx_run demo_removal_def demo_created_def demo_defs
      sql_LockSpaceForMemberRemoval_def sql_LoadMemberRemovalReplay_def removal_key_def optional_uuid_def
      sql_LockMembershipForRemoval_def removal_authority_def sql_CountActiveSpaceAuthorities_def active_in_def count_where_def
      sql_LockOpenWorksOwnedByMember_def open_work_of_def demo_work_def new_work_def sql_TransferRemovedMemberOpenWorks_def
      sql_LockActiveAgentsForOwnerRemoval_def sql_RemoveActiveAgentsForOwner_def sql_RevokeSpaceMembership_def Let_def
      active_membership_def exists_where_def removal_shape_ok_def len removed_db_def list_less_def less_char_def update_where_def)
qed

theorem removal_hands_over_and_retires_witness:
  "\<not> is_member ''space'' ''alice'' (removed_db (demo_env ''x'' 300) demo_removal demo_created)
     \<and> map w_OwnerUserID (works (removed_db (demo_env ''x'' 300) demo_removal demo_created)) = [''bob'']"
proof -
  have no: "\<not> replayed_removal demo_removal demo_created m" for m
    by (auto simp: replayed_removal_def demo_created_def demo_defs removal_key_def)
  from removal_hands_over_and_retires [OF demo_removal_run demo_space_ok(2)] no show ?thesis
    by (auto simp: demo_removal_def handed_over_def open_work_of_def demo_created_def demo_work_def new_work_def)
qed

section \<open>Alice creates a Space\<close>

definition demo_ops :: create_space_command where
  "demo_ops = \<lparr>csc_SpaceID = ''ops'', csc_UserID = ''alice'', csc_Name = ''Ops 1'', csc_Slug = ''ops-1'', csc_Suffix = 0,
     csc_IdempotencyKey = ''key'', csc_RequestDigest = spaceCreationDigest ''Ops 1'' 0\<rparr>"

lemma demo_ops_run:
  "\<exists>v. CreateSpace demo_unicode demo_ops (demo_env ''x'' 300) demo_base = (Inr v, created_db (demo_env ''x'' 300) demo_ops demo_base)"
proof -
  have len: "length (spaceCreationDigest n k) = 32" for n k by (simp add: spaceCreationDigest_def)
  show ?thesis
    by (simp add: CreateSpace_def transact_healthy demo_env_healthy CreateSpace_tx_def tx_run demo_ops_def demo_defs
      sql_LockSpaceCreator_def user_of_def postgresUUID_def sql_LoadCreatedSpaceByRequest_def creator_request_def first_row_def
      map_filter_simps sql_CreateSpace_def new_space_def rune_count_def decode_rune.simps textValue_def len key_taken_def
      sql_CreateSpaceMembership_def insert_membership_def new_membership_def membership_key_def exists_where_def created_db_def)
qed

theorem space_is_created_once_witness:
  "\<exists>v d'. CreateSpace demo_unicode demo_ops (demo_env ''y'' 400) d' = (Inr v, d') \<and> length (spaces d') = 2"
proof -
  obtain v where "CreateSpace demo_unicode demo_ops (demo_env ''x'' 300) demo_base = (Inr v, created_db (demo_env ''x'' 300) demo_ops demo_base)"
    using demo_ops_run by blast
  from space_is_created_once [OF this demo_env_healthy demo_parses, of "''y''" 400 demo_ops demo_unicode] show ?thesis
    by (intro exI [of _ v] exI [of _ "created_db (demo_env ''x'' 300) demo_ops demo_base"])
      (simp add: created_db_def demo_defs)
qed

end
