(* ===== verification/Invitation_Rules.thy ===== *)
theory Invitation_Rules
  imports Space_Rules
begin

text \<open>
  Space invitations as the Space owner sees them (\<open>internal/space/invitation.go\<close>): their commands,
  lifetimes and request digests, and the canonical form of an Email address
  (\<open>CanonicalEmail\<close> of \<open>internal/identity/email_login.go\<close>), with the address parser of
  \<open>net/mail\<close>, the Unicode lower case and the acceptance of an origin by \<open>net/url\<close> as the parameter \<open>mail_lib\<close>.
\<close>

section \<open>Constants\<close>

abbreviation hours :: "int \<Rightarrow> timestamp" where
  "hours n \<equiv> n * 3600000000"

definition InvitationLifetime :: timestamp where "InvitationLifetime = 7 * hours 24"
definition InvitationResendCooldown :: timestamp where "InvitationResendCooldown = minutes 1"
definition IdentityProofLifetime :: timestamp where "IdentityProofLifetime = minutes 10"
definition EmailMethod :: string where "EmailMethod = ''email''"

definition InvitationSubmissionPrepared :: string where "InvitationSubmissionPrepared = ''prepared''"
definition InvitationSubmissionAccepted :: string where "InvitationSubmissionAccepted = ''accepted''"
definition InvitationSubmissionRejected :: string where "InvitationSubmissionRejected = ''rejected''"
definition InvitationSubmissionUnknown :: string where "InvitationSubmissionUnknown = ''unknown''"

lemmas submission_states = InvitationSubmissionPrepared_def InvitationSubmissionAccepted_def
  InvitationSubmissionRejected_def InvitationSubmissionUnknown_def

datatype invitation_state = InvitationPending | InvitationAccepted | InvitationRevoked | InvitationExpired

section \<open>Email addresses\<close>

record mail_lib =
  parse_address :: "string \<Rightarrow> (string \<times> string) option"
  to_lower :: "string \<Rightarrow> string"
  https_origin :: "string \<Rightarrow> bool"

definition CanonicalEmail :: "mail_lib \<Rightarrow> string \<Rightarrow> string option" where
  "CanonicalEmail L value =
     (let trimmed = trim_space value in
      if trimmed = [] \<or> length trimmed > 254 \<or> CHR 0x0D \<in> set trimmed \<or> CHR 0x0A \<in> set trimmed then None
      else (case parse_address L trimmed of
              None \<Rightarrow> None
            | Some (name, address) \<Rightarrow>
                if name \<noteq> [] \<or> address \<noteq> trimmed \<or> CHR ''@'' \<notin> set trimmed then None
                else Some (to_lower L trimmed)))"

section \<open>Commands and results\<close>

record prepare_invitation_command =
  pin_InvitationID :: uuid
  pin_SubmissionID :: uuid
  pin_SpaceID :: uuid
  pin_ActorUserID :: uuid
  pin_RecipientEmail :: string
  pin_CanManageMembers :: bool
  pin_CanEnrollMachines :: bool
  pin_IdempotencyKey :: string
  pin_RequestDigest :: bytes
  pin_ProviderIdempotencyKey :: string
  pin_PayloadDigest :: bytes
  pin_ExpiresIn :: timestamp

record prepare_resend_command =
  rsd_SpaceID :: uuid
  rsd_InvitationID :: uuid
  rsd_ActorUserID :: uuid
  rsd_SubmissionID :: uuid
  rsd_IdempotencyKey :: string
  rsd_RequestDigest :: bytes
  rsd_ProviderIdempotencyKey :: string
  rsd_PayloadDigest :: bytes

record record_submission_command =
  rcs_SubmissionID :: uuid
  rcs_PayloadDigest :: bytes
  rcs_State :: string
  rcs_ProviderMessageID :: string

record revoke_invitation_command =
  rvk_SpaceID :: uuid
  rvk_InvitationID :: uuid
  rvk_ActorUserID :: uuid
  rvk_IdempotencyKey :: string
  rvk_RequestDigest :: bytes

record accept_invitation_command =
  aci_InvitationID :: uuid
  aci_UserID :: uuid
  aci_SessionID :: uuid
  aci_IdempotencyKey :: string
  aci_RequestDigest :: bytes

record invitation_submission =
  isb_SubmissionID :: uuid
  isb_Recipient :: string
  isb_ProviderIdempotencyKey :: string
  isb_ProviderMessageID :: string
  isb_PayloadDigest :: bytes
  isb_State :: string
  isb_CreatedAt :: timestamp
  isb_SubmitEligible :: bool

record issued_invitation =
  ii_InvitationID :: uuid
  ii_SpaceID :: uuid
  ii_RecipientEmail :: string
  ii_InviterDisplayName :: string
  ii_CanManageMembers :: bool
  ii_CanEnrollMachines :: bool
  ii_CreatedAt :: timestamp
  ii_ExpiresAt :: timestamp
  ii_Submission :: invitation_submission

record recipient_invitation =
  ri_InvitationID :: uuid
  ri_SpaceID :: uuid
  ri_SpaceName :: string
  ri_InviterDisplayName :: string
  ri_CanManageMembers :: bool
  ri_CanEnrollMachines :: bool
  ri_CreatedAt :: timestamp
  ri_ExpiresAt :: timestamp
  ri_State :: "invitation_state option"
  ri_AcceptResult :: string
  ri_CurrentMember :: bool
  ri_ReauthenticationRequired :: bool

record invitation_inbox =
  ib_Invitations :: "recipient_invitation list"
  ib_ReauthenticationRequired :: bool

record accepted_invitation =
  acc_InvitationID :: uuid
  acc_InvitedSpaceID :: uuid
  acc_SpaceName :: string
  acc_CanManageMembers :: bool
  acc_CanEnrollMachines :: bool
  acc_AlreadyMember :: bool

section \<open>Digests\<close>

definition invitationIssueDigest :: "string \<Rightarrow> bool \<Rightarrow> bool \<Rightarrow> bytes" where
  "invitationIssueDigest recipientEmail canManageMembers canEnrollMachines = sha256 (json_object
     [(''recipient_email'', json_string recipientEmail), (''can_manage_members'', json_bool canManageMembers),
      (''can_enroll_machines'', json_bool canEnrollMachines)])"

definition invitationResendDigest :: "uuid \<Rightarrow> bytes" where
  "invitationResendDigest invitationID = sha256 (json_object [(''invitation_id'', json_string invitationID)])"

definition invitationRevokeDigest :: "uuid \<Rightarrow> bytes" where
  "invitationRevokeDigest invitationID = sha256 (json_object [(''invitation_id'', json_string invitationID)])"

definition invitationAcceptDigest :: "uuid \<Rightarrow> bytes" where
  "invitationAcceptDigest invitationID = sha256 (json_object [(''invitation_id'', json_string invitationID)])"

section \<open>The invitation's address\<close>

text \<open>\<open>url.PathEscape\<close>.\<close>

definition path_unreserved :: "char \<Rightarrow> bool" where
  "path_unreserved c \<longleftrightarrow> (CHR ''a'' \<le> c \<and> c \<le> CHR ''z'') \<or> (CHR ''A'' \<le> c \<and> c \<le> CHR ''Z'') \<or> (CHR ''0'' \<le> c \<and> c \<le> CHR ''9'')
     \<or> c \<in> set ''-_.~$&+:=@''"

definition upper_hex :: "nat \<Rightarrow> char" where
  "upper_hex n = ''0123456789ABCDEF'' ! n"

definition PathEscape :: "string \<Rightarrow> string" where
  "PathEscape s = concat (map (\<lambda>c. if path_unreserved c then [c]
     else [CHR 0x25, upper_hex (of_char c div 16), upper_hex (of_char c mod 16)]) s)"

definition InvitationPath :: "env \<Rightarrow> uuid \<Rightarrow> carry_error + string" where
  "InvitationPath E invitationID =
     (if \<not> uuid_valid E invitationID then Inl (SpaceError ErrInvalidInvitation)
      else Inr (''/invitations/'' @ PathEscape invitationID))"

definition InvitationURL :: "mail_lib \<Rightarrow> env \<Rightarrow> string \<Rightarrow> uuid \<Rightarrow> carry_error + string" where
  "InvitationURL L E origin invitationID =
     (if \<not> https_origin L origin then Inl (SpaceError ErrInvalidInvitation)
      else (case InvitationPath E invitationID of Inl e \<Rightarrow> Inl e | Inr path \<Rightarrow> Inr (origin @ path)))"

record invitation_message =
  im_Recipient :: string
  im_DestinationURL :: string
  im_IdempotencyKey :: string

definition InvitationMessageText :: "string \<Rightarrow> string" where
  "InvitationMessageText destinationURL =
     ''You have a Carry Space invitation. Sign in and review it at '' @ destinationURL @ ''. This email does not grant access.''"

end
