(* ===== verification/Invitation_Store.thy ===== *)
theory Invitation_Store
  imports Invitation_Rules Space_Store
begin

text \<open>
  Invitations in the database (\<open>internal/postgres/space_invitation.go\<close>, statements of
  \<open>dbsqlc/space_invitation.sql.go\<close>): a manager issues, resends and revokes, the owner of the
  invited Email address accepts. The advisory locks that serialise issues and acceptances of one
  address are statements without effect here, since transactions run one after the other.
\<close>

section \<open>Guards\<close>

definition validInvitationKey :: "string \<Rightarrow> bool" where
  "validInvitationKey value \<longleftrightarrow> trim_space value \<noteq> [] \<and> length value \<le> 255"

definition validInvitationSubmissionState :: "string \<Rightarrow> string \<Rightarrow> bool" where
  "validInvitationSubmissionState state providerID \<longleftrightarrow>
     (if state = InvitationSubmissionAccepted then trim_space providerID \<noteq> [] \<and> length providerID \<le> 255
      else if state = InvitationSubmissionRejected \<or> state = InvitationSubmissionUnknown then providerID = []
      else False)"

text \<open>The manager's membership, locked: \<open>ErrForbidden\<close> unless it is active and manages members.\<close>

definition lock_manager :: "uuid \<Rightarrow> uuid \<Rightarrow> (db, membership_row) tx" where
  "lock_manager spaceID userID =
     bind_tx (query_one (SpaceError ErrForbidden) (\<lambda>E now. sql_LockInvitationActorMembership spaceID userID)) (\<lambda>authority.
     bind_tx (require (mb_CanManageMembers authority) (SpaceError ErrForbidden)) (\<lambda>_. ret authority))"

definition advisory_lock :: "(db, unit) tx" where
  "advisory_lock = query (\<lambda>E now d. ())"

text \<open>A single statement outside a transaction.\<close>

definition read_only :: "(db, 'a) tx \<Rightarrow> env \<Rightarrow> db \<Rightarrow> (carry_error + 'a) \<times> db" where
  "read_only m E d = (case m E d 0 of Inl e \<Rightarrow> (Inl e, d) | Inr (x, d', n) \<Rightarrow> (Inr x, d'))"

section \<open>Results\<close>

definition digest32 :: "bytes \<Rightarrow> bytes" where
  "digest32 payload = take 32 (payload @ replicate 32 (CHR 0x00))"

definition restoreSubmission :: "submission_row \<Rightarrow> invitation_submission" where
  "restoreSubmission s = \<lparr>isb_SubmissionID = sb_SubmissionID s, isb_Recipient = sb_RecipientEmail s,
     isb_ProviderIdempotencyKey = sb_ProviderIdempotencyKey s, isb_ProviderMessageID = textValue (sb_ProviderMessageID s),
     isb_PayloadDigest = digest32 (sb_PayloadDigest s), isb_State = sb_State s, isb_CreatedAt = sb_CreatedAt s,
     isb_SubmitEligible = False\<rparr>"

definition restoreIssuedInvitation :: "invitation_row \<Rightarrow> submission_row \<Rightarrow> bool \<Rightarrow> issued_invitation" where
  "restoreIssuedInvitation i s submitEligible = \<lparr>ii_InvitationID = iv_InvitationID i, ii_SpaceID = iv_SpaceID i,
     ii_RecipientEmail = iv_RecipientEmail i, ii_InviterDisplayName = [], ii_CanManageMembers = iv_CanManageMembers i,
     ii_CanEnrollMachines = iv_CanEnrollMachines i, ii_CreatedAt = iv_CreatedAt i, ii_ExpiresAt = iv_ExpiresAt i,
     ii_Submission = (restoreSubmission s)\<lparr>isb_SubmitEligible := submitEligible\<rparr>\<rparr>"

definition restoreManagedInvitation :: "invitation_row \<times> user_row \<times> submission_row \<Rightarrow> issued_invitation" where
  "restoreManagedInvitation = (\<lambda>(i, u, s). (restoreIssuedInvitation i s False)\<lparr>ii_InviterDisplayName := u_DisplayName u\<rparr>)"

definition acceptedInvitation :: "invitation_row \<Rightarrow> string \<Rightarrow> bool \<Rightarrow> bool \<Rightarrow> bool \<Rightarrow> accepted_invitation" where
  "acceptedInvitation i spaceName canManage canEnroll already = \<lparr>acc_InvitationID = iv_InvitationID i,
     acc_InvitedSpaceID = iv_SpaceID i, acc_SpaceName = spaceName, acc_CanManageMembers = canManage,
     acc_CanEnrollMachines = canEnroll, acc_AlreadyMember = already\<rparr>"

section \<open>Statements\<close>

definition sql_LoadSpaceInvitation :: "uuid \<Rightarrow> db \<Rightarrow> invitation_row option" where
  "sql_LoadSpaceInvitation invitationID d = first_where (\<lambda>i. iv_InvitationID i = invitationID) (space_invitations d)"

definition sql_LoadSpaceInvitationForUpdate :: "uuid \<Rightarrow> db \<Rightarrow> invitation_row option" where
  "sql_LoadSpaceInvitationForUpdate invitationID d = first_where (\<lambda>i. iv_InvitationID i = invitationID) (space_invitations d)"

definition submission_order :: "submission_row \<Rightarrow> timestamp \<times> uuid" where
  "submission_order s = (sb_CreatedAt s, sb_SubmissionID s)"

text \<open>The \<open>submit_eligible\<close> column of the replay queries.\<close>

definition replay_eligible :: "timestamp \<Rightarrow> invitation_row \<Rightarrow> submission_row \<Rightarrow> bool" where
  "replay_eligible now i s \<longleftrightarrow> sb_State s = InvitationSubmissionPrepared \<and> sb_CreatedAt s + hours 24 > now
     \<and> iv_AcceptedAt i = None \<and> iv_RevokedAt i = None \<and> iv_ExpiresAt i > now"

definition issue_key :: "invitation_row \<Rightarrow> uuid \<times> uuid \<times> string" where
  "issue_key i = (iv_SpaceID i, iv_InviterUserID i, iv_IssueIdempotencyKey i)"

definition sql_LoadInvitationIssueReplay ::
    "uuid \<Rightarrow> uuid \<Rightarrow> string \<Rightarrow> timestamp \<Rightarrow> db \<Rightarrow> (invitation_row \<times> submission_row \<times> bool) option" where
  "sql_LoadInvitationIssueReplay spaceID userID key now d =
     first_row (map (\<lambda>(i, s). (i, s, replay_eligible now i s)) (order_by (\<lambda>(i, s). submission_order s)
       [(i, s) \<leftarrow> List.product (space_invitations d) (space_invitation_submissions d).
          sb_InvitationID s = iv_InvitationID i \<and> issue_key i = (spaceID, userID, key)]))"

definition resend_key :: "submission_row \<Rightarrow> uuid \<times> uuid \<times> string" where
  "resend_key s = (sb_InvitationID s, sb_RequestedByUserID s, sb_IdempotencyKey s)"

definition sql_LoadInvitationResendReplay ::
    "uuid \<Rightarrow> uuid \<Rightarrow> uuid \<Rightarrow> string \<Rightarrow> timestamp \<Rightarrow> db \<Rightarrow> (invitation_row \<times> submission_row \<times> bool) option" where
  "sql_LoadInvitationResendReplay invitationID spaceID userID key now d =
     first_row (map (\<lambda>(i, s). (i, s, replay_eligible now i s))
       [(i, s) \<leftarrow> List.product (space_invitations d) (space_invitation_submissions d).
          sb_InvitationID s = iv_InvitationID i \<and> iv_SpaceID i = spaceID \<and> resend_key s = (invitationID, userID, key)])"

text \<open>An invitation that is neither accepted nor revoked nor, at the given time, expired.\<close>

definition open_invitation :: "timestamp \<Rightarrow> invitation_row \<Rightarrow> bool" where
  "open_invitation now i \<longleftrightarrow> iv_AcceptedAt i = None \<and> iv_RevokedAt i = None \<and> iv_ExpiresAt i > now"

definition sql_HasCurrentSpaceInvitation :: "uuid \<Rightarrow> string \<Rightarrow> env \<Rightarrow> db \<Rightarrow> bool" where
  "sql_HasCurrentSpaceInvitation spaceID recipientEmail E d =
     exists_where (\<lambda>i. iv_SpaceID i = spaceID \<and> iv_RecipientEmail i = recipientEmail \<and> open_invitation (tx_time E) i) (space_invitations d)"

definition sql_EmailOwnerIsActiveSpaceMember :: "string \<Rightarrow> uuid \<Rightarrow> db \<Rightarrow> bool" where
  "sql_EmailOwnerIsActiveSpaceMember recipientEmail spaceID d =
     exists_where (\<lambda>e. ei_CanonicalEmail e = recipientEmail \<and> is_member spaceID (ei_UserID e) d) (email_identities d)"

definition new_invitation :: "env \<Rightarrow> prepare_invitation_command \<Rightarrow> invitation_row" where
  "new_invitation E command = \<lparr>iv_InvitationID = pin_InvitationID command, iv_SpaceID = pin_SpaceID command,
     iv_RecipientEmail = pin_RecipientEmail command, iv_InviterUserID = pin_ActorUserID command,
     iv_CanManageMembers = pin_CanManageMembers command, iv_CanEnrollMachines = pin_CanEnrollMachines command,
     iv_IssueIdempotencyKey = pin_IdempotencyKey command, iv_IssueRequestDigest = pin_RequestDigest command,
     iv_CreatedAt = tx_time E, iv_ExpiresAt = tx_time E + InvitationLifetime, iv_AcceptedByUserID = None,
     iv_AcceptedAt = None, iv_AcceptResult = None, iv_AcceptIdempotencyKey = None, iv_AcceptRequestDigest = None,
     iv_RevokedByUserID = None, iv_RevokedAt = None, iv_RevokeIdempotencyKey = None, iv_RevokeRequestDigest = None\<rparr>"

definition sql_InsertSpaceInvitation :: "invitation_row \<Rightarrow> db \<Rightarrow> db_error + (invitation_row \<times> db)" where
  "sql_InsertSpaceInvitation i d =
     (if key_taken iv_InvitationID (\<lambda>_. True) (iv_InvitationID i) (space_invitations d)
      then Inl (Unique_violation ''space_invitations_pkey'')
      else if key_taken issue_key (\<lambda>_. True) (issue_key i) (space_invitations d)
      then Inl (Unique_violation ''space_invitations_space_id_inviter_user_id_issue_idempotenc_key'')
      else Inr (i, d\<lparr>space_invitations := space_invitations d @ [i]\<rparr>))"

definition new_submission ::
    "env \<Rightarrow> uuid \<Rightarrow> uuid \<Rightarrow> uuid \<Rightarrow> string \<Rightarrow> bytes \<Rightarrow> string \<Rightarrow> bytes \<Rightarrow> string \<Rightarrow> submission_row" where
  "new_submission E submissionID invitationID userID key digest recipient payload providerKey =
     \<lparr>sb_SubmissionID = submissionID, sb_InvitationID = invitationID, sb_RequestedByUserID = userID,
      sb_IdempotencyKey = key, sb_RequestDigest = digest, sb_RecipientEmail = recipient, sb_PayloadDigest = payload,
      sb_ProviderIdempotencyKey = providerKey, sb_State = InvitationSubmissionPrepared, sb_ProviderMessageID = None,
      sb_CreatedAt = tx_time E, sb_RecordedAt = None\<rparr>"

definition sql_InsertSpaceInvitationSubmission :: "submission_row \<Rightarrow> env \<Rightarrow> db \<Rightarrow> db_error + ((submission_row \<times> bool) \<times> db)" where
  "sql_InsertSpaceInvitationSubmission s E d =
     (if key_taken sb_SubmissionID (\<lambda>_. True) (sb_SubmissionID s) (space_invitation_submissions d)
      then Inl (Unique_violation ''space_invitation_submissions_pkey'')
      else if key_taken sb_ProviderIdempotencyKey (\<lambda>_. True) (sb_ProviderIdempotencyKey s) (space_invitation_submissions d)
      then Inl (Unique_violation ''space_invitation_submissions_provider_idempotency_key_key'')
      else if key_taken resend_key (\<lambda>_. True) (resend_key s) (space_invitation_submissions d)
      then Inl (Unique_violation ''space_invitation_submissions_invitation_id_requested_by_use_key'')
      else if \<not> exists_where (\<lambda>i. iv_InvitationID i = sb_InvitationID s) (space_invitations d)
      then Inl (Foreign_key_violation ''space_invitation_submissions_invitation_id_fkey'')
      else Inr ((s, sb_State s = InvitationSubmissionPrepared \<and> sb_CreatedAt s + hours 24 > tx_time E),
                d\<lparr>space_invitation_submissions := space_invitation_submissions d @ [s]\<rparr>))"

definition sql_LoadLatestInvitationSubmissionTime :: "uuid \<Rightarrow> db \<Rightarrow> timestamp option" where
  "sql_LoadLatestInvitationSubmissionTime invitationID d =
     map_option sb_CreatedAt (first_row (order_by_desc submission_order
       (filter (\<lambda>s. sb_InvitationID s = invitationID) (space_invitation_submissions d))))"

definition sql_InvitationDatabaseTime :: "timestamp \<Rightarrow> db \<Rightarrow> timestamp" where
  "sql_InvitationDatabaseTime now d = now"

definition recordable :: "record_submission_command \<Rightarrow> string option \<Rightarrow> submission_row \<Rightarrow> bool" where
  "recordable command providerID s \<longleftrightarrow> sb_SubmissionID s = rcs_SubmissionID command
     \<and> sb_PayloadDigest s = rcs_PayloadDigest command
     \<and> (sb_State s = InvitationSubmissionPrepared \<or> (sb_State s = rcs_State command \<and> sb_ProviderMessageID s = providerID))"

definition sql_RecordSpaceInvitationSubmission ::
    "record_submission_command \<Rightarrow> string option \<Rightarrow> env \<Rightarrow> db \<Rightarrow> submission_row option \<times> db" where
  "sql_RecordSpaceInvitationSubmission command providerID E d =
     (let f = (\<lambda>s. s\<lparr>sb_State := rcs_State command, sb_ProviderMessageID := providerID,
            sb_RecordedAt := (case sb_RecordedAt s of None \<Rightarrow> Some (tx_time E) | Some t \<Rightarrow> Some t)\<rparr>)
      in (map_option f (first_where (recordable command providerID) (space_invitation_submissions d)),
          d\<lparr>space_invitation_submissions := update_where (recordable command providerID) f (space_invitation_submissions d)\<rparr>))"

section \<open>Issuing\<close>

text \<open>The writes of a first issue.\<close>

definition issue_now :: "prepare_invitation_command \<Rightarrow> (db, issued_invitation) tx" where
  "issue_now command =
     bind_tx (insert_row (\<lambda>E now. sql_InsertSpaceInvitation (new_invitation E command))) (\<lambda>created.
     bind_tx (insert_row (\<lambda>E now. sql_InsertSpaceInvitationSubmission (new_submission E (pin_SubmissionID command)
        (pin_InvitationID command) (pin_ActorUserID command) (pin_IdempotencyKey command) (pin_RequestDigest command)
        (pin_RecipientEmail command) (pin_PayloadDigest command) (pin_ProviderIdempotencyKey command)) E)) (\<lambda>(submission, eligible).
     ret (restoreIssuedInvitation created submission eligible)))"

definition PrepareInvitation_tx :: "prepare_invitation_command \<Rightarrow> (db, issued_invitation) tx" where
  "PrepareInvitation_tx command =
     bind_tx (lock_manager (pin_SpaceID command) (pin_ActorUserID command)) (\<lambda>authority.
     bind_tx (query (\<lambda>E. sql_LoadInvitationIssueReplay (pin_SpaceID command) (pin_ActorUserID command) (pin_IdempotencyKey command))) (\<lambda>replay.
     case replay of
       Some (i, s, eligible) \<Rightarrow>
         if iv_IssueRequestDigest i \<noteq> pin_RequestDigest command \<or> iv_RecipientEmail i \<noteq> pin_RecipientEmail command
           \<or> iv_CanManageMembers i \<noteq> pin_CanManageMembers command \<or> iv_CanEnrollMachines i \<noteq> pin_CanEnrollMachines command
         then fail (SpaceError ErrCommandConflict)
         else ret (restoreIssuedInvitation i s eligible)
     | None \<Rightarrow>
         bind_tx (require (\<not> (pin_CanManageMembers command \<and> \<not> mb_CanManageMembers authority
            \<or> pin_CanEnrollMachines command \<and> \<not> mb_CanEnrollMachines authority)) (SpaceError ErrForbidden)) (\<lambda>_.
         bind_tx advisory_lock (\<lambda>_.
         bind_tx (query (\<lambda>E now. sql_HasCurrentSpaceInvitation (pin_SpaceID command) (pin_RecipientEmail command) E)) (\<lambda>current.
         bind_tx (require (\<not> current) (SpaceError ErrInvitationConflict)) (\<lambda>_.
         bind_tx (query (\<lambda>E now. sql_EmailOwnerIsActiveSpaceMember (pin_RecipientEmail command) (pin_SpaceID command))) (\<lambda>alreadyMember.
         bind_tx (require (\<not> alreadyMember) (SpaceError ErrInvitationAlreadyMember)) (\<lambda>_.
         issue_now command))))))))"

definition PrepareInvitation :: "prepare_invitation_command \<Rightarrow> env \<Rightarrow> db \<Rightarrow> (carry_error + issued_invitation) \<times> db" where
  "PrepareInvitation command E =
     checked (guard (uuid_valid E (pin_InvitationID command) \<and> uuid_valid E (pin_SubmissionID command)
        \<and> uuid_valid E (pin_SpaceID command) \<and> uuid_valid E (pin_ActorUserID command)
        \<and> validInvitationKey (pin_IdempotencyKey command) \<and> validInvitationKey (pin_ProviderIdempotencyKey command)
        \<and> pin_ExpiresIn command = InvitationLifetime) (SpaceError ErrInvalidInvitation))
       (\<lambda>_. transact (PrepareInvitation_tx command)) E"

definition InvitationRecipient :: "uuid \<Rightarrow> uuid \<Rightarrow> uuid \<Rightarrow> env \<Rightarrow> db \<Rightarrow> (carry_error + string) \<times> db" where
  "InvitationRecipient spaceID invitationID actorUserID E =
     checked (guard (uuid_valid E spaceID \<and> uuid_valid E invitationID \<and> uuid_valid E actorUserID) (SpaceError ErrInvalidInvitation))
       (\<lambda>_. transact (bind_tx (lock_manager spaceID actorUserID) (\<lambda>_.
          bind_tx (query_one (SpaceError ErrInvitationUnavailable) (\<lambda>E now. sql_LoadSpaceInvitation invitationID)) (\<lambda>invitation.
          bind_tx (require (iv_SpaceID invitation = spaceID) (SpaceError ErrInvitationUnavailable)) (\<lambda>_.
          ret (iv_RecipientEmail invitation)))))) E"

section \<open>Resending\<close>

definition resend_now :: "prepare_resend_command \<Rightarrow> (db, issued_invitation) tx" where
  "resend_now command =
     bind_tx (query_one (SpaceError ErrInvitationUnavailable) (\<lambda>E now. sql_LoadSpaceInvitationForUpdate (rsd_InvitationID command))) (\<lambda>invitation.
     bind_tx (require (iv_SpaceID invitation = rsd_SpaceID command) (SpaceError ErrInvitationUnavailable)) (\<lambda>_.
     bind_tx (query (\<lambda>E. sql_InvitationDatabaseTime)) (\<lambda>now.
     bind_tx (require (iv_AcceptedAt invitation = None) (SpaceError ErrInvitationAccepted)) (\<lambda>_.
     bind_tx (require (iv_RevokedAt invitation = None) (SpaceError ErrInvitationRevoked)) (\<lambda>_.
     bind_tx (require (iv_ExpiresAt invitation > now) (SpaceError ErrInvitationExpired)) (\<lambda>_.
     bind_tx (query_one (DatabaseError No_rows) (\<lambda>E n. sql_LoadLatestInvitationSubmissionTime (rsd_InvitationID command))) (\<lambda>latest.
     bind_tx (require (\<not> latest + InvitationResendCooldown > now) (SpaceError ErrInvitationResendCooldown)) (\<lambda>_.
     bind_tx (insert_row (\<lambda>E n. sql_InsertSpaceInvitationSubmission (new_submission E (rsd_SubmissionID command)
        (rsd_InvitationID command) (rsd_ActorUserID command) (rsd_IdempotencyKey command) (rsd_RequestDigest command)
        (iv_RecipientEmail invitation) (rsd_PayloadDigest command) (rsd_ProviderIdempotencyKey command)) E)) (\<lambda>(submission, eligible).
     ret (restoreIssuedInvitation invitation submission eligible))))))))))"

definition PrepareInvitationResend_tx :: "prepare_resend_command \<Rightarrow> (db, issued_invitation) tx" where
  "PrepareInvitationResend_tx command =
     bind_tx (lock_manager (rsd_SpaceID command) (rsd_ActorUserID command)) (\<lambda>_.
     bind_tx (query (\<lambda>E. sql_LoadInvitationResendReplay (rsd_InvitationID command) (rsd_SpaceID command)
        (rsd_ActorUserID command) (rsd_IdempotencyKey command))) (\<lambda>replay.
     case replay of
       Some (i, s, eligible) \<Rightarrow>
         if sb_RequestDigest s \<noteq> rsd_RequestDigest command then fail (SpaceError ErrCommandConflict)
         else ret (restoreIssuedInvitation i s eligible)
     | None \<Rightarrow> resend_now command))"

definition PrepareInvitationResend :: "prepare_resend_command \<Rightarrow> env \<Rightarrow> db \<Rightarrow> (carry_error + issued_invitation) \<times> db" where
  "PrepareInvitationResend command E =
     checked (guard (uuid_valid E (rsd_SpaceID command) \<and> uuid_valid E (rsd_InvitationID command)
        \<and> uuid_valid E (rsd_ActorUserID command) \<and> uuid_valid E (rsd_SubmissionID command)
        \<and> validInvitationKey (rsd_IdempotencyKey command) \<and> validInvitationKey (rsd_ProviderIdempotencyKey command))
        (SpaceError ErrInvalidInvitation))
       (\<lambda>_. transact (PrepareInvitationResend_tx command)) E"

definition RecordInvitationSubmission :: "record_submission_command \<Rightarrow> env \<Rightarrow> db \<Rightarrow> (carry_error + invitation_submission) \<times> db" where
  "RecordInvitationSubmission command E =
     checked (guard (uuid_valid E (rcs_SubmissionID command)
        \<and> validInvitationSubmissionState (rcs_State command) (rcs_ProviderMessageID command)) (SpaceError ErrInvitationSubmissionConflict))
       (\<lambda>_. let providerID = (if rcs_ProviderMessageID command = [] then None else Some (rcs_ProviderMessageID command)) in
          transact (bind_tx (modify_one (SpaceError ErrInvitationSubmissionConflict)
            (\<lambda>E now. sql_RecordSpaceInvitationSubmission command providerID E)) (\<lambda>row. ret (restoreSubmission row)))) E"

end
