(* ===== verification/Invitation_Decisions.thy ===== *)
theory Invitation_Decisions
  imports Invitation_Store
begin

text \<open>
  What managers and recipients see of invitations, and the two decisions that end one: revocation
  and acceptance (second half of \<open>internal/postgres/space_invitation.go\<close>). An acceptance checks the
  Browser Session, the ownership of the invited address and a recent proof of it, joins the
  Space with exactly the invited rights, and takes one clock value for every time it compares.
\<close>

section \<open>Lists\<close>

definition latest_submission :: "db \<Rightarrow> uuid \<Rightarrow> submission_row option" where
  "latest_submission d invitationID = first_row (order_by_desc submission_order
     (filter (\<lambda>s. sb_InvitationID s = invitationID) (space_invitation_submissions d)))"

definition managed_join :: "db \<Rightarrow> invitation_row \<Rightarrow> (invitation_row \<times> user_row \<times> submission_row) option" where
  "managed_join d i = (case (user_of (iv_InviterUserID i) d, latest_submission d (iv_InvitationID i)) of
     (Some u, Some s) \<Rightarrow> Some (i, u, s) | _ \<Rightarrow> None)"

definition sql_ListManagedSpaceInvitations :: "uuid \<Rightarrow> env \<Rightarrow> db \<Rightarrow> (invitation_row \<times> user_row \<times> submission_row) list" where
  "sql_ListManagedSpaceInvitations spaceID E d =
     take 50 (List.map_filter (managed_join d) (order_by (\<lambda>i. (iv_CreatedAt i, iv_InvitationID i))
       (filter (\<lambda>i. iv_SpaceID i = spaceID \<and> open_invitation (tx_time E) i) (space_invitations d))))"

definition ListSpaceInvitations :: "uuid \<Rightarrow> uuid \<Rightarrow> env \<Rightarrow> db \<Rightarrow> (carry_error + issued_invitation list) \<times> db" where
  "ListSpaceInvitations userID spaceID E =
     checked (guard (uuid_valid E userID \<and> uuid_valid E spaceID) (SpaceError ErrForbidden))
       (\<lambda>_. transact (bind_tx (lock_manager spaceID userID) (\<lambda>_.
          bind_tx (query (\<lambda>E now. sql_ListManagedSpaceInvitations spaceID E)) (\<lambda>rows.
          ret (map restoreManagedInvitation rows))))) E"

definition owned_email :: "uuid \<Rightarrow> string \<Rightarrow> db \<Rightarrow> bool" where
  "owned_email userID email d \<longleftrightarrow> exists_where (\<lambda>e. ei_CanonicalEmail e = email \<and> ei_UserID e = userID) (email_identities d)"

record invitation_for_user =
  lu_Invitation :: invitation_row
  lu_Space :: space_row
  lu_Inviter :: user_row
  lu_Session :: session_row
  lu_CurrentMember :: bool
  lu_ObservedAt :: timestamp

definition sql_LoadInvitationForUser :: "uuid \<Rightarrow> uuid \<Rightarrow> uuid \<Rightarrow> timestamp \<Rightarrow> db \<Rightarrow> invitation_for_user option" where
  "sql_LoadInvitationForUser invitationID userID sessionID now d =
     (case first_where (\<lambda>i. iv_InvitationID i = invitationID \<and> (iv_AcceptedByUserID i = None \<or> iv_AcceptedByUserID i = Some userID)
           \<and> owned_email userID (iv_RecipientEmail i) d) (space_invitations d) of
        None \<Rightarrow> None
      | Some i \<Rightarrow>
          (case (first_where (\<lambda>s. sp_SpaceID s = iv_SpaceID i) (spaces d), user_of (iv_InviterUserID i) d,
                 first_where (\<lambda>b. bs_SessionID b = sessionID \<and> bs_UserID b = userID) (browser_sessions d)) of
             (Some s, Some u, Some b) \<Rightarrow> Some \<lparr>lu_Invitation = i, lu_Space = s, lu_Inviter = u, lu_Session = b,
                lu_CurrentMember = is_member (iv_SpaceID i) userID d, lu_ObservedAt = now\<rparr>
           | _ \<Rightarrow> None))"

text \<open>Whether the session's proof is not a recent one of the Email address.\<close>

definition proof_stale :: "session_row \<Rightarrow> timestamp \<Rightarrow> bool" where
  "proof_stale b now \<longleftrightarrow> bs_IdentityProofMethod b \<noteq> EmailMethod \<or> \<not> bs_IdentityProvedAt b + IdentityProofLifetime > now"

definition invitation_state_at :: "invitation_row \<Rightarrow> timestamp \<Rightarrow> invitation_state" where
  "invitation_state_at i now =
     (if iv_AcceptedAt i \<noteq> None then InvitationAccepted else if iv_RevokedAt i \<noteq> None then InvitationRevoked
      else if \<not> iv_ExpiresAt i > now then InvitationExpired else InvitationPending)"

definition recipient_view :: "invitation_for_user \<Rightarrow> recipient_invitation" where
  "recipient_view row =
     (let i = lu_Invitation row; state = invitation_state_at i (lu_ObservedAt row) in
      \<lparr>ri_InvitationID = iv_InvitationID i, ri_SpaceID = iv_SpaceID i, ri_SpaceName = sp_Name (lu_Space row),
       ri_InviterDisplayName = u_DisplayName (lu_Inviter row), ri_CanManageMembers = iv_CanManageMembers i,
       ri_CanEnrollMachines = iv_CanEnrollMachines i, ri_CreatedAt = iv_CreatedAt i, ri_ExpiresAt = iv_ExpiresAt i,
       ri_State = Some state, ri_AcceptResult = textValue (iv_AcceptResult i), ri_CurrentMember = lu_CurrentMember row,
       ri_ReauthenticationRequired = (state = InvitationPending \<and> proof_stale (lu_Session row) (lu_ObservedAt row))\<rparr>)"

definition LoadInvitationForUser :: "uuid \<Rightarrow> uuid \<Rightarrow> uuid \<Rightarrow> env \<Rightarrow> db \<Rightarrow> (carry_error + recipient_invitation) \<times> db" where
  "LoadInvitationForUser invitationID userID sessionID E =
     checked (guard (uuid_valid E invitationID \<and> uuid_valid E userID \<and> uuid_valid E sessionID) (SpaceError ErrInvitationUnavailable))
       (\<lambda>_. read_only (bind_tx (query_one (SpaceError ErrInvitationUnavailable)
            (\<lambda>E. sql_LoadInvitationForUser invitationID userID sessionID)) (\<lambda>row.
          bind_tx (require (\<not> (bs_RevokedAt (lu_Session row) \<noteq> None \<or> \<not> bs_ExpiresAt (lu_Session row) > lu_ObservedAt row))
            (IdentityError ErrUnauthenticated)) (\<lambda>_.
          ret (recipient_view row))))) E"

definition sql_LoadInvitationInboxSession :: "uuid \<Rightarrow> db \<Rightarrow> session_row option" where
  "sql_LoadInvitationInboxSession sessionID d = first_where (\<lambda>b. bs_SessionID b = sessionID) (browser_sessions d)"

definition inbox_join :: "db \<Rightarrow> invitation_row \<Rightarrow> recipient_invitation option" where
  "inbox_join d i = (case (first_where (\<lambda>s. sp_SpaceID s = iv_SpaceID i) (spaces d), user_of (iv_InviterUserID i) d) of
     (Some s, Some u) \<Rightarrow> Some \<lparr>ri_InvitationID = iv_InvitationID i, ri_SpaceID = iv_SpaceID i, ri_SpaceName = sp_Name s,
        ri_InviterDisplayName = u_DisplayName u, ri_CanManageMembers = iv_CanManageMembers i,
        ri_CanEnrollMachines = iv_CanEnrollMachines i, ri_CreatedAt = iv_CreatedAt i, ri_ExpiresAt = iv_ExpiresAt i,
        ri_State = None, ri_AcceptResult = [], ri_CurrentMember = False, ri_ReauthenticationRequired = False\<rparr>
   | _ \<Rightarrow> None)"

definition sql_ListInvitationsForEmailOwner :: "uuid \<Rightarrow> env \<Rightarrow> db \<Rightarrow> recipient_invitation list" where
  "sql_ListInvitationsForEmailOwner userID E d =
     take 50 (List.map_filter (inbox_join d) (order_by (\<lambda>i. (iv_ExpiresAt i, iv_InvitationID i))
       (filter (\<lambda>i. owned_email userID (iv_RecipientEmail i) d \<and> open_invitation (tx_time E) i) (space_invitations d))))"

definition sql_IdentityMethodDatabaseTime :: "env \<Rightarrow> db \<Rightarrow> timestamp" where
  "sql_IdentityMethodDatabaseTime E d = tx_time E"

definition ListUserInvitations_tx :: "uuid \<Rightarrow> uuid \<Rightarrow> (db, invitation_inbox) tx" where
  "ListUserInvitations_tx userID sessionID =
     bind_tx (query_one (IdentityError ErrUnauthenticated) (\<lambda>E now. sql_LoadInvitationInboxSession sessionID)) (\<lambda>session.
     bind_tx (query (\<lambda>E now. sql_IdentityMethodDatabaseTime E)) (\<lambda>now.
     bind_tx (require (\<not> (bs_UserID session \<noteq> userID \<or> bs_RevokedAt session \<noteq> None \<or> \<not> bs_ExpiresAt session > now))
        (IdentityError ErrUnauthenticated)) (\<lambda>_.
     bind_tx (query (\<lambda>E now. sql_ListInvitationsForEmailOwner userID E)) (\<lambda>rows.
     ret \<lparr>ib_Invitations = rows, ib_ReauthenticationRequired = proof_stale session now\<rparr>))))"

definition ListUserInvitations :: "uuid \<Rightarrow> uuid \<Rightarrow> env \<Rightarrow> db \<Rightarrow> (carry_error + invitation_inbox) \<times> db" where
  "ListUserInvitations userID sessionID E =
     checked (guard (uuid_valid E userID \<and> uuid_valid E sessionID) (IdentityError ErrUnauthenticated))
       (\<lambda>_. transact (ListUserInvitations_tx userID sessionID)) E"

section \<open>Revoking\<close>

definition revoked_row :: "uuid option \<Rightarrow> timestamp \<Rightarrow> string \<Rightarrow> bytes \<Rightarrow> invitation_row \<Rightarrow> invitation_row" where
  "revoked_row userID now key digest i = i\<lparr>iv_RevokedByUserID := userID, iv_RevokedAt := Some now,
     iv_RevokeIdempotencyKey := Some key, iv_RevokeRequestDigest := Some digest\<rparr>"

text \<open>An \<open>UPDATE\<close> of the open invitation with this identifier; \<open>CHECK\<close> requires the user, the key and the digest.\<close>

definition end_invitation ::
    "uuid option \<Rightarrow> string \<Rightarrow> bytes \<Rightarrow> string \<Rightarrow> uuid \<Rightarrow> timestamp \<Rightarrow> (invitation_row \<Rightarrow> invitation_row) \<Rightarrow> db \<Rightarrow> db_error + (int \<times> db)" where
  "end_invitation userID key digest constraint invitationID now f d =
     (let P = (\<lambda>i. iv_InvitationID i = invitationID \<and> open_invitation now i) in
      if exists_where P (space_invitations d) \<and> (userID = None \<or> key = [] \<or> length key > 255 \<or> length digest \<noteq> 32)
      then Inl (Check_violation constraint)
      else Inr (count_where P (space_invitations d), d\<lparr>space_invitations := update_where P f (space_invitations d)\<rparr>))"

definition sql_RevokeSpaceInvitation :: "uuid option \<Rightarrow> timestamp \<Rightarrow> string \<Rightarrow> bytes \<Rightarrow> uuid \<Rightarrow> db \<Rightarrow> db_error + (int \<times> db)" where
  "sql_RevokeSpaceInvitation userID now key digest invitationID =
     end_invitation userID key digest ''space_invitations_check2'' invitationID now (revoked_row userID now key digest)"

definition RevokeInvitation_tx :: "revoke_invitation_command \<Rightarrow> (db, unit) tx" where
  "RevokeInvitation_tx command =
     bind_tx (lock_manager (rvk_SpaceID command) (rvk_ActorUserID command)) (\<lambda>_.
     bind_tx (query_one (SpaceError ErrInvitationUnavailable) (\<lambda>E now. sql_LoadSpaceInvitationForUpdate (rvk_InvitationID command))) (\<lambda>invitation.
     bind_tx (require (iv_SpaceID invitation = rvk_SpaceID command) (SpaceError ErrInvitationUnavailable)) (\<lambda>_.
     if iv_RevokedAt invitation \<noteq> None then
       require (iv_RevokedByUserID invitation = Some (rvk_ActorUserID command)
         \<and> iv_RevokeIdempotencyKey invitation = Some (rvk_IdempotencyKey command)
         \<and> textValue (iv_RevokeRequestDigest invitation) = rvk_RequestDigest command) (SpaceError ErrInvitationRevoked)
     else
       bind_tx (require (iv_AcceptedAt invitation = None) (SpaceError ErrInvitationAccepted)) (\<lambda>_.
       bind_tx (query (\<lambda>E. sql_InvitationDatabaseTime)) (\<lambda>authorizationTime.
       bind_tx (require (iv_ExpiresAt invitation > authorizationTime) (SpaceError ErrInvitationExpired)) (\<lambda>_.
       bind_tx (ask (optional_uuid (rvk_ActorUserID command))) (\<lambda>userUUID.
       bind_tx (insert_row (\<lambda>E now. sql_RevokeSpaceInvitation userUUID authorizationTime (rvk_IdempotencyKey command)
          (rvk_RequestDigest command) (rvk_InvitationID command))) (\<lambda>rows.
       require (rows = 1) (SpaceError ErrInvitationUnavailable))))))))) "

definition RevokeInvitation :: "revoke_invitation_command \<Rightarrow> env \<Rightarrow> db \<Rightarrow> (carry_error + unit) \<times> db" where
  "RevokeInvitation command E =
     checked (guard (uuid_valid E (rvk_SpaceID command) \<and> uuid_valid E (rvk_InvitationID command)
        \<and> uuid_valid E (rvk_ActorUserID command) \<and> validInvitationKey (rvk_IdempotencyKey command)) (SpaceError ErrInvalidInvitation))
       (\<lambda>_. transact (RevokeInvitation_tx command)) E"

section \<open>Accepting\<close>

definition sql_LockInvitationUser :: "uuid \<Rightarrow> db \<Rightarrow> uuid option" where
  "sql_LockInvitationUser userID d = map_option u_UserID (user_of userID d)"

definition sql_LoadInvitationEmailOwner :: "string \<Rightarrow> db \<Rightarrow> uuid option" where
  "sql_LoadInvitationEmailOwner email d = map_option ei_UserID (first_where (\<lambda>e. ei_CanonicalEmail e = email) (email_identities d))"

definition sql_LoadInvitationSpaceName :: "uuid \<Rightarrow> db \<Rightarrow> string option" where
  "sql_LoadInvitationSpaceName spaceID d = map_option sp_Name (first_where (\<lambda>s. sp_SpaceID s = spaceID) (spaces d))"

definition sql_LoadMembershipForInvitation :: "uuid \<Rightarrow> uuid \<Rightarrow> db \<Rightarrow> membership_row option" where
  "sql_LoadMembershipForInvitation spaceID userID d =
     first_where (\<lambda>m. mb_SpaceID m = spaceID \<and> mb_UserID m = userID) (memberships d)"

definition sql_CreateInvitationMembership :: "env \<Rightarrow> uuid \<Rightarrow> uuid \<Rightarrow> bool \<Rightarrow> bool \<Rightarrow> db \<Rightarrow> db_error + (unit \<times> db)" where
  "sql_CreateInvitationMembership E spaceID userID canManage canEnroll =
     insert_membership (new_membership E spaceID userID canManage canEnroll)"

definition accepted_row :: "uuid option \<Rightarrow> timestamp \<Rightarrow> string \<Rightarrow> string \<Rightarrow> bytes \<Rightarrow> invitation_row \<Rightarrow> invitation_row" where
  "accepted_row userID now result key digest i = i\<lparr>iv_AcceptedByUserID := userID, iv_AcceptedAt := Some now,
     iv_AcceptResult := Some result, iv_AcceptIdempotencyKey := Some key, iv_AcceptRequestDigest := Some digest\<rparr>"

definition sql_AcceptSpaceInvitation ::
    "uuid option \<Rightarrow> timestamp \<Rightarrow> string \<Rightarrow> string \<Rightarrow> bytes \<Rightarrow> uuid \<Rightarrow> db \<Rightarrow> db_error + (int \<times> db)" where
  "sql_AcceptSpaceInvitation userID now result key digest invitationID =
     end_invitation userID key digest ''space_invitations_check1'' invitationID now (accepted_row userID now result key digest)"

text \<open>The session and the address of the one who accepts.\<close>

definition lock_recipient :: "accept_invitation_command \<Rightarrow> string \<Rightarrow> (db, session_row) tx" where
  "lock_recipient command recipientEmail =
     bind_tx advisory_lock (\<lambda>_.
     bind_tx (query_one (IdentityError ErrUnauthenticated) (\<lambda>E now. sql_LockInvitationUser (aci_UserID command))) (\<lambda>_.
     bind_tx (query_one (IdentityError ErrUnauthenticated) (\<lambda>E now. sql_LoadInvitationInboxSession (aci_SessionID command))) (\<lambda>session.
     bind_tx (require (bs_UserID session = aci_UserID command) (IdentityError ErrUnauthenticated)) (\<lambda>_.
     bind_tx (require (bs_RevokedAt session = None) (IdentityError ErrUnauthenticated)) (\<lambda>_.
     bind_tx (query_one (SpaceError ErrInvitationUnavailable) (\<lambda>E now. sql_LoadInvitationEmailOwner recipientEmail)) (\<lambda>owner.
     bind_tx (require (owner = aci_UserID command) (SpaceError ErrInvitationUnavailable)) (\<lambda>_.
     ret session)))))))"

text \<open>Whether this acceptance repeats the recorded one; an acceptance by another key or user is refused.\<close>

definition acceptance_replay :: "accept_invitation_command \<Rightarrow> invitation_row \<Rightarrow> carry_error + bool" where
  "acceptance_replay command i =
     (if iv_AcceptedAt i = None then Inr False
      else if iv_AcceptedByUserID i \<noteq> Some (aci_UserID command) then Inl (SpaceError ErrInvitationUnavailable)
      else if iv_AcceptIdempotencyKey i \<noteq> Some (aci_IdempotencyKey command)
        \<or> textValue (iv_AcceptRequestDigest i) \<noteq> aci_RequestDigest command then Inl (SpaceError ErrInvitationAccepted)
      else Inr True)"

record admission =
  ad_CanManage :: bool
  ad_CanEnroll :: bool
  ad_Result :: string
  ad_AlreadyMember :: bool

text \<open>The membership part: the rights the answer names, after joining if there is no membership yet.\<close>

definition admit_recipient :: "accept_invitation_command \<Rightarrow> invitation_row \<Rightarrow> bool \<Rightarrow> (db, admission) tx" where
  "admit_recipient command i replay =
     bind_tx (query (\<lambda>E now. sql_LoadMembershipForInvitation (iv_SpaceID i) (aci_UserID command))) (\<lambda>found.
     case found of
       Some m \<Rightarrow>
         if mb_RevokedAt m \<noteq> None then fail (SpaceError ErrInvitationUnavailable)
         else ret \<lparr>ad_CanManage = mb_CanManageMembers m, ad_CanEnroll = mb_CanEnrollMachines m,
           ad_Result = (if replay then (case iv_AcceptResult i of None \<Rightarrow> ''joined'' | Some r \<Rightarrow> r) else ''already_member''),
           ad_AlreadyMember = (if replay then iv_AcceptResult i = Some ''already_member'' else True)\<rparr>
     | None \<Rightarrow>
         if replay then fail (SpaceError ErrInvitationUnavailable)
         else bind_tx (insert_row (\<lambda>E now. sql_CreateInvitationMembership E (iv_SpaceID i) (aci_UserID command)
                (iv_CanManageMembers i) (iv_CanEnrollMachines i))) (\<lambda>_.
              ret \<lparr>ad_CanManage = iv_CanManageMembers i, ad_CanEnroll = iv_CanEnrollMachines i, ad_Result = ''joined'',
                   ad_AlreadyMember = False\<rparr>))"

text \<open>Everything up to the membership: the invitation, the session, the Space's name, and whether this is a repetition.\<close>

definition acceptance_checks :: "accept_invitation_command \<Rightarrow> (db, invitation_row \<times> session_row \<times> string \<times> bool) tx" where
  "acceptance_checks command =
     bind_tx (query_one (SpaceError ErrInvitationUnavailable) (\<lambda>E now. sql_LoadSpaceInvitation (aci_InvitationID command))) (\<lambda>observed.
     bind_tx (lock_recipient command (iv_RecipientEmail observed)) (\<lambda>session.
     bind_tx (query_one (SpaceError ErrInvitationUnavailable) (\<lambda>E now. sql_LoadSpaceInvitationForUpdate (aci_InvitationID command))) (\<lambda>invitation.
     bind_tx (require (iv_RecipientEmail invitation = iv_RecipientEmail observed) (SpaceError ErrInvitationUnavailable)) (\<lambda>_.
     bind_tx (query_one (DatabaseError No_rows) (\<lambda>E now. sql_LoadInvitationSpaceName (iv_SpaceID invitation))) (\<lambda>spaceName.
     bind_tx (lift (acceptance_replay command invitation)) (\<lambda>replay.
     bind_tx (require (iv_RevokedAt invitation = None) (SpaceError ErrInvitationRevoked)) (\<lambda>_.
     bind_tx (require (replay \<or> bs_IdentityProofMethod session = EmailMethod) (SpaceError ErrInvitationProofRequired)) (\<lambda>_.
     ret (invitation, session, spaceName, replay)))))))))"

definition conclude_acceptance ::
    "accept_invitation_command \<Rightarrow> invitation_row \<Rightarrow> session_row \<Rightarrow> string \<Rightarrow> bool \<Rightarrow> (db, accepted_invitation) tx" where
  "conclude_acceptance command invitation session spaceName replay =
     bind_tx (admit_recipient command invitation replay) (\<lambda>admitted.
     bind_tx (query (\<lambda>E. sql_InvitationDatabaseTime)) (\<lambda>authorizationTime.
     bind_tx (require (bs_ExpiresAt session > authorizationTime) (IdentityError ErrUnauthenticated)) (\<lambda>_.
     let answer = acceptedInvitation invitation spaceName (ad_CanManage admitted) (ad_CanEnroll admitted) (ad_AlreadyMember admitted) in
     if replay then ret answer
     else
       bind_tx (require (bs_IdentityProvedAt session + IdentityProofLifetime > authorizationTime) (SpaceError ErrInvitationProofRequired)) (\<lambda>_.
       bind_tx (require (iv_ExpiresAt invitation > authorizationTime) (SpaceError ErrInvitationExpired)) (\<lambda>_.
       bind_tx (ask (optional_uuid (aci_UserID command))) (\<lambda>userUUID.
       bind_tx (insert_row (\<lambda>E now. sql_AcceptSpaceInvitation userUUID authorizationTime (ad_Result admitted)
          (aci_IdempotencyKey command) (aci_RequestDigest command) (aci_InvitationID command))) (\<lambda>rows.
       bind_tx (require (rows = 1) (SpaceError ErrInvitationUnavailable)) (\<lambda>_.
       ret answer))))))))"

definition AcceptInvitation_tx :: "accept_invitation_command \<Rightarrow> (db, accepted_invitation) tx" where
  "AcceptInvitation_tx command =
     bind_tx (acceptance_checks command) (\<lambda>(invitation, session, spaceName, replay).
     conclude_acceptance command invitation session spaceName replay)"

definition AcceptInvitation :: "accept_invitation_command \<Rightarrow> env \<Rightarrow> db \<Rightarrow> (carry_error + accepted_invitation) \<times> db" where
  "AcceptInvitation command E =
     checked (guard (uuid_valid E (aci_InvitationID command) \<and> uuid_valid E (aci_UserID command)
        \<and> uuid_valid E (aci_SessionID command) \<and> validInvitationKey (aci_IdempotencyKey command)) (SpaceError ErrInvalidInvitation))
       (\<lambda>_. transact (AcceptInvitation_tx command)) E"


text \<open>
  The use cases of \<open>internal/space/invitation.go\<close> around the store: \<open>Issue\<close>, \<open>Resend\<close>, \<open>Revoke\<close>,
  \<open>Accept\<close> and the submission of the Email. The Email service is the parameter \<open>submitter\<close>; a use
  case that calls the store more than once takes one environment per call, and what other
  transactions did between two calls as a function on the database.
\<close>

record submitter =
  payload_digest :: "invitation_message \<Rightarrow> bytes option"
  submit_invitation :: "invitation_message \<Rightarrow> bytes \<Rightarrow> string \<times> string"

record invitations =
  in_submitter :: submitter
  in_origin :: string
  in_lib :: mail_lib

definition NewInvitations :: "mail_lib \<Rightarrow> env \<Rightarrow> submitter \<Rightarrow> string \<Rightarrow> carry_error + invitations" where
  "NewInvitations L E S origin =
     (case InvitationURL L E origin (fresh E 0) of
        Inl e \<Rightarrow> Inl e | Inr _ \<Rightarrow> Inr \<lparr>in_submitter = S, in_origin = origin, in_lib = L\<rparr>)"

record issue_request =
  isr_SpaceID :: uuid
  isr_ActorUserID :: uuid
  isr_RecipientEmail :: string
  isr_CanManageMembers :: bool
  isr_CanEnrollMachines :: bool
  isr_IdempotencyKey :: string

record resend_request =
  rsr_SpaceID :: uuid
  rsr_InvitationID :: uuid
  rsr_ActorUserID :: uuid
  rsr_IdempotencyKey :: string

definition provider_key :: "uuid \<Rightarrow> string" where
  "provider_key submissionID = ''space-invitation/'' @ submissionID"

text \<open>The command that \<open>Issue\<close> builds; \<open>fresh E 0\<close> and \<open>fresh E 1\<close> are its two new identifiers.\<close>

definition issue_command :: "invitations \<Rightarrow> issue_request \<Rightarrow> env \<Rightarrow> carry_error + prepare_invitation_command" where
  "issue_command I request E =
     (case CanonicalEmail (in_lib I) (isr_RecipientEmail request) of
        None \<Rightarrow> Inl (SpaceError ErrInvalidInvitationRecipient)
      | Some recipient \<Rightarrow>
     (case normalizeCommandKey (isr_IdempotencyKey request) of
        None \<Rightarrow> Inl (SpaceError ErrInvalidInvitation)
      | Some key \<Rightarrow>
     if \<not> uuid_valid E (isr_SpaceID request) \<or> \<not> uuid_valid E (isr_ActorUserID request)
     then Inl (SpaceError ErrInvalidInvitation)
     else
     (case InvitationURL (in_lib I) E (in_origin I) (fresh E 0) of
        Inl e \<Rightarrow> Inl e
      | Inr destinationURL \<Rightarrow>
     (case payload_digest (in_submitter I) \<lparr>im_Recipient = recipient, im_DestinationURL = destinationURL,
             im_IdempotencyKey = provider_key (fresh E 1)\<rparr> of
        None \<Rightarrow> Inl (SpaceError ErrInvitationSubmissionConflict)
      | Some payload \<Rightarrow> Inr \<lparr>pin_InvitationID = fresh E 0, pin_SubmissionID = fresh E 1, pin_SpaceID = isr_SpaceID request,
          pin_ActorUserID = isr_ActorUserID request, pin_RecipientEmail = recipient,
          pin_CanManageMembers = isr_CanManageMembers request, pin_CanEnrollMachines = isr_CanEnrollMachines request,
          pin_IdempotencyKey = key, pin_RequestDigest = invitationIssueDigest recipient (isr_CanManageMembers request)
            (isr_CanEnrollMachines request), pin_ProviderIdempotencyKey = provider_key (fresh E 1),
          pin_PayloadDigest = payload, pin_ExpiresIn = InvitationLifetime\<rparr>))))"

definition submission_message :: "invitations \<Rightarrow> env \<Rightarrow> issued_invitation \<Rightarrow> carry_error + invitation_message" where
  "submission_message I E issued =
     (case InvitationURL (in_lib I) E (in_origin I) (ii_InvitationID issued) of
        Inl e \<Rightarrow> Inl e
      | Inr destinationURL \<Rightarrow>
          (let message = \<lparr>im_Recipient = isb_Recipient (ii_Submission issued), im_DestinationURL = destinationURL,
                 im_IdempotencyKey = isb_ProviderIdempotencyKey (ii_Submission issued)\<rparr>
           in if payload_digest (in_submitter I) message = Some (isb_PayloadDigest (ii_Submission issued)) then Inr message
              else Inl (SpaceError ErrInvitationSubmissionConflict)))"

text \<open>\<open>submit\<close> also returns the messages it hands to the Email service.\<close>

definition submit :: "invitations \<Rightarrow> issued_invitation \<Rightarrow> env \<Rightarrow> db \<Rightarrow>
    (carry_error + issued_invitation) \<times> invitation_message list \<times> db" where
  "submit I issued E d =
     (if \<not> isb_SubmitEligible (ii_Submission issued) then (Inr issued, [], d)
      else (case submission_message I E issued of
              Inl e \<Rightarrow> (Inl e, [], d)
            | Inr message \<Rightarrow>
                (let (state, providerID) = submit_invitation (in_submitter I) message (isb_PayloadDigest (ii_Submission issued))
                 in (case RecordInvitationSubmission \<lparr>rcs_SubmissionID = isb_SubmissionID (ii_Submission issued),
                         rcs_PayloadDigest = isb_PayloadDigest (ii_Submission issued), rcs_State = state,
                         rcs_ProviderMessageID = providerID\<rparr> E d of
                       (Inl e, d') \<Rightarrow> (Inl e, [message], d')
                     | (Inr recorded, d') \<Rightarrow> (Inr (issued\<lparr>ii_Submission := recorded\<rparr>), [message], d')))))"

definition Issue :: "invitations \<Rightarrow> issue_request \<Rightarrow> env \<Rightarrow> (db \<Rightarrow> db) \<Rightarrow> env \<Rightarrow> db \<Rightarrow>
    (carry_error + issued_invitation) \<times> invitation_message list \<times> db" where
  "Issue I request E others E' d =
     (case issue_command I request E of
        Inl e \<Rightarrow> (Inl e, [], d)
      | Inr command \<Rightarrow>
          (case PrepareInvitation command E d of
             (Inl e, d1) \<Rightarrow> (Inl e, [], d1)
           | (Inr issued, d1) \<Rightarrow> submit I issued E' (others d1)))"

definition resend_command :: "invitations \<Rightarrow> resend_request \<Rightarrow> string \<Rightarrow> env \<Rightarrow> carry_error + prepare_resend_command" where
  "resend_command I request recipient E =
     (case normalizeCommandKey (rsr_IdempotencyKey request) of
        None \<Rightarrow> Inl (SpaceError ErrInvalidInvitation)
      | Some key \<Rightarrow>
     (case InvitationURL (in_lib I) E (in_origin I) (rsr_InvitationID request) of
        Inl e \<Rightarrow> Inl e
      | Inr destinationURL \<Rightarrow>
     (case payload_digest (in_submitter I) \<lparr>im_Recipient = recipient, im_DestinationURL = destinationURL,
             im_IdempotencyKey = provider_key (fresh E 0)\<rparr> of
        None \<Rightarrow> Inl (SpaceError ErrInvitationSubmissionConflict)
      | Some payload \<Rightarrow> Inr \<lparr>rsd_SpaceID = rsr_SpaceID request, rsd_InvitationID = rsr_InvitationID request,
          rsd_ActorUserID = rsr_ActorUserID request, rsd_SubmissionID = fresh E 0, rsd_IdempotencyKey = key,
          rsd_RequestDigest = invitationResendDigest (rsr_InvitationID request),
          rsd_ProviderIdempotencyKey = provider_key (fresh E 0), rsd_PayloadDigest = payload\<rparr>)))"

definition Resend :: "invitations \<Rightarrow> resend_request \<Rightarrow> env \<Rightarrow> (db \<Rightarrow> db) \<Rightarrow> env \<Rightarrow> (db \<Rightarrow> db) \<Rightarrow> env \<Rightarrow> db \<Rightarrow>
    (carry_error + issued_invitation) \<times> invitation_message list \<times> db" where
  "Resend I request E0 others0 E others E' d =
     (if \<not> uuid_valid E0 (rsr_SpaceID request) \<or> \<not> uuid_valid E0 (rsr_InvitationID request)
         \<or> \<not> uuid_valid E0 (rsr_ActorUserID request) \<or> normalizeCommandKey (rsr_IdempotencyKey request) = None
      then (Inl (SpaceError ErrInvalidInvitation), [], d)
      else
     (case InvitationRecipient (rsr_SpaceID request) (rsr_InvitationID request) (rsr_ActorUserID request) E0 d of
        (Inl e, d0) \<Rightarrow> (Inl e, [], d0)
      | (Inr recipient, d0) \<Rightarrow>
     (case resend_command I request recipient E of
        Inl e \<Rightarrow> (Inl e, [], others0 d0)
      | Inr command \<Rightarrow>
          (case PrepareInvitationResend command E (others0 d0) of
             (Inl e, d1) \<Rightarrow> (Inl e, [], d1)
           | (Inr issued, d1) \<Rightarrow> submit I issued E' (others d1)))))"

definition Revoke :: "revoke_invitation_command \<Rightarrow> env \<Rightarrow> db \<Rightarrow> (carry_error + unit) \<times> db" where
  "Revoke command E d =
     (case normalizeCommandKey (rvk_IdempotencyKey command) of
        None \<Rightarrow> (Inl (SpaceError ErrInvalidInvitation), d)
      | Some key \<Rightarrow> RevokeInvitation (command\<lparr>rvk_IdempotencyKey := key,
          rvk_RequestDigest := invitationRevokeDigest (rvk_InvitationID command)\<rparr>) E d)"

definition Accept :: "accept_invitation_command \<Rightarrow> env \<Rightarrow> db \<Rightarrow> (carry_error + accepted_invitation) \<times> db" where
  "Accept command E d =
     (case normalizeCommandKey (aci_IdempotencyKey command) of
        None \<Rightarrow> (Inl (SpaceError ErrInvalidInvitation), d)
      | Some key \<Rightarrow> AcceptInvitation (command\<lparr>aci_IdempotencyKey := key,
          aci_RequestDigest := invitationAcceptDigest (aci_InvitationID command)\<rparr>) E d)"

end
