(* ===== verification/Invitation_State.thy ===== *)
theory Invitation_State
  imports Invitation_Decisions Space_Invariants Core_Server
begin

text \<open>
  What the invitation operations do to the database, and the invariants they keep: an invitation
  is accepted or revoked at most once and not both, two invitations of one address to one Space
  are never open at the same time, and every recorded submission keeps its outcome.
\<close>

section \<open>Invariants\<close>

definition invitation_row_ok :: "invitation_row \<Rightarrow> bool" where
  "invitation_row_ok i \<longleftrightarrow> iv_ExpiresAt i = iv_CreatedAt i + InvitationLifetime
     \<and> (iv_AcceptedAt i = None \<longleftrightarrow> iv_AcceptedByUserID i = None) \<and> (iv_AcceptedAt i = None \<longleftrightarrow> iv_AcceptIdempotencyKey i = None)
     \<and> (iv_AcceptedAt i = None \<longleftrightarrow> iv_AcceptRequestDigest i = None) \<and> (iv_AcceptedAt i = None \<longleftrightarrow> iv_AcceptResult i = None)
     \<and> (iv_RevokedAt i = None \<longleftrightarrow> iv_RevokedByUserID i = None) \<and> (iv_RevokedAt i = None \<longleftrightarrow> iv_RevokeIdempotencyKey i = None)
     \<and> (iv_RevokedAt i = None \<longleftrightarrow> iv_RevokeRequestDigest i = None)
     \<and> (iv_AcceptedAt i = None \<or> iv_RevokedAt i = None)
     \<and> (\<forall>t. iv_AcceptedAt i = Some t \<longrightarrow> t < iv_ExpiresAt i) \<and> (\<forall>t. iv_RevokedAt i = Some t \<longrightarrow> t < iv_ExpiresAt i)"

definition unended :: "invitation_row \<Rightarrow> bool" where
  "unended i \<longleftrightarrow> iv_AcceptedAt i = None \<and> iv_RevokedAt i = None"

definition address_of :: "invitation_row \<Rightarrow> uuid \<times> string" where
  "address_of i = (iv_SpaceID i, iv_RecipientEmail i)"

definition disjoint_lives :: "invitation_row \<Rightarrow> invitation_row \<Rightarrow> bool" where
  "disjoint_lives i j \<longleftrightarrow> iv_ExpiresAt i \<le> iv_CreatedAt j \<or> iv_ExpiresAt j \<le> iv_CreatedAt i"

definition one_at_a_time :: "invitation_row list \<Rightarrow> bool" where
  "one_at_a_time is \<longleftrightarrow> (\<forall>i \<in> set is. \<forall>j \<in> set is. i \<noteq> j \<and> address_of i = address_of j \<and> unended i \<and> unended j \<longrightarrow> disjoint_lives i j)"

definition submission_row_ok :: "invitation_row list \<Rightarrow> submission_row \<Rightarrow> bool" where
  "submission_row_ok is s \<longleftrightarrow> (\<exists>i \<in> set is. iv_InvitationID i = sb_InvitationID s \<and> iv_RecipientEmail i = sb_RecipientEmail s)
     \<and> (sb_State s = InvitationSubmissionPrepared \<longleftrightarrow> sb_RecordedAt s = None)
     \<and> (sb_State s = InvitationSubmissionPrepared \<or> validInvitationSubmissionState (sb_State s) (textValue (sb_ProviderMessageID s)))"

definition invitations_ok :: "db \<Rightarrow> bool" where
  "invitations_ok d \<longleftrightarrow> unique_on iv_InvitationID (\<lambda>_. True) (space_invitations d)
     \<and> unique_on issue_key (\<lambda>_. True) (space_invitations d) \<and> (\<forall>i \<in> set (space_invitations d). invitation_row_ok i)
     \<and> one_at_a_time (space_invitations d)
     \<and> unique_on sb_SubmissionID (\<lambda>_. True) (space_invitation_submissions d)
     \<and> unique_on sb_ProviderIdempotencyKey (\<lambda>_. True) (space_invitation_submissions d)
     \<and> unique_on resend_key (\<lambda>_. True) (space_invitation_submissions d)
     \<and> (\<forall>s \<in> set (space_invitation_submissions d). submission_row_ok (space_invitations d) s)"

definition invitation_evolves :: "invitation_row \<Rightarrow> invitation_row \<Rightarrow> bool" where
  "invitation_evolves i i' \<longleftrightarrow> iv_InvitationID i' = iv_InvitationID i \<and> address_of i' = address_of i
     \<and> issue_key i' = issue_key i \<and> iv_CanManageMembers i' = iv_CanManageMembers i \<and> iv_CanEnrollMachines i' = iv_CanEnrollMachines i
     \<and> iv_CreatedAt i' = iv_CreatedAt i \<and> iv_ExpiresAt i' = iv_ExpiresAt i \<and> (unended i \<or> i' = i)"

definition submission_evolves :: "submission_row \<Rightarrow> submission_row \<Rightarrow> bool" where
  "submission_evolves s s' \<longleftrightarrow> sb_SubmissionID s' = sb_SubmissionID s \<and> sb_InvitationID s' = sb_InvitationID s
     \<and> sb_PayloadDigest s' = sb_PayloadDigest s \<and> sb_RecipientEmail s' = sb_RecipientEmail s
     \<and> sb_ProviderIdempotencyKey s' = sb_ProviderIdempotencyKey s
     \<and> (sb_State s = InvitationSubmissionPrepared \<or> s' = s)"

lemma invitations_ok_empty: "invitations_ok empty_db"
  by (simp add: invitations_ok_def one_at_a_time_def empty_db_def)

section \<open>Guards\<close>

lemma lock_manager_Inr [tx_simps]:
  "lock_manager s u E d n = Inr (m, d', n') \<longleftrightarrow> \<not> fault E n \<and> sql_LockInvitationActorMembership s u d = Some m
     \<and> mb_CanManageMembers m \<and> d' = d \<and> n' = Suc n"
  by (auto simp: lock_manager_def tx_simps)

lemma advisory_lock_Inr [tx_simps]: "advisory_lock E d n = Inr (u, d', n') \<longleftrightarrow> \<not> fault E n \<and> d' = d \<and> n' = Suc n"
  by (auto simp: advisory_lock_def tx_simps)

lemma actor_membership: "sql_LockInvitationActorMembership s u d = Some m \<Longrightarrow> member_named s u d m"
  by (auto simp: sql_LockInvitationActorMembership_def member_named_def dest: first_where_Some)

section \<open>Issuing\<close>

definition issued_db :: "env \<Rightarrow> prepare_invitation_command \<Rightarrow> db \<Rightarrow> db" where
  "issued_db E c d = d\<lparr>space_invitations := space_invitations d @ [new_invitation E c],
     space_invitation_submissions := space_invitation_submissions d @ [new_submission E (pin_SubmissionID c) (pin_InvitationID c)
       (pin_ActorUserID c) (pin_IdempotencyKey c) (pin_RequestDigest c) (pin_RecipientEmail c) (pin_PayloadDigest c)
       (pin_ProviderIdempotencyKey c)]\<rparr>"

lemma new_invitation_facts [simp]:
  "iv_InvitationID (new_invitation E c) = pin_InvitationID c" "address_of (new_invitation E c) = (pin_SpaceID c, pin_RecipientEmail c)"
  "issue_key (new_invitation E c) = (pin_SpaceID c, pin_ActorUserID c, pin_IdempotencyKey c)"
  "iv_CreatedAt (new_invitation E c) = tx_time E" "iv_ExpiresAt (new_invitation E c) = tx_time E + InvitationLifetime"
  "iv_RecipientEmail (new_invitation E c) = pin_RecipientEmail c" "iv_SpaceID (new_invitation E c) = pin_SpaceID c"
  "unended (new_invitation E c)" "invitation_row_ok (new_invitation E c)"
  by (simp_all add: new_invitation_def address_of_def issue_key_def unended_def invitation_row_ok_def)

lemma new_submission_facts [simp]:
  "sb_SubmissionID (new_submission E i j u k g e p q) = i" "sb_InvitationID (new_submission E i j u k g e p q) = j"
  "resend_key (new_submission E i j u k g e p q) = (j, u, k)" "sb_ProviderIdempotencyKey (new_submission E i j u k g e p q) = q"
  "sb_RecipientEmail (new_submission E i j u k g e p q) = e" "sb_State (new_submission E i j u k g e p q) = InvitationSubmissionPrepared"
  "sb_RecordedAt (new_submission E i j u k g e p q) = None"
  by (simp_all add: new_submission_def resend_key_def)

definition submittable :: "uuid \<Rightarrow> string \<Rightarrow> uuid \<times> uuid \<times> string \<Rightarrow> db \<Rightarrow> bool" where
  "submittable submissionID providerKey key d \<longleftrightarrow>
     \<not> key_taken sb_SubmissionID (\<lambda>_. True) submissionID (space_invitation_submissions d)
     \<and> \<not> key_taken sb_ProviderIdempotencyKey (\<lambda>_. True) providerKey (space_invitation_submissions d)
     \<and> \<not> key_taken resend_key (\<lambda>_. True) key (space_invitation_submissions d)"

definition issuable :: "env \<Rightarrow> prepare_invitation_command \<Rightarrow> db \<Rightarrow> bool" where
  "issuable E c d \<longleftrightarrow> \<not> sql_HasCurrentSpaceInvitation (pin_SpaceID c) (pin_RecipientEmail c) E d
     \<and> \<not> sql_EmailOwnerIsActiveSpaceMember (pin_RecipientEmail c) (pin_SpaceID c) d
     \<and> \<not> key_taken iv_InvitationID (\<lambda>_. True) (pin_InvitationID c) (space_invitations d)
     \<and> \<not> key_taken issue_key (\<lambda>_. True) (pin_SpaceID c, pin_ActorUserID c, pin_IdempotencyKey c) (space_invitations d)
     \<and> submittable (pin_SubmissionID c) (pin_ProviderIdempotencyKey c) (pin_InvitationID c, pin_ActorUserID c, pin_IdempotencyKey c) d"

lemma issue_now_effect:
  assumes "issue_now c E d n = Inr (v, d', n')"
  shows "d' = issued_db E c d \<and> \<not> key_taken iv_InvitationID (\<lambda>_. True) (pin_InvitationID c) (space_invitations d)
     \<and> \<not> key_taken issue_key (\<lambda>_. True) (pin_SpaceID c, pin_ActorUserID c, pin_IdempotencyKey c) (space_invitations d)
     \<and> submittable (pin_SubmissionID c) (pin_ProviderIdempotencyKey c) (pin_InvitationID c, pin_ActorUserID c, pin_IdempotencyKey c) d"
  using assms
  by (auto simp: issue_now_def tx_simps sql_InsertSpaceInvitation_def sql_InsertSpaceInvitationSubmission_def issued_db_def
      submittable_def split: if_split_asm)

lemma PrepareInvitation_tx_effect:
  assumes "PrepareInvitation_tx c E d n = Inr (v, d', n')"
  shows "\<exists>m. member_named (pin_SpaceID c) (pin_ActorUserID c) d m \<and> mb_CanManageMembers m
    \<and> (d' = d \<or> d' = issued_db E c d \<and> issuable E c d \<and> (pin_CanEnrollMachines c \<longrightarrow> mb_CanEnrollMachines m))"
proof -
  from assms obtain m n1 where m: "sql_LockInvitationActorMembership (pin_SpaceID c) (pin_ActorUserID c) d = Some m" "mb_CanManageMembers m"
    and rest: "d' = d \<or> ((pin_CanEnrollMachines c \<longrightarrow> mb_CanEnrollMachines m)
        \<and> \<not> sql_HasCurrentSpaceInvitation (pin_SpaceID c) (pin_RecipientEmail c) E d
        \<and> \<not> sql_EmailOwnerIsActiveSpaceMember (pin_RecipientEmail c) (pin_SpaceID c) d \<and> issue_now c E d n1 = Inr (v, d', n'))"
    unfolding PrepareInvitation_tx_def by (auto simp: tx_simps split: if_split_asm)
  from rest issue_now_effect [of c E d n1 v d' n'] have "d' = d \<or> d' = issued_db E c d \<and> issuable E c d \<and> (pin_CanEnrollMachines c \<longrightarrow> mb_CanEnrollMachines m)"
    unfolding issuable_def by blast
  with actor_membership [OF m(1)] m(2) show ?thesis by blast
qed

lemma one_at_a_time_issue:
  assumes "one_at_a_time is" "\<forall>i \<in> set is. address_of i = address_of j \<and> unended i \<longrightarrow> iv_ExpiresAt i \<le> iv_CreatedAt j"
  shows "one_at_a_time (is @ [j])"
  using assms unfolding one_at_a_time_def disjoint_lives_def by auto

lemma submission_row_ok_mono: "submission_row_ok is s \<Longrightarrow> submission_row_ok (is @ js) s"
  by (auto simp: submission_row_ok_def)

lemma issued_db_ok:
  assumes "invitations_ok d" "issuable E c d"
  shows "invitations_ok (issued_db E c d)"
proof -
  let ?i = "new_invitation E c"
  have "\<forall>i \<in> set (space_invitations d). address_of i = address_of ?i \<and> unended i \<longrightarrow> iv_ExpiresAt i \<le> iv_CreatedAt ?i"
    using assms(2) by (auto simp: issuable_def sql_HasCurrentSpaceInvitation_def exists_where_iff open_invitation_def
        address_of_def unended_def)
  then have "one_at_a_time (space_invitations d @ [?i])"
    using assms(1) by (intro one_at_a_time_issue) (simp_all add: invitations_ok_def)
  moreover have "submission_row_ok (space_invitations d @ [?i]) (new_submission E (pin_SubmissionID c) (pin_InvitationID c)
       (pin_ActorUserID c) (pin_IdempotencyKey c) (pin_RequestDigest c) (pin_RecipientEmail c) (pin_PayloadDigest c)
       (pin_ProviderIdempotencyKey c))"
    by (simp add: submission_row_ok_def)
  ultimately show ?thesis
    using assms by (auto simp: invitations_ok_def issued_db_def unique_on_append1 issuable_def submittable_def submission_row_ok_mono)
qed

lemma PrepareInvitation_keeps: "keeps invitations_ok (PrepareInvitation c)"
  unfolding PrepareInvitation_def [abs_def]
  by (rule keeps_env, intro keeps_checked keeps_transact)
    (auto simp: preserves_def dest!: PrepareInvitation_tx_effect intro: issued_db_ok)

section \<open>Resending\<close>

definition resent_db :: "env \<Rightarrow> prepare_resend_command \<Rightarrow> string \<Rightarrow> db \<Rightarrow> db" where
  "resent_db E c recipient d = d\<lparr>space_invitation_submissions := space_invitation_submissions d @ [new_submission E
     (rsd_SubmissionID c) (rsd_InvitationID c) (rsd_ActorUserID c) (rsd_IdempotencyKey c) (rsd_RequestDigest c) recipient
     (rsd_PayloadDigest c) (rsd_ProviderIdempotencyKey c)]\<rparr>"

lemma first_row_desc_greatest:
  assumes "first_row (order_by_desc k t) = Some r" "s \<in> set t"
  shows "k s \<le> k r"
proof -
  obtain u where u: "order_by_desc k t = r # u"
    using assms(1) by (cases "order_by_desc k t") (auto simp: first_row_def)
  then have sk: "sort_key k t = rev u @ [r]" by (simp add: order_by_desc_def rev_swap)
  have "s \<in> set (rev u @ [r])" using assms(2) by (metis set_sort sk)
  moreover have "sorted (map k (rev u @ [r]))" using sorted_sort_key [of k t] sk by simp
  ultimately show ?thesis by (auto simp: sorted_append)
qed

lemma latest_submission_time:
  assumes "sql_LoadLatestInvitationSubmissionTime i d = Some t" "s \<in> set (space_invitation_submissions d)" "sb_InvitationID s = i"
  shows "sb_CreatedAt s \<le> t"
proof -
  obtain r where r: "first_row (order_by_desc submission_order (filter (\<lambda>s. sb_InvitationID s = i) (space_invitation_submissions d))) = Some r"
    "t = sb_CreatedAt r"
    using assms(1) by (auto simp: sql_LoadLatestInvitationSubmissionTime_def)
  have "submission_order s \<le> submission_order r"
    using first_row_desc_greatest [OF r(1), of s] assms(2,3) by simp
  then show ?thesis using r(2) by (auto simp: submission_order_def less_eq_prod_def)
qed

lemma load_invitation:
  "sql_LoadSpaceInvitationForUpdate i d = Some r \<Longrightarrow> r \<in> set (space_invitations d) \<and> iv_InvitationID r = i"
  "sql_LoadSpaceInvitation i d = Some r \<Longrightarrow> r \<in> set (space_invitations d) \<and> iv_InvitationID r = i"
  by (auto simp: sql_LoadSpaceInvitationForUpdate_def sql_LoadSpaceInvitation_def dest: first_where_Some)

lemma resend_now_effect:
  assumes "resend_now c E d n = Inr (v, d', n')"
  shows "\<exists>i now. i \<in> set (space_invitations d) \<and> iv_InvitationID i = rsd_InvitationID c \<and> iv_SpaceID i = rsd_SpaceID c
    \<and> open_invitation now i \<and> (\<exists>k. now = clock E k) \<and> d' = resent_db E c (iv_RecipientEmail i) d
    \<and> submittable (rsd_SubmissionID c) (rsd_ProviderIdempotencyKey c) (rsd_InvitationID c, rsd_ActorUserID c, rsd_IdempotencyKey c) d
    \<and> (\<forall>s \<in> set (space_invitation_submissions d). sb_InvitationID s = rsd_InvitationID c \<longrightarrow> sb_CreatedAt s + InvitationResendCooldown \<le> now)"
proof -
  from assms obtain i now latest where i: "sql_LoadSpaceInvitationForUpdate (rsd_InvitationID c) d = Some i"
    and ok: "iv_SpaceID i = rsd_SpaceID c" "open_invitation now i" "\<exists>k. now = clock E k"
    and latest: "sql_LoadLatestInvitationSubmissionTime (rsd_InvitationID c) d = Some latest" "latest + InvitationResendCooldown \<le> now"
    and sub: "d' = resent_db E c (iv_RecipientEmail i) d"
      "submittable (rsd_SubmissionID c) (rsd_ProviderIdempotencyKey c) (rsd_InvitationID c, rsd_ActorUserID c, rsd_IdempotencyKey c) d"
    unfolding resend_now_def
    by (auto simp: tx_simps sql_InvitationDatabaseTime_def sql_InsertSpaceInvitationSubmission_def resent_db_def submittable_def
        open_invitation_def not_less not_le split: if_split_asm)
  have "\<forall>s \<in> set (space_invitation_submissions d). sb_InvitationID s = rsd_InvitationID c \<longrightarrow> sb_CreatedAt s + InvitationResendCooldown \<le> now"
    using latest_submission_time [OF latest(1)] latest(2) by force
  with load_invitation(1) [OF i] ok sub show ?thesis by blast
qed

lemma PrepareInvitationResend_tx_effect:
  assumes "PrepareInvitationResend_tx c E d n = Inr (v, d', n')"
  shows "d' = d \<or> (\<exists>i now. i \<in> set (space_invitations d) \<and> iv_InvitationID i = rsd_InvitationID c \<and> iv_SpaceID i = rsd_SpaceID c
    \<and> open_invitation now i \<and> (\<exists>k. now = clock E k) \<and> d' = resent_db E c (iv_RecipientEmail i) d
    \<and> submittable (rsd_SubmissionID c) (rsd_ProviderIdempotencyKey c) (rsd_InvitationID c, rsd_ActorUserID c, rsd_IdempotencyKey c) d
    \<and> (\<forall>s \<in> set (space_invitation_submissions d). sb_InvitationID s = rsd_InvitationID c \<longrightarrow> sb_CreatedAt s + InvitationResendCooldown \<le> now))"
proof -
  from assms have "d' = d \<or> (\<exists>n1. resend_now c E d n1 = Inr (v, d', n'))"
    unfolding PrepareInvitationResend_tx_def by (auto simp: tx_simps split: if_split_asm)
  then show ?thesis using resend_now_effect by blast
qed

lemma resent_db_ok:
  assumes "invitations_ok d" "i \<in> set (space_invitations d)" "iv_InvitationID i = rsd_InvitationID c"
    "submittable (rsd_SubmissionID c) (rsd_ProviderIdempotencyKey c) (rsd_InvitationID c, rsd_ActorUserID c, rsd_IdempotencyKey c) d"
  shows "invitations_ok (resent_db E c (iv_RecipientEmail i) d)"
  using assms by (auto simp: invitations_ok_def resent_db_def unique_on_append1 submittable_def submission_row_ok_def)

lemma PrepareInvitationResend_keeps: "keeps invitations_ok (PrepareInvitationResend c)"
  unfolding PrepareInvitationResend_def [abs_def]
  by (rule keeps_env, intro keeps_checked keeps_transact)
    (auto simp: preserves_def dest!: PrepareInvitationResend_tx_effect intro: resent_db_ok)

section \<open>Recording a submission\<close>

definition recorded :: "env \<Rightarrow> record_submission_command \<Rightarrow> string option \<Rightarrow> submission_row \<Rightarrow> submission_row" where
  "recorded E c providerID s = s\<lparr>sb_State := rcs_State c, sb_ProviderMessageID := providerID,
     sb_RecordedAt := (case sb_RecordedAt s of None \<Rightarrow> Some (tx_time E) | Some t \<Rightarrow> Some t)\<rparr>"

definition provider_of :: "record_submission_command \<Rightarrow> string option" where
  "provider_of c = (if rcs_ProviderMessageID c = [] then None else Some (rcs_ProviderMessageID c))"

lemma recorded_facts [simp]:
  "sb_SubmissionID (recorded E c p s) = sb_SubmissionID s" "sb_InvitationID (recorded E c p s) = sb_InvitationID s"
  "sb_ProviderIdempotencyKey (recorded E c p s) = sb_ProviderIdempotencyKey s" "resend_key (recorded E c p s) = resend_key s"
  "sb_RecipientEmail (recorded E c p s) = sb_RecipientEmail s" "sb_State (recorded E c p s) = rcs_State c"
  "sb_PayloadDigest (recorded E c p s) = sb_PayloadDigest s"
  "sb_ProviderMessageID (recorded E c p s) = p" "sb_RecordedAt (recorded E c p s) \<noteq> None"
  by (simp_all add: recorded_def resend_key_def split: option.split)

lemma RecordInvitationSubmission_effect:
  assumes "RecordInvitationSubmission c E d = (r, d')"
  shows "d' = d \<or> (validInvitationSubmissionState (rcs_State c) (rcs_ProviderMessageID c)
    \<and> d' = d\<lparr>space_invitation_submissions := update_where (recordable c (provider_of c)) (recorded E c (provider_of c)) (space_invitation_submissions d)\<rparr>)"
  using assms unfolding RecordInvitationSubmission_def Let_def
  by (elim checked_cases transact_cases)
    (auto simp: tx_simps sql_RecordSpaceInvitationSubmission_def provider_of_def recorded_def [abs_def] Let_def)

lemma valid_state_not_prepared: "validInvitationSubmissionState st p \<Longrightarrow> st \<noteq> InvitationSubmissionPrepared"
  by (auto simp: validInvitationSubmissionState_def submission_states)

lemma RecordInvitationSubmission_keeps: "keeps invitations_ok (RecordInvitationSubmission c)"
proof -
  have "invitations_ok (d\<lparr>space_invitation_submissions := update_where (recordable c (provider_of c)) (recorded E c (provider_of c)) (space_invitation_submissions d)\<rparr>)"
    if ok: "invitations_ok d" and v: "validInvitationSubmissionState (rcs_State c) (rcs_ProviderMessageID c)" for E d
  proof -
    let ?t = "update_where (recordable c (provider_of c)) (recorded E c (provider_of c)) (space_invitation_submissions d)"
    have "unique_on sb_SubmissionID (\<lambda>_. True) ?t" "unique_on sb_ProviderIdempotencyKey (\<lambda>_. True) ?t" "unique_on resend_key (\<lambda>_. True) ?t"
      using ok by (auto simp: invitations_ok_def intro!: unique_on_update)
    moreover have "\<forall>s \<in> set ?t. submission_row_ok (space_invitations d) s"
      using ok v valid_state_not_prepared [OF v]
      by (auto simp: update_where_ball invitations_ok_def submission_row_ok_def provider_of_def textValue_def)
    ultimately show ?thesis using ok by (simp add: invitations_ok_def)
  qed
  then show ?thesis unfolding keeps_def using RecordInvitationSubmission_effect by blast
qed

section \<open>Ending an invitation\<close>

definition ending :: "(invitation_row \<Rightarrow> invitation_row) \<Rightarrow> bool" where
  "ending f \<longleftrightarrow> (\<forall>i. iv_InvitationID (f i) = iv_InvitationID i \<and> issue_key (f i) = issue_key i \<and> address_of (f i) = address_of i
     \<and> iv_CanManageMembers (f i) = iv_CanManageMembers i \<and> iv_CanEnrollMachines (f i) = iv_CanEnrollMachines i
     \<and> iv_CreatedAt (f i) = iv_CreatedAt i \<and> iv_ExpiresAt (f i) = iv_ExpiresAt i \<and> \<not> unended (f i))"

lemma endings: "ending (revoked_row u now k g)" "ending (accepted_row u now r k g)"
  by (simp_all add: ending_def revoked_row_def accepted_row_def issue_key_def address_of_def unended_def)

lemma address_email: "address_of i = (iv_SpaceID i, iv_RecipientEmail i)" by (simp add: address_of_def)

lemma invitations_ok_end:
  assumes "invitations_ok d" "ending f" "\<And>i. i \<in> set (space_invitations d) \<Longrightarrow> P i \<Longrightarrow> invitation_row_ok (f i)"
    and d': "space_invitations d' = update_where P f (space_invitations d)" "space_invitation_submissions d' = space_invitation_submissions d"
  shows "invitations_ok d'"
proof -
  let ?t = "update_where P f (space_invitations d)"
  have f: "iv_InvitationID (f i) = iv_InvitationID i" "issue_key (f i) = issue_key i" "address_of (f i) = address_of i" "\<not> unended (f i)" for i
    using assms(2) by (simp_all add: ending_def)
  have "unique_on iv_InvitationID (\<lambda>_. True) ?t" "unique_on issue_key (\<lambda>_. True) ?t"
    using assms(1) f by (auto simp: invitations_ok_def intro!: unique_on_update)
  moreover have "\<forall>i \<in> set ?t. invitation_row_ok i"
    using assms(1,3) by (auto simp: update_where_ball invitations_ok_def)
  moreover have "one_at_a_time ?t"
  proof -
    have "i \<in> set (space_invitations d)" if "i \<in> set ?t" "unended i" for i
      using that f(4) by (auto elim: in_update_whereE)
    then show ?thesis using assms(1) unfolding invitations_ok_def one_at_a_time_def by blast
  qed
  moreover have "submission_row_ok ?t s" if "submission_row_ok (space_invitations d) s" for s
  proof -
    have "iv_RecipientEmail (f i) = iv_RecipientEmail i" for i using f(3) [of i] by (simp add: address_of_def)
    then show ?thesis using that f(1) by (auto simp: submission_row_ok_def update_where_bex)
  qed
  ultimately show ?thesis using assms(1) by (simp add: invitations_ok_def d')
qed

lemma end_invitation_one:
  assumes "end_invitation u k g con j now f d = Inr (1, d')"
  shows "u \<noteq> None" "\<exists>i \<in> set (space_invitations d). iv_InvitationID i = j \<and> open_invitation now i"
    "d' = d\<lparr>space_invitations := update_where (\<lambda>i. iv_InvitationID i = j \<and> open_invitation now i) f (space_invitations d)\<rparr>"
proof -
  have "count_where (\<lambda>i. iv_InvitationID i = j \<and> open_invitation now i) (space_invitations d) = 1"
    and ok: "\<not> (exists_where (\<lambda>i. iv_InvitationID i = j \<and> open_invitation now i) (space_invitations d) \<and> u = None)"
    and d': "d' = d\<lparr>space_invitations := update_where (\<lambda>i. iv_InvitationID i = j \<and> open_invitation now i) f (space_invitations d)\<rparr>"
    using assms by (auto simp: end_invitation_def Let_def split: if_split_asm)
  from count_where_eq_1_ex [OF this(1)] show ex: "\<exists>i \<in> set (space_invitations d). iv_InvitationID i = j \<and> open_invitation now i" .
  show "u \<noteq> None" using ex ok by (auto simp: exists_where_iff)
  show "d' = d\<lparr>space_invitations := update_where (\<lambda>i. iv_InvitationID i = j \<and> open_invitation now i) f (space_invitations d)\<rparr>"
    by (rule d')
qed

lemma ended_row_ok:
  assumes "invitation_row_ok i" "open_invitation now i"
  shows "invitation_row_ok (revoked_row (Some u) now k g i)" "invitation_row_ok (accepted_row (Some u) now r k g i)"
  using assms by (auto simp: invitation_row_ok_def open_invitation_def revoked_row_def accepted_row_def)

lemma RevokeInvitation_tx_effect:
  assumes "RevokeInvitation_tx c E d n = Inr (v, d', n')"
  shows "(\<exists>m. member_named (rvk_SpaceID c) (rvk_ActorUserID c) d m \<and> mb_CanManageMembers m)
    \<and> (\<exists>i \<in> set (space_invitations d). iv_InvitationID i = rvk_InvitationID c \<and> iv_SpaceID i = rvk_SpaceID c
      \<and> (iv_RevokedAt i \<noteq> None \<and> d' = d
        \<or> (\<exists>now. (\<exists>k. now = clock E k) \<and> open_invitation now i \<and> d' = d\<lparr>space_invitations := update_where
              (\<lambda>i. iv_InvitationID i = rvk_InvitationID c \<and> open_invitation now i)
              (revoked_row (Some (rvk_ActorUserID c)) now (rvk_IdempotencyKey c) (rvk_RequestDigest c)) (space_invitations d)\<rparr>)))"
proof -
  from assms obtain m i where m: "sql_LockInvitationActorMembership (rvk_SpaceID c) (rvk_ActorUserID c) d = Some m" "mb_CanManageMembers m"
    and i: "sql_LoadSpaceInvitationForUpdate (rvk_InvitationID c) d = Some i" "iv_SpaceID i = rvk_SpaceID c"
    and rest: "iv_RevokedAt i \<noteq> None \<and> d' = d \<or> (\<exists>k. open_invitation (clock E k) i \<and>
        sql_RevokeSpaceInvitation (optional_uuid (rvk_ActorUserID c) E) (clock E k) (rvk_IdempotencyKey c) (rvk_RequestDigest c) (rvk_InvitationID c) d = Inr (1, d'))"
    unfolding RevokeInvitation_tx_def
    by (auto simp: tx_simps sql_InvitationDatabaseTime_def open_invitation_def split: if_split_asm)
  let ?upd = "\<lambda>now. d\<lparr>space_invitations := update_where (\<lambda>i. iv_InvitationID i = rvk_InvitationID c \<and> open_invitation now i)
      (revoked_row (Some (rvk_ActorUserID c)) now (rvk_IdempotencyKey c) (rvk_RequestDigest c)) (space_invitations d)\<rparr>"
  have upd: "d' = ?upd now"
    if "sql_RevokeSpaceInvitation (optional_uuid (rvk_ActorUserID c) E) now (rvk_IdempotencyKey c) (rvk_RequestDigest c) (rvk_InvitationID c) d = Inr (1, d')" for now
  proof -
    note e = end_invitation_one [OF that [unfolded sql_RevokeSpaceInvitation_def]]
    have "optional_uuid (rvk_ActorUserID c) E = Some (rvk_ActorUserID c)"
      using e(1) by (auto simp: optional_uuid_def split: if_split_asm)
    with e(3) show ?thesis by auto
  qed
  have row: "i \<in> set (space_invitations d)" "iv_InvitationID i = rvk_InvitationID c" using load_invitation(1) [OF i(1)] by simp_all
  have "iv_RevokedAt i \<noteq> None \<and> d' = d \<or> (\<exists>now. (\<exists>k. now = clock E k) \<and> open_invitation now i \<and> d' = ?upd now)"
    using rest
  proof (elim disjE exE)
    fix k assume k: "open_invitation (clock E k) i \<and> sql_RevokeSpaceInvitation (optional_uuid (rvk_ActorUserID c) E) (clock E k)
        (rvk_IdempotencyKey c) (rvk_RequestDigest c) (rvk_InvitationID c) d = Inr (1, d')"
    then show ?thesis using upd [of "clock E k"] by (intro disjI2 exI [of _ "clock E k"]) auto
  qed simp
  with row i(2) have "\<exists>i \<in> set (space_invitations d). iv_InvitationID i = rvk_InvitationID c \<and> iv_SpaceID i = rvk_SpaceID c
      \<and> (iv_RevokedAt i \<noteq> None \<and> d' = d \<or> (\<exists>now. (\<exists>k. now = clock E k) \<and> open_invitation now i \<and> d' = ?upd now))"
    by (intro bexI [of _ i] conjI)
  moreover have "\<exists>m. member_named (rvk_SpaceID c) (rvk_ActorUserID c) d m \<and> mb_CanManageMembers m"
    using actor_membership [OF m(1)] m(2) by blast
  ultimately show ?thesis by (rule conjI [rotated])
qed

lemma RevokeInvitation_body:
  "RevokeInvitation c E d = (r, d') \<Longrightarrow> d' = d \<or> (\<exists>v n. RevokeInvitation_tx c E d 0 = Inr (v, d', n))"
  unfolding RevokeInvitation_def by (elim checked_cases transact_cases) blast+

lemma RevokeInvitation_keeps: "keeps invitations_ok (RevokeInvitation c)"
  unfolding keeps_def
proof (intro allI impI)
  fix E d r d' assume run: "RevokeInvitation c E d = (r, d')" and ok: "invitations_ok d"
  from RevokeInvitation_body [OF run] RevokeInvitation_tx_effect have "d' = d \<or> (\<exists>now. d' = d\<lparr>space_invitations := update_where
              (\<lambda>i. iv_InvitationID i = rvk_InvitationID c \<and> open_invitation now i)
              (revoked_row (Some (rvk_ActorUserID c)) now (rvk_IdempotencyKey c) (rvk_RequestDigest c)) (space_invitations d)\<rparr>)" by blast
  then show "invitations_ok d'"
  proof (elim disjE exE)
    fix now assume d': "d' = d\<lparr>space_invitations := update_where
              (\<lambda>i. iv_InvitationID i = rvk_InvitationID c \<and> open_invitation now i)
              (revoked_row (Some (rvk_ActorUserID c)) now (rvk_IdempotencyKey c) (rvk_RequestDigest c)) (space_invitations d)\<rparr>"
    show ?thesis
      by (rule invitations_ok_end [OF ok endings(1), of "\<lambda>i. iv_InvitationID i = rvk_InvitationID c \<and> open_invitation now i"])
        (use ok in \<open>auto simp: d' invitations_ok_def intro: ended_row_ok\<close>)
  qed (use ok in simp)
qed

end
