(* ===== verification/Invitation_Acceptance.thy ===== *)
theory Invitation_Acceptance
  imports Invitation_State
begin

text \<open>
  What a successful acceptance means: who accepted, with what proof and when, the membership it
  made, and the one row it ended. The invariants of invitations and of Spaces survive it.
\<close>

definition recipient_session :: "accept_invitation_command \<Rightarrow> db \<Rightarrow> session_row \<Rightarrow> bool" where
  "recipient_session c d b \<longleftrightarrow> b \<in> set (browser_sessions d) \<and> bs_SessionID b = aci_SessionID c
     \<and> bs_UserID b = aci_UserID c \<and> bs_RevokedAt b = None"

lemma lock_recipient_Inr:
  assumes "lock_recipient c email E d n = Inr (b, d', n')"
  shows "d' = d \<and> recipient_session c d b \<and> owned_email (aci_UserID c) email d \<and> user_of (aci_UserID c) d \<noteq> None"
  using assms
  by (auto simp: lock_recipient_def tx_simps recipient_session_def sql_LoadInvitationInboxSession_def sql_LockInvitationUser_def
      sql_LoadInvitationEmailOwner_def owned_email_def exists_where_iff dest!: first_where_Some)

definition joined_db :: "env \<Rightarrow> accept_invitation_command \<Rightarrow> invitation_row \<Rightarrow> db \<Rightarrow> db" where
  "joined_db E c i d = d\<lparr>memberships := memberships d @
     [new_membership E (iv_SpaceID i) (aci_UserID c) (iv_CanManageMembers i) (iv_CanEnrollMachines i)]\<rparr>"

definition joinable :: "accept_invitation_command \<Rightarrow> invitation_row \<Rightarrow> db \<Rightarrow> bool" where
  "joinable c i d \<longleftrightarrow> \<not> key_taken membership_key (\<lambda>_. True) (iv_SpaceID i, aci_UserID c) (memberships d)
     \<and> (\<exists>s \<in> set (spaces d). sp_SpaceID s = iv_SpaceID i)"

text \<open>The membership part on a first acceptance, and on a repeated one.\<close>

lemma admit_recipient_Inr:
  assumes "admit_recipient c i replay E d n = Inr (a, d', n')"
  shows "(\<exists>m. member_named (iv_SpaceID i) (aci_UserID c) d m \<and> d' = d \<and> ad_CanManage a = mb_CanManageMembers m
        \<and> ad_CanEnroll a = mb_CanEnrollMachines m \<and> (\<not> replay \<longrightarrow> ad_Result a = ''already_member'' \<and> ad_AlreadyMember a))
    \<or> (\<not> replay \<and> joinable c i d \<and> d' = joined_db E c i d \<and> ad_CanManage a = iv_CanManageMembers i
        \<and> ad_CanEnroll a = iv_CanEnrollMachines i \<and> ad_Result a = ''joined'' \<and> \<not> ad_AlreadyMember a)"
proof (cases "sql_LoadMembershipForInvitation (iv_SpaceID i) (aci_UserID c) d")
  case None
  then show ?thesis
    using assms by (auto simp: admit_recipient_def tx_simps sql_CreateInvitationMembership_def insert_membership_def
        joinable_def joined_db_def exists_where_iff split: if_split_asm)
next
  case (Some m)
  then have "m \<in> set (memberships d)" "mb_SpaceID m = iv_SpaceID i" "mb_UserID m = aci_UserID c"
    by (auto simp: sql_LoadMembershipForInvitation_def dest: first_where_Some)
  with Some assms show ?thesis
    by (auto simp: admit_recipient_def tx_simps member_named_def active_membership_def split: if_split_asm)
qed

definition acceptance_recorded :: "accept_invitation_command \<Rightarrow> invitation_row \<Rightarrow> bool" where
  "acceptance_recorded c i \<longleftrightarrow> iv_AcceptedAt i \<noteq> None \<and> iv_AcceptedByUserID i = Some (aci_UserID c)
     \<and> iv_AcceptIdempotencyKey i = Some (aci_IdempotencyKey c) \<and> textValue (iv_AcceptRequestDigest i) = aci_RequestDigest c"

lemma acceptance_replay_Inr:
  "acceptance_replay c i = Inr b \<longleftrightarrow> (if b then acceptance_recorded c i else iv_AcceptedAt i = None)"
  by (auto simp: acceptance_replay_def acceptance_recorded_def split: if_split_asm)

text \<open>The conditions and the writes of a first acceptance at the time \<open>now\<close>.\<close>

definition proved_at :: "session_row \<Rightarrow> timestamp \<Rightarrow> bool" where
  "proved_at b now \<longleftrightarrow> bs_IdentityProofMethod b = EmailMethod \<and> now < bs_IdentityProvedAt b + IdentityProofLifetime \<and> now < bs_ExpiresAt b"

definition accepted_db :: "accept_invitation_command \<Rightarrow> timestamp \<Rightarrow> string \<Rightarrow> db \<Rightarrow> db" where
  "accepted_db c now result d = d\<lparr>space_invitations := update_where
     (\<lambda>i. iv_InvitationID i = aci_InvitationID c \<and> open_invitation now i)
     (accepted_row (Some (aci_UserID c)) now result (aci_IdempotencyKey c) (aci_RequestDigest c)) (space_invitations d)\<rparr>"

definition first_acceptance :: "accept_invitation_command \<Rightarrow> env \<Rightarrow> db \<Rightarrow> invitation_row \<Rightarrow> session_row \<Rightarrow> db \<Rightarrow> bool" where
  "first_acceptance c E d i b d' \<longleftrightarrow> (\<exists>now. (\<exists>k. now = clock E k) \<and> open_invitation now i \<and> proved_at b now
     \<and> ((\<exists>m. member_named (iv_SpaceID i) (aci_UserID c) d m \<and> d' = accepted_db c now ''already_member'' d)
        \<or> (joinable c i d \<and> d' = accepted_db c now ''joined'' (joined_db E c i d))))"

lemma acceptance_checks_effect:
  assumes "acceptance_checks c E d n = Inr ((i, b, name, replay), d', n')"
  shows "d' = d \<and> i \<in> set (space_invitations d) \<and> iv_InvitationID i = aci_InvitationID c \<and> iv_RevokedAt i = None
    \<and> recipient_session c d b \<and> owned_email (aci_UserID c) (iv_RecipientEmail i) d
    \<and> (if replay then acceptance_recorded c i else iv_AcceptedAt i = None \<and> bs_IdentityProofMethod b = EmailMethod)"
proof -
  from assms have "\<exists>observed n0 d0 n1. sql_LoadSpaceInvitation (aci_InvitationID c) d = Some observed
    \<and> lock_recipient c (iv_RecipientEmail observed) E d n0 = Inr (b, d0, n1)
    \<and> sql_LoadSpaceInvitationForUpdate (aci_InvitationID c) d0 = Some i \<and> iv_RecipientEmail i = iv_RecipientEmail observed
    \<and> acceptance_replay c i = Inr replay \<and> iv_RevokedAt i = None \<and> (replay \<or> bs_IdentityProofMethod b = EmailMethod) \<and> d' = d0"
    unfolding acceptance_checks_def
    by (simp only: bind_tx_Inr query_one_Inr require_Inr lift_Inr ret_Inr prod.inject) (elim exE conjE, hypsubst, blast)
  then obtain observed n0 d0 n1 where "sql_LoadSpaceInvitation (aci_InvitationID c) d = Some observed"
    and b: "lock_recipient c (iv_RecipientEmail observed) E d n0 = Inr (b, d0, n1)"
    and i: "sql_LoadSpaceInvitationForUpdate (aci_InvitationID c) d0 = Some i" "iv_RecipientEmail i = iv_RecipientEmail observed"
    and r: "acceptance_replay c i = Inr replay" "iv_RevokedAt i = None" "replay \<or> bs_IdentityProofMethod b = EmailMethod" and d': "d' = d0"
    by blast
  note l = lock_recipient_Inr [OF b]
  then have d0: "d0 = d" by blast
  show ?thesis
    using l load_invitation(1) [OF i(1) [unfolded d0]] i(2) r acceptance_replay_Inr [of c i replay] d' d0 by (auto split: if_split_asm)
qed

lemma conclude_acceptance_effect:
  assumes "conclude_acceptance c i b name replay E d n = Inr (v, d', n')"
  shows "acc_InvitationID v = iv_InvitationID i \<and> acc_InvitedSpaceID v = iv_SpaceID i
    \<and> (\<exists>a d1 n1 k. admit_recipient c i replay E d n = Inr (a, d1, n1) \<and> clock E k < bs_ExpiresAt b
      \<and> acc_AlreadyMember v = ad_AlreadyMember a \<and> acc_CanManageMembers v = ad_CanManage a \<and> acc_CanEnrollMachines v = ad_CanEnroll a
      \<and> (if replay then d' = d1
         else clock E k < bs_IdentityProvedAt b + IdentityProofLifetime \<and> clock E k < iv_ExpiresAt i
           \<and> sql_AcceptSpaceInvitation (optional_uuid (aci_UserID c) E) (clock E k) (ad_Result a) (aci_IdempotencyKey c) (aci_RequestDigest c)
               (aci_InvitationID c) d1 = Inr (1, d')))"
  using assms unfolding conclude_acceptance_def Let_def
  by (cases replay) (auto simp: bind_tx_Inr query_Inr require_Inr ret_Inr ask_Inr insert_row_Inr acceptedInvitation_def
      sql_InvitationDatabaseTime_def)

lemma accept_statement:
  assumes "sql_AcceptSpaceInvitation (optional_uuid (aci_UserID c) E) now r (aci_IdempotencyKey c) (aci_RequestDigest c)
       (aci_InvitationID c) d = Inr (1, d')"
  shows "d' = accepted_db c now r d"
proof -
  note e = end_invitation_one [OF assms [unfolded sql_AcceptSpaceInvitation_def]]
  have "optional_uuid (aci_UserID c) E = Some (aci_UserID c)"
    using e(1) by (auto simp: optional_uuid_def split: if_split_asm)
  with e(3) show ?thesis by (simp add: accepted_db_def)
qed

lemma AcceptInvitation_tx_effect:
  assumes "AcceptInvitation_tx c E d n = Inr (v, d', n')"
  shows "\<exists>i b. i \<in> set (space_invitations d) \<and> iv_InvitationID i = aci_InvitationID c \<and> iv_RevokedAt i = None
    \<and> recipient_session c d b \<and> owned_email (aci_UserID c) (iv_RecipientEmail i) d
    \<and> acc_InvitationID v = iv_InvitationID i \<and> acc_InvitedSpaceID v = iv_SpaceID i
    \<and> (acceptance_recorded c i \<and> is_member (iv_SpaceID i) (aci_UserID c) d \<and> d' = d
       \<or> iv_AcceptedAt i = None \<and> first_acceptance c E d i b d')"
proof -
  from assms obtain i b name replay d0 n0 where
    checks: "acceptance_checks c E d n = Inr ((i, b, name, replay), d0, n0)"
    and concl: "conclude_acceptance c i b name replay E d0 n0 = Inr (v, d', n')"
    unfolding AcceptInvitation_tx_def by (auto simp: bind_tx_Inr)
  note ch = acceptance_checks_effect [OF checks]
  then have d0: "d0 = d" by blast
  from conclude_acceptance_effect [OF concl [unfolded d0]] obtain a d1 n1 k where
    v: "acc_InvitationID v = iv_InvitationID i" "acc_InvitedSpaceID v = iv_SpaceID i"
    and adm: "admit_recipient c i replay E d n0 = Inr (a, d1, n1)" "clock E k < bs_ExpiresAt b"
    and rest: "if replay then d' = d1
         else clock E k < bs_IdentityProvedAt b + IdentityProofLifetime \<and> clock E k < iv_ExpiresAt i
           \<and> sql_AcceptSpaceInvitation (optional_uuid (aci_UserID c) E) (clock E k) (ad_Result a) (aci_IdempotencyKey c) (aci_RequestDigest c)
               (aci_InvitationID c) d1 = Inr (1, d')" by auto
  note m = admit_recipient_Inr [OF adm(1)]
  show ?thesis
  proof (cases replay)
    case True
    with ch v m rest show ?thesis by (intro exI [of _ i] exI [of _ b]) (auto simp: is_member_named)
  next
    case False
    with rest have d': "d' = accepted_db c (clock E k) (ad_Result a) d1" by (intro accept_statement [where E = E]) simp
    have "open_invitation (clock E k) i" "proved_at b (clock E k)" "iv_AcceptedAt i = None"
      using False ch rest adm(2) by (simp_all add: open_invitation_def proved_at_def)
    moreover have "(\<exists>m. member_named (iv_SpaceID i) (aci_UserID c) d m \<and> d' = accepted_db c (clock E k) ''already_member'' d)
        \<or> (joinable c i d \<and> d' = accepted_db c (clock E k) ''joined'' (joined_db E c i d))"
      using m False d' by auto
    ultimately have "first_acceptance c E d i b d'" unfolding first_acceptance_def by blast
    with ch v \<open>iv_AcceptedAt i = None\<close> show ?thesis by blast
  qed
qed

section \<open>What it keeps\<close>

lemma accepted_db_tables [simp]:
  "memberships (accepted_db c now r d) = memberships d" "spaces (accepted_db c now r d) = spaces d"
  "works (accepted_db c now r d) = works d" "agents (accepted_db c now r d) = agents d"
  "space_invitation_submissions (accepted_db c now r d) = space_invitation_submissions d"
  by (simp_all add: accepted_db_def)

lemma joined_db_tables [simp]:
  "memberships (joined_db E c i d) = memberships d @ [new_membership E (iv_SpaceID i) (aci_UserID c) (iv_CanManageMembers i) (iv_CanEnrollMachines i)]"
  "spaces (joined_db E c i d) = spaces d" "works (joined_db E c i d) = works d" "agents (joined_db E c i d) = agents d"
  "space_invitations (joined_db E c i d) = space_invitations d"
  "space_invitation_submissions (joined_db E c i d) = space_invitation_submissions d"
  by (simp_all add: joined_db_def)

lemma accepted_db_ok:
  assumes "invitations_ok d"
  shows "invitations_ok (accepted_db c now r d)"
  by (rule invitations_ok_end [OF assms endings(2), of "\<lambda>i. iv_InvitationID i = aci_InvitationID c \<and> open_invitation now i"])
    (use assms in \<open>auto simp: accepted_db_def invitations_ok_def intro: ended_row_ok\<close>)

lemma joined_db_ok:
  assumes "space_ok d" "joinable c i d"
  shows "space_ok (joined_db E c i d)"
  using assms by (auto simp: space_ok_def memberships_ok_def joinable_def unique_on_append1 has_removal_def governed_def)

lemma AcceptInvitation_body:
  "AcceptInvitation c E d = (r, d') \<Longrightarrow> d' = d \<or> (\<exists>v n. AcceptInvitation_tx c E d 0 = Inr (v, d', n))"
  unfolding AcceptInvitation_def by (elim checked_cases transact_cases) blast+

text \<open>Any predicate on the database is kept if joining and ending an open invitation keep it.\<close>

lemma keeps_acceptance:
  assumes "\<And>d E i. P d \<Longrightarrow> joinable c i d \<Longrightarrow> P (joined_db E c i d)" "\<And>d now r. P d \<Longrightarrow> P (accepted_db c now r d)"
  shows "keeps P (AcceptInvitation c)"
  unfolding keeps_def
proof (intro allI impI)
  fix E d r d' assume run: "AcceptInvitation c E d = (r, d')" and "P d"
  from AcceptInvitation_body [OF run] show "P d'"
  proof (elim disjE exE)
    fix v n assume "AcceptInvitation_tx c E d 0 = Inr (v, d', n)"
    from AcceptInvitation_tx_effect [OF this] show ?thesis
      using assms \<open>P d\<close> unfolding first_acceptance_def by blast
  qed (simp add: \<open>P d\<close>)
qed

lemma space_ok_same: "spaces d' = spaces d \<Longrightarrow> memberships d' = memberships d \<Longrightarrow> space_ok d' = space_ok d"
  by (simp add: space_ok_def)

lemma owners_ok_members:
  assumes "works d' = works d" "\<And>s u. is_member s u d \<Longrightarrow> is_member s u d'"
  shows "owners_ok d \<Longrightarrow> owners_ok d'"
  using assms by (simp add: owners_ok_def)

lemma agent_owners_ok_members:
  assumes "agents d' = agents d" "\<And>s u. is_member s u d \<Longrightarrow> is_member s u d'"
  shows "agent_owners_ok d \<Longrightarrow> agent_owners_ok d'"
  using assms by (simp add: agent_owners_ok_def)

lemma joined_member: "is_member s u d \<Longrightarrow> is_member s u (joined_db E c i d)"
  by (erule is_member_append) simp

lemma accepted_member: "is_member s u (accepted_db c now r d) = is_member s u d"
  by (rule is_member_same) simp

lemma joined_invitations: "invitations_ok (joined_db E c i d) = invitations_ok d"
  by (simp add: invitations_ok_def)

lemma AcceptInvitation_keeps: "keeps invitations_ok (AcceptInvitation c)"
  by (rule keeps_acceptance) (simp_all only: joined_invitations accepted_db_ok)

lemma AcceptInvitation_keeps_space: "keeps space_ok (AcceptInvitation c)"
proof (rule keeps_acceptance)
  show "space_ok (accepted_db c now r d)" if "space_ok d" for d now r
    using that by (subst space_ok_same [where d = d]) simp_all
qed (rule joined_db_ok)

lemma AcceptInvitation_keeps_owners: "keeps owners_ok (AcceptInvitation c)" "keeps agent_owners_ok (AcceptInvitation c)"
proof -
  show "keeps owners_ok (AcceptInvitation c)"
  proof (rule keeps_acceptance)
    show "owners_ok (joined_db E c i d)" if "owners_ok d" for d E i
      using that by (rule owners_ok_members [rotated 2]) (simp_all add: joined_member)
    show "owners_ok (accepted_db c now r d)" if "owners_ok d" for d now r
      using that by (rule owners_ok_members [rotated 2]) (simp_all add: accepted_member)
  qed
  show "keeps agent_owners_ok (AcceptInvitation c)"
  proof (rule keeps_acceptance)
    show "agent_owners_ok (joined_db E c i d)" if "agent_owners_ok d" for d E i
      using that by (rule agent_owners_ok_members [rotated 2]) (simp_all add: joined_member)
    show "agent_owners_ok (accepted_db c now r d)" if "agent_owners_ok d" for d now r
      using that by (rule agent_owners_ok_members [rotated 2]) (simp_all add: accepted_member)
  qed
qed

end
