(* ===== verification/Machine_Rules.thy ===== *)
theory Machine_Rules
  imports Invitation_Rules
begin

text \<open>
  How a new Machine is connected, as the Machine owner sees it (\<open>internal/machine/connection.go\<close>,
  \<open>certificate.go\<close>): connection codes, poll secrets and their keyed digests, the message a Machine signs
  to prove its key, the commands, and the certificate. \<open>encoding/base64\<close> and \<open>crypto/hmac\<close> are
  defined here; Unicode upper case, X.509 and Ed25519 are the parameter \<open>crypto_lib\<close>.
\<close>

unbundle bit_operations_syntax

section \<open>encoding/base64 without padding\<close>

definition b64_std :: string where
  "b64_std = ''ABCDEFGHIJKLMNOPQRSTUVWXYZabcdefghijklmnopqrstuvwxyz0123456789+/''"

definition b64_url :: string where
  "b64_url = ''ABCDEFGHIJKLMNOPQRSTUVWXYZabcdefghijklmnopqrstuvwxyz0123456789-_''"

fun b64_encode :: "string \<Rightarrow> bytes \<Rightarrow> string" where
  "b64_encode t [] = []"
| "b64_encode t [a] = [t ! (code a div 4), t ! (code a mod 4 * 16)]"
| "b64_encode t [a, b] = [t ! (code a div 4), t ! (code a mod 4 * 16 + code b div 16), t ! (code b mod 16 * 4)]"
| "b64_encode t (a # b # c # bs) = [t ! (code a div 4), t ! (code a mod 4 * 16 + code b div 16),
     t ! (code b mod 16 * 4 + code c div 64), t ! (code c mod 64)] @ b64_encode t bs"

definition b64_value :: "string \<Rightarrow> char \<Rightarrow> nat option" where
  "b64_value t c = (let i = length (takeWhile (\<lambda>x. x \<noteq> c) t) in if i < length t then Some i else None)"

fun b64_groups :: "nat list \<Rightarrow> bytes option" where
  "b64_groups [] = Some []"
| "b64_groups [a] = None"
| "b64_groups [a, b] = Some [char_of (a * 4 + b div 16)]"
| "b64_groups [a, b, c] = Some [char_of (a * 4 + b div 16), char_of (b mod 16 * 16 + c div 4)]"
| "b64_groups (a # b # c # d # vs) = map_option (\<lambda>bs. [char_of (a * 4 + b div 16), char_of (b mod 16 * 16 + c div 4),
     char_of (c mod 4 * 64 + d)] @ bs) (b64_groups vs)"

text \<open>The decoder passes over line breaks and ignores the spare bits of the last character.\<close>

definition b64_decode :: "string \<Rightarrow> string \<Rightarrow> bytes option" where
  "b64_decode t s =
     (let values = map (b64_value t) (filter (\<lambda>c. c \<noteq> CHR 0x0D \<and> c \<noteq> CHR 0x0A) s)
      in if None \<in> set values then None else b64_groups (map the values))"

section \<open>crypto/hmac\<close>

definition xor_pad :: "nat \<Rightarrow> bytes \<Rightarrow> bytes" where
  "xor_pad n key = map (\<lambda>c. char_of (code c XOR n)) (key @ replicate (64 - length key) (CHR 0x00))"

text \<open>With a key of at most one block, as every key here is.\<close>

definition hmac_sha256 :: "bytes \<Rightarrow> bytes \<Rightarrow> bytes" where
  "hmac_sha256 key m = sha256 (xor_pad 0x5C key @ sha256 (xor_pad 0x36 key @ m))"

text \<open>The label and the values, each preceded by a zero byte.\<close>

definition keyed_digest :: "bytes \<Rightarrow> string \<Rightarrow> string list \<Rightarrow> bytes" where
  "keyed_digest root label values = hmac_sha256 root (label @ concat (map (\<lambda>v. CHR 0x00 # v) values))"

section \<open>Limits\<close>

definition DisplayNameMaximumBytes :: nat where "DisplayNameMaximumBytes = 128"

definition validIdempotencyKey :: "string \<Rightarrow> bool" where
  "validIdempotencyKey value \<longleftrightarrow> trim_space value \<noteq> [] \<and> length value \<le> 255"

definition validOrigin :: "string \<Rightarrow> bool" where
  "validOrigin value \<longleftrightarrow> has_prefix ''https://'' value \<and> CHR ''/'' \<notin> set (drop 8 value)"

section \<open>Secrets and codes\<close>

record crypto_lib =
  to_upper :: "string \<Rightarrow> string"
  public_key :: "bytes \<Rightarrow> bytes option"
  verify :: "bytes \<Rightarrow> bytes \<Rightarrow> bytes \<Rightarrow> bool"

definition ParseConnectionRoot :: "string \<Rightarrow> bytes option" where
  "ParseConnectionRoot encoded =
     (case b64_decode b64_url (trim_space encoded) of
        None \<Rightarrow> None | Some decoded \<Rightarrow> if length decoded = 32 then Some decoded else None)"

definition CodeDigest :: "bytes \<Rightarrow> string \<Rightarrow> bytes" where
  "CodeDigest root c = keyed_digest root ''carry/machine-connect-code-digest/v1'' [c]"

definition PollDigest :: "bytes \<Rightarrow> string \<Rightarrow> bytes" where
  "PollDigest root secret = keyed_digest root ''carry/machine-connect-poll-digest/v1'' [secret]"

definition SourceDigest :: "bytes \<Rightarrow> string \<Rightarrow> bytes" where
  "SourceDigest root source = keyed_digest root ''carry/machine-connect-source/v1'' [source]"

fun split_on :: "char \<Rightarrow> string \<Rightarrow> string list" where
  "split_on sep [] = [[]]"
| "split_on sep (c # cs) =
     (if c = sep then [] # split_on sep cs
      else (case split_on sep cs of [] \<Rightarrow> [[c]] | p # ps \<Rightarrow> (c # p) # ps))"

definition poll_prefix :: string where
  "poll_prefix = ''carry_machine_connect_''"

definition ParseConnectionPollSecret :: "env \<Rightarrow> string \<Rightarrow> uuid option" where
  "ParseConnectionPollSecret E secret =
     (if \<not> has_prefix poll_prefix secret then None
      else (case split_on (CHR ''.'') (drop (length poll_prefix) secret) of
              [requestID, encoded] \<Rightarrow>
                if uuid_valid E requestID \<and> map_option length (b64_decode b64_url encoded) = Some 32 then Some requestID else None
            | _ \<Rightarrow> None))"

definition code_alphabet :: string where
  "code_alphabet = ''BCDFGHJKLMNPQRSTVWXZ''"

definition group_code :: "string \<Rightarrow> string" where
  "group_code value = take 4 value @ ''-'' @ take 3 (drop 4 value) @ ''-'' @ drop 7 value"

definition NormalizeConnectionCode :: "crypto_lib \<Rightarrow> string \<Rightarrow> string option" where
  "NormalizeConnectionCode C value =
     (let v = filter (\<lambda>c. c \<noteq> CHR ''-'' \<and> c \<noteq> CHR '' '') (to_upper C (trim_space value))
      in if length v \<noteq> 10 \<or> \<not> list_all (\<lambda>(r, w). \<exists>c \<in> set code_alphabet. code c = r) (runes v) then None
         else Some (group_code v))"

section \<open>The key proof\<close>

definition ConnectionKeyProofMessage :: "string \<Rightarrow> uuid \<Rightarrow> string \<Rightarrow> bytes \<Rightarrow> string \<Rightarrow> string \<Rightarrow> bytes" where
  "ConnectionKeyProofMessage origin requestID displayName publicKeyDER userCode pollSecret = frame_fields
     [''carry/machine-connect-key-proof/v1'', origin, requestID, displayName, publicKeyDER, userCode, pollSecret]"

definition connectionDigest :: "string list \<Rightarrow> bytes" where
  "connectionDigest parts = sha256 (json_strings parts)"

definition PublicKeyFingerprint :: "bytes \<Rightarrow> string" where
  "PublicKeyFingerprint publicKeyDER = ''SHA256:'' @ b64_encode b64_std (sha256 publicKeyDER)"

section \<open>Commands and results\<close>

record begin_connection_request =
  bgr_RequestID :: uuid
  bgr_IdempotencyKey :: string
  bgr_DisplayName :: string
  bgr_UserCode :: string
  bgr_PollSecret :: string
  bgr_Source :: string
  bgr_Origin :: string
  bgr_PublicKeyDER :: bytes
  bgr_KeyProof :: bytes

record begin_connection_command =
  bgc_RequestID :: uuid
  bgc_IdempotencyKey :: string
  bgc_DisplayName :: string
  bgc_PublicKeyDER :: bytes
  bgc_KeyProof :: bytes
  bgc_RequestDigest :: bytes
  bgc_SourceDigest :: bytes
  bgc_CodeDigest :: bytes
  bgc_PollDigest :: bytes

record connection_request =
  crq_RequestID :: uuid
  crq_DisplayName :: string
  crq_ApprovedByUserID :: uuid
  crq_ApprovedSpaceID :: uuid
  crq_Decision :: string
  crq_PublicKeyDER :: bytes
  crq_KeyProof :: bytes
  crq_CreatedAt :: timestamp
  crq_ExpiresAt :: timestamp
  crq_PollInterval :: timestamp
  crq_ApprovedAt :: "timestamp option"
  crq_DeniedAt :: "timestamp option"
  crq_CancelledAt :: "timestamp option"
  crq_RedeemedAt :: "timestamp option"
  crq_ReplayUntil :: "timestamp option"
  crq_PreparedMachineID :: uuid
  crq_ResultingMachineID :: uuid

record begun_connection =
  bg_RequestID :: uuid
  bg_DisplayName :: string
  bg_UserCode :: string
  bg_PollSecret :: string
  bg_Fingerprint :: string
  bg_VerificationURL :: string
  bg_ExpiresAt :: timestamp
  bg_PollInterval :: timestamp

record lookup_connection_command =
  lkc_BrowserSessionID :: uuid
  lkc_CodeDigest :: bytes
  lkc_SourceDigest :: bytes

record connection_preview =
  pv_RequestID :: uuid
  pv_UserCode :: string
  pv_DisplayName :: string
  pv_Fingerprint :: string
  pv_Server :: string
  pv_Decision :: string
  pv_ApprovedSpaceID :: uuid
  pv_CreatedAt :: timestamp
  pv_ExpiresAt :: timestamp

record decide_connection_request =
  dcr_BrowserSessionID :: uuid
  dcr_RequestID :: uuid
  dcr_UserCode :: string
  dcr_SpaceID :: uuid
  dcr_Decision :: string
  dcr_IdempotencyKey :: string

record decide_connection_command =
  dcc_BrowserSessionID :: uuid
  dcc_RequestID :: uuid
  dcc_SpaceID :: uuid
  dcc_Decision :: string
  dcc_IdempotencyKey :: string
  dcc_PreparedMachineID :: uuid
  dcc_CodeDigest :: bytes
  dcc_RequestDigest :: bytes

record poll_connection_command =
  plc_RequestID :: uuid
  plc_PollDigest :: bytes

record connected_machine =
  ctm_MachineID :: uuid
  ctm_SpaceID :: uuid
  ctm_DisplayName :: string
  ctm_HostAPIOrigin :: string
  ctm_CertificatePEM :: bytes
  ctm_RedeemedAt :: timestamp
  ctm_ReplayUntil :: timestamp

record list_machines_command =
  lsm_BrowserSessionID :: uuid
  lsm_SpaceID :: uuid
  lsm_After :: string

record machine_record =
  mr_MachineID :: uuid
  mr_SpaceID :: uuid
  mr_SpaceName :: string
  mr_DisplayName :: string
  mr_Fingerprint :: string
  mr_State :: string
  mr_EnrolledByUserID :: uuid
  mr_EnrolledByName :: string
  mr_EnrolledAt :: timestamp
  mr_RevocationActor :: string
  mr_RevokedByUserID :: uuid
  mr_RevokedByName :: string
  mr_RevokedAt :: "timestamp option"
  mr_CanRevoke :: bool

record machine_page =
  mpg_Machines :: "machine_record list"
  mpg_NextCursor :: uuid

record revoke_machine_command =
  rmm_BrowserSessionID :: uuid
  rmm_SpaceID :: uuid
  rmm_MachineID :: uuid
  rmm_IdempotencyKey :: string
  rmm_RequestDigest :: bytes

record self_revoke_command =
  srm_MachineID :: uuid
  srm_CertificateSerial :: string
  srm_IdempotencyKey :: string
  srm_RequestDigest :: bytes

section \<open>Certificates\<close>

record issued_certificate =
  ic_CertificatePEM :: bytes
  ic_Serial :: string

type_synonym issuer = "uuid \<Rightarrow> bytes \<Rightarrow> timestamp \<Rightarrow> issued_certificate option"

record identity_uri =
  iu_Scheme :: string
  iu_Host :: string
  iu_Path :: string

text \<open>The URI that \<open>IssueMachineCertificate\<close> puts into the certificate, and its reading.\<close>

definition machine_uri :: "uuid \<Rightarrow> identity_uri" where
  "machine_uri machineID = \<lparr>iu_Scheme = ''spiffe'', iu_Host = ''carry'', iu_Path = ''/machine/'' @ machineID\<rparr>"

definition MachineIDFromCertificate :: "identity_uri list \<Rightarrow> uuid option" where
  "MachineIDFromCertificate uris =
     (case uris of
        [u] \<Rightarrow> if iu_Scheme u \<noteq> ''spiffe'' \<or> iu_Host u \<noteq> ''carry'' \<or> \<not> has_prefix ''/machine/'' (iu_Path u) \<or> length (iu_Path u) = 9
               then None else Some (drop 9 (iu_Path u))
      | _ \<Rightarrow> None)"

end
