(* ===== verification/Machine_Store.thy ===== *)
theory Machine_Store
  imports Machine_Rules Agent_Store Invitation_Store
begin

text \<open>
  Connecting a Machine in the database (first half of \<open>internal/postgres/machine.go\<close>, statements of
  \<open>dbsqlc/machine.sql.go\<close>): a request is begun, looked up by its code in a Browser, decided there,
  polled by the Machine until it is redeemed for a certificate, or cancelled. Several of these
  methods commit and then return an error; their bodies return that error as a value.
\<close>

section \<open>Bodies that commit an error\<close>

definition transact_answer :: "('d, carry_error + 'a) tx \<Rightarrow> env \<Rightarrow> 'd \<Rightarrow> (carry_error + 'a) \<times> 'd" where
  "transact_answer m E d = (case transact m E d of (Inl e, d') \<Rightarrow> (Inl e, d') | (Inr r, d') \<Rightarrow> (r, d'))"

text \<open>A part of a body whose every error is reported as the one error given.\<close>

definition instead :: "carry_error \<Rightarrow> ('d, 'a) tx \<Rightarrow> ('d, 'a) tx" where
  "instead e m = (\<lambda>E d n. case m E d n of Inl _ \<Rightarrow> Inl e | Inr r \<Rightarrow> Inr r)"

lemma instead_Inr [tx_simps]: "instead e m E d n = Inr r \<longleftrightarrow> m E d n = Inr r"
  by (simp add: instead_def split: sum.splits)

lemma run_instead [tx_run]: "instead e m E d n = (case m E d n of Inl _ \<Rightarrow> Inl e | Inr r \<Rightarrow> Inr r)"
  by (simp add: instead_def)

text \<open>The \<open>Time\<close> of a NULL \<open>Timestamptz\<close> is the zero time.\<close>

definition timeValue :: "timestamp option \<Rightarrow> timestamp" where
  "timeValue t = (case t of None \<Rightarrow> -62135596800000000 | Some v \<Rightarrow> v)"

section \<open>Statements on connection requests\<close>

definition live_request :: "env \<Rightarrow> connection_row \<Rightarrow> bool" where
  "live_request E r \<longleftrightarrow> mc_ExpiresAt r > tx_time E \<and> mc_Decision r = None \<and> mc_CancelledAt r = None"

definition sql_LoadMachineConnectionForBegin :: "uuid \<Rightarrow> db \<Rightarrow> connection_row option" where
  "sql_LoadMachineConnectionForBegin requestID d = first_where (\<lambda>r. mc_RequestID r = requestID) (machine_connection_requests d)"

definition sql_LockMachineConnectionRequest :: "uuid \<Rightarrow> db \<Rightarrow> connection_row option" where
  "sql_LockMachineConnectionRequest requestID d = first_where (\<lambda>r. mc_RequestID r = requestID) (machine_connection_requests d)"

definition sql_CountLiveMachineConnectionsForSource :: "bytes \<Rightarrow> env \<Rightarrow> db \<Rightarrow> int" where
  "sql_CountLiveMachineConnectionsForSource source E d =
     count_where (\<lambda>r. mc_SourceDigest r = source \<and> live_request E r) (machine_connection_requests d)"

definition sql_CountLiveMachineConnections :: "env \<Rightarrow> db \<Rightarrow> int" where
  "sql_CountLiveMachineConnections E d = count_where (live_request E) (machine_connection_requests d)"

definition new_connection :: "env \<Rightarrow> begin_connection_command \<Rightarrow> connection_row" where
  "new_connection E command = \<lparr>mc_RequestID = bgc_RequestID command, mc_BeginIdempotencyKey = bgc_IdempotencyKey command,
     mc_BeginRequestDigest = bgc_RequestDigest command, mc_SourceDigest = bgc_SourceDigest command,
     mc_UserCodeDigest = bgc_CodeDigest command, mc_PollSecretDigest = bgc_PollDigest command,
     mc_DisplayName = bgc_DisplayName command, mc_PublicKeyDer = bgc_PublicKeyDER command, mc_KeyProof = bgc_KeyProof command,
     mc_CreatedAt = tx_time E, mc_ExpiresAt = tx_time E + minutes 15, mc_LastPolledAt = None, mc_PollIntervalSeconds = 5,
     mc_Decision = None, mc_DecidedAt = None, mc_DecidedByUserID = None, mc_DecidedSpaceID = None,
     mc_DecisionIdempotencyKey = None, mc_DecisionRequestDigest = None, mc_PreparedMachineID = None, mc_CancelledAt = None,
     mc_ResultingMachineID = None, mc_RedeemedAt = None, mc_ReplayUntil = None\<rparr>"

definition connection_columns_ok :: "connection_row \<Rightarrow> bool" where
  "connection_columns_ok r \<longleftrightarrow> mc_BeginIdempotencyKey r \<noteq> [] \<and> length (mc_BeginIdempotencyKey r) \<le> 255
     \<and> length (mc_BeginRequestDigest r) = 32 \<and> length (mc_SourceDigest r) = 32 \<and> length (mc_UserCodeDigest r) = 32
     \<and> length (mc_PollSecretDigest r) = 32 \<and> \<not> set (mc_DisplayName r) \<subseteq> {CHR '' ''} \<and> length (mc_DisplayName r) \<le> 128
     \<and> mc_PublicKeyDer r \<noteq> [] \<and> length (mc_KeyProof r) = 64"

definition sql_CreateMachineConnection :: "connection_row \<Rightarrow> db \<Rightarrow> db_error + (connection_row \<times> db)" where
  "sql_CreateMachineConnection r d =
     (let t = machine_connection_requests d in
      if \<not> connection_columns_ok r then Inl (Check_violation ''machine_connection_requests'')
      else if key_taken mc_RequestID (\<lambda>_. True) (mc_RequestID r) t then Inl (Unique_violation ''machine_connection_requests_pkey'')
      else if key_taken mc_BeginIdempotencyKey (\<lambda>_. True) (mc_BeginIdempotencyKey r) t
      then Inl (Unique_violation ''machine_connection_requests_begin_idempotency_key_key'')
      else if key_taken mc_UserCodeDigest (\<lambda>_. True) (mc_UserCodeDigest r) t
      then Inl (Unique_violation ''machine_connection_requests_user_code_digest_key'')
      else if key_taken mc_PollSecretDigest (\<lambda>_. True) (mc_PollSecretDigest r) t
      then Inl (Unique_violation ''machine_connection_requests_poll_secret_digest_key'')
      else Inr (r, d\<lparr>machine_connection_requests := t @ [r]\<rparr>))"

text \<open>An \<open>UPDATE ... RETURNING\<close> of the rows that satisfy \<open>P\<close>; \<open>ok\<close> is what the table's constraints require of them.\<close>

definition update_connection ::
    "(connection_row \<Rightarrow> bool) \<Rightarrow> (connection_row \<Rightarrow> connection_row) \<Rightarrow> (connection_row \<Rightarrow> bool) \<Rightarrow> db
       \<Rightarrow> db_error + (connection_row option \<times> db)" where
  "update_connection P f ok d =
     (if exists_where (\<lambda>r. P r \<and> \<not> ok (f r)) (machine_connection_requests d) then Inl (Check_violation ''machine_connection_requests'')
      else Inr (map_option f (first_where P (machine_connection_requests d)),
                d\<lparr>machine_connection_requests := update_where P f (machine_connection_requests d)\<rparr>))"

definition sql_MachineDatabaseTime :: "env \<Rightarrow> db \<Rightarrow> timestamp" where
  "sql_MachineDatabaseTime E d = tx_time E"

section \<open>Results\<close>

definition machineConnectionRequest :: "connection_row \<Rightarrow> connection_request" where
  "machineConnectionRequest r = (let decision = textValue (mc_Decision r) in
     \<lparr>crq_RequestID = mc_RequestID r, crq_DisplayName = mc_DisplayName r, crq_ApprovedByUserID = uuidValue (mc_DecidedByUserID r),
      crq_ApprovedSpaceID = uuidValue (mc_DecidedSpaceID r), crq_Decision = decision, crq_PublicKeyDER = mc_PublicKeyDer r,
      crq_KeyProof = mc_KeyProof r, crq_CreatedAt = mc_CreatedAt r, crq_ExpiresAt = mc_ExpiresAt r,
      crq_PollInterval = seconds (mc_PollIntervalSeconds r),
      crq_ApprovedAt = (if decision = ''denied'' then None else mc_DecidedAt r),
      crq_DeniedAt = (if decision = ''denied'' then mc_DecidedAt r else None), crq_CancelledAt = mc_CancelledAt r,
      crq_RedeemedAt = mc_RedeemedAt r, crq_ReplayUntil = mc_ReplayUntil r,
      crq_PreparedMachineID = uuidValue (mc_PreparedMachineID r), crq_ResultingMachineID = uuidValue (mc_ResultingMachineID r)\<rparr>)"

definition connectedMachine :: "connection_row \<Rightarrow> machine_row \<Rightarrow> connected_machine" where
  "connectedMachine r stored = \<lparr>ctm_MachineID = m_MachineID stored, ctm_SpaceID = m_SpaceID stored,
     ctm_DisplayName = m_DisplayName stored, ctm_HostAPIOrigin = [], ctm_CertificatePEM = m_CertificatePem stored,
     ctm_RedeemedAt = timeValue (mc_RedeemedAt r), ctm_ReplayUntil = timeValue (mc_ReplayUntil r)\<rparr>"

section \<open>Beginning\<close>

text \<open>What the code makes of an error of the \<open>INSERT\<close>.\<close>

definition begin_error :: "db_error \<Rightarrow> carry_error" where
  "begin_error e = (case e of
       Unique_violation name \<Rightarrow>
         if name = ''machine_connection_requests_user_code_digest_key'' \<or> name = ''machine_connection_requests_poll_secret_digest_key''
         then MachineError ErrConnectionRateLimited else MachineError ErrConnectionConflict
     | _ \<Rightarrow> DatabaseError e)"

definition BeginMachineConnection_tx :: "begin_connection_command \<Rightarrow> (db, connection_request) tx" where
  "BeginMachineConnection_tx command =
     bind_tx advisory_lock (\<lambda>_.
     bind_tx (query (\<lambda>E now. sql_LoadMachineConnectionForBegin (bgc_RequestID command))) (\<lambda>existing.
     case existing of
       Some r \<Rightarrow>
         if mc_BeginIdempotencyKey r \<noteq> bgc_IdempotencyKey command \<or> mc_BeginRequestDigest r \<noteq> bgc_RequestDigest command
         then fail (MachineError ErrConnectionConflict) else ret (machineConnectionRequest r)
     | None \<Rightarrow>
         bind_tx (query (\<lambda>E now. sql_CountLiveMachineConnectionsForSource (bgc_SourceDigest command) E)) (\<lambda>perSource.
         bind_tx (query (\<lambda>E now. sql_CountLiveMachineConnections E)) (\<lambda>global.
         bind_tx (require (\<not> (perSource \<ge> 5 \<or> global \<ge> 1000)) (MachineError ErrConnectionRateLimited)) (\<lambda>_.
         bind_tx (try_modify (\<lambda>E now. sql_CreateMachineConnection (new_connection E command))) (\<lambda>created.
         case created of Inl e \<Rightarrow> fail (begin_error e) | Inr r \<Rightarrow> ret (machineConnectionRequest r)))))))"

definition BeginMachineConnection :: "begin_connection_command \<Rightarrow> env \<Rightarrow> db \<Rightarrow> (carry_error + connection_request) \<times> db" where
  "BeginMachineConnection command = transact (BeginMachineConnection_tx command)"

section \<open>Looking up\<close>

definition sql_LockBrowserSessionForMachineConnection :: "uuid \<Rightarrow> env \<Rightarrow> db \<Rightarrow> user_row option" where
  "sql_LockBrowserSessionForMachineConnection sessionID E d =
     (case first_where (\<lambda>b. bs_SessionID b = sessionID \<and> bs_RevokedAt b = None \<and> bs_ExpiresAt b > tx_time E) (browser_sessions d) of
        None \<Rightarrow> None | Some b \<Rightarrow> user_of (bs_UserID b) d)"

definition recent_failure :: "env \<Rightarrow> lookup_failure_row \<Rightarrow> bool" where
  "recent_failure E f \<longleftrightarrow> lf_CreatedAt f > tx_time E - minutes 10"

definition sql_CountRecentMachineConnectionLookupFailuresForSession :: "uuid \<Rightarrow> env \<Rightarrow> db \<Rightarrow> int" where
  "sql_CountRecentMachineConnectionLookupFailuresForSession sessionID E d =
     count_where (\<lambda>f. lf_BrowserSessionID f = sessionID \<and> recent_failure E f) (machine_connection_lookup_failures d)"

definition sql_CountRecentMachineConnectionLookupFailuresForSource :: "bytes \<Rightarrow> env \<Rightarrow> db \<Rightarrow> int" where
  "sql_CountRecentMachineConnectionLookupFailuresForSource source E d =
     count_where (\<lambda>f. lf_SourceDigest f = source \<and> recent_failure E f) (machine_connection_lookup_failures d)"

definition sql_FindLiveMachineConnectionByCode :: "bytes \<Rightarrow> env \<Rightarrow> db \<Rightarrow> connection_row option" where
  "sql_FindLiveMachineConnectionByCode codeDigest E d =
     first_where (\<lambda>r. mc_UserCodeDigest r = codeDigest \<and> mc_ExpiresAt r > tx_time E \<and> mc_CancelledAt r = None) (machine_connection_requests d)"

definition sql_RecordMachineConnectionLookupFailure :: "env \<Rightarrow> uuid \<Rightarrow> uuid \<Rightarrow> bytes \<Rightarrow> db \<Rightarrow> db_error + (unit \<times> db)" where
  "sql_RecordMachineConnectionLookupFailure E failureID sessionID source d =
     (if length source \<noteq> 32 then Inl (Check_violation ''machine_connection_lookup_failures'')
      else if key_taken lf_FailureID (\<lambda>_. True) failureID (machine_connection_lookup_failures d)
      then Inl (Unique_violation ''machine_connection_lookup_failures_pkey'')
      else Inr ((), d\<lparr>machine_connection_lookup_failures := machine_connection_lookup_failures d @
        [\<lparr>lf_FailureID = failureID, lf_BrowserSessionID = sessionID, lf_SourceDigest = source, lf_CreatedAt = tx_time E\<rparr>]\<rparr>))"

definition LookupMachineConnection_tx :: "lookup_connection_command \<Rightarrow> (db, carry_error + connection_request) tx" where
  "LookupMachineConnection_tx command =
     bind_tx (query_one (MachineError ErrMachineUnavailable)
       (\<lambda>E now. sql_LockBrowserSessionForMachineConnection (lkc_BrowserSessionID command) E)) (\<lambda>_.
     bind_tx advisory_lock (\<lambda>_.
     bind_tx (query (\<lambda>E now. sql_CountRecentMachineConnectionLookupFailuresForSession (lkc_BrowserSessionID command) E)) (\<lambda>sessionFailures.
     bind_tx (query (\<lambda>E now. sql_CountRecentMachineConnectionLookupFailuresForSource (lkc_SourceDigest command) E)) (\<lambda>sourceFailures.
     bind_tx (require (\<not> (sessionFailures \<ge> 10 \<or> sourceFailures \<ge> 50)) (MachineError ErrConnectionRateLimited)) (\<lambda>_.
     bind_tx (query (\<lambda>E now. sql_FindLiveMachineConnectionByCode (lkc_CodeDigest command) E)) (\<lambda>found.
     case found of
       Some r \<Rightarrow> ret (Inr (machineConnectionRequest r))
     | None \<Rightarrow>
         bind_tx (ask (\<lambda>E. fresh E 0)) (\<lambda>failureID.
         bind_tx (insert_row (\<lambda>E now. sql_RecordMachineConnectionLookupFailure E failureID (lkc_BrowserSessionID command)
           (lkc_SourceDigest command))) (\<lambda>_.
         ret (Inl (MachineError ErrConnectionUnavailable)))))))))) "

definition LookupMachineConnection :: "lookup_connection_command \<Rightarrow> env \<Rightarrow> db \<Rightarrow> (carry_error + connection_request) \<times> db" where
  "LookupMachineConnection command = transact_answer (LookupMachineConnection_tx command)"

end
