(* ===== verification/Machine_Decisions.thy ===== *)
theory Machine_Decisions
  imports Machine_Store
begin

text \<open>
  Deciding, polling and cancelling a connection request (\<open>internal/postgres/machine.go\<close>). Only a
  live Browser Session decides; an approval needs the authority to enroll Machines in the chosen
  Space; the Machine itself polls no faster than its interval, and its first poll after an approval
  makes the Machine, with the identifier, the Space and the enroller of the decision.
\<close>

section \<open>What the table requires of a row\<close>

definition decision_columns_ok :: "connection_row \<Rightarrow> bool" where
  "decision_columns_ok r \<longleftrightarrow>
     (case mc_Decision r of
        None \<Rightarrow> mc_DecidedAt r = None \<and> mc_DecidedByUserID r = None \<and> mc_DecidedSpaceID r = None
          \<and> mc_DecisionIdempotencyKey r = None \<and> mc_DecisionRequestDigest r = None \<and> mc_PreparedMachineID r = None
      | Some decision \<Rightarrow> (decision = ''approved'' \<or> decision = ''denied'')
          \<and> mc_DecidedAt r \<noteq> None \<and> mc_DecidedByUserID r \<noteq> None
          \<and> (decision = ''approved'' \<longleftrightarrow> mc_DecidedSpaceID r \<noteq> None) \<and> (decision = ''approved'' \<longleftrightarrow> mc_PreparedMachineID r \<noteq> None)
          \<and> mc_DecisionIdempotencyKey r \<noteq> None \<and> textValue (mc_DecisionIdempotencyKey r) \<noteq> []
          \<and> length (textValue (mc_DecisionIdempotencyKey r)) \<le> 255 \<and> length (textValue (mc_DecisionRequestDigest r)) = 32)"

definition redemption_columns_ok :: "connection_row \<Rightarrow> bool" where
  "redemption_columns_ok r \<longleftrightarrow>
     (case mc_RedeemedAt r of
        None \<Rightarrow> mc_ResultingMachineID r = None \<and> mc_ReplayUntil r = None
      | Some redeemed \<Rightarrow> mc_Decision r = Some ''approved'' \<and> mc_ResultingMachineID r \<noteq> None
          \<and> (case mc_ReplayUntil r of None \<Rightarrow> False | Some t \<Rightarrow> redeemed < t))"

definition connection_state_ok :: "connection_row \<Rightarrow> bool" where
  "connection_state_ok r \<longleftrightarrow> 5 \<le> mc_PollIntervalSeconds r \<and> mc_PollIntervalSeconds r \<le> 30 \<and> mc_CreatedAt r < mc_ExpiresAt r
     \<and> (case mc_LastPolledAt r of None \<Rightarrow> True | Some t \<Rightarrow> mc_CreatedAt r \<le> t)
     \<and> decision_columns_ok r \<and> (mc_CancelledAt r \<noteq> None \<longrightarrow> mc_Decision r = None) \<and> redemption_columns_ok r"

definition has_decision :: "connection_row \<Rightarrow> bool" where
  "has_decision r \<longleftrightarrow> mc_Decision r \<noteq> None"

definition decision_key :: "connection_row \<Rightarrow> uuid option \<times> string option" where
  "decision_key r = (mc_DecidedByUserID r, mc_DecisionIdempotencyKey r)"

text \<open>An update whose errors, and whose empty result, the code only wraps and returns.\<close>

definition update_one :: "(env \<Rightarrow> timestamp \<Rightarrow> 'd \<Rightarrow> db_error + ('a option \<times> 'd)) \<Rightarrow> ('d, 'a) tx" where
  "update_one u = bind_tx (insert_row u) (\<lambda>r. case r of None \<Rightarrow> fail (DatabaseError No_rows) | Some x \<Rightarrow> ret x)"

lemma update_one_Inr [tx_simps]:
  "update_one u E d n = Inr (x, d', n') \<longleftrightarrow> \<not> fault E n \<and> u E (clock E n) d = Inr (Some x, d') \<and> n' = Suc n"
  by (auto simp: update_one_def bind_tx_Inr insert_row_Inr ret_Inr fail_Inr split: option.splits)

lemma run_update_one [tx_run]:
  "\<not> fault E n \<Longrightarrow> update_one u E d n =
     (case u E (clock E n) d of Inl e \<Rightarrow> Inl (DatabaseError e)
      | Inr (r, d') \<Rightarrow> (case r of None \<Rightarrow> Inl (DatabaseError No_rows) | Some x \<Rightarrow> Inr (x, d', Suc n)))"
  by (simp add: update_one_def run_bind run_insert_row run_fail run_ret split: sum.splits option.splits prod.splits)

section \<open>Deciding\<close>

definition sql_LockSpaceForMachineConnection :: "uuid \<Rightarrow> db \<Rightarrow> uuid option" where
  "sql_LockSpaceForMachineConnection spaceID d = map_option sp_SpaceID (first_where (\<lambda>s. sp_SpaceID s = spaceID) (spaces d))"

definition sql_LockMachineEnrollmentMembership :: "uuid \<Rightarrow> uuid \<Rightarrow> db \<Rightarrow> membership_row option" where
  "sql_LockMachineEnrollmentMembership spaceID userID d =
     first_where (\<lambda>m. mb_SpaceID m = spaceID \<and> mb_UserID m = userID \<and> mb_RevokedAt m = None) (memberships d)"

definition decided_row ::
    "env \<Rightarrow> string \<Rightarrow> uuid \<Rightarrow> uuid option \<Rightarrow> string \<Rightarrow> bytes \<Rightarrow> uuid option \<Rightarrow> connection_row \<Rightarrow> connection_row" where
  "decided_row E decision userID spaceID key digest machineID r = r\<lparr>mc_Decision := Some decision, mc_DecidedAt := Some (tx_time E),
     mc_DecidedByUserID := Some userID, mc_DecidedSpaceID := spaceID, mc_DecisionIdempotencyKey := Some key,
     mc_DecisionRequestDigest := Some digest, mc_PreparedMachineID := machineID\<rparr>"

definition open_request :: "env \<Rightarrow> uuid \<Rightarrow> connection_row \<Rightarrow> bool" where
  "open_request E requestID r \<longleftrightarrow> mc_RequestID r = requestID \<and> live_request E r"

definition sql_DecideMachineConnection ::
    "env \<Rightarrow> string \<Rightarrow> uuid \<Rightarrow> uuid option \<Rightarrow> string \<Rightarrow> bytes \<Rightarrow> uuid option \<Rightarrow> uuid \<Rightarrow> db
       \<Rightarrow> db_error + (connection_row option \<times> db)" where
  "sql_DecideMachineConnection E decision userID spaceID key digest machineID requestID d =
     (case update_connection (open_request E requestID) (decided_row E decision userID spaceID key digest machineID) connection_state_ok d of
        Inl e \<Rightarrow> Inl e
      | Inr r \<Rightarrow>
          if exists_where (open_request E requestID) (machine_connection_requests d)
             \<and> key_taken decision_key has_decision (Some userID, Some key) (machine_connection_requests d)
          then Inl (Unique_violation ''machine_connection_requests_decision_idempotency_idx'') else Inr r)"

text \<open>Who may decide: for an approval, the Space and the prepared Machine as the columns take them.\<close>

definition decision_authority :: "decide_connection_command \<Rightarrow> uuid \<Rightarrow> (db, uuid option \<times> uuid option) tx" where
  "decision_authority command userID =
     (if dcc_Decision command \<noteq> ''approved'' then ret (None, None)
      else
        bind_tx (postgresUUID MissingArgument (dcc_SpaceID command)) (\<lambda>spaceID.
        bind_tx (postgresUUID MissingArgument (dcc_PreparedMachineID command)) (\<lambda>preparedMachineID.
        bind_tx (query_one (MachineError ErrMachineAuthority) (\<lambda>E now. sql_LockSpaceForMachineConnection (dcc_SpaceID command))) (\<lambda>_.
        bind_tx (query_one (MachineError ErrMachineAuthority)
          (\<lambda>E now. sql_LockMachineEnrollmentMembership (dcc_SpaceID command) userID)) (\<lambda>membership.
        bind_tx (require (mb_CanEnrollMachines membership) (MachineError ErrMachineAuthority)) (\<lambda>_.
        ret (Some spaceID, Some preparedMachineID)))))))"

definition same_decision :: "decide_connection_command \<Rightarrow> uuid \<Rightarrow> connection_row \<Rightarrow> bool" where
  "same_decision command userID r \<longleftrightarrow> mc_Decision r = Some (dcc_Decision command) \<and> uuidValue (mc_DecidedByUserID r) = userID
     \<and> mc_DecisionIdempotencyKey r = Some (dcc_IdempotencyKey command)
     \<and> textValue (mc_DecisionRequestDigest r) = dcc_RequestDigest command"

definition decide_error :: "db_error \<Rightarrow> carry_error" where
  "decide_error e = (case e of Unique_violation name \<Rightarrow> MachineError ErrConnectionConflict | _ \<Rightarrow> DatabaseError e)"

text \<open>The part after the request is locked: a repeated decision, or the first one.\<close>

definition conclude_decision ::
    "decide_connection_command \<Rightarrow> uuid \<Rightarrow> uuid option \<Rightarrow> uuid option \<Rightarrow> connection_row \<Rightarrow> timestamp \<Rightarrow> (db, connection_request) tx" where
  "conclude_decision command userID spaceID preparedMachineID request now =
     (if mc_Decision request \<noteq> None then
       (if same_decision command userID request then ret (machineConnectionRequest request)
        else fail (MachineError ErrConnectionAlreadyDecided))
     else
       bind_tx (require (mc_CancelledAt request = None) (MachineError ErrConnectionCancelled)) (\<lambda>_.
       bind_tx (require (mc_ExpiresAt request > now) (MachineError ErrConnectionExpired)) (\<lambda>_.
       bind_tx (postgresUUID MissingArgument userID) (\<lambda>actorUserID.
       bind_tx (try_modify (\<lambda>E now. sql_DecideMachineConnection E (dcc_Decision command) actorUserID spaceID
         (dcc_IdempotencyKey command) (dcc_RequestDigest command) preparedMachineID (dcc_RequestID command))) (\<lambda>updated.
       case updated of
         Inl e \<Rightarrow> fail (decide_error e)
       | Inr r \<Rightarrow> (case r of None \<Rightarrow> fail (MachineError ErrConnectionAlreadyDecided)
                            | Some row \<Rightarrow> ret (machineConnectionRequest row)))))))"

definition DecideMachineConnection_tx :: "decide_connection_command \<Rightarrow> (db, connection_request) tx" where
  "DecideMachineConnection_tx command =
     bind_tx (query_one (MachineError ErrMachineUnavailable)
       (\<lambda>E now. sql_LockBrowserSessionForMachineConnection (dcc_BrowserSessionID command) E)) (\<lambda>user.
     bind_tx (decision_authority command (u_UserID user)) (\<lambda>(spaceID, preparedMachineID).
     bind_tx (query_one (MachineError ErrConnectionUnavailable) (\<lambda>E now. sql_LockMachineConnectionRequest (dcc_RequestID command))) (\<lambda>request.
     bind_tx (query (\<lambda>E now. sql_MachineDatabaseTime E)) (\<lambda>now.
     bind_tx (require (mc_UserCodeDigest request = dcc_CodeDigest command) (MachineError ErrConnectionUnavailable)) (\<lambda>_.
     conclude_decision command (u_UserID user) spaceID preparedMachineID request now)))))"

definition DecideMachineConnection :: "decide_connection_command \<Rightarrow> env \<Rightarrow> db \<Rightarrow> (carry_error + connection_request) \<times> db" where
  "DecideMachineConnection command = transact (DecideMachineConnection_tx command)"

section \<open>Polling\<close>

definition sql_LoadMachine :: "uuid \<Rightarrow> db \<Rightarrow> machine_row option" where
  "sql_LoadMachine machineID d = first_where (\<lambda>m. m_MachineID m = machineID) (machines d)"

definition slowed_row :: "env \<Rightarrow> connection_row \<Rightarrow> connection_row" where
  "slowed_row E r = r\<lparr>mc_LastPolledAt := Some (tx_time E), mc_PollIntervalSeconds := min 30 (mc_PollIntervalSeconds r + 5)\<rparr>"

definition sql_SlowDownMachineConnectionPoll :: "env \<Rightarrow> uuid \<Rightarrow> db \<Rightarrow> db_error + (connection_row option \<times> db)" where
  "sql_SlowDownMachineConnectionPoll E requestID =
     update_connection (\<lambda>r. mc_RequestID r = requestID) (slowed_row E) connection_state_ok"

definition polled_row :: "env \<Rightarrow> connection_row \<Rightarrow> connection_row" where
  "polled_row E r = r\<lparr>mc_LastPolledAt := Some (tx_time E)\<rparr>"

definition sql_RecordMachineConnectionPoll :: "env \<Rightarrow> uuid \<Rightarrow> db \<Rightarrow> db_error + (connection_row option \<times> db)" where
  "sql_RecordMachineConnectionPoll E requestID =
     update_connection (\<lambda>r. mc_RequestID r = requestID) (polled_row E) connection_state_ok"

definition connected_row :: "env \<Rightarrow> uuid \<Rightarrow> uuid \<Rightarrow> string \<Rightarrow> bytes \<Rightarrow> issued_certificate \<Rightarrow> uuid \<Rightarrow> machine_row" where
  "connected_row E machineID spaceID displayName publicKey issued userID = \<lparr>m_MachineID = machineID, m_SpaceID = spaceID,
     m_DisplayName = displayName, m_PublicKeyDer = publicKey, m_CertificatePem = ic_CertificatePEM issued,
     m_CertificateSerial = ic_Serial issued, m_EnrolledByUserID = userID, m_EnrolledAt = tx_time E, m_RevokedAt = None,
     m_RevocationActorKind = None, m_RevokedByUserID = None, m_RevocationIdempotencyKey = None,
     m_RevocationRequestDigest = None, m_AgentReportRevision = 0, m_AgentReportedAt = None, m_LastAgentReportID = None,
     m_LastAgentReportDigest = None, m_LastUnsupportedKeys = [], m_LastSetupRequiredKeys = []\<rparr>"

definition sql_CreateConnectedMachine :: "machine_row \<Rightarrow> db \<Rightarrow> db_error + (machine_row \<times> db)" where
  "sql_CreateConnectedMachine m d =
     (if m_DisplayName m = [] \<or> m_PublicKeyDer m = [] \<or> m_CertificatePem m = [] \<or> m_CertificateSerial m = []
      then Inl (Check_violation ''machines'')
      else if key_taken m_MachineID (\<lambda>_. True) (m_MachineID m) (machines d) then Inl (Unique_violation ''machines_pkey'')
      else if key_taken m_CertificateSerial (\<lambda>_. True) (m_CertificateSerial m) (machines d)
      then Inl (Unique_violation ''machines_certificate_serial_key'')
      else if \<not> exists_where (\<lambda>s. sp_SpaceID s = m_SpaceID m) (spaces d) then Inl (Foreign_key_violation ''machines_space_id_fkey'')
      else if \<not> exists_where (\<lambda>u. u_UserID u = m_EnrolledByUserID m) (carry_users d)
      then Inl (Foreign_key_violation ''machines_enrolled_by_user_id_fkey'')
      else Inr (m, d\<lparr>machines := machines d @ [m]\<rparr>))"

definition redeemable :: "uuid \<Rightarrow> connection_row \<Rightarrow> bool" where
  "redeemable requestID r \<longleftrightarrow> mc_RequestID r = requestID \<and> mc_Decision r = Some ''approved''
     \<and> mc_CancelledAt r = None \<and> mc_RedeemedAt r = None"

definition redeemed_row :: "env \<Rightarrow> uuid \<Rightarrow> connection_row \<Rightarrow> connection_row" where
  "redeemed_row E machineID r = r\<lparr>mc_ResultingMachineID := Some machineID, mc_RedeemedAt := Some (tx_time E),
     mc_ReplayUntil := Some (tx_time E + minutes 15)\<rparr>"

definition sql_RedeemMachineConnection :: "env \<Rightarrow> uuid \<Rightarrow> uuid \<Rightarrow> db \<Rightarrow> db_error + (connection_row option \<times> db)" where
  "sql_RedeemMachineConnection E machineID requestID =
     update_connection (redeemable requestID) (redeemed_row E machineID) connection_state_ok"

text \<open>The answer to a poll after the redemption: the same certificate, while it may be replayed.\<close>

definition replay_redemption :: "connection_row \<Rightarrow> timestamp \<Rightarrow> (db, carry_error + connected_machine) tx" where
  "replay_redemption r now =
     bind_tx (require (\<not> (mc_ReplayUntil r = None \<or> timeValue (mc_ReplayUntil r) \<le> now \<or> mc_ResultingMachineID r = None))
        (MachineError ErrConnectionReplayExpired)) (\<lambda>_.
     bind_tx (instead (MachineError ErrMachineUnavailable) (query_one (MachineError ErrMachineUnavailable)
        (\<lambda>E t. sql_LoadMachine (uuidValue (mc_ResultingMachineID r))))) (\<lambda>stored.
     bind_tx (require (m_RevokedAt stored = None) (MachineError ErrMachineUnavailable)) (\<lambda>_.
     ret (Inr (connectedMachine r stored)))))"

text \<open>An approved request becomes a Machine.\<close>

definition redeem :: "issuer \<Rightarrow> poll_connection_command \<Rightarrow> connection_row \<Rightarrow> (db, carry_error + connected_machine) tx" where
  "redeem issue command r =
     (let machineID = uuidValue (mc_PreparedMachineID r) in
      bind_tx (lift (case issue machineID (mc_PublicKeyDer r) (timeValue (mc_DecidedAt r)) of
                       None \<Rightarrow> Inl (MachineError ErrCertificate) | Some issued \<Rightarrow> Inr issued)) (\<lambda>issued.
      bind_tx (insert_row (\<lambda>E now. sql_CreateConnectedMachine (connected_row E machineID (uuidValue (mc_DecidedSpaceID r))
         (mc_DisplayName r) (mc_PublicKeyDer r) issued (uuidValue (mc_DecidedByUserID r))))) (\<lambda>stored.
      bind_tx (postgresUUID MissingArgument machineID) (\<lambda>redeemedMachineID.
      bind_tx (update_one (\<lambda>E now. sql_RedeemMachineConnection E redeemedMachineID (plc_RequestID command))) (\<lambda>redeemed.
      ret (Inr (connectedMachine redeemed stored)))))))"

definition next_poll_at :: "connection_row \<Rightarrow> timestamp" where
  "next_poll_at r = (case mc_LastPolledAt r of None \<Rightarrow> mc_CreatedAt r | Some t \<Rightarrow> t) + seconds (mc_PollIntervalSeconds r)"

text \<open>A poll of a request that is open or approved: too early, still undecided, or the redemption.\<close>

definition paced_poll :: "issuer \<Rightarrow> poll_connection_command \<Rightarrow> connection_row \<Rightarrow> timestamp \<Rightarrow> (db, carry_error + connected_machine) tx" where
  "paced_poll issue command request now =
     (if now < next_poll_at request then
        bind_tx (update_one (\<lambda>E now. sql_SlowDownMachineConnectionPoll E (plc_RequestID command))) (\<lambda>updated.
        ret (Inl (MachineError (ConnectionSlowDownError (seconds (mc_PollIntervalSeconds updated))))))
      else
        bind_tx (update_one (\<lambda>E now. sql_RecordMachineConnectionPoll E (plc_RequestID command))) (\<lambda>request.
        if mc_Decision request = None then ret (Inl (MachineError ErrConnectionPending))
        else redeem issue command request))"

definition PollMachineConnection_tx :: "poll_connection_command \<Rightarrow> issuer \<Rightarrow> (db, carry_error + connected_machine) tx" where
  "PollMachineConnection_tx command issue =
     bind_tx (query_one (MachineError ErrConnectionUnavailable) (\<lambda>E now. sql_LockMachineConnectionRequest (plc_RequestID command))) (\<lambda>request.
     bind_tx (require (mc_PollSecretDigest request = plc_PollDigest command) (MachineError ErrMachineUnavailable)) (\<lambda>_.
     bind_tx (query (\<lambda>E now. sql_MachineDatabaseTime E)) (\<lambda>now.
     if mc_RedeemedAt request \<noteq> None then replay_redemption request now
     else
       bind_tx (require (mc_Decision request \<noteq> Some ''denied'') (MachineError ErrConnectionDenied)) (\<lambda>_.
       bind_tx (require (mc_CancelledAt request = None) (MachineError ErrConnectionCancelled)) (\<lambda>_.
       bind_tx (require (mc_ExpiresAt request > now) (MachineError ErrConnectionExpired)) (\<lambda>_.
       paced_poll issue command request now))))))"

definition PollMachineConnection :: "poll_connection_command \<Rightarrow> issuer \<Rightarrow> env \<Rightarrow> db \<Rightarrow> (carry_error + connected_machine) \<times> db" where
  "PollMachineConnection command issue = transact_answer (PollMachineConnection_tx command issue)"

section \<open>Cancelling\<close>

definition sql_CancelMachineConnection :: "env \<Rightarrow> uuid \<Rightarrow> db \<Rightarrow> db_error + (connection_row option \<times> db)" where
  "sql_CancelMachineConnection E requestID =
     update_connection (open_request E requestID) (\<lambda>r. r\<lparr>mc_CancelledAt := Some (tx_time E)\<rparr>) connection_state_ok"

definition CancelMachineConnection_tx :: "poll_connection_command \<Rightarrow> (db, unit) tx" where
  "CancelMachineConnection_tx command =
     bind_tx (query_one (MachineError ErrConnectionUnavailable) (\<lambda>E now. sql_LockMachineConnectionRequest (plc_RequestID command))) (\<lambda>request.
     bind_tx (require (mc_PollSecretDigest request = plc_PollDigest command) (MachineError ErrMachineUnavailable)) (\<lambda>_.
     if mc_CancelledAt request \<noteq> None then ret ()
     else
       bind_tx (require (mc_Decision request = None) (MachineError ErrConnectionAlreadyDecided)) (\<lambda>_.
       bind_tx (query (\<lambda>E now. sql_MachineDatabaseTime E)) (\<lambda>now.
       bind_tx (require (mc_ExpiresAt request > now) (MachineError ErrConnectionExpired)) (\<lambda>_.
       bind_tx (update_one (\<lambda>E now. sql_CancelMachineConnection E (plc_RequestID command))) (\<lambda>_.
       ret ()))))))"

definition CancelMachineConnection :: "poll_connection_command \<Rightarrow> env \<Rightarrow> db \<Rightarrow> (carry_error + unit) \<times> db" where
  "CancelMachineConnection command = transact (CancelMachineConnection_tx command)"


text \<open>
  The Machines of a Space and their revocation (\<open>internal/postgres/machine.go\<close>), by a member who
  may enroll Machines or by the Machine itself. A revocation retires the Machine's Agents.
\<close>

section \<open>Listing\<close>

definition sql_LoadMachineListMembership :: "uuid \<Rightarrow> uuid \<Rightarrow> env \<Rightarrow> db \<Rightarrow> membership_row option" where
  "sql_LoadMachineListMembership sessionID spaceID E d =
     (case first_where (\<lambda>b. bs_SessionID b = sessionID \<and> bs_RevokedAt b = None \<and> bs_ExpiresAt b > tx_time E) (browser_sessions d) of
        None \<Rightarrow> None
      | Some b \<Rightarrow> first_where (\<lambda>m. mb_UserID m = bs_UserID b \<and> mb_SpaceID m = spaceID \<and> mb_RevokedAt m = None) (memberships d))"

record listed_machine =
  lmr_Machine :: machine_row
  lmr_SpaceName :: string
  lmr_EnrolledByName :: string
  lmr_RevokedByName :: string

definition listed :: "db \<Rightarrow> machine_row \<Rightarrow> listed_machine option" where
  "listed d m =
     (case (first_where (\<lambda>s. sp_SpaceID s = m_SpaceID m) (spaces d), user_of (m_EnrolledByUserID m) d) of
        (Some s, Some enroller) \<Rightarrow> Some \<lparr>lmr_Machine = m, lmr_SpaceName = sp_Name s, lmr_EnrolledByName = u_DisplayName enroller,
          lmr_RevokedByName = (case m_RevokedByUserID m of None \<Rightarrow> []
             | Some userID \<Rightarrow> (case user_of userID d of None \<Rightarrow> [] | Some revoker \<Rightarrow> u_DisplayName revoker))\<rparr>
      | _ \<Rightarrow> None)"

definition sql_ListSpaceMachines :: "uuid \<Rightarrow> uuid option \<Rightarrow> db \<Rightarrow> listed_machine list" where
  "sql_ListSpaceMachines spaceID after d =
     take 51 (List.map_filter (listed d) (order_by m_MachineID
       (filter (\<lambda>m. m_SpaceID m = spaceID \<and> (case after of None \<Rightarrow> True | Some a \<Rightarrow> a < m_MachineID m)) (machines d))))"

definition inventoryRecord :: "listed_machine \<Rightarrow> bool \<Rightarrow> machine_record" where
  "inventoryRecord row canRevoke = (let m = lmr_Machine row; revoked = m_RevokedAt m \<noteq> None in
     \<lparr>mr_MachineID = m_MachineID m, mr_SpaceID = m_SpaceID m, mr_SpaceName = lmr_SpaceName row,
      mr_DisplayName = m_DisplayName m, mr_Fingerprint = PublicKeyFingerprint (m_PublicKeyDer m),
      mr_State = (if revoked then ''Revoked'' else ''Active''), mr_EnrolledByUserID = m_EnrolledByUserID m,
      mr_EnrolledByName = lmr_EnrolledByName row, mr_EnrolledAt = m_EnrolledAt m,
      mr_RevocationActor = (if revoked then textValue (m_RevocationActorKind m) else []),
      mr_RevokedByUserID = (if revoked then uuidValue (m_RevokedByUserID m) else []),
      mr_RevokedByName = (if revoked then lmr_RevokedByName row else []), mr_RevokedAt = m_RevokedAt m, mr_CanRevoke = canRevoke\<rparr>)"

definition storedMachineRecord :: "machine_row \<Rightarrow> machine_record" where
  "storedMachineRecord m = (let revoked = m_RevokedAt m \<noteq> None in
     \<lparr>mr_MachineID = m_MachineID m, mr_SpaceID = m_SpaceID m, mr_SpaceName = [],
      mr_DisplayName = m_DisplayName m, mr_Fingerprint = PublicKeyFingerprint (m_PublicKeyDer m),
      mr_State = (if revoked then ''Revoked'' else ''Active''), mr_EnrolledByUserID = m_EnrolledByUserID m,
      mr_EnrolledByName = [], mr_EnrolledAt = m_EnrolledAt m,
      mr_RevocationActor = (if revoked then textValue (m_RevocationActorKind m) else []),
      mr_RevokedByUserID = (if revoked then uuidValue (m_RevokedByUserID m) else []),
      mr_RevokedByName = [], mr_RevokedAt = m_RevokedAt m, mr_CanRevoke = False\<rparr>)"

definition machine_page_of :: "listed_machine list \<Rightarrow> bool \<Rightarrow> machine_page" where
  "machine_page_of rows canRevoke = \<lparr>mpg_Machines = map (\<lambda>row. inventoryRecord row canRevoke) (take 50 rows),
     mpg_NextCursor = (if 50 < length rows then m_MachineID (lmr_Machine (rows ! 49)) else [])\<rparr>"

definition ListMachines_tx :: "list_machines_command \<Rightarrow> (db, machine_page \<times> inventory_record list) tx" where
  "ListMachines_tx command =
     bind_tx (query_one (MachineError ErrMachineUnavailable)
       (\<lambda>E now. sql_LoadMachineListMembership (lsm_BrowserSessionID command) (lsm_SpaceID command) E)) (\<lambda>membership.
     bind_tx (if lsm_After command = [] then ret None
              else bind_tx (postgresUUID (MachineError ErrInvalidConnection) (lsm_After command)) (\<lambda>a. ret (Some a))) (\<lambda>after.
     bind_tx (query (\<lambda>E now. sql_ListSpaceMachines (lsm_SpaceID command) after)) (\<lambda>rows.
     bind_tx (listInventoryAgents (map (\<lambda>row. m_MachineID (lmr_Machine row)) (take 50 rows))) (\<lambda>agents.
     ret (machine_page_of rows (mb_CanEnrollMachines membership), agents)))))"

definition ListMachines :: "list_machines_command \<Rightarrow> env \<Rightarrow> db \<Rightarrow> (carry_error + machine_page \<times> inventory_record list) \<times> db" where
  "ListMachines command = transact (ListMachines_tx command)"

section \<open>Revoking\<close>

definition machine_agent :: "uuid \<Rightarrow> agent_row \<Rightarrow> bool" where
  "machine_agent machineID a \<longleftrightarrow> ag_MachineID a = machineID \<and> ag_RemovedAt a = None"

definition sql_LockActiveAgentsForMachineRemoval :: "uuid \<Rightarrow> db \<Rightarrow> uuid list" where
  "sql_LockActiveAgentsForMachineRemoval machineID d =
     map ag_AgentID (order_by ag_AgentID (filter (machine_agent machineID) (agents d)))"

definition sql_RemoveActiveAgentsForMachine :: "env \<Rightarrow> uuid \<Rightarrow> db \<Rightarrow> unit \<times> db" where
  "sql_RemoveActiveAgentsForMachine E machineID d =
     ((), d\<lparr>agents := update_where (machine_agent machineID) (\<lambda>a. a\<lparr>ag_RemovedAt := Some (tx_time E)\<rparr>) (agents d),
            agent_presence := update_where
              (\<lambda>p. exists_where (\<lambda>a. ag_AgentID a = pr_AgentID p \<and> machine_agent machineID a) (agents d))
              (\<lambda>p. p\<lparr>pr_Present := False\<rparr>) (agent_presence d)\<rparr>)"

definition revocation_columns_ok :: "machine_row \<Rightarrow> bool" where
  "revocation_columns_ok m \<longleftrightarrow>
     (case m_RevokedAt m of
        None \<Rightarrow> m_RevocationActorKind m = None \<and> m_RevokedByUserID m = None \<and> m_RevocationIdempotencyKey m = None
          \<and> m_RevocationRequestDigest m = None
      | Some t \<Rightarrow> m_EnrolledAt m \<le> t \<and>
          (if m_RevocationActorKind m = Some ''not_recorded''
           then m_RevokedByUserID m = None \<and> m_RevocationIdempotencyKey m = None \<and> m_RevocationRequestDigest m = None
           else (m_RevocationActorKind m = Some ''user'' \<and> m_RevokedByUserID m \<noteq> None
                  \<or> m_RevocationActorKind m = Some ''machine'' \<and> m_RevokedByUserID m = None)
             \<and> m_RevocationIdempotencyKey m \<noteq> None \<and> textValue (m_RevocationIdempotencyKey m) \<noteq> []
             \<and> length (textValue (m_RevocationIdempotencyKey m)) \<le> 255 \<and> length (textValue (m_RevocationRequestDigest m)) = 32))"

definition by_user :: "machine_row \<Rightarrow> bool" where
  "by_user m \<longleftrightarrow> m_RevocationActorKind m = Some ''user''"

definition revocation_key :: "machine_row \<Rightarrow> uuid option \<times> string option" where
  "revocation_key m = (m_RevokedByUserID m, m_RevocationIdempotencyKey m)"

definition revoked_machine_row :: "env \<Rightarrow> string \<Rightarrow> uuid option \<Rightarrow> string \<Rightarrow> bytes \<Rightarrow> machine_row \<Rightarrow> machine_row" where
  "revoked_machine_row E kind userID key digest m = m\<lparr>m_RevokedAt := Some (tx_time E), m_RevocationActorKind := Some kind,
     m_RevokedByUserID := userID, m_RevocationIdempotencyKey := Some key, m_RevocationRequestDigest := Some digest\<rparr>"

definition active_machine :: "uuid \<Rightarrow> machine_row \<Rightarrow> bool" where
  "active_machine machineID m \<longleftrightarrow> m_MachineID m = machineID \<and> m_RevokedAt m = None"

definition revoke_machine :: "env \<Rightarrow> string \<Rightarrow> uuid option \<Rightarrow> string \<Rightarrow> bytes \<Rightarrow> uuid \<Rightarrow> db \<Rightarrow> db_error + (machine_row option \<times> db)" where
  "revoke_machine E kind userID key digest machineID d =
     (let f = revoked_machine_row E kind userID key digest; P = active_machine machineID in
      if exists_where (\<lambda>m. P m \<and> \<not> revocation_columns_ok (f m)) (machines d) then Inl (Check_violation ''machines_revocation_facts_check'')
      else if exists_where P (machines d) \<and> kind = ''user'' \<and> key_taken revocation_key by_user (userID, Some key) (machines d)
      then Inl (Unique_violation ''machines_user_revocation_idempotency_idx'')
      else Inr (map_option f (first_where P (machines d)), d\<lparr>machines := update_where P f (machines d)\<rparr>))"

definition sql_RevokeMachineByUser :: "env \<Rightarrow> uuid \<Rightarrow> string \<Rightarrow> bytes \<Rightarrow> uuid \<Rightarrow> db \<Rightarrow> db_error + (machine_row option \<times> db)" where
  "sql_RevokeMachineByUser E userID key digest = revoke_machine E ''user'' (Some userID) key digest"

definition sql_RevokeMachineBySelf :: "env \<Rightarrow> string \<Rightarrow> bytes \<Rightarrow> uuid \<Rightarrow> db \<Rightarrow> db_error + (machine_row option \<times> db)" where
  "sql_RevokeMachineBySelf E key digest = revoke_machine E ''machine'' None key digest"

definition sql_LockMachineForRevocation :: "uuid \<Rightarrow> uuid \<Rightarrow> db \<Rightarrow> machine_row option" where
  "sql_LockMachineForRevocation machineID spaceID d =
     first_where (\<lambda>m. m_MachineID m = machineID \<and> m_SpaceID m = spaceID) (machines d)"

definition sql_LockMachineByIDForSelfRevocation :: "uuid \<Rightarrow> db \<Rightarrow> machine_row option" where
  "sql_LockMachineByIDForSelfRevocation machineID d = first_where (\<lambda>m. m_MachineID m = machineID) (machines d)"

definition retire_agents :: "uuid \<Rightarrow> (db, unit) tx" where
  "retire_agents machineID =
     bind_tx (query (\<lambda>E now. sql_LockActiveAgentsForMachineRemoval machineID)) (\<lambda>_.
     modify (\<lambda>E now. sql_RemoveActiveAgentsForMachine E machineID))"

text \<open>Phase 1 of a revocation from the Browser: the User and the Machine.\<close>

definition revocation_authority :: "revoke_machine_command \<Rightarrow> (db, uuid \<times> machine_row) tx" where
  "revocation_authority command =
     bind_tx (query_one (MachineError ErrMachineUnavailable)
       (\<lambda>E now. sql_LockBrowserSessionForMachineConnection (rmm_BrowserSessionID command) E)) (\<lambda>user.
     bind_tx (query_one (MachineError ErrMachineUnavailable) (\<lambda>E now. sql_LockSpaceForMachineConnection (rmm_SpaceID command))) (\<lambda>_.
     bind_tx (query_one (MachineError ErrMachineAuthority)
       (\<lambda>E now. sql_LockMachineEnrollmentMembership (rmm_SpaceID command) (u_UserID user))) (\<lambda>membership.
     bind_tx (require (mb_CanEnrollMachines membership) (MachineError ErrMachineAuthority)) (\<lambda>_.
     bind_tx (query_one (MachineError ErrMachineUnavailable)
       (\<lambda>E now. sql_LockMachineForRevocation (rmm_MachineID command) (rmm_SpaceID command))) (\<lambda>stored.
     ret (u_UserID user, stored))))))"

text \<open>The request that revoked the Machine, with another content.\<close>

definition conflicting_revocation :: "string \<Rightarrow> uuid \<Rightarrow> string \<Rightarrow> bytes \<Rightarrow> machine_row \<Rightarrow> bool" where
  "conflicting_revocation kind userID key digest m \<longleftrightarrow> m_RevocationActorKind m = Some kind
     \<and> (kind = ''user'' \<longrightarrow> uuidValue (m_RevokedByUserID m) = userID) \<and> m_RevocationIdempotencyKey m = Some key
     \<and> textValue (m_RevocationRequestDigest m) \<noteq> digest"

definition RevokeMachineFromBrowser_tx :: "revoke_machine_command \<Rightarrow> (db, machine_record \<times> inventory_record list) tx" where
  "RevokeMachineFromBrowser_tx command =
     bind_tx (revocation_authority command) (\<lambda>(userID, stored).
     bind_tx (if m_RevokedAt stored \<noteq> None then
                bind_tx (require (\<not> conflicting_revocation ''user'' userID (rmm_IdempotencyKey command) (rmm_RequestDigest command) stored)
                  (MachineError ErrConnectionConflict)) (\<lambda>_. ret stored)
              else
                bind_tx (postgresUUID MissingArgument userID) (\<lambda>actorUserID.
                bind_tx (try_modify (\<lambda>E now. sql_RevokeMachineByUser E actorUserID (rmm_IdempotencyKey command)
                  (rmm_RequestDigest command) (rmm_MachineID command))) (\<lambda>r.
                case r of
                  Inl e \<Rightarrow> fail (decide_error e)
                | Inr updated \<Rightarrow> (case updated of
                    None \<Rightarrow> fail (DatabaseError No_rows)
                  | Some revoked \<Rightarrow> bind_tx (retire_agents (rmm_MachineID command)) (\<lambda>_. ret revoked))))) (\<lambda>stored.
     bind_tx (listInventoryAgents [rmm_MachineID command]) (\<lambda>agents.
     ret (storedMachineRecord stored, agents))))"

definition RevokeMachineFromBrowser ::
    "revoke_machine_command \<Rightarrow> env \<Rightarrow> db \<Rightarrow> (carry_error + machine_record \<times> inventory_record list) \<times> db" where
  "RevokeMachineFromBrowser command = transact (RevokeMachineFromBrowser_tx command)"

definition RevokeMachineFromHost_tx :: "self_revoke_command \<Rightarrow> (db, machine_record) tx" where
  "RevokeMachineFromHost_tx command =
     bind_tx (query_one (MachineError ErrMachineUnavailable) (\<lambda>E now. sql_LockMachineByIDForSelfRevocation (srm_MachineID command))) (\<lambda>stored.
     bind_tx (require (m_CertificateSerial stored = srm_CertificateSerial command) (MachineError ErrMachineUnavailable)) (\<lambda>_.
     bind_tx (if m_RevokedAt stored \<noteq> None then
                bind_tx (require (\<not> conflicting_revocation ''machine'' [] (srm_IdempotencyKey command) (srm_RequestDigest command) stored)
                  (MachineError ErrConnectionConflict)) (\<lambda>_. ret stored)
              else
                bind_tx (update_one (\<lambda>E now. sql_RevokeMachineBySelf E (srm_IdempotencyKey command)
                  (srm_RequestDigest command) (srm_MachineID command))) (\<lambda>revoked.
                bind_tx (retire_agents (srm_MachineID command)) (\<lambda>_. ret revoked))) (\<lambda>stored.
     ret (storedMachineRecord stored))))"

definition RevokeMachineFromHost :: "self_revoke_command \<Rightarrow> env \<Rightarrow> db \<Rightarrow> (carry_error + machine_record) \<times> db" where
  "RevokeMachineFromHost command = transact (RevokeMachineFromHost_tx command)"

end
