(* ===== verification/Machine_Flow.thy ===== *)
theory Machine_Flow
  imports Machine_Decisions
begin

text \<open>
  The use cases of \<open>internal/machine/connection.go\<close> around the store and the certificate of
  \<open>certificate.go\<close>. X.509 signing, Ed25519 and \<open>strings.ToUpper\<close> are parameters.
\<close>

section \<open>The certificate of a Machine\<close>

record certificate_template =
  ct_SerialNumber :: string
  ct_CommonName :: string
  ct_NotBefore :: timestamp
  ct_NotAfter :: timestamp
  ct_URIs :: "identity_uri list"

record certificate_authority =
  au_serial :: "uuid \<Rightarrow> string option"
  au_add_year :: "timestamp \<Rightarrow> timestamp"
  au_create :: "certificate_template \<Rightarrow> bytes \<Rightarrow> bytes option"

definition machine_template :: "certificate_authority \<Rightarrow> string \<Rightarrow> uuid \<Rightarrow> timestamp \<Rightarrow> certificate_template" where
  "machine_template A serial machineID now = \<lparr>ct_SerialNumber = serial, ct_CommonName = machineID, ct_NotBefore = now - minutes 5,
     ct_NotAfter = au_add_year A now, ct_URIs = [machine_uri machineID]\<rparr>"

definition IssueMachineCertificate :: "crypto_lib \<Rightarrow> certificate_authority \<Rightarrow> issuer" where
  "IssueMachineCertificate C A machineID publicKeyDER now =
     (if trim_space machineID = [] then None
      else (case public_key C publicKeyDER of
              None \<Rightarrow> None
            | Some publicKey \<Rightarrow>
                (case au_serial A machineID of
                   None \<Rightarrow> None
                 | Some serial \<Rightarrow>
                     (case au_create A (machine_template A serial machineID now) publicKey of
                        None \<Rightarrow> None
                      | Some pem \<Rightarrow> Some \<lparr>ic_CertificatePEM = pem, ic_Serial = serial\<rparr>))))"

section \<open>The service\<close>

record connections_service =
  co_lib :: crypto_lib
  co_root :: bytes
  co_authority :: certificate_authority
  co_externalOrigin :: string
  co_hostAPIOrigin :: string

definition NewConnections ::
    "crypto_lib \<Rightarrow> bytes \<Rightarrow> certificate_authority \<Rightarrow> string \<Rightarrow> string \<Rightarrow> connections_service option" where
  "NewConnections C root A externalOrigin hostAPIOrigin =
     (if \<not> validOrigin externalOrigin \<or> hostAPIOrigin = [] then None
      else Some \<lparr>co_lib = C, co_root = root, co_authority = A, co_externalOrigin = externalOrigin, co_hostAPIOrigin = hostAPIOrigin\<rparr>)"

text \<open>Everything a well-formed request proves: its secret names it, and its key signed its content.\<close>

definition key_proved :: "crypto_lib \<Rightarrow> begin_connection_request \<Rightarrow> string \<Rightarrow> string \<Rightarrow> bool" where
  "key_proved C q name userCode \<longleftrightarrow>
     (case public_key C (bgr_PublicKeyDER q) of
        None \<Rightarrow> False
      | Some publicKey \<Rightarrow> length (bgr_KeyProof q) = 64
          \<and> verify C publicKey (ConnectionKeyProofMessage (bgr_Origin q) (bgr_RequestID q) name (bgr_PublicKeyDER q) userCode (bgr_PollSecret q))
              (bgr_KeyProof q))"

definition begin_command :: "connections_service \<Rightarrow> begin_connection_request \<Rightarrow> env \<Rightarrow> carry_error + (string \<times> begin_connection_command)" where
  "begin_command S q E =
     (let invalid = Inl (MachineError ErrInvalidConnection); name = trim_space (bgr_DisplayName q) in
      case NormalizeConnectionCode (co_lib S) (bgr_UserCode q) of
        None \<Rightarrow> invalid
      | Some userCode \<Rightarrow>
     (case ParseConnectionPollSecret E (bgr_PollSecret q) of
        None \<Rightarrow> invalid
      | Some requestID \<Rightarrow>
     if requestID \<noteq> bgr_RequestID q \<or> \<not> uuid_valid E (bgr_RequestID q) \<or> \<not> validIdempotencyKey (bgr_IdempotencyKey q)
        \<or> name = [] \<or> length name > DisplayNameMaximumBytes \<or> \<not> valid_string name \<or> bgr_Origin q \<noteq> co_externalOrigin S
        \<or> trim_space (bgr_Source q) = [] \<or> \<not> key_proved (co_lib S) q name userCode
     then invalid
     else Inr (userCode, \<lparr>bgc_RequestID = bgr_RequestID q, bgc_IdempotencyKey = bgr_IdempotencyKey q, bgc_DisplayName = name,
       bgc_PublicKeyDER = bgr_PublicKeyDER q, bgc_KeyProof = bgr_KeyProof q,
       bgc_RequestDigest = connectionDigest [bgr_RequestID q, bgr_Origin q, name, userCode, bgr_PollSecret q,
         b64_encode b64_std (bgr_PublicKeyDER q), b64_encode b64_std (bgr_KeyProof q)],
       bgc_SourceDigest = SourceDigest (co_root S) (bgr_Source q), bgc_CodeDigest = CodeDigest (co_root S) userCode,
       bgc_PollDigest = PollDigest (co_root S) (bgr_PollSecret q)\<rparr>)))"

definition begun :: "connections_service \<Rightarrow> begin_connection_request \<Rightarrow> string \<Rightarrow> connection_request \<Rightarrow> begun_connection" where
  "begun S q userCode created = \<lparr>bg_RequestID = crq_RequestID created, bg_DisplayName = crq_DisplayName created,
     bg_UserCode = userCode, bg_PollSecret = bgr_PollSecret q, bg_Fingerprint = PublicKeyFingerprint (crq_PublicKeyDER created),
     bg_VerificationURL = co_externalOrigin S @ ''/machine-connect'', bg_ExpiresAt = crq_ExpiresAt created,
     bg_PollInterval = crq_PollInterval created\<rparr>"

definition result_map :: "('a \<Rightarrow> 'b) \<Rightarrow> (carry_error + 'a) \<times> 'd \<Rightarrow> (carry_error + 'b) \<times> 'd" where
  "result_map f = (\<lambda>(r, d). (map_sum id f r, d))"

lemma result_map_Inr [tx_simps]: "result_map f p = (Inr y, d') \<longleftrightarrow> (\<exists>x. p = (Inr x, d') \<and> y = f x)"
  by (cases p; cases "fst p") (auto simp: result_map_def)

definition BeginConnection :: "connections_service \<Rightarrow> begin_connection_request \<Rightarrow> env \<Rightarrow> db \<Rightarrow> (carry_error + begun_connection) \<times> db" where
  "BeginConnection S q E = checked (begin_command S q E) (\<lambda>(userCode, command) E d.
     result_map (begun S q userCode) (BeginMachineConnection command E d)) E"

definition lookup_command :: "connections_service \<Rightarrow> uuid \<Rightarrow> string \<Rightarrow> string \<Rightarrow> env \<Rightarrow> carry_error + (string \<times> lookup_connection_command)" where
  "lookup_command S sessionID userCode source E =
     (case NormalizeConnectionCode (co_lib S) userCode of
        None \<Rightarrow> Inl (MachineError ErrInvalidConnection)
      | Some normal \<Rightarrow> if \<not> uuid_valid E sessionID \<or> trim_space source = [] then Inl (MachineError ErrInvalidConnection)
          else Inr (normal, \<lparr>lkc_BrowserSessionID = sessionID, lkc_CodeDigest = CodeDigest (co_root S) normal,
            lkc_SourceDigest = SourceDigest (co_root S) source\<rparr>))"

definition preview :: "connections_service \<Rightarrow> string \<Rightarrow> connection_request \<Rightarrow> connection_preview" where
  "preview S userCode found = \<lparr>pv_RequestID = crq_RequestID found, pv_UserCode = userCode, pv_DisplayName = crq_DisplayName found,
     pv_Fingerprint = PublicKeyFingerprint (crq_PublicKeyDER found), pv_Server = co_externalOrigin S, pv_Decision = crq_Decision found,
     pv_ApprovedSpaceID = crq_ApprovedSpaceID found, pv_CreatedAt = crq_CreatedAt found, pv_ExpiresAt = crq_ExpiresAt found\<rparr>"

definition LookupConnection ::
    "connections_service \<Rightarrow> uuid \<Rightarrow> string \<Rightarrow> string \<Rightarrow> env \<Rightarrow> db \<Rightarrow> (carry_error + connection_preview) \<times> db" where
  "LookupConnection S sessionID userCode source E = checked (lookup_command S sessionID userCode source E)
     (\<lambda>(normal, command) E d. result_map (preview S normal) (LookupMachineConnection command E d)) E"

definition decide_command :: "connections_service \<Rightarrow> decide_connection_request \<Rightarrow> env \<Rightarrow> carry_error + decide_connection_command" where
  "decide_command S q E =
     (case NormalizeConnectionCode (co_lib S) (dcr_UserCode q) of
        None \<Rightarrow> Inl (MachineError ErrInvalidConnection)
      | Some userCode \<Rightarrow>
          if \<not> uuid_valid E (dcr_BrowserSessionID q) \<or> \<not> uuid_valid E (dcr_RequestID q) \<or> \<not> validIdempotencyKey (dcr_IdempotencyKey q)
             \<or> dcr_Decision q = ''approved'' \<and> \<not> uuid_valid E (dcr_SpaceID q)
             \<or> dcr_Decision q \<noteq> ''approved'' \<and> dcr_Decision q \<noteq> ''denied''
          then Inl (MachineError ErrInvalidConnection)
          else Inr \<lparr>dcc_BrowserSessionID = dcr_BrowserSessionID q, dcc_RequestID = dcr_RequestID q, dcc_SpaceID = dcr_SpaceID q,
            dcc_Decision = dcr_Decision q, dcc_IdempotencyKey = dcr_IdempotencyKey q, dcc_PreparedMachineID = fresh E 0,
            dcc_CodeDigest = CodeDigest (co_root S) userCode,
            dcc_RequestDigest = connectionDigest [dcr_RequestID q, userCode, dcr_SpaceID q, dcr_Decision q]\<rparr>)"

definition DecideConnection :: "connections_service \<Rightarrow> decide_connection_request \<Rightarrow> env \<Rightarrow> db \<Rightarrow> (carry_error + unit) \<times> db" where
  "DecideConnection S q E = checked (decide_command S q E) (\<lambda>command E d.
     result_map (\<lambda>_. ()) (DecideMachineConnection command E d)) E"

definition ApproveConnection :: "connections_service \<Rightarrow> decide_connection_request \<Rightarrow> env \<Rightarrow> db \<Rightarrow> (carry_error + unit) \<times> db" where
  "ApproveConnection S q = DecideConnection S (q\<lparr>dcr_Decision := ''approved''\<rparr>)"

definition DenyConnection :: "connections_service \<Rightarrow> decide_connection_request \<Rightarrow> env \<Rightarrow> db \<Rightarrow> (carry_error + unit) \<times> db" where
  "DenyConnection S q = DecideConnection S (q\<lparr>dcr_Decision := ''denied'', dcr_SpaceID := []\<rparr>)"

definition poll_command :: "connections_service \<Rightarrow> string \<Rightarrow> env \<Rightarrow> carry_error + poll_connection_command" where
  "poll_command S pollSecret E =
     (case ParseConnectionPollSecret E pollSecret of
        None \<Rightarrow> Inl (MachineError ErrMachineUnavailable)
      | Some requestID \<Rightarrow> Inr \<lparr>plc_RequestID = requestID, plc_PollDigest = PollDigest (co_root S) pollSecret\<rparr>)"

definition PollConnection :: "connections_service \<Rightarrow> string \<Rightarrow> env \<Rightarrow> db \<Rightarrow> (carry_error + connected_machine) \<times> db" where
  "PollConnection S pollSecret E = checked (poll_command S pollSecret E) (\<lambda>command E d.
     result_map (\<lambda>connected. connected\<lparr>ctm_HostAPIOrigin := co_hostAPIOrigin S\<rparr>)
       (PollMachineConnection command (IssueMachineCertificate (co_lib S) (co_authority S)) E d)) E"

definition CancelConnection :: "connections_service \<Rightarrow> string \<Rightarrow> env \<Rightarrow> db \<Rightarrow> (carry_error + unit) \<times> db" where
  "CancelConnection S pollSecret E = checked (poll_command S pollSecret E) CancelMachineConnection E"

definition ListConnections ::
    "uuid \<Rightarrow> uuid \<Rightarrow> string \<Rightarrow> env \<Rightarrow> db \<Rightarrow> (carry_error + machine_page \<times> inventory_record list) \<times> db" where
  "ListConnections sessionID spaceID after E d =
     (if \<not> uuid_valid E sessionID \<or> \<not> uuid_valid E spaceID \<or> after \<noteq> [] \<and> \<not> uuid_valid E after
      then (Inl (MachineError ErrInvalidConnection), d)
      else ListMachines \<lparr>lsm_BrowserSessionID = sessionID, lsm_SpaceID = spaceID, lsm_After = after\<rparr> E d)"

definition RevokeFromBrowser ::
    "uuid \<Rightarrow> uuid \<Rightarrow> uuid \<Rightarrow> string \<Rightarrow> env \<Rightarrow> db \<Rightarrow> (carry_error + machine_record \<times> inventory_record list) \<times> db" where
  "RevokeFromBrowser sessionID spaceID machineID key E d =
     (if \<not> uuid_valid E sessionID \<or> \<not> uuid_valid E spaceID \<or> \<not> uuid_valid E machineID \<or> \<not> validIdempotencyKey key
      then (Inl (MachineError ErrInvalidConnection), d)
      else RevokeMachineFromBrowser \<lparr>rmm_BrowserSessionID = sessionID, rmm_SpaceID = spaceID, rmm_MachineID = machineID,
        rmm_IdempotencyKey = key, rmm_RequestDigest = connectionDigest [spaceID, machineID, ''browser-revoke'']\<rparr> E d)"

definition RevokeFromHost :: "uuid \<Rightarrow> string \<Rightarrow> string \<Rightarrow> env \<Rightarrow> db \<Rightarrow> (carry_error + machine_record) \<times> db" where
  "RevokeFromHost machineID serial key E d =
     (if \<not> uuid_valid E machineID \<or> trim_space serial = [] \<or> \<not> validIdempotencyKey key
      then (Inl (MachineError ErrInvalidConnection), d)
      else RevokeMachineFromHost \<lparr>srm_MachineID = machineID, srm_CertificateSerial = serial, srm_IdempotencyKey = key,
        srm_RequestDigest = connectionDigest [machineID, serial, ''self-revoke'']\<rparr> E d)"

end
