(* ===== verification/Machine_State.thy ===== *)
theory Machine_State
  imports Machine_Flow Invitation_State
begin

text \<open>
  What the connection store does to the database, statement by statement composed: the effect of
  a body that succeeds, for each method, and of the method whatever it returns.
\<close>

lemma transact_answer_cases:
  assumes "transact_answer m E d = (x, d')"
  obtains "d' = d" | r n where "m E d 0 = Inr (r, d', n)"
  using assms unfolding transact_answer_def
  by (auto split: prod.splits sum.splits elim: transact_cases)

lemma transact_answer_Inr:
  "transact_answer m E d = (Inr x, d') \<Longrightarrow> \<exists>n. m E d 0 = Inr (Inr x, d', n)"
  unfolding transact_answer_def by (auto split: prod.splits sum.splits dest: transact_Inr)

lemma keeps_transact_answer: "preserves I m \<Longrightarrow> keeps I (transact_answer m)"
  unfolding keeps_def preserves_def by (blast elim: transact_answer_cases)

lemma leaves_transact_answer [frame_intros]: "frame f m \<Longrightarrow> leaves f (transact_answer m)"
  unfolding frame_def leaves_def by (blast elim: transact_answer_cases)

lemma leaves_result_map [frame_intros]: "leaves f m \<Longrightarrow> leaves f (\<lambda>E d. result_map g (m E d))"
  unfolding leaves_def result_map_def by (auto split: prod.splits)

lemma frame_instead [frame_intros]: "frame f m \<Longrightarrow> frame f (instead e m)"
  by (simp add: frame_def tx_simps)

lemma frame_update_one [frame_intros]:
  "(\<And>E t d x d'. u E t d = Inr (x, d') \<Longrightarrow> f d' = f d) \<Longrightarrow> frame f (update_one u)"
  unfolding frame_def update_one_Inr by blast

section \<open>One updated row\<close>

definition updated_requests :: "(connection_row \<Rightarrow> bool) \<Rightarrow> (connection_row \<Rightarrow> connection_row) \<Rightarrow> db \<Rightarrow> db" where
  "updated_requests P f d = d\<lparr>machine_connection_requests := update_where P f (machine_connection_requests d)\<rparr>"

lemma update_connection_Inr:
  "update_connection P f ok d = Inr (x, d') \<longleftrightarrow>
     (\<forall>r \<in> set (machine_connection_requests d). P r \<longrightarrow> ok (f r))
     \<and> x = map_option f (first_where P (machine_connection_requests d)) \<and> d' = updated_requests P f d"
  by (auto simp: update_connection_def updated_requests_def exists_where_iff)

lemma lock_request_Some:
  "sql_LockMachineConnectionRequest i d = Some r \<Longrightarrow>
     r \<in> set (machine_connection_requests d) \<and> mc_RequestID r = i"
  by (auto simp: sql_LockMachineConnectionRequest_def dest: first_where_Some)

text \<open>The first row of a weaker condition that satisfies a stronger one is its first row too.\<close>

lemma first_where_stronger:
  assumes "first_where P t = Some r" "Q r" "\<And>s. Q s \<Longrightarrow> P s"
  shows "first_where Q t = Some r"
  using assms by (induction t) (auto split: if_split_asm)

lemma lock_session_Some:
  assumes "sql_LockBrowserSessionForMachineConnection sessionID E d = Some u"
  shows "\<exists>b \<in> set (browser_sessions d). bs_SessionID b = sessionID \<and> bs_RevokedAt b = None
    \<and> tx_time E < bs_ExpiresAt b \<and> bs_UserID b = u_UserID u"
proof -
  from assms obtain b where b: "first_where (\<lambda>b. bs_SessionID b = sessionID \<and> bs_RevokedAt b = None \<and> bs_ExpiresAt b > tx_time E)
      (browser_sessions d) = Some b" "user_of (bs_UserID b) d = Some u"
    by (auto simp: sql_LockBrowserSessionForMachineConnection_def split: option.splits)
  moreover from b(2) have "u_UserID u = bs_UserID b" by (auto simp: user_of_def dest: first_where_Some)
  ultimately show ?thesis using first_where_Some [OF b(1)] by auto
qed

text \<open>\<open>lives sessionID u E d\<close>: the Browser Session is live and the User's.\<close>

definition lives :: "uuid \<Rightarrow> uuid \<Rightarrow> env \<Rightarrow> db \<Rightarrow> bool" where
  "lives sessionID userID E d \<longleftrightarrow> (\<exists>b \<in> set (browser_sessions d). bs_SessionID b = sessionID \<and> bs_RevokedAt b = None
    \<and> tx_time E < bs_ExpiresAt b \<and> bs_UserID b = userID)"

definition may_enroll :: "uuid \<Rightarrow> uuid \<Rightarrow> db \<Rightarrow> bool" where
  "may_enroll spaceID userID d \<longleftrightarrow> (\<exists>m \<in> set (memberships d). mb_SpaceID m = spaceID \<and> mb_UserID m = userID
     \<and> mb_RevokedAt m = None \<and> mb_CanEnrollMachines m)"

lemma lock_enroller:
  "sql_LockMachineEnrollmentMembership s u d = Some m \<Longrightarrow> mb_CanEnrollMachines m \<Longrightarrow> may_enroll s u d"
  by (auto simp: sql_LockMachineEnrollmentMembership_def may_enroll_def dest!: first_where_Some)

section \<open>Beginning and looking up\<close>

definition connection_free :: "connection_row \<Rightarrow> db \<Rightarrow> bool" where
  "connection_free r d \<longleftrightarrow> connection_columns_ok r
     \<and> \<not> key_taken mc_RequestID (\<lambda>_. True) (mc_RequestID r) (machine_connection_requests d)
     \<and> \<not> key_taken mc_BeginIdempotencyKey (\<lambda>_. True) (mc_BeginIdempotencyKey r) (machine_connection_requests d)
     \<and> \<not> key_taken mc_UserCodeDigest (\<lambda>_. True) (mc_UserCodeDigest r) (machine_connection_requests d)
     \<and> \<not> key_taken mc_PollSecretDigest (\<lambda>_. True) (mc_PollSecretDigest r) (machine_connection_requests d)"

lemma sql_CreateMachineConnection_Inr:
  "sql_CreateMachineConnection r d = Inr (x, d') \<longleftrightarrow>
     connection_free r d \<and> x = r \<and> d' = d\<lparr>machine_connection_requests := machine_connection_requests d @ [r]\<rparr>"
  by (auto simp: sql_CreateMachineConnection_def connection_free_def Let_def)

lemma BeginMachineConnection_tx_effect:
  assumes "BeginMachineConnection_tx c E d n = Inr (x, d', n')"
  shows "d' = d \<or> connection_free (new_connection E c) d
    \<and> sql_CountLiveMachineConnections E d < 1000 \<and> sql_CountLiveMachineConnectionsForSource (bgc_SourceDigest c) E d < 5
    \<and> d' = d\<lparr>machine_connection_requests := machine_connection_requests d @ [new_connection E c]\<rparr>"
proof (cases "sql_LoadMachineConnectionForBegin (bgc_RequestID c) d")
  case None
  then show ?thesis
    using assms
    by (auto simp: BeginMachineConnection_tx_def tx_simps sql_CreateMachineConnection_Inr split: if_split_asm)
next
  case (Some r)
  then show ?thesis
    using assms by (auto simp: BeginMachineConnection_tx_def tx_simps split: if_split_asm)
qed

lemma LookupMachineConnection_tx_effect:
  assumes "LookupMachineConnection_tx c E d n = Inr (x, d', n')"
  shows "\<exists>userID. lives (lkc_BrowserSessionID c) userID E d
    \<and> sql_CountRecentMachineConnectionLookupFailuresForSession (lkc_BrowserSessionID c) E d < 10
    \<and> sql_CountRecentMachineConnectionLookupFailuresForSource (lkc_SourceDigest c) E d < 50
    \<and> (case x of
         Inr request \<Rightarrow> d' = d \<and> (\<exists>r \<in> set (machine_connection_requests d). mc_UserCodeDigest r = lkc_CodeDigest c
           \<and> tx_time E < mc_ExpiresAt r \<and> mc_CancelledAt r = None \<and> request = machineConnectionRequest r)
       | Inl e \<Rightarrow> e = MachineError ErrConnectionUnavailable
           \<and> (\<exists>failureID. d' = d\<lparr>machine_connection_lookup_failures := machine_connection_lookup_failures d @
             [\<lparr>lf_FailureID = failureID, lf_BrowserSessionID = lkc_BrowserSessionID c, lf_SourceDigest = lkc_SourceDigest c,
               lf_CreatedAt = tx_time E\<rparr>]\<rparr>))"
proof -
  from assms obtain u where u: "sql_LockBrowserSessionForMachineConnection (lkc_BrowserSessionID c) E d = Some u"
    by (auto simp: LookupMachineConnection_tx_def tx_simps)
  from lock_session_Some [OF this] have "lives (lkc_BrowserSessionID c) (u_UserID u) E d" by (auto simp: lives_def)
  moreover note assms u
  ultimately show ?thesis
    by (cases "sql_FindLiveMachineConnectionByCode (lkc_CodeDigest c) E d")
      (auto simp: LookupMachineConnection_tx_def tx_simps sql_RecordMachineConnectionLookupFailure_def
        sql_FindLiveMachineConnectionByCode_def split: if_split_asm dest!: first_where_Some)
qed

section \<open>Deciding\<close>

definition decision_space :: "decide_connection_command \<Rightarrow> uuid option" where
  "decision_space c = (if dcc_Decision c = ''approved'' then Some (dcc_SpaceID c) else None)"

definition decision_machine :: "decide_connection_command \<Rightarrow> uuid option" where
  "decision_machine c = (if dcc_Decision c = ''approved'' then Some (dcc_PreparedMachineID c) else None)"

definition decide_row :: "env \<Rightarrow> decide_connection_command \<Rightarrow> uuid \<Rightarrow> connection_row \<Rightarrow> connection_row" where
  "decide_row E c userID = decided_row E (dcc_Decision c) userID (decision_space c) (dcc_IdempotencyKey c) (dcc_RequestDigest c)
     (decision_machine c)"

lemma decision_authority_Inr:
  assumes "decision_authority c userID E d n = Inr ((s, m), d', n')"
  shows "d' = d \<and> s = decision_space c \<and> m = decision_machine c
    \<and> (dcc_Decision c = ''approved'' \<longrightarrow> may_enroll (dcc_SpaceID c) userID d \<and> (\<exists>s \<in> set (spaces d). sp_SpaceID s = dcc_SpaceID c))"
  using assms
  by (auto simp: decision_authority_def decision_space_def decision_machine_def tx_simps sql_LockSpaceForMachineConnection_def
      intro: lock_enroller dest!: first_where_Some split: if_split_asm)

lemma sql_DecideMachineConnection_Inr:
  assumes "sql_DecideMachineConnection E decision userID s key digest m i d = Inr (x, d')"
  shows "update_connection (open_request E i) (decided_row E decision userID s key digest m) connection_state_ok d = Inr (x, d')
    \<and> (\<forall>r \<in> set (machine_connection_requests d). \<forall>q \<in> set (machine_connection_requests d).
        open_request E i r \<longrightarrow> has_decision q \<longrightarrow> decision_key q \<noteq> (Some userID, Some key))"
  using assms
  by (auto simp: sql_DecideMachineConnection_def exists_where_iff key_taken_iff split: sum.splits if_split_asm)

lemma conclude_decision_Inr:
  assumes "conclude_decision c userID s m r (sql_MachineDatabaseTime E d0) E d n = Inr (x, d', n')"
    and r: "sql_LockMachineConnectionRequest (dcc_RequestID c) d = Some r"
  shows "same_decision c userID r \<and> d' = d \<and> x = machineConnectionRequest r
    \<or> live_request E r \<and> (\<exists>row. row = decided_row E (dcc_Decision c) userID s (dcc_IdempotencyKey c) (dcc_RequestDigest c) m r
      \<and> sql_DecideMachineConnection E (dcc_Decision c) userID s (dcc_IdempotencyKey c) (dcc_RequestDigest c) m (dcc_RequestID c) d
          = Inr (Some row, d') \<and> x = machineConnectionRequest row)"
proof (cases "mc_Decision r")
  case None
  with assms(1) obtain row where live: "live_request E r"
    and w: "sql_DecideMachineConnection E (dcc_Decision c) userID s (dcc_IdempotencyKey c) (dcc_RequestDigest c) m (dcc_RequestID c) d
      = Inr (Some row, d')" "x = machineConnectionRequest row"
    by (auto simp: conclude_decision_def tx_simps sql_MachineDatabaseTime_def live_request_def split: if_split_asm)
  have "first_where (open_request E (dcc_RequestID c)) (machine_connection_requests d) = Some r"
    by (rule first_where_stronger [OF r [unfolded sql_LockMachineConnectionRequest_def]]) (use live lock_request_Some [OF r] in \<open>auto simp: open_request_def\<close>)
  with sql_DecideMachineConnection_Inr [OF w(1)]
  have "row = decided_row E (dcc_Decision c) userID s (dcc_IdempotencyKey c) (dcc_RequestDigest c) m r"
    by (simp add: update_connection_Inr)
  with live w show ?thesis by blast
next
  case (Some y)
  with assms(1) show ?thesis by (auto simp: conclude_decision_def tx_simps split: if_split_asm)
qed

lemma DecideMachineConnection_tx_effect:
  assumes "DecideMachineConnection_tx c E d n = Inr (x, d', n')"
  shows "\<exists>userID r. lives (dcc_BrowserSessionID c) userID E d
    \<and> (dcc_Decision c = ''approved'' \<longrightarrow> may_enroll (dcc_SpaceID c) userID d \<and> (\<exists>s \<in> set (spaces d). sp_SpaceID s = dcc_SpaceID c))
    \<and> sql_LockMachineConnectionRequest (dcc_RequestID c) d = Some r \<and> mc_UserCodeDigest r = dcc_CodeDigest c
    \<and> (same_decision c userID r \<and> d' = d \<and> x = machineConnectionRequest r
       \<or> live_request E r \<and> sql_DecideMachineConnection E (dcc_Decision c) userID (decision_space c) (dcc_IdempotencyKey c)
           (dcc_RequestDigest c) (decision_machine c) (dcc_RequestID c) d = Inr (Some (decide_row E c userID r), d')
         \<and> x = machineConnectionRequest (decide_row E c userID r))"
proof -
  from assms have "\<exists>u s m d1 n1 r n2. sql_LockBrowserSessionForMachineConnection (dcc_BrowserSessionID c) E d = Some u
    \<and> decision_authority c (u_UserID u) E d (Suc n) = Inr ((s, m), d1, n1)
    \<and> sql_LockMachineConnectionRequest (dcc_RequestID c) d1 = Some r \<and> mc_UserCodeDigest r = dcc_CodeDigest c
    \<and> conclude_decision c (u_UserID u) s m r (sql_MachineDatabaseTime E d1) E d1 n2 = Inr (x, d', n')"
    unfolding DecideMachineConnection_tx_def
    by (simp only: bind_tx_Inr query_one_Inr query_Inr require_Inr case_prod_tx_Inr) (elim exE conjE, hypsubst, blast)
  then obtain u s m d1 n1 r n2 where u: "sql_LockBrowserSessionForMachineConnection (dcc_BrowserSessionID c) E d = Some u"
    and a: "decision_authority c (u_UserID u) E d (Suc n) = Inr ((s, m), d1, n1)"
    and r: "sql_LockMachineConnectionRequest (dcc_RequestID c) d1 = Some r" "mc_UserCodeDigest r = dcc_CodeDigest c"
    and b: "conclude_decision c (u_UserID u) s m r (sql_MachineDatabaseTime E d1) E d1 n2 = Inr (x, d', n')" by blast
  note a' = decision_authority_Inr [OF a]
  have "lives (dcc_BrowserSessionID c) (u_UserID u) E d" using lock_session_Some [OF u] by (simp add: lives_def)
  moreover have "same_decision c (u_UserID u) r \<and> d' = d \<and> x = machineConnectionRequest r
    \<or> live_request E r \<and> sql_DecideMachineConnection E (dcc_Decision c) (u_UserID u) (decision_space c) (dcc_IdempotencyKey c)
        (dcc_RequestDigest c) (decision_machine c) (dcc_RequestID c) d = Inr (Some (decide_row E c (u_UserID u) r), d')
      \<and> x = machineConnectionRequest (decide_row E c (u_UserID u) r)"
    using conclude_decision_Inr [OF b r(1)] a' unfolding decide_row_def by auto
  ultimately show ?thesis using a' r by blast
qed

section \<open>Polling and cancelling\<close>

lemma redeem_Inr:
  assumes "redeem issue c r E d n = Inr (x, d', n')"
  shows "\<exists>issued d1 row. issue (uuidValue (mc_PreparedMachineID r)) (mc_PublicKeyDer r) (timeValue (mc_DecidedAt r)) = Some issued
    \<and> sql_CreateConnectedMachine (connected_row E (uuidValue (mc_PreparedMachineID r)) (uuidValue (mc_DecidedSpaceID r))
        (mc_DisplayName r) (mc_PublicKeyDer r) issued (uuidValue (mc_DecidedByUserID r))) d
      = Inr (connected_row E (uuidValue (mc_PreparedMachineID r)) (uuidValue (mc_DecidedSpaceID r))
        (mc_DisplayName r) (mc_PublicKeyDer r) issued (uuidValue (mc_DecidedByUserID r)), d1)
    \<and> sql_RedeemMachineConnection E (uuidValue (mc_PreparedMachineID r)) (plc_RequestID c) d1 = Inr (Some row, d')
    \<and> x = Inr (connectedMachine row (connected_row E (uuidValue (mc_PreparedMachineID r)) (uuidValue (mc_DecidedSpaceID r))
        (mc_DisplayName r) (mc_PublicKeyDer r) issued (uuidValue (mc_DecidedByUserID r))))"
proof -
  have same: "m' = m" if "sql_CreateConnectedMachine m d0 = Inr (m', d1)" for m m' d0 d1
    using that by (auto simp: sql_CreateConnectedMachine_def split: if_split_asm)
  show ?thesis
    using assms unfolding redeem_def Let_def
    by (simp only: bind_tx_Inr lift_Inr insert_row_Inr postgresUUID_Inr update_one_Inr ret_Inr)
      (auto split: option.splits dest: same)
qed

lemma replay_redemption_Inr:
  "replay_redemption r now E d n = Inr (x, d', n') \<Longrightarrow>
     d' = d \<and> (\<exists>stored. sql_LoadMachine (uuidValue (mc_ResultingMachineID r)) d = Some stored \<and> m_RevokedAt stored = None
       \<and> now < timeValue (mc_ReplayUntil r) \<and> x = Inr (connectedMachine r stored))"
  by (auto simp: replay_redemption_def tx_simps split: if_split_asm)

text \<open>The three ways a poll that commits can end on a request that was not redeemed.\<close>

definition poll_ready :: "env \<Rightarrow> connection_row \<Rightarrow> bool" where
  "poll_ready E r \<longleftrightarrow> mc_RedeemedAt r = None \<and> mc_Decision r \<noteq> Some ''denied'' \<and> mc_CancelledAt r = None \<and> tx_time E < mc_ExpiresAt r"

definition polled_db :: "env \<Rightarrow> uuid \<Rightarrow> db \<Rightarrow> db" where
  "polled_db E i = updated_requests (\<lambda>r. mc_RequestID r = i) (polled_row E)"

definition polled :: "issuer \<Rightarrow> poll_connection_command \<Rightarrow> env \<Rightarrow> db \<Rightarrow> connection_row \<Rightarrow> carry_error + connected_machine \<Rightarrow> db \<Rightarrow> bool" where
  "polled issue c E d r x d' \<longleftrightarrow>
     (if tx_time E < next_poll_at r
      then sql_SlowDownMachineConnectionPoll E (plc_RequestID c) d = Inr (Some (slowed_row E r), d')
        \<and> x = Inl (MachineError (ConnectionSlowDownError (seconds (min 30 (mc_PollIntervalSeconds r + 5)))))
      else sql_RecordMachineConnectionPoll E (plc_RequestID c) d = Inr (Some (polled_row E r), polled_db E (plc_RequestID c) d)
        \<and> (if mc_Decision r = None then x = Inl (MachineError ErrConnectionPending) \<and> d' = polled_db E (plc_RequestID c) d
           else \<exists>n n'. redeem issue c (polled_row E r) E (polled_db E (plc_RequestID c) d) n = Inr (x, d', n')))"

lemma polled_row_simps [simp]: "mc_Decision (polled_row E r) = mc_Decision r" "mc_RequestID (polled_row E r) = mc_RequestID r"
  "mc_PreparedMachineID (polled_row E r) = mc_PreparedMachineID r" "mc_DecidedSpaceID (polled_row E r) = mc_DecidedSpaceID r"
  "mc_DecidedByUserID (polled_row E r) = mc_DecidedByUserID r" "mc_DecidedAt (polled_row E r) = mc_DecidedAt r"
  "mc_PublicKeyDer (polled_row E r) = mc_PublicKeyDer r" "mc_DisplayName (polled_row E r) = mc_DisplayName r"
  "mc_CancelledAt (polled_row E r) = mc_CancelledAt r" "mc_RedeemedAt (polled_row E r) = mc_RedeemedAt r"
  by (simp_all add: polled_row_def)

lemma paced_poll_Inr:
  assumes "paced_poll issue c r (tx_time E) E d n = Inr (x, d', n')"
    and r: "first_where (\<lambda>r. mc_RequestID r = plc_RequestID c) (machine_connection_requests d) = Some r"
  shows "polled issue c E d r x d'"
proof (cases "tx_time E < next_poll_at r")
  case True
  with assms(1) obtain row where w: "sql_SlowDownMachineConnectionPoll E (plc_RequestID c) d = Inr (Some row, d')"
    and x: "x = Inl (MachineError (ConnectionSlowDownError (seconds (mc_PollIntervalSeconds row))))"
    by (auto simp: paced_poll_def bind_tx_Inr update_one_Inr ret_Inr)
  from w r have "row = slowed_row E r" by (simp add: sql_SlowDownMachineConnectionPoll_def update_connection_Inr)
  with w x True show ?thesis by (simp add: polled_def slowed_row_def)
next
  case False
  from assms(1) have "\<exists>row d1 n1. sql_RecordMachineConnectionPoll E (plc_RequestID c) d = Inr (Some row, d1)
      \<and> (if mc_Decision row = None then ret (Inl (MachineError ErrConnectionPending)) else redeem issue c row) E d1 n1 = Inr (x, d', n')"
    using False unfolding paced_poll_def by (simp only: if_False bind_tx_Inr update_one_Inr) blast
  then obtain row d1 n1 where w: "sql_RecordMachineConnectionPoll E (plc_RequestID c) d = Inr (Some row, d1)"
    and x: "(if mc_Decision row = None then ret (Inl (MachineError ErrConnectionPending)) else redeem issue c row) E d1 n1 = Inr (x, d', n')"
    by blast
  from w r have row: "row = polled_row E r" "d1 = polled_db E (plc_RequestID c) d"
    by (simp_all add: sql_RecordMachineConnectionPoll_def update_connection_Inr polled_db_def)
  show ?thesis
  proof (cases "mc_Decision r")
    case None
    with w x row False show ?thesis by (simp add: polled_def ret_Inr)
  next
    case (Some y)
    with x row have "redeem issue c (polled_row E r) E (polled_db E (plc_RequestID c) d) n1 = Inr (x, d', n')" by simp
    with w row False Some show ?thesis unfolding polled_def by auto
  qed
qed

lemma PollMachineConnection_tx_effect:
  assumes "PollMachineConnection_tx c issue E d n = Inr (x, d', n')"
  shows "\<exists>r. sql_LockMachineConnectionRequest (plc_RequestID c) d = Some r \<and> mc_PollSecretDigest r = plc_PollDigest c
    \<and> (if mc_RedeemedAt r \<noteq> None then \<exists>n. replay_redemption r (tx_time E) E d n = Inr (x, d', n')
       else poll_ready E r \<and> polled issue c E d r x d')"
proof -
  from assms have "\<exists>r n1. sql_LockMachineConnectionRequest (plc_RequestID c) d = Some r \<and> mc_PollSecretDigest r = plc_PollDigest c
    \<and> (if mc_RedeemedAt r \<noteq> None then replay_redemption r (tx_time E)
       else bind_tx (require (mc_Decision r \<noteq> Some ''denied'') (MachineError ErrConnectionDenied)) (\<lambda>_.
       bind_tx (require (mc_CancelledAt r = None) (MachineError ErrConnectionCancelled)) (\<lambda>_.
       bind_tx (require (mc_ExpiresAt r > tx_time E) (MachineError ErrConnectionExpired)) (\<lambda>_.
       paced_poll issue c r (tx_time E))))) E d n1 = Inr (x, d', n')"
    unfolding PollMachineConnection_tx_def sql_MachineDatabaseTime_def
    by (simp only: bind_tx_Inr [of "query_one _ _"] bind_tx_Inr [of "query _"] bind_tx_Inr [of "require _ (MachineError ErrMachineUnavailable)"]
        query_one_Inr query_Inr require_Inr) (elim exE conjE, hypsubst, blast)
  then obtain r n1 where r: "sql_LockMachineConnectionRequest (plc_RequestID c) d = Some r" "mc_PollSecretDigest r = plc_PollDigest c"
    and b: "(if mc_RedeemedAt r \<noteq> None then replay_redemption r (tx_time E)
       else bind_tx (require (mc_Decision r \<noteq> Some ''denied'') (MachineError ErrConnectionDenied)) (\<lambda>_.
       bind_tx (require (mc_CancelledAt r = None) (MachineError ErrConnectionCancelled)) (\<lambda>_.
       bind_tx (require (mc_ExpiresAt r > tx_time E) (MachineError ErrConnectionExpired)) (\<lambda>_.
       paced_poll issue c r (tx_time E))))) E d n1 = Inr (x, d', n')" by blast
  show ?thesis
  proof (cases "mc_RedeemedAt r")
    case None
    with b have "poll_ready E r" "paced_poll issue c r (tx_time E) E d n1 = Inr (x, d', n')"
      by (auto simp: bind_tx_Inr require_Inr poll_ready_def)
    with paced_poll_Inr [OF this(2) r(1) [unfolded sql_LockMachineConnectionRequest_def]] None r show ?thesis by auto
  next
    case (Some t)
    with b r show ?thesis by auto
  qed
qed

lemma CancelMachineConnection_tx_effect:
  assumes "CancelMachineConnection_tx c E d n = Inr (x, d', n')"
  shows "\<exists>r. sql_LockMachineConnectionRequest (plc_RequestID c) d = Some r \<and> mc_PollSecretDigest r = plc_PollDigest c
    \<and> (mc_CancelledAt r \<noteq> None \<and> d' = d
       \<or> live_request E r \<and> (\<exists>row. sql_CancelMachineConnection E (plc_RequestID c) d = Inr (Some row, d')))"
  using assms unfolding CancelMachineConnection_tx_def sql_MachineDatabaseTime_def
  by (simp only: bind_tx_Inr query_one_Inr query_Inr require_Inr if_tx_Inr update_one_Inr ret_Inr prod.inject)
    (elim exE conjE disjE; hypsubst; simp add: live_request_def; blast)

end
