(* ===== verification/Machine_Protocol.thy ===== *)
theory Machine_Protocol
  imports Machine_State
begin

text \<open>
  The protocol of connection requests, and the store as its refinement. A request waits until it is
  denied, withdrawn or approved; an approved one is connected at most once, to the Machine and the
  Space of its approval. The abstraction \<open>connections_of\<close> maps each request identifier to its phase;
  every call of a connection method is one protocol step or none.
\<close>

section \<open>Forward simulation\<close>

locale forward_simulation =
  fixes mediator :: "'c \<Rightarrow> 'a" and inv :: "'c \<Rightarrow> bool" and concrete :: "'c \<Rightarrow> 'c \<Rightarrow> bool" and abstract :: "'a \<Rightarrow> 'a \<Rightarrow> bool"
  assumes inv_step: "concrete s t \<Longrightarrow> inv s \<Longrightarrow> inv t"
    and simulates: "concrete s t \<Longrightarrow> inv s \<Longrightarrow> mediator t = mediator s \<or> abstract (mediator s) (mediator t)"
begin

lemma inv_history: "concrete\<^sup>*\<^sup>* s t \<Longrightarrow> inv s \<Longrightarrow> inv t"
  by (induction rule: rtranclp_induct) (auto intro: inv_step)

lemma simulates_history: "concrete\<^sup>*\<^sup>* s t \<Longrightarrow> inv s \<Longrightarrow> abstract\<^sup>*\<^sup>* (mediator s) (mediator t)"
proof (induction rule: rtranclp_induct)
  case (step t u)
  have "mediator u = mediator t \<or> abstract (mediator t) (mediator u)"
    by (rule simulates [OF step.hyps(2) inv_history [OF step.hyps(1) step.prems]])
  with step show ?case by (metis rtranclp.rtrancl_into_rtrancl)
qed simp

text \<open>A property of abstract states that abstract steps keep holds along every concrete history.\<close>

lemma abstract_invariant:
  assumes "concrete\<^sup>*\<^sup>* s t" "inv s" "I (mediator s)" "\<And>a b. abstract a b \<Longrightarrow> I a \<Longrightarrow> I b"
  shows "I (mediator t)"
  using simulates_history [OF assms(1,2)] assms(3,4) by (induction rule: rtranclp_induct) blast+

end

section \<open>The protocol\<close>

datatype phase =
    Waiting | Withdrawn | Denied uuid
  | Approved uuid uuid uuid
  | Connected uuid uuid uuid

inductive protocol_step :: "(uuid \<Rightarrow> phase option) \<Rightarrow> (uuid \<Rightarrow> phase option) \<Rightarrow> bool" where
  begins: "s i = None \<Longrightarrow> protocol_step s (s(i \<mapsto> Waiting))"
| withdraws: "s i = Some Waiting \<Longrightarrow> protocol_step s (s(i \<mapsto> Withdrawn))"
| denies: "s i = Some Waiting \<Longrightarrow> protocol_step s (s(i \<mapsto> Denied user))"
| approves: "s i = Some Waiting \<Longrightarrow> protocol_step s (s(i \<mapsto> Approved user space machine))"
| connects: "s i = Some (Approved user space machine) \<Longrightarrow> protocol_step s (s(i \<mapsto> Connected user space machine))"

inductive_cases protocol_stepE: "protocol_step s s'"

definition ended :: "phase \<Rightarrow> bool" where
  "ended p \<longleftrightarrow> (case p of Waiting \<Rightarrow> False | Approved _ _ _ \<Rightarrow> False | _ \<Rightarrow> True)"

lemma ended_stays: "protocol_step s s' \<Longrightarrow> s i = Some p \<Longrightarrow> ended p \<Longrightarrow> s' i = Some p"
  by (erule protocol_stepE) (auto simp: ended_def)

lemma approval_stands:
  "protocol_step s s' \<Longrightarrow> s i \<in> {Some (Approved u sp m), Some (Connected u sp m)} \<Longrightarrow>
     s' i \<in> {Some (Approved u sp m), Some (Connected u sp m)}"
  by (erule protocol_stepE) auto

section \<open>The phase of a stored request\<close>

definition phase_of :: "connection_row \<Rightarrow> phase" where
  "phase_of r =
     (case mc_Decision r of
        None \<Rightarrow> if mc_CancelledAt r = None then Waiting else Withdrawn
      | Some decision \<Rightarrow>
          if decision = ''denied'' then Denied (uuidValue (mc_DecidedByUserID r))
          else if mc_RedeemedAt r = None
          then Approved (uuidValue (mc_DecidedByUserID r)) (uuidValue (mc_DecidedSpaceID r)) (uuidValue (mc_PreparedMachineID r))
          else Connected (uuidValue (mc_DecidedByUserID r)) (uuidValue (mc_DecidedSpaceID r)) (uuidValue (mc_ResultingMachineID r)))"

definition connections_of :: "db \<Rightarrow> uuid \<Rightarrow> phase option" where
  "connections_of d i = map_option phase_of (sql_LockMachineConnectionRequest i d)"

inductive connection_step :: "db \<Rightarrow> db \<Rightarrow> bool" where
  begun: "BeginMachineConnection b E d = (x, d') \<Longrightarrow> connection_step d d'"
| looked_up: "LookupMachineConnection l E d = (x, d') \<Longrightarrow> connection_step d d'"
| decided: "DecideMachineConnection q E d = (x, d') \<Longrightarrow> connection_step d d'"
| polled: "PollMachineConnection p issue E d = (y, d') \<Longrightarrow> connection_step d d'"
| cancelled: "CancelMachineConnection p E d = (z, d') \<Longrightarrow> connection_step d d'"
| elsewhere: "machine_connection_requests d' = machine_connection_requests d \<Longrightarrow> connection_step d d'"

inductive_cases connection_stepE: "connection_step d d'"

lemma connections_same: "machine_connection_requests d' = machine_connection_requests d \<Longrightarrow> connections_of d' = connections_of d"
  by (simp add: fun_eq_iff connections_of_def sql_LockMachineConnectionRequest_def)

lemma first_where_of_update:
  "(\<And>s. P s \<Longrightarrow> K (f s) = K s) \<Longrightarrow> first_where K (update_where P f t) = map_option (\<lambda>s. if P s then f s else s) (first_where K t)"
  by (induction t) auto

lemma connections_updated:
  assumes "sql_LockMachineConnectionRequest i d = Some r" "P r"
    and "\<And>s. P s \<Longrightarrow> mc_RequestID s = i \<and> mc_RequestID (f s) = i"
  shows "connections_of (updated_requests P f d) = (connections_of d)(i \<mapsto> phase_of (f r))"
proof
  fix j
  have "first_where (\<lambda>r. mc_RequestID r = j) (update_where P f (machine_connection_requests d))
      = map_option (\<lambda>s. if P s then f s else s) (first_where (\<lambda>r. mc_RequestID r = j) (machine_connection_requests d))"
    by (rule first_where_of_update) (use assms(3) in auto)
  moreover have "\<not> P s" if "first_where (\<lambda>r. mc_RequestID r = j) (machine_connection_requests d) = Some s" "j \<noteq> i" for s
    using first_where_Some [OF that(1)] assms(3) that(2) by auto
  ultimately show "connections_of (updated_requests P f d) j = ((connections_of d)(i \<mapsto> phase_of (f r))) j"
    using assms(1,2)
    by (cases "j = i"; cases "first_where (\<lambda>r. mc_RequestID r = j) (machine_connection_requests d)")
      (simp_all add: connections_of_def sql_LockMachineConnectionRequest_def updated_requests_def)
qed

lemma phase_of_cong:
  "mc_Decision q = mc_Decision r \<Longrightarrow> mc_CancelledAt q = mc_CancelledAt r \<Longrightarrow> mc_RedeemedAt q = mc_RedeemedAt r \<Longrightarrow>
   mc_DecidedByUserID q = mc_DecidedByUserID r \<Longrightarrow> mc_DecidedSpaceID q = mc_DecidedSpaceID r \<Longrightarrow>
   mc_PreparedMachineID q = mc_PreparedMachineID r \<Longrightarrow> mc_ResultingMachineID q = mc_ResultingMachineID r \<Longrightarrow> phase_of q = phase_of r"
  by (cases "mc_Decision r") (simp_all add: phase_of_def)

lemma phase_of_simps [simp]: "phase_of (slowed_row E r) = phase_of r" "phase_of (polled_row E r) = phase_of r"
  "phase_of (new_connection E c) = Waiting"
  subgoal by (rule phase_of_cong) (simp_all add: slowed_row_def)
  subgoal by (rule phase_of_cong) (simp_all add: polled_row_def)
  subgoal by (simp add: phase_of_def new_connection_def)
  done

lemma slowed_row_id [simp]: "mc_RequestID (slowed_row E r) = mc_RequestID r"
  by (simp add: slowed_row_def)

section \<open>Every method is a step of the protocol\<close>

text \<open>The CHECK constraints of the table, for the rows it holds.\<close>

definition requests_ok :: "db \<Rightarrow> bool" where
  "requests_ok d \<longleftrightarrow> (\<forall>r \<in> set (machine_connection_requests d). connection_state_ok r)"

definition simulated :: "db \<Rightarrow> db \<Rightarrow> bool" where
  "simulated d d' \<longleftrightarrow> requests_ok d' \<and> (connections_of d' = connections_of d \<or> protocol_step (connections_of d) (connections_of d'))"

lemma simulated_same: "requests_ok d \<Longrightarrow> machine_connection_requests d' = machine_connection_requests d \<Longrightarrow> simulated d d'"
  using connections_same [of d' d] by (simp add: simulated_def requests_ok_def)

lemma updated_ok:
  "update_connection P f connection_state_ok d = Inr (x, d') \<Longrightarrow> requests_ok d \<Longrightarrow> requests_ok d'"
  by (auto simp: update_connection_Inr requests_ok_def updated_requests_def set_update_where)

lemma updated_row_ok:
  assumes "update_connection P f connection_state_ok d = Inr (x, d')" "sql_LockMachineConnectionRequest i d = Some r" "P r"
  shows "connection_state_ok (f r)"
  using assms by (auto simp: update_connection_Inr dest: lock_request_Some)

lemma Begin_simulated: "BeginMachineConnection_tx c E d n = Inr (x, d', n') \<Longrightarrow> requests_ok d \<Longrightarrow> simulated d d'"
proof (drule BeginMachineConnection_tx_effect, elim disjE conjE)
  assume free: "connection_free (new_connection E c) d" and ok: "requests_ok d"
    and d': "d' = d\<lparr>machine_connection_requests := machine_connection_requests d @ [new_connection E c]\<rparr>"
  let ?i = "bgc_RequestID c"
  have id: "mc_RequestID (new_connection E c) = ?i" by (simp add: new_connection_def)
  have none: "sql_LockMachineConnectionRequest ?i d = None"
    using free by (auto simp: connection_free_def id key_taken_iff sql_LockMachineConnectionRequest_def first_where_None)
  then have "connections_of d' = (connections_of d)(?i \<mapsto> Waiting)"
    by (auto simp: fun_eq_iff connections_of_def d' sql_LockMachineConnectionRequest_def first_where_append id split: option.splits)
  moreover have "connection_state_ok (new_connection E c)"
    by (simp add: connection_state_ok_def new_connection_def decision_columns_ok_def redemption_columns_ok_def)
  moreover have "connections_of d ?i = None" using none by (simp add: connections_of_def)
  ultimately show ?thesis
    using ok begins [of "connections_of d" ?i] by (auto simp: simulated_def requests_ok_def d')
qed (simp add: simulated_same)

lemma Lookup_simulated: "LookupMachineConnection_tx c E d n = Inr (x, d', n') \<Longrightarrow> requests_ok d \<Longrightarrow> simulated d d'"
  by (drule LookupMachineConnection_tx_effect) (auto split: sum.splits intro!: simulated_same)

text \<open>One update of the row that is locked.\<close>

lemma update_simulated:
  assumes u: "update_connection P f connection_state_ok d = Inr (x, d')" and ok: "requests_ok d"
    and r: "sql_LockMachineConnectionRequest i d = Some r" "P r"
    and k: "\<And>s. P s \<Longrightarrow> mc_RequestID s = i \<and> mc_RequestID (f s) = i"
    and p: "phase_of (f r) = phase_of r \<or> protocol_step (connections_of d) ((connections_of d)(i \<mapsto> phase_of (f r)))"
  shows "simulated d d'"
proof -
  from u have "connections_of d' = (connections_of d)(i \<mapsto> phase_of (f r))"
    using connections_updated [where P = P and f = f, OF r] k by (auto simp: update_connection_Inr)
  moreover have "connections_of d i = Some (phase_of r)" using r by (simp add: connections_of_def)
  ultimately show ?thesis using p updated_ok [OF u ok] by (auto simp: simulated_def fun_upd_idem)
qed

lemma undecided_not_redeemed: "connection_state_ok r \<Longrightarrow> mc_Decision r = None \<Longrightarrow> mc_RedeemedAt r = None"
  by (cases "mc_RedeemedAt r") (auto simp: connection_state_ok_def redemption_columns_ok_def)

lemma decided_or_denied: "connection_state_ok r \<Longrightarrow> mc_Decision r \<in> {None, Some ''approved'', Some ''denied''}"
  by (cases "mc_Decision r") (auto simp: connection_state_ok_def decision_columns_ok_def)

lemma Decide_simulated:
  assumes "DecideMachineConnection_tx c E d n = Inr (x, d', n')" and ok: "requests_ok d"
  shows "simulated d d'"
proof -
  let ?i = "dcc_RequestID c"
  from DecideMachineConnection_tx_effect [OF assms(1)] obtain userID r where
    r: "sql_LockMachineConnectionRequest ?i d = Some r"
    and b: "d' = d \<or> live_request E r \<and> sql_DecideMachineConnection E (dcc_Decision c) userID (decision_space c) (dcc_IdempotencyKey c)
           (dcc_RequestDigest c) (decision_machine c) ?i d = Inr (Some (decide_row E c userID r), d')" by blast
  show ?thesis
  proof (cases "d' = d")
    case False
    let ?f = "decide_row E c userID"
    from b False have live: "live_request E r" and u: "update_connection (open_request E ?i) ?f connection_state_ok d = Inr (Some (?f r), d')"
      using sql_DecideMachineConnection_Inr unfolding decide_row_def [abs_def] by blast+
    have P: "open_request E ?i r" using live lock_request_Some [OF r] by (simp add: open_request_def)
    have "mc_RedeemedAt r = None"
      using ok lock_request_Some [OF r] live undecided_not_redeemed by (auto simp: requests_ok_def live_request_def)
    then have f: "phase_of (?f r) = Denied userID \<or> (\<exists>s m. phase_of (?f r) = Approved userID s m)"
      by (simp add: phase_of_def decide_row_def decided_row_def uuidValue_def textValue_def)
    have "connections_of d ?i = Some Waiting" using r live by (simp add: connections_of_def phase_of_def live_request_def)
    with f have "protocol_step (connections_of d) ((connections_of d)(?i \<mapsto> phase_of (?f r)))" by (auto intro: denies approves)
    then show ?thesis
      by (intro update_simulated [where P = "open_request E ?i", OF u ok r P]) (auto simp: open_request_def decide_row_def decided_row_def)
  qed (use ok in \<open>simp add: simulated_same\<close>)
qed

lemma Cancel_simulated:
  assumes "CancelMachineConnection_tx c E d n = Inr (x, d', n')" and ok: "requests_ok d"
  shows "simulated d d'"
proof -
  let ?i = "plc_RequestID c" and ?f = "\<lambda>r. r\<lparr>mc_CancelledAt := Some (tx_time E)\<rparr>"
  from CancelMachineConnection_tx_effect [OF assms(1)] obtain r where
    r: "sql_LockMachineConnectionRequest ?i d = Some r"
    and b: "d' = d \<or> live_request E r \<and> (\<exists>row. sql_CancelMachineConnection E ?i d = Inr (Some row, d'))" by blast
  show ?thesis
  proof (cases "d' = d")
    case False
    from b False obtain row where live: "live_request E r"
      and u: "update_connection (open_request E ?i) ?f connection_state_ok d = Inr (Some row, d')"
      unfolding sql_CancelMachineConnection_def by blast
    have P: "open_request E ?i r" using live lock_request_Some [OF r] by (simp add: open_request_def)
    have "protocol_step (connections_of d) ((connections_of d)(?i \<mapsto> phase_of (?f r)))"
      using r live withdraws [of "connections_of d" ?i] by (simp add: connections_of_def phase_of_def live_request_def)
    then show ?thesis by (intro update_simulated [where P = "open_request E ?i", OF u ok r P]) (auto simp: open_request_def)
  qed (use ok in \<open>simp add: simulated_same\<close>)
qed

lemma redeem_simulated:
  assumes "redeem issue c (polled_row E r) E d0 n = Inr (x, d', n')" and ok: "requests_ok d0"
    and r: "sql_LockMachineConnectionRequest (plc_RequestID c) d0 = Some (polled_row E r)"
    and p: "poll_ready E r" "mc_Decision r \<noteq> None"
  shows "simulated d0 d'"
proof -
  let ?i = "plc_RequestID c" and ?m = "uuidValue (mc_PreparedMachineID r)"
  from redeem_Inr [OF assms(1)] obtain m d1 row where
    m: "sql_CreateConnectedMachine m d0 = Inr (m, d1)"
    and u: "sql_RedeemMachineConnection E ?m ?i d1 = Inr (Some row, d')" by auto
  from m have same: "machine_connection_requests d1 = machine_connection_requests d0"
    by (auto simp: sql_CreateConnectedMachine_def split: if_split_asm)
  have "connection_state_ok (polled_row E r)" using ok lock_request_Some [OF r] by (auto simp: requests_ok_def)
  from decided_or_denied [OF this] p have approved: "mc_Decision r = Some ''approved''" by (auto simp: poll_ready_def)
  then have True: "redeemable ?i (polled_row E r)"
    using lock_request_Some [OF r] p by (auto simp: redeemable_def poll_ready_def)
  have r1: "sql_LockMachineConnectionRequest ?i d1 = Some (polled_row E r)" and ok1: "requests_ok d1"
    using r ok by (simp_all add: sql_LockMachineConnectionRequest_def same requests_ok_def)
  have "connections_of d1 ?i = Some (Approved (uuidValue (mc_DecidedByUserID r)) (uuidValue (mc_DecidedSpaceID r)) ?m)"
    using r1 approved p by (simp add: connections_of_def phase_of_def poll_ready_def)
  moreover have "phase_of (redeemed_row E ?m (polled_row E r))
      = Connected (uuidValue (mc_DecidedByUserID r)) (uuidValue (mc_DecidedSpaceID r)) ?m"
    using approved by (simp add: phase_of_def redeemed_row_def polled_row_def uuidValue_def textValue_def)
  ultimately have "protocol_step (connections_of d1) ((connections_of d1)(?i \<mapsto> phase_of (redeemed_row E ?m (polled_row E r))))"
    by (simp add: connects)
  then have "simulated d1 d'"
    by (intro update_simulated [OF u [unfolded sql_RedeemMachineConnection_def] ok1 r1 True])
      (auto simp: redeemable_def redeemed_row_def)
  then show ?thesis using connections_same [OF same] by (simp add: simulated_def)
qed

lemma Poll_simulated:
  assumes "PollMachineConnection_tx c issue E d n = Inr (x, d', n')" and ok: "requests_ok d"
  shows "simulated d d'"
proof -
  let ?i = "plc_RequestID c" and ?P = "\<lambda>r. mc_RequestID r = plc_RequestID c"
  from PollMachineConnection_tx_effect [OF assms(1)] obtain r where
    r: "sql_LockMachineConnectionRequest ?i d = Some r"
    and b: "d' = d \<or> poll_ready E r \<and> polled issue c E d r x d'"
    by (auto split: if_split_asm dest: replay_redemption_Inr)
  have P: "?P r" using lock_request_Some [OF r] by simp
  show ?thesis
  proof (cases "d' = d")
    case False
    with b have ready: "poll_ready E r" and p: "polled issue c E d r x d'" by auto
    show ?thesis
    proof (cases "tx_time E < next_poll_at r")
      case True
      with p have "update_connection ?P (slowed_row E) connection_state_ok d = Inr (Some (slowed_row E r), d')"
        by (simp add: polled_def sql_SlowDownMachineConnectionPoll_def)
      then show ?thesis by (intro update_simulated [where P = ?P and f = "slowed_row E", OF _ ok r]) (use P in auto)
    next
      case late: False
      with p have u: "update_connection ?P (polled_row E) connection_state_ok d = Inr (Some (polled_row E r), polled_db E ?i d)"
        by (simp add: polled_def sql_RecordMachineConnectionPoll_def)
      then have first: "simulated d (polled_db E ?i d)" by (intro update_simulated [where P = ?P and f = "polled_row E", OF u ok r]) (use P in auto)
      have same: "connections_of (polled_db E ?i d) = connections_of d"
        unfolding polled_db_def using connections_updated [where P = ?P and f = "polled_row E", OF r] P r
        by (simp add: fun_upd_idem connections_of_def)
      have r': "sql_LockMachineConnectionRequest ?i (polled_db E ?i d) = Some (polled_row E r)"
        using r P by (simp add: sql_LockMachineConnectionRequest_def polled_db_def updated_requests_def first_where_of_update)
      show ?thesis
      proof (cases "mc_Decision r")
        case None
        with late p first show ?thesis by (simp add: polled_def)
      next
        case (Some y)
        with late p obtain k k' where "redeem issue c (polled_row E r) E (polled_db E ?i d) k = Inr (x, d', k')"
          by (auto simp: polled_def)
        from redeem_simulated [OF this _ r' ready] first Some same show ?thesis by (simp add: simulated_def)
      qed
    qed
  qed (use ok in \<open>simp add: simulated_same\<close>)
qed

lemma connection_step_simulated: "connection_step d d' \<Longrightarrow> requests_ok d \<Longrightarrow> simulated d d'"
  by (erule connection_stepE)
    (auto simp: BeginMachineConnection_def LookupMachineConnection_def DecideMachineConnection_def PollMachineConnection_def
       CancelMachineConnection_def simulated_same
     elim!: transact_cases transact_answer_cases
     intro: Begin_simulated Lookup_simulated Decide_simulated Poll_simulated Cancel_simulated)

interpretation connection_store: forward_simulation connections_of requests_ok connection_step protocol_step
  by unfold_locales (auto dest: connection_step_simulated simp: simulated_def)

end
