(* ===== verification/Machine_Revocation.thy ===== *)
theory Machine_Revocation
  imports Machine_State Fenced_Leases Agent_Guarantees
begin

text \<open>
  What a revocation does, and what a revoked Machine can still do: nothing. No call it makes of the store
  changes anything, and all but the repetition of its own revocation are refused.
\<close>

definition machine_revoked :: "uuid \<Rightarrow> db \<Rightarrow> bool" where
  "machine_revoked machineID d \<longleftrightarrow> (\<forall>m \<in> set (machines d). m_MachineID m = machineID \<longrightarrow> m_RevokedAt m \<noteq> None)"

lemma machine_revokedD: "machine_revoked i d \<Longrightarrow> machine_of i d = Some m \<Longrightarrow> m_RevokedAt m \<noteq> None"
  by (auto simp: machine_revoked_def machine_of_def dest!: first_where_Some)

lemma attempt_authority_machine: "machine_revoked m d \<Longrightarrow> \<not> attempt_authority m i j f d (r, a)"
  by (auto simp: attempt_authority_def exists_where_iff machine_revoked_def)

section \<open>The calls of a Machine\<close>

datatype machine_call =
    Claims
  | Renews uuid uuid int
  | Commits commit_command
  | Finishes finish_command
  | Claims_reply
  | Renews_reply renew_reply_command
  | Commits_reply commit_reply_command
  | Reports report_command
  | Revokes_itself self_revoke_command

definition unit_result :: "(carry_error + 'a) \<times> db \<Rightarrow> (carry_error + unit) \<times> db" where
  "unit_result = result_map (\<lambda>_. ())"

lemma unit_result_Inl [simp]: "unit_result (Inl e, d) = (Inl e, d)"
  by (simp add: unit_result_def result_map_def)

text \<open>The call of the Machine \<open>i\<close>, as the Host API makes it: with the identifier its certificate authenticated.\<close>

fun machine_calls :: "(string \<Rightarrow> string) \<Rightarrow> uuid \<Rightarrow> machine_call \<Rightarrow> env \<Rightarrow> db \<Rightarrow> (carry_error + unit) \<times> db" where
  "machine_calls folded i Claims E d = unit_result (ClaimRun i E d)"
| "machine_calls folded i (Renews runID attemptID fence) E d = unit_result (RenewRunAttempt i runID attemptID fence E d)"
| "machine_calls folded i (Commits c) E d = CommitWorkUnderstanding (c\<lparr>co_MachineID := i\<rparr>) E d"
| "machine_calls folded i (Finishes c) E d = FinishUnresolvedAttempt (c\<lparr>fi_MachineID := i\<rparr>) E d"
| "machine_calls folded i Claims_reply E d = unit_result (ClaimConversationReply i E d)"
| "machine_calls folded i (Renews_reply c) E d = unit_result (RenewConversationReply (c\<lparr>rn_MachineID := i\<rparr>) E d)"
| "machine_calls folded i (Commits_reply c) E d = unit_result (CommitConversationReply (c\<lparr>cm_MachineID := i\<rparr>) E d)"
| "machine_calls folded i (Reports c) E d = unit_result (ReconcileAgentPresence folded (c\<lparr>rt_MachineID := i\<rparr>) E d)"
| "machine_calls folded i (Revokes_itself c) E d = unit_result (RevokeMachineFromHost (c\<lparr>srm_MachineID := i\<rparr>) E d)"

lemma revoked_claim_refused:
  assumes "machine_revoked i d" shows "\<exists>e. ClaimRun i E d = (Inl e, d)"
  unfolding ClaimRun_def
  by (intro transact_refuses notI) (use assms in \<open>auto simp: ClaimRun_tx_def tx_simps sql_LockClaimingMachine_def dest: machine_revokedD\<close>)

lemma revoked_renewal_refused:
  assumes "machine_revoked i d" shows "\<exists>e. RenewRunAttempt i j a f E d = (Inl e, d)"
  unfolding RenewRunAttempt_def
  by (intro transact_refuses notI)
    (use assms in \<open>auto simp: RenewRunAttempt_tx_def tx_simps sql_LockAttemptForRenew_def sql_LockAttempt_def
       attempt_authority_machine dest!: first_where_Some\<close>)

lemma revoked_commit_refused:
  assumes "machine_revoked (co_MachineID c) d" shows "\<exists>e. CommitWorkUnderstanding c E d = (Inl e, d)"
  unfolding CommitWorkUnderstanding_def
  by (intro checked_refuses transact_refuses notI)
    (use assms in \<open>auto simp: CommitWorkUnderstanding_tx_def tx_simps sql_LockAttemptForCommit_def
       attempt_authority_machine dest!: first_where_Some split: option.splits prod.splits\<close>)

lemma revoked_finish_refused:
  assumes "machine_revoked (fi_MachineID c) d" shows "\<exists>e. FinishUnresolvedAttempt c E d = (Inl e, d)"
  unfolding FinishUnresolvedAttempt_def
  by (intro checked_refuses transact_refuses notI)
    (use assms in \<open>auto simp: FinishUnresolvedAttempt_tx_def tx_simps sql_LockAttemptForFinish_def sql_LockAttempt_def
       attempt_authority_machine dest!: first_where_Some\<close>)

lemma revoked_reply_machine:
  "machine_revoked i d \<Longrightarrow> lockActiveReplyMachine i E d n \<noteq> Inr (x, d', n')"
  by (auto simp: lockActiveReplyMachine_def tx_simps sql_LockClaimingMachine_def dest: machine_revokedD)

lemma revoked_reply_claim_refused:
  assumes "machine_revoked i d" shows "\<exists>e. ClaimConversationReply i E d = (Inl e, d)"
  unfolding ClaimConversationReply_def
  by (intro checked_refuses transact_refuses notI)
    (use assms in \<open>auto simp: ClaimConversationReply_tx_def bind_tx_Inr revoked_reply_machine\<close>)

lemma revoked_reply_renewal_refused:
  assumes "machine_revoked (rn_MachineID c) d" shows "\<exists>e. RenewConversationReply c E d = (Inl e, d)"
  unfolding RenewConversationReply_def
  by (intro checked_refuses transact_refuses notI)
    (use assms in \<open>auto simp: RenewConversationReply_tx_def bind_tx_Inr revoked_reply_machine\<close>)

lemma revoked_reply_commit_refused:
  assumes "machine_revoked (cm_MachineID c) d" shows "\<exists>e. CommitConversationReply c E d = (Inl e, d)"
  unfolding CommitConversationReply_def
  by (intro checked_refuses transact_refuses notI)
    (use assms in \<open>auto simp: CommitConversationReply_tx_def bind_tx_Inr case_prod_tx_Inr revoked_reply_machine\<close>)

lemma revoked_report_refused:
  assumes "machine_revoked (rt_MachineID c) d" "agents_ok d"
  shows "\<exists>e. ReconcileAgentPresence folded c E d = (Inl e, d)"
proof -
  obtain y d' where run: "ReconcileAgentPresence folded c E d = (y, d')" by (cases "ReconcileAgentPresence folded c E d")
  from run assms(2) show ?thesis
  proof (cases rule: Reconcile_cases)
    case (ran m res)
    with machine_revokedD [OF assms(1)] show ?thesis by simp
  qed (use run in simp)
qed

lemma revoked_machine_refused:
  assumes "machine_revoked i d" "agents_ok d" "\<And>c. q \<noteq> Revokes_itself c"
  shows "\<exists>e. machine_calls folded i q E d = (Inl e, d)"
proof (cases q)
  case Claims
  then show ?thesis using revoked_claim_refused [OF assms(1), of E] by auto
next
  case (Renews j a f)
  then show ?thesis using revoked_renewal_refused [OF assms(1), of j a f E] by auto
next
  case (Commits c)
  then show ?thesis using revoked_commit_refused [of "c\<lparr>co_MachineID := i\<rparr>" d E] assms(1) by simp
next
  case (Finishes c)
  then show ?thesis using revoked_finish_refused [of "c\<lparr>fi_MachineID := i\<rparr>" d E] assms(1) by simp
next
  case Claims_reply
  then show ?thesis using revoked_reply_claim_refused [OF assms(1), of E] by auto
next
  case (Renews_reply c)
  then show ?thesis using revoked_reply_renewal_refused [of "c\<lparr>rn_MachineID := i\<rparr>" d E] assms(1) by auto
next
  case (Commits_reply c)
  then show ?thesis using revoked_reply_commit_refused [of "c\<lparr>cm_MachineID := i\<rparr>" d E] assms(1) by auto
next
  case (Reports c)
  then show ?thesis using revoked_report_refused [of "c\<lparr>rt_MachineID := i\<rparr>" d folded E] assms by auto
qed (use assms(3) in blast)

section \<open>The revocation\<close>

definition retired :: "env \<Rightarrow> uuid \<Rightarrow> db \<Rightarrow> db" where
  "retired E i d = snd (sql_RemoveActiveAgentsForMachine E i d)"

lemma retire_agents_Inr: "retire_agents i E d n = Inr (x, d', n') \<Longrightarrow> d' = retired E i d"
  by (auto simp: retire_agents_def tx_simps retired_def sql_RemoveActiveAgentsForMachine_def)

definition revoked_db :: "env \<Rightarrow> string \<Rightarrow> uuid option \<Rightarrow> string \<Rightarrow> bytes \<Rightarrow> uuid \<Rightarrow> db \<Rightarrow> db" where
  "revoked_db E kind userID key digest i d = retired E i
     (d\<lparr>machines := update_where (active_machine i) (revoked_machine_row E kind userID key digest) (machines d)\<rparr>)"

lemma revoke_machine_Inr:
  "revoke_machine E kind userID key digest i d = Inr (x, d') \<Longrightarrow>
     d' = d\<lparr>machines := update_where (active_machine i) (revoked_machine_row E kind userID key digest) (machines d)\<rparr>
     \<and> (\<forall>m \<in> set (machines d). active_machine i m \<longrightarrow> revocation_columns_ok (revoked_machine_row E kind userID key digest m))"
  by (auto simp: revoke_machine_def Let_def exists_where_iff split: if_split_asm)

lemma revoked_machine_row_simps [simp]:
  "m_MachineID (revoked_machine_row E k u key g m) = m_MachineID m" "m_RevokedAt (revoked_machine_row E k u key g m) = Some (tx_time E)"
  "m_SpaceID (revoked_machine_row E k u key g m) = m_SpaceID m"
  by (simp_all add: revoked_machine_row_def)

lemma revoked_db_revoked: "machine_revoked i (revoked_db E kind userID key digest i d)"
  by (auto simp: machine_revoked_def revoked_db_def retired_def sql_RemoveActiveAgentsForMachine_def active_machine_def
      elim!: in_update_whereE)

lemma revoked_db_retired: "a \<in> set (agents (revoked_db E kind userID key digest i d)) \<Longrightarrow> ag_MachineID a = i \<Longrightarrow> ag_RemovedAt a \<noteq> None"
  by (auto simp: revoked_db_def retired_def sql_RemoveActiveAgentsForMachine_def machine_agent_def elim!: in_update_whereE)

lemma revoked_db_others:
  "m \<in> set (machines d) \<Longrightarrow> m_MachineID m \<noteq> i \<Longrightarrow> m \<in> set (machines (revoked_db E kind userID key digest i d))"
  "a \<in> set (agents d) \<Longrightarrow> ag_MachineID a \<noteq> i \<Longrightarrow> a \<in> set (agents (revoked_db E kind userID key digest i d))"
  by (auto simp: revoked_db_def retired_def sql_RemoveActiveAgentsForMachine_def machine_agent_def active_machine_def
      set_update_where image_iff intro!: bexI)

lemma agents_inventory_frame: "frame f (listInventoryAgents ids)"
  unfolding listInventoryAgents_def by (intro frame_intros)

lemma listInventoryAgents_Inr: "listInventoryAgents ids E d n = Inr (x, d', n') \<Longrightarrow> d' = d"
  using agents_inventory_frame [of "\<lambda>d. d" ids] unfolding frame_def by blast

lemma revocation_authority_Inr:
  assumes "revocation_authority c E d n = Inr ((userID, m), d', n')"
  shows "d' = d \<and> lives (rmm_BrowserSessionID c) userID E d \<and> may_enroll (rmm_SpaceID c) userID d
    \<and> m \<in> set (machines d) \<and> m_MachineID m = rmm_MachineID c \<and> m_SpaceID m = rmm_SpaceID c"
proof -
  from assms obtain u where "sql_LockBrowserSessionForMachineConnection (rmm_BrowserSessionID c) E d = Some u" "userID = u_UserID u"
    by (auto simp: revocation_authority_def tx_simps)
  from lock_session_Some [OF this(1)] this(2) have "lives (rmm_BrowserSessionID c) userID E d" by (auto simp: lives_def)
  with assms show ?thesis
    by (auto simp: revocation_authority_def tx_simps sql_LockMachineForRevocation_def dest!: first_where_Some intro: lock_enroller)
qed

definition revokes_by_user :: "revoke_machine_command \<Rightarrow> env \<Rightarrow> db \<Rightarrow> db \<Rightarrow> bool" where
  "revokes_by_user c E d d' \<longleftrightarrow> (\<exists>userID m. lives (rmm_BrowserSessionID c) userID E d \<and> may_enroll (rmm_SpaceID c) userID d
     \<and> m \<in> set (machines d) \<and> m_MachineID m = rmm_MachineID c \<and> m_SpaceID m = rmm_SpaceID c
     \<and> (if m_RevokedAt m = None
        then d' = revoked_db E ''user'' (Some userID) (rmm_IdempotencyKey c) (rmm_RequestDigest c) (rmm_MachineID c) d
        else d' = d))"

lemma RevokeMachineFromBrowser_tx_effect:
  assumes "RevokeMachineFromBrowser_tx c E d n = Inr (x, d', n')"
  shows "revokes_by_user c E d d'"
proof -
  from assms obtain userID m d1 n1 n2 d2 n3 stored as where
    auth: "revocation_authority c E d n = Inr ((userID, m), d1, n1)"
    and b: "(if m_RevokedAt m \<noteq> None then
                bind_tx (require (\<not> conflicting_revocation ''user'' userID (rmm_IdempotencyKey c) (rmm_RequestDigest c) m)
                  (MachineError ErrConnectionConflict)) (\<lambda>_. ret m)
              else
                bind_tx (postgresUUID MissingArgument userID) (\<lambda>actorUserID.
                bind_tx (try_modify (\<lambda>E now. sql_RevokeMachineByUser E actorUserID (rmm_IdempotencyKey c)
                  (rmm_RequestDigest c) (rmm_MachineID c))) (\<lambda>r.
                case r of
                  Inl e \<Rightarrow> fail (decide_error e)
                | Inr updated \<Rightarrow> (case updated of
                    None \<Rightarrow> fail (DatabaseError No_rows)
                  | Some revoked \<Rightarrow> bind_tx (retire_agents (rmm_MachineID c)) (\<lambda>_. ret revoked))))) E d1 n1 = Inr (stored, d2, n2)"
    and l: "listInventoryAgents [rmm_MachineID c] E d2 n2 = Inr (as, d', n3)"
    unfolding RevokeMachineFromBrowser_tx_def
    by (simp only: bind_tx_Inr case_prod_tx_Inr ret_Inr prod.inject) (elim exE conjE, hypsubst, blast)
  note a = revocation_authority_Inr [OF auth]
  have d': "d' = d2" by (rule listInventoryAgents_Inr [OF l])
  show ?thesis
  proof (cases "m_RevokedAt m")
    case None
    with b obtain u d3 n4 n5 y where "sql_RevokeMachineByUser E userID (rmm_IdempotencyKey c) (rmm_RequestDigest c) (rmm_MachineID c) d1 = Inr (u, d3)"
      and "retire_agents (rmm_MachineID c) E d3 n4 = Inr (y, d2, n5)"
      by (auto simp: bind_tx_Inr postgresUUID_Inr case_sum_tx_Inr case_option_tx_Inr try_modify_Inr fail_Inr ret_Inr)
    from revoke_machine_Inr [OF this(1) [unfolded sql_RevokeMachineByUser_def]] retire_agents_Inr [OF this(2)] None a d'
    show ?thesis unfolding revokes_by_user_def revoked_db_def by (intro exI [of _ userID] exI [of _ m]) simp
  next
    case (Some t)
    with b have "d2 = d1" by (auto simp: bind_tx_Inr require_Inr ret_Inr)
    with Some a d' show ?thesis unfolding revokes_by_user_def by (metis option.distinct(1))
  qed
qed

definition revokes_itself :: "self_revoke_command \<Rightarrow> env \<Rightarrow> db \<Rightarrow> db \<Rightarrow> bool" where
  "revokes_itself c E d d' \<longleftrightarrow> (\<exists>m. machine_of (srm_MachineID c) d = Some m \<and> m_CertificateSerial m = srm_CertificateSerial c
     \<and> (if m_RevokedAt m = None
        then d' = revoked_db E ''machine'' None (srm_IdempotencyKey c) (srm_RequestDigest c) (srm_MachineID c) d
        else d' = d))"

lemma RevokeMachineFromHost_tx_effect:
  assumes "RevokeMachineFromHost_tx c E d n = Inr (x, d', n')"
  shows "revokes_itself c E d d'"
proof -
  from assms obtain m n1 n2 stored where
    m: "sql_LockMachineByIDForSelfRevocation (srm_MachineID c) d = Some m" "m_CertificateSerial m = srm_CertificateSerial c"
    and b: "(if m_RevokedAt m \<noteq> None then
                bind_tx (require (\<not> conflicting_revocation ''machine'' [] (srm_IdempotencyKey c) (srm_RequestDigest c) m)
                  (MachineError ErrConnectionConflict)) (\<lambda>_. ret m)
              else
                bind_tx (update_one (\<lambda>E now. sql_RevokeMachineBySelf E (srm_IdempotencyKey c)
                  (srm_RequestDigest c) (srm_MachineID c))) (\<lambda>revoked.
                bind_tx (retire_agents (srm_MachineID c)) (\<lambda>_. ret revoked))) E d n1 = Inr (stored, d', n2)"
    unfolding RevokeMachineFromHost_tx_def
    by (simp only: bind_tx_Inr query_one_Inr require_Inr ret_Inr prod.inject) (elim exE conjE, hypsubst, blast)
  have m': "machine_of (srm_MachineID c) d = Some m" using m(1) by (simp add: sql_LockMachineByIDForSelfRevocation_def machine_of_def)
  show ?thesis
  proof (cases "m_RevokedAt m")
    case None
    with b obtain u d3 n4 y where "sql_RevokeMachineBySelf E (srm_IdempotencyKey c) (srm_RequestDigest c) (srm_MachineID c) d = Inr (u, d3)"
      and "retire_agents (srm_MachineID c) E d3 n4 = Inr (y, d', n2)"
      by (auto simp: bind_tx_Inr update_one_Inr ret_Inr)
    from revoke_machine_Inr [OF this(1) [unfolded sql_RevokeMachineBySelf_def]] retire_agents_Inr [OF this(2)] None m m'
    show ?thesis unfolding revokes_itself_def revoked_db_def by auto
  next
    case (Some t)
    with b have "d' = d" by (auto simp: bind_tx_Inr require_Inr ret_Inr)
    with Some m m' show ?thesis unfolding revokes_itself_def by (metis option.distinct(1))
  qed
qed

lemma revoked_self_revocation:
  assumes "machine_revoked (srm_MachineID c) d" shows "snd (RevokeMachineFromHost c E d) = d"
proof (cases "RevokeMachineFromHost c E d")
  case (Pair r d')
  have "d' = d"
    using Pair unfolding RevokeMachineFromHost_def
  proof (cases rule: transact_cases)
    case (2 x n)
    from RevokeMachineFromHost_tx_effect [OF this] obtain m where "machine_of (srm_MachineID c) d = Some m"
      "m_RevokedAt m = None \<or> d' = d" unfolding revokes_itself_def by (auto split: if_split_asm)
    with machine_revokedD [OF assms] show ?thesis by blast
  qed simp
  with Pair show ?thesis by simp
qed

lemma revoked_machine_changes_nothing:
  assumes "machine_revoked i d" "agents_ok d"
  shows "snd (machine_calls folded i q E d) = d"
proof (cases "\<exists>c. q = Revokes_itself c")
  case True
  then obtain c where "q = Revokes_itself c" by blast
  with revoked_self_revocation [of "c\<lparr>srm_MachineID := i\<rparr>" d E] assms(1) show ?thesis by (simp add: unit_result_def result_map_def split_beta)
next
  case False
  then have "\<exists>e. machine_calls folded i q E d = (Inl e, d)" by (intro revoked_machine_refused [OF assms]) blast
  then show ?thesis by auto
qed

end
