(* ===== verification/Email_Rules.thy ===== *)
theory Email_Rules
  imports Machine_Rules Invitation_Rules Agent_Names
begin

text \<open>Decoding an encoded text returns it, and an encoded text contains neither a dot nor a line break.\<close>

fun sextets :: "bytes \<Rightarrow> nat list" where
  "sextets [] = []"
| "sextets [a] = [code a div 4, code a mod 4 * 16]"
| "sextets [a, b] = [code a div 4, code a mod 4 * 16 + code b div 16, code b mod 16 * 4]"
| "sextets (a # b # c # bs) = [code a div 4, code a mod 4 * 16 + code b div 16, code b mod 16 * 4 + code c div 64, code c mod 64] @ sextets bs"

lemma b64_encode_sextets: "b64_encode t bs = map ((!) t) (sextets bs)"
  by (induction bs rule: sextets.induct) simp_all

lemma code_less: "code (c :: char) < 256"
  by (rule nat_of_char_less_256)

lemma split_byte: "s < k \<Longrightarrow> (r * k + s) div k = r" "s < k \<Longrightarrow> (r * k + s) mod k = (s :: nat)"
  by simp_all

lemma byte_parts: "x < 256 \<Longrightarrow> x div 4 < 64" "x < 256 \<Longrightarrow> x div 16 < 16" "x < 256 \<Longrightarrow> x div 64 < (4 :: nat)"
  by (simp_all add: less_mult_imp_div_less)

lemma sextet_bounds:
  assumes "y < 256" "z < (256 :: nat)"
  shows "x mod 4 * 16 + y div 16 < 64" "y mod 16 * 4 + z div 64 < 64" "x mod 4 * 16 < 64" "y mod 16 * 4 < 64"
proof -
  have "x mod 4 < 4" "y mod 16 < 16" by simp_all
  then show "x mod 4 * 16 + y div 16 < 64" "y mod 16 * 4 + z div 64 < 64" "x mod 4 * 16 < 64" "y mod 16 * 4 < 64"
    using byte_parts(2) [OF assms(1)] byte_parts(3) [OF assms(2)] by linarith+
qed

lemma sextets_less: "i \<in> set (sextets bs) \<Longrightarrow> i < 64"
  by (induction bs rule: sextets.induct) (auto simp: sextet_bounds [OF code_less code_less] byte_parts code_less)

lemma sextet_arith:
  assumes "x < 256" "y < 256" "z < (256 :: nat)"
  shows "x div 4 * 4 + (x mod 4 * 16 + y div 16) div 16 = x"
    "(x mod 4 * 16 + y div 16) mod 16 * 16 + (y mod 16 * 4 + z div 64) div 4 = y"
    "(y mod 16 * 4 + z div 64) mod 4 * 64 + z mod 64 = z"
    "x div 4 * 4 + (x mod 4 * 16) div 16 = x" "(x mod 4 * 16 + y div 16) mod 16 * 16 + (y mod 16 * 4) div 4 = y"
  by (simp_all only: split_byte [OF byte_parts(2) [OF assms(2)]] split_byte [OF byte_parts(3) [OF assms(3)]]
      nonzero_mult_div_cancel_right div_mult_mod_eq zero_neq_numeral not_False_eq_True)

lemma groups_of_sextets: "b64_groups (sextets bs) = Some bs"
proof (induction bs rule: sextets.induct)
  case (2 a)
  then show ?case using sextet_arith(4) [OF code_less [of a] code_less code_less] by simp
next
  case (3 a b)
  then show ?case using sextet_arith(1,5) [OF code_less [of a] code_less [of b] code_less] by simp
next
  case (4 a b c bs)
  then show ?case using sextet_arith(1,2,3) [OF code_less [of a] code_less [of b] code_less [of c]] by simp
qed simp

lemma b64_value_nth:
  assumes "distinct t" "i < length t"
  shows "b64_value t (t ! i) = Some i"
proof -
  have "takeWhile (\<lambda>x. x \<noteq> t ! i) t = take i t"
    by (rule takeWhile_eq_take_P_nth) (use assms in \<open>auto simp: nth_eq_iff_index_eq\<close>)
  then show ?thesis using assms(2) by (simp add: b64_value_def)
qed

lemma b64_url_facts: "length b64_url = 64" "distinct b64_url" "list_all (\<lambda>c. c \<notin> {CHR 0x0D, CHR 0x0A, CHR ''.''}) b64_url"
  by (simp_all add: b64_url_def)

lemma b64_url_char: "i < 64 \<Longrightarrow> b64_url ! i \<notin> {CHR 0x0D, CHR 0x0A, CHR ''.''}"
  using b64_url_facts(1,3) by (metis list_all_length)

lemma b64_encode_dotless: "CHR ''.'' \<notin> set (b64_encode b64_url bs)"
  using b64_url_char sextets_less by (fastforce simp: b64_encode_sextets)

lemma b64_decode_encode: "b64_decode b64_url (b64_encode b64_url bs) = Some bs"
proof -
  have clean: "filter (\<lambda>c. c \<noteq> CHR 0x0D \<and> c \<noteq> CHR 0x0A) (b64_encode b64_url bs) = b64_encode b64_url bs"
    using b64_url_char sextets_less by (intro filter_True) (fastforce simp: b64_encode_sextets)
  have "map (b64_value b64_url) (b64_encode b64_url bs) = map Some (sextets bs)"
    using sextets_less [of _ bs] b64_url_facts by (simp add: b64_encode_sextets b64_value_nth)
  then show ?thesis unfolding b64_decode_def clean Let_def by (auto simp: groups_of_sextets comp_def)
qed

lemma split_on_dotless: "sep \<notin> set s \<Longrightarrow> split_on sep s = [s]"
  by (induction s) auto

lemma split_on_two: "sep \<notin> set a \<Longrightarrow> sep \<notin> set b \<Longrightarrow> split_on sep (a @ sep # b) = [a, b]"
  by (induction a) (auto simp: split_on_dotless)


text \<open>
  The rules of Email login and of sign-in methods (\<open>internal/identity/email_login.go\<close>, \<open>methods.go\<close>,
  \<open>user.go\<close>, \<open>browser_session.go\<close>): the limits, the secrets derived from the identity root, the
  commands and results. A digest is a list of bytes; the root is a list of 32 bytes.
\<close>

section \<open>Limits\<close>

definition EmailCodeDigits :: nat where "EmailCodeDigits = 6"
definition EmailCodeLifetime :: timestamp where "EmailCodeLifetime = minutes 5"
definition EmailCodeAttemptLimit :: int where "EmailCodeAttemptLimit = 5"
definition EmailCodeResendDelay :: timestamp where "EmailCodeResendDelay = minutes 1"
definition EmailAddressChallengeLimitPerHour :: int where "EmailAddressChallengeLimitPerHour = 5"
definition EmailSourceChallengeLimitPerHour :: int where "EmailSourceChallengeLimitPerHour = 20"
definition IdentityRootBytes :: nat where "IdentityRootBytes = 32"

definition GoogleMethod :: string where "GoogleMethod = ''google''"
definition GitHubMethod :: string where "GitHubMethod = ''github''"

definition LoginPurpose :: string where "LoginPurpose = ''login''"
definition ReauthenticatePurpose :: string where "ReauthenticatePurpose = ''reauthenticate''"
definition LinkPurpose :: string where "LinkPurpose = ''link''"

definition EmailSubmissionPrepared :: string where "EmailSubmissionPrepared = ''prepared''"
definition EmailSubmissionAccepted :: string where "EmailSubmissionAccepted = ''accepted''"
definition EmailSubmissionRejected :: string where "EmailSubmissionRejected = ''rejected''"
definition EmailSubmissionUnknown :: string where "EmailSubmissionUnknown = ''unknown''"

lemmas purpose_defs = LoginPurpose_def ReauthenticatePurpose_def LinkPurpose_def
lemmas submission_defs = EmailSubmissionPrepared_def EmailSubmissionAccepted_def EmailSubmissionRejected_def EmailSubmissionUnknown_def

definition validMethod :: "string \<Rightarrow> bool" where
  "validMethod method \<longleftrightarrow> method = EmailMethod \<or> method = GoogleMethod \<or> method = GitHubMethod"

definition validProofPurpose :: "string \<Rightarrow> bool" where
  "validProofPurpose purpose \<longleftrightarrow> purpose = LoginPurpose \<or> purpose = ReauthenticatePurpose \<or> purpose = LinkPurpose"

section \<open>What the identity root derives\<close>

definition NewCredentials :: "bytes \<Rightarrow> bytes option" where
  "NewCredentials root = (if length root = IdentityRootBytes then Some root else None)"

definition ParseIdentityRoot :: "string \<Rightarrow> bytes option" where
  "ParseIdentityRoot encoded =
     (case b64_decode b64_url (trim_space encoded) of None \<Rightarrow> None | Some root \<Rightarrow> NewCredentials root)"

definition be_value :: "bytes \<Rightarrow> nat" where
  "be_value bs = foldl (\<lambda>v c. v * 256 + of_char c) 0 bs"

text \<open>\<open>fmt.Sprintf("%0*d", w, v)\<close>\<close>

definition zero_padded :: "nat \<Rightarrow> nat \<Rightarrow> string" where
  "zero_padded w v = replicate (w - length (itoa v)) (CHR ''0'') @ itoa v"

definition EmailCode :: "env \<Rightarrow> bytes \<Rightarrow> uuid \<Rightarrow> string \<Rightarrow> carry_error + string" where
  "EmailCode E root challengeID canonicalEmail =
     (if \<not> uuid_valid E challengeID then Inl MissingArgument
      else Inr (zero_padded EmailCodeDigits
        (be_value (take 8 (keyed_digest root ''carry/email-code/v1'' [challengeID, canonicalEmail])) mod 1000000)))"

definition EmailCodeDigest :: "bytes \<Rightarrow> uuid \<Rightarrow> string \<Rightarrow> bytes" where
  "EmailCodeDigest root challengeID c = keyed_digest root ''carry/email-code-digest/v1'' [challengeID, c]"

definition RequestDigest :: "bytes \<Rightarrow> string list \<Rightarrow> bytes" where
  "RequestDigest root parts = keyed_digest root ''carry/identity-request/v1'' parts"

definition EmailSourceDigest :: "bytes \<Rightarrow> string \<Rightarrow> bytes" where
  "EmailSourceDigest root remoteAddress = keyed_digest root ''carry/email-source/v1'' [remoteAddress]"

definition session_prefix :: string where
  "session_prefix = ''carry_session_''"

definition BrowserSessionCredential :: "env \<Rightarrow> bytes \<Rightarrow> uuid \<Rightarrow> carry_error + string" where
  "BrowserSessionCredential E root sessionID =
     (if \<not> uuid_valid E sessionID then Inl MissingArgument
      else Inr (session_prefix @ sessionID @ ''.'' @ b64_encode b64_url (keyed_digest root ''carry/browser-session/v1'' [sessionID])))"

definition ParseBrowserSessionCredential :: "env \<Rightarrow> bytes \<Rightarrow> string \<Rightarrow> uuid option" where
  "ParseBrowserSessionCredential E root value =
     (if \<not> has_prefix session_prefix value then None
      else (case split_on (CHR ''.'') (drop (length session_prefix) value) of
              [sessionID, encoded] \<Rightarrow>
                if uuid_valid E sessionID
                  \<and> b64_decode b64_url encoded = Some (keyed_digest root ''carry/browser-session/v1'' [sessionID])
                then Some sessionID else None
            | _ \<Rightarrow> None))"

section \<open>Users\<close>

text \<open>\<open>parsed.String()\<close> is the canonical text of the identifier, as every identifier of the model is.\<close>

definition FallbackDisplayName :: "env \<Rightarrow> uuid \<Rightarrow> carry_error + string" where
  "FallbackDisplayName E userID =
     (if \<not> uuid_parse E userID then Inl MissingArgument
      else Inr (''Member '' @ take 8 (filter (\<lambda>c. c \<noteq> CHR ''-'') userID)))"

record authenticated_user =
  au_UserID :: uuid
  au_DisplayName :: string

section \<open>Commands and results\<close>

record request_code_command =
  rqc_ChallengeID :: uuid
  rqc_Email :: string
  rqc_Source :: string
  rqc_IdempotencyKey :: string

record request_method_code_command =
  rmc_code_ChallengeID :: uuid
  rmc_code_Email :: string
  rmc_code_Source :: string
  rmc_code_IdempotencyKey :: string
  rmc_code_UserID :: uuid
  rmc_code_SessionID :: uuid

record request_proof_command =
  rqp_ChallengeID :: uuid
  rqp_CanonicalEmail :: string
  rqp_Source :: string
  rqp_IdempotencyKey :: string
  rqp_Purpose :: string
  rqp_UserID :: string
  rqp_SessionID :: string

record code_message =
  ecm_Recipient :: string
  ecm_Code :: string
  ecm_IdempotencyKey :: string

record prepare_challenge_command =
  pec_ChallengeID :: uuid
  pec_CanonicalEmail :: string
  pec_CodeDigest :: bytes
  pec_SourceDigest :: bytes
  pec_PayloadDigest :: bytes
  pec_IdempotencyKey :: string
  pec_RequestDigest :: bytes
  pec_Purpose :: string
  pec_TargetUserID :: string
  pec_InitiatingSessionID :: string

record email_challenge =
  ech_ChallengeID :: uuid
  ech_CanonicalEmail :: string
  ech_ExpiresAt :: timestamp
  ech_SubmissionState :: string
  ech_ProviderMessageID :: string
  ech_PayloadDigest :: bytes
  ech_CanSubmit :: bool

record email_submission =
  esb_State :: string
  esb_ProviderMessageID :: string

record verify_code_command =
  vfc_ChallengeID :: uuid
  vfc_Code :: string
  vfc_IdempotencyKey :: string
  vfc_InitiatingSessionID :: string
  vfc_Purpose :: string

record verify_challenge_command =
  vec_ChallengeID :: uuid
  vec_CodeDigest :: bytes
  vec_IdempotencyKey :: string
  vec_RequestDigest :: bytes
  vec_SessionID :: uuid
  vec_Purpose :: string
  vec_InitiatingSessionID :: string

record browser_session =
  brs_SessionID :: uuid
  brs_UserID :: uuid
  brs_ExpiresAt :: timestamp
  brs_IdentityProvedAt :: timestamp
  brs_IdentityProofMethod :: string
  brs_Purpose :: string
  brs_InvitationID :: string

record identity_methods =
  idm_Methods :: "string list"
  idm_ReauthenticationRequired :: bool

record unlink_method_command =
  ulm_SessionID :: uuid
  ulm_Method :: string
  ulm_IdempotencyKey :: string

record unlink_identity_command =
  uli_InitiatingSessionID :: uuid
  uli_Method :: string
  uli_IdempotencyKey :: string
  uli_RequestDigest :: bytes
  uli_ReplacementSessionID :: uuid

section \<open>What holds of the codes and credentials\<close>

lemma length_keyed_digest [simp]: "length (keyed_digest root label vs) = 32"
  by (simp add: keyed_digest_def hmac_sha256_def)

definition is_digit :: "char \<Rightarrow> bool" where
  "is_digit c \<longleftrightarrow> 48 \<le> code c \<and> code c \<le> 57"

lemma zero_padded_digits: "v < 10 ^ w \<Longrightarrow> 0 < w \<Longrightarrow> length (zero_padded w v) = w \<and> list_all is_digit (zero_padded w v)"
  using itoa_length [of v w] itoa_digits [of v] by (auto simp: zero_padded_def is_digit_def list_all_iff)

lemma EmailCode_digits:
  assumes "EmailCode E root i e = Inr c"
  shows "length c = EmailCodeDigits \<and> list_all is_digit c"
  using assms zero_padded_digits [of _ EmailCodeDigits] by (auto simp: EmailCode_def EmailCodeDigits_def split: if_split_asm)

lemma credential_roundtrip:
  assumes "BrowserSessionCredential E root sessionID = Inr credential" "CHR ''.'' \<notin> set sessionID"
  shows "ParseBrowserSessionCredential E root credential = Some sessionID"
proof -
  let ?b = "b64_encode b64_url (keyed_digest root ''carry/browser-session/v1'' [sessionID])"
  from assms(1) have v: "uuid_valid E sessionID" and c: "credential = session_prefix @ sessionID @ CHR ''.'' # ?b"
    by (auto simp: BrowserSessionCredential_def split: if_split_asm)
  have "split_on (CHR ''.'') (sessionID @ CHR ''.'' # ?b) = [sessionID, ?b]"
    by (rule split_on_two [OF assms(2) b64_encode_dotless])
  then show ?thesis
    by (simp add: ParseBrowserSessionCredential_def c v b64_decode_encode has_prefix_def)
qed

end
