(* ===== verification/Email_Store.thy ===== *)
theory Email_Store
  imports Email_Rules Machine_Store
begin

text \<open>
  Email challenges and Browser Sessions in the database (\<open>internal/postgres/email_login.go\<close>, first half,
  \<open>browser_session.go\<close>, \<open>dbsqlc/email_login.sql.go\<close>, \<open>dbsqlc/browser_session.sql.go\<close>): a challenge is
  prepared under the limits of its address and its source, and the outcome of its submission is recorded.
\<close>

section \<open>Statements on Browser Sessions\<close>

definition sql_AuthenticateBrowserSession :: "uuid \<Rightarrow> env \<Rightarrow> db \<Rightarrow> user_row option" where
  "sql_AuthenticateBrowserSession sessionID E d =
     (case first_where (\<lambda>b. bs_SessionID b = sessionID \<and> bs_RevokedAt b = None \<and> bs_ExpiresAt b > tx_time E) (browser_sessions d) of
        None \<Rightarrow> None | Some b \<Rightarrow> user_of (bs_UserID b) d)"

definition new_session :: "env \<Rightarrow> uuid \<Rightarrow> uuid \<Rightarrow> string \<Rightarrow> session_row" where
  "new_session E sessionID userID proofMethod = \<lparr>bs_UserID = userID, bs_CreatedAt = tx_time E,
     bs_ExpiresAt = tx_time E + 30 * hours 24, bs_RevokedAt = None, bs_SessionID = sessionID,
     bs_IdentityProvedAt = tx_time E, bs_IdentityProofMethod = proofMethod\<rparr>"

definition sql_CreateBrowserSession :: "session_row \<Rightarrow> db \<Rightarrow> db_error + (session_row \<times> db)" where
  "sql_CreateBrowserSession b d =
     (if \<not> validMethod (bs_IdentityProofMethod b) then Inl (Check_violation ''browser_sessions_identity_proof_method_check'')
      else if key_taken bs_SessionID (\<lambda>_. True) (bs_SessionID b) (browser_sessions d) then Inl (Unique_violation ''browser_sessions_pkey'')
      else if \<not> exists_where (\<lambda>u. u_UserID u = bs_UserID b) (carry_users d)
      then Inl (Foreign_key_violation ''browser_sessions_user_id_fkey'')
      else Inr (b, d\<lparr>browser_sessions := browser_sessions d @ [b]\<rparr>))"

definition sql_LoadActiveBrowserSessionByID :: "uuid \<Rightarrow> env \<Rightarrow> db \<Rightarrow> session_row option" where
  "sql_LoadActiveBrowserSessionByID sessionID E d =
     first_where (\<lambda>b. bs_SessionID b = sessionID \<and> bs_RevokedAt b = None \<and> bs_ExpiresAt b > tx_time E) (browser_sessions d)"

definition sql_LoadBrowserSessionByID :: "uuid \<Rightarrow> db \<Rightarrow> session_row option" where
  "sql_LoadBrowserSessionByID sessionID d = first_where (\<lambda>b. bs_SessionID b = sessionID) (browser_sessions d)"

definition sql_RevokeBrowserSession :: "env \<Rightarrow> uuid \<Rightarrow> db \<Rightarrow> int \<times> db" where
  "sql_RevokeBrowserSession E sessionID d =
     (let P = (\<lambda>b. bs_SessionID b = sessionID \<and> bs_RevokedAt b = None) in
      (count_where P (browser_sessions d),
       d\<lparr>browser_sessions := update_where P (\<lambda>b. b\<lparr>bs_RevokedAt := Some (tx_time E)\<rparr>) (browser_sessions d)\<rparr>))"

text \<open>One statement without a transaction of its own.\<close>

definition AuthenticateBrowserSession :: "uuid \<Rightarrow> env \<Rightarrow> db \<Rightarrow> (carry_error + authenticated_user) \<times> db" where
  "AuthenticateBrowserSession sessionID = read_only
     (bind_tx (query_one (IdentityError ErrUnauthenticated) (\<lambda>E now. sql_AuthenticateBrowserSession sessionID E)) (\<lambda>user.
      ret \<lparr>au_UserID = u_UserID user, au_DisplayName = u_DisplayName user\<rparr>))"

definition RevokeBrowserSession :: "uuid \<Rightarrow> env \<Rightarrow> db \<Rightarrow> (carry_error + unit) \<times> db" where
  "RevokeBrowserSession sessionID = transact
     (bind_tx (modify (\<lambda>E now. sql_RevokeBrowserSession E sessionID)) (\<lambda>_. ret ()))"

section \<open>Statements on challenges\<close>

definition sql_EmailLoginDatabaseTime :: "env \<Rightarrow> db \<Rightarrow> timestamp" where
  "sql_EmailLoginDatabaseTime E d = tx_time E"

definition recent :: "env \<Rightarrow> email_challenge_row \<Rightarrow> bool" where
  "recent E c \<longleftrightarrow> ec_CreatedAt c > tx_time E - hours 1"

definition sql_CountRecentEmailChallenges :: "string \<Rightarrow> env \<Rightarrow> db \<Rightarrow> int" where
  "sql_CountRecentEmailChallenges canonicalEmail E d =
     count_where (\<lambda>c. ec_CanonicalEmail c = canonicalEmail \<and> recent E c) (email_login_challenges d)"

definition sql_CountRecentSourceChallenges :: "bytes \<Rightarrow> env \<Rightarrow> db \<Rightarrow> int" where
  "sql_CountRecentSourceChallenges source E d =
     count_where (\<lambda>c. ec_SourceDigest c = source \<and> recent E c) (email_login_challenges d)"

definition new_challenge :: "env \<Rightarrow> prepare_challenge_command \<Rightarrow> string \<Rightarrow> uuid option \<Rightarrow> uuid option \<Rightarrow> email_challenge_row" where
  "new_challenge E command purpose targetUserID initiatingSessionID = \<lparr>ec_ChallengeID = pec_ChallengeID command,
     ec_CanonicalEmail = pec_CanonicalEmail command, ec_CodeDigest = pec_CodeDigest command,
     ec_SourceDigest = pec_SourceDigest command, ec_PayloadDigest = pec_PayloadDigest command,
     ec_RequestIdempotencyKey = pec_IdempotencyKey command, ec_RequestDigest = pec_RequestDigest command,
     ec_SubmissionState = EmailSubmissionPrepared, ec_ProviderMessageID = None, ec_AttemptsUsed = 0,
     ec_CreatedAt = tx_time E, ec_ExpiresAt = tx_time E + minutes 5, ec_InvalidatedAt = None, ec_ConsumedAt = None,
     ec_UserID = None, ec_BrowserSessionID = None, ec_Purpose = purpose, ec_TargetUserID = targetUserID,
     ec_InitiatingSessionID = initiatingSessionID\<rparr>"

definition current_challenge :: "email_challenge_row \<Rightarrow> bool" where
  "current_challenge c \<longleftrightarrow> ec_InvalidatedAt c = None \<and> ec_ConsumedAt c = None"

text \<open>The CHECK constraints a new row meets beyond the lengths that the Go types fix.\<close>

definition challenge_columns_ok :: "email_challenge_row \<Rightarrow> bool" where
  "challenge_columns_ok c \<longleftrightarrow> ec_CanonicalEmail c \<noteq> [] \<and> length (ec_CanonicalEmail c) \<le> 254
     \<and> length (ec_CodeDigest c) = 32 \<and> length (ec_SourceDigest c) = 32 \<and> length (ec_PayloadDigest c) = 32
     \<and> length (ec_RequestDigest c) = 32
     \<and> ec_RequestIdempotencyKey c \<noteq> [] \<and> length (ec_RequestIdempotencyKey c) \<le> 255 \<and> validProofPurpose (ec_Purpose c)
     \<and> (if ec_Purpose c = LoginPurpose then ec_TargetUserID c = None \<and> ec_InitiatingSessionID c = None
        else ec_TargetUserID c \<noteq> None \<and> ec_InitiatingSessionID c \<noteq> None)"

definition sql_CreateEmailChallenge :: "email_challenge_row \<Rightarrow> db \<Rightarrow> db_error + (email_challenge_row \<times> db)" where
  "sql_CreateEmailChallenge c d =
     (if \<not> challenge_columns_ok c then Inl (Check_violation ''email_login_challenges'')
      else if key_taken ec_ChallengeID (\<lambda>_. True) (ec_ChallengeID c) (email_login_challenges d)
      then Inl (Unique_violation ''email_login_challenges_pkey'')
      else if key_taken ec_RequestIdempotencyKey (\<lambda>_. True) (ec_RequestIdempotencyKey c) (email_login_challenges d)
      then Inl (Unique_violation ''email_login_challenges_request_idempotency_key_key'')
      else if key_taken ec_CanonicalEmail current_challenge (ec_CanonicalEmail c) (email_login_challenges d)
      then Inl (Unique_violation ''email_login_challenges_current_email_idx'')
      else Inr (c, d\<lparr>email_login_challenges := email_login_challenges d @ [c]\<rparr>))"

definition sql_InvalidateCurrentEmailChallenges :: "env \<Rightarrow> string \<Rightarrow> db \<Rightarrow> unit \<times> db" where
  "sql_InvalidateCurrentEmailChallenges E canonicalEmail d =
     ((), d\<lparr>email_login_challenges := update_where (\<lambda>c. ec_CanonicalEmail c = canonicalEmail \<and> current_challenge c)
        (\<lambda>c. c\<lparr>ec_InvalidatedAt := Some (tx_time E)\<rparr>) (email_login_challenges d)\<rparr>)"

definition sql_LoadEmailChallengeByRequestKey :: "string \<Rightarrow> db \<Rightarrow> email_challenge_row option" where
  "sql_LoadEmailChallengeByRequestKey key d = first_where (\<lambda>c. ec_RequestIdempotencyKey c = key) (email_login_challenges d)"

definition challenge_order :: "email_challenge_row \<Rightarrow> timestamp \<times> uuid" where
  "challenge_order c = (ec_CreatedAt c, ec_ChallengeID c)"

definition sql_LoadLatestEmailChallenge :: "string \<Rightarrow> db \<Rightarrow> email_challenge_row option" where
  "sql_LoadLatestEmailChallenge canonicalEmail d =
     first_row (order_by_desc challenge_order (filter (\<lambda>c. ec_CanonicalEmail c = canonicalEmail) (email_login_challenges d)))"

definition sql_LockEmailChallenge :: "uuid \<Rightarrow> db \<Rightarrow> email_challenge_row option" where
  "sql_LockEmailChallenge challengeID d = first_where (\<lambda>c. ec_ChallengeID c = challengeID) (email_login_challenges d)"

definition unsettled :: "uuid \<Rightarrow> bytes \<Rightarrow> email_challenge_row \<Rightarrow> bool" where
  "unsettled challengeID payloadDigest c \<longleftrightarrow> ec_ChallengeID c = challengeID \<and> ec_PayloadDigest c = payloadDigest
     \<and> ec_SubmissionState c \<in> {''prepared'', ''unknown''}"

definition sql_RecordEmailSubmission :: "string \<Rightarrow> string option \<Rightarrow> uuid \<Rightarrow> bytes \<Rightarrow> db \<Rightarrow> email_challenge_row option \<times> db" where
  "sql_RecordEmailSubmission submissionState providerMessageID challengeID payloadDigest d =
     (let f = (\<lambda>c. c\<lparr>ec_SubmissionState := submissionState, ec_ProviderMessageID := providerMessageID\<rparr>) in
      (map_option f (first_where (unsettled challengeID payloadDigest) (email_login_challenges d)),
       d\<lparr>email_login_challenges := update_where (unsettled challengeID payloadDigest) f (email_login_challenges d)\<rparr>))"

section \<open>The Session that asks\<close>

definition sql_LockUserForIdentityChange :: "uuid \<Rightarrow> db \<Rightarrow> uuid option" where
  "sql_LockUserForIdentityChange userID d = map_option u_UserID (user_of userID d)"

definition sql_LockBrowserSessionForIdentityChange :: "uuid \<Rightarrow> db \<Rightarrow> session_row option" where
  "sql_LockBrowserSessionForIdentityChange sessionID d = first_where (\<lambda>b. bs_SessionID b = sessionID) (browser_sessions d)"

definition sql_LoadEmailMethodForUser :: "uuid \<Rightarrow> db \<Rightarrow> string option" where
  "sql_LoadEmailMethodForUser userID d = map_option ei_CanonicalEmail (first_where (\<lambda>e. ei_UserID e = userID) (email_identities d))"

definition loadIdentitySession :: "uuid \<Rightarrow> uuid \<Rightarrow> bool \<Rightarrow> (db, session_row \<times> timestamp) tx" where
  "loadIdentitySession userID sessionID requireRecent =
     bind_tx (query_one (IdentityError ErrUnauthenticated) (\<lambda>E now. sql_LockBrowserSessionForIdentityChange sessionID)) (\<lambda>session.
     bind_tx (query (\<lambda>E now. sql_EmailLoginDatabaseTime E)) (\<lambda>databaseTime.
     bind_tx (require (bs_UserID session = userID \<and> bs_RevokedAt session = None \<and> bs_ExpiresAt session > databaseTime)
       (IdentityError ErrUnauthenticated)) (\<lambda>_.
     bind_tx (require (\<not> requireRecent \<or> bs_IdentityProvedAt session + IdentityProofLifetime > databaseTime)
       (IdentityError ErrRecentIdentityProofRequired)) (\<lambda>_.
     ret (session, databaseTime)))))"

definition validIdentityProofTarget :: "env \<Rightarrow> string \<Rightarrow> string \<Rightarrow> string \<Rightarrow> bool" where
  "validIdentityProofTarget E purpose userID sessionID \<longleftrightarrow>
     (if purpose = LoginPurpose then userID = [] \<and> sessionID = []
      else (purpose = ReauthenticatePurpose \<or> purpose = LinkPurpose) \<and> uuid_valid E userID \<and> uuid_valid E sessionID)"

text \<open>An empty text is no identifier; another one must parse.\<close>

definition nullablePostgresUUID :: "carry_error \<Rightarrow> string \<Rightarrow> (db, uuid option) tx" where
  "nullablePostgresUUID e value = (if value = [] then ret None else bind_tx (postgresUUID e value) (\<lambda>u. ret (Some u)))"

section \<open>Preparing a challenge\<close>

definition restoreEmailChallenge :: "email_challenge_row \<Rightarrow> timestamp option \<Rightarrow> email_challenge" where
  "restoreEmailChallenge row databaseTime = \<lparr>ech_ChallengeID = ec_ChallengeID row, ech_CanonicalEmail = ec_CanonicalEmail row,
     ech_ExpiresAt = ec_ExpiresAt row, ech_SubmissionState = ec_SubmissionState row,
     ech_ProviderMessageID = textValue (ec_ProviderMessageID row), ech_PayloadDigest = ec_PayloadDigest row,
     ech_CanSubmit = (case databaseTime of None \<Rightarrow> True | Some t \<Rightarrow> ec_ExpiresAt row > t)\<rparr>"

definition proof_authority :: "prepare_challenge_command \<Rightarrow> string \<Rightarrow> (db, unit) tx" where
  "proof_authority command purpose =
     (if purpose = LoginPurpose then ret ()
      else
        bind_tx (query_one (IdentityError ErrUnauthenticated) (\<lambda>E now. sql_LockUserForIdentityChange (pec_TargetUserID command))) (\<lambda>_.
        bind_tx (loadIdentitySession (pec_TargetUserID command) (pec_InitiatingSessionID command) (purpose = LinkPurpose)) (\<lambda>_.
        if purpose = ReauthenticatePurpose then
          bind_tx (instead (IdentityError ErrIdentityMethodNotLinked)
            (query (\<lambda>E now. sql_LoadEmailMethodForUser (pec_TargetUserID command)))) (\<lambda>linkedEmail.
          require (linkedEmail = Some (pec_CanonicalEmail command)) (IdentityError ErrIdentityMethodNotLinked))
        else ret ())))"

definition replay_challenge :: "prepare_challenge_command \<Rightarrow> email_challenge_row \<Rightarrow> (db, email_challenge) tx" where
  "replay_challenge command existing =
     bind_tx (require (ec_CanonicalEmail existing = pec_CanonicalEmail command \<and> ec_RequestDigest existing = pec_RequestDigest command)
       (IdentityError ErrIdentityConflict)) (\<lambda>_.
     bind_tx (require (ec_PayloadDigest existing = pec_PayloadDigest command) (IdentityError ErrEmailPayloadChanged)) (\<lambda>_.
     bind_tx (query (\<lambda>E now. sql_EmailLoginDatabaseTime E)) (\<lambda>databaseTime.
     ret (restoreEmailChallenge existing (Some databaseTime)))))"

definition too_soon :: "email_challenge_row option \<Rightarrow> timestamp \<Rightarrow> bool" where
  "too_soon latest now \<longleftrightarrow> (case latest of None \<Rightarrow> False | Some c \<Rightarrow> ec_CreatedAt c + EmailCodeResendDelay > now)"

definition create_challenge :: "prepare_challenge_command \<Rightarrow> string \<Rightarrow> (db, email_challenge) tx" where
  "create_challenge command purpose =
     bind_tx (query (\<lambda>E now. sql_CountRecentEmailChallenges (pec_CanonicalEmail command) E)) (\<lambda>emailCount.
     bind_tx (query (\<lambda>E now. sql_CountRecentSourceChallenges (pec_SourceDigest command) E)) (\<lambda>sourceCount.
     bind_tx (query (\<lambda>E now. sql_LoadLatestEmailChallenge (pec_CanonicalEmail command))) (\<lambda>latest.
     bind_tx (query (\<lambda>E now. sql_EmailLoginDatabaseTime E)) (\<lambda>databaseTime.
     bind_tx (require (emailCount < EmailAddressChallengeLimitPerHour) (IdentityError ErrEmailAddressAdmissionLimited)) (\<lambda>_.
     bind_tx (require (sourceCount < EmailSourceChallengeLimitPerHour) (IdentityError ErrEmailSourceAdmissionLimited)) (\<lambda>_.
     bind_tx (require (\<not> too_soon latest databaseTime) (IdentityError ErrEmailResendDelayed)) (\<lambda>_.
     bind_tx (modify (\<lambda>E now. sql_InvalidateCurrentEmailChallenges E (pec_CanonicalEmail command))) (\<lambda>_.
     bind_tx (nullablePostgresUUID MissingArgument (pec_TargetUserID command)) (\<lambda>targetUserID.
     bind_tx (nullablePostgresUUID MissingArgument (pec_InitiatingSessionID command)) (\<lambda>initiatingSessionID.
     bind_tx (insert_row (\<lambda>E now. sql_CreateEmailChallenge (new_challenge E command purpose targetUserID initiatingSessionID))) (\<lambda>created.
     ret (restoreEmailChallenge created (Some databaseTime)))))))))))))"

text \<open>The locks of the request key, the address and the source only order concurrent requests.\<close>

definition PrepareEmailChallenge_tx :: "prepare_challenge_command \<Rightarrow> string \<Rightarrow> (db, email_challenge) tx" where
  "PrepareEmailChallenge_tx command purpose =
     bind_tx (proof_authority command purpose) (\<lambda>_.
     bind_tx advisory_lock (\<lambda>_.
     bind_tx advisory_lock (\<lambda>_.
     bind_tx advisory_lock (\<lambda>_.
     bind_tx (query (\<lambda>E now. sql_LoadEmailChallengeByRequestKey (pec_IdempotencyKey command))) (\<lambda>found.
     case found of
       Some existing \<Rightarrow> replay_challenge command existing
     | None \<Rightarrow> create_challenge command purpose)))))"

definition purpose_of :: "string \<Rightarrow> string" where
  "purpose_of purpose = (if purpose = [] then LoginPurpose else purpose)"

definition valid_challenge_command :: "env \<Rightarrow> prepare_challenge_command \<Rightarrow> bool" where
  "valid_challenge_command E command \<longleftrightarrow> uuid_valid E (pec_ChallengeID command) \<and> pec_CanonicalEmail command \<noteq> []
     \<and> trim_space (pec_IdempotencyKey command) \<noteq> [] \<and> length (pec_IdempotencyKey command) \<le> 255
     \<and> validIdentityProofTarget E (purpose_of (pec_Purpose command)) (pec_TargetUserID command) (pec_InitiatingSessionID command)"

definition PrepareEmailChallenge :: "prepare_challenge_command \<Rightarrow> env \<Rightarrow> db \<Rightarrow> (carry_error + email_challenge) \<times> db" where
  "PrepareEmailChallenge command E = checked (guard (valid_challenge_command E command) MissingArgument)
     (\<lambda>_. transact (PrepareEmailChallenge_tx command (purpose_of (pec_Purpose command)))) E"

section \<open>Recording a submission\<close>

definition validSubmission :: "email_submission \<Rightarrow> bool" where
  "validSubmission submission \<longleftrightarrow>
     (if esb_State submission = EmailSubmissionAccepted then trim_space (esb_ProviderMessageID submission) \<noteq> []
      else if esb_State submission = EmailSubmissionRejected \<or> esb_State submission = EmailSubmissionUnknown
      then esb_ProviderMessageID submission = [] else False)"

definition RecordEmailSubmission_tx :: "uuid \<Rightarrow> bytes \<Rightarrow> email_submission \<Rightarrow> (db, email_challenge) tx" where
  "RecordEmailSubmission_tx challengeID payloadDigest submission =
     bind_tx (query_one (IdentityError ErrInvalidCode) (\<lambda>E now. sql_LockEmailChallenge challengeID)) (\<lambda>current.
     bind_tx (require (ec_PayloadDigest current = payloadDigest) (IdentityError ErrEmailPayloadChanged)) (\<lambda>_.
     if ec_SubmissionState current = EmailSubmissionAccepted \<or> ec_SubmissionState current = EmailSubmissionRejected
     then ret (restoreEmailChallenge current None)
     else
       bind_tx (modify_one (DatabaseError No_rows) (\<lambda>E now. sql_RecordEmailSubmission (esb_State submission)
          (if esb_State submission = EmailSubmissionAccepted then Some (esb_ProviderMessageID submission) else None)
          challengeID payloadDigest)) (\<lambda>updated.
       ret (restoreEmailChallenge updated None))))"

definition RecordEmailSubmission :: "uuid \<Rightarrow> bytes \<Rightarrow> email_submission \<Rightarrow> env \<Rightarrow> db \<Rightarrow> (carry_error + email_challenge) \<times> db" where
  "RecordEmailSubmission challengeID payloadDigest submission E =
     checked (guard (uuid_valid E challengeID \<and> validSubmission submission) MissingArgument)
       (\<lambda>_. transact (RecordEmailSubmission_tx challengeID payloadDigest submission)) E"


text \<open>
  What a correct code opens (\<open>internal/postgres/email_login.go\<close>, second half): a Browser Session for the User of
  the address, who is created by the first login, a new Session for the one that confirms its User, or the
  link of the address to the User who asks. A wrong code is recorded and spends one of five attempts.
\<close>

section \<open>Statements\<close>

definition sql_LoadEmailAttempt :: "uuid \<Rightarrow> string \<Rightarrow> db \<Rightarrow> email_attempt_row option" where
  "sql_LoadEmailAttempt challengeID key d =
     first_where (\<lambda>a. ea_ChallengeID a = challengeID \<and> ea_IdempotencyKey a = key) (email_login_attempts d)"

definition attempt_key :: "email_attempt_row \<Rightarrow> uuid \<times> string" where
  "attempt_key a = (ea_ChallengeID a, ea_IdempotencyKey a)"

definition insert_attempt :: "env \<Rightarrow> string \<Rightarrow> uuid \<Rightarrow> string \<Rightarrow> bytes \<Rightarrow> db \<Rightarrow> db_error + (unit \<times> db)" where
  "insert_attempt E outcome challengeID key digest d =
     (if key = [] \<or> length key > 255 \<or> length digest \<noteq> 32 then Inl (Check_violation ''email_login_attempts'')
      else if key_taken attempt_key (\<lambda>_. True) (challengeID, key) (email_login_attempts d)
      then Inl (Unique_violation ''email_login_attempts_pkey'')
      else Inr ((), d\<lparr>email_login_attempts := email_login_attempts d @ [\<lparr>ea_ChallengeID = challengeID, ea_IdempotencyKey = key,
        ea_RequestDigest = digest, ea_Result = outcome, ea_CreatedAt = tx_time E\<rparr>]\<rparr>))"

definition sql_RecordInvalidEmailAttempt :: "env \<Rightarrow> uuid \<Rightarrow> string \<Rightarrow> bytes \<Rightarrow> db \<Rightarrow> db_error + (unit \<times> db)" where
  "sql_RecordInvalidEmailAttempt E = insert_attempt E ''invalid''"

definition sql_RecordSuccessfulEmailAttempt :: "env \<Rightarrow> uuid \<Rightarrow> string \<Rightarrow> bytes \<Rightarrow> db \<Rightarrow> db_error + (unit \<times> db)" where
  "sql_RecordSuccessfulEmailAttempt E = insert_attempt E ''succeeded''"

definition spendable :: "uuid \<Rightarrow> email_challenge_row \<Rightarrow> bool" where
  "spendable challengeID c \<longleftrightarrow> ec_ChallengeID c = challengeID \<and> ec_AttemptsUsed c < 5"

definition sql_SpendEmailChallengeAttempt :: "uuid \<Rightarrow> db \<Rightarrow> int \<times> db" where
  "sql_SpendEmailChallengeAttempt challengeID d =
     (count_where (spendable challengeID) (email_login_challenges d),
      d\<lparr>email_login_challenges := update_where (spendable challengeID) (\<lambda>c. c\<lparr>ec_AttemptsUsed := ec_AttemptsUsed c + 1\<rparr>)
         (email_login_challenges d)\<rparr>)"

definition consumable :: "env \<Rightarrow> uuid \<Rightarrow> email_challenge_row \<Rightarrow> bool" where
  "consumable E challengeID c \<longleftrightarrow> ec_ChallengeID c = challengeID \<and> ec_ConsumedAt c = None \<and> ec_InvalidatedAt c = None
     \<and> ec_ExpiresAt c > tx_time E \<and> ec_AttemptsUsed c < 5"

definition consumed_row :: "env \<Rightarrow> uuid \<Rightarrow> uuid \<Rightarrow> email_challenge_row \<Rightarrow> email_challenge_row" where
  "consumed_row E userID sessionID c =
     c\<lparr>ec_ConsumedAt := Some (tx_time E), ec_UserID := Some userID, ec_BrowserSessionID := Some sessionID\<rparr>"

definition sql_ConsumeEmailChallenge :: "env \<Rightarrow> uuid \<Rightarrow> uuid \<Rightarrow> uuid \<Rightarrow> db \<Rightarrow> int \<times> db" where
  "sql_ConsumeEmailChallenge E userID sessionID challengeID d =
     (count_where (consumable E challengeID) (email_login_challenges d),
      d\<lparr>email_login_challenges := update_where (consumable E challengeID) (consumed_row E userID sessionID) (email_login_challenges d)\<rparr>)"

definition sql_LoadEmailIdentity :: "string \<Rightarrow> db \<Rightarrow> uuid option" where
  "sql_LoadEmailIdentity canonicalEmail d =
     map_option ei_UserID (first_where (\<lambda>e. ei_CanonicalEmail e = canonicalEmail) (email_identities d))"

definition sql_CreateEmailUser :: "env \<Rightarrow> uuid \<Rightarrow> string \<Rightarrow> db \<Rightarrow> db_error + (unit \<times> db)" where
  "sql_CreateEmailUser E userID displayName d =
     (if key_taken u_UserID (\<lambda>_. True) userID (carry_users d) then Inl (Unique_violation ''carry_users_pkey'')
      else Inr ((), d\<lparr>carry_users := carry_users d @ [\<lparr>u_UserID = userID, u_DisplayName = displayName, u_CreatedAt = tx_time E\<rparr>]\<rparr>))"

definition sql_CreateEmailIdentity :: "env \<Rightarrow> string \<Rightarrow> uuid \<Rightarrow> db \<Rightarrow> db_error + (unit \<times> db)" where
  "sql_CreateEmailIdentity E canonicalEmail userID d =
     (if canonicalEmail = [] \<or> length canonicalEmail > 254 then Inl (Check_violation ''email_identities_canonical_email_check'')
      else if key_taken ei_CanonicalEmail (\<lambda>_. True) canonicalEmail (email_identities d) then Inl (Unique_violation ''email_identities_pkey'')
      else if key_taken ei_UserID (\<lambda>_. True) userID (email_identities d) then Inl (Unique_violation ''email_identities_user_id_key'')
      else if \<not> exists_where (\<lambda>u. u_UserID u = userID) (carry_users d) then Inl (Foreign_key_violation ''email_identities_user_id_fkey'')
      else Inr ((), d\<lparr>email_identities := email_identities d @
        [\<lparr>ei_CanonicalEmail = canonicalEmail, ei_UserID = userID, ei_VerifiedAt = tx_time E\<rparr>]\<rparr>))"

definition revoked_session :: "timestamp \<Rightarrow> session_row \<Rightarrow> session_row" where
  "revoked_session now b = b\<lparr>bs_RevokedAt := Some now\<rparr>"

definition sql_RevokeExactBrowserSession :: "timestamp \<Rightarrow> uuid \<Rightarrow> db \<Rightarrow> int \<times> db" where
  "sql_RevokeExactBrowserSession now sessionID d =
     (let P = (\<lambda>b. bs_SessionID b = sessionID \<and> bs_RevokedAt b = None) in
      (count_where P (browser_sessions d), d\<lparr>browser_sessions := update_where P (revoked_session now) (browser_sessions d)\<rparr>))"

definition sql_RevokeUserBrowserSessions :: "timestamp \<Rightarrow> uuid \<Rightarrow> db \<Rightarrow> int \<times> db" where
  "sql_RevokeUserBrowserSessions now userID d =
     (let P = (\<lambda>b. bs_UserID b = userID \<and> bs_RevokedAt b = None) in
      (count_where P (browser_sessions d), d\<lparr>browser_sessions := update_where P (revoked_session now) (browser_sessions d)\<rparr>))"

section \<open>What a correct code opens\<close>

text \<open>The first login of an address makes its User.\<close>

definition first_login :: "string \<Rightarrow> (db, uuid) tx" where
  "first_login canonicalEmail =
     bind_tx (ask (\<lambda>E. fresh E 0)) (\<lambda>userID.
     bind_tx (ask (\<lambda>E. FallbackDisplayName E userID)) (\<lambda>named.
     bind_tx (lift named) (\<lambda>displayName.
     bind_tx (insert_row (\<lambda>E now. sql_CreateEmailUser E userID displayName)) (\<lambda>_.
     bind_tx (insert_row (\<lambda>E now. sql_CreateEmailIdentity E canonicalEmail userID)) (\<lambda>_.
     ret userID)))))"

definition owned_still :: "string \<Rightarrow> uuid \<Rightarrow> (db, unit) tx" where
  "owned_still canonicalEmail userID =
     bind_tx (query_one (IdentityError ErrIdentityMethodNotLinked) (\<lambda>E now. sql_LoadEmailIdentity canonicalEmail)) (\<lambda>currentOwner.
     require (currentOwner = userID) (IdentityError ErrIdentityMethodNotLinked))"

definition lock_user :: "uuid \<Rightarrow> (db, uuid) tx" where
  "lock_user userID = instead (IdentityError ErrUnauthenticated)
     (query_one (IdentityError ErrUnauthenticated) (\<lambda>E now. sql_LockUserForIdentityChange userID))"

definition open_session :: "uuid \<Rightarrow> uuid \<Rightarrow> string \<Rightarrow> (db, session_row) tx" where
  "open_session sessionID userID proofMethod =
     insert_row (\<lambda>E now. sql_CreateBrowserSession (new_session E sessionID userID proofMethod))"

definition completeEmailLogin :: "email_challenge_row \<Rightarrow> uuid \<Rightarrow> (db, session_row) tx" where
  "completeEmailLogin challenge sessionID =
     bind_tx advisory_lock (\<lambda>_.
     bind_tx (query (\<lambda>E now. sql_LoadEmailIdentity (ec_CanonicalEmail challenge))) (\<lambda>found.
     bind_tx (case found of
        None \<Rightarrow> first_login (ec_CanonicalEmail challenge)
      | Some userID \<Rightarrow> bind_tx (lock_user userID) (\<lambda>_. bind_tx (owned_still (ec_CanonicalEmail challenge) userID) (\<lambda>_. ret userID)))
     (\<lambda>userID. open_session sessionID userID EmailMethod)))"

definition completeEmailReauthentication :: "email_challenge_row \<Rightarrow> uuid \<Rightarrow> (db, session_row) tx" where
  "completeEmailReauthentication challenge sessionID =
     (let userID = uuidValue (ec_TargetUserID challenge); initiating = uuidValue (ec_InitiatingSessionID challenge) in
      bind_tx advisory_lock (\<lambda>_.
      bind_tx (owned_still (ec_CanonicalEmail challenge) userID) (\<lambda>_.
      bind_tx (lock_user userID) (\<lambda>_.
      bind_tx (loadIdentitySession userID initiating False) (\<lambda>_.
      bind_tx (owned_still (ec_CanonicalEmail challenge) userID) (\<lambda>_.
      bind_tx (instead (IdentityError ErrUnauthenticated) (modify (\<lambda>E now. sql_RevokeExactBrowserSession now initiating))) (\<lambda>rows.
      bind_tx (require (rows = 1) (IdentityError ErrUnauthenticated)) (\<lambda>_.
      open_session sessionID userID EmailMethod))))))))"

definition completeEmailLink :: "email_challenge_row \<Rightarrow> uuid \<Rightarrow> (db, session_row) tx" where
  "completeEmailLink challenge sessionID =
     (let userID = uuidValue (ec_TargetUserID challenge) in
      bind_tx advisory_lock (\<lambda>_.
      bind_tx (query (\<lambda>E now. sql_LoadEmailIdentity (ec_CanonicalEmail challenge))) (\<lambda>candidate.
      bind_tx (lock_user userID) (\<lambda>_.
      bind_tx (loadIdentitySession userID (uuidValue (ec_InitiatingSessionID challenge)) True) (\<lambda>_.
      bind_tx (query (\<lambda>E now. sql_LoadEmailMethodForUser userID)) (\<lambda>linked.
      bind_tx (require (linked = None) (IdentityError ErrIdentityMethodAlreadyLinked)) (\<lambda>_.
      bind_tx (require (candidate = None) (IdentityError
        (if candidate = Some userID then ErrIdentityMethodAlreadyLinked else ErrIdentityMethodOccupied))) (\<lambda>_.
      bind_tx (insert_row (\<lambda>E now. sql_CreateEmailIdentity E (ec_CanonicalEmail challenge) userID)) (\<lambda>_.
      bind_tx (modify (\<lambda>E now. sql_RevokeUserBrowserSessions now userID)) (\<lambda>_.
      open_session sessionID userID EmailMethod))))))))))"

section \<open>Verifying\<close>

definition browserSession :: "session_row \<Rightarrow> string \<Rightarrow> string \<Rightarrow> browser_session" where
  "browserSession row purpose proofMethod = \<lparr>brs_SessionID = bs_SessionID row, brs_UserID = bs_UserID row,
     brs_ExpiresAt = bs_ExpiresAt row, brs_IdentityProvedAt = bs_IdentityProvedAt row,
     brs_IdentityProofMethod = proofMethod, brs_Purpose = purpose, brs_InvitationID = []\<rparr>"

definition loadEmailBrowserSession :: "email_challenge_row \<Rightarrow> (db, browser_session) tx" where
  "loadEmailBrowserSession challenge =
     bind_tx (require (ec_BrowserSessionID challenge \<noteq> None) MissingArgument) (\<lambda>_.
     bind_tx (query_one (IdentityError ErrUnauthenticated)
       (\<lambda>E now. sql_LoadActiveBrowserSessionByID (uuidValue (ec_BrowserSessionID challenge)) E)) (\<lambda>session.
     ret (browserSession session (ec_Purpose challenge) EmailMethod)))"

definition validVerifyEmailTarget :: "env \<Rightarrow> string \<Rightarrow> string \<Rightarrow> bool" where
  "validVerifyEmailTarget E purpose initiatingSessionID \<longleftrightarrow>
     (if purpose = LoginPurpose then initiatingSessionID = []
      else (purpose = ReauthenticatePurpose \<or> purpose = LinkPurpose) \<and> uuid_valid E initiatingSessionID)"

definition usable :: "email_challenge_row \<Rightarrow> timestamp \<Rightarrow> bool" where
  "usable challenge now \<longleftrightarrow> ec_InvalidatedAt challenge = None \<and> ec_ConsumedAt challenge = None \<and> ec_ExpiresAt challenge > now
     \<and> ec_AttemptsUsed challenge < EmailCodeAttemptLimit \<and> ec_SubmissionState challenge \<noteq> EmailSubmissionRejected"

definition replay_attempt :: "verify_challenge_command \<Rightarrow> email_challenge_row \<Rightarrow> email_attempt_row \<Rightarrow> (db, carry_error + browser_session) tx" where
  "replay_attempt command challenge attempt =
     bind_tx (require (ea_RequestDigest attempt = vec_RequestDigest command) (IdentityError ErrIdentityConflict)) (\<lambda>_.
     bind_tx (require (ea_Result attempt = ''succeeded'') (IdentityError ErrInvalidCode)) (\<lambda>_.
     bind_tx (loadEmailBrowserSession challenge) (\<lambda>session. ret (Inr session))))"

definition refuse_code :: "verify_challenge_command \<Rightarrow> (db, carry_error + browser_session) tx" where
  "refuse_code command =
     bind_tx (insert_row (\<lambda>E now. sql_RecordInvalidEmailAttempt E (vec_ChallengeID command) (vec_IdempotencyKey command) (vec_RequestDigest command))) (\<lambda>_.
     bind_tx (modify (\<lambda>E now. sql_SpendEmailChallengeAttempt (vec_ChallengeID command))) (\<lambda>rows.
     bind_tx (require (rows = 1) (IdentityError ErrInvalidCode)) (\<lambda>_.
     ret (Inl (IdentityError ErrInvalidCode)))))"

definition complete_proof :: "string \<Rightarrow> email_challenge_row \<Rightarrow> uuid \<Rightarrow> (db, session_row) tx" where
  "complete_proof purpose challenge sessionID =
     (if purpose = LoginPurpose then completeEmailLogin challenge sessionID
      else if purpose = ReauthenticatePurpose then completeEmailReauthentication challenge sessionID
      else if purpose = LinkPurpose then completeEmailLink challenge sessionID
      else fail (IdentityError ErrInvalidCode))"

definition accept_code :: "verify_challenge_command \<Rightarrow> string \<Rightarrow> email_challenge_row \<Rightarrow> (db, carry_error + browser_session) tx" where
  "accept_code command purpose challenge =
     bind_tx (complete_proof purpose challenge (vec_SessionID command)) (\<lambda>created.
     bind_tx (postgresUUID MissingArgument (bs_UserID created)) (\<lambda>userUUID.
     bind_tx (postgresUUID MissingArgument (bs_SessionID created)) (\<lambda>sessionUUID.
     bind_tx (modify (\<lambda>E now. sql_ConsumeEmailChallenge E userUUID sessionUUID (vec_ChallengeID command))) (\<lambda>rows.
     bind_tx (require (rows = 1) (IdentityError ErrInvalidCode)) (\<lambda>_.
     bind_tx (insert_row (\<lambda>E now. sql_RecordSuccessfulEmailAttempt E (vec_ChallengeID command) (vec_IdempotencyKey command) (vec_RequestDigest command))) (\<lambda>_.
     ret (Inr (browserSession created purpose EmailMethod))))))))"

definition VerifyEmailChallenge_tx :: "verify_challenge_command \<Rightarrow> string \<Rightarrow> (db, carry_error + browser_session) tx" where
  "VerifyEmailChallenge_tx command purpose =
     bind_tx (query_one (IdentityError ErrInvalidCode) (\<lambda>E now. sql_LockEmailChallenge (vec_ChallengeID command))) (\<lambda>challenge.
     bind_tx (require (ec_Purpose challenge = purpose \<and> uuidValue (ec_InitiatingSessionID challenge) = vec_InitiatingSessionID command)
       (IdentityError ErrInvalidCode)) (\<lambda>_.
     bind_tx (query (\<lambda>E now. sql_LoadEmailAttempt (vec_ChallengeID command) (vec_IdempotencyKey command))) (\<lambda>found.
     case found of
       Some attempt \<Rightarrow> replay_attempt command challenge attempt
     | None \<Rightarrow>
         bind_tx (query (\<lambda>E now. sql_EmailLoginDatabaseTime E)) (\<lambda>databaseTime.
         bind_tx (require (usable challenge databaseTime) (IdentityError ErrInvalidCode)) (\<lambda>_.
         if ec_CodeDigest challenge \<noteq> vec_CodeDigest command then refuse_code command
         else accept_code command purpose challenge)))))"

definition valid_verify_command :: "env \<Rightarrow> verify_challenge_command \<Rightarrow> bool" where
  "valid_verify_command E command \<longleftrightarrow> uuid_valid E (vec_ChallengeID command) \<and> uuid_valid E (vec_SessionID command)
     \<and> trim_space (vec_IdempotencyKey command) \<noteq> [] \<and> length (vec_IdempotencyKey command) \<le> 255
     \<and> validVerifyEmailTarget E (purpose_of (vec_Purpose command)) (vec_InitiatingSessionID command)"

definition VerifyEmailChallenge :: "verify_challenge_command \<Rightarrow> env \<Rightarrow> db \<Rightarrow> (carry_error + browser_session) \<times> db" where
  "VerifyEmailChallenge command E = checked (guard (valid_verify_command E command) (IdentityError ErrInvalidCode))
     (\<lambda>_. transact_answer (VerifyEmailChallenge_tx command (purpose_of (vec_Purpose command)))) E"

end
