(* ===== verification/Identity_Methods.thy ===== *)
theory Identity_Methods
  imports Email_Store
begin

text \<open>
  A User's sign-in methods (\<open>internal/postgres/identity_methods.go\<close>, \<open>dbsqlc/identity_methods.sql.go\<close>, the
  lookups of \<open>dbsqlc/external_login.sql.go\<close> they use): listing them, the address that may confirm a
  Session, and unlinking one, which ends every Session of the User but the replacement.
\<close>

section \<open>Statements\<close>

definition count_methods :: "uuid \<Rightarrow> db \<Rightarrow> int" where
  "count_methods userID d = count_where (\<lambda>e. ei_UserID e = userID) (email_identities d)
     + count_where (\<lambda>g. gg_UserID g = userID) (google_identities d) + count_where (\<lambda>g. gh_UserID g = userID) (github_identities d)"

definition sql_CountIdentityMethods :: "uuid \<Rightarrow> db \<Rightarrow> int" where
  "sql_CountIdentityMethods userID d = count_methods userID d"

definition sql_LoadIdentityMethods :: "uuid \<Rightarrow> db \<Rightarrow> bool \<times> bool \<times> bool" where
  "sql_LoadIdentityMethods userID d =
     (exists_where (\<lambda>e. ei_UserID e = userID) (email_identities d), exists_where (\<lambda>g. gg_UserID g = userID) (google_identities d),
      exists_where (\<lambda>g. gh_UserID g = userID) (github_identities d))"

definition sql_DeleteEmailMethod :: "uuid \<Rightarrow> db \<Rightarrow> int \<times> db" where
  "sql_DeleteEmailMethod userID d = (count_where (\<lambda>e. ei_UserID e = userID) (email_identities d),
     d\<lparr>email_identities := filter (\<lambda>e. ei_UserID e \<noteq> userID) (email_identities d)\<rparr>)"

definition sql_DeleteGoogleMethod :: "uuid \<Rightarrow> db \<Rightarrow> int \<times> db" where
  "sql_DeleteGoogleMethod userID d = (count_where (\<lambda>g. gg_UserID g = userID) (google_identities d),
     d\<lparr>google_identities := filter (\<lambda>g. gg_UserID g \<noteq> userID) (google_identities d)\<rparr>)"

definition sql_DeleteGitHubMethod :: "uuid \<Rightarrow> db \<Rightarrow> int \<times> db" where
  "sql_DeleteGitHubMethod userID d = (count_where (\<lambda>g. gh_UserID g = userID) (github_identities d),
     d\<lparr>github_identities := filter (\<lambda>g. gh_UserID g \<noteq> userID) (github_identities d)\<rparr>)"

definition sql_LoadGoogleMethodForUser :: "uuid \<Rightarrow> db \<Rightarrow> (string \<times> string) option" where
  "sql_LoadGoogleMethodForUser userID d =
     map_option (\<lambda>g. (gg_Issuer g, gg_Subject g)) (first_where (\<lambda>g. gg_UserID g = userID) (google_identities d))"

definition sql_LoadGitHubMethodForUser :: "uuid \<Rightarrow> db \<Rightarrow> int option" where
  "sql_LoadGitHubMethodForUser userID d = map_option gh_GithubUserID (first_where (\<lambda>g. gh_UserID g = userID) (github_identities d))"

definition sql_LoadGoogleIdentity :: "string \<Rightarrow> string \<Rightarrow> db \<Rightarrow> uuid option" where
  "sql_LoadGoogleIdentity issuer subject d =
     map_option gg_UserID (first_where (\<lambda>g. gg_Issuer g = issuer \<and> gg_Subject g = subject) (google_identities d))"

definition sql_LoadGitHubIdentity :: "int \<Rightarrow> db \<Rightarrow> uuid option" where
  "sql_LoadGitHubIdentity githubUserID d = map_option gh_UserID (first_where (\<lambda>g. gh_GithubUserID g = githubUserID) (github_identities d))"

definition unlink_key :: "unlink_row \<Rightarrow> uuid \<times> string" where
  "unlink_key u = (ul_InitiatingSessionID u, ul_IdempotencyKey u)"

definition sql_LoadIdentityMethodUnlinkReplay :: "uuid \<Rightarrow> string \<Rightarrow> db \<Rightarrow> unlink_row option" where
  "sql_LoadIdentityMethodUnlinkReplay sessionID key d =
     first_where (\<lambda>u. ul_InitiatingSessionID u = sessionID \<and> ul_IdempotencyKey u = key) (identity_method_unlinks d)"

definition new_unlink :: "env \<Rightarrow> uuid \<Rightarrow> unlink_identity_command \<Rightarrow> unlink_row" where
  "new_unlink E userID command = \<lparr>ul_UserID = userID, ul_InitiatingSessionID = uli_InitiatingSessionID command,
     ul_Method = uli_Method command, ul_IdempotencyKey = uli_IdempotencyKey command, ul_RequestDigest = uli_RequestDigest command,
     ul_ReplacementSessionID = uli_ReplacementSessionID command, ul_CompletedAt = tx_time E\<rparr>"

definition sql_RecordIdentityMethodUnlink :: "unlink_row \<Rightarrow> db \<Rightarrow> db_error + (unit \<times> db)" where
  "sql_RecordIdentityMethodUnlink u d =
     (if \<not> validMethod (ul_Method u) \<or> ul_IdempotencyKey u = [] \<or> length (ul_IdempotencyKey u) > 255 \<or> length (ul_RequestDigest u) \<noteq> 32
      then Inl (Check_violation ''identity_method_unlinks'')
      else if key_taken unlink_key (\<lambda>_. True) (unlink_key u) (identity_method_unlinks d)
      then Inl (Unique_violation ''identity_method_unlinks_pkey'')
      else Inr ((), d\<lparr>identity_method_unlinks := identity_method_unlinks d @ [u]\<rparr>))"

section \<open>Listing\<close>

definition methods_of :: "bool \<times> bool \<times> bool \<Rightarrow> string list" where
  "methods_of l = (case l of (email, google, github) \<Rightarrow>
     (if email then [EmailMethod] else []) @ (if google then [GoogleMethod] else []) @ (if github then [GitHubMethod] else []))"

definition ListIdentityMethods :: "uuid \<Rightarrow> uuid \<Rightarrow> env \<Rightarrow> db \<Rightarrow> (carry_error + identity_methods) \<times> db" where
  "ListIdentityMethods userID sessionID = transact
     (bind_tx (loadIdentitySession userID sessionID False) (\<lambda>(session, databaseTime).
      bind_tx (query (\<lambda>E now. sql_LoadIdentityMethods userID)) (\<lambda>listed.
      ret \<lparr>idm_Methods = methods_of listed,
           idm_ReauthenticationRequired = (\<not> bs_IdentityProvedAt session + IdentityProofLifetime > databaseTime)\<rparr>)))"

definition EmailForReauthentication :: "uuid \<Rightarrow> uuid \<Rightarrow> env \<Rightarrow> db \<Rightarrow> (carry_error + string) \<times> db" where
  "EmailForReauthentication userID sessionID = transact
     (bind_tx (loadIdentitySession userID sessionID False) (\<lambda>_.
      query_one (IdentityError ErrIdentityMethodNotLinked) (\<lambda>E now. sql_LoadEmailMethodForUser userID)))"

section \<open>The key of a method\<close>

record identity_method_key =
  ik_method :: string
  ik_email :: string
  ik_googleIssuer :: string
  ik_googleSub :: string
  ik_githubID :: int

definition method_key :: "string \<Rightarrow> identity_method_key" where
  "method_key method = \<lparr>ik_method = method, ik_email = [], ik_googleIssuer = [], ik_googleSub = [], ik_githubID = 0\<rparr>"

abbreviation not_linked :: carry_error where
  "not_linked \<equiv> IdentityError ErrIdentityMethodNotLinked"

definition lock_method_owner :: "uuid \<Rightarrow> string \<Rightarrow> (db, identity_method_key \<times> uuid) tx" where
  "lock_method_owner userID method =
     (if method = EmailMethod then
        bind_tx (query_one not_linked (\<lambda>E now. sql_LoadEmailMethodForUser userID)) (\<lambda>email.
        bind_tx advisory_lock (\<lambda>_.
        bind_tx (query_one not_linked (\<lambda>E now. sql_LoadEmailIdentity email)) (\<lambda>owner.
        ret ((method_key method)\<lparr>ik_email := email\<rparr>, owner))))
      else if method = GoogleMethod then
        bind_tx (query_one not_linked (\<lambda>E now. sql_LoadGoogleMethodForUser userID)) (\<lambda>(issuer, subject).
        bind_tx advisory_lock (\<lambda>_.
        bind_tx (query_one not_linked (\<lambda>E now. sql_LoadGoogleIdentity issuer subject)) (\<lambda>owner.
        ret ((method_key method)\<lparr>ik_googleIssuer := issuer, ik_googleSub := subject\<rparr>, owner))))
      else if method = GitHubMethod then
        bind_tx (query_one not_linked (\<lambda>E now. sql_LoadGitHubMethodForUser userID)) (\<lambda>githubID.
        bind_tx advisory_lock (\<lambda>_.
        bind_tx (query_one not_linked (\<lambda>E now. sql_LoadGitHubIdentity githubID)) (\<lambda>owner.
        ret ((method_key method)\<lparr>ik_githubID := githubID\<rparr>, owner))))
      else fail not_linked)"

definition lockIdentityMethodKey :: "uuid \<Rightarrow> string \<Rightarrow> (db, identity_method_key) tx" where
  "lockIdentityMethodKey userID method =
     bind_tx (lock_method_owner userID method) (\<lambda>(key, owner).
     bind_tx (require (owner = userID) not_linked) (\<lambda>_. ret key))"

definition revalidateIdentityMethodKey :: "uuid \<Rightarrow> identity_method_key \<Rightarrow> (db, unit) tx" where
  "revalidateIdentityMethodKey userID key =
     (if ik_method key = EmailMethod then
        bind_tx (query_one not_linked (\<lambda>E now. sql_LoadEmailMethodForUser userID)) (\<lambda>email.
        require (email = ik_email key) not_linked)
      else if ik_method key = GoogleMethod then
        bind_tx (query_one not_linked (\<lambda>E now. sql_LoadGoogleMethodForUser userID)) (\<lambda>google.
        require (google = (ik_googleIssuer key, ik_googleSub key)) not_linked)
      else if ik_method key = GitHubMethod then
        bind_tx (query_one not_linked (\<lambda>E now. sql_LoadGitHubMethodForUser userID)) (\<lambda>githubID.
        require (githubID = ik_githubID key) not_linked)
      else fail not_linked)"

section \<open>Unlinking\<close>

definition replay_unlink :: "unlink_identity_command \<Rightarrow> unlink_row \<Rightarrow> (db, browser_session) tx" where
  "replay_unlink command replay =
     bind_tx (require (ul_Method replay = uli_Method command \<and> ul_RequestDigest replay = uli_RequestDigest command)
       (IdentityError ErrIdentityConflict)) (\<lambda>_.
     bind_tx (query_one (IdentityError ErrUnauthenticated)
       (\<lambda>E now. sql_LoadActiveBrowserSessionByID (ul_ReplacementSessionID replay) E)) (\<lambda>session.
     ret (browserSession session LinkPurpose (bs_IdentityProofMethod session))))"

definition delete_method :: "uuid \<Rightarrow> string \<Rightarrow> (db, int) tx" where
  "delete_method userID method =
     (if method = EmailMethod then modify (\<lambda>E now. sql_DeleteEmailMethod userID)
      else if method = GoogleMethod then modify (\<lambda>E now. sql_DeleteGoogleMethod userID)
      else if method = GitHubMethod then modify (\<lambda>E now. sql_DeleteGitHubMethod userID)
      else fail not_linked)"

text \<open>The Session that asks, the key of the method and the rules that keep the User able to sign in.\<close>

definition unlink_authority :: "unlink_identity_command \<Rightarrow> (db, session_row) tx" where
  "unlink_authority command =
     bind_tx (query_one (IdentityError ErrUnauthenticated) (\<lambda>E now. sql_LoadBrowserSessionByID (uli_InitiatingSessionID command))) (\<lambda>initiating.
     bind_tx (lockIdentityMethodKey (bs_UserID initiating) (uli_Method command)) (\<lambda>methodKey.
     bind_tx (query_one (IdentityError ErrUnauthenticated) (\<lambda>E now. sql_LockUserForIdentityChange (bs_UserID initiating))) (\<lambda>_.
     bind_tx (loadIdentitySession (bs_UserID initiating) (uli_InitiatingSessionID command) True) (\<lambda>(lockedInitiating, _).
     bind_tx (revalidateIdentityMethodKey (bs_UserID initiating) methodKey) (\<lambda>_.
     bind_tx (query (\<lambda>E now. sql_CountIdentityMethods (bs_UserID initiating))) (\<lambda>count.
     bind_tx (require (1 < count) (IdentityError ErrLastIdentityMethod)) (\<lambda>_.
     bind_tx (require (bs_IdentityProofMethod lockedInitiating \<noteq> uli_Method command) (IdentityError ErrRecentIdentityProofRequired)) (\<lambda>_.
     ret lockedInitiating))))))))"

definition unlink_now :: "unlink_identity_command \<Rightarrow> session_row \<Rightarrow> (db, browser_session) tx" where
  "unlink_now command initiating =
     bind_tx (delete_method (bs_UserID initiating) (uli_Method command)) (\<lambda>removed.
     bind_tx (require (removed = 1) not_linked) (\<lambda>_.
     bind_tx (modify (\<lambda>E now. sql_RevokeUserBrowserSessions now (bs_UserID initiating))) (\<lambda>_.
     bind_tx (open_session (uli_ReplacementSessionID command) (bs_UserID initiating) (bs_IdentityProofMethod initiating)) (\<lambda>created.
     bind_tx (insert_row (\<lambda>E now. sql_RecordIdentityMethodUnlink (new_unlink E (bs_UserID initiating) command))) (\<lambda>_.
     ret (browserSession created LinkPurpose (bs_IdentityProofMethod initiating)))))))"

definition UnlinkIdentityMethod_tx :: "unlink_identity_command \<Rightarrow> (db, browser_session) tx" where
  "UnlinkIdentityMethod_tx command =
     bind_tx (query (\<lambda>E now. sql_LoadIdentityMethodUnlinkReplay (uli_InitiatingSessionID command) (uli_IdempotencyKey command))) (\<lambda>found.
     case found of
       Some replay \<Rightarrow> replay_unlink command replay
     | None \<Rightarrow> bind_tx (unlink_authority command) (\<lambda>initiating. unlink_now command initiating))"

definition valid_unlink :: "env \<Rightarrow> unlink_identity_command \<Rightarrow> bool" where
  "valid_unlink E command \<longleftrightarrow> uuid_valid E (uli_InitiatingSessionID command) \<and> uuid_valid E (uli_ReplacementSessionID command)
     \<and> trim_space (uli_IdempotencyKey command) \<noteq> [] \<and> length (uli_IdempotencyKey command) \<le> 255"

definition UnlinkIdentityMethod :: "unlink_identity_command \<Rightarrow> env \<Rightarrow> db \<Rightarrow> (carry_error + browser_session) \<times> db" where
  "UnlinkIdentityMethod command E = checked (guard (valid_unlink E command) (IdentityError ErrUnauthenticated))
     (\<lambda>_. transact (UnlinkIdentityMethod_tx command)) E"

end
