(* ===== verification/External_Rules.thy ===== *)
theory External_Rules
  imports Identity_Methods
begin

text \<open>
  The rules of external login (\<open>internal/identity/external_login.go\<close>): the limits, the state and the
  Browser credential that bind a sign-in to one transaction, the PKCE values, the commands and results.
\<close>

section \<open>Vocabulary\<close>

definition ExternalLoginSourceAdmissionLimit :: int where "ExternalLoginSourceAdmissionLimit = 20"
definition ExternalLoginGlobalAdmissionLimit :: int where "ExternalLoginGlobalAdmissionLimit = 10000"

definition GoogleLoginProvider :: string where "GoogleLoginProvider = ''google''"
definition GitHubLoginProvider :: string where "GitHubLoginProvider = ''github''"

definition ExternalCallbackCode :: string where "ExternalCallbackCode = ''code''"
definition ExternalCallbackDenied :: string where "ExternalCallbackDenied = ''denied''"
definition ExternalCallbackUnavailable :: string where "ExternalCallbackUnavailable = ''unavailable''"

lemmas outcome_defs = ExternalCallbackCode_def ExternalCallbackDenied_def ExternalCallbackUnavailable_def
lemmas provider_defs = GoogleLoginProvider_def GitHubLoginProvider_def

definition validExternalLoginProvider :: "string \<Rightarrow> bool" where
  "validExternalLoginProvider provider \<longleftrightarrow> provider = GoogleLoginProvider \<or> provider = GitHubLoginProvider"

definition google_issuer :: string where "google_issuer = ''https://accounts.google.com''"

section \<open>Commands and results\<close>

record google_proof =
  gp_Issuer :: string
  gp_Subject :: string

record create_external_command =
  cec_TransactionID :: uuid
  cec_Provider :: string
  cec_InvitationID :: string
  cec_SourceDigest :: bytes

record create_proof_command =
  cpc_TransactionID :: uuid
  cpc_Provider :: string
  cpc_Purpose :: string
  cpc_TargetUserID :: string
  cpc_InitiatingSessionID :: string

record claim_external_command =
  cxc_TransactionID :: uuid
  cxc_Provider :: string
  cxc_CallbackDigest :: bytes
  cxc_Outcome :: string

record external_claim =
  xcl_IsReplay :: bool
  xcl_Session :: "browser_session option"
  xcl_Purpose :: string
  xcl_InvitationID :: string

record complete_google_command =
  cgc_TransactionID :: uuid
  cgc_CallbackDigest :: bytes
  cgc_Issuer :: string
  cgc_Subject :: string
  cgc_SessionID :: uuid

record complete_github_command =
  chc_TransactionID :: uuid
  chc_CallbackDigest :: bytes
  chc_GitHubUserID :: int
  chc_SessionID :: uuid

record mark_unknown_command =
  mkc_TransactionID :: uuid
  mkc_Provider :: string
  mkc_CallbackDigest :: bytes

record external_start =
  xst_AuthorizationURL :: string
  xst_BrowserCredential :: string
  xst_ExpiresAt :: timestamp

record external_callback =
  xcb_State :: string
  xcb_BrowserCredential :: string
  xcb_Code :: string
  xcb_ExactResponse :: string
  xcb_Outcome :: string

text \<open>An error carries the purpose and the invitation of its sign-in where these are known.\<close>

definition ExternalProofFailure :: "string \<Rightarrow> string \<Rightarrow> carry_error \<Rightarrow> carry_error" where
  "ExternalProofFailure purpose invitationID cause =
     (if validProofPurpose purpose then externalProofFailure purpose invitationID cause else cause)"

fun ExternalProofFailurePurpose :: "carry_error \<Rightarrow> string option" where
  "ExternalProofFailurePurpose (externalProofFailure purpose invitationID cause) = Some purpose"
| "ExternalProofFailurePurpose _ = None"

fun ExternalProofFailureInvitationID :: "carry_error \<Rightarrow> string" where
  "ExternalProofFailureInvitationID (externalProofFailure purpose invitationID cause) = invitationID"
| "ExternalProofFailureInvitationID _ = []"

text \<open>\<open>errors.Is\<close> and \<open>errors.As\<close> look through the wrapping.\<close>

fun cause_of :: "carry_error \<Rightarrow> carry_error" where
  "cause_of (externalProofFailure purpose invitationID cause) = cause_of cause"
| "cause_of e = e"

definition knownExternalProofRejection :: "carry_error \<Rightarrow> bool" where
  "knownExternalProofRejection e \<longleftrightarrow> cause_of e \<in> {IdentityError ErrIdentityMethodOccupied, IdentityError ErrIdentityMethodAlreadyLinked,
     IdentityError ErrIdentityMethodNotLinked, IdentityError ErrRecentIdentityProofRequired, IdentityError ErrUnauthenticated}"

section \<open>Bindings\<close>

definition state_prefix :: string where "state_prefix = ''carry_oauth_state_''"
definition browser_prefix :: string where "browser_prefix = ''carry_oauth_browser_''"
definition state_label :: string where "state_label = ''carry/external-login-state/v1''"
definition browser_label :: string where "browser_label = ''carry/external-login-browser/v1''"

definition binding :: "bytes \<Rightarrow> string \<Rightarrow> string \<Rightarrow> uuid \<Rightarrow> string \<Rightarrow> string" where
  "binding root start label transactionID provider =
     start @ transactionID @ ''.'' @ b64_encode b64_url (keyed_digest root label [provider, transactionID])"

definition externalLoginBindings :: "env \<Rightarrow> bytes \<Rightarrow> uuid \<Rightarrow> string \<Rightarrow> carry_error + (string \<times> string)" where
  "externalLoginBindings E root transactionID provider =
     (if \<not> uuid_valid E transactionID \<or> \<not> validExternalLoginProvider provider then Inl MissingArgument
      else Inr (binding root state_prefix state_label transactionID provider,
                binding root browser_prefix browser_label transactionID provider))"

definition parseExternalLoginBinding :: "env \<Rightarrow> bytes \<Rightarrow> string \<Rightarrow> string \<Rightarrow> string \<Rightarrow> string \<Rightarrow> uuid option" where
  "parseExternalLoginBinding E root value start label provider =
     (if \<not> validExternalLoginProvider provider \<or> \<not> has_prefix start value then None
      else (case split_on (CHR ''.'') (drop (length start) value) of
              [transactionID, encoded] \<Rightarrow>
                if uuid_valid E transactionID \<and> b64_decode b64_url encoded = Some (keyed_digest root label [provider, transactionID])
                then Some transactionID else None
            | _ \<Rightarrow> None))"

definition ParseExternalLoginState :: "env \<Rightarrow> bytes \<Rightarrow> string \<Rightarrow> string \<Rightarrow> uuid option" where
  "ParseExternalLoginState E root value provider = parseExternalLoginBinding E root value state_prefix state_label provider"

definition ValidExternalLoginBrowserCredential :: "env \<Rightarrow> bytes \<Rightarrow> string \<Rightarrow> uuid \<Rightarrow> string \<Rightarrow> bool" where
  "ValidExternalLoginBrowserCredential E root value transactionID provider \<longleftrightarrow>
     parseExternalLoginBinding E root value browser_prefix browser_label provider = Some transactionID"

definition GoogleNonce :: "bytes \<Rightarrow> uuid \<Rightarrow> string" where
  "GoogleNonce root transactionID = b64_encode b64_url (keyed_digest root ''carry/google-oidc-nonce/v1'' [transactionID])"

definition externalLoginSourceDigest :: "bytes \<Rightarrow> string \<Rightarrow> bytes" where
  "externalLoginSourceDigest root source = keyed_digest root ''carry/external-login-source/v1'' [source]"

definition PKCEVerifier :: "bytes \<Rightarrow> uuid \<Rightarrow> string \<Rightarrow> string" where
  "PKCEVerifier root transactionID provider = b64_encode b64_url (keyed_digest root ''carry/external-login-pkce/v1'' [provider, transactionID])"

definition PKCEChallenge :: "bytes \<Rightarrow> uuid \<Rightarrow> string \<Rightarrow> string" where
  "PKCEChallenge root transactionID provider = b64_encode b64_url (sha256 (PKCEVerifier root transactionID provider))"

definition validExternalCallback :: "external_callback \<Rightarrow> bool" where
  "validExternalCallback callback \<longleftrightarrow>
     (if xcb_Outcome callback = ExternalCallbackCode then xcb_Code callback \<noteq> [] \<and> length (xcb_Code callback) \<le> 4096
      else if xcb_Outcome callback = ExternalCallbackDenied \<or> xcb_Outcome callback = ExternalCallbackUnavailable
      then xcb_Code callback = [] else False)"

definition valid_claim :: "env \<Rightarrow> claim_external_command \<Rightarrow> bool" where
  "valid_claim E command \<longleftrightarrow> uuid_valid E (cxc_TransactionID command) \<and> validExternalLoginProvider (cxc_Provider command)
     \<and> cxc_Outcome command \<in> {ExternalCallbackCode, ExternalCallbackDenied, ExternalCallbackUnavailable}"

section \<open>What holds of the bindings\<close>

lemma binding_roundtrip:
  assumes "uuid_valid E i" "validExternalLoginProvider p" "CHR ''.'' \<notin> set i"
  shows "parseExternalLoginBinding E root (binding root start label i p) start label p = Some i"
proof -
  let ?b = "b64_encode b64_url (keyed_digest root label [p, i])"
  have "split_on (CHR ''.'') (i @ CHR ''.'' # ?b) = [i, ?b]" by (rule split_on_two [OF assms(3) b64_encode_dotless])
  then show ?thesis using assms by (simp add: parseExternalLoginBinding_def binding_def b64_decode_encode has_prefix_def)
qed

text \<open>Whatever parses carries the digest of its transaction and provider under the root.\<close>

lemma split_on_single: "split_on c v = [y] \<Longrightarrow> v = y"
proof (induction v arbitrary: y)
  case (Cons x xs)
  show ?case
  proof (cases "split_on c xs")
    case Nil
    with Cons.prems show ?thesis by (cases xs) (auto split: if_split_asm list.splits)
  next
    case (Cons a as)
    with Cons.prems Cons.IH show ?thesis by (auto split: if_split_asm)
  qed
qed simp

lemma split_on_pair: "split_on c v = [x, y] \<Longrightarrow> v = x @ c # y"
  by (induction c v arbitrary: x y rule: split_on.induct) (auto split: list.splits if_split_asm dest: split_on_single)

lemma parsed_binding:
  assumes "parseExternalLoginBinding E root value start label p = Some i"
  shows "\<exists>b. value = start @ i @ CHR ''.'' # b \<and> b64_decode b64_url b = Some (keyed_digest root label [p, i])"
  using assms
  by (auto simp: parseExternalLoginBinding_def has_prefix_def split: if_split_asm list.splits
      dest!: split_on_pair) (metis append_eq_conv_conj append_take_drop_id)

end
