(* ===== verification/External_Store.thy ===== *)
theory External_Store
  imports External_Rules
begin

text \<open>
  External logins in the database (\<open>internal/postgres/external_login.go\<close>, \<open>dbsqlc/external_login.sql.go\<close>): a
  transaction is prepared, claimed by one response of the provider, and completed, rejected or marked unknown.
\<close>

section \<open>Statements\<close>

definition sql_ExternalLoginDatabaseTime :: "env \<Rightarrow> db \<Rightarrow> timestamp" where
  "sql_ExternalLoginDatabaseTime E d = tx_time E"

definition sql_DeleteExpiredExternalLogins :: "env \<Rightarrow> db \<Rightarrow> int \<times> db" where
  "sql_DeleteExpiredExternalLogins E d =
     (count_where (\<lambda>t. et_ExpiresAt t \<le> tx_time E) (external_login_transactions d),
      d\<lparr>external_login_transactions := filter (\<lambda>t. \<not> et_ExpiresAt t \<le> tx_time E) (external_login_transactions d)\<rparr>)"

definition live_login :: "env \<Rightarrow> external_transaction_row \<Rightarrow> bool" where
  "live_login E t \<longleftrightarrow> et_Purpose t = ''login'' \<and> et_Status t \<in> {''prepared'', ''exchanging''} \<and> et_ExpiresAt t > tx_time E"

definition sql_CountLiveExternalLogins :: "env \<Rightarrow> db \<Rightarrow> int" where
  "sql_CountLiveExternalLogins E d = count_where (live_login E) (external_login_transactions d)"

definition sql_CountLiveExternalLoginsForSource :: "bytes \<Rightarrow> env \<Rightarrow> db \<Rightarrow> int" where
  "sql_CountLiveExternalLoginsForSource sourceDigest E d =
     count_where (\<lambda>t. et_SourceDigest t = Some sourceDigest \<and> live_login E t) (external_login_transactions d)"

definition new_external :: "env \<Rightarrow> uuid \<Rightarrow> string \<Rightarrow> string \<Rightarrow> uuid option \<Rightarrow> uuid option \<Rightarrow> uuid option \<Rightarrow> bytes \<Rightarrow> external_transaction_row" where
  "new_external E transactionID provider purpose targetUserID initiatingSessionID invitationID sourceDigest =
     \<lparr>et_TransactionID = transactionID, et_Provider = provider, et_Status = ''prepared'', et_CallbackDigest = None,
      et_CreatedAt = tx_time E, et_ExpiresAt = tx_time E + minutes 10, et_CompletedAt = None, et_UserID = None,
      et_BrowserSessionID = None, et_Purpose = purpose, et_TargetUserID = targetUserID,
      et_InitiatingSessionID = initiatingSessionID, et_InvitationID = invitationID, et_SourceDigest = Some sourceDigest\<rparr>"

text \<open>The CHECK constraints on purpose, target, invitation and source.\<close>

definition external_columns_ok :: "external_transaction_row \<Rightarrow> bool" where
  "external_columns_ok t \<longleftrightarrow> validExternalLoginProvider (et_Provider t) \<and> validProofPurpose (et_Purpose t)
     \<and> (if et_Purpose t = LoginPurpose then et_TargetUserID t = None \<and> et_InitiatingSessionID t = None
        else et_TargetUserID t \<noteq> None \<and> et_InitiatingSessionID t \<noteq> None)
     \<and> (et_InvitationID t = None \<or> et_Purpose t = LoginPurpose) \<and> map_option length (et_SourceDigest t) = Some 32"

definition sql_CreateExternalLogin :: "external_transaction_row \<Rightarrow> db \<Rightarrow> db_error + (timestamp \<times> db)" where
  "sql_CreateExternalLogin t d =
     (if \<not> external_columns_ok t then Inl (Check_violation ''external_login_transactions'')
      else if key_taken et_TransactionID (\<lambda>_. True) (et_TransactionID t) (external_login_transactions d)
      then Inl (Unique_violation ''external_login_transactions_pkey'')
      else Inr (et_ExpiresAt t, d\<lparr>external_login_transactions := external_login_transactions d @ [t]\<rparr>))"

definition sql_LockExternalLogin :: "uuid \<Rightarrow> db \<Rightarrow> external_transaction_row option" where
  "sql_LockExternalLogin transactionID d = first_where (\<lambda>t. et_TransactionID t = transactionID) (external_login_transactions d)"

definition open_external :: "env \<Rightarrow> string \<Rightarrow> uuid \<Rightarrow> string \<Rightarrow> external_transaction_row \<Rightarrow> bool" where
  "open_external E status transactionID provider t \<longleftrightarrow> et_TransactionID t = transactionID \<and> et_Provider t = provider
     \<and> et_Status t = status \<and> et_ExpiresAt t > tx_time E"

definition exchanged :: "uuid \<Rightarrow> string \<Rightarrow> bytes \<Rightarrow> external_transaction_row \<Rightarrow> bool" where
  "exchanged transactionID provider callbackDigest t \<longleftrightarrow> et_TransactionID t = transactionID \<and> et_Provider t = provider
     \<and> et_Status t = ''exchanging'' \<and> et_CallbackDigest t = Some callbackDigest"

definition update_externals :: "(external_transaction_row \<Rightarrow> bool) \<Rightarrow> (external_transaction_row \<Rightarrow> external_transaction_row) \<Rightarrow> db \<Rightarrow> int \<times> db" where
  "update_externals P f d = (count_where P (external_login_transactions d),
     d\<lparr>external_login_transactions := update_where P f (external_login_transactions d)\<rparr>)"

definition claimed_external :: "bytes \<Rightarrow> external_transaction_row \<Rightarrow> external_transaction_row" where
  "claimed_external callbackDigest t = t\<lparr>et_Status := ''exchanging'', et_CallbackDigest := Some callbackDigest\<rparr>"

definition sql_ClaimExternalLoginExchange :: "env \<Rightarrow> bytes \<Rightarrow> uuid \<Rightarrow> string \<Rightarrow> db \<Rightarrow> int \<times> db" where
  "sql_ClaimExternalLoginExchange E callbackDigest transactionID provider =
     update_externals (open_external E ''prepared'' transactionID provider) (claimed_external callbackDigest)"

definition finished_external :: "env \<Rightarrow> string \<Rightarrow> bytes \<Rightarrow> external_transaction_row \<Rightarrow> external_transaction_row" where
  "finished_external E status callbackDigest t =
     t\<lparr>et_Status := status, et_CallbackDigest := Some callbackDigest, et_CompletedAt := Some (tx_time E)\<rparr>"

definition sql_FinishExternalLoginWithoutAuthority :: "env \<Rightarrow> string \<Rightarrow> bytes \<Rightarrow> uuid \<Rightarrow> string \<Rightarrow> db \<Rightarrow> int \<times> db" where
  "sql_FinishExternalLoginWithoutAuthority E status callbackDigest transactionID provider =
     update_externals (open_external E ''prepared'' transactionID provider) (finished_external E status callbackDigest)"

definition completed_external :: "env \<Rightarrow> uuid option \<Rightarrow> uuid option \<Rightarrow> external_transaction_row \<Rightarrow> external_transaction_row" where
  "completed_external E userID sessionID t = t\<lparr>et_Status := ''succeeded'', et_CompletedAt := Some (tx_time E), et_UserID := userID,
     et_BrowserSessionID := sessionID\<rparr>"

text \<open>The CHECK constraint of a succeeded transaction asks for its User and its Session.\<close>

definition sql_CompleteExternalLogin :: "env \<Rightarrow> uuid option \<Rightarrow> uuid option \<Rightarrow> uuid \<Rightarrow> string \<Rightarrow> bytes \<Rightarrow> db \<Rightarrow> db_error + (int \<times> db)" where
  "sql_CompleteExternalLogin E userID sessionID transactionID provider callbackDigest d =
     (let P = (\<lambda>t. exchanged transactionID provider callbackDigest t \<and> et_ExpiresAt t > tx_time E) in
      if (userID = None \<or> sessionID = None) \<and> exists_where P (external_login_transactions d)
      then Inl (Check_violation ''external_proof_result_check'')
      else Inr (update_externals P (completed_external E userID sessionID) d))"

definition settled_external :: "env \<Rightarrow> string \<Rightarrow> external_transaction_row \<Rightarrow> external_transaction_row" where
  "settled_external E status t = t\<lparr>et_Status := status, et_CompletedAt := Some (tx_time E)\<rparr>"

definition sql_MarkExternalLoginUnknown :: "env \<Rightarrow> uuid \<Rightarrow> string \<Rightarrow> bytes \<Rightarrow> db \<Rightarrow> int \<times> db" where
  "sql_MarkExternalLoginUnknown E transactionID provider callbackDigest =
     update_externals (exchanged transactionID provider callbackDigest) (settled_external E ''unknown'')"

definition sql_RejectExternalLogin :: "env \<Rightarrow> uuid \<Rightarrow> string \<Rightarrow> bytes \<Rightarrow> db \<Rightarrow> int \<times> db" where
  "sql_RejectExternalLogin E transactionID provider callbackDigest =
     update_externals (exchanged transactionID provider callbackDigest) (settled_external E ''rejected'')"

definition sql_CreateExternalLoginUser :: "env \<Rightarrow> uuid \<Rightarrow> string \<Rightarrow> db \<Rightarrow> db_error + (unit \<times> db)" where
  "sql_CreateExternalLoginUser E userID displayName d =
     (if key_taken u_UserID (\<lambda>_. True) userID (carry_users d) then Inl (Unique_violation ''carry_users_pkey'')
      else Inr ((), d\<lparr>carry_users := carry_users d @ [\<lparr>u_UserID = userID, u_DisplayName = displayName, u_CreatedAt = tx_time E\<rparr>]\<rparr>))"

definition sql_CreateGoogleIdentity :: "env \<Rightarrow> string \<Rightarrow> string \<Rightarrow> uuid \<Rightarrow> db \<Rightarrow> db_error + (unit \<times> db)" where
  "sql_CreateGoogleIdentity E issuer subject userID d =
     (if issuer \<noteq> google_issuer \<or> subject = [] \<or> length subject > 255 then Inl (Check_violation ''google_identities'')
      else if key_taken (\<lambda>g. (gg_Issuer g, gg_Subject g)) (\<lambda>_. True) (issuer, subject) (google_identities d)
      then Inl (Unique_violation ''google_identities_pkey'')
      else if key_taken gg_UserID (\<lambda>_. True) userID (google_identities d) then Inl (Unique_violation ''google_identities_user_id_key'')
      else if \<not> exists_where (\<lambda>u. u_UserID u = userID) (carry_users d) then Inl (Foreign_key_violation ''google_identities_user_id_fkey'')
      else Inr ((), d\<lparr>google_identities := google_identities d @
        [\<lparr>gg_Issuer = issuer, gg_Subject = subject, gg_UserID = userID, gg_VerifiedAt = tx_time E\<rparr>]\<rparr>))"

definition sql_CreateGitHubIdentity :: "env \<Rightarrow> int \<Rightarrow> uuid \<Rightarrow> db \<Rightarrow> db_error + (unit \<times> db)" where
  "sql_CreateGitHubIdentity E githubUserID userID d =
     (if githubUserID \<le> 0 then Inl (Check_violation ''github_identities_github_user_id_check'')
      else if key_taken gh_GithubUserID (\<lambda>_. True) githubUserID (github_identities d) then Inl (Unique_violation ''github_identities_pkey'')
      else if key_taken gh_UserID (\<lambda>_. True) userID (github_identities d) then Inl (Unique_violation ''github_identities_user_id_key'')
      else if \<not> exists_where (\<lambda>u. u_UserID u = userID) (carry_users d) then Inl (Foreign_key_violation ''github_identities_user_id_fkey'')
      else Inr ((), d\<lparr>github_identities := github_identities d @
        [\<lparr>gh_GithubUserID = githubUserID, gh_UserID = userID, gh_VerifiedAt = tx_time E\<rparr>]\<rparr>))"

section \<open>Starting\<close>

text \<open>The error of \<open>postgresUUID\<close> is ignored: a text that does not parse is stored as null.\<close>

definition lenientUUID :: "string \<Rightarrow> (db, uuid option) tx" where
  "lenientUUID value = ask (\<lambda>E. if value \<noteq> [] \<and> uuid_parse E value then Some value else None)"

definition valid_create :: "env \<Rightarrow> create_external_command \<Rightarrow> bool" where
  "valid_create E command \<longleftrightarrow> uuid_valid E (cec_TransactionID command) \<and> validExternalLoginProvider (cec_Provider command)
     \<and> (cec_InvitationID command = [] \<or> uuid_valid E (cec_InvitationID command))"

definition CreateExternalLogin_tx :: "create_external_command \<Rightarrow> (db, timestamp) tx" where
  "CreateExternalLogin_tx command =
     bind_tx advisory_lock (\<lambda>_.
     bind_tx advisory_lock (\<lambda>_.
     bind_tx (modify (\<lambda>E now. sql_DeleteExpiredExternalLogins E)) (\<lambda>_.
     bind_tx (query (\<lambda>E now. sql_CountLiveExternalLoginsForSource (cec_SourceDigest command) E)) (\<lambda>sourceCount.
     bind_tx (query (\<lambda>E now. sql_CountLiveExternalLogins E)) (\<lambda>globalCount.
     bind_tx (require (sourceCount < ExternalLoginSourceAdmissionLimit) (IdentityError ErrExternalLoginSourceAdmissionLimited)) (\<lambda>_.
     bind_tx (require (globalCount < ExternalLoginGlobalAdmissionLimit) (IdentityError ErrExternalLoginGlobalAdmissionLimited)) (\<lambda>_.
     bind_tx (lenientUUID (cec_InvitationID command)) (\<lambda>invitationID.
     insert_row (\<lambda>E now. sql_CreateExternalLogin (new_external E (cec_TransactionID command) (cec_Provider command) LoginPurpose
       None None invitationID (cec_SourceDigest command)))))))))))"

definition CreateExternalLogin :: "create_external_command \<Rightarrow> env \<Rightarrow> db \<Rightarrow> (carry_error + timestamp) \<times> db" where
  "CreateExternalLogin command E = checked (guard (valid_create E command) (IdentityError ErrExternalLoginInvalid))
     (\<lambda>_. transact (CreateExternalLogin_tx command)) E"

definition valid_proof :: "env \<Rightarrow> create_proof_command \<Rightarrow> bool" where
  "valid_proof E command \<longleftrightarrow> uuid_valid E (cpc_TransactionID command) \<and> validExternalLoginProvider (cpc_Provider command)
     \<and> cpc_Purpose command \<noteq> LoginPurpose
     \<and> validIdentityProofTarget E (cpc_Purpose command) (cpc_TargetUserID command) (cpc_InitiatingSessionID command)"

definition has_provider_method :: "string \<Rightarrow> uuid \<Rightarrow> db \<Rightarrow> bool" where
  "has_provider_method provider userID d \<longleftrightarrow>
     (if provider = GoogleLoginProvider then sql_LoadGoogleMethodForUser userID d \<noteq> None else sql_LoadGitHubMethodForUser userID d \<noteq> None)"

definition CreateExternalIdentityProof_tx :: "create_proof_command \<Rightarrow> (db, timestamp) tx" where
  "CreateExternalIdentityProof_tx command =
     bind_tx (query_one (IdentityError ErrUnauthenticated) (\<lambda>E now. sql_LockUserForIdentityChange (cpc_TargetUserID command))) (\<lambda>_.
     bind_tx (loadIdentitySession (cpc_TargetUserID command) (cpc_InitiatingSessionID command) (cpc_Purpose command = LinkPurpose)) (\<lambda>_.
     bind_tx (if cpc_Purpose command = ReauthenticatePurpose
        then bind_tx (query (\<lambda>E now. has_provider_method (cpc_Provider command) (cpc_TargetUserID command))) (\<lambda>linked.
             require linked not_linked)
        else ret ()) (\<lambda>_.
     bind_tx (lenientUUID (cpc_TargetUserID command)) (\<lambda>targetUserID.
     bind_tx (lenientUUID (cpc_InitiatingSessionID command)) (\<lambda>initiatingSessionID.
     insert_row (\<lambda>E now. sql_CreateExternalLogin (new_external E (cpc_TransactionID command) (cpc_Provider command) (cpc_Purpose command)
       targetUserID initiatingSessionID None (replicate 32 (CHR 0x00)))))))))"

definition CreateExternalIdentityProof :: "create_proof_command \<Rightarrow> env \<Rightarrow> db \<Rightarrow> (carry_error + timestamp) \<times> db" where
  "CreateExternalIdentityProof command E = checked (guard (valid_proof E command) (IdentityError ErrExternalLoginInvalid))
     (\<lambda>_. transact (CreateExternalIdentityProof_tx command)) E"

section \<open>Claiming\<close>

definition external_claim_of :: "external_transaction_row \<Rightarrow> external_claim" where
  "external_claim_of current = \<lparr>xcl_IsReplay = False, xcl_Session = None, xcl_Purpose = et_Purpose current,
     xcl_InvitationID = uuidValue (et_InvitationID current)\<rparr>"

text \<open>The code returns the claim beside an error; the model lets the error carry it, as its only caller does.\<close>

definition beside :: "external_transaction_row \<Rightarrow> carry_error \<Rightarrow> carry_error" where
  "beside current e = ExternalProofFailure (et_Purpose current) (uuidValue (et_InvitationID current)) e"

definition with_claim :: "external_transaction_row \<Rightarrow> (db, 'a) tx \<Rightarrow> (db, 'a) tx" where
  "with_claim current m = (\<lambda>E d n. case m E d n of Inl e \<Rightarrow> Inl (beside current e) | Inr r \<Rightarrow> Inr r)"

definition replay_external :: "external_transaction_row \<Rightarrow> (db, carry_error + external_claim) tx" where
  "replay_external current =
     bind_tx (require (et_BrowserSessionID current \<noteq> None) MissingArgument) (\<lambda>_.
     bind_tx (query_one (IdentityError ErrExternalLoginInvalid)
       (\<lambda>E now. sql_LoadActiveBrowserSessionByID (uuidValue (et_BrowserSessionID current)) E)) (\<lambda>session.
     ret (Inr ((external_claim_of current)\<lparr>xcl_IsReplay := True,
       xcl_Session := Some ((browserSession session (et_Purpose current) (et_Provider current))
         \<lparr>brs_InvitationID := uuidValue (et_InvitationID current)\<rparr>)\<rparr>))))"

definition expire_exchange :: "claim_external_command \<Rightarrow> external_transaction_row \<Rightarrow> timestamp \<Rightarrow> (db, carry_error + external_claim) tx" where
  "expire_exchange command current databaseTime =
     (if \<not> et_ExpiresAt current > databaseTime then
        bind_tx (modify (\<lambda>E now. sql_MarkExternalLoginUnknown E (cxc_TransactionID command) (cxc_Provider command) (cxc_CallbackDigest command))) (\<lambda>_.
        ret (Inl (beside current (IdentityError ErrExternalLoginUnavailable))))
      else fail (IdentityError ErrExternalLoginConflict))"

definition claim_prepared :: "claim_external_command \<Rightarrow> external_transaction_row \<Rightarrow> (db, carry_error + external_claim) tx" where
  "claim_prepared command current =
     (if cxc_Outcome command = ExternalCallbackCode then
        bind_tx (modify (\<lambda>E now. sql_ClaimExternalLoginExchange E (cxc_CallbackDigest command) (cxc_TransactionID command) (cxc_Provider command))) (\<lambda>rows.
        bind_tx (require (rows = 1) (IdentityError ErrExternalLoginInvalid)) (\<lambda>_.
        ret (Inr (external_claim_of current))))
      else
        (let status = if cxc_Outcome command = ExternalCallbackDenied then ''denied'' else ''unknown'';
             outcomeErr = if cxc_Outcome command = ExternalCallbackDenied then ErrExternalLoginDenied else ErrExternalLoginUnavailable in
        bind_tx (modify (\<lambda>E now. sql_FinishExternalLoginWithoutAuthority E status (cxc_CallbackDigest command)
          (cxc_TransactionID command) (cxc_Provider command))) (\<lambda>rows.
        bind_tx (require (rows = 1) (IdentityError ErrExternalLoginInvalid)) (\<lambda>_.
        ret (Inl (beside current (IdentityError outcomeErr)))))))"

definition claim_by_status :: "claim_external_command \<Rightarrow> external_transaction_row \<Rightarrow> timestamp \<Rightarrow> (db, carry_error + external_claim) tx" where
  "claim_by_status command current databaseTime =
     (let status = et_Status current in
      if status = ''succeeded'' then replay_external current
      else if status = ''denied'' then fail (IdentityError ErrExternalLoginDenied)
      else if status = ''rejected'' then fail (IdentityError ErrExternalLoginRejected)
      else if status = ''unknown'' then fail (IdentityError ErrExternalLoginUnavailable)
      else if status = ''exchanging'' then expire_exchange command current databaseTime
      else if status = ''prepared'' then
        bind_tx (require (et_ExpiresAt current > databaseTime) (IdentityError ErrExternalLoginInvalid)) (\<lambda>_. claim_prepared command current)
      else fail MissingArgument)"

definition ClaimExternalLogin_tx :: "claim_external_command \<Rightarrow> (db, carry_error + external_claim) tx" where
  "ClaimExternalLogin_tx command =
     bind_tx (query_one (IdentityError ErrExternalLoginInvalid) (\<lambda>E now. sql_LockExternalLogin (cxc_TransactionID command))) (\<lambda>current.
     bind_tx (require (et_Provider current = cxc_Provider command) (IdentityError ErrExternalLoginInvalid)) (\<lambda>_.
     with_claim current (
       bind_tx (require (case et_CallbackDigest current of None \<Rightarrow> True | Some g \<Rightarrow> g = [] \<or> g = cxc_CallbackDigest command)
         (IdentityError ErrExternalLoginConflict)) (\<lambda>_.
       bind_tx (query (\<lambda>E now. sql_ExternalLoginDatabaseTime E)) (\<lambda>databaseTime.
       claim_by_status command current databaseTime)))))"

definition ClaimExternalLogin :: "claim_external_command \<Rightarrow> env \<Rightarrow> db \<Rightarrow> (carry_error + external_claim) \<times> db" where
  "ClaimExternalLogin command E = checked (guard (valid_claim E command) (IdentityError ErrExternalLoginInvalid))
     (\<lambda>_. transact_answer (ClaimExternalLogin_tx command)) E"

section \<open>Completing\<close>

definition validateExternalCompletion :: "uuid \<Rightarrow> string \<Rightarrow> bytes \<Rightarrow> (db, external_transaction_row) tx" where
  "validateExternalCompletion transactionID provider callbackDigest =
     bind_tx (query_one (IdentityError ErrExternalLoginInvalid) (\<lambda>E now. sql_LockExternalLogin transactionID)) (\<lambda>current.
     bind_tx (require (et_Provider current = provider \<and> et_Status current = ''exchanging'' \<and> et_CallbackDigest current = Some callbackDigest)
       (IdentityError ErrExternalLoginConflict)) (\<lambda>_.
     bind_tx (query (\<lambda>E now. sql_ExternalLoginDatabaseTime E)) (\<lambda>databaseTime.
     bind_tx (require (et_ExpiresAt current > databaseTime) (IdentityError ErrExternalLoginUnavailable)) (\<lambda>_.
     ret current))))"

text \<open>What differs between the providers: whose the account is, whether a User has one, recording it.\<close>

record provider_ops =
  po_owner :: "db \<Rightarrow> uuid option"
  po_linked :: "uuid \<Rightarrow> db \<Rightarrow> bool"
  po_create :: "env \<Rightarrow> uuid \<Rightarrow> db \<Rightarrow> db_error + (unit \<times> db)"

definition google_ops :: "string \<Rightarrow> string \<Rightarrow> provider_ops" where
  "google_ops issuer subject = \<lparr>po_owner = sql_LoadGoogleIdentity issuer subject,
     po_linked = (\<lambda>userID d. sql_LoadGoogleMethodForUser userID d \<noteq> None),
     po_create = (\<lambda>E. sql_CreateGoogleIdentity E issuer subject)\<rparr>"

definition github_ops :: "int \<Rightarrow> provider_ops" where
  "github_ops githubUserID = \<lparr>po_owner = sql_LoadGitHubIdentity githubUserID,
     po_linked = (\<lambda>userID d. sql_LoadGitHubMethodForUser userID d \<noteq> None),
     po_create = (\<lambda>E. sql_CreateGitHubIdentity E githubUserID)\<rparr>"

text \<open>A statement whose error the code looks at later.\<close>

definition observed :: "(db, 'a) tx \<Rightarrow> (db, carry_error + 'a) tx" where
  "observed m = (\<lambda>E d n. case m E d n of Inl e \<Rightarrow> Inr (Inl e, d, Suc n) | Inr (x, d', n') \<Rightarrow> Inr (Inr x, d', n'))"

definition first_external_login :: "provider_ops \<Rightarrow> (db, uuid) tx" where
  "first_external_login ops =
     bind_tx (ask (\<lambda>E. fresh E 0)) (\<lambda>userID.
     bind_tx (ask (\<lambda>E. FallbackDisplayName E userID)) (\<lambda>named.
     bind_tx (lift named) (\<lambda>fallbackLabel.
     bind_tx (insert_row (\<lambda>E now. sql_CreateExternalLoginUser E userID fallbackLabel)) (\<lambda>_.
     bind_tx (insert_row (\<lambda>E now. po_create ops E userID)) (\<lambda>_.
     ret userID)))))"

definition provider_owned_still :: "provider_ops \<Rightarrow> uuid \<Rightarrow> (db, unit) tx" where
  "provider_owned_still ops userID =
     bind_tx (query_one not_linked (\<lambda>E now. po_owner ops)) (\<lambda>currentOwner. require (currentOwner = userID) not_linked)"

definition resolve_login :: "provider_ops \<Rightarrow> uuid option \<Rightarrow> (db, uuid) tx" where
  "resolve_login ops owner =
     (case owner of
        None \<Rightarrow> first_external_login ops
      | Some userID \<Rightarrow> bind_tx (lock_user userID) (\<lambda>_. bind_tx (provider_owned_still ops userID) (\<lambda>_. ret userID)))"

definition resolve_reauthentication :: "provider_ops \<Rightarrow> carry_error + uuid option \<Rightarrow> uuid \<Rightarrow> (db, uuid) tx" where
  "resolve_reauthentication ops owner userID =
     bind_tx (lift owner) (\<lambda>o1.
     bind_tx (require (o1 = Some userID) not_linked) (\<lambda>_.
     bind_tx (provider_owned_still ops userID) (\<lambda>_. ret userID)))"

definition resolve_link :: "provider_ops \<Rightarrow> carry_error + uuid option \<Rightarrow> uuid \<Rightarrow> (db, uuid) tx" where
  "resolve_link ops owner userID =
     bind_tx (query (\<lambda>E now. po_linked ops userID)) (\<lambda>linked.
     bind_tx (require (\<not> linked) (IdentityError ErrIdentityMethodAlreadyLinked)) (\<lambda>_.
     bind_tx (lift owner) (\<lambda>o1.
     bind_tx (require (o1 = None) (IdentityError
       (if o1 = Some userID then ErrIdentityMethodAlreadyLinked else ErrIdentityMethodOccupied))) (\<lambda>_.
     bind_tx (insert_row (\<lambda>E now. po_create ops E userID)) (\<lambda>_. ret userID)))))"

definition resolve_identity :: "provider_ops \<Rightarrow> external_transaction_row \<Rightarrow> (db, uuid) tx" where
  "resolve_identity ops current =
     (let purpose = et_Purpose current; userID = uuidValue (et_TargetUserID current) in
      bind_tx advisory_lock (\<lambda>_.
      bind_tx (observed (query (\<lambda>E now. po_owner ops))) (\<lambda>owner.
      if purpose = LoginPurpose then bind_tx (lift owner) (\<lambda>o1. resolve_login ops o1)
      else
        bind_tx (lock_user userID) (\<lambda>_.
        bind_tx (loadIdentitySession userID (uuidValue (et_InitiatingSessionID current)) (purpose = LinkPurpose)) (\<lambda>_.
        if purpose = ReauthenticatePurpose then resolve_reauthentication ops owner userID
        else if purpose = LinkPurpose then resolve_link ops owner userID
        else fail (IdentityError ErrExternalLoginInvalid))))))"

definition resolveGoogleIdentity :: "external_transaction_row \<Rightarrow> string \<Rightarrow> string \<Rightarrow> (db, uuid) tx" where
  "resolveGoogleIdentity current issuer subject = resolve_identity (google_ops issuer subject) current"

definition resolveGitHubIdentity :: "external_transaction_row \<Rightarrow> int \<Rightarrow> (db, uuid) tx" where
  "resolveGitHubIdentity current githubUserID = resolve_identity (github_ops githubUserID) current"

definition end_sessions :: "external_transaction_row \<Rightarrow> uuid \<Rightarrow> (db, unit) tx" where
  "end_sessions current userID =
     (if et_Purpose current = ReauthenticatePurpose then
        bind_tx (instead (IdentityError ErrUnauthenticated)
          (modify (\<lambda>E now. sql_RevokeExactBrowserSession now (uuidValue (et_InitiatingSessionID current))))) (\<lambda>rows.
        require (rows = 1) (IdentityError ErrUnauthenticated))
      else if et_Purpose current = LinkPurpose then
        bind_tx (modify (\<lambda>E now. sql_RevokeUserBrowserSessions now userID)) (\<lambda>_. ret ())
      else ret ())"

definition completeExternalProofTransaction :: "external_transaction_row \<Rightarrow> string \<Rightarrow> bytes \<Rightarrow> uuid \<Rightarrow> uuid \<Rightarrow> (db, browser_session) tx" where
  "completeExternalProofTransaction current provider callbackDigest sessionID userID =
     bind_tx (end_sessions current userID) (\<lambda>_.
     bind_tx (open_session sessionID userID provider) (\<lambda>created.
     bind_tx (lenientUUID userID) (\<lambda>userUUID.
     bind_tx (lenientUUID sessionID) (\<lambda>sessionUUID.
     bind_tx (insert_row (\<lambda>E now. sql_CompleteExternalLogin E userUUID sessionUUID (et_TransactionID current) provider callbackDigest)) (\<lambda>rows.
     bind_tx (require (rows = 1) (IdentityError ErrExternalLoginConflict)) (\<lambda>_.
     ret ((browserSession created (et_Purpose current) provider)\<lparr>brs_InvitationID := uuidValue (et_InvitationID current)\<rparr>)))))))"

definition complete_external :: "provider_ops \<Rightarrow> string \<Rightarrow> uuid \<Rightarrow> bytes \<Rightarrow> uuid \<Rightarrow> (db, browser_session) tx" where
  "complete_external ops provider transactionID callbackDigest sessionID =
     bind_tx (validateExternalCompletion transactionID provider callbackDigest) (\<lambda>current.
     bind_tx (resolve_identity ops current) (\<lambda>userID.
     completeExternalProofTransaction current provider callbackDigest sessionID userID))"

definition valid_google :: "env \<Rightarrow> complete_google_command \<Rightarrow> bool" where
  "valid_google E command \<longleftrightarrow> cgc_Issuer command = google_issuer \<and> trim_space (cgc_Subject command) \<noteq> []
     \<and> length (cgc_Subject command) \<le> 255 \<and> uuid_valid E (cgc_TransactionID command) \<and> uuid_valid E (cgc_SessionID command)"

definition CompleteGoogleLogin :: "complete_google_command \<Rightarrow> env \<Rightarrow> db \<Rightarrow> (carry_error + browser_session) \<times> db" where
  "CompleteGoogleLogin command E = checked (guard (valid_google E command) (IdentityError ErrExternalLoginInvalid))
     (\<lambda>_. transact (complete_external (google_ops (cgc_Issuer command) (cgc_Subject command)) GoogleLoginProvider
        (cgc_TransactionID command) (cgc_CallbackDigest command) (cgc_SessionID command))) E"

definition valid_github :: "env \<Rightarrow> complete_github_command \<Rightarrow> bool" where
  "valid_github E command \<longleftrightarrow> 0 < chc_GitHubUserID command \<and> uuid_valid E (chc_TransactionID command) \<and> uuid_valid E (chc_SessionID command)"

definition CompleteGitHubLogin :: "complete_github_command \<Rightarrow> env \<Rightarrow> db \<Rightarrow> (carry_error + browser_session) \<times> db" where
  "CompleteGitHubLogin command E = checked (guard (valid_github E command) (IdentityError ErrExternalLoginInvalid))
     (\<lambda>_. transact (complete_external (github_ops (chc_GitHubUserID command)) GitHubLoginProvider
        (chc_TransactionID command) (chc_CallbackDigest command) (chc_SessionID command))) E"

section \<open>Settling\<close>

definition valid_mark :: "env \<Rightarrow> mark_unknown_command \<Rightarrow> bool" where
  "valid_mark E command \<longleftrightarrow> uuid_valid E (mkc_TransactionID command) \<and> validExternalLoginProvider (mkc_Provider command)"

definition RejectExternalLogin :: "mark_unknown_command \<Rightarrow> env \<Rightarrow> db \<Rightarrow> (carry_error + unit) \<times> db" where
  "RejectExternalLogin command E = checked (guard (valid_mark E command) (IdentityError ErrExternalLoginInvalid))
     (\<lambda>_. transact (bind_tx (modify (\<lambda>E now. sql_RejectExternalLogin E (mkc_TransactionID command) (mkc_Provider command) (mkc_CallbackDigest command)))
        (\<lambda>rows. require (rows = 1) (IdentityError ErrExternalLoginConflict)))) E"

definition MarkExternalLoginUnknown :: "mark_unknown_command \<Rightarrow> env \<Rightarrow> db \<Rightarrow> (carry_error + unit) \<times> db" where
  "MarkExternalLoginUnknown command E = checked (guard (valid_mark E command) (IdentityError ErrExternalLoginInvalid))
     (\<lambda>_. transact (bind_tx (modify (\<lambda>E now. sql_MarkExternalLoginUnknown E (mkc_TransactionID command) (mkc_Provider command) (mkc_CallbackDigest command)))
        (\<lambda>_. ret ()))) E"


text \<open>
  The use cases of \<open>internal/identity/external_login.go\<close> around the store. The providers' clients are parameters.
  A callback calls the store up to four times; the \<open>k\<close>-th call finds the database as other
  transactions left it and runs in an environment of its own.
\<close>

record external_clients =
  google_authorization_url :: "string \<Rightarrow> string \<Rightarrow> string \<Rightarrow> string"
  google_authenticate :: "string \<Rightarrow> string \<Rightarrow> string \<Rightarrow> google_proof option"
  github_authorization_url :: "string \<Rightarrow> string \<Rightarrow> string"
  github_authenticate :: "string \<Rightarrow> string \<Rightarrow> int option"

record external_login =
  xl_clients :: external_clients
  xl_root :: bytes

type_synonym calls = "nat \<Rightarrow> (db \<Rightarrow> db) \<times> env"

definition call :: "calls \<Rightarrow> nat \<Rightarrow> (env \<Rightarrow> db \<Rightarrow> (carry_error + 'a) \<times> db) \<Rightarrow> db \<Rightarrow> (carry_error + 'a) \<times> db" where
  "call W k m d = (case W k of (others, E) \<Rightarrow> m E (others d))"

section \<open>Starting\<close>

definition authorizationURL :: "external_login \<Rightarrow> string \<Rightarrow> uuid \<Rightarrow> string \<Rightarrow> string" where
  "authorizationURL login provider transactionID state =
     (if provider = GoogleLoginProvider then
        google_authorization_url (xl_clients login) state (GoogleNonce (xl_root login) transactionID)
          (PKCEChallenge (xl_root login) transactionID provider)
      else if provider = GitHubLoginProvider then
        github_authorization_url (xl_clients login) state (PKCEChallenge (xl_root login) transactionID provider)
      else [])"

definition authorizationStart :: "external_login \<Rightarrow> env \<Rightarrow> string \<Rightarrow> uuid \<Rightarrow> timestamp \<Rightarrow> carry_error + external_start" where
  "authorizationStart login E provider transactionID expiresAt =
     (case externalLoginBindings E (xl_root login) transactionID provider of
        Inl e \<Rightarrow> Inl e
      | Inr (state, cookie) \<Rightarrow> Inr \<lparr>xst_AuthorizationURL = authorizationURL login provider transactionID state,
          xst_BrowserCredential = cookie, xst_ExpiresAt = expiresAt\<rparr>)"

definition started :: "external_login \<Rightarrow> env \<Rightarrow> string \<Rightarrow> (carry_error + timestamp) \<times> db \<Rightarrow> (carry_error + external_start) \<times> db" where
  "started login E provider r = (case r of
     (Inl e, d) \<Rightarrow> (Inl e, d) | (Inr expiresAt, d) \<Rightarrow> (authorizationStart login E provider (fresh E 0) expiresAt, d))"

definition startLogin :: "external_login \<Rightarrow> string \<Rightarrow> string \<Rightarrow> string \<Rightarrow> env \<Rightarrow> db \<Rightarrow> (carry_error + external_start) \<times> db" where
  "startLogin login provider invitationID source E d =
     (if (invitationID \<noteq> [] \<and> \<not> uuid_valid E invitationID) \<or> trim_space source = [] then (Inl (IdentityError ErrExternalLoginInvalid), d)
      else started login E provider (CreateExternalLogin \<lparr>cec_TransactionID = fresh E 0, cec_Provider = provider,
        cec_InvitationID = invitationID, cec_SourceDigest = externalLoginSourceDigest (xl_root login) source\<rparr> E d))"

definition startIdentityProof :: "external_login \<Rightarrow> string \<Rightarrow> string \<Rightarrow> uuid \<Rightarrow> uuid \<Rightarrow> env \<Rightarrow> db \<Rightarrow> (carry_error + external_start) \<times> db" where
  "startIdentityProof login provider purpose userID sessionID E d =
     (if purpose \<noteq> ReauthenticatePurpose \<and> purpose \<noteq> LinkPurpose then (Inl (IdentityError ErrExternalLoginInvalid), d)
      else started login E provider (CreateExternalIdentityProof \<lparr>cpc_TransactionID = fresh E 0, cpc_Provider = provider,
        cpc_Purpose = purpose, cpc_TargetUserID = userID, cpc_InitiatingSessionID = sessionID\<rparr> E d))"

definition StartGoogle where "StartGoogle login = startLogin login GoogleLoginProvider"
definition StartGoogleReauthentication where "StartGoogleReauthentication login = startIdentityProof login GoogleLoginProvider ReauthenticatePurpose"
definition StartGoogleLink where "StartGoogleLink login = startIdentityProof login GoogleLoginProvider LinkPurpose"
definition StartGitHub where "StartGitHub login = startLogin login GitHubLoginProvider"
definition StartGitHubReauthentication where "StartGitHubReauthentication login = startIdentityProof login GitHubLoginProvider ReauthenticatePurpose"
definition StartGitHubLink where "StartGitHubLink login = startIdentityProof login GitHubLoginProvider LinkPurpose"

section \<open>The callback\<close>

definition completeGoogle :: "uuid \<Rightarrow> bytes \<Rightarrow> google_proof \<Rightarrow> env \<Rightarrow> db \<Rightarrow> (carry_error + browser_session) \<times> db" where
  "completeGoogle transactionID callbackDigest proof E d =
     (if gp_Issuer proof \<noteq> google_issuer \<or> trim_space (gp_Subject proof) = [] \<or> length (gp_Subject proof) > 255
      then (Inl (IdentityError ErrExternalLoginUnavailable), d)
      else CompleteGoogleLogin \<lparr>cgc_TransactionID = transactionID, cgc_CallbackDigest = callbackDigest, cgc_Issuer = gp_Issuer proof,
        cgc_Subject = gp_Subject proof, cgc_SessionID = fresh E 1\<rparr> E d)"

definition completeGitHub :: "uuid \<Rightarrow> bytes \<Rightarrow> int \<Rightarrow> env \<Rightarrow> db \<Rightarrow> (carry_error + browser_session) \<times> db" where
  "completeGitHub transactionID callbackDigest githubUserID E d =
     (if githubUserID \<le> 0 then (Inl (IdentityError ErrExternalLoginUnavailable), d)
      else CompleteGitHubLogin \<lparr>chc_TransactionID = transactionID, chc_CallbackDigest = callbackDigest,
        chc_GitHubUserID = githubUserID, chc_SessionID = fresh E 1\<rparr> E d)"

text \<open>Authenticating with the provider and completing: \<open>None\<close> when the provider does not answer.\<close>

definition authenticate :: "external_login \<Rightarrow> string \<Rightarrow> uuid \<Rightarrow> bytes \<Rightarrow> string \<Rightarrow> (env \<Rightarrow> db \<Rightarrow> (carry_error + browser_session) \<times> db) option" where
  "authenticate login provider transactionID callbackDigest authorization =
     (if provider = GoogleLoginProvider then
        map_option (completeGoogle transactionID callbackDigest)
          (google_authenticate (xl_clients login) authorization (PKCEVerifier (xl_root login) transactionID provider)
            (GoogleNonce (xl_root login) transactionID))
      else map_option (completeGitHub transactionID callbackDigest)
          (github_authenticate (xl_clients login) authorization (PKCEVerifier (xl_root login) transactionID provider)))"

definition claim_command :: "uuid \<Rightarrow> string \<Rightarrow> bytes \<Rightarrow> string \<Rightarrow> claim_external_command" where
  "claim_command transactionID provider callbackDigest result_kind = \<lparr>cxc_TransactionID = transactionID, cxc_Provider = provider,
     cxc_CallbackDigest = callbackDigest, cxc_Outcome = result_kind\<rparr>"

definition mark_command :: "uuid \<Rightarrow> string \<Rightarrow> bytes \<Rightarrow> mark_unknown_command" where
  "mark_command transactionID provider callbackDigest = \<lparr>mkc_TransactionID = transactionID, mkc_Provider = provider,
     mkc_CallbackDigest = callbackDigest\<rparr>"

definition claim_failure :: "external_claim \<Rightarrow> identity_error \<Rightarrow> carry_error" where
  "claim_failure claim e = ExternalProofFailure (xcl_Purpose claim) (xcl_InvitationID claim) (IdentityError e)"

definition reconcileCompletion :: "uuid \<Rightarrow> string \<Rightarrow> bytes \<Rightarrow> env \<Rightarrow> db \<Rightarrow> browser_session option \<times> db" where
  "reconcileCompletion transactionID provider callbackDigest E d =
     (case ClaimExternalLogin (claim_command transactionID provider callbackDigest ExternalCallbackCode) E d of
        (Inl e, d') \<Rightarrow> (None, d')
      | (Inr claim, d') \<Rightarrow> (if xcl_IsReplay claim then xcl_Session claim else None, d'))"

text \<open>The completion failed: perhaps it took effect, perhaps the proof is to be rejected, otherwise nothing is known of it.\<close>

definition after_failed_completion :: "uuid \<Rightarrow> string \<Rightarrow> bytes \<Rightarrow> external_claim \<Rightarrow> carry_error \<Rightarrow> calls \<Rightarrow> db \<Rightarrow>
    (carry_error + browser_session) \<times> db" where
  "after_failed_completion transactionID provider callbackDigest claim completionErr W d =
     (let mark = MarkExternalLoginUnknown (mark_command transactionID provider callbackDigest);
          unknown = (\<lambda>k d. (Inl (claim_failure claim ErrExternalLoginUnavailable), snd (call W k mark d)))
      in case W 2 of (others, E) \<Rightarrow>
        (case reconcileCompletion transactionID provider callbackDigest E (others d) of
           (Some session, d') \<Rightarrow> (Inr session, d')
         | (None, d') \<Rightarrow>
             if knownExternalProofRejection completionErr then
               (case call W 3 (RejectExternalLogin (mark_command transactionID provider callbackDigest)) d' of
                  (Inr _, d'') \<Rightarrow> (Inl (claim_failure claim ErrExternalLoginRejected), d'')
                | (Inl _, d'') \<Rightarrow> unknown 4 d'')
             else unknown 3 d'))"

definition after_claim :: "external_login \<Rightarrow> string \<Rightarrow> uuid \<Rightarrow> bytes \<Rightarrow> external_callback \<Rightarrow> external_claim \<Rightarrow> calls \<Rightarrow> db \<Rightarrow>
    (carry_error + browser_session) \<times> db" where
  "after_claim login provider transactionID callbackDigest callback claim W d =
     (if xcl_IsReplay claim then
        (case xcl_Session claim of
           Some session \<Rightarrow> (Inr (session\<lparr>brs_InvitationID := xcl_InvitationID claim\<rparr>), d)
         | None \<Rightarrow> (Inl MissingArgument, d))
      else (case authenticate login provider transactionID callbackDigest (xcb_Code callback) of
              None \<Rightarrow> (Inl (claim_failure claim ErrExternalLoginUnavailable),
                snd (call W 1 (MarkExternalLoginUnknown (mark_command transactionID provider callbackDigest)) d))
            | Some completion \<Rightarrow>
                (case call W 1 completion d of
                   (Inr session, d') \<Rightarrow> (Inr (session\<lparr>brs_InvitationID := xcl_InvitationID claim\<rparr>), d')
                 | (Inl completionErr, d') \<Rightarrow>
                     after_failed_completion transactionID provider callbackDigest claim completionErr W d')))"

definition callback_digest :: "bytes \<Rightarrow> string \<Rightarrow> uuid \<Rightarrow> external_callback \<Rightarrow> bytes" where
  "callback_digest root provider transactionID callback =
     RequestDigest root [''external-login-callback'', provider, transactionID, xcb_ExactResponse callback]"

definition completeExternal :: "external_login \<Rightarrow> string \<Rightarrow> external_callback \<Rightarrow> calls \<Rightarrow> db \<Rightarrow> (carry_error + browser_session) \<times> db" where
  "completeExternal login provider callback W d =
     (let E = snd (W 0); root = xl_root login in
      case ParseExternalLoginState E root (xcb_State callback) provider of
        None \<Rightarrow> (Inl (IdentityError ErrExternalLoginInvalid), d)
      | Some transactionID \<Rightarrow>
          if \<not> ValidExternalLoginBrowserCredential E root (xcb_BrowserCredential callback) transactionID provider
            \<or> xcb_ExactResponse callback = [] \<or> \<not> validExternalCallback callback
          then (Inl (IdentityError ErrExternalLoginInvalid), d)
          else (let g = callback_digest root provider transactionID callback in
                case call W 0 (ClaimExternalLogin (claim_command transactionID provider g (xcb_Outcome callback))) d of
                  (Inl e, d') \<Rightarrow> (Inl e, d')
                | (Inr claim, d') \<Rightarrow> after_claim login provider transactionID g callback claim W d'))"

definition CompleteGoogle :: "external_login \<Rightarrow> external_callback \<Rightarrow> calls \<Rightarrow> db \<Rightarrow> (carry_error + browser_session) \<times> db" where
  "CompleteGoogle login = completeExternal login GoogleLoginProvider"

definition CompleteGitHub :: "external_login \<Rightarrow> external_callback \<Rightarrow> calls \<Rightarrow> db \<Rightarrow> (carry_error + browser_session) \<times> db" where
  "CompleteGitHub login = completeExternal login GitHubLoginProvider"

end
