(* ===== verification/Email_Flow.thy ===== *)
theory Email_Flow
  imports Identity_Methods Machine_Flow
begin

text \<open>
  The use cases of \<open>internal/identity/email_login.go\<close> and \<open>methods.go\<close> around the store. The Email service is
  a parameter; a use case that calls the store more than once takes one environment per call, and
  what other transactions did in between as a function on the database.
\<close>

record code_submitter =
  code_payload_digest :: "code_message \<Rightarrow> bytes option"
  submit_code :: "code_message \<Rightarrow> bytes \<Rightarrow> email_submission"

record email_login =
  el_submitter :: code_submitter
  el_root :: bytes
  el_lib :: mail_lib

section \<open>Requesting a code\<close>

definition code_message_of :: "uuid \<Rightarrow> string \<Rightarrow> string \<Rightarrow> code_message" where
  "code_message_of challengeID recipient c =
     \<lparr>ecm_Recipient = recipient, ecm_Code = c, ecm_IdempotencyKey = ''carry-email-'' @ challengeID\<rparr>"

definition prepare_command :: "email_login \<Rightarrow> request_proof_command \<Rightarrow> env \<Rightarrow> carry_error + prepare_challenge_command" where
  "prepare_command login command E =
     (let i = rqp_ChallengeID command; email = rqp_CanonicalEmail command in
      case EmailCode E (el_root login) i email of
        Inl e \<Rightarrow> Inl e
      | Inr c \<Rightarrow>
     (case code_payload_digest (el_submitter login) (code_message_of i email c) of
        None \<Rightarrow> Inl MissingArgument
      | Some payload \<Rightarrow> Inr \<lparr>pec_ChallengeID = i, pec_CanonicalEmail = email, pec_CodeDigest = EmailCodeDigest (el_root login) i c,
          pec_SourceDigest = EmailSourceDigest (el_root login) (rqp_Source command), pec_PayloadDigest = payload,
          pec_IdempotencyKey = rqp_IdempotencyKey command,
          pec_RequestDigest = RequestDigest (el_root login) [''request-email-code'', rqp_Purpose command, i, email,
            rqp_UserID command, rqp_SessionID command],
          pec_Purpose = rqp_Purpose command, pec_TargetUserID = rqp_UserID command,
          pec_InitiatingSessionID = rqp_SessionID command\<rparr>))"

text \<open>The Email that is sent, if any, and the outcome recorded for it.\<close>

definition submit_challenge :: "email_login \<Rightarrow> email_challenge \<Rightarrow> env \<Rightarrow> db \<Rightarrow> (carry_error + email_challenge) \<times> code_message list \<times> db" where
  "submit_challenge login challenge E d =
     (if ech_SubmissionState challenge = EmailSubmissionRejected then (Inl (IdentityError ErrEmailSubmissionRejected), [], d)
      else if ech_SubmissionState challenge = EmailSubmissionAccepted \<or> \<not> ech_CanSubmit challenge then (Inr challenge, [], d)
      else (case EmailCode E (el_root login) (ech_ChallengeID challenge) (ech_CanonicalEmail challenge) of
              Inl e \<Rightarrow> (Inl e, [], d)
            | Inr c \<Rightarrow>
                (let message = code_message_of (ech_ChallengeID challenge) (ech_CanonicalEmail challenge) c;
                     submission = submit_code (el_submitter login) message (ech_PayloadDigest challenge)
                 in (case RecordEmailSubmission (ech_ChallengeID challenge) (ech_PayloadDigest challenge) submission E d of
                       (Inl e, d') \<Rightarrow> (Inl e, [message], d')
                     | (Inr recorded, d') \<Rightarrow>
                         (if ech_SubmissionState recorded = EmailSubmissionRejected
                          then Inl (IdentityError ErrEmailSubmissionRejected) else Inr recorded, [message], d')))))"

definition requestCode :: "email_login \<Rightarrow> request_proof_command \<Rightarrow> env \<Rightarrow> (db \<Rightarrow> db) \<Rightarrow> env \<Rightarrow> db \<Rightarrow>
    (carry_error + email_challenge) \<times> code_message list \<times> db" where
  "requestCode login command E others E' d =
     (case prepare_command login command E of
        Inl e \<Rightarrow> (Inl e, [], d)
      | Inr prepared \<Rightarrow>
          (case PrepareEmailChallenge prepared E d of
             (Inl e, d1) \<Rightarrow> (Inl e, [], d1)
           | (Inr challenge, d1) \<Rightarrow> submit_challenge login challenge E' (others d1)))"

definition RequestCode :: "email_login \<Rightarrow> request_code_command \<Rightarrow> env \<Rightarrow> (db \<Rightarrow> db) \<Rightarrow> env \<Rightarrow> db \<Rightarrow>
    (carry_error + email_challenge) \<times> code_message list \<times> db" where
  "RequestCode login command E others E' d =
     (case CanonicalEmail (el_lib login) (rqc_Email command) of
        None \<Rightarrow> (Inl (IdentityError ErrInvalidEmail), [], d)
      | Some email \<Rightarrow> requestCode login \<lparr>rqp_ChallengeID = rqc_ChallengeID command, rqp_CanonicalEmail = email,
          rqp_Source = rqc_Source command, rqp_IdempotencyKey = rqc_IdempotencyKey command, rqp_Purpose = LoginPurpose,
          rqp_UserID = [], rqp_SessionID = []\<rparr> E others E' d)"

definition method_proof :: "request_method_code_command \<Rightarrow> string \<Rightarrow> string \<Rightarrow> request_proof_command" where
  "method_proof command email purpose = \<lparr>rqp_ChallengeID = rmc_code_ChallengeID command, rqp_CanonicalEmail = email,
     rqp_Source = rmc_code_Source command, rqp_IdempotencyKey = rmc_code_IdempotencyKey command, rqp_Purpose = purpose,
     rqp_UserID = rmc_code_UserID command, rqp_SessionID = rmc_code_SessionID command\<rparr>"

definition RequestLinkCode :: "email_login \<Rightarrow> request_method_code_command \<Rightarrow> env \<Rightarrow> (db \<Rightarrow> db) \<Rightarrow> env \<Rightarrow> db \<Rightarrow>
    (carry_error + email_challenge) \<times> code_message list \<times> db" where
  "RequestLinkCode login command E others E' d =
     (case CanonicalEmail (el_lib login) (rmc_code_Email command) of
        None \<Rightarrow> (Inl (IdentityError ErrInvalidEmail), [], d)
      | Some email \<Rightarrow> requestCode login (method_proof command email LinkPurpose) E others E' d)"

definition RequestReauthenticationCode :: "email_login \<Rightarrow> request_method_code_command \<Rightarrow> env \<Rightarrow> (db \<Rightarrow> db) \<Rightarrow> env \<Rightarrow> (db \<Rightarrow> db) \<Rightarrow> env \<Rightarrow> db \<Rightarrow>
    (carry_error + email_challenge) \<times> code_message list \<times> db" where
  "RequestReauthenticationCode login command E0 others0 E others E' d =
     (case EmailForReauthentication (rmc_code_UserID command) (rmc_code_SessionID command) E0 d of
        (Inl e, d0) \<Rightarrow> (Inl e, [], d0)
      | (Inr email, d0) \<Rightarrow> requestCode login (method_proof command email ReauthenticatePurpose) E others E' (others0 d0))"

section \<open>Verifying a code\<close>

text \<open>The loop over the runes of a code of six bytes asks for six digits.\<close>

definition valid_code :: "string \<Rightarrow> bool" where
  "valid_code c \<longleftrightarrow> length c = EmailCodeDigits \<and> list_all (\<lambda>(r, w). 48 \<le> r \<and> r \<le> 57) (runes c)"

definition verify_command :: "email_login \<Rightarrow> verify_code_command \<Rightarrow> env \<Rightarrow> carry_error + verify_challenge_command" where
  "verify_command login command E =
     (if \<not> valid_code (vfc_Code command) then Inl (IdentityError ErrInvalidCode)
      else Inr \<lparr>vec_ChallengeID = vfc_ChallengeID command,
        vec_CodeDigest = EmailCodeDigest (el_root login) (vfc_ChallengeID command) (vfc_Code command),
        vec_IdempotencyKey = vfc_IdempotencyKey command,
        vec_RequestDigest = RequestDigest (el_root login) [''verify-email-code'', vfc_Purpose command, vfc_ChallengeID command,
          vfc_Code command, vfc_InitiatingSessionID command],
        vec_SessionID = fresh E 1, vec_Purpose = vfc_Purpose command, vec_InitiatingSessionID = vfc_InitiatingSessionID command\<rparr>)"

definition verifyCode :: "email_login \<Rightarrow> verify_code_command \<Rightarrow> env \<Rightarrow> db \<Rightarrow> (carry_error + browser_session) \<times> db" where
  "verifyCode login command E = checked (verify_command login command E) VerifyEmailChallenge E"

definition VerifyCode :: "email_login \<Rightarrow> verify_code_command \<Rightarrow> env \<Rightarrow> db \<Rightarrow> (carry_error + browser_session) \<times> db" where
  "VerifyCode login command = verifyCode login (command\<lparr>vfc_Purpose := LoginPurpose\<rparr>)"

definition VerifyReauthenticationCode :: "email_login \<Rightarrow> verify_code_command \<Rightarrow> env \<Rightarrow> db \<Rightarrow> (carry_error + browser_session) \<times> db" where
  "VerifyReauthenticationCode login command = verifyCode login (command\<lparr>vfc_Purpose := ReauthenticatePurpose\<rparr>)"

definition VerifyLinkCode :: "email_login \<Rightarrow> verify_code_command \<Rightarrow> env \<Rightarrow> db \<Rightarrow> (carry_error + browser_session) \<times> db" where
  "VerifyLinkCode login command = verifyCode login (command\<lparr>vfc_Purpose := LinkPurpose\<rparr>)"

section \<open>Methods\<close>

definition List_methods :: "uuid \<Rightarrow> uuid \<Rightarrow> env \<Rightarrow> db \<Rightarrow> (carry_error + identity_methods) \<times> db" where
  "List_methods userID sessionID E = checked (guard (uuid_valid E userID \<and> uuid_valid E sessionID) (IdentityError ErrUnauthenticated))
     (\<lambda>_. ListIdentityMethods userID sessionID) E"

definition unlink_command :: "bytes \<Rightarrow> unlink_method_command \<Rightarrow> env \<Rightarrow> unlink_identity_command" where
  "unlink_command root command E = \<lparr>uli_InitiatingSessionID = ulm_SessionID command, uli_Method = ulm_Method command,
     uli_IdempotencyKey = ulm_IdempotencyKey command,
     uli_RequestDigest = RequestDigest root [''unlink-identity-method'', ulm_SessionID command, ulm_Method command],
     uli_ReplacementSessionID = fresh E 0\<rparr>"

definition Unlink :: "bytes \<Rightarrow> unlink_method_command \<Rightarrow> env \<Rightarrow> db \<Rightarrow> (carry_error + browser_session) \<times> db" where
  "Unlink root command E = checked
     (guard (uuid_valid E (ulm_SessionID command) \<and> validMethod (ulm_Method command) \<and> trim_space (ulm_IdempotencyKey command) \<noteq> []
        \<and> length (ulm_IdempotencyKey command) \<le> 255) (IdentityError ErrUnauthenticated))
     (\<lambda>_. UnlinkIdentityMethod (unlink_command root command E)) E"

end
