(* ===== verification/Email_State.thy ===== *)
theory Email_State
  imports Email_Flow Machine_State
begin

text \<open>
  What the Email login store does to the database, method by method, and the invariant of challenges and their
  attempts: an address has at most one current challenge, the attempts used are the wrong codes
  recorded, at most five, and a challenge is consumed by exactly one correct code.
\<close>

section \<open>Sessions\<close>

definition live_session :: "uuid \<Rightarrow> uuid \<Rightarrow> timestamp \<Rightarrow> db \<Rightarrow> session_row \<Rightarrow> bool" where
  "live_session sessionID userID now d b \<longleftrightarrow> b \<in> set (browser_sessions d) \<and> bs_SessionID b = sessionID \<and> bs_UserID b = userID
     \<and> bs_RevokedAt b = None \<and> now < bs_ExpiresAt b"

definition proved_recently :: "timestamp \<Rightarrow> session_row \<Rightarrow> bool" where
  "proved_recently now b \<longleftrightarrow> now < bs_IdentityProvedAt b + IdentityProofLifetime"

lemma loadIdentitySession_Inr:
  assumes "loadIdentitySession userID sessionID needed E d n = Inr ((b, now), d', n')"
  shows "d' = d \<and> now = tx_time E \<and> live_session sessionID userID (tx_time E) d b \<and> (needed \<longrightarrow> proved_recently (tx_time E) b)
    \<and> sql_LockBrowserSessionForIdentityChange sessionID d = Some b"
  using assms
  by (auto simp: loadIdentitySession_def tx_simps live_session_def proved_recently_def sql_EmailLoginDatabaseTime_def
      sql_LockBrowserSessionForIdentityChange_def dest!: first_where_Some)

lemma nullablePostgresUUID_Inr:
  "nullablePostgresUUID e v E d n = Inr (u, d', n') \<longleftrightarrow>
     d' = d \<and> n' = n \<and> (if v = [] then u = None else uuid_parse E v \<and> u = Some v)"
  by (auto simp: nullablePostgresUUID_def tx_simps postgresUUID_Inr)

section \<open>Preparing\<close>

definition prepared_db :: "env \<Rightarrow> prepare_challenge_command \<Rightarrow> email_challenge_row \<Rightarrow> db \<Rightarrow> db" where
  "prepared_db E c row d = d\<lparr>email_login_challenges := update_where (\<lambda>r. ec_CanonicalEmail r = pec_CanonicalEmail c \<and> current_challenge r)
     (\<lambda>r. r\<lparr>ec_InvalidatedAt := Some (tx_time E)\<rparr>) (email_login_challenges d) @ [row]\<rparr>"

definition admitted :: "env \<Rightarrow> prepare_challenge_command \<Rightarrow> db \<Rightarrow> bool" where
  "admitted E c d \<longleftrightarrow> sql_CountRecentEmailChallenges (pec_CanonicalEmail c) E d < 5
     \<and> sql_CountRecentSourceChallenges (pec_SourceDigest c) E d < 20
     \<and> (\<forall>r \<in> set (email_login_challenges d). ec_CanonicalEmail r = pec_CanonicalEmail c \<longrightarrow> ec_CreatedAt r + minutes 1 \<le> tx_time E)
     \<and> \<not> key_taken ec_ChallengeID (\<lambda>_. True) (pec_ChallengeID c) (email_login_challenges d)
     \<and> \<not> key_taken ec_RequestIdempotencyKey (\<lambda>_. True) (pec_IdempotencyKey c) (email_login_challenges d)"

definition target_of :: "string \<Rightarrow> uuid option" where
  "target_of v = (if v = [] then None else Some v)"

definition challenge_for :: "env \<Rightarrow> prepare_challenge_command \<Rightarrow> string \<Rightarrow> email_challenge_row" where
  "challenge_for E c purpose = new_challenge E c purpose (target_of (pec_TargetUserID c)) (target_of (pec_InitiatingSessionID c))"

lemma challenge_for_facts [simp]:
  "ec_ChallengeID (challenge_for E c p) = pec_ChallengeID c" "ec_CanonicalEmail (challenge_for E c p) = pec_CanonicalEmail c"
  "ec_RequestIdempotencyKey (challenge_for E c p) = pec_IdempotencyKey c" "current_challenge (challenge_for E c p)"
  "ec_AttemptsUsed (challenge_for E c p) = 0" "ec_ConsumedAt (challenge_for E c p) = None"
  "ec_InvalidatedAt (challenge_for E c p) = None"
  "ec_UserID (challenge_for E c p) = None" "ec_BrowserSessionID (challenge_for E c p) = None"
  "ec_CodeDigest (challenge_for E c p) = pec_CodeDigest c" "ec_Purpose (challenge_for E c p) = p"
  "ec_ExpiresAt (challenge_for E c p) = tx_time E + minutes 5" "ec_SubmissionState (challenge_for E c p) = ''prepared''"
  "ec_PayloadDigest (challenge_for E c p) = pec_PayloadDigest c" "ec_CreatedAt (challenge_for E c p) = tx_time E"
  "ec_SourceDigest (challenge_for E c p) = pec_SourceDigest c"
  by (simp_all add: challenge_for_def new_challenge_def current_challenge_def submission_defs)

lemma latest_challenge_time:
  assumes "\<not> too_soon (sql_LoadLatestEmailChallenge e d) now" "r \<in> set (email_login_challenges d)" "ec_CanonicalEmail r = e"
  shows "ec_CreatedAt r + minutes 1 \<le> now"
proof -
  let ?t = "filter (\<lambda>c. ec_CanonicalEmail c = e) (email_login_challenges d)"
  have "r \<in> set (order_by_desc challenge_order ?t)" using assms(2,3) by (simp add: order_by_desc_def)
  then obtain s where s: "first_row (order_by_desc challenge_order ?t) = Some s"
    by (cases "order_by_desc challenge_order ?t") (auto simp: first_row_def)
  have "challenge_order r \<le> challenge_order s" using first_row_desc_greatest [OF s] assms(2,3) by simp
  then have "ec_CreatedAt r \<le> ec_CreatedAt s" by (auto simp: challenge_order_def less_eq_prod_def)
  with assms(1) s show ?thesis by (simp add: too_soon_def sql_LoadLatestEmailChallenge_def EmailCodeResendDelay_def)
qed

lemma create_challenge_Inr:
  assumes "create_challenge c purpose E d n = Inr (v, d', n')"
  shows "admitted E c d \<and> d' = prepared_db E c (challenge_for E c purpose) d \<and> challenge_columns_ok (challenge_for E c purpose)
    \<and> v = restoreEmailChallenge (challenge_for E c purpose) (Some (tx_time E))"
proof -
  let ?row = "challenge_for E c purpose"
  from assms have "\<exists>t i. t = target_of (pec_TargetUserID c) \<and> i = target_of (pec_InitiatingSessionID c)
      \<and> sql_CountRecentEmailChallenges (pec_CanonicalEmail c) E d < 5 \<and> sql_CountRecentSourceChallenges (pec_SourceDigest c) E d < 20
      \<and> \<not> too_soon (sql_LoadLatestEmailChallenge (pec_CanonicalEmail c) d) (tx_time E)
      \<and> (\<exists>row. sql_CreateEmailChallenge (new_challenge E c purpose t i)
            (snd (sql_InvalidateCurrentEmailChallenges E (pec_CanonicalEmail c) d)) = Inr (row, d')
          \<and> v = restoreEmailChallenge row (Some (tx_time E)))"
    by (auto simp: create_challenge_def tx_simps nullablePostgresUUID_Inr target_of_def sql_EmailLoginDatabaseTime_def
        EmailAddressChallengeLimitPerHour_def EmailSourceChallengeLimitPerHour_def split: if_split_asm)
  then obtain row where adm: "sql_CountRecentEmailChallenges (pec_CanonicalEmail c) E d < 5"
      "sql_CountRecentSourceChallenges (pec_SourceDigest c) E d < 20"
      "\<not> too_soon (sql_LoadLatestEmailChallenge (pec_CanonicalEmail c) d) (tx_time E)"
    and ins: "sql_CreateEmailChallenge ?row (snd (sql_InvalidateCurrentEmailChallenges E (pec_CanonicalEmail c) d)) = Inr (row, d')"
    and v: "v = restoreEmailChallenge row (Some (tx_time E))"
    by (auto simp: challenge_for_def)
  from ins have fresh: "challenge_columns_ok ?row" "row = ?row" "d' = prepared_db E c ?row d"
      "\<not> key_taken ec_ChallengeID (\<lambda>_. True) (pec_ChallengeID c) (email_login_challenges d)"
      "\<not> key_taken ec_RequestIdempotencyKey (\<lambda>_. True) (pec_IdempotencyKey c) (email_login_challenges d)"
    by (auto simp: sql_CreateEmailChallenge_def sql_InvalidateCurrentEmailChallenges_def prepared_db_def key_taken_iff
        update_where_bex update_where_ball split: if_split_asm)
  show ?thesis using adm fresh v latest_challenge_time [OF adm(3)] by (auto simp: admitted_def)
qed

lemma proof_authority_Inr:
  assumes "proof_authority c purpose E d n = Inr (u, d', n')"
  shows "d' = d \<and> (purpose \<noteq> LoginPurpose \<longrightarrow>
    (\<exists>b. live_session (pec_InitiatingSessionID c) (pec_TargetUserID c) (tx_time E) d b \<and> (purpose = LinkPurpose \<longrightarrow> proved_recently (tx_time E) b))
    \<and> (purpose = ReauthenticatePurpose \<longrightarrow> sql_LoadEmailMethodForUser (pec_TargetUserID c) d = Some (pec_CanonicalEmail c)))"
proof (cases "purpose = LoginPurpose")
  case True
  with assms show ?thesis by (simp add: proof_authority_def tx_simps)
next
  case False
  with assms obtain b now d1 n1 n2 where s: "loadIdentitySession (pec_TargetUserID c) (pec_InitiatingSessionID c) (purpose = LinkPurpose) E d n1 = Inr ((b, now), d1, n2)"
    and rest: "d' = d1 \<and> (purpose = ReauthenticatePurpose \<longrightarrow> sql_LoadEmailMethodForUser (pec_TargetUserID c) d1 = Some (pec_CanonicalEmail c))"
    by (cases "purpose = ReauthenticatePurpose") (auto simp: proof_authority_def tx_simps)
  from loadIdentitySession_Inr [OF s] rest show ?thesis by auto
qed

lemma PrepareEmailChallenge_tx_effect:
  assumes "PrepareEmailChallenge_tx c purpose E d n = Inr (v, d', n')"
  shows "(d' = d \<and> (\<exists>r \<in> set (email_login_challenges d). ec_RequestIdempotencyKey r = pec_IdempotencyKey c
          \<and> ec_CanonicalEmail r = pec_CanonicalEmail c \<and> ec_RequestDigest r = pec_RequestDigest c
          \<and> v = restoreEmailChallenge r (Some (tx_time E))))
    \<or> (admitted E c d \<and> d' = prepared_db E c (challenge_for E c purpose) d \<and> challenge_columns_ok (challenge_for E c purpose)
          \<and> v = restoreEmailChallenge (challenge_for E c purpose) (Some (tx_time E))
          \<and> (\<exists>u n1 n2. proof_authority c purpose E d n1 = Inr (u, d, n2)))"
proof -
  from assms obtain u d1 n1 n2 where a: "proof_authority c purpose E d n = Inr (u, d1, n1)"
    and b: "(case sql_LoadEmailChallengeByRequestKey (pec_IdempotencyKey c) d1 of
        Some existing \<Rightarrow> replay_challenge c existing | None \<Rightarrow> create_challenge c purpose) E d1 n2 = Inr (v, d', n')"
    unfolding PrepareEmailChallenge_tx_def by (auto simp: bind_tx_Inr query_Inr advisory_lock_Inr)
  have d1: "d1 = d" using proof_authority_Inr [OF a] by blast
  show ?thesis
  proof (cases "sql_LoadEmailChallengeByRequestKey (pec_IdempotencyKey c) d")
    case None
    with b d1 have "create_challenge c purpose E d n2 = Inr (v, d', n')" by simp
    from create_challenge_Inr [OF this] a [unfolded d1] show ?thesis by blast
  next
    case (Some r)
    with b d1 show ?thesis
      by (auto simp: replay_challenge_def tx_simps sql_EmailLoginDatabaseTime_def sql_LoadEmailChallengeByRequestKey_def
          dest: first_where_Some)
  qed
qed

section \<open>Recording\<close>

definition recorded_row :: "email_submission \<Rightarrow> email_challenge_row \<Rightarrow> email_challenge_row" where
  "recorded_row s c = c\<lparr>ec_SubmissionState := esb_State s,
     ec_ProviderMessageID := (if esb_State s = EmailSubmissionAccepted then Some (esb_ProviderMessageID s) else None)\<rparr>"

lemma RecordEmailSubmission_tx_effect:
  assumes "RecordEmailSubmission_tx i g s E d n = Inr (v, d', n')"
  shows "d' = d \<or> d' = d\<lparr>email_login_challenges := update_where (unsettled i g) (recorded_row s) (email_login_challenges d)\<rparr>"
  using assms
  by (auto simp: RecordEmailSubmission_tx_def tx_simps sql_RecordEmailSubmission_def recorded_row_def [abs_def] Let_def split: if_split_asm)


text \<open>What a code does: the three ways a correct code is completed, and the whole of a verification.\<close>

section \<open>Completing a proof\<close>

definition with_session :: "env \<Rightarrow> uuid \<Rightarrow> uuid \<Rightarrow> string \<Rightarrow> db \<Rightarrow> db" where
  "with_session E sessionID userID proofMethod d = d\<lparr>browser_sessions := browser_sessions d @ [new_session E sessionID userID proofMethod]\<rparr>"

definition session_free :: "uuid \<Rightarrow> uuid \<Rightarrow> db \<Rightarrow> bool" where
  "session_free sessionID userID d \<longleftrightarrow> \<not> key_taken bs_SessionID (\<lambda>_. True) sessionID (browser_sessions d)
     \<and> (\<exists>u \<in> set (carry_users d). u_UserID u = userID)"

lemma new_session_simps [simp]:
  "bs_SessionID (new_session E s u m) = s" "bs_UserID (new_session E s u m) = u" "bs_RevokedAt (new_session E s u m) = None"
  "bs_IdentityProofMethod (new_session E s u m) = m" "bs_IdentityProvedAt (new_session E s u m) = tx_time E"
  "bs_ExpiresAt (new_session E s u m) = tx_time E + 30 * hours 24" "bs_CreatedAt (new_session E s u m) = tx_time E"
  by (simp_all add: new_session_def)

lemma open_session_Inr:
  "open_session s u m E d n = Inr (b, d', n') \<longleftrightarrow> \<not> fault E n \<and> validMethod m \<and> b = new_session E s u m
     \<and> session_free s u d \<and> d' = with_session E s u m d \<and> n' = Suc n"
  by (auto simp: open_session_def tx_simps sql_CreateBrowserSession_def session_free_def with_session_def exists_where_iff
      split: if_split_asm)

lemma owned_still_Inr [tx_simps]:
  "owned_still e u E d n = Inr (x, d', n') \<longleftrightarrow> \<not> fault E n \<and> sql_LoadEmailIdentity e d = Some u \<and> d' = d \<and> n' = Suc n"
  by (auto simp: owned_still_def tx_simps)

lemma lock_user_Inr [tx_simps]:
  "lock_user u E d n = Inr (x, d', n') \<longleftrightarrow> \<not> fault E n \<and> sql_LockUserForIdentityChange u d = Some x \<and> d' = d \<and> n' = Suc n"
  by (auto simp: lock_user_def tx_simps)

lemma email_owner_row:
  "sql_LoadEmailIdentity e d = Some u \<Longrightarrow> \<exists>i \<in> set (email_identities d). ei_CanonicalEmail i = e \<and> ei_UserID i = u"
  "sql_LoadEmailIdentity e d = None \<longleftrightarrow> \<not> key_taken ei_CanonicalEmail (\<lambda>_. True) e (email_identities d)"
  by (auto simp: sql_LoadEmailIdentity_def key_taken_iff first_where_None dest: first_where_Some)

definition linked_db :: "env \<Rightarrow> string \<Rightarrow> uuid \<Rightarrow> db \<Rightarrow> db" where
  "linked_db E e u d = d\<lparr>email_identities := email_identities d @ [\<lparr>ei_CanonicalEmail = e, ei_UserID = u, ei_VerifiedAt = tx_time E\<rparr>]\<rparr>"

definition joined_user_db :: "env \<Rightarrow> uuid \<Rightarrow> string \<Rightarrow> db \<Rightarrow> db" where
  "joined_user_db E u name d = d\<lparr>carry_users := carry_users d @ [\<lparr>u_UserID = u, u_DisplayName = name, u_CreatedAt = tx_time E\<rparr>]\<rparr>"

lemma sql_CreateEmailIdentity_Inr:
  "sql_CreateEmailIdentity E e u d = Inr (x, d') \<longleftrightarrow> e \<noteq> [] \<and> length e \<le> 254
     \<and> \<not> key_taken ei_CanonicalEmail (\<lambda>_. True) e (email_identities d) \<and> \<not> key_taken ei_UserID (\<lambda>_. True) u (email_identities d)
     \<and> (\<exists>r \<in> set (carry_users d). u_UserID r = u) \<and> d' = linked_db E e u d"
  by (auto simp: sql_CreateEmailIdentity_def linked_db_def exists_where_iff)

definition first_login_db :: "env \<Rightarrow> string \<Rightarrow> db \<Rightarrow> db" where
  "first_login_db E e d = linked_db E e (fresh E 0) (joined_user_db E (fresh E 0)
     (''Member '' @ take 8 (filter (\<lambda>c. c \<noteq> CHR ''-'') (fresh E 0))) d)"

lemma first_login_Inr:
  assumes "first_login e E d n = Inr (u, d', n')"
  shows "u = fresh E 0 \<and> d' = first_login_db E e d \<and> \<not> key_taken u_UserID (\<lambda>_. True) u (carry_users d)
    \<and> \<not> key_taken ei_UserID (\<lambda>_. True) u (email_identities d) \<and> \<not> key_taken ei_CanonicalEmail (\<lambda>_. True) e (email_identities d)"
  using assms
  by (auto simp: first_login_def tx_simps FallbackDisplayName_def sql_CreateEmailUser_def sql_CreateEmailIdentity_Inr
      first_login_db_def joined_user_db_def split: if_split_asm)

definition logs_in :: "env \<Rightarrow> email_challenge_row \<Rightarrow> uuid \<Rightarrow> db \<Rightarrow> uuid \<Rightarrow> db \<Rightarrow> bool" where
  "logs_in E ch sessionID d u d' \<longleftrightarrow>
     sql_LoadEmailIdentity (ec_CanonicalEmail ch) d = Some u \<and> session_free sessionID u d \<and> d' = with_session E sessionID u EmailMethod d
     \<or> sql_LoadEmailIdentity (ec_CanonicalEmail ch) d = None \<and> u = fresh E 0 \<and> session_free sessionID u (first_login_db E (ec_CanonicalEmail ch) d)
        \<and> \<not> key_taken u_UserID (\<lambda>_. True) u (carry_users d) \<and> \<not> key_taken ei_UserID (\<lambda>_. True) u (email_identities d)
        \<and> d' = with_session E sessionID u EmailMethod (first_login_db E (ec_CanonicalEmail ch) d)"

definition revoked_sessions_db :: "(session_row \<Rightarrow> bool) \<Rightarrow> timestamp \<Rightarrow> db \<Rightarrow> db" where
  "revoked_sessions_db P now d = d\<lparr>browser_sessions := update_where (\<lambda>b. P b \<and> bs_RevokedAt b = None) (revoked_session now) (browser_sessions d)\<rparr>"

definition reauthenticates :: "env \<Rightarrow> email_challenge_row \<Rightarrow> uuid \<Rightarrow> db \<Rightarrow> uuid \<Rightarrow> db \<Rightarrow> bool" where
  "reauthenticates E ch sessionID d u d' \<longleftrightarrow> u = uuidValue (ec_TargetUserID ch) \<and> sql_LoadEmailIdentity (ec_CanonicalEmail ch) d = Some u
     \<and> (\<exists>b. live_session (uuidValue (ec_InitiatingSessionID ch)) u (tx_time E) d b)
     \<and> (\<exists>now. let d1 = revoked_sessions_db (\<lambda>b. bs_SessionID b = uuidValue (ec_InitiatingSessionID ch)) now d in
          session_free sessionID u d1 \<and> d' = with_session E sessionID u EmailMethod d1)"

definition links :: "env \<Rightarrow> email_challenge_row \<Rightarrow> uuid \<Rightarrow> db \<Rightarrow> uuid \<Rightarrow> db \<Rightarrow> bool" where
  "links E ch sessionID d u d' \<longleftrightarrow> u = uuidValue (ec_TargetUserID ch) \<and> sql_LoadEmailIdentity (ec_CanonicalEmail ch) d = None
     \<and> sql_LoadEmailMethodForUser u d = None
     \<and> (\<exists>b. live_session (uuidValue (ec_InitiatingSessionID ch)) u (tx_time E) d b \<and> proved_recently (tx_time E) b)
     \<and> (\<exists>now. let d1 = revoked_sessions_db (\<lambda>b. bs_UserID b = u) now (linked_db E (ec_CanonicalEmail ch) u d) in
          session_free sessionID u d1 \<and> d' = with_session E sessionID u EmailMethod d1)"

lemma completeEmailLogin_Inr:
  assumes "completeEmailLogin ch s E d n = Inr (b, d', n')"
  shows "\<exists>u. b = new_session E s u EmailMethod \<and> logs_in E ch s d u d'"
proof (cases "sql_LoadEmailIdentity (ec_CanonicalEmail ch) d")
  case None
  from assms have "\<exists>u d1 n1 n2. first_login (ec_CanonicalEmail ch) E d n1 = Inr (u, d1, n2) \<and> b = new_session E s u EmailMethod
      \<and> session_free s u d1 \<and> d' = with_session E s u EmailMethod d1"
    by (auto simp: completeEmailLogin_def bind_tx_Inr advisory_lock_Inr query_Inr None open_session_Inr)
  with None show ?thesis unfolding logs_in_def by (blast dest: first_login_Inr)
next
  case (Some u)
  with assms show ?thesis
    by (auto simp: completeEmailLogin_def tx_simps advisory_lock_Inr open_session_Inr logs_in_def)
qed

lemma completeEmailReauthentication_Inr:
  assumes "completeEmailReauthentication ch s E d n = Inr (b, d', n')"
  shows "\<exists>u. b = new_session E s u EmailMethod \<and> reauthenticates E ch s d u d'"
proof -
  let ?u = "uuidValue (ec_TargetUserID ch)" and ?i = "uuidValue (ec_InitiatingSessionID ch)"
  from assms have "\<exists>r now0 n1 d1 n2 now d2. sql_LoadEmailIdentity (ec_CanonicalEmail ch) d = Some ?u
      \<and> loadIdentitySession ?u ?i False E d n1 = Inr ((r, now0), d1, n2)
      \<and> sql_RevokeExactBrowserSession now ?i d1 = (1, d2) \<and> b = new_session E s ?u EmailMethod \<and> session_free s ?u d2
      \<and> d' = with_session E s ?u EmailMethod d2"
    by (auto simp: completeEmailReauthentication_def Let_def tx_simps advisory_lock_Inr open_session_Inr) blast
  then obtain r now0 n1 d1 n2 now d2 where own: "sql_LoadEmailIdentity (ec_CanonicalEmail ch) d = Some ?u"
    and l: "loadIdentitySession ?u ?i False E d n1 = Inr ((r, now0), d1, n2)"
    and rest: "sql_RevokeExactBrowserSession now ?i d1 = (1, d2)" "b = new_session E s ?u EmailMethod" "session_free s ?u d2"
      "d' = with_session E s ?u EmailMethod d2" by blast
  note l' = loadIdentitySession_Inr [OF l]
  then have "d2 = revoked_sessions_db (\<lambda>b. bs_SessionID b = ?i) now d"
    using rest(1) by (auto simp: sql_RevokeExactBrowserSession_def revoked_sessions_db_def Let_def)
  with own l' rest show ?thesis unfolding reauthenticates_def Let_def by blast
qed

lemma completeEmailLink_Inr:
  assumes "completeEmailLink ch s E d n = Inr (b, d', n')"
  shows "\<exists>u. b = new_session E s u EmailMethod \<and> links E ch s d u d'"
proof -
  let ?u = "uuidValue (ec_TargetUserID ch)" and ?i = "uuidValue (ec_InitiatingSessionID ch)"
  from assms have "\<exists>r now0 n1 d1 n2 now. sql_LoadEmailIdentity (ec_CanonicalEmail ch) d = None
      \<and> loadIdentitySession ?u ?i True E d n1 = Inr ((r, now0), d1, n2) \<and> sql_LoadEmailMethodForUser ?u d1 = None
      \<and> (\<exists>d2. sql_CreateEmailIdentity E (ec_CanonicalEmail ch) ?u d1 = Inr ((), d2)
      \<and> b = new_session E s ?u EmailMethod \<and> session_free s ?u (snd (sql_RevokeUserBrowserSessions now ?u d2))
      \<and> d' = with_session E s ?u EmailMethod (snd (sql_RevokeUserBrowserSessions now ?u d2)))"
    by (auto simp: completeEmailLink_def Let_def tx_simps advisory_lock_Inr open_session_Inr) (metis snd_conv)
  then obtain r now0 n1 d1 n2 now d2 where own: "sql_LoadEmailIdentity (ec_CanonicalEmail ch) d = None"
    and l: "loadIdentitySession ?u ?i True E d n1 = Inr ((r, now0), d1, n2)"
    and rest: "sql_LoadEmailMethodForUser ?u d1 = None" "sql_CreateEmailIdentity E (ec_CanonicalEmail ch) ?u d1 = Inr ((), d2)"
      "b = new_session E s ?u EmailMethod" "session_free s ?u (snd (sql_RevokeUserBrowserSessions now ?u d2))"
      "d' = with_session E s ?u EmailMethod (snd (sql_RevokeUserBrowserSessions now ?u d2))" by blast
  note l' = loadIdentitySession_Inr [OF l]
  have "d2 = linked_db E (ec_CanonicalEmail ch) ?u d" using rest(2) l' by (simp add: sql_CreateEmailIdentity_Inr)
  moreover have "snd (sql_RevokeUserBrowserSessions now ?u d2) = revoked_sessions_db (\<lambda>b. bs_UserID b = ?u) now d2"
    by (simp add: sql_RevokeUserBrowserSessions_def revoked_sessions_db_def Let_def)
  ultimately show ?thesis using own l' rest unfolding links_def Let_def by (metis (no_types))
qed

definition proves :: "env \<Rightarrow> email_challenge_row \<Rightarrow> uuid \<Rightarrow> db \<Rightarrow> uuid \<Rightarrow> db \<Rightarrow> bool" where
  "proves E ch sessionID d u d' \<longleftrightarrow>
     (if ec_Purpose ch = LoginPurpose then logs_in E ch sessionID d u d'
      else if ec_Purpose ch = ReauthenticatePurpose then reauthenticates E ch sessionID d u d'
      else ec_Purpose ch = LinkPurpose \<and> links E ch sessionID d u d')"

lemma complete_proof_Inr:
  "complete_proof (ec_Purpose ch) ch s E d n = Inr (b, d', n') \<Longrightarrow> \<exists>u. b = new_session E s u EmailMethod \<and> proves E ch s d u d'"
  unfolding complete_proof_def proves_def
  by (auto simp: fail_Inr split: if_split_asm dest: completeEmailLogin_Inr completeEmailReauthentication_Inr completeEmailLink_Inr)

lemma proves_challenges: "proves E ch s d u d' \<Longrightarrow> email_login_challenges d' = email_login_challenges d \<and> email_login_attempts d' = email_login_attempts d"
  by (auto simp: proves_def logs_in_def reauthenticates_def links_def Let_def with_session_def first_login_db_def linked_db_def
      joined_user_db_def revoked_sessions_db_def split: if_split_asm)

section \<open>A verification\<close>

definition recorded_attempt :: "env \<Rightarrow> string \<Rightarrow> verify_challenge_command \<Rightarrow> email_attempt_row" where
  "recorded_attempt E outcome c = \<lparr>ea_ChallengeID = vec_ChallengeID c, ea_IdempotencyKey = vec_IdempotencyKey c,
     ea_RequestDigest = vec_RequestDigest c, ea_Result = outcome, ea_CreatedAt = tx_time E\<rparr>"

definition spent_row :: "email_challenge_row \<Rightarrow> email_challenge_row" where
  "spent_row c = c\<lparr>ec_AttemptsUsed := ec_AttemptsUsed c + 1\<rparr>"

definition refused_db :: "env \<Rightarrow> verify_challenge_command \<Rightarrow> db \<Rightarrow> db" where
  "refused_db E c d = d\<lparr>email_login_attempts := email_login_attempts d @ [recorded_attempt E ''invalid'' c],
     email_login_challenges := update_where (spendable (vec_ChallengeID c)) spent_row (email_login_challenges d)\<rparr>"

definition verified_db :: "env \<Rightarrow> verify_challenge_command \<Rightarrow> uuid \<Rightarrow> db \<Rightarrow> db" where
  "verified_db E c u d = d\<lparr>email_login_challenges := update_where (consumable E (vec_ChallengeID c))
       (consumed_row E u (vec_SessionID c)) (email_login_challenges d),
     email_login_attempts := email_login_attempts d @ [recorded_attempt E ''succeeded'' c]\<rparr>"

lemma insert_attempt_Inr:
  "insert_attempt E w i k g d = Inr (x, d') \<longleftrightarrow> k \<noteq> [] \<and> length k \<le> 255 \<and> length g = 32
     \<and> \<not> key_taken attempt_key (\<lambda>_. True) (i, k) (email_login_attempts d)
     \<and> d' = d\<lparr>email_login_attempts := email_login_attempts d @ [\<lparr>ea_ChallengeID = i, ea_IdempotencyKey = k,
        ea_RequestDigest = g, ea_Result = w, ea_CreatedAt = tx_time E\<rparr>]\<rparr>"
  by (auto simp: insert_attempt_def)

definition attempt_free :: "verify_challenge_command \<Rightarrow> db \<Rightarrow> bool" where
  "attempt_free c d \<longleftrightarrow> \<not> key_taken attempt_key (\<lambda>_. True) (vec_ChallengeID c, vec_IdempotencyKey c) (email_login_attempts d)"

definition opens :: "verify_challenge_command \<Rightarrow> string \<Rightarrow> env \<Rightarrow> db \<Rightarrow> email_challenge_row \<Rightarrow> browser_session \<Rightarrow> db \<Rightarrow> bool" where
  "opens c purpose E d ch v d' \<longleftrightarrow> usable ch (tx_time E) \<and> ec_CodeDigest ch = vec_CodeDigest c \<and> attempt_free c d
     \<and> (\<exists>u d1. proves E ch (vec_SessionID c) d u d1 \<and> d' = verified_db E c u d1
          \<and> v = browserSession (new_session E (vec_SessionID c) u EmailMethod) purpose EmailMethod)"

lemma refuse_code_Inr:
  assumes "refuse_code c E d n = Inr (x, d', n')"
  shows "x = Inl (IdentityError ErrInvalidCode) \<and> attempt_free c d \<and> d' = refused_db E c d"
  using assms
  by (auto simp: refuse_code_def tx_simps sql_RecordInvalidEmailAttempt_def insert_attempt_Inr sql_SpendEmailChallengeAttempt_def
      refused_db_def recorded_attempt_def attempt_free_def spent_row_def [abs_def])

lemma accept_code_Inr:
  assumes "accept_code c (ec_Purpose ch) ch E d n = Inr (x, d', n')"
  shows "\<exists>u d1. proves E ch (vec_SessionID c) d u d1 \<and> d' = verified_db E c u d1 \<and> attempt_free c d
    \<and> x = Inr (browserSession (new_session E (vec_SessionID c) u EmailMethod) (ec_Purpose ch) EmailMethod)"
proof -
  from assms obtain b d1 n1 where p: "complete_proof (ec_Purpose ch) ch (vec_SessionID c) E d n = Inr (b, d1, n1)"
    and rest: "\<exists>d2. d2 = snd (sql_ConsumeEmailChallenge E (bs_UserID b) (bs_SessionID b) (vec_ChallengeID c) d1)
      \<and> insert_attempt E ''succeeded'' (vec_ChallengeID c) (vec_IdempotencyKey c) (vec_RequestDigest c) d2 = Inr ((), d')
      \<and> x = Inr (browserSession b (ec_Purpose ch) EmailMethod)"
    unfolding accept_code_def by (auto simp: bind_tx_Inr postgresUUID_Inr modify_Inr require_Inr insert_row_Inr ret_Inr
        sql_RecordSuccessfulEmailAttempt_def)
  from complete_proof_Inr [OF p] obtain u where u: "b = new_session E (vec_SessionID c) u EmailMethod" "proves E ch (vec_SessionID c) d u d1" by blast
  from rest u proves_challenges [OF u(2)] have "d' = verified_db E c u d1 \<and> attempt_free c d"
    by (auto simp: insert_attempt_Inr sql_ConsumeEmailChallenge_def verified_db_def recorded_attempt_def attempt_free_def)
  with rest u show ?thesis by blast
qed

lemma VerifyEmailChallenge_tx_effect:
  assumes "VerifyEmailChallenge_tx c purpose E d n = Inr (x, d', n')"
  shows "\<exists>ch. sql_LockEmailChallenge (vec_ChallengeID c) d = Some ch \<and> ec_Purpose ch = purpose
    \<and> uuidValue (ec_InitiatingSessionID ch) = vec_InitiatingSessionID c
    \<and> ((\<exists>a b. sql_LoadEmailAttempt (vec_ChallengeID c) (vec_IdempotencyKey c) d = Some a \<and> ea_Result a = ''succeeded''
          \<and> ea_RequestDigest a = vec_RequestDigest c \<and> d' = d
          \<and> sql_LoadActiveBrowserSessionByID (uuidValue (ec_BrowserSessionID ch)) E d = Some b
          \<and> x = Inr (browserSession b purpose EmailMethod))
      \<or> (usable ch (tx_time E) \<and> ec_CodeDigest ch \<noteq> vec_CodeDigest c \<and> attempt_free c d \<and> d' = refused_db E c d
          \<and> x = Inl (IdentityError ErrInvalidCode))
      \<or> (\<exists>v. opens c purpose E d ch v d' \<and> x = Inr v))"
proof -
  from assms obtain ch n1 where ch: "sql_LockEmailChallenge (vec_ChallengeID c) d = Some ch" "ec_Purpose ch = purpose"
      "uuidValue (ec_InitiatingSessionID ch) = vec_InitiatingSessionID c"
    and b: "(case sql_LoadEmailAttempt (vec_ChallengeID c) (vec_IdempotencyKey c) d of
       Some attempt \<Rightarrow> replay_attempt c ch attempt
     | None \<Rightarrow>
         bind_tx (query (\<lambda>E now. sql_EmailLoginDatabaseTime E)) (\<lambda>databaseTime.
         bind_tx (require (usable ch databaseTime) (IdentityError ErrInvalidCode)) (\<lambda>_.
         if ec_CodeDigest ch \<noteq> vec_CodeDigest c then refuse_code c else accept_code c purpose ch))) E d n1 = Inr (x, d', n')"
    unfolding VerifyEmailChallenge_tx_def
    by (simp only: bind_tx_Inr [of "query_one _ _"] bind_tx_Inr [of "require (_ \<and> _) _"] bind_tx_Inr [of "query (\<lambda>E now. sql_LoadEmailAttempt _ _)"]
        query_one_Inr require_Inr query_Inr) (elim exE conjE, hypsubst, blast)
  show ?thesis
  proof (cases "sql_LoadEmailAttempt (vec_ChallengeID c) (vec_IdempotencyKey c) d")
    case (Some a)
    with b have "\<exists>r. ea_Result a = ''succeeded'' \<and> ea_RequestDigest a = vec_RequestDigest c \<and> d' = d
          \<and> sql_LoadActiveBrowserSessionByID (uuidValue (ec_BrowserSessionID ch)) E d = Some r
          \<and> x = Inr (browserSession r purpose EmailMethod)"
      using ch(2) by (auto simp: replay_attempt_def loadEmailBrowserSession_def tx_simps)
    with ch Some show ?thesis by blast
  next
    case None
    show ?thesis
    proof (cases "ec_CodeDigest ch = vec_CodeDigest c")
      case True
      with b None ch(2) obtain k where u: "usable ch (tx_time E)" and a: "accept_code c (ec_Purpose ch) ch E d k = Inr (x, d', n')"
        by (auto simp: bind_tx_Inr query_Inr require_Inr sql_EmailLoginDatabaseTime_def)
      from accept_code_Inr [OF a] u True ch(2) have "\<exists>v. opens c purpose E d ch v d' \<and> x = Inr v" unfolding opens_def by blast
      with ch show ?thesis by blast
    next
      case False
      with b None obtain k where u: "usable ch (tx_time E)" and a: "refuse_code c E d k = Inr (x, d', n')"
        by (auto simp: bind_tx_Inr query_Inr require_Inr sql_EmailLoginDatabaseTime_def)
      from refuse_code_Inr [OF a] u False ch show ?thesis by blast
    qed
  qed
qed

end
