(* ===== verification/Identity_State.thy ===== *)
theory Identity_State
  imports Email_State
begin

text \<open>
  The invariant of codes and attempts, and the uniqueness of Users, addresses and Sessions. Every
  method of the Email login and of the sign-in methods keeps both.
\<close>

section \<open>Codes\<close>

definition answered_with :: "string \<Rightarrow> uuid \<Rightarrow> email_attempt_row \<Rightarrow> bool" where
  "answered_with outcome challengeID a \<longleftrightarrow> ea_ChallengeID a = challengeID \<and> ea_Result a = outcome"

definition challenge_ok :: "email_attempt_row list \<Rightarrow> email_challenge_row \<Rightarrow> bool" where
  "challenge_ok as c \<longleftrightarrow> ec_AttemptsUsed c = count_where (answered_with ''invalid'' (ec_ChallengeID c)) as \<and> ec_AttemptsUsed c \<le> 5
     \<and> count_where (answered_with ''succeeded'' (ec_ChallengeID c)) as = (if ec_ConsumedAt c = None then 0 else 1)
     \<and> (ec_ConsumedAt c = None \<longleftrightarrow> ec_UserID c = None) \<and> (ec_ConsumedAt c = None \<longleftrightarrow> ec_BrowserSessionID c = None)
     \<and> ec_ExpiresAt c = ec_CreatedAt c + EmailCodeLifetime"

definition codes_ok :: "db \<Rightarrow> bool" where
  "codes_ok d \<longleftrightarrow> unique_on ec_ChallengeID (\<lambda>_. True) (email_login_challenges d)
     \<and> unique_on ec_RequestIdempotencyKey (\<lambda>_. True) (email_login_challenges d)
     \<and> unique_on ec_CanonicalEmail current_challenge (email_login_challenges d)
     \<and> unique_on attempt_key (\<lambda>_. True) (email_login_attempts d)
     \<and> (\<forall>c \<in> set (email_login_challenges d). challenge_ok (email_login_attempts d) c)
     \<and> (\<forall>a \<in> set (email_login_attempts d). \<exists>c \<in> set (email_login_challenges d). ec_ChallengeID c = ea_ChallengeID a)"

lemma codes_ok_empty: "codes_ok empty_db"
  by (simp add: codes_ok_def empty_db_def)

lemma codes_ok_same:
  "email_login_challenges d' = email_login_challenges d \<Longrightarrow> email_login_attempts d' = email_login_attempts d \<Longrightarrow> codes_ok d' = codes_ok d"
  by (simp add: codes_ok_def)

lemma count_where_append1: "count_where P (t @ [r]) = count_where P t + (if P r then 1 else 0)"
  by (simp add: count_where_def)

lemma no_attempts:
  assumes "codes_ok d" "\<not> key_taken ec_ChallengeID (\<lambda>_. True) i (email_login_challenges d)"
  shows "count_where (answered_with w i) (email_login_attempts d) = 0"
  using assms by (auto simp: count_where_zero codes_ok_def answered_with_def key_taken_iff)

text \<open>A row that keeps its key, its attempts and its result is as good as the one it replaces.\<close>

lemma challenge_ok_kept [simp]:
  "challenge_ok as (c\<lparr>ec_InvalidatedAt := x\<rparr>) = challenge_ok as c"
  "challenge_ok as (recorded_row s c) = challenge_ok as c"
  by (simp_all add: challenge_ok_def recorded_row_def)

lemma recorded_row_facts [simp]:
  "ec_ChallengeID (recorded_row s c) = ec_ChallengeID c" "ec_RequestIdempotencyKey (recorded_row s c) = ec_RequestIdempotencyKey c"
  "ec_CanonicalEmail (recorded_row s c) = ec_CanonicalEmail c" "ec_InvalidatedAt (recorded_row s c) = ec_InvalidatedAt c"
  "ec_ConsumedAt (recorded_row s c) = ec_ConsumedAt c"
  by (simp_all add: recorded_row_def)

lemma unique_on_thin:
  assumes "unique_on k P t" "\<And>r. k (f r) = k r" "\<And>r. P (f r) \<Longrightarrow> P r"
  shows "unique_on k P (update_where Q f t)"
  using assms(1)
proof (induction t)
  case (Cons r t)
  have "k s \<noteq> k (if Q r then f r else r)" if s: "s \<in> set (update_where Q f t)" "P s" "P (if Q r then f r else r)" for s
  proof -
    from s(1) obtain q where q: "q \<in> set t" "s = (if Q q then f q else q)" by (auto simp: update_where_def)
    then have "P q" "P r" using s(2,3) assms(3) by (auto split: if_split_asm)
    then have "k q \<noteq> k r" using Cons.prems q(1) by (simp add: unique_on_Cons)
    then show ?thesis using q(2) assms(2) by simp
  qed
  then show ?case using Cons by (auto simp: unique_on_Cons)
qed simp

lemma prepared_codes_ok:
  assumes ok: "codes_ok d" and adm: "admitted E c d"
  shows "codes_ok (prepared_db E c (challenge_for E c p) d)"
proof -
  let ?f = "\<lambda>r. r\<lparr>ec_InvalidatedAt := Some (tx_time E)\<rparr>"
  let ?P = "\<lambda>r. ec_CanonicalEmail r = pec_CanonicalEmail c \<and> current_challenge r"
  let ?t = "update_where ?P ?f (email_login_challenges d)"
  have u: "unique_on ec_ChallengeID (\<lambda>_. True) ?t" "unique_on ec_RequestIdempotencyKey (\<lambda>_. True) ?t" "unique_on ec_CanonicalEmail current_challenge ?t"
    using ok by (auto simp: codes_ok_def current_challenge_def intro!: unique_on_thin)
  have none: "\<forall>r \<in> set ?t. current_challenge r \<longrightarrow> ec_CanonicalEmail r \<noteq> pec_CanonicalEmail c"
    by (auto simp: update_where_ball current_challenge_def)
  have keys: "\<not> key_taken ec_ChallengeID (\<lambda>_. True) (pec_ChallengeID c) ?t" "\<not> key_taken ec_RequestIdempotencyKey (\<lambda>_. True) (pec_IdempotencyKey c) ?t"
    using adm by (auto simp: admitted_def key_taken_iff update_where_bex)
  have rows: "\<forall>r \<in> set ?t. challenge_ok (email_login_attempts d) r"
    using ok by (auto simp: update_where_ball codes_ok_def)
  have zero: "count_where (answered_with w (pec_ChallengeID c)) (email_login_attempts d) = 0" for w
    by (rule no_attempts [OF ok]) (use adm in \<open>simp add: admitted_def\<close>)
  have "challenge_ok (email_login_attempts d) (challenge_for E c p)"
    by (simp add: challenge_ok_def zero EmailCodeLifetime_def)
  moreover have "\<forall>a \<in> set (email_login_attempts d). \<exists>r \<in> set ?t. ec_ChallengeID r = ea_ChallengeID a"
    using ok by (auto simp: codes_ok_def update_where_bex)
  moreover have "unique_on ec_CanonicalEmail current_challenge (?t @ [challenge_for E c p])"
    using u(3) none by (auto simp: unique_on_append1 key_taken_iff)
  ultimately show ?thesis
    using ok u keys rows by (auto simp: codes_ok_def prepared_db_def unique_on_append1)
qed

lemma recorded_codes_ok:
  "codes_ok d \<Longrightarrow> codes_ok (d\<lparr>email_login_challenges := update_where (unsettled i g) (recorded_row s) (email_login_challenges d)\<rparr>)"
  by (auto simp: codes_ok_def update_where_ball update_where_bex current_challenge_def intro!: unique_on_thin)

lemma locked_challenge: "sql_LockEmailChallenge i d = Some ch \<Longrightarrow> ch \<in> set (email_login_challenges d) \<and> ec_ChallengeID ch = i"
  by (auto simp: sql_LockEmailChallenge_def dest: first_where_Some)

lemma only_challenge: "codes_ok d \<Longrightarrow> ch \<in> set (email_login_challenges d) \<Longrightarrow> r \<in> set (email_login_challenges d) \<Longrightarrow>
    ec_ChallengeID r = ec_ChallengeID ch \<Longrightarrow> r = ch"
  unfolding codes_ok_def using unique_onD [of ec_ChallengeID "\<lambda>_. True" "email_login_challenges d" r ch] by simp

text \<open>One attempt is added, and the row of its challenge is replaced.\<close>

lemma attempted_codes_ok:
  assumes ok: "codes_ok d" and ch: "ch \<in> set (email_login_challenges d)" "P ch"
    and P: "\<And>r. P r \<Longrightarrow> ec_ChallengeID r = ec_ChallengeID ch"
    and a: "\<not> key_taken attempt_key (\<lambda>_. True) (attempt_key a) (email_login_attempts d)" "ea_ChallengeID a = ec_ChallengeID ch"
    and f: "\<And>r. ec_ChallengeID (f r) = ec_ChallengeID r" "\<And>r. ec_RequestIdempotencyKey (f r) = ec_RequestIdempotencyKey r"
      "\<And>r. ec_CanonicalEmail (f r) = ec_CanonicalEmail r" "\<And>r. current_challenge (f r) \<Longrightarrow> current_challenge r"
    and row: "challenge_ok (email_login_attempts d @ [a]) (f ch)"
    and d': "email_login_challenges d' = update_where P f (email_login_challenges d)" "email_login_attempts d' = email_login_attempts d @ [a]"
  shows "codes_ok d'"
proof -
  let ?t = "update_where P f (email_login_challenges d)"
  have u: "unique_on ec_ChallengeID (\<lambda>_. True) ?t" "unique_on ec_RequestIdempotencyKey (\<lambda>_. True) ?t" "unique_on ec_CanonicalEmail current_challenge ?t"
    using ok unfolding codes_ok_def by (blast intro: unique_on_thin f)+
  have "challenge_ok (email_login_attempts d @ [a]) r" if "r \<in> set ?t" for r
    using that
  proof (rule in_update_whereE)
    fix q assume q: "q \<in> set (email_login_challenges d)" "P q" "r = f q"
    then have "q = ch" using only_challenge [OF ok ch(1)] P by blast
    then show ?thesis using q(3) row by simp
  next
    assume r: "r \<in> set (email_login_challenges d)" "\<not> P r"
    then have "ec_ChallengeID r \<noteq> ec_ChallengeID ch" using only_challenge [OF ok ch(1) r(1)] ch(2) by auto
    then have "\<not> answered_with w (ec_ChallengeID r) a" for w using a(2) by (simp add: answered_with_def)
    moreover have "challenge_ok (email_login_attempts d) r" using ok r(1) by (simp add: codes_ok_def)
    ultimately show ?thesis by (auto simp: challenge_ok_def count_where_append1)
  qed
  moreover have "\<forall>b \<in> set (email_login_attempts d @ [a]). \<exists>r \<in> set ?t. ec_ChallengeID r = ea_ChallengeID b"
  proof
    fix b assume "b \<in> set (email_login_attempts d @ [a])"
    then obtain q where q: "q \<in> set (email_login_challenges d)" "ec_ChallengeID q = ea_ChallengeID b"
      using ok a(2) ch(1) unfolding codes_ok_def by auto
    then have "(if P q then f q else q) \<in> set ?t" by (auto simp: update_where_def)
    then show "\<exists>r \<in> set ?t. ec_ChallengeID r = ea_ChallengeID b" using q(2) f(1) by (metis (full_types))
  qed
  ultimately show ?thesis
    using ok u a(1) unfolding codes_ok_def d' unique_on_append1 by blast
qed

lemma recorded_attempt_facts [simp]:
  "attempt_key (recorded_attempt E w c) = (vec_ChallengeID c, vec_IdempotencyKey c)" "ea_ChallengeID (recorded_attempt E w c) = vec_ChallengeID c"
  "answered_with v i (recorded_attempt E w c) = (i = vec_ChallengeID c \<and> v = w)"
  by (auto simp: recorded_attempt_def attempt_key_def answered_with_def)

lemma refused_codes_ok:
  assumes ok: "codes_ok d" and ch: "sql_LockEmailChallenge (vec_ChallengeID c) d = Some ch" "usable ch (tx_time E)" and a: "attempt_free c d"
  shows "codes_ok (refused_db E c d)"
proof -
  note l = locked_challenge [OF ch(1)]
  have row: "challenge_ok (email_login_attempts d) ch" using ok l by (simp add: codes_ok_def)
  have lt: "ec_AttemptsUsed ch < 5" using ch(2) by (simp add: usable_def EmailCodeAttemptLimit_def)
  show ?thesis
  proof (rule attempted_codes_ok [OF ok, where ch = ch and P = "spendable (vec_ChallengeID c)" and f = spent_row and a = "recorded_attempt E ''invalid'' c"])
    show "challenge_ok (email_login_attempts d @ [recorded_attempt E ''invalid'' c]) (spent_row ch)"
      using row l lt by (auto simp: challenge_ok_def spent_row_def count_where_append1)
  qed (use l lt a in \<open>auto simp: spendable_def spent_row_def current_challenge_def attempt_free_def refused_db_def\<close>)
qed

lemma verified_codes_ok:
  assumes ok: "codes_ok d" and ch: "sql_LockEmailChallenge (vec_ChallengeID c) d = Some ch" "usable ch (tx_time E)" and a: "attempt_free c d"
    and d1: "email_login_challenges d1 = email_login_challenges d" "email_login_attempts d1 = email_login_attempts d"
  shows "codes_ok (verified_db E c u d1)"
proof -
  note l = locked_challenge [OF ch(1)]
  have row: "challenge_ok (email_login_attempts d) ch" using ok l by (simp add: codes_ok_def)
  show ?thesis
  proof (rule attempted_codes_ok [OF ok, where ch = ch and P = "consumable E (vec_ChallengeID c)" and f = "consumed_row E u (vec_SessionID c)"
        and a = "recorded_attempt E ''succeeded'' c"])
    show "challenge_ok (email_login_attempts d @ [recorded_attempt E ''succeeded'' c]) (consumed_row E u (vec_SessionID c) ch)"
      using row l ch(2) by (simp add: challenge_ok_def consumed_row_def count_where_append1 usable_def)
  qed (use l ch(2) a d1 in \<open>auto simp: consumable_def consumed_row_def usable_def EmailCodeAttemptLimit_def current_challenge_def attempt_free_def verified_db_def\<close>)
qed

lemma VerifyEmailChallenge_body:
  "VerifyEmailChallenge c E d = (r, d') \<Longrightarrow>
     d' = d \<or> (\<exists>x n. VerifyEmailChallenge_tx c (purpose_of (vec_Purpose c)) E d 0 = Inr (x, d', n))"
  unfolding VerifyEmailChallenge_def by (elim checked_cases transact_answer_cases) blast+

lemma verify_tx_codes_ok:
  assumes "VerifyEmailChallenge_tx c p E d n = Inr (x, d', n')" "codes_ok d"
  shows "codes_ok d'"
proof -
  from VerifyEmailChallenge_tx_effect [OF assms(1)] obtain ch where ch: "sql_LockEmailChallenge (vec_ChallengeID c) d = Some ch"
    and cases: "d' = d \<or> usable ch (tx_time E) \<and> attempt_free c d \<and> d' = refused_db E c d \<or> (\<exists>v. opens c p E d ch v d')" by blast
  from cases show ?thesis
  proof (elim disjE exE conjE)
    fix v assume "opens c p E d ch v d'"
    then obtain u d1 where "usable ch (tx_time E)" "attempt_free c d" "proves E ch (vec_SessionID c) d u d1" "d' = verified_db E c u d1"
      unfolding opens_def by blast
    then show ?thesis using verified_codes_ok [OF assms(2) ch] proves_challenges by metis
  qed (use assms(2) ch refused_codes_ok in auto)
qed

lemma Email_keeps_codes:
  "keeps codes_ok (PrepareEmailChallenge p)" "keeps codes_ok (RecordEmailSubmission i g s)" "keeps codes_ok (VerifyEmailChallenge c)"
  subgoal unfolding PrepareEmailChallenge_def [abs_def]
    by (rule keeps_env, intro keeps_checked keeps_transact)
      (auto simp: preserves_def dest!: PrepareEmailChallenge_tx_effect intro: prepared_codes_ok)
  subgoal unfolding RecordEmailSubmission_def [abs_def]
    by (rule keeps_env, intro keeps_checked keeps_transact)
      (auto simp: preserves_def dest!: RecordEmailSubmission_tx_effect intro: recorded_codes_ok)
  subgoal unfolding keeps_def using VerifyEmailChallenge_body verify_tx_codes_ok by blast
  done


text \<open>
  Users, their sign-in methods and their Sessions: what unlinking a method does, and the invariant that
  identifiers, addresses and provider accounts are unique, every Session and method belongs to a User,
  and every User keeps a method to sign in with.
\<close>

section \<open>Unlinking\<close>

definition without_method :: "uuid \<Rightarrow> string \<Rightarrow> db \<Rightarrow> db" where
  "without_method u w d =
     (if w = EmailMethod then d\<lparr>email_identities := filter (\<lambda>e. ei_UserID e \<noteq> u) (email_identities d)\<rparr>
      else if w = GoogleMethod then d\<lparr>google_identities := filter (\<lambda>g. gg_UserID g \<noteq> u) (google_identities d)\<rparr>
      else d\<lparr>github_identities := filter (\<lambda>g. gh_UserID g \<noteq> u) (github_identities d)\<rparr>)"

definition methods_named :: "uuid \<Rightarrow> string \<Rightarrow> db \<Rightarrow> int" where
  "methods_named u w d =
     (if w = EmailMethod then count_where (\<lambda>e. ei_UserID e = u) (email_identities d)
      else if w = GoogleMethod then count_where (\<lambda>g. gg_UserID g = u) (google_identities d)
      else count_where (\<lambda>g. gh_UserID g = u) (github_identities d))"

lemma lockIdentityMethodKey_Inr: "lockIdentityMethodKey u w E d n = Inr (k, d', n') \<Longrightarrow> d' = d"
  by (auto simp: lockIdentityMethodKey_def lock_method_owner_def tx_simps advisory_lock_Inr split: if_split_asm)

lemma revalidateIdentityMethodKey_Inr: "revalidateIdentityMethodKey u k E d n = Inr (x, d', n') \<Longrightarrow> d' = d"
  by (auto simp: revalidateIdentityMethodKey_def tx_simps split: if_split_asm)

lemma delete_method_Inr:
  "delete_method u w E d n = Inr (r, d', n') \<Longrightarrow> validMethod w \<and> r = methods_named u w d \<and> d' = without_method u w d"
  by (cases "w = EmailMethod"; cases "w = GoogleMethod"; cases "w = GitHubMethod")
    (auto simp: delete_method_def modify_Inr fail_Inr methods_named_def without_method_def validMethod_def sql_DeleteEmailMethod_def
      sql_DeleteGoogleMethod_def sql_DeleteGitHubMethod_def)

definition unlink_allowed :: "env \<Rightarrow> unlink_identity_command \<Rightarrow> db \<Rightarrow> session_row \<Rightarrow> bool" where
  "unlink_allowed E c d b \<longleftrightarrow> live_session (uli_InitiatingSessionID c) (bs_UserID b) (tx_time E) d b \<and> proved_recently (tx_time E) b
     \<and> bs_IdentityProofMethod b \<noteq> uli_Method c \<and> 1 < count_methods (bs_UserID b) d"

lemma unlink_authority_Inr:
  assumes "unlink_authority c E d n = Inr (b, d', n')"
  shows "d' = d \<and> unlink_allowed E c d b"
  using assms
  by (auto simp: unlink_authority_def unlink_allowed_def live_session_def sql_CountIdentityMethods_def bind_tx_Inr query_one_Inr query_Inr require_Inr
      ret_Inr case_prod_tx_Inr dest!: lockIdentityMethodKey_Inr revalidateIdentityMethodKey_Inr loadIdentitySession_Inr)

definition unlinked_db :: "env \<Rightarrow> unlink_identity_command \<Rightarrow> session_row \<Rightarrow> timestamp \<Rightarrow> db \<Rightarrow> db" where
  "unlinked_db E c b now d =
     (let d1 = with_session E (uli_ReplacementSessionID c) (bs_UserID b) (bs_IdentityProofMethod b)
            (revoked_sessions_db (\<lambda>r. bs_UserID r = bs_UserID b) now (without_method (bs_UserID b) (uli_Method c) d))
      in d1\<lparr>identity_method_unlinks := identity_method_unlinks d1 @ [new_unlink E (bs_UserID b) c]\<rparr>)"

definition unlinks :: "env \<Rightarrow> unlink_identity_command \<Rightarrow> session_row \<Rightarrow> browser_session \<Rightarrow> db \<Rightarrow> db \<Rightarrow> bool" where
  "unlinks E c b v d d' \<longleftrightarrow> validMethod (uli_Method c) \<and> methods_named (bs_UserID b) (uli_Method c) d = 1
     \<and> \<not> key_taken unlink_key (\<lambda>_. True) (uli_InitiatingSessionID c, uli_IdempotencyKey c) (identity_method_unlinks d)
     \<and> session_free (uli_ReplacementSessionID c) (bs_UserID b) d
     \<and> (\<exists>now. d' = unlinked_db E c b now d)
     \<and> v = browserSession (new_session E (uli_ReplacementSessionID c) (bs_UserID b) (bs_IdentityProofMethod b)) LinkPurpose (bs_IdentityProofMethod b)"

lemma without_method_tables [simp]:
  "browser_sessions (without_method u w d) = browser_sessions d" "carry_users (without_method u w d) = carry_users d"
  "identity_method_unlinks (without_method u w d) = identity_method_unlinks d"
  by (simp_all add: without_method_def)

lemma key_taken_kept: "(\<And>r. k (f r) = k r) \<Longrightarrow> key_taken k (\<lambda>_. True) x (update_where Q f t) = key_taken k (\<lambda>_. True) x t"
  by (induction t) (auto simp: key_taken_iff update_where_def)

lemma session_free_revoked [simp]: "session_free s u (revoked_sessions_db P now d) = session_free s u d"
  by (simp add: session_free_def revoked_sessions_db_def key_taken_kept revoked_session_def)

lemma session_free_same: "browser_sessions d' = browser_sessions d \<Longrightarrow> carry_users d' = carry_users d \<Longrightarrow> session_free s u d' = session_free s u d"
  by (simp add: session_free_def)

lemma revoke_user_sessions: "snd (sql_RevokeUserBrowserSessions now u d) = revoked_sessions_db (\<lambda>b. bs_UserID b = u) now d"
  by (simp add: sql_RevokeUserBrowserSessions_def revoked_sessions_db_def Let_def)

lemma sql_RecordIdentityMethodUnlink_Inr:
  "sql_RecordIdentityMethodUnlink r d = Inr (x, d') \<longleftrightarrow> validMethod (ul_Method r) \<and> ul_IdempotencyKey r \<noteq> [] \<and> length (ul_IdempotencyKey r) \<le> 255
     \<and> length (ul_RequestDigest r) = 32 \<and> \<not> key_taken unlink_key (\<lambda>_. True) (unlink_key r) (identity_method_unlinks d)
     \<and> d' = d\<lparr>identity_method_unlinks := identity_method_unlinks d @ [r]\<rparr>"
  by (auto simp: sql_RecordIdentityMethodUnlink_def)

lemma unlink_key_new [simp]: "unlink_key (new_unlink E u c) = (uli_InitiatingSessionID c, uli_IdempotencyKey c)"
  by (simp add: unlink_key_def new_unlink_def)

lemma unlink_now_Inr:
  assumes "unlink_now c b E d n = Inr (v, d', n')"
  shows "unlinks E c b v d d'"
proof -
  let ?u = "bs_UserID b"
  from assms obtain r d1 n1 where m: "delete_method ?u (uli_Method c) E d n = Inr (r, d1, n1)"
    and rest: "bind_tx (require (r = 1) not_linked) (\<lambda>_.
     bind_tx (modify (\<lambda>E now. sql_RevokeUserBrowserSessions now ?u)) (\<lambda>_.
     bind_tx (open_session (uli_ReplacementSessionID c) ?u (bs_IdentityProofMethod b)) (\<lambda>created.
     bind_tx (insert_row (\<lambda>E now. sql_RecordIdentityMethodUnlink (new_unlink E ?u c))) (\<lambda>_.
     ret (browserSession created LinkPurpose (bs_IdentityProofMethod b)))))) E d1 n1 = Inr (v, d', n')"
    unfolding unlink_now_def bind_tx_Inr [of "delete_method _ _"] by blast
  from rest obtain now s d2 x0 d3 n3 n4 where r: "r = 1"
    and d2: "sql_RevokeUserBrowserSessions now ?u d1 = (x0, d2)"
    and s: "open_session (uli_ReplacementSessionID c) ?u (bs_IdentityProofMethod b) E d2 n3 = Inr (s, d3, n4)"
    and x: "sql_RecordIdentityMethodUnlink (new_unlink E ?u c) d3 = Inr ((), d')"
    and v: "v = browserSession s LinkPurpose (bs_IdentityProofMethod b)"
    by (auto simp: bind_tx_Inr require_Inr modify_Inr insert_row_Inr ret_Inr)
  from delete_method_Inr [OF m] have d1: "validMethod (uli_Method c)" "r = methods_named ?u (uli_Method c) d" "d1 = without_method ?u (uli_Method c) d" by blast+
  have d2': "d2 = revoked_sessions_db (\<lambda>b. bs_UserID b = ?u) now d1" using d2 revoke_user_sessions [of now ?u d1] by simp
  from s have s': "s = new_session E (uli_ReplacementSessionID c) ?u (bs_IdentityProofMethod b)" "session_free (uli_ReplacementSessionID c) ?u d1"
      "d3 = with_session E (uli_ReplacementSessionID c) ?u (bs_IdentityProofMethod b) (revoked_sessions_db (\<lambda>b. bs_UserID b = ?u) now d1)"
    unfolding open_session_Inr d2' by simp_all
  have same: "identity_method_unlinks d3 = identity_method_unlinks d" by (simp add: s'(3) d1(3) with_session_def revoked_sessions_db_def)
  have "d' = unlinked_db E c b now d" using x unfolding sql_RecordIdentityMethodUnlink_Inr unlinked_db_def Let_def s'(3) d1(3) by blast
  moreover have "\<not> key_taken unlink_key (\<lambda>_. True) (uli_InitiatingSessionID c, uli_IdempotencyKey c) (identity_method_unlinks d)"
    using x same by (simp add: sql_RecordIdentityMethodUnlink_Inr)
  moreover have "session_free (uli_ReplacementSessionID c) ?u d"
    using s'(2) d1(3) session_free_same [OF without_method_tables(1,2)] by simp
  ultimately show ?thesis using d1(1,2) r v s'(1) unfolding unlinks_def by blast
qed

lemma UnlinkIdentityMethod_tx_effect:
  assumes "UnlinkIdentityMethod_tx c E d n = Inr (v, d', n')"
  shows "(d' = d \<and> (\<exists>r s. sql_LoadIdentityMethodUnlinkReplay (uli_InitiatingSessionID c) (uli_IdempotencyKey c) d = Some r
        \<and> ul_Method r = uli_Method c \<and> ul_RequestDigest r = uli_RequestDigest c
        \<and> sql_LoadActiveBrowserSessionByID (ul_ReplacementSessionID r) E d = Some s
        \<and> v = browserSession s LinkPurpose (bs_IdentityProofMethod s)))
    \<or> (\<exists>b. unlink_allowed E c d b \<and> unlinks E c b v d d')"
proof (cases "sql_LoadIdentityMethodUnlinkReplay (uli_InitiatingSessionID c) (uli_IdempotencyKey c) d")
  case (Some r)
  with assms show ?thesis by (auto simp: UnlinkIdentityMethod_tx_def replay_unlink_def tx_simps)
next
  case None
  with assms obtain n0 b d1 n1 where a: "unlink_authority c E d n0 = Inr (b, d1, n1)" "unlink_now c b E d1 n1 = Inr (v, d', n')"
    by (auto simp: UnlinkIdentityMethod_tx_def bind_tx_Inr query_Inr)
  with unlink_authority_Inr [OF a(1)] unlink_now_Inr [OF a(2)] show ?thesis by auto
qed

section \<open>The invariant\<close>

definition has_user :: "uuid \<Rightarrow> db \<Rightarrow> bool" where
  "has_user u d \<longleftrightarrow> (\<exists>r \<in> set (carry_users d). u_UserID r = u)"

definition google_key :: "google_identity_row \<Rightarrow> string \<times> string" where
  "google_key g = (gg_Issuer g, gg_Subject g)"

text \<open>What is unique, and whose everything is.\<close>

definition keys_ok :: "db \<Rightarrow> bool" where
  "keys_ok d \<longleftrightarrow> unique_on u_UserID (\<lambda>_. True) (carry_users d) \<and> unique_on bs_SessionID (\<lambda>_. True) (browser_sessions d)
     \<and> unique_on ei_CanonicalEmail (\<lambda>_. True) (email_identities d) \<and> unique_on ei_UserID (\<lambda>_. True) (email_identities d)
     \<and> unique_on google_key (\<lambda>_. True) (google_identities d) \<and> unique_on gg_UserID (\<lambda>_. True) (google_identities d)
     \<and> unique_on gh_GithubUserID (\<lambda>_. True) (github_identities d) \<and> unique_on gh_UserID (\<lambda>_. True) (github_identities d)"

definition session_well_formed :: "session_row \<Rightarrow> bool" where
  "session_well_formed b \<longleftrightarrow> validMethod (bs_IdentityProofMethod b) \<and> bs_ExpiresAt b = bs_CreatedAt b + 30 * hours 24
     \<and> bs_IdentityProvedAt b = bs_CreatedAt b"

definition owners_exist :: "db \<Rightarrow> bool" where
  "owners_exist d \<longleftrightarrow> (\<forall>b \<in> set (browser_sessions d). has_user (bs_UserID b) d \<and> session_well_formed b)
     \<and> (\<forall>e \<in> set (email_identities d). has_user (ei_UserID e) d) \<and> (\<forall>g \<in> set (google_identities d). has_user (gg_UserID g) d)
     \<and> (\<forall>g \<in> set (github_identities d). has_user (gh_UserID g) d)"

text \<open>Every User but perhaps one can sign in.\<close>

definition can_sign_in :: "(uuid \<Rightarrow> bool) \<Rightarrow> db \<Rightarrow> bool" where
  "can_sign_in X d \<longleftrightarrow> (\<forall>u \<in> set (carry_users d). X (u_UserID u) \<or> 0 < count_methods (u_UserID u) d)"

definition methods_ok :: "(uuid \<Rightarrow> bool) \<Rightarrow> db \<Rightarrow> bool" where
  "methods_ok X d \<longleftrightarrow> keys_ok d \<and> owners_exist d \<and> can_sign_in X d"

definition nobody :: "uuid \<Rightarrow> bool" where
  "nobody v = False"

definition only :: "uuid \<Rightarrow> uuid \<Rightarrow> bool" where
  "only u v \<longleftrightarrow> v = u"

lemmas exceptions [simp] = nobody_def only_def

lemmas methods_defs = methods_ok_def keys_ok_def owners_exist_def can_sign_in_def has_user_def count_methods_def

definition identity_tables :: "db \<Rightarrow> user_row list \<times> session_row list \<times> email_identity_row list \<times> google_identity_row list \<times> github_identity_row list" where
  "identity_tables d = (carry_users d, browser_sessions d, email_identities d, google_identities d, github_identities d)"

lemma methods_ok_same: "identity_tables d' = identity_tables d \<Longrightarrow> methods_ok X d' = methods_ok X d"
  by (simp add: methods_defs identity_tables_def)

lemma methods_ok_empty: "methods_ok nobody empty_db"
  by (simp add: methods_defs empty_db_def)

lemma with_session_methods_ok:
  "methods_ok X d \<Longrightarrow> session_free s u d \<Longrightarrow> validMethod m \<Longrightarrow> methods_ok X (with_session E s u m d)"
  by (auto simp: methods_defs session_free_def with_session_def unique_on_append1 session_well_formed_def new_session_def)

lemma revoked_methods_ok: "methods_ok X d \<Longrightarrow> methods_ok X (revoked_sessions_db P now d)"
proof -
  assume ok: "methods_ok X d"
  let ?t = "update_where (\<lambda>b. P b \<and> bs_RevokedAt b = None) (revoked_session now) (browser_sessions d)"
  have "unique_on bs_SessionID (\<lambda>_. True) ?t"
    using ok by (intro unique_on_thin) (simp_all add: methods_ok_def keys_ok_def revoked_session_def)
  moreover have "\<forall>b \<in> set ?t. has_user (bs_UserID b) d \<and> session_well_formed b"
    using ok by (auto simp: update_where_ball methods_ok_def owners_exist_def revoked_session_def session_well_formed_def)
  ultimately show ?thesis using ok by (simp add: methods_defs revoked_sessions_db_def)
qed

lemma joined_methods_ok:
  assumes "methods_ok nobody d" "\<not> key_taken u_UserID (\<lambda>_. True) u (carry_users d)"
  shows "methods_ok (only u) (joined_user_db E u name d)"
  using assms by (auto simp: methods_defs joined_user_db_def unique_on_append1)

lemma linked_methods_ok:
  assumes "methods_ok (only u) d" "has_user u d" "\<not> key_taken ei_CanonicalEmail (\<lambda>_. True) e (email_identities d)"
    "\<not> key_taken ei_UserID (\<lambda>_. True) u (email_identities d)"
  shows "methods_ok nobody (linked_db E e u d)"
proof -
  have c: "count_methods v (linked_db E e u d) = count_methods v d + (if v = u then 1 else 0)" for v
    by (simp add: count_methods_def linked_db_def)
  have "0 \<le> count_methods u d" by (simp add: count_methods_def)
  moreover have "carry_users (linked_db E e u d) = carry_users d" by (simp add: linked_db_def)
  ultimately have "can_sign_in nobody (linked_db E e u d)"
    using assms(1) by (fastforce simp: can_sign_in_def c methods_ok_def)
  then show ?thesis using assms by (auto simp: methods_ok_def keys_ok_def owners_exist_def has_user_def linked_db_def unique_on_append1)
qed

lemma methods_ok_weaken: "methods_ok nobody d \<Longrightarrow> methods_ok X d"
  by (auto simp: methods_ok_def can_sign_in_def)

lemma unique_on_filter: "unique_on k P t \<Longrightarrow> unique_on k P (filter Q t)"
  by (induction t) (auto simp: unique_on_Cons)

lemma count_where_others: "count_where (\<lambda>r. k r = v) (filter (\<lambda>r. k r \<noteq> u) t) = (if v = u then 0 else count_where (\<lambda>r. k r = v) t)"
  by (induction t) auto

lemma without_method_count:
  "count_methods v (without_method u w d) = count_methods v d - (if v = u then methods_named u w d else 0)"
  by (simp add: without_method_def count_methods_def methods_named_def count_where_others)

lemma without_method_ok:
  assumes ok: "methods_ok nobody d" and w: "validMethod w" "methods_named u w d = 1" "1 < count_methods u d"
  shows "methods_ok nobody (without_method u w d)"
proof -
  have "can_sign_in nobody (without_method u w d)"
    using ok w by (auto simp: can_sign_in_def methods_ok_def without_method_count)
  moreover have "keys_ok (without_method u w d)" "owners_exist (without_method u w d)"
    using ok by (auto simp: methods_ok_def keys_ok_def owners_exist_def has_user_def without_method_def intro: unique_on_filter)
  ultimately show ?thesis by (simp add: methods_ok_def)
qed


text \<open>Every method of the Email login and of the sign-in methods keeps the invariants of Users and Sessions.\<close>

lemma session_free_user: "session_free s u d \<Longrightarrow> has_user u d"
  by (simp add: session_free_def has_user_def)

lemma email_valid [simp]: "validMethod EmailMethod"
  by (simp add: validMethod_def)

lemma same_identity_tables:
  "identity_tables (d\<lparr>email_login_challenges := cs\<rparr>) = identity_tables d" "identity_tables (prepared_db E c row d) = identity_tables d"
  "identity_tables (refused_db E v d) = identity_tables d" "identity_tables (verified_db E v u d) = identity_tables d"
  "identity_tables (d\<lparr>identity_method_unlinks := us\<rparr>) = identity_tables d"
  by (simp_all add: identity_tables_def prepared_db_def refused_db_def verified_db_def)

lemma logs_in_methods_ok: "logs_in E ch s d u d' \<Longrightarrow> methods_ok nobody d \<Longrightarrow> methods_ok nobody d'"
  unfolding logs_in_def first_login_db_def
proof (elim disjE conjE)
  assume ok: "methods_ok nobody d" and u: "u = fresh E 0" "\<not> key_taken u_UserID (\<lambda>_. True) u (carry_users d)"
    "\<not> key_taken ei_UserID (\<lambda>_. True) u (email_identities d)" "sql_LoadEmailIdentity (ec_CanonicalEmail ch) d = None"
    and d': "d' = with_session E s u EmailMethod (linked_db E (ec_CanonicalEmail ch) (fresh E 0)
        (joined_user_db E (fresh E 0) (''Member '' @ take 8 (filter (\<lambda>c. c \<noteq> CHR ''-'') (fresh E 0))) d))"
    and s: "session_free s u (linked_db E (ec_CanonicalEmail ch) (fresh E 0)
        (joined_user_db E (fresh E 0) (''Member '' @ take 8 (filter (\<lambda>c. c \<noteq> CHR ''-'') (fresh E 0))) d))"
  show ?thesis unfolding d' u(1) [symmetric]
    by (rule with_session_methods_ok [OF linked_methods_ok [OF joined_methods_ok [OF ok u(2)]]])
      (use u s in \<open>simp_all add: has_user_def joined_user_db_def email_owner_row(2)\<close>)
qed (auto intro: with_session_methods_ok)

lemma reauthenticates_methods_ok: "reauthenticates E ch s d u d' \<Longrightarrow> methods_ok nobody d \<Longrightarrow> methods_ok nobody d'"
  by (auto simp: reauthenticates_def Let_def intro!: with_session_methods_ok revoked_methods_ok)

lemma email_of_user: "sql_LoadEmailMethodForUser u d = None \<longleftrightarrow> \<not> key_taken ei_UserID (\<lambda>_. True) u (email_identities d)"
  by (auto simp: sql_LoadEmailMethodForUser_def key_taken_iff first_where_None)

lemma links_methods_ok:
  assumes "links E ch s d u d'" "methods_ok nobody d"
  shows "methods_ok nobody d'"
proof -
  from assms(1) obtain now where u: "sql_LoadEmailIdentity (ec_CanonicalEmail ch) d = None" "sql_LoadEmailMethodForUser u d = None"
    and d': "d' = with_session E s u EmailMethod (revoked_sessions_db (\<lambda>b. bs_UserID b = u) now (linked_db E (ec_CanonicalEmail ch) u d))"
    and s: "session_free s u (linked_db E (ec_CanonicalEmail ch) u d)"
    unfolding links_def Let_def by auto
  have "has_user u d" using session_free_user [OF s] by (simp add: has_user_def linked_db_def)
  then have "methods_ok nobody (linked_db E (ec_CanonicalEmail ch) u d)"
    by (intro linked_methods_ok methods_ok_weaken [OF assms(2)]) (use u in \<open>simp_all add: email_owner_row(2) email_of_user\<close>)
  with s show ?thesis unfolding d' by (intro with_session_methods_ok revoked_methods_ok) simp_all
qed

lemma proves_methods_ok: "proves E ch s d u d' \<Longrightarrow> methods_ok nobody d \<Longrightarrow> methods_ok nobody d'"
  unfolding proves_def using logs_in_methods_ok reauthenticates_methods_ok links_methods_ok by (auto split: if_split_asm)

lemma verify_tx_methods_ok:
  assumes "VerifyEmailChallenge_tx c p E d n = Inr (x, d', n')" "methods_ok nobody d"
  shows "methods_ok nobody d'"
proof -
  from VerifyEmailChallenge_tx_effect [OF assms(1)] obtain ch where
    "d' = d \<or> d' = refused_db E c d \<or> (\<exists>v. opens c p E d ch v d')" by blast
  then show ?thesis
  proof (elim disjE exE)
    fix v assume "opens c p E d ch v d'"
    then obtain u d1 where "proves E ch (vec_SessionID c) d u d1" "d' = verified_db E c u d1" unfolding opens_def by blast
    with proves_methods_ok assms(2) show ?thesis by (simp add: methods_ok_same [OF same_identity_tables(4)])
  qed (use assms(2) in \<open>simp_all add: methods_ok_same [OF same_identity_tables(3)]\<close>)
qed

lemma unlinks_methods_ok:
  assumes "unlink_allowed E c d b" "unlinks E c b v d d'" "methods_ok nobody d"
  shows "methods_ok nobody d'"
proof -
  let ?u = "bs_UserID b" and ?d = "without_method (bs_UserID b) (uli_Method c) d"
  from assms(1) have b: "1 < count_methods ?u d" "b \<in> set (browser_sessions d)" by (simp_all add: unlink_allowed_def live_session_def)
  from assms(2) obtain now where u: "validMethod (uli_Method c)" "methods_named ?u (uli_Method c) d = 1"
      "session_free (uli_ReplacementSessionID c) ?u d" "d' = unlinked_db E c b now d"
    unfolding unlinks_def by blast
  have m: "validMethod (bs_IdentityProofMethod b)"
    using b(2) assms(3) by (simp add: methods_ok_def owners_exist_def session_well_formed_def)
  have "methods_ok nobody (with_session E (uli_ReplacementSessionID c) ?u (bs_IdentityProofMethod b) (revoked_sessions_db (\<lambda>r. bs_UserID r = ?u) now ?d))"
    by (intro with_session_methods_ok revoked_methods_ok without_method_ok [OF assms(3) u(1,2) b(1)])
      (use u(3) m session_free_same [OF without_method_tables(1,2)] in simp_all)
  then show ?thesis by (simp add: u(4) unlinked_db_def Let_def methods_ok_same [OF same_identity_tables(5)])
qed

lemma revoke_session: "snd (sql_RevokeBrowserSession E s d) = revoked_sessions_db (\<lambda>b. bs_SessionID b = s) (tx_time E) d"
  by (simp add: sql_RevokeBrowserSession_def revoked_sessions_db_def Let_def revoked_session_def [abs_def])

lemma RevokeBrowserSession_cases:
  assumes "RevokeBrowserSession s E d = (r, d')"
  obtains "d' = d" | "d' = revoked_sessions_db (\<lambda>b. bs_SessionID b = s) (tx_time E) d"
  using assms unfolding RevokeBrowserSession_def
  by (elim transact_cases) (use revoke_session [of E s d] in \<open>auto simp: tx_simps\<close>)

lemma Identity_keeps_methods:
  "keeps (methods_ok nobody) (PrepareEmailChallenge p)" "keeps (methods_ok nobody) (RecordEmailSubmission i g s)"
  "keeps (methods_ok nobody) (VerifyEmailChallenge v)" "keeps (methods_ok nobody) (UnlinkIdentityMethod u)"
  "keeps (methods_ok nobody) (RevokeBrowserSession k)"
  subgoal unfolding PrepareEmailChallenge_def [abs_def]
    by (rule keeps_env, intro keeps_checked keeps_transact)
      (auto simp: preserves_def methods_ok_same [OF same_identity_tables(2)] dest!: PrepareEmailChallenge_tx_effect)
  subgoal unfolding RecordEmailSubmission_def [abs_def]
    by (rule keeps_env, intro keeps_checked keeps_transact)
      (auto simp: preserves_def methods_ok_same [OF same_identity_tables(1)] dest!: RecordEmailSubmission_tx_effect)
  subgoal unfolding keeps_def using VerifyEmailChallenge_body verify_tx_methods_ok by blast
  subgoal unfolding UnlinkIdentityMethod_def [abs_def]
    by (rule keeps_env, intro keeps_checked keeps_transact)
      (auto simp: preserves_def dest!: UnlinkIdentityMethod_tx_effect intro: unlinks_methods_ok)
  subgoal unfolding keeps_def by (auto elim!: RevokeBrowserSession_cases intro: revoked_methods_ok)
  done

lemma unlinked_codes:
  "email_login_challenges (unlinked_db E c b now d) = email_login_challenges d" "email_login_attempts (unlinked_db E c b now d) = email_login_attempts d"
  by (simp_all add: unlinked_db_def Let_def with_session_def revoked_sessions_db_def without_method_def)

lemma Identity_keeps_codes: "keeps codes_ok (UnlinkIdentityMethod u)" "keeps codes_ok (RevokeBrowserSession k)"
  subgoal unfolding UnlinkIdentityMethod_def [abs_def]
    by (rule keeps_env, intro keeps_checked keeps_transact)
      (auto simp: preserves_def unlinks_def codes_ok_same [OF unlinked_codes] dest!: UnlinkIdentityMethod_tx_effect)
  subgoal unfolding keeps_def by (auto elim!: RevokeBrowserSession_cases simp: revoked_sessions_db_def codes_ok_def)
  done

end
