(* ===== verification/External_State.thy ===== *)
theory External_State
  imports External_Store Identity_State
begin

text \<open>What the external login store does to the database, method by method.\<close>

section \<open>Statements\<close>

lemma lenientUUID_Inr [tx_simps]:
  "lenientUUID v E d n = Inr r \<longleftrightarrow> r = (if v \<noteq> [] \<and> uuid_parse E v then Some v else None, d, n)"
  by (auto simp: lenientUUID_def ask_def)

lemma with_claim_Inr [tx_simps]: "with_claim t m E d n = Inr r \<longleftrightarrow> m E d n = Inr r"
  by (simp add: with_claim_def split: sum.splits)

lemma observed_Inr:
  "observed (query q) E d n = Inr (r, d', n') \<longleftrightarrow> d' = d \<and> n' = Suc n
     \<and> r = (if fault E n then Inl (DatabaseError Connection_failed) else Inr (q E (clock E n) d))"
  by (auto simp: observed_def query_def)

lemma locked_external: "sql_LockExternalLogin i d = Some t \<Longrightarrow> t \<in> set (external_login_transactions d) \<and> et_TransactionID t = i"
  by (auto simp: sql_LockExternalLogin_def dest: first_where_Some)

lemma sql_CreateExternalLogin_Inr:
  "sql_CreateExternalLogin t d = Inr (x, d') \<longleftrightarrow> external_columns_ok t
     \<and> \<not> key_taken et_TransactionID (\<lambda>_. True) (et_TransactionID t) (external_login_transactions d)
     \<and> x = et_ExpiresAt t \<and> d' = d\<lparr>external_login_transactions := external_login_transactions d @ [t]\<rparr>"
  by (auto simp: sql_CreateExternalLogin_def)

lemma new_external_facts [simp]:
  "et_TransactionID (new_external E i p w u s v g) = i" "et_Provider (new_external E i p w u s v g) = p"
  "et_Status (new_external E i p w u s v g) = ''prepared''" "et_CallbackDigest (new_external E i p w u s v g) = None"
  "et_ExpiresAt (new_external E i p w u s v g) = tx_time E + minutes 10" "et_CompletedAt (new_external E i p w u s v g) = None"
  "et_UserID (new_external E i p w u s v g) = None" "et_BrowserSessionID (new_external E i p w u s v g) = None"
  "et_Purpose (new_external E i p w u s v g) = w" "et_TargetUserID (new_external E i p w u s v g) = u"
  "et_InitiatingSessionID (new_external E i p w u s v g) = s" "et_InvitationID (new_external E i p w u s v g) = v"
  "et_SourceDigest (new_external E i p w u s v g) = Some g" "et_CreatedAt (new_external E i p w u s v g) = tx_time E"
  by (simp_all add: new_external_def)

section \<open>Starting\<close>

definition unexpired_externals :: "env \<Rightarrow> db \<Rightarrow> external_transaction_row list" where
  "unexpired_externals E d = filter (\<lambda>t. tx_time E < et_ExpiresAt t) (external_login_transactions d)"

definition external_started :: "env \<Rightarrow> external_transaction_row \<Rightarrow> external_transaction_row list \<Rightarrow> db \<Rightarrow> db \<Rightarrow> bool" where
  "external_started E t ts d d' \<longleftrightarrow> external_columns_ok t \<and> \<not> key_taken et_TransactionID (\<lambda>_. True) (et_TransactionID t) ts
     \<and> d' = d\<lparr>external_login_transactions := ts @ [t]\<rparr>"

lemma CreateExternalLogin_tx_effect:
  assumes "CreateExternalLogin_tx c E d n = Inr (x, d', n')"
  shows "\<exists>v. external_started E (new_external E (cec_TransactionID c) (cec_Provider c) LoginPurpose None None v (cec_SourceDigest c))
        (unexpired_externals E d) d d'
    \<and> count_where (\<lambda>t. et_SourceDigest t = Some (cec_SourceDigest c) \<and> live_login E t) (external_login_transactions d) < 20
    \<and> count_where (live_login E) (external_login_transactions d) < 10000 \<and> x = tx_time E + minutes 10"
proof -
  have same: "count_where (\<lambda>t. P t \<and> live_login E t) (filter (\<lambda>t. \<not> et_ExpiresAt t \<le> tx_time E) ts)
      = count_where (\<lambda>t. P t \<and> live_login E t) ts" for P ts
    by (induction ts) (auto simp: live_login_def)
  show ?thesis
    using assms same [of "\<lambda>t. et_SourceDigest t = Some (cec_SourceDigest c)"] same [of "\<lambda>_. True"]
    by (auto simp: CreateExternalLogin_tx_def tx_simps advisory_lock_Inr sql_DeleteExpiredExternalLogins_def
        sql_CountLiveExternalLoginsForSource_def sql_CountLiveExternalLogins_def ExternalLoginSourceAdmissionLimit_def
        ExternalLoginGlobalAdmissionLimit_def sql_CreateExternalLogin_Inr external_started_def unexpired_externals_def not_le)
qed

lemma CreateExternalIdentityProof_tx_effect:
  assumes "CreateExternalIdentityProof_tx c E d n = Inr (x, d', n')"
  shows "\<exists>u s b. external_started E (new_external E (cpc_TransactionID c) (cpc_Provider c) (cpc_Purpose c) u s None (replicate 32 (CHR 0x00)))
        (external_login_transactions d) d d'
    \<and> live_session (cpc_InitiatingSessionID c) (cpc_TargetUserID c) (tx_time E) d b
    \<and> (cpc_Purpose c = LinkPurpose \<longrightarrow> proved_recently (tx_time E) b)
    \<and> (cpc_Purpose c = ReauthenticatePurpose \<longrightarrow> has_provider_method (cpc_Provider c) (cpc_TargetUserID c) d)"
proof (cases "cpc_Purpose c = ReauthenticatePurpose")
  case True
  with assms show ?thesis
    by (auto simp: CreateExternalIdentityProof_tx_def bind_tx_Inr query_one_Inr query_Inr require_Inr case_prod_tx_Inr lenientUUID_Inr insert_row_Inr
        sql_CreateExternalLogin_Inr external_started_def purpose_defs dest!: loadIdentitySession_Inr)
next
  case False
  with assms show ?thesis
    by (auto simp: CreateExternalIdentityProof_tx_def bind_tx_Inr query_one_Inr ret_Inr case_prod_tx_Inr lenientUUID_Inr insert_row_Inr
        sql_CreateExternalLogin_Inr external_started_def purpose_defs dest!: loadIdentitySession_Inr)
qed

section \<open>Claiming\<close>

definition updated_externals :: "(external_transaction_row \<Rightarrow> bool) \<Rightarrow> (external_transaction_row \<Rightarrow> external_transaction_row) \<Rightarrow> db \<Rightarrow> db" where
  "updated_externals P f d = d\<lparr>external_login_transactions := update_where P f (external_login_transactions d)\<rparr>"

lemma update_externals_pair: "update_externals P f d = (count_where P (external_login_transactions d), updated_externals P f d)"
  by (simp add: update_externals_def updated_externals_def)

definition claims :: "claim_external_command \<Rightarrow> env \<Rightarrow> external_transaction_row \<Rightarrow> db \<Rightarrow> carry_error + external_claim \<Rightarrow> db \<Rightarrow> bool" where
  "claims c E t d x d' \<longleftrightarrow> et_Status t = ''prepared'' \<and> tx_time E < et_ExpiresAt t
     \<and> (if cxc_Outcome c = ExternalCallbackCode
        then x = Inr (external_claim_of t)
          \<and> d' = updated_externals (open_external E ''prepared'' (cxc_TransactionID c) (cxc_Provider c)) (claimed_external (cxc_CallbackDigest c)) d
        else (\<exists>w e. w \<in> {''denied'', ''unknown''} \<and> x = Inl e
          \<and> d' = updated_externals (open_external E ''prepared'' (cxc_TransactionID c) (cxc_Provider c)) (finished_external E w (cxc_CallbackDigest c)) d))"

definition replays_external :: "external_transaction_row \<Rightarrow> env \<Rightarrow> db \<Rightarrow> carry_error + external_claim \<Rightarrow> bool" where
  "replays_external t E d x \<longleftrightarrow> et_Status t = ''succeeded'' \<and> (\<exists>b cl. sql_LoadActiveBrowserSessionByID (uuidValue (et_BrowserSessionID t)) E d = Some b
     \<and> x = Inr cl \<and> xcl_IsReplay cl
     \<and> xcl_Session cl = Some ((browserSession b (et_Purpose t) (et_Provider t))\<lparr>brs_InvitationID := uuidValue (et_InvitationID t)\<rparr>))"

definition expires_exchange :: "claim_external_command \<Rightarrow> env \<Rightarrow> external_transaction_row \<Rightarrow> db \<Rightarrow> carry_error + external_claim \<Rightarrow> db \<Rightarrow> bool" where
  "expires_exchange c E t d x d' \<longleftrightarrow> et_Status t = ''exchanging'' \<and> (\<exists>e. x = Inl e)
     \<and> d' = updated_externals (exchanged (cxc_TransactionID c) (cxc_Provider c) (cxc_CallbackDigest c)) (settled_external E ''unknown'') d"

lemma claim_prepared_Inr:
  "claim_prepared c t E d n = Inr (x, d', n') \<Longrightarrow> et_Status t = ''prepared'' \<Longrightarrow> tx_time E < et_ExpiresAt t \<Longrightarrow> claims c E t d x d'"
  by (auto simp: claim_prepared_def claims_def Let_def tx_simps sql_ClaimExternalLoginExchange_def sql_FinishExternalLoginWithoutAuthority_def
      update_externals_pair split: if_split_asm)

lemma claim_by_status_Inr:
  assumes "claim_by_status c t (tx_time E) E d n = Inr (x, d', n')"
  shows "(d' = d \<and> replays_external t E d x) \<or> expires_exchange c E t d x d' \<or> claims c E t d x d'"
proof -
  consider "et_Status t = ''succeeded''" | "et_Status t = ''exchanging''" | "et_Status t = ''prepared''"
    | "et_Status t \<notin> {''succeeded'', ''exchanging'', ''prepared''}" by blast
  then show ?thesis
  proof cases
    case 1
    with assms have "d' = d \<and> replays_external t E d x"
      by (auto simp: claim_by_status_def Let_def replay_external_def replays_external_def tx_simps)
    then show ?thesis by blast
  next
    case 2
    with assms have "expires_exchange c E t d x d'"
      by (auto simp: claim_by_status_def Let_def expire_exchange_def expires_exchange_def tx_simps sql_MarkExternalLoginUnknown_def
          update_externals_pair split: if_split_asm)
    then show ?thesis by blast
  next
    case 3
    with assms have "claim_prepared c t E d n = Inr (x, d', n')" "tx_time E < et_ExpiresAt t"
      by (auto simp: claim_by_status_def Let_def bind_tx_Inr require_Inr)
    with 3 show ?thesis by (blast intro: claim_prepared_Inr)
  next
    case 4
    with assms show ?thesis by (auto simp: claim_by_status_def Let_def fail_Inr split: if_split_asm)
  qed
qed

lemma ClaimExternalLogin_tx_effect:
  assumes "ClaimExternalLogin_tx c E d n = Inr (x, d', n')"
  shows "\<exists>t. sql_LockExternalLogin (cxc_TransactionID c) d = Some t \<and> et_Provider t = cxc_Provider c
    \<and> (\<forall>g. et_CallbackDigest t = Some g \<longrightarrow> g = [] \<or> g = cxc_CallbackDigest c)
    \<and> ((d' = d \<and> replays_external t E d x) \<or> expires_exchange c E t d x d' \<or> claims c E t d x d')"
proof -
  from assms obtain t k where t: "sql_LockExternalLogin (cxc_TransactionID c) d = Some t" "et_Provider t = cxc_Provider c"
      "\<forall>g. et_CallbackDigest t = Some g \<longrightarrow> g = [] \<or> g = cxc_CallbackDigest c"
    and s: "claim_by_status c t (tx_time E) E d k = Inr (x, d', n')"
    by (auto simp: ClaimExternalLogin_tx_def bind_tx_Inr query_one_Inr require_Inr with_claim_Inr query_Inr sql_ExternalLoginDatabaseTime_def
        split: option.split_asm)
  from t claim_by_status_Inr [OF s] show ?thesis by blast
qed

section \<open>Completing\<close>

text \<open>The User an account of the provider stands for, and the database once that is recorded.\<close>

definition resolves :: "env \<Rightarrow> provider_ops \<Rightarrow> external_transaction_row \<Rightarrow> db \<Rightarrow> uuid \<Rightarrow> db \<Rightarrow> bool" where
  "resolves E ops t d u d' \<longleftrightarrow>
     (if et_Purpose t = LoginPurpose then
        (po_owner ops d = Some u \<and> d' = d)
        \<or> (po_owner ops d = None \<and> u = fresh E 0 \<and> \<not> key_taken u_UserID (\<lambda>_. True) u (carry_users d)
             \<and> (\<exists>name. po_create ops E u (joined_user_db E u name d) = Inr ((), d')))
      else u = uuidValue (et_TargetUserID t)
        \<and> (\<exists>b. live_session (uuidValue (et_InitiatingSessionID t)) u (tx_time E) d b \<and> (et_Purpose t = LinkPurpose \<longrightarrow> proved_recently (tx_time E) b))
        \<and> (if et_Purpose t = ReauthenticatePurpose then po_owner ops d = Some u \<and> d' = d
           else et_Purpose t = LinkPurpose \<and> po_owner ops d = None \<and> \<not> po_linked ops u d \<and> po_create ops E u d = Inr ((), d')))"

lemma first_external_login_Inr:
  "first_external_login ops E d n = Inr (u, d', n') \<Longrightarrow> u = fresh E 0 \<and> \<not> key_taken u_UserID (\<lambda>_. True) u (carry_users d)
     \<and> (\<exists>name. po_create ops E u (joined_user_db E u name d) = Inr ((), d'))"
  by (auto simp: first_external_login_def tx_simps FallbackDisplayName_def sql_CreateExternalLoginUser_def joined_user_db_def split: if_split_asm)

lemma resolve_login_Inr:
  "resolve_login ops (po_owner ops d) E d n = Inr (u, d', n') \<Longrightarrow> (po_owner ops d = Some u \<and> d' = d)
     \<or> (po_owner ops d = None \<and> u = fresh E 0 \<and> \<not> key_taken u_UserID (\<lambda>_. True) u (carry_users d)
        \<and> (\<exists>name. po_create ops E u (joined_user_db E u name d) = Inr ((), d')))"
  by (cases "po_owner ops d") (auto simp: resolve_login_def provider_owned_still_def tx_simps dest!: first_external_login_Inr)

lemma resolve_identity_Inr:
  assumes "resolve_identity ops t E d n = Inr (u, d', n')"
  shows "resolves E ops t d u d'"
proof -
  let ?u = "uuidValue (et_TargetUserID t)" and ?s = "uuidValue (et_InitiatingSessionID t)"
  consider (login) "et_Purpose t = LoginPurpose"
    | (proof_) "et_Purpose t \<noteq> LoginPurpose" by blast
  then show ?thesis
  proof cases
    case login
    with assms obtain k where "resolve_login ops (po_owner ops d) E d k = Inr (u, d', n')"
      by (auto simp: resolve_identity_def Let_def bind_tx_Inr advisory_lock_Inr observed_Inr lift_Inr split: if_split_asm)
    from resolve_login_Inr [OF this] login show ?thesis by (simp add: resolves_def)
  next
    case proof_
    let ?f = "\<lambda>r. if et_Purpose t = ReauthenticatePurpose then resolve_reauthentication ops r ?u
        else if et_Purpose t = LinkPurpose then resolve_link ops r ?u else fail (IdentityError ErrExternalLoginInvalid)"
    define r where "r = (if fault E (Suc n) then Inl (DatabaseError Connection_failed) else Inr (po_owner ops d))"
    then have r: "r = Inr (po_owner ops d) \<or> (\<exists>e. r = Inl e)" by simp
    from proof_ assms have q: "bind_tx (loadIdentitySession ?u ?s (et_Purpose t = LinkPurpose)) (\<lambda>_. ?f r) E d (Suc (Suc (Suc n))) = Inr (u, d', n')"
      by (auto simp: resolve_identity_def Let_def bind_tx_Inr [of advisory_lock] bind_tx_Inr [of "observed _"] bind_tx_Inr [of "lock_user _"]
          advisory_lock_Inr observed_Inr lock_user_Inr r_def)
    from q obtain z d1 k2 where s0: "loadIdentitySession ?u ?s (et_Purpose t = LinkPurpose) E d (Suc (Suc (Suc n))) = Inr (z, d1, k2)"
      and f: "?f r E d1 k2 = Inr (u, d', n')"
      unfolding bind_tx_Inr [of "loadIdentitySession _ _ _"] by blast
    obtain b now where z: "z = (b, now)" by (cases z)
    note s = s0 [unfolded z]
    from loadIdentitySession_Inr [OF s] have d1: "d1 = d" "live_session ?s ?u (tx_time E) d b"
      "et_Purpose t = LinkPurpose \<longrightarrow> proved_recently (tx_time E) b" by blast+
    show ?thesis
    proof (cases "et_Purpose t = ReauthenticatePurpose")
      case True
      with f have "resolve_reauthentication ops r ?u E d k2 = Inr (u, d', n')" using d1(1) by simp
      with r have "u = ?u \<and> po_owner ops d = Some u \<and> d' = d"
        by (auto simp: resolve_reauthentication_def provider_owned_still_def bind_tx_Inr lift_Inr require_Inr query_one_Inr ret_Inr)
      with True proof_ d1(2,3) show ?thesis unfolding resolves_def by auto
    next
      case False
      with f have p: "et_Purpose t = LinkPurpose" and "resolve_link ops r ?u E d k2 = Inr (u, d', n')"
        using d1(1) by (auto simp: fail_Inr split: if_split_asm)
      with r have "u = ?u \<and> po_owner ops d = None \<and> \<not> po_linked ops u d \<and> po_create ops E u d = Inr ((), d')"
        by (auto simp: resolve_link_def bind_tx_Inr lift_Inr require_Inr query_Inr insert_row_Inr ret_Inr)
      with False p proof_ d1(2,3) show ?thesis unfolding resolves_def by auto
    qed
  qed
qed

definition ends_sessions :: "external_transaction_row \<Rightarrow> uuid \<Rightarrow> timestamp \<Rightarrow> db \<Rightarrow> db" where
  "ends_sessions t u now d =
     (if et_Purpose t = ReauthenticatePurpose then revoked_sessions_db (\<lambda>b. bs_SessionID b = uuidValue (et_InitiatingSessionID t)) now d
      else if et_Purpose t = LinkPurpose then revoked_sessions_db (\<lambda>b. bs_UserID b = u) now d else d)"

lemma revoke_exact_session: "snd (sql_RevokeExactBrowserSession now i d) = revoked_sessions_db (\<lambda>b. bs_SessionID b = i) now d"
  by (simp add: sql_RevokeExactBrowserSession_def revoked_sessions_db_def Let_def)

lemma end_sessions_Inr: "end_sessions t u E d n = Inr (x, d', n') \<Longrightarrow> \<exists>now. d' = ends_sessions t u now d"
  using revoke_exact_session revoke_user_sessions
  by (cases "et_Purpose t = ReauthenticatePurpose"; cases "et_Purpose t = LinkPurpose")
    (auto simp: end_sessions_def ends_sessions_def bind_tx_Inr instead_Inr modify_Inr require_Inr ret_Inr, (metis snd_conv)+)

definition open_exchange :: "env \<Rightarrow> uuid \<Rightarrow> string \<Rightarrow> bytes \<Rightarrow> external_transaction_row \<Rightarrow> bool" where
  "open_exchange E i p g t \<longleftrightarrow> exchanged i p g t \<and> tx_time E < et_ExpiresAt t"

definition completes :: "env \<Rightarrow> provider_ops \<Rightarrow> string \<Rightarrow> uuid \<Rightarrow> bytes \<Rightarrow> uuid \<Rightarrow> external_transaction_row \<Rightarrow> db \<Rightarrow> uuid \<Rightarrow> browser_session \<Rightarrow> db \<Rightarrow> bool" where
  "completes E ops p i g s t d u v d' \<longleftrightarrow> sql_LockExternalLogin i d = Some t \<and> open_exchange E i p g t
     \<and> (\<exists>d1 now. resolves E ops t d u d1 \<and> session_free s u d1 \<and> validMethod p
          \<and> d' = updated_externals (open_exchange E i p g) (completed_external E (Some u) (Some s))
               (with_session E s u p (ends_sessions t u now d1)))
     \<and> v = (browserSession (new_session E s u p) (et_Purpose t) p)\<lparr>brs_InvitationID := uuidValue (et_InvitationID t)\<rparr>"

lemma sql_CompleteExternalLogin_one:
  "sql_CompleteExternalLogin E a b i p g d = Inr (1, d') \<longleftrightarrow> (\<exists>u s. a = Some u \<and> b = Some s
     \<and> count_where (open_exchange E i p g) (external_login_transactions d) = 1
     \<and> d' = updated_externals (open_exchange E i p g) (completed_external E (Some u) (Some s)) d)"
proof -
  have p: "(\<lambda>t. exchanged i p g t \<and> tx_time E < et_ExpiresAt t) = open_exchange E i p g" by (auto simp: open_exchange_def)
  have "exists_where (open_exchange E i p g) (external_login_transactions d)"
    if "count_where (open_exchange E i p g) (external_login_transactions d) = 1"
    using count_where_eq_1_ex [OF that] by (simp add: exists_where_iff)
  then show ?thesis unfolding sql_CompleteExternalLogin_def Let_def p by (auto simp: update_externals_pair)
qed

lemma session_free_ended [simp]: "session_free s u (ends_sessions t v now d) = session_free s u d"
  by (simp add: ends_sessions_def)

lemma complete_external_Inr:
  assumes "complete_external ops p i g s E d n = Inr (v, d', n')"
  shows "\<exists>t u. completes E ops p i g s t d u v d'"
proof -
  from assms obtain t k1 u d1 k2 where t: "sql_LockExternalLogin i d = Some t" "et_Provider t = p" "et_Status t = ''exchanging''"
      "et_CallbackDigest t = Some g" "tx_time E < et_ExpiresAt t"
    and r: "resolve_identity ops t E d k1 = Inr (u, d1, k2)"
    and c: "completeExternalProofTransaction t p g s u E d1 k2 = Inr (v, d', n')"
    by (auto simp: complete_external_def validateExternalCompletion_def bind_tx_Inr query_one_Inr require_Inr query_Inr ret_Inr
        sql_ExternalLoginDatabaseTime_def)
  from c obtain x d2 k3 b d3 k4 y where e: "end_sessions t u E d1 k2 = Inr (x, d2, k3)"
    and o: "open_session s u p E d2 k3 = Inr (b, d3, k4)"
    and q: "sql_CompleteExternalLogin E (if u \<noteq> [] \<and> uuid_parse E u then Some u else None) (if s \<noteq> [] \<and> uuid_parse E s then Some s else None)
        (et_TransactionID t) p g d3 = Inr (y, d')" "y = 1"
    and v: "v = (browserSession b (et_Purpose t) p)\<lparr>brs_InvitationID := uuidValue (et_InvitationID t)\<rparr>"
    by (auto simp: completeExternalProofTransaction_def bind_tx_Inr lenientUUID_Inr insert_row_Inr require_Inr ret_Inr)
  note i = locked_external [OF t(1)]
  from end_sessions_Inr [OF e] obtain now where d2: "d2 = ends_sessions t u now d1" by blast
  from o have o': "validMethod p" "b = new_session E s u p" "session_free s u d1" "d3 = with_session E s u p d2"
    by (simp_all add: open_session_Inr d2)
  from q have "d' = updated_externals (open_exchange E i p g) (completed_external E (Some u) (Some s)) d3"
    using i unfolding q(2) sql_CompleteExternalLogin_one by (auto split: if_split_asm)
  moreover have "open_exchange E i p g t" using t i by (simp add: open_exchange_def exchanged_def)
  ultimately show ?thesis using t(1) resolve_identity_Inr [OF r] o' v unfolding completes_def d2 by blast
qed

end
