(* ===== verification/External_Invariants.thy ===== *)
theory External_Invariants
  imports External_State
begin

text \<open>
  The invariant of external logins, kept by every method, and the life of one transaction: it is claimed by
  one response of the provider and settled once.
\<close>

lemma updated_externals_methods: "methods_ok X (updated_externals P f d) = methods_ok X d"
  by (rule methods_ok_same) (simp add: identity_tables_def updated_externals_def)

section \<open>What the providers have in common\<close>

definition only_methods_change :: "db \<Rightarrow> db \<Rightarrow> bool" where
  "only_methods_change d d' \<longleftrightarrow> (\<exists>gs hs. d' = d\<lparr>google_identities := gs, github_identities := hs\<rparr>)"

text \<open>
  The contract of a provider: recording an account for a User who lacked a method gives her one, the account is
  then hers, nothing but the accounts changes, and whose an account is depends on the accounts only.
\<close>

locale provider =
  fixes ops :: provider_ops
  assumes creates: "po_create ops E u d = Inr (x, d') \<Longrightarrow> methods_ok (only u) d \<Longrightarrow> methods_ok nobody d'"
    and owns: "po_create ops E u d = Inr (x, d') \<Longrightarrow> po_owner ops d = None \<Longrightarrow> po_owner ops d' = Some u"
    and changes: "po_create ops E u d = Inr (x, d') \<Longrightarrow> only_methods_change d d'"
    and reads: "google_identities d' = google_identities d \<Longrightarrow> github_identities d' = github_identities d \<Longrightarrow> po_owner ops d' = po_owner ops d"
begin

lemma resolved:
  assumes "resolves E ops t d u d'" "methods_ok nobody d"
  shows "methods_ok nobody d'" "po_owner ops d' = Some u" 
    "\<exists>us. only_methods_change (d\<lparr>carry_users := us\<rparr>) d' \<and> (et_Purpose t \<noteq> LoginPurpose \<longrightarrow> us = carry_users d)"
proof -
  have same: "only_methods_change (d\<lparr>carry_users := carry_users d\<rparr>) d" unfolding only_methods_change_def
    by (intro exI [of _ "google_identities d"] exI [of _ "github_identities d"]) simp
  consider (known) "po_owner ops d = Some u" "d' = d"
    | (new) name where "et_Purpose t = LoginPurpose" "po_owner ops d = None" "\<not> key_taken u_UserID (\<lambda>_. True) u (carry_users d)"
        "po_create ops E u (joined_user_db E u name d) = Inr ((), d')"
    | (link) "et_Purpose t \<noteq> LoginPurpose" "po_owner ops d = None" "po_create ops E u d = Inr ((), d')"
    using assms(1) unfolding resolves_def by (auto split: if_split_asm)
  then have "methods_ok nobody d' \<and> po_owner ops d' = Some u
    \<and> (\<exists>us. only_methods_change (d\<lparr>carry_users := us\<rparr>) d' \<and> (et_Purpose t \<noteq> LoginPurpose \<longrightarrow> us = carry_users d))"
  proof cases
    case known
    with assms(2) same show ?thesis by blast
  next
    case new
    have "po_owner ops (joined_user_db E u name d) = None" using reads [of "joined_user_db E u name d" d] new(2) by (simp add: joined_user_db_def)
    with owns [OF new(4)] creates [OF new(4) joined_methods_ok [OF assms(2) new(3)]] changes [OF new(4)] new(1) show ?thesis
      unfolding joined_user_db_def by blast
  next
    case link
    have "only_methods_change (d\<lparr>carry_users := carry_users d\<rparr>) d'" using changes [OF link(3)] by simp
    with owns [OF link(3) link(2)] creates [OF link(3) methods_ok_weaken [OF assms(2)]] show ?thesis by blast
  qed
  then show "methods_ok nobody d'" "po_owner ops d' = Some u" 
    "\<exists>us. only_methods_change (d\<lparr>carry_users := us\<rparr>) d' \<and> (et_Purpose t \<noteq> LoginPurpose \<longrightarrow> us = carry_users d)" by blast+
qed

lemma completed:
  assumes "completes E ops p i g s t d u v d'" "methods_ok nobody d"
  shows "methods_ok nobody d'" "po_owner ops d' = Some u"
proof -
  from assms(1) obtain d1 now where r: "resolves E ops t d u d1" "session_free s u d1" "validMethod p"
    and d': "d' = updated_externals (open_exchange E i p g) (completed_external E (Some u) (Some s)) (with_session E s u p (ends_sessions t u now d1))"
    unfolding completes_def by blast
  note r' = resolved [OF r(1) assms(2)]
  have "methods_ok nobody (with_session E s u p (ends_sessions t u now d1))"
    by (rule with_session_methods_ok) (use r r'(1) in \<open>simp_all add: ends_sessions_def revoked_methods_ok\<close>)
  then show "methods_ok nobody d'" unfolding d' updated_externals_methods .
  have "google_identities d' = google_identities d1" "github_identities d' = github_identities d1"
    by (simp_all add: d' updated_externals_def with_session_def ends_sessions_def revoked_sessions_db_def)
  then show "po_owner ops d' = Some u" using reads [of d' d1] r'(2) by simp
qed

end

lemma google_key_pair: "key_taken (\<lambda>g. (gg_Issuer g, gg_Subject g)) (\<lambda>_. True) k t = key_taken google_key (\<lambda>_. True) k t"
  by (simp add: key_taken_iff google_key_def)

lemma sql_CreateGoogleIdentity_Inr:
  "sql_CreateGoogleIdentity E i s u d = Inr (x, d') \<longleftrightarrow> i = google_issuer \<and> s \<noteq> [] \<and> length s \<le> 255
     \<and> \<not> key_taken google_key (\<lambda>_. True) (i, s) (google_identities d) \<and> \<not> key_taken gg_UserID (\<lambda>_. True) u (google_identities d) \<and> has_user u d
     \<and> d' = d\<lparr>google_identities := google_identities d @ [\<lparr>gg_Issuer = i, gg_Subject = s, gg_UserID = u, gg_VerifiedAt = tx_time E\<rparr>]\<rparr>"
  by (auto simp: sql_CreateGoogleIdentity_def google_key_pair exists_where_iff has_user_def)

lemma sql_CreateGitHubIdentity_Inr:
  "sql_CreateGitHubIdentity E g u d = Inr (x, d') \<longleftrightarrow> 0 < g
     \<and> \<not> key_taken gh_GithubUserID (\<lambda>_. True) g (github_identities d) \<and> \<not> key_taken gh_UserID (\<lambda>_. True) u (github_identities d) \<and> has_user u d
     \<and> d' = d\<lparr>github_identities := github_identities d @ [\<lparr>gh_GithubUserID = g, gh_UserID = u, gh_VerifiedAt = tx_time E\<rparr>]\<rparr>"
  by (auto simp: sql_CreateGitHubIdentity_def exists_where_iff has_user_def)

lemma gains_method:
  assumes "methods_ok (only u) d" "keys_ok d'" "owners_exist d'" "carry_users d' = carry_users d"
    "\<And>v. count_methods v d' = count_methods v d + (if v = u then 1 else 0)"
  shows "methods_ok nobody d'"
proof -
  have "0 \<le> count_methods u d" by (simp add: count_methods_def)
  then have "can_sign_in nobody d'" using assms(1,4,5) by (fastforce simp: can_sign_in_def methods_ok_def)
  with assms(2,3) show ?thesis by (simp add: methods_ok_def)
qed

lemma google_creates:
  assumes "sql_CreateGoogleIdentity E i s u d = Inr (x, d')" "methods_ok (only u) d"
  shows "methods_ok nobody d'"
  by (rule gains_method [OF assms(2)]) (use assms in \<open>auto simp: sql_CreateGoogleIdentity_Inr methods_ok_def keys_ok_def owners_exist_def has_user_def
      unique_on_append1 google_key_def count_methods_def\<close>)

lemma github_creates:
  assumes "sql_CreateGitHubIdentity E g u d = Inr (x, d')" "methods_ok (only u) d"
  shows "methods_ok nobody d'"
  by (rule gains_method [OF assms(2)]) (use assms in \<open>auto simp: sql_CreateGitHubIdentity_Inr methods_ok_def keys_ok_def owners_exist_def has_user_def
      unique_on_append1 count_methods_def\<close>)

interpretation google: provider "google_ops issuer subject"
proof
  fix E u d x d' assume "po_create (google_ops issuer subject) E u d = Inr (x, d')"
  then have c: "sql_CreateGoogleIdentity E issuer subject u d = Inr (x, d')" by (simp add: google_ops_def)
  show "methods_ok (only u) d \<Longrightarrow> methods_ok nobody d'" by (rule google_creates [OF c])
  show "po_owner (google_ops issuer subject) d = None \<Longrightarrow> po_owner (google_ops issuer subject) d' = Some u"
    using c by (auto simp: google_ops_def sql_LoadGoogleIdentity_def sql_CreateGoogleIdentity_Inr first_where_append)
  show "only_methods_change d d'" unfolding only_methods_change_def
    by (intro exI [of _ "google_identities d'"] exI [of _ "github_identities d"]) (use c in \<open>simp add: sql_CreateGoogleIdentity_Inr\<close>)
qed (simp add: google_ops_def sql_LoadGoogleIdentity_def)

interpretation github: provider "github_ops githubUserID"
proof
  fix E u d x d' assume "po_create (github_ops githubUserID) E u d = Inr (x, d')"
  then have c: "sql_CreateGitHubIdentity E githubUserID u d = Inr (x, d')" by (simp add: github_ops_def)
  show "methods_ok (only u) d \<Longrightarrow> methods_ok nobody d'" by (rule github_creates [OF c])
  show "po_owner (github_ops githubUserID) d = None \<Longrightarrow> po_owner (github_ops githubUserID) d' = Some u"
    using c by (auto simp: github_ops_def sql_LoadGitHubIdentity_def sql_CreateGitHubIdentity_Inr first_where_append)
  show "only_methods_change d d'" unfolding only_methods_change_def
    by (intro exI [of _ "google_identities d"] exI [of _ "github_identities d'"]) (use c in \<open>simp add: sql_CreateGitHubIdentity_Inr\<close>)
qed (simp add: github_ops_def sql_LoadGitHubIdentity_def)

section \<open>Transactions\<close>

definition external_row_ok :: "external_transaction_row \<Rightarrow> bool" where
  "external_row_ok t \<longleftrightarrow> external_columns_ok t \<and> et_Status t \<in> {''prepared'', ''exchanging'', ''succeeded'', ''denied'', ''rejected'', ''unknown''}
     \<and> (et_CallbackDigest t = None \<longleftrightarrow> et_Status t = ''prepared'')
     \<and> (et_CompletedAt t = None \<longleftrightarrow> et_Status t \<in> {''prepared'', ''exchanging''})
     \<and> (et_UserID t \<noteq> None \<longleftrightarrow> et_Status t = ''succeeded'') \<and> (et_BrowserSessionID t \<noteq> None \<longleftrightarrow> et_Status t = ''succeeded'')
     \<and> et_ExpiresAt t = et_CreatedAt t + minutes 10"

definition session_of :: "external_transaction_row \<Rightarrow> session_row \<Rightarrow> bool" where
  "session_of t b \<longleftrightarrow> et_BrowserSessionID t = Some (bs_SessionID b) \<and> et_UserID t = Some (bs_UserID b) \<and> bs_IdentityProofMethod b = et_Provider t"

definition externals_ok :: "db \<Rightarrow> bool" where
  "externals_ok d \<longleftrightarrow> unique_on et_TransactionID (\<lambda>_. True) (external_login_transactions d)
     \<and> unique_on et_BrowserSessionID (\<lambda>t. et_Status t = ''succeeded'') (external_login_transactions d)
     \<and> (\<forall>t \<in> set (external_login_transactions d). external_row_ok t
          \<and> (et_Status t = ''succeeded'' \<longrightarrow> (\<exists>b \<in> set (browser_sessions d). session_of t b)))"

lemma externals_ok_empty: "externals_ok empty_db"
  by (simp add: externals_ok_def empty_db_def)

text \<open>Sessions are revoked, never deleted.\<close>

definition sessions_kept :: "db \<Rightarrow> db \<Rightarrow> bool" where
  "sessions_kept d d' \<longleftrightarrow> (\<forall>b \<in> set (browser_sessions d). \<exists>b' \<in> set (browser_sessions d'). bs_SessionID b' = bs_SessionID b
     \<and> bs_UserID b' = bs_UserID b \<and> bs_IdentityProofMethod b' = bs_IdentityProofMethod b)"

lemma externals_ok_kept:
  assumes "externals_ok d" "external_login_transactions d' = external_login_transactions d" "sessions_kept d d'"
  shows "externals_ok d'"
proof -
  have "\<exists>b \<in> set (browser_sessions d'). session_of t b" if b: "b \<in> set (browser_sessions d)" "session_of t b" for t b
  proof -
    from assms(3) b(1) obtain b' where "b' \<in> set (browser_sessions d')" "bs_SessionID b' = bs_SessionID b" "bs_UserID b' = bs_UserID b"
      "bs_IdentityProofMethod b' = bs_IdentityProofMethod b" unfolding sessions_kept_def by blast
    with b(2) show ?thesis unfolding session_of_def by metis
  qed
  with assms(1,2) show ?thesis unfolding externals_ok_def by metis
qed

lemma sessions_kept_simps:
  "sessions_kept d d" "sessions_kept d (with_session E s u m d)" "sessions_kept d (revoked_sessions_db P now d)"
  "browser_sessions d' = browser_sessions d \<Longrightarrow> sessions_kept d d'"
  by (auto simp: sessions_kept_def with_session_def revoked_sessions_db_def update_where_bex revoked_session_def)

lemma sessions_kept_trans: "sessions_kept a b \<Longrightarrow> sessions_kept b c \<Longrightarrow> sessions_kept a c"
  unfolding sessions_kept_def by metis

lemma updated_externals_ok:
  assumes ok: "externals_ok d" and id: "\<And>t. et_TransactionID (f t) = et_TransactionID t"
    and f: "\<And>t. P t \<Longrightarrow> external_row_ok t \<Longrightarrow> external_row_ok (f t) \<and> et_Status (f t) \<noteq> ''succeeded''"
  shows "externals_ok (updated_externals P f d)"
proof -
  let ?ts = "external_login_transactions d"
  have rows: "external_row_ok t" if "t \<in> set ?ts" for t using ok that by (simp add: externals_ok_def)
  have out: "et_Status (f t) \<noteq> ''succeeded''" "external_row_ok (f t)" if "t \<in> set ?ts" "P t" for t
    using f rows that by blast+
  have "unique_on et_TransactionID (\<lambda>_. True) (update_where P f ?ts)"
    using ok id by (auto simp: externals_ok_def intro!: unique_on_update)
  moreover have "unique_on et_BrowserSessionID (\<lambda>t. et_Status t = ''succeeded'') (update_where P f ?ts)"
  proof (rule unique_on_update)
    show "unique_on et_BrowserSessionID (\<lambda>t. et_Status t = ''succeeded'') ?ts" using ok by (simp add: externals_ok_def)
  qed (use out(1) in blast)
  moreover have "\<forall>t \<in> set (update_where P f ?ts). external_row_ok t \<and> (et_Status t = ''succeeded'' \<longrightarrow> (\<exists>b \<in> set (browser_sessions d). session_of t b))"
    unfolding update_where_ball using ok out rows unfolding externals_ok_def by metis
  ultimately show ?thesis by (simp add: externals_ok_def updated_externals_def)
qed

text \<open>One row takes a key that no other has.\<close>

lemma unique_on_entering:
  assumes "unique_on k Q t" "count_where P t \<le> 1" "\<And>r. P r \<Longrightarrow> k (f r) = x" "\<And>r. r \<in> set t \<Longrightarrow> Q r \<Longrightarrow> k r \<noteq> x"
  shows "unique_on k Q (update_where P f t)"
  using assms(1,2,4)
proof (induction t)
  case (Cons r t)
  have IH: "unique_on k Q (update_where P f t)"
    using Cons.IH Cons.prems by (auto simp: unique_on_Cons split: if_split_asm)
  show ?case
  proof (cases "P r")
    case True
    then have "\<forall>s \<in> set t. \<not> P s" using Cons.prems(2) count_where_nonneg [of P t] by (simp flip: count_where_zero)
    then have "update_where P f t = t" by (intro update_where_none) blast
    with True Cons.prems assms(3) [of r] show ?thesis by (auto simp: unique_on_Cons)
  next
    case False
    have "k s \<noteq> k r" if "s \<in> set (update_where P f t)" "Q s" "Q r" for s
      using that(1)
    proof (rule in_update_whereE)
      fix q assume "q \<in> set t" "P q" "s = f q"
      with assms(3) [of q] Cons.prems(3) [of r] that(3) show ?thesis by auto
    next
      assume "s \<in> set t" "\<not> P s"
      with Cons.prems(1) that show ?thesis by (auto simp: unique_on_Cons)
    qed
    with False IH show ?thesis by (auto simp: unique_on_Cons)
  qed
qed simp

lemma unique_on_count_le:
  "unique_on k (\<lambda>_. True) t \<Longrightarrow> (\<And>r. P r \<Longrightarrow> k r = i) \<Longrightarrow> count_where P t \<le> 1"
proof (induction t)
  case (Cons r t)
  show ?case
  proof (cases "P r")
    case True
    then have "\<forall>s \<in> set t. \<not> P s" using Cons.prems by (auto simp: unique_on_Cons)
    then show ?thesis using True by (simp add: count_where_zero [THEN iffD2])
  qed (use Cons in \<open>simp add: unique_on_Cons\<close>)
qed simp

lemma started_externals_ok:
  assumes ok: "externals_ok d" and s: "external_started E t ts d d'" and t: "external_row_ok t" "et_Status t = ''prepared''"
    and ts: "ts = external_login_transactions d \<or> ts = unexpired_externals E d"
  shows "externals_ok d'"
proof -
  have "\<exists>Q. ts = filter Q (external_login_transactions d)"
    using ts
  proof
    assume "ts = external_login_transactions d"
    then show ?thesis by (intro exI [of _ "\<lambda>_. True"]) simp
  next
    assume "ts = unexpired_externals E d"
    then show ?thesis unfolding unexpired_externals_def by blast
  qed
  then obtain Q where Q: "ts = filter Q (external_login_transactions d)" by blast
  have u: "unique_on et_TransactionID (\<lambda>_. True) ts" "unique_on et_BrowserSessionID (\<lambda>t. et_Status t = ''succeeded'') ts"
    using ok unfolding Q externals_ok_def by (blast intro: unique_on_filter)+
  show ?thesis
    using ok s t u Q by (auto simp: externals_ok_def external_started_def unique_on_append1)
qed

lemma completed_externals_ok:
  assumes c: "completes E ops p i g s t d u v d'" and ok: "externals_ok d"
    and r: "\<And>d1. resolves E ops t d u d1 \<Longrightarrow> external_login_transactions d1 = external_login_transactions d \<and> browser_sessions d1 = browser_sessions d"
  shows "externals_ok d'"
proof -
  from c obtain d1 now where t: "sql_LockExternalLogin i d = Some t" "open_exchange E i p g t" and res: "resolves E ops t d u d1"
    and free: "session_free s u d1" and d': "d' = updated_externals (open_exchange E i p g) (completed_external E (Some u) (Some s))
        (with_session E s u p (ends_sessions t u now d1))"
    unfolding completes_def by blast
  let ?P = "open_exchange E i p g" and ?f = "completed_external E (Some u) (Some s)" and ?ts = "external_login_transactions d"
  let ?d2 = "with_session E s u p (ends_sessions t u now d1)"
  note r' = r [OF res]
  have ets: "external_login_transactions ?d2 = ?ts" using r' by (simp add: with_session_def ends_sessions_def revoked_sessions_db_def)
  have "sessions_kept d ?d2"
  proof (rule sessions_kept_trans [OF sessions_kept_trans])
    show "sessions_kept d d1" using r' by (simp add: sessions_kept_simps(4))
    show "sessions_kept d1 (ends_sessions t u now d1)" by (simp add: ends_sessions_def sessions_kept_simps)
  qed (rule sessions_kept_simps(2))
  with ok ets have ok2: "externals_ok ?d2" by (rule externals_ok_kept)
  have new: "new_session E s u p \<in> set (browser_sessions ?d2)" by (simp add: with_session_def)
  have facts: "et_TransactionID (?f q) = et_TransactionID q" "et_Status (?f q) = ''succeeded''" "et_BrowserSessionID (?f q) = Some s"
    "et_UserID (?f q) = Some u" "et_Provider (?f q) = et_Provider q" for q by (simp_all add: completed_external_def)
  have one: "q = t" if "q \<in> set ?ts" "?P q" for q
    using that t ok locked_external [OF t(1)] unique_onD [of et_TransactionID "\<lambda>_. True" ?ts q t]
    by (simp add: externals_ok_def open_exchange_def exchanged_def)
  have fresh: "et_BrowserSessionID q \<noteq> Some s" if "q \<in> set ?ts" "et_Status q = ''succeeded''" for q
    using that ok free r' by (fastforce simp: externals_ok_def session_of_def session_free_def key_taken_iff)
  have "unique_on et_TransactionID (\<lambda>_. True) (update_where ?P ?f ?ts)"
    using ok facts(1) by (auto simp: externals_ok_def intro!: unique_on_update)
  moreover have "unique_on et_BrowserSessionID (\<lambda>t. et_Status t = ''succeeded'') (update_where ?P ?f ?ts)"
  proof (rule unique_on_entering)
    show "unique_on et_BrowserSessionID (\<lambda>t. et_Status t = ''succeeded'') ?ts" using ok by (simp add: externals_ok_def)
    show "count_where ?P ?ts \<le> 1"
      by (rule unique_on_count_le [of et_TransactionID _ _ i]) (use ok in \<open>simp_all add: externals_ok_def open_exchange_def exchanged_def\<close>)
  qed (use fresh facts(3) in \<open>simp_all\<close>)
  moreover have "external_row_ok (?f q) \<and> session_of (?f q) (new_session E s u p)" if "q \<in> set ?ts" "?P q" for q
    using that ok by (auto simp: externals_ok_def open_exchange_def exchanged_def external_row_ok_def completed_external_def
        session_of_def external_columns_ok_def)
  ultimately show ?thesis
    using ok2 ets new unfolding externals_ok_def d' updated_externals_def by (auto simp: update_where_ball)
qed

end
