(* ===== verification/External_Methods.thy ===== *)
theory External_Methods
  imports External_Invariants Machine_Protocol
begin

text \<open>Every login method keeps the invariants of Users, codes and external logins, and follows the life of a transaction.\<close>

section \<open>What each method writes\<close>

definition keeps_codes :: "db \<Rightarrow> db \<Rightarrow> bool" where
  "keeps_codes d d' \<longleftrightarrow> email_login_challenges d' = email_login_challenges d \<and> email_login_attempts d' = email_login_attempts d"

text \<open>A change of the external transactions alone.\<close>

inductive external_change :: "env \<Rightarrow> db \<Rightarrow> db \<Rightarrow> bool" for E d where
  started: "external_started E t ts d d' \<Longrightarrow> external_row_ok t \<Longrightarrow> et_Status t = ''prepared'' \<Longrightarrow> et_CreatedAt t = tx_time E \<Longrightarrow>
     ts = external_login_transactions d \<or> ts = unexpired_externals E d \<Longrightarrow> external_change E d d'"
| claimed: "d' = updated_externals (open_external E ''prepared'' i p) (claimed_external g) d \<Longrightarrow> external_change E d d'"
| finished: "w \<in> {''denied'', ''unknown''} \<Longrightarrow> d' = updated_externals (open_external E ''prepared'' i p) (finished_external E w g) d \<Longrightarrow> external_change E d d'"
| settled: "w \<in> {''rejected'', ''unknown''} \<Longrightarrow> d' = updated_externals (exchanged i p g) (settled_external E w) d \<Longrightarrow> external_change E d d'"
| unchanged: "d' = d \<Longrightarrow> external_change E d d'"

lemma new_external_ok: "external_columns_ok (new_external E i p w u s v g) \<Longrightarrow> external_row_ok (new_external E i p w u s v g)"
  by (simp add: external_row_ok_def)

lemma started_new:
  assumes "external_started E (new_external E i p w u s v g) ts d d'" "ts = external_login_transactions d \<or> ts = unexpired_externals E d"
  shows "external_change E d d'"
proof (rule external_change.started [OF assms(1) _ _ _ assms(2)])
  show "external_row_ok (new_external E i p w u s v g)" using assms(1) by (intro new_external_ok) (simp add: external_started_def)
qed (simp_all add: new_external_def)

lemma CreateExternalLogin_changes: "CreateExternalLogin c E d = (r, d') \<Longrightarrow> external_change E d d'"
  unfolding CreateExternalLogin_def
  by (elim checked_cases transact_cases) (auto dest!: CreateExternalLogin_tx_effect intro: started_new external_change.unchanged)

lemma CreateExternalIdentityProof_changes: "CreateExternalIdentityProof c E d = (r, d') \<Longrightarrow> external_change E d d'"
  unfolding CreateExternalIdentityProof_def
  by (elim checked_cases transact_cases) (auto dest!: CreateExternalIdentityProof_tx_effect intro: started_new external_change.unchanged)

lemma ClaimExternalLogin_changes: "ClaimExternalLogin c E d = (r, d') \<Longrightarrow> external_change E d d'"
  unfolding ClaimExternalLogin_def
  by (elim checked_cases transact_answer_cases)
    (auto dest!: ClaimExternalLogin_tx_effect simp: expires_exchange_def claims_def split: if_split_asm intro: unchanged claimed finished settled)

lemma MarkExternalLoginUnknown_changes: "MarkExternalLoginUnknown c E d = (r, d') \<Longrightarrow> external_change E d d'"
  unfolding MarkExternalLoginUnknown_def
  by (elim checked_cases transact_cases) (auto simp: tx_simps sql_MarkExternalLoginUnknown_def update_externals_pair intro: unchanged settled)

lemma RejectExternalLogin_changes: "RejectExternalLogin c E d = (r, d') \<Longrightarrow> external_change E d d'"
  unfolding RejectExternalLogin_def
  by (elim checked_cases transact_cases) (auto simp: tx_simps sql_RejectExternalLogin_def update_externals_pair intro: unchanged settled)

lemma CompleteGoogleLogin_cases:
  assumes "CompleteGoogleLogin c E d = (r, d')"
  obtains "d' = d" | t u v where "completes E (google_ops (cgc_Issuer c) (cgc_Subject c)) GoogleLoginProvider (cgc_TransactionID c)
    (cgc_CallbackDigest c) (cgc_SessionID c) t d u v d'"
  using assms unfolding CompleteGoogleLogin_def by (elim checked_cases transact_cases) (blast dest: complete_external_Inr)+

lemma CompleteGitHubLogin_cases:
  assumes "CompleteGitHubLogin c E d = (r, d')"
  obtains "d' = d" | t u v where "completes E (github_ops (chc_GitHubUserID c)) GitHubLoginProvider (chc_TransactionID c)
    (chc_CallbackDigest c) (chc_SessionID c) t d u v d'"
  using assms unfolding CompleteGitHubLogin_def by (elim checked_cases transact_cases) (blast dest: complete_external_Inr)+

section \<open>Changes keep the invariants\<close>

lemma external_change_tables: "external_change E d d' \<Longrightarrow> \<exists>ts. d' = d\<lparr>external_login_transactions := ts\<rparr>"
  by (erule external_change.cases)
    (auto simp: external_started_def updated_externals_def intro: exI [of _ "external_login_transactions d"])

lemma external_change_externals_ok:
  assumes "external_change E d d'" "externals_ok d"
  shows "externals_ok d'"
  using assms(1)
proof cases
  case (started t ts)
  with started_externals_ok [OF assms(2)] show ?thesis by blast
next
  case (claimed i p g)
  show ?thesis unfolding claimed
    by (rule updated_externals_ok [OF assms(2)]) (auto simp: claimed_external_def external_row_ok_def external_columns_ok_def open_external_def)
next
  case (finished w i p g)
  show ?thesis unfolding finished(2)
    by (rule updated_externals_ok [OF assms(2)])
      (use finished(1) in \<open>auto simp: finished_external_def external_row_ok_def external_columns_ok_def open_external_def\<close>)
next
  case (settled w i p g)
  show ?thesis unfolding settled(2)
    by (rule updated_externals_ok [OF assms(2)])
      (use settled(1) in \<open>auto simp: settled_external_def external_row_ok_def external_columns_ok_def exchanged_def\<close>)
qed (use assms(2) in simp)

section \<open>The life of a transaction\<close>

text \<open>
  A sign-in is prepared; one response of the provider claims it, or turns it down; who claimed it settles it, and a sign-in that
  succeeded has the Session it opened.
\<close>

datatype sign_in_phase = Prepared | Exchanging bytes | Settled string bytes "uuid option"

definition phase_of_external :: "external_transaction_row \<Rightarrow> sign_in_phase" where
  "phase_of_external t = (if et_Status t = ''prepared'' then Prepared
     else if et_Status t = ''exchanging'' then Exchanging (the (et_CallbackDigest t))
     else Settled (et_Status t) (the (et_CallbackDigest t)) (et_BrowserSessionID t))"

text \<open>The phase of a sign-in, with the time at which it expires.\<close>

definition phase_at :: "uuid \<Rightarrow> db \<Rightarrow> (sign_in_phase \<times> timestamp) option" where
  "phase_at i d = map_option (\<lambda>t. (phase_of_external t, et_ExpiresAt t)) (sql_LockExternalLogin i d)"

text \<open>The steps of one sign-in. Only giving up is possible when its time is over; nothing leads back.\<close>

inductive phase_step :: "bool \<Rightarrow> sign_in_phase \<Rightarrow> sign_in_phase \<Rightarrow> bool" where
  phase_claim: "phase_step True Prepared (Exchanging g)"
| phase_turn_down: "w \<in> {''denied'', ''unknown''} \<Longrightarrow> phase_step True Prepared (Settled w g None)"
| phase_succeed: "phase_step True (Exchanging g) (Settled ''succeeded'' g (Some s))"
| phase_fail: "w \<in> {''rejected'', ''unknown''} \<Longrightarrow> phase_step live (Exchanging g) (Settled w g None)"

inductive_simps phase_step_simps: "phase_step live Prepared x" "phase_step live (Exchanging g) x" "phase_step live (Settled w g s) x"

text \<open>
  The life of an identifier: a sign-in starts, and expires ten minutes later; it moves only along its steps; and it is forgotten,
  and its identifier free again, only when it has expired.
\<close>

inductive sign_in_step :: "timestamp \<Rightarrow> (sign_in_phase \<times> timestamp) option \<Rightarrow> (sign_in_phase \<times> timestamp) option \<Rightarrow> bool" for now where
  sign_in_start: "sign_in_step now None (Some (Prepared, now + minutes 10))"
| sign_in_move: "phase_step (now < e) x y \<Longrightarrow> sign_in_step now (Some (x, e)) (Some (y, e))"
| sign_in_forget: "e \<le> now \<Longrightarrow> sign_in_step now (Some (x, e)) None"
| sign_in_restart: "e \<le> now \<Longrightarrow> sign_in_step now (Some (x, e)) (Some (Prepared, now + minutes 10))"

inductive_simps sign_in_step_Some: "sign_in_step now (Some (x, e)) s"

definition phase_moves :: "timestamp \<Rightarrow> (sign_in_phase \<times> timestamp) option \<Rightarrow> (sign_in_phase \<times> timestamp) option \<Rightarrow> bool" where
  "phase_moves now x y \<longleftrightarrow> y = x \<or> sign_in_step now x y"

lemma phase_moves_refl [simp]: "phase_moves now x x"
  by (simp add: phase_moves_def)

text \<open>Before it expires, a sign-in only moves forward: a claim stays the claim of its response, a settled one stays as it is.\<close>

definition phase_later :: "sign_in_phase \<Rightarrow> sign_in_phase \<Rightarrow> bool" where
  "phase_later x y \<longleftrightarrow> (case x of Prepared \<Rightarrow> True
     | Exchanging g \<Rightarrow> y = Exchanging g \<or> (\<exists>w s. y = Settled w g s)
     | Settled w g s \<Rightarrow> y = x)"

lemma phase_later_refl [simp]: "phase_later x x"
  by (cases x) (simp_all add: phase_later_def)

lemma phase_later_trans: "phase_later x y \<Longrightarrow> phase_later y z \<Longrightarrow> phase_later x z"
  by (cases x; cases y) (auto simp: phase_later_def)

lemma unexpired_moves:
  assumes "phase_moves now (Some (x, e)) s" "now < e"
  shows "\<exists>y. s = Some (y, e) \<and> phase_later x y"
  using assms by (cases x) (auto simp: phase_moves_def sign_in_step_Some phase_step_simps phase_later_def)

lemma phase_at_updated:
  assumes "\<And>t. et_TransactionID (f t) = et_TransactionID t"
  shows "phase_at i (updated_externals P f d)
    = map_option (\<lambda>t. let u = if P t then f t else t in (phase_of_external u, et_ExpiresAt u)) (sql_LockExternalLogin i d)"
proof -
  have "sql_LockExternalLogin i (updated_externals P f d) = map_option (\<lambda>t. if P t then f t else t) (sql_LockExternalLogin i d)"
    unfolding sql_LockExternalLogin_def updated_externals_def using assms by (simp add: first_where_of_update)
  then show ?thesis by (simp add: phase_at_def option.map_comp comp_def Let_def)
qed

lemma updated_phase_step:
  assumes "\<And>t. et_TransactionID (f t) = et_TransactionID t" "\<And>t. et_ExpiresAt (f t) = et_ExpiresAt t"
    and "\<And>t. t \<in> set (external_login_transactions d) \<Longrightarrow> P t \<Longrightarrow> phase_step (now < et_ExpiresAt t) (phase_of_external t) (phase_of_external (f t))"
  shows "phase_moves now (phase_at i d) (phase_at i (updated_externals P f d))"
proof (cases "sql_LockExternalLogin i d")
  case (Some t)
  then have t: "t \<in> set (external_login_transactions d)" "phase_at i d = Some (phase_of_external t, et_ExpiresAt t)"
    using locked_external [OF Some] by (simp_all add: phase_at_def)
  have f: "phase_at i (updated_externals P f d) = Some (phase_of_external (if P t then f t else t), et_ExpiresAt t)"
    by (simp add: phase_at_updated [OF assms(1)] Some Let_def assms(2))
  show ?thesis
  proof (cases "P t")
    case True
    then show ?thesis using sign_in_move [OF assms(3) [OF t(1) True]] unfolding t(2) f by (simp add: phase_moves_def)
  qed (simp add: t(2) f)
next
  case None
  then show ?thesis unfolding phase_at_updated [OF assms(1)] by (simp add: phase_at_def)
qed

lemma lock_filtered:
  "unique_on et_TransactionID (\<lambda>_. True) ts \<Longrightarrow> first_where (\<lambda>t. et_TransactionID t = i) (filter Q ts)
     = (case first_where (\<lambda>t. et_TransactionID t = i) ts of None \<Rightarrow> None | Some t \<Rightarrow> if Q t then Some t else None)"
proof (induction ts)
  case (Cons t ts)
  have "first_where (\<lambda>s. et_TransactionID s = i) (filter Q ts) = None" if "et_TransactionID t = i"
    using Cons.prems that by (auto simp: first_where_None unique_on_Cons)
  with Cons show ?case by (auto simp: unique_on_Cons)
qed simp

lemma started_phase_step:
  assumes "external_started E t ts d d'" "externals_ok d" "et_Status t = ''prepared''" "et_ExpiresAt t = tx_time E + minutes 10"
    and ts: "ts = external_login_transactions d \<or> ts = unexpired_externals E d"
  shows "phase_moves (tx_time E) (phase_at i d) (phase_at i d')"
proof -
  have u: "unique_on et_TransactionID (\<lambda>_. True) (external_login_transactions d)" using assms(2) by (simp add: externals_ok_def)
  let ?L = "first_where (\<lambda>r. et_TransactionID r = i) ts"
  have L: "?L = sql_LockExternalLogin i d \<or> ?L = None \<and> (\<exists>r. sql_LockExternalLogin i d = Some r \<and> et_ExpiresAt r \<le> tx_time E)"
    using ts
  proof
    assume ts: "ts = unexpired_externals E d"
    show ?thesis unfolding ts unexpired_externals_def lock_filtered [OF u] sql_LockExternalLogin_def by (auto split: option.split)
  qed (simp add: sql_LockExternalLogin_def)
  have d': "phase_at i d' = (case ?L of None \<Rightarrow> if et_TransactionID t = i then Some (Prepared, tx_time E + minutes 10) else None
      | Some r \<Rightarrow> Some (phase_of_external r, et_ExpiresAt r))"
    using assms(1,3,4) by (simp add: external_started_def phase_at_def sql_LockExternalLogin_def first_where_append phase_of_external_def
        split: option.split)
  have free: "?L = None" if "et_TransactionID t = i"
    using assms(1) that by (auto simp: external_started_def key_taken_iff first_where_None)
  from L show ?thesis
  proof (elim disjE conjE exE)
    assume same: "?L = sql_LockExternalLogin i d"
    show ?thesis
    proof (cases "et_TransactionID t = i")
      case True
      with free same have "phase_at i d = None" by (simp add: phase_at_def)
      with True free have "phase_at i d' = Some (Prepared, tx_time E + minutes 10)" by (simp add: d')
      with \<open>phase_at i d = None\<close> show ?thesis unfolding phase_moves_def using sign_in_start [of "tx_time E"] by metis
    next
      case False
      then have "phase_at i d' = phase_at i d" unfolding d' same by (simp add: phase_at_def split: option.split)
      then show ?thesis by simp
    qed
  next
    fix r assume "?L = None" "sql_LockExternalLogin i d = Some r" "et_ExpiresAt r \<le> tx_time E"
    then have "phase_at i d = Some (phase_of_external r, et_ExpiresAt r)" "phase_at i d' = None \<or> phase_at i d' = Some (Prepared, tx_time E + minutes 10)"
      unfolding d' by (simp_all add: phase_at_def)
    with \<open>et_ExpiresAt r \<le> tx_time E\<close> show ?thesis
      unfolding phase_moves_def using sign_in_forget sign_in_restart by metis
  qed
qed

lemma changed_expiry [simp]:
  "et_ExpiresAt (claimed_external g t) = et_ExpiresAt t" "et_ExpiresAt (finished_external E w g t) = et_ExpiresAt t"
  "et_ExpiresAt (settled_external E w t) = et_ExpiresAt t" "et_ExpiresAt (completed_external E u s t) = et_ExpiresAt t"
  "et_TransactionID (claimed_external g t) = et_TransactionID t" "et_TransactionID (finished_external E w g t) = et_TransactionID t"
  "et_TransactionID (settled_external E w t) = et_TransactionID t" "et_TransactionID (completed_external E u s t) = et_TransactionID t"
  by (simp_all add: claimed_external_def finished_external_def settled_external_def completed_external_def)

lemma unsettled_session: "externals_ok d \<Longrightarrow> t \<in> set (external_login_transactions d) \<Longrightarrow> et_Status t \<noteq> ''succeeded'' \<Longrightarrow> et_BrowserSessionID t = None"
proof -
  assume "externals_ok d" "t \<in> set (external_login_transactions d)" "et_Status t \<noteq> ''succeeded''"
  then show "et_BrowserSessionID t = None" unfolding externals_ok_def external_row_ok_def by blast
qed

lemma external_change_phase:
  assumes "external_change E d d'" "externals_ok d"
  shows "phase_moves (tx_time E) (phase_at i d) (phase_at i d')"
  using assms(1)
proof cases
  case (started t ts)
  have "et_ExpiresAt t = tx_time E + minutes 10" using started(2,4) by (simp add: external_row_ok_def)
  from started_phase_step [OF started(1) assms(2) started(3) this started(5)] show ?thesis .
next
  case (claimed j p g)
  show ?thesis unfolding claimed
    by (rule updated_phase_step) (auto simp: claimed_external_def open_external_def phase_of_external_def intro: phase_claim)
next
  case (finished w j p g)
  show ?thesis unfolding finished(2)
  proof (rule updated_phase_step)
    fix t assume t: "t \<in> set (external_login_transactions d)" "open_external E ''prepared'' j p t"
    then have "et_BrowserSessionID t = None" "et_Status t = ''prepared''" "tx_time E < et_ExpiresAt t"
      using unsettled_session [OF assms(2) t(1)] by (simp_all add: open_external_def)
    with finished(1) show "phase_step (tx_time E < et_ExpiresAt t) (phase_of_external t) (phase_of_external (finished_external E w g t))"
      by (auto simp: finished_external_def phase_of_external_def intro: phase_turn_down)
  qed simp_all
next
  case (settled w j p g)
  show ?thesis unfolding settled(2)
  proof (rule updated_phase_step)
    fix t assume t: "t \<in> set (external_login_transactions d)" "exchanged j p g t"
    then have "et_BrowserSessionID t = None" "et_Status t = ''exchanging''" using unsettled_session [OF assms(2) t(1)] by (simp_all add: exchanged_def)
    with settled(1) show "phase_step (tx_time E < et_ExpiresAt t) (phase_of_external t) (phase_of_external (settled_external E w t))"
      by (auto simp: settled_external_def phase_of_external_def intro: phase_fail)
  qed simp_all
qed simp

lemma completed_phase_step:
  assumes "completes E ops p j g s t d u v d'"
    and "\<And>d1. resolves E ops t d u d1 \<Longrightarrow> external_login_transactions d1 = external_login_transactions d"
  shows "phase_moves (tx_time E) (phase_at i d) (phase_at i d')"
proof -
  from assms(1) obtain d1 now where r: "resolves E ops t d u d1"
    and d': "d' = updated_externals (open_exchange E j p g) (completed_external E (Some u) (Some s)) (with_session E s u p (ends_sessions t u now d1))"
    unfolding completes_def by blast
  let ?d2 = "with_session E s u p (ends_sessions t u now d1)"
  have "phase_at i ?d2 = phase_at i d"
    using assms(2) [OF r] by (simp add: phase_at_def sql_LockExternalLogin_def with_session_def ends_sessions_def revoked_sessions_db_def)
  moreover have "phase_moves (tx_time E) (phase_at i ?d2) (phase_at i d')"
    unfolding d' by (rule updated_phase_step)
      (auto simp: completed_external_def open_exchange_def exchanged_def phase_of_external_def intro: phase_succeed)
  ultimately show ?thesis by simp
qed

text \<open>Every login method keeps every login invariant, writes no table of another component and follows the life of a transaction.\<close>

section \<open>Completions\<close>

lemma only_methods_tables:
  assumes "only_methods_change (d\<lparr>carry_users := us\<rparr>) d'"
  shows "external_login_transactions d' = external_login_transactions d" "browser_sessions d' = browser_sessions d"
    "email_login_challenges d' = email_login_challenges d" "email_login_attempts d' = email_login_attempts d"
  using assms by (auto simp: only_methods_change_def)

context provider
begin

lemma resolved_tables:
  assumes "resolves E ops t d u d1" "methods_ok nobody d"
  shows "external_login_transactions d1 = external_login_transactions d" "browser_sessions d1 = browser_sessions d"
    "email_login_challenges d1 = email_login_challenges d" "email_login_attempts d1 = email_login_attempts d"
  using resolved(3) [OF assms] only_methods_tables by blast+

lemma completed_keeps:
  assumes c: "completes E ops p i g s t d u v d'" and ok: "methods_ok nobody d"
  shows "externals_ok d \<Longrightarrow> externals_ok d'" "codes_ok d' = codes_ok d" "phase_moves (tx_time E) (phase_at j d) (phase_at j d')"
proof -
  show "externals_ok d'" if "externals_ok d" by (rule completed_externals_ok [OF c that]) (simp add: resolved_tables [OF _ ok])
  show "phase_moves (tx_time E) (phase_at j d) (phase_at j d')" by (rule completed_phase_step [OF c]) (rule resolved_tables [OF _ ok])
  from c obtain d1 now where r: "resolves E ops t d u d1"
    and d': "d' = updated_externals (open_exchange E i p g) (completed_external E (Some u) (Some s)) (with_session E s u p (ends_sessions t u now d1))"
    unfolding completes_def by blast
  have "email_login_challenges d' = email_login_challenges d1" "email_login_attempts d' = email_login_attempts d1"
    by (simp_all add: d' updated_externals_def with_session_def ends_sessions_def revoked_sessions_db_def)
  then show "codes_ok d' = codes_ok d" using resolved_tables [OF r ok] by (intro codes_ok_same) simp_all
qed

end

section \<open>Every method\<close>

definition login_ok :: "db \<Rightarrow> bool" where
  "login_ok d \<longleftrightarrow> codes_ok d \<and> methods_ok nobody d \<and> externals_ok d"

lemma external_change_keeps:
  assumes "external_change E d d'" "login_ok d"
  shows "login_ok d'" "phase_moves (tx_time E) (phase_at i d) (phase_at i d')"
proof -
  have ok: "codes_ok d" "methods_ok nobody d" "externals_ok d" using assms(2) by (simp_all add: login_ok_def)
  from external_change_tables [OF assms(1)] obtain ts where d': "d' = d\<lparr>external_login_transactions := ts\<rparr>" by blast
  have "methods_ok nobody d' = methods_ok nobody d" by (rule methods_ok_same) (simp add: d' identity_tables_def)
  moreover have "codes_ok d' = codes_ok d" by (rule codes_ok_same) (simp_all add: d')
  ultimately show "login_ok d'" using ok external_change_externals_ok [OF assms(1) ok(3)] by (simp add: login_ok_def)
  show "phase_moves (tx_time E) (phase_at i d) (phase_at i d')" by (rule external_change_phase [OF assms(1) ok(3)])
qed

definition logs_in_well :: "(env \<Rightarrow> db \<Rightarrow> (carry_error + 'a) \<times> db) \<Rightarrow> bool" where
  "logs_in_well m \<longleftrightarrow> (\<forall>E d r d' i. m E d = (r, d') \<longrightarrow> login_ok d \<longrightarrow> login_ok d' \<and> phase_moves (tx_time E) (phase_at i d) (phase_at i d'))"

lemma logs_in_wellI:
  "(\<And>E d r d' i. m E d = (r, d') \<Longrightarrow> login_ok d \<Longrightarrow> login_ok d' \<and> phase_moves (tx_time E) (phase_at i d) (phase_at i d')) \<Longrightarrow> logs_in_well m"
  unfolding logs_in_well_def by blast

lemma changes_log_in_well: "(\<And>E d r d'. m E d = (r, d') \<Longrightarrow> external_change E d d') \<Longrightarrow> logs_in_well m"
  by (rule logs_in_wellI) (blast intro: external_change_keeps)

lemmas externals_log_in_well = changes_log_in_well [OF CreateExternalLogin_changes] changes_log_in_well [OF CreateExternalIdentityProof_changes]
  changes_log_in_well [OF ClaimExternalLogin_changes] changes_log_in_well [OF MarkExternalLoginUnknown_changes]
  changes_log_in_well [OF RejectExternalLogin_changes]

lemma completions_log_in_well: "logs_in_well (CompleteGoogleLogin c)" "logs_in_well (CompleteGitHubLogin q)"
  subgoal
    by (rule logs_in_wellI, erule CompleteGoogleLogin_cases)
      (auto simp: login_ok_def dest: google.completed(1) google.completed_keeps(1,2) intro: google.completed_keeps(3))
  subgoal
    by (rule logs_in_wellI, erule CompleteGitHubLogin_cases)
      (auto simp: login_ok_def dest: github.completed(1) github.completed_keeps(1,2) intro: github.completed_keeps(3))
  done

section \<open>The Email login and the sign-in methods\<close>

text \<open>They leave external logins alone, and sessions are revoked only.\<close>

definition externals_aside :: "db \<Rightarrow> db \<Rightarrow> bool" where
  "externals_aside d d' \<longleftrightarrow> external_login_transactions d' = external_login_transactions d \<and> sessions_kept d d'"

lemma aside_log_in_well:
  assumes "keeps codes_ok m" "keeps (methods_ok nobody) m" "\<And>E d r d'. m E d = (r, d') \<Longrightarrow> externals_aside d d'"
  shows "logs_in_well m"
proof (rule logs_in_wellI)
  fix E d r d' i assume run: "m E d = (r, d')" "login_ok d"
  note a = assms(3) [OF run(1), unfolded externals_aside_def]
  have "codes_ok d'" "methods_ok nobody d'" using assms(1,2) run unfolding keeps_def login_ok_def by blast+
  moreover have "externals_ok d'" using externals_ok_kept [of d d'] run(2) a by (simp add: login_ok_def)
  moreover have "phase_at i d' = phase_at i d" using a by (simp add: phase_at_def sql_LockExternalLogin_def)
  ultimately show "login_ok d' \<and> phase_moves (tx_time E) (phase_at i d) (phase_at i d')" by (simp add: login_ok_def)
qed

lemma externals_aside_refl [simp]: "externals_aside d d"
  by (simp add: externals_aside_def sessions_kept_simps)

lemma externals_aside_sessions:
  "external_login_transactions d' = external_login_transactions d \<Longrightarrow> browser_sessions d' = browser_sessions d \<Longrightarrow> externals_aside d d'"
  by (simp add: externals_aside_def sessions_kept_simps)

lemma aside_session: "externals_aside d d0 \<Longrightarrow> externals_aside d (with_session E s u m d0)"
  using sessions_kept_trans [OF _ sessions_kept_simps(2)] by (simp add: externals_aside_def with_session_def)

lemma aside_revoked: "externals_aside d d0 \<Longrightarrow> externals_aside d (revoked_sessions_db P now d0)"
  using sessions_kept_trans [OF _ sessions_kept_simps(3)] by (simp add: externals_aside_def revoked_sessions_db_def)

lemma aside_same:
  "externals_aside d d0 \<Longrightarrow> external_login_transactions d' = external_login_transactions d0 \<Longrightarrow> browser_sessions d' = browser_sessions d0 \<Longrightarrow> externals_aside d d'"
  by (simp add: externals_aside_def sessions_kept_def)

lemma aside_joined: "externals_aside d d0 \<Longrightarrow> externals_aside d (joined_user_db E u name d0)"
  by (erule aside_same) (simp_all add: joined_user_db_def)

lemma aside_linked: "externals_aside d d0 \<Longrightarrow> externals_aside d (linked_db E e u d0)"
  by (erule aside_same) (simp_all add: linked_db_def)

lemma aside_verified: "externals_aside d d0 \<Longrightarrow> externals_aside d (verified_db E c u d0)"
  by (erule aside_same) (simp_all add: verified_db_def)

lemma aside_unlinked: "externals_aside d (unlinked_db E c b now d)"
  by (rule aside_same [OF aside_session [OF aside_revoked [OF externals_aside_sessions [of "without_method (bs_UserID b) (uli_Method c) d" d]]]])
    (simp_all add: unlinked_db_def Let_def without_method_def)

lemma proves_aside: "proves E ch s d u d' \<Longrightarrow> externals_aside d d'"
  by (auto simp: proves_def logs_in_def reauthenticates_def links_def Let_def first_login_db_def
      intro!: aside_session aside_revoked aside_joined aside_linked split: if_split_asm)

lemma verify_aside: "VerifyEmailChallenge c E d = (r, d') \<Longrightarrow> externals_aside d d'"
proof (drule VerifyEmailChallenge_body, elim disjE exE)
  fix p x n assume "VerifyEmailChallenge_tx c p E d 0 = Inr (x, d', n)"
  from VerifyEmailChallenge_tx_effect [OF this] obtain ch where
    "d' = d \<or> d' = refused_db E c d \<or> (\<exists>v. opens c p E d ch v d')" by blast
  then show "externals_aside d d'"
  proof (elim disjE exE)
    fix v assume "opens c p E d ch v d'"
    then obtain u d1 where "proves E ch (vec_SessionID c) d u d1" "d' = verified_db E c u d1" unfolding opens_def by blast
    with aside_verified [OF proves_aside] show ?thesis by blast
  qed (simp_all add: refused_db_def externals_aside_sessions)
qed simp

lemma unlink_aside: "UnlinkIdentityMethod c E d = (r, d') \<Longrightarrow> externals_aside d d'"
  unfolding UnlinkIdentityMethod_def
  by (elim checked_cases transact_cases)
    (auto dest!: UnlinkIdentityMethod_tx_effect simp: unlinks_def intro: aside_unlinked)

lemma prepare_aside: "PrepareEmailChallenge c E d = (r, d') \<Longrightarrow> externals_aside d d'"
  unfolding PrepareEmailChallenge_def
  by (elim checked_cases transact_cases)
    (auto dest!: PrepareEmailChallenge_tx_effect simp: prepared_db_def intro!: externals_aside_sessions)

lemma record_aside: "RecordEmailSubmission i g s E d = (r, d') \<Longrightarrow> externals_aside d d'"
  unfolding RecordEmailSubmission_def
  by (elim checked_cases transact_cases)
    (auto dest!: RecordEmailSubmission_tx_effect intro!: externals_aside_sessions)

lemma revoke_aside: "RevokeBrowserSession k E d = (r, d') \<Longrightarrow> externals_aside d d'"
  by (auto elim!: RevokeBrowserSession_cases intro: aside_revoked)

lemmas emails_log_in_well =
  aside_log_in_well [OF Email_keeps_codes(1) Identity_keeps_methods(1) prepare_aside]
  aside_log_in_well [OF Email_keeps_codes(2) Identity_keeps_methods(2) record_aside]
  aside_log_in_well [OF Email_keeps_codes(3) Identity_keeps_methods(3) verify_aside]
  aside_log_in_well [OF Identity_keeps_codes(1) Identity_keeps_methods(4) unlink_aside]
  aside_log_in_well [OF Identity_keeps_codes(2) Identity_keeps_methods(5) revoke_aside]

end
