(* ===== verification/Whole_State.thy ===== *)
theory Whole_State
  imports Core_Server Invitation_Acceptance Machine_Protocol Machine_Revocation External_Methods
begin

text \<open>
  The state of the whole server and what every component leaves to the others. Each invariant reads
  the tables of its own component; a method keeps an invariant either because its own component
  says so or because it does not write those tables.
\<close>

section \<open>The tables of the components\<close>

definition core_part :: "db \<Rightarrow> execution_part \<times> conversation_part" where
  "core_part d = (execution_part d, conversation_part d)"

definition space_part :: "db \<Rightarrow> space_row list \<times> membership_row list" where
  "space_part d = (spaces d, memberships d)"

definition agent_part :: "db \<Rightarrow> agent_row list \<times> presence_row list \<times> machine_row list" where
  "agent_part d = (agents d, agent_presence d, machines d)"

definition invitation_part :: "db \<Rightarrow> invitation_row list \<times> submission_row list" where
  "invitation_part d = (space_invitations d, space_invitation_submissions d)"

lemmas table_defs = core_part_def space_part_def agent_part_def invitation_part_def execution_part_def conversation_part_def login_part_def

text \<open>An active Agent is on a Machine that is not revoked.\<close>

definition agents_live :: "db \<Rightarrow> bool" where
  "agents_live d \<longleftrightarrow> (\<forall>a \<in> set (agents d). ag_RemovedAt a = None \<longrightarrow>
     (\<exists>m \<in> set (machines d). m_MachineID m = ag_MachineID a \<and> m_RevokedAt m = None))"

definition world_ok :: "db \<Rightarrow> bool" where
  "world_ok d \<longleftrightarrow> core_ok d \<and> space_ok d \<and> owners_ok d \<and> agents_ok d \<and> agent_owners_ok d \<and> agents_live d
     \<and> invitations_ok d \<and> requests_ok d \<and> login_ok d"

section \<open>What an invariant reads\<close>

locale supported =
  fixes part :: "db \<Rightarrow> 'p" and inv :: "db \<Rightarrow> bool"
  assumes reads: "part d' = part d \<Longrightarrow> inv d \<Longrightarrow> inv d'"
begin

lemma keeps_untouched: "leaves part m \<Longrightarrow> keeps inv m"
  unfolding leaves_def keeps_def using reads by blast

end

interpretation core_support: supported core_part core_ok
  by unfold_locales (unfold core_ok_def core_part_def prod.inject, metis execution_ok_part conversation_ok_part)

interpretation space_support: supported space_part space_ok
  by unfold_locales (simp add: space_part_def space_ok_def)

interpretation owner_support: supported "\<lambda>d. (core_part d, space_part d)" owners_ok
  by unfold_locales (simp add: core_part_def space_part_def execution_part_def owners_ok_def is_member_def)

interpretation agent_support: supported agent_part "\<lambda>d. agents_ok d \<and> agents_live d"
  by unfold_locales (simp add: agent_part_def agents_ok_def agents_live_def)

interpretation agent_owner_support: supported "\<lambda>d. (space_part d, agent_part d)" agent_owners_ok
  by unfold_locales (simp add: agent_part_def space_part_def agent_owners_ok_def is_member_def)

interpretation invitation_support: supported invitation_part invitations_ok
  by unfold_locales (simp add: invitation_part_def invitations_ok_def)

interpretation request_support: supported machine_connection_requests requests_ok
  by unfold_locales (simp add: requests_ok_def)

interpretation login_support: supported login_part login_ok
  by unfold_locales (simp add: login_part_def login_ok_def codes_ok_def methods_defs externals_ok_def)

section \<open>Methods of the whole server\<close>

text \<open>A method keeps the state of the server when it keeps each invariant, given all of them.\<close>

definition maintains :: "(db \<Rightarrow> bool) \<Rightarrow> (env \<Rightarrow> db \<Rightarrow> (carry_error + 'a) \<times> db) \<Rightarrow> bool" where
  "maintains I m \<longleftrightarrow> (\<forall>E d r d'. m E d = (r, d') \<longrightarrow> world_ok d \<longrightarrow> I d')"

lemma maintainsI: "(\<And>E d r d'. m E d = (r, d') \<Longrightarrow> world_ok d \<Longrightarrow> I d') \<Longrightarrow> maintains I m"
  by (auto simp: maintains_def)

lemma maintainsD: "maintains I m \<Longrightarrow> m E d = (r, d') \<Longrightarrow> world_ok d \<Longrightarrow> I d'"
  unfolding maintains_def by blast

lemma keeps_maintains: "keeps I m \<Longrightarrow> (\<And>d. world_ok d \<Longrightarrow> I d) \<Longrightarrow> (\<And>d. I d \<Longrightarrow> J d) \<Longrightarrow> maintains J m"
  unfolding keeps_def maintains_def by blast

lemma keeps_world:
  assumes "maintains core_ok m" "maintains space_ok m" "maintains owners_ok m" "maintains (\<lambda>d. agents_ok d \<and> agents_live d) m"
    "maintains agent_owners_ok m" "maintains invitations_ok m" "maintains requests_ok m" "maintains login_ok m"
  shows "keeps world_ok m"
  unfolding keeps_def
proof (intro allI impI)
  fix E d r d' assume run: "m E d = (r, d')" "world_ok d"
  show "world_ok d'" unfolding world_ok_def using assms [THEN maintainsD, OF run] by blast
qed

lemma leaves_pair: "leaves (\<lambda>d. (f d, g d)) m \<longleftrightarrow> leaves f m \<and> leaves g m"
  unfolding leaves_def by blast

lemma untouched:
  "leaves core_part m \<Longrightarrow> maintains core_ok m"
  "leaves space_part m \<Longrightarrow> maintains space_ok m"
  "leaves core_part m \<Longrightarrow> leaves space_part m \<Longrightarrow> maintains owners_ok m"
  "leaves agent_part m \<Longrightarrow> maintains (\<lambda>d. agents_ok d \<and> agents_live d) m"
  "leaves space_part m \<Longrightarrow> leaves agent_part m \<Longrightarrow> maintains agent_owners_ok m"
  "leaves invitation_part m \<Longrightarrow> maintains invitations_ok m"
  "leaves machine_connection_requests m \<Longrightarrow> maintains requests_ok m"
  "leaves login_part m \<Longrightarrow> maintains login_ok m"
  subgoal by (rule keeps_maintains, erule core_support.keeps_untouched) (simp_all add: world_ok_def)
  subgoal by (rule keeps_maintains, erule space_support.keeps_untouched) (simp_all add: world_ok_def)
  subgoal by (rule keeps_maintains, rule owner_support.keeps_untouched) (simp_all add: world_ok_def leaves_pair)
  subgoal by (rule keeps_maintains, erule agent_support.keeps_untouched) (simp_all add: world_ok_def)
  subgoal by (rule keeps_maintains, rule agent_owner_support.keeps_untouched) (simp_all add: world_ok_def leaves_pair)
  subgoal by (rule keeps_maintains, erule invitation_support.keeps_untouched) (simp_all add: world_ok_def)
  subgoal by (rule keeps_maintains, erule request_support.keeps_untouched) (simp_all add: world_ok_def)
  subgoal by (rule keeps_maintains, erule login_support.keeps_untouched) (simp_all add: world_ok_def)
  done

lemma kept:
  "keeps core_ok m \<Longrightarrow> maintains core_ok m" "keeps space_ok m \<Longrightarrow> maintains space_ok m"
  "keeps owners_ok m \<Longrightarrow> maintains owners_ok m" "keeps agent_owners_ok m \<Longrightarrow> maintains agent_owners_ok m"
  "keeps invitations_ok m \<Longrightarrow> maintains invitations_ok m"
  unfolding maintains_def keeps_def world_ok_def by blast+

section \<open>The core\<close>

lemma identity_untouched:
  assumes "leaves identity_part m"
  shows "leaves space_part m" "leaves agent_part m" "leaves invitation_part m" "leaves machine_connection_requests m" "leaves login_part m"
  using assms unfolding leaves_def identity_part_def admission_part_def space_part_def agent_part_def invitation_part_def
  by blast+

lemma core_world:
  assumes "keeps core_ok m" "leaves identity_part m" "maintains owners_ok m"
  shows "keeps world_ok m"
  using identity_untouched [OF assms(2)] assms
  by (intro keeps_world untouched(2,4-8) kept(1)) assumption+

lemmas core_leaves = CreateWork_leaves(2) AppendWorkMessage_leaves(2) AcceptWorkReview_leaves_identity RequestWorkRetry_leaves(2)
  ClaimRun_leaves(2) RenewRunAttempt_leaves(2) CommitWorkUnderstanding_leaves(2) FinishUnresolvedAttempt_leaves(2)
  SendConversationMessage_leaves_identity ClaimConversationReply_leaves_identity RenewConversationReply_leaves_identity
  CommitConversationReply_leaves_identity

lemmas core_owners = kept(3) [OF CreateWork_keeps_owners] leave_ownership [THEN keeps_owners, THEN kept(3)]

lemma reply_owners: "maintains owners_ok (CommitConversationReply c)"
  by (rule keeps_maintains [OF CommitConversationReply_keeps_owners]) (simp_all add: world_ok_def)

lemmas core_methods =
  core_world [OF core_keeps(1) core_leaves(1) core_owners(1)]
  core_world [OF core_keeps(2) core_leaves(2) core_owners(2)]
  core_world [OF core_keeps(3) core_leaves(3) core_owners(3)]
  core_world [OF core_keeps(4) core_leaves(4) core_owners(4)]
  core_world [OF core_keeps(5) core_leaves(5) core_owners(5)]
  core_world [OF core_keeps(6) core_leaves(6) core_owners(6)]
  core_world [OF core_keeps(7) core_leaves(7) core_owners(7)]
  core_world [OF core_keeps(8) core_leaves(8) core_owners(8)]
  core_world [OF core_keeps(9) core_leaves(9) core_owners(9)]
  core_world [OF core_keeps(10) core_leaves(10) core_owners(10)]
  core_world [OF core_keeps(11) core_leaves(11) core_owners(11)]
  core_world [OF core_keeps(12) core_leaves(12) reply_owners]

lemma serve_world: "world_ok d \<Longrightarrow> world_ok (serve q E d)"
  by (cases q) (simp_all add: core_methods [THEN keeps_snd])

end
