(* ===== verification/Whole_Methods.thy ===== *)
theory Whole_Methods
  imports Whole_State
begin

text \<open>
  Every method of the Space, Agent, invitation and connection stores keeps the invariants of all the
  components. A removal and a revocation retire Agents; the first also changes the owners of Works.
\<close>

lemma leavesI: "(\<And>E d r d'. m E d = (r, d') \<Longrightarrow> f d' = f d) \<Longrightarrow> leaves f m"
  unfolding leaves_def by blast

section \<open>Retired Agents\<close>

definition absent_row :: "presence_row \<Rightarrow> presence_row" where
  "absent_row p = p\<lparr>pr_Present := False\<rparr>"

definition retires :: "(agent_row \<Rightarrow> bool) \<Rightarrow> timestamp \<Rightarrow> (machine_row \<Rightarrow> machine_row) \<Rightarrow> db \<Rightarrow> db \<Rightarrow> bool" where
  "retires Q t g d d' \<longleftrightarrow> agents d' = update_where Q (\<lambda>a. a\<lparr>ag_RemovedAt := Some t\<rparr>) (agents d)
     \<and> agent_presence d' = update_where (\<lambda>p. exists_where (\<lambda>a. ag_AgentID a = pr_AgentID p \<and> Q a) (agents d)) absent_row (agent_presence d)
     \<and> machines d' = map g (machines d)"

definition same_machine :: "(machine_row \<Rightarrow> machine_row) \<Rightarrow> bool" where
  "same_machine g \<longleftrightarrow> (\<forall>m. m_MachineID (g m) = m_MachineID m \<and> m_SpaceID (g m) = m_SpaceID m
     \<and> m_EnrolledByUserID (g m) = m_EnrolledByUserID m \<and> machine_report_ok (g m) = machine_report_ok m)"

lemma unique_on_mapped: "(\<And>r. k (g r) = k r) \<Longrightarrow> unique_on k (\<lambda>_. True) (map g t) = unique_on k (\<lambda>_. True) t"
  by (simp add: unique_on_def comp_def)

lemma retires_agents_ok:
  assumes ok: "agents_ok d" and r: "retires Q t g d d'" and g: "same_machine g"
  shows "agents_ok d'"
proof -
  let ?f = "\<lambda>a. a\<lparr>ag_RemovedAt := Some t\<rparr>"
  let ?as = "update_where Q ?f (agents d)"
  let ?P = "\<lambda>p. exists_where (\<lambda>a. ag_AgentID a = pr_AgentID p \<and> Q a) (agents d)"
  have keys: "agent_slot (?f a) = agent_slot a" "agent_name_key (?f a) = agent_name_key a" for a
    by (simp_all add: agent_slot_def agent_name_key_def)
  have u: "unique_on ag_AgentID (\<lambda>_. True) ?as" "unique_on agent_slot (\<lambda>_. True) ?as" "unique_on agent_name_key (\<lambda>_. True) ?as"
    using ok by (auto simp: agents_ok_def keys intro!: unique_on_update)
  have p: "presence_ok ?as p" if "presence_ok (agents d) p" "\<not> ?P p" for p
    using that by (auto simp: presence_ok_def update_where_bex update_where_ball exists_where_iff)
  have q: "presence_ok ?as (absent_row p)" if "presence_ok (agents d) p" for p
    using that by (auto simp: presence_ok_def absent_row_def update_where_bex)
  have pres: "\<forall>p \<in> set (update_where ?P absent_row (agent_presence d)). presence_ok ?as p"
    using ok p q unfolding update_where_ball agents_ok_def by blast
  have ids: "unique_on pr_AgentID (\<lambda>_. True) (update_where ?P absent_row (agent_presence d))"
    using ok by (auto simp: agents_ok_def absent_row_def intro!: unique_on_update)
  have owner: "\<forall>a \<in> set ?as. \<exists>m \<in> set (machines d'). m_MachineID m = ag_MachineID a \<and> m_SpaceID m = ag_SpaceID a
          \<and> m_EnrolledByUserID m = ag_OwnerUserID a"
    using ok r g by (auto simp: update_where_ball agents_ok_def retires_def same_machine_def)
  have present: "\<forall>a \<in> set ?as. \<exists>p \<in> set (update_where ?P absent_row (agent_presence d)). pr_AgentID p = ag_AgentID a"
    using ok by (auto simp: update_where_ball update_where_bex agents_ok_def absent_row_def)
  have m: "unique_on m_MachineID (\<lambda>_. True) (machines d')" "\<forall>m \<in> set (machines d'). machine_report_ok m"
    using ok r g by (auto simp: agents_ok_def retires_def same_machine_def unique_on_mapped)
  show ?thesis
    using u pres ids owner present m r unfolding agents_ok_def retires_def by simp
qed

lemma retires_agents_live:
  assumes ok: "agents_live d" and r: "retires Q t g d d'" and g: "same_machine g"
    and live: "\<And>a m. a \<in> set (agents d) \<Longrightarrow> ag_RemovedAt a = None \<Longrightarrow> \<not> Q a \<Longrightarrow> m \<in> set (machines d) \<Longrightarrow>
       m_MachineID m = ag_MachineID a \<Longrightarrow> m_RevokedAt m = None \<Longrightarrow> m_RevokedAt (g m) = None"
  shows "agents_live d'"
  unfolding agents_live_def
proof (intro ballI impI)
  fix a assume a: "a \<in> set (agents d')" "ag_RemovedAt a = None"
  then have a': "a \<in> set (agents d)" "\<not> Q a" using r by (auto simp: retires_def elim!: in_update_whereE)
  with a ok obtain m where "m \<in> set (machines d)" "m_MachineID m = ag_MachineID a" "m_RevokedAt m = None"
    unfolding agents_live_def by blast
  with live [OF a'(1) a(2) a'(2)] g r show "\<exists>m \<in> set (machines d'). m_MachineID m = ag_MachineID a \<and> m_RevokedAt m = None"
    by (auto simp: retires_def same_machine_def)
qed

lemma retires_agent_owners:
  "agent_owners_ok d \<Longrightarrow> retires Q t g d d' \<Longrightarrow> memberships d' = memberships d \<Longrightarrow> agent_owners_ok d'"
  by (auto simp: agent_owners_ok_def retires_def is_member_def elim!: in_update_whereE)

section \<open>Spaces\<close>

lemma CreateSpace_cases:
  assumes "CreateSpace u c E d = (r, d')"
  obtains "d' = d" | "space_creatable c d" "d' = created_db E c d"
  using assms unfolding CreateSpace_def
  by (elim transact_cases) (use CreateSpace_tx_effect in blast)+

lemma CreateSpace_leaves:
  "leaves core_part (CreateSpace u c)" "leaves agent_part (CreateSpace u c)" "leaves invitation_part (CreateSpace u c)"
  "leaves machine_connection_requests (CreateSpace u c)" "leaves login_part (CreateSpace u c)"
  by (rule leavesI, erule CreateSpace_cases, simp_all add: created_db_def table_defs)+

lemma CreateSpace_world: "keeps world_ok (CreateSpace u c)"
  by (intro keeps_world untouched CreateSpace_leaves kept CreateSpace_keeps CreateSpace_keeps_owners)

lemma removed_db_retires: "retires (owned_agent (rmc_SpaceID c) (rmc_TargetUserID c)) (tx_time E) (\<lambda>m. m) d (removed_db E c d)"
  by (simp add: retires_def removed_db_def Let_def absent_row_def [abs_def])

lemma same_machine_id: "same_machine (\<lambda>m. m)"
  by (simp add: same_machine_def)

lemma removed_db_administers: "administers d (removed_db E c d)"
proof -
  let ?P = "open_work_of (rmc_SpaceID c) (rmc_TargetUserID c)"
  let ?owner = "\<lambda>w. if rmc_SuccessorUserID c \<noteq> [] \<and> ?P w then rmc_SuccessorUserID c else w_OwnerUserID w"
  have "works (removed_db E c d) = map (reowned ?owner) (works d)"
    by (auto simp: removed_db_def Let_def update_where_def reowned_def intro!: map_idI [symmetric])
  moreover have "conversation_part (removed_db E c d) = conversation_part d"
    by (simp add: conversation_part_def removed_db_def Let_def)
  moreover have "work_messages (removed_db E c d) = work_messages d" "work_result_checks (removed_db E c d) = work_result_checks d"
    "runs (removed_db E c d) = runs d" "run_attempts (removed_db E c d) = run_attempts d"
    by (simp_all add: removed_db_def Let_def)
  ultimately show ?thesis unfolding administers_def
    by (intro conjI exI [of _ ?owner]) (simp_all add: execution_part_def)
qed

lemma RemoveSpaceMember_leaves:
  "leaves invitation_part (RemoveSpaceMember c)" "leaves machine_connection_requests (RemoveSpaceMember c)" "leaves login_part (RemoveSpaceMember c)"
proof -
  have keep: "keeps (\<lambda>d. invitation_part d = i \<and> machine_connection_requests d = q \<and> login_part d = l) (RemoveSpaceMember c)" for i q l
    by (rule keeps_removed_db) (simp add: removed_db_def Let_def invitation_part_def login_part_def)
  show "leaves invitation_part (RemoveSpaceMember c)" "leaves machine_connection_requests (RemoveSpaceMember c)" "leaves login_part (RemoveSpaceMember c)"
    using keep unfolding keeps_def leaves_def by blast+
qed

lemma RemoveSpaceMember_keeps_agents:
  "keeps core_ok (RemoveSpaceMember c)" "keeps (\<lambda>d. agents_ok d \<and> agents_live d) (RemoveSpaceMember c)"
  subgoal by (rule keeps_removed_db) (rule administers_core_ok [OF removed_db_administers])
  subgoal by (rule keeps_removed_db)
      (use retires_agents_ok [OF _ removed_db_retires same_machine_id] retires_agents_live [OF _ removed_db_retires same_machine_id] in blast)
  done

lemma RemoveSpaceMember_world: "keeps world_ok (RemoveSpaceMember c)"
proof -
  have "maintains (\<lambda>d. agents_ok d \<and> agents_live d) (RemoveSpaceMember c)"
    by (rule keeps_maintains [OF RemoveSpaceMember_keeps_agents(2)]) (simp_all add: world_ok_def)
  then show ?thesis
    by (rule keeps_world [OF kept(1) [OF RemoveSpaceMember_keeps_agents(1)] kept(2) [OF RemoveSpaceMember_keeps(1)]
          kept(3) [OF RemoveSpaceMember_keeps(2)] _ kept(4) [OF RemoveSpaceMember_keeps(3)]
          untouched(6) [OF RemoveSpaceMember_leaves(1)] untouched(7) [OF RemoveSpaceMember_leaves(2)]
          untouched(8) [OF RemoveSpaceMember_leaves(3)]])
qed

section \<open>Reports\<close>

lemma accepted_report_tables:
  assumes "accepted_report command E d m res d'"
  obtains active new b missing where "allocated m active (rt_Recognized command) (bindings_of (m_MachineID m) d) b missing new"
    "d' = after_report E command new b (sort (remdups missing)) d"
  using assms unfolding accepted_report_def by blast

lemma after_report_leaves:
  "core_part (after_report E c new b missing d) = core_part d" "space_part (after_report E c new b missing d) = space_part d"
  "invitation_part (after_report E c new b missing d) = invitation_part d"
  "machine_connection_requests (after_report E c new b missing d) = machine_connection_requests d"
  "login_part (after_report E c new b missing d) = login_part d"
  by (simp_all add: after_report_def Let_def table_defs)

lemma after_report_machines:
  "m \<in> set (machines d) \<Longrightarrow> \<exists>m' \<in> set (machines (after_report E c new b missing d)). m_MachineID m' = m_MachineID m \<and> m_RevokedAt m' = m_RevokedAt m"
  by (auto simp: after_report_def Let_def update_where_bex reported_machine_def)

text \<open>A report that returns changed nothing, or was accepted for a Machine that is not revoked.\<close>

lemma report_cases:
  assumes "ReconcileAgentPresence folded c E d = (r, d')" "agents_ok d"
  obtains "d' = d" | m active new b missing where "m \<in> set (machines d)" "m_RevokedAt m = None"
      "allocated m active (rt_Recognized c) (bindings_of (m_MachineID m) d) b missing new"
      "d' = after_report E c new b (sort (remdups missing)) d"
proof (cases "d' = d")
  case False
  with ReconcileAgentPresence_body [OF assms(1)] obtain v n where "ReconcileAgentPresence_tx folded c E d 0 = Inr (v, d', n)" by blast
  from ReconcileAgentPresence_tx_effect [OF this assms(2)] False obtain m where
    m: "machine_of (rt_MachineID c) d = Some m" "m_RevokedAt m = None" "accepted_report c E d m v d'"
    unfolding replayed_report_def by blast
  from m(1) have "m \<in> set (machines d)" by (auto simp: machine_of_def dest: first_where_Some)
  with m that(2) show ?thesis by (blast elim: accepted_report_tables)
qed (use that in blast)

lemma ReconcileAgentPresence_live:
  assumes "ReconcileAgentPresence folded c E d = (r, d')" "agents_ok d" "agents_live d"
  shows "agents_live d'"
  using assms(1,2)
proof (cases rule: report_cases)
  case (2 m active new b missing)
  have "\<exists>m \<in> set (machines d). m_MachineID m = ag_MachineID a \<and> m_RevokedAt m = None" if "a \<in> set (agents d')" "ag_RemovedAt a = None" for a
    using that assms(3) 2 after_report_tables(3) by (auto simp: agents_live_def allocated_def)
  then show ?thesis unfolding agents_live_def 2(4) by (metis after_report_machines)
qed (use assms in simp)

lemma report_world: "keeps world_ok (ReconcileAgentPresence folded c)"
proof -
  let ?m = "ReconcileAgentPresence folded c"
  have left: "maintains core_ok ?m" "maintains invitations_ok ?m" "maintains requests_ok ?m" "maintains login_ok ?m"
    by (rule maintainsI, unfold world_ok_def, elim conjE, erule (1) report_cases, simp,
        simp add: core_support.reads invitation_support.reads request_support.reads login_support.reads after_report_leaves)+
  have joint: "keeps (\<lambda>d. agents_ok d \<and> space_ok d \<and> owners_ok d \<and> agent_owners_ok d) ?m"
    by (rule ReconcileAgentPresence_keeps_space)
  have kept: "maintains space_ok ?m" "maintains owners_ok ?m" "maintains agent_owners_ok ?m" "maintains agents_ok ?m"
    by (rule keeps_maintains [OF joint], simp_all add: world_ok_def)+
  have "maintains agents_live ?m"
    by (rule maintainsI) (use ReconcileAgentPresence_live in \<open>auto simp: world_ok_def\<close>)
  with kept(4) have "maintains (\<lambda>d. agents_ok d \<and> agents_live d) ?m" unfolding maintains_def by blast
  with left kept show ?thesis by (intro keeps_world)
qed


text \<open>The invitation and connection stores keep the invariants of all the components.\<close>

section \<open>Invitations\<close>

definition invites_only :: "db \<Rightarrow> db \<Rightarrow> bool" where
  "invites_only d d' \<longleftrightarrow> core_part d' = core_part d \<and> space_part d' = space_part d \<and> agent_part d' = agent_part d
     \<and> machine_connection_requests d' = machine_connection_requests d \<and> login_part d' = login_part d"

lemma invites_only_tables:
  "invites_only d (d\<lparr>space_invitations := is, space_invitation_submissions := ss\<rparr>)"
  "invites_only d (d\<lparr>space_invitations := is\<rparr>)" "invites_only d (d\<lparr>space_invitation_submissions := ss\<rparr>)" "invites_only d d"
  by (simp_all add: invites_only_def table_defs)

lemma invites_only_world:
  assumes "\<And>E d r d'. m E d = (r, d') \<Longrightarrow> invites_only d d'" "keeps invitations_ok m"
  shows "keeps world_ok m"
proof -
  have "leaves core_part m" "leaves space_part m" "leaves agent_part m" "leaves machine_connection_requests m" "leaves login_part m"
    by (rule leavesI, drule assms(1), simp add: invites_only_def)+
  with assms(2) show ?thesis by (intro keeps_world untouched(1-5,7,8) kept(5))
qed

lemma PrepareInvitation_only: "PrepareInvitation c E d = (r, d') \<Longrightarrow> invites_only d d'"
  unfolding PrepareInvitation_def
  by (elim checked_cases transact_cases) (auto dest!: PrepareInvitation_tx_effect simp: issued_db_def invites_only_tables)

lemmas PrepareInvitation_world = invites_only_world [OF PrepareInvitation_only PrepareInvitation_keeps]

lemma PrepareInvitationResend_only: "PrepareInvitationResend c E d = (r, d') \<Longrightarrow> invites_only d d'"
  unfolding PrepareInvitationResend_def
  by (elim checked_cases transact_cases) (auto dest!: PrepareInvitationResend_tx_effect simp: resent_db_def invites_only_tables)

lemmas PrepareInvitationResend_world = invites_only_world [OF PrepareInvitationResend_only PrepareInvitationResend_keeps]

lemma RecordInvitationSubmission_only: "RecordInvitationSubmission c E d = (r, d') \<Longrightarrow> invites_only d d'"
  using RecordInvitationSubmission_effect invites_only_tables by metis

lemmas RecordInvitationSubmission_world = invites_only_world [OF RecordInvitationSubmission_only RecordInvitationSubmission_keeps]

lemma RevokeInvitation_only: "RevokeInvitation c E d = (r, d') \<Longrightarrow> invites_only d d'"
  by (drule RevokeInvitation_body) (auto dest!: RevokeInvitation_tx_effect simp: invites_only_tables)

lemmas RevokeInvitation_world = invites_only_world [OF RevokeInvitation_only RevokeInvitation_keeps]

lemma AcceptInvitation_leaves:
  "leaves core_part (AcceptInvitation c)" "leaves agent_part (AcceptInvitation c)" "leaves machine_connection_requests (AcceptInvitation c)"
  "leaves login_part (AcceptInvitation c)"
proof -
  have "keeps (\<lambda>d. core_part d = x \<and> agent_part d = y \<and> machine_connection_requests d = z \<and> login_part d = l) (AcceptInvitation c)" for x y z l
    by (rule keeps_acceptance) (simp_all add: joined_db_def accepted_db_def table_defs)
  then show "leaves core_part (AcceptInvitation c)" "leaves agent_part (AcceptInvitation c)" "leaves machine_connection_requests (AcceptInvitation c)"
    "leaves login_part (AcceptInvitation c)"
    unfolding keeps_def leaves_def by blast+
qed

lemma AcceptInvitation_world: "keeps world_ok (AcceptInvitation c)"
  by (rule keeps_world [OF untouched(1) [OF AcceptInvitation_leaves(1)] kept(2) [OF AcceptInvitation_keeps_space]
        kept(3) [OF AcceptInvitation_keeps_owners(1)] untouched(4) [OF AcceptInvitation_leaves(2)]
        kept(4) [OF AcceptInvitation_keeps_owners(2)] kept(5) [OF AcceptInvitation_keeps] untouched(7) [OF AcceptInvitation_leaves(3)]
        untouched(8) [OF AcceptInvitation_leaves(4)]])

section \<open>Connections\<close>

text \<open>A connection method changes the requests, the failures, and at most adds a Machine that reported nothing yet.\<close>

definition connects_only :: "db \<Rightarrow> db \<Rightarrow> bool" where
  "connects_only d d' \<longleftrightarrow> core_part d' = core_part d \<and> space_part d' = space_part d \<and> invitation_part d' = invitation_part d
     \<and> login_part d' = login_part d \<and> agents d' = agents d \<and> agent_presence d' = agent_presence d
     \<and> (machines d' = machines d \<or> (\<exists>m. machines d' = machines d @ [m] \<and> machine_report_ok m
          \<and> \<not> key_taken m_MachineID (\<lambda>_. True) (m_MachineID m) (machines d)))"

lemma connects_only_requests:
  "connects_only d (d\<lparr>machine_connection_requests := rs\<rparr>)" "connects_only d (d\<lparr>machine_connection_lookup_failures := fs\<rparr>)" "connects_only d d"
  by (simp_all add: connects_only_def table_defs)

lemma connects_only_update: "connects_only d0 d \<Longrightarrow> update_connection P f ok d = Inr (x, d') \<Longrightarrow> connects_only d0 d'"
  by (simp add: connects_only_def table_defs update_connection_Inr updated_requests_def)

lemma connects_only_agents:
  assumes "connects_only d d'" "agents_ok d" "agents_live d"
  shows "agents_ok d' \<and> agents_live d'"
proof -
  from assms(1) have t: "agents d' = agents d" "agent_presence d' = agent_presence d" by (simp_all add: connects_only_def)
  from assms(1) consider "machines d' = machines d" | m where "machines d' = machines d @ [m]" "machine_report_ok m"
      "\<not> key_taken m_MachineID (\<lambda>_. True) (m_MachineID m) (machines d)"
    unfolding connects_only_def by blast
  then show ?thesis
  proof cases
    case 1
    with t have "agent_part d' = agent_part d" by (simp add: agent_part_def)
    with assms show ?thesis using agent_support.reads [of d' d] by blast
  next
    case (2 m)
    with t assms(2,3) show ?thesis unfolding agents_ok_def agents_live_def by (auto simp: unique_on_append1)
  qed
qed

lemma connects_only_world:
  assumes "\<And>E d r d'. m E d = (r, d') \<Longrightarrow> connects_only d d'" "\<And>E d r d'. m E d = (r, d') \<Longrightarrow> connection_step d d'"
  shows "keeps world_ok m"
proof -
  have l: "leaves core_part m" "leaves space_part m" "leaves invitation_part m" "leaves login_part m"
    by (rule leavesI, drule assms(1), simp add: connects_only_def)+
  have "maintains (\<lambda>d. agents_ok d \<and> agents_live d) m" "maintains agent_owners_ok m" "maintains requests_ok m"
    subgoal by (rule maintainsI, drule assms(1)) (simp add: world_ok_def connects_only_agents)
    subgoal by (rule maintainsI, drule assms(1))
        (simp add: world_ok_def connects_only_def space_part_def agent_owners_ok_def is_member_def)
    subgoal by (rule maintainsI, drule assms(2)) (auto simp: world_ok_def simulated_def dest: connection_step_simulated)
    done
  with l show ?thesis by (intro keeps_world untouched(1,2,3,6,8))
qed

lemma BeginMachineConnection_only: "BeginMachineConnection c E d = (r, d') \<Longrightarrow> connects_only d d'"
  unfolding BeginMachineConnection_def
  by (elim transact_cases) (auto dest!: BeginMachineConnection_tx_effect simp: connects_only_requests)

lemmas BeginMachineConnection_world = connects_only_world [OF BeginMachineConnection_only begun]

lemma LookupMachineConnection_only: "LookupMachineConnection c E d = (r, d') \<Longrightarrow> connects_only d d'"
  unfolding LookupMachineConnection_def
  by (elim transact_answer_cases) (auto dest!: LookupMachineConnection_tx_effect simp: connects_only_requests split: sum.split_asm)

lemmas LookupMachineConnection_world = connects_only_world [OF LookupMachineConnection_only looked_up]

lemma DecideMachineConnection_only: "DecideMachineConnection c E d = (r, d') \<Longrightarrow> connects_only d d'"
  unfolding DecideMachineConnection_def
  by (elim transact_cases) (auto dest!: DecideMachineConnection_tx_effect sql_DecideMachineConnection_Inr
      simp: connects_only_requests elim: connects_only_update [OF connects_only_requests(3)])

lemmas DecideMachineConnection_world = connects_only_world [OF DecideMachineConnection_only decided]

lemma CancelMachineConnection_only: "CancelMachineConnection c E d = (r, d') \<Longrightarrow> connects_only d d'"
  unfolding CancelMachineConnection_def
  by (elim transact_cases) (auto dest!: CancelMachineConnection_tx_effect
      simp: connects_only_requests sql_CancelMachineConnection_def elim: connects_only_update [OF connects_only_requests(3)])

lemmas CancelMachineConnection_world = connects_only_world [OF CancelMachineConnection_only cancelled]

lemma created_machine_connects:
  "connects_only d0 d \<Longrightarrow> machines d = machines d0 \<Longrightarrow> sql_CreateConnectedMachine (connected_row E i s n k q u) d = Inr (x, d') \<Longrightarrow> connects_only d0 d'"
  by (auto simp: sql_CreateConnectedMachine_def connects_only_def table_defs machine_report_ok_def connected_row_def split: if_split_asm)

lemma redeem_connects:
  assumes "redeem issue c r E d n = Inr (x, d', n')" "connects_only d0 d" "machines d = machines d0"
  shows "connects_only d0 d'"
proof -
  from redeem_Inr [OF assms(1)] obtain i s n k q u y d1 row where
    m: "sql_CreateConnectedMachine (connected_row E i s n k q u) d = Inr (y, d1)"
    and r: "sql_RedeemMachineConnection E i (plc_RequestID c) d1 = Inr (Some row, d')" by blast
  show ?thesis
    by (rule connects_only_update [OF created_machine_connects [OF assms(2,3) m]]) (use r in \<open>unfold sql_RedeemMachineConnection_def\<close>)
qed

lemma polled_connects: "polled issue c E d r x d' \<Longrightarrow> connects_only d d'"
  by (auto simp: polled_def sql_SlowDownMachineConnectionPoll_def polled_db_def updated_requests_def connects_only_requests
      split: if_split_asm elim: connects_only_update [OF connects_only_requests(3)]
      elim!: redeem_connects intro: connects_only_requests)

lemma PollMachineConnection_only: "PollMachineConnection c issue E d = (r, d') \<Longrightarrow> connects_only d d'"
  unfolding PollMachineConnection_def
  by (elim transact_answer_cases) (auto dest!: PollMachineConnection_tx_effect replay_redemption_Inr polled_connects
      simp: connects_only_requests split: if_split_asm)

lemmas PollMachineConnection_world = connects_only_world [OF PollMachineConnection_only Machine_Protocol.polled]

section \<open>Revocations\<close>

lemma revoked_db_retires:
  "retires (machine_agent i) (tx_time E) (\<lambda>m. if active_machine i m then revoked_machine_row E k u key g m else m) d (revoked_db E k u key g i d)"
  by (simp add: retires_def revoked_db_def retired_def sql_RemoveActiveAgentsForMachine_def absent_row_def [abs_def] update_where_def)

lemma revoked_same_machine: "same_machine (\<lambda>m. if active_machine i m then revoked_machine_row E k u key g m else m)"
  by (simp add: same_machine_def revoked_machine_row_def machine_report_ok_def)

lemma revoked_db_world: "world_ok d \<Longrightarrow> world_ok (revoked_db E k u key g i d)"
proof -
  let ?d = "revoked_db E k u key g i d"
  assume ok: "world_ok d"
  have parts: "core_part ?d = core_part d" "space_part ?d = space_part d" "invitation_part ?d = invitation_part d"
    "machine_connection_requests ?d = machine_connection_requests d" "login_part ?d = login_part d"
    by (simp_all add: revoked_db_def retired_def sql_RemoveActiveAgentsForMachine_def table_defs)
  have "agents_live ?d"
    by (rule retires_agents_live [OF _ revoked_db_retires revoked_same_machine])
      (use ok in \<open>auto simp: world_ok_def machine_agent_def active_machine_def\<close>)
  moreover have "agents_ok ?d" by (rule retires_agents_ok [OF _ revoked_db_retires revoked_same_machine]) (use ok in \<open>simp add: world_ok_def\<close>)
  moreover have "agent_owners_ok ?d" by (rule retires_agent_owners [OF _ revoked_db_retires]) (use ok parts(2) in \<open>simp_all add: world_ok_def space_part_def\<close>)
  moreover have "owners_ok ?d" by (rule owner_support.reads [of _ d]) (use ok parts in \<open>simp_all add: world_ok_def\<close>)
  ultimately show ?thesis
    using ok core_support.reads [OF parts(1)] space_support.reads [OF parts(2)] invitation_support.reads [OF parts(3)]
      request_support.reads [OF parts(4)] login_support.reads [OF parts(5)]
    unfolding world_ok_def by blast
qed

lemma revocations_world: "keeps world_ok (RevokeMachineFromBrowser c)" "keeps world_ok (RevokeMachineFromHost q)"
  unfolding RevokeMachineFromBrowser_def RevokeMachineFromHost_def keeps_def
  by (auto elim!: transact_cases dest!: RevokeMachineFromBrowser_tx_effect RevokeMachineFromHost_tx_effect
      simp: revokes_by_user_def revokes_itself_def revoked_db_world split: if_split_asm)

lemma revocations_leave:
  "leaves core_part (RevokeMachineFromBrowser c)" "leaves core_part (RevokeMachineFromHost q)"
  "leaves machine_connection_requests (RevokeMachineFromBrowser c)" "leaves machine_connection_requests (RevokeMachineFromHost q)"
proof -
  have "core_part (revoked_db E k u key g i d) = core_part d \<and> machine_connection_requests (revoked_db E k u key g i d) = machine_connection_requests d"
    for E k u key g i d
    by (simp add: revoked_db_def retired_def sql_RemoveActiveAgentsForMachine_def table_defs)
  note same = this [THEN conjunct1] this [THEN conjunct2]
  show "leaves core_part (RevokeMachineFromBrowser c)" "leaves core_part (RevokeMachineFromHost q)"
    "leaves machine_connection_requests (RevokeMachineFromBrowser c)" "leaves machine_connection_requests (RevokeMachineFromHost q)"
    unfolding RevokeMachineFromBrowser_def RevokeMachineFromHost_def
    by (rule leavesI, erule transact_cases, simp,
        auto dest!: RevokeMachineFromBrowser_tx_effect RevokeMachineFromHost_tx_effect
          simp: revokes_by_user_def revokes_itself_def same split: if_split_asm)+
qed

section \<open>What the core and the requests see of it\<close>

lemma invites_only_leaves:
  assumes "\<And>E d r d'. m E d = (r, d') \<Longrightarrow> invites_only d d'"
  shows "leaves core_part m" "leaves machine_connection_requests m"
  by (rule leavesI, drule assms, simp add: invites_only_def)+

lemma connects_only_leaves:
  assumes "\<And>E d r d'. m E d = (r, d') \<Longrightarrow> connects_only d d'"
  shows "leaves core_part m"
  by (rule leavesI, drule assms, simp add: connects_only_def)

lemmas core_frames = CreateSpace_leaves(1) AcceptInvitation_leaves(1) revocations_leave(1,2)
  invites_only_leaves(1) [OF PrepareInvitation_only] invites_only_leaves(1) [OF PrepareInvitationResend_only]
  invites_only_leaves(1) [OF RecordInvitationSubmission_only] invites_only_leaves(1) [OF RevokeInvitation_only]
  connects_only_leaves [OF BeginMachineConnection_only] connects_only_leaves [OF LookupMachineConnection_only]
  connects_only_leaves [OF DecideMachineConnection_only] connects_only_leaves [OF PollMachineConnection_only]
  connects_only_leaves [OF CancelMachineConnection_only]

lemmas request_frames = CreateSpace_leaves(4) RemoveSpaceMember_leaves(2) AcceptInvitation_leaves(3) revocations_leave(3,4)
  invites_only_leaves(2) [OF PrepareInvitation_only] invites_only_leaves(2) [OF PrepareInvitationResend_only]
  invites_only_leaves(2) [OF RecordInvitationSubmission_only] invites_only_leaves(2) [OF RevokeInvitation_only]
  core_leaves [THEN identity_untouched(4)]


text \<open>The login stores keep the invariants of all the components: they write no table of the others.\<close>

section \<open>The tables of the others\<close>

definition business_part :: "db \<Rightarrow> (execution_part \<times> conversation_part) \<times> (space_row list \<times> membership_row list)
    \<times> (agent_row list \<times> presence_row list \<times> machine_row list) \<times> (invitation_row list \<times> submission_row list) \<times> connection_row list" where
  "business_part d = (core_part d, space_part d, agent_part d, invitation_part d, machine_connection_requests d)"

lemma leaves_business:
  assumes "leaves business_part m"
  shows "leaves core_part m" "leaves space_part m" "leaves agent_part m" "leaves invitation_part m" "leaves machine_connection_requests m"
  using assms unfolding leaves_def business_part_def by blast+

lemma login_world: "leaves business_part m \<Longrightarrow> logs_in_well m \<Longrightarrow> keeps world_ok m"
proof -
  assume l: "leaves business_part m" and w: "logs_in_well m"
  have "maintains login_ok m" using w unfolding maintains_def logs_in_well_def world_ok_def by blast
  with leaves_business [OF l] show "keeps world_ok m" by (intro keeps_world untouched(1-7))
qed

lemma business_part_login [simp]:
  "business_part (d\<lparr>carry_users := us\<rparr>) = business_part d" "business_part (with_session E s u m d) = business_part d"
  "business_part (revoked_sessions_db P now d) = business_part d" "business_part (joined_user_db E u name d) = business_part d"
  "business_part (linked_db E e u d) = business_part d" "business_part (without_method u w d) = business_part d"
  "business_part (refused_db E v d) = business_part d" "business_part (verified_db E v u d) = business_part d"
  "business_part (prepared_db E c row d) = business_part d" "business_part (unlinked_db E k b now d) = business_part d"
  "business_part (d\<lparr>email_login_challenges := cs\<rparr>) = business_part d"
  "business_part (d\<lparr>external_login_transactions := ts\<rparr>) = business_part d"
  "business_part (updated_externals Q f d) = business_part d" "business_part (ends_sessions t u now d) = business_part d"
  by (simp_all add: business_part_def table_defs with_session_def revoked_sessions_db_def joined_user_db_def linked_db_def without_method_def
      refused_db_def verified_db_def prepared_db_def unlinked_db_def Let_def updated_externals_def ends_sessions_def)

section \<open>The Email login and the sign-in methods\<close>

lemma proves_business: "proves E ch s d u d' \<Longrightarrow> business_part d' = business_part d"
  by (auto simp: proves_def logs_in_def reauthenticates_def links_def Let_def first_login_db_def split: if_split_asm)

lemma verify_business: "VerifyEmailChallenge c E d = (r, d') \<Longrightarrow> business_part d' = business_part d"
proof (drule VerifyEmailChallenge_body, elim disjE exE)
  fix x n assume "VerifyEmailChallenge_tx c (purpose_of (vec_Purpose c)) E d 0 = Inr (x, d', n)"
  from VerifyEmailChallenge_tx_effect [OF this] obtain ch where
    "d' = d \<or> d' = refused_db E c d \<or> (\<exists>v. opens c (purpose_of (vec_Purpose c)) E d ch v d')" by blast
  then show "business_part d' = business_part d"
  proof (elim disjE exE)
    fix v assume "opens c (purpose_of (vec_Purpose c)) E d ch v d'"
    then obtain u d1 where p: "proves E ch (vec_SessionID c) d u d1" and d': "d' = verified_db E c u d1" unfolding opens_def by blast
    show ?thesis unfolding d' using proves_business [OF p] by simp
  qed simp_all
qed simp

lemma Email_leaves_business:
  "leaves business_part (PrepareEmailChallenge p)" "leaves business_part (RecordEmailSubmission i g s)"
  "leaves business_part (VerifyEmailChallenge v)" "leaves business_part (UnlinkIdentityMethod k)" "leaves business_part (RevokeBrowserSession b)"
  subgoal unfolding PrepareEmailChallenge_def
    by (rule leavesI, elim checked_cases transact_cases) (auto dest!: PrepareEmailChallenge_tx_effect)
  subgoal unfolding RecordEmailSubmission_def
    by (rule leavesI, elim checked_cases transact_cases) (auto dest!: RecordEmailSubmission_tx_effect)
  subgoal by (rule leavesI, erule verify_business)
  subgoal unfolding UnlinkIdentityMethod_def
    by (rule leavesI, elim checked_cases transact_cases) (auto dest!: UnlinkIdentityMethod_tx_effect simp: unlinks_def)
  subgoal by (rule leavesI) (auto elim!: RevokeBrowserSession_cases)
  done

section \<open>External logins\<close>

lemma external_change_business: "(\<And>E d r d'. m E d = (r, d') \<Longrightarrow> external_change E d d') \<Longrightarrow> leaves business_part m"
  by (rule leavesI) (metis external_change_tables business_part_login(12))

lemma only_methods_business: "only_methods_change d d' \<Longrightarrow> business_part d' = business_part d"
  by (auto simp: only_methods_change_def business_part_def table_defs)

lemma po_create_business:
  "po_create (google_ops issuer subject) E u d = Inr (x, d') \<Longrightarrow> business_part d' = business_part d"
  "po_create (github_ops g) E u d = Inr (x, d') \<Longrightarrow> business_part d' = business_part d"
  by (rule only_methods_business, erule google.changes github.changes)+

lemma completes_business:
  assumes "completes E ops p i g s t d u v d'" "\<And>u d x d'. po_create ops E u d = Inr (x, d') \<Longrightarrow> business_part d' = business_part d"
  shows "business_part d' = business_part d"
proof -
  have "business_part d1 = business_part d" if "resolves E ops t d u d1" for d1
    using that by (auto simp: resolves_def dest: assms(2) split: if_split_asm)
  with assms(1) show ?thesis unfolding completes_def by auto
qed

lemma External_leaves_business: "leaves business_part (CompleteGoogleLogin c)" "leaves business_part (CompleteGitHubLogin q)"
  subgoal by (rule leavesI, erule CompleteGoogleLogin_cases) (simp, blast intro: completes_business po_create_business)
  subgoal by (rule leavesI, erule CompleteGitHubLogin_cases) (simp, blast intro: completes_business po_create_business)
  done

section \<open>All of them\<close>

lemmas login_leaves = Email_leaves_business External_leaves_business
  external_change_business [OF CreateExternalLogin_changes] external_change_business [OF CreateExternalIdentityProof_changes]
  external_change_business [OF ClaimExternalLogin_changes] external_change_business [OF MarkExternalLoginUnknown_changes]
  external_change_business [OF RejectExternalLogin_changes]

lemmas login_steps = emails_log_in_well completions_log_in_well externals_log_in_well

lemmas login_methods = login_world [OF login_leaves(1) login_steps(1)] login_world [OF login_leaves(2) login_steps(2)]
  login_world [OF login_leaves(3) login_steps(3)] login_world [OF login_leaves(4) login_steps(4)]
  login_world [OF login_leaves(5) login_steps(5)] login_world [OF login_leaves(6) login_steps(6)]
  login_world [OF login_leaves(7) login_steps(7)] login_world [OF login_leaves(8) login_steps(8)]
  login_world [OF login_leaves(9) login_steps(9)] login_world [OF login_leaves(10) login_steps(10)]
  login_world [OF login_leaves(11) login_steps(11)] login_world [OF login_leaves(12) login_steps(12)]

lemmas login_frames = login_leaves [THEN leaves_business(1)] login_leaves [THEN leaves_business(5)]

end
