(* ===== verification/Whole_Server.thy ===== *)
theory Whole_Server
  imports Whole_Methods
begin

text \<open>
  The whole server as one transition system: the methods of all the stores, each in any outside world, and
  the steps of the command-line login, which write its own tables only. It refines the transition system
  of Works and Conversations, the protocol of connection requests and the protocol of external logins,
  and keeps the invariants of all its components at once.
\<close>

datatype world_request =
    Core_call request
  | Create_space unicode create_space_command
  | Remove_member remove_member_command
  | Report_agents "string \<Rightarrow> string" report_command
  | Prepare_invitation prepare_invitation_command
  | Prepare_resend prepare_resend_command
  | Record_submission record_submission_command
  | Revoke_invitation revoke_invitation_command
  | Accept_invitation accept_invitation_command
  | Begin_connection begin_connection_command
  | Lookup_connection lookup_connection_command
  | Decide_connection decide_connection_command
  | Poll_connection poll_connection_command issuer
  | Cancel_connection poll_connection_command
  | Revoke_machine revoke_machine_command
  | Revoke_itself self_revoke_command
  | Prepare_challenge prepare_challenge_command
  | Record_code_submission uuid bytes email_submission
  | Verify_challenge verify_challenge_command
  | Unlink_method unlink_identity_command
  | End_session uuid
  | Complete_google complete_google_command
  | Complete_github complete_github_command
  | Create_external create_external_command
  | Create_external_proof create_proof_command
  | Claim_external claim_external_command
  | Mark_unknown mark_unknown_command
  | Reject_external mark_unknown_command

fun answer :: "world_request \<Rightarrow> env \<Rightarrow> db \<Rightarrow> db" where
  "answer (Core_call q) E d = serve q E d"
| "answer (Create_space u c) E d = snd (CreateSpace u c E d)"
| "answer (Remove_member c) E d = snd (RemoveSpaceMember c E d)"
| "answer (Report_agents folded c) E d = snd (ReconcileAgentPresence folded c E d)"
| "answer (Prepare_invitation c) E d = snd (PrepareInvitation c E d)"
| "answer (Prepare_resend c) E d = snd (PrepareInvitationResend c E d)"
| "answer (Record_submission c) E d = snd (RecordInvitationSubmission c E d)"
| "answer (Revoke_invitation c) E d = snd (RevokeInvitation c E d)"
| "answer (Accept_invitation c) E d = snd (AcceptInvitation c E d)"
| "answer (Begin_connection c) E d = snd (BeginMachineConnection c E d)"
| "answer (Lookup_connection c) E d = snd (LookupMachineConnection c E d)"
| "answer (Decide_connection c) E d = snd (DecideMachineConnection c E d)"
| "answer (Poll_connection c issue) E d = snd (PollMachineConnection c issue E d)"
| "answer (Cancel_connection c) E d = snd (CancelMachineConnection c E d)"
| "answer (Revoke_machine c) E d = snd (RevokeMachineFromBrowser c E d)"
| "answer (Revoke_itself c) E d = snd (RevokeMachineFromHost c E d)"
| "answer (Prepare_challenge c) E d = snd (PrepareEmailChallenge c E d)"
| "answer (Record_code_submission i g s) E d = snd (RecordEmailSubmission i g s E d)"
| "answer (Verify_challenge c) E d = snd (VerifyEmailChallenge c E d)"
| "answer (Unlink_method c) E d = snd (UnlinkIdentityMethod c E d)"
| "answer (End_session i) E d = snd (RevokeBrowserSession i E d)"
| "answer (Complete_google c) E d = snd (CompleteGoogleLogin c E d)"
| "answer (Complete_github c) E d = snd (CompleteGitHubLogin c E d)"
| "answer (Create_external c) E d = snd (CreateExternalLogin c E d)"
| "answer (Create_external_proof c) E d = snd (CreateExternalIdentityProof c E d)"
| "answer (Claim_external c) E d = snd (ClaimExternalLogin c E d)"
| "answer (Mark_unknown c) E d = snd (MarkExternalLoginUnknown c E d)"
| "answer (Reject_external c) E d = snd (RejectExternalLogin c E d)"

text \<open>What the command-line login may change.\<close>

definition command_tables :: "cli_credential_row list \<Rightarrow> cli_failure_row list \<Rightarrow> cli_request_row list \<Rightarrow> db \<Rightarrow> db" where
  "command_tables cs fs rs d = d\<lparr>cli_credentials := cs, cli_login_lookup_failures := fs, cli_login_requests := rs\<rparr>"

inductive world_step :: "db \<Rightarrow> db \<Rightarrow> bool" where
  answered: "world_step d (answer q E d)"
| commanded: "world_step d (command_tables cs fs rs d)"

inductive_cases world_stepE: "world_step d d'"

text \<open>The same steps with the time at which they are taken, that of the transaction.\<close>

inductive world_step_at :: "timestamp \<Rightarrow> db \<Rightarrow> db \<Rightarrow> bool" where
  answered_at: "world_step_at (tx_time E) d (answer q E d)"
| commanded_at: "world_step_at now d (command_tables cs fs rs d)"

inductive_cases world_step_atE: "world_step_at now d d'"

lemma world_step_timed: "world_step d d' \<longleftrightarrow> (\<exists>now. world_step_at now d d')"
  by (auto elim!: world_stepE world_step_atE intro: answered commanded answered_at commanded_at)

inductive world_reachable :: "db \<Rightarrow> bool" where
  world_boot: "world_reachable empty_db"
| world_next: "world_reachable d \<Longrightarrow> world_step d d' \<Longrightarrow> world_reachable d'"

section \<open>The invariants of all components\<close>

lemmas world_methods = CreateSpace_world RemoveSpaceMember_world report_world PrepareInvitation_world PrepareInvitationResend_world
  RecordInvitationSubmission_world RevokeInvitation_world AcceptInvitation_world BeginMachineConnection_world
  LookupMachineConnection_world DecideMachineConnection_world PollMachineConnection_world CancelMachineConnection_world
  revocations_world login_methods

lemma answer_world: "world_ok d \<Longrightarrow> world_ok (answer q E d)"
  by (cases q) (simp_all add: serve_world world_methods [THEN keeps_snd])

lemma command_tables_parts [simp]:
  "core_part (command_tables cs fs rs d) = core_part d" "space_part (command_tables cs fs rs d) = space_part d"
  "agent_part (command_tables cs fs rs d) = agent_part d" "invitation_part (command_tables cs fs rs d) = invitation_part d"
  "machine_connection_requests (command_tables cs fs rs d) = machine_connection_requests d"
  "login_ok (command_tables cs fs rs d) = login_ok d" "phase_at i (command_tables cs fs rs d) = phase_at i d"
  by (simp_all add: command_tables_def table_defs login_ok_def codes_ok_def methods_defs externals_ok_def phase_at_def sql_LockExternalLogin_def)

lemma command_tables_world:
  assumes "world_ok d"
  shows "world_ok (command_tables cs fs rs d)"
proof -
  let ?d = "command_tables cs fs rs d"
  have ok: "core_ok d" "space_ok d" "owners_ok d" "agents_ok d \<and> agents_live d" "agent_owners_ok d" "invitations_ok d" "requests_ok d" "login_ok d"
    using assms by (simp_all add: world_ok_def)
  have "owners_ok ?d" by (rule owner_support.reads [OF _ ok(3)]) simp
  moreover have "agent_owners_ok ?d" by (rule agent_owner_support.reads [OF _ ok(5)]) simp
  moreover have "agents_ok ?d \<and> agents_live ?d" by (rule agent_support.reads [OF _ ok(4)]) simp
  ultimately show ?thesis
    using core_support.reads [of ?d, OF _ ok(1)] space_support.reads [of ?d, OF _ ok(2)]
      invitation_support.reads [of ?d, OF _ ok(6)] request_support.reads [of ?d, OF _ ok(7)] ok(8)
    unfolding world_ok_def by simp
qed

lemma step_world: "world_step d d' \<Longrightarrow> world_ok d \<Longrightarrow> world_ok d'"
  by (erule world_stepE) (auto simp: answer_world command_tables_world)

lemma empty_world: "world_ok empty_db"
proof -
  have "execution_ok empty_db" "conversation_ok empty_db" by (rule execution_ok_empty conversation_ok_empty)+
  moreover have "agents_ok empty_db" "agent_owners_ok empty_db" "agents_live empty_db" "requests_ok empty_db"
    by (simp_all add: agents_ok_def agent_owners_ok_def agents_live_def requests_ok_def empty_db_def)
  ultimately show ?thesis by (simp add: world_ok_def core_ok_def space_ok_empty invitations_ok_empty login_ok_def codes_ok_empty
      methods_ok_empty externals_ok_empty)
qed

lemma world_reachable_ok: "world_reachable d \<Longrightarrow> world_ok d"
  by (induction rule: world_reachable.induct) (auto intro: empty_world step_world)

section \<open>The refinements\<close>

lemma untouched_core: "core_part d' = core_part d \<Longrightarrow> server_step d d'"
  by (rule administered, rule administers_same) (simp_all add: core_part_def)

lemma leaves_core_step: "leaves core_part m \<Longrightarrow> server_step d (snd (m E d))"
  by (rule untouched_core) (metis leaves_def prod.collapse)

lemma RemoveSpaceMember_administers: "server_step d (snd (RemoveSpaceMember c E d))"
proof (rule RemoveSpaceMember_cases [of c E d "fst (RemoveSpaceMember c E d)" "snd (RemoveSpaceMember c E d)"])
  fix n x assume "RemoveSpaceMember_tx c E d 0 = Inr (x, snd (RemoveSpaceMember c E d), n)"
  from RemoveSpaceMember_tx_effect [OF this] show "server_step d (snd (RemoveSpaceMember c E d))"
    using untouched_core [of d d] removed_db_administers administered by auto
qed (simp_all add: untouched_core)

lemma report_core:
  assumes "world_ok d" shows "server_step d (snd (ReconcileAgentPresence folded c E d))"
proof -
  have "agents_ok d" using assms by (simp add: world_ok_def)
  from report_cases [OF prod.collapse [symmetric] this] have "core_part (snd (ReconcileAgentPresence folded c E d)) = core_part d"
    using after_report_leaves(1) by metis
  then show ?thesis by (rule untouched_core)
qed

lemma answer_server_step: "world_ok d \<Longrightarrow> server_step d (answer q E d)"
  by (cases q) (simp_all add: served leaves_core_step core_frames login_frames RemoveSpaceMember_administers report_core)

lemma whole_core_step: "world_step d d' \<Longrightarrow> world_ok d \<Longrightarrow> server_step d d'"
  by (erule world_stepE) (auto simp: answer_server_step intro: untouched_core)

lemma leaves_requests_step: "leaves machine_connection_requests m \<Longrightarrow> connection_step d (snd (m E d))"
  by (rule elsewhere) (metis leaves_def prod.collapse)

lemma serve_requests: "connection_step d (serve q E d)"
  by (cases q) (simp_all add: leaves_requests_step request_frames)

lemma report_requests:
  assumes "world_ok d" shows "connection_step d (snd (ReconcileAgentPresence folded c E d))"
proof -
  have "agents_ok d" using assms by (simp add: world_ok_def)
  from report_cases [OF prod.collapse [symmetric] this]
  have "machine_connection_requests (snd (ReconcileAgentPresence folded c E d)) = machine_connection_requests d"
    using after_report_leaves(4) by metis
  then show ?thesis by (rule elsewhere)
qed

lemma connection_calls:
  "connection_step d (snd (BeginMachineConnection b E d))" "connection_step d (snd (LookupMachineConnection l E d))"
  "connection_step d (snd (DecideMachineConnection q E d))" "connection_step d (snd (PollMachineConnection p issue E d))"
  "connection_step d (snd (CancelMachineConnection p E d))"
  by (rule begun looked_up decided Machine_Protocol.polled cancelled, rule prod.collapse [symmetric])+

lemma answer_connection_step: "world_ok d \<Longrightarrow> connection_step d (answer q E d)"
  by (cases q) (simp_all add: serve_requests leaves_requests_step request_frames login_frames report_requests connection_calls)

lemma whole_connection_step: "world_step d d' \<Longrightarrow> world_ok d \<Longrightarrow> connection_step d d'"
  by (erule world_stepE) (auto simp: answer_connection_step intro: elsewhere)

text \<open>Only the login methods write external logins, and they follow the life of a transaction.\<close>

lemma untouched_phase: "login_part d' = login_part d \<Longrightarrow> phase_moves now (phase_at i d) (phase_at i d')"
  by (simp add: phase_at_def sql_LockExternalLogin_def login_part_def)

lemma leaves_phase: "leaves login_part m \<Longrightarrow> phase_moves now (phase_at i d) (phase_at i (snd (m E d)))"
  by (rule untouched_phase) (metis leaves_def prod.collapse)

lemma login_phase: "logs_in_well m \<Longrightarrow> login_ok d \<Longrightarrow> phase_moves (tx_time E) (phase_at i d) (phase_at i (snd (m E d)))"
  unfolding logs_in_well_def by (metis prod.collapse)

lemma revocations_leave_login: "leaves login_part (RevokeMachineFromBrowser c)" "leaves login_part (RevokeMachineFromHost q)"
proof -
  have "login_part (revoked_db E k u key g i d) = login_part d" for E k u key g i d
    by (simp add: revoked_db_def retired_def sql_RemoveActiveAgentsForMachine_def table_defs)
  then show "leaves login_part (RevokeMachineFromBrowser c)" "leaves login_part (RevokeMachineFromHost q)"
    unfolding RevokeMachineFromBrowser_def RevokeMachineFromHost_def
    by (rule_tac [!] leavesI, erule_tac [!] transact_cases)
      (auto dest!: RevokeMachineFromBrowser_tx_effect RevokeMachineFromHost_tx_effect
          simp: revokes_by_user_def revokes_itself_def split: if_split_asm)
qed

lemma invites_only_login: "(\<And>E d r d'. m E d = (r, d') \<Longrightarrow> invites_only d d') \<Longrightarrow> leaves login_part m"
  by (rule leavesI) (simp add: invites_only_def)

lemma connects_only_login: "(\<And>E d r d'. m E d = (r, d') \<Longrightarrow> connects_only d d') \<Longrightarrow> leaves login_part m"
  by (rule leavesI) (simp add: connects_only_def)

lemmas login_untouched = CreateSpace_leaves(5) RemoveSpaceMember_leaves(3) AcceptInvitation_leaves(4) revocations_leave_login
  invites_only_login [OF PrepareInvitation_only] invites_only_login [OF PrepareInvitationResend_only]
  invites_only_login [OF RecordInvitationSubmission_only] invites_only_login [OF RevokeInvitation_only]
  connects_only_login [OF BeginMachineConnection_only] connects_only_login [OF LookupMachineConnection_only]
  connects_only_login [OF DecideMachineConnection_only] connects_only_login [OF PollMachineConnection_only]
  connects_only_login [OF CancelMachineConnection_only]

lemma serve_phase: "phase_moves now (phase_at i d) (phase_at i (serve q E d))"
  by (cases q) (simp_all add: leaves_phase core_leaves [THEN identity_untouched(5)])

lemma report_phase:
  assumes "world_ok d" shows "phase_moves now (phase_at i d) (phase_at i (snd (ReconcileAgentPresence folded c E d)))"
proof -
  have "agents_ok d" using assms by (simp add: world_ok_def)
  from report_cases [OF prod.collapse [symmetric] this] have "login_part (snd (ReconcileAgentPresence folded c E d)) = login_part d"
    using after_report_leaves(5) by metis
  then show ?thesis by (rule untouched_phase)
qed

lemma answer_phase: "world_ok d \<Longrightarrow> phase_moves (tx_time E) (phase_at i d) (phase_at i (answer q E d))"
  by (cases q) (simp_all add: serve_phase leaves_phase login_untouched report_phase login_phase login_steps world_ok_def)

lemma whole_phase_step: "world_step_at now d d' \<Longrightarrow> world_ok d \<Longrightarrow> phase_moves now (phase_at i d) (phase_at i d')"
  by (erule world_step_atE) (simp_all add: answer_phase)

text \<open>As long as a sign-in has not expired, whatever the server does moves it forward.\<close>

lemma whole_phase_later:
  assumes "(\<lambda>a b. \<exists>now<e. world_step_at now a b)\<^sup>*\<^sup>* d d'" "world_ok d" "phase_at i d = Some (x, e)"
  shows "\<exists>y. phase_at i d' = Some (y, e) \<and> phase_later x y"
proof -
  have "world_ok d' \<and> (\<exists>y. phase_at i d' = Some (y, e) \<and> phase_later x y)"
    using assms(1)
  proof induction
    case (step a b)
    then obtain now y where now: "now < e" "world_step_at now a b" and y: "world_ok a" "phase_at i a = Some (y, e)" "phase_later x y" by blast
    then have "world_ok b" using step_world world_step_timed by blast
    moreover obtain z where "phase_at i b = Some (z, e)" "phase_later y z"
      using unexpired_moves [OF whole_phase_step [OF now(2) y(1), of i, unfolded y(2)] now(1)] by blast
    ultimately show ?case using phase_later_trans [OF y(3)] by blast
  qed (use assms(2,3) in simp)
  then show ?thesis by blast
qed

text \<open>The three refinements, as instances of forward simulation.\<close>

interpretation whole_core: forward_simulation "\<lambda>d. d" world_ok world_step server_step
  by unfold_locales (blast intro: step_world whole_core_step)+

interpretation whole_connections: forward_simulation connections_of world_ok world_step protocol_step
proof unfold_locales
  fix d d' assume s: "world_step d d'" "world_ok d"
  then have "simulated d d'" by (intro connection_step_simulated whole_connection_step) (simp_all add: world_ok_def)
  then show "connections_of d' = connections_of d \<or> protocol_step (connections_of d) (connections_of d')" by (simp add: simulated_def)
qed (rule step_world)

interpretation whole_sign_ins: forward_simulation "phase_at i" world_ok world_step "\<lambda>x y. \<exists>now. sign_in_step now x y"
  by unfold_locales (blast intro: step_world, metis whole_phase_step phase_moves_def world_step_timed)

lemma empty_reachable: "reachable empty_db"
  by (rule boot) (simp add: booted_def)

lemma world_reachable_reachable: "world_reachable d \<Longrightarrow> reachable d"
  by (induction rule: world_reachable.induct) (auto intro: empty_reachable reachable.step whole_core_step world_reachable_ok)

lemma world_reachable_steps: "world_step\<^sup>*\<^sup>* d d' \<Longrightarrow> world_reachable d \<Longrightarrow> world_reachable d'"
  by (induction rule: rtranclp_induct) (auto intro: world_next)

end
