(* ===== verification/Demo_Login.thy ===== *)
theory Demo_Login
  imports Demo_World External_Methods
begin

text \<open>
  A sign-in from an empty database: Alice asks for a code, mistypes it once and then enters it, and so becomes a User
  with one Session. The witnesses of the login properties start from here.
\<close>

definition demo_bytes :: "char \<Rightarrow> bytes" where
  "demo_bytes c = replicate 32 c"

lemma demo_bytes_length [simp]: "length (demo_bytes c) = 32"
  by (simp add: demo_bytes_def)

lemma demo_bytes_eq [simp]: "demo_bytes a = demo_bytes b \<longleftrightarrow> a = b"
  by (auto simp: demo_bytes_def)

definition demo_ask :: prepare_challenge_command where
  "demo_ask = \<lparr>pec_ChallengeID = ''c'', pec_CanonicalEmail = ''alice@x.io'', pec_CodeDigest = demo_bytes (CHR ''a''),
     pec_SourceDigest = demo_bytes (CHR ''s''), pec_PayloadDigest = demo_bytes (CHR ''p''), pec_IdempotencyKey = ''key'',
     pec_RequestDigest = demo_bytes (CHR ''r''), pec_Purpose = [], pec_TargetUserID = [], pec_InitiatingSessionID = []\<rparr>"

definition demo_challenge :: email_challenge_row where
  "demo_challenge = challenge_for (demo_env ''c'' 10) demo_ask LoginPurpose"

definition demo_asked :: db where
  "demo_asked = empty_db\<lparr>email_login_challenges := [demo_challenge]\<rparr>"

lemma demo_challenge_ok: "challenge_columns_ok demo_challenge"
  by (simp add: demo_challenge_def challenge_for_def new_challenge_def demo_ask_def challenge_columns_ok_def target_of_def purpose_defs validProofPurpose_def)

lemma demo_asked_run: "snd (PrepareEmailChallenge demo_ask (demo_env ''c'' 10) empty_db) = demo_asked"
proof -
  have new: "new_challenge (demo_env ''c'' 10) demo_ask LoginPurpose None None = demo_challenge"
    by (simp add: demo_challenge_def challenge_for_def demo_ask_def target_of_def)
  have ins: "sql_CreateEmailChallenge demo_challenge empty_db = Inr (demo_challenge, demo_asked)"
    using demo_challenge_ok by (simp add: sql_CreateEmailChallenge_def key_taken_def empty_db_def demo_asked_def)
  have fields: "pec_ChallengeID demo_ask = ''c''" "pec_CanonicalEmail demo_ask = ''alice@x.io''" "pec_IdempotencyKey demo_ask = ''key''"
    "pec_Purpose demo_ask = []" "pec_TargetUserID demo_ask = []" "pec_InitiatingSessionID demo_ask = []" by (simp_all add: demo_ask_def)
  have empty: "email_login_challenges empty_db = []" "empty_db\<lparr>email_login_challenges := []\<rparr> = empty_db" by (simp_all add: empty_db_def)
  show ?thesis
    by (simp add: PrepareEmailChallenge_def checked_def guard_def valid_challenge_command_def validIdentityProofTarget_def fields purpose_of_def
        demo_normal_forms transact_healthy demo_env_healthy PrepareEmailChallenge_tx_def advisory_lock_def tx_run proof_authority_def
        sql_LoadEmailChallengeByRequestKey_def empty create_challenge_def sql_CountRecentEmailChallenges_def sql_CountRecentSourceChallenges_def
        sql_LoadLatestEmailChallenge_def order_by_desc_def first_row_def too_soon_def EmailAddressChallengeLimitPerHour_def
        EmailSourceChallengeLimitPerHour_def sql_InvalidateCurrentEmailChallenges_def nullablePostgresUUID_def new ins)
qed

definition demo_try :: "char \<Rightarrow> string \<Rightarrow> verify_challenge_command" where
  "demo_try c key = \<lparr>vec_ChallengeID = ''c'', vec_CodeDigest = demo_bytes c, vec_IdempotencyKey = key, vec_RequestDigest = demo_bytes c,
     vec_SessionID = ''as'', vec_Purpose = [], vec_InitiatingSessionID = []\<rparr>"

lemma demo_try_fields [simp]:
  "vec_ChallengeID (demo_try c key) = ''c''" "vec_CodeDigest (demo_try c key) = demo_bytes c" "vec_IdempotencyKey (demo_try c key) = key"
  "vec_SessionID (demo_try c key) = ''as''" "vec_Purpose (demo_try c key) = []" "vec_InitiatingSessionID (demo_try c key) = []"
  "vec_RequestDigest (demo_try c key) = demo_bytes c"
  by (simp_all add: demo_try_def)

definition demo_mistaken :: db where
  "demo_mistaken = refused_db (demo_env ''e'' 20) (demo_try (CHR ''b'') ''r'') demo_asked"

lemma demo_challenge_fields [simp]:
  "ec_ChallengeID demo_challenge = ''c''" "ec_CanonicalEmail demo_challenge = ''alice@x.io''" "ec_CodeDigest demo_challenge = demo_bytes (CHR ''a'')"
  "ec_AttemptsUsed demo_challenge = 0" "ec_ConsumedAt demo_challenge = None" "ec_InvalidatedAt demo_challenge = None"
  "ec_ExpiresAt demo_challenge = 10 + minutes 5" "ec_SubmissionState demo_challenge = ''prepared''" "ec_Purpose demo_challenge = LoginPurpose"
  "ec_InitiatingSessionID demo_challenge = None"
  by (simp_all add: demo_challenge_def) (simp_all add: challenge_for_def new_challenge_def demo_ask_def target_of_def)

lemma demo_asked_tables [simp]:
  "email_login_challenges demo_asked = [demo_challenge]" "email_login_attempts demo_asked = []" "carry_users demo_asked = []"
  "email_identities demo_asked = []" "browser_sessions demo_asked = []"
  by (simp_all add: demo_asked_def empty_db_def)

lemma demo_mistaken_run: "snd (VerifyEmailChallenge (demo_try (CHR ''b'') ''r'') (demo_env ''e'' 20) demo_asked) = demo_mistaken"
  by (simp add: VerifyEmailChallenge_def checked_def guard_def valid_verify_command_def validVerifyEmailTarget_def purpose_of_def demo_normal_forms
      transact_answer_def transact_healthy demo_env_healthy VerifyEmailChallenge_tx_def tx_run sql_LockEmailChallenge_def uuidValue_def
      sql_LoadEmailAttempt_def sql_EmailLoginDatabaseTime_def usable_def textValue_def submission_defs EmailCodeAttemptLimit_def
      refuse_code_def sql_RecordInvalidEmailAttempt_def insert_attempt_def key_taken_def sql_SpendEmailChallengeAttempt_def count_where_def spendable_def
      demo_mistaken_def refused_db_def recorded_attempt_def spent_row_def update_where_def)

definition demo_mistaken_challenge :: email_challenge_row where
  "demo_mistaken_challenge = demo_challenge\<lparr>ec_AttemptsUsed := 1\<rparr>"

definition demo_wrong :: email_attempt_row where
  "demo_wrong = recorded_attempt (demo_env ''e'' 20) ''invalid'' (demo_try (CHR ''b'') ''r'')"

lemma demo_mistaken_tables [simp]:
  "email_login_challenges demo_mistaken = [demo_mistaken_challenge]" "email_login_attempts demo_mistaken = [demo_wrong]"
  "carry_users demo_mistaken = []" "email_identities demo_mistaken = []" "browser_sessions demo_mistaken = []"
  by (simp_all add: demo_mistaken_def refused_db_def update_where_def spendable_def spent_row_def demo_mistaken_challenge_def demo_wrong_def)

lemma demo_mistaken_fields [simp]:
  "ec_ChallengeID demo_mistaken_challenge = ''c''" "ec_CanonicalEmail demo_mistaken_challenge = ''alice@x.io''"
  "ec_CodeDigest demo_mistaken_challenge = demo_bytes (CHR ''a'')" "ec_AttemptsUsed demo_mistaken_challenge = 1"
  "ec_ConsumedAt demo_mistaken_challenge = None" "ec_InvalidatedAt demo_mistaken_challenge = None"
  "ec_ExpiresAt demo_mistaken_challenge = 10 + minutes 5" "ec_SubmissionState demo_mistaken_challenge = ''prepared''"
  "ec_Purpose demo_mistaken_challenge = LoginPurpose" "ec_InitiatingSessionID demo_mistaken_challenge = None"
  "ea_ChallengeID demo_wrong = ''c''" "ea_IdempotencyKey demo_wrong = ''r''" "ea_Result demo_wrong = ''invalid''"
  by (simp_all add: demo_mistaken_challenge_def demo_wrong_def recorded_attempt_def)

definition demo_signed_in :: db where
  "demo_signed_in = verified_db (demo_env ''alice'' 30) (demo_try (CHR ''a'') ''w'') ''alice''
     (with_session (demo_env ''alice'' 30) ''as'' ''alice'' EmailMethod (first_login_db (demo_env ''alice'' 30) ''alice@x.io'' demo_mistaken))"

lemma demo_login_run:
  "completeEmailLogin demo_mistaken_challenge ''as'' (demo_env ''alice'' 30) demo_mistaken n
     = Inr (new_session (demo_env ''alice'' 30) ''as'' ''alice'' EmailMethod,
         with_session (demo_env ''alice'' 30) ''as'' ''alice'' EmailMethod (first_login_db (demo_env ''alice'' 30) ''alice@x.io'' demo_mistaken), n + 5)"
  by (simp add: completeEmailLogin_def advisory_lock_def tx_run sql_LoadEmailIdentity_def first_login_def FallbackDisplayName_def
      sql_CreateEmailUser_def key_taken_def sql_CreateEmailIdentity_def exists_where_def open_session_def sql_CreateBrowserSession_def
      first_login_db_def joined_user_db_def linked_db_def with_session_def)

lemma demo_usable: "usable demo_mistaken_challenge 30"
  by (simp add: usable_def submission_defs EmailCodeAttemptLimit_def)

lemma demo_accept_run:
  "\<exists>m. accept_code (demo_try (CHR ''a'') ''w'') LoginPurpose demo_mistaken_challenge (demo_env ''alice'' 30) demo_mistaken n
     = Inr (Inr (browserSession (new_session (demo_env ''alice'' 30) ''as'' ''alice'' EmailMethod) LoginPurpose EmailMethod), demo_signed_in, m)"
  by (simp add: accept_code_def complete_proof_def demo_login_run tx_run sql_ConsumeEmailChallenge_def with_session_def first_login_db_def
      joined_user_db_def linked_db_def count_where_def consumable_def sql_RecordSuccessfulEmailAttempt_def insert_attempt_def attempt_key_def
      key_taken_def demo_signed_in_def verified_db_def recorded_attempt_def)

lemma demo_verify_run:
  "VerifyEmailChallenge (demo_try (CHR ''a'') ''w'') (demo_env ''alice'' 30) demo_mistaken
     = (Inr (browserSession (new_session (demo_env ''alice'' 30) ''as'' ''alice'' EmailMethod) LoginPurpose EmailMethod), demo_signed_in)"
proof -
  obtain m where m: "accept_code (demo_try (CHR ''a'') ''w'') LoginPurpose demo_mistaken_challenge (demo_env ''alice'' 30) demo_mistaken (Suc (Suc (Suc 0)))
     = Inr (Inr (browserSession (new_session (demo_env ''alice'' 30) ''as'' ''alice'' EmailMethod) LoginPurpose EmailMethod), demo_signed_in, m)"
    using demo_accept_run by blast
  show ?thesis
    by (simp add: VerifyEmailChallenge_def checked_def guard_def valid_verify_command_def validVerifyEmailTarget_def purpose_of_def demo_normal_forms
      transact_answer_def transact_healthy demo_env_healthy VerifyEmailChallenge_tx_def tx_run sql_LockEmailChallenge_def uuidValue_def
      sql_LoadEmailAttempt_def sql_EmailLoginDatabaseTime_def demo_usable textValue_def m)
qed

lemma demo_signed_in_tables [simp]:
  "carry_users demo_signed_in = [\<lparr>u_UserID = ''alice'', u_DisplayName = ''Member alice'', u_CreatedAt = 30\<rparr>]"
  "browser_sessions demo_signed_in = [new_session (demo_env ''alice'' 30) ''as'' ''alice'' EmailMethod]"
  "email_identities demo_signed_in = [\<lparr>ei_CanonicalEmail = ''alice@x.io'', ei_UserID = ''alice'', ei_VerifiedAt = 30\<rparr>]"
  "google_identities demo_signed_in = []" "github_identities demo_signed_in = []" "external_login_transactions demo_signed_in = []"
  "works demo_signed_in = []" "machine_connection_requests demo_signed_in = []" "spaces demo_signed_in = []" "memberships demo_signed_in = []"
  "identity_method_unlinks demo_signed_in = []"
  by (simp_all add: demo_signed_in_def verified_db_def with_session_def first_login_db_def joined_user_db_def linked_db_def)
    (simp_all add: demo_mistaken_def refused_db_def demo_asked_def empty_db_def)

end
