(* ===== verification/Machine_Guarantees.thy ===== *)
theory Machine_Guarantees
  imports Machine_Protocol Machine_Revocation
begin

text \<open>
  What the connection of Machines guarantees: its histories are those of the protocol, a Machine
  is made only from an approved request, decisions need live authority, polls are paced, lookups
  are limited, a key proof binds the request it was made for, and a revoked Machine is powerless.
\<close>

lemma transact_answer_effect:
  assumes "transact_answer m E d = (x, d')" "d' \<noteq> d"
  obtains r n where "m E d 0 = Inr (r, d', n)"
  using assms by (elim transact_answer_cases) blast+

text \<open>
  C28 (refinement): every history of the database in which connection requests change only by the
  methods of the store is a history of the protocol of requests: a request waits until it is denied,
  withdrawn or approved, and an approved one is connected at most once. In particular a denied,
  withdrawn or connected request stays so, and an approval keeps its approver, Space and Machine.
\<close>

theorem connections_follow_protocol:
  assumes "connection_step\<^sup>*\<^sup>* d d'" "requests_ok d"
  shows "protocol_step\<^sup>*\<^sup>* (connections_of d) (connections_of d')
    \<and> (\<forall>i p. connections_of d i = Some p \<longrightarrow> ended p \<longrightarrow> connections_of d' i = Some p)
    \<and> (\<forall>i u s m. connections_of d i = Some (Approved u s m) \<longrightarrow>
         connections_of d' i \<in> {Some (Approved u s m), Some (Connected u s m)})"
proof (intro conjI allI impI)
  show "protocol_step\<^sup>*\<^sup>* (connections_of d) (connections_of d')"
    by (rule connection_store.simulates_history [OF assms])
  show "connections_of d' i = Some p" if "connections_of d i = Some p" "ended p" for i p
    by (rule connection_store.abstract_invariant [where I = "\<lambda>a. a i = Some p", OF assms that(1)])
      (rule ended_stays [OF _ _ that(2)])
  show "connections_of d' i \<in> {Some (Approved u s m), Some (Connected u s m)}"
    if "connections_of d i = Some (Approved u s m)" for i u s m
    by (rule connection_store.abstract_invariant
        [where I = "\<lambda>a. a i \<in> {Some (Approved u s m), Some (Connected u s m)}", OF assms])
      (use that in \<open>auto dest: approval_stands\<close>)
qed

section \<open>Joining\<close>

text \<open>
  C29 (safety): a poll makes at most one Machine, and only from a request that was approved, not
  cancelled, not redeemed and not expired, whose secret the poll presents and whose interval has
  passed. The Machine has the identifier, the Space and the enroller of the approval and the key
  of the request, and the request is recorded as connected to it.
\<close>

theorem only_an_approved_request_makes_a_machine:
  assumes "PollMachineConnection c issue E d = (x, d')" "machines d' \<noteq> machines d" "requests_ok d"
  shows "\<exists>r m. sql_LockMachineConnectionRequest (plc_RequestID c) d = Some r \<and> mc_PollSecretDigest r = plc_PollDigest c
    \<and> mc_Decision r = Some ''approved'' \<and> mc_CancelledAt r = None \<and> mc_RedeemedAt r = None
    \<and> tx_time E < mc_ExpiresAt r \<and> next_poll_at r \<le> tx_time E
    \<and> machines d' = machines d @ [m] \<and> Some (m_MachineID m) = mc_PreparedMachineID r \<and> Some (m_SpaceID m) = mc_DecidedSpaceID r
    \<and> Some (m_EnrolledByUserID m) = mc_DecidedByUserID r \<and> m_PublicKeyDer m = mc_PublicKeyDer r \<and> m_RevokedAt m = None
    \<and> (\<forall>q \<in> set (machines d). m_MachineID q \<noteq> m_MachineID m \<and> m_CertificateSerial q \<noteq> m_CertificateSerial m)
    \<and> connections_of d' (plc_RequestID c) = Some (Connected (m_EnrolledByUserID m) (m_SpaceID m) (m_MachineID m))"
proof -
  let ?i = "plc_RequestID c"
  from assms(1,2) obtain y n where run: "PollMachineConnection_tx c issue E d 0 = Inr (y, d', n)"
    unfolding PollMachineConnection_def by (auto elim: transact_answer_effect)
  from PollMachineConnection_tx_effect [OF run] assms(2) obtain r where
    r: "sql_LockMachineConnectionRequest ?i d = Some r" "mc_PollSecretDigest r = plc_PollDigest c" "mc_RedeemedAt r = None"
    and ready: "poll_ready E r" and p: "polled issue c E d r y d'"
    by (auto split: if_split_asm dest: replay_redemption_Inr)
  have late: "\<not> tx_time E < next_poll_at r" and dec: "mc_Decision r \<noteq> None"
    using p assms(2) by (auto simp: polled_def sql_SlowDownMachineConnectionPoll_def update_connection_Inr updated_requests_def
        polled_db_def split: if_split_asm)
  with p obtain k k' where "redeem issue c (polled_row E r) E (polled_db E ?i d) k = Inr (y, d', k')" by (auto simp: polled_def)
  from redeem_Inr [OF this] obtain issued m d1 row where
    mdef: "m = connected_row E (uuidValue (mc_PreparedMachineID r)) (uuidValue (mc_DecidedSpaceID r))
        (mc_DisplayName r) (mc_PublicKeyDer r) issued (uuidValue (mc_DecidedByUserID r))"
    and m: "sql_CreateConnectedMachine m (polled_db E ?i d) = Inr (m, d1)"
    and u: "sql_RedeemMachineConnection E (uuidValue (mc_PreparedMachineID r)) ?i d1 = Inr (Some row, d')" by auto
  have rows: "machines d' = machines d @ [m]"
    "\<forall>q \<in> set (machines d). m_MachineID q \<noteq> m_MachineID m \<and> m_CertificateSerial q \<noteq> m_CertificateSerial m"
    using m u by (auto simp: sql_CreateConnectedMachine_def sql_RedeemMachineConnection_def update_connection_Inr updated_requests_def
        polled_db_def key_taken_iff split: if_split_asm)
  have ok: "connection_state_ok r" using assms(3) lock_request_Some [OF r(1)] by (auto simp: requests_ok_def)
  from decided_or_denied [OF this] dec ready have approved: "mc_Decision r = Some ''approved''" by (auto simp: poll_ready_def)
  with ok obtain u s i where names: "mc_DecidedByUserID r = Some u" "mc_DecidedSpaceID r = Some s" "mc_PreparedMachineID r = Some i"
    by (auto simp: connection_state_ok_def decision_columns_ok_def)
  have m_fields: "m_MachineID m = i" "m_SpaceID m = s" "m_EnrolledByUserID m = u" "m_PublicKeyDer m = mc_PublicKeyDer r"
    "m_RevokedAt m = None"
    by (simp_all add: mdef connected_row_def names uuidValue_def textValue_def)
  have "connections_of d' ?i = Some (Connected u s i)"
  proof -
    have here: "sql_LockMachineConnectionRequest ?i d1 = Some (polled_row E r)"
      using m r(1) lock_request_Some [OF r(1)]
      by (auto simp: sql_CreateConnectedMachine_def sql_LockMachineConnectionRequest_def polled_db_def updated_requests_def
          first_where_of_update split: if_split_asm)
    have "redeemable ?i (polled_row E r)"
      using approved ready r(3) lock_request_Some [OF r(1)] by (auto simp: redeemable_def poll_ready_def)
    from connections_updated [where P = "redeemable ?i" and f = "redeemed_row E (uuidValue (mc_PreparedMachineID r))", OF here this]
    have "connections_of d' ?i = Some (phase_of (redeemed_row E (uuidValue (mc_PreparedMachineID r)) (polled_row E r)))"
      using u by (auto simp: sql_RedeemMachineConnection_def update_connection_Inr redeemable_def redeemed_row_def)
    also have "phase_of (redeemed_row E (uuidValue (mc_PreparedMachineID r)) (polled_row E r)) = Connected u s i"
      by (simp add: phase_of_def redeemed_row_def polled_row_def approved names uuidValue_def textValue_def)
    finally show ?thesis .
  qed
  with rows m_fields names r approved ready late show ?thesis
    by (intro exI [of _ r] exI [of _ m]) (auto simp: poll_ready_def)
qed

section \<open>Deciding\<close>

text \<open>
  C30 (safety): whatever a decision changes was decided in a live Browser Session, by its User, on
  a waiting request that is not expired, for the code of that request; an approval was given by an
  active member of the chosen Space who may enroll Machines, and names that Space and the prepared
  Machine. A decision changes nothing but that request, and makes no Machine.
\<close>

theorem decisions_need_live_authority:
  assumes "DecideMachineConnection c E d = (x, d')" "d' \<noteq> d" "requests_ok d"
  shows "\<exists>userID r. lives (dcc_BrowserSessionID c) userID E d
    \<and> sql_LockMachineConnectionRequest (dcc_RequestID c) d = Some r \<and> mc_UserCodeDigest r = dcc_CodeDigest c
    \<and> tx_time E < mc_ExpiresAt r \<and> connections_of d (dcc_RequestID c) = Some Waiting
    \<and> d' = d\<lparr>machine_connection_requests := machine_connection_requests d'\<rparr>
    \<and> (dcc_Decision c = ''approved'' \<and> may_enroll (dcc_SpaceID c) userID d
         \<and> connections_of d' = (connections_of d)(dcc_RequestID c \<mapsto> Approved userID (dcc_SpaceID c) (dcc_PreparedMachineID c))
       \<or> dcc_Decision c = ''denied'' \<and> connections_of d' = (connections_of d)(dcc_RequestID c \<mapsto> Denied userID))"
proof -
  let ?i = "dcc_RequestID c"
  from assms(1,2) obtain y n where run: "DecideMachineConnection_tx c E d 0 = Inr (y, d', n)"
    unfolding DecideMachineConnection_def by (auto elim: transact_cases)
  from DecideMachineConnection_tx_effect [OF run] assms(2) obtain userID r where
    s: "lives (dcc_BrowserSessionID c) userID E d" "dcc_Decision c = ''approved'' \<longrightarrow> may_enroll (dcc_SpaceID c) userID d"
    and r: "sql_LockMachineConnectionRequest ?i d = Some r" "mc_UserCodeDigest r = dcc_CodeDigest c" and live: "live_request E r"
    and b: "sql_DecideMachineConnection E (dcc_Decision c) userID (decision_space c) (dcc_IdempotencyKey c)
           (dcc_RequestDigest c) (decision_machine c) ?i d = Inr (Some (decide_row E c userID r), d')" by auto
  let ?f = "decide_row E c userID"
  have u: "update_connection (open_request E ?i) ?f connection_state_ok d = Inr (Some (?f r), d')"
    using sql_DecideMachineConnection_Inr [OF b] unfolding decide_row_def [abs_def] by blast
  have P: "open_request E ?i r" using live lock_request_Some [OF r(1)] by (simp add: open_request_def)
  have ok: "connection_state_ok (?f r)" by (rule updated_row_ok [OF u r(1) P])
  have "mc_RedeemedAt r = None"
    using assms(3) lock_request_Some [OF r(1)] live undecided_not_redeemed by (auto simp: requests_ok_def live_request_def)
  then have phase: "phase_of (?f r) = (if dcc_Decision c = ''denied'' then Denied userID
      else Approved userID (uuidValue (decision_space c)) (uuidValue (decision_machine c)))"
    by (simp add: phase_of_def decide_row_def decided_row_def uuidValue_def textValue_def)
  have "connections_of d' = (connections_of d)(?i \<mapsto> phase_of (?f r))"
    using connections_updated [where P = "open_request E ?i" and f = ?f, OF r(1) P] u
    by (auto simp: update_connection_Inr open_request_def decide_row_def decided_row_def)
  moreover have "d' = d\<lparr>machine_connection_requests := machine_connection_requests d'\<rparr>"
    using u by (simp add: update_connection_Inr updated_requests_def)
  moreover have "dcc_Decision c \<in> {''approved'', ''denied''}"
    using decided_or_denied [OF ok] by (auto simp: decide_row_def decided_row_def)
  moreover have "connections_of d ?i = Some Waiting" using r live by (simp add: connections_of_def phase_of_def live_request_def)
  ultimately show ?thesis
    using s r live phase
    by (intro exI [of _ userID] exI [of _ r]) (auto simp: live_request_def decision_space_def decision_machine_def uuidValue_def textValue_def)
qed

section \<open>Pace and budget\<close>

text \<open>
  A poll before the request's interval has passed makes no Machine and answers
  with no certificate; if it is recorded at all, the interval grows by five seconds to at most
  thirty and starts anew. The interval always lies between five and thirty seconds.
\<close>

theorem polls_are_paced:
  assumes "PollMachineConnection c issue E d = (x, d')" "requests_ok d"
    and "sql_LockMachineConnectionRequest (plc_RequestID c) d = Some r" "mc_RedeemedAt r = None" "tx_time E < next_poll_at r"
  shows "machines d' = machines d \<and> (\<forall>connected. x \<noteq> Inr connected)
    \<and> 5 \<le> mc_PollIntervalSeconds r \<and> mc_PollIntervalSeconds r \<le> 30
    \<and> (d' = d \<or> (\<exists>r'. sql_LockMachineConnectionRequest (plc_RequestID c) d' = Some r'
         \<and> mc_PollIntervalSeconds r' = min 30 (mc_PollIntervalSeconds r + 5)
         \<and> next_poll_at r' = tx_time E + seconds (mc_PollIntervalSeconds r')))"
proof (intro conjI allI)
  let ?i = "plc_RequestID c" and ?P = "\<lambda>r. mc_RequestID r = plc_RequestID c"
  have slow: "sql_SlowDownMachineConnectionPoll E ?i d = Inr (Some (slowed_row E r), d1) \<and> (\<exists>e. y = Inl e)"
    if run: "PollMachineConnection_tx c issue E d 0 = Inr (y, d1, n)" for y d1 n
    using PollMachineConnection_tx_effect [OF run] assms(3-5) by (auto simp: polled_def)
  show "x \<noteq> Inr connected" for connected
  proof
    assume "x = Inr connected"
    with assms(1) obtain n where "PollMachineConnection_tx c issue E d 0 = Inr (Inr connected, d', n)"
      unfolding PollMachineConnection_def by (auto dest: transact_answer_Inr)
    from slow [OF this] show False by auto
  qed
  have "connection_state_ok r" using assms(2) lock_request_Some [OF assms(3)] by (auto simp: requests_ok_def)
  then show "5 \<le> mc_PollIntervalSeconds r" "mc_PollIntervalSeconds r \<le> 30" by (simp_all add: connection_state_ok_def)
  have cases: "d' = d \<or> d' = updated_requests ?P (slowed_row E) d"
    using assms(1) unfolding PollMachineConnection_def
    by (elim transact_answer_cases)
      (auto dest!: slow simp: sql_SlowDownMachineConnectionPoll_def update_connection_Inr)
  then show "machines d' = machines d" by (auto simp: updated_requests_def)
  have "sql_LockMachineConnectionRequest ?i (updated_requests ?P (slowed_row E) d) = Some (slowed_row E r)"
    using assms(3) by (auto simp: sql_LockMachineConnectionRequest_def updated_requests_def first_where_of_update dest: first_where_Some)
  with cases show "d' = d \<or> (\<exists>r'. sql_LockMachineConnectionRequest ?i d' = Some r'
       \<and> mc_PollIntervalSeconds r' = min 30 (mc_PollIntervalSeconds r + 5)
       \<and> next_poll_at r' = tx_time E + seconds (mc_PollIntervalSeconds r'))"
    by (auto simp: next_poll_at_def slowed_row_def)
qed

definition session_failures :: "lookup_connection_command \<Rightarrow> env \<Rightarrow> db \<Rightarrow> int" where
  "session_failures c = sql_CountRecentMachineConnectionLookupFailuresForSession (lkc_BrowserSessionID c)"

definition source_failures :: "lookup_connection_command \<Rightarrow> env \<Rightarrow> db \<Rightarrow> int" where
  "source_failures c = sql_CountRecentMachineConnectionLookupFailuresForSource (lkc_SourceDigest c)"

text \<open>
  Guessing codes is limited. A lookup that changes anything records one failure of
  its live Browser Session and its source, of which there were less than ten and fifty in the last
  ten minutes; at the limit every lookup, also with the right code, is refused and changes nothing.
\<close>

theorem lookups_are_limited:
  assumes "LookupMachineConnection c E d = (x, d')"
  shows "(d' \<noteq> d \<longrightarrow> session_failures c E d' = session_failures c E d + 1 \<and> session_failures c E d' \<le> 10
         \<and> source_failures c E d' = source_failures c E d + 1 \<and> source_failures c E d' \<le> 50
         \<and> (\<forall>request. x \<noteq> Inr request) \<and> machine_connection_requests d' = machine_connection_requests d)
    \<and> (10 \<le> session_failures c E d \<or> 50 \<le> source_failures c E d \<longrightarrow> d' = d \<and> (\<forall>request. x \<noteq> Inr request))
    \<and> (\<forall>request. x = Inr request \<longrightarrow> (\<exists>userID r. lives (lkc_BrowserSessionID c) userID E d \<and> r \<in> set (machine_connection_requests d)
         \<and> mc_UserCodeDigest r = lkc_CodeDigest c \<and> tx_time E < mc_ExpiresAt r \<and> mc_CancelledAt r = None))"
proof (rule conjI [OF impI conjI [OF impI allI [OF impI]]])
  note eff = LookupMachineConnection_tx_effect [of c E d 0]
  note counts = session_failures_def source_failures_def
  have success: "\<exists>n. LookupMachineConnection_tx c E d 0 = Inr (Inr r, d', n)" if "x = Inr r" for r
    using assms(1) that unfolding LookupMachineConnection_def by (auto dest: transact_answer_Inr)
  show "session_failures c E d' = session_failures c E d + 1 \<and> session_failures c E d' \<le> 10
         \<and> source_failures c E d' = source_failures c E d + 1 \<and> source_failures c E d' \<le> 50
         \<and> (\<forall>request. x \<noteq> Inr request) \<and> machine_connection_requests d' = machine_connection_requests d" if changed: "d' \<noteq> d"
  proof -
    from assms(1) changed obtain y n where run: "LookupMachineConnection_tx c E d 0 = Inr (y, d', n)"
      unfolding LookupMachineConnection_def by (auto elim: transact_answer_effect)
    from eff [OF run] changed obtain failureID e where "session_failures c E d < 10" "source_failures c E d < 50" "y = Inl e"
      and d': "d' = d\<lparr>machine_connection_lookup_failures := machine_connection_lookup_failures d @
             [\<lparr>lf_FailureID = failureID, lf_BrowserSessionID = lkc_BrowserSessionID c, lf_SourceDigest = lkc_SourceDigest c,
               lf_CreatedAt = tx_time E\<rparr>]\<rparr>"
      unfolding counts by (auto split: sum.splits)
    moreover have "x \<noteq> Inr request" for request
      using success [of request] run \<open>y = Inl e\<close> by auto
    ultimately show ?thesis
      by (auto simp: counts sql_CountRecentMachineConnectionLookupFailuresForSession_def
          sql_CountRecentMachineConnectionLookupFailuresForSource_def recent_failure_def)
  qed
  show "d' = d \<and> (\<forall>request. x \<noteq> Inr request)" if "10 \<le> session_failures c E d \<or> 50 \<le> source_failures c E d"
  proof -
    have "LookupMachineConnection_tx c E d 0 \<noteq> Inr (y, d1, n)" for y d1 n
      using LookupMachineConnection_tx_effect [of c E d 0 y d1 n] that unfolding counts by auto
    then show ?thesis
      using assms(1) success unfolding LookupMachineConnection_def by (auto elim!: transact_answer_cases)
  qed
  show "\<exists>userID r. lives (lkc_BrowserSessionID c) userID E d \<and> r \<in> set (machine_connection_requests d)
       \<and> mc_UserCodeDigest r = lkc_CodeDigest c \<and> tx_time E < mc_ExpiresAt r \<and> mc_CancelledAt r = None" if "x = Inr request" for request
    using success [OF that] eff by fastforce
qed

section \<open>The key proof\<close>

text \<open>
  the message a Machine signs determines the origin, the request, the displayed
  name, the key, the code and the secret, so a proof made for one request proves no other.
\<close>

theorem key_proof_binds_request:
  assumes "ConnectionKeyProofMessage o1 i1 n1 k1 c1 s1 = ConnectionKeyProofMessage o2 i2 n2 k2 c2 s2"
    and "\<forall>f \<in> {o1, i1, n1, k1, c1, s1, o2, i2, n2, k2, c2, s2}. length f < 2 ^ 64"
  shows "o1 = o2 \<and> i1 = i2 \<and> n1 = n2 \<and> k1 = k2 \<and> c1 = c2 \<and> s1 = s2"
proof -
  have "[''carry/machine-connect-key-proof/v1'', o1, i1, n1, k1, c1, s1] = [''carry/machine-connect-key-proof/v1'', o2, i2, n2, k2, c2, s2]"
    by (rule frame_fields_inj [OF assms(1) [unfolded ConnectionKeyProofMessage_def]]) (use assms(2) in auto)
  then show ?thesis by simp
qed

section \<open>Revoked Machines\<close>

text \<open>
  A revocation from a Browser was asked for in a live Session by an active member who may
  enroll Machines in the Machine's Space. Afterwards the Machine is revoked; if this call revoked
  it, none of its Agents is active; no other Machine and no Agent of another one changed.
\<close>

lemma browser_revocation:
  assumes "RevokeMachineFromBrowser c E d = (Inr x, d')" "unique_on m_MachineID (\<lambda>_. True) (machines d)"
  shows "\<exists>userID. lives (rmm_BrowserSessionID c) userID E d \<and> may_enroll (rmm_SpaceID c) userID d"
    "machine_revoked (rmm_MachineID c) d'" "\<exists>m \<in> set (machines d'). m_MachineID m = rmm_MachineID c"
    "d' = d \<or> (\<forall>a \<in> set (agents d'). ag_MachineID a = rmm_MachineID c \<longrightarrow> ag_RemovedAt a \<noteq> None)"
    "\<forall>m \<in> set (machines d). m_MachineID m \<noteq> rmm_MachineID c \<longrightarrow> m \<in> set (machines d')"
    "\<forall>a \<in> set (agents d). ag_MachineID a \<noteq> rmm_MachineID c \<longrightarrow> a \<in> set (agents d')"
proof -
  from assms(1) obtain n where "RevokeMachineFromBrowser_tx c E d 0 = Inr (x, d', n)"
    unfolding RevokeMachineFromBrowser_def by (auto dest: transact_Inr)
  from RevokeMachineFromBrowser_tx_effect [OF this] obtain userID m where
    s: "lives (rmm_BrowserSessionID c) userID E d" "may_enroll (rmm_SpaceID c) userID d"
    and m: "m \<in> set (machines d)" "m_MachineID m = rmm_MachineID c"
    and e: "m_RevokedAt m \<noteq> None \<and> d' = d \<or>
        d' = revoked_db E ''user'' (Some userID) (rmm_IdempotencyKey c) (rmm_RequestDigest c) (rmm_MachineID c) d"
    unfolding revokes_by_user_def by (auto split: if_split_asm)
  show "\<exists>userID. lives (rmm_BrowserSessionID c) userID E d \<and> may_enroll (rmm_SpaceID c) userID d" using s by blast
  have "machine_revoked (rmm_MachineID c) d" if "m_RevokedAt m \<noteq> None"
    using that m unique_onD [OF assms(2) _ m(1)] unfolding machine_revoked_def by metis
  then show "machine_revoked (rmm_MachineID c) d'" using e revoked_db_revoked by blast
  show "\<exists>m \<in> set (machines d'). m_MachineID m = rmm_MachineID c"
    using e m by (auto simp: revoked_db_def retired_def sql_RemoveActiveAgentsForMachine_def update_where_bex)
  show "d' = d \<or> (\<forall>a \<in> set (agents d'). ag_MachineID a = rmm_MachineID c \<longrightarrow> ag_RemovedAt a \<noteq> None)"
    using e revoked_db_retired by blast
  show "\<forall>m \<in> set (machines d). m_MachineID m \<noteq> rmm_MachineID c \<longrightarrow> m \<in> set (machines d')"
    "\<forall>a \<in> set (agents d). ag_MachineID a \<noteq> rmm_MachineID c \<longrightarrow> a \<in> set (agents d')"
    using e revoked_db_others by blast+
qed

end
