(* ===== verification/Demo_Machines.thy ===== *)
theory Demo_Machines
  imports Machine_Guarantees Demo_Agents
begin

text \<open>
  A Machine asks to be connected, Alice approves it in her Browser, its poll redeems the approval,
  and she revokes it again. The witnesses of the connection properties run these operations.
\<close>

definition digest_of :: "char \<Rightarrow> bytes" where
  "digest_of c = replicate 32 c"

lemma digest_of_simps [simp]: "length (digest_of c) = 32" "digest_of c \<noteq> []" "digest_of b = digest_of c \<longleftrightarrow> b = c"
  by (simp_all add: digest_of_def)

definition alice_session :: session_row where
  "alice_session = \<lparr>bs_UserID = ''alice'', bs_CreatedAt = 0, bs_ExpiresAt = hours 24, bs_RevokedAt = None, bs_SessionID = ''as'',
     bs_IdentityProvedAt = 0, bs_IdentityProofMethod = EmailMethod\<rparr>"

definition demo_desk :: db where
  "demo_desk = demo_base\<lparr>browser_sessions := [alice_session]\<rparr>"

definition demo_begin :: begin_connection_command where
  "demo_begin = \<lparr>bgc_RequestID = ''q'', bgc_IdempotencyKey = ''key'', bgc_DisplayName = ''host'', bgc_PublicKeyDER = ''pk'',
     bgc_KeyProof = replicate 64 (CHR ''p''), bgc_RequestDigest = digest_of (CHR ''r''), bgc_SourceDigest = digest_of (CHR ''s''),
     bgc_CodeDigest = digest_of (CHR ''c''), bgc_PollDigest = digest_of (CHR ''d'')\<rparr>"

definition demo_request :: connection_row where
  "demo_request = new_connection (demo_env ''b'' 100) demo_begin"

definition demo_waiting :: db where
  "demo_waiting = demo_desk\<lparr>machine_connection_requests := [demo_request]\<rparr>"

lemma demo_tables:
  "machine_connection_requests demo_desk = []" "machine_connection_requests demo_waiting = [demo_request]"
  "machine_connection_lookup_failures demo_waiting = []" "machines demo_waiting = [demo_machine]"
  "browser_sessions demo_waiting = [alice_session]" "agents demo_waiting = []"
  "spaces demo_waiting = [demo_space]" "memberships demo_waiting = [demo_member ''alice'', demo_member ''bob'']"
  "carry_users demo_waiting = [demo_user ''alice'' ''Alice'', demo_user ''bob'' ''Bob'']"
  by (simp_all add: demo_waiting_def demo_desk_def demo_base_def empty_db_def)

lemma demo_request_ok: "connection_columns_ok demo_request"
  by (simp add: connection_columns_ok_def demo_request_def new_connection_def demo_begin_def)

lemma demo_begin_run:
  "BeginMachineConnection demo_begin (demo_env ''b'' 100) demo_desk = (Inr (machineConnectionRequest demo_request), demo_waiting)"
proof -
  have "sql_CreateMachineConnection demo_request demo_desk = Inr (demo_request, demo_waiting)"
    using demo_request_ok by (simp add: sql_CreateMachineConnection_def Let_def demo_tables key_taken_def demo_waiting_def)
  then show ?thesis
    by (simp add: BeginMachineConnection_def transact_healthy demo_env_healthy BeginMachineConnection_tx_def advisory_lock_def tx_run
        sql_LoadMachineConnectionForBegin_def sql_CountLiveMachineConnections_def sql_CountLiveMachineConnectionsForSource_def
        demo_tables flip: demo_request_def)
qed

section \<open>The approval\<close>

definition demo_approve :: decide_connection_command where
  "demo_approve = \<lparr>dcc_BrowserSessionID = ''as'', dcc_RequestID = ''q'', dcc_SpaceID = ''space'', dcc_Decision = ''approved'',
     dcc_IdempotencyKey = ''dk'', dcc_PreparedMachineID = ''m2'', dcc_CodeDigest = digest_of (CHR ''c''),
     dcc_RequestDigest = digest_of (CHR ''e'')\<rparr>"

definition demo_approval :: connection_row where
  "demo_approval = decided_row (demo_env ''d'' 1000) ''approved'' ''alice'' (Some ''space'') ''dk'' (digest_of (CHR ''e'')) (Some ''m2'')
     demo_request"

lemma demo_request_fields:
  "mc_RequestID demo_request = ''q''" "mc_UserCodeDigest demo_request = digest_of (CHR ''c'')"
  "mc_PollSecretDigest demo_request = digest_of (CHR ''d'')" "mc_Decision demo_request = None" "mc_CancelledAt demo_request = None"
  "mc_RedeemedAt demo_request = None" "mc_ExpiresAt demo_request = 100 + minutes 15" "mc_CreatedAt demo_request = 100"
  "mc_PollIntervalSeconds demo_request = 5" "mc_LastPolledAt demo_request = None" "mc_ResultingMachineID demo_request = None"
  "mc_ReplayUntil demo_request = None" "mc_DisplayName demo_request = ''host''" "mc_PublicKeyDer demo_request = ''pk''"
  "mc_DecidedByUserID demo_request = None" "mc_DecidedSpaceID demo_request = None" "mc_DecisionIdempotencyKey demo_request = None"
  "mc_DecisionRequestDigest demo_request = None" "mc_PreparedMachineID demo_request = None" "mc_DecidedAt demo_request = None"
  by (simp_all add: demo_request_def new_connection_def demo_begin_def)

lemma demo_approval_fields:
  "mc_RequestID demo_approval = ''q''" "mc_PollSecretDigest demo_approval = digest_of (CHR ''d'')"
  "mc_Decision demo_approval = Some ''approved''" "mc_CancelledAt demo_approval = None"
  "mc_RedeemedAt demo_approval = None" "mc_ExpiresAt demo_approval = 100 + minutes 15" "mc_CreatedAt demo_approval = 100"
  "mc_PollIntervalSeconds demo_approval = 5" "mc_LastPolledAt demo_approval = None" "mc_ResultingMachineID demo_approval = None"
  "mc_ReplayUntil demo_approval = None" "mc_DisplayName demo_approval = ''host''" "mc_PublicKeyDer demo_approval = ''pk''"
  "mc_DecidedByUserID demo_approval = Some ''alice''" "mc_DecidedSpaceID demo_approval = Some ''space''"
  "mc_DecisionIdempotencyKey demo_approval = Some ''dk''" "mc_DecisionRequestDigest demo_approval = Some (digest_of (CHR ''e''))"
  "mc_PreparedMachineID demo_approval = Some ''m2''" "mc_DecidedAt demo_approval = Some 1000"
  by (simp_all add: demo_approval_def decided_row_def demo_request_fields)

lemma demo_rows_ok: "connection_state_ok demo_request" "connection_state_ok demo_approval"
  by (simp_all add: connection_state_ok_def decision_columns_ok_def redemption_columns_ok_def demo_request_fields demo_approval_fields textValue_def)

definition demo_approved :: db where
  "demo_approved = demo_waiting\<lparr>machine_connection_requests := [demo_approval]\<rparr>"

lemma demo_session_facts:
  assumes "t < hours 24"
  shows "sql_LockBrowserSessionForMachineConnection ''as'' (demo_env tag t) demo_waiting = Some (demo_user ''alice'' ''Alice'')"
  using assms by (simp add: sql_LockBrowserSessionForMachineConnection_def demo_tables alice_session_def user_of_def demo_user_def)

lemma demo_decide_statement:
  "sql_DecideMachineConnection (demo_env ''d'' 1000) ''approved'' ''alice'' (Some ''space'') ''dk'' (digest_of (CHR ''e'')) (Some ''m2'')
     ''q'' demo_waiting = Inr (Some demo_approval, demo_approved)"
  using demo_rows_ok(2)
  by (simp add: sql_DecideMachineConnection_def update_connection_def exists_where_iff demo_tables open_request_def live_request_def
      demo_request_fields key_taken_def has_decision_def demo_approved_def flip: demo_approval_def)

lemma demo_approve_run:
  "DecideMachineConnection demo_approve (demo_env ''d'' 1000) demo_waiting = (Inr (machineConnectionRequest demo_approval), demo_approved)"
proof -
  have facts: "sql_LockSpaceForMachineConnection ''space'' demo_waiting = Some ''space''"
    "sql_LockMachineEnrollmentMembership ''space'' ''alice'' demo_waiting = Some (demo_member ''alice'')"
    "sql_LockMachineConnectionRequest ''q'' demo_waiting = Some demo_request"
    by (simp_all add: sql_LockSpaceForMachineConnection_def sql_LockMachineEnrollmentMembership_def sql_LockMachineConnectionRequest_def
        demo_tables demo_space_def demo_member_def demo_request_fields)
  have alice: "mb_CanEnrollMachines (demo_member ''alice'')" "u_UserID (demo_user ''alice'' ''Alice'') = ''alice''"
    by (simp_all add: demo_member_def demo_user_def)
  show ?thesis
    by (simp add: DecideMachineConnection_def transact_healthy demo_env_healthy DecideMachineConnection_tx_def demo_approve_def tx_run
        demo_session_facts decision_authority_def conclude_decision_def facts alice sql_MachineDatabaseTime_def demo_request_fields
        demo_decide_statement)
qed

lemma demo_waiting_ok: "requests_ok demo_waiting"
  by (simp add: requests_ok_def demo_tables demo_rows_ok)

lemma demo_approved_ok: "requests_ok demo_approved"
  by (simp add: requests_ok_def demo_approved_def demo_rows_ok)

lemma demo_approved_changes: "demo_approved \<noteq> demo_waiting"
proof
  assume "demo_approved = demo_waiting"
  then have "machine_connection_requests demo_approved = machine_connection_requests demo_waiting" by simp
  then have "demo_approval = demo_request" by (simp add: demo_approved_def demo_tables)
  then show False using demo_approval_fields(3) demo_request_fields(4) by simp
qed

theorem decisions_need_live_authority_witness:
  "may_enroll ''space'' ''alice'' demo_waiting
     \<and> connections_of demo_approved = (connections_of demo_waiting)(''q'' \<mapsto> Approved ''alice'' ''space'' ''m2'')"
proof -
  have "userID = ''alice''" if "lives ''as'' userID (demo_env ''d'' 1000) demo_waiting" for userID
    using that by (auto simp: lives_def demo_tables alice_session_def)
  with decisions_need_live_authority [OF demo_approve_run demo_approved_changes demo_waiting_ok]
  show ?thesis by (auto simp: demo_approve_def)
qed

section \<open>The redemption\<close>

definition demo_poll :: poll_connection_command where
  "demo_poll = \<lparr>plc_RequestID = ''q'', plc_PollDigest = digest_of (CHR ''d'')\<rparr>"

definition demo_issuer :: issuer where
  "demo_issuer machineID key t = Some \<lparr>ic_CertificatePEM = ''pem'', ic_Serial = ''2''\<rparr>"

definition demo_time :: timestamp where
  "demo_time = 100 + minutes 1"

definition demo_joined :: machine_row where
  "demo_joined = connected_row (demo_env ''p'' demo_time) ''m2'' ''space'' ''host'' ''pk'' \<lparr>ic_CertificatePEM = ''pem'', ic_Serial = ''2''\<rparr> ''alice''"

definition demo_polled :: connection_row where
  "demo_polled = polled_row (demo_env ''p'' demo_time) demo_approval"

definition demo_redeemed :: connection_row where
  "demo_redeemed = redeemed_row (demo_env ''p'' demo_time) ''m2'' demo_polled"

definition demo_connected :: db where
  "demo_connected = demo_approved\<lparr>machines := [demo_machine, demo_joined], machine_connection_requests := [demo_redeemed]\<rparr>"

lemma demo_polled_fields:
  "mc_RequestID demo_polled = ''q''" "mc_Decision demo_polled = Some ''approved''" "mc_CancelledAt demo_polled = None"
  "mc_RedeemedAt demo_polled = None" "mc_DisplayName demo_polled = ''host''" "mc_PublicKeyDer demo_polled = ''pk''"
  "mc_DecidedByUserID demo_polled = Some ''alice''" "mc_DecidedSpaceID demo_polled = Some ''space''"
  "mc_PreparedMachineID demo_polled = Some ''m2''"
  by (simp_all add: demo_polled_def polled_row_def demo_approval_fields)

lemma demo_later_rows_ok: "connection_state_ok demo_polled" "connection_state_ok demo_redeemed"
  by (simp_all add: connection_state_ok_def decision_columns_ok_def redemption_columns_ok_def demo_polled_def demo_redeemed_def
      polled_row_def redeemed_row_def demo_approval_fields textValue_def demo_time_def)

lemma demo_poll_statements:
  "sql_LockMachineConnectionRequest ''q'' demo_approved = Some demo_approval"
  "sql_RecordMachineConnectionPoll (demo_env ''p'' demo_time) ''q'' demo_approved
     = Inr (Some demo_polled, demo_approved\<lparr>machine_connection_requests := [demo_polled]\<rparr>)"
  "sql_CreateConnectedMachine demo_joined (demo_approved\<lparr>machine_connection_requests := [demo_polled]\<rparr>)
     = Inr (demo_joined, demo_approved\<lparr>machine_connection_requests := [demo_polled], machines := [demo_machine, demo_joined]\<rparr>)"
  "sql_RedeemMachineConnection (demo_env ''p'' demo_time) ''m2'' ''q''
     (demo_approved\<lparr>machine_connection_requests := [demo_polled], machines := [demo_machine, demo_joined]\<rparr>)
     = Inr (Some demo_redeemed, demo_connected)"
proof -
  show "sql_LockMachineConnectionRequest ''q'' demo_approved = Some demo_approval"
    by (simp add: sql_LockMachineConnectionRequest_def demo_approved_def demo_approval_fields)
  show "sql_RecordMachineConnectionPoll (demo_env ''p'' demo_time) ''q'' demo_approved
     = Inr (Some demo_polled, demo_approved\<lparr>machine_connection_requests := [demo_polled]\<rparr>)"
    using demo_later_rows_ok(1)
    by (simp add: sql_RecordMachineConnectionPoll_def update_connection_def exists_where_iff demo_approved_def demo_approval_fields
        flip: demo_polled_def)
  have "m_MachineID demo_machine = ''m1''" "m_CertificateSerial demo_machine = ''1''" "sp_SpaceID demo_space = ''space''"
    "u_UserID (demo_user ''alice'' ''Alice'') = ''alice''"
    by (simp_all add: demo_machine_def demo_space_def demo_user_def)
  then show "sql_CreateConnectedMachine demo_joined (demo_approved\<lparr>machine_connection_requests := [demo_polled]\<rparr>)
     = Inr (demo_joined, demo_approved\<lparr>machine_connection_requests := [demo_polled], machines := [demo_machine, demo_joined]\<rparr>)"
    by (simp add: sql_CreateConnectedMachine_def key_taken_def exists_where_def demo_approved_def demo_tables demo_joined_def connected_row_def)
  show "sql_RedeemMachineConnection (demo_env ''p'' demo_time) ''m2'' ''q''
     (demo_approved\<lparr>machine_connection_requests := [demo_polled], machines := [demo_machine, demo_joined]\<rparr>)
     = Inr (Some demo_redeemed, demo_connected)"
    using demo_later_rows_ok(2)
    by (simp add: sql_RedeemMachineConnection_def update_connection_def exists_where_iff redeemable_def demo_polled_fields
        demo_connected_def flip: demo_redeemed_def)
qed

lemma demo_poll_run:
  "PollMachineConnection demo_poll demo_issuer (demo_env ''p'' demo_time) demo_approved
     = (Inr (connectedMachine demo_redeemed demo_joined), demo_connected)"
proof -
  have times: "next_poll_at demo_approval = 5000100" "\<not> demo_time < 5000100" "demo_time < 900000100"
    by (simp_all add: next_poll_at_def demo_approval_fields demo_time_def)
  have redeemed: "redeem demo_issuer demo_poll demo_polled (demo_env ''p'' demo_time) (demo_approved\<lparr>machine_connection_requests := [demo_polled]\<rparr>) n
     = Inr (Inr (connectedMachine demo_redeemed demo_joined), demo_connected, Suc (Suc n))" for n
    by (simp add: redeem_def Let_def tx_run demo_issuer_def demo_poll_def demo_poll_statements demo_polled_fields uuidValue_def textValue_def
        flip: demo_joined_def)
  have "plc_RequestID demo_poll = ''q''" "plc_PollDigest demo_poll = digest_of (CHR ''d'')" by (simp_all add: demo_poll_def)
  then show ?thesis
    by (simp add: PollMachineConnection_def transact_answer_def transact_healthy demo_env_healthy PollMachineConnection_tx_def
        tx_run demo_poll_statements sql_MachineDatabaseTime_def demo_approval_fields paced_poll_def times demo_polled_fields redeemed)
qed

lemma demo_connected_machines: "machines demo_approved = [demo_machine]" "machines demo_connected = [demo_machine, demo_joined]"
  by (simp_all add: demo_approved_def demo_connected_def demo_tables)

theorem only_an_approved_request_makes_a_machine_witness:
  "\<exists>r m. sql_LockMachineConnectionRequest ''q'' demo_approved = Some r \<and> mc_Decision r = Some ''approved''
    \<and> machines demo_connected = machines demo_approved @ [m] \<and> Some (m_SpaceID m) = mc_DecidedSpaceID r"
proof -
  have "machines demo_connected \<noteq> machines demo_approved" by (simp add: demo_connected_machines)
  from only_an_approved_request_makes_a_machine [OF demo_poll_run this demo_approved_ok] show ?thesis
    by (auto simp: demo_poll_def)
qed

theorem connections_follow_protocol_witness:
  "protocol_step\<^sup>*\<^sup>* (connections_of demo_waiting) (connections_of demo_connected) \<and> connection_step\<^sup>*\<^sup>* demo_waiting demo_connected"
proof -
  have "connection_step demo_waiting demo_approved" "connection_step demo_approved demo_connected"
    by (rule decided [OF demo_approve_run], rule connection_step.polled [OF demo_poll_run])
  then have steps: "connection_step\<^sup>*\<^sup>* demo_waiting demo_connected" by (meson rtranclp.simps)
  from connections_follow_protocol [OF steps demo_waiting_ok] steps show ?thesis by blast
qed

theorem polls_are_paced_witness:
  "\<exists>x d'. PollMachineConnection demo_poll demo_issuer (demo_env ''p'' 200) demo_approved = (x, d') \<and> machines d' = machines demo_approved"
proof -
  obtain x d' where run: "PollMachineConnection demo_poll demo_issuer (demo_env ''p'' 200) demo_approved = (x, d')"
    by (cases "PollMachineConnection demo_poll demo_issuer (demo_env ''p'' 200) demo_approved")
  have "tx_time (demo_env ''p'' 200) < next_poll_at demo_approval" by (simp add: next_poll_at_def demo_approval_fields)
  from polls_are_paced [OF run demo_approved_ok _ demo_approval_fields(5) this] run demo_poll_statements(1) show ?thesis
    by (auto simp: demo_poll_def)
qed

definition demo_lookup :: lookup_connection_command where
  "demo_lookup = \<lparr>lkc_BrowserSessionID = ''as'', lkc_CodeDigest = digest_of (CHR ''w''), lkc_SourceDigest = digest_of (CHR ''s'')\<rparr>"

lemma demo_lookup_run:
  "LookupMachineConnection demo_lookup (demo_env ''l'' 200) demo_waiting
     = (Inl (MachineError ErrConnectionUnavailable), demo_waiting\<lparr>machine_connection_lookup_failures :=
         [\<lparr>lf_FailureID = ''l'', lf_BrowserSessionID = ''as'', lf_SourceDigest = digest_of (CHR ''s''), lf_CreatedAt = 200\<rparr>]\<rparr>)"
proof -
  have "sql_FindLiveMachineConnectionByCode (digest_of (CHR ''w'')) (demo_env ''l'' 200) demo_waiting = None"
    by (simp add: sql_FindLiveMachineConnectionByCode_def demo_tables demo_request_fields)
  then show ?thesis
    by (simp add: LookupMachineConnection_def transact_answer_def transact_healthy demo_env_healthy LookupMachineConnection_tx_def
        advisory_lock_def tx_run demo_lookup_def demo_session_facts demo_tables key_taken_def
        sql_CountRecentMachineConnectionLookupFailuresForSession_def sql_CountRecentMachineConnectionLookupFailuresForSource_def
        sql_RecordMachineConnectionLookupFailure_def)
qed

theorem lookups_are_limited_witness:
  "session_failures demo_lookup (demo_env ''l'' 200) (snd (LookupMachineConnection demo_lookup (demo_env ''l'' 200) demo_waiting)) = 1"
proof -
  let ?d = "demo_waiting\<lparr>machine_connection_lookup_failures :=
         [\<lparr>lf_FailureID = ''l'', lf_BrowserSessionID = ''as'', lf_SourceDigest = digest_of (CHR ''s''), lf_CreatedAt = 200\<rparr>]\<rparr>"
  have "?d \<noteq> demo_waiting"
  proof
    assume "?d = demo_waiting"
    then have "machine_connection_lookup_failures ?d = machine_connection_lookup_failures demo_waiting" by simp
    then show False by (simp add: demo_tables)
  qed
  with lookups_are_limited [OF demo_lookup_run]
  have "session_failures demo_lookup (demo_env ''l'' 200) ?d = session_failures demo_lookup (demo_env ''l'' 200) demo_waiting + 1" by blast
  moreover have "session_failures demo_lookup (demo_env ''l'' 200) demo_waiting = 0"
    by (simp add: session_failures_def sql_CountRecentMachineConnectionLookupFailuresForSession_def demo_tables)
  ultimately show ?thesis by (simp add: demo_lookup_run)
qed

theorem key_proof_binds_request_witness:
  "ConnectionKeyProofMessage ''o'' ''i'' ''n'' ''k'' ''c'' ''s'' \<noteq> ConnectionKeyProofMessage ''o'' ''i'' ''n'' ''k'' ''c'' ''t''"
  using key_proof_binds_request [of "''o''" "''i''" "''n''" "''k''" "''c''" "''s''" "''o''" "''i''" "''n''" "''k''" "''c''" "''t''"]
  by auto

section \<open>The revocation\<close>

definition demo_revoke :: revoke_machine_command where
  "demo_revoke = \<lparr>rmm_BrowserSessionID = ''as'', rmm_SpaceID = ''space'', rmm_MachineID = ''m1'', rmm_IdempotencyKey = ''rk'',
     rmm_RequestDigest = digest_of (CHR ''f'')\<rparr>"

lemma demo_revoke_run:
  "\<exists>x d'. RevokeMachineFromBrowser demo_revoke (demo_env ''v'' 1000) demo_waiting = (Inr x, d')"
proof -
  have facts: "sql_LockSpaceForMachineConnection ''space'' demo_waiting = Some ''space''"
    "sql_LockMachineEnrollmentMembership ''space'' ''alice'' demo_waiting = Some (demo_member ''alice'')"
    "sql_LockMachineForRevocation ''m1'' ''space'' demo_waiting = Some demo_machine"
    by (simp_all add: sql_LockSpaceForMachineConnection_def sql_LockMachineEnrollmentMembership_def sql_LockMachineForRevocation_def
        demo_tables demo_space_def demo_member_def demo_machine_def)
  have alice: "mb_CanEnrollMachines (demo_member ''alice'')" "u_UserID (demo_user ''alice'' ''Alice'') = ''alice''"
    "m_RevokedAt demo_machine = None"
    by (simp_all add: demo_member_def demo_user_def demo_machine_def)
  let ?row = "revoked_machine_row (demo_env ''v'' 1000) ''user'' (Some ''alice'') ''rk'' (digest_of (CHR ''f'')) demo_machine"
  have s: "sql_RevokeMachineByUser (demo_env ''v'' 1000) ''alice'' ''rk'' (digest_of (CHR ''f'')) ''m1'' demo_waiting
      = Inr (Some ?row, demo_waiting\<lparr>machines := [?row]\<rparr>)"
    by (simp add: sql_RevokeMachineByUser_def revoke_machine_def Let_def exists_where_def demo_tables active_machine_def demo_machine_def
        revoked_machine_row_def revocation_columns_ok_def key_taken_def by_user_def textValue_def)
  show ?thesis
    by (simp add: RevokeMachineFromBrowser_def transact_healthy demo_env_healthy RevokeMachineFromBrowser_tx_def revocation_authority_def
        demo_revoke_def tx_run demo_session_facts facts alice s retire_agents_def sql_RemoveActiveAgentsForMachine_def
        listInventoryAgents_def sql_ListInventoryAgents_def order_by_def demo_tables map_filter_simps)
qed

end
