(* ===== verification/Whole_Guarantees.thy ===== *)
theory Whole_Guarantees
  imports Whole_Server Demo_Login Demo_Spaces Demo_Machines
begin

text \<open>
  What holds of the server as a whole, with the witnesses: from an empty database a User signs in by
  Email, creates a Space and a Work, and a Machine asks to be connected.
\<close>

text \<open>
  C26 (refinement). Whatever sequence of requests the server answers, of all its stores, it is a run of
  the transition system of Works and Conversations, so that everything proved of the reachable
  states of that system holds of the server, and at the same time a run of the protocol of connection requests.
\<close>

theorem server_refines_its_parts:
  assumes "world_reachable d" "world_step\<^sup>*\<^sup>* d d'"
  shows "reachable d' \<and> server_step\<^sup>*\<^sup>* d d' \<and> protocol_step\<^sup>*\<^sup>* (connections_of d) (connections_of d')"
proof (intro conjI)
  note ok = world_reachable_ok [OF assms(1)]
  show "reachable d'" by (rule world_reachable_reachable [OF world_reachable_steps [OF assms(2,1)]])
  show "server_step\<^sup>*\<^sup>* d d'" by (rule whole_core.simulates_history [OF assms(2) ok])
  show "protocol_step\<^sup>*\<^sup>* (connections_of d) (connections_of d')" by (rule whole_connections.simulates_history [OF assms(2) ok])
qed

text \<open>
  C27 (invariant). In every state the server can reach, every Space has an active member who may manage its
  members and an active member who may enroll Machines; every open Work is owned by an active member of
  its Space; and every active Agent is owned by an active member of its Space, who enrolled the Agent's
  Machine into that Space, and that Machine is not revoked.
\<close>

theorem somebody_is_always_responsible:
  assumes "world_reachable d"
  shows "(\<forall>s \<in> set (spaces d). (\<exists>m \<in> set (memberships d). managers (sp_SpaceID s) m) \<and> (\<exists>m \<in> set (memberships d). enrollers (sp_SpaceID s) m))
    \<and> (\<forall>w \<in> set (works d). w_Lifecycle w = LifecycleOpen \<longrightarrow> is_member (w_SpaceID w) (w_OwnerUserID w) d)
    \<and> (\<forall>a \<in> set (agents d). ag_RemovedAt a = None \<longrightarrow> is_member (ag_SpaceID a) (ag_OwnerUserID a) d
        \<and> (\<exists>m \<in> set (machines d). m_MachineID m = ag_MachineID a \<and> m_SpaceID m = ag_SpaceID a
            \<and> m_EnrolledByUserID m = ag_OwnerUserID a \<and> m_RevokedAt m = None))"
proof (intro conjI ballI impI)
  have ok: "space_ok d" "owners_ok d" "agents_ok d" "agent_owners_ok d" "agents_live d"
    using world_reachable_ok [OF assms] by (simp_all add: world_ok_def)
  show "\<exists>m \<in> set (memberships d). managers (sp_SpaceID s) m" "\<exists>m \<in> set (memberships d). enrollers (sp_SpaceID s) m" if "s \<in> set (spaces d)" for s
    using ok(1) that by (simp_all add: space_ok_def governed_def)
  show "is_member (w_SpaceID w) (w_OwnerUserID w) d" if "w \<in> set (works d)" "w_Lifecycle w = LifecycleOpen" for w
    using ok(2) that by (simp add: owners_ok_def)
  fix a assume a: "a \<in> set (agents d)" "ag_RemovedAt a = None"
  show "is_member (ag_SpaceID a) (ag_OwnerUserID a) d" using ok(4) a by (simp add: agent_owners_ok_def)
  from ok(3) a(1) obtain m where m: "m \<in> set (machines d)" "m_MachineID m = ag_MachineID a" "m_SpaceID m = ag_SpaceID a"
      "m_EnrolledByUserID m = ag_OwnerUserID a" by (auto simp: agents_ok_def)
  from ok(5) a obtain m' where m': "m' \<in> set (machines d)" "m_MachineID m' = ag_MachineID a" "m_RevokedAt m' = None"
    by (auto simp: agents_live_def)
  have "m' = m" using ok(3) m(1,2) m'(1,2) unique_onD [of m_MachineID "\<lambda>_. True" "machines d" m' m] by (simp add: agents_ok_def)
  with m m' show "\<exists>m \<in> set (machines d). m_MachineID m = ag_MachineID a \<and> m_SpaceID m = ag_SpaceID a
      \<and> m_EnrolledByUserID m = ag_OwnerUserID a \<and> m_RevokedAt m = None" by blast
qed

text \<open>
  C40 (type). In every state the server can reach, the rows of 24 of its 29 tables have the shape their types promise. Works, their
  messages, Runs, Attempts and result checks: counters and bounds are ordered, texts are in normal form, the digest of a Work
  is that of its goal, columns that belong together are set together. Conversations, their messages and reply claims: a message is
  numbered within its Conversation, its text is in normal form, a member's message has the Conversation's
  member and the digest of its text. Spaces, memberships, invitations and their submissions, Machines, Agents, presence and
  connection requests; Users, who can sign in, their addresses and accounts, Sessions, challenges, attempts and
  external sign-ins. (The other five are the failures of lookups, the record of unlinked methods and the tables of the
  command-line login.)
\<close>

theorem every_row_is_well_formed:
  assumes "world_reachable d"
  shows "(\<forall>w \<in> set (works d). work_row_ok w) \<and> (\<forall>m \<in> set (work_messages d). message_row_ok m) \<and> (\<forall>r \<in> set (runs d). run_row_ok r)
    \<and> (\<forall>a \<in> set (run_attempts d). attempt_row_ok a) \<and> (\<forall>c \<in> set (work_result_checks d). check_row_ok c)
    \<and> (\<forall>c \<in> set (conversations d). 0 \<le> cn_MessageHeadSeq c)
    \<and> (\<forall>m \<in> set (conversation_messages d). message_text_ok m \<and> author_shape m \<and> (\<exists>c \<in> set (conversations d). message_in m c))
    \<and> (\<forall>k \<in> set (conversation_reply_claims d). authority_shape k)
    \<and> (\<forall>s \<in> set (spaces d). sp_Name s \<noteq> [] \<and> 1 \<le> rune_count (sp_Slug s) \<and> rune_count (sp_Slug s) \<le> 32)
    \<and> (\<forall>m \<in> set (memberships d). membership_row_ok m) \<and> (\<forall>i \<in> set (space_invitations d). invitation_row_ok i)
    \<and> (\<forall>s \<in> set (space_invitation_submissions d). submission_row_ok (space_invitations d) s)
    \<and> (\<forall>m \<in> set (machines d). machine_report_ok m) \<and> (\<forall>r \<in> set (machine_connection_requests d). connection_state_ok r)
    \<and> (\<forall>a \<in> set (agents d). \<exists>m \<in> set (machines d). m_MachineID m = ag_MachineID a \<and> m_SpaceID m = ag_SpaceID a
        \<and> m_EnrolledByUserID m = ag_OwnerUserID a)
    \<and> (\<forall>p \<in> set (agent_presence d). presence_ok (agents d) p)
    \<and> (\<forall>u \<in> set (carry_users d). 0 < count_methods (u_UserID u) d) \<and> (\<forall>e \<in> set (email_identities d). has_user (ei_UserID e) d)
    \<and> (\<forall>g \<in> set (google_identities d). has_user (gg_UserID g) d) \<and> (\<forall>g \<in> set (github_identities d). has_user (gh_UserID g) d)
    \<and> (\<forall>b \<in> set (browser_sessions d). has_user (bs_UserID b) d \<and> session_well_formed b)
    \<and> (\<forall>c \<in> set (email_login_challenges d). challenge_ok (email_login_attempts d) c)
    \<and> (\<forall>a \<in> set (email_login_attempts d). \<exists>c \<in> set (email_login_challenges d). ec_ChallengeID c = ea_ChallengeID a)
    \<and> (\<forall>t \<in> set (external_login_transactions d). external_row_ok t)"
proof -
  have ok: "core_ok d" "space_ok d" "agents_ok d" "invitations_ok d" "requests_ok d" "login_ok d"
    using world_reachable_ok [OF assms] by (simp_all add: world_ok_def)
  have "(\<forall>w \<in> set (works d). work_row_ok w) \<and> (\<forall>m \<in> set (work_messages d). message_row_ok m) \<and> (\<forall>r \<in> set (runs d). run_row_ok r)
    \<and> (\<forall>a \<in> set (run_attempts d). attempt_row_ok a) \<and> (\<forall>c \<in> set (work_result_checks d). check_row_ok c)"
    using ok(1) by (simp add: core_ok_def execution_ok_def work_state_ok_def works_ok_def messages_ok_def runs_ok_def attempts_ok_def checks_ok_def)
  moreover have "(\<forall>c \<in> set (conversations d). 0 \<le> cn_MessageHeadSeq c)
    \<and> (\<forall>m \<in> set (conversation_messages d). message_text_ok m \<and> author_shape m \<and> (\<exists>c \<in> set (conversations d). message_in m c))
    \<and> (\<forall>k \<in> set (conversation_reply_claims d). authority_shape k)"
    using ok(1) by (simp add: core_ok_def conversation_ok_def conversation_rows_ok_def message_rows_ok_def claims_ok_def)
  moreover have "(\<forall>s \<in> set (spaces d). sp_Name s \<noteq> [] \<and> 1 \<le> rune_count (sp_Slug s) \<and> rune_count (sp_Slug s) \<le> 32)
    \<and> (\<forall>m \<in> set (memberships d). membership_row_ok m)"
    using ok(2) by (simp add: space_ok_def spaces_ok_def memberships_ok_def)
  moreover have "(\<forall>u \<in> set (carry_users d). 0 < count_methods (u_UserID u) d)"
    using ok(6) by (simp add: login_ok_def methods_ok_def can_sign_in_def)
  moreover have "(\<forall>e \<in> set (email_identities d). has_user (ei_UserID e) d)
    \<and> (\<forall>g \<in> set (google_identities d). has_user (gg_UserID g) d) \<and> (\<forall>g \<in> set (github_identities d). has_user (gh_UserID g) d)
    \<and> (\<forall>b \<in> set (browser_sessions d). has_user (bs_UserID b) d \<and> session_well_formed b)"
    using ok(6) by (simp add: login_ok_def methods_ok_def owners_exist_def)
  moreover have "(\<forall>c \<in> set (email_login_challenges d). challenge_ok (email_login_attempts d) c)
    \<and> (\<forall>a \<in> set (email_login_attempts d). \<exists>c \<in> set (email_login_challenges d). ec_ChallengeID c = ea_ChallengeID a)
    \<and> (\<forall>t \<in> set (external_login_transactions d). external_row_ok t)"
    using ok(6) by (simp add: login_ok_def codes_ok_def externals_ok_def)
  ultimately show ?thesis
    using ok(3-5) by (simp add: agents_ok_def invitations_ok_def requests_ok_def)
qed

section \<open>From an empty server\<close>

definition whole_first_space :: create_space_command where
  "whole_first_space = demo_ops\<lparr>csc_SpaceID := ''space''\<rparr>"

definition whole_house :: db where
  "whole_house = created_db (demo_env ''x'' 50) whole_first_space demo_signed_in"

lemma demo_mistaken_reached: "world_reachable demo_mistaken"
proof -
  have "world_reachable demo_asked"
    using world_next [OF world_boot answered [of empty_db "Prepare_challenge demo_ask" "demo_env ''c'' 10"]] by (simp add: demo_asked_run)
  then show ?thesis
    using world_next [OF _ answered [of demo_asked "Verify_challenge (demo_try (CHR ''b'') ''r'')" "demo_env ''e'' 20"]]
    by (simp add: demo_mistaken_run)
qed

lemma demo_signed_in_reached: "world_reachable demo_signed_in"
  using world_next [OF demo_mistaken_reached answered [of demo_mistaken "Verify_challenge (demo_try (CHR ''a'') ''w'')" "demo_env ''alice'' 30"]]
    by (simp add: demo_verify_run)

lemma whole_house_run: "answer (Create_space demo_unicode whole_first_space) (demo_env ''x'' 50) demo_signed_in = whole_house"
proof -
  have len: "length (spaceCreationDigest n k) = 32" for n k by (simp add: spaceCreationDigest_def)
  show ?thesis
    by (simp add: CreateSpace_def transact_healthy demo_env_healthy CreateSpace_tx_def tx_run demo_ops_def whole_first_space_def
      sql_LockSpaceCreator_def user_of_def postgresUUID_def sql_LoadCreatedSpaceByRequest_def creator_request_def first_row_def
      map_filter_simps sql_CreateSpace_def new_space_def rune_count_def decode_rune.simps textValue_def len key_taken_def
      whole_house_def
      sql_CreateSpaceMembership_def insert_membership_def new_membership_def membership_key_def exists_where_def created_db_def)
qed

lemma whole_house_tables:
  "carry_users whole_house = [\<lparr>u_UserID = ''alice'', u_DisplayName = ''Member alice'', u_CreatedAt = 30\<rparr>]" "works whole_house = []" "machine_connection_requests whole_house = []"
  "memberships whole_house = [new_membership (demo_env ''x'' 50) ''space'' ''alice'' True True]"
  "map sp_SpaceID (spaces whole_house) = [''space'']"
  by (simp_all add: whole_house_def created_db_def whole_first_space_def demo_ops_def)

definition whole_office :: db where
  "whole_office = answer (Core_call (Create_work demo_create)) (demo_env ''w'' 100) whole_house"

lemma whole_office_run: "whole_office = whole_house\<lparr>works := [demo_work]\<rparr>"
  by (simp add: whole_office_def CreateWork_def demo_create_def demo_normal_forms guard_def transact_healthy demo_env_healthy
      CreateWork_tx_def tx_run lockActiveWorkMembership_def sql_LockActiveWorkMembership_def active_membership_def
      sql_CreateWork_def joined_work_def display_names_def user_of_def whole_house_tables key_taken_def new_membership_def
      demo_work_def)

lemma whole_office_tables: "machine_connection_requests whole_office = []" "map sp_SpaceID (spaces whole_office) = [''space'']"
  by (simp_all add: whole_office_run whole_house_tables)

definition whole_queue :: db where
  "whole_queue = answer (Begin_connection demo_begin) (demo_env ''b'' 100) whole_office"

lemma whole_queue_run: "whole_queue = whole_office\<lparr>machine_connection_requests := [demo_request]\<rparr>"
proof -
  have "sql_CreateMachineConnection demo_request whole_office
      = Inr (demo_request, whole_office\<lparr>machine_connection_requests := [demo_request]\<rparr>)"
    using demo_request_ok by (simp add: sql_CreateMachineConnection_def Let_def whole_office_tables key_taken_def)
  then show ?thesis
    by (simp add: whole_queue_def BeginMachineConnection_def transact_healthy demo_env_healthy BeginMachineConnection_tx_def
        advisory_lock_def tx_run sql_LoadMachineConnectionForBegin_def sql_CountLiveMachineConnections_def
        sql_CountLiveMachineConnectionsForSource_def whole_office_tables flip: demo_request_def)
qed

lemma whole_house_reached: "world_reachable whole_house"
  using world_next [OF demo_signed_in_reached answered] by (simp only: whole_house_run [symmetric])

lemma whole_history: "world_step\<^sup>*\<^sup>* whole_house whole_queue"
  unfolding whole_queue_def whole_office_def
  by (rule rtranclp.rtrancl_into_rtrancl, rule r_into_rtranclp) (rule answered)+

theorem server_refines_its_parts_witness:
  "reachable whole_queue \<and> protocol_step\<^sup>*\<^sup>* (connections_of whole_house) (connections_of whole_queue)
     \<and> connections_of whole_house ''q'' = None \<and> connections_of whole_queue ''q'' = Some Waiting"
proof -
  have "connections_of whole_house ''q'' = None" "connections_of whole_queue ''q'' = Some Waiting"
    by (simp_all add: connections_of_def sql_LockMachineConnectionRequest_def whole_house_tables whole_queue_run demo_request_fields phase_of_def)
  with server_refines_its_parts [OF whole_house_reached whole_history] show ?thesis by blast
qed

theorem somebody_is_always_responsible_witness:
  "(\<exists>m \<in> set (memberships whole_queue). managers ''space'' m) \<and> (\<exists>w \<in> set (works whole_queue). is_member ''space'' (w_OwnerUserID w) whole_queue)"
proof -
  note r = somebody_is_always_responsible [OF world_reachable_steps [OF whole_history whole_house_reached]]
  have sp: "map sp_SpaceID (spaces whole_queue) = [''space'']" by (simp add: whole_queue_run whole_office_tables)
  have w: "demo_work \<in> set (works whole_queue)" "w_SpaceID demo_work = ''space''" "w_Lifecycle demo_work = LifecycleOpen"
    by (simp_all add: whole_queue_run whole_office_run demo_work_def new_work_def)
  with r have "is_member ''space'' (w_OwnerUserID demo_work) whole_queue" by metis
  moreover obtain s where "s \<in> set (spaces whole_queue)" "sp_SpaceID s = ''space''" using sp by auto
  with r have "\<exists>m \<in> set (memberships whole_queue). managers ''space'' m" by metis
  ultimately show ?thesis using w(1) by blast
qed

theorem every_row_is_well_formed_witness:
  "work_row_ok demo_work \<and> connection_state_ok demo_request \<and> session_well_formed (new_session (demo_env ''alice'' 30) ''as'' ''alice'' EmailMethod)
     \<and> 0 < count_methods ''alice'' whole_queue"
proof -
  note r = every_row_is_well_formed [OF world_reachable_steps [OF whole_history whole_house_reached]]
  have "demo_work \<in> set (works whole_queue)" "demo_request \<in> set (machine_connection_requests whole_queue)"
    "new_session (demo_env ''alice'' 30) ''as'' ''alice'' EmailMethod \<in> set (browser_sessions whole_queue)"
    by (simp_all add: whole_queue_run whole_office_run whole_house_def created_db_def)
  moreover have "\<lparr>u_UserID = ''alice'', u_DisplayName = ''Member alice'', u_CreatedAt = 30\<rparr> \<in> set (carry_users whole_queue)"
    by (simp add: whole_queue_run whole_office_run whole_house_tables)
  ultimately show ?thesis using r by fastforce
qed

end
