(* ===== verification/Identity_Guarantees.thy ===== *)
theory Identity_Guarantees
  imports Whole_Guarantees
begin

text \<open>
  What holds of Users, their Sessions and the ways they sign in: a Session needs the code of its address or an account
  of its provider, codes are rationed and cannot be guessed, and every User keeps a way to sign in.
\<close>

section \<open>Codes\<close>

definition sessions_end :: "db \<Rightarrow> db \<Rightarrow> bool" where
  "sessions_end d d' \<longleftrightarrow> (\<forall>b \<in> set (browser_sessions d'). b \<in> set (browser_sessions d) \<or> bs_RevokedAt b \<noteq> None)"

lemma sessions_end_revoked: "sessions_end d d0 \<Longrightarrow> sessions_end d (revoked_sessions_db P now d0)"
  by (auto simp: sessions_end_def revoked_sessions_db_def update_where_ball revoked_session_def)

lemma sessions_end_same: "browser_sessions d' = browser_sessions d \<Longrightarrow> sessions_end d d'"
  by (simp add: sessions_end_def)

lemma email_owner_kept [simp]:
  "sql_LoadEmailIdentity e (with_session E s w m d) = sql_LoadEmailIdentity e d"
  "sql_LoadEmailIdentity e (revoked_sessions_db P now d) = sql_LoadEmailIdentity e d"
  "sql_LoadEmailIdentity e (joined_user_db E w name d) = sql_LoadEmailIdentity e d"
  "sql_LoadEmailIdentity e (verified_db E c w d) = sql_LoadEmailIdentity e d"
  by (simp_all add: sql_LoadEmailIdentity_def with_session_def revoked_sessions_db_def joined_user_db_def verified_db_def)

lemma email_owner_linked: "sql_LoadEmailIdentity e d = None \<Longrightarrow> sql_LoadEmailIdentity e (linked_db E e w d) = Some w"
  by (simp add: sql_LoadEmailIdentity_def linked_db_def first_where_append)

lemma proves_opens:
  assumes "proves E ch s d u d'"
  shows "\<exists>d0. d' = with_session E s u EmailMethod d0 \<and> sessions_end d d0 \<and> sql_LoadEmailIdentity (ec_CanonicalEmail ch) d0 = Some u
    \<and> (ec_Purpose ch \<noteq> LoginPurpose \<longrightarrow> (\<exists>b. live_session (uuidValue (ec_InitiatingSessionID ch)) u (tx_time E) d b))"
proof -
  let ?e = "ec_CanonicalEmail ch"
  from assms consider (login) "logs_in E ch s d u d'" "ec_Purpose ch = LoginPurpose"
    | (again) "reauthenticates E ch s d u d'" | (link) "links E ch s d u d'"
    unfolding proves_def by (auto split: if_split_asm)
  then show ?thesis
  proof cases
    case login
    have f: "sessions_end d (first_login_db E ?e d)"
      by (rule sessions_end_same) (simp add: first_login_db_def linked_db_def joined_user_db_def)
    have g: "sql_LoadEmailIdentity ?e (first_login_db E ?e d) = Some (fresh E 0)" if "sql_LoadEmailIdentity ?e d = None"
      using that by (simp add: first_login_db_def email_owner_linked)
    from login(1) show ?thesis unfolding logs_in_def
      by (elim disjE conjE) (intro exI conjI, assumption, rule sessions_end_same, simp, simp, simp add: login(2),
        intro exI conjI, assumption, rule f, simp add: g, simp add: login(2))
  next
    case again
    then show ?thesis unfolding reauthenticates_def Let_def
      by (elim conjE exE) (intro exI conjI, assumption, intro sessions_end_revoked sessions_end_same refl, simp, blast)
  next
    case link
    then show ?thesis unfolding links_def Let_def
      by (elim conjE exE) (intro exI conjI, assumption, intro sessions_end_revoked sessions_end_same, simp add: linked_db_def,
        simp add: email_owner_linked, blast)
  qed
qed

text \<open>
  C32 (safety). A Session that a verification opens needs the code of a challenge that is neither expired nor
  used, replaced or rejected and was mistyped less than five times; it belongs to the User of the address the
  code was sent to, it is the one Session of the challenge, which is then used up, and a confirmation or a link
  also needs a live Session of the same User.
\<close>

theorem session_needs_its_code:
  assumes "VerifyEmailChallenge c E d = (r, d')" "b \<in> set (browser_sessions d')" "b \<notin> set (browser_sessions d)" "bs_RevokedAt b = None"
  shows "bs_SessionID b = vec_SessionID c \<and> bs_IdentityProofMethod b = EmailMethod
    \<and> (\<exists>ch \<in> set (email_login_challenges d). ec_ChallengeID ch = vec_ChallengeID c \<and> ec_CodeDigest ch = vec_CodeDigest c
        \<and> tx_time E < ec_ExpiresAt ch \<and> ec_ConsumedAt ch = None \<and> ec_InvalidatedAt ch = None \<and> ec_AttemptsUsed ch < 5
        \<and> ec_SubmissionState ch \<noteq> ''rejected''
        \<and> sql_LoadEmailIdentity (ec_CanonicalEmail ch) d' = Some (bs_UserID b)
        \<and> (ec_Purpose ch \<noteq> ''login'' \<longrightarrow> (\<exists>s. live_session (vec_InitiatingSessionID c) (bs_UserID b) (tx_time E) d s))
        \<and> (\<exists>ch' \<in> set (email_login_challenges d'). ec_ChallengeID ch' = vec_ChallengeID c \<and> ec_ConsumedAt ch' = Some (tx_time E)
             \<and> ec_BrowserSessionID ch' = Some (bs_SessionID b)))"
proof -
  have "d' \<noteq> d" using assms(2,3) by blast
  with VerifyEmailChallenge_body [OF assms(1)] obtain x n where
    t: "VerifyEmailChallenge_tx c (purpose_of (vec_Purpose c)) E d 0 = Inr (x, d', n)" by blast
  from VerifyEmailChallenge_tx_effect [OF t] \<open>d' \<noteq> d\<close> assms(2,3) obtain ch v where
    ch: "sql_LockEmailChallenge (vec_ChallengeID c) d = Some ch" "uuidValue (ec_InitiatingSessionID ch) = vec_InitiatingSessionID c"
    and o: "opens c (purpose_of (vec_Purpose c)) E d ch v d'"
    by (auto simp: refused_db_def)
  from o obtain u d1 where use: "usable ch (tx_time E)" "ec_CodeDigest ch = vec_CodeDigest c"
    and p: "proves E ch (vec_SessionID c) d u d1" and d': "d' = verified_db E c u d1" unfolding opens_def by blast
  note m = locked_challenge [OF ch(1)]
  from proves_opens [OF p] obtain d0 where d1: "d1 = with_session E (vec_SessionID c) u EmailMethod d0" and old: "sessions_end d d0"
    and q: "sql_LoadEmailIdentity (ec_CanonicalEmail ch) d0 = Some u"
      "ec_Purpose ch \<noteq> LoginPurpose \<longrightarrow> (\<exists>b. live_session (uuidValue (ec_InitiatingSessionID ch)) u (tx_time E) d b)" by blast
  have b: "b = new_session E (vec_SessionID c) u EmailMethod"
    using assms(2-4) old by (auto simp: d' verified_db_def d1 with_session_def sessions_end_def)
  have "consumable E (vec_ChallengeID c) ch" using use(1) m by (simp add: consumable_def usable_def EmailCodeAttemptLimit_def)
  then have "consumed_row E u (vec_SessionID c) ch \<in> set (email_login_challenges d')"
    using m proves_challenges [OF p] by (auto simp: d' verified_db_def update_where_def image_iff)
  then have "\<exists>ch' \<in> set (email_login_challenges d'). ec_ChallengeID ch' = vec_ChallengeID c \<and> ec_ConsumedAt ch' = Some (tx_time E)
      \<and> ec_BrowserSessionID ch' = Some (bs_SessionID b)"
    by (rule bexI [rotated]) (simp add: consumed_row_def m b)
  moreover have "sql_LoadEmailIdentity (ec_CanonicalEmail ch) d' = Some (bs_UserID b)"
    using q(1) by (simp add: d' d1 b)
  moreover have "ec_Purpose ch \<noteq> ''login'' \<longrightarrow> (\<exists>s. live_session (vec_InitiatingSessionID c) (bs_UserID b) (tx_time E) d s)"
    using q(2) ch(2) by (simp add: b purpose_defs)
  ultimately show ?thesis
    using m use b unfolding usable_def EmailCodeAttemptLimit_def submission_defs by (elim conjE, intro conjI, simp, simp) (rule bexI [of _ ch], simp_all)
qed

theorem session_needs_its_code_witness:
  "new_session (demo_env ''alice'' 30) ''as'' ''alice'' EmailMethod \<in> set (browser_sessions demo_signed_in)
     \<and> (\<exists>ch \<in> set (email_login_challenges demo_mistaken). ec_CodeDigest ch = demo_bytes (CHR ''a'') \<and> ec_AttemptsUsed ch < 5
          \<and> sql_LoadEmailIdentity (ec_CanonicalEmail ch) demo_signed_in = Some ''alice'')"
  using session_needs_its_code [OF demo_verify_run, of "new_session (demo_env ''alice'' 30) ''as'' ''alice'' EmailMethod"] by simp

text \<open>
  C33 (invariant). In every state the server can reach, the attempts a challenge has used are the wrong codes recorded for
  it, at most five, exactly one correct code is recorded for it when it is used up and none before, it
  expires five minutes after it was made, and an address has at most one challenge that is neither used nor replaced.
\<close>

theorem code_guessing_is_bounded:
  assumes "world_reachable d" "ch \<in> set (email_login_challenges d)"
  shows "ec_AttemptsUsed ch = count_where (\<lambda>a. ea_ChallengeID a = ec_ChallengeID ch \<and> ea_Result a = ''invalid'') (email_login_attempts d)
    \<and> ec_AttemptsUsed ch \<le> 5
    \<and> count_where (\<lambda>a. ea_ChallengeID a = ec_ChallengeID ch \<and> ea_Result a = ''succeeded'') (email_login_attempts d)
        = (if ec_ConsumedAt ch = None then 0 else 1)
    \<and> ec_ExpiresAt ch = ec_CreatedAt ch + minutes 5
    \<and> (\<forall>other \<in> set (email_login_challenges d). ec_CanonicalEmail other = ec_CanonicalEmail ch \<longrightarrow>
         current_challenge other \<longrightarrow> current_challenge ch \<longrightarrow> other = ch)"
proof -
  have ok: "codes_ok d" using world_reachable_ok [OF assms(1)] by (simp add: world_ok_def login_ok_def)
  then have "challenge_ok (email_login_attempts d) ch" using assms(2) by (simp add: codes_ok_def)
  moreover have "\<forall>other \<in> set (email_login_challenges d). ec_CanonicalEmail other = ec_CanonicalEmail ch \<longrightarrow>
         current_challenge other \<longrightarrow> current_challenge ch \<longrightarrow> other = ch"
    using ok assms(2) unique_onD [of ec_CanonicalEmail current_challenge "email_login_challenges d"] unfolding codes_ok_def by blast
  ultimately show ?thesis unfolding challenge_ok_def answered_with_def EmailCodeLifetime_def by blast
qed

theorem code_guessing_is_bounded_witness:
  "world_reachable demo_mistaken \<and> ec_AttemptsUsed demo_mistaken_challenge = 1
     \<and> count_where (\<lambda>a. ea_ChallengeID a = ''c'' \<and> ea_Result a = ''invalid'') (email_login_attempts demo_mistaken) = 1"
  using code_guessing_is_bounded [OF demo_mistaken_reached, of demo_mistaken_challenge] demo_mistaken_reached by simp

text \<open>
  C34 (bounds). A code is sent only when the address was sent less than five and the source asked for less than twenty in
  the last hour, and the last one to the address was made at least a minute ago; it replaces the codes
  sent to the address before, and no other challenge changes.
\<close>

theorem codes_are_rationed:
  assumes "PrepareEmailChallenge c E d = (r, d')" "d' \<noteq> d"
  shows "count_where (\<lambda>ch. ec_CanonicalEmail ch = pec_CanonicalEmail c \<and> recent E ch) (email_login_challenges d) < 5
    \<and> count_where (\<lambda>ch. ec_SourceDigest ch = pec_SourceDigest c \<and> recent E ch) (email_login_challenges d) < 20
    \<and> (\<forall>ch \<in> set (email_login_challenges d). ec_CanonicalEmail ch = pec_CanonicalEmail c \<longrightarrow> ec_CreatedAt ch + minutes 1 \<le> tx_time E)
    \<and> (\<forall>ch \<in> set (email_login_challenges d'). ec_CanonicalEmail ch = pec_CanonicalEmail c \<longrightarrow> current_challenge ch \<longrightarrow>
         ec_ChallengeID ch = pec_ChallengeID c \<and> ec_ExpiresAt ch = tx_time E + minutes 5 \<and> ec_AttemptsUsed ch = 0)
    \<and> (\<forall>ch \<in> set (email_login_challenges d). ec_CanonicalEmail ch \<noteq> pec_CanonicalEmail c \<longrightarrow> ch \<in> set (email_login_challenges d'))"
proof -
  from assms obtain v n where "PrepareEmailChallenge_tx c (purpose_of (pec_Purpose c)) E d 0 = Inr (v, d', n)"
    unfolding PrepareEmailChallenge_def by (elim checked_cases transact_cases) auto
  from PrepareEmailChallenge_tx_effect [OF this] assms(2)
  have a: "admitted E c d" and d': "d' = prepared_db E c (challenge_for E c (purpose_of (pec_Purpose c))) d" by blast+
  have "\<forall>ch \<in> set (email_login_challenges d'). ec_CanonicalEmail ch = pec_CanonicalEmail c \<longrightarrow> current_challenge ch \<longrightarrow>
         ec_ChallengeID ch = pec_ChallengeID c \<and> ec_ExpiresAt ch = tx_time E + minutes 5 \<and> ec_AttemptsUsed ch = 0"
    by (auto simp: d' prepared_db_def update_where_ball current_challenge_def)
  moreover have "\<forall>ch \<in> set (email_login_challenges d). ec_CanonicalEmail ch \<noteq> pec_CanonicalEmail c \<longrightarrow> ch \<in> set (email_login_challenges d')"
    by (auto simp: d' prepared_db_def update_where_def image_iff)
  ultimately show ?thesis using a unfolding admitted_def sql_CountRecentEmailChallenges_def sql_CountRecentSourceChallenges_def by blast
qed

theorem codes_are_rationed_witness:
  "count_where (\<lambda>ch. ec_CanonicalEmail ch = ''alice@x.io'' \<and> recent (demo_env ''c'' 10) ch) (email_login_challenges empty_db) < 5
     \<and> demo_challenge \<in> set (email_login_challenges demo_asked) \<and> ec_ExpiresAt demo_challenge = 10 + minutes 5"
proof -
  have "demo_asked \<noteq> empty_db" by (simp add: demo_asked_def empty_db_def)
  moreover have "PrepareEmailChallenge demo_ask (demo_env ''c'' 10) empty_db = (fst (PrepareEmailChallenge demo_ask (demo_env ''c'' 10) empty_db), demo_asked)"
    using demo_asked_run by (simp add: prod_eq_iff)
  ultimately show ?thesis using codes_are_rationed [of demo_ask "demo_env ''c'' 10" empty_db _ demo_asked] by (simp add: demo_ask_def)
qed

section \<open>Ways to sign in\<close>

text \<open>
  C35 (invariant). In every state the server can reach, every User has a way to sign in, an Email address or a
  provider account signs in one User only, a User has at most one method of each kind, and every Session is
  of a User.
\<close>

theorem everybody_can_sign_in:
  assumes "world_reachable d"
  shows "(\<forall>u \<in> set (carry_users d). 0 < count_methods (u_UserID u) d)
    \<and> (\<forall>e \<in> set (email_identities d). \<forall>f \<in> set (email_identities d). ei_CanonicalEmail e = ei_CanonicalEmail f \<or> ei_UserID e = ei_UserID f \<longrightarrow> e = f)
    \<and> (\<forall>g \<in> set (google_identities d). \<forall>h \<in> set (google_identities d).
         (gg_Issuer g = gg_Issuer h \<and> gg_Subject g = gg_Subject h) \<or> gg_UserID g = gg_UserID h \<longrightarrow> g = h)
    \<and> (\<forall>g \<in> set (github_identities d). \<forall>h \<in> set (github_identities d). gh_GithubUserID g = gh_GithubUserID h \<or> gh_UserID g = gh_UserID h \<longrightarrow> g = h)
    \<and> (\<forall>b \<in> set (browser_sessions d). \<exists>u \<in> set (carry_users d). u_UserID u = bs_UserID b)"
proof -
  have ok: "keys_ok d" "owners_exist d" "can_sign_in nobody d"
    using world_reachable_ok [OF assms] by (simp_all add: world_ok_def login_ok_def methods_ok_def)
  have same: "unique_on k (\<lambda>_. True) t \<Longrightarrow> \<forall>x \<in> set t. \<forall>y \<in> set t. k x = k y \<longrightarrow> x = y" for k :: "'b \<Rightarrow> 'c" and t
    by (blast dest: unique_onD)
  show ?thesis
  proof (intro conjI)
    show "\<forall>u \<in> set (carry_users d). 0 < count_methods (u_UserID u) d" using ok(3) by (simp add: can_sign_in_def)
    show "\<forall>b \<in> set (browser_sessions d). \<exists>u \<in> set (carry_users d). u_UserID u = bs_UserID b"
      using ok(2) by (simp add: owners_exist_def has_user_def)
    show "\<forall>e \<in> set (email_identities d). \<forall>f \<in> set (email_identities d). ei_CanonicalEmail e = ei_CanonicalEmail f \<or> ei_UserID e = ei_UserID f \<longrightarrow> e = f"
      using ok(1) same [of ei_CanonicalEmail "email_identities d"] same [of ei_UserID "email_identities d"] unfolding keys_ok_def by blast
    show "\<forall>g \<in> set (google_identities d). \<forall>h \<in> set (google_identities d).
         (gg_Issuer g = gg_Issuer h \<and> gg_Subject g = gg_Subject h) \<or> gg_UserID g = gg_UserID h \<longrightarrow> g = h"
      using ok(1) same [of google_key "google_identities d"] same [of gg_UserID "google_identities d"] unfolding keys_ok_def google_key_def by simp
    show "\<forall>g \<in> set (github_identities d). \<forall>h \<in> set (github_identities d). gh_GithubUserID g = gh_GithubUserID h \<or> gh_UserID g = gh_UserID h \<longrightarrow> g = h"
      using ok(1) same [of gh_GithubUserID "github_identities d"] same [of gh_UserID "github_identities d"] unfolding keys_ok_def by blast
  qed
qed

theorem everybody_can_sign_in_witness:
  "world_reachable demo_signed_in \<and> u_DisplayName (hd (carry_users demo_signed_in)) = ''Member alice'' \<and> 0 < count_methods ''alice'' demo_signed_in"
  using everybody_can_sign_in [OF demo_signed_in_reached] demo_signed_in_reached by simp

end
