(* ===== verification/External_Guarantees.thy ===== *)
theory External_Guarantees
  imports Identity_Guarantees
begin

text \<open>
  A journey of Alice after her first sign-in: she links a Google account, which ends her Session and opens
  another, and then unlinks her Email address.
\<close>

section \<open>Linking\<close>

definition demo_link :: create_proof_command where
  "demo_link = \<lparr>cpc_TransactionID = ''x'', cpc_Provider = GoogleLoginProvider, cpc_Purpose = LinkPurpose, cpc_TargetUserID = ''alice'',
     cpc_InitiatingSessionID = ''as''\<rparr>"

definition demo_transaction :: external_transaction_row where
  "demo_transaction = new_external (demo_env ''p'' 40) ''x'' GoogleLoginProvider LinkPurpose (Some ''alice'') (Some ''as'') None (replicate 32 (CHR 0x00))"

definition demo_linking :: db where
  "demo_linking = demo_signed_in\<lparr>external_login_transactions := [demo_transaction]\<rparr>"

abbreviation demo_session :: session_row where
  "demo_session \<equiv> new_session (demo_env ''alice'' 30) ''as'' ''alice'' EmailMethod"

lemma demo_linking_run: "snd (CreateExternalIdentityProof demo_link (demo_env ''p'' 40) demo_signed_in) = demo_linking"
proof -
  have row: "external_columns_ok demo_transaction"
    by (simp add: demo_transaction_def external_columns_ok_def new_external_def purpose_defs validProofPurpose_def validExternalLoginProvider_def GoogleLoginProvider_def)
  show ?thesis
    by (simp add: CreateExternalIdentityProof_def checked_def guard_def valid_proof_def demo_link_def validExternalLoginProvider_def
        purpose_defs validIdentityProofTarget_def transact_healthy demo_env_healthy CreateExternalIdentityProof_tx_def tx_run
        sql_LockUserForIdentityChange_def user_of_def loadIdentitySession_def sql_LockBrowserSessionForIdentityChange_def sql_EmailLoginDatabaseTime_def
        IdentityProofLifetime_def lenientUUID_def sql_CreateExternalLogin_def key_taken_def row [unfolded demo_transaction_def purpose_defs]
        demo_linking_def demo_transaction_def)
qed

definition demo_claim :: claim_external_command where
  "demo_claim = \<lparr>cxc_TransactionID = ''x'', cxc_Provider = GoogleLoginProvider, cxc_CallbackDigest = demo_bytes (CHR ''g''), cxc_Outcome = ExternalCallbackCode\<rparr>"

definition demo_link_claimed :: db where
  "demo_link_claimed = demo_linking\<lparr>external_login_transactions := [claimed_external (demo_bytes (CHR ''g'')) demo_transaction]\<rparr>"

lemma demo_transaction_fields [simp]:
  "et_TransactionID demo_transaction = ''x''" "et_Provider demo_transaction = GoogleLoginProvider" "et_Status demo_transaction = ''prepared''"
  "et_CallbackDigest demo_transaction = None" "et_ExpiresAt demo_transaction = 40 + minutes 10" "et_Purpose demo_transaction = LinkPurpose"
  "et_TargetUserID demo_transaction = Some ''alice''" "et_InitiatingSessionID demo_transaction = Some ''as''" "et_InvitationID demo_transaction = None"
  by (simp_all add: demo_transaction_def)

lemma demo_linking_tables [simp]:
  "external_login_transactions demo_linking = [demo_transaction]" "browser_sessions demo_linking = [demo_session]"
  by (simp_all add: demo_linking_def)

lemma demo_link_claimed_run: "snd (ClaimExternalLogin demo_claim (demo_env ''p'' 50) demo_linking) = demo_link_claimed"
  by (simp add: ClaimExternalLogin_def checked_def guard_def valid_claim_def demo_claim_def validExternalLoginProvider_def
      transact_answer_def transact_healthy demo_env_healthy ClaimExternalLogin_tx_def tx_run with_claim_def sql_LockExternalLogin_def
      sql_ExternalLoginDatabaseTime_def claim_by_status_def claim_prepared_def sql_ClaimExternalLoginExchange_def update_externals_def
      open_external_def count_where_def update_where_def demo_link_claimed_def)

section \<open>The link takes effect\<close>

definition demo_google :: complete_google_command where
  "demo_google = \<lparr>cgc_TransactionID = ''x'', cgc_CallbackDigest = demo_bytes (CHR ''g''), cgc_Issuer = google_issuer, cgc_Subject = ''sub'',
     cgc_SessionID = ''gs''\<rparr>"

lemma demo_google_fields [simp]:
  "cgc_TransactionID demo_google = ''x''" "cgc_CallbackDigest demo_google = demo_bytes (CHR ''g'')" "cgc_Issuer demo_google = google_issuer"
  "cgc_Subject demo_google = ''sub''" "cgc_SessionID demo_google = ''gs''"
  by (simp_all add: demo_google_def)

definition demo_account :: google_identity_row where
  "demo_account = \<lparr>gg_Issuer = google_issuer, gg_Subject = ''sub'', gg_UserID = ''alice'', gg_VerifiedAt = 60\<rparr>"

abbreviation demo_google_session :: session_row where
  "demo_google_session \<equiv> new_session (demo_env ''y'' 60) ''gs'' ''alice'' GoogleLoginProvider"

definition demo_linked :: db where
  "demo_linked = demo_link_claimed\<lparr>google_identities := [demo_account],
     browser_sessions := [revoked_session 69 demo_session, demo_google_session],
     external_login_transactions := [completed_external (demo_env ''y'' 60) (Some ''alice'') (Some ''gs'')
       (claimed_external (demo_bytes (CHR ''g'')) demo_transaction)]\<rparr>"


lemma demo_link_claimed_tables [simp]:
  "external_login_transactions demo_link_claimed = [claimed_external (demo_bytes (CHR ''g'')) demo_transaction]"
  "browser_sessions demo_link_claimed = [demo_session]" "carry_users demo_link_claimed = [\<lparr>u_UserID = ''alice'', u_DisplayName = ''Member alice'', u_CreatedAt = 30\<rparr>]"
  "google_identities demo_link_claimed = []"
  by (simp_all add: demo_link_claimed_def demo_linking_def)

lemma demo_link_claimed_fields [simp]:
  "et_TransactionID (claimed_external g t) = et_TransactionID t" "et_Provider (claimed_external g t) = et_Provider t"
  "et_Status (claimed_external g t) = ''exchanging''" "et_CallbackDigest (claimed_external g t) = Some g"
  "et_ExpiresAt (claimed_external g t) = et_ExpiresAt t" "et_Purpose (claimed_external g t) = et_Purpose t"
  "et_TargetUserID (claimed_external g t) = et_TargetUserID t" "et_InitiatingSessionID (claimed_external g t) = et_InitiatingSessionID t"
  "et_InvitationID (claimed_external g t) = et_InvitationID t"
  by (simp_all add: claimed_external_def)

lemma run_observed: "observed m E d n = (case m E d n of Inl e \<Rightarrow> Inr (Inl e, d, Suc n) | Inr (x, d', n') \<Rightarrow> Inr (Inr x, d', n'))"
  by (simp add: observed_def)

lemma demo_resolve_run:
  "resolve_identity (google_ops google_issuer ''sub'') (claimed_external (demo_bytes (CHR ''g'')) demo_transaction) (demo_env ''y'' 60) demo_link_claimed (Suc (Suc 0))
     = Inr (''alice'', demo_link_claimed\<lparr>google_identities := [demo_account]\<rparr>, 9)"
  by (simp add: resolve_identity_def purpose_defs advisory_lock_def Let_def run_observed tx_run google_ops_def sql_LoadGoogleIdentity_def uuidValue_def textValue_def
      lock_user_def run_instead sql_LockUserForIdentityChange_def user_of_def loadIdentitySession_def sql_LockBrowserSessionForIdentityChange_def
      sql_EmailLoginDatabaseTime_def IdentityProofLifetime_def resolve_link_def lift_def sql_LoadGoogleMethodForUser_def sql_CreateGoogleIdentity_def
      google_issuer_def key_taken_def exists_where_def demo_account_def)

lemma revoked_fields: "bs_SessionID (revoked_session t b) = bs_SessionID b" "bs_UserID (revoked_session t b) = bs_UserID b"
  "bs_RevokedAt (revoked_session t b) = Some t"
  by (simp_all add: revoked_session_def)

lemma google_valid: "validMethod GoogleLoginProvider"
  by (simp add: validMethod_def GoogleMethod_def GoogleLoginProvider_def)

lemma demo_linked_run: "snd (CompleteGoogleLogin demo_google (demo_env ''y'' 60) demo_link_claimed) = demo_linked"
  by (simp add: CompleteGoogleLogin_def checked_def guard_def valid_google_def plain_normal_forms(6,7) plain_text_def is_space_def
      transact_healthy demo_env_healthy complete_external_def validateExternalCompletion_def tx_run sql_LockExternalLogin_def
      sql_ExternalLoginDatabaseTime_def demo_resolve_run completeExternalProofTransaction_def end_sessions_def purpose_defs
      sql_RevokeUserBrowserSessions_def update_where_def open_session_def sql_CreateBrowserSession_def key_taken_def exists_where_def
      lenientUUID_def sql_CompleteExternalLogin_def exchanged_def update_externals_def count_where_def demo_linked_def
      revoked_fields google_valid)

section \<open>Unlinking the address\<close>

definition demo_unlink :: unlink_identity_command where
  "demo_unlink = \<lparr>uli_InitiatingSessionID = ''gs'', uli_Method = EmailMethod, uli_IdempotencyKey = ''key'',
     uli_RequestDigest = demo_bytes (CHR ''u''), uli_ReplacementSessionID = ''us''\<rparr>"

lemma demo_unlink_fields [simp]:
  "uli_InitiatingSessionID demo_unlink = ''gs''" "uli_Method demo_unlink = EmailMethod" "uli_IdempotencyKey demo_unlink = ''key''"
  "uli_ReplacementSessionID demo_unlink = ''us''" "uli_RequestDigest demo_unlink = demo_bytes (CHR ''u'')"
  by (simp_all add: demo_unlink_def)

lemma demo_linked_tables [simp]:
  "browser_sessions demo_linked = [revoked_session 69 demo_session, demo_google_session]" "google_identities demo_linked = [demo_account]"
  "email_identities demo_linked = [\<lparr>ei_CanonicalEmail = ''alice@x.io'', ei_UserID = ''alice'', ei_VerifiedAt = 30\<rparr>]"
  "github_identities demo_linked = []" "identity_method_unlinks demo_linked = []"
  "carry_users demo_linked = [\<lparr>u_UserID = ''alice'', u_DisplayName = ''Member alice'', u_CreatedAt = 30\<rparr>]"
  by (simp_all add: demo_linked_def demo_link_claimed_def demo_linking_def)

lemma demo_linked_methods: "count_methods ''alice'' demo_linked = 2"
  by (simp add: count_methods_def count_where_def demo_account_def)

lemma method_names [simp]: "GoogleLoginProvider \<noteq> EmailMethod" "EmailMethod \<noteq> GoogleMethod" "EmailMethod \<noteq> GitHubMethod" "validMethod EmailMethod"
  by (simp_all add: GoogleLoginProvider_def EmailMethod_def GoogleMethod_def GitHubMethod_def validMethod_def)

lemma demo_authority_run:
  "unlink_authority demo_unlink (demo_env ''z'' 90) demo_linked n = Inr (demo_google_session, demo_linked, n + 9)"
  by (simp add: unlink_authority_def tx_run sql_LoadBrowserSessionByID_def revoked_fields lockIdentityMethodKey_def lock_method_owner_def
      sql_LoadEmailMethodForUser_def advisory_lock_def sql_LoadEmailIdentity_def sql_LockUserForIdentityChange_def user_of_def
      loadIdentitySession_def sql_LockBrowserSessionForIdentityChange_def sql_EmailLoginDatabaseTime_def IdentityProofLifetime_def
      revalidateIdentityMethodKey_def method_key_def sql_CountIdentityMethods_def demo_linked_methods)

lemma demo_unlink_run:
  "\<exists>now. unlink_now demo_unlink demo_google_session (demo_env ''z'' 90) demo_linked n
     = Inr (browserSession (new_session (demo_env ''z'' 90) ''us'' ''alice'' GoogleLoginProvider) LinkPurpose GoogleLoginProvider,
         unlinked_db (demo_env ''z'' 90) demo_unlink demo_google_session now demo_linked, n + 4)"
  by (rule exI [of _ "91 + int n"]) (simp add: unlink_now_def delete_method_def tx_run sql_DeleteEmailMethod_def count_where_def sql_RevokeUserBrowserSessions_def revoked_fields
      open_session_def sql_CreateBrowserSession_def google_valid key_taken_def exists_where_def update_where_def
      sql_RecordIdentityMethodUnlink_def new_unlink_def unlinked_db_def Let_def with_session_def revoked_sessions_db_def without_method_def)

definition demo_unlinked :: db where
  "demo_unlinked = snd (UnlinkIdentityMethod demo_unlink (demo_env ''z'' 90) demo_linked)"

lemma demo_unlinked_run: "\<exists>now. demo_unlinked = unlinked_db (demo_env ''z'' 90) demo_unlink demo_google_session now demo_linked"
proof -
  obtain now where now: "unlink_now demo_unlink demo_google_session (demo_env ''z'' 90) demo_linked 10
     = Inr (browserSession (new_session (demo_env ''z'' 90) ''us'' ''alice'' GoogleLoginProvider) LinkPurpose GoogleLoginProvider,
         unlinked_db (demo_env ''z'' 90) demo_unlink demo_google_session now demo_linked, 14)"
    using demo_unlink_run [of 10] by auto
  have "UnlinkIdentityMethod_tx demo_unlink (demo_env ''z'' 90) demo_linked 0
     = Inr (browserSession (new_session (demo_env ''z'' 90) ''us'' ''alice'' GoogleLoginProvider) LinkPurpose GoogleLoginProvider,
         unlinked_db (demo_env ''z'' 90) demo_unlink demo_google_session now demo_linked, 14)"
    by (simp add: UnlinkIdentityMethod_tx_def tx_run sql_LoadIdentityMethodUnlinkReplay_def demo_authority_run now)
  then show ?thesis
    by (intro exI [of _ now]) (simp add: demo_unlinked_def UnlinkIdentityMethod_def checked_def guard_def valid_unlink_def demo_normal_forms transact_healthy demo_env_healthy)
qed

section \<open>The journey\<close>

lemma demo_linking_reached: "world_reachable demo_linking" "world_step demo_linking demo_link_claimed"
  using world_next [OF demo_signed_in_reached answered [of demo_signed_in "Create_external_proof demo_link" "demo_env ''p'' 40"]]
    answered [of demo_linking "Claim_external demo_claim" "demo_env ''p'' 50"] by (simp_all add: demo_linking_run demo_link_claimed_run)

lemma demo_link_claimed_reached: "world_reachable demo_link_claimed"
  by (rule world_next [OF demo_linking_reached])

lemma demo_linked_reached: "world_reachable demo_linked"
  using world_next [OF demo_link_claimed_reached answered [of demo_link_claimed "Complete_google demo_google" "demo_env ''y'' 60"]]
  by (simp add: demo_linked_run)


text \<open>What holds of external logins and of unlinking a method, with one journey of a User that witnesses it.\<close>

section \<open>External logins\<close>

lemma completes_opens:
  assumes "completes E ops p i g s t d u v d'" "b \<in> set (browser_sessions d')" "b \<notin> set (browser_sessions d)" "bs_RevokedAt b = None"
    and r: "\<And>d1. resolves E ops t d u d1 \<Longrightarrow> external_login_transactions d1 = external_login_transactions d \<and> browser_sessions d1 = browser_sessions d"
  shows "b = new_session E s u p" "t \<in> set (external_login_transactions d)" "open_exchange E i p g t" "\<exists>d1. resolves E ops t d u d1"
    "\<exists>q \<in> set (external_login_transactions d'). et_TransactionID q = i \<and> et_Status q = ''succeeded'' \<and> et_BrowserSessionID q = Some s \<and> et_UserID q = Some u"
proof -
  from assms(1) obtain d1 now where t: "sql_LockExternalLogin i d = Some t" "open_exchange E i p g t" and res: "resolves E ops t d u d1"
    and d': "d' = updated_externals (open_exchange E i p g) (completed_external E (Some u) (Some s)) (with_session E s u p (ends_sessions t u now d1))"
    unfolding completes_def by blast
  show "t \<in> set (external_login_transactions d)" "open_exchange E i p g t" "\<exists>d1. resolves E ops t d u d1"
    using locked_external [OF t(1)] t(2) res by blast+
  have "sessions_end d (ends_sessions t u now d1)"
    using sessions_end_same [of d1 d] r [OF res] by (simp add: ends_sessions_def sessions_end_revoked)
  then show "b = new_session E s u p"
    using assms(2-4) by (auto simp: d' updated_externals_def with_session_def sessions_end_def)
  have "completed_external E (Some u) (Some s) t \<in> set (external_login_transactions d')"
    using locked_external [OF t(1)] t(2) r [OF res]
    by (auto simp: d' updated_externals_def with_session_def ends_sessions_def revoked_sessions_db_def update_where_def image_iff)
  then show "\<exists>q \<in> set (external_login_transactions d'). et_TransactionID q = i \<and> et_Status q = ''succeeded'' \<and> et_BrowserSessionID q = Some s \<and> et_UserID q = Some u"
    by (rule bexI [rotated]) (use locked_external [OF t(1)] in \<open>simp add: completed_external_def\<close>)
qed

text \<open>
  C36 (safety). A Session that Google opens needs a sign-in that one response of Google has claimed and that is not over;
  it belongs to the User whose account it is; a sign-in made to confirm or to link is of the User who asked,
  whose Session is live, and an account that is linked was nobody's; and the sign-in is then settled
  with this Session, so it opens no other.
\<close>

theorem google_session_needs_its_sign_in:
  assumes "world_reachable d" "CompleteGoogleLogin c E d = (r, d')" "b \<in> set (browser_sessions d')" "b \<notin> set (browser_sessions d)" "bs_RevokedAt b = None"
  shows "bs_SessionID b = cgc_SessionID c \<and> sql_LoadGoogleIdentity (cgc_Issuer c) (cgc_Subject c) d' = Some (bs_UserID b)
    \<and> (\<exists>t \<in> set (external_login_transactions d). et_TransactionID t = cgc_TransactionID c \<and> et_Provider t = ''google''
        \<and> et_Status t = ''exchanging'' \<and> et_CallbackDigest t = Some (cgc_CallbackDigest c) \<and> tx_time E < et_ExpiresAt t
        \<and> (et_Purpose t \<noteq> ''login'' \<longrightarrow> bs_UserID b = uuidValue (et_TargetUserID t)
             \<and> (\<exists>s. live_session (uuidValue (et_InitiatingSessionID t)) (bs_UserID b) (tx_time E) d s))
        \<and> (et_Purpose t = ''link'' \<longrightarrow> sql_LoadGoogleIdentity (cgc_Issuer c) (cgc_Subject c) d = None))
    \<and> (\<exists>q \<in> set (external_login_transactions d'). et_TransactionID q = cgc_TransactionID c \<and> et_Status q = ''succeeded''
        \<and> et_BrowserSessionID q = Some (bs_SessionID b) \<and> et_UserID q = Some (bs_UserID b))"
proof -
  let ?ops = "google_ops (cgc_Issuer c) (cgc_Subject c)"
  have ok: "methods_ok nobody d" using world_reachable_ok [OF assms(1)] by (simp add: world_ok_def login_ok_def)
  have "d' \<noteq> d" using assms(3,4) by blast
  with assms(2) obtain t u v where c: "completes E ?ops GoogleLoginProvider (cgc_TransactionID c) (cgc_CallbackDigest c) (cgc_SessionID c) t d u v d'"
    by (blast elim: CompleteGoogleLogin_cases)
  have "\<And>d1. resolves E ?ops t d u d1 \<Longrightarrow> external_login_transactions d1 = external_login_transactions d \<and> browser_sessions d1 = browser_sessions d"
    using google.resolved_tables ok by blast
  note o = completes_opens [OF c assms(3-5) this]
  from o(4) obtain d1 where res: "resolves E ?ops t d u d1" by blast
  have owner: "sql_LoadGoogleIdentity (cgc_Issuer c) (cgc_Subject c) d' = Some u"
    using google.completed(2) [OF c ok] by (simp add: google_ops_def)
  have "et_Purpose t \<noteq> ''login'' \<longrightarrow> u = uuidValue (et_TargetUserID t) \<and> (\<exists>s. live_session (uuidValue (et_InitiatingSessionID t)) u (tx_time E) d s)"
    using res by (auto simp: resolves_def purpose_defs)
  moreover have "et_Purpose t = ''link'' \<longrightarrow> sql_LoadGoogleIdentity (cgc_Issuer c) (cgc_Subject c) d = None"
    using res by (auto simp: resolves_def purpose_defs google_ops_def)
  moreover have b: "bs_SessionID b = cgc_SessionID c" "bs_UserID b = u" by (simp_all add: o(1))
  moreover have "et_TransactionID t = cgc_TransactionID c \<and> et_Provider t = ''google'' \<and> et_Status t = ''exchanging''
      \<and> et_CallbackDigest t = Some (cgc_CallbackDigest c) \<and> tx_time E < et_ExpiresAt t"
    using o(3) by (simp add: open_exchange_def exchanged_def GoogleLoginProvider_def)
  ultimately show ?thesis using o(2,5) owner unfolding b by blast
qed

theorem google_session_needs_its_sign_in_witness:
  "demo_google_session \<in> set (browser_sessions demo_linked) \<and> sql_LoadGoogleIdentity google_issuer ''sub'' demo_linked = Some ''alice''
     \<and> sql_LoadGoogleIdentity google_issuer ''sub'' demo_link_claimed = None
     \<and> (\<exists>q \<in> set (external_login_transactions demo_linked). et_Status q = ''succeeded'' \<and> et_BrowserSessionID q = Some ''gs'')"
proof -
  have run: "CompleteGoogleLogin demo_google (demo_env ''y'' 60) demo_link_claimed
      = (fst (CompleteGoogleLogin demo_google (demo_env ''y'' 60) demo_link_claimed), demo_linked)"
    using demo_linked_run by (simp add: prod_eq_iff)
  have new: "demo_google_session \<in> set (browser_sessions demo_linked)" "demo_google_session \<notin> set (browser_sessions demo_link_claimed)"
    by (simp_all add: new_session_def)
  show ?thesis
    using google_session_needs_its_sign_in [OF demo_link_claimed_reached run new] new by (auto simp: sql_LoadGoogleIdentity_def)
qed

text \<open>
  C37 (refinement). Each step of the server leaves an external sign-in as it is or is a step of its protocol, at the time the step is
  taken: it is prepared and expires ten minutes later; before that one response of the provider claims it or turns it down, and only
  what claimed it settles it, with success only before it expires; it is forgotten, and its identifier used anew, only
  once it has expired. So whatever the server does before then, a sign-in that was claimed stays with the response that claimed it,
  and one that is settled stays as it was settled, with its one Session.
\<close>

theorem sign_in_follows_its_protocol:
  assumes "world_reachable d"
  shows "(\<forall>now d'. world_step_at now d d' \<longrightarrow> phase_at i d' = phase_at i d \<or> sign_in_step now (phase_at i d) (phase_at i d'))
    \<and> (\<forall>x e d'. phase_at i d = Some (x, e) \<longrightarrow> (\<lambda>a b. \<exists>now<e. world_step_at now a b)\<^sup>*\<^sup>* d d' \<longrightarrow>
         (\<exists>y. phase_at i d' = Some (y, e)
            \<and> (\<forall>g. x = Exchanging g \<longrightarrow> y = Exchanging g \<or> (\<exists>w s. y = Settled w g s))
            \<and> (\<forall>w g s. x = Settled w g s \<longrightarrow> y = x)))"
proof (intro conjI allI impI)
  note ok = world_reachable_ok [OF assms]
  show "phase_at i d' = phase_at i d \<or> sign_in_step now (phase_at i d) (phase_at i d')" if "world_step_at now d d'" for now d'
    using whole_phase_step [OF that ok] by (simp add: phase_moves_def)
  fix x e d' assume "phase_at i d = Some (x, e)" "(\<lambda>a b. \<exists>now<e. world_step_at now a b)\<^sup>*\<^sup>* d d'"
  from whole_phase_later [OF this(2) ok this(1)] obtain y where "phase_at i d' = Some (y, e)" "phase_later x y" by blast
  then show "\<exists>y. phase_at i d' = Some (y, e) \<and> (\<forall>g. x = Exchanging g \<longrightarrow> y = Exchanging g \<or> (\<exists>w s. y = Settled w g s))
      \<and> (\<forall>w g s. x = Settled w g s \<longrightarrow> y = x)"
    by (intro exI [of _ y]) (auto simp: phase_later_def)
qed

theorem sign_in_follows_its_protocol_witness:
  "sign_in_step 50 (Some (Prepared, 40 + minutes 10)) (Some (Exchanging (demo_bytes (CHR ''g'')), 40 + minutes 10))
     \<and> phase_at ''x'' demo_linking = Some (Prepared, 40 + minutes 10)
     \<and> phase_at ''x'' demo_link_claimed = Some (Exchanging (demo_bytes (CHR ''g'')), 40 + minutes 10)
     \<and> (\<exists>w s. phase_at ''x'' demo_linked = Some (Settled w (demo_bytes (CHR ''g'')) s, 40 + minutes 10))"
proof -
  have p: "phase_at ''x'' demo_linking = Some (Prepared, 40 + minutes 10)"
    "phase_at ''x'' demo_link_claimed = Some (Exchanging (demo_bytes (CHR ''g'')), 40 + minutes 10)"
    "\<exists>w g s. phase_at ''x'' demo_linked = Some (Settled w g s, 40 + minutes 10)"
    by (simp_all add: phase_at_def sql_LockExternalLogin_def phase_of_external_def demo_linked_def completed_external_def)
  have s: "world_step_at 50 demo_linking demo_link_claimed" "world_step_at 60 demo_link_claimed demo_linked"
    using answered_at [of "demo_env ''p'' 50" demo_linking "Claim_external demo_claim"]
      answered_at [of "demo_env ''y'' 60" demo_link_claimed "Complete_google demo_google"]
    by (simp_all add: demo_link_claimed_run demo_linked_run)
  have "phase_at ''x'' demo_link_claimed \<noteq> phase_at ''x'' demo_linking" unfolding p(1,2) by simp
  with sign_in_follows_its_protocol [OF demo_linking_reached(1), of "''x''", THEN conjunct1] s(1)
  have "sign_in_step 50 (phase_at ''x'' demo_linking) (phase_at ''x'' demo_link_claimed)" by blast
  then have 1: "sign_in_step 50 (Some (Prepared, 40 + minutes 10)) (Some (Exchanging (demo_bytes (CHR ''g'')), 40 + minutes 10))"
    unfolding p(1,2) .
  have "\<exists>now<40 + minutes 10. world_step_at now demo_link_claimed demo_linked"
    using s(2) by (intro exI [of _ 60]) simp
  then have "(\<lambda>a b. \<exists>now<40 + minutes 10. world_step_at now a b)\<^sup>*\<^sup>* demo_link_claimed demo_linked"
    by (rule r_into_rtranclp)
  with sign_in_follows_its_protocol [OF demo_link_claimed_reached, of "''x''", THEN conjunct2] p(2)
  obtain y where y: "phase_at ''x'' demo_linked = Some (y, 40 + minutes 10)"
      "y = Exchanging (demo_bytes (CHR ''g'')) \<or> (\<exists>w s. y = Settled w (demo_bytes (CHR ''g'')) s)" by blast
  obtain w g s where "phase_at ''x'' demo_linked = Some (Settled w g s, 40 + minutes 10)" using p(3) by blast
  with y have "y = Settled w g s" by (metis option.inject prod.inject)
  with y(2) have "\<exists>w s. y = Settled w (demo_bytes (CHR ''g'')) s" by auto
  with y(1) have 2: "\<exists>w s. phase_at ''x'' demo_linked = Some (Settled w (demo_bytes (CHR ''g'')) s, 40 + minutes 10)" by blast
  from 1 2 p(1,2) show ?thesis by blast
qed

section \<open>Unlinking\<close>

text \<open>
  C38 (safety). A method is unlinked only on behalf of a live Session that was proved recently and by another method, and
  only when the User has a second one; afterwards the User has exactly one method less, nobody else's
  methods change, and of all the User's Sessions only the replacement is live.
\<close>

theorem unlinking_keeps_a_way_in:
  assumes "world_reachable d" "UnlinkIdentityMethod c E d = (r, d')" "d' \<noteq> d"
  shows "\<exists>b. live_session (uli_InitiatingSessionID c) (bs_UserID b) (tx_time E) d b \<and> tx_time E < bs_IdentityProvedAt b + IdentityProofLifetime
    \<and> bs_IdentityProofMethod b \<noteq> uli_Method c
    \<and> 1 < count_methods (bs_UserID b) d \<and> count_methods (bs_UserID b) d' = count_methods (bs_UserID b) d - 1
    \<and> (\<forall>u. u \<noteq> bs_UserID b \<longrightarrow> count_methods u d' = count_methods u d)
    \<and> (\<forall>s \<in> set (browser_sessions d'). bs_UserID s = bs_UserID b \<longrightarrow> bs_RevokedAt s = None \<longrightarrow> bs_SessionID s = uli_ReplacementSessionID c)"
proof -
  from assms(2,3) obtain v n where "UnlinkIdentityMethod_tx c E d 0 = Inr (v, d', n)"
    unfolding UnlinkIdentityMethod_def by (elim checked_cases transact_cases) auto
  from UnlinkIdentityMethod_tx_effect [OF this] assms(3) obtain b where a: "unlink_allowed E c d b" and k: "unlinks E c b v d d'" by blast
  from k obtain now where m: "validMethod (uli_Method c)" "methods_named (bs_UserID b) (uli_Method c) d = 1" and d': "d' = unlinked_db E c b now d"
    unfolding unlinks_def by blast
  have "count_methods u d' = count_methods u (without_method (bs_UserID b) (uli_Method c) d)" for u
    by (simp add: d' unlinked_db_def Let_def count_methods_def with_session_def revoked_sessions_db_def)
  then have "count_methods (bs_UserID b) d' = count_methods (bs_UserID b) d - 1" "\<forall>u. u \<noteq> bs_UserID b \<longrightarrow> count_methods u d' = count_methods u d"
    using m(2) by (simp_all add: without_method_count)
  moreover have "\<forall>s \<in> set (browser_sessions d'). bs_UserID s = bs_UserID b \<longrightarrow> bs_RevokedAt s = None \<longrightarrow> bs_SessionID s = uli_ReplacementSessionID c"
    by (auto simp: d' unlinked_db_def Let_def with_session_def revoked_sessions_db_def update_where_ball revoked_session_def)
  ultimately show ?thesis using a unfolding unlink_allowed_def proved_recently_def by blast
qed

theorem unlinking_keeps_a_way_in_witness:
  "count_methods ''alice'' demo_linked = 2 \<and> count_methods ''alice'' demo_unlinked = 1
     \<and> map bs_SessionID (filter (\<lambda>s. bs_UserID s = ''alice'' \<and> bs_RevokedAt s = None) (browser_sessions demo_unlinked)) = [''us'']"
proof -
  obtain now where d: "demo_unlinked = unlinked_db (demo_env ''z'' 90) demo_unlink demo_google_session now demo_linked" using demo_unlinked_run by blast
  have "identity_method_unlinks demo_unlinked \<noteq> []" by (simp add: d unlinked_db_def Let_def)
  then have ne: "demo_unlinked \<noteq> demo_linked" by auto
  have run: "UnlinkIdentityMethod demo_unlink (demo_env ''z'' 90) demo_linked
      = (fst (UnlinkIdentityMethod demo_unlink (demo_env ''z'' 90) demo_linked), demo_unlinked)"
    by (simp add: demo_unlinked_def prod_eq_iff)
  from unlinking_keeps_a_way_in [OF demo_linked_reached run ne]
  obtain b where b: "live_session ''gs'' (bs_UserID b) 90 demo_linked b" "count_methods (bs_UserID b) demo_unlinked = count_methods (bs_UserID b) demo_linked - 1"
    by auto
  from b(1) have "bs_UserID b = ''alice''" by (auto simp: live_session_def revoked_fields)
  moreover have "map bs_SessionID (filter (\<lambda>s. bs_UserID s = ''alice'' \<and> bs_RevokedAt s = None) (browser_sessions demo_unlinked)) = [''us'']"
    by (simp add: d unlinked_db_def Let_def with_session_def revoked_sessions_db_def update_where_def revoked_fields)
  ultimately show ?thesis using b demo_linked_methods by simp
qed

section \<open>Credentials\<close>

lemma parsed_session:
  assumes "ParseBrowserSessionCredential E root value = Some i"
  shows "\<exists>b. value = session_prefix @ i @ CHR ''.'' # b \<and> b64_decode b64_url b = Some (keyed_digest root ''carry/browser-session/v1'' [i])"
  using assms
  by (auto simp: ParseBrowserSessionCredential_def has_prefix_def split: if_split_asm list.split_asm
      dest!: split_on_pair) (metis append_eq_conv_conj append_take_drop_id)

text \<open>
  C39 (roundtrip). The credential a browser is given for a Session is read back as that Session; and whatever is read as a
  Session ends with the keyed digest of its identifier, which nobody computes without the identity root.
\<close>

theorem credential_names_its_session:
  assumes "BrowserSessionCredential E root i = Inr credential" "CHR ''.'' \<notin> set i"
  shows "ParseBrowserSessionCredential E root credential = Some i
    \<and> (\<forall>forged j. ParseBrowserSessionCredential E root forged = Some j \<longrightarrow>
         (\<exists>b. forged = session_prefix @ j @ CHR ''.'' # b \<and> b64_decode b64_url b = Some (keyed_digest root ''carry/browser-session/v1'' [j])))"
  using credential_roundtrip [OF assms] parsed_session by blast

theorem credential_names_its_session_witness:
  "\<exists>credential. BrowserSessionCredential (demo_env ''x'' 0) (demo_bytes (CHR ''k'')) ''as'' = Inr credential
     \<and> ParseBrowserSessionCredential (demo_env ''x'' 0) (demo_bytes (CHR ''k'')) credential = Some ''as''"
proof -
  have "\<exists>credential. BrowserSessionCredential (demo_env ''x'' 0) (demo_bytes (CHR ''k'')) ''as'' = Inr credential"
    by (simp add: BrowserSessionCredential_def)
  then obtain credential where c: "BrowserSessionCredential (demo_env ''x'' 0) (demo_bytes (CHR ''k'')) ''as'' = Inr credential" by blast
  with credential_names_its_session [OF c] show ?thesis by simp
qed

end
