(* ===== verification/Lasting_Records.thy ===== *)
theory Lasting_Records
  imports Whole_Server
begin

text \<open>
  What no step of the server undoes: a membership that was revoked stays as it is, with the record of its removal; a Machine
  that was revoked stays revoked; and an invitation keeps the time at which it ends, and once it is accepted or revoked stays as it is.
\<close>

definition membership_lasts :: "membership_row \<Rightarrow> membership_row \<Rightarrow> bool" where
  "membership_lasts m m' \<longleftrightarrow> membership_key m' = membership_key m \<and> (mb_RevokedAt m \<noteq> None \<longrightarrow> m' = m)"

definition machine_lasts :: "machine_row \<Rightarrow> machine_row \<Rightarrow> bool" where
  "machine_lasts m m' \<longleftrightarrow> m_MachineID m' = m_MachineID m \<and> (m_RevokedAt m \<noteq> None \<longrightarrow> m_RevokedAt m' \<noteq> None)"

definition invitation_lasts :: "invitation_row \<Rightarrow> invitation_row \<Rightarrow> bool" where
  "invitation_lasts i i' \<longleftrightarrow> iv_InvitationID i' = iv_InvitationID i \<and> iv_ExpiresAt i' = iv_ExpiresAt i \<and> (\<not> unended i \<longrightarrow> i' = i)"

lemmas row_lasts_defs = membership_lasts_def machine_lasts_def invitation_lasts_def

lemma row_lasts_refl [simp]: "membership_lasts m m" "machine_lasts k k" "invitation_lasts i i"
  by (simp_all add: row_lasts_defs)

lemma row_lasts_trans:
  "membership_lasts a b \<Longrightarrow> membership_lasts b c \<Longrightarrow> membership_lasts a c"
  "machine_lasts k l \<Longrightarrow> machine_lasts l q \<Longrightarrow> machine_lasts k q"
  "invitation_lasts i j \<Longrightarrow> invitation_lasts j h \<Longrightarrow> invitation_lasts i h"
  unfolding row_lasts_defs by auto

lemma grown_lasts_refl [simp]:
  "grown membership_lasts t t" "grown membership_lasts t (t @ s)" "grown machine_lasts u u" "grown machine_lasts u (u @ v)"
  "grown invitation_lasts w w" "grown invitation_lasts w (w @ x)"
  by (simp_all add: grown_refl grown_append)

definition lasts :: "db \<Rightarrow> db \<Rightarrow> bool" where
  "lasts d d' \<longleftrightarrow> grown membership_lasts (memberships d) (memberships d') \<and> grown machine_lasts (machines d) (machines d')
     \<and> grown invitation_lasts (space_invitations d) (space_invitations d')"

lemma lasts_refl [simp]: "lasts d d"
  by (simp add: lasts_def)

lemma lasts_trans: "lasts d d1 \<Longrightarrow> lasts d1 d2 \<Longrightarrow> lasts d d2"
  unfolding lasts_def by (elim conjE) (intro conjI; erule (1) grown_trans [rotated]; blast intro: row_lasts_trans)

interpretation lasting: growth lasts
  by unfold_locales (rule lasts_refl, rule lasts_trans)

section \<open>Methods\<close>

lemma lasts_same: "memberships d' = memberships d \<Longrightarrow> machines d' = machines d \<Longrightarrow> space_invitations d' = space_invitations d \<Longrightarrow> lasts d d'"
  by (simp add: lasts_def)

lemma leaves_lasts: "leaves space_part m \<Longrightarrow> leaves agent_part m \<Longrightarrow> leaves invitation_part m \<Longrightarrow> lasts d (snd (m E d))"
  by (rule lasts_same) (metis leaves_def space_part_def agent_part_def invitation_part_def prod.collapse prod.inject)+

lemma serve_lasts: "lasts d (serve q E d)"
  by (cases q) (simp_all add: leaves_lasts core_leaves [THEN identity_untouched(1)] core_leaves [THEN identity_untouched(2)]
      core_leaves [THEN identity_untouched(3)])

lemma login_lasts: "leaves business_part m \<Longrightarrow> lasts d (snd (m E d))"
  by (intro leaves_lasts leaves_business)

lemma invites_only_lasts:
  "invites_only d d' \<Longrightarrow> grown invitation_lasts (space_invitations d) (space_invitations d') \<Longrightarrow> lasts d d'"
  by (simp add: invites_only_def lasts_def space_part_def agent_part_def)

lemma connects_only_lasts: "connects_only d d' \<Longrightarrow> lasts d d'"
  by (auto simp: connects_only_def lasts_def space_part_def invitation_part_def)

lemma CreateSpace_lasts: "CreateSpace u c E d = (r, d') \<Longrightarrow> lasts d d'"
  by (erule CreateSpace_cases) (simp_all add: lasts_def created_db_def)

lemma removed_db_lasts: "lasts d (removed_db E c d)"
proof -
  have "machines (removed_db E c d) = machines d" "space_invitations (removed_db E c d) = space_invitations d"
    by (simp_all add: removed_db_def Let_def)
  moreover have "grown membership_lasts (memberships d) (memberships (removed_db E c d))"
    unfolding removed_db_members
    by (rule grown_update) (auto simp: membership_lasts_def active_membership_def membership_key_def revoked_membership_def)
  ultimately show ?thesis by (simp add: lasts_def)
qed

lemma RemoveSpaceMember_lasts: "RemoveSpaceMember c E d = (r, d') \<Longrightarrow> lasts d d'"
  by (erule RemoveSpaceMember_cases) (auto dest: RemoveSpaceMember_tx_effect intro: removed_db_lasts)

lemma report_lasts: "ReconcileAgentPresence folded c E d = (r, d') \<Longrightarrow> agents_ok d \<Longrightarrow> lasts d d'"
proof (erule (1) report_cases)
  fix new b missing assume d': "d' = after_report E c new b (sort (remdups missing)) d"
  have "grown machine_lasts (machines d) (machines d')" unfolding grown_def machine_lasts_def d'
    using after_report_machines by metis
  moreover have "memberships d' = memberships d" "space_invitations d' = space_invitations d"
    using after_report_leaves(2,3) unfolding d' space_part_def invitation_part_def by blast+
  ultimately show "lasts d d'" by (simp add: lasts_def)
qed simp

lemma PrepareInvitation_lasts: "PrepareInvitation c E d = (r, d') \<Longrightarrow> lasts d d'"
  unfolding PrepareInvitation_def
  by (elim checked_cases transact_cases) (auto dest!: PrepareInvitation_tx_effect simp: issued_db_def lasts_def)

lemma PrepareInvitationResend_lasts: "PrepareInvitationResend c E d = (r, d') \<Longrightarrow> lasts d d'"
  unfolding PrepareInvitationResend_def
  by (elim checked_cases transact_cases) (auto dest!: PrepareInvitationResend_tx_effect simp: resent_db_def lasts_def)

lemma RecordInvitationSubmission_lasts: "RecordInvitationSubmission c E d = (r, d') \<Longrightarrow> lasts d d'"
  by (drule RecordInvitationSubmission_effect) (auto simp: lasts_def)

lemma ended_grown:
  assumes "\<And>i. iv_InvitationID (f i) = iv_InvitationID i" "\<And>i. iv_ExpiresAt (f i) = iv_ExpiresAt i"
  shows "grown invitation_lasts t (update_where (\<lambda>i. iv_InvitationID i = j \<and> open_invitation now i) f t)"
  by (rule grown_update) (auto simp: invitation_lasts_def open_invitation_def unended_def assms)

lemma ending_rows:
  "iv_InvitationID (revoked_row u now k g i) = iv_InvitationID i" "iv_ExpiresAt (revoked_row u now k g i) = iv_ExpiresAt i"
  "iv_InvitationID (accepted_row u now r k g i) = iv_InvitationID i" "iv_ExpiresAt (accepted_row u now r k g i) = iv_ExpiresAt i"
  by (simp_all add: revoked_row_def accepted_row_def)

lemma RevokeInvitation_lasts: "RevokeInvitation c E d = (r, d') \<Longrightarrow> lasts d d'"
  by (drule RevokeInvitation_body) (auto dest!: RevokeInvitation_tx_effect simp: lasts_def intro!: ended_grown simp: ending_rows)

lemma accepted_db_lasts: "lasts d (accepted_db c now r d)" "lasts d (joined_db E c i d)"
  by (auto simp: lasts_def accepted_db_def joined_db_def intro!: ended_grown simp: ending_rows)

lemma AcceptInvitation_lasts: "AcceptInvitation c E d = (r, d') \<Longrightarrow> lasts d d'"
proof (drule AcceptInvitation_body, elim disjE exE)
  fix v n assume "AcceptInvitation_tx c E d 0 = Inr (v, d', n)"
  from AcceptInvitation_tx_effect [OF this] obtain i b where "d' = d \<or> first_acceptance c E d i b d'" by blast
  then show "lasts d d'"
  proof (elim disjE)
    assume "first_acceptance c E d i b d'"
    then obtain now where "d' = accepted_db c now ''already_member'' d \<or> d' = accepted_db c now ''joined'' (joined_db E c i d)"
      unfolding first_acceptance_def by blast
    then show ?thesis using accepted_db_lasts(1) lasts_trans [OF accepted_db_lasts(2) accepted_db_lasts(1)] by blast
  qed simp
qed simp

lemma revoked_db_lasts: "lasts d (revoked_db E kind userID key digest i d)"
proof -
  have "memberships (revoked_db E kind userID key digest i d) = memberships d" "space_invitations (revoked_db E kind userID key digest i d) = space_invitations d"
    "machines (revoked_db E kind userID key digest i d) = update_where (active_machine i) (revoked_machine_row E kind userID key digest) (machines d)"
    by (simp_all add: revoked_db_def retired_def sql_RemoveActiveAgentsForMachine_def)
  moreover have "grown machine_lasts (machines d) (update_where (active_machine i) (revoked_machine_row E kind userID key digest) (machines d))"
    by (rule grown_update) (simp_all add: machine_lasts_def)
  ultimately show ?thesis by (simp add: lasts_def)
qed

lemma revocations_last:
  "RevokeMachineFromBrowser c E d = (r, d') \<Longrightarrow> lasts d d'" "RevokeMachineFromHost q E d = (s, d') \<Longrightarrow> lasts d d'"
  unfolding RevokeMachineFromBrowser_def RevokeMachineFromHost_def
  by (auto elim!: transact_cases dest!: RevokeMachineFromBrowser_tx_effect RevokeMachineFromHost_tx_effect
      simp: revokes_by_user_def revokes_itself_def revoked_db_lasts split: if_split_asm)

lemmas method_lasts = CreateSpace_lasts RemoveSpaceMember_lasts report_lasts PrepareInvitation_lasts PrepareInvitationResend_lasts
  RecordInvitationSubmission_lasts RevokeInvitation_lasts AcceptInvitation_lasts revocations_last
  BeginMachineConnection_only [THEN connects_only_lasts] LookupMachineConnection_only [THEN connects_only_lasts]
  DecideMachineConnection_only [THEN connects_only_lasts] PollMachineConnection_only [THEN connects_only_lasts]
  CancelMachineConnection_only [THEN connects_only_lasts]

section \<open>Every step, and every history\<close>

lemma answer_lasts: "world_ok d \<Longrightarrow> lasts d (answer q E d)"
  by (cases q) (auto simp: serve_lasts login_lasts login_leaves world_ok_def intro: method_lasts [OF prod.collapse [symmetric]])

lemma step_lasts: "world_step d d' \<Longrightarrow> world_ok d \<Longrightarrow> lasts d d'"
  by (erule world_stepE) (auto simp: answer_lasts command_tables_def intro: lasts_same)

lemma steps_world: "world_step\<^sup>*\<^sup>* d d' \<Longrightarrow> world_ok d \<Longrightarrow> world_ok d'"
  by (induction rule: rtranclp_induct) (auto intro: step_world)

lemma steps_last:
  assumes "world_step\<^sup>*\<^sup>* d d'" "world_ok d" shows "lasts d d'"
  using assms(1)
proof induction
  case (step a b)
  then show ?case using step_lasts [OF step(2) steps_world [OF step(1) assms(2)]] lasts_trans by blast
qed simp

lemma revoked_membership_lasts:
  "lasts d d' \<Longrightarrow> m \<in> set (memberships d) \<Longrightarrow> mb_RevokedAt m \<noteq> None \<Longrightarrow> m \<in> set (memberships d')"
  by (auto simp: lasts_def membership_lasts_def dest: grownD)

lemma machine_revocation_lasts:
  assumes "lasts d d'" "unique_on m_MachineID (\<lambda>_. True) (machines d')" "m \<in> set (machines d)" "m_MachineID m = i" "machine_revoked i d"
  shows "machine_revoked i d'"
proof -
  obtain m' where m': "m' \<in> set (machines d')" "machine_lasts m m'" using assms(1,3) unfolding lasts_def by (meson grownD)
  with assms(3-5) have "m_MachineID m' = i" "m_RevokedAt m' \<noteq> None" by (auto simp: machine_lasts_def machine_revoked_def)
  with m'(1) assms(2) show ?thesis unfolding machine_revoked_def using unique_onD [of m_MachineID "\<lambda>_. True" "machines d'"] by metis
qed

lemma ended_invitation_lasts:
  assumes "lasts d d'" "i \<in> set (space_invitations d)" "\<not> open_invitation t i"
  obtains i' where "i' \<in> set (space_invitations d')" "iv_InvitationID i' = iv_InvitationID i" "\<not> open_invitation t i'" "\<not> unended i \<longrightarrow> i' = i"
proof -
  obtain i' where "i' \<in> set (space_invitations d')" "invitation_lasts i i'" using assms(1,2) unfolding lasts_def by (meson grownD)
  with assms(3) that show ?thesis by (auto simp: invitation_lasts_def open_invitation_def unended_def)
qed

end
