(* ===== verification/Invitation_Guarantees.thy ===== *)
theory Invitation_Guarantees
  imports Invitation_Acceptance Invitation_Decisions
begin

text \<open>
  What the invitation component promises: what an invitation may grant and when it may be issued,
  what an acceptance requires and does, that an ended invitation stays ended, and whom an
  Email about an invitation is sent to.
\<close>

section \<open>Issuing\<close>

lemma PrepareInvitation_body:
  "PrepareInvitation c E d = (r, d') \<Longrightarrow> d' = d \<or> (\<exists>v n. PrepareInvitation_tx c E d 0 = Inr (v, d', n))"
  unfolding PrepareInvitation_def by (elim checked_cases transact_cases) blast+

text \<open>
  C23 (safety). An invitation is recorded only for an active manager of its Space, never grants the right to enroll
  Machines unless the inviter has it, and only if no other invitation of that address to that Space is
  open and no active member of the Space owns the address. It is one new row, open for seven days.
\<close>

theorem invitation_grants_own_rights:
  assumes "PrepareInvitation c E d = (r, d')" "d' \<noteq> d"
  shows "(\<exists>m. member_named (pin_SpaceID c) (pin_ActorUserID c) d m \<and> mb_CanManageMembers m
       \<and> (pin_CanEnrollMachines c \<longrightarrow> mb_CanEnrollMachines m))
    \<and> (\<forall>i \<in> set (space_invitations d). iv_SpaceID i = pin_SpaceID c \<and> iv_RecipientEmail i = pin_RecipientEmail c \<longrightarrow>
         \<not> open_invitation (tx_time E) i)
    \<and> (\<forall>u. owned_email u (pin_RecipientEmail c) d \<longrightarrow> \<not> is_member (pin_SpaceID c) u d)
    \<and> (\<exists>i. space_invitations d' = space_invitations d @ [i] \<and> iv_SpaceID i = pin_SpaceID c \<and> iv_RecipientEmail i = pin_RecipientEmail c
         \<and> iv_InviterUserID i = pin_ActorUserID c \<and> iv_CanManageMembers i = pin_CanManageMembers c
         \<and> iv_CanEnrollMachines i = pin_CanEnrollMachines c
         \<and> (\<forall>t. open_invitation t i \<longleftrightarrow> t < tx_time E + InvitationLifetime))"
proof -
  from PrepareInvitation_body [OF assms(1)] assms(2) obtain v n where "PrepareInvitation_tx c E d 0 = Inr (v, d', n)" by blast
  from PrepareInvitation_tx_effect [OF this] assms(2) obtain m where
    m: "member_named (pin_SpaceID c) (pin_ActorUserID c) d m" "mb_CanManageMembers m" "pin_CanEnrollMachines c \<longrightarrow> mb_CanEnrollMachines m"
    and d': "d' = issued_db E c d" and c: "issuable E c d" by blast
  let ?i = "new_invitation E c"
  have "space_invitations d' = space_invitations d @ [?i] \<and> iv_SpaceID ?i = pin_SpaceID c \<and> iv_RecipientEmail ?i = pin_RecipientEmail c
         \<and> iv_InviterUserID ?i = pin_ActorUserID c \<and> iv_CanManageMembers ?i = pin_CanManageMembers c
         \<and> iv_CanEnrollMachines ?i = pin_CanEnrollMachines c
         \<and> (\<forall>t. open_invitation t ?i \<longleftrightarrow> t < tx_time E + InvitationLifetime)"
    by (simp add: d' issued_db_def new_invitation_def open_invitation_def)
  moreover have "\<forall>i \<in> set (space_invitations d). iv_SpaceID i = pin_SpaceID c \<and> iv_RecipientEmail i = pin_RecipientEmail c \<longrightarrow>
         \<not> open_invitation (tx_time E) i"
    using c by (auto simp: issuable_def sql_HasCurrentSpaceInvitation_def exists_where_iff)
  moreover have "\<forall>u. owned_email u (pin_RecipientEmail c) d \<longrightarrow> \<not> is_member (pin_SpaceID c) u d"
    using c by (auto simp: issuable_def sql_EmailOwnerIsActiveSpaceMember_def owned_email_def exists_where_iff)
  ultimately show ?thesis using m by blast
qed

section \<open>Accepting\<close>

lemma AcceptInvitation_success:
  assumes "AcceptInvitation c E d = (Inr v, d')"
  obtains n where "AcceptInvitation_tx c E d 0 = Inr (v, d', n)"
  using assms unfolding AcceptInvitation_def by (auto simp: checked_def split: sum.splits dest!: transact_Inr)

text \<open>
  C22 (safety). A successful acceptance repeats one already recorded under the same key, by a user who still is
  a member, and changes nothing; or it was made in a live Browser Session of the owner of the invited
  address, who proved that address at most ten minutes ago, while the invitation was open: then it
  ends that invitation and no other, and the User is an active member of the Space, by a membership with
  exactly the invited rights or, unchanged, by the one they had.
\<close>

theorem acceptance_requires_proof_and_joins:
  assumes "AcceptInvitation c E d = (Inr v, d')"
  shows "\<exists>i b. i \<in> set (space_invitations d) \<and> iv_InvitationID i = aci_InvitationID c \<and> acc_InvitedSpaceID v = iv_SpaceID i
    \<and> b \<in> set (browser_sessions d) \<and> bs_SessionID b = aci_SessionID c \<and> bs_UserID b = aci_UserID c \<and> bs_RevokedAt b = None
    \<and> owned_email (aci_UserID c) (iv_RecipientEmail i) d \<and> is_member (iv_SpaceID i) (aci_UserID c) d'
    \<and> (acceptance_recorded c i \<and> d' = d
       \<or> (\<exists>now result. open_invitation now i \<and> now < bs_ExpiresAt b
            \<and> bs_IdentityProofMethod b = EmailMethod \<and> now < bs_IdentityProvedAt b + IdentityProofLifetime
            \<and> space_invitations d' = update_where (\<lambda>j. iv_InvitationID j = aci_InvitationID c \<and> open_invitation now j)
                (accepted_row (Some (aci_UserID c)) now result (aci_IdempotencyKey c) (aci_RequestDigest c)) (space_invitations d)
            \<and> (if is_member (iv_SpaceID i) (aci_UserID c) d then memberships d' = memberships d
               else memberships d' = memberships d @ [new_membership E (iv_SpaceID i) (aci_UserID c)
                      (iv_CanManageMembers i) (iv_CanEnrollMachines i)])))"
proof (rule AcceptInvitation_success [OF assms])
  fix n assume "AcceptInvitation_tx c E d 0 = Inr (v, d', n)"
  from AcceptInvitation_tx_effect [OF this] obtain i b where
    i: "i \<in> set (space_invitations d)" "iv_InvitationID i = aci_InvitationID c" "acc_InvitedSpaceID v = iv_SpaceID i"
    and b: "recipient_session c d b" "owned_email (aci_UserID c) (iv_RecipientEmail i) d"
    and cases: "acceptance_recorded c i \<and> is_member (iv_SpaceID i) (aci_UserID c) d \<and> d' = d
       \<or> iv_AcceptedAt i = None \<and> first_acceptance c E d i b d'" by blast
  have effect: "is_member (iv_SpaceID i) (aci_UserID c) d' \<and> (acceptance_recorded c i \<and> d' = d
       \<or> (\<exists>now result. open_invitation now i \<and> proved_at b now
            \<and> space_invitations d' = update_where (\<lambda>j. iv_InvitationID j = aci_InvitationID c \<and> open_invitation now j)
                (accepted_row (Some (aci_UserID c)) now result (aci_IdempotencyKey c) (aci_RequestDigest c)) (space_invitations d)
            \<and> (if is_member (iv_SpaceID i) (aci_UserID c) d then memberships d' = memberships d
               else memberships d' = memberships d @ [new_membership E (iv_SpaceID i) (aci_UserID c)
                      (iv_CanManageMembers i) (iv_CanEnrollMachines i)])))"
    using cases
  proof (elim disjE conjE)
    assume "first_acceptance c E d i b d'"
    then obtain now where now: "open_invitation now i" "proved_at b now"
      and joined: "(\<exists>m. member_named (iv_SpaceID i) (aci_UserID c) d m \<and> d' = accepted_db c now ''already_member'' d)
        \<or> joinable c i d \<and> d' = accepted_db c now ''joined'' (joined_db E c i d)"
      unfolding first_acceptance_def by blast
    from joined show ?thesis
    proof (elim disjE exE conjE)
      fix m assume "member_named (iv_SpaceID i) (aci_UserID c) d m" "d' = accepted_db c now ''already_member'' d"
      moreover from this have "is_member (iv_SpaceID i) (aci_UserID c) d" by (auto simp: is_member_named)
      ultimately show ?thesis using now
        by (intro conjI disjI2 exI [of _ now] exI [of _ "''already_member''"]) (simp_all add: accepted_member, simp add: accepted_db_def)
    next
      assume j: "joinable c i d" and d': "d' = accepted_db c now ''joined'' (joined_db E c i d)"
      then have no: "\<not> is_member (iv_SpaceID i) (aci_UserID c) d"
        by (auto simp: joinable_def key_taken_iff membership_key_def is_member_def exists_where_iff active_membership_def)
      have "is_member (iv_SpaceID i) (aci_UserID c) d'"
        by (auto simp: d' accepted_member is_member_def exists_where_iff active_membership_def)
      with now no show ?thesis
        by (intro conjI disjI2 exI [of _ now] exI [of _ "''joined''"]) (simp_all add: d', simp add: accepted_db_def)
    qed
  qed simp
  from effect i b show ?thesis unfolding recipient_session_def proved_at_def by blast
qed

section \<open>Ended invitations\<close>

lemma only_invitation:
  assumes "invitations_ok d" "i \<in> set (space_invitations d)" "j \<in> set (space_invitations d)" "iv_InvitationID i = iv_InvitationID j"
  shows "i = j"
  using assms unique_onD [of iv_InvitationID "\<lambda>_. True" "space_invitations d" i j] by (simp add: invitations_ok_def)

lemma Resend_body:
  "PrepareInvitationResend c E d = (r, d') \<Longrightarrow> d' = d \<or> (\<exists>v n. PrepareInvitationResend_tx c E d 0 = Inr (v, d', n))"
  unfolding PrepareInvitationResend_def by (elim checked_cases transact_cases) blast+

text \<open>
  A call that finds an invitation ended, because it was accepted or revoked or its time is over at every instant the call
  can read, changes nothing, and no acceptance succeeds but the repetition of the recorded one.
\<close>

lemma ended_acceptance:
  assumes ok: "invitations_ok d" "i \<in> set (space_invitations d)" and ended: "\<And>k. \<not> open_invitation (clock E k) i"
    and "aci_InvitationID c = iv_InvitationID i"
  shows "snd (AcceptInvitation c E d) = d" "\<not> acceptance_recorded c i \<Longrightarrow> \<exists>e. AcceptInvitation c E d = (Inl e, d)"
proof -
  have tx: "d' = d \<and> acceptance_recorded c i" if "AcceptInvitation_tx c E d 0 = Inr (x, d', n)" for x d' n
  proof -
    from AcceptInvitation_tx_effect [OF that] obtain j b where "j \<in> set (space_invitations d)" "iv_InvitationID j = aci_InvitationID c"
      "acceptance_recorded c j \<and> d' = d \<or> first_acceptance c E d j b d'" by blast
    moreover from this have "j = i" using only_invitation [OF ok(1)] ok(2) assms(4) by simp
    ultimately show ?thesis using ended unfolding first_acceptance_def by blast
  qed
  obtain r d' where run: "AcceptInvitation c E d = (r, d')" by fastforce
  have d': "d' = d" using AcceptInvitation_body [OF run] tx by blast
  with run show "snd (AcceptInvitation c E d) = d" by simp
  show "\<exists>e. AcceptInvitation c E d = (Inl e, d)" if "\<not> acceptance_recorded c i"
  proof (cases r)
    case (Inr v)
    obtain n where "AcceptInvitation_tx c E d 0 = Inr (v, d', n)"
      by (rule AcceptInvitation_success [OF run [unfolded Inr]])
    with tx that show ?thesis by blast
  qed (use run d' in simp)
qed

lemma ended_resend:
  assumes ok: "invitations_ok d" "i \<in> set (space_invitations d)" and ended: "\<And>k. \<not> open_invitation (clock E k) i"
    and "rsd_InvitationID s = iv_InvitationID i"
  shows "snd (PrepareInvitationResend s E d) = d"
proof -
  obtain r d' where run: "PrepareInvitationResend s E d = (r, d')" by fastforce
  have "d' = d" using Resend_body [OF run]
  proof (elim disjE exE)
    fix x n assume "PrepareInvitationResend_tx s E d 0 = Inr (x, d', n)"
    from PrepareInvitationResend_tx_effect [OF this] only_invitation [OF ok(1)] ok(2) ended assms(4) show ?thesis by metis
  qed simp
  with run show ?thesis by simp
qed

lemma ended_revocation:
  assumes ok: "invitations_ok d" "i \<in> set (space_invitations d)" and ended: "\<And>k. \<not> open_invitation (clock E k) i"
    and "rvk_InvitationID v = iv_InvitationID i"
  shows "snd (RevokeInvitation v E d) = d"
proof -
  obtain r d' where run: "RevokeInvitation v E d = (r, d')" by fastforce
  have "d' = d" using RevokeInvitation_body [OF run]
  proof (elim disjE exE)
    fix x n assume "RevokeInvitation_tx v E d 0 = Inr (x, d', n)"
    from RevokeInvitation_tx_effect [OF this] obtain j where "j \<in> set (space_invitations d)" "iv_InvitationID j = rvk_InvitationID v"
      "d' = d \<or> (\<exists>k. open_invitation (clock E k) j)" by blast
    with only_invitation [OF ok(1)] ok(2) ended assms(4) show ?thesis by metis
  qed simp
  with run show ?thesis by simp
qed

section \<open>The Email\<close>

definition answers :: "issued_invitation \<Rightarrow> prepare_invitation_command \<Rightarrow> db \<Rightarrow> bool" where
  "answers v c d \<longleftrightarrow> (\<exists>i s b. v = restoreIssuedInvitation i s b \<and> i \<in> set (space_invitations d) \<and> s \<in> set (space_invitation_submissions d)
     \<and> sb_InvitationID s = iv_InvitationID i \<and> issue_key i = (pin_SpaceID c, pin_ActorUserID c, pin_IdempotencyKey c)
     \<and> iv_RecipientEmail i = pin_RecipientEmail c)"

lemma issue_replay_rows:
  assumes "sql_LoadInvitationIssueReplay spaceID userID key now d = Some (i, s, b)"
  shows "i \<in> set (space_invitations d)" "s \<in> set (space_invitation_submissions d)" "sb_InvitationID s = iv_InvitationID i"
    "issue_key i = (spaceID, userID, key)"
  using first_row_in [OF assms [unfolded sql_LoadInvitationIssueReplay_def]] by auto

lemma PrepareInvitation_tx_answer:
  assumes "PrepareInvitation_tx c E d n = Inr (v, d', n')"
  shows "answers v c d'"
proof -
  from assms have "(\<exists>now i s b. sql_LoadInvitationIssueReplay (pin_SpaceID c) (pin_ActorUserID c) (pin_IdempotencyKey c) now d = Some (i, s, b)
      \<and> iv_RecipientEmail i = pin_RecipientEmail c \<and> v = restoreIssuedInvitation i s b \<and> d' = d) \<or> (\<exists>n1. issue_now c E d n1 = Inr (v, d', n'))"
    unfolding PrepareInvitation_tx_def by (auto simp: tx_simps split: if_split_asm)
  then show ?thesis
  proof (elim disjE exE conjE)
    fix now i s b
    assume "sql_LoadInvitationIssueReplay (pin_SpaceID c) (pin_ActorUserID c) (pin_IdempotencyKey c) now d = Some (i, s, b)"
      and "iv_RecipientEmail i = pin_RecipientEmail c" "v = restoreIssuedInvitation i s b" "d' = d"
    with issue_replay_rows [OF this(1)] show ?thesis unfolding answers_def by blast
  next
    fix n1 assume "issue_now c E d n1 = Inr (v, d', n')"
    then show ?thesis
      by (auto simp: issue_now_def tx_simps sql_InsertSpaceInvitation_def sql_InsertSpaceInvitationSubmission_def answers_def
          split: if_split_asm intro!: exI)
  qed
qed

lemma issue_command_Inr:
  assumes "issue_command I request E = Inr c"
  shows "CanonicalEmail (in_lib I) (isr_RecipientEmail request) = Some (pin_RecipientEmail c)"
    "pin_SpaceID c = isr_SpaceID request" "pin_ActorUserID c = isr_ActorUserID request"
  using assms by (auto simp: issue_command_def split: option.split_asm sum.split_asm if_split_asm)

lemma submission_message_Inr:
  assumes "submission_message I E v = Inr m"
  shows "im_Recipient m = isb_Recipient (ii_Submission v)"
    "im_DestinationURL m = in_origin I @ ''/invitations/'' @ PathEscape (ii_InvitationID v)"
    "payload_digest (in_submitter I) m = Some (isb_PayloadDigest (ii_Submission v))"
  using assms by (auto simp: submission_message_def InvitationURL_def InvitationPath_def Let_def split: sum.split_asm if_split_asm)

lemma submit_sent:
  assumes "submit I v E d = (r, sent, d')"
  shows "sent = [] \<or> (\<exists>m. sent = [m] \<and> submission_message I E v = Inr m \<and> isb_SubmitEligible (ii_Submission v))"
  using assms by (auto simp: submit_def Let_def split: if_split_asm sum.split_asm prod.split_asm)

text \<open>
  C25 (safety). Issuing an invitation sends at most one Email. It is sent only after the invitation is recorded, to the
  canonical form of the requested address, which is the address recorded for the invitation, and its
  link names that invitation; its payload is the one whose digest was recorded with it.
\<close>

theorem email_goes_to_recorded_recipient:
  assumes "Issue I request E others E' d = (r, sent, d')" "invitations_ok d"
  shows "length sent \<le> 1 \<and> (\<forall>m \<in> set sent. \<exists>c d1 i s. issue_command I request E = Inr c \<and> snd (PrepareInvitation c E d) = d1
    \<and> i \<in> set (space_invitations d1) \<and> iv_SpaceID i = isr_SpaceID request \<and> iv_InviterUserID i = isr_ActorUserID request
    \<and> CanonicalEmail (in_lib I) (isr_RecipientEmail request) = Some (iv_RecipientEmail i) \<and> im_Recipient m = iv_RecipientEmail i
    \<and> im_DestinationURL m = in_origin I @ ''/invitations/'' @ PathEscape (iv_InvitationID i)
    \<and> s \<in> set (space_invitation_submissions d1) \<and> sb_InvitationID s = iv_InvitationID i
    \<and> payload_digest (in_submitter I) m = Some (digest32 (sb_PayloadDigest s)))"
proof (cases "sent = []")
  case False
  then obtain c v d1 where c: "issue_command I request E = Inr c" and p: "PrepareInvitation c E d = (Inr v, d1)"
    and s: "submit I v E' (others d1) = (r, sent, d')"
    using assms(1) unfolding Issue_def by (auto split: sum.split_asm prod.split_asm)
  from submit_sent [OF s] False obtain m where m: "sent = [m]" "submission_message I E' v = Inr m" by blast
  have "answers v c d1"
    using p PrepareInvitation_tx_answer unfolding PrepareInvitation_def checked_def
    by (auto split: sum.split_asm dest!: transact_Inr)
  then obtain i s b where v: "v = restoreIssuedInvitation i s b" and i: "i \<in> set (space_invitations d1)"
    and sub: "s \<in> set (space_invitation_submissions d1)" "sb_InvitationID s = iv_InvitationID i"
    and key: "issue_key i = (pin_SpaceID c, pin_ActorUserID c, pin_IdempotencyKey c)" "iv_RecipientEmail i = pin_RecipientEmail c"
    unfolding answers_def by blast
  have ok: "invitations_ok d1" using keepsD [OF PrepareInvitation_keeps p assms(2)] .
  obtain j where j: "j \<in> set (space_invitations d1)" "iv_InvitationID j = sb_InvitationID s" "iv_RecipientEmail j = sb_RecipientEmail s"
    using ok sub(1) by (auto simp: invitations_ok_def submission_row_ok_def)
  have "j = i" using only_invitation [OF ok j(1) i] j(2) sub(2) by simp
  then have r: "sb_RecipientEmail s = iv_RecipientEmail i" using j(3) by simp
  have ii: "ii_InvitationID v = iv_InvitationID i" "isb_Recipient (ii_Submission v) = sb_RecipientEmail s"
    "isb_PayloadDigest (ii_Submission v) = digest32 (sb_PayloadDigest s)"
    by (simp_all add: v restoreIssuedInvitation_def restoreSubmission_def)
  have "iv_SpaceID i = isr_SpaceID request" "iv_InviterUserID i = isr_ActorUserID request"
    using key(1) issue_command_Inr(2,3) [OF c] by (simp_all add: issue_key_def)
  moreover have "snd (PrepareInvitation c E d) = d1" by (simp add: p)
  ultimately show ?thesis
    using c i sub issue_command_Inr(1) [OF c] key(2) submission_message_Inr [OF m(2), unfolded ii] r m(1)
    by (auto intro!: exI [of _ i] exI [of _ s])
qed simp

end
