(* ===== verification/Demo_Invitations.thy ===== *)
theory Demo_Invitations
  imports Invitation_Guarantees Demo_Spaces
begin

text \<open>
  Alice invites Carol, the Email is sent, and Carol, who has just proved her address, joins. The
  witnesses of the invitation properties run these operations.
\<close>

definition demo_session :: session_row where
  "demo_session = \<lparr>bs_UserID = ''carol'', bs_CreatedAt = 0, bs_ExpiresAt = hours 24, bs_RevokedAt = None, bs_SessionID = ''ses'',
     bs_IdentityProvedAt = 0, bs_IdentityProofMethod = EmailMethod\<rparr>"

definition demo_lobby :: db where
  "demo_lobby = demo_base\<lparr>carry_users := carry_users demo_base @ [demo_user ''carol'' ''Carol''],
     email_identities := [\<lparr>ei_CanonicalEmail = ''c@x'', ei_UserID = ''carol'', ei_VerifiedAt = 0\<rparr>],
     browser_sessions := [demo_session]\<rparr>"

definition demo_mail :: mail_lib where
  "demo_mail = \<lparr>parse_address = (\<lambda>s. Some ([], s)), to_lower = (\<lambda>s. s), https_origin = (\<lambda>s. s = ''https://c'')\<rparr>"

definition demo_invitations :: invitations where
  "demo_invitations = \<lparr>in_submitter = \<lparr>payload_digest = (\<lambda>m. Some (sha256 (im_DestinationURL m))),
      submit_invitation = (\<lambda>m p. (''accepted'', ''p''))\<rparr>, in_origin = ''https://c'', in_lib = demo_mail\<rparr>"

definition demo_issue :: issue_request where
  "demo_issue = \<lparr>isr_SpaceID = ''space'', isr_ActorUserID = ''alice'', isr_RecipientEmail = ''c@x'', isr_CanManageMembers = False,
     isr_CanEnrollMachines = True, isr_IdempotencyKey = ''key''\<rparr>"

definition demo_prepare :: prepare_invitation_command where
  "demo_prepare = \<lparr>pin_InvitationID = ''i'', pin_SubmissionID = ''ix'', pin_SpaceID = ''space'', pin_ActorUserID = ''alice'',
     pin_RecipientEmail = ''c@x'', pin_CanManageMembers = False, pin_CanEnrollMachines = True, pin_IdempotencyKey = ''key'',
     pin_RequestDigest = invitationIssueDigest ''c@x'' False True, pin_ProviderIdempotencyKey = ''space-invitation/ix'',
     pin_PayloadDigest = sha256 ''https://c/invitations/i'', pin_ExpiresIn = InvitationLifetime\<rparr>"

lemma demo_mail_texts: "plain_text ''c@x''" "plain_text ''space-invitation/ix''" "plain_text ''p''" "plain_text ''ac''"
  by (simp_all add: plain_text_def is_space_def)

lemmas demo_trims = demo_texts [THEN plain_text_trim] demo_mail_texts [THEN plain_text_trim]

lemma demo_url: "InvitationURL demo_mail (demo_env tag t) ''https://c'' ''i'' = Inr ''https://c/invitations/i''"
  by (simp add: InvitationURL_def InvitationPath_def demo_mail_def PathEscape_def path_unreserved_def less_eq_char_def)

lemma demo_issue_command: "issue_command demo_invitations demo_issue (demo_env ''i'' 300) = Inr demo_prepare"
proof -
  have "CanonicalEmail demo_mail ''c@x'' = Some ''c@x''"
    by (simp add: CanonicalEmail_def Let_def demo_trims demo_mail_def)
  moreover have "normalizeCommandKey ''key'' = Some ''key''"
    using plain_text_valid [OF demo_texts(2)] plain_text_no_nul [OF demo_texts(2)]
    by (simp add: normalizeCommandKey_def Let_def demo_trims)
  ultimately show ?thesis
    by (simp add: issue_command_def demo_issue_def demo_invitations_def demo_url demo_prepare_def provider_key_def)
qed

lemma digest32_sha256: "digest32 (sha256 x) = sha256 x"
  by (simp add: digest32_def)

definition demo_submission :: submission_row where
  "demo_submission = new_submission (demo_env ''i'' 300) ''ix'' ''i'' ''alice'' ''key'' (invitationIssueDigest ''c@x'' False True)
     ''c@x'' (sha256 ''https://c/invitations/i'') ''space-invitation/ix''"

definition demo_invited :: db where
  "demo_invited = demo_lobby\<lparr>space_invitations := [new_invitation (demo_env ''i'' 300) demo_prepare],
     space_invitation_submissions := [demo_submission]\<rparr>"

lemma demo_invited_run:
  "PrepareInvitation demo_prepare (demo_env ''i'' 300) demo_lobby
     = (Inr (restoreIssuedInvitation (new_invitation (demo_env ''i'' 300) demo_prepare) demo_submission True), demo_invited)"
proof -
  have facts: "sql_LockInvitationActorMembership ''space'' ''alice'' demo_lobby = Some (demo_member ''alice'')"
    "sql_LoadInvitationIssueReplay ''space'' ''alice'' ''key'' now demo_lobby = None"
    "\<not> sql_HasCurrentSpaceInvitation ''space'' ''c@x'' E demo_lobby"
    "\<not> sql_EmailOwnerIsActiveSpaceMember ''c@x'' ''space'' demo_lobby" for now E
    by (simp_all add: sql_LockInvitationActorMembership_def active_membership_def sql_LoadInvitationIssueReplay_def order_by_def first_row_def
        sql_HasCurrentSpaceInvitation_def exists_where_def sql_EmailOwnerIsActiveSpaceMember_def is_member_def demo_lobby_def demo_defs)
  have alice: "mb_CanManageMembers (demo_member ''alice'')" "mb_CanEnrollMachines (demo_member ''alice'')" by (simp_all add: demo_member_def)
  have tables: "space_invitations demo_lobby = []" "space_invitation_submissions demo_lobby = []"
    by (simp_all add: demo_lobby_def demo_base_def empty_db_def)
  show ?thesis
    by (simp add: PrepareInvitation_def demo_prepare_def guard_def validInvitationKey_def demo_trims transact_healthy demo_env_healthy
      PrepareInvitation_tx_def lock_manager_def advisory_lock_def tx_run facts alice issue_now_def tables
      sql_InsertSpaceInvitation_def sql_InsertSpaceInvitationSubmission_def new_invitation_def new_submission_def key_taken_def
      exists_where_def demo_invited_def demo_submission_def)
qed

lemma demo_lobby_ok: "invitations_ok demo_lobby"
  by (simp add: invitations_ok_def one_at_a_time_def demo_lobby_def demo_defs)

lemma demo_invited_ok: "invitations_ok demo_invited"
  by (rule keepsD [OF PrepareInvitation_keeps demo_invited_run demo_lobby_ok])

lemma demo_invited_changes: "demo_invited \<noteq> demo_lobby"
proof
  assume "demo_invited = demo_lobby"
  then have "space_invitations demo_invited = space_invitations demo_lobby" by simp
  then show False by (simp add: demo_invited_def demo_lobby_def demo_defs)
qed

theorem invitation_grants_own_rights_witness:
  "\<exists>m. member_named ''space'' ''alice'' demo_lobby m \<and> mb_CanManageMembers m \<and> mb_CanEnrollMachines m"
  using invitation_grants_own_rights [OF demo_invited_run demo_invited_changes] by (auto simp: demo_prepare_def)

section \<open>The Email\<close>

lemma demo_issue_run:
  "\<exists>r m d'. Issue demo_invitations demo_issue (demo_env ''i'' 300) (\<lambda>d. d) (demo_env ''j'' 310) demo_lobby = (r, [m], d')"
proof -
  let ?v = "restoreIssuedInvitation (new_invitation (demo_env ''i'' 300) demo_prepare) demo_submission True"
  have "\<exists>m. submission_message demo_invitations (demo_env ''j'' 310) ?v = Inr m"
    by (simp add: submission_message_def restoreIssuedInvitation_def restoreSubmission_def demo_submission_def new_submission_def
        new_invitation_def demo_prepare_def demo_invitations_def demo_url Let_def digest32_sha256)
  moreover have "isb_SubmitEligible (ii_Submission ?v)" by (simp add: restoreIssuedInvitation_def)
  ultimately show ?thesis
    by (auto simp: Issue_def demo_issue_command demo_invited_run submit_def Let_def split: prod.split sum.split)
qed

theorem email_goes_to_recorded_recipient_witness:
  "\<exists>m s. im_Recipient m = ''c@x'' \<and> m \<in> set (fst (snd (Issue demo_invitations demo_issue (demo_env ''i'' 300) (\<lambda>d. d) (demo_env ''j'' 310) demo_lobby)))
     \<and> s \<in> set (space_invitation_submissions demo_invited)"
proof -
  obtain r m d' where run: "Issue demo_invitations demo_issue (demo_env ''i'' 300) (\<lambda>d. d) (demo_env ''j'' 310) demo_lobby = (r, [m], d')"
    using demo_issue_run by blast
  have email: "CanonicalEmail (in_lib demo_invitations) (isr_RecipientEmail demo_issue) = Some ''c@x''"
    using issue_command_Inr(1) [OF demo_issue_command] by (simp add: demo_prepare_def)
  have "\<exists>s. im_Recipient m = ''c@x'' \<and> s \<in> set (space_invitation_submissions demo_invited)"
    using email_goes_to_recorded_recipient [OF run demo_lobby_ok]
    by (auto simp: email demo_issue_command demo_invited_run)
  then show ?thesis by (auto simp: run)
qed

section \<open>Carol joins\<close>

definition demo_accept :: accept_invitation_command where
  "demo_accept = \<lparr>aci_InvitationID = ''i'', aci_UserID = ''carol'', aci_SessionID = ''ses'', aci_IdempotencyKey = ''ac'',
     aci_RequestDigest = invitationAcceptDigest ''i''\<rparr>"

definition demo_joined :: db where
  "demo_joined = accepted_db demo_accept 409 ''joined''
     (joined_db (demo_env ''k'' 400) demo_accept (new_invitation (demo_env ''i'' 300) demo_prepare) demo_invited)"

lemma demo_joined_run: "\<exists>v. AcceptInvitation demo_accept (demo_env ''k'' 400) demo_invited = (Inr v, demo_joined)"
proof -
  let ?i = "new_invitation (demo_env ''i'' 300) demo_prepare"
  have len: "length (invitationAcceptDigest x) = 32" for x by (simp add: invitationAcceptDigest_def)
  have facts: "sql_LoadSpaceInvitation ''i'' demo_invited = Some ?i" "sql_LoadSpaceInvitationForUpdate ''i'' demo_invited = Some ?i"
    "sql_LockInvitationUser ''carol'' demo_invited = Some ''carol''" "sql_LoadInvitationInboxSession ''ses'' demo_invited = Some demo_session"
    "sql_LoadInvitationEmailOwner ''c@x'' demo_invited = Some ''carol''" "sql_LoadInvitationSpaceName ''space'' demo_invited = Some ''Team''"
    "sql_LoadMembershipForInvitation ''space'' ''carol'' demo_invited = None"
    by (simp_all add: sql_LoadSpaceInvitation_def sql_LoadSpaceInvitationForUpdate_def new_invitation_def demo_prepare_def
        sql_LockInvitationUser_def user_of_def sql_LoadInvitationInboxSession_def demo_session_def sql_LoadInvitationEmailOwner_def
        sql_LoadInvitationSpaceName_def sql_LoadMembershipForInvitation_def demo_invited_def demo_lobby_def demo_defs)
  have pin: "pin_RecipientEmail demo_prepare = ''c@x''" "pin_SpaceID demo_prepare = ''space''" "pin_InvitationID demo_prepare = ''i''"
    by (simp_all add: demo_prepare_def)
  have i: "iv_RecipientEmail ?i = ''c@x''" "iv_SpaceID ?i = ''space''" "iv_AcceptedAt ?i = None" "iv_RevokedAt ?i = None"
    "iv_ExpiresAt ?i = 300 + InvitationLifetime" "iv_InvitationID ?i = ''i''"
    by (simp_all add: new_invitation_def demo_prepare_def)
  have b: "bs_UserID demo_session = ''carol''" "bs_RevokedAt demo_session = None" "bs_ExpiresAt demo_session = hours 24"
    "bs_IdentityProofMethod demo_session = EmailMethod" "bs_IdentityProvedAt demo_session = 0"
    by (simp_all add: demo_session_def)
  have c: "aci_InvitationID demo_accept = ''i''" "aci_UserID demo_accept = ''carol''" "aci_SessionID demo_accept = ''ses''"
    "aci_IdempotencyKey demo_accept = ''ac''" "aci_RequestDigest demo_accept = invitationAcceptDigest ''i''"
    by (simp_all add: demo_accept_def)
  have checks: "acceptance_checks demo_accept (demo_env ''k'' 400) demo_invited 0 = Inr ((?i, demo_session, ''Team'', False), demo_invited, 7)"
    by (simp add: acceptance_checks_def lock_recipient_def advisory_lock_def tx_run facts i b c pin acceptance_replay_def)
  let ?d1 = "joined_db (demo_env ''k'' 400) demo_accept ?i demo_invited"
  have insert: "sql_CreateInvitationMembership (demo_env ''k'' 400) ''space'' ''carol'' (iv_CanManageMembers ?i) (iv_CanEnrollMachines ?i) demo_invited = Inr ((), ?d1)"
    by (simp add: sql_CreateInvitationMembership_def insert_membership_def key_taken_def c pin
        membership_key_def new_membership_def exists_where_def joined_db_def demo_invited_def demo_lobby_def demo_defs)
  have admit: "\<exists>a. admit_recipient demo_accept ?i False (demo_env ''k'' 400) demo_invited 7 = Inr (a, ?d1, 9) \<and> ad_Result a = ''joined''"
    by (simp add: admit_recipient_def tx_run facts i c pin insert)
  have stmt: "sql_AcceptSpaceInvitation (Some ''carol'') 409 ''joined'' ''ac'' (invitationAcceptDigest ''i'') ''i'' ?d1
      = Inr (1, accepted_db demo_accept 409 ''joined'' ?d1)"
    using i len by (simp add: sql_AcceptSpaceInvitation_def end_invitation_def Let_def demo_invited_def open_invitation_def count_where_def
        InvitationLifetime_def accepted_db_def c pin)
  show ?thesis
    using admit by (auto simp: AcceptInvitation_def guard_def validInvitationKey_def demo_trims c transact_healthy demo_env_healthy
        AcceptInvitation_tx_def tx_run checks conclude_acceptance_def Let_def sql_InvitationDatabaseTime_def b i pin
        IdentityProofLifetime_def InvitationLifetime_def optional_uuid_def stmt demo_joined_def)
qed

theorem acceptance_requires_proof_and_joins_witness: "is_member ''space'' ''carol'' demo_joined"
proof -
  obtain v where "AcceptInvitation demo_accept (demo_env ''k'' 400) demo_invited = (Inr v, demo_joined)" using demo_joined_run by blast
  from acceptance_requires_proof_and_joins [OF this] show ?thesis
    by (auto simp: demo_accept_def demo_invited_def new_invitation_def demo_prepare_def)
qed

lemma demo_joined_ok: "invitations_ok demo_joined"
proof -
  obtain v where "AcceptInvitation demo_accept (demo_env ''k'' 400) demo_invited = (Inr v, demo_joined)" using demo_joined_run by blast
  from keepsD [OF AcceptInvitation_keeps this demo_invited_ok] show ?thesis .
qed

end
