(* ===== verification/Lasting_Guarantees.thy ===== *)
theory Lasting_Guarantees
  imports Lasting_Records Demo_Invitations Demo_Machines Demo_Spaces Demo_Login
begin

text \<open>
  Decisions that stay decided, whatever the server does afterwards: the record of a removal answers its key, an invitation that
  ended lets nobody in, and a revoked Machine is powerless. Each starts from any state that satisfies the
  invariants of all components, as every state the server reaches does.
\<close>

section \<open>Removals\<close>

text \<open>
  C20 (error). Whatever is asked at any later time under a removal's idempotency key, by the same manager in the same Space, and
  whatever the server did in between, is answered from the record: the same removal succeeds again, any other is refused as a
  conflict, and neither changes anything.
\<close>

theorem removal_key_answers_once:
  assumes "RemoveSpaceMember c E d = (Inr (), d')" "world_ok d" "parses_valid E" "world_step\<^sup>*\<^sup>* d' d''"
    and "healthy E'" "parses_valid E'" "valid_removal E' c'"
    and "rmc_SpaceID c' = rmc_SpaceID c" "rmc_ActorUserID c' = rmc_ActorUserID c" "rmc_IdempotencyKey c' = rmc_IdempotencyKey c"
  shows "RemoveSpaceMember c' E' d'' =
    (if rmc_TargetUserID c' = rmc_TargetUserID c \<and> rmc_SuccessorUserID c' = rmc_SuccessorUserID c
          \<and> rmc_RequestDigest c' = rmc_RequestDigest c then Inr () else Inl (SpaceError ErrCommandConflict), d'')"
proof -
  have ok': "world_ok d'" using keepsD [OF RemoveSpaceMember_world assms(1,2)] .
  obtain m where m: "replayed_removal c d' m" by (rule removal_recorded [OF assms(1,3)])
  have "mb_RevokedAt m \<noteq> None" using recorded_removal_revoked [OF _ m] ok' by (simp add: world_ok_def)
  then have "m \<in> set (memberships d'')"
    using revoked_membership_lasts [OF steps_last [OF assms(4) ok']] m by (simp add: replayed_removal_def)
  then have "replayed_removal c d'' m" using m by (simp add: replayed_removal_def)
  moreover have "space_ok d''" using steps_world [OF assms(4) ok'] by (simp add: world_ok_def)
  ultimately show ?thesis using recorded_removal_answers assms(5-10) by blast
qed

section \<open>Invitations\<close>

lemma ended_later: "\<not> open_invitation t i \<Longrightarrow> t \<le> u \<Longrightarrow> \<not> open_invitation u i"
  by (auto simp: open_invitation_def)

text \<open>
  C24 (error). An invitation that has been accepted or revoked, or whose time is over at \<open>t\<close>, lets nobody in from then on,
  whatever the server does in between: it is still there, as it was if it had been accepted or revoked, and a call whose clock
  has reached \<open>t\<close> cannot accept it, other than by repeating the recorded acceptance, which changes nothing, and neither resends nor revokes it.
\<close>

theorem ended_invitation_lets_nobody_in:
  assumes "world_ok d" "i \<in> set (space_invitations d)" "\<not> open_invitation t i" "world_step\<^sup>*\<^sup>* d d'" "\<forall>k. t \<le> clock E k"
    and "aci_InvitationID c = iv_InvitationID i" "rsd_InvitationID s = iv_InvitationID i" "rvk_InvitationID v = iv_InvitationID i"
  shows "\<exists>i' \<in> set (space_invitations d'). iv_InvitationID i' = iv_InvitationID i \<and> (\<not> unended i \<longrightarrow> i' = i)
    \<and> (\<not> acceptance_recorded c i' \<longrightarrow> (\<exists>e. AcceptInvitation c E d' = (Inl e, d'))) \<and> snd (AcceptInvitation c E d') = d'
    \<and> snd (PrepareInvitationResend s E d') = d' \<and> snd (RevokeInvitation v E d') = d'"
proof -
  obtain i' where i': "i' \<in> set (space_invitations d')" "iv_InvitationID i' = iv_InvitationID i" "\<not> open_invitation t i'" "\<not> unended i \<longrightarrow> i' = i"
    by (rule ended_invitation_lasts [OF steps_last [OF assms(4,1)] assms(2,3)])
  have ok: "invitations_ok d'" using steps_world [OF assms(4,1)] by (simp add: world_ok_def)
  have ended: "\<not> open_invitation (clock E k) i'" for k using ended_later [OF i'(3)] assms(5) by blast
  show ?thesis
    using i'(1,2,4) ended_acceptance [OF ok i'(1) ended] ended_resend [OF ok i'(1) ended] ended_revocation [OF ok i'(1) ended] assms(6-8)
    by (intro bexI [of _ i']) auto
qed

section \<open>Machines\<close>

text \<open>
  C31 (safety): a revocation from a Browser was asked for in a live Session by an active member who may
  enroll Machines in the Machine's Space; if this call revoked the Machine, none of its Agents is active; no other Machine
  and no Agent of another one changed. And from then on, whatever the server does in between, the Machine stays revoked,
  no call it makes of the store (claiming, renewing, committing and finishing Runs and replies, reporting Agents,
  revoking itself) changes anything, and all but the last, which may repeat its answer, are refused.
\<close>

theorem revoked_machine_is_powerless:
  assumes "RevokeMachineFromBrowser c E d = (Inr x, d')" "world_ok d"
  shows "(\<exists>userID. lives (rmm_BrowserSessionID c) userID E d \<and> may_enroll (rmm_SpaceID c) userID d)
    \<and> (d' = d \<or> (\<forall>a \<in> set (agents d'). ag_MachineID a = rmm_MachineID c \<longrightarrow> ag_RemovedAt a \<noteq> None))
    \<and> (\<forall>m \<in> set (machines d). m_MachineID m \<noteq> rmm_MachineID c \<longrightarrow> m \<in> set (machines d'))
    \<and> (\<forall>a \<in> set (agents d). ag_MachineID a \<noteq> rmm_MachineID c \<longrightarrow> a \<in> set (agents d'))
    \<and> (\<forall>d1. world_step\<^sup>*\<^sup>* d' d1 \<longrightarrow> machine_revoked (rmm_MachineID c) d1
        \<and> (\<forall>folded q E1. snd (machine_calls folded (rmm_MachineID c) q E1 d1) = d1
             \<and> ((\<forall>r. q \<noteq> Revokes_itself r) \<longrightarrow> (\<exists>e. machine_calls folded (rmm_MachineID c) q E1 d1 = (Inl e, d1)))))"
proof -
  have ok': "world_ok d'" using keepsD [OF revocations_world(1) assms] .
  have "unique_on m_MachineID (\<lambda>_. True) (machines d)" using assms(2) by (simp add: world_ok_def agents_ok_def)
  note r = browser_revocation [OF assms(1) this]
  have later: "machine_revoked (rmm_MachineID c) d1" "agents_ok d1" if "world_step\<^sup>*\<^sup>* d' d1" for d1
  proof -
    show ok: "agents_ok d1" using steps_world [OF that ok'] by (simp add: world_ok_def)
    from r(3) obtain m where "m \<in> set (machines d')" "m_MachineID m = rmm_MachineID c" by blast
    with ok show "machine_revoked (rmm_MachineID c) d1"
      by (intro machine_revocation_lasts [OF steps_last [OF that ok'] _ _ _ r(2)]) (simp_all add: agents_ok_def)
  qed
  have "\<forall>d1. world_step\<^sup>*\<^sup>* d' d1 \<longrightarrow> machine_revoked (rmm_MachineID c) d1
        \<and> (\<forall>folded q E1. snd (machine_calls folded (rmm_MachineID c) q E1 d1) = d1
             \<and> ((\<forall>r. q \<noteq> Revokes_itself r) \<longrightarrow> (\<exists>e. machine_calls folded (rmm_MachineID c) q E1 d1 = (Inl e, d1))))"
    using later revoked_machine_changes_nothing revoked_machine_refused by (metis (no_types, lifting))
  with r(1,4-6) show ?thesis by blast
qed

section \<open>A Space where all of it happens\<close>

definition town_session :: session_row where
  "town_session = new_session (demo_env ''a'' 0) ''as'' ''alice'' EmailMethod"

definition demo_town :: db where
  "demo_town = demo_base\<lparr>carry_users := carry_users demo_base @ [demo_user ''carol'' ''Carol''], works := [demo_work],
     email_identities := [\<lparr>ei_CanonicalEmail = ''a@x'', ei_UserID = ''alice'', ei_VerifiedAt = 0\<rparr>,
       \<lparr>ei_CanonicalEmail = ''b@x'', ei_UserID = ''bob'', ei_VerifiedAt = 0\<rparr>, \<lparr>ei_CanonicalEmail = ''c@x'', ei_UserID = ''carol'', ei_VerifiedAt = 0\<rparr>],
     browser_sessions := [town_session],
     space_invitations := [new_invitation (demo_env ''i'' 300) demo_prepare], space_invitation_submissions := [demo_submission]\<rparr>"

lemma demo_town_tables:
  "carry_users demo_town = [demo_user ''alice'' ''Alice'', demo_user ''bob'' ''Bob'', demo_user ''carol'' ''Carol'']"
  "spaces demo_town = [demo_space]" "memberships demo_town = [demo_member ''alice'', demo_member ''bob'']" "machines demo_town = [demo_machine]"
  "works demo_town = [demo_work]" "agents demo_town = []" "agent_presence demo_town = []" "machine_connection_requests demo_town = []"
  "browser_sessions demo_town = [town_session]"
  "space_invitations demo_town = [new_invitation (demo_env ''i'' 300) demo_prepare]" "space_invitation_submissions demo_town = [demo_submission]"
  "email_identities demo_town = [\<lparr>ei_CanonicalEmail = ''a@x'', ei_UserID = ''alice'', ei_VerifiedAt = 0\<rparr>,
     \<lparr>ei_CanonicalEmail = ''b@x'', ei_UserID = ''bob'', ei_VerifiedAt = 0\<rparr>, \<lparr>ei_CanonicalEmail = ''c@x'', ei_UserID = ''carol'', ei_VerifiedAt = 0\<rparr>]"
  "google_identities demo_town = []" "github_identities demo_town = []" "email_login_challenges demo_town = []"
  "email_login_attempts demo_town = []" "external_login_transactions demo_town = []"
  "email_identities demo_town = [\<lparr>ei_CanonicalEmail = ''a@x'', ei_UserID = ''alice'', ei_VerifiedAt = 0\<rparr>,
     \<lparr>ei_CanonicalEmail = ''b@x'', ei_UserID = ''bob'', ei_VerifiedAt = 0\<rparr>, \<lparr>ei_CanonicalEmail = ''c@x'', ei_UserID = ''carol'', ei_VerifiedAt = 0\<rparr>]"
  "google_identities demo_town = []" "github_identities demo_town = []" "email_login_challenges demo_town = []"
  "email_login_attempts demo_town = []" "external_login_transactions demo_town = []"
  by (simp_all add: demo_town_def demo_base_def empty_db_def)

lemma demo_town_ok: "world_ok demo_town"
proof -
  have "execution_part demo_town = execution_part demo_created" "conversation_part demo_town = conversation_part empty_db"
    by (simp_all add: execution_part_def conversation_part_def demo_town_def demo_created_def demo_base_def)
  then have "core_ok demo_town"
    using execution_ok_part conversation_ok_part demo_created_ok conversation_ok_empty by (metis core_ok_def)
  moreover have "space_ok demo_town" by (rule space_support.reads [OF _ demo_space_ok(2)]) (simp add: space_part_def demo_town_def demo_created_def)
  moreover have "invitations_ok demo_town"
    by (rule invitation_support.reads [OF _ demo_invited_ok]) (simp add: invitation_part_def demo_town_def demo_invited_def)
  moreover have "owners_ok demo_town" "agents_ok demo_town" "agent_owners_ok demo_town" "agents_live demo_town" "requests_ok demo_town"
    by (simp_all add: owners_ok_def agents_ok_def agent_owners_ok_def agents_live_def requests_ok_def demo_town_tables demo_work_def new_work_def
        is_member_def exists_where_def active_membership_def demo_member_def unique_on_def machine_report_ok_def demo_machine_def)
  moreover have "keys_ok demo_town" "can_sign_in nobody demo_town" "owners_exist demo_town"
    by (simp_all add: keys_ok_def can_sign_in_def owners_exist_def has_user_def count_methods_def count_where_def unique_on_def demo_town_tables demo_user_def
        session_well_formed_def town_session_def new_session_def)
  then have "login_ok demo_town"
    by (simp add: login_ok_def methods_ok_def codes_ok_def externals_ok_def demo_town_tables)
  ultimately show ?thesis by (simp add: world_ok_def)
qed

section \<open>Bob removes Alice\<close>

definition demo_emptied :: db where
  "demo_emptied = removed_db (demo_env ''x'' 300) demo_removal demo_town"

lemma demo_emptied_run: "RemoveSpaceMember demo_removal (demo_env ''x'' 300) demo_town = (Inr (), demo_emptied)"
proof -
  have len: "length (removal_digest s a b c) = 32" for s a b c by (simp add: removal_digest_def)
  show ?thesis
    unfolding valid_removal_runs(1) [OF demo_removal_valid]
    by (simp add: transact_healthy demo_env_healthy RemoveSpaceMember_tx_def demo_emptied_def
      remove_member_now_def removal_checks_def transfer_works_def tx_run demo_removal_def demo_town_def demo_defs
      sql_LockSpaceForMemberRemoval_def sql_LoadMemberRemovalReplay_def removal_key_def optional_uuid_def
      sql_LockMembershipForRemoval_def removal_authority_def sql_CountActiveSpaceAuthorities_def active_in_def count_where_def
      sql_LockOpenWorksOwnedByMember_def open_work_of_def demo_work_def new_work_def sql_TransferRemovedMemberOpenWorks_def
      sql_LockActiveAgentsForOwnerRemoval_def sql_RemoveActiveAgentsForOwner_def sql_RevokeSpaceMembership_def Let_def
      active_membership_def exists_where_def removal_shape_ok_def len removed_db_def list_less_def less_char_def update_where_def)
qed

definition demo_afterwards :: db where
  "demo_afterwards = answer (Core_call (Claim_run ''m1'')) (demo_env ''z'' 350) demo_emptied"

lemma demo_emptied_step: "world_step\<^sup>*\<^sup>* demo_town demo_emptied"
  using answered [of demo_town "Remove_member demo_removal" "demo_env ''x'' 300"] by (simp add: demo_emptied_run r_into_rtranclp)

lemma demo_afterwards_step: "world_step\<^sup>*\<^sup>* demo_emptied demo_afterwards"
  unfolding demo_afterwards_def by (rule r_into_rtranclp) (rule answered)

theorem removal_key_answers_once_witness:
  "RemoveSpaceMember demo_removal (demo_env ''y'' 400) demo_afterwards = (Inr (), demo_afterwards)"
  using removal_key_answers_once [OF demo_emptied_run demo_town_ok demo_parses demo_afterwards_step demo_env_healthy demo_parses demo_removal_valid]
  by simp

section \<open>An invitation expires\<close>

text \<open>Seven days after Alice invited her, Carol can no longer join.\<close>

theorem ended_invitation_lets_nobody_in_witness:
  "open_invitation 300 (new_invitation (demo_env ''i'' 300) demo_prepare)
     \<and> (\<exists>e. AcceptInvitation demo_accept (demo_env ''z'' (300 + InvitationLifetime)) demo_emptied = (Inl e, demo_emptied))"
proof -
  let ?i = "new_invitation (demo_env ''i'' 300) demo_prepare" and ?E = "demo_env ''z'' (300 + InvitationLifetime)"
  have i: "?i \<in> set (space_invitations demo_town)" "iv_InvitationID ?i = ''i''" "iv_AcceptedAt ?i = None" "iv_RevokedAt ?i = None"
    "iv_ExpiresAt ?i = 300 + InvitationLifetime"
    by (simp_all add: demo_town_tables new_invitation_def demo_prepare_def)
  then have ended: "\<not> open_invitation (300 + InvitationLifetime) ?i" and alive: "open_invitation 300 ?i"
    by (simp_all add: open_invitation_def InvitationLifetime_def)
  have "\<forall>k. 300 + InvitationLifetime \<le> clock ?E k" by simp
  note e = ended_invitation_lets_nobody_in [OF demo_town_ok i(1) ended demo_emptied_step this, of demo_accept
      "\<lparr>rsd_SpaceID = ''space'', rsd_InvitationID = ''i'', rsd_ActorUserID = ''alice'', rsd_SubmissionID = ''s'', rsd_IdempotencyKey = ''k'',
        rsd_RequestDigest = [], rsd_ProviderIdempotencyKey = ''p'', rsd_PayloadDigest = []\<rparr>"
      "\<lparr>rvk_SpaceID = ''space'', rvk_InvitationID = ''i'', rvk_ActorUserID = ''alice'', rvk_IdempotencyKey = ''k'', rvk_RequestDigest = []\<rparr>"]
  have "space_invitations demo_emptied = [?i]" by (simp add: demo_emptied_def removed_db_def Let_def demo_town_tables)
  with e i(2,3) have "\<exists>e. AcceptInvitation demo_accept ?E demo_emptied = (Inl e, demo_emptied)"
    by (auto simp: demo_accept_def acceptance_recorded_def)
  with alive show ?thesis by blast
qed

section \<open>Alice revokes a Machine\<close>

lemma town_session_facts:
  "sql_LockBrowserSessionForMachineConnection ''as'' (demo_env tag 1000) demo_town = Some (demo_user ''alice'' ''Alice'')"
  by (simp add: sql_LockBrowserSessionForMachineConnection_def demo_town_tables town_session_def new_session_def user_of_def demo_user_def)

lemma demo_town_revoked: "\<exists>x d'. RevokeMachineFromBrowser demo_revoke (demo_env ''v'' 1000) demo_town = (Inr x, d')"
proof -
  have facts: "sql_LockSpaceForMachineConnection ''space'' demo_town = Some ''space''"
    "sql_LockMachineEnrollmentMembership ''space'' ''alice'' demo_town = Some (demo_member ''alice'')"
    "sql_LockMachineForRevocation ''m1'' ''space'' demo_town = Some demo_machine"
    by (simp_all add: sql_LockSpaceForMachineConnection_def sql_LockMachineEnrollmentMembership_def sql_LockMachineForRevocation_def
        demo_town_tables demo_space_def demo_member_def demo_machine_def)
  have alice: "mb_CanEnrollMachines (demo_member ''alice'')" "u_UserID (demo_user ''alice'' ''Alice'') = ''alice''"
    "m_RevokedAt demo_machine = None"
    by (simp_all add: demo_member_def demo_user_def demo_machine_def)
  let ?row = "revoked_machine_row (demo_env ''v'' 1000) ''user'' (Some ''alice'') ''rk'' (digest_of (CHR ''f'')) demo_machine"
  have s: "sql_RevokeMachineByUser (demo_env ''v'' 1000) ''alice'' ''rk'' (digest_of (CHR ''f'')) ''m1'' demo_town
      = Inr (Some ?row, demo_town\<lparr>machines := [?row]\<rparr>)"
    by (simp add: sql_RevokeMachineByUser_def revoke_machine_def Let_def exists_where_def demo_town_tables active_machine_def demo_machine_def
        revoked_machine_row_def revocation_columns_ok_def key_taken_def by_user_def textValue_def)
  show ?thesis
    by (simp add: RevokeMachineFromBrowser_def transact_healthy demo_env_healthy RevokeMachineFromBrowser_tx_def revocation_authority_def
        demo_revoke_def tx_run town_session_facts facts alice s retire_agents_def sql_RemoveActiveAgentsForMachine_def
        listInventoryAgents_def sql_ListInventoryAgents_def order_by_def demo_town_tables map_filter_simps)
qed

theorem revoked_machine_is_powerless_witness:
  "\<exists>d' e. RevokeMachineFromBrowser demo_revoke (demo_env ''v'' 1000) demo_town = (fst (RevokeMachineFromBrowser demo_revoke (demo_env ''v'' 1000) demo_town), d')
     \<and> machine_revoked ''m1'' (answer (Remove_member demo_removal) (demo_env ''x'' 1100) d')
     \<and> ClaimRun ''m1'' (demo_env ''r'' 1200) (answer (Remove_member demo_removal) (demo_env ''x'' 1100) d')
         = (Inl e, answer (Remove_member demo_removal) (demo_env ''x'' 1100) d')"
proof -
  from demo_town_revoked obtain x d' where run: "RevokeMachineFromBrowser demo_revoke (demo_env ''v'' 1000) demo_town = (Inr x, d')" by blast
  let ?d = "answer (Remove_member demo_removal) (demo_env ''x'' 1100) d'"
  have s: "world_step\<^sup>*\<^sup>* d' ?d" by (rule r_into_rtranclp) (rule answered)
  have i: "rmm_MachineID demo_revoke = ''m1''" by (simp add: demo_revoke_def)
  from revoked_machine_is_powerless [OF run demo_town_ok] s have later: "machine_revoked ''m1'' ?d"
    "\<forall>folded q E1. (\<forall>r. q \<noteq> Revokes_itself r) \<longrightarrow> (\<exists>e. machine_calls folded ''m1'' q E1 ?d = (Inl e, ?d))"
    unfolding i by blast+
  from later(2) [rule_format, of Claims "\<lambda>s. s" "demo_env ''r'' 1200"] obtain e where "unit_result (ClaimRun ''m1'' (demo_env ''r'' 1200) ?d) = (Inl e, ?d)"
    by auto
  then have "ClaimRun ''m1'' (demo_env ''r'' 1200) ?d = (Inl e, ?d)"
    by (cases "ClaimRun ''m1'' (demo_env ''r'' 1200) ?d"; cases "fst (ClaimRun ''m1'' (demo_env ''r'' 1200) ?d)") (auto simp: unit_result_def result_map_def)
  with run later(1) show ?thesis by (intro exI [of _ d'] exI [of _ e]) simp
qed

end
