(* ===== verification/Spec2Isabelle.thy ===== *)
theory Spec2Isabelle
  imports Execution_Properties Run_Guarantees Claim_Guarantees Idempotency Conversation_Guarantees Work_Guarantees Work_Steering Demo_Agents Demo_Spaces External_Guarantees Lasting_Guarantees
begin

text \<open>
  A verification of the core of the carry server.

  The program. People form Spaces. A member opens a Work (a goal with messages) or talks to the
  team in a private Conversation; Machines that members connected to the Space claim Runs of
  open Works and replies of Conversations, execute them with the Agents they carry and commit
  what they understood. All state is in PostgreSQL. The owner packages
  (\<open>internal/work\<close>, \<open>run\<close>, \<open>conversation\<close>, \<open>agent\<close>, \<open>machine\<close>, \<open>space\<close>, \<open>identity\<close>) hold the vocabulary,
  limits, validation and digests; \<open>internal/postgres\<close> holds one method per operation, which runs
  the statements of \<open>internal/postgres/dbsqlc\<close> in one transaction under the constraints of
  \<open>internal/postgres/migrations\<close>. Those two layers are what the development models. Components
  meet in the database only: a Work is owned by an active member, a removal hands Works over and
  retires Agents, an accepted invitation makes a membership, a connection request makes a Machine,
  a Conversation reply may delegate a Work, a sign-in opens the Session that decisions need.

  How the model reads. A table is a list of row records (\<open>Schema\<close>), a store method is a function
  of its command, an outside world \<open>env\<close> and a database, and returns its answer (\<open>Inl\<close> an error
  of the owner packages or of the driver, \<open>Inr\<close> a value) with the new database. A method body is
  a \<open>tx\<close> (\<open>Carry_Tx\<close>): every SQL statement is one step of it, reads the clock of its own instant
  and may fail; \<open>transact\<close> commits all of a body or nothing, and may lose the answer to the commit.
  Statements keep the name of their generated Go function (\<open>sql_\<close> before the query's name where
  the method itself is wrapped), their \<open>WHERE\<close>, \<open>ORDER BY\<close>, \<open>LIMIT\<close> and \<open>RETURNING\<close>; loops over
  rows are list functions; bodies with the suffix \<open>_tx\<close> are the closures a method passes to its
  transaction. The state of the server is the record \<open>db\<close>; the transition systems
  \<open>server_step\<close> (Works, Runs, Conversations), \<open>connection_step\<close> (Machine connections) and \<open>world_step\<close>
  (all stores together) take one method call, in any outside world, as a step. An outside world
  is unconstrained: it chooses clocks, fresh identifiers, failing statements, lost commits, and
  which rows \<open>SKIP LOCKED\<close> passes over.

  The theories.
  \<^item> \<open>Carry_Prelude\<close>, \<open>Carry_Tx\<close>: tables as lists, the SQL verbs on them, transactions, errors, and the
    rules by which the effect of a body is read off its statements. \<open>Schema\<close>: the rows.
    \<open>Sha256\<close>, \<open>Go_Strings\<close>: the hash of the standard library, UTF-8 strings and their trimming.
  \<^item> \<open>Work_Rules\<close>, \<open>Work_Store\<close>, \<open>Run_Store\<close>: \<open>internal/work\<close>, \<open>internal/run\<close>, \<open>postgres/work.go\<close>,
    \<open>postgres/run.go\<close>. \<open>Execution_State\<close>, \<open>Execution_Invariants\<close>, \<open>Run_Claims\<close>: their invariant \<open>core\<close>
    part by part and its preservation. \<open>Execution_Properties\<close>, \<open>Run_Guarantees\<close>, \<open>Claim_Guarantees\<close>,
    \<open>Work_Guarantees\<close>, \<open>Work_Steering\<close>: what they promise. \<open>Demo_World\<close>: a concrete Space.
  \<^item> \<open>Conversation_Rules\<close>, \<open>Conversation_Store\<close>, \<open>Conversation_State\<close>, \<open>Conversation_Guarantees\<close>,
    \<open>Demo_Conversation\<close>: \<open>internal/conversation\<close>, \<open>postgres/conversation.go\<close>. \<open>Core_Server\<close>: Works, Runs
    and Conversations as one transition system, frames, and what no step undoes.
  \<^item> \<open>Fenced_Leases\<close>, \<open>Replayed_Commands\<close>, \<open>Idempotency\<close>: the two contracts that several operations
    share, as locales interpreted on those operations: a write under a fence that was taken over is refused
    for good; a command with an idempotency key takes effect at most once.
  \<^item> \<open>Agent_Rules\<close>, \<open>Agent_Store\<close>, \<open>Agent_State\<close>, \<open>Agent_Names\<close>, \<open>Agent_Guarantees\<close>, \<open>Demo_Agents\<close>:
    \<open>internal/agent\<close>, \<open>internal/machine/agents.go\<close>, \<open>postgres/agent.go\<close>.
  \<^item> \<open>Space_Rules\<close>, \<open>Space_Store\<close>, \<open>Space_State\<close>, \<open>Space_Invariants\<close>, \<open>Space_Guarantees\<close>, \<open>Demo_Spaces\<close>:
    \<open>internal/space\<close> (creation, names, slugs, removal), \<open>postgres/space_creation.go\<close>,
    \<open>space_member_removal.go\<close>.
  \<^item> \<open>Invitation_Rules\<close>, \<open>Invitation_Store\<close>, \<open>Invitation_Decisions\<close>, \<open>Invitation_State\<close>,
    \<open>Invitation_Acceptance\<close>, \<open>Invitation_Guarantees\<close>, \<open>Demo_Invitations\<close>: \<open>space/invitation.go\<close>,
    \<open>postgres/space_invitation.go\<close>.
  \<^item> \<open>Machine_Rules\<close>, \<open>Machine_Store\<close>, \<open>Machine_Decisions\<close>, \<open>Machine_Flow\<close>, \<open>Machine_State\<close>,
    \<open>Machine_Protocol\<close>, \<open>Machine_Revocation\<close>, \<open>Machine_Guarantees\<close>, \<open>Demo_Machines\<close>:
    \<open>machine/connection.go\<close>, \<open>postgres/machine.go\<close>.
  \<^item> \<open>Email_Rules\<close>, \<open>Email_Store\<close>, \<open>Email_Flow\<close>, \<open>Identity_Methods\<close>, \<open>Email_State\<close>, \<open>Identity_State\<close>,
    \<open>Identity_Guarantees\<close>, \<open>Demo_Login\<close>: \<open>identity/email_login.go\<close>, \<open>methods.go\<close>, \<open>postgres/email_login.go\<close>,
    \<open>identity_methods.go\<close>.
  \<^item> \<open>External_Rules\<close>, \<open>External_Store\<close>, \<open>External_State\<close>, \<open>External_Methods\<close>, \<open>External_Invariants\<close>,
    \<open>External_Guarantees\<close>: \<open>identity/external_login.go\<close>, \<open>postgres/external_login.go\<close>.
  \<^item> \<open>Whole_State\<close>, \<open>Whole_Methods\<close>, \<open>Whole_Server\<close>, \<open>Whole_Guarantees\<close>: all stores as one transition system
    from the empty database, with the invariants of every component and the refinements.
    \<open>world_step_at\<close> is a step with its time. \<open>Lasting_Records\<close>, \<open>Lasting_Guarantees\<close>: what no step of the whole server
    undoes (removals, revoked Machines, ended invitations), and what that means for every later call.

  What the lemmas show. Each store has effect lemmas (what a success changed, and that a failure
  changed nothing), an invariant that contains the unique keys and checks of its tables and
  what its code relies on beyond them, and the preservation of that invariant by every method of
  every store on every outcome. Abstract specifications: the protocol of connection requests
  (\<open>protocol_step\<close>), the life of an external sign-in with its expiry (\<open>sign_in_step\<close>), fenced leases, replayed commands;
  the stores refine them. The properties are then consequences for the caller: safety of commits, at-most-once
  effects, authority of decisions, bounds on codes and pages, round trips of credentials, refusal of
  stale writes, progress of a healthy claim.

  Bounds and termination. No definition uses fuel. The loop that looks for a free Agent name
  (\<open>allocateAgentName\<close>) and Go's \<open>TrimRight\<close> are recursive functions with termination proofs; the
  retry after a collision of generated codes is bounded in the code and so in the model. Limits (32
  messages and 262144 bytes of a context, 50 rows of a page, five wrong codes, 45 seconds of presence, and so on)
  are the constants of the source. The hash works on 32-bit words, as \<open>crypto/sha256\<close> does.

  Idealisations. Sequence, version and fence columns (\<open>bigint\<close>) are unbounded integers. The
  transactions of concurrent calls are taken one after the other: the methods lock the rows they decide
  on, so \<open>FOR UPDATE\<close> and advisory locks have no other effect than \<open>SKIP LOCKED\<close>. Unique keys and the
  checks and foreign keys that some modelled statement can violate are enforced in the
  statement that can violate them; the remaining ones are invariants that are proved, or
  are not stated. UUIDs are their canonical text, so a parsed one prints as it was read; text is
  ordered by its bytes (the C collation). An error of the commit itself in \<open>ClaimExternalLogin\<close> carries no claim.

  Parameters. Code that is not in the repository is an argument: the Unicode tables, PRECIS and case
  folding of the Go text packages, \<open>net/mail\<close>, the submission service of Emails, the keyed
  hash and the random sources, Ed25519 and the certificate authority, and the clients of
  Google and GitHub. A property about them needs no more than what its hypotheses say, and its witness instantiates them.

  Not modelled. The command-line login writes tables of its own; \<open>world_step\<close> lets it write
  anything there. The HTTP layer (\<open>internal/server\<close>) decodes requests, checks sessions and
  encodes answers of the store methods. The worker of a Machine (\<open>internal/host\<close>), the drivers of
  Agent programs, the command line, local files and the server process are goroutines, timers,
  pipes, files and sockets around the operations above. \<open>ParseHostAPIOrigin\<close> (package \<open>net/url\<close>) and the PEM files of the
  certificate authority are I/O or parsing by the standard library. The web application is TypeScript.
\<close>

end
